(* ===== verification/Float64.thy ===== *)
theory Float64
  imports Complex_Main
begin

section \<open>IEEE-754 double precision arithmetic (Go's float64)\<close>

text \<open>
  Prices, quantities and balances are \<^verbatim>\<open>float64\<close> everywhere in the Go code.
  A finite double is a rational number here, and each arithmetic operation rounds the exact
  rational result to the nearest double, ties to even, with the double's 53 bits of precision,
  its subnormal range (the smallest exponent is -1074) and its overflow to an infinity at
  \<open>2 ^ 1024\<close>. Infinities and NaN are values of their own.

  The two zeros of IEEE-754 are one value here. They compare equal in Go and only a division
  by zero or a printed sign tells them apart; a division by zero takes the zero as positive.
\<close>

subsection \<open>Binary exponent and rounding to nearest even\<close>

text \<open>
  \<open>ibits n\<close> is the number of bits of a positive integer, and \<open>ilog2 x\<close> the exponent of the
  binade of a positive \<open>x\<close>.
\<close>

function ibits :: "int \<Rightarrow> int" where
  "ibits n = (if n \<le> 0 then 0 else 1 + ibits (n div 2))"
  by pat_completeness auto
termination
  by (relation "measure nat") auto

declare ibits.simps [simp del]

definition ilog2 :: "rat \<Rightarrow> int" where
  "ilog2 x = (if 1 \<le> x then ibits \<lfloor>x\<rfloor> - 1 else - ibits (\<lceil>1 / x\<rceil> - 1))"

text \<open>Rounding to the nearest integer, a tie to the even one.\<close>

definition rne :: "rat \<Rightarrow> int" where
  "rne y = (let f = \<lfloor>y\<rfloor>; d = y - of_int f in
     if d < 1/2 then f else if 1/2 < d then f + 1 else if even f then f else f + 1)"

text \<open>The exponent of the unit in the last place of the binade of \<open>x\<close>.\<close>

definition ulp_exp :: "rat \<Rightarrow> int" where
  "ulp_exp x = max (ilog2 \<bar>x\<bar> - 52) (-1074)"

definition rnd :: "rat \<Rightarrow> rat" where
  "rnd x = (if x = 0 then 0 else of_int (rne (x / 2 powi (ulp_exp x))) * 2 powi (ulp_exp x))"

subsection \<open>Doubles and their operations\<close>

datatype f64 = Fin rat | PInf | NInf | NaN

text \<open>The double nearest to a rational; overflow gives an infinity.\<close>

definition fround :: "rat \<Rightarrow> f64" where
  "fround x = (let r = rnd x in
     if r = 0 \<or> ilog2 \<bar>r\<bar> < 1024 then Fin r else if 0 < r then PInf else NInf)"

fun fneg :: "f64 \<Rightarrow> f64" where
  "fneg (Fin a) = Fin (- a)"
| "fneg PInf = NInf"
| "fneg NInf = PInf"
| "fneg NaN = NaN"

fun fadd :: "f64 \<Rightarrow> f64 \<Rightarrow> f64" where
  "fadd (Fin a) (Fin b) = fround (a + b)"
| "fadd NaN _ = NaN"
| "fadd _ NaN = NaN"
| "fadd PInf NInf = NaN"
| "fadd NInf PInf = NaN"
| "fadd PInf _ = PInf"
| "fadd NInf _ = NInf"
| "fadd _ PInf = PInf"
| "fadd _ NInf = NInf"

definition fsub :: "f64 \<Rightarrow> f64 \<Rightarrow> f64" where
  "fsub a b = fadd a (fneg b)"

text \<open>The sign of a value: 0 for zero and for NaN.\<close>

fun fsgn :: "f64 \<Rightarrow> int" where
  "fsgn (Fin a) = (if 0 < a then 1 else if a < 0 then -1 else 0)"
| "fsgn PInf = 1"
| "fsgn NInf = -1"
| "fsgn NaN = 0"

definition inf_of_sign :: "int \<Rightarrow> f64" where
  "inf_of_sign s = (if 0 < s then PInf else if s < 0 then NInf else NaN)"

fun fmul :: "f64 \<Rightarrow> f64 \<Rightarrow> f64" where
  "fmul (Fin a) (Fin b) = fround (a * b)"
| "fmul NaN _ = NaN"
| "fmul _ NaN = NaN"
| "fmul a b = inf_of_sign (fsgn a * fsgn b)"

fun fdiv :: "f64 \<Rightarrow> f64 \<Rightarrow> f64" where
  "fdiv (Fin a) (Fin b) =
     (if b = 0 then inf_of_sign (fsgn (Fin a)) else fround (a / b))"
| "fdiv NaN _ = NaN"
| "fdiv _ NaN = NaN"
| "fdiv (Fin a) _ = Fin 0"
| "fdiv a (Fin b) = inf_of_sign (fsgn a * (if b < 0 then -1 else 1))"
| "fdiv _ _ = NaN"

fun flt :: "f64 \<Rightarrow> f64 \<Rightarrow> bool" where
  "flt (Fin a) (Fin b) = (a < b)"
| "flt NaN _ = False"
| "flt _ NaN = False"
| "flt NInf b = (b \<noteq> NInf)"
| "flt _ NInf = False"
| "flt PInf _ = False"
| "flt _ PInf = True"

text \<open>Go's \<open>==\<close> on doubles: NaN equals nothing, itself included.\<close>

definition feq :: "f64 \<Rightarrow> f64 \<Rightarrow> bool" where
  "feq a b = (a \<noteq> NaN \<and> a = b)"

definition fle :: "f64 \<Rightarrow> f64 \<Rightarrow> bool" where
  "fle a b = (flt a b \<or> feq a b)"

text \<open>\<^verbatim>\<open>math.Abs\<close>, \<^verbatim>\<open>math.Floor\<close> and \<^verbatim>\<open>math.Round\<close> (half away from zero).\<close>

fun fabs :: "f64 \<Rightarrow> f64" where
  "fabs (Fin a) = Fin \<bar>a\<bar>"
| "fabs NInf = PInf"
| "fabs x = x"

fun ffloor :: "f64 \<Rightarrow> f64" where
  "ffloor (Fin a) = Fin (of_int \<lfloor>a\<rfloor>)"
| "ffloor x = x"

definition half_away :: "rat \<Rightarrow> int" where
  "half_away a = (if 0 \<le> a then \<lfloor>a + 1/2\<rfloor> else - \<lfloor>1/2 - a\<rfloor>)"

fun fmath_round :: "f64 \<Rightarrow> f64" where
  "fmath_round (Fin a) = Fin (of_int (half_away a))"
| "fmath_round x = x"

text \<open>Conversion of an integer to a double, Go's \<^verbatim>\<open>float64(n)\<close>.\<close>

definition f64_of_int :: "int \<Rightarrow> f64" where
  "f64_of_int n = fround (of_int n)"

text \<open>The rationals that are doubles, and the values the program can hold.\<close>

definition is_double :: "rat \<Rightarrow> bool" where
  "is_double x = (rnd x = x \<and> (x = 0 \<or> ilog2 \<bar>x\<bar> < 1024))"

fun wf64 :: "f64 \<Rightarrow> bool" where
  "wf64 (Fin a) = is_double a"
| "wf64 _ = True"

fun is_fin :: "f64 \<Rightarrow> bool" where
  "is_fin (Fin _) = True"
| "is_fin _ = False"

fun rval :: "f64 \<Rightarrow> rat" where
  "rval (Fin a) = a"
| "rval _ = 0"

subsection \<open>The binary exponent\<close>

lemma powi2_pos [simp]: "0 < (2::rat) powi e"
  by simp

lemma powi2_nz [simp]: "(2::rat) powi e \<noteq> 0"
  by simp

lemma powi2_le_iff [simp]: "(2::rat) powi m \<le> 2 powi n \<longleftrightarrow> m \<le> n"
  by (meson less_eq_rat_def linorder_not_less one_less_numeral_iff power_int_increasing
      power_int_strict_increasing semiring_norm(76))

lemma powi2_less_iff [simp]: "(2::rat) powi m < 2 powi n \<longleftrightarrow> m < n"
  by (simp add: less_le_not_le)

lemma powi2_Suc: "(2::rat) powi (e + 1) = 2 * 2 powi e"
  by (simp add: power_int_add)

lemma ibits_bounds: "0 < n \<Longrightarrow> 2 powi (ibits n - 1) \<le> (of_int n :: rat) \<and> of_int n + 1 \<le> (2::rat) powi (ibits n)"
proof (induction n rule: ibits.induct)
  case (1 n)
  define k where "k = n div 2"
  show ?case
  proof (cases "k = 0")
    case True
    then have "n = 1" using "1.prems" by (simp add: k_def)
    then show ?thesis by (simp add: ibits.simps [of 1] ibits.simps [of 0])
  next
    case False
    then have k: "0 < k" "2 * k \<le> n" "n \<le> 2 * k + 1" using "1.prems" by (auto simp: k_def)
    have e: "ibits n = ibits k + 1" using "1.prems" by (subst ibits.simps) (simp add: k_def)
    have IH: "2 powi (ibits k - 1) \<le> (of_int k :: rat)" "of_int k + 1 \<le> (2::rat) powi (ibits k)"
      using "1.IH" "1.prems" k by (auto simp flip: k_def)
    have "(2::rat) powi (ibits n - 1) = 2 * 2 powi (ibits k - 1)"
      using powi2_Suc [of "ibits k - 1"] by (simp add: e)
    also have "\<dots> \<le> of_int (2 * k)" using IH by simp
    also have "\<dots> \<le> of_int n" using k(2) by (simp only: of_int_le_iff)
    finally have lo: "(2::rat) powi (ibits n - 1) \<le> of_int n" .
    have "(of_int n :: rat) \<le> of_int (2 * k + 1)" using k(3) by (simp only: of_int_le_iff)
    then have "(of_int n :: rat) + 1 \<le> 2 * (of_int k + 1)" by simp
    also have "\<dots> \<le> 2 powi (ibits n)" using IH by (simp add: e powi2_Suc)
    finally show ?thesis using lo by simp
  qed
qed

lemma ilog2_ge1_bounds:
  assumes "1 \<le> x"
  shows "2 powi (ilog2 x) \<le> x \<and> x < 2 powi (ilog2 x + 1)"
proof -
  have "0 < \<lfloor>x\<rfloor>" using assms by simp
  from ibits_bounds [OF this] have "2 powi (ilog2 x) \<le> (of_int \<lfloor>x\<rfloor> :: rat)"
    "of_int \<lfloor>x\<rfloor> + 1 \<le> (2::rat) powi (ilog2 x + 1)"
    using assms by (auto simp: ilog2_def)
  with floor_correct [of x] show ?thesis by linarith
qed

lemma ilog2_lt1_bounds:
  assumes "0 < x" "x < 1"
  shows "2 powi (ilog2 x) \<le> x \<and> x < 2 powi (ilog2 x + 1)"
proof -
  define m where "m = \<lceil>1 / x\<rceil> - 1"
  define k where "k = ibits m"
  have x1: "of_int 1 < 1 / x" using assms by simp
  have "1 < \<lceil>1 / x\<rceil>" using x1 unfolding less_ceiling_iff .
  then have m: "0 < m" by (simp add: m_def)
  have e: "ilog2 x = - k" using assms by (simp add: ilog2_def m_def k_def)
  have b: "2 powi (k - 1) \<le> (of_int m :: rat)" "of_int m + 1 \<le> (2::rat) powi k"
    using ibits_bounds [OF m] by (auto simp: k_def)
  have c: "1 / x \<le> of_int m + 1" "of_int m < 1 / x"
    using ceiling_correct [of "1 / x"] by (auto simp: m_def)
  have up: "1 / x \<le> 2 powi k" and lo: "2 powi (k - 1) < 1 / x"
    using b c by linarith+
  have "2 powi (- k) \<le> x"
    using up assms by (simp add: power_int_minus field_simps)
  moreover have "x < 2 powi (- k + 1)"
  proof -
    have "x * 2 powi (k - 1) < 1" using lo assms by (simp add: field_simps)
    moreover have "- k + 1 = - (k - 1)" by simp
    ultimately show ?thesis
      unfolding power_int_minus \<open>- k + 1 = - (k - 1)\<close> by (simp add: field_simps)
  qed
  ultimately show ?thesis by (simp add: e)
qed

lemma ilog2_bounds: "0 < x \<Longrightarrow> 2 powi (ilog2 x) \<le> x \<and> x < 2 powi (ilog2 x + 1)"
  using ilog2_ge1_bounds [of x] ilog2_lt1_bounds [of x] by (cases "1 \<le> x") auto

lemmas ilog2_lower = ilog2_bounds [THEN conjunct1]
lemmas ilog2_upper = ilog2_bounds [THEN conjunct2]

lemma ilog2_unique:
  assumes "2 powi e \<le> x" "x < 2 powi (e + 1)"
  shows "ilog2 x = e"
proof -
  have "0 < x" using assms(1) powi2_pos [of e] by linarith
  from ilog2_bounds [OF this] assms
  have "(2::rat) powi (ilog2 x) < 2 powi (e + 1)" "(2::rat) powi e < 2 powi (ilog2 x + 1)"
    by linarith+
  then have "ilog2 x < e + 1" "e < ilog2 x + 1" unfolding powi2_less_iff .
  then show ?thesis by simp
qed

lemma ilog2_powi [simp]: "ilog2 (2 powi e) = e"
  by (rule ilog2_unique) auto

lemma ilog2_mono: "0 < x \<Longrightarrow> x \<le> y \<Longrightarrow> ilog2 x \<le> ilog2 y"
proof -
  assume "0 < x" "x \<le> y"
  then have "(2::rat) powi (ilog2 x) < 2 powi (ilog2 y + 1)"
    using ilog2_lower [of x] ilog2_upper [of y] by linarith
  then show ?thesis unfolding powi2_less_iff by simp
qed

lemma ilog2_less_iff: "0 < x \<Longrightarrow> ilog2 x < e \<longleftrightarrow> x < 2 powi e"
proof
  assume "0 < x" "ilog2 x < e"
  then have "(2::rat) powi (ilog2 x + 1) \<le> 2 powi e" unfolding powi2_le_iff by simp
  with ilog2_upper [OF \<open>0 < x\<close>] show "x < 2 powi e" by linarith
next
  assume "0 < x" "x < 2 powi e"
  with ilog2_lower [OF \<open>0 < x\<close>] have "(2::rat) powi (ilog2 x) < 2 powi e" by linarith
  then show "ilog2 x < e" unfolding powi2_less_iff .
qed

subsection \<open>Rounding to the nearest even integer\<close>

lemma rne_floor_le: "\<lfloor>y\<rfloor> \<le> rne y"
  by (simp add: rne_def Let_def)

lemma rne_le_floor1: "rne y \<le> \<lfloor>y\<rfloor> + 1"
  by (simp add: rne_def Let_def)

lemma rne_of_int [simp]: "rne (of_int n) = n"
  by (simp add: rne_def)

lemma rne_mono: "y \<le> z \<Longrightarrow> rne y \<le> rne z"
proof -
  assume yz: "y \<le> z"
  then have "\<lfloor>y\<rfloor> \<le> \<lfloor>z\<rfloor>" by (rule floor_mono)
  then consider "\<lfloor>y\<rfloor> = \<lfloor>z\<rfloor>" | "\<lfloor>y\<rfloor> + 1 \<le> \<lfloor>z\<rfloor>" by linarith
  then show ?thesis
  proof cases
    case 1
    with yz show ?thesis by (auto simp: rne_def Let_def)
  next
    case 2
    with rne_le_floor1 [of y] rne_floor_le [of z] show ?thesis by linarith
  qed
qed

lemma rne_lower: "of_int n \<le> y \<Longrightarrow> n \<le> rne y"
  using rne_mono [of "of_int n" y] by simp

lemma rne_upper: "y \<le> of_int n \<Longrightarrow> rne y \<le> n"
  using rne_mono [of y "of_int n"] by simp

lemma rne_minus: "rne (- y) = - rne y"
proof (cases "y = of_int \<lfloor>y\<rfloor>")
  case True
  then show ?thesis by (metis of_int_minus rne_of_int)
next
  case False
  define f where "f = \<lfloor>y\<rfloor>"
  define d where "d = y - of_int f"
  have y: "y = of_int f + d" by (simp add: d_def)
  have "of_int f \<le> y" "y < of_int f + 1" using floor_correct [of y] by (auto simp: f_def)
  moreover have "of_int f \<noteq> y" using False [symmetric] unfolding f_def .
  ultimately have d: "0 < d" "d < 1" unfolding d_def by linarith+
  have fl: "\<lfloor>- y\<rfloor> = - f - 1"
    using d by (simp add: floor_eq_iff y)
  have d': "- y - of_int (- f - 1) = 1 - d" by (simp add: y)
  have "rne y = (if d < 1/2 then f else if 1/2 < d then f + 1 else if even f then f else f + 1)"
    unfolding rne_def Let_def f_def [symmetric] d_def [symmetric] ..
  moreover have "rne (- y) = (if 1 - d < 1/2 then - f - 1 else if 1/2 < 1 - d then - f
      else if even (- f - 1) then - f - 1 else - f)"
    unfolding rne_def Let_def fl d' by simp
  ultimately show ?thesis by auto
qed

lemma rne_error: "\<bar>of_int (rne y) - y\<bar> \<le> 1 / 2"
proof -
  have "0 \<le> y - of_int \<lfloor>y\<rfloor>" "y - of_int \<lfloor>y\<rfloor> < 1"
    using floor_correct [of y] by auto
  then show ?thesis by (auto simp: rne_def Let_def abs_le_iff)
qed

subsection \<open>Rounding to the nearest double\<close>

lemma rnd_0 [simp]: "rnd 0 = 0"
  by (simp add: rnd_def)

lemma ulp_exp_minus [simp]: "ulp_exp (- x) = ulp_exp x"
  by (simp add: ulp_exp_def)

lemma rnd_minus [simp]: "rnd (- x) = - rnd x"
  using rne_minus [of "x / 2 powi ulp_exp x"] by (simp add: rnd_def)

lemma rnd_eq: "rnd x = of_int (rne (x / 2 powi (ulp_exp x))) * 2 powi (ulp_exp x)"
  using rne_of_int [of 0] by (cases "x = 0") (simp_all add: rnd_def del: rne_of_int)

lemma ulp_exp_ge: "-1074 \<le> ulp_exp x"
  by (simp add: ulp_exp_def)

lemma powi2_int: "0 \<le> n \<Longrightarrow> (2::rat) powi n = of_int (2 ^ nat n)"
  by (simp add: power_int_nonneg_exp)

lemma rnd_mult_exact:
  assumes "x = of_int m * 2 powi e" "ulp_exp x \<le> e"
  shows "rnd x = x"
proof -
  define u where "u = ulp_exp x"
  have "(2::rat) powi e = 2 powi (e - u) * 2 powi u"
    by (simp flip: power_int_add)
  also have "(2::rat) powi (e - u) = of_int (2 ^ nat (e - u))"
    using assms(2) by (intro powi2_int) (simp add: u_def)
  finally have "x = of_int (m * 2 ^ nat (e - u)) * 2 powi u"
    unfolding assms(1) by simp
  then have x: "x / 2 powi u = of_int (m * 2 ^ nat (e - u))" by simp
  then have "rnd x = of_int (m * 2 ^ nat (e - u)) * 2 powi u"
    by (simp only: rnd_eq u_def [symmetric] rne_of_int)
  also have "\<dots> = x / 2 powi u * 2 powi u" by (simp only: x)
  finally show ?thesis by simp
qed

lemma abs_less_ulp: "x \<noteq> 0 \<Longrightarrow> \<bar>x\<bar> < 2 powi (ulp_exp x + 53)"
proof -
  assume "x \<noteq> 0"
  then have "\<bar>x\<bar> < 2 powi (ilog2 \<bar>x\<bar> + 1)" by (simp add: ilog2_upper)
  also have "(2::rat) powi (ilog2 \<bar>x\<bar> + 1) \<le> 2 powi (ulp_exp x + 53)"
    unfolding powi2_le_iff by (simp add: ulp_exp_def)
  finally show ?thesis .
qed

text \<open>Every number with a 53-bit significand and an exponent in range is a double.\<close>

lemma rnd_exact:
  assumes "\<bar>m\<bar> < 2 ^ 53" "-1074 \<le> e"
  shows "rnd (of_int m * 2 powi e) = of_int m * 2 powi e"
proof (cases "m = 0")
  case False
  define x where "x = (of_int m :: rat) * 2 powi e"
  have "\<bar>x\<bar> = of_int \<bar>m\<bar> * 2 powi e" by (simp add: x_def abs_mult)
  also have "\<dots> < of_int (2 ^ 53) * 2 powi e"
    using assms(1) by (intro mult_strict_right_mono) (simp_all only: of_int_less_iff powi2_pos)
  also have "\<dots> = 2 powi (53 + e)" by (simp add: power_int_add)
  finally have "\<bar>x\<bar> < 2 powi (53 + e)" .
  moreover have "x \<noteq> 0" using False by (simp add: x_def)
  ultimately have "ilog2 \<bar>x\<bar> < 53 + e" by (simp add: ilog2_less_iff)
  then have "ulp_exp x \<le> e" using assms(2) by (simp add: ulp_exp_def)
  then show ?thesis using rnd_mult_exact [OF x_def] by (simp add: x_def)
qed simp

lemma rnd_powi: "-1074 \<le> e \<Longrightarrow> rnd (2 powi e) = 2 powi e"
  using rnd_exact [of 1 e] by simp

lemma rnd_exact_le:
  assumes "\<bar>m\<bar> \<le> 2 ^ 53" "-1074 \<le> e"
  shows "rnd (of_int m * 2 powi e) = of_int m * 2 powi e"
proof (cases "\<bar>m\<bar> = 2 ^ 53")
  case True
  then have m: "m = 2 ^ 53 \<or> m = - (2 ^ 53)" by linarith
  have p: "(2::rat) ^ 53 * 2 powi e = 2 powi (53 + e)" by (simp add: power_int_add)
  have r: "rnd (2 powi (53 + e)) = 2 powi (53 + e)" using assms(2) by (intro rnd_powi) simp
  from m show ?thesis
  proof
    assume "m = 2 ^ 53"
    then have "of_int m * 2 powi e = (2::rat) powi (53 + e)" by (simp only: of_int_power of_int_numeral p)
    then show ?thesis using r by simp
  next
    assume "m = - (2 ^ 53)"
    then have "of_int m * 2 powi e = - ((2::rat) powi (53 + e))"
      by (simp only: of_int_power of_int_numeral of_int_minus mult_minus_left p)
    then show ?thesis using r by simp
  qed
next
  case False
  then show ?thesis using assms by (intro rnd_exact) simp_all
qed

lemma rnd_shape: "\<exists>m e. rnd x = of_int m * 2 powi e \<and> \<bar>m\<bar> \<le> 2 ^ 53 \<and> -1074 \<le> e"
proof (cases "x = 0")
  case True
  then show ?thesis by (intro exI [of _ 0] exI [of _ 0]) simp
next
  case False
  define u where "u = ulp_exp x"
  have "\<bar>x\<bar> < 2 powi (u + 53)" using False by (simp add: u_def abs_less_ulp)
  also have "(2::rat) powi (u + 53) = of_int (2 ^ 53) * 2 powi u" by (simp add: power_int_add)
  finally have "\<bar>x / 2 powi u\<bar> \<le> of_int (2 ^ 53)" by (simp add: abs_divide divide_le_eq)
  then have up: "x / 2 powi u \<le> of_int (2 ^ 53)" and lo: "of_int (- (2 ^ 53)) \<le> x / 2 powi u"
    unfolding of_int_minus by linarith+
  from rne_upper [OF up] rne_lower [OF lo]
  have "\<bar>rne (x / 2 powi u)\<bar> \<le> 2 ^ 53" by (simp add: abs_le_iff)
  then show ?thesis using rnd_eq [of x] ulp_exp_ge [of x] by (auto simp: u_def)
qed

lemma rnd_idem [simp]: "rnd (rnd x) = rnd x"
  using rnd_shape [of x] rnd_exact_le by metis

lemma ulp_exp_mono: "0 < x \<Longrightarrow> x \<le> y \<Longrightarrow> ulp_exp x \<le> ulp_exp y"
  using ilog2_mono [of x y] by (simp add: ulp_exp_def max_def)

text \<open>
  Rounding is monotone: within a binade because rounding to an integer is, and across two
  binades because the lower bound of the upper binade is a multiple of both units.
\<close>

lemma rnd_mono_pos:
  assumes "0 < x" "x \<le> y"
  shows "rnd x \<le> rnd y"
proof (cases "ulp_exp x = ulp_exp y")
  case True
  have "x / 2 powi ulp_exp y \<le> y / 2 powi ulp_exp y"
    using assms(2) by (intro divide_right_mono) simp_all
  then have "rne (x / 2 powi ulp_exp y) \<le> rne (y / 2 powi ulp_exp y)" by (rule rne_mono)
  then show ?thesis
    unfolding rnd_eq [of x] rnd_eq [of y] True by (intro mult_right_mono) simp_all
next
  case False
  define E where "E = ilog2 y"
  define u where "u = ulp_exp x"
  have "u < ulp_exp y" using False ulp_exp_mono [OF assms] by (simp add: u_def)
  then have uy: "ulp_exp y = E - 52" and uE: "u < E - 52"
    using ulp_exp_ge [of x] assms by (auto simp: u_def E_def ulp_exp_def max_def split: if_splits)
  have "ilog2 x < E"
    using uE assms by (simp add: u_def E_def ulp_exp_def)
  then have xB: "x < 2 powi E" using assms(1) by (simp add: ilog2_less_iff)
  have yB: "2 powi E \<le> y" using assms by (simp add: E_def ilog2_lower)
  have "(2::rat) powi (E - u) = of_int (2 ^ nat (E - u))"
    using uE by (intro powi2_int) simp
  then have "(2::rat) powi E = of_int (2 ^ nat (E - u)) * 2 powi u"
    by (metis diff_add_cancel power_int_add zero_neq_numeral)
  then have "x / 2 powi u \<le> of_int (2 ^ nat (E - u))"
    using xB by (simp only: divide_le_eq powi2_pos if_True less_imp_le)
  then have "rnd x \<le> of_int (2 ^ nat (E - u)) * 2 powi u"
    unfolding rnd_eq [of x] u_def [symmetric]
    by (intro mult_right_mono) (simp_all only: of_int_le_iff rne_upper less_imp_le powi2_pos)
  also have "\<dots> = 2 powi E" using \<open>2 powi E = _\<close> by simp
  also have "\<dots> = of_int (2 ^ 52) * 2 powi (E - 52)" by (simp add: power_int_diff)
  also have "\<dots> \<le> rnd y"
  proof -
    have "(2::rat) powi E = of_int (2 ^ 52) * 2 powi (E - 52)" by (simp add: power_int_diff)
    then have "of_int (2 ^ 52) \<le> y / 2 powi (E - 52)"
      using yB by (simp only: le_divide_eq powi2_pos if_True)
    then have "2 ^ 52 \<le> rne (y / 2 powi (E - 52))" by (rule rne_lower)
    then show ?thesis unfolding rnd_eq [of y] uy
      by (intro mult_right_mono) (simp_all only: of_int_le_iff less_imp_le powi2_pos)
  qed
  finally show ?thesis .
qed

lemma rnd_nonneg: "0 \<le> x \<Longrightarrow> 0 \<le> rnd x"
proof -
  assume "0 \<le> x"
  then have "of_int 0 \<le> x / 2 powi ulp_exp x" by simp
  then have "0 \<le> rne (x / 2 powi ulp_exp x)" by (rule rne_lower)
  then show ?thesis by (simp add: rnd_eq)
qed

lemma rnd_mono: "x \<le> y \<Longrightarrow> rnd x \<le> rnd y"
proof -
  assume xy: "x \<le> y"
  consider "0 < x" | "x \<le> 0" "0 \<le> y" | "y < 0" by linarith
  then show ?thesis
  proof cases
    case 1 then show ?thesis using xy by (rule rnd_mono_pos)
  next
    case 2
    then have "0 \<le> rnd y" "0 \<le> rnd (- x)" by (simp_all only: rnd_nonneg neg_0_le_iff_le)
    then show ?thesis by simp
  next
    case 3
    then have "rnd (- y) \<le> rnd (- x)" using xy by (intro rnd_mono_pos) simp_all
    then show ?thesis by simp
  qed
qed

lemma rnd_nonpos: "x \<le> 0 \<Longrightarrow> rnd x \<le> 0"
  using rnd_mono [of x 0] by simp

text \<open>The rounding error: half a unit in the last place.\<close>

lemma rnd_error: "\<bar>rnd x - x\<bar> \<le> 2 powi (ulp_exp x - 1)"
proof -
  define u where "u = ulp_exp x"
  have "rnd x - x = (of_int (rne (x / 2 powi u)) - x / 2 powi u) * 2 powi u"
    by (simp add: rnd_eq u_def left_diff_distrib)
  then have "\<bar>rnd x - x\<bar> = \<bar>of_int (rne (x / 2 powi u)) - x / 2 powi u\<bar> * 2 powi u"
    by (simp add: abs_mult)
  also have "\<dots> \<le> 1 / 2 * 2 powi u" by (intro mult_right_mono rne_error) simp
  also have "\<dots> = 2 powi (u - 1)" by (simp add: power_int_diff)
  finally show ?thesis by (simp add: u_def)
qed

text \<open>In the normal range the error is a relative one, of at most \<open>2 ^ -53\<close>.\<close>

definition u64 :: rat where
  "u64 = 1 / 2 ^ 53"

lemma rnd_rel_error:
  assumes "2 powi (-1022) \<le> \<bar>x\<bar>"
  shows "\<bar>rnd x - x\<bar> \<le> u64 * \<bar>x\<bar>"
proof -
  have x0: "0 < \<bar>x\<bar>" using assms powi2_pos [of "-1022"] by linarith
  have "ilog2 (2 powi (-1022)) \<le> ilog2 \<bar>x\<bar>"
    using assms by (intro ilog2_mono powi2_pos)
  then have "-1022 \<le> ilog2 \<bar>x\<bar>" unfolding ilog2_powi .
  then have u: "ulp_exp x - 1 = ilog2 \<bar>x\<bar> + (- 53)" by (simp add: ulp_exp_def)
  have "\<bar>rnd x - x\<bar> \<le> 2 powi (ilog2 \<bar>x\<bar> + (- 53))" using rnd_error [of x] unfolding u .
  also have "\<dots> = u64 * 2 powi (ilog2 \<bar>x\<bar>)"
    by (subst power_int_add) (simp_all add: u64_def power_int_minus)
  also have "\<dots> \<le> u64 * \<bar>x\<bar>"
    using ilog2_lower [OF x0] by (intro mult_left_mono) (simp_all add: u64_def)
  finally show ?thesis .
qed

subsection \<open>The set of doubles\<close>

lemma is_double_0 [simp]: "is_double 0"
  by (simp add: is_double_def)

lemma is_double_minus [simp]: "is_double (- x) = is_double x"
  by (simp add: is_double_def)

lemma is_double_rnd: "is_double x \<Longrightarrow> rnd x = x"
  by (simp add: is_double_def)

lemma is_double_exact:
  assumes "\<bar>m\<bar> < 2 ^ 53" "-1074 \<le> e" "e \<le> 971"
  shows "is_double (of_int m * 2 powi e)"
proof (cases "m = 0")
  case False
  define x where "x = (of_int m :: rat) * 2 powi e"
  have x: "rnd x = x" unfolding x_def by (rule rnd_exact [OF assms(1,2)])
  have "\<bar>x\<bar> < 2 powi (ulp_exp x + 53)" using False by (intro abs_less_ulp) (simp add: x_def)
  have "\<bar>x\<bar> = of_int \<bar>m\<bar> * 2 powi e" by (simp add: x_def abs_mult)
  also have "\<dots> < of_int (2 ^ 53) * 2 powi e"
    using assms(1) by (intro mult_strict_right_mono) (simp_all only: of_int_less_iff powi2_pos)
  also have "\<dots> = 2 powi (53 + e)" by (simp add: power_int_add)
  also have "\<dots> \<le> 2 powi 1024" unfolding powi2_le_iff using assms(3) by simp
  finally have "\<bar>x\<bar> < 2 powi 1024" .
  moreover have "0 < \<bar>x\<bar>" using False by (simp add: x_def)
  ultimately have "ilog2 \<bar>x\<bar> < 1024" using ilog2_less_iff by blast
  with x show ?thesis by (simp add: is_double_def x_def)
qed simp

lemma is_double_of_int: "\<bar>n\<bar> < 2 ^ 53 \<Longrightarrow> is_double (of_int n)"
  using is_double_exact [of n 0] by simp

text \<open>Doubles are multiples of the smallest subnormal, so sums of doubles do not underflow.\<close>

lemma is_double_grid: "is_double x \<Longrightarrow> \<exists>m. x = of_int m * 2 powi (-1074)"
proof -
  assume "is_double x"
  then have "rnd x = x" by (rule is_double_rnd)
  with rnd_shape [of x] obtain m e where x: "x = of_int m * 2 powi e" and e: "-1074 \<le> e" by metis
  have "(2::rat) powi e = 2 powi (e + 1074) * 2 powi (- 1074)"
    by (subst power_int_add [symmetric]) simp_all
  moreover have "(2::rat) powi (e + 1074) = of_int (2 ^ nat (e + 1074))"
    using e by (intro powi2_int) simp
  ultimately have "x = of_int (m * 2 ^ nat (e + 1074)) * 2 powi (- 1074)"
    using x by simp
  then show ?thesis by blast
qed

lemma rnd_add_eq_0_iff:
  assumes "is_double a" "is_double b"
  shows "rnd (a + b) = 0 \<longleftrightarrow> a + b = 0"
proof
  assume z: "rnd (a + b) = 0"
  show "a + b = 0"
  proof (rule ccontr)
    assume nz: "a + b \<noteq> 0"
    from assms [THEN is_double_grid] obtain m n where
      "a = of_int m * 2 powi (-1074)" "b = of_int n * 2 powi (-1074)" by blast
    then have ab: "a + b = of_int (m + n) * 2 powi (-1074)" by (simp only: of_int_add distrib_right)
    then have "m + n \<noteq> 0" using nz by auto
    then consider "1 \<le> m + n" | "1 \<le> - (m + n)" by linarith
    then show False
    proof cases
      case 1
      then have "(2::rat) powi (-1074) \<le> a + b"
        unfolding ab by (metis less_imp_le mult_left_le_one_le mult_right_mono mult_1 of_int_1 of_int_le_iff powi2_pos)
      then show False using rnd_mono [of "2 powi (-1074)" "a + b"] z
        by (simp only: rnd_powi order_refl not_le powi2_pos)
          (metis not_le powi2_pos)
    next
      case 2
      then have "(2::rat) powi (-1074) \<le> - (a + b)"
        unfolding ab minus_mult_left of_int_minus [symmetric]
        by (metis less_imp_le mult_right_mono mult_1 of_int_1 of_int_le_iff powi2_pos)
      then show False using rnd_mono [of "2 powi (-1074)" "- (a + b)"] z
        by (simp only: rnd_powi rnd_minus order_refl) (metis neg_0_equal_iff_equal not_le powi2_pos)
    qed
  qed
qed simp

lemma wf_fround [simp]: "wf64 (fround x)"
  by (simp add: fround_def Let_def is_double_def)

lemma wf_fneg [simp]: "wf64 a \<Longrightarrow> wf64 (fneg a)"
  by (cases a) auto

lemma wf_fadd [simp]: "wf64 a \<Longrightarrow> wf64 b \<Longrightarrow> wf64 (fadd a b)"
  by (cases "(a, b)" rule: fadd.cases) auto

lemma wf_fsub [simp]: "wf64 a \<Longrightarrow> wf64 b \<Longrightarrow> wf64 (fsub a b)"
  by (simp add: fsub_def)

lemma wf_inf_of_sign [simp]: "wf64 (inf_of_sign s)"
  by (simp add: inf_of_sign_def)

lemma wf_fmul [simp]: "wf64 (fmul a b)"
  by (cases "(a, b)" rule: fmul.cases) (auto simp del: fsgn.simps)

lemma wf_fdiv [simp]: "wf64 (fdiv a b)"
  by (cases "(a, b)" rule: fdiv.cases) (auto simp del: fsgn.simps)

lemma fround_exact: "is_double x \<Longrightarrow> fround x = Fin x"
  by (auto simp: fround_def is_double_def)

lemma fround_Fin_iff: "fround x = Fin r \<longleftrightarrow> r = rnd x \<and> is_double r"
  by (auto simp: fround_def Let_def is_double_def)

lemma f64_of_int_exact: "\<bar>n\<bar> < 2 ^ 53 \<Longrightarrow> f64_of_int n = Fin (of_int n)"
  by (simp add: f64_of_int_def fround_exact is_double_of_int)

lemma flt_irrefl [simp]: "\<not> flt a a"
  by (cases a) auto

lemma fle_Fin [simp]: "fle (Fin a) (Fin b) = (a \<le> b)"
  by (auto simp: fle_def feq_def)

lemma feq_Fin [simp]: "feq (Fin a) (Fin b) = (a = b)"
  by (simp add: feq_def)

lemma flt_not_NaN: "flt a b \<Longrightarrow> a \<noteq> NaN \<and> b \<noteq> NaN"
  by (cases a; cases b) auto

lemma fsub_Fin [simp]: "fsub (Fin a) (Fin b) = fround (a - b)"
  by (simp add: fsub_def)

lemma is_finE: "is_fin a \<Longrightarrow> (\<And>r. a = Fin r \<Longrightarrow> P) \<Longrightarrow> P"
  by (cases a) auto

text \<open>A finite result came from finite operands.\<close>

lemma fadd_Fin_iff: "fadd a b = Fin c \<longleftrightarrow> (\<exists>x y. a = Fin x \<and> b = Fin y \<and> fround (x + y) = Fin c)"
  by (cases "(a, b)" rule: fadd.cases) auto

lemma fmul_Fin_iff: "fmul a b = Fin c \<longleftrightarrow> (\<exists>x y. a = Fin x \<and> b = Fin y \<and> fround (x * y) = Fin c)"
  by (cases "(a, b)" rule: fmul.cases) (auto simp: inf_of_sign_def split: if_splits)

text \<open>The range in which the program's amounts lie: results are finite and normal.\<close>

lemma fround_bound:
  assumes "\<bar>x\<bar> \<le> 2 powi e" "-1074 \<le> e" "e < 1024"
  shows "fround x = Fin (rnd x)"
proof -
  have "rnd x \<le> 2 powi e" "rnd (- x) \<le> 2 powi e"
    using rnd_mono [of x "2 powi e"] rnd_mono [of "- x" "2 powi e"] rnd_powi [of e] assms(1,2)
    by (auto simp: abs_le_iff)
  then have r: "\<bar>rnd x\<bar> \<le> 2 powi e" unfolding rnd_minus by (simp add: abs_le_iff)
  have "(2 :: rat) powi e < 2 powi (e + 1)" by simp
  with r have "\<bar>rnd x\<bar> < 2 powi (e + 1)" by linarith
  then have "rnd x = 0 \<or> ilog2 \<bar>rnd x\<bar> < e + 1"
    using ilog2_less_iff [of "\<bar>rnd x\<bar>" "e + 1"] by (simp add: zero_less_abs_iff) blast
  then show ?thesis using assms(3) by (auto simp: fround_def)
qed

lemma fround_small:
  assumes "\<bar>x\<bar> \<le> 10 ^ 40"
  shows "fround x = Fin (rnd x)"
proof (rule fround_bound)
  have "(10 :: rat) ^ 40 \<le> 2 powi 133" by simp
  with assms show "\<bar>x\<bar> \<le> 2 powi 133" by linarith
qed simp_all

lemma rnd_rel:
  assumes "1 / 10 ^ 40 \<le> x"
  shows "(1 - u64) * x \<le> rnd x \<and> rnd x \<le> (1 + u64) * x"
proof -
  have "(2 :: rat) powi (-1022) \<le> 1 / 10 ^ 40" by (simp add: power_int_minus)
  then have "\<bar>rnd x - x\<bar> \<le> u64 * \<bar>x\<bar>" using assms by (intro rnd_rel_error) linarith
  moreover have "0 < x" using assms by (rule less_le_trans [rotated]) simp
  ultimately show ?thesis by (simp add: abs_le_iff algebra_simps)
qed

lemma u64_bounds: "0 < u64" "u64 < 1 / 1000"
  by (simp_all add: u64_def)

text \<open>Two roundings in a row, and how the factors add up.\<close>

lemma rnd_interval:
  assumes "1 / 10 ^ 40 \<le> x" "l \<le> x" "x \<le> h"
  shows "(1 - u64) * l \<le> rnd x \<and> rnd x \<le> (1 + u64) * h"
proof -
  have "(1 - u64) * l \<le> (1 - u64) * x" "(1 + u64) * x \<le> (1 + u64) * h"
    using assms(2,3) u64_bounds by (auto intro!: mult_left_mono)
  then show ?thesis using rnd_rel [OF assms(1)] by linarith
qed

lemma u64_cubes: "(1 + u64) * ((1 + u64) * (1 + u64)) \<le> 1 + 4 * u64"
  "1 - 4 * u64 \<le> (1 - u64) * ((1 - u64) * (1 - u64))"
  by (simp_all add: u64_def)

lemma half_away_near:
  assumes "\<bar>r - of_int k\<bar> < 1 / 2"
  shows "half_away r = k"
proof -
  have "r - of_int k < 1 / 2" "of_int k - r < 1 / 2" using assms by linarith+
  then have "\<lfloor>r + 1 / 2\<rfloor> = k" "\<lfloor>1 / 2 - r\<rfloor> = - k"
    unfolding floor_eq_iff of_int_minus by linarith+
  then show ?thesis by (simp add: half_away_def)
qed

lemma u64_ratio: "(1 + u64) * ((1 + u64) / (1 - u64)) \<le> 1 + 4 * u64"
  "1 - 4 * u64 \<le> (1 - u64) * ((1 - u64) / (1 + u64))"
  by (simp_all add: u64_def)

end
