(* ===== verification/Prelude.thy ===== *)
theory Prelude
  imports Float64
begin

section \<open>Prelude: Go values, strings and results\<close>

text \<open>
  What every component shares: arithmetic notation for doubles, the functions of Go's
  \<^verbatim>\<open>strings\<close>, \<^verbatim>\<open>strconv\<close> and \<^verbatim>\<open>fmt\<close> packages the program calls, and results.

  A Go string is a list of bytes, a \<^typ>\<open>string\<close>. Case mapping and white space are those of
  ASCII; the functions agree with Go on ASCII text, which is what the program compares
  (actions, symbols, product codes, roles, plans).

  A pointer that may be nil is an option. A function that returns a value and an error returns
  a sum, the error on the left.
\<close>

named_theorems go_simps \<open>unfolding rules for the string functions of Go\<close>
named_theorems zb_defs \<open>definitions that the component proofs unfold\<close>

subsection \<open>Arithmetic notation for doubles\<close>

instantiation f64 :: "{zero, one, plus, minus, uminus, times, inverse, ord}"
begin

definition zero_f64 :: f64 where "zero_f64 = Fin 0"
definition one_f64 :: f64 where "one_f64 = Fin 1"
definition plus_f64 :: "f64 \<Rightarrow> f64 \<Rightarrow> f64" where "plus_f64 = fadd"
definition minus_f64 :: "f64 \<Rightarrow> f64 \<Rightarrow> f64" where "minus_f64 = fsub"
definition uminus_f64 :: "f64 \<Rightarrow> f64" where "uminus_f64 = fneg"
definition times_f64 :: "f64 \<Rightarrow> f64 \<Rightarrow> f64" where "times_f64 = fmul"
definition divide_f64 :: "f64 \<Rightarrow> f64 \<Rightarrow> f64" where "divide_f64 = fdiv"
definition inverse_f64 :: "f64 \<Rightarrow> f64" where "inverse_f64 = fdiv (Fin 1)"
definition less_f64 :: "f64 \<Rightarrow> f64 \<Rightarrow> bool" where "less_f64 = flt"
definition less_eq_f64 :: "f64 \<Rightarrow> f64 \<Rightarrow> bool" where "less_eq_f64 = fle"

instance ..

end

lemma case_option_all [simp]: "(case x of None \<Rightarrow> True | Some w \<Rightarrow> P w) \<longleftrightarrow> (\<forall>w. x = Some w \<longrightarrow> P w)"
  by (cases x) simp_all

lemmas f64_op_defs = zero_f64_def one_f64_def plus_f64_def minus_f64_def uminus_f64_def
  times_f64_def divide_f64_def inverse_f64_def less_f64_def less_eq_f64_def

lemma f64_ops_Fin [simp]:
  "(0 :: f64) = Fin 0" "(1 :: f64) = Fin 1"
  "Fin a + Fin b = fround (a + b)" "Fin a - Fin b = fround (a - b)"
  "Fin a * Fin b = fround (a * b)" "b \<noteq> 0 \<Longrightarrow> Fin a / Fin b = fround (a / b)"
  "- Fin a = Fin (- a)" "Fin a < Fin b \<longleftrightarrow> a < b" "Fin a \<le> Fin b \<longleftrightarrow> a \<le> b"
  by (simp_all add: f64_op_defs)

lemma f64_add_Fin_iff: "a + b = Fin c \<longleftrightarrow> (\<exists>x y. a = Fin x \<and> b = Fin y \<and> fround (x + y) = Fin c)"
  by (simp add: plus_f64_def fadd_Fin_iff)

lemma f64_mul_Fin_iff: "a * b = Fin c \<longleftrightarrow> (\<exists>x y. a = Fin x \<and> b = Fin y \<and> fround (x * y) = Fin c)"
  by (simp add: times_f64_def fmul_Fin_iff)

lemma f64_less_irrefl [simp]: "\<not> (a :: f64) < a"
  by (simp add: less_f64_def)

lemma f64_pos_cases: "(0 :: f64) < a \<Longrightarrow> a = PInf \<or> (\<exists>r. a = Fin r \<and> 0 < r)"
  by (cases a) (auto simp: f64_op_defs)

lemma f64_not_less_le: "\<not> (b :: f64) < a \<Longrightarrow> a \<noteq> NaN \<Longrightarrow> b \<noteq> NaN \<Longrightarrow> a \<le> b"
  by (cases a; cases b) (auto simp: less_eq_f64_def less_f64_def fle_def feq_def)

text \<open>Negation commutes with the operations: rounding to nearest is symmetric.\<close>

lemma fround_minus: "fround (- x) = fneg (fround x)"
  by (auto simp: fround_def Let_def)

lemma fneg_fneg [simp]: "fneg (fneg a) = a"
  by (cases a) auto

lemma fneg_fadd: "fneg (fadd a b) = fadd (fneg a) (fneg b)"
  using fround_minus [of "rval a + rval b"] by (cases "(a, b)" rule: fadd.cases) auto

lemma fneg_inf_of_sign: "fneg (inf_of_sign s) = inf_of_sign (- s)"
  by (simp add: inf_of_sign_def)

lemma fsgn_fneg [simp]: "fsgn (fneg a) = - fsgn a"
  by (cases a) auto

lemma fmul_fneg: "fmul (fneg a) b = fneg (fmul a b)"
  using fround_minus [of "rval a * rval b"] fneg_inf_of_sign
  by (cases a; cases b) (simp_all del: fsgn.simps add: fsgn.simps(1), (simp add: inf_of_sign_def)+)

lemma flt_fneg [simp]: "flt (fneg a) (fneg b) = flt b a"
  by (cases a; cases b) auto

lemma feq_fneg [simp]: "feq (fneg a) (fneg b) = feq b a"
  by (cases a; cases b) (auto simp: feq_def)

lemma fle_fneg [simp]: "fle (fneg a) (fneg b) = fle b a"
  by (simp add: fle_def)

lemma f64_neg_simps:
  fixes a b :: f64
  shows "- (- a) = a" "- (a + b) = - a + - b" "a - b = a + - b" "(- a) * b = - (a * b)"
    "- a \<le> - b \<longleftrightarrow> b \<le> a" "- a < - b \<longleftrightarrow> b < a" "feq (- a) (- b) = feq b a"
  by (simp_all add: f64_op_defs fneg_fadd fmul_fneg fsub_def)

lemma f64_neg_zero:
  fixes a :: f64
  shows "- a \<le> Fin 0 \<longleftrightarrow> Fin 0 \<le> a" "Fin 0 \<le> - a \<longleftrightarrow> a \<le> Fin 0"
    "feq (- a) (Fin 0) = feq a (Fin 0)"
  by (cases a; simp add: f64_op_defs fle_def feq_def)+

lemma f64_add_commute: "(a :: f64) + b = b + a"
  by (cases a; cases b) (simp_all add: plus_f64_def add.commute)

lemma f64_minus_eq: "(a :: f64) - b = a + - b"
  by (simp add: f64_op_defs fsub_def)

lemma is_double_neg_less: "is_double a \<Longrightarrow> x < 0 \<Longrightarrow> a \<le> x \<Longrightarrow> ilog2 \<bar>x\<bar> < 1024"
  using ilog2_mono [of "\<bar>x\<bar>" "\<bar>a\<bar>"] by (auto simp: is_double_def)

lemma fround_ge: "is_double a \<Longrightarrow> a \<le> x \<Longrightarrow> Fin a \<le> fround x"
  using is_double_neg_less [of a "rnd x"] rnd_mono [of a x] is_double_rnd [of a]
  by (auto simp: fround_def Let_def less_eq_f64_def fle_def)

lemma fround_le: "is_double a \<Longrightarrow> x \<le> a \<Longrightarrow> fround x \<le> Fin a"
  using fround_ge [of "- a" "- x"] f64_neg_simps(5) [of "Fin a" "fround x"]
  by (simp add: fround_minus uminus_f64_def)

lemma fround_0 [simp]: "fround 0 = Fin 0"
  by (simp add: fround_def)

lemma fround_eq_0_iff: "is_double a \<Longrightarrow> is_double b \<Longrightarrow> fround (a + b) = Fin 0 \<longleftrightarrow> a + b = 0"
  using rnd_add_eq_0_iff [of a b] by (auto simp: fround_Fin_iff)

lemma f64_add_eq_0: "wf64 a \<Longrightarrow> wf64 b \<Longrightarrow> a + b = Fin 0 \<longleftrightarrow> b = - a \<and> is_fin a"
  by (cases a; cases b) (auto simp: f64_op_defs fround_eq_0_iff add_eq_0_iff)

lemma f64_le_trans: "(a :: f64) \<le> b \<Longrightarrow> b \<le> c \<Longrightarrow> a \<le> c"
  by (cases a; cases b; cases c) (auto simp: less_eq_f64_def fle_def feq_def)

lemma fround_mono: "x \<le> y \<Longrightarrow> fround x \<le> fround y"
proof -
  assume "x \<le> y"
  then have r: "rnd x \<le> rnd y" by (rule rnd_mono)
  have "ilog2 (rnd x) \<le> ilog2 (rnd y)" if "0 < rnd x" using ilog2_mono that r by blast
  moreover have "ilog2 (- rnd y) \<le> ilog2 (- rnd x)" if "rnd y < 0"
    using ilog2_mono [of "- rnd y" "- rnd x"] that r by simp
  ultimately show ?thesis
    using r by (cases "rnd y" "0 :: rat" rule: linorder_cases)
      (auto simp: fround_def Let_def less_eq_f64_def fle_def feq_def)
qed

lemma is_double_1 [simp]: "is_double 1"
  using is_double_of_int [of 1] by simp

lemma fround_nonneg: "0 \<le> x \<Longrightarrow> Fin 0 \<le> fround x"
  using fround_ge [of 0 x] by simp

lemma fround_nonpos: "x \<le> 0 \<Longrightarrow> fround x \<le> Fin 0"
  using fround_le [of 0 x] by simp

lemma f64_mul_ge:
  assumes "is_double p" "0 < p" "Fin 1 \<le> y"
  shows "Fin p \<le> Fin p * y"
proof (cases y)
  case (Fin r)
  with assms have "p \<le> p * r" by simp
  then show ?thesis using Fin assms fround_ge by simp
qed (use assms in \<open>auto simp: f64_op_defs inf_of_sign_def fle_def feq_def\<close>)

lemma f64_mul_le:
  assumes "is_double p" "0 < p" "y \<le> Fin 1" "Fin 0 \<le> y"
  shows "Fin p * y \<le> Fin p" "Fin 0 \<le> Fin p * y"
proof -
  obtain r where r: "y = Fin r" "r \<le> 1" "0 \<le> r"
    using assms by (cases y) (auto simp: f64_op_defs fle_def feq_def)
  have "p * r \<le> p" using mult_left_mono [of r 1 p] r assms(2) by simp
  then show "Fin p * y \<le> Fin p" using fround_le assms(1) r by simp
  show "Fin 0 \<le> Fin p * y" using fround_nonneg assms(2) r by simp
qed

lemma f64_mul_sign:
  assumes "0 < x"
  shows "Fin 0 \<le> a \<Longrightarrow> Fin 0 \<le> a * Fin x" "a \<le> Fin 0 \<Longrightarrow> a * Fin x \<le> Fin 0"
  using assms
  by (cases a; simp add: fround_nonneg fround_nonpos mult_nonpos_nonneg;
      simp add: f64_op_defs inf_of_sign_def fle_def feq_def)+

lemma f64_div_nonneg: "Fin 0 \<le> y \<Longrightarrow> 0 < k \<Longrightarrow> Fin 0 \<le> y / Fin k"
proof (cases y)
  case (Fin r)
  then show "Fin 0 \<le> y \<Longrightarrow> 0 < k \<Longrightarrow> Fin 0 \<le> y / Fin k" by (simp add: fround_nonneg)
qed (auto simp: f64_op_defs inf_of_sign_def fle_def feq_def)

lemma f64_sub_le: "is_double x \<Longrightarrow> Fin 0 \<le> y \<Longrightarrow> Fin x - y \<le> Fin x"
proof (cases y)
  case (Fin r)
  then show "is_double x \<Longrightarrow> Fin 0 \<le> y \<Longrightarrow> Fin x - y \<le> Fin x" using fround_le [of x "x - r"] by simp
qed (auto simp: f64_op_defs fsub_def fle_def feq_def)

lemma fround_not_NaN [simp]: "fround x \<noteq> NaN"
  by (auto simp: fround_def Let_def)

lemma f64_le_refl: "a \<noteq> NaN \<Longrightarrow> (a :: f64) \<le> a"
  by (simp add: less_eq_f64_def fle_def feq_def)

lemma f64_less_le: "(a :: f64) < b \<Longrightarrow> a \<le> b"
  by (simp add: less_eq_f64_def fle_def less_f64_def)

subsection \<open>Results\<close>

text \<open>Sequencing of calls that return a value or an error.\<close>

definition ebind :: "'e + 'a \<Rightarrow> ('a \<Rightarrow> 'e + 'b) \<Rightarrow> 'e + 'b" where
  "ebind r f = (case r of Inl e \<Rightarrow> Inl e | Inr x \<Rightarrow> f x)"

lemma ebind_simps [simp]: "ebind (Inl e) f = Inl e" "ebind (Inr x) f = f x"
  by (simp_all add: ebind_def)

lemma ebind_Inr_iff: "ebind r f = Inr y \<longleftrightarrow> (\<exists>x. r = Inr x \<and> f x = Inr y)"
  by (cases r) auto

subsection \<open>Characters and case\<close>

definition char_upper :: "char \<Rightarrow> char" where
  "char_upper c = (let n = of_char c :: nat in if 97 \<le> n \<and> n \<le> 122 then char_of (n - 32) else c)"

definition char_lower :: "char \<Rightarrow> char" where
  "char_lower c = (let n = of_char c :: nat in if 65 \<le> n \<and> n \<le> 90 then char_of (n + 32) else c)"

definition is_space :: "char \<Rightarrow> bool" where
  "is_space c = (let n = of_char c :: nat in n = 32 \<or> (9 \<le> n \<and> n \<le> 13))"

definition is_digit :: "char \<Rightarrow> bool" where
  "is_digit c = (let n = of_char c :: nat in 48 \<le> n \<and> n \<le> 57)"

definition is_letter :: "char \<Rightarrow> bool" where
  "is_letter c = (let n = of_char c :: nat in (65 \<le> n \<and> n \<le> 90) \<or> (97 \<le> n \<and> n \<le> 122))"

text \<open>\<^verbatim>\<open>strings.ToUpper\<close>, \<^verbatim>\<open>strings.ToLower\<close>, \<^verbatim>\<open>strings.TrimSpace\<close>, \<^verbatim>\<open>strings.EqualFold\<close>.\<close>

definition to_upper :: "string \<Rightarrow> string" where
  "to_upper = map char_upper"

definition to_lower :: "string \<Rightarrow> string" where
  "to_lower = map char_lower"

definition trim_space :: "string \<Rightarrow> string" where
  "trim_space s = rev (dropWhile is_space (rev (dropWhile is_space s)))"

definition equal_fold :: "string \<Rightarrow> string \<Rightarrow> bool" where
  "equal_fold s t = (to_lower s = to_lower t)"

lemma of_char_char_of_lt [simp]: "n < 256 \<Longrightarrow> of_char (char_of n) = (n :: nat)"
  by simp

lemma of_char_shift:
  fixes c :: char
  shows "97 \<le> (of_char c :: nat) \<Longrightarrow> (of_char c - 32) mod 256 = (of_char c - 32 :: nat)"
    "(of_char c :: nat) \<le> 90 \<Longrightarrow> (of_char c + 32) mod 256 = (of_char c + 32 :: nat)"
  using nat_of_char_less_256 [of c] by (intro mod_less; linarith)+

lemma of_char_upper: "(of_char (char_upper c) :: nat) =
    (if 97 \<le> (of_char c :: nat) \<and> (of_char c :: nat) \<le> 122 then of_char c - 32 else of_char c)"
  by (simp add: char_upper_def Let_def of_char_shift)

lemma of_char_lower: "(of_char (char_lower c) :: nat) =
    (if 65 \<le> (of_char c :: nat) \<and> (of_char c :: nat) \<le> 90 then of_char c + 32 else of_char c)"
  by (simp add: char_lower_def Let_def of_char_shift)

lemma char_eq_nat: "(of_char c :: nat) = of_char d \<Longrightarrow> c = d"
  by simp

lemma char_upper_idem [simp]: "char_upper (char_upper c) = char_upper c"
  by (rule char_eq_nat) (auto simp only: of_char_upper split: if_splits)

lemma char_lower_idem [simp]: "char_lower (char_lower c) = char_lower c"
  by (rule char_eq_nat) (auto simp only: of_char_lower split: if_splits)

lemma char_upper_lower [simp]: "char_upper (char_lower c) = char_upper c"
  by (rule char_eq_nat) (simp add: of_char_upper of_char_lower del: of_char_eq_iff, linarith?)

lemma char_lower_upper [simp]: "char_lower (char_upper c) = char_lower c"
  by (rule char_eq_nat) (simp add: of_char_upper of_char_lower del: of_char_eq_iff, linarith?)

lemma is_space_upper [simp]: "is_space (char_upper c) = is_space c"
  by (auto simp: is_space_def Let_def of_char_upper)

lemma is_space_lower [simp]: "is_space (char_lower c) = is_space c"
  by (auto simp: is_space_def Let_def of_char_lower)

lemma to_upper_idem [simp]: "to_upper (to_upper s) = to_upper s"
  by (simp add: to_upper_def)

lemma to_lower_idem [simp]: "to_lower (to_lower s) = to_lower s"
  by (simp add: to_lower_def)

lemma to_upper_lower [simp]: "to_upper (to_lower s) = to_upper s"
  by (simp add: to_upper_def to_lower_def)

lemma to_lower_upper [simp]: "to_lower (to_upper s) = to_lower s"
  by (simp add: to_upper_def to_lower_def)

lemma to_upper_Nil [simp]: "to_upper [] = []" "to_upper s = [] \<longleftrightarrow> s = []"
  by (simp_all add: to_upper_def)

lemma to_lower_Nil [simp]: "to_lower [] = []" "to_lower s = [] \<longleftrightarrow> s = []"
  by (simp_all add: to_lower_def)

lemma equal_fold_upper: "equal_fold s t \<longleftrightarrow> to_upper s = to_upper t"
  unfolding equal_fold_def by (metis to_lower_upper to_upper_lower)

lemma equal_fold_refl [simp]: "equal_fold s s"
  by (simp add: equal_fold_def)

lemma dropWhile_map_pred: "(\<And>c. P (f c) = P c) \<Longrightarrow> dropWhile P (map f s) = map f (dropWhile P s)"
  by (induction s) auto

lemma trim_upper: "trim_space (to_upper s) = to_upper (trim_space s)"
  by (simp add: trim_space_def to_upper_def dropWhile_map_pred rev_map)

lemma trim_Nil [simp]: "trim_space [] = []"
  by (simp add: trim_space_def)

lemma dropWhile_fix: "s = [] \<or> \<not> P (hd s) \<Longrightarrow> dropWhile P s = s"
  by (cases s) auto

lemma dropWhile_rev_hd: "s = [] \<or> \<not> P (hd s) \<Longrightarrow>
  rev (dropWhile P (rev s)) = [] \<or> \<not> P (hd (rev (dropWhile P (rev s))))"
proof (induction s rule: rev_induct)
  case (snoc x xs)
  then show ?case by (cases xs) auto
qed simp

lemma trim_idem [simp]: "trim_space (trim_space s) = trim_space s"
proof -
  define t where "t = dropWhile is_space s"
  have "t = [] \<or> \<not> is_space (hd t)"
    using hd_dropWhile [of is_space s] by (auto simp: t_def)
  then have "dropWhile is_space (rev (dropWhile is_space (rev t))) = rev (dropWhile is_space (rev t))"
    by (intro dropWhile_fix dropWhile_rev_hd)
  moreover have "dropWhile is_space (dropWhile is_space u) = dropWhile is_space u" for u
    by (induction u) auto
  ultimately show ?thesis by (simp add: trim_space_def flip: t_def)
qed

subsection \<open>Searching, splitting, joining\<close>

fun has_prefix :: "string \<Rightarrow> string \<Rightarrow> bool" where
  "has_prefix [] _ = True"
| "has_prefix (_ # _) [] = False"
| "has_prefix (p # ps) (c # cs) = (p = c \<and> has_prefix ps cs)"

fun contains :: "string \<Rightarrow> string \<Rightarrow> bool" where
  "contains [] sub = has_prefix sub []"
| "contains (c # cs) sub = (has_prefix sub (c # cs) \<or> contains cs sub)"

lemma has_prefix_iff: "has_prefix p s \<longleftrightarrow> (\<exists>t. s = p @ t)"
  by (induction p s rule: has_prefix.induct) auto

lemma contains_iff: "contains s sub \<longleftrightarrow> (\<exists>a b. s = a @ sub @ b)"
proof (induction s)
  case Nil
  then show ?case by (auto simp: has_prefix_iff)
next
  case (Cons c cs)
  have "(\<exists>a b. c # cs = a @ sub @ b) \<longleftrightarrow> (\<exists>b. c # cs = sub @ b) \<or> (\<exists>a b. cs = a @ sub @ b)"
    by (metis append_Cons append_Nil list.exhaust list.inject)
  then show ?case using Cons by (simp add: has_prefix_iff)
qed

lemma contains_mid [simp]: "contains (a @ sub @ b) sub"
  by (auto simp: contains_iff)

lemma contains_appendI1: "contains a sub \<Longrightarrow> contains (a @ b) sub"
  by (auto simp: contains_iff) blast

lemma contains_appendI2: "contains b sub \<Longrightarrow> contains (a @ b) sub"
  by (auto simp: contains_iff) (metis append_assoc)

text \<open>\<^verbatim>\<open>strings.Split\<close> on a one-byte separator and \<^verbatim>\<open>strings.Join\<close>.\<close>

fun split_on :: "char \<Rightarrow> string \<Rightarrow> string list" where
  "split_on sep [] = [ [] ]"
| "split_on sep (c # cs) =
     (if c = sep then [] # split_on sep cs
      else (case split_on sep cs of [] \<Rightarrow> [ [c] ] | p # ps \<Rightarrow> (c # p) # ps))"

fun join_with :: "string \<Rightarrow> string list \<Rightarrow> string" where
  "join_with sep [] = []"
| "join_with sep [s] = s"
| "join_with sep (s # t # ss) = s @ sep @ join_with sep (t # ss)"

lemma split_on_not_Nil [simp]: "split_on sep s \<noteq> []"
  by (induction s) (auto split: list.splits)

lemma split_on_no_sep: "sep \<notin> set s \<Longrightarrow> split_on sep s = [s]"
  by (induction s) auto

lemma split_on_append: "sep \<notin> set s \<Longrightarrow> split_on sep (s @ sep # t) = s # split_on sep t"
  by (induction s) auto

lemma split_join:
  "ss \<noteq> [] \<Longrightarrow> \<forall>s \<in> set ss. sep \<notin> set s \<Longrightarrow> split_on sep (join_with [sep] ss) = ss"
proof (induction ss rule: induct_list012)
  case (3 s t ss)
  then show ?case by (simp add: split_on_append)
qed (simp_all add: split_on_no_sep)

subsection \<open>Formatting: the verbs of fmt the program uses\<close>

definition digit_char :: "int \<Rightarrow> char" where
  "digit_char d = char_of (48 + d)"

function show_nonneg :: "int \<Rightarrow> string" where
  "show_nonneg n =
     (if n < 10 then [digit_char n] else show_nonneg (n div 10) @ [digit_char (n mod 10)])"
  by pat_completeness auto
termination
  by (relation "measure nat") auto

declare show_nonneg.simps [simp del]

text \<open>\<^verbatim>\<open>%d\<close>.\<close>

definition fmt_d :: "int \<Rightarrow> string" where
  "fmt_d n = (if n < 0 then ''-'' @ show_nonneg (- n) else show_nonneg n)"

text \<open>Decimal digits padded with zeros on the left to a given width.\<close>

fun pad_digits :: "nat \<Rightarrow> int \<Rightarrow> string" where
  "pad_digits 0 n = []"
| "pad_digits (Suc w) n = pad_digits w (n div 10) @ [digit_char (n mod 10)]"

text \<open>
  \<^verbatim>\<open>%.4f\<close>: the exact binary value rounded to four decimals, ties to even.
\<close>

fun fmt_f4 :: "f64 \<Rightarrow> string" where
  "fmt_f4 (Fin q) =
     (let n = rne (\<bar>q\<bar> * 10000)
      in (if q < 0 then ''-'' else []) @ show_nonneg (n div 10000) @ ''.'' @ pad_digits 4 (n mod 10000))"
| "fmt_f4 PInf = ''+Inf''"
| "fmt_f4 NInf = ''-Inf''"
| "fmt_f4 NaN = ''NaN''"

definition hex_char :: "nat \<Rightarrow> char" where
  "hex_char d = (if d < 10 then char_of (48 + d) else char_of (87 + d))"

text \<open>\<^verbatim>\<open>%q\<close>: a double-quoted string with Go's escapes.\<close>

definition quote_char :: "char \<Rightarrow> string" where
  "quote_char c = (let n = of_char c :: nat in
     if n = 34 \<or> n = 92 then [CHR 0x5C, c]
     else if 32 \<le> n \<and> n \<noteq> 127 then [c]
     else if n = 7 then [CHR 0x5C, CHR ''a'']
     else if n = 8 then [CHR 0x5C, CHR ''b'']
     else if n = 9 then [CHR 0x5C, CHR ''t'']
     else if n = 10 then [CHR 0x5C, CHR ''n'']
     else if n = 11 then [CHR 0x5C, CHR ''v'']
     else if n = 12 then [CHR 0x5C, CHR ''f'']
     else if n = 13 then [CHR 0x5C, CHR ''r'']
     else [CHR 0x5C, CHR ''x'', hex_char (n div 16), hex_char (n mod 16)])"

definition fmt_q :: "string \<Rightarrow> string" where
  "fmt_q s = [CHR 0x22] @ concat (map quote_char s) @ [CHR 0x22]"

text \<open>The UTF-8 bytes of the dash that the program's messages use.\<close>

definition em_dash :: string where
  "em_dash = [CHR 0xE2, CHR 0x80, CHR 0x94]"

lemma show_nonneg_not_Nil [simp]: "show_nonneg n \<noteq> []"
  by (subst show_nonneg.simps) simp

lemma set_pad_digits: "set (pad_digits w n) \<subseteq> range digit_char"
  by (induction w arbitrary: n) auto

lemma set_show_nonneg: "set (show_nonneg n) \<subseteq> range digit_char"
proof (induction n rule: show_nonneg.induct)
  case (1 n)
  then show ?case by (subst show_nonneg.simps) auto
qed

subsection \<open>Reading a leading decimal integer\<close>

text \<open>
  \<^verbatim>\<open>fmt.Sscanf(s, "%d", &n)\<close>: white space other than a line end is skipped, an optional
  sign and a non-empty run of digits is read, and anything after it is left unread, without an
  error. A carriage return before a line feed is skipped with it by Go, and both are rejected
  here with the line feed, which is an error there.
\<close>

definition is_blank :: "char \<Rightarrow> bool" where
  "is_blank c = (is_space c \<and> c \<noteq> CHR 0x0A)"

definition digit_val :: "char \<Rightarrow> nat" where
  "digit_val c = of_char c - 48"

definition read_digits :: "string \<Rightarrow> int option" where
  "read_digits s = (let ds = takeWhile is_digit s
     in if ds = [] then None else Some (foldl (\<lambda>a c. 10 * a + int (digit_val c)) 0 ds))"

definition in_int64 :: "int \<Rightarrow> bool" where
  "in_int64 n = (- (2 ^ 63) \<le> n \<and> n < 2 ^ 63)"

definition sscanf_d :: "string \<Rightarrow> int option" where
  "sscanf_d s = (let t = dropWhile is_blank s in
     case (case t of
             [] \<Rightarrow> None
           | c # cs \<Rightarrow> (if c = CHR ''-'' then map_option uminus (read_digits cs)
                        else if c = CHR ''+'' then read_digits cs
                        else read_digits t)) of
       None \<Rightarrow> None
     | Some n \<Rightarrow> (if in_int64 n then Some n else None))"

text \<open>\<^verbatim>\<open>strconv.ParseInt(s, 10, 64)\<close>: the whole string is a sign and digits.\<close>

definition parse_int64 :: "string \<Rightarrow> int option" where
  "parse_int64 s =
     (let ds = (case s of c # cs \<Rightarrow> if c = CHR ''-'' \<or> c = CHR ''+'' then cs else s | [] \<Rightarrow> []) in
      if ds = [] \<or> \<not> list_all is_digit ds then None
      else (let n = foldl (\<lambda>a c. 10 * a + int (digit_val c)) 0 ds;
                n = (if hd s = CHR ''-'' then - n else n)
            in if in_int64 n then Some n else None))"

subsection \<open>Digits\<close>

lemma of_char_digit: "0 \<le> d \<Longrightarrow> d < 10 \<Longrightarrow> (of_char (digit_char d) :: nat) = 48 + nat d"
proof -
  assume d: "0 \<le> d" "d < 10"
  have "int (of_char (digit_char d)) = (of_char (digit_char d) :: int)" by (rule of_nat_of_char)
  also have "\<dots> = 48 + d" using d by (simp add: digit_char_def)
  finally show ?thesis using d by linarith
qed
lemma char_neq: "(of_char a :: nat) \<noteq> of_char b \<Longrightarrow> a \<noteq> b" by auto
lemma digit_char_simps:
  assumes "0 \<le> d" "d < 10"
  shows "is_digit (digit_char d)" "int (digit_val (digit_char d)) = d"
    "\<not> is_space (digit_char d)" "digit_char d \<noteq> CHR '':''" "digit_char d \<noteq> CHR ''-''" "digit_char d \<noteq> CHR ''+''"
    "digit_char d \<noteq> CHR ''|''"
proof -
  note c = of_char_digit [OF assms]
  show "is_digit (digit_char d)" "int (digit_val (digit_char d)) = d" "\<not> is_space (digit_char d)"
    using assms by (simp_all add: is_digit_def digit_val_def is_space_def c)
  show "digit_char d \<noteq> CHR '':''" "digit_char d \<noteq> CHR ''-''" "digit_char d \<noteq> CHR ''+''" "digit_char d \<noteq> CHR ''|''"
    using assms by - (rule char_neq, simp add: c nat_eq_iff)+
qed

lemma show_nonneg_digits: "0 \<le> n \<Longrightarrow> list_all is_digit (show_nonneg n)"
proof (induction n rule: show_nonneg.induct)
  case (1 n)
  show ?case
  proof (cases "n < 10")
    case True
    then show ?thesis using 1(2) digit_char_simps(1) by (subst show_nonneg.simps) simp
  next
    case False
    then show ?thesis using 1 digit_char_simps(1) [of "n mod 10"] by (subst show_nonneg.simps) simp
  qed
qed

lemma foldl_digits: "0 \<le> n \<Longrightarrow> foldl (\<lambda>a c. 10 * a + int (digit_val c)) 0 (show_nonneg n) = n"
proof (induction n rule: show_nonneg.induct)
  case (1 n)
  show ?case
  proof (cases "n < 10")
    case True
    then show ?thesis using 1(2) digit_char_simps(2) by (subst show_nonneg.simps) simp
  next
    case False
    then show ?thesis using 1 digit_char_simps(2) [of "n mod 10"] by (subst show_nonneg.simps) simp
  qed
qed

lemma read_digits_show: "0 \<le> n \<Longrightarrow> read_digits (show_nonneg n) = Some n"
  using show_nonneg_digits [of n] foldl_digits [of n]
  by (simp add: read_digits_def Let_def takeWhile_eq_all_conv [THEN iffD2] list_all_iff)
lemma show_nonneg_sep: "0 \<le> n \<Longrightarrow> CHR ''|'' \<notin> set (show_nonneg n)"
  using show_nonneg_digits [of n] by (auto simp: list_all_iff is_digit_def)

lemma parse_int64_show:
  assumes "0 \<le> n" "in_int64 n"
  shows "parse_int64 (show_nonneg n) = Some n"
proof -
  obtain c cs where s: "show_nonneg n = c # cs" by (cases "show_nonneg n") auto
  have d: "is_digit c" "list_all is_digit (show_nonneg n)" using show_nonneg_digits [OF assms(1)] s by simp_all
  from d(1) have "c \<noteq> CHR ''-''" "c \<noteq> CHR ''+''" by (auto simp: is_digit_def)
  then show ?thesis using assms d(2) foldl_digits [OF assms(1)] by (simp add: parse_int64_def s Let_def)
qed

end
