(* ===== verification/Domain.thy ===== *)
theory Domain
  imports Prelude
begin

section \<open>Domain: roles, statuses, execution requests and results\<close>

text \<open>
  Models \<^verbatim>\<open>internal/domain\<close> and the row types of \<^verbatim>\<open>internal/store/models.go\<close> that the
  components share. Named string constants of Go are strings here. Times are Unix seconds,
  integers. Optional pointers are options.
\<close>

subsection \<open>Platform and organisation roles\<close>

definition RoleUser :: string where "RoleUser = ''user''"
definition RoleAdmin :: string where "RoleAdmin = ''admin''"
definition RoleOwner :: string where "RoleOwner = ''owner''"
definition RoleMember :: string where "RoleMember = ''member''"
definition RoleViewer :: string where "RoleViewer = ''viewer''"

definition StatusActive :: string where "StatusActive = ''active''"
definition StatusSuspended :: string where "StatusSuspended = ''suspended''"

definition PlanFree :: string where "PlanFree = ''free''"
definition PlanPaper :: string where "PlanPaper = ''paper''"
definition PlanPro :: string where "PlanPro = ''pro''"
definition PlanProPlus :: string where "PlanProPlus = ''pro_plus''"

lemmas role_defs = RoleUser_def RoleAdmin_def RoleOwner_def RoleMember_def RoleViewer_def
lemmas status_defs = StatusActive_def StatusSuspended_def
lemmas plan_name_defs = PlanFree_def PlanPaper_def PlanPro_def PlanProPlus_def

definition IsValidPlan :: "string \<Rightarrow> bool" where
  "IsValidPlan p = (p = PlanFree \<or> p = PlanPaper \<or> p = PlanPro \<or> p = PlanProPlus)"

definition IsValidStatus :: "string \<Rightarrow> bool" where
  "IsValidStatus s = (s = StatusActive \<or> s = StatusSuspended)"

definition IsPlatformAdmin :: "string \<Rightarrow> bool" where
  "IsPlatformAdmin r = (r = RoleAdmin)"

definition IsValidRole :: "string \<Rightarrow> bool" where
  "IsValidRole r = (r = RoleOwner \<or> r = RoleAdmin \<or> r = RoleMember \<or> r = RoleViewer)"

definition IsValidOrgStatus :: "string \<Rightarrow> bool" where
  "IsValidOrgStatus s = (s = StatusActive \<or> s = StatusSuspended)"

definition CanManageOrg :: "string \<Rightarrow> bool" where
  "CanManageOrg r = (r = RoleOwner \<or> r = RoleAdmin)"

definition IsOwner :: "string \<Rightarrow> bool" where
  "IsOwner r = (r = RoleOwner)"

definition RoleRank :: "string \<Rightarrow> int" where
  "RoleRank r = (if r = RoleOwner then 4 else if r = RoleAdmin then 3
                 else if r = RoleMember then 2 else if r = RoleViewer then 1 else 0)"

definition HasMinRole :: "string \<Rightarrow> string \<Rightarrow> bool" where
  "HasMinRole actual required = (RoleRank required \<le> RoleRank actual)"

definition IsInvitableRole :: "string \<Rightarrow> bool" where
  "IsInvitableRole r = (r = RoleAdmin \<or> r = RoleMember \<or> r = RoleViewer)"

definition CanManageMembers :: "string \<Rightarrow> bool" where
  "CanManageMembers r = CanManageOrg r"

definition CanManageCredentials :: "string \<Rightarrow> bool" where
  "CanManageCredentials r = CanManageOrg r"

definition CanCreateWebhook :: "string \<Rightarrow> bool" where
  "CanCreateWebhook r = (r = RoleOwner \<or> r = RoleAdmin \<or> r = RoleMember)"

definition CanMutateWebhook :: "string \<Rightarrow> string \<Rightarrow> string \<Rightarrow> bool" where
  "CanMutateWebhook actorRole creatorUserID actorUserID =
     (if actorRole = RoleOwner \<or> actorRole = RoleAdmin then True
      else if actorRole = RoleMember then creatorUserID = actorUserID
      else False)"

definition CanViewOrgResources :: "string \<Rightarrow> bool" where
  "CanViewOrgResources r = IsValidRole r"

lemmas role_pred_defs = IsValidRole_def CanManageOrg_def IsOwner_def RoleRank_def HasMinRole_def
  IsInvitableRole_def CanManageMembers_def CanManageCredentials_def CanCreateWebhook_def
  CanMutateWebhook_def CanViewOrgResources_def

lemma valid_role_rank: "IsValidRole r \<longleftrightarrow> 0 < RoleRank r"
  by (auto simp: role_pred_defs role_defs)

text \<open>
  The role tests of the code are thresholds of one rank: every permission a role has, each
  higher role has too.
\<close>

lemma role_tests_by_rank:
  "CanManageOrg r \<longleftrightarrow> HasMinRole r RoleAdmin"
  "CanCreateWebhook r \<longleftrightarrow> HasMinRole r RoleMember"
  "CanViewOrgResources r \<longleftrightarrow> HasMinRole r RoleViewer"
  "IsOwner r \<longleftrightarrow> HasMinRole r RoleOwner"
  by (auto simp: role_pred_defs role_defs)

subsection \<open>Execution requests and results\<close>

definition SideBuy :: string where "SideBuy = ''BUY''"
definition SideSell :: string where "SideSell = ''SELL''"
definition SideClose :: string where "SideClose = ''CLOSE''"
definition OrderTypeMarket :: string where "OrderTypeMarket = ''MARKET''"
definition OrderTypeLimit :: string where "OrderTypeLimit = ''LIMIT''"
definition PaperOrderStatusFilled :: string where "PaperOrderStatusFilled = ''FILLED''"
definition PaperOrderStatusRejected :: string where "PaperOrderStatusRejected = ''REJECTED''"

lemmas side_defs = SideBuy_def SideSell_def SideClose_def
lemmas order_type_defs = OrderTypeMarket_def OrderTypeLimit_def
lemmas paper_status_defs = PaperOrderStatusFilled_def PaperOrderStatusRejected_def

definition StatusSubmitted :: string where "StatusSubmitted = ''submitted''"
definition StatusFilled :: string where "StatusFilled = ''filled''"
definition StatusRejected :: string where "StatusRejected = ''rejected''"
definition StatusPendingConfirmation :: string where
  "StatusPendingConfirmation = ''pending_confirmation''"
definition QuantityLots :: string where "QuantityLots = ''lots''"
definition QuantityShares :: string where "QuantityShares = ''shares''"
definition OrderMarket :: string where "OrderMarket = ''market''"
definition OrderBracket :: string where "OrderBracket = ''bracket''"
definition ExecutionModePublisher :: string where "ExecutionModePublisher = ''publisher''"

lemmas trade_status_defs = StatusSubmitted_def StatusFilled_def StatusRejected_def
  StatusPendingConfirmation_def

text \<open>\<^verbatim>\<open>domain.UnrealizedPnL\<close>.\<close>

definition UnrealizedPnL :: "f64 \<Rightarrow> f64 \<Rightarrow> f64 \<Rightarrow> f64" where
  "UnrealizedPnL quantity avgEntryPrice lastPrice =
     (if 0 < quantity then (lastPrice - avgEntryPrice) * quantity
      else if quantity < 0 then (avgEntryPrice - lastPrice) * (- quantity)
      else 0)"

text \<open>
  \<^verbatim>\<open>domain.ExecutionRequest\<close>. The raw signal is a byte string, empty when absent.
\<close>

record exec_request =
  er_AccountID :: string
  er_WebhookID :: string
  er_SignalID :: string
  er_MarketProfile :: string
  er_Exchange :: string
  er_Symbol :: string
  er_Side :: string
  er_OrderType :: string
  er_Product :: string
  er_Quantity :: f64
  er_Price :: f64
  er_RawSignal :: string
  er_TickSize :: f64
  er_LotSize :: f64
  er_SlippageBps :: f64
  er_FeeBps :: f64
  er_UserID :: string
  er_OrgID :: "string option"
  er_Comment :: string
  er_SLPoints :: int
  er_TPPoints :: int
  er_FixedLotSize :: f64
  er_MaxRiskPct :: f64
  er_MaxLotSize :: f64

text \<open>The zero value of Go's struct: what a field is when the literal does not name it.\<close>

definition zero_request :: exec_request where
  "zero_request = \<lparr> er_AccountID = [], er_WebhookID = [], er_SignalID = [], er_MarketProfile = [],
     er_Exchange = [], er_Symbol = [], er_Side = [], er_OrderType = [], er_Product = [],
     er_Quantity = 0, er_Price = 0, er_RawSignal = [], er_TickSize = 0, er_LotSize = 0,
     er_SlippageBps = 0, er_FeeBps = 0, er_UserID = [], er_OrgID = None, er_Comment = [],
     er_SLPoints = 0, er_TPPoints = 0, er_FixedLotSize = 0, er_MaxRiskPct = 0,
     er_MaxLotSize = 0 \<rparr>"

text \<open>\<^verbatim>\<open>domain.HandoffResult\<close>: the form the browser posts to Kite.\<close>

record handoff =
  ho_Provider :: string
  ho_Method :: string
  ho_Action :: string
  ho_Fields :: "string \<rightharpoonup> string"
  ho_PublisherOrderID :: string

record exec_result =
  xr_OrderID :: string
  xr_Status :: string
  xr_FillPrice :: f64
  xr_RealizedPnL :: f64
  xr_Reason :: string
  xr_Quantity :: f64
  xr_OrderType :: string
  xr_SLPrice :: f64
  xr_TPPrice :: f64
  xr_AlgoID :: string
  xr_BrokerType :: string
  xr_Handoff :: "handoff option"

definition zero_result :: exec_result where
  "zero_result = \<lparr> xr_OrderID = [], xr_Status = [], xr_FillPrice = 0, xr_RealizedPnL = 0,
     xr_Reason = [], xr_Quantity = 0, xr_OrderType = [], xr_SLPrice = 0, xr_TPPrice = 0,
     xr_AlgoID = [], xr_BrokerType = [], xr_Handoff = None \<rparr>"

text \<open>\<^verbatim>\<open>domain.PlaceRequest\<close> and \<^verbatim>\<open>domain.OrderResult\<close>.\<close>

record place_request =
  pr_Action :: string
  pr_Symbol :: string
  pr_Exchange :: string
  pr_Product :: string
  pr_Quantity :: f64
  pr_QuantityUnit :: string
  pr_SLPoints :: int
  pr_TPPoints :: int
  pr_Comment :: string
  pr_AlgoID :: string
  pr_OrderType :: string
  pr_BrokerType :: string
  pr_EntryExecType :: string
  pr_MarketProtection :: f64
  pr_Price :: f64

record order_result =
  or_Status :: string
  or_OrderID :: string
  or_FillPrice :: f64
  or_SLPrice :: f64
  or_TPPrice :: f64
  or_Handoff :: "handoff option"

subsection \<open>Rows of the store\<close>

text \<open>\<^verbatim>\<open>store.User\<close>, \<^verbatim>\<open>store.Organization\<close> and \<^verbatim>\<open>store.OrgMember\<close>.\<close>

record user =
  u_ID :: string
  u_Email :: string
  u_PasswordHash :: string
  u_Plan :: string
  u_Role :: string
  u_Status :: string
  u_OrgsEnabled :: bool
  u_EarlyBirdLive :: bool
  u_LiveOrdersUsed :: int
  u_EmailVerifiedAt :: "int option"
  u_StripeCustomerID :: string
  u_StripeSubscriptionID :: string
  u_BillingSource :: string
  u_TelegramChatID :: string
  u_CreatedAt :: int

definition EmailVerified :: "user option \<Rightarrow> bool" where
  "EmailVerified u = (case u of None \<Rightarrow> False | Some u \<Rightarrow> u_EmailVerifiedAt u \<noteq> None)"

record organization =
  o_ID :: string
  o_Name :: string
  o_Slug :: string
  o_OwnerUserID :: string
  o_SeatLimit :: int
  o_Status :: string
  o_CreatedAt :: int

record org_member =
  om_ID :: string
  om_OrgID :: string
  om_UserID :: string
  om_Role :: string
  om_Status :: string
  om_JoinedAt :: int

text \<open>A trading window, and a schedule from the weekday's key to its windows.\<close>

record trading_window =
  tw_Start :: string
  tw_End :: string

type_synonym trading_schedule = "(string \<times> trading_window list) list"

record webhook =
  wh_ID :: string
  wh_UserID :: string
  wh_OrgID :: "string option"
  wh_CreatedBy :: string
  wh_TokenHash :: string
  wh_RawToken :: string
  wh_Label :: string
  wh_Status :: string
  wh_BrokerCredID :: "string option"
  wh_PaperAccountID :: "string option"
  wh_Symbol :: string
  wh_LotSize :: f64
  wh_MaxRiskPct :: f64
  wh_SLPoints :: int
  wh_TPPoints :: int
  wh_DefaultOrderType :: string
  wh_CreatedAt :: int
  wh_AllowedActions :: "string list"
  wh_AllowedSymbols :: "string list"
  wh_MaxLotSize :: f64
  wh_RateLimitPerSec :: int
  wh_RateLimitPerMin :: int
  wh_DedupWindowSec :: int
  wh_Timezone :: string
  wh_TradingHours :: "trading_schedule option"
  wh_RequiredComment :: string
  wh_AutoPaused :: bool
  wh_AdminDisabled :: bool

record signal_payload =
  sg_Action :: string
  sg_Symbol :: string
  sg_Lot :: f64
  sg_Price :: f64
  sg_SLPts :: int
  sg_TPPts :: int
  sg_Comment :: string
  sg_Product :: string
  sg_OrderType :: string

record broker_credential =
  bc_ID :: string
  bc_UserID :: string
  bc_OrgID :: "string option"
  bc_CreatedBy :: string
  bc_BrokerType :: string
  bc_ExecutionMode :: string
  bc_EncryptedCreds :: string
  bc_AccountLabel :: string
  bc_AccountMode :: string
  bc_Exchange :: string
  bc_Product :: string
  bc_AlgoID :: string
  bc_OrderType :: string
  bc_MarketProtection :: f64
  bc_ConnectedAt :: "int option"
  bc_Status :: string
  bc_AutoPaused :: bool
  bc_AdminDisabled :: bool

record trade =
  t_ID :: string
  t_UserID :: string
  t_WebhookID :: string
  t_WebhookLabel :: string
  t_Signal :: string
  t_Symbol :: string
  t_LotSize :: f64
  t_BrokerOrder :: string
  t_SignalKey :: string
  t_Comment :: string
  t_AlgoID :: string
  t_Status :: string
  t_FillPrice :: f64
  t_OrderType :: string
  t_Product :: string
  t_SLPrice :: "f64 option"
  t_TPPrice :: "f64 option"
  t_Error :: string
  t_ErrorCode :: string
  t_CancelledAt :: "int option"
  t_CancelError :: string
  t_CreatedAt :: int
  t_BrokerRespondedAt :: "int option"
  t_PublisherOrderExpiresAt :: "int option"

definition zero_trade :: trade where
  "zero_trade = \<lparr> t_ID = [], t_UserID = [], t_WebhookID = [], t_WebhookLabel = [], t_Signal = [],
     t_Symbol = [], t_LotSize = 0, t_BrokerOrder = [], t_SignalKey = [], t_Comment = [],
     t_AlgoID = [], t_Status = [], t_FillPrice = 0, t_OrderType = [], t_Product = [],
     t_SLPrice = None, t_TPPrice = None, t_Error = [], t_ErrorCode = [], t_CancelledAt = None,
     t_CancelError = [], t_CreatedAt = 0, t_BrokerRespondedAt = None,
     t_PublisherOrderExpiresAt = None \<rparr>"

record market_profile =
  mp_ID :: string
  mp_Code :: string
  mp_Name :: string
  mp_BaseCurrency :: string
  mp_Timezone :: string
  mp_TradingDays :: "trading_schedule option"
  mp_Active :: bool
  mp_SlippageBps :: f64
  mp_FeeBps :: f64
  mp_CreatedAt :: int
  mp_UpdatedAt :: int

record instrument =
  in_ID :: string
  in_MarketProfileCode :: string
  in_Exchange :: string
  in_Symbol :: string
  in_Name :: string
  in_InstrumentType :: string
  in_TickSize :: f64
  in_LotSize :: f64
  in_Active :: bool
  in_CreatedAt :: int
  in_UpdatedAt :: int

record paper_account =
  pa_ID :: string
  pa_UserID :: string
  pa_Label :: string
  pa_MarketProfile :: string
  pa_BaseCurrency :: string
  pa_StartingBalance :: f64
  pa_CashBalance :: f64
  pa_Exchange :: string
  pa_DefaultProduct :: string
  pa_Status :: string
  pa_CreatedAt :: int
  pa_UpdatedAt :: int

record paper_position =
  pp_ID :: string
  pp_UserID :: string
  pp_PaperAccountID :: string
  pp_Symbol :: string
  pp_Exchange :: string
  pp_Product :: string
  pp_Quantity :: f64
  pp_AvgEntryPrice :: f64
  pp_LastPrice :: f64
  pp_UnrealizedPnL :: f64
  pp_CreatedAt :: int
  pp_UpdatedAt :: int

record paper_order =
  po_ID :: string
  po_UserID :: string
  po_PaperAccountID :: string
  po_WebhookID :: "string option"
  po_SignalID :: string
  po_Symbol :: string
  po_Exchange :: string
  po_Side :: string
  po_OrderType :: string
  po_Product :: string
  po_Quantity :: f64
  po_RequestedPrice :: "f64 option"
  po_FillPrice :: "f64 option"
  po_Status :: string
  po_Reason :: string
  po_RawSignal :: string
  po_CreatedAt :: int
  po_UpdatedAt :: int

record paper_trade =
  pt_ID :: string
  pt_UserID :: string
  pt_PaperAccountID :: string
  pt_OrderID :: string
  pt_Symbol :: string
  pt_Exchange :: string
  pt_Side :: string
  pt_Quantity :: f64
  pt_Price :: f64
  pt_RealizedPnL :: f64
  pt_Fees :: f64
  pt_CreatedAt :: int

end
