(* ===== verification/Plan.thy ===== *)
theory Plan
  imports Domain
begin

section \<open>Subscription plans, resource limits and compliance gates\<close>

text \<open>
  Models \<^verbatim>\<open>internal/plan\<close> (the limits of each plan and the checks against them) and
  \<^verbatim>\<open>internal/compliance\<close> (whether an account may trade).
\<close>

subsection \<open>Limits per plan\<close>

definition AccountLive :: string where "AccountLive = ''live''"
definition PerUserOrdersPerSecCap :: int where "PerUserOrdersPerSecCap = 10"
definition BrokerCredOrdersPerSecCap :: int where "BrokerCredOrdersPerSecCap = 10"

definition ValidPlans :: "string list" where
  "ValidPlans = [PlanFree, PlanPaper, PlanPro, PlanProPlus]"

record limits =
  MaxPaperAccounts :: int
  MaxPaperWebhooks :: int
  MaxLiveWebhooks :: int
  MaxBrokers :: int
  MaxPaperTradesPerMonth :: int
  LiveAllowed :: bool
  OrdersPerSec :: int
  AuditLogs :: bool
  AdvancedWebhookGuards :: bool
  Notifications :: bool
  MultiProductCredentials :: bool

datatype plan_err =
    ErrLiveNotAllowed
  | ErrWebhookLimitReached int
  | ErrBrokerLimitReached int
  | ErrAuditLogsNotAllowed
  | ErrAdvancedWebhookGuardsNotAllowed
  | ErrNotificationsNotAllowed
  | ErrInvalidAccountMode
  | ErrPaperAccountLimitReached int
  | ErrPaperTradeQuotaExceeded
  | ErrCredentialNotFound

definition limits_free :: limits where
  "limits_free = \<lparr> MaxPaperAccounts = 1, MaxPaperWebhooks = 1, MaxLiveWebhooks = 0, MaxBrokers = 0,
     MaxPaperTradesPerMonth = 10, LiveAllowed = False, OrdersPerSec = 1, AuditLogs = False,
     AdvancedWebhookGuards = False, Notifications = False, MultiProductCredentials = False \<rparr>"

text \<open>\<^verbatim>\<open>plan.LimitsFor\<close>: an unknown plan name has the limits of the free plan.\<close>

definition LimitsFor :: "string \<Rightarrow> limits" where
  "LimitsFor plan =
     (if plan = PlanFree then limits_free
      else if plan = PlanPaper then
        \<lparr> MaxPaperAccounts = 3, MaxPaperWebhooks = 5, MaxLiveWebhooks = 0, MaxBrokers = 0,
          MaxPaperTradesPerMonth = 0, LiveAllowed = False, OrdersPerSec = 5, AuditLogs = True,
          AdvancedWebhookGuards = True, Notifications = True, MultiProductCredentials = False \<rparr>
      else if plan = PlanPro then
        \<lparr> MaxPaperAccounts = 5, MaxPaperWebhooks = 8, MaxLiveWebhooks = 1, MaxBrokers = 1,
          MaxPaperTradesPerMonth = 0, LiveAllowed = True, OrdersPerSec = 10, AuditLogs = True,
          AdvancedWebhookGuards = True, Notifications = True, MultiProductCredentials = False \<rparr>
      else if plan = PlanProPlus then
        \<lparr> MaxPaperAccounts = 10, MaxPaperWebhooks = 15, MaxLiveWebhooks = 5, MaxBrokers = 3,
          MaxPaperTradesPerMonth = 0, LiveAllowed = True, OrdersPerSec = 10, AuditLogs = True,
          AdvancedWebhookGuards = True, Notifications = True, MultiProductCredentials = True \<rparr>
      else limits_free)"

text \<open>\<^verbatim>\<open>plan.EffectivePlan\<close> and \<^verbatim>\<open>plan.EffectivePlanForUser\<close>.\<close>

definition EffectivePlan :: "string \<Rightarrow> string" where
  "EffectivePlan billingPlan = billingPlan"

definition EffectivePlanForUser :: "user option \<Rightarrow> string" where
  "EffectivePlanForUser u = (case u of None \<Rightarrow> PlanFree | Some u \<Rightarrow> EffectivePlan (u_Plan u))"

definition IsValidAccountMode :: "string \<Rightarrow> bool" where
  "IsValidAccountMode mode = (mode = AccountLive)"

definition NormalizeAccountMode :: "string \<Rightarrow> string \<Rightarrow> plan_err + string" where
  "NormalizeAccountMode planName requested =
     (let mode = (if requested = [] then AccountLive else requested) in
      if \<not> IsValidAccountMode mode then Inl ErrInvalidAccountMode
      else if \<not> LiveAllowed (LimitsFor planName) then Inl ErrLiveNotAllowed
      else Inr mode)"

definition CanUseCredential :: "string \<Rightarrow> broker_credential option \<Rightarrow> plan_err option" where
  "CanUseCredential planName cred =
     (case cred of
        None \<Rightarrow> Some ErrCredentialNotFound
      | Some cred \<Rightarrow>
          (let mode = (if bc_AccountMode cred = [] then AccountLive else bc_AccountMode cred) in
           if mode = AccountLive \<and> \<not> LiveAllowed (LimitsFor planName) then Some ErrLiveNotAllowed
           else None))"

definition CanViewAuditLogs :: "string \<Rightarrow> plan_err option" where
  "CanViewAuditLogs planName =
     (if \<not> AuditLogs (LimitsFor planName) then Some ErrAuditLogsNotAllowed else None)"

definition CanReceiveNotifications :: "string \<Rightarrow> plan_err option" where
  "CanReceiveNotifications planName =
     (if \<not> Notifications (LimitsFor planName) then Some ErrNotificationsNotAllowed else None)"

definition PaperTradesUnlimited :: "string \<Rightarrow> bool" where
  "PaperTradesUnlimited planName = (MaxPaperTradesPerMonth (LimitsFor planName) = 0)"

definition CanPlacePaperTrade :: "string \<Rightarrow> int \<Rightarrow> plan_err option" where
  "CanPlacePaperTrade planName usedThisMonth =
     (let limits = LimitsFor planName in
      if MaxPaperTradesPerMonth limits = 0 then None
      else if MaxPaperTradesPerMonth limits \<le> usedThisMonth then Some ErrPaperTradeQuotaExceeded
      else None)"

definition EnforceOrdersPerSec :: "string \<Rightarrow> int" where
  "EnforceOrdersPerSec userPlan =
     (if userPlan = PlanFree then 1
      else if userPlan = PlanPaper then 5
      else if userPlan = PlanPro \<or> userPlan = PlanProPlus then PerUserOrdersPerSecCap
      else 1)"

definition OrderRateLimits :: "string \<Rightarrow> int option \<times> int \<times> int" where
  "OrderRateLimits userPlan =
     (Some (OrdersPerSec (LimitsFor userPlan)), EnforceOrdersPerSec userPlan,
      BrokerCredOrdersPerSecCap)"

definition CanConfigureAdvancedWebhookGuards :: "string \<Rightarrow> plan_err option" where
  "CanConfigureAdvancedWebhookGuards planName =
     (if AdvancedWebhookGuards (LimitsFor planName) then None
      else Some ErrAdvancedWebhookGuardsNotAllowed)"

text \<open>\<^verbatim>\<open>internal/plan/limits.go\<close>.\<close>

definition MaxWebhooks :: "string \<Rightarrow> int" where
  "MaxWebhooks p = MaxPaperWebhooks (LimitsFor p) + MaxLiveWebhooks (LimitsFor p)"

definition CanAddWebhook :: "int \<Rightarrow> int \<Rightarrow> plan_err option" where
  "CanAddWebhook maxAllowed currentCount =
     (if maxAllowed \<le> currentCount then Some (ErrWebhookLimitReached maxAllowed) else None)"

definition CanAddBroker :: "int \<Rightarrow> int \<Rightarrow> plan_err option" where
  "CanAddBroker maxAllowed currentCount =
     (if maxAllowed \<le> currentCount then Some (ErrBrokerLimitReached maxAllowed) else None)"

definition CanAddPaperAccount :: "string \<Rightarrow> int \<Rightarrow> plan_err option" where
  "CanAddPaperAccount planName currentCount =
     (let max = MaxPaperAccounts (LimitsFor planName) in
      if max \<le> currentCount then Some (ErrPaperAccountLimitReached max) else None)"

subsection \<open>The order of the plans\<close>

text \<open>\<^verbatim>\<open>billing.planRank\<close> ranks the plans; an unknown one ranks with the free plan.\<close>

definition planRank :: "string \<Rightarrow> int" where
  "planRank p = (if p = PlanFree then 0 else if p = PlanPaper then 1 else if p = PlanPro then 2
                 else if p = PlanProPlus then 3 else 0)"

text \<open>One plan's limits are at least another's; no cap on paper trades is the largest cap.\<close>

definition cap_le :: "int \<Rightarrow> int \<Rightarrow> bool" where
  "cap_le a b = (b = 0 \<or> (a \<noteq> 0 \<and> a \<le> b))"

definition limits_le :: "limits \<Rightarrow> limits \<Rightarrow> bool" where
  "limits_le a b =
     (MaxPaperAccounts a \<le> MaxPaperAccounts b \<and> MaxPaperWebhooks a \<le> MaxPaperWebhooks b \<and>
      MaxLiveWebhooks a \<le> MaxLiveWebhooks b \<and> MaxBrokers a \<le> MaxBrokers b \<and>
      cap_le (MaxPaperTradesPerMonth a) (MaxPaperTradesPerMonth b) \<and>
      (LiveAllowed a \<longrightarrow> LiveAllowed b) \<and> OrdersPerSec a \<le> OrdersPerSec b \<and>
      (AuditLogs a \<longrightarrow> AuditLogs b) \<and> (AdvancedWebhookGuards a \<longrightarrow> AdvancedWebhookGuards b) \<and>
      (Notifications a \<longrightarrow> Notifications b) \<and>
      (MultiProductCredentials a \<longrightarrow> MultiProductCredentials b))"

lemma plan_cases:
  obtains "p = PlanFree" | "p = PlanPaper" | "p = PlanPro" | "p = PlanProPlus" | "\<not> IsValidPlan p"
  by (auto simp: IsValidPlan_def)

lemma LimitsFor_simps [simp]:
  "LimitsFor PlanFree = limits_free"
  "\<not> IsValidPlan p \<Longrightarrow> LimitsFor p = limits_free"
  by (auto simp: LimitsFor_def IsValidPlan_def)

lemma plan_names_distinct [simp]: "distinct ValidPlans"
  by (simp add: ValidPlans_def plan_name_defs)

lemma EnforceOrdersPerSec_pos: "0 < EnforceOrdersPerSec p"
  by (simp add: EnforceOrdersPerSec_def PerUserOrdersPerSecCap_def)

lemma EnforceOrdersPerSec_limit: "EnforceOrdersPerSec p = OrdersPerSec (LimitsFor p)"
  by (auto simp: EnforceOrdersPerSec_def LimitsFor_def limits_free_def PerUserOrdersPerSecCap_def
      plan_name_defs)

lemma LiveAllowed_iff: "LiveAllowed (LimitsFor p) \<longleftrightarrow> p = PlanPro \<or> p = PlanProPlus"
  by (auto simp: LimitsFor_def limits_free_def plan_name_defs)

text \<open>
  A plan that ranks at least as high as another grants at least its limits, for every pair of
  plan names, unknown ones included: an upgrade never takes a resource or a feature away.
\<close>

theorem limits_monotone: "planRank p \<le> planRank q \<Longrightarrow> limits_le (LimitsFor p) (LimitsFor q)"
  by (auto simp: planRank_def LimitsFor_def limits_free_def limits_le_def cap_le_def plan_name_defs
      split: if_splits)

theorem limits_monotone_witness:
  "planRank ''free'' \<le> planRank ''pro'' \<and> limits_le (LimitsFor ''free'') (LimitsFor ''pro'')"
  using limits_monotone [of "''free''" "''pro''"] by (simp add: planRank_def plan_name_defs)

subsection \<open>Compliance\<close>

datatype compliance_err = ErrAccountSuspended | ErrOrgSuspended

definition UserMayTrade :: "user option \<Rightarrow> compliance_err option" where
  "UserMayTrade u =
     (case u of
        None \<Rightarrow> Some ErrAccountSuspended
      | Some u \<Rightarrow>
          (let status = (if u_Status u = [] then StatusActive else u_Status u) in
           if status = StatusSuspended then Some ErrAccountSuspended else None))"

definition OrgMayTrade :: "organization option \<Rightarrow> compliance_err option" where
  "OrgMayTrade org =
     (case org of
        None \<Rightarrow> None
      | Some o' \<Rightarrow> (if o_Status o' \<noteq> StatusActive then Some ErrOrgSuspended else None))"

definition WebhookMayTrade :: "user option \<Rightarrow> organization option \<Rightarrow> compliance_err option" where
  "WebhookMayTrade u org =
     (case UserMayTrade u of Some e \<Rightarrow> Some e | None \<Rightarrow> OrgMayTrade org)"

definition compliance_text :: "compliance_err \<Rightarrow> string" where
  "compliance_text e = (case e of ErrAccountSuspended \<Rightarrow> ''account suspended''
                                | ErrOrgSuspended \<Rightarrow> ''organization suspended'')"

lemma WebhookMayTrade_None_iff:
  "WebhookMayTrade u org = None \<longleftrightarrow>
     (\<exists>v. u = Some v \<and> u_Status v \<noteq> StatusSuspended) \<and>
     (\<forall>o'. org = Some o' \<longrightarrow> o_Status o' = StatusActive)"
  by (auto simp: WebhookMayTrade_def UserMayTrade_def OrgMayTrade_def Let_def status_defs
      split: option.splits if_splits)

end
