(* ===== verification/PaperEngine.thy ===== *)
theory PaperEngine
  imports Domain
begin

section \<open>The paper trading engine\<close>

text \<open>
  Models \<^verbatim>\<open>internal/paperengine/fill.go\<close> and \<^verbatim>\<open>engine.go\<close>: validation of an order, the
  fill rules for a signed position (positive long, negative short), slippage and fees, and the
  outcome that the store persists. Identifiers the code draws with \<^verbatim>\<open>uuid.NewString\<close> are
  arguments, in the order the code draws them. Go may not fuse a multiplication and an addition
  on amd64, the platform of the deployment, so every operation rounds.
\<close>

subsection \<open>Order validation\<close>

text \<open>\<^verbatim>\<open>isMultiple\<close>: the tolerance is the double nearest to one millionth.\<close>

definition tolerance :: f64 where
  "tolerance = fround (1 / 1000000)"

definition isMultiple :: "f64 \<Rightarrow> f64 \<Rightarrow> bool" where
  "isMultiple value step =
     (if step \<le> 0 then True
      else (let ratio = value / step in fabs (ratio - fmath_round ratio) < tolerance))"

definition reason_side :: "string \<Rightarrow> string" where
  "reason_side s = ''unsupported side '' @ fmt_q s"

definition reason_market_price :: string where
  "reason_market_price = ''price is required for paper MARKET order until live data feed is enabled''"

definition reason_limit_price :: string where
  "reason_limit_price = ''price is required for paper LIMIT order in v1''"

definition reason_order_type :: "string \<Rightarrow> string" where
  "reason_order_type s = ''unsupported order type '' @ fmt_q s"

definition reason_tick :: "f64 \<Rightarrow> f64 \<Rightarrow> string" where
  "reason_tick p t = ''price '' @ fmt_f4 p @ '' is not a multiple of tick size '' @ fmt_f4 t"

definition reason_lot :: "f64 \<Rightarrow> f64 \<Rightarrow> string" where
  "reason_lot q l = ''quantity '' @ fmt_f4 q @ '' is not a multiple of lot size '' @ fmt_f4 l"

definition reason_no_position :: string where
  "reason_no_position = ''No open position to close''"

definition reason_quantity :: string where
  "reason_quantity = ''quantity must be greater than zero''"

text \<open>\<^verbatim>\<open>validateOrder\<close>: the rejection reason, the empty string when the order is valid.\<close>

definition validateOrder :: "exec_request \<Rightarrow> string" where
  "validateOrder req =
     (if \<not> (er_Side req = SideBuy \<or> er_Side req = SideSell \<or> er_Side req = SideClose)
      then reason_side (er_Side req)
      else if er_OrderType req = OrderTypeMarket \<and> er_Price req \<le> 0 then reason_market_price
      else if er_OrderType req = OrderTypeLimit \<and> er_Price req \<le> 0 then reason_limit_price
      else if er_OrderType req \<noteq> OrderTypeMarket \<and> er_OrderType req \<noteq> OrderTypeLimit
      then reason_order_type (er_OrderType req)
      else if 0 < er_TickSize req \<and> \<not> isMultiple (er_Price req) (er_TickSize req)
      then reason_tick (er_Price req) (er_TickSize req)
      else if er_Side req \<noteq> SideClose \<and> 0 < er_LotSize req \<and>
              \<not> isMultiple (er_Quantity req) (er_LotSize req)
      then reason_lot (er_Quantity req) (er_LotSize req)
      else [])"

subsection \<open>Position arithmetic\<close>

text \<open>\<^verbatim>\<open>resolveCloseSide\<close>: the side and quantity that flatten a position.\<close>

definition resolveCloseSide :: "f64 \<Rightarrow> (string \<times> f64) option" where
  "resolveCloseSide currentQty =
     (if feq currentQty 0 then None
      else if 0 < currentQty then Some (SideSell, currentQty)
      else Some (SideBuy, - currentQty))"

text \<open>\<^verbatim>\<open>applyBuy\<close> and \<^verbatim>\<open>applySell\<close>: new quantity, new average price, realized profit.\<close>

definition applyBuy :: "f64 \<Rightarrow> f64 \<Rightarrow> f64 \<Rightarrow> f64 \<Rightarrow> f64 \<times> f64 \<times> f64" where
  "applyBuy currentQty currentAvg qty fillPrice =
     (if 0 \<le> currentQty then
        (let newQty = currentQty + qty;
             newAvg = (currentAvg * currentQty + fillPrice * qty) / newQty
         in (newQty, newAvg, 0))
      else
        (let shortQty = - currentQty in
         if qty \<le> shortQty then
           (let realizedPnL = (currentAvg - fillPrice) * qty;
                newQty = currentQty + qty;
                newAvg = (if feq newQty 0 then 0 else currentAvg)
            in (newQty, newAvg, realizedPnL))
         else
           (let realizedPnL = (currentAvg - fillPrice) * shortQty;
                newQty = qty - shortQty
            in (newQty, fillPrice, realizedPnL))))"

definition applySell :: "f64 \<Rightarrow> f64 \<Rightarrow> f64 \<Rightarrow> f64 \<Rightarrow> f64 \<times> f64 \<times> f64" where
  "applySell currentQty currentAvg qty fillPrice =
     (if currentQty \<le> 0 then
        (let absCurrent = - currentQty;
             newQty = currentQty - qty;
             newAvg = (currentAvg * absCurrent + fillPrice * qty) / (- newQty)
         in (newQty, newAvg, 0))
      else
        (let longQty = currentQty in
         if qty \<le> longQty then
           (let realizedPnL = (fillPrice - currentAvg) * qty;
                newQty = currentQty - qty;
                newAvg = (if feq newQty 0 then 0 else currentAvg)
            in (newQty, newAvg, realizedPnL))
         else
           (let realizedPnL = (fillPrice - currentAvg) * longQty;
                newQty = - (qty - longQty)
            in (newQty, fillPrice, realizedPnL))))"

subsection \<open>Filling an order\<close>

text \<open>\<^verbatim>\<open>store.PaperFillOutcome\<close>.\<close>

record fill_outcome =
  fo_Order :: paper_order
  fo_Position :: "paper_position option"
  fo_Trade :: "paper_trade option"
  fo_NewCashBalance :: "f64 option"

text \<open>The identifiers drawn for the order, the position (when it is new) and the trade.\<close>

record fresh_ids =
  id_order :: string
  id_position :: string
  id_trade :: string

definition base_order :: "fresh_ids \<Rightarrow> int \<Rightarrow> paper_account \<Rightarrow> exec_request \<Rightarrow> paper_order" where
  "base_order ids now account req =
     \<lparr> po_ID = id_order ids, po_UserID = pa_UserID account, po_PaperAccountID = er_AccountID req,
       po_WebhookID = (if er_WebhookID req \<noteq> [] then Some (er_WebhookID req) else None),
       po_SignalID = er_SignalID req, po_Symbol = er_Symbol req, po_Exchange = er_Exchange req,
       po_Side = er_Side req, po_OrderType = er_OrderType req, po_Product = er_Product req,
       po_Quantity = er_Quantity req,
       po_RequestedPrice = (if 0 < er_Price req then Some (er_Price req) else None),
       po_FillPrice = None, po_Status = [], po_Reason = [], po_RawSignal = er_RawSignal req,
       po_CreatedAt = now, po_UpdatedAt = now \<rparr>"

definition reject_order :: "paper_order \<Rightarrow> string \<Rightarrow> fill_outcome" where
  "reject_order o' reason =
     \<lparr> fo_Order = o'\<lparr>po_Status := PaperOrderStatusRejected, po_Reason := reason\<rparr>,
       fo_Position = None, fo_Trade = None, fo_NewCashBalance = None \<rparr>"

text \<open>The concrete side and quantity of a valid order, or the reason it is rejected.\<close>

definition resolve_order :: "exec_request \<Rightarrow> f64 \<Rightarrow> string + (string \<times> f64)" where
  "resolve_order req currentQty =
     (if er_Side req = SideClose then
        (case resolveCloseSide currentQty of
           None \<Rightarrow> Inl reason_no_position
         | Some sq \<Rightarrow> Inr sq)
      else if er_Quantity req \<le> 0 then Inl reason_quantity
      else Inr (er_Side req, er_Quantity req))"

text \<open>Slippage moves the price against the side of the fill.\<close>

definition slipped_price :: "string \<Rightarrow> f64 \<Rightarrow> f64 \<Rightarrow> f64" where
  "slipped_price side slippageBps price =
     (if 0 < slippageBps then
        (if side = SideBuy then price * (1 + slippageBps / Fin 10000)
         else if side = SideSell then price * (1 - slippageBps / Fin 10000)
         else price)
      else price)"

text \<open>New quantity, new average, realized profit and change of cash before the fee.\<close>

definition apply_fill :: "string \<Rightarrow> f64 \<Rightarrow> f64 \<Rightarrow> f64 \<Rightarrow> f64 \<Rightarrow> f64 \<times> f64 \<times> f64 \<times> f64" where
  "apply_fill side currentQty currentAvg qty fillPrice =
     (if side = SideBuy then
        (case applyBuy currentQty currentAvg qty fillPrice of
           (newQty, newAvg, pnl) \<Rightarrow> (newQty, newAvg, pnl, (- fillPrice) * qty))
      else if side = SideSell then
        (case applySell currentQty currentAvg qty fillPrice of
           (newQty, newAvg, pnl) \<Rightarrow> (newQty, newAvg, pnl, fillPrice * qty))
      else (0, 0, 0, 0))"

definition fill_fee :: "f64 \<Rightarrow> f64 \<Rightarrow> f64 \<Rightarrow> f64" where
  "fill_fee fillPrice qty feeBps = fillPrice * qty * feeBps / Fin 10000"

text \<open>The position and the trade that a fill leaves.\<close>

definition new_position ::
  "fresh_ids \<Rightarrow> int \<Rightarrow> paper_account \<Rightarrow> paper_position option \<Rightarrow> exec_request \<Rightarrow>
   f64 \<Rightarrow> f64 \<Rightarrow> f64 \<Rightarrow> paper_position" where
  "new_position ids now account position req fillPrice newQty newAvg =
     \<lparr> pp_ID = (case position of Some p \<Rightarrow> pp_ID p | None \<Rightarrow> id_position ids),
       pp_UserID = pa_UserID account, pp_PaperAccountID = er_AccountID req,
       pp_Symbol = er_Symbol req, pp_Exchange = er_Exchange req,
       pp_Product = er_Product req, pp_Quantity = newQty,
       pp_AvgEntryPrice = newAvg, pp_LastPrice = fillPrice,
       pp_UnrealizedPnL = UnrealizedPnL newQty newAvg fillPrice,
       pp_CreatedAt = (case position of Some p \<Rightarrow> pp_CreatedAt p | None \<Rightarrow> now),
       pp_UpdatedAt = now \<rparr>"

definition new_trade ::
  "fresh_ids \<Rightarrow> int \<Rightarrow> paper_account \<Rightarrow> exec_request \<Rightarrow> string \<Rightarrow> f64 \<Rightarrow> f64 \<Rightarrow> f64 \<Rightarrow> f64 \<Rightarrow>
   paper_trade" where
  "new_trade ids now account req side qty fillPrice realizedPnL fee =
     \<lparr> pt_ID = id_trade ids, pt_UserID = pa_UserID account,
       pt_PaperAccountID = er_AccountID req, pt_OrderID = id_order ids,
       pt_Symbol = er_Symbol req, pt_Exchange = er_Exchange req,
       pt_Side = side, pt_Quantity = qty, pt_Price = fillPrice,
       pt_RealizedPnL = realizedPnL, pt_Fees = fee, pt_CreatedAt = now \<rparr>"

text \<open>\<^verbatim>\<open>computeFill\<close>.\<close>

definition computeFill ::
  "fresh_ids \<Rightarrow> int \<Rightarrow> paper_account \<Rightarrow> paper_position option \<Rightarrow> exec_request \<Rightarrow> fill_outcome" where
  "computeFill ids now account position req =
     (let baseOrder = base_order ids now account req;
          reason = validateOrder req in
      if reason \<noteq> [] then reject_order baseOrder reason
      else
        (let currentQty = (case position of None \<Rightarrow> 0 | Some p \<Rightarrow> pp_Quantity p);
             currentAvg = (case position of None \<Rightarrow> 0 | Some p \<Rightarrow> pp_AvgEntryPrice p) in
         case resolve_order req currentQty of
           Inl reason \<Rightarrow> reject_order baseOrder reason
         | Inr (side, qty) \<Rightarrow>
             (let fillPrice = slipped_price side (er_SlippageBps req) (er_Price req) in
              case apply_fill side currentQty currentAvg qty fillPrice of
                (newQty, newAvg, realizedPnL, cashDelta0) \<Rightarrow>
                  (let fee = fill_fee fillPrice qty (er_FeeBps req);
                       cashDelta = cashDelta0 - fee
                   in \<lparr> fo_Order = baseOrder\<lparr>po_Status := PaperOrderStatusFilled,
                                              po_FillPrice := Some fillPrice\<rparr>,
                        fo_Position =
                          Some (new_position ids now account position req fillPrice newQty newAvg),
                        fo_Trade =
                          Some (new_trade ids now account req side qty fillPrice realizedPnL fee),
                        fo_NewCashBalance = Some (pa_CashBalance account + cashDelta) \<rparr>))))"

text \<open>\<^verbatim>\<open>Engine.Execute\<close>: the result built from what the store persisted.\<close>

definition result_of_outcome :: "fill_outcome \<Rightarrow> exec_result" where
  "result_of_outcome outcome =
     zero_result\<lparr> xr_OrderID := po_ID (fo_Order outcome), xr_Status := po_Status (fo_Order outcome),
       xr_Reason := po_Reason (fo_Order outcome),
       xr_FillPrice := (case po_FillPrice (fo_Order outcome) of None \<Rightarrow> 0 | Some p \<Rightarrow> p),
       xr_RealizedPnL := (case fo_Trade outcome of None \<Rightarrow> 0 | Some t \<Rightarrow> pt_RealizedPnL t) \<rparr>"

subsection \<open>Outcomes\<close>

abbreviation held :: "paper_position option \<Rightarrow> f64" where
  "held position \<equiv> (case position of None \<Rightarrow> 0 | Some p \<Rightarrow> pp_Quantity p)"

abbreviation held_avg :: "paper_position option \<Rightarrow> f64" where
  "held_avg position \<equiv> (case position of None \<Rightarrow> 0 | Some p \<Rightarrow> pp_AvgEntryPrice p)"

abbreviation fill_price :: "string \<Rightarrow> exec_request \<Rightarrow> f64" where
  "fill_price side req \<equiv> slipped_price side (er_SlippageBps req) (er_Price req)"

lemma reasons_not_Nil [simp]:
  "reason_side s \<noteq> []" "reason_market_price \<noteq> []" "reason_limit_price \<noteq> []"
  "reason_order_type s \<noteq> []" "reason_tick p t \<noteq> []" "reason_lot p t \<noteq> []"
  "reason_no_position \<noteq> []" "reason_quantity \<noteq> []"
  by (simp_all add: reason_side_def reason_market_price_def reason_limit_price_def
      reason_order_type_def reason_tick_def reason_lot_def reason_no_position_def
      reason_quantity_def)

lemma computeFill_rejects:
  "validateOrder req \<noteq> [] \<Longrightarrow>
     computeFill ids now account position req
       = reject_order (base_order ids now account req) (validateOrder req)"
  "validateOrder req = [] \<Longrightarrow> resolve_order req (held position) = Inl reason \<Longrightarrow>
     computeFill ids now account position req
       = reject_order (base_order ids now account req) reason"
  by (simp_all add: computeFill_def Let_def)

lemma resolve_order_Inl: "resolve_order req q = Inl reason \<Longrightarrow> reason \<noteq> []"
  by (auto simp: resolve_order_def split: if_splits option.splits)

lemma computeFill_filled:
  "validateOrder req = [] \<Longrightarrow> resolve_order req (held position) = Inr (side, qty) \<Longrightarrow>
   apply_fill side (held position) (held_avg position) qty (fill_price side req)
     = (newQty, newAvg, pnl, delta) \<Longrightarrow>
   computeFill ids now account position req =
     \<lparr> fo_Order = (base_order ids now account req)
         \<lparr>po_Status := PaperOrderStatusFilled, po_FillPrice := Some (fill_price side req)\<rparr>,
       fo_Position =
         Some (new_position ids now account position req (fill_price side req) newQty newAvg),
       fo_Trade = Some (new_trade ids now account req side qty (fill_price side req) pnl
                          (fill_fee (fill_price side req) qty (er_FeeBps req))),
       fo_NewCashBalance = Some (pa_CashBalance account
         + (delta - fill_fee (fill_price side req) qty (er_FeeBps req))) \<rparr>"
  by (simp add: computeFill_def Let_def)

lemma computeFill_cases:
  obtains
    (rejected) reason where
      "computeFill ids now account position req
         = reject_order (base_order ids now account req) reason" "reason \<noteq> []"
      "validateOrder req = reason \<or>
       validateOrder req = [] \<and> resolve_order req (held position) = Inl reason"
  | (filled) side qty newQty newAvg pnl delta where
      "validateOrder req = []" "resolve_order req (held position) = Inr (side, qty)"
      "apply_fill side (held position) (held_avg position) qty (fill_price side req)
         = (newQty, newAvg, pnl, delta)"
proof (cases "validateOrder req = []")
  case True
  show ?thesis
  proof (cases "resolve_order req (held position)")
    case (Inl reason)
    with True show ?thesis using rejected resolve_order_Inl computeFill_rejects(2) by metis
  next
    case (Inr sq)
    with True show ?thesis by (metis filled prod_cases4 surj_pair)
  qed
qed (use rejected computeFill_rejects(1) in blast)

text \<open>The condition under which an order fills, as the code tests it.\<close>

definition accepted :: "exec_request \<Rightarrow> paper_position option \<Rightarrow> bool" where
  "accepted req position =
     (validateOrder req = [] \<and>
      (if er_Side req = SideClose then \<not> feq (held position) 0 else \<not> er_Quantity req \<le> 0))"

lemma accepted_iff: "accepted req position \<longleftrightarrow>
   validateOrder req = [] \<and> (\<exists>sq. resolve_order req (held position) = Inr sq)"
  by (auto simp: accepted_def resolve_order_def resolveCloseSide_def split: if_splits)

lemma fill_or_reject_aux:
  "let out = computeFill ids now account position req; ok = accepted req position in
   po_Status (fo_Order out) = (if ok then PaperOrderStatusFilled else PaperOrderStatusRejected)
   \<and> (po_Reason (fo_Order out) = []) = ok \<and> (fo_Position out \<noteq> None) = ok
   \<and> (fo_Trade out \<noteq> None) = ok \<and> (fo_NewCashBalance out \<noteq> None) = ok
   \<and> (po_FillPrice (fo_Order out) \<noteq> None) = ok"
proof (cases rule: computeFill_cases [of ids now account position req])
  case (rejected reason)
  then have "\<not> accepted req position" by (auto simp: accepted_iff)
  with rejected show ?thesis by (simp add: reject_order_def base_order_def)
next
  case (filled side qty newQty newAvg pnl delta)
  then have "accepted req position" by (auto simp: accepted_iff)
  with computeFill_filled [OF filled] show ?thesis by (simp add: base_order_def)
qed


text \<open>
  C25. An order either fills completely or is rejected completely: it is FILLED, with a fill price, a
  position, a trade, a new cash balance and no reason, exactly when it passes validation and has a
  quantity to trade (a CLOSE needs an open position, any other side a positive quantity); otherwise
  it is REJECTED with a reason and carries none of them.
\<close>

theorem fill_or_reject:
  "let out = computeFill ids now account position req; ok = accepted req position in
   po_Status (fo_Order out) = (if ok then PaperOrderStatusFilled else PaperOrderStatusRejected)
   \<and> (po_Reason (fo_Order out) = []) = ok \<and> (fo_Position out \<noteq> None) = ok
   \<and> (fo_Trade out \<noteq> None) = ok \<and> (fo_NewCashBalance out \<noteq> None) = ok
   \<and> (po_FillPrice (fo_Order out) \<noteq> None) = ok"
  by (rule fill_or_reject_aux)
lemma resolve_close:
  "er_Side req = SideClose \<Longrightarrow> q \<noteq> 0 \<Longrightarrow>
   resolve_order req (Fin q) = Inr (if 0 < q then SideSell else SideBuy, Fin \<bar>q\<bar>)"
  by (simp add: resolve_order_def resolveCloseSide_def)

lemma apply_fill_close:
  "q \<noteq> 0 \<Longrightarrow> fst (apply_fill (if 0 < q then SideSell else SideBuy) (Fin q) avg (Fin \<bar>q\<bar>) price) = 0"
  "q \<noteq> 0 \<Longrightarrow> fst (snd (apply_fill (if 0 < q then SideSell else SideBuy) (Fin q) avg (Fin \<bar>q\<bar>) price)) = 0"
  by (auto simp: apply_fill_def applyBuy_def applySell_def Let_def side_defs)

lemma close_outcome:
  assumes "er_Side req = SideClose" "validateOrder req = []"
    and "pp_Quantity p = Fin q" "q \<noteq> 0"
  shows "\<exists>p' t. fo_Position (computeFill ids now account (Some p) req) = Some p'
            \<and> pp_Quantity p' = 0 \<and> pp_AvgEntryPrice p' = 0 \<and> pp_UnrealizedPnL p' = 0
            \<and> fo_Trade (computeFill ids now account (Some p) req) = Some t
            \<and> pt_Quantity t = Fin \<bar>q\<bar> \<and> pt_Side t = (if 0 < q then SideSell else SideBuy)"
proof -
  let ?side = "if 0 < q then SideSell else SideBuy"
  obtain nq na pnl delta where af: "apply_fill ?side (Fin q) (pp_AvgEntryPrice p) (Fin \<bar>q\<bar>)
      (fill_price ?side req) = (nq, na, pnl, delta)" by (metis prod_cases4)
  have "nq = 0" "na = 0" using apply_fill_close [OF assms(4)] af by (metis fst_conv snd_conv)+
  have "resolve_order req (held (Some p)) = Inr (?side, Fin \<bar>q\<bar>)"
    using assms resolve_close by simp
  moreover have "apply_fill ?side (held (Some p)) (held_avg (Some p)) (Fin \<bar>q\<bar>)
      (fill_price ?side req) = (nq, na, pnl, delta)" using af assms(3) by simp
  ultimately show ?thesis using \<open>nq = 0\<close> \<open>na = 0\<close>
    by (simp only: computeFill_filled [OF assms(2)] new_position_def new_trade_def) (simp add: UnrealizedPnL_def)
qed

text \<open>
  A valid CLOSE of a position of any finite size, long or short, flattens it exactly: the new
  quantity, average price and unrealized profit are zero, and the trade is for the whole size on
  the opposite side, whatever rounding the price and slippage suffer.
\<close>

theorem close_flattens:
  assumes "er_Side req = SideClose" "validateOrder req = []"
    and "pp_Quantity p = Fin q" "q \<noteq> 0"
  shows "\<exists>p' t. fo_Position (computeFill ids now account (Some p) req) = Some p'
            \<and> pp_Quantity p' = 0 \<and> pp_AvgEntryPrice p' = 0 \<and> pp_UnrealizedPnL p' = 0
            \<and> fo_Trade (computeFill ids now account (Some p) req) = Some t
            \<and> pt_Quantity t = Fin \<bar>q\<bar> \<and> pt_Side t = (if 0 < q then SideSell else SideBuy)"
  using assms by (rule close_outcome)

lemma applySell_mirror_aux:
  "applySell q avg n p = (case applyBuy (- q) avg n p of (nq, na, pnl) \<Rightarrow> (- nq, na, - pnl))"
proof (cases "q \<le> 0")
  case True
  then show ?thesis
    by (simp add: applySell_def applyBuy_def Let_def f64_neg_simps f64_neg_zero f64_minus_eq)
next
  case False
  have "(- avg + p) * x = - ((avg + - p) * x)" for x
    using f64_neg_simps(4) [of "avg + - p" x] by (simp add: f64_neg_simps(1,2))
  moreover have "feq (- q + n) (Fin 0) = feq (q + - n) (Fin 0)"
    using f64_neg_zero(3) [of "q + - n"] by (simp add: f64_neg_simps(1,2))
  ultimately show ?thesis using False
    by (simp add: applySell_def applyBuy_def Let_def f64_neg_simps f64_neg_zero f64_minus_eq
        f64_add_commute [of p] f64_add_commute [of n])
qed

text \<open>
  \<^verbatim>\<open>applySell\<close> is the mirror image of \<^verbatim>\<open>applyBuy\<close>, as its comment says, for every double,
  infinities and NaN included: selling from a position is buying from the negated one, with the new
  quantity and the realized profit negated and the same average price.
\<close>

theorem applySell_mirror:
  "applySell q avg n p = (case applyBuy (- q) avg n p of (nq, na, pnl) \<Rightarrow> (- nq, na, - pnl))"
  by (rule applySell_mirror_aux)

subsection \<open>Quantities\<close>

lemma applyBuy_quantity:
  assumes "is_double (q + n)" "0 < n"
  shows "fst (applyBuy (Fin q) avg (Fin n) price) = Fin (q + n)"
  using assms by (simp add: applyBuy_def Let_def fround_exact add.commute)

lemma applySell_quantity:
  assumes "is_double (q - n)" "0 < n"
  shows "fst (applySell (Fin q) avg (Fin n) price) = Fin (q - n)"
proof -
  have "is_double (- q + n)" using assms(1) is_double_minus [of "q - n"] by simp
  then show ?thesis using applyBuy_quantity [of "- q" n avg price] assms(2)
    by (simp add: applySell_mirror case_prod_beta)
qed

lemma apply_fill_quantity:
  assumes "side = SideBuy \<or> side = SideSell" "is_double (if side = SideBuy then q + n else q - n)" "0 < n"
  shows "fst (apply_fill side (Fin q) avg (Fin n) price) = Fin (if side = SideBuy then q + n else q - n)"
  using assms applyBuy_quantity [of q n] applySell_quantity [of q n]
  by (auto simp: apply_fill_def case_prod_beta side_defs)

text \<open>
  Whole-number quantities are tracked without error: while the size held and the size ordered
  together stay below \<open>2 ^ 53\<close>, the new signed quantity after a BUY is the exact sum and after a SELL
  the exact difference, on every branch (opening, adding, reducing, closing, flipping).
\<close>

theorem exact_quantity:
  assumes "validateOrder req = []" "er_Side req = SideBuy \<or> er_Side req = SideSell"
    and "held position = Fin (of_int m)" "er_Quantity req = Fin (of_int n)" "0 < n"
    and "\<bar>m\<bar> + n < 2 ^ 53"
  shows "map_option pp_Quantity (fo_Position (computeFill ids now account position req))
           = Some (Fin (of_int (if er_Side req = SideBuy then m + n else m - n)))"
proof -
  let ?side = "er_Side req"
  obtain nq na pnl delta where af: "apply_fill ?side (held position) (held_avg position)
      (er_Quantity req) (fill_price ?side req) = (nq, na, pnl, delta)" by (metis prod_cases4)
  have "is_double (of_int (if ?side = SideBuy then m + n else m - n))"
    using assms(5,6) by (intro is_double_of_int) auto
  then have "nq = Fin (of_int (if ?side = SideBuy then m + n else m - n))"
    using apply_fill_quantity [of ?side "of_int m" "of_int n" "held_avg position" "fill_price ?side req"]
      af assms(2-5) by (auto split: if_splits)
  moreover have "resolve_order req (held position) = Inr (?side, er_Quantity req)"
    using assms(2,4,5) by (auto simp: resolve_order_def side_defs)
  ultimately show ?thesis
    using af by (simp only: computeFill_filled [OF assms(1)]) (simp add: new_position_def)
qed

subsection \<open>Invariant\<close>

definition position_ok :: "paper_position \<Rightarrow> bool" where
  "position_ok p = (wf64 (pp_Quantity p) \<and> (pp_Quantity p = 0 \<longrightarrow> pp_AvgEntryPrice p = 0))"

lemma applyBuy_zero_avg:
  assumes "wf64 q" "wf64 n" "\<not> n \<le> 0" "q = 0 \<longrightarrow> avg = 0"
    and "applyBuy q avg n price = (nq, na, pnl)"
  shows "wf64 nq \<and> (nq = 0 \<longrightarrow> na = 0)"
proof -
  have wf: "wf64 nq"
    using assms by (auto simp: applyBuy_def Let_def f64_op_defs split: if_splits)
  have "na = 0" if z: "nq = Fin 0"
  proof (cases "0 \<le> q")
    case True
    then have "q + n = Fin 0" using assms(5) z by (simp add: applyBuy_def Let_def)
    then have "n = - q" using assms(1,2) by (simp add: f64_add_eq_0)
    with True assms(3) have False
      by (cases q; cases n) (auto simp: f64_op_defs fle_def feq_def)
    then show ?thesis ..
  next
    case False
    show ?thesis
    proof (cases "n \<le> - q")
      case True
      with False z show ?thesis using assms(5) by (auto simp: applyBuy_def Let_def feq_def)
    next
      case n: False
      then have "n + q = Fin 0" using False z assms(5)
        by (auto simp: applyBuy_def Let_def f64_minus_eq f64_neg_simps)
      then have "q = - n" "is_fin n" using assms(1,2) by (auto simp: f64_add_eq_0)
      with n have False by (cases n) (auto simp: f64_op_defs)
      then show ?thesis ..
    qed
  qed
  with wf show ?thesis by simp
qed

lemma applySell_zero_avg:
  assumes "wf64 q" "wf64 n" "\<not> n \<le> 0" "q = 0 \<longrightarrow> avg = 0"
    and "applySell q avg n price = (nq, na, pnl)"
  shows "wf64 nq \<and> (nq = 0 \<longrightarrow> na = 0)"
proof -
  obtain nq' na' pnl' where b: "applyBuy (- q) avg n price = (nq', na', pnl')" by (metis prod_cases3)
  have "wf64 (- q)" "- q = 0 \<longrightarrow> avg = 0"
    using assms by (cases q; auto simp: uminus_f64_def)+
  from applyBuy_zero_avg [OF this(1) assms(2,3) this(2) b] b assms(5) show ?thesis
    by (cases nq') (auto simp: applySell_mirror_aux uminus_f64_def)
qed

lemma apply_fill_zero_avg:
  assumes "wf64 q" "wf64 n" "\<not> n \<le> 0" "q = 0 \<longrightarrow> avg = 0"
    and "apply_fill side q avg n price = (nq, na, pnl, delta)"
  shows "wf64 nq \<and> (nq = 0 \<longrightarrow> na = 0)"
proof (cases "side = SideBuy \<or> side = SideSell")
  case True
  then show ?thesis
    using applyBuy_zero_avg [OF assms(1-4)] applySell_zero_avg [OF assms(1-4)] assms(5)
    by (auto simp: apply_fill_def split: prod.splits if_splits)
next
  case False
  then show ?thesis using assms(5) by (auto simp: apply_fill_def)
qed

lemma resolve_order_qty:
  assumes "resolve_order req q = Inr (side, n)" "wf64 q" "wf64 (er_Quantity req)"
  shows "wf64 n \<and> \<not> n \<le> 0"
proof (cases "er_Side req = SideClose")
  case True
  then show ?thesis using assms(1,2)
    by (cases q) (auto simp: resolve_order_def resolveCloseSide_def f64_op_defs fle_def feq_def
        split: if_splits)
qed (use assms in \<open>auto simp: resolve_order_def split: if_splits\<close>)

text \<open>
  Every fill, on any doubles, leaves a position in which a zero quantity comes with a zero average
  entry price, given one that has this form or none: subtracting doubles never underflows to zero.
\<close>

theorem flat_position_has_no_price:
  assumes "\<forall>p. position = Some p \<longrightarrow> position_ok p" "wf64 (er_Quantity req)"
    and "fo_Position (computeFill ids now account position req) = Some p'"
  shows "position_ok p'"
proof (cases rule: computeFill_cases [of ids now account position req])
  case (filled side qty newQty newAvg pnl delta)
  have wf: "wf64 (held position)" "held position = 0 \<longrightarrow> held_avg position = 0"
    using assms(1) by (auto simp: position_ok_def split: option.splits)
  have "wf64 newQty \<and> (newQty = 0 \<longrightarrow> newAvg = 0)"
    using apply_fill_zero_avg [OF wf(1) _ _ wf(2) filled(3)]
      resolve_order_qty [OF filled(2) wf(1) assms(2)] by blast
  then show ?thesis
    using assms(3) computeFill_filled [OF filled, of ids now account]
    by (auto simp: position_ok_def new_position_def)
qed (use assms in \<open>simp add: reject_order_def\<close>)

subsection \<open>Profit, slippage and fees\<close>

lemma slippage_ratio: "0 \<le> s \<Longrightarrow> s \<le> 10000 \<Longrightarrow> \<exists>r. Fin s / Fin 10000 = Fin r \<and> 0 \<le> r \<and> r \<le> 1"
  using fround_nonneg [of "s / 10000"] fround_le [of 1 "s / 10000"]
  by (cases "fround (s / 10000)") (auto simp: less_eq_f64_def fle_def feq_def)

lemma slipped_adverse:
  assumes "is_double p" "0 < p" "0 \<le> s" "s \<le> 10000"
  shows "Fin p \<le> slipped_price SideBuy (Fin s) (Fin p)"
    "slipped_price SideSell (Fin s) (Fin p) \<le> Fin p" "Fin 0 \<le> slipped_price SideSell (Fin s) (Fin p)"
proof -
  obtain r where r: "Fin s / Fin 10000 = Fin r" "0 \<le> r" "r \<le> 1"
    using slippage_ratio assms(3,4) by blast
  have up: "Fin 1 \<le> fround (1 + r)" using r by (intro fround_ge) auto
  have down: "Fin 0 \<le> fround (1 - r)" "fround (1 - r) \<le> Fin 1"
    using r by (auto intro: fround_nonneg fround_le)
  show "Fin p \<le> slipped_price SideBuy (Fin s) (Fin p)"
    using f64_mul_ge [OF assms(1,2) up] r by (simp add: slipped_price_def)
  show "slipped_price SideSell (Fin s) (Fin p) \<le> Fin p" "Fin 0 \<le> slipped_price SideSell (Fin s) (Fin p)"
    using f64_mul_le [OF assms(1,2) down(2,1)] r assms(2) by (simp_all add: slipped_price_def side_defs)
qed

lemma fee_nonneg:
  assumes "price * Fin n = Fin c" "0 \<le> c" "0 \<le> b"
  shows "Fin 0 \<le> fill_fee price (Fin n) (Fin b)"
proof -
  have "Fin 0 \<le> fround (c * b)" using assms fround_nonneg by simp
  then have "Fin 0 \<le> fround (c * b) / Fin 10000" by (rule f64_div_nonneg) simp
  then show ?thesis by (simp add: fill_fee_def assms(1))
qed

lemma applyBuy_realized:
  assumes "0 < n"
  shows "0 \<le> q \<Longrightarrow> snd (snd (applyBuy (Fin q) (Fin avg) (Fin n) (Fin price))) = 0"
    "q < 0 \<Longrightarrow> price \<le> avg \<Longrightarrow> 0 \<le> snd (snd (applyBuy (Fin q) (Fin avg) (Fin n) (Fin price)))"
    "q < 0 \<Longrightarrow> avg \<le> price \<Longrightarrow> snd (snd (applyBuy (Fin q) (Fin avg) (Fin n) (Fin price))) \<le> 0"
  using assms by (auto simp: applyBuy_def Let_def f64_mul_sign fround_nonneg fround_nonpos)

lemma applySell_realized:
  assumes "0 < n"
  shows "q \<le> 0 \<Longrightarrow> snd (snd (applySell (Fin q) (Fin avg) (Fin n) (Fin price))) = 0"
    "0 < q \<Longrightarrow> avg \<le> price \<Longrightarrow> 0 \<le> snd (snd (applySell (Fin q) (Fin avg) (Fin n) (Fin price)))"
    "0 < q \<Longrightarrow> price \<le> avg \<Longrightarrow> snd (snd (applySell (Fin q) (Fin avg) (Fin n) (Fin price))) \<le> 0"
  using assms by (auto simp: applySell_def Let_def f64_mul_sign fround_nonneg fround_nonpos)

abbreviation realized :: "string \<Rightarrow> f64 \<Rightarrow> f64 \<Rightarrow> f64 \<Rightarrow> f64 \<Rightarrow> f64" where
  "realized side q avg n price \<equiv> fst (snd (snd (apply_fill side q avg n price)))"

text \<open>
  Realized profit has the right sign for all finite doubles, rounding included: opening or adding
  realizes nothing; covering a short at or below its average price realizes no loss and at or above
  it no gain; selling a long at or above its average price realizes no loss and at or below it no
  gain. At the average price exactly zero is realized.
\<close>

theorem realized_sign:
  assumes "0 < n"
  shows "(0 \<le> q \<longrightarrow> realized SideBuy (Fin q) (Fin avg) (Fin n) (Fin price) = 0)
    \<and> (q \<le> 0 \<longrightarrow> realized SideSell (Fin q) (Fin avg) (Fin n) (Fin price) = 0)
    \<and> (q < 0 \<and> price \<le> avg \<longrightarrow> 0 \<le> realized SideBuy (Fin q) (Fin avg) (Fin n) (Fin price))
    \<and> (q < 0 \<and> avg \<le> price \<longrightarrow> realized SideBuy (Fin q) (Fin avg) (Fin n) (Fin price) \<le> 0)
    \<and> (0 < q \<and> avg \<le> price \<longrightarrow> 0 \<le> realized SideSell (Fin q) (Fin avg) (Fin n) (Fin price))
    \<and> (0 < q \<and> price \<le> avg \<longrightarrow> realized SideSell (Fin q) (Fin avg) (Fin n) (Fin price) \<le> 0)"
proof -
  have "realized SideBuy (Fin q) (Fin avg) (Fin n) (Fin price)
          = snd (snd (applyBuy (Fin q) (Fin avg) (Fin n) (Fin price)))"
    "realized SideSell (Fin q) (Fin avg) (Fin n) (Fin price)
          = snd (snd (applySell (Fin q) (Fin avg) (Fin n) (Fin price)))"
    by (simp_all add: apply_fill_def case_prod_beta side_defs)
  then show ?thesis
    using applyBuy_realized [OF assms] applySell_realized [OF assms] by presburger
qed

text \<open>
  Slippage and fees never favour the account: with slippage between 0 and 10000 basis points, a fee
  rate that is not negative and a finite notional, a BUY fills at or above the requested price, a
  SELL between zero and it, the fee is not negative, and cash moves by at most the (rounded)
  notional at the requested price, down for a BUY and up for a SELL.
\<close>

theorem fill_cost:
  assumes "validateOrder req = []" "resolve_order req (held position) = Inr (side, Fin n)" "0 < n"
    and "er_Price req = Fin p" "is_double p" "er_SlippageBps req = Fin s" "0 \<le> s" "s \<le> 10000"
    and "er_FeeBps req = Fin b" "0 \<le> b"
    and "fill_price side req * Fin n = Fin c"
  shows "\<exists>t d. fo_Trade (computeFill ids now account position req) = Some t
     \<and> fo_NewCashBalance (computeFill ids now account position req) = Some (pa_CashBalance account + d)
     \<and> 0 \<le> pt_Fees t
     \<and> (side = SideBuy \<longrightarrow> er_Price req \<le> pt_Price t \<and> d \<le> - (er_Price req * Fin n))
     \<and> (side = SideSell \<longrightarrow> pt_Price t \<le> er_Price req \<and> d \<le> er_Price req * Fin n)"
proof -
  obtain nq na pnl delta where af: "apply_fill side (held position) (held_avg position)
      (Fin n) (fill_price side req) = (nq, na, pnl, delta)" by (metis prod_cases4)
  let ?fee = "fill_fee (fill_price side req) (Fin n) (Fin b)"
  have p: "0 < p" using assms(1,4) by (auto simp: validateOrder_def split: if_splits)
  obtain f where f: "fill_price side req = Fin f" "c = rnd (f * n)" "is_double c"
    using assms(11) by (auto simp: f64_mul_Fin_iff fround_Fin_iff)
  have side: "side = SideBuy \<or> side = SideSell"
    using assms(1,2) by (auto simp: resolve_order_def validateOrder_def resolveCloseSide_def split: if_splits)
  have adv: "side = SideBuy \<Longrightarrow> p \<le> f" "side = SideSell \<Longrightarrow> f \<le> p" "0 \<le> f"
    using slipped_adverse [OF assms(5) p assms(7,8)] f(1) assms(4,6) side p by auto
  have fee: "0 \<le> ?fee"
    using fee_nonneg [OF assms(11) _ assms(10)] f(2) adv(3) assms(3) rnd_nonneg by simp
  have "side = SideBuy \<Longrightarrow> delta - ?fee \<le> - (Fin p * Fin n)"
  proof -
    assume sb: "side = SideBuy"
    then have "p * n \<le> f * n" using adv assms(3) by (simp add: mult_right_mono)
    then have "Fin p * Fin n \<le> Fin c" using fround_mono [of "p * n" "f * n"] f assms(11) by simp
    then have "- Fin c \<le> - (Fin p * Fin n)" unfolding f64_neg_simps .
    moreover have "delta = - Fin c" using af sb assms(11)
      by (auto simp: apply_fill_def f64_neg_simps simp del: f64_ops_Fin split: prod.splits)
    ultimately show ?thesis using f64_sub_le [of "- c" ?fee] f(3) fee f64_le_trans by fastforce
  qed
  moreover have "side = SideSell \<Longrightarrow> delta - ?fee \<le> Fin p * Fin n"
  proof -
    assume ss: "side = SideSell"
    then have "f * n \<le> p * n" using adv assms(3) by (simp add: mult_right_mono)
    then have "Fin c \<le> Fin p * Fin n" using fround_mono [of "f * n" "p * n"] f assms(11) by simp
    moreover have "delta = Fin c" using af ss assms(11)
      by (auto simp: apply_fill_def side_defs split: prod.splits)
    ultimately show ?thesis using f64_sub_le [of c ?fee] f(3) fee f64_le_trans by fastforce
  qed
  ultimately show ?thesis
    using computeFill_filled [OF assms(1,2) af, of ids now account] fee adv f(1) assms(4,9)
    by (auto simp: new_trade_def)
qed

subsection \<open>The average entry price\<close>

lemma weighted_average:
  assumes "0 \<le> q" "0 < n" "q + n \<le> 10 ^ 15"
    and "q = 0 \<or> 1 / 10 ^ 6 \<le> a \<and> a \<le> 10 ^ 12" "1 / 10 ^ 6 \<le> p" "p \<le> 10 ^ 12"
  defines "B \<equiv> a * of_int q + p * of_int n"
  shows "\<exists>v. (Fin a * Fin (of_int q) + Fin p * Fin (of_int n)) / Fin (of_int (q + n)) = Fin v
            \<and> \<bar>v - B / of_int (q + n)\<bar> \<le> 4 * u64 * (B / of_int (q + n))"
proof -
  define s1 s2 s N where d: "s1 = rnd (a * of_int q)" "s2 = rnd (p * of_int n)"
    "s = rnd (s1 + s2)" "N = (of_int (q + n) :: rat)"
  note u = u64_bounds
  have N: "1 \<le> N" "N \<le> 10 ^ 15" using assms(1-3) by (simp_all add: d)
  have qn: "0 \<le> (of_int q :: rat)" "1 \<le> (of_int n :: rat)" "(of_int q :: rat) \<le> 10 ^ 15"
    "(of_int n :: rat) \<le> 10 ^ 15" using assms(1-3) by simp_all
  have "0 \<le> a * of_int q \<and> a * of_int q \<le> 10 ^ 12 * 10 ^ 15"
  proof (cases "q = 0")
    case False
    then have a: "0 \<le> a" "a \<le> 10 ^ 12"
      using assms(4) order_trans [of 0 "1 / 10 ^ 6" a] by simp_all
    then show ?thesis using mult_mono [OF a(2) qn(3)] qn(1) by simp
  qed simp
  moreover have "1 / 10 ^ 6 * 1 \<le> p * of_int n"
    using assms(5) qn by (intro mult_mono) auto
  moreover have "p * of_int n \<le> 10 ^ 12 * 10 ^ 15"
    using assms(5,6) qn by (intro mult_mono) auto
  ultimately have big: "a * of_int q \<le> 10 ^ 12 * 10 ^ 15" "p * of_int n \<le> 10 ^ 12 * 10 ^ 15"
    "0 \<le> a * of_int q" "1 / 10 ^ 6 * 1 \<le> p * of_int n" by simp_all
  have s2: "(1 - u64) * (p * of_int n) \<le> s2 \<and> s2 \<le> (1 + u64) * (p * of_int n)"
    unfolding d by (rule rnd_rel) (rule order_trans [OF _ big(4)], simp)
  have s1: "(1 - u64) * (a * of_int q) \<le> s1 \<and> s1 \<le> (1 + u64) * (a * of_int q)"
  proof (cases "q = 0")
    case False
    then have "1 \<le> (of_int q :: rat)" using assms(1) by simp
    then have "1 / 10 ^ 6 * 1 \<le> a * of_int q" using assms(4) False by (intro mult_mono) auto
    then have "1 / 10 ^ 40 \<le> a * of_int q" by (rule order_trans [rotated]) simp
    then show ?thesis unfolding d by (rule rnd_rel)
  qed (simp add: d)
  have sum: "(1 - u64) * B \<le> s1 + s2" "s1 + s2 \<le> (1 + u64) * B"
    using s1 s2 by (auto simp: B_def algebra_simps)
  have B: "1 / 10 ^ 6 \<le> B" "B \<le> 2 * 10 ^ 27" using big by (simp_all add: B_def)
  have uB: "1 / 10 ^ 7 \<le> (1 - u64) * B" "(1 + u64) * B \<le> 10 ^ 28"
    using mult_mono [of "1 / 10" "1 - u64" "1 / 10 ^ 6" B] mult_mono [of "1 + u64" 2 B "2 * 10 ^ 27"] B u
    by simp_all
  have s: "(1 - u64) * ((1 - u64) * B) \<le> s \<and> s \<le> (1 + u64) * ((1 + u64) * B)"
    unfolding d(3)
    by (rule rnd_interval [OF order_trans [OF _ order_trans [OF uB(1) sum(1)]] sum]) simp
  have us: "1 / 10 ^ 8 \<le> s" "s \<le> 10 ^ 29"
    using s uB u mult_mono [of "1 / 10" "1 - u64" "1 / 10 ^ 7" "(1 - u64) * B"]
      mult_mono [of "1 + u64" 2 "(1 + u64) * B" "10 ^ 28"] B by simp_all
  have q: "1 / 10 ^ 40 \<le> s / N" "s / N \<le> 10 ^ 40"
    using us N mult_mono [of N "10 ^ 15" "1 / 10 ^ 40 :: rat" "1 / 10 ^ 40"] mult_mono [of 1 N s s]
    by (simp_all add: field_simps)
  have v: "(1 - u64) * ((1 - u64) * ((1 - u64) * B) / N) \<le> rnd (s / N)
     \<and> rnd (s / N) \<le> (1 + u64) * ((1 + u64) * ((1 + u64) * B) / N)"
    by (rule rnd_interval [OF q(1)]) (use s N in \<open>simp_all add: divide_right_mono\<close>)
  have BN: "0 \<le> B / N" using B N by simp
  have "(1 - u64) * ((1 - u64) * (1 - u64)) * (B / N) \<le> rnd (s / N)"
    "rnd (s / N) \<le> (1 + u64) * ((1 + u64) * (1 + u64)) * (B / N)"
    using v by (simp_all only: times_divide_eq_right mult.assoc)
  then have "(1 - 4 * u64) * (B / N) \<le> rnd (s / N)" "rnd (s / N) \<le> (1 + 4 * u64) * (B / N)"
    using mult_right_mono [OF u64_cubes(1) BN] mult_right_mono [OF u64_cubes(2) BN] by linarith+
  then have "\<bar>rnd (s / N) - B / N\<bar> \<le> 4 * u64 * (B / N)"
    unfolding abs_le_iff left_diff_distrib distrib_right by linarith
  moreover have "(Fin a * Fin (of_int q) + Fin p * Fin (of_int n)) / Fin N = Fin (rnd (s / N))"
  proof -
    have "Fin a * Fin (of_int q) = Fin s1" "Fin p * Fin (of_int n) = Fin s2" 
      unfolding d f64_ops_Fin using big by (auto intro!: fround_small simp: abs_le_iff)
    moreover have "fround (s1 + s2) = Fin s" unfolding d(3) 
      by (rule fround_small) (use sum uB in \<open>simp add: abs_le_iff\<close>)
    moreover have "fround (s / N) = Fin (rnd (s / N))"
      by (rule fround_small) (use q in \<open>simp add: abs_le_iff\<close>)
    ultimately show ?thesis using N by simp
  qed
  ultimately show ?thesis by (auto simp: d(4))
qed

text \<open>
  Adding to a position, long by BUY or short by SELL, sets the average entry price to the weighted
  average of the old average and the fill price, up to a relative error of \<open>4 / 2 ^ 53\<close>: for whole
  quantities of at most \<open>10 ^ 15\<close> together and prices between one millionth and \<open>10 ^ 12\<close>; an opening
  fill, where the old quantity is zero, included.
\<close>

theorem average_entry_price:
  assumes "0 \<le> q" "0 < n" "q + n \<le> 10 ^ 15"
    and "q = 0 \<or> 1 / 10 ^ 6 \<le> a \<and> a \<le> 10 ^ 12" "1 / 10 ^ 6 \<le> p" "p \<le> 10 ^ 12"
  shows "\<exists>v. fst (snd (apply_fill SideBuy (Fin (of_int q)) (Fin a) (Fin (of_int n)) (Fin p))) = Fin v
     \<and> fst (snd (apply_fill SideSell (Fin (- of_int q)) (Fin a) (Fin (of_int n)) (Fin p))) = Fin v
     \<and> \<bar>v - (a * of_int q + p * of_int n) / of_int (q + n)\<bar>
         \<le> 4 * u64 * ((a * of_int q + p * of_int n) / of_int (q + n))"
proof -
  have "is_double (of_int (q + n))" using assms(1-3) by (intro is_double_of_int) simp
  then have qn: "Fin (of_int q) + Fin (of_int n) = Fin (of_int (q + n))"
    using fround_exact by simp
  have b: "fst (snd (applyBuy (Fin (of_int q)) (Fin a) (Fin (of_int n)) (Fin p)))
      = (Fin a * Fin (of_int q) + Fin p * Fin (of_int n)) / Fin (of_int (q + n))"
    using assms(1) by (simp only: applyBuy_def Let_def qn) simp
  have s: "fst (snd (apply_fill SideSell (Fin (- of_int q)) (Fin a) (Fin (of_int n)) (Fin p)))
      = fst (snd (applyBuy (Fin (of_int q)) (Fin a) (Fin (of_int n)) (Fin p)))"
    by (simp add: apply_fill_def side_defs applySell_mirror case_prod_beta)
  have "fst (snd (apply_fill SideBuy (Fin (of_int q)) (Fin a) (Fin (of_int n)) (Fin p)))
      = fst (snd (applyBuy (Fin (of_int q)) (Fin a) (Fin (of_int n)) (Fin p)))"
    by (simp add: apply_fill_def case_prod_beta)
  then show ?thesis unfolding s b using weighted_average [OF assms] by simp
qed

subsection \<open>Tick and lot sizes\<close>

lemma tick_ratio:
  assumes "1 / 10 ^ 6 \<le> t" "t \<le> 10 ^ 6" "1 / 10 ^ 6 \<le> x" "x \<le> 2 ^ 30"
  shows "\<exists>P S r. fround (x * t) = Fin P \<and> fround t = Fin S \<and> 0 < S \<and> Fin P / Fin S = Fin r
     \<and> \<bar>r - x\<bar> \<le> 1 / 2 ^ 21"
proof -
  define P S where d: "P = rnd (x * t)" "S = rnd t"
  note u = u64_bounds
  have xt: "1 / 10 ^ 6 * (1 / 10 ^ 6) \<le> x * t" "x * t \<le> 2 ^ 30 * 10 ^ 6"
    by (rule mult_mono; use assms in simp)+
  have P: "(1 - u64) * (x * t) \<le> P" "P \<le> (1 + u64) * (x * t)"
    unfolding d using rnd_rel [OF order_trans [OF _ xt(1)]] by simp_all
  have S: "(1 - u64) * t \<le> S" "S \<le> (1 + u64) * t"
    unfolding d using rnd_rel [OF order_trans [OF _ assms(1)]] by simp_all
  have t0: "0 < t" "0 < x" "0 < x * t" using assms(1,3) by (auto intro: less_le_trans [rotated])
  have S0: "0 < S" using S(1) t0 u mult_pos_pos [of "1 - u64" t] by linarith
  have lo: "(1 - u64) / (1 + u64) * x \<le> P / S"
  proof -
    have "(1 - u64) / (1 + u64) * x * S \<le> (1 - u64) / (1 + u64) * x * ((1 + u64) * t)"
      using S(2) u t0 by (intro mult_left_mono) auto
    also have "\<dots> = (1 - u64) * (x * t)" using u by simp
    finally show ?thesis using P(1) S0 by (simp add: pos_le_divide_eq)
  qed
  have hi: "P / S \<le> (1 + u64) / (1 - u64) * x"
  proof -
    have "(1 + u64) * (x * t) = (1 + u64) / (1 - u64) * x * ((1 - u64) * t)" using u by simp
    also have "\<dots> \<le> (1 + u64) / (1 - u64) * x * S"
      using S(1) u t0 by (intro mult_left_mono) auto
    finally show ?thesis using P(2) S0 by (simp add: pos_divide_le_eq)
  qed
  have "1 / 10 * (1 / 10 ^ 6) \<le> (1 - u64) / (1 + u64) * x" "(1 + u64) / (1 - u64) * x \<le> 10 * 2 ^ 30"
    by (rule mult_mono; use assms u in \<open>simp add: field_simps\<close>)+
  then have PS: "1 / 10 * (1 / 10 ^ 6) \<le> P / S" "P / S \<le> 10 * 2 ^ 30" using lo hi by linarith+
  have q: "1 / 10 ^ 40 \<le> P / S" "P / S \<le> 10 ^ 40"
    by (rule order_trans [OF _ PS(1)], simp) (rule order_trans [OF PS(2)], simp)
  have "(1 - u64) * ((1 - u64) / (1 + u64) * x) \<le> rnd (P / S)
      \<and> rnd (P / S) \<le> (1 + u64) * ((1 + u64) / (1 - u64) * x)"
    by (rule rnd_interval [OF q(1) lo hi])
  then have "(1 - 4 * u64) * x \<le> rnd (P / S)" "rnd (P / S) \<le> (1 + 4 * u64) * x"
    using mult_right_mono [OF u64_ratio(1), of x] mult_right_mono [OF u64_ratio(2), of x] t0
    by (simp_all only: mult.assoc) linarith+
  then have "\<bar>rnd (P / S) - x\<bar> \<le> 4 * u64 * x"
    unfolding abs_le_iff left_diff_distrib distrib_right by linarith
  also have "4 * u64 * x \<le> 1 / 2 ^ 21" using assms(4) by (simp add: u64_def)
  finally have "\<bar>rnd (P / S) - x\<bar> \<le> 1 / 2 ^ 21" .
  moreover have "fround (x * t) = Fin P" "fround t = Fin S" "fround (P / S) = Fin (rnd (P / S))"
    unfolding d by (rule fround_small; use xt assms q t0 d in \<open>simp add: abs_le_iff\<close>)+
  ultimately show ?thesis using S0 by auto
qed

lemma tolerance_value: "tolerance = Fin (4722366482869645 / 4722366482869645213696)"
  by code_simp

lemma isMultiple_near:
  assumes "Fin v / Fin s = Fin r" "0 < s" "\<bar>r - of_int k\<bar> \<le> 1 / 2 ^ 21"
  shows "isMultiple (Fin v) (Fin s)"
proof -
  have h: "half_away r = k" by (rule half_away_near) (rule le_less_trans [OF assms(3)], simp)
  have D: "is_double (1 / 2 ^ 21)" "is_double (- (1 / 2 ^ 21))"
    using is_double_exact [of 1 "-21"] by (simp_all add: power_int_minus)
  have "r - of_int k \<le> 1 / 2 ^ 21" "- (1 / 2 ^ 21) \<le> r - of_int k"
    using assms(3) by (simp_all only: abs_le_iff) linarith
  then have "fround (r - of_int k) \<le> Fin (1 / 2 ^ 21)" "Fin (- (1 / 2 ^ 21)) \<le> fround (r - of_int k)"
    using fround_le [OF D(1)] fround_ge [OF D(2)] by blast+
  then obtain d where d: "fround (r - of_int k) = Fin d" "\<bar>d\<bar> \<le> 1 / 2 ^ 21"
    by (cases "fround (r - of_int k)") (auto simp: f64_op_defs fle_def feq_def abs_le_iff)
  then show ?thesis using assms(1,2) h
    by (simp add: isMultiple_def Let_def tolerance_value)
qed

lemma isMultiple_far:
  assumes "Fin v / Fin s = Fin r" "0 < s" "\<And>k. 1 / 2 ^ 17 \<le> \<bar>r - of_int k\<bar>"
  shows "\<not> isMultiple (Fin v) (Fin s)"
proof -
  let ?k = "half_away r"
  have "is_double (1 / 2 ^ 17)" "is_double (- (1 / 2 ^ 17))"
    using is_double_exact [of 1 "-17"] by (simp_all add: power_int_minus)
  moreover have "1 / 2 ^ 17 \<le> r - of_int ?k \<or> r - of_int ?k \<le> - (1 / 2 ^ 17)"
    using assms(3) [of ?k] by linarith
  ultimately have "Fin (1 / 2 ^ 17) \<le> fround (r - of_int ?k) \<or>
      fround (r - of_int ?k) \<le> Fin (- (1 / 2 ^ 17))"
    using fround_ge fround_le by blast
  then have "\<not> fabs (fround (r - of_int ?k)) < tolerance"
    by (cases "fround (r - of_int ?k)")
      (auto simp: tolerance_value f64_op_defs fle_def feq_def abs_if)
  then show ?thesis using assms(1,2) by (simp add: isMultiple_def Let_def)
qed

text \<open>
  The tolerant multiple test decides the tick and the lot grid: for a step of decimal size \<open>t\<close> between
  one millionth and a million, stored as the nearest double, the double nearest to \<open>x\<close> steps is
  accepted for every whole \<open>x\<close> up to \<open>2 ^ 30\<close>, and rejected whenever \<open>x\<close> is at least one
  hundred-thousandth of a step away from every whole number.
\<close>

theorem tick_grid:
  assumes "1 / 10 ^ 6 \<le> t" "t \<le> 10 ^ 6" "1 / 10 ^ 6 \<le> x" "x \<le> 2 ^ 30"
  shows "(x = of_int \<lfloor>x\<rfloor> \<longrightarrow> isMultiple (fround (x * t)) (fround t))
     \<and> (1 / 10 ^ 5 \<le> \<bar>x - of_int (round x)\<bar> \<longrightarrow> \<not> isMultiple (fround (x * t)) (fround t))"
proof -
  obtain P S r where r: "fround (x * t) = Fin P" "fround t = Fin S" "0 < S" "Fin P / Fin S = Fin r"
    "\<bar>r - x\<bar> \<le> 1 / 2 ^ 21" using tick_ratio [OF assms] by blast
  have "isMultiple (Fin P) (Fin S)" if "x = of_int \<lfloor>x\<rfloor>"
    using isMultiple_near [OF r(4,3), of "\<lfloor>x\<rfloor>"] r(5) that by simp
  moreover have "\<not> isMultiple (Fin P) (Fin S)" if far: "1 / 10 ^ 5 \<le> \<bar>x - of_int (round x)\<bar>"
  proof (rule isMultiple_far [OF r(4,3)])
    fix k
    have "1 / 10 ^ 5 \<le> \<bar>x - of_int k\<bar>"
      using far round_diff_minimal [of x k] by (simp add: abs_minus_commute)
    then show "1 / 2 ^ 17 \<le> \<bar>r - of_int k\<bar>" using r(5) by (simp add: abs_if split: if_splits)
  qed
  ultimately show ?thesis using r(1,2) by simp
qed
subsection \<open>The theorems at concrete inputs\<close>

definition sample_request :: "string \<Rightarrow> int \<Rightarrow> exec_request" where
  "sample_request side n =
     zero_request\<lparr> er_AccountID := ''acc'', er_Exchange := ''NSE'', er_Symbol := ''INFY'',
       er_Side := side, er_OrderType := ''MARKET'', er_Product := ''MIS'',
       er_Quantity := Fin (of_int n), er_Price := Fin 100, er_SlippageBps := Fin 5,
       er_FeeBps := Fin 3 \<rparr>"

definition sample_position :: "int \<Rightarrow> paper_position" where
  "sample_position q =
     \<lparr> pp_ID = ''p'', pp_UserID = ''u'', pp_PaperAccountID = ''acc'', pp_Symbol = ''INFY'',
       pp_Exchange = ''NSE'', pp_Product = ''MIS'', pp_Quantity = Fin (of_int q),
       pp_AvgEntryPrice = Fin 90, pp_LastPrice = Fin 90, pp_UnrealizedPnL = 0,
       pp_CreatedAt = 0, pp_UpdatedAt = 0 \<rparr>"

lemma sample_request_valid:
  "side = ''BUY'' \<or> side = ''SELL'' \<or> side = ''CLOSE'' \<Longrightarrow> validateOrder (sample_request side n) = []"
  by (auto simp: sample_request_def validateOrder_def side_defs order_type_defs zero_request_def)

theorem close_flattens_witness:
  "\<forall>ids now account. \<exists>p' t.
     fo_Position (computeFill ids now account (Some (sample_position (-7))) (sample_request ''CLOSE'' 0)) = Some p'
     \<and> pp_Quantity p' = 0 \<and> pp_AvgEntryPrice p' = 0 \<and> pp_UnrealizedPnL p' = 0
     \<and> fo_Trade (computeFill ids now account (Some (sample_position (-7))) (sample_request ''CLOSE'' 0)) = Some t
     \<and> pt_Quantity t = Fin 7 \<and> pt_Side t = ''BUY''"
  using close_flattens [of "sample_request ''CLOSE'' 0" "sample_position (-7)" "-7"]
    sample_request_valid [of "''CLOSE''" 0]
  by (simp add: sample_request_def sample_position_def side_defs)

theorem exact_quantity_witness:
  "\<forall>ids now account. map_option pp_Quantity
     (fo_Position (computeFill ids now account (Some (sample_position (-7))) (sample_request ''BUY'' 10)))
       = Some (Fin 3)"
  using exact_quantity [of "sample_request ''BUY'' 10" "Some (sample_position (-7))" "-7" 10]
    sample_request_valid [of "''BUY''" 10]
  by (simp add: sample_request_def sample_position_def side_defs)

theorem flat_position_has_no_price_witness:
  "\<forall>ids now account. \<exists>p'.
     fo_Position (computeFill ids now account (Some (sample_position (-7))) (sample_request ''BUY'' 7)) = Some p'
     \<and> position_ok p'"
proof (intro allI)
  fix ids now account
  have q: "is_double (-7)" "is_double 7" using is_double_of_int [of "-7"] is_double_of_int [of 7] by simp_all
  let ?out = "computeFill ids now account (Some (sample_position (-7))) (sample_request ''BUY'' 7)"
  have "accepted (sample_request ''BUY'' 7) (Some (sample_position (-7)))"
    using sample_request_valid [of "''BUY''" 7]
    by (simp add: accepted_def sample_request_def side_defs)
  then obtain p' where p': "fo_Position ?out = Some p'"
    by (metis accepted_iff computeFill_filled fill_outcome.select_convs(2) prod_cases3 surj_pair)
  then show "\<exists>p'. fo_Position ?out = Some p' \<and> position_ok p'"
    using flat_position_has_no_price [OF _ _ p'] q
    by (simp add: position_ok_def sample_position_def sample_request_def)
qed

theorem realized_sign_witness:
  "realized SideSell (Fin 5) (Fin 90) (Fin 3) (Fin 100) \<ge> 0
   \<and> realized SideBuy (Fin 5) (Fin 90) (Fin 3) (Fin 100) = 0"
  using realized_sign [of 3 5 90 100] by simp

theorem fill_cost_witness:
  "\<forall>ids now account. \<exists>t d.
     fo_Trade (computeFill ids now account None (sample_request ''BUY'' 3)) = Some t
     \<and> fo_NewCashBalance (computeFill ids now account None (sample_request ''BUY'' 3))
         = Some (pa_CashBalance account + d)
     \<and> 0 \<le> pt_Fees t \<and> Fin 100 \<le> pt_Price t \<and> d \<le> - (Fin 100 * Fin 3)"
proof -
  have "is_fin (fill_price ''BUY'' (sample_request ''BUY'' 3) * Fin 3)" by code_simp
  then obtain c where c: "fill_price ''BUY'' (sample_request ''BUY'' 3) * Fin 3 = Fin c" by (rule is_finE)
  have "is_double 100" using is_double_of_int [of 100] by simp
  then show ?thesis
    using fill_cost [of "sample_request ''BUY'' 3" None "''BUY''" 3 100 5 3 c]
      sample_request_valid [of "''BUY''" 3] c
    by (simp add: sample_request_def resolve_order_def side_defs)
qed

theorem average_entry_price_witness:
  "\<exists>v. fst (snd (apply_fill SideBuy (Fin 5) (Fin 90) (Fin 1) (Fin 100))) = Fin v
     \<and> \<bar>v - (90 * 5 + 100 * 1) / 6\<bar> \<le> 4 * u64 * ((90 * 5 + 100 * 1) / 6)"
  using average_entry_price [of 5 1 90 100] by auto

theorem tick_grid_witness:
  "isMultiple (fround (82050 / 1000)) (fround (5 / 100))
   \<and> \<not> isMultiple (fround (82075 / 1000)) (fround (5 / 100))"
  using tick_grid [of "5 / 100" 1641] tick_grid [of "5 / 100" "3283 / 2"]
  by (simp add: round_def)

end
