(* ===== verification/PaperDb.thy ===== *)
theory PaperDb
  imports PaperEngine
begin

section \<open>The tables of the paper trading store\<close>

text \<open>
  Models the tables of \<^verbatim>\<open>migrations/034_paper_trading.sql\<close>, \<^verbatim>\<open>035\<close> and \<^verbatim>\<open>036\<close> and the
  statements of \<^verbatim>\<open>internal/store/paper_trading.go\<close> over them. A table is the list of its rows in
  insertion order; a query is a filter, an aggregate a fold, a statement that fails leaves an
  error on the left and no new state, as the database rolls it back. Primary keys, uniqueness,
  foreign keys and CHECK constraints are those of the migrations.

  The database itself is not under \<^verbatim>\<open>src\<close>. Three functions describe what it does with the NUMERIC(18,8)
  columns and are parameters: \<^verbatim>\<open>nc_write\<close> is what a double reads back as once it has been
  written to a column, or nothing when it does not fit; \<^verbatim>\<open>nc_dec\<close> is the exact decimal of a
  column that reads as a given double, which the aggregates add up; \<^verbatim>\<open>nc_avg\<close> is how AVG of a sum
  over a count reads. Failures of the connection are left out.
\<close>

subsection \<open>Rows, tables and errors\<close>

record numeric_cols =
  nc_write :: "f64 \<Rightarrow> f64 option"
  nc_dec :: "f64 \<Rightarrow> rat"
  nc_avg :: "rat \<Rightarrow> int \<Rightarrow> f64"

record paper_snapshot =
  sn_ID :: string
  sn_UserID :: string
  sn_PaperAccountID :: string
  sn_Equity :: f64
  sn_CashBalance :: f64
  sn_UnrealizedPnL :: f64
  sn_RealizedPnL :: f64
  sn_CreatedAt :: int

text \<open>A webhook counts here only for its id and the paper account it routes to.\<close>

record paper_db =
  db_accounts :: "paper_account list"
  db_orders :: "paper_order list"
  db_positions :: "paper_position list"
  db_trades :: "paper_trade list"
  db_snapshots :: "paper_snapshot list"
  db_profiles :: "market_profile list"
  db_instruments :: "instrument list"
  db_hooks :: "(string \<times> string option) list"

datatype store_err =
    ErrNoRows
  | ErrAccountNotFound
  | ErrNumericRange
  | ErrCheckViolation
  | ErrUniqueViolation
  | ErrForeignKey

text \<open>\<^verbatim>\<open>NormalizePaperSymbol\<close> and \<^verbatim>\<open>NormalizePaperExchange\<close>.\<close>

definition NormalizePaperSymbol :: "string \<Rightarrow> string" where
  "NormalizePaperSymbol s = to_upper (trim_space s)"

definition NormalizePaperExchange :: "string \<Rightarrow> string" where
  "NormalizePaperExchange s = to_upper (trim_space s)"

text \<open>ORDER BY a time, newest first; rows of one time keep their insertion order.\<close>

definition newest_first :: "('a \<Rightarrow> int) \<Rightarrow> 'a list \<Rightarrow> 'a list" where
  "newest_first t = sort_key (\<lambda>r. - t r)"

definition write_num :: "numeric_cols \<Rightarrow> f64 \<Rightarrow> store_err + f64" where
  "write_num nc x = (case nc_write nc x of None \<Rightarrow> Inl ErrNumericRange | Some y \<Rightarrow> Inr y)"

definition write_num_opt :: "numeric_cols \<Rightarrow> f64 option \<Rightarrow> store_err + f64 option" where
  "write_num_opt nc x = (case x of None \<Rightarrow> Inr None
     | Some v \<Rightarrow> ebind (write_num nc v) (\<lambda>y. Inr (Some y)))"

definition require :: "bool \<Rightarrow> store_err \<Rightarrow> 'a \<Rightarrow> store_err + 'a" where
  "require c e x = (if c then Inr x else Inl e)"

lemma require_Inr_iff [simp]: "require c e x = Inr y \<longleftrightarrow> c \<and> x = y"
  by (simp add: require_def)

text \<open>SUM over a NUMERIC column, exact, read back as the nearest double.\<close>

definition sql_sum :: "numeric_cols \<Rightarrow> f64 list \<Rightarrow> f64" where
  "sql_sum nc xs = fround (sum_list (map (nc_dec nc) xs))"

text \<open>SUM of a product of two columns, and MAX or MIN of a column, NULL for no rows.\<close>

definition sql_sum_prod :: "numeric_cols \<Rightarrow> (f64 \<times> f64) list \<Rightarrow> f64" where
  "sql_sum_prod nc xs = fround (sum_list (map (\<lambda>(a, b). nc_dec nc a * nc_dec nc b) xs))"

definition sql_max :: "numeric_cols \<Rightarrow> f64 list \<Rightarrow> f64 option" where
  "sql_max nc xs = (case xs of [] \<Rightarrow> None
     | y # ys \<Rightarrow> Some (foldl (\<lambda>a b. if nc_dec nc a < nc_dec nc b then b else a) y ys))"

definition sql_min :: "numeric_cols \<Rightarrow> f64 list \<Rightarrow> f64 option" where
  "sql_min nc xs = (case xs of [] \<Rightarrow> None
     | y # ys \<Rightarrow> Some (foldl (\<lambda>a b. if nc_dec nc b < nc_dec nc a then b else a) y ys))"

definition sql_avg :: "numeric_cols \<Rightarrow> f64 list \<Rightarrow> f64 option" where
  "sql_avg nc xs = (if xs = [] then None
     else Some (nc_avg nc (sum_list (map (nc_dec nc) xs)) (int (length xs))))"

definition sql_count :: "('a \<Rightarrow> bool) \<Rightarrow> 'a list \<Rightarrow> int" where
  "sql_count P xs = int (length (filter P xs))"

subsection \<open>Paper accounts\<close>

definition account_check :: "paper_account \<Rightarrow> bool" where
  "account_check a =
     (pa_MarketProfile a \<in> {''indian_equity'', ''indian_fno'', ''forex'', ''crypto_spot''} \<and>
      0 \<le> pa_StartingBalance a \<and> pa_Status a \<in> {''active'', ''paused'', ''closed''} \<and>
      pa_DefaultProduct a \<in> {''MIS'', ''CNC'', ''NRML''})"

definition encode_account :: "numeric_cols \<Rightarrow> paper_account \<Rightarrow> store_err + paper_account" where
  "encode_account nc a =
     ebind (write_num nc (pa_StartingBalance a)) (\<lambda>s.
     ebind (write_num nc (pa_CashBalance a)) (\<lambda>c.
       Inr (a\<lparr>pa_StartingBalance := s, pa_CashBalance := c\<rparr>)))"

definition insert_account :: "numeric_cols \<Rightarrow> paper_account \<Rightarrow> paper_db \<Rightarrow> store_err + paper_db" where
  "insert_account nc a db =
     ebind (encode_account nc a) (\<lambda>row.
     ebind (require (account_check row) ErrCheckViolation ()) (\<lambda>_.
     require (pa_ID row \<notin> set (map pa_ID (db_accounts db))) ErrUniqueViolation
       (db\<lparr>db_accounts := db_accounts db @ [row]\<rparr>)))"

definition GetPaperAccount :: "paper_db \<Rightarrow> string \<Rightarrow> paper_account option" where
  "GetPaperAccount db rid = find (\<lambda>a. pa_ID a = rid) (db_accounts db)"

definition ListPaperAccountsByUser :: "paper_db \<Rightarrow> string \<Rightarrow> paper_account list" where
  "ListPaperAccountsByUser db userID =
     newest_first pa_CreatedAt (filter (\<lambda>a. pa_UserID a = userID) (db_accounts db))"

definition CountPaperAccountsByUser :: "paper_db \<Rightarrow> string \<Rightarrow> int" where
  "CountPaperAccountsByUser db userID =
     int (length (filter (\<lambda>a. pa_UserID a = userID) (db_accounts db)))"

text \<open>The calendar month is given by its first instant and that of the next month.\<close>

definition CountPaperOrdersByUserInMonth :: "paper_db \<Rightarrow> string \<Rightarrow> int \<Rightarrow> int \<Rightarrow> int" where
  "CountPaperOrdersByUserInMonth db userID monthStart nextMonth =
     int (length (filter (\<lambda>(po, pa). pa_ID pa = po_PaperAccountID po \<and> pa_UserID pa = userID \<and>
                             monthStart \<le> po_CreatedAt po \<and> po_CreatedAt po < nextMonth)
                    (List.product (db_orders db) (db_accounts db))))"

definition ListPaperAccountsWithOpenPositions :: "paper_db \<Rightarrow> paper_account list" where
  "ListPaperAccountsWithOpenPositions db =
     filter (\<lambda>a. \<exists>p \<in> set (db_positions db). pp_PaperAccountID p = pa_ID a \<and> \<not> feq (pp_Quantity p) 0)
       (db_accounts db)"

text \<open>
  An UPDATE of one account of one user. The statement fails when the new row does, and the code
  reports \<^verbatim>\<open>sql.ErrNoRows\<close> when no row matched.
\<close>

fun traverse :: "('a \<Rightarrow> 'e + 'b) \<Rightarrow> 'a list \<Rightarrow> 'e + 'b list" where
  "traverse f [] = Inr []"
| "traverse f (x # xs) = ebind (f x) (\<lambda>y. ebind (traverse f xs) (\<lambda>ys. Inr (y # ys)))"

definition update_account ::
  "string \<Rightarrow> string \<Rightarrow> (paper_account \<Rightarrow> store_err + paper_account) \<Rightarrow> paper_db \<Rightarrow>
   store_err + paper_db" where
  "update_account rid userID f db =
     ebind (traverse (\<lambda>r. if pa_ID r = rid \<and> pa_UserID r = userID
                then ebind (f r) (\<lambda>row. require (account_check row) ErrCheckViolation row)
                else Inr r) (db_accounts db)) (\<lambda>rows.
     require (\<exists>r \<in> set (db_accounts db). pa_ID r = rid \<and> pa_UserID r = userID) ErrNoRows
       (db\<lparr>db_accounts := rows\<rparr>))"

definition UpdatePaperAccount ::
  "numeric_cols \<Rightarrow> int \<Rightarrow> paper_account \<Rightarrow> paper_db \<Rightarrow> store_err + paper_db" where
  "UpdatePaperAccount nc now a =
     update_account (pa_ID a) (pa_UserID a)
       (\<lambda>r. ebind (write_num nc (pa_StartingBalance a)) (\<lambda>s.
             ebind (write_num nc (pa_CashBalance a)) (\<lambda>c.
               Inr (r\<lparr>pa_Label := pa_Label a, pa_DefaultProduct := pa_DefaultProduct a,
                      pa_StartingBalance := s, pa_CashBalance := c, pa_UpdatedAt := now\<rparr>))))"

definition UpdatePaperAccountStatus ::
  "int \<Rightarrow> string \<Rightarrow> string \<Rightarrow> string \<Rightarrow> paper_db \<Rightarrow> store_err + paper_db" where
  "UpdatePaperAccountStatus now rid userID status =
     update_account rid userID (\<lambda>r. Inr (r\<lparr>pa_Status := status, pa_UpdatedAt := now\<rparr>))"

text \<open>
  DELETE of an account cascades to its rows. The foreign key of a webhook that routes to it is
  ON DELETE SET NULL, which the one-destination CHECK of the webhooks then refuses.
\<close>

definition delete_account_rows :: "string \<Rightarrow> paper_db \<Rightarrow> paper_db" where
  "delete_account_rows rid db =
     (let gone = map po_ID (filter (\<lambda>o'. po_PaperAccountID o' = rid) (db_orders db)) in
      db\<lparr> db_orders := filter (\<lambda>o'. po_PaperAccountID o' \<noteq> rid) (db_orders db),
          db_positions := filter (\<lambda>p. pp_PaperAccountID p \<noteq> rid) (db_positions db),
          db_trades := filter (\<lambda>t. pt_OrderID t \<notin> set gone) (db_trades db),
          db_snapshots := filter (\<lambda>s. sn_PaperAccountID s \<noteq> rid) (db_snapshots db) \<rparr>)"

definition DeletePaperAccount :: "string \<Rightarrow> string \<Rightarrow> paper_db \<Rightarrow> store_err + paper_db" where
  "DeletePaperAccount rid userID db =
     (if \<not> (\<exists>r \<in> set (db_accounts db). pa_ID r = rid \<and> pa_UserID r = userID) then Inl ErrNoRows
      else if \<exists>h \<in> set (db_hooks db). snd h = Some rid then Inl ErrCheckViolation
      else Inr ((delete_account_rows rid db)
                 \<lparr> db_accounts := filter (\<lambda>r. pa_ID r \<noteq> rid) (db_accounts db),
                   db_trades := filter (\<lambda>t. pt_PaperAccountID t \<noteq> rid)
                                  (db_trades (delete_account_rows rid db)) \<rparr>))"

subsection \<open>Orders\<close>

definition order_check :: "paper_order \<Rightarrow> bool" where
  "order_check o' =
     (po_Side o' \<in> {''BUY'', ''SELL'', ''CLOSE''} \<and> po_OrderType o' \<in> {''MARKET'', ''LIMIT''} \<and>
      po_Status o' \<in> {''RECEIVED'', ''VALIDATED'', ''FILLED'', ''REJECTED'', ''CANCELLED''})"

definition encode_order :: "numeric_cols \<Rightarrow> paper_order \<Rightarrow> store_err + paper_order" where
  "encode_order nc o' =
     ebind (write_num nc (po_Quantity o')) (\<lambda>q.
     ebind (write_num_opt nc (po_RequestedPrice o')) (\<lambda>r.
     ebind (write_num_opt nc (po_FillPrice o')) (\<lambda>f.
       Inr (o'\<lparr>po_Quantity := q, po_RequestedPrice := r, po_FillPrice := f\<rparr>))))"

definition CreatePaperOrder :: "numeric_cols \<Rightarrow> paper_order \<Rightarrow> paper_db \<Rightarrow> store_err + paper_db" where
  "CreatePaperOrder nc o' db =
     ebind (encode_order nc o') (\<lambda>row.
     ebind (require (order_check row) ErrCheckViolation ()) (\<lambda>_.
     ebind (require (po_ID row \<notin> set (map po_ID (db_orders db))) ErrUniqueViolation ()) (\<lambda>_.
     require (po_PaperAccountID row \<in> set (map pa_ID (db_accounts db)) \<and>
              (case po_WebhookID row of None \<Rightarrow> True | Some w \<Rightarrow> w \<in> set (map fst (db_hooks db)))) ErrForeignKey
       (db\<lparr>db_orders := db_orders db @ [row]\<rparr>))))"

definition GetPaperOrder :: "paper_db \<Rightarrow> string \<Rightarrow> paper_order option" where
  "GetPaperOrder db rid = find (\<lambda>o'. po_ID o' = rid) (db_orders db)"

definition ListPaperOrdersByAccount :: "paper_db \<Rightarrow> string \<Rightarrow> paper_order list" where
  "ListPaperOrdersByAccount db accountID =
     newest_first po_CreatedAt (filter (\<lambda>o'. po_PaperAccountID o' = accountID) (db_orders db))"

text \<open>LEFT JOIN of the orders with the trades: an order without a trade appears once.\<close>

definition join_trades :: "paper_db \<Rightarrow> paper_order \<Rightarrow> (paper_order \<times> f64 option) list" where
  "join_trades db o' =
     (case filter (\<lambda>t. pt_OrderID t = po_ID o') (db_trades db) of
        [] \<Rightarrow> [(o', None)]
      | ts \<Rightarrow> map (\<lambda>t. (o', Some (pt_RealizedPnL t))) ts)"

definition orders_with_pnl :: "paper_db \<Rightarrow> string \<Rightarrow> (paper_order \<times> f64 option) list" where
  "orders_with_pnl db accountID =
     concat (map (join_trades db) (filter (\<lambda>o'. po_PaperAccountID o' = accountID) (db_orders db)))"

definition ListPaperOrdersWithPnLByAccount ::
  "paper_db \<Rightarrow> string \<Rightarrow> int \<Rightarrow> int \<Rightarrow> (paper_order \<times> f64 option) list" where
  "ListPaperOrdersWithPnLByAccount db accountID limit offset =
     take (nat limit) (drop (nat offset)
       (newest_first (po_CreatedAt \<circ> fst) (orders_with_pnl db accountID)))"

definition CountPaperOrdersByAccount :: "paper_db \<Rightarrow> string \<Rightarrow> int" where
  "CountPaperOrdersByAccount db accountID =
     int (length (filter (\<lambda>o'. po_PaperAccountID o' = accountID) (db_orders db)))"

definition ListPaperOrdersForExport ::
  "paper_db \<Rightarrow> string \<Rightarrow> int option \<Rightarrow> int option \<Rightarrow> (paper_order \<times> f64 option) list" where
  "ListPaperOrdersForExport db accountID from' to' =
     take 10000 (newest_first (po_CreatedAt \<circ> fst)
       (filter (\<lambda>(o', _). (case from' of None \<Rightarrow> True | Some f \<Rightarrow> f \<le> po_CreatedAt o') \<and>
                         (case to' of None \<Rightarrow> True | Some t \<Rightarrow> po_CreatedAt o' \<le> t))
          (orders_with_pnl db accountID)))"

subsection \<open>Positions\<close>

definition encode_position :: "numeric_cols \<Rightarrow> paper_position \<Rightarrow> store_err + paper_position" where
  "encode_position nc p =
     ebind (write_num nc (pp_Quantity p)) (\<lambda>q.
     ebind (write_num nc (pp_AvgEntryPrice p)) (\<lambda>a.
     ebind (write_num nc (pp_LastPrice p)) (\<lambda>l.
     ebind (write_num nc (pp_UnrealizedPnL p)) (\<lambda>u.
       Inr (p\<lparr>pp_Quantity := q, pp_AvgEntryPrice := a, pp_LastPrice := l, pp_UnrealizedPnL := u\<rparr>)))))"

definition position_key :: "paper_position \<Rightarrow> string \<times> string \<times> string \<times> string" where
  "position_key p = (pp_PaperAccountID p, pp_Exchange p, pp_Symbol p, pp_Product p)"

definition CreatePaperPosition :: "numeric_cols \<Rightarrow> paper_position \<Rightarrow> paper_db \<Rightarrow> store_err + paper_db" where
  "CreatePaperPosition nc p db =
     ebind (encode_position nc p) (\<lambda>row.
     ebind (require (pp_ID row \<notin> set (map pp_ID (db_positions db)) \<and>
                     position_key row \<notin> set (map position_key (db_positions db)))
              ErrUniqueViolation ()) (\<lambda>_.
     require (pp_PaperAccountID row \<in> set (map pa_ID (db_accounts db))) ErrForeignKey
       (db\<lparr>db_positions := db_positions db @ [row]\<rparr>)))"

definition position_matches :: "string \<Rightarrow> string \<Rightarrow> string \<Rightarrow> string \<Rightarrow> paper_position \<Rightarrow> bool" where
  "position_matches accountID exchange symbol product p =
     (pp_PaperAccountID p = accountID \<and> to_upper (pp_Exchange p) = to_upper exchange \<and>
      to_upper (pp_Symbol p) = to_upper symbol \<and> pp_Product p = product)"

definition GetPaperPosition ::
  "paper_db \<Rightarrow> string \<Rightarrow> string \<Rightarrow> string \<Rightarrow> string \<Rightarrow> paper_position option" where
  "GetPaperPosition db accountID exchange symbol product =
     find (position_matches accountID exchange symbol product) (db_positions db)"

definition UpdatePaperPositionMark ::
  "numeric_cols \<Rightarrow> paper_position \<Rightarrow> paper_db \<Rightarrow> store_err + paper_db" where
  "UpdatePaperPositionMark nc pos db =
     ebind (write_num nc (pp_LastPrice pos)) (\<lambda>l.
     ebind (write_num nc (pp_UnrealizedPnL pos)) (\<lambda>u.
       Inr (db\<lparr>db_positions := map (\<lambda>p. if pp_ID p = pp_ID pos
              then p\<lparr>pp_LastPrice := l, pp_UnrealizedPnL := u, pp_UpdatedAt := pp_UpdatedAt pos\<rparr>
              else p) (db_positions db)\<rparr>)))"

definition update_position_fill ::
  "numeric_cols \<Rightarrow> string \<Rightarrow> paper_position \<Rightarrow> paper_db \<Rightarrow> store_err + paper_db" where
  "update_position_fill nc rid pos db =
     ebind (encode_position nc pos) (\<lambda>row.
       Inr (db\<lparr>db_positions := map (\<lambda>p. if pp_ID p = rid
              then p\<lparr>pp_Quantity := pp_Quantity row, pp_AvgEntryPrice := pp_AvgEntryPrice row,
                     pp_LastPrice := pp_LastPrice row, pp_UnrealizedPnL := pp_UnrealizedPnL row,
                     pp_UpdatedAt := pp_UpdatedAt row\<rparr>
              else p) (db_positions db)\<rparr>))"

text \<open>A less-or-equal test on strings, as ORDER BY symbol compares.\<close>

fun str_le :: "string \<Rightarrow> string \<Rightarrow> bool" where
  "str_le [] _ = True"
| "str_le (_ # _) [] = False"
| "str_le (a # as) (b # bs) =
     ((of_char a :: nat) < of_char b \<or> (a = b \<and> str_le as bs))"

fun insert_by :: "('a \<Rightarrow> 'a \<Rightarrow> bool) \<Rightarrow> 'a \<Rightarrow> 'a list \<Rightarrow> 'a list" where
  "insert_by le x [] = [x]"
| "insert_by le x (y # ys) = (if le x y then x # y # ys else y # insert_by le x ys)"

definition sort_by :: "('a \<Rightarrow> 'a \<Rightarrow> bool) \<Rightarrow> 'a list \<Rightarrow> 'a list" where
  "sort_by le xs = foldr (insert_by le) xs []"

definition ListPaperPositionsByAccount :: "paper_db \<Rightarrow> string \<Rightarrow> paper_position list" where
  "ListPaperPositionsByAccount db accountID =
     sort_by (\<lambda>p q. str_le (pp_Symbol p) (pp_Symbol q))
       (filter (\<lambda>p. pp_PaperAccountID p = accountID) (db_positions db))"

definition ListOpenMISPaperPositions :: "paper_db \<Rightarrow> (paper_position \<times> paper_account) list" where
  "ListOpenMISPaperPositions db =
     sort_by (\<lambda>(p, _) (q, _). pp_PaperAccountID p \<noteq> pp_PaperAccountID q \<and>
                 str_le (pp_PaperAccountID p) (pp_PaperAccountID q) \<or>
                 pp_PaperAccountID p = pp_PaperAccountID q \<and> str_le (pp_Symbol p) (pp_Symbol q))
       (filter (\<lambda>(pos, acct). pa_ID acct = pp_PaperAccountID pos \<and> pp_Product pos = ''MIS'' \<and>
                  \<not> feq (pp_Quantity pos) 0 \<and> pa_Status acct \<noteq> ''closed'')
          (List.product (db_positions db) (db_accounts db)))"

subsection \<open>Trades and snapshots\<close>

definition encode_trade :: "numeric_cols \<Rightarrow> paper_trade \<Rightarrow> store_err + paper_trade" where
  "encode_trade nc t =
     ebind (write_num nc (pt_Quantity t)) (\<lambda>q.
     ebind (write_num nc (pt_Price t)) (\<lambda>p.
     ebind (write_num nc (pt_RealizedPnL t)) (\<lambda>r.
     ebind (write_num nc (pt_Fees t)) (\<lambda>f.
       Inr (t\<lparr>pt_Quantity := q, pt_Price := p, pt_RealizedPnL := r, pt_Fees := f\<rparr>)))))"

definition CreatePaperTrade :: "numeric_cols \<Rightarrow> paper_trade \<Rightarrow> paper_db \<Rightarrow> store_err + paper_db" where
  "CreatePaperTrade nc t db =
     ebind (encode_trade nc t) (\<lambda>row.
     ebind (require (pt_Side row \<in> {''BUY'', ''SELL''}) ErrCheckViolation ()) (\<lambda>_.
     ebind (require (pt_ID row \<notin> set (map pt_ID (db_trades db))) ErrUniqueViolation ()) (\<lambda>_.
     require (pt_PaperAccountID row \<in> set (map pa_ID (db_accounts db)) \<and>
              pt_OrderID row \<in> set (map po_ID (db_orders db))) ErrForeignKey
       (db\<lparr>db_trades := db_trades db @ [row]\<rparr>))))"

definition ListPaperTradesByAccount :: "paper_db \<Rightarrow> string \<Rightarrow> paper_trade list" where
  "ListPaperTradesByAccount db accountID =
     newest_first pt_CreatedAt (filter (\<lambda>t. pt_PaperAccountID t = accountID) (db_trades db))"

definition CreatePaperAccountSnapshot ::
  "numeric_cols \<Rightarrow> paper_snapshot \<Rightarrow> paper_db \<Rightarrow> store_err + paper_db" where
  "CreatePaperAccountSnapshot nc s db =
     ebind (write_num nc (sn_Equity s)) (\<lambda>e.
     ebind (write_num nc (sn_CashBalance s)) (\<lambda>c.
     ebind (write_num nc (sn_UnrealizedPnL s)) (\<lambda>u.
     ebind (write_num nc (sn_RealizedPnL s)) (\<lambda>r.
     ebind (require (sn_ID s \<notin> set (map sn_ID (db_snapshots db))) ErrUniqueViolation ()) (\<lambda>_.
     require (sn_PaperAccountID s \<in> set (map pa_ID (db_accounts db))) ErrForeignKey
       (db\<lparr>db_snapshots := db_snapshots db @
              [s\<lparr>sn_Equity := e, sn_CashBalance := c, sn_UnrealizedPnL := u, sn_RealizedPnL := r\<rparr>]\<rparr>))))))"

definition ListPaperAccountSnapshots :: "paper_db \<Rightarrow> string \<Rightarrow> int \<Rightarrow> paper_snapshot list" where
  "ListPaperAccountSnapshots db accountID limit =
     take (nat limit) (newest_first sn_CreatedAt
       (filter (\<lambda>s. sn_PaperAccountID s = accountID) (db_snapshots db)))"

subsection \<open>Market profiles and instruments\<close>

definition GetMarketProfileByCode :: "paper_db \<Rightarrow> string \<Rightarrow> market_profile option" where
  "GetMarketProfileByCode db code = find (\<lambda>m. mp_Code m = code) (db_profiles db)"

definition GetInstrumentByID :: "paper_db \<Rightarrow> string \<Rightarrow> instrument option" where
  "GetInstrumentByID db rid = find (\<lambda>i. in_ID i = rid) (db_instruments db)"

definition GetInstrument :: "paper_db \<Rightarrow> string \<Rightarrow> string \<Rightarrow> string \<Rightarrow> instrument option" where
  "GetInstrument db code exchange symbol =
     find (\<lambda>i. in_MarketProfileCode i = code \<and> in_Exchange i = exchange \<and>
               to_upper (in_Symbol i) = to_upper symbol) (db_instruments db)"

definition DeleteInstrument :: "string \<Rightarrow> paper_db \<Rightarrow> paper_db" where
  "DeleteInstrument rid db = db\<lparr>db_instruments := filter (\<lambda>i. in_ID i \<noteq> rid) (db_instruments db)\<rparr>"

end
