(* ===== verification/PaperPnL.thy ===== *)
theory PaperPnL
  imports PaperDb
begin

section \<open>The profit and loss summary of a paper account\<close>

text \<open>
  Models \<^verbatim>\<open>internal/store/paper_pnl.go\<close>: the aggregates over orders, trades, positions and
  snapshots of an account that the dashboard and the equity snapshots show. The time zone data
  base is not under \<^verbatim>\<open>src\<close>: a time zone is an abstract value, found by name with a parameter, and
  another parameter gives the start of the day of an instant in it.
\<close>

record pnl_summary =
  ps_PaperAccountID :: string
  ps_StartingBalance :: f64
  ps_CashBalance :: f64
  ps_Equity :: f64
  ps_RealizedPnL :: f64
  ps_UnrealizedPnL :: f64
  ps_TotalPnL :: f64
  ps_TradeCount :: int
  ps_ByStatus :: "string \<Rightarrow> int"
  ps_Notional :: f64
  ps_FillRate :: "f64 option"
  ps_WinRate :: "f64 option"
  ps_TotalFees :: f64
  ps_AccountHealthStatus :: string
  ps_BuyingPower :: f64
  ps_UsedMargin :: f64
  ps_TodayPnL :: "f64 option"
  ps_TodayTrades :: int
  ps_TodayWinRate :: "f64 option"
  ps_TodayFees :: f64
  ps_TodayNotional :: f64
  ps_BuyOrders :: int
  ps_SellOrders :: int
  ps_CloseOrders :: int
  ps_Filled :: int
  ps_Rejected :: int
  ps_Cancelled :: int
  ps_LargestWin :: "f64 option"
  ps_LargestLoss :: "f64 option"
  ps_AverageWin :: "f64 option"
  ps_AverageLoss :: "f64 option"
  ps_GrossProfit :: f64
  ps_GrossLoss :: f64
  ps_ProfitFactor :: "f64 option"
  ps_Expectancy :: "f64 option"
  ps_PeakEquity :: f64
  ps_CurrentDrawdown :: f64
  ps_MaxDrawdown :: f64
  ps_Exposure :: f64
  ps_ExposurePct :: "f64 option"
  ps_LargestPosition :: f64
  ps_LongPositions :: int
  ps_ShortPositions :: int
  ps_OpenPositions :: int
  ps_OpenOrders :: int
  ps_OpenRisk :: f64
  ps_TodayRisk :: f64
  ps_LastMarketUpdateAt :: "int option"

subsection \<open>Orders by status and side\<close>

text \<open>GROUP BY status, side: one row per pair that occurs, with its count.\<close>

definition order_groups :: "paper_order list \<Rightarrow> (string \<times> string \<times> int) list" where
  "order_groups os =
     map (\<lambda>(s, d). (s, d, sql_count (\<lambda>o'. po_Status o' = s \<and> po_Side o' = d) os))
       (remdups (map (\<lambda>o'. (po_Status o', po_Side o')) os))"

record order_stats =
  os_ByStatus :: "string \<Rightarrow> int"
  os_Filled :: int
  os_Rejected :: int
  os_Cancelled :: int
  os_Buy :: int
  os_Sell :: int
  os_Close :: int

definition zero_stats :: order_stats where
  "zero_stats = \<lparr> os_ByStatus = (\<lambda>_. 0), os_Filled = 0, os_Rejected = 0, os_Cancelled = 0,
                  os_Buy = 0, os_Sell = 0, os_Close = 0 \<rparr>"

definition add_status :: "string \<Rightarrow> int \<Rightarrow> order_stats \<Rightarrow> order_stats" where
  "add_status status n st =
     (let st = st\<lparr>os_ByStatus := (os_ByStatus st)(status := os_ByStatus st status + n)\<rparr> in
      if status = ''FILLED'' then st\<lparr>os_Filled := os_Filled st + n\<rparr>
      else if status = ''REJECTED'' then st\<lparr>os_Rejected := os_Rejected st + n\<rparr>
      else if status = ''CANCELLED'' then st\<lparr>os_Cancelled := os_Cancelled st + n\<rparr>
      else st)"

definition add_side :: "string \<Rightarrow> int \<Rightarrow> order_stats \<Rightarrow> order_stats" where
  "add_side side n st =
     (if side = ''BUY'' then st\<lparr>os_Buy := os_Buy st + n\<rparr>
      else if side = ''SELL'' then st\<lparr>os_Sell := os_Sell st + n\<rparr>
      else if side = ''CLOSE'' then st\<lparr>os_Close := os_Close st + n\<rparr>
      else st)"

definition order_stats_of :: "paper_order list \<Rightarrow> order_stats" where
  "order_stats_of os = fold (\<lambda>(s, d, n) st. add_side d n (add_status s n st)) (order_groups os) zero_stats"

text \<open>The statuses that have a count are those that occur; any that is not terminal is open.\<close>

definition open_orders :: "paper_order list \<Rightarrow> order_stats \<Rightarrow> int" where
  "open_orders os st =
     sum_list (map (os_ByStatus st)
       (filter (\<lambda>s. s \<noteq> ''FILLED'' \<and> s \<noteq> ''REJECTED'' \<and> s \<noteq> ''CANCELLED'')
         (remdups (map po_Status os))))"

definition rate :: "int \<Rightarrow> int \<Rightarrow> f64" where
  "rate a b = f64_of_int a / f64_of_int b"

subsection \<open>Drawdown\<close>

text \<open>One step of the loop over the equity history: peak, current equity, largest drawdown.\<close>

definition drawdown_step :: "f64 \<times> f64 \<times> f64 \<Rightarrow> f64 \<Rightarrow> f64 \<times> f64 \<times> f64" where
  "drawdown_step st eq =
     (case st of (peak, current, maxDD) \<Rightarrow>
        (let peak = (if peak < eq then eq else peak);
             dd = peak - eq;
             maxDD = (if maxDD < dd then dd else maxDD)
         in (peak, eq, maxDD)))"

definition drawdown :: "f64 list \<Rightarrow> f64 \<times> f64 \<times> f64" where
  "drawdown eqs = foldl drawdown_step (0, 0, 0) eqs"

subsection \<open>The summary\<close>

text \<open>The start of the trader's day: the market profile's time zone, or UTC.\<close>

definition start_of_day ::
  "(string \<Rightarrow> 'tz option) \<Rightarrow> 'tz \<Rightarrow> ('tz \<Rightarrow> int \<Rightarrow> int) \<Rightarrow> paper_db \<Rightarrow> paper_account \<Rightarrow> int \<Rightarrow> int" where
  "start_of_day LoadLocation utc dayStart db account now =
     (let loc = (case GetMarketProfileByCode db (pa_MarketProfile account) of
                   None \<Rightarrow> utc
                 | Some profile \<Rightarrow>
                     (if mp_Timezone profile \<noteq> [] then
                        (case LoadLocation (mp_Timezone profile) of None \<Rightarrow> utc | Some l \<Rightarrow> l)
                      else utc))
      in dayStart loc now)"

definition health_status :: "string \<Rightarrow> f64 \<Rightarrow> f64 \<Rightarrow> f64 option \<Rightarrow> string" where
  "health_status status startingBalance maxDrawdown exposurePct =
     (if status = ''paused'' then ''paused''
      else if 0 < startingBalance \<and> fround (1 / 10) < maxDrawdown / startingBalance then ''warning''
      else if (case exposurePct of None \<Rightarrow> False | Some x \<Rightarrow> 1 < x) then ''warning''
      else ''healthy'')"

definition GetPaperAccountPnL ::
  "numeric_cols \<Rightarrow> (string \<Rightarrow> 'tz option) \<Rightarrow> 'tz \<Rightarrow> ('tz \<Rightarrow> int \<Rightarrow> int) \<Rightarrow> int \<Rightarrow> paper_db \<Rightarrow> string \<Rightarrow>
   pnl_summary option" where
  "GetPaperAccountPnL nc LoadLocation utc dayStart now db accountID =
     (case GetPaperAccount db accountID of
        None \<Rightarrow> None
      | Some account \<Rightarrow>
     (let orders = filter (\<lambda>o'. po_PaperAccountID o' = accountID) (db_orders db);
          stats = order_stats_of orders;
          filled = os_Filled stats; rejected = os_Rejected stats;
          trades = filter (\<lambda>t. pt_PaperAccountID t = accountID) (db_trades db);
          win_pnls = filter (\<lambda>r. 0 < r) (map pt_RealizedPnL trades);
          loss_pnls = filter (\<lambda>r. r < 0) (map pt_RealizedPnL trades);
          wins = int (length win_pnls); losses = int (length loss_pnls);
          realizedPnL = sql_sum nc (map pt_RealizedPnL trades);
          totalFees = sql_sum nc (map pt_Fees trades);
          grossProfit = sql_sum nc win_pnls; grossLoss = sql_sum nc loss_pnls;
          avgWin = sql_avg nc win_pnls; avgLoss = sql_avg nc loss_pnls;
          winRate = (if 0 < wins + losses then rate wins (wins + losses) else 0);
          positions = filter (\<lambda>p. pp_PaperAccountID p = accountID) (db_positions db);
          values = map (\<lambda>p. (fabs (pp_Quantity p), pp_LastPrice p)) positions;
          unrealizedPnL = sql_sum nc (map pp_UnrealizedPnL positions);
          exposure = sql_sum_prod nc values;
          totalPnL = realizedPnL + unrealizedPnL - totalFees;
          equity = pa_StartingBalance account + totalPnL;
          exposurePct = (if 0 < equity then Some (exposure / equity) else None);
          history = map sn_Equity (sort_key sn_CreatedAt
                      (filter (\<lambda>s. sn_PaperAccountID s = accountID) (db_snapshots db)));
          dd = drawdown history;
          maxDrawdown = (if history \<noteq> [] then snd (snd dd) else 0);
          startOfDay = start_of_day LoadLocation utc dayStart db account now;
          today = filter (\<lambda>t. startOfDay \<le> pt_CreatedAt t) trades;
          todayWins = sql_count (\<lambda>t. 0 < pt_RealizedPnL t) today;
          todayLosses = sql_count (\<lambda>t. pt_RealizedPnL t < 0) today;
          todayFees = sql_sum nc (map pt_Fees today)
      in Some
     \<lparr> ps_PaperAccountID = accountID, ps_StartingBalance = pa_StartingBalance account,
       ps_CashBalance = pa_CashBalance account, ps_Equity = equity,
       ps_RealizedPnL = realizedPnL, ps_UnrealizedPnL = unrealizedPnL, ps_TotalPnL = totalPnL,
       ps_TradeCount = int (length trades), ps_ByStatus = os_ByStatus stats,
       ps_Notional = sql_sum_prod nc (map (\<lambda>t. (pt_Quantity t, pt_Price t)) trades),
       ps_FillRate = (if 0 < filled + rejected then Some (rate filled (filled + rejected)) else None),
       ps_WinRate = (if 0 < wins + losses then Some winRate else None),
       ps_TotalFees = totalFees,
       ps_AccountHealthStatus =
         health_status (pa_Status account) (pa_StartingBalance account) maxDrawdown exposurePct,
       ps_BuyingPower = pa_CashBalance account, ps_UsedMargin = exposure,
       ps_TodayPnL = (if today \<noteq> []
                      then Some (sql_sum nc (map pt_RealizedPnL today) - todayFees) else None),
       ps_TodayTrades = int (length today),
       ps_TodayWinRate = (if 0 < todayWins + todayLosses
                          then Some (rate todayWins (todayWins + todayLosses)) else None),
       ps_TodayFees = todayFees,
       ps_TodayNotional = sql_sum_prod nc (map (\<lambda>t. (pt_Quantity t, pt_Price t)) today),
       ps_BuyOrders = os_Buy stats, ps_SellOrders = os_Sell stats, ps_CloseOrders = os_Close stats,
       ps_Filled = filled, ps_Rejected = rejected, ps_Cancelled = os_Cancelled stats,
       ps_LargestWin = sql_max nc win_pnls, ps_LargestLoss = sql_min nc loss_pnls,
       ps_AverageWin = avgWin, ps_AverageLoss = avgLoss,
       ps_GrossProfit = grossProfit, ps_GrossLoss = grossLoss,
       ps_ProfitFactor = (if grossLoss < 0 then Some (grossProfit / - grossLoss) else None),
       ps_Expectancy =
         (case (avgWin, avgLoss) of
            (Some w, Some l) \<Rightarrow>
              (if 0 < wins + losses then Some (winRate * w + (1 - winRate) * l) else None)
          | _ \<Rightarrow> None),
       ps_PeakEquity = (if history \<noteq> [] then fst dd else equity),
       ps_CurrentDrawdown = (if history \<noteq> [] then fst dd - fst (snd dd) else 0),
       ps_MaxDrawdown = maxDrawdown, ps_Exposure = exposure, ps_ExposurePct = exposurePct,
       ps_LargestPosition =
         (case map (\<lambda>(q, l). nc_dec nc q * nc_dec nc l) values of [] \<Rightarrow> 0
          | v # vs \<Rightarrow> fround (foldl max v vs)),
       ps_LongPositions = sql_count (\<lambda>p. 0 < pp_Quantity p) positions,
       ps_ShortPositions = sql_count (\<lambda>p. pp_Quantity p < 0) positions,
       ps_OpenPositions = sql_count (\<lambda>p. \<not> feq (pp_Quantity p) 0) positions,
       ps_OpenOrders = open_orders orders stats,
       ps_OpenRisk = sql_sum nc (map (\<lambda>p. - pp_UnrealizedPnL p)
         (filter (\<lambda>p. \<not> feq (pp_Quantity p) 0 \<and> pp_UnrealizedPnL p < 0) positions)),
       ps_TodayRisk = sql_sum nc (map (\<lambda>t. fabs (pt_RealizedPnL t))
         (filter (\<lambda>t. pt_RealizedPnL t < 0) today)),
       ps_LastMarketUpdateAt = (case map pp_UpdatedAt positions of [] \<Rightarrow> None
          | v # vs \<Rightarrow> Some (foldl max v vs)) \<rparr>))"

subsection \<open>What the drawdown loop computes\<close>

definition dd_ok :: "rat list \<Rightarrow> f64 \<Rightarrow> bool" where
  "dd_ok es m \<longleftrightarrow>
     (\<forall>j < length es. \<forall>i \<le> j. fround (es ! i - es ! j) \<le> m) \<and>
     (\<exists>j < length es. \<exists>i \<le> j. m = fround (es ! i - es ! j))"

lemma dd_ok_snoc:
  assumes "dd_ok es m" "es \<noteq> []" "p = Max (insert e (set es))"
  shows "dd_ok (es @ [e]) (if m < fround (p - e) then fround (p - e) else m)"
    (is "dd_ok _ ?m")
proof -
  have nn: "m \<noteq> NaN" using assms(1) by (auto simp: dd_ok_def)
  have m: "m \<le> ?m" "fround (p - e) \<le> ?m"
    using f64_not_less_le [of m "fround (p - e)"] nn by (auto simp: f64_less_le f64_le_refl)
  have "fround ((es @ [e]) ! i - (es @ [e]) ! j) \<le> ?m" if "j < Suc (length es)" "i \<le> j" for i j
  proof (cases "j < length es")
    case True
    then have "fround (es ! i - es ! j) \<le> m" using assms(1) that by (auto simp: dd_ok_def)
    with True that m(1) show ?thesis by (auto simp: nth_append intro: f64_le_trans)
  next
    case False
    then have j: "j = length es" using that by simp
    have "(es @ [e]) ! i \<in> insert e (set es)" using that j by (auto simp: nth_append)
    then have "(es @ [e]) ! i \<le> p" using assms(3) by simp
    then have "fround ((es @ [e]) ! i - e) \<le> fround (p - e)" by (intro fround_mono) simp
    then show ?thesis using j m(2) by (auto intro: f64_le_trans)
  qed
  moreover have "\<exists>j < Suc (length es). \<exists>i \<le> j. ?m = fround ((es @ [e]) ! i - (es @ [e]) ! j)"
  proof (cases "m < fround (p - e)")
    case True
    have "p \<in> insert e (set es)" using assms(3) Max_in [of "insert e (set es)"] by simp
    then obtain i where "i \<le> length es" "(es @ [e]) ! i = p"
      by (metis in_set_conv_nth length_append_singleton less_Suc_eq_le list.set(2) set_append insert_iff Un_iff set_ConsD)
    with True show ?thesis by (intro exI [of _ "length es"]) auto
  next
    case False
    then obtain i j where "j < length es" "i \<le> j" "m = fround (es ! i - es ! j)"
      using assms(1) by (auto simp: dd_ok_def)
    with False show ?thesis by (intro exI [of _ j] conjI exI [of _ i]) (auto simp: nth_append)
  qed
  ultimately show ?thesis by (simp add: dd_ok_def)
qed

lemma drawdown_snoc: "drawdown (xs @ [x]) = drawdown_step (drawdown xs) x"
  by (simp add: drawdown_def)

text \<open>
  The drawdown loop computes what it is named for: over a history of equities that are not
  negative, the peak is the largest, the current equity the last, and the largest drawdown is the
  greatest fall (rounded once) from any earlier or equal point to any later one, attained by some
  pair.
\<close>

theorem drawdown_exact:
  assumes "es \<noteq> []" "\<forall>e \<in> set es. 0 \<le> e"
  shows "\<exists>m. drawdown (map Fin es) = (Fin (Max (set es)), Fin (last es), m)
     \<and> (\<forall>j < length es. \<forall>i \<le> j. fround (es ! i - es ! j) \<le> m)
     \<and> (\<exists>j < length es. \<exists>i \<le> j. m = fround (es ! i - es ! j))"
proof -
  have "\<exists>m. drawdown (map Fin es) = (Fin (Max (set es)), Fin (last es), m) \<and> dd_ok es m"
    using assms
  proof (induction es rule: rev_induct)
    case (snoc e es)
    show ?case
    proof (cases "es = []")
      case True
      then show ?thesis using snoc.prems
        by (auto simp: drawdown_def drawdown_step_def dd_ok_def Let_def)
    next
      case False
      with snoc obtain m where m: "drawdown (map Fin es) = (Fin (Max (set es)), Fin (last es), m)"
        "dd_ok es m" by auto
      define M where "M = Max (set es)"
      let ?p = "max e M"
      have "drawdown (map Fin (es @ [e])) =
          (Fin ?p, Fin e, if m < fround (?p - e) then fround (?p - e) else m)"
        using m(1) by (auto simp: drawdown_snoc drawdown_step_def Let_def max_def simp flip: M_def)
      moreover have p: "max e M = Max (set (es @ [e]))" using False by (simp add: M_def)
      ultimately show ?thesis
        using dd_ok_snoc [OF m(2) False, of "max e M" e] unfolding p by simp
    qed
  qed simp
  then show ?thesis by (simp add: dd_ok_def)
qed
theorem drawdown_exact_witness:
  "\<exists>m. drawdown (map Fin [100, 90, 120, 95]) = (Fin 120, Fin 95, m) \<and> m = Fin 25
     \<and> fround (100 - 90) \<le> m"
proof -
  obtain m where m: "drawdown (map Fin [100, 90, 120, 95]) = (Fin 120, Fin 95, m)"
    "\<forall>j < 4. \<forall>i \<le> j. fround ([100, 90, 120, 95] ! i - [100, 90, 120, 95] ! j) \<le> m"
    using drawdown_exact [of "[100, 90, 120, 95]"] by auto
  have "drawdown (map Fin [100, 90, 120, 95]) = (Fin 120, Fin 95, Fin 25)" by code_simp
  with m(1) have "m = Fin 25" by simp
  moreover have "fround (100 - 90) \<le> m" using m(2) [rule_format, of 1 0] by simp
  ultimately show ?thesis using m(1) by blast
qed

end
