(* ===== verification/PaperStore.thy ===== *)
theory PaperStore
  imports PaperPnL
begin

section \<open>The transactions of the paper trading store\<close>

text \<open>
  Models \<^verbatim>\<open>internal/store/paper_fill.go\<close>, the transactions of \<^verbatim>\<open>paper_trading.go\<close> and
  \<^verbatim>\<open>Engine.Execute\<close> of \<^verbatim>\<open>internal/paperengine/engine.go\<close>. The account row is locked for the whole
  of a fill, so fills of one account are sequential; a transaction that fails is an error without
  a new state. The equity snapshot that follows a fill is best effort: its failure is ignored.
\<close>

subsection \<open>The environment and equity snapshots\<close>

record 'tz store_env =
  ev_nc :: numeric_cols
  ev_LoadLocation :: "string \<Rightarrow> 'tz option"
  ev_utc :: 'tz
  ev_dayStart :: "'tz \<Rightarrow> int \<Rightarrow> int"

definition account_pnl :: "'tz store_env \<Rightarrow> int \<Rightarrow> paper_db \<Rightarrow> string \<Rightarrow> pnl_summary option" where
  "account_pnl env now =
     GetPaperAccountPnL (ev_nc env) (ev_LoadLocation env) (ev_utc env) (ev_dayStart env) now"

definition RecordPaperAccountEquitySnapshot ::
  "'tz store_env \<Rightarrow> string \<Rightarrow> int \<Rightarrow> string \<Rightarrow> string \<Rightarrow> paper_db \<Rightarrow> store_err + paper_db" where
  "RecordPaperAccountEquitySnapshot env sid now accountID userID db =
     (case account_pnl env now db accountID of
        None \<Rightarrow> Inl ErrAccountNotFound
      | Some summary \<Rightarrow> CreatePaperAccountSnapshot (ev_nc env)
          \<lparr> sn_ID = sid, sn_UserID = userID, sn_PaperAccountID = accountID,
            sn_Equity = ps_Equity summary, sn_CashBalance = ps_CashBalance summary,
            sn_UnrealizedPnL = ps_UnrealizedPnL summary,
            sn_RealizedPnL = ps_RealizedPnL summary, sn_CreatedAt = now \<rparr> db)"

definition best_effort :: "paper_db \<Rightarrow> store_err + paper_db \<Rightarrow> paper_db" where
  "best_effort db r = (case r of Inl _ \<Rightarrow> db | Inr db' \<Rightarrow> db')"

definition CreatePaperAccount ::
  "'tz store_env \<Rightarrow> string \<Rightarrow> int \<Rightarrow> paper_account \<Rightarrow> paper_db \<Rightarrow> store_err + paper_db" where
  "CreatePaperAccount env sid now a db =
     ebind (insert_account (ev_nc env) a db) (\<lambda>db1.
       Inr (best_effort db1
         (RecordPaperAccountEquitySnapshot env sid now (pa_ID a) (pa_UserID a) db1)))"

subsection \<open>Executing a fill\<close>

definition persist_position ::
  "numeric_cols \<Rightarrow> paper_position option \<Rightarrow> fill_outcome \<Rightarrow> paper_db \<Rightarrow>
   store_err + (fill_outcome \<times> paper_db)" where
  "persist_position nc position outcome db =
     (case fo_Position outcome of
        None \<Rightarrow> Inr (outcome, db)
      | Some np \<Rightarrow>
          (let np = np\<lparr>pp_Symbol := NormalizePaperSymbol (pp_Symbol np),
                       pp_Exchange := NormalizePaperExchange (pp_Exchange np)\<rparr>
           in ebind (case position of
                       None \<Rightarrow> CreatePaperPosition nc np db
                     | Some p \<Rightarrow> update_position_fill nc (pp_ID p) np db)
                (\<lambda>db'. Inr (outcome\<lparr>fo_Position := Some np\<rparr>, db'))))"

definition persist_trade :: "numeric_cols \<Rightarrow> fill_outcome \<Rightarrow> paper_db \<Rightarrow> store_err + paper_db" where
  "persist_trade nc outcome db =
     (case fo_Trade outcome of None \<Rightarrow> Inr db | Some t \<Rightarrow> CreatePaperTrade nc t db)"

definition set_cash :: "string \<Rightarrow> f64 \<Rightarrow> int \<Rightarrow> paper_db \<Rightarrow> paper_db" where
  "set_cash accountID cash now db =
     db\<lparr>db_accounts := map (\<lambda>a. if pa_ID a = accountID
          then a\<lparr>pa_CashBalance := cash, pa_UpdatedAt := now\<rparr> else a) (db_accounts db)\<rparr>"

definition persist_cash ::
  "numeric_cols \<Rightarrow> int \<Rightarrow> string \<Rightarrow> fill_outcome \<Rightarrow> paper_db \<Rightarrow> store_err + paper_db" where
  "persist_cash nc now accountID outcome db =
     (case fo_NewCashBalance outcome of
        None \<Rightarrow> Inr db
      | Some c \<Rightarrow> ebind (write_num nc c) (\<lambda>c'. Inr (set_cash accountID c' now db)))"

text \<open>The function that computes the outcome from the locked rows.\<close>

type_synonym paper_fill_func =
  "paper_account \<Rightarrow> paper_position option \<Rightarrow> store_err + fill_outcome"

definition ExecutePaperFill ::
  "'tz store_env \<Rightarrow> string \<Rightarrow> int \<Rightarrow> string \<Rightarrow> string \<Rightarrow> string \<Rightarrow> string \<Rightarrow> paper_fill_func \<Rightarrow>
   paper_db \<Rightarrow> store_err + (fill_outcome \<times> paper_db)" where
  "ExecutePaperFill env sid now accountID exchange symbol product fn db =
     (let nc = ev_nc env;
          exchange = NormalizePaperExchange exchange;
          symbol = NormalizePaperSymbol symbol in
      case GetPaperAccount db accountID of
        None \<Rightarrow> Inl ErrAccountNotFound
      | Some account \<Rightarrow>
          (let position = GetPaperPosition db accountID exchange symbol product in
           ebind (fn account position) (\<lambda>outcome.
           ebind (CreatePaperOrder nc (fo_Order outcome) db) (\<lambda>db1.
           ebind (persist_position nc position outcome db1) (\<lambda>(outcome, db2).
           ebind (persist_trade nc outcome db2) (\<lambda>db3.
           ebind (persist_cash nc now accountID outcome db3) (\<lambda>db4.
             Inr (outcome, best_effort db4
               (RecordPaperAccountEquitySnapshot env sid now accountID (pa_UserID account) db4)))))))))"

text \<open>\<^verbatim>\<open>Engine.Execute\<close>.\<close>

definition Execute ::
  "'tz store_env \<Rightarrow> fresh_ids \<Rightarrow> string \<Rightarrow> int \<Rightarrow> exec_request \<Rightarrow> paper_db \<Rightarrow>
   store_err + (exec_result \<times> paper_db)" where
  "Execute env ids sid now req db =
     ebind (ExecutePaperFill env sid now (er_AccountID req) (er_Exchange req) (er_Symbol req)
              (er_Product req)
              (\<lambda>account position. Inr (computeFill ids now account position req)) db)
       (\<lambda>(outcome, db'). Inr (result_of_outcome outcome, db'))"

subsection \<open>Resetting an account\<close>

definition ResetPaperAccount ::
  "'tz store_env \<Rightarrow> int \<Rightarrow> string \<Rightarrow> string \<Rightarrow> f64 option \<Rightarrow> paper_db \<Rightarrow>
   store_err + (paper_account \<times> paper_db)" where
  "ResetPaperAccount env now rid userID newBalance db =
     (case find (\<lambda>a. pa_ID a = rid \<and> pa_UserID a = userID) (db_accounts db) of
        None \<Rightarrow> Inl ErrNoRows
      | Some a \<Rightarrow>
          (let a = (case newBalance of None \<Rightarrow> a | Some b \<Rightarrow> a\<lparr>pa_StartingBalance := b\<rparr>);
               a = a\<lparr>pa_CashBalance := pa_StartingBalance a\<rparr>;
               db1 = delete_account_rows rid db
           in ebind (write_num (ev_nc env) (pa_StartingBalance a)) (\<lambda>s.
              ebind (write_num (ev_nc env) (pa_CashBalance a)) (\<lambda>c.
              ebind (require (0 \<le> s) ErrCheckViolation ()) (\<lambda>_.
                Inr (a\<lparr>pa_UpdatedAt := now\<rparr>,
                  db1\<lparr>db_accounts := map (\<lambda>r. if pa_ID r = rid
                    then r\<lparr>pa_StartingBalance := s, pa_CashBalance := c, pa_UpdatedAt := now\<rparr>
                    else r) (db_accounts db1)\<rparr>))))))"

subsection \<open>What a statement that succeeds has done\<close>

lemma ebind_Inl_iff: "ebind r f = Inl e \<longleftrightarrow> r = Inl e \<or> (\<exists>x. r = Inr x \<and> f x = Inl e)"
  by (cases r) auto

lemma write_num_Inr: "write_num nc x = Inr y \<longleftrightarrow> nc_write nc x = Some y"
  by (simp add: write_num_def split: option.splits)

lemma encode_order_frame:
  "encode_order nc o' = Inr row \<Longrightarrow>
     po_ID row = po_ID o' \<and> po_PaperAccountID row = po_PaperAccountID o' \<and>
     po_WebhookID row = po_WebhookID o' \<and> po_Side row = po_Side o' \<and>
     po_OrderType row = po_OrderType o' \<and> po_Status row = po_Status o' \<and>
     po_Reason row = po_Reason o'"
  by (auto simp: encode_order_def ebind_Inr_iff)

lemma encode_position_frame:
  "encode_position nc p = Inr row \<Longrightarrow>
     pp_ID row = pp_ID p \<and> position_key row = position_key p \<and>
     nc_write nc (pp_Quantity p) = Some (pp_Quantity row) \<and>
     nc_write nc (pp_AvgEntryPrice p) = Some (pp_AvgEntryPrice row) \<and>
     nc_write nc (pp_LastPrice p) = Some (pp_LastPrice row) \<and>
     nc_write nc (pp_UnrealizedPnL p) = Some (pp_UnrealizedPnL row)"
  by (auto simp: encode_position_def ebind_Inr_iff position_key_def write_num_Inr)

lemma encode_trade_frame:
  "encode_trade nc t = Inr row \<Longrightarrow>
     pt_ID row = pt_ID t \<and> pt_PaperAccountID row = pt_PaperAccountID t \<and>
     pt_OrderID row = pt_OrderID t \<and> pt_Side row = pt_Side t \<and>
     nc_write nc (pt_Quantity t) = Some (pt_Quantity row) \<and>
     nc_write nc (pt_Price t) = Some (pt_Price row) \<and>
     nc_write nc (pt_RealizedPnL t) = Some (pt_RealizedPnL row) \<and>
     nc_write nc (pt_Fees t) = Some (pt_Fees row)"
  by (auto simp: encode_trade_def ebind_Inr_iff write_num_Inr)

lemma encode_account_frame:
  "encode_account nc a = Inr row \<Longrightarrow> pa_ID row = pa_ID a \<and> pa_UserID row = pa_UserID a \<and>
     nc_write nc (pa_StartingBalance a) = Some (pa_StartingBalance row) \<and>
     nc_write nc (pa_CashBalance a) = Some (pa_CashBalance row)"
  by (auto simp: encode_account_def ebind_Inr_iff write_num_Inr)

lemma CreatePaperOrder_Inr:
  "CreatePaperOrder nc o' db = Inr db' \<longleftrightarrow>
     (\<exists>row. encode_order nc o' = Inr row \<and> order_check row \<and>
        po_ID row \<notin> set (map po_ID (db_orders db)) \<and>
        po_PaperAccountID row \<in> set (map pa_ID (db_accounts db)) \<and>
        (\<forall>w. po_WebhookID row = Some w \<longrightarrow> w \<in> set (map fst (db_hooks db))) \<and>
        db' = db\<lparr>db_orders := db_orders db @ [row]\<rparr>)"
  by (auto simp: CreatePaperOrder_def ebind_Inr_iff)

lemma CreatePaperPosition_Inr:
  "CreatePaperPosition nc p db = Inr db' \<longleftrightarrow>
     (\<exists>row. encode_position nc p = Inr row \<and>
        pp_ID row \<notin> set (map pp_ID (db_positions db)) \<and>
        position_key row \<notin> set (map position_key (db_positions db)) \<and>
        pp_PaperAccountID row \<in> set (map pa_ID (db_accounts db)) \<and>
        db' = db\<lparr>db_positions := db_positions db @ [row]\<rparr>)"
  by (auto simp: CreatePaperPosition_def ebind_Inr_iff)

lemma CreatePaperTrade_Inr:
  "CreatePaperTrade nc t db = Inr db' \<longleftrightarrow>
     (\<exists>row. encode_trade nc t = Inr row \<and> pt_Side row \<in> {''BUY'', ''SELL''} \<and>
        pt_ID row \<notin> set (map pt_ID (db_trades db)) \<and>
        pt_PaperAccountID row \<in> set (map pa_ID (db_accounts db)) \<and>
        pt_OrderID row \<in> set (map po_ID (db_orders db)) \<and>
        db' = db\<lparr>db_trades := db_trades db @ [row]\<rparr>)"
  by (auto simp: CreatePaperTrade_def ebind_Inr_iff)

lemma CreatePaperAccountSnapshot_Inr:
  assumes "CreatePaperAccountSnapshot nc s db = Inr db'"
  obtains row where "sn_ID row = sn_ID s" "sn_PaperAccountID row = sn_PaperAccountID s"
    "sn_ID s \<notin> set (map sn_ID (db_snapshots db))"
    "sn_PaperAccountID s \<in> set (map pa_ID (db_accounts db))"
    "db' = db\<lparr>db_snapshots := db_snapshots db @ [row]\<rparr>"
proof -
  obtain e c u r where
    "db' = db\<lparr>db_snapshots := db_snapshots db @
       [s\<lparr>sn_Equity := e, sn_CashBalance := c, sn_UnrealizedPnL := u, sn_RealizedPnL := r\<rparr>]\<rparr>"
    "sn_ID s \<notin> set (map sn_ID (db_snapshots db))"
    "sn_PaperAccountID s \<in> set (map pa_ID (db_accounts db))"
    using assms by (auto simp: CreatePaperAccountSnapshot_def ebind_Inr_iff simp del: set_map)
  then show ?thesis
    by (intro that [of "s\<lparr>sn_Equity := e, sn_CashBalance := c, sn_UnrealizedPnL := u, sn_RealizedPnL := r\<rparr>"])
      simp_all
qed

text \<open>A snapshot touches no other table.\<close>

lemma best_effort_snapshot:
  obtains (none) "best_effort db (RecordPaperAccountEquitySnapshot env sid now acct user db) = db"
  | (row) s where "sn_ID s = sid" "sn_PaperAccountID s = acct"
      "sid \<notin> set (map sn_ID (db_snapshots db))" "acct \<in> set (map pa_ID (db_accounts db))"
      "best_effort db (RecordPaperAccountEquitySnapshot env sid now acct user db)
         = db\<lparr>db_snapshots := db_snapshots db @ [s]\<rparr>"
proof (cases "RecordPaperAccountEquitySnapshot env sid now acct user db")
  case (Inl e)
  then show ?thesis using none by (simp add: best_effort_def)
next
  case (Inr db')
  then obtain s where s: "CreatePaperAccountSnapshot (ev_nc env) s db = Inr db'"
      "sn_ID s = sid" "sn_PaperAccountID s = acct"
    by (auto simp: RecordPaperAccountEquitySnapshot_def split: option.splits)
  show ?thesis
    by (rule CreatePaperAccountSnapshot_Inr [OF s(1)], rule row) (use s Inr in \<open>auto simp: best_effort_def\<close>)
qed

lemma best_effort_snapshot_frame [simp]:
  "db_accounts (best_effort db (RecordPaperAccountEquitySnapshot env sid now acct user db)) = db_accounts db"
  "db_orders (best_effort db (RecordPaperAccountEquitySnapshot env sid now acct user db)) = db_orders db"
  "db_positions (best_effort db (RecordPaperAccountEquitySnapshot env sid now acct user db)) = db_positions db"
  "db_trades (best_effort db (RecordPaperAccountEquitySnapshot env sid now acct user db)) = db_trades db"
  "db_hooks (best_effort db (RecordPaperAccountEquitySnapshot env sid now acct user db)) = db_hooks db"
  by (rule best_effort_snapshot [of db env sid now acct user]; simp)+

subsection \<open>The integrity of the tables\<close>

definition account_ids :: "paper_db \<Rightarrow> string set" where
  "account_ids db = set (map pa_ID (db_accounts db))"

definition normal_position :: "paper_position \<Rightarrow> bool" where
  "normal_position p = (NormalizePaperExchange (pp_Exchange p) = pp_Exchange p \<and>
                        NormalizePaperSymbol (pp_Symbol p) = pp_Symbol p)"

definition db_ok :: "paper_db \<Rightarrow> bool" where
  "db_ok db =
     (distinct (map pa_ID (db_accounts db)) \<and> distinct (map po_ID (db_orders db)) \<and>
      distinct (map pp_ID (db_positions db)) \<and> distinct (map position_key (db_positions db)) \<and>
      distinct (map pt_ID (db_trades db)) \<and> distinct (map sn_ID (db_snapshots db)) \<and>
      (\<forall>p \<in> set (db_positions db). pp_PaperAccountID p \<in> account_ids db \<and> normal_position p) \<and>
      (\<forall>o' \<in> set (db_orders db). po_PaperAccountID o' \<in> account_ids db) \<and>
      (\<forall>s \<in> set (db_snapshots db). sn_PaperAccountID s \<in> account_ids db) \<and>
      (\<forall>t \<in> set (db_trades db). \<exists>o' \<in> set (db_orders db).
         po_ID o' = pt_OrderID t \<and> po_PaperAccountID o' = pt_PaperAccountID t))"

lemma db_ok_snapshot: "db_ok db \<Longrightarrow>
  db_ok (best_effort db (RecordPaperAccountEquitySnapshot env sid now acct user db))"
  by (rule best_effort_snapshot [of db env sid now acct user])
    (auto simp: db_ok_def account_ids_def)

lemma db_ok_insert_account:
  "insert_account nc a db = Inr db' \<Longrightarrow> db_ok db \<Longrightarrow> db_ok db'"
  by (auto simp: insert_account_def ebind_Inr_iff db_ok_def account_ids_def)

lemma traverse_Inr_map:
  "traverse f xs = Inr ys \<Longrightarrow> (\<And>x y. x \<in> set xs \<Longrightarrow> f x = Inr y \<Longrightarrow> g y = g x) \<Longrightarrow> map g ys = map g xs"
  by (induction xs arbitrary: ys) (auto simp: ebind_Inr_iff)

lemma db_ok_update_account:
  assumes "update_account rid user f db = Inr db'" "db_ok db"
    and "\<And>r row. f r = Inr row \<Longrightarrow> pa_ID row = pa_ID r"
  shows "db_ok db'"
proof -
  obtain rows where rows: "traverse (\<lambda>r. if pa_ID r = rid \<and> pa_UserID r = user
                then ebind (f r) (\<lambda>row. require (account_check row) ErrCheckViolation row)
                else Inr r) (db_accounts db) = Inr rows" "db' = db\<lparr>db_accounts := rows\<rparr>"
    using assms(1) by (auto simp: update_account_def ebind_Inr_iff)
  have "map pa_ID rows = map pa_ID (db_accounts db)"
    by (rule traverse_Inr_map [OF rows(1)])
      (auto simp: ebind_Inr_iff assms(3) split: if_splits)
  then show ?thesis using rows(2) assms(2) by (simp add: db_ok_def account_ids_def del: set_map)
qed

lemma db_ok_UpdatePaperAccount:
  "UpdatePaperAccount nc now a db = Inr db' \<Longrightarrow> db_ok db \<Longrightarrow> db_ok db'"
  unfolding UpdatePaperAccount_def by (erule db_ok_update_account) (auto simp: ebind_Inr_iff)

lemma db_ok_UpdatePaperAccountStatus:
  "UpdatePaperAccountStatus now rid user st db = Inr db' \<Longrightarrow> db_ok db \<Longrightarrow> db_ok db'"
  unfolding UpdatePaperAccountStatus_def by (erule db_ok_update_account) auto

lemma db_ok_order: "CreatePaperOrder nc o' db = Inr db' \<Longrightarrow> db_ok db \<Longrightarrow> db_ok db'"
  by (auto simp: CreatePaperOrder_Inr db_ok_def account_ids_def)

lemma db_ok_append_position:
  "db_ok db \<Longrightarrow> pp_ID row \<notin> set (map pp_ID (db_positions db)) \<Longrightarrow>
   position_key row \<notin> set (map position_key (db_positions db)) \<Longrightarrow>
   pp_PaperAccountID row \<in> set (map pa_ID (db_accounts db)) \<Longrightarrow> normal_position row \<Longrightarrow>
   db_ok (db\<lparr>db_positions := db_positions db @ [row]\<rparr>)"
  by (auto simp: db_ok_def account_ids_def)

lemma position_key_eqD:
  "position_key p = position_key q \<Longrightarrow>
     pp_PaperAccountID p = pp_PaperAccountID q \<and> normal_position p = normal_position q"
  by (simp add: position_key_def normal_position_def)

lemma db_ok_position:
  "CreatePaperPosition nc p db = Inr db' \<Longrightarrow> normal_position p \<Longrightarrow> db_ok db \<Longrightarrow> db_ok db'"
proof -
  assume a: "CreatePaperPosition nc p db = Inr db'" "normal_position p" "db_ok db"
  then obtain row where row: "encode_position nc p = Inr row"
      "pp_ID row \<notin> set (map pp_ID (db_positions db))"
      "position_key row \<notin> set (map position_key (db_positions db))"
      "pp_PaperAccountID row \<in> set (map pa_ID (db_accounts db))"
      "db' = db\<lparr>db_positions := db_positions db @ [row]\<rparr>"
    unfolding CreatePaperPosition_Inr by blast
  have "normal_position row" using a(2) encode_position_frame [OF row(1)] position_key_eqD by blast
  with row a(3) show "db_ok db'" using db_ok_append_position by blast
qed

lemma db_ok_map_positions:
  assumes "db_ok db" "\<And>p. pp_ID (g p) = pp_ID p \<and> position_key (g p) = position_key p"
  shows "db_ok (db\<lparr>db_positions := map g (db_positions db)\<rparr>)"
proof -
  have "map pp_ID (map g (db_positions db)) = map pp_ID (db_positions db)"
    "map position_key (map g (db_positions db)) = map position_key (db_positions db)"
    using assms(2) by simp_all
  moreover have "pp_PaperAccountID (g p) = pp_PaperAccountID p" "normal_position (g p) = normal_position p" for p
    using assms(2) [of p] by (simp_all add: position_key_def normal_position_def)
  ultimately show ?thesis using assms(1) by (simp add: db_ok_def account_ids_def del: map_map)
qed

lemma db_ok_update_position: "update_position_fill nc rid p db = Inr db' \<Longrightarrow> db_ok db \<Longrightarrow> db_ok db'"
  by (auto simp: update_position_fill_def ebind_Inr_iff position_key_def intro!: db_ok_map_positions)

lemma db_ok_mark: "UpdatePaperPositionMark nc p db = Inr db' \<Longrightarrow> db_ok db \<Longrightarrow> db_ok db'"
  by (auto simp: UpdatePaperPositionMark_def ebind_Inr_iff position_key_def intro!: db_ok_map_positions)

lemma db_ok_append_trade:
  "db_ok db \<Longrightarrow> pt_ID row \<notin> set (map pt_ID (db_trades db)) \<Longrightarrow>
   \<exists>o' \<in> set (db_orders db). po_ID o' = pt_OrderID row \<and> po_PaperAccountID o' = pt_PaperAccountID row \<Longrightarrow>
   db_ok (db\<lparr>db_trades := db_trades db @ [row]\<rparr>)"
  by (simp add: db_ok_def account_ids_def)

lemma db_ok_trade:
  assumes "CreatePaperTrade nc t db = Inr db'" "db_ok db"
    and "\<exists>o' \<in> set (db_orders db). po_ID o' = pt_OrderID t \<and> po_PaperAccountID o' = pt_PaperAccountID t"
  shows "db_ok db'"
proof -
  obtain row where row: "encode_trade nc t = Inr row" "pt_ID row \<notin> set (map pt_ID (db_trades db))"
      "db' = db\<lparr>db_trades := db_trades db @ [row]\<rparr>"
    using assms(1) unfolding CreatePaperTrade_Inr by blast
  with encode_trade_frame [OF row(1)] assms(2,3) show ?thesis
    by (simp only: row(3)) (rule db_ok_append_trade, simp_all)
qed

lemma db_ok_map_accounts:
  assumes "db_ok db" "\<And>a. pa_ID (g a) = pa_ID a"
  shows "db_ok (db\<lparr>db_accounts := map g (db_accounts db)\<rparr>)"
proof -
  have "map pa_ID (map g (db_accounts db)) = map pa_ID (db_accounts db)" using assms(2) by simp
  then show ?thesis using assms(1) by (simp add: db_ok_def account_ids_def del: map_map set_map)
qed

lemma db_ok_delete_rows:
  assumes "db_ok db"
  shows "db_ok (delete_account_rows rid db)"
proof -
  let ?db = "delete_account_rows rid db"
  have "\<exists>o' \<in> set (db_orders ?db). po_ID o' = pt_OrderID t \<and> po_PaperAccountID o' = pt_PaperAccountID t"
    if "t \<in> set (db_trades ?db)" for t
  proof -
    have t: "t \<in> set (db_trades db)"
      "\<forall>o' \<in> set (db_orders db). po_PaperAccountID o' = rid \<longrightarrow> po_ID o' \<noteq> pt_OrderID t"
      using that by (fastforce simp: delete_account_rows_def Let_def image_iff)+
    then obtain o' where "o' \<in> set (db_orders db)" "po_ID o' = pt_OrderID t"
        "po_PaperAccountID o' = pt_PaperAccountID t"
      using assms by (auto simp: db_ok_def)
    with t(2) have "po_PaperAccountID o' \<noteq> rid" by blast
    then have "o' \<in> set (db_orders ?db)"
      using \<open>o' \<in> set (db_orders db)\<close> by (simp add: delete_account_rows_def Let_def)
    then show ?thesis using \<open>po_ID o' = pt_OrderID t\<close> \<open>po_PaperAccountID o' = pt_PaperAccountID t\<close>
      by blast
  qed
  then show ?thesis using assms
    by (simp add: db_ok_def account_ids_def delete_account_rows_def Let_def distinct_map_filter)
qed

subsection \<open>Every operation keeps the integrity\<close>

lemma normalize_idem [simp]:
  "NormalizePaperSymbol (NormalizePaperSymbol s) = NormalizePaperSymbol s"
  "NormalizePaperExchange (NormalizePaperExchange s) = NormalizePaperExchange s"
  by (simp_all add: NormalizePaperSymbol_def NormalizePaperExchange_def trim_upper)

lemma ExecutePaperFill_Inr:
  assumes "ExecutePaperFill env sid now acct ex symb pd fn db = Inr (out', db')"
  obtains account out db1 db2 db3 db4 where
    "GetPaperAccount db acct = Some account"
    "fn account (GetPaperPosition db acct (NormalizePaperExchange ex) (NormalizePaperSymbol symb) pd)
       = Inr out"
    "CreatePaperOrder (ev_nc env) (fo_Order out) db = Inr db1"
    "persist_position (ev_nc env)
       (GetPaperPosition db acct (NormalizePaperExchange ex) (NormalizePaperSymbol symb) pd) out db1
       = Inr (out', db2)"
    "persist_trade (ev_nc env) out' db2 = Inr db3"
    "persist_cash (ev_nc env) now acct out' db3 = Inr db4"
    "db' = best_effort db4 (RecordPaperAccountEquitySnapshot env sid now acct (pa_UserID account) db4)"
  using assms
  by (auto simp: ExecutePaperFill_def Let_def ebind_Inr_iff split: option.splits)

lemma persist_position_Inr:
  assumes "persist_position nc position out db = Inr (out', db')"
  shows "db_accounts db' = db_accounts db \<and> db_orders db' = db_orders db \<and> db_trades db' = db_trades db \<and>
    db_snapshots db' = db_snapshots db \<and> db_hooks db' = db_hooks db \<and>
    fo_Order out' = fo_Order out \<and> fo_Trade out' = fo_Trade out \<and>
    fo_NewCashBalance out' = fo_NewCashBalance out"
  using assms
  by (auto simp: persist_position_def Let_def ebind_Inr_iff CreatePaperPosition_Inr
      update_position_fill_def split: option.splits)

lemma db_ok_persist_position:
  assumes "persist_position nc position out db = Inr (out', db')" "db_ok db"
  shows "db_ok db'"
  using assms
  by (auto simp: persist_position_def Let_def ebind_Inr_iff normal_position_def
      intro: db_ok_position db_ok_update_position split: option.splits)

lemma db_ok_persist_cash:
  assumes "persist_cash nc now acct out db = Inr db'" "db_ok db"
  shows "db_ok db'"
  using assms
  by (auto simp: persist_cash_def ebind_Inr_iff set_cash_def intro!: db_ok_map_accounts
      split: option.splits)

lemma computeFill_ids:
  "po_ID (fo_Order (computeFill ids now account position req)) = id_order ids \<and>
   po_PaperAccountID (fo_Order (computeFill ids now account position req)) = er_AccountID req \<and>
   (\<forall>t. fo_Trade (computeFill ids now account position req) = Some t \<longrightarrow>
     pt_OrderID t = id_order ids \<and> pt_PaperAccountID t = er_AccountID req)"
proof (cases rule: computeFill_cases [of ids now account position req])
  case (rejected reason)
  then show ?thesis by (simp add: reject_order_def base_order_def)
next
  case (filled side qty newQty newAvg pnl delta)
  show ?thesis using computeFill_filled [OF filled, of ids now account]
    by (simp add: base_order_def new_trade_def)
qed

lemma Execute_Inr:
  assumes "Execute env ids sid now req db = Inr (res, db')"
  obtains account out out' db1 db2 db3 db4 where
    "GetPaperAccount db (er_AccountID req) = Some account"
    "out = computeFill ids now account (GetPaperPosition db (er_AccountID req)
        (NormalizePaperExchange (er_Exchange req)) (NormalizePaperSymbol (er_Symbol req))
        (er_Product req)) req"
    "CreatePaperOrder (ev_nc env) (fo_Order out) db = Inr db1"
    "persist_position (ev_nc env)
       (GetPaperPosition db (er_AccountID req) (NormalizePaperExchange (er_Exchange req))
          (NormalizePaperSymbol (er_Symbol req)) (er_Product req)) out db1 = Inr (out', db2)"
    "persist_trade (ev_nc env) out' db2 = Inr db3"
    "persist_cash (ev_nc env) now (er_AccountID req) out' db3 = Inr db4"
    "db' = best_effort db4 (RecordPaperAccountEquitySnapshot env sid now (er_AccountID req)
             (pa_UserID account) db4)"
    "res = result_of_outcome out'"
  using assms unfolding Execute_def ebind_Inr_iff
  by (elim exE conjE, clarsimp) (erule ExecutePaperFill_Inr, simp)

lemma db_ok_Execute:
  assumes "Execute env ids sid now req db = Inr (res, db')" "db_ok db"
  shows "db_ok db'"
proof (rule Execute_Inr [OF assms(1)])
  fix account out out' db1 db2 db3 db4
  let ?pos = "GetPaperPosition db (er_AccountID req) (NormalizePaperExchange (er_Exchange req))
          (NormalizePaperSymbol (er_Symbol req)) (er_Product req)"
  assume out: "out = computeFill ids now account ?pos req"
    and o1: "CreatePaperOrder (ev_nc env) (fo_Order out) db = Inr db1"
    and o2: "persist_position (ev_nc env) ?pos out db1 = Inr (out', db2)"
    and o3: "persist_trade (ev_nc env) out' db2 = Inr db3"
    and o4: "persist_cash (ev_nc env) now (er_AccountID req) out' db3 = Inr db4"
    and db': "db' = best_effort db4 (RecordPaperAccountEquitySnapshot env sid now
              (er_AccountID req) (pa_UserID account) db4)"
  have ok2: "db_ok db2" using db_ok_order [OF o1 assms(2)] db_ok_persist_position [OF o2] by blast
  have "\<exists>o' \<in> set (db_orders db2). po_ID o' = id_order ids \<and> po_PaperAccountID o' = er_AccountID req"
    using o1 persist_position_Inr [OF o2] computeFill_ids [of ids now account ?pos req]
    by (auto simp: CreatePaperOrder_Inr out dest!: encode_order_frame)
  moreover have "fo_Trade out' = fo_Trade out" using persist_position_Inr [OF o2] by blast
  ultimately have "db_ok db3"
    using o3 ok2 computeFill_ids [of ids now account ?pos req]
    by (auto simp: persist_trade_def out split: option.splits elim!: db_ok_trade)
  then show "db_ok db'" using db_ok_persist_cash [OF o4] db_ok_snapshot by (simp add: db')
qed

lemma db_ok_CreatePaperAccount:
  "CreatePaperAccount env sid now a db = Inr db' \<Longrightarrow> db_ok db \<Longrightarrow> db_ok db'"
  by (auto simp: CreatePaperAccount_def ebind_Inr_iff intro!: db_ok_snapshot dest: db_ok_insert_account)

lemma db_ok_Reset:
  assumes "ResetPaperAccount env now rid user nb db = Inr (a, db')" "db_ok db"
  shows "db_ok db'"
  using assms db_ok_delete_rows [of db rid]
  by (auto simp: ResetPaperAccount_def Let_def ebind_Inr_iff intro!: db_ok_map_accounts
      split: option.splits)

lemma db_ok_Delete:
  assumes "DeletePaperAccount rid user db = Inr db'" "db_ok db"
  shows "db_ok db'"
proof -
  define db1 where "db1 = delete_account_rows rid db"
  have ok: "db_ok db1" using db_ok_delete_rows assms(2) by (simp add: db1_def)
  have acc: "db_accounts db1 = db_accounts db" by (simp add: db1_def delete_account_rows_def Let_def)
  have other: "\<forall>p \<in> set (db_positions db1). pp_PaperAccountID p \<noteq> rid"
    "\<forall>o' \<in> set (db_orders db1). po_PaperAccountID o' \<noteq> rid"
    "\<forall>s \<in> set (db_snapshots db1). sn_PaperAccountID s \<noteq> rid"
    by (simp_all add: db1_def delete_account_rows_def Let_def)
  have db': "db' = db1\<lparr>db_accounts := filter (\<lambda>r. pa_ID r \<noteq> rid) (db_accounts db),
              db_trades := filter (\<lambda>t. pt_PaperAccountID t \<noteq> rid) (db_trades db1)\<rparr>"
    using assms(1) by (auto simp: DeletePaperAccount_def db1_def split: if_splits)
  have ids: "account_ids db' = account_ids db1 - {rid}"
    by (auto simp: account_ids_def db' acc)
  show ?thesis using ok other unfolding db_ok_def ids
    by (simp add: db' acc distinct_map_filter)
qed
text \<open>One operation of the store, and the states it can reach from empty tables.\<close>

inductive store_step :: "'tz store_env \<Rightarrow> paper_db \<Rightarrow> paper_db \<Rightarrow> bool" for env where
  create: "CreatePaperAccount env sid now a db = Inr db' \<Longrightarrow> store_step env db db'"
| execute: "Execute env ids sid now req db = Inr (res, db') \<Longrightarrow> store_step env db db'"
| mark: "UpdatePaperPositionMark (ev_nc env) p db = Inr db' \<Longrightarrow> store_step env db db'"
| snapshot: "RecordPaperAccountEquitySnapshot env sid now rid user db = Inr db' \<Longrightarrow> store_step env db db'"
| update: "UpdatePaperAccount (ev_nc env) now a db = Inr db' \<Longrightarrow> store_step env db db'"
| status: "UpdatePaperAccountStatus now rid user st db = Inr db' \<Longrightarrow> store_step env db db'"
| reset: "ResetPaperAccount env now rid user nb db = Inr (a, db') \<Longrightarrow> store_step env db db'"
| delete: "DeletePaperAccount rid user db = Inr db' \<Longrightarrow> store_step env db db'"
| elsewhere: "store_step env db (db\<lparr>db_profiles := ps, db_instruments := is, db_hooks := hs\<rparr>)"

inductive store_reachable :: "'tz store_env \<Rightarrow> paper_db \<Rightarrow> bool" for env where
  empty: "store_reachable env
     \<lparr>db_accounts = [], db_orders = [], db_positions = [], db_trades = [], db_snapshots = [],
      db_profiles = ps, db_instruments = is, db_hooks = hs\<rparr>"
| step: "store_reachable env db \<Longrightarrow> store_step env db db' \<Longrightarrow> store_reachable env db'"

lemma db_ok_snapshot_step:
  assumes "RecordPaperAccountEquitySnapshot env sid now rid user db = Inr db'" "db_ok db"
  shows "db_ok db'"
  using db_ok_snapshot [OF assms(2), of env sid now rid user] assms(1) by (simp add: best_effort_def)

lemma db_ok_elsewhere: "db_ok db \<Longrightarrow> db_ok (db\<lparr>db_profiles := ps, db_instruments := is, db_hooks := hs\<rparr>)"
  by (simp add: db_ok_def account_ids_def)

lemma db_ok_step: "store_step env db db' \<Longrightarrow> db_ok db \<Longrightarrow> db_ok db'"
  by (induction rule: store_step.induct)
    (blast intro: db_ok_CreatePaperAccount db_ok_Execute db_ok_mark db_ok_snapshot_step
        db_ok_UpdatePaperAccount db_ok_UpdatePaperAccountStatus db_ok_Reset db_ok_Delete
        db_ok_elsewhere)+

lemma db_ok_reachable: "store_reachable env db \<Longrightarrow> db_ok db"
proof (induction rule: store_reachable.induct)
  case (empty ps ins hs)
  then show ?case by (simp add: db_ok_def)
next
  case (step db db')
  then show ?case using db_ok_step by blast
qed

lemma own_key_lookup:
  assumes ok: "db_ok db" and p: "p \<in> set (db_positions db)"
  shows "GetPaperPosition db (pp_PaperAccountID p) (pp_Exchange p) (pp_Symbol p) (pp_Product p) = Some p"
proof -
  have up: "to_upper (pp_Exchange q) = pp_Exchange q" "to_upper (pp_Symbol q) = pp_Symbol q"
    if "q \<in> set (db_positions db)" for q
  proof -
    have "normal_position q" using ok that by (simp add: db_ok_def)
    then show "to_upper (pp_Exchange q) = pp_Exchange q" "to_upper (pp_Symbol q) = pp_Symbol q"
      by (metis NormalizePaperExchange_def NormalizePaperSymbol_def normal_position_def to_upper_idem)+
  qed
  have match: "position_matches (pp_PaperAccountID p) (pp_Exchange p) (pp_Symbol p) (pp_Product p) q
      \<longleftrightarrow> position_key q = position_key p" if "q \<in> set (db_positions db)" for q
    using up [OF that] up [OF p] by (auto simp: position_matches_def position_key_def)
  obtain q where q: "GetPaperPosition db (pp_PaperAccountID p) (pp_Exchange p) (pp_Symbol p)
      (pp_Product p) = Some q"
    using match [OF p] p by (cases "GetPaperPosition db (pp_PaperAccountID p) (pp_Exchange p)
      (pp_Symbol p) (pp_Product p)") (auto simp: GetPaperPosition_def find_None_iff)
  then have "q \<in> set (db_positions db)" "position_key q = position_key p"
    using match by (auto simp: GetPaperPosition_def find_Some_iff)
  then have "q = p" using ok p by (auto simp: db_ok_def distinct_map inj_on_def)
  with q show ?thesis by simp
qed

text \<open>
  C3. In every state the store can reach from empty tables, by any sequence of account creations,
  fills, marks, snapshots, updates, resets and deletions, failed statements included, the position
  keys are unique and normalised, every position belongs to an account, every trade has its order
  in the same account, and looking a position up by its own key finds it.
\<close>

theorem store_integrity:
  assumes "store_reachable env db"
  shows "distinct (map position_key (db_positions db))
    \<and> (\<forall>p \<in> set (db_positions db). normal_position p \<and> pp_PaperAccountID p \<in> account_ids db)
    \<and> (\<forall>t \<in> set (db_trades db). \<exists>o' \<in> set (db_orders db).
          po_ID o' = pt_OrderID t \<and> po_PaperAccountID o' = pt_PaperAccountID t)
    \<and> (\<forall>p \<in> set (db_positions db). GetPaperPosition db (pp_PaperAccountID p) (pp_Exchange p)
          (pp_Symbol p) (pp_Product p) = Some p)"
proof -
  have ok: "db_ok db" using assms by (rule db_ok_reachable)
  then show ?thesis using own_key_lookup by (auto simp: db_ok_def)
qed

lemma find_map_pred: "(\<And>x. P (g x) = P x) \<Longrightarrow> find P (map g xs) = map_option g (find P xs)"
  by (induction xs) auto

lemma find_map_key:
  "(\<And>x. k (g x) = k x) \<Longrightarrow> rid \<noteq> key \<Longrightarrow>
     find (\<lambda>a. k a = rid) (map (\<lambda>a. if k a = key then g a else a) xs) = find (\<lambda>a. k a = rid) xs"
  by (induction xs) auto

lemma find_append: "find P (xs @ ys) = (case find P xs of None \<Rightarrow> find P ys | Some x \<Rightarrow> Some x)"
  by (induction xs) auto

abbreviation request_position :: "paper_db \<Rightarrow> exec_request \<Rightarrow> paper_position option" where
  "request_position db req \<equiv> GetPaperPosition db (er_AccountID req)
     (NormalizePaperExchange (er_Exchange req)) (NormalizePaperSymbol (er_Symbol req)) (er_Product req)"

text \<open>A row of the table that holds what was written for a position.\<close>

definition wrote_position :: "numeric_cols \<Rightarrow> paper_position \<Rightarrow> paper_position \<Rightarrow> bool" where
  "wrote_position nc p row =
     (nc_write nc (pp_Quantity p) = Some (pp_Quantity row) \<and>
      nc_write nc (pp_AvgEntryPrice p) = Some (pp_AvgEntryPrice row) \<and>
      nc_write nc (pp_LastPrice p) = Some (pp_LastPrice row) \<and>
      nc_write nc (pp_UnrealizedPnL p) = Some (pp_UnrealizedPnL row))"

lemma persist_position_lookup:
  assumes "persist_position nc (request_position db req) out db1 = Inr (out', db2)"
    and "db_positions db1 = db_positions db" "fo_Position out = Some p"
    and "pp_PaperAccountID p = er_AccountID req" "pp_Exchange p = er_Exchange req"
    and "pp_Symbol p = er_Symbol req" "pp_Product p = er_Product req"
  shows "\<exists>row. request_position db2 req = Some row \<and> wrote_position nc p row"
proof -
  let ?np = "p\<lparr>pp_Symbol := NormalizePaperSymbol (pp_Symbol p),
              pp_Exchange := NormalizePaperExchange (pp_Exchange p)\<rparr>"
  let ?P = "position_matches (er_AccountID req) (NormalizePaperExchange (er_Exchange req))
              (NormalizePaperSymbol (er_Symbol req)) (er_Product req)"
  have wrote: "wrote_position nc p row" if "encode_position nc ?np = Inr row" for row
    using encode_position_frame [OF that] by (simp add: wrote_position_def)
  show ?thesis
  proof (cases "request_position db req")
    case None
    then have "CreatePaperPosition nc ?np db1 = Inr db2"
      using assms(1,3) by (auto simp: persist_position_def Let_def ebind_Inr_iff)
    then obtain row where row: "encode_position nc ?np = Inr row"
        "db2 = db1\<lparr>db_positions := db_positions db1 @ [row]\<rparr>"
      by (auto simp: CreatePaperPosition_Inr)
    have "?P row" using encode_position_frame [OF row(1)] assms(4-7)
      by (simp add: position_matches_def position_key_def)
    then have "request_position db2 req = Some row"
      using None row(2) assms(2) by (simp add: GetPaperPosition_def find_append)
    then show ?thesis using wrote [OF row(1)] by blast
  next
    case (Some q)
    then have "update_position_fill nc (pp_ID q) ?np db1 = Inr db2"
      using assms(1,3) by (auto simp: persist_position_def Let_def ebind_Inr_iff)
    then obtain row where row: "encode_position nc ?np = Inr row"
      "db2 = db1\<lparr>db_positions := map (\<lambda>x. if pp_ID x = pp_ID q
              then x\<lparr>pp_Quantity := pp_Quantity row, pp_AvgEntryPrice := pp_AvgEntryPrice row,
                     pp_LastPrice := pp_LastPrice row, pp_UnrealizedPnL := pp_UnrealizedPnL row,
                     pp_UpdatedAt := pp_UpdatedAt row\<rparr>
              else x) (db_positions db1)\<rparr>"
      by (auto simp: update_position_fill_def ebind_Inr_iff)
    have "request_position db2 req = Some (q\<lparr>pp_Quantity := pp_Quantity row,
        pp_AvgEntryPrice := pp_AvgEntryPrice row, pp_LastPrice := pp_LastPrice row,
        pp_UnrealizedPnL := pp_UnrealizedPnL row, pp_UpdatedAt := pp_UpdatedAt row\<rparr>)"
      using Some assms(2) unfolding row(2)
      by (simp add: GetPaperPosition_def find_map_pred position_matches_def)
    then show ?thesis using wrote [OF row(1)] by (simp add: wrote_position_def)
  qed
qed

text \<open>Lookups of any other key see no difference.\<close>

definition same_key :: "exec_request \<Rightarrow> string \<Rightarrow> string \<Rightarrow> string \<Rightarrow> string \<Rightarrow> bool" where
  "same_key req acct ex symb pd =
     (acct = er_AccountID req \<and> to_upper ex = NormalizePaperExchange (er_Exchange req) \<and>
      to_upper symb = NormalizePaperSymbol (er_Symbol req) \<and> pd = er_Product req)"

lemma upper_normalize [simp]:
  "to_upper (NormalizePaperExchange s) = NormalizePaperExchange s"
  "to_upper (NormalizePaperSymbol s) = NormalizePaperSymbol s"
  by (simp_all add: NormalizePaperExchange_def NormalizePaperSymbol_def)

lemma persist_position_frame:
  assumes "persist_position nc (request_position db req) out db1 = Inr (out', db2)" "db_ok db"
    and "db_positions db1 = db_positions db" "\<not> same_key req acct ex symb pd"
    and "\<And>p. fo_Position out = Some p \<Longrightarrow> pp_PaperAccountID p = er_AccountID req \<and>
           pp_Exchange p = er_Exchange req \<and> pp_Symbol p = er_Symbol req \<and> pp_Product p = er_Product req"
  shows "GetPaperPosition db2 acct ex symb pd = GetPaperPosition db acct ex symb pd"
proof (cases "fo_Position out")
  case None
  then show ?thesis using assms(1,3) by (simp add: persist_position_def GetPaperPosition_def)
next
  case (Some p)
  let ?np = "p\<lparr>pp_Symbol := NormalizePaperSymbol (pp_Symbol p),
              pp_Exchange := NormalizePaperExchange (pp_Exchange p)\<rparr>"
  show ?thesis
  proof (cases "request_position db req")
    case None
    then obtain row where row: "encode_position nc ?np = Inr row"
        "db2 = db1\<lparr>db_positions := db_positions db1 @ [row]\<rparr>"
      using assms(1) Some by (auto simp: persist_position_def Let_def ebind_Inr_iff CreatePaperPosition_Inr)
    have "pp_PaperAccountID row = er_AccountID req \<and> pp_Product row = er_Product req \<and>
        pp_Exchange row = NormalizePaperExchange (er_Exchange req) \<and>
        pp_Symbol row = NormalizePaperSymbol (er_Symbol req)"
      using encode_position_frame [OF row(1)] assms(5) [OF Some] by (simp add: position_key_def)
    then have "\<not> position_matches acct ex symb pd row"
      using assms(4) by (auto simp: position_matches_def same_key_def)
    then show ?thesis using row(2) assms(3) by (simp add: GetPaperPosition_def find_append split: option.split)
  next
    case q: (Some q)
    then have "update_position_fill nc (pp_ID q) ?np db1 = Inr db2"
      using assms(1) Some by (auto simp: persist_position_def Let_def ebind_Inr_iff)
    then obtain row where row: "encode_position nc ?np = Inr row"
      "db2 = db1\<lparr>db_positions := map (\<lambda>x. if pp_ID x = pp_ID q
              then x\<lparr>pp_Quantity := pp_Quantity row, pp_AvgEntryPrice := pp_AvgEntryPrice row,
                     pp_LastPrice := pp_LastPrice row, pp_UnrealizedPnL := pp_UnrealizedPnL row,
                     pp_UpdatedAt := pp_UpdatedAt row\<rparr>
              else x) (db_positions db1)\<rparr>"
      by (auto simp: update_position_fill_def ebind_Inr_iff)
    have qin: "q \<in> set (db_positions db)" "\<not> position_matches acct ex symb pd q"
      using q assms(4) by (auto simp: GetPaperPosition_def find_Some_iff position_matches_def same_key_def)
    have other: "pp_ID x \<noteq> pp_ID q" if "GetPaperPosition db acct ex symb pd = Some x" for x
    proof -
      have "x \<in> set (db_positions db)" "position_matches acct ex symb pd x"
        using that by (auto simp: GetPaperPosition_def find_Some_iff)
      with qin assms(2) show ?thesis by (auto simp: db_ok_def distinct_map inj_on_def)
    qed
    show ?thesis using other assms(3) unfolding row(2)
      by (cases "GetPaperPosition db acct ex symb pd")
        (simp_all add: GetPaperPosition_def find_map_pred position_matches_def)
  qed
qed

lemma computeFill_position:
  "fo_Position (computeFill ids now account position req) = Some p \<Longrightarrow>
     pp_PaperAccountID p = er_AccountID req \<and> pp_Exchange p = er_Exchange req \<and>
     pp_Symbol p = er_Symbol req \<and> pp_Product p = er_Product req"
proof (cases rule: computeFill_cases [of ids now account position req])
  case (filled side qty newQty newAvg pnl delta)
  show "fo_Position (computeFill ids now account position req) = Some p \<Longrightarrow> ?thesis"
    using computeFill_filled [OF filled, of ids now account] by (auto simp: new_position_def)
qed (simp add: reject_order_def)

lemma computeFill_none:
  "fo_Position (computeFill ids now account position req) = None \<Longrightarrow>
     fo_Trade (computeFill ids now account position req) = None \<and>
     fo_NewCashBalance (computeFill ids now account position req) = None"
  using fill_or_reject_aux [of ids now account position req] by (simp add: Let_def) auto

lemma persist_cash_lookup:
  assumes "persist_cash nc now acct out db = Inr db'" "fo_NewCashBalance out = Some c"
    and "GetPaperAccount db acct = Some a"
  shows "\<exists>a'. GetPaperAccount db' acct = Some a' \<and> nc_write nc c = Some (pa_CashBalance a') \<and>
           pa_StartingBalance a' = pa_StartingBalance a"
  using assms
  by (auto simp: persist_cash_def ebind_Inr_iff set_cash_def GetPaperAccount_def find_map_pred write_num_Inr
      dest: find_Some_iff [THEN iffD1])

lemma persist_cash_frame:
  assumes "persist_cash nc now acct out db = Inr db'"
  shows "db_positions db' = db_positions db \<and> db_trades db' = db_trades db \<and> db_orders db' = db_orders db
     \<and> (rid \<noteq> acct \<longrightarrow> GetPaperAccount db' rid = GetPaperAccount db rid)
     \<and> (fo_NewCashBalance out = None \<longrightarrow> db' = db)"
proof (cases "fo_NewCashBalance out")
  case (Some c)
  then obtain c' where "db' = set_cash acct c' now db"
    using assms by (auto simp: persist_cash_def ebind_Inr_iff)
  then show ?thesis using Some
    by (simp add: set_cash_def GetPaperAccount_def find_map_key)
qed (use assms in \<open>simp add: persist_cash_def\<close>)

lemma persist_trade_frame:
  "persist_trade nc out db = Inr db' \<Longrightarrow>
     db_accounts db' = db_accounts db \<and> db_positions db' = db_positions db \<and> db_orders db' = db_orders db \<and>
     (fo_Trade out = None \<longrightarrow> db' = db) \<and>
     (\<forall>t. fo_Trade out = Some t \<longrightarrow> (\<exists>row. encode_trade nc t = Inr row \<and> db_trades db' = db_trades db @ [row]))"
  by (auto simp: persist_trade_def CreatePaperTrade_Inr split: option.splits)

subsection \<open>What a fill does, and when it succeeds\<close>

lemma execute_effects_aux:
  assumes "db_ok db" "Execute env ids sid now req db = Inr (res, db')"
  shows "\<exists>a out. GetPaperAccount db (er_AccountID req) = Some a
     \<and> out = computeFill ids now a (request_position db req) req \<and> res = result_of_outcome out
     \<and> (fo_Position out = None \<longrightarrow> db_positions db' = db_positions db \<and>
          db_trades db' = db_trades db \<and> db_accounts db' = db_accounts db)
     \<and> (\<forall>p. fo_Position out = Some p \<longrightarrow>
          (\<exists>row. request_position db' req = Some row \<and> wrote_position (ev_nc env) p row))
     \<and> (\<forall>c. fo_NewCashBalance out = Some c \<longrightarrow>
          (\<exists>a'. GetPaperAccount db' (er_AccountID req) = Some a' \<and>
             nc_write (ev_nc env) c = Some (pa_CashBalance a') \<and>
             pa_StartingBalance a' = pa_StartingBalance a))
     \<and> (\<forall>rid. rid \<noteq> er_AccountID req \<longrightarrow> GetPaperAccount db' rid = GetPaperAccount db rid)
     \<and> (\<forall>acct ex symb pd. \<not> same_key req acct ex symb pd \<longrightarrow>
          GetPaperPosition db' acct ex symb pd = GetPaperPosition db acct ex symb pd)"
proof (rule Execute_Inr [OF assms(2)])
  fix a out out' db1 db2 db3 db4
  assume a: "GetPaperAccount db (er_AccountID req) = Some a"
    and out: "out = computeFill ids now a (request_position db req) req"
    and o1: "CreatePaperOrder (ev_nc env) (fo_Order out) db = Inr db1"
    and o2: "persist_position (ev_nc env) (request_position db req) out db1 = Inr (out', db2)"
    and o3: "persist_trade (ev_nc env) out' db2 = Inr db3"
    and o4: "persist_cash (ev_nc env) now (er_AccountID req) out' db3 = Inr db4"
    and db': "db' = best_effort db4 (RecordPaperAccountEquitySnapshot env sid now
              (er_AccountID req) (pa_UserID a) db4)"
    and res: "res = result_of_outcome out'"
  have f1: "db_positions db1 = db_positions db" "db_accounts db1 = db_accounts db" "db_trades db1 = db_trades db"
    using o1 by (auto simp: CreatePaperOrder_Inr)
  note f2 = persist_position_Inr [OF o2]
  note f3 = persist_trade_frame [OF o3]
  note f4 = persist_cash_frame [OF o4]
  have lookup: "GetPaperPosition db' acct ex symb pd = GetPaperPosition db2 acct ex symb pd" for acct ex symb pd
    using f3 f4 by (simp add: db' GetPaperPosition_def)
  have acc: "GetPaperAccount db' rid = GetPaperAccount db4 rid" for rid
    by (simp add: db' GetPaperAccount_def)
  have a3: "GetPaperAccount db3 rid = GetPaperAccount db rid" for rid
    using f1 f2 f3 by (simp add: GetPaperAccount_def)
  note pos = computeFill_position [of ids now a "request_position db req" req]
  have e1: "fo_Position out = None \<longrightarrow>
     db_positions db' = db_positions db \<and> db_trades db' = db_trades db \<and> db_accounts db' = db_accounts db"
  proof
    assume none: "fo_Position out = None"
    have "fo_Trade out' = None" "fo_NewCashBalance out' = None"
      using computeFill_none none f2 unfolding out by metis+
    moreover have "db2 = db1" using o2 none by (simp add: persist_position_def)
    ultimately have "db4 = db1" using f3 f4 by simp
    then show "db_positions db' = db_positions db \<and> db_trades db' = db_trades db \<and>
        db_accounts db' = db_accounts db" using f1 by (simp add: db')
  qed
  have e2: "\<forall>p. fo_Position out = Some p \<longrightarrow>
      (\<exists>row. request_position db' req = Some row \<and> wrote_position (ev_nc env) p row)"
    using persist_position_lookup [OF o2 f1(1)] pos unfolding lookup out by blast
  have e3: "\<forall>c. fo_NewCashBalance out = Some c \<longrightarrow>
     (\<exists>a'. GetPaperAccount db' (er_AccountID req) = Some a' \<and>
      nc_write (ev_nc env) c = Some (pa_CashBalance a') \<and> pa_StartingBalance a' = pa_StartingBalance a)"
    using persist_cash_lookup [OF o4, of _ a] f2 a unfolding acc a3 by simp
  have e4: "\<forall>rid. rid \<noteq> er_AccountID req \<longrightarrow> GetPaperAccount db' rid = GetPaperAccount db rid"
    using persist_cash_frame [OF o4] unfolding acc a3 by simp
  have e5: "\<forall>acct ex symb pd. \<not> same_key req acct ex symb pd \<longrightarrow>
      GetPaperPosition db' acct ex symb pd = GetPaperPosition db acct ex symb pd"
    using persist_position_frame [OF o2 assms(1) f1(1)] pos unfolding lookup out by blast
  have e6: "res = result_of_outcome out" using res f2 by (simp add: result_of_outcome_def)
  show ?thesis
    by (rule exI [of _ a], rule exI [of _ out], intro conjI) (fact a out e1 e2 e3 e4 e5 e6)+
qed

text \<open>
  C4. What a fill that succeeds has done, in tables of sound integrity: the result is that of the
  engine on the locked account and position; a rejected order leaves positions, trades and accounts
  as they were; after a filled one, looking up the position and the account reads what the engine
  computed, as the columns store it; and no other account and no other position key sees a change.
\<close>

theorem execute_effects:
  assumes "db_ok db" "Execute env ids sid now req db = Inr (res, db')"
  shows "\<exists>a out. GetPaperAccount db (er_AccountID req) = Some a
     \<and> out = computeFill ids now a (request_position db req) req \<and> res = result_of_outcome out
     \<and> (fo_Position out = None \<longrightarrow> db_positions db' = db_positions db \<and>
          db_trades db' = db_trades db \<and> db_accounts db' = db_accounts db)
     \<and> (\<forall>p. fo_Position out = Some p \<longrightarrow>
          (\<exists>row. request_position db' req = Some row \<and> wrote_position (ev_nc env) p row))
     \<and> (\<forall>c. fo_NewCashBalance out = Some c \<longrightarrow>
          (\<exists>a'. GetPaperAccount db' (er_AccountID req) = Some a' \<and>
             nc_write (ev_nc env) c = Some (pa_CashBalance a') \<and>
             pa_StartingBalance a' = pa_StartingBalance a))
     \<and> (\<forall>rid. rid \<noteq> er_AccountID req \<longrightarrow> GetPaperAccount db' rid = GetPaperAccount db rid)
     \<and> (\<forall>acct ex symb pd. \<not> same_key req acct ex symb pd \<longrightarrow>
          GetPaperPosition db' acct ex symb pd = GetPaperPosition db acct ex symb pd)"
  by (rule execute_effects_aux [OF assms])

text \<open>The numbers of an outcome fit their columns, and its row passes the order table's checks.\<close>

definition outcome_numbers :: "fill_outcome \<Rightarrow> f64 list" where
  "outcome_numbers out =
     [po_Quantity (fo_Order out)]
     @ (case po_RequestedPrice (fo_Order out) of None \<Rightarrow> [] | Some p \<Rightarrow> [p])
     @ (case po_FillPrice (fo_Order out) of None \<Rightarrow> [] | Some p \<Rightarrow> [p])
     @ (case fo_Position out of None \<Rightarrow> []
        | Some p \<Rightarrow> [pp_Quantity p, pp_AvgEntryPrice p, pp_LastPrice p, pp_UnrealizedPnL p])
     @ (case fo_Trade out of None \<Rightarrow> []
        | Some t \<Rightarrow> [pt_Quantity t, pt_Price t, pt_RealizedPnL t, pt_Fees t])
     @ (case fo_NewCashBalance out of None \<Rightarrow> [] | Some c \<Rightarrow> [c])"

definition storable :: "numeric_cols \<Rightarrow> paper_db \<Rightarrow> fill_outcome \<Rightarrow> bool" where
  "storable nc db out =
     ((\<forall>x \<in> set (outcome_numbers out). nc_write nc x \<noteq> None) \<and> order_check (fo_Order out) \<and>
      (\<forall>w. po_WebhookID (fo_Order out) = Some w \<longrightarrow> w \<in> set (map fst (db_hooks db))))"

definition fresh_for :: "fresh_ids \<Rightarrow> paper_db \<Rightarrow> bool" where
  "fresh_for ids db =
     (id_order ids \<notin> set (map po_ID (db_orders db)) \<and>
      id_position ids \<notin> set (map pp_ID (db_positions db)) \<and>
      id_trade ids \<notin> set (map pt_ID (db_trades db)))"

lemma write_num_Some: "nc_write nc x \<noteq> None \<Longrightarrow> \<exists>y. write_num nc x = Inr y"
  by (auto simp: write_num_def)

lemma encode_order_fits:
  assumes "\<forall>x \<in> set (outcome_numbers out). nc_write nc x \<noteq> None"
  shows "\<exists>row. encode_order nc (fo_Order out) = Inr row"
  using assms write_num_Some [of nc]
  by (cases "po_RequestedPrice (fo_Order out)"; cases "po_FillPrice (fo_Order out)")
    (force simp: encode_order_def outcome_numbers_def write_num_opt_def write_num_def)+

lemma encode_position_fits:
  assumes "\<forall>x \<in> set (outcome_numbers out). nc_write nc x \<noteq> None" "fo_Position out = Some p"
    and "pp_Quantity np = pp_Quantity p" "pp_AvgEntryPrice np = pp_AvgEntryPrice p"
    and "pp_LastPrice np = pp_LastPrice p" "pp_UnrealizedPnL np = pp_UnrealizedPnL p"
  shows "\<exists>row. encode_position nc np = Inr row"
  using assms by (force simp: encode_position_def outcome_numbers_def write_num_def)

lemma encode_trade_fits:
  assumes "\<forall>x \<in> set (outcome_numbers out). nc_write nc x \<noteq> None" "fo_Trade out = Some t"
  shows "\<exists>row. encode_trade nc t = Inr row"
  using assms by (force simp: encode_trade_def outcome_numbers_def write_num_def)

lemma resolve_order_side:
  "validateOrder req = [] \<Longrightarrow> resolve_order req q = Inr (side, n) \<Longrightarrow> side = SideBuy \<or> side = SideSell"
  by (auto simp: resolve_order_def validateOrder_def resolveCloseSide_def split: if_splits)

lemma computeFill_trade:
  "fo_Trade (computeFill ids now account position req) = Some t \<Longrightarrow>
     pt_ID t = id_trade ids \<and> (pt_Side t = SideBuy \<or> pt_Side t = SideSell)"
proof (cases rule: computeFill_cases [of ids now account position req])
  case (filled side qty newQty newAvg pnl delta)
  show "fo_Trade (computeFill ids now account position req) = Some t \<Longrightarrow> ?thesis"
    using computeFill_filled [OF filled, of ids now account] resolve_order_side [OF filled(1,2)]
    by (auto simp: new_trade_def)
qed (simp add: reject_order_def)

lemma computeFill_position_id:
  "fo_Position (computeFill ids now account position req) = Some p \<Longrightarrow>
     pp_ID p = (case position of Some q \<Rightarrow> pp_ID q | None \<Rightarrow> id_position ids)"
proof (cases rule: computeFill_cases [of ids now account position req])
  case (filled side qty newQty newAvg pnl delta)
  show "fo_Position (computeFill ids now account position req) = Some p \<Longrightarrow> ?thesis"
    using computeFill_filled [OF filled, of ids now account]
    by (auto simp: new_position_def)
qed (simp add: reject_order_def)

lemma GetPaperAccount_in: "GetPaperAccount db rid = Some a \<Longrightarrow> rid \<in> set (map pa_ID (db_accounts db))"
  by (auto simp: GetPaperAccount_def find_Some_iff)

lemma no_key_clash:
  assumes "request_position db req = None"
    and "position_key p = (er_AccountID req, NormalizePaperExchange (er_Exchange req),
           NormalizePaperSymbol (er_Symbol req), er_Product req)"
  shows "position_key p \<notin> set (map position_key (db_positions db))"
proof
  assume "position_key p \<in> set (map position_key (db_positions db))"
  then obtain q where "q \<in> set (db_positions db)" "position_key q = position_key p" by auto
  then have "position_matches (er_AccountID req) (NormalizePaperExchange (er_Exchange req))
      (NormalizePaperSymbol (er_Symbol req)) (er_Product req) q"
    using assms(2) by (simp add: position_matches_def position_key_def)
  with assms(1) \<open>q \<in> set (db_positions db)\<close> show False
    by (auto simp: GetPaperPosition_def find_None_iff)
qed

lemma persist_position_succeeds:
  assumes "\<forall>x \<in> set (outcome_numbers out). nc_write nc x \<noteq> None"
    and "out = computeFill ids now a (request_position db req) req"
    and "id_position ids \<notin> set (map pp_ID (db_positions db))"
    and "GetPaperAccount db (er_AccountID req) = Some a"
    and "db_positions db1 = db_positions db" "db_accounts db1 = db_accounts db"
  shows "\<exists>r. persist_position nc (request_position db req) out db1 = Inr r"
proof (cases "fo_Position out")
  case (Some p)
  let ?np = "p\<lparr>pp_Symbol := NormalizePaperSymbol (pp_Symbol p),
              pp_Exchange := NormalizePaperExchange (pp_Exchange p)\<rparr>"
  obtain row where row: "encode_position nc ?np = Inr row"
    using encode_position_fits [OF assms(1) Some, of ?np] by auto
  note frame = encode_position_frame [OF row]
  show ?thesis
  proof (cases "request_position db req")
    case None
    have "pp_ID p = id_position ids"
      using computeFill_position_id Some None unfolding assms(2) by fastforce
    then have fresh: "pp_ID row \<notin> set (map pp_ID (db_positions db1))" using frame assms(3,5) by simp
    have key: "position_key row = (er_AccountID req, NormalizePaperExchange (er_Exchange req),
           NormalizePaperSymbol (er_Symbol req), er_Product req)"
      using frame computeFill_position Some unfolding assms(2) by (auto simp: position_key_def)
    have "position_key row \<notin> set (map position_key (db_positions db1))"
      using no_key_clash [OF None key] assms(5) by simp
    moreover have "pp_PaperAccountID row \<in> set (map pa_ID (db_accounts db1))"
      using key GetPaperAccount_in [OF assms(4)] assms(6) by (simp add: position_key_def)
    ultimately have "CreatePaperPosition nc ?np db1 = Inr (db1\<lparr>db_positions := db_positions db1 @ [row]\<rparr>)"
      using row fresh unfolding CreatePaperPosition_Inr by blast
    then show ?thesis using None Some by (simp add: persist_position_def Let_def)
  next
    case (Some q)
    then show ?thesis using row \<open>fo_Position out = Some p\<close>
      by (simp add: persist_position_def Let_def update_position_fill_def)
  qed
qed (simp add: persist_position_def)

lemma execute_succeeds_aux:
  assumes "GetPaperAccount db (er_AccountID req) = Some a" "fresh_for ids db"
    and "storable (ev_nc env) db (computeFill ids now a (request_position db req) req)"
  shows "\<exists>db'. Execute env ids sid now req db
           = Inr (result_of_outcome (computeFill ids now a (request_position db req) req), db')"
proof -
  define out where "out = computeFill ids now a (request_position db req) req"
  have fits: "\<forall>x \<in> set (outcome_numbers out). nc_write (ev_nc env) x \<noteq> None"
    using assms(3) by (simp add: storable_def out_def)
  obtain orow where orow: "encode_order (ev_nc env) (fo_Order out) = Inr orow"
    using encode_order_fits [OF fits] by blast
  note oframe = encode_order_frame [OF orow] 
  note ids = computeFill_ids [of ids now a "request_position db req" req, folded out_def]
  define db1 where "db1 = db\<lparr>db_orders := db_orders db @ [orow]\<rparr>"
  have o1: "CreatePaperOrder (ev_nc env) (fo_Order out) db = Inr db1"
    unfolding CreatePaperOrder_Inr
    using orow oframe ids assms GetPaperAccount_in [OF assms(1)]
    by (intro exI [of _ orow]) (auto simp: db1_def fresh_for_def storable_def order_check_def out_def)
  obtain out' db2 where o2: "persist_position (ev_nc env) (request_position db req) out db1 = Inr (out', db2)"
    using persist_position_succeeds [OF fits out_def _ assms(1), of db1] assms(2)
    by (auto simp: db1_def fresh_for_def)
  note f2 = persist_position_Inr [OF o2]
  obtain db3 where o3: "persist_trade (ev_nc env) out' db2 = Inr db3"
  proof (cases "fo_Trade out")
    case None
    then show ?thesis using that f2 by (simp add: persist_trade_def)
  next
    case (Some t)
    obtain trow where trow: "encode_trade (ev_nc env) t = Inr trow"
      using encode_trade_fits [OF fits Some] by blast
    have "CreatePaperTrade (ev_nc env) t db2 = Inr (db2\<lparr>db_trades := db_trades db2 @ [trow]\<rparr>)"
      unfolding CreatePaperTrade_Inr
      using trow encode_trade_frame [OF trow] computeFill_trade Some ids f2 oframe
        GetPaperAccount_in [OF assms(1)] assms(2)
      by (intro exI [of _ trow]) (auto simp: db1_def fresh_for_def side_defs out_def)
    then show ?thesis using that Some f2 by (simp add: persist_trade_def)
  qed
  obtain db4 where o4: "persist_cash (ev_nc env) now (er_AccountID req) out' db3 = Inr db4"
    using fits f2 by (cases "fo_NewCashBalance out")
      (auto simp: persist_cash_def outcome_numbers_def write_num_def)
  have "result_of_outcome out' = result_of_outcome out" using f2 by (simp add: result_of_outcome_def)
  then show ?thesis
    using assms(1) o1 o2 o3 o4 by (simp add: Execute_def ExecutePaperFill_def Let_def flip: out_def)
qed

text \<open>
  A fill of an existing account is carried out whenever the identifiers drawn are new, its numbers
  fit their columns and its order passes the checks of the order table: in particular the insertion
  of a position never breaks the uniqueness of position keys, whatever the case or the padding of
  the exchange and the symbol in the request.
\<close>

theorem execute_succeeds:
  assumes "GetPaperAccount db (er_AccountID req) = Some a" "fresh_for ids db"
    and "storable (ev_nc env) db (computeFill ids now a (request_position db req) req)"
  shows "\<exists>db'. Execute env ids sid now req db
           = Inr (result_of_outcome (computeFill ids now a (request_position db req) req), db')"
  by (rule execute_succeeds_aux [OF assms])
subsection \<open>The theorems at concrete inputs\<close>

definition sample_nc :: numeric_cols where
  "sample_nc = \<lparr>nc_write = Some, nc_dec = rval, nc_avg = (\<lambda>s n. fround (s / of_int n))\<rparr>"

definition sample_env :: "unit store_env" where
  "sample_env = \<lparr>ev_nc = sample_nc, ev_LoadLocation = (\<lambda>_. None), ev_utc = (), ev_dayStart = (\<lambda>_ t. t)\<rparr>"

definition sample_account :: paper_account where
  "sample_account = \<lparr>pa_ID = ''acc'', pa_UserID = ''u'', pa_Label = ''main'',
     pa_MarketProfile = ''indian_equity'', pa_BaseCurrency = ''INR'', pa_StartingBalance = Fin 100000,
     pa_CashBalance = Fin 100000, pa_Exchange = ''NSE'', pa_DefaultProduct = ''MIS'',
     pa_Status = ''active'', pa_CreatedAt = 0, pa_UpdatedAt = 0\<rparr>"

definition empty_db :: paper_db where
  "empty_db = \<lparr>db_accounts = [], db_orders = [], db_positions = [], db_trades = [], db_snapshots = [],
     db_profiles = [], db_instruments = [], db_hooks = []\<rparr>"

definition sample_ids :: fresh_ids where
  "sample_ids = \<lparr>id_order = ''o1'', id_position = ''p1'', id_trade = ''t1''\<rparr>"

lemma sample_created:
  "\<exists>db. CreatePaperAccount sample_env ''s0'' 0 sample_account empty_db = Inr db \<and>
     db_accounts db = [sample_account] \<and> db_orders db = [] \<and> db_positions db = [] \<and> db_trades db = []"
  by (simp add: CreatePaperAccount_def insert_account_def encode_account_def write_num_def sample_env_def
      sample_nc_def account_check_def require_def sample_account_def empty_db_def f64_op_defs fle_def)

lemma sample_storable:
  "db_hooks db = hs \<Longrightarrow> storable sample_nc db
     (computeFill sample_ids 1 a position (sample_request ''BUY'' 3))"
proof (cases rule: computeFill_cases [of sample_ids 1 a position "sample_request ''BUY'' 3"])
  case (filled side qty newQty newAvg pnl delta)
  then show ?thesis using computeFill_filled [OF filled, of sample_ids 1 a]
    by (simp add: storable_def sample_nc_def order_check_def base_order_def sample_request_def
        zero_request_def paper_status_defs)
next
  case (rejected reason)
  then show ?thesis
    by (simp add: storable_def sample_nc_def order_check_def base_order_def sample_request_def
        zero_request_def paper_status_defs reject_order_def)
qed

lemma sample_fill:
  assumes "db_accounts db = [sample_account]" "db_orders db = []" "db_positions db = []" "db_trades db = []"
  shows "request_position db (sample_request ''BUY'' 3) = None"
    "GetPaperAccount db (er_AccountID (sample_request ''BUY'' 3)) = Some sample_account"
    "fresh_for sample_ids db"
  using assms
  by (simp_all add: GetPaperPosition_def GetPaperAccount_def sample_request_def sample_account_def fresh_for_def)

theorem execute_succeeds_witness:
  "\<exists>db db'. CreatePaperAccount sample_env ''s0'' 0 sample_account empty_db = Inr db
     \<and> Execute sample_env sample_ids ''s1'' 1 (sample_request ''BUY'' 3) db
        = Inr (result_of_outcome (computeFill sample_ids 1 sample_account None (sample_request ''BUY'' 3)), db')"
proof -
  obtain db where db: "CreatePaperAccount sample_env ''s0'' 0 sample_account empty_db = Inr db"
    "db_accounts db = [sample_account]" "db_orders db = []" "db_positions db = []" "db_trades db = []"
    using sample_created by blast
  note s = sample_fill [OF db(2-5)]
  have "storable (ev_nc sample_env) db (computeFill sample_ids 1 sample_account
      (request_position db (sample_request ''BUY'' 3)) (sample_request ''BUY'' 3))"
    using sample_storable [OF refl] by (simp add: sample_env_def)
  then have "\<exists>db'. Execute sample_env sample_ids ''s1'' 1 (sample_request ''BUY'' 3) db
      = Inr (result_of_outcome (computeFill sample_ids 1 sample_account None (sample_request ''BUY'' 3)), db')"
    using execute_succeeds [OF s(2,3), of sample_env 1 "''s1''"] s(1) by simp
  with db(1) show ?thesis by blast
qed

text \<open>The same steps as a sequence of states: an account, then its first fill.\<close>

lemma sample_executed:
  "\<exists>db db' res. store_reachable sample_env db \<and> db_ok db \<and> db_accounts db = [sample_account] \<and> db_positions db = []
     \<and> Execute sample_env sample_ids ''s1'' 1 (sample_request ''BUY'' 3) db = Inr (res, db')
     \<and> store_reachable sample_env db'"
proof -
  obtain db where db: "CreatePaperAccount sample_env ''s0'' 0 sample_account empty_db = Inr db"
    "db_accounts db = [sample_account]" "db_orders db = []" "db_positions db = []" "db_trades db = []"
    using sample_created by blast
  note s = sample_fill [OF db(2-5)]
  have r: "store_reachable sample_env db"
    using store_reachable.step [OF store_reachable.empty store_step.create [OF db(1) [unfolded empty_db_def]]] .
  have "storable (ev_nc sample_env) db (computeFill sample_ids 1 sample_account
      (request_position db (sample_request ''BUY'' 3)) (sample_request ''BUY'' 3))"
    using sample_storable [OF refl] by (simp add: sample_env_def)
  then obtain res db' where e: "Execute sample_env sample_ids ''s1'' 1 (sample_request ''BUY'' 3) db = Inr (res, db')"
    using execute_succeeds_aux [OF s(2,3), of sample_env 1 "''s1''"] by blast
  show ?thesis
    using r db db_ok_reachable e store_reachable.step [OF r store_step.execute [OF e]] by blast
qed

theorem store_integrity_witness:
  "\<exists>db. store_reachable sample_env db \<and> db_positions db \<noteq> []
     \<and> distinct (map position_key (db_positions db))
     \<and> (\<forall>p \<in> set (db_positions db). GetPaperPosition db (pp_PaperAccountID p) (pp_Exchange p)
          (pp_Symbol p) (pp_Product p) = Some p)"
proof -
  obtain db db' res where db: "db_ok db" "db_accounts db = [sample_account]" "db_positions db = []"
      "Execute sample_env sample_ids ''s1'' 1 (sample_request ''BUY'' 3) db = Inr (res, db')"
      "store_reachable sample_env db'" using sample_executed by blast
  obtain a out where out: "out = computeFill sample_ids 1 a (request_position db (sample_request ''BUY'' 3))
        (sample_request ''BUY'' 3)"
      "\<forall>p. fo_Position out = Some p \<longrightarrow> (\<exists>row. request_position db' (sample_request ''BUY'' 3) = Some row)"
    using execute_effects_aux [OF db(1,4)] by (elim exE conjE) (rule that, assumption, blast)
  have "accepted (sample_request ''BUY'' 3) (request_position db (sample_request ''BUY'' 3))"
    using sample_request_valid [of "''BUY''" 3]
    by (simp add: accepted_def sample_request_def side_defs zero_request_def)
  moreover have "(fo_Position out \<noteq> None)
      = accepted (sample_request ''BUY'' 3) (request_position db (sample_request ''BUY'' 3))"
    unfolding out(1) by (rule fill_or_reject_aux [unfolded Let_def, THEN conjunct2, THEN conjunct2, THEN conjunct1])
  ultimately obtain p where "fo_Position out = Some p" by blast
  with out(2) have "db_positions db' \<noteq> []" by (auto simp: GetPaperPosition_def)
  with store_integrity [OF db(5)] db(5) show ?thesis by blast
qed

theorem execute_effects_witness:
  "\<exists>db db' a res. Execute sample_env sample_ids ''s1'' 1 (sample_request ''BUY'' 3) db = Inr (res, db')
     \<and> GetPaperAccount db ''acc'' = Some a
     \<and> res = result_of_outcome (computeFill sample_ids 1 a None (sample_request ''BUY'' 3))
     \<and> GetPaperAccount db' ''other'' = GetPaperAccount db ''other''"
proof -
  obtain db db' res where db: "db_ok db" "db_accounts db = [sample_account]" "db_positions db = []"
      "Execute sample_env sample_ids ''s1'' 1 (sample_request ''BUY'' 3) db = Inr (res, db')"
    using sample_executed by blast
  have acc: "er_AccountID (sample_request ''BUY'' 3) = ''acc''" and
    pos: "request_position db (sample_request ''BUY'' 3) = None"
    using db(3) by (simp_all add: sample_request_def GetPaperPosition_def)
  from execute_effects [OF db(1,4)] obtain a out where
    "GetPaperAccount db ''acc'' = Some a"
    "out = computeFill sample_ids 1 a None (sample_request ''BUY'' 3)" "res = result_of_outcome out"
    "\<forall>rid. rid \<noteq> ''acc'' \<longrightarrow> GetPaperAccount db' rid = GetPaperAccount db rid"
    unfolding pos unfolding acc by (elim exE conjE) (rule that)
  then show ?thesis using db(4) by (intro exI [of _ db] exI [of _ db'] exI [of _ a] exI [of _ res]) simp
qed

end
