(* ===== verification/Ledger.thy ===== *)
theory Ledger
  imports PaperStore
begin

section \<open>The books of a paper account balance\<close>

text \<open>
  An abstract specification of the fill rules over exact rationals, that the engine implements
  when no operation rounds, and the accounting identity that follows from it: cash and positions
  at entry price always add up to the starting balance and the realized profit less fees. The
  profit and loss summary computes equity from profits, as the comment of \<^verbatim>\<open>PaperPnLSummary\<close> says,
  and the identity is why that agrees with cash plus the value of the positions.
\<close>

subsection \<open>The specification of a fill\<close>

text \<open>
  A position is a signed quantity and an entry price. A trade of signed size \<open>d\<close> closes what it
  can of an opposite position, realizing the price difference, and opens the rest.
\<close>

definition spec_closing :: "rat \<Rightarrow> rat \<Rightarrow> rat" where
  "spec_closing q d = (if q * d < 0 then min \<bar>q\<bar> \<bar>d\<bar> else 0)"

definition spec_realized :: "rat \<Rightarrow> rat \<Rightarrow> rat \<Rightarrow> rat \<Rightarrow> rat" where
  "spec_realized q avg d p = sgn q * (p - avg) * spec_closing q d"

definition spec_average :: "rat \<Rightarrow> rat \<Rightarrow> rat \<Rightarrow> rat \<Rightarrow> rat" where
  "spec_average q avg d p =
     (if q + d = 0 then 0
      else if 0 \<le> q * d then (\<bar>q\<bar> * avg + \<bar>d\<bar> * p) / \<bar>q + d\<bar>
      else if \<bar>d\<bar> \<le> \<bar>q\<bar> then avg
      else p)"

lemma spec_open:
  "0 \<le> q * d \<Longrightarrow> q + d \<noteq> 0 \<Longrightarrow>
     spec_average q avg d p = (\<bar>q\<bar> * avg + \<bar>d\<bar> * p) / \<bar>q + d\<bar> \<and> spec_realized q avg d p = 0"
  by (simp add: spec_average_def spec_realized_def spec_closing_def not_less [symmetric])

lemma spec_reduce:
  "q * d < 0 \<Longrightarrow> \<bar>d\<bar> \<le> \<bar>q\<bar> \<Longrightarrow>
     spec_average q avg d p = (if q + d = 0 then 0 else avg) \<and>
     spec_realized q avg d p = sgn q * (p - avg) * \<bar>d\<bar>"
  by (simp add: spec_average_def spec_realized_def spec_closing_def)

lemma spec_flip:
  "q * d < 0 \<Longrightarrow> \<bar>q\<bar> < \<bar>d\<bar> \<Longrightarrow>
     spec_average q avg d p = p \<and> spec_realized q avg d p = sgn q * (p - avg) * \<bar>q\<bar>"
  by (auto simp: spec_average_def spec_realized_def spec_closing_def add_eq_0_iff)

text \<open>Book value is conserved by any trade: what leaves cash enters the position or is realized.\<close>

lemma spec_conserves_pos:
  assumes "0 \<le> q"
  shows "(q + d) * spec_average q avg d p = q * avg + d * p + spec_realized q avg d p"
proof -
  consider "q + d = 0" "q = 0" | "0 \<le> q * d" "0 < q + d" | "q = 0" "d < 0"
    | "q * d < 0" "\<bar>d\<bar> \<le> \<bar>q\<bar>" "0 < q" "d < 0" | "q * d < 0" "\<bar>q\<bar> < \<bar>d\<bar>" "0 < q" "d < 0"
  proof -
    assume c: "q + d = 0 \<Longrightarrow> q = 0 \<Longrightarrow> thesis" "0 \<le> q * d \<Longrightarrow> 0 < q + d \<Longrightarrow> thesis"
      "q = 0 \<Longrightarrow> d < 0 \<Longrightarrow> thesis"
      "q * d < 0 \<Longrightarrow> \<bar>d\<bar> \<le> \<bar>q\<bar> \<Longrightarrow> 0 < q \<Longrightarrow> d < 0 \<Longrightarrow> thesis"
      "q * d < 0 \<Longrightarrow> \<bar>q\<bar> < \<bar>d\<bar> \<Longrightarrow> 0 < q \<Longrightarrow> d < 0 \<Longrightarrow> thesis"
    show thesis
    proof (cases "d < 0")
      case True
      then show thesis using assms c(3-5) mult_pos_neg [of q d] by (cases "q = 0") linarith+
    next
      case False
      then have "0 \<le> q * d" using assms by simp
      then show thesis using False assms c(1,2) by (cases "q + d = 0") auto
    qed
  qed
  then show ?thesis
  proof cases
    case 2
    then show ?thesis using spec_open [OF 2(1)] assms
      by (cases "q = 0") (auto simp: zero_le_mult_iff)
  next
    case 3
    then show ?thesis using spec_open [of q d avg p] by simp
  next
    case 4
    then show ?thesis using spec_reduce [OF 4(1,2), of avg p]
      by (cases "q = - d") (auto simp: add_eq_0_iff algebra_simps)
  next
    case 5
    then show ?thesis using spec_flip [OF 5(1,2)] by (simp add: algebra_simps)
  qed (simp add: spec_average_def spec_realized_def)
qed

lemma spec_mirror:
  "spec_average (- q) avg (- d) p = spec_average q avg d p"
  "spec_realized (- q) avg (- d) p = - spec_realized q avg d p"
  by (auto simp: spec_average_def spec_realized_def spec_closing_def abs_minus_commute
      simp flip: minus_add_distrib)

lemma spec_conserves:
  "(q + d) * spec_average q avg d p = q * avg + d * p + spec_realized q avg d p"
  using spec_conserves_pos [of q d avg p] spec_conserves_pos [of "- q" "- d" avg p]
    spec_mirror [of q avg d p]
  by (cases "0 \<le> q") (simp_all add: algebra_simps)

subsection \<open>The engine implements the specification\<close>

text \<open>No operation of a BUY rounds, on the branch the numbers take.\<close>

definition exact_buy :: "rat \<Rightarrow> rat \<Rightarrow> rat \<Rightarrow> rat \<Rightarrow> bool" where
  "exact_buy q avg n p =
     (is_double (q + n) \<and>
      (if 0 \<le> q then is_double (avg * q) \<and> is_double (p * n) \<and> is_double (avg * q + p * n) \<and>
          is_double ((avg * q + p * n) / (q + n))
       else is_double (avg - p) \<and> is_double ((avg - p) * min n (- q))))"

definition exact_fill :: "string \<Rightarrow> rat \<Rightarrow> rat \<Rightarrow> rat \<Rightarrow> rat \<Rightarrow> bool" where
  "exact_fill side q avg n p =
     (if side = SideBuy then exact_buy q avg n p else exact_buy (- q) avg n p)"

definition signed_qty :: "string \<Rightarrow> rat \<Rightarrow> rat" where
  "signed_qty side n = (if side = SideBuy then n else - n)"

lemma applyBuy_spec:
  assumes "exact_buy q avg n p" "0 < n" "q = 0 \<longrightarrow> avg = 0"
  shows "applyBuy (Fin q) (Fin avg) (Fin n) (Fin p)
           = (Fin (q + n), Fin (spec_average q avg n p), Fin (spec_realized q avg n p))"
proof -
  consider "0 \<le> q" | "q < 0" "n \<le> - q" | "q < 0" "- q < n" by linarith
  then show ?thesis
  proof cases
    case 1
    then have "0 \<le> q * n" "q + n \<noteq> 0" "\<bar>q + n\<bar> = q + n" using assms(2) by auto
    with 1 assms spec_open [OF this(1,2)] show ?thesis
      by (simp add: applyBuy_def Let_def exact_buy_def fround_exact mult.commute)
  next
    case 2
    then have "q * n < 0" "\<bar>n\<bar> \<le> \<bar>q\<bar>" using assms(2) by (auto simp: mult_neg_pos)
    with 2 assms spec_reduce [OF this] show ?thesis
      by (simp add: applyBuy_def Let_def exact_buy_def fround_exact)
  next
    case 3
    then have "q * n < 0" "\<bar>q\<bar> < \<bar>n\<bar>" using assms(2) by (auto simp: mult_neg_pos)
    with 3 assms spec_flip [OF this] show ?thesis
      by (simp add: applyBuy_def Let_def exact_buy_def fround_exact add.commute)
  qed
qed

lemma applySell_spec:
  assumes "exact_buy (- q) avg n p" "0 < n" "q = 0 \<longrightarrow> avg = 0"
  shows "applySell (Fin q) (Fin avg) (Fin n) (Fin p)
           = (Fin (q - n), Fin (spec_average q avg (- n) p), Fin (spec_realized q avg (- n) p))"
  using applyBuy_spec [of "- q" avg n p] assms spec_mirror [of q avg "- n" p]
  by (simp add: applySell_mirror)

lemma engine_refines_spec_aux:
  assumes "side = SideBuy \<or> side = SideSell" "0 < n" "exact_fill side q avg n p" "is_double (p * n)"
    and "q = 0 \<longrightarrow> avg = 0"
  shows "apply_fill side (Fin q) (Fin avg) (Fin n) (Fin p)
     = (Fin (q + signed_qty side n), Fin (spec_average q avg (signed_qty side n) p),
        Fin (spec_realized q avg (signed_qty side n) p), Fin (- (signed_qty side n * p)))"
  using assms applyBuy_spec [of q avg n p] applySell_spec [of q avg n p]
  by (auto simp: apply_fill_def exact_fill_def signed_qty_def fround_exact side_defs mult.commute)
subsection \<open>Exact amounts\<close>

text \<open>
  C1. On amounts where no operation rounds, the engine's branches for opening, adding, reducing, closing
  and flipping, for either side, compute the quantity, the average entry price and the realized
  profit of the exact specification.
\<close>

theorem engine_refines_spec:
  assumes "side = SideBuy \<or> side = SideSell" "0 < n" "exact_fill side q avg n p" "is_double (p * n)"
    and "q = 0 \<longrightarrow> avg = 0"
  shows "apply_fill side (Fin q) (Fin avg) (Fin n) (Fin p)
     = (Fin (q + signed_qty side n), Fin (spec_average q avg (signed_qty side n) p),
        Fin (spec_realized q avg (signed_qty side n) p), Fin (- (signed_qty side n * p)))"
  by (rule engine_refines_spec_aux [OF assms])

text \<open>
  Multiples of 1/256 below a billion are doubles, and NUMERIC(18,8) holds them exactly, since 1/256
  has eight decimals.
\<close>

definition on_grid :: "rat \<Rightarrow> bool" where
  "on_grid x = (x * 256 = of_int \<lfloor>x * 256\<rfloor> \<and> \<bar>x\<bar> \<le> 1000000000)"

definition exact_cols :: "numeric_cols \<Rightarrow> bool" where
  "exact_cols nc = (\<forall>x. on_grid x \<longrightarrow> nc_write nc (Fin x) = Some (Fin x) \<and> nc_dec nc (Fin x) = x)"

text \<open>No step of a fill rounds: its operations are exact and what it stores is on the grid.\<close>

definition exact_amounts :: "string \<Rightarrow> rat \<Rightarrow> rat \<Rightarrow> rat \<Rightarrow> rat \<Rightarrow> rat \<Rightarrow> rat \<Rightarrow> bool" where
  "exact_amounts side q avg n p b c =
     (let d = signed_qty side n; fee = p * n * b / 10000 in
      exact_fill side q avg n p \<and> is_double (p * n) \<and> is_double (p * n * b) \<and> is_double fee \<and>
      is_double (- (d * p) - fee) \<and> is_double (c + (- (d * p) - fee)) \<and>
      on_grid (q + d) \<and> on_grid (spec_average q avg d p) \<and> on_grid (spec_realized q avg d p) \<and>
      on_grid fee \<and> on_grid (c - d * p - fee))"

definition exact_order :: "paper_account \<Rightarrow> paper_position option \<Rightarrow> exec_request \<Rightarrow> bool" where
  "exact_order a position req =
     (case resolve_order req (held position) of
        Inl _ \<Rightarrow> True
      | Inr (side, n) \<Rightarrow>
          (is_fin (held position) \<and> is_fin (held_avg position) \<and> is_fin n \<and>
           is_fin (fill_price side req) \<and> is_fin (er_FeeBps req) \<and> is_fin (pa_CashBalance a) \<and>
           0 < rval n \<and> (rval (held position) = 0 \<longrightarrow> rval (held_avg position) = 0) \<and>
           exact_amounts side (rval (held position)) (rval (held_avg position)) (rval n)
             (rval (fill_price side req)) (rval (er_FeeBps req)) (rval (pa_CashBalance a))))"

text \<open>The outcome of an exact order in terms of the specification.\<close>

lemma computeFill_exact:
  assumes "exact_order a position req" "accepted req position"
  obtains side q avg n p b c where
    "held position = Fin q" "held_avg position = Fin avg" "pa_CashBalance a = Fin c"
    "exact_amounts side q avg n p b c"
    "fo_Position (computeFill ids now a position req) =
       Some (new_position ids now a position req (Fin p) (Fin (q + signed_qty side n))
               (Fin (spec_average q avg (signed_qty side n) p)))"
    "fo_Trade (computeFill ids now a position req) =
       Some (new_trade ids now a req side (Fin n) (Fin p)
              (Fin (spec_realized q avg (signed_qty side n) p)) (Fin (p * n * b / 10000)))"
    "fo_NewCashBalance (computeFill ids now a position req)
       = Some (Fin (c - signed_qty side n * p - p * n * b / 10000))"
proof -
  obtain side m where r: "validateOrder req = []" "resolve_order req (held position) = Inr (side, m)"
    using assms(2) by (auto simp: accepted_iff)
  then obtain q avg n p b c where f: "held position = Fin q" "held_avg position = Fin avg" "m = Fin n"
      "fill_price side req = Fin p" "er_FeeBps req = Fin b" "pa_CashBalance a = Fin c"
      "0 < n" "q = 0 \<longrightarrow> avg = 0" "exact_amounts side q avg n p b c"
    using assms(1) by (auto simp: exact_order_def elim!: is_finE)
  let ?d = "signed_qty side n"
  have ex: "exact_fill side q avg n p" "is_double (p * n)" "is_double (p * n * b)"
    "is_double (p * n * b / 10000)" "is_double (- (?d * p) - p * n * b / 10000)"
    "is_double (c + (- (?d * p) - p * n * b / 10000))"
    using f(9) by (simp_all add: exact_amounts_def Let_def)
  have side: "side = SideBuy \<or> side = SideSell" using resolve_order_side r by blast
  have af: "apply_fill side (held position) (held_avg position) m (fill_price side req)
     = (Fin (q + ?d), Fin (spec_average q avg ?d p), Fin (spec_realized q avg ?d p), Fin (- (?d * p)))"
    using engine_refines_spec_aux [OF side f(7) ex(1,2) f(8)] f by simp
  have fee: "fill_fee (Fin p) (Fin n) (Fin b) = Fin (p * n * b / 10000)"
    using ex by (simp add: fill_fee_def fround_exact)
  have cash: "Fin c + (Fin (- (?d * p)) - Fin (p * n * b / 10000)) = Fin (c - ?d * p - p * n * b / 10000)"
    using ex by (simp add: fround_exact algebra_simps)
  show ?thesis
    by (rule that [OF f(1,2,6,9)])
      (use computeFill_filled [OF r af, of ids now a] f fee cash in simp_all)
qed

subsection \<open>The balance of the books\<close>

definition position_value :: "string \<Rightarrow> paper_position \<Rightarrow> rat" where
  "position_value rid p =
     (if pp_PaperAccountID p = rid then rval (pp_Quantity p) * rval (pp_AvgEntryPrice p) else 0)"

definition trade_net :: "string \<Rightarrow> paper_trade \<Rightarrow> rat" where
  "trade_net rid t =
     (if pt_PaperAccountID t = rid then rval (pt_RealizedPnL t) - rval (pt_Fees t) else 0)"

definition account_net :: "string \<Rightarrow> paper_account \<Rightarrow> rat" where
  "account_net rid a =
     (if pa_ID a = rid then rval (pa_CashBalance a) - rval (pa_StartingBalance a) else 0)"

definition ledger_gap :: "paper_db \<Rightarrow> string \<Rightarrow> rat" where
  "ledger_gap db rid =
     sum_list (map (account_net rid) (db_accounts db)) +
     sum_list (map (position_value rid) (db_positions db)) -
     sum_list (map (trade_net rid) (db_trades db))"

lemma sum_list_update_key:
  fixes f :: "'a \<Rightarrow> rat"
  assumes "distinct (map k xs)" "y \<in> set xs"
  shows "sum_list (map f (map (\<lambda>x. if k x = k y then g x else x) xs)) = sum_list (map f xs) - f y + f (g y)"
  using assms
proof (induction xs)
  case (Cons x xs)
  show ?case
  proof (cases "k x = k y")
    case True
    then have "y = x" using Cons.prems by (auto simp: image_iff)
    have m: "map (\<lambda>z. if k z = k x then g z else z) xs = xs"
      using Cons.prems(1) by (intro map_idI) (auto simp: image_iff)
    show ?thesis unfolding \<open>y = x\<close> by (simp add: m del: map_map)
  next
    case False
    then show ?thesis using Cons by auto
  qed
qed simp


lemma persist_position_value:
  assumes "persist_position nc (request_position db req) out db1 = Inr (out', db2)"
    and "db_ok db" "db_positions db1 = db_positions db" "fo_Position out = Some p"
    and "pp_PaperAccountID p = er_AccountID req"
    and "pp_Quantity p = Fin Q" "pp_AvgEntryPrice p = Fin A" "exact_cols nc" "on_grid Q" "on_grid A"
  shows "sum_list (map (position_value rid) (db_positions db2))
     = sum_list (map (position_value rid) (db_positions db)) +
       (if er_AccountID req = rid
        then Q * A - rval (held (request_position db req)) * rval (held_avg (request_position db req)) else 0)"
proof -
  let ?np = "p\<lparr>pp_Symbol := NormalizePaperSymbol (pp_Symbol p),
              pp_Exchange := NormalizePaperExchange (pp_Exchange p)\<rparr>"
  have row: "pp_Quantity row = Fin Q \<and> pp_AvgEntryPrice row = Fin A \<and> pp_PaperAccountID row = er_AccountID req"
    if "encode_position nc ?np = Inr row" for row
    using encode_position_frame [OF that] assms(5-10) by (auto simp: exact_cols_def position_key_def)
  show ?thesis
  proof (cases "request_position db req")
    case None
    then have "CreatePaperPosition nc ?np db1 = Inr db2"
      using assms(1,4) by (auto simp: persist_position_def Let_def ebind_Inr_iff)
    then obtain r where "encode_position nc ?np = Inr r"
        "db2 = db1\<lparr>db_positions := db_positions db1 @ [r]\<rparr>"
      by (auto simp: CreatePaperPosition_Inr)
    with row [of r] show ?thesis unfolding None by (simp add: assms(3) position_value_def)
  next
    case (Some q)
    then have "update_position_fill nc (pp_ID q) ?np db1 = Inr db2"
      using assms(1,4) by (auto simp: persist_position_def Let_def ebind_Inr_iff)
    then obtain r where r: "encode_position nc ?np = Inr r"
      "db_positions db2 = map (\<lambda>x. if pp_ID x = pp_ID q
              then x\<lparr>pp_Quantity := pp_Quantity r, pp_AvgEntryPrice := pp_AvgEntryPrice r,
                     pp_LastPrice := pp_LastPrice r, pp_UnrealizedPnL := pp_UnrealizedPnL r,
                     pp_UpdatedAt := pp_UpdatedAt r\<rparr>
              else x) (db_positions db)"
      by (auto simp: update_position_fill_def ebind_Inr_iff assms(3))
    have q: "q \<in> set (db_positions db)" "pp_PaperAccountID q = er_AccountID req"
      using Some by (auto simp: GetPaperPosition_def find_Some_iff position_matches_def)
    have "distinct (map pp_ID (db_positions db))" using assms(2) by (simp add: db_ok_def)
    from sum_list_update_key [OF this q(1), of "position_value rid"] row [OF r(1)] q(2)
    show ?thesis unfolding r(2) Some by (simp add: position_value_def)
  qed
qed

lemma persist_trade_net:
  assumes "persist_trade nc out db = Inr db'" "fo_Trade out = Some t" "exact_cols nc"
    and "pt_RealizedPnL t = Fin R" "pt_Fees t = Fin F" "on_grid R" "on_grid F"
  shows "sum_list (map (trade_net rid) (db_trades db'))
     = sum_list (map (trade_net rid) (db_trades db)) + (if pt_PaperAccountID t = rid then R - F else 0)"
proof -
  obtain row where row: "encode_trade nc t = Inr row" "db_trades db' = db_trades db @ [row]"
    using persist_trade_frame [OF assms(1)] assms(2) by blast
  have "pt_RealizedPnL row = Fin R" "pt_Fees row = Fin F" "pt_PaperAccountID row = pt_PaperAccountID t"
    using encode_trade_frame [OF row(1)] assms(3-7) by (auto simp: exact_cols_def)
  then show ?thesis by (simp add: row(2) trade_net_def)
qed

lemma persist_cash_net:
  assumes "persist_cash nc now acct out db = Inr db'" "fo_NewCashBalance out = Some (Fin c')"
    and "exact_cols nc" "on_grid c'" "distinct (map pa_ID (db_accounts db))"
    and "GetPaperAccount db acct = Some a" "pa_CashBalance a = Fin c"
  shows "sum_list (map (account_net rid) (db_accounts db'))
     = sum_list (map (account_net rid) (db_accounts db)) + (if acct = rid then c' - c else 0)"
proof -
  have a: "a \<in> set (db_accounts db)" "pa_ID a = acct"
    using assms(6) by (auto simp: GetPaperAccount_def find_Some_iff)
  have "db_accounts db' = map (\<lambda>x. if pa_ID x = pa_ID a
      then x\<lparr>pa_CashBalance := Fin c', pa_UpdatedAt := now\<rparr> else x) (db_accounts db)"
    using assms(1-4) a(2) by (auto simp: persist_cash_def ebind_Inr_iff set_cash_def exact_cols_def write_num_Inr)
  with sum_list_update_key [OF assms(5) a(1), of "account_net rid"] a(2) assms(7)
  show ?thesis by (simp add: account_net_def)
qed

lemma ledger_fill:
  assumes "db_ok db" "exact_cols (ev_nc env)" "Execute env ids sid now req db = Inr (res, db')"
    and "\<And>a. GetPaperAccount db (er_AccountID req) = Some a \<Longrightarrow> exact_order a (request_position db req) req"
  shows "ledger_gap db' rid = ledger_gap db rid"
proof (rule Execute_Inr [OF assms(3)])
  fix a out out' db1 db2 db3 db4
  assume a: "GetPaperAccount db (er_AccountID req) = Some a"
    and out: "out = computeFill ids now a (request_position db req) req"
    and o1: "CreatePaperOrder (ev_nc env) (fo_Order out) db = Inr db1"
    and o2: "persist_position (ev_nc env) (request_position db req) out db1 = Inr (out', db2)"
    and o3: "persist_trade (ev_nc env) out' db2 = Inr db3"
    and o4: "persist_cash (ev_nc env) now (er_AccountID req) out' db3 = Inr db4"
    and db': "db' = best_effort db4 (RecordPaperAccountEquitySnapshot env sid now
              (er_AccountID req) (pa_UserID a) db4)"
  have f1: "db_positions db1 = db_positions db" "db_accounts db1 = db_accounts db" "db_trades db1 = db_trades db"
    using o1 by (auto simp: CreatePaperOrder_Inr)
  note f2 = persist_position_Inr [OF o2] and f3 = persist_trade_frame [OF o3] and f4 = persist_cash_frame [OF o4]
  show ?thesis
  proof (cases "accepted req (request_position db req)")
    case False
    then have none: "fo_Position out = None"
      using fill_or_reject_aux [of ids now a "request_position db req" req] unfolding Let_def out by blast
    then have "fo_Trade out' = None" "fo_NewCashBalance out' = None"
      using computeFill_none f2 unfolding out by metis+
    moreover have "db2 = db1" using o2 none by (simp add: persist_position_def)
    ultimately have "db4 = db1" using f3 f4 by simp
    then show ?thesis by (simp add: db' ledger_gap_def f1)
  next
    case True
    obtain side q avg n p b c where f: "held (request_position db req) = Fin q"
      "held_avg (request_position db req) = Fin avg" "pa_CashBalance a = Fin c"
      "exact_amounts side q avg n p b c"
      "fo_Position out = Some (new_position ids now a (request_position db req) req (Fin p)
         (Fin (q + signed_qty side n)) (Fin (spec_average q avg (signed_qty side n) p)))"
      "fo_Trade out = Some (new_trade ids now a req side (Fin n) (Fin p)
         (Fin (spec_realized q avg (signed_qty side n) p)) (Fin (p * n * b / 10000)))"
      "fo_NewCashBalance out = Some (Fin (c - signed_qty side n * p - p * n * b / 10000))"
      by (rule computeFill_exact [OF assms(4) [OF a] True, of ids now]) (simp add: out)
    let ?d = "signed_qty side n" let ?A = "spec_average q avg ?d p" let ?R = "spec_realized q avg ?d p"
    let ?F = "p * n * b / 10000"
    have g: "on_grid (q + ?d)" "on_grid ?A" "on_grid ?R" "on_grid ?F" "on_grid (c - ?d * p - ?F)"
      using f(4) by (simp_all add: exact_amounts_def Let_def)
    have P: "sum_list (map (position_value rid) (db_positions db2))
        = sum_list (map (position_value rid) (db_positions db)) +
          (if er_AccountID req = rid then (q + ?d) * ?A - q * avg else 0)"
      using persist_position_value [OF o2 assms(1) f1(1) f(5) _ _ _ assms(2) g(1,2), of rid]
      unfolding f(1,2) rval.simps by (simp add: new_position_def)
    have T: "sum_list (map (trade_net rid) (db_trades db3))
        = sum_list (map (trade_net rid) (db_trades db)) + (if er_AccountID req = rid then ?R - ?F else 0)"
      using persist_trade_net [OF o3 _ assms(2) _ _ g(3,4), of _ rid] f2 f(6) f1
      by (simp add: new_trade_def)
    have acc: "db_accounts db3 = db_accounts db" using f1 f2 f3 by simp
    have C: "sum_list (map (account_net rid) (db_accounts db4))
        = sum_list (map (account_net rid) (db_accounts db)) +
          (if er_AccountID req = rid then (c - ?d * p - ?F) - c else 0)"
      using persist_cash_net [OF o4 _ assms(2) g(5) _ _ f(3), of rid] f2 f(7) a assms(1)
      by (simp add: acc GetPaperAccount_def db_ok_def)
    show ?thesis
      using spec_conserves [of q ?d avg p] P T C f3 f4
      by (simp add: db' ledger_gap_def algebra_simps)
  qed
qed


subsection \<open>The other operations keep the balance\<close>

lemma sum_list_all_zero: "(\<And>x. x \<in> set xs \<Longrightarrow> f x = 0) \<Longrightarrow> sum_list (map f xs) = (0 :: rat)"
  by (induction xs) auto

lemma trade_account_unique:
  assumes "db_ok db" "t \<in> set (db_trades db)" "o' \<in> set (db_orders db)" "po_ID o' = pt_OrderID t"
  shows "po_PaperAccountID o' = pt_PaperAccountID t"
proof -
  obtain o2 where "o2 \<in> set (db_orders db)" "po_ID o2 = pt_OrderID t" "po_PaperAccountID o2 = pt_PaperAccountID t"
    using assms(1,2) by (auto simp: db_ok_def)
  with assms show ?thesis by (auto simp: db_ok_def distinct_map inj_on_def)
qed

lemma delete_account_rows_sums:
  assumes "db_ok db"
  shows "sum_list (map (position_value r) (db_positions (delete_account_rows rid db)))
      = (if r = rid then 0 else sum_list (map (position_value r) (db_positions db)))"
    and "sum_list (map (trade_net r) (db_trades (delete_account_rows rid db)))
      = (if r = rid then 0 else sum_list (map (trade_net r) (db_trades db)))"
proof -
  show "sum_list (map (position_value r) (db_positions (delete_account_rows rid db)))
      = (if r = rid then 0 else sum_list (map (position_value r) (db_positions db)))"
    by (auto simp: delete_account_rows_def Let_def position_value_def
        intro!: sum_list_all_zero sum_list_map_filter)
  let ?gone = "po_ID ` {o' \<in> set (db_orders db). po_PaperAccountID o' = rid}"
  have tr: "db_trades (delete_account_rows rid db) = filter (\<lambda>t. pt_OrderID t \<notin> ?gone) (db_trades db)"
    by (simp add: delete_account_rows_def Let_def)
  have gone: "pt_OrderID t \<in> ?gone \<longleftrightarrow> pt_PaperAccountID t = rid" if t: "t \<in> set (db_trades db)" for t
  proof
    assume "pt_OrderID t \<in> ?gone"
    then show "pt_PaperAccountID t = rid" using trade_account_unique [OF assms t] by auto
  next
    assume "pt_PaperAccountID t = rid"
    then show "pt_OrderID t \<in> ?gone" using assms t by (force simp: db_ok_def)
  qed
  have "trade_net r t = 0" if "t \<in> set (db_trades db)" "r = rid" "pt_OrderID t \<notin> ?gone" for t
    using gone [OF that(1)] that by (simp add: trade_net_def)
  moreover have "trade_net r t = 0" if "t \<in> set (db_trades db)" "r \<noteq> rid" "pt_OrderID t \<in> ?gone" for t
    using gone [OF that(1)] that by (simp add: trade_net_def)
  ultimately show "sum_list (map (trade_net r) (db_trades (delete_account_rows rid db)))
      = (if r = rid then 0 else sum_list (map (trade_net r) (db_trades db)))"
    unfolding tr by (cases "r = rid") (auto intro!: sum_list_all_zero sum_list_map_filter simp del: image_eqI)
qed

lemma ledger_reset:
  assumes "db_ok db" "ResetPaperAccount env now rid user nb db = Inr (a, db')" "ledger_gap db r = 0"
  shows "ledger_gap db' r = 0"
proof -
  obtain s where db': "db' = (delete_account_rows rid db)\<lparr>db_accounts := map (\<lambda>x. if pa_ID x = rid
       then x\<lparr>pa_StartingBalance := s, pa_CashBalance := s, pa_UpdatedAt := now\<rparr> else x)
       (db_accounts (delete_account_rows rid db))\<rparr>"
    using assms(2)
    by (auto simp: ResetPaperAccount_def Let_def ebind_Inr_iff write_num_Inr split: option.splits)
  then have acc: "db_accounts db' = map (\<lambda>x. if pa_ID x = rid
       then x\<lparr>pa_StartingBalance := s, pa_CashBalance := s, pa_UpdatedAt := now\<rparr> else x) (db_accounts db)"
    and rest: "db_positions db' = db_positions (delete_account_rows rid db)"
      "db_trades db' = db_trades (delete_account_rows rid db)"
    by (simp_all add: delete_account_rows_def Let_def)
  have "map (account_net r) (db_accounts db') = map (account_net r) (db_accounts db)" if "r \<noteq> rid"
    using that by (simp add: acc account_net_def)
  moreover have "sum_list (map (account_net r) (db_accounts db')) = 0" if "r = rid"
    using that by (auto simp: acc account_net_def intro!: sum_list_all_zero)
  ultimately show ?thesis using assms(3) delete_account_rows_sums [OF assms(1), of r rid]
    by (cases "r = rid") (simp_all add: ledger_gap_def rest)
qed

lemma ledger_delete:
  assumes "db_ok db" "DeletePaperAccount rid user db = Inr db'" "ledger_gap db r = 0"
  shows "ledger_gap db' r = 0"
proof -
  have acc: "db_accounts db' = filter (\<lambda>x. pa_ID x \<noteq> rid) (db_accounts db)"
    and pos: "db_positions db' = db_positions (delete_account_rows rid db)"
    and tr: "db_trades db' = filter (\<lambda>t. pt_PaperAccountID t \<noteq> rid) (db_trades (delete_account_rows rid db))"
    using assms(2) by (auto simp: DeletePaperAccount_def split: if_splits)
  have "sum_list (map (account_net r) (db_accounts db'))
      = (if r = rid then 0 else sum_list (map (account_net r) (db_accounts db)))"
    by (auto simp: acc account_net_def intro!: sum_list_all_zero sum_list_map_filter)
  moreover have "sum_list (map (trade_net r) (db_trades db'))
      = (if r = rid then 0 else sum_list (map (trade_net r) (db_trades (delete_account_rows rid db))))"
    by (auto simp: tr trade_net_def intro!: sum_list_all_zero sum_list_map_filter)
  ultimately show ?thesis using assms(3) delete_account_rows_sums [OF assms(1), of r rid]
    by (cases "r = rid") (simp_all add: ledger_gap_def pos)
qed

lemma ledger_create:
  assumes "CreatePaperAccount env sid now a db = Inr db'" "pa_CashBalance a = pa_StartingBalance a"
  shows "ledger_gap db' r = ledger_gap db r"
proof -
  obtain db1 row where 1: "encode_account (ev_nc env) a = Inr row"
    "db1 = db\<lparr>db_accounts := db_accounts db @ [row]\<rparr>"
    "db' = best_effort db1 (RecordPaperAccountEquitySnapshot env sid now (pa_ID a) (pa_UserID a) db1)"
    using assms(1) by (auto simp: CreatePaperAccount_def insert_account_def ebind_Inr_iff)
  have "account_net r row = 0"
    using encode_account_frame [OF 1(1)] assms(2) by (auto simp: account_net_def)
  then show ?thesis by (simp add: 1(2,3) ledger_gap_def)
qed

lemma ledger_accounts_only:
  assumes "update_account rid user f db = Inr db'"
    and "\<And>x row. x \<in> set (db_accounts db) \<Longrightarrow> pa_ID x = rid \<Longrightarrow> pa_UserID x = user \<Longrightarrow>
           f x = Inr row \<Longrightarrow> account_net r row = account_net r x"
  shows "ledger_gap db' r = ledger_gap db r"
proof -
  obtain rows where rows: "traverse (\<lambda>x. if pa_ID x = rid \<and> pa_UserID x = user
                then ebind (f x) (\<lambda>row. require (account_check row) ErrCheckViolation row)
                else Inr x) (db_accounts db) = Inr rows" "db' = db\<lparr>db_accounts := rows\<rparr>"
    using assms(1) by (auto simp: update_account_def ebind_Inr_iff)
  have "map (account_net r) rows = map (account_net r) (db_accounts db)"
    by (rule traverse_Inr_map [OF rows(1)]) (auto simp: ebind_Inr_iff assms(2) split: if_splits)
  then show ?thesis by (simp add: rows(2) ledger_gap_def)
qed

lemma ledger_status:
  assumes "UpdatePaperAccountStatus now rid user st db = Inr db'"
  shows "ledger_gap db' r = ledger_gap db r"
proof (rule ledger_accounts_only)
  show "update_account rid user (\<lambda>x. Inr (x\<lparr>pa_Status := st, pa_UpdatedAt := now\<rparr>)) db = Inr db'"
    using assms unfolding UpdatePaperAccountStatus_def .
  fix x row :: paper_account
  assume "Inr (x\<lparr>pa_Status := st, pa_UpdatedAt := now\<rparr>) = (Inr row :: store_err + paper_account)"
  then have "row = x\<lparr>pa_Status := st, pa_UpdatedAt := now\<rparr>" by simp
  then show "account_net r row = account_net r x" by (simp add: account_net_def)
qed

lemma ledger_mark:
  assumes "UpdatePaperPositionMark nc p db = Inr db'"
  shows "ledger_gap db' r = ledger_gap db r"
proof -
  obtain l u where "db' = db\<lparr>db_positions := map (\<lambda>x. if pp_ID x = pp_ID p
      then x\<lparr>pp_LastPrice := l, pp_UnrealizedPnL := u, pp_UpdatedAt := pp_UpdatedAt p\<rparr> else x) (db_positions db)\<rparr>"
    using assms by (auto simp: UpdatePaperPositionMark_def ebind_Inr_iff)
  moreover from this have "map (position_value r) (db_positions db') = map (position_value r) (db_positions db)"
    by (auto simp: position_value_def)
  ultimately show ?thesis by (simp add: ledger_gap_def del: map_map)
qed

text \<open>
  The operations with exact amounts. The account's balances change by an update only as the handler
  \<^verbatim>\<open>UpdatePaperAccount\<close> of \<^verbatim>\<open>internal/modules/paperaccounts\<close> lets them: not at all, or, when cash still
  equals the starting balance, both to the same amount; what it writes back unchanged is on the grid.
\<close>

definition update_allowed :: "paper_account \<Rightarrow> paper_account \<Rightarrow> bool" where
  "update_allowed old new =
     (pa_ID new = pa_ID old \<and> pa_UserID new = pa_UserID old \<and>
      (pa_StartingBalance new = pa_StartingBalance old \<and> pa_CashBalance new = pa_CashBalance old \<and>
         (\<exists>s c. pa_StartingBalance old = Fin s \<and> pa_CashBalance old = Fin c \<and> on_grid s \<and> on_grid c)
       \<or> pa_CashBalance old = pa_StartingBalance old \<and> pa_CashBalance new = pa_StartingBalance new))"

inductive exact_step :: "'tz store_env \<Rightarrow> paper_db \<Rightarrow> paper_db \<Rightarrow> bool" for env where
  x_create: "CreatePaperAccount env sid now a db = Inr db' \<Longrightarrow>
     pa_CashBalance a = pa_StartingBalance a \<Longrightarrow> exact_step env db db'"
| x_execute: "Execute env ids sid now req db = Inr (res, db') \<Longrightarrow>
     (\<And>a. GetPaperAccount db (er_AccountID req) = Some a \<Longrightarrow> exact_order a (request_position db req) req) \<Longrightarrow>
     exact_step env db db'"
| x_mark: "UpdatePaperPositionMark (ev_nc env) p db = Inr db' \<Longrightarrow> exact_step env db db'"
| x_snapshot: "RecordPaperAccountEquitySnapshot env sid now rid user db = Inr db' \<Longrightarrow> exact_step env db db'"
| x_update: "GetPaperAccount db (pa_ID a) = Some old \<Longrightarrow> update_allowed old a \<Longrightarrow>
     UpdatePaperAccount (ev_nc env) now a db = Inr db' \<Longrightarrow> exact_step env db db'"
| x_status: "UpdatePaperAccountStatus now rid user st db = Inr db' \<Longrightarrow> exact_step env db db'"
| x_reset: "ResetPaperAccount env now rid user nb db = Inr (a, db') \<Longrightarrow> exact_step env db db'"
| x_delete: "DeletePaperAccount rid user db = Inr db' \<Longrightarrow> exact_step env db db'"
| x_elsewhere: "exact_step env db (db\<lparr>db_profiles := ps, db_instruments := is, db_hooks := hs\<rparr>)"

inductive exact_reachable :: "'tz store_env \<Rightarrow> paper_db \<Rightarrow> bool" for env where
  x_empty: "exact_reachable env
     \<lparr>db_accounts = [], db_orders = [], db_positions = [], db_trades = [], db_snapshots = [],
      db_profiles = ps, db_instruments = is, db_hooks = hs\<rparr>"
| x_step: "exact_reachable env db \<Longrightarrow> exact_step env db db' \<Longrightarrow> exact_reachable env db'"

lemma exact_step_is_step: "exact_step env db db' \<Longrightarrow> store_step env db db'"
  by (induction rule: exact_step.induct) (auto intro: store_step.intros)

lemma GetPaperAccount_unique:
  assumes "db_ok db" "GetPaperAccount db rid = Some a" "x \<in> set (db_accounts db)" "pa_ID x = rid"
  shows "x = a"
  using assms by (auto simp: GetPaperAccount_def find_Some_iff db_ok_def distinct_map inj_on_def)

lemma ledger_update:
  assumes "db_ok db" "exact_cols (ev_nc env)" "GetPaperAccount db (pa_ID a) = Some old"
    and "update_allowed old a" "UpdatePaperAccount (ev_nc env) now a db = Inr db'"
  shows "ledger_gap db' r = ledger_gap db r"
  using assms(5) unfolding UpdatePaperAccount_def
proof (rule ledger_accounts_only)
  fix x row
  assume x: "x \<in> set (db_accounts db)" "pa_ID x = pa_ID a"
    and row: "ebind (write_num (ev_nc env) (pa_StartingBalance a)) (\<lambda>s.
             ebind (write_num (ev_nc env) (pa_CashBalance a)) (\<lambda>c.
               Inr (x\<lparr>pa_Label := pa_Label a, pa_DefaultProduct := pa_DefaultProduct a,
                      pa_StartingBalance := s, pa_CashBalance := c, pa_UpdatedAt := now\<rparr>))) = Inr row"
  have "x = old" using GetPaperAccount_unique [OF assms(1,3) x] .
  have w: "pa_ID row = pa_ID x" "nc_write (ev_nc env) (pa_StartingBalance a) = Some (pa_StartingBalance row)"
    "nc_write (ev_nc env) (pa_CashBalance a) = Some (pa_CashBalance row)"
    using row by (auto simp: ebind_Inr_iff write_num_Inr)
  show "account_net r row = account_net r x"
  proof (cases "pa_CashBalance old = pa_StartingBalance old \<and> pa_CashBalance a = pa_StartingBalance a")
    case True
    with w \<open>x = old\<close> show ?thesis by (simp add: account_net_def)
  next
    case False
    then obtain s c where "pa_StartingBalance a = Fin s" "pa_CashBalance a = Fin c" "on_grid s" "on_grid c"
      "pa_StartingBalance old = Fin s" "pa_CashBalance old = Fin c"
      using assms(4) by (auto simp: update_allowed_def)
    with w \<open>x = old\<close> assms(2) show ?thesis by (simp add: account_net_def exact_cols_def)
  qed
qed

lemma ledger_step:
  assumes "exact_step env db db'" "db_ok db" "exact_cols (ev_nc env)" "ledger_gap db r = 0"
  shows "ledger_gap db' r = 0"
  using assms(1)
proof (cases rule: exact_step.cases)
  case (x_create sid now a)
  then show ?thesis using ledger_create assms(4) by metis
next
  case (x_execute ids sid now req res)
  from ledger_fill [OF assms(2,3) this] show ?thesis using assms(4) by simp
next
  case (x_mark p)
  then show ?thesis using ledger_mark assms(4) by metis
next
  case (x_snapshot sid now rid user)
  have "db' = best_effort db (RecordPaperAccountEquitySnapshot env sid now rid user db)"
    unfolding best_effort_def using x_snapshot by simp
  then have "ledger_gap db' r = ledger_gap db r" by (simp only: ledger_gap_def best_effort_snapshot_frame)
  with assms(4) show ?thesis by simp
next
  case (x_update a old now)
  from ledger_update [OF assms(2,3) this] show ?thesis using assms(4) by simp
next
  case (x_status now rid user st)
  from ledger_status [OF this] show ?thesis using assms(4) by simp
next
  case (x_reset now rid user nb a)
  from ledger_reset [OF assms(2) this assms(4)] show ?thesis .
next
  case (x_delete rid user)
  from ledger_delete [OF assms(2) this assms(4)] show ?thesis .
next
  case (x_elsewhere ps ins hs)
  have "ledger_gap db' r = ledger_gap db r" unfolding x_elsewhere(1) by (simp add: ledger_gap_def)
  with assms(4) show ?thesis by simp
qed

lemma exact_reachable_ok:
  assumes "exact_reachable env db" "exact_cols (ev_nc env)"
  shows "db_ok db \<and> ledger_gap db r = 0"
  using assms(1)
proof (induction rule: exact_reachable.induct)
  case (x_empty ps ins hs)
  then show ?case by (simp add: db_ok_def ledger_gap_def)
next
  case (x_step db db')
  then show ?case using ledger_step assms(2) db_ok_step exact_step_is_step by blast
qed

lemma sum_list_single_key:
  fixes g :: "'a \<Rightarrow> rat"
  assumes "distinct (map k xs)" "y \<in> set xs"
  shows "sum_list (map (\<lambda>x. if k x = k y then g x else 0) xs) = g y"
  using assms
proof (induction xs)
  case (Cons x xs)
  have z: "sum_list (map (\<lambda>z. if k z = k x then g z else 0) xs) = 0"
    using Cons.prems(1) by (intro sum_list_all_zero) (auto simp: image_iff)
  show ?case
  proof (cases "y = x")
    case True
    with z show ?thesis by simp
  next
    case False
    then have "y \<in> set xs" "k x \<noteq> k y" using Cons.prems by (auto simp: image_iff)
    then show ?thesis using Cons by simp
  qed
qed simp

lemma account_net_sum:
  assumes "db_ok db" "GetPaperAccount db rid = Some a"
  shows "sum_list (map (account_net rid) (db_accounts db)) = rval (pa_CashBalance a) - rval (pa_StartingBalance a)"
proof -
  have a: "a \<in> set (db_accounts db)" "pa_ID a = rid"
    using assms(2) by (auto simp: GetPaperAccount_def find_Some_iff)
  have "distinct (map pa_ID (db_accounts db))" using assms(1) by (simp add: db_ok_def)
  from sum_list_single_key [OF this a(1), of "\<lambda>x. rval (pa_CashBalance x) - rval (pa_StartingBalance x)"]
  show ?thesis unfolding a(2) by (simp add: account_net_def [abs_def])
qed

lemma sum_list_only_filter:
  fixes g :: "'a \<Rightarrow> rat"
  shows "sum_list (map (\<lambda>x. if P x then g x else 0) xs) = sum_list (map g (filter P xs))"
  by (induction xs) simp_all

text \<open>
  C2. The books balance: after any sequence of the store's operations on amounts where nothing
  rounds, an account's cash plus its positions at cost is its starting balance plus the realized
  profit of its trades minus their fees. Nothing is lost or counted twice by a fill, a mark, a reset,
  a deletion, or the operations on other accounts.
\<close>

theorem ledger_balanced:
  assumes "exact_reachable env db" "exact_cols (ev_nc env)" "GetPaperAccount db rid = Some a"
  shows "rval (pa_CashBalance a) +
      (\<Sum>p \<leftarrow> filter (\<lambda>p. pp_PaperAccountID p = rid) (db_positions db).
         rval (pp_Quantity p) * rval (pp_AvgEntryPrice p))
    = rval (pa_StartingBalance a) +
      (\<Sum>t \<leftarrow> filter (\<lambda>t. pt_PaperAccountID t = rid) (db_trades db).
         rval (pt_RealizedPnL t) - rval (pt_Fees t))"
proof -
  have ok: "db_ok db" "ledger_gap db rid = 0" using exact_reachable_ok [OF assms(1,2)] by auto
  from ok(2) show ?thesis unfolding ledger_gap_def account_net_sum [OF ok(1) assms(3)]
    by (simp add: position_value_def [abs_def] trade_net_def [abs_def] sum_list_only_filter)
qed

text \<open>
  What the summary reads of an account's rows converts without rounding, and the dollar amounts it
  adds are doubles.
\<close>

definition exact_column :: "numeric_cols \<Rightarrow> f64 list \<Rightarrow> bool" where
  "exact_column nc xs \<longleftrightarrow> (\<forall>x \<in> set xs. nc_dec nc x = rval x) \<and> is_double (sum_list (map rval xs))"

definition exact_summary :: "numeric_cols \<Rightarrow> paper_db \<Rightarrow> paper_account \<Rightarrow> bool" where
  "exact_summary nc db a =
     (let ps = filter (\<lambda>p. pp_PaperAccountID p = pa_ID a) (db_positions db);
          ts = filter (\<lambda>t. pt_PaperAccountID t = pa_ID a) (db_trades db);
          r = sum_list (map rval (map pt_RealizedPnL ts));
          f = sum_list (map rval (map pt_Fees ts));
          u = sum_list (map rval (map pp_UnrealizedPnL ps))
      in exact_column nc (map pt_RealizedPnL ts) \<and> exact_column nc (map pt_Fees ts) \<and>
         exact_column nc (map pp_UnrealizedPnL ps) \<and>
         is_double (r + u) \<and> is_double (r + u - f) \<and> is_fin (pa_StartingBalance a) \<and>
         is_double (rval (pa_StartingBalance a) + (r + u - f)))"

text \<open>
  What the summary takes a position to be worth, its cost and the open profit its row holds. For a position whose open profit is
  that of its last mark, this is its value at the mark. A fill and a sweep compute it so, up to rounding; a sweep that writes the mark of
  a position which was traded in the meantime does not.
\<close>

definition marked :: "paper_position \<Rightarrow> bool" where
  "marked p \<longleftrightarrow> rval (pp_UnrealizedPnL p) = (rval (pp_LastPrice p) - rval (pp_AvgEntryPrice p)) * rval (pp_Quantity p)"

definition book_value :: "paper_position \<Rightarrow> rat" where
  "book_value p = rval (pp_Quantity p) * rval (pp_AvgEntryPrice p) + rval (pp_UnrealizedPnL p)"

lemma marked_value: "marked p \<Longrightarrow> book_value p = rval (pp_Quantity p) * rval (pp_LastPrice p)"
  by (simp add: marked_def book_value_def algebra_simps)

lemma sql_sum_exact: "exact_column nc xs \<Longrightarrow> sql_sum nc xs = Fin (sum_list (map rval xs))"
proof -
  assume *: "exact_column nc xs"
  then have m: "map (nc_dec nc) xs = map rval xs" by (simp add: exact_column_def)
  from * have "is_double (sum_list (map rval xs))" by (simp add: exact_column_def)
  then show ?thesis unfolding sql_sum_def m by (rule fround_exact)
qed

lemma summary_equity:
  assumes "GetPaperAccount db rid = Some a"
  obtains s where "GetPaperAccountPnL nc LL utc ds now db rid = Some s"
    "ps_Equity s = pa_StartingBalance a +
       (sql_sum nc (map pt_RealizedPnL (filter (\<lambda>t. pt_PaperAccountID t = rid) (db_trades db)))
        + sql_sum nc (map pp_UnrealizedPnL (filter (\<lambda>p. pp_PaperAccountID p = rid) (db_positions db)))
        - sql_sum nc (map pt_Fees (filter (\<lambda>t. pt_PaperAccountID t = rid) (db_trades db))))"
  by (simp add: GetPaperAccountPnL_def assms Let_def)


subsection \<open>The theorems at concrete inputs\<close>

theorem engine_refines_spec_witness:
  "apply_fill ''BUY'' (Fin (-7)) (Fin 100) (Fin 10) (Fin 101) = (Fin 3, Fin 101, Fin (-7), Fin (-1010))"
proof -
  have "exact_fill ''BUY'' (-7) 100 10 101" "is_double (101 * 10)" by code_simp+
  then show ?thesis using engine_refines_spec [of "''BUY''" 10 "-7" 100 101]
    by (simp add: side_defs signed_qty_def spec_average_def spec_realized_def spec_closing_def)
qed

text \<open>An account is created and buys three shares at 100 with a fee of one percent.\<close>

definition sample_exact :: exec_request where
  "sample_exact = (sample_request ''BUY'' 3)\<lparr>er_SlippageBps := 0, er_FeeBps := Fin 100\<rparr>"

definition books_after ::
  "paper_db \<Rightarrow> ((string \<times> f64 \<times> f64) list \<times> (string \<times> f64 \<times> f64 \<times> f64 \<times> f64) list \<times> (string \<times> f64 \<times> f64) list) option" where
  "books_after db =
     (case Execute sample_env sample_ids ''s1'' 1 sample_exact db of
        Inl _ \<Rightarrow> None
      | Inr (_, db') \<Rightarrow> Some
         (map (\<lambda>a. (pa_ID a, pa_StartingBalance a, pa_CashBalance a)) (db_accounts db'),
          map (\<lambda>p. (pp_PaperAccountID p, pp_Quantity p, pp_AvgEntryPrice p, pp_LastPrice p, pp_UnrealizedPnL p))
            (db_positions db'),
          map (\<lambda>t. (pt_PaperAccountID t, pt_RealizedPnL t, pt_Fees t)) (db_trades db')))"

definition sample_books ::
  "((string \<times> f64 \<times> f64) list \<times> (string \<times> f64 \<times> f64 \<times> f64 \<times> f64) list \<times> (string \<times> f64 \<times> f64) list) option" where
  "sample_books =
     (case CreatePaperAccount sample_env ''s0'' 0 sample_account empty_db of
        Inl _ \<Rightarrow> None | Inr db \<Rightarrow> books_after db)"

lemma sample_books_eq:
  "sample_books = Some ([(''acc'', Fin 100000, Fin 99697)], [(''acc'', Fin 3, Fin 100, Fin 100, 0)],
     [(''acc'', 0, Fin 3)])"
  by code_simp

lemma sample_exact_order: "exact_order sample_account None sample_exact"
  by code_simp

lemma sample_exact_cols: "exact_cols (ev_nc sample_env)"
  by (simp add: exact_cols_def sample_env_def sample_nc_def)

lemma sample_ledger:
  obtains db a p t where "exact_reachable sample_env db" "db_accounts db = [a]" "db_positions db = [p]"
    "db_trades db = [t]" "GetPaperAccount db ''acc'' = Some a"
    "pa_ID a = ''acc''" "pa_StartingBalance a = Fin 100000" "pa_CashBalance a = Fin 99697"
    "pp_PaperAccountID p = ''acc''" "pp_Quantity p = Fin 3" "pp_AvgEntryPrice p = Fin 100"
    "pp_LastPrice p = Fin 100" "pp_UnrealizedPnL p = 0"
    "pt_PaperAccountID t = ''acc''" "pt_RealizedPnL t = 0" "pt_Fees t = Fin 3"
proof -
  obtain db where db: "CreatePaperAccount sample_env ''s0'' 0 sample_account empty_db = Inr db"
    "db_accounts db = [sample_account]" "db_positions db = []"
    using sample_created by blast
  have c: "pa_CashBalance sample_account = pa_StartingBalance sample_account"
    by (simp add: sample_account_def)
  have r: "exact_reachable sample_env db"
    using x_step [OF x_empty x_create [OF db(1) [unfolded empty_db_def] c]] .
  have b: "books_after db = Some ([(''acc'', Fin 100000, Fin 99697)], [(''acc'', Fin 3, Fin 100, Fin 100, 0)],
     [(''acc'', 0, Fin 3)])"
    using sample_books_eq db(1) by (simp add: sample_books_def)
  obtain res db' where e: "Execute sample_env sample_ids ''s1'' 1 sample_exact db = Inr (res, db')"
    using b by (auto simp: books_after_def split: sum.splits)
  have "exact_order a (request_position db sample_exact) sample_exact"
    if "GetPaperAccount db (er_AccountID sample_exact) = Some a" for a
    using that db(2,3) sample_exact_order
    by (simp add: GetPaperAccount_def GetPaperPosition_def split: if_splits)
  then have r': "exact_reachable sample_env db'" by (rule x_step [OF r x_execute [OF e]])
  show ?thesis
    using b e r' by (auto simp: books_after_def map_eq_Cons_conv GetPaperAccount_def intro!: that)
qed

theorem ledger_balanced_witness:
  "\<exists>db a. exact_reachable sample_env db \<and> GetPaperAccount db ''acc'' = Some a
     \<and> rval (pa_CashBalance a) +
      (\<Sum>p \<leftarrow> filter (\<lambda>p. pp_PaperAccountID p = ''acc'') (db_positions db).
         rval (pp_Quantity p) * rval (pp_AvgEntryPrice p)) = 99997
     \<and> rval (pa_StartingBalance a) +
      (\<Sum>t \<leftarrow> filter (\<lambda>t. pt_PaperAccountID t = ''acc'') (db_trades db).
         rval (pt_RealizedPnL t) - rval (pt_Fees t)) = 99997"
proof -
  obtain db a p t where d: "exact_reachable sample_env db" "db_positions db = [p]"
    "GetPaperAccount db ''acc'' = Some a" "pa_CashBalance a = Fin 99697"
    "pp_PaperAccountID p = ''acc''" "pp_Quantity p = Fin 3" "pp_AvgEntryPrice p = Fin 100"
    by (rule sample_ledger) blast
  show ?thesis
    by (rule exI [of _ db], rule exI [of _ a])
      (use ledger_balanced [OF d(1) sample_exact_cols d(3)] d in simp)
qed


end
