(* ===== verification/BrokerErr.thy ===== *)
theory BrokerErr
  imports Domain
begin

section \<open>Errors: sentinels, wrapping and the broker error codes\<close>

text \<open>
  Models \<^verbatim>\<open>internal/integrations/brokers/brokererr\<close> and the error values of Go that the components
  return. A package-level \<^verbatim>\<open>errors.New\<close> is a sentinel, known by its text; \<^verbatim>\<open>fmt.Errorf\<close> without
  \<open>%w\<close> is a plain text, and with \<open>%w\<close> a text around another error. \<^verbatim>\<open>*brokererr.Error\<close> has a code,
  a message and a cause, and no \<^verbatim>\<open>Unwrap\<close> method.
\<close>

datatype go_err =
    Sentinel string
  | Errorf string
  | Wrapf string go_err string
  | BrokerError string string "go_err option"

text \<open>\<^verbatim>\<open>err.Error()\<close>\<close>

fun err_text :: "go_err \<Rightarrow> string" where
  "err_text (Sentinel s) = s"
| "err_text (Errorf s) = s"
| "err_text (Wrapf a e b) = a @ err_text e @ b"
| "err_text (BrokerError code msg None) = msg"
| "err_text (BrokerError code msg (Some e)) = msg @ '': '' @ err_text e"

text \<open>\<^verbatim>\<open>errors.Is(e, target)\<close> for a sentinel target\<close>

fun err_is :: "go_err \<Rightarrow> go_err \<Rightarrow> bool" where
  "err_is (Wrapf a e b) t = err_is e t"
| "err_is e t = (e = t)"

subsection \<open>Codes\<close>

definition CodeAuthFailed :: string where "CodeAuthFailed = ''auth_failed''"
definition CodeInvalidCredentials :: string where "CodeInvalidCredentials = ''invalid_credentials''"
definition CodeInvalidSymbol :: string where "CodeInvalidSymbol = ''invalid_symbol''"
definition CodeInsufficientMargin :: string where "CodeInsufficientMargin = ''insufficient_margin''"
definition CodeMarketClosed :: string where "CodeMarketClosed = ''market_closed''"
definition CodeRateLimited :: string where "CodeRateLimited = ''rate_limited''"
definition CodeBrokerUnreachable :: string where "CodeBrokerUnreachable = ''broker_unreachable''"
definition CodeUnsupportedAction :: string where "CodeUnsupportedAction = ''unsupported_action''"
definition CodeNoPosition :: string where "CodeNoPosition = ''no_position''"
definition CodeAccountSuspended :: string where "CodeAccountSuspended = ''account_suspended''"
definition CodeOrgSuspended :: string where "CodeOrgSuspended = ''org_suspended''"
definition CodeLiveNotAllowed :: string where "CodeLiveNotAllowed = ''live_not_allowed''"
definition CodeAlgoIDRequired :: string where "CodeAlgoIDRequired = ''algo_id_required''"
definition CodeInternal :: string where "CodeInternal = ''internal''"
definition CodeBracketNotSupported :: string where "CodeBracketNotSupported = ''bracket_not_supported''"
definition CodeOrderNotFound :: string where "CodeOrderNotFound = ''order_not_found''"
definition CodeAlreadyCancelled :: string where "CodeAlreadyCancelled = ''already_cancelled''"
definition CodePermissionDenied :: string where "CodePermissionDenied = ''permission_denied''"

lemmas code_defs = CodeAuthFailed_def CodeInvalidCredentials_def CodeInvalidSymbol_def
  CodeInsufficientMargin_def CodeMarketClosed_def CodeRateLimited_def CodeBrokerUnreachable_def
  CodeUnsupportedAction_def CodeNoPosition_def CodeAccountSuspended_def CodeOrgSuspended_def
  CodeLiveNotAllowed_def CodeAlgoIDRequired_def CodeInternal_def CodeBracketNotSupported_def
  CodeOrderNotFound_def CodeAlreadyCancelled_def CodePermissionDenied_def

definition PublicMessage :: "string \<Rightarrow> string" where
  "PublicMessage code =
     (if code = CodeAuthFailed then ''authentication failed''
      else if code = CodeInvalidCredentials then ''invalid broker credentials''
      else if code = CodeInvalidSymbol then ''symbol not recognized''
      else if code = CodeInsufficientMargin then ''insufficient margin''
      else if code = CodeMarketClosed then ''market closed''
      else if code = CodeRateLimited then ''broker rate limit exceeded''
      else if code = CodeBrokerUnreachable then ''broker temporarily unavailable''
      else if code = CodeUnsupportedAction then ''action not supported''
      else if code = CodeNoPosition then ''no open position to close''
      else if code = CodeAccountSuspended then ''account suspended''
      else if code = CodeOrgSuspended then ''organization suspended''
      else if code = CodeLiveNotAllowed then ''live trading requires pro plan or higher''
      else if code = CodeAlgoIDRequired then
        ''SEBI algo ID required for live Indian broker; set algo_id on credential (see broker guide)''
      else if code = CodeBracketNotSupported then
        ''bracket/cover orders not supported for this broker or product''
      else if code = CodeOrderNotFound then ''order not found at broker''
      else if code = CodeAlreadyCancelled then ''order already cancelled''
      else if code = CodePermissionDenied then
        ''broker app is missing a required API permission for this call''
      else ''order failed'')"

definition BrokerNew :: "string \<Rightarrow> string \<Rightarrow> go_err" where
  "BrokerNew code message = BrokerError code message None"

definition BrokerWrap :: "string \<Rightarrow> string \<Rightarrow> go_err \<Rightarrow> go_err" where
  "BrokerWrap code message cause = BrokerError code message (Some cause)"

definition CodeOf :: "go_err option \<Rightarrow> string" where
  "CodeOf e = (case e of None \<Rightarrow> []
                 | Some (BrokerError code _ _) \<Rightarrow> code
                 | Some _ \<Rightarrow> CodeInternal)"

definition CategoryZettaBridge :: string where "CategoryZettaBridge = ''zettabridge''"
definition CategoryBroker :: string where "CategoryBroker = ''broker''"

definition brokerCodes :: "string list" where
  "brokerCodes = [CodeAuthFailed, CodeInvalidCredentials, CodeInvalidSymbol, CodeInsufficientMargin,
     CodeMarketClosed, CodeBrokerUnreachable, CodeUnsupportedAction, CodeNoPosition,
     CodeAlgoIDRequired, CodeBracketNotSupported, CodeOrderNotFound, CodeAlreadyCancelled,
     CodePermissionDenied]"

definition Category :: "string \<Rightarrow> string" where
  "Category code = (if code \<in> set brokerCodes then CategoryBroker else CategoryZettaBridge)"

subsection \<open>Sanitising a message\<close>

text \<open>
  The regular expressions as matchers at a position: what is left of the text after the match.
  \<open>\s\<close> is tab, line feed, form feed, carriage return or blank.
\<close>

definition re_space :: "char \<Rightarrow> bool" where
  "re_space c = (c \<in> {CHR 0x09, CHR 0x0A, CHR 0x0C, CHR 0x0D, CHR 0x20})"

definition url_char :: "char \<Rightarrow> bool" where
  "url_char c = (\<not> re_space c \<and> c \<notin> {CHR 0x22, CHR 0x27, CHR ''<'', CHR ''>''})"

fun after_prefix :: "string \<Rightarrow> string \<Rightarrow> string option" where
  "after_prefix [] s = Some s"
| "after_prefix (p # ps) [] = None"
| "after_prefix (p # ps) (c # cs) = (if p = c then after_prefix ps cs else None)"

definition match_url :: "string \<Rightarrow> string option" where
  "match_url s =
     (case (case after_prefix ''https://'' s of
              Some t \<Rightarrow> Some t | None \<Rightarrow> after_prefix ''http://'' s) of
        None \<Rightarrow> None
      | Some t \<Rightarrow> (if takeWhile url_char t = [] then None else Some (dropWhile url_char t)))"

definition match_post :: "string \<Rightarrow> string option" where
  "match_post s =
     (case after_prefix ''Post'' s of None \<Rightarrow> None
      | Some t \<Rightarrow>
          (if takeWhile re_space t = [] then None
           else case dropWhile re_space t of
                  [] \<Rightarrow> None
                | c # u \<Rightarrow>
                    (if c \<noteq> CHR 0x22 then None
                     else case dropWhile (\<lambda>c. c \<noteq> CHR 0x22) u of
                            [] \<Rightarrow> None | _ # v \<Rightarrow> Some v)))"

definition match_dial :: "string \<Rightarrow> string option" where
  "match_dial s =
     (case after_prefix ''dial tcp'' s of None \<Rightarrow> None
      | Some t \<Rightarrow> Some (dropWhile (\<lambda>c. c \<noteq> CHR 0x0A) t))"

text \<open>\<^verbatim>\<open>ReplaceAllString(s, "")\<close> and \<^verbatim>\<open>strings.ReplaceAll(s, old, "")\<close>\<close>

function remove_all :: "(string \<Rightarrow> string option) \<Rightarrow> string \<Rightarrow> string" where
  "remove_all m [] = []"
| "remove_all m (c # cs) =
     (case m (c # cs) of
        Some rest \<Rightarrow> (if length rest < length (c # cs) then remove_all m rest else c # remove_all m cs)
      | None \<Rightarrow> c # remove_all m cs)"
  by pat_completeness auto
termination
  by (relation "measure (\<lambda>(m, s). length s)") auto

text \<open>\<^verbatim>\<open>strings.Fields\<close>: the maximal runs of characters that are not white space.\<close>

fun fields_from :: "string \<Rightarrow> string \<Rightarrow> string list" where
  "fields_from w [] = (if w = [] then [] else [rev w])"
| "fields_from w (c # cs) =
     (if is_space c then (if w = [] then fields_from [] cs else rev w # fields_from [] cs)
      else fields_from (c # w) cs)"

definition fields :: "string \<Rightarrow> string list" where
  "fields s = fields_from [] s"

text \<open>The three regular expressions, in the order they are applied.\<close>

definition strip_transport :: "string \<Rightarrow> string" where
  "strip_transport s = remove_all match_dial (remove_all match_url (remove_all match_post s))"

definition sanitize_prefixes :: "string list" where
  "sanitize_prefixes = [''adapter request failed:'', ''paper engine error:'', ''request failed:'']"

definition Sanitize :: "string \<Rightarrow> string" where
  "Sanitize message =
     (let s = trim_space message in
      if s = [] then []
      else
       (let s = strip_transport s;
            s = fold (\<lambda>p s. remove_all (after_prefix p) s) sanitize_prefixes s;
            s = join_with '' '' (fields s);
            s = trim_space s;
            low = to_lower s
        in if contains low ''connection refused'' \<or> contains low ''connect:'' \<or>
              contains low ''no such host'' \<or> contains low ''i/o timeout'' \<or>
              contains low ''context deadline exceeded''
           then PublicMessage CodeBrokerUnreachable
           else if s = [] then PublicMessage CodeInternal
           else s))"

definition classifyRaw :: "go_err \<Rightarrow> string \<times> string" where
  "classifyRaw err =
     (let low = to_lower (err_text err) in
      if contains low ''connection refused'' \<or> contains low ''connection failed'' \<or>
         contains low ''adapter request failed'' \<or> contains low ''adapter url not configured'' \<or>
         contains low ''adapter http'' \<or> contains low ''no such host'' \<or>
         contains low ''i/o timeout'' \<or> contains low ''context deadline exceeded'' \<or>
         contains low ''connect: ''
      then (CodeBrokerUnreachable, PublicMessage CodeBrokerUnreachable)
      else if contains low ''user not found'' then (CodeInternal, ''account not found'')
      else (CodeInternal, PublicMessage CodeInternal))"

definition UserFacing :: "go_err option \<Rightarrow> string \<times> string" where
  "UserFacing err =
     (case err of
        None \<Rightarrow> (CodeInternal, PublicMessage CodeInternal)
      | Some (BrokerError code message cause) \<Rightarrow>
          (let msg = (if message = [] then PublicMessage code else message)
           in (code, Sanitize msg))
      | Some e \<Rightarrow> classifyRaw e)"

definition PublicFrom :: "go_err option \<Rightarrow> string" where
  "PublicFrom err = snd (UserFacing err)"

definition TradeFields :: "go_err option \<Rightarrow> string \<times> string" where
  "TradeFields err = UserFacing err"

subsection \<open>No URL is left\<close>

definition has_url :: "string \<Rightarrow> bool" where
  "has_url s \<longleftrightarrow> (\<exists>a b. s = a @ b \<and> match_url b \<noteq> None)"

lemma after_prefix_iff: "after_prefix p s = Some t \<longleftrightarrow> s = p @ t"
  by (induction p s rule: after_prefix.induct) auto

lemma match_url_iff:
  "match_url s \<noteq> None \<longleftrightarrow>
     (\<exists>c t. url_char c \<and> (s = ''http://'' @ c # t \<or> s = ''https://'' @ c # t))"
proof -
  have t: "takeWhile url_char t \<noteq> [] \<longleftrightarrow> (\<exists>c u. url_char c \<and> t = c # u)" for t
    by (cases t) auto
  show ?thesis
  proof (cases "after_prefix ''https://'' s")
    case (Some u)
    then have "s = ''https://'' @ u" by (simp add: after_prefix_iff)
    with Some t [of u] show ?thesis by (auto simp: match_url_def)
  next
    case None
    then have n: "s \<noteq> ''https://'' @ u" for u using after_prefix_iff by (metis option.distinct(1))
    show ?thesis
    proof (cases "after_prefix ''http://'' s")
      case (Some u)
      then have "s = ''http://'' @ u" by (simp add: after_prefix_iff)
      with Some None n t [of u] show ?thesis by (auto simp: match_url_def)
    next
      case c: None
      then have "s \<noteq> ''http://'' @ u" for u using after_prefix_iff by (metis option.distinct(1))
      with None c n show ?thesis by (auto simp: match_url_def)
    qed
  qed
qed

lemma match_url_mono: "match_url p \<noteq> None \<Longrightarrow> match_url (p @ t) \<noteq> None"
  unfolding match_url_iff by (metis append_Cons append_assoc)

lemma url_char_http: "\<forall>c \<in> set ''https://''. url_char c" "\<forall>c \<in> set ''http://''. url_char c"
  by (simp_all add: url_char_def re_space_def)

lemma match_url_run: "match_url s \<noteq> None \<Longrightarrow> match_url (takeWhile url_char s) \<noteq> None"
proof -
  assume "match_url s \<noteq> None"
  then obtain p c t where *: "p = ''http://'' \<or> p = ''https://''" "url_char c" "s = p @ c # t"
    unfolding match_url_iff by blast
  then have "\<forall>x \<in> set p. url_char x" using url_char_http by blast
  then have "takeWhile url_char s = p @ c # takeWhile url_char t" using * by (simp add: takeWhile_append2)
  then show ?thesis using * unfolding match_url_iff by blast
qed

lemma has_url_Cons: "has_url (c # s) \<longleftrightarrow> match_url (c # s) \<noteq> None \<or> has_url s"
proof
  assume "has_url (c # s)"
  then obtain a b where ab: "c # s = a @ b" "match_url b \<noteq> None" by (auto simp: has_url_def)
  then show "match_url (c # s) \<noteq> None \<or> has_url s"
    by (cases a) (auto simp: has_url_def)
next
  assume *: "match_url (c # s) \<noteq> None \<or> has_url s"
  have "c # s = [] @ (c # s)" by simp
  moreover have "c # s = (c # a) @ b" if "s = a @ b" for a b using that by simp
  ultimately show "has_url (c # s)" using * unfolding has_url_def by blast
qed

lemma match_url_Nil [simp]: "match_url [] = None"
  by (simp add: match_url_def)

lemma has_url_Nil [simp]: "\<not> has_url []"
  by (simp add: has_url_def)

lemma has_url_append: "has_url b \<Longrightarrow> has_url (a @ b)"
  by (induction a) (simp_all add: has_url_Cons)

lemma has_url_append1: "has_url a \<Longrightarrow> has_url (a @ b)"
proof (induction a)
  case (Cons c a)
  then show ?case using match_url_mono [of "c # a" b] by (auto simp: has_url_Cons)
qed simp

lemma takeWhile_stop: "\<not> P d \<Longrightarrow> takeWhile P (xs @ d # b) = takeWhile P xs"
  by (induction xs) auto

lemma has_url_split: "has_url (a @ d # b) \<Longrightarrow> \<not> url_char d \<Longrightarrow> has_url a \<or> has_url b"
proof (induction a)
  case Nil
  then show ?case using match_url_run [of "d # b"] by (auto simp: has_url_Cons)
next
  case (Cons c a)
  have run: "takeWhile url_char ((c # a) @ d # b) = takeWhile url_char (c # a)"
    by (rule takeWhile_stop) (rule Cons.prems(2))
  have "match_url (c # a) \<noteq> None" if "match_url (c # a @ d # b) \<noteq> None"
    using match_url_run [of "(c # a) @ d # b"] that run match_url_mono takeWhile_dropWhile_id
    by (metis append_Cons)
  then show ?case using Cons by (auto simp: has_url_Cons)
qed

text \<open>
  A matcher stops at a character that no URL contains, or at the end: removing its matches does not
  join two runs of URL characters.
\<close>

definition stops :: "(string \<Rightarrow> string option) \<Rightarrow> bool" where
  "stops m \<longleftrightarrow> (\<forall>s t. m s = Some t \<longrightarrow> (\<exists>u. s = u @ t) \<and> takeWhile url_char t = []
      \<and> (t \<noteq> [] \<longrightarrow> m t = None))"

lemma stops_shorter: "stops m \<Longrightarrow> m (c # cs) = Some t \<Longrightarrow> length t < length (c # cs)"
proof -
  assume *: "stops m" "m (c # cs) = Some t"
  then obtain u where u: "c # cs = u @ t" "t \<noteq> [] \<longrightarrow> m t = None" by (auto simp: stops_def)
  then have "u \<noteq> []" using *(2) by auto
  then show ?thesis unfolding u(1) by simp
qed

lemma remove_all_split:
  assumes "stops m"
  obtains (match) t u where "m (c # cs) = Some t" "c # cs = u @ t" "remove_all m (c # cs) = remove_all m t"
      "t = [] \<or> m t = None \<and> takeWhile url_char t = []"
    | (none) "m (c # cs) = None" "remove_all m (c # cs) = c # remove_all m cs"
proof (cases "m (c # cs)")
  case (Some t)
  with assms obtain u where "c # cs = u @ t" "t = [] \<or> m t = None \<and> takeWhile url_char t = []"
    by (auto simp: stops_def)
  moreover have "remove_all m (c # cs) = remove_all m t"
    using Some stops_shorter [OF assms Some] by simp
  ultimately show ?thesis using Some by (intro match)
qed (auto intro: none)

lemma remove_run:
  assumes "stops m"
  shows "\<exists>t. s = takeWhile url_char (remove_all m s) @ t"
proof (induction s)
  case (Cons c cs)
  from assms show ?case
  proof (cases rule: remove_all_split [of m c cs])
    case (match t u)
    then have "takeWhile url_char (remove_all m t) = []"
      by (cases t) (auto split: if_splits)
    then show ?thesis using match by simp
  next
    case none
    then show ?thesis using Cons by simp
  qed
qed simp

text \<open>A URL in what is left was in the text, at a place the matcher does not match.\<close>

lemma remove_all_url:
  assumes "stops m" "has_url (remove_all m s)"
  shows "\<exists>a b. s = a @ b \<and> match_url b \<noteq> None \<and> m b = None"
  using assms(2)
proof (induction "length s" arbitrary: s rule: less_induct)
  case less
  show ?case
  proof (cases s)
    case Nil
    with less.prems show ?thesis by simp
  next
    case (Cons c cs)
    from assms(1) show ?thesis
    proof (cases rule: remove_all_split [of m c cs])
      case (match t u)
      then have "length t < length s" using stops_shorter [OF assms(1) match(1)] Cons by simp
      then obtain a b where "t = a @ b" "match_url b \<noteq> None" "m b = None"
        using less match(3) Cons by metis
      then show ?thesis using match(2) Cons by (intro exI [of _ "u @ a"] exI [of _ b]) simp
    next
      case none
      let ?r = "remove_all m cs"
      from none less.prems Cons have "match_url (c # ?r) \<noteq> None \<or> has_url ?r" by (simp add: has_url_Cons)
      then show ?thesis
      proof
        assume "match_url (c # ?r) \<noteq> None"
        then have *: "match_url (takeWhile url_char (c # ?r)) \<noteq> None" by (rule match_url_run)
        then have c: "url_char c" by (auto split: if_splits)
        obtain t where "cs = takeWhile url_char ?r @ t" using remove_run [OF assms(1), of cs] by blast
        then have "s = takeWhile url_char (c # ?r) @ t" using Cons c by simp
        then have "match_url s \<noteq> None" using match_url_mono [OF *] by simp
        then show ?thesis using none(1) Cons by (intro exI [of _ "[]"] exI [of _ s]) simp
      next
        assume "has_url ?r"
        then obtain a b where "cs = a @ b" "match_url b \<noteq> None" "m b = None"
          using less.hyps [of cs] Cons by auto
        then show ?thesis using Cons by (intro exI [of _ "c # a"] exI [of _ b]) simp
      qed
    qed
  qed
qed

lemma takeWhile_dropWhile_Nil: "takeWhile P (dropWhile P xs) = []"
  by (induction xs) auto

lemma not_url_char_start:
  "takeWhile url_char t = [] \<Longrightarrow> match_url t = None"
  using match_url_run [of t] by (cases "match_url t") auto

lemma stops_url: "stops match_url"
proof -
  have "(\<exists>u. s = u @ t) \<and> takeWhile url_char t = [] \<and> (t \<noteq> [] \<longrightarrow> match_url t = None)"
    if "match_url s = Some t" for s t
  proof -
    from that obtain p v where "after_prefix p s = Some v" "t = dropWhile url_char v"
      by (auto simp: match_url_def split: option.splits if_splits)
    then have "s = p @ v" "t = dropWhile url_char v" by (simp_all add: after_prefix_iff)
    then show ?thesis
      using takeWhile_dropWhile_id [of url_char v] takeWhile_dropWhile_Nil [of url_char v] not_url_char_start [of t]
      by (metis append_assoc)
  qed
  then show ?thesis by (simp add: stops_def)
qed

lemma stops_dial: "stops match_dial"
proof -
  have "(\<exists>u. s = u @ t) \<and> takeWhile url_char t = [] \<and> (t \<noteq> [] \<longrightarrow> match_dial t = None)"
    if "match_dial s = Some t" for s t
  proof -
    from that obtain v where v: "s = ''dial tcp'' @ v" "t = dropWhile (\<lambda>c. c \<noteq> CHR 0x0A) v"
      by (auto simp: match_dial_def after_prefix_iff split: option.splits)
    have "t = [] \<or> (\<exists>w. t = CHR 0x0A # w)"
      unfolding v(2) by (induction v) auto
    moreover have "s = (''dial tcp'' @ takeWhile (\<lambda>c. c \<noteq> CHR 0x0A) v) @ t" using v by simp
    ultimately show ?thesis by (auto simp: url_char_def re_space_def match_dial_def)
  qed
  then show ?thesis by (simp add: stops_def)
qed

lemma strip_transport_no_url: "\<not> has_url (strip_transport s)"
proof
  assume "has_url (strip_transport s)"
  then have "has_url (remove_all match_url (remove_all match_post s))"
    using remove_all_url [OF stops_dial] unfolding strip_transport_def has_url_def by blast
  then show False using remove_all_url [OF stops_url] by blast
qed

lemma remove_all_absent: "\<not> contains s p \<Longrightarrow> p \<noteq> [] \<Longrightarrow> remove_all (after_prefix p) s = s"
proof (induction s)
  case (Cons c cs)
  have "after_prefix p (c # cs) = None"
  proof (rule ccontr)
    assume "after_prefix p (c # cs) \<noteq> None"
    then obtain t where "c # cs = p @ t" by (auto simp: after_prefix_iff)
    then show False using Cons.prems(1) contains_mid [of "[]" p t] by simp
  qed
  then show ?case using Cons by simp
qed simp

lemma fields_from_url:
  "\<exists>v \<in> set (fields_from w s). has_url v \<Longrightarrow> has_url (rev w @ s)"
proof (induction w s rule: fields_from.induct)
  case (1 w)
  then show ?case by (auto split: if_splits)
next
  case (2 w c cs)
  consider (space) "is_space c" "has_url (rev w)" | (later) "is_space c" "\<exists>v \<in> set (fields_from [] cs). has_url v"
    | (word) "\<not> is_space c" "\<exists>v \<in> set (fields_from (c # w) cs). has_url v"
    using "2.prems" by (cases "is_space c"; cases "w = []") auto
  then show ?case
  proof cases
    case space
    then show ?thesis using has_url_append1 by blast
  next
    case later
    then have "has_url cs" using 2 by (cases "w = []") auto
    then have "has_url ((rev w @ [c]) @ cs)" by (rule has_url_append)
    then show ?thesis by simp
  next
    case word
    then show ?thesis using 2 by simp
  qed
qed

lemma join_url: "has_url (join_with [d] ws) \<Longrightarrow> \<not> url_char d \<Longrightarrow> \<exists>w \<in> set ws. has_url w"
proof (induction "[d]" ws rule: join_with.induct)
  case (3 s t ss)
  then show ?case using has_url_split [of s d "join_with [d] (t # ss)"] by auto
qed simp_all

lemma trim_url: "has_url (trim_space s) \<Longrightarrow> has_url s"
proof -
  assume *: "has_url (trim_space s)"
  obtain a where a: "s = a @ dropWhile is_space s" by (metis takeWhile_dropWhile_id)
  obtain b where b: "rev (dropWhile is_space s) = b @ dropWhile is_space (rev (dropWhile is_space s))"
    by (metis takeWhile_dropWhile_id)
  have "dropWhile is_space s = trim_space s @ rev b"
    using arg_cong [OF b, of rev] by (simp add: trim_space_def)
  then show ?thesis using a * has_url_append has_url_append1 by metis
qed

lemma PublicMessage_no_url: "\<not> has_url (PublicMessage code)"
proof -
  have "match_url b = None" if "CHR '':'' \<notin> set b" for b
    using that by (cases "match_url b = None") (auto simp: match_url_iff [of b, simplified])
  then have "\<not> has_url s" if "CHR '':'' \<notin> set s" for s
    using that by (auto simp: has_url_def)
  then show ?thesis by (simp add: PublicMessage_def)
qed

text \<open>
  A message shown to a user contains no URL, unless one of the labels the sanitiser takes out
  afterwards (such as \<open>request failed:\<close>) stood in the text the regular expressions had left.
\<close>

theorem sanitize_hides_urls:
  assumes "\<forall>p \<in> set sanitize_prefixes. \<not> contains (strip_transport (trim_space message)) p"
  shows "\<not> has_url (Sanitize message)"
proof -
  define t where "t = strip_transport (trim_space message)"
  have "fold (\<lambda>p s. remove_all (after_prefix p) s) sanitize_prefixes t = t"
    using assms remove_all_absent [of t] by (simp add: sanitize_prefixes_def flip: t_def)
  moreover have "\<not> has_url (trim_space (join_with '' '' (fields t)))"
  proof
    assume "has_url (trim_space (join_with '' '' (fields t)))"
    then have "has_url (join_with [CHR '' ''] (fields t))" by (rule trim_url)
    then have "\<exists>v \<in> set (fields t). has_url v" by (rule join_url) (simp add: url_char_def re_space_def)
    then have "has_url t" using fields_from_url [of "[]" t] by (simp add: fields_def)
    then show False using strip_transport_no_url t_def by simp
  qed
  ultimately show ?thesis
    by (simp add: Sanitize_def Let_def PublicMessage_no_url flip: t_def)
qed

theorem sanitize_hides_urls_witness:
  "\<not> has_url (Sanitize ''paper http://10.0.0.5:8080/x down'')
     \<and> Sanitize ''paper http://10.0.0.5:8080/x down'' = ''paper down''"
proof
  have "\<forall>p \<in> set sanitize_prefixes. \<not> contains (strip_transport (trim_space ''paper http://10.0.0.5:8080/x down'')) p"
    by code_simp
  then show "\<not> has_url (Sanitize ''paper http://10.0.0.5:8080/x down'')" by (rule sanitize_hides_urls)
  show "Sanitize ''paper http://10.0.0.5:8080/x down'' = ''paper down''" by code_simp
qed

text \<open>
  The exception is real: taking out a label can join the two halves of a URL.
\<close>

lemma sanitize_label_leak:
  "Sanitize ''httprequest failed:://10.0.0.5/x'' = ''http://10.0.0.5/x''"
  by code_simp

end
