(* ===== verification/Guard.thy ===== *)
theory Guard
  imports BrokerErr
begin

section \<open>Guard: what a webhook lets a signal do\<close>

text \<open>
  Models \<^verbatim>\<open>internal/guard/guard.go\<close>: allowed actions and symbols, quantities, the lot cap, order
  types, required comments, and trading hours.

  The time zone data base is not under \<^verbatim>\<open>src\<close>: \<open>zones\<close> is a parameter that gives, for a zone's
  name, its offset from UTC in seconds at each instant. What \<^verbatim>\<open>time\<close> computes from the offset, the
  weekday, hour and minute of the wall clock, is written out. The names \<open>UTC\<close> and the empty name are
  UTC whatever the data base says, as in \<^verbatim>\<open>time.LoadLocation\<close>.
\<close>

subsection \<open>Errors\<close>

definition ErrActionNotAllowed :: go_err where
  "ErrActionNotAllowed = Sentinel ''action not allowed for this webhook''"
definition ErrSymbolNotAllowed :: go_err where
  "ErrSymbolNotAllowed = Sentinel ''symbol not allowed for this webhook''"
definition ErrSymbolRequired :: go_err where
  "ErrSymbolRequired = Sentinel ''symbol is required in signal''"
definition ErrQuantityRequired :: go_err where
  "ErrQuantityRequired =
     Sentinel ''quantity is required in signal when webhook default quantity is 0''"
definition ErrCommentRequired :: go_err where
  "ErrCommentRequired = Sentinel ''comment does not match required value''"
definition ErrOutsideTradingHours :: go_err where
  "ErrOutsideTradingHours = Sentinel ''outside trading hours''"
definition ErrLotExceedsMax :: go_err where
  "ErrLotExceedsMax = Sentinel ''lot size exceeds max_lot_size''"
definition ErrOrderTypeNotAllowed :: go_err where
  "ErrOrderTypeNotAllowed = Sentinel ''order_type not allowed for this webhook''"

lemmas guard_err_defs = ErrActionNotAllowed_def ErrSymbolNotAllowed_def ErrSymbolRequired_def
  ErrQuantityRequired_def ErrCommentRequired_def ErrOutsideTradingHours_def ErrLotExceedsMax_def
  ErrOrderTypeNotAllowed_def

definition ErrCode :: "go_err \<Rightarrow> string" where
  "ErrCode err =
     (if err_is err ErrCommentRequired then ''invalid_secret''
      else if err_is err ErrActionNotAllowed then ''action_not_allowed''
      else if err_is err ErrSymbolNotAllowed then ''symbol_not_allowed''
      else if err_is err ErrSymbolRequired then ''symbol_required''
      else if err_is err ErrQuantityRequired then ''quantity_required''
      else if err_is err ErrLotExceedsMax then ''lot_exceeds_max''
      else if err_is err ErrOutsideTradingHours then ''outside_trading_hours''
      else if err_is err ErrOrderTypeNotAllowed then ''order_type_not_allowed''
      else ''gateway_rejected'')"

subsection \<open>Actions and symbols\<close>

definition validActions :: "string list" where
  "validActions = [''BUY'', ''SELL'', ''CLOSE'']"

definition DefaultAllowedActions :: "string list" where
  "DefaultAllowedActions = [''BUY'', ''SELL'', ''CLOSE'']"

definition ValidateAllowedActions :: "string list \<Rightarrow> go_err option" where
  "ValidateAllowedActions actions =
     (if actions = [] then Some (Errorf ''allowed_actions must not be empty'')
      else case find (\<lambda>a. a \<notin> set validActions) actions of
             Some a \<Rightarrow> Some (Errorf (''invalid action '' @ fmt_q a @ '' in allowed_actions''))
           | None \<Rightarrow> None)"

text \<open>The loop with its set of symbols seen and its list so far.\<close>

fun normalize_symbols :: "string list \<Rightarrow> string list \<Rightarrow> string list" where
  "normalize_symbols seen [] = []"
| "normalize_symbols seen (raw # rest) =
     (let s = to_upper (trim_space raw) in
      if s = [] then normalize_symbols seen rest
      else if s \<in> set seen then normalize_symbols seen rest
      else s # normalize_symbols (s # seen) rest)"

definition NormalizeAllowedSymbols :: "string list \<Rightarrow> go_err + string list" where
  "NormalizeAllowedSymbols symbols =
     (let out = normalize_symbols [] symbols in
      if out = [] then Inl (Errorf ''allowed_symbols must include at least one symbol'') else Inr out)"

definition EffectiveAllowedSymbols :: "webhook \<Rightarrow> string list" where
  "EffectiveAllowedSymbols wh =
     (if wh_AllowedSymbols wh \<noteq> [] then wh_AllowedSymbols wh
      else (let s = trim_space (wh_Symbol wh) in if s \<noteq> [] then [to_upper s] else []))"

definition symbolAllowed :: "webhook \<Rightarrow> string \<Rightarrow> bool" where
  "symbolAllowed wh symbol =
     (let symbol = trim_space symbol in
      \<exists>s \<in> set (EffectiveAllowedSymbols wh). equal_fold (trim_space s) symbol)"

definition symbolNotAllowedError :: "string \<Rightarrow> go_err" where
  "symbolNotAllowedError symbol =
     Wrapf [] ErrSymbolNotAllowed
       ('' '' @ em_dash @ '' '' @ fmt_q symbol @ '' is not in this webhook'' @ [CHR 0x27] @ ''s allowed symbols list'')"

definition ValidateSymbol :: "webhook \<Rightarrow> string \<Rightarrow> go_err option" where
  "ValidateSymbol wh symbol =
     (if symbolAllowed wh symbol then None else Some (symbolNotAllowedError symbol))"

subsection \<open>Parameters of the trade\<close>

record trade_params =
  tp_Symbol :: string
  tp_Lot :: f64
  tp_SLPts :: int
  tp_TPPts :: int
  tp_Price :: f64
  tp_Product :: string

definition ResolveParams :: "webhook \<Rightarrow> signal_payload \<Rightarrow> trade_params" where
  "ResolveParams wh sig =
     \<lparr> tp_Symbol =
         (if sg_Symbol sig \<noteq> [] then trim_space (sg_Symbol sig)
          else case EffectiveAllowedSymbols wh of [s] \<Rightarrow> s | _ \<Rightarrow> []),
       tp_Lot = sg_Lot sig,
       tp_SLPts = (if 0 < sg_SLPts sig then sg_SLPts sig else wh_SLPoints wh),
       tp_TPPts = (if 0 < sg_TPPts sig then sg_TPPts sig else wh_TPPoints wh),
       tp_Price = sg_Price sig,
       tp_Product = to_upper (trim_space (sg_Product sig)) \<rparr>"

definition ResolveQuantity :: "webhook \<Rightarrow> f64 \<Rightarrow> go_err + f64" where
  "ResolveQuantity wh signalLot =
     (if 0 < wh_LotSize wh then Inr (wh_LotSize wh)
      else if 0 < signalLot then Inr signalLot
      else Inl ErrQuantityRequired)"

definition ApplyMaxLotSize :: "f64 \<Rightarrow> f64 \<Rightarrow> go_err + f64" where
  "ApplyMaxLotSize maxLotSize lot =
     (if maxLotSize \<le> 0 then Inr lot
      else if maxLotSize < lot then
        Inl (Wrapf [] ErrLotExceedsMax ('' ('' @ fmt_f4 lot @ '' > '' @ fmt_f4 maxLotSize @ '')''))
      else Inr lot)"

definition ApplyMaxLot :: "webhook \<Rightarrow> f64 \<Rightarrow> go_err + f64" where
  "ApplyMaxLot wh lot = ApplyMaxLotSize (wh_MaxLotSize wh) lot"

subsection \<open>Order types and actions\<close>

definition NormalizeEntryOrderType :: "string \<Rightarrow> string" where
  "NormalizeEntryOrderType v =
     (let u = to_upper (trim_space v) in
      if u = ''MARKET'' then ''MARKET'' else if u = ''LIMIT'' then ''LIMIT'' else [])"

definition WebhookOrderType :: "webhook option \<Rightarrow> string" where
  "WebhookOrderType wh =
     (case wh of
        Some w \<Rightarrow> (let ot = NormalizeEntryOrderType (wh_DefaultOrderType w) in
                   if ot \<noteq> [] then ot else ''LIMIT'')
      | None \<Rightarrow> ''LIMIT'')"

definition ValidateOrderType :: "webhook \<Rightarrow> string \<Rightarrow> go_err option" where
  "ValidateOrderType wh signalOrderType =
     (let requested = to_upper (trim_space signalOrderType) in
      if requested = [] then None
      else if requested \<noteq> ''MARKET'' \<and> requested \<noteq> ''LIMIT'' then
        Some (Wrapf [] ErrOrderTypeNotAllowed
          ('' '' @ em_dash @ '' order_type must be MARKET or LIMIT, got '' @ fmt_q signalOrderType))
      else (let configured = WebhookOrderType (Some wh) in
        if requested \<noteq> configured then
          Some (Wrapf [] ErrOrderTypeNotAllowed
            ('' '' @ em_dash @ '' signal requested '' @ requested
             @ '' but this webhook is configured for '' @ configured))
        else None))"

definition ValidateAction :: "webhook \<Rightarrow> string \<Rightarrow> go_err option" where
  "ValidateAction wh action =
     (let actions = (if wh_AllowedActions wh = [] then DefaultAllowedActions else wh_AllowedActions wh)
      in if action \<in> set actions then None else Some ErrActionNotAllowed)"

subsection \<open>Trading hours\<close>

type_synonym location = "int \<Rightarrow> int"
type_synonym zones = "string \<Rightarrow> location option"

definition UTC :: location where
  "UTC = (\<lambda>_. 0)"

definition LoadLocation :: "zones \<Rightarrow> string \<Rightarrow> location option" where
  "LoadLocation zones name = (if name = [] \<or> name = ''UTC'' then Some UTC else zones name)"

text \<open>The wall clock of an instant: 1 January 1970 was a Thursday.\<close>

definition local_secs :: "location \<Rightarrow> int \<Rightarrow> int" where
  "local_secs loc now = now + loc now"

definition weekday :: "location \<Rightarrow> int \<Rightarrow> int" where
  "weekday loc now = (local_secs loc now div 86400 + 4) mod 7"

definition hour :: "location \<Rightarrow> int \<Rightarrow> int" where
  "hour loc now = local_secs loc now mod 86400 div 3600"

definition minute :: "location \<Rightarrow> int \<Rightarrow> int" where
  "minute loc now = local_secs loc now mod 3600 div 60"

definition weekdayKeys :: "string list" where
  "weekdayKeys = [''sun'', ''mon'', ''tue'', ''wed'', ''thu'', ''fri'', ''sat'']"

definition parseHHMM :: "string \<Rightarrow> int option" where
  "parseHHMM s =
     (case split_on CHR '':'' (trim_space s) of
        [a, b] \<Rightarrow>
          (case sscanf_d a of
             None \<Rightarrow> None
           | Some h \<Rightarrow>
               (if h < 0 \<or> 23 < h then None
                else case sscanf_d b of
                       None \<Rightarrow> None
                     | Some m \<Rightarrow> (if m < 0 \<or> 59 < m then None else Some (h * 60 + m))))
      | _ \<Rightarrow> None)"

definition in_window :: "int \<Rightarrow> trading_window \<Rightarrow> bool" where
  "in_window nowMins w =
     (case (parseHHMM (tw_Start w), parseHHMM (tw_End w)) of
        (Some start, Some end) \<Rightarrow>
          (if start \<le> end then start \<le> nowMins \<and> nowMins \<le> end
           else start \<le> nowMins \<or> nowMins \<le> end)
      | _ \<Rightarrow> False)"

definition WithinSchedule :: "zones \<Rightarrow> trading_schedule option \<Rightarrow> string \<Rightarrow> int \<Rightarrow> bool" where
  "WithinSchedule zones schedule timezone now =
     (case schedule of
        None \<Rightarrow> True
      | Some sched \<Rightarrow>
          if sched = [] then True
          else
            (let tz = (if timezone = [] then ''UTC'' else timezone);
                 loc = (case LoadLocation zones tz of None \<Rightarrow> UTC | Some l \<Rightarrow> l);
                 dayKey = weekdayKeys ! nat (weekday loc now)
             in case map_of sched dayKey of
                  None \<Rightarrow> False
                | Some windows \<Rightarrow>
                    (if windows = [] then False
                     else let nowMins = hour loc now * 60 + minute loc now
                          in \<exists>w \<in> set windows. in_window nowMins w)))"

definition WithinTradingHours :: "zones \<Rightarrow> webhook \<Rightarrow> int \<Rightarrow> bool" where
  "WithinTradingHours zones wh now = WithinSchedule zones (wh_TradingHours wh) (wh_Timezone wh) now"

definition ValidateIngest :: "zones \<Rightarrow> webhook \<Rightarrow> signal_payload \<Rightarrow> int \<Rightarrow> go_err option" where
  "ValidateIngest zones wh sig now =
     (case ValidateAction wh (sg_Action sig) of
        Some e \<Rightarrow> Some e
      | None \<Rightarrow>
         (if wh_RequiredComment wh \<noteq> [] \<and> sg_Comment sig \<noteq> wh_RequiredComment wh
          then Some ErrCommentRequired
          else if \<not> WithinTradingHours zones wh now then Some ErrOutsideTradingHours
          else ValidateOrderType wh (sg_OrderType sig)))"

definition MarketHoursEnforcementSettingKey :: string where
  "MarketHoursEnforcementSettingKey = ''paper_market_hours_enforcement''"

text \<open>
  What the store returns for the setting (absent or a value) and the profile is an argument, an
  error on the left.
\<close>

definition CheckMarketHours ::
  "zones \<Rightarrow> (string \<Rightarrow> go_err + string option) \<Rightarrow> (string \<Rightarrow> go_err + market_profile option) \<Rightarrow>
   string \<Rightarrow> int \<Rightarrow> string" where
  "CheckMarketHours zones GetPlatformSetting GetProfile code now =
     (let enabled = (case GetPlatformSetting MarketHoursEnforcementSettingKey of
                       Inr (Some v) \<Rightarrow> v = ''true'' | _ \<Rightarrow> True)
      in if \<not> enabled then []
         else case GetProfile code of
                Inr (Some profile) \<Rightarrow>
                  (if \<not> WithinSchedule zones (mp_TradingDays profile) (mp_Timezone profile) now
                   then ''outside trading hours for '' @ mp_Name profile @ '' ('' @ mp_Timezone profile @ '')''
                   else [])
              | _ \<Rightarrow> [])"

subsection \<open>Clock times\<close>

lemma parseHHMM_bounds: "parseHHMM s = Some n \<Longrightarrow> 0 \<le> n \<and> n < 1440"
  by (auto simp: parseHHMM_def split: list.splits option.splits if_splits)

lemma pad2: "pad_digits 2 n = [digit_char (n div 10 mod 10), digit_char (n mod 10)]"
  by (simp add: numeral_2_eq_2)

lemma sscanf_pad2:
  assumes "0 \<le> n" "n < 100"
  shows "sscanf_d (pad_digits 2 n) = Some n"
proof -
  let ?a = "n div 10 mod 10" and ?b = "n mod 10"
  have "0 \<le> ?a" "?a < 10" "0 \<le> ?b" "?b < 10" by auto
  note a = digit_char_simps [OF this(1,2)] and b = digit_char_simps [OF this(3,4)]
  have "10 * ?a + ?b = n" using assms by presburger
  then show ?thesis using assms a b
    by (simp add: sscanf_d_def pad2 is_blank_def read_digits_def in_int64_def)
qed

text \<open>
  A clock time written \<open>HH:MM\<close>, in the range of a day, reads back as its minute of the day, and
  whatever the parser accepts is a minute of the day.
\<close>

theorem hhmm_roundtrip:
  assumes "0 \<le> h" "h \<le> 23" "0 \<le> m" "m \<le> 59"
  shows "parseHHMM (pad_digits 2 h @ '':'' @ pad_digits 2 m) = Some (h * 60 + m)
    \<and> (\<forall>s n. parseHHMM s = Some n \<longrightarrow> 0 \<le> n \<and> n < 1440)"
proof -
  let ?t = "pad_digits 2 h @ '':'' @ pad_digits 2 m"
  have d: "0 \<le> n div 10 mod 10" "n div 10 mod 10 < 10" "0 \<le> n mod 10" "n mod 10 < (10 :: int)" for n by auto
  note s = digit_char_simps [OF d(1,2)] digit_char_simps [OF d(3,4)]
  have colon: "CHR '':'' \<notin> set (pad_digits 2 n)" for n using s(4,11) [of n] by (auto simp: pad2)
  have "trim_space ?t = ?t" using s(3,10) by (simp add: trim_space_def pad2)
  moreover have "split_on CHR '':'' ?t = [pad_digits 2 h, pad_digits 2 m]"
    using split_on_append [OF colon, of h "pad_digits 2 m"] split_on_no_sep [OF colon, of m] by simp
  ultimately show ?thesis
    using assms sscanf_pad2 [of h] sscanf_pad2 [of m] parseHHMM_bounds by (simp add: parseHHMM_def)
qed

theorem hhmm_roundtrip_witness: "parseHHMM ''09:15'' = Some 555"
proof -
  have "pad_digits 2 9 @ '':'' @ pad_digits 2 15 = ''09:15''" by code_simp
  then show ?thesis using hhmm_roundtrip [of 9 15] by simp
qed

lemma wall_clock_bounds:
  "0 \<le> weekday loc now" "weekday loc now < 7" "0 \<le> hour loc now" "hour loc now \<le> 23"
  "0 \<le> minute loc now" "minute loc now \<le> 59"
  by (simp_all add: weekday_def hour_def minute_def)

text \<open>
  A window is an arc of the day's circle of minutes, both ends included: the code's two cases,
  windows within a day and windows over midnight, are one condition, the minutes since the window's
  start against its length, both modulo a day.
\<close>

theorem window_is_an_arc:
  assumes "parseHHMM (tw_Start w) = Some s" "parseHHMM (tw_End w) = Some e" "0 \<le> now" "now < 1440"
  shows "in_window now w \<longleftrightarrow> (now - s) mod 1440 \<le> (e - s) mod 1440"
proof -
  have b: "0 \<le> s" "s < 1440" "0 \<le> e" "e < 1440" using assms parseHHMM_bounds by blast+
  have m: "(x - y) mod 1440 = (if y \<le> x then x - y else x - y + 1440)"
    if "0 \<le> x" "x < 1440" "0 \<le> y" "y < 1440" for x y :: int
  proof (cases "y \<le> x")
    case False
    have "(x - y) mod 1440 = (x - y + 1440) mod 1440" by simp
    also have "\<dots> = x - y + 1440" using that False by (intro mod_pos_pos_trivial) auto
    finally show ?thesis using False by simp
  qed (use that in simp)
  show ?thesis using assms b m [of now s] m [of e s] by (auto simp: in_window_def)
qed

theorem window_is_an_arc_witness:
  "in_window 60 \<lparr>tw_Start = ''22:00'', tw_End = ''02:00''\<rparr> \<longleftrightarrow> (60 - 1320) mod 1440 \<le> (120 - 1320) mod (1440 :: int)"
proof -
  have "parseHHMM ''22:00'' = Some 1320" "parseHHMM ''02:00'' = Some 120" by code_simp+
  then show ?thesis using window_is_an_arc [of "\<lparr>tw_Start = ''22:00'', tw_End = ''02:00''\<rparr>" 1320 120 60] by simp
qed

text \<open>
  A window over midnight belongs, on both sides of midnight, to the weekday it is listed under: the
  night from Monday to Tuesday, listed under Monday, is closed on Tuesday at 01:00, and open on
  Monday at 01:00, an hour of the night before. The instants are 2 January 2024 and 1 January 2024,
  a Tuesday and a Monday.
\<close>

lemma overnight_window_day:
  "\<not> WithinSchedule zones (Some [(''mon'', [\<lparr>tw_Start = ''22:00'', tw_End = ''02:00''\<rparr>])]) ''UTC'' 1704157200"
  "WithinSchedule zones (Some [(''mon'', [\<lparr>tw_Start = ''22:00'', tw_End = ''02:00''\<rparr>])]) ''UTC'' 1704070800"
proof -
  have "parseHHMM ''22:00'' = Some 1320" "parseHHMM ''02:00'' = Some 120" by code_simp+
  then show
  "\<not> WithinSchedule zones (Some [(''mon'', [\<lparr>tw_Start = ''22:00'', tw_End = ''02:00''\<rparr>])]) ''UTC'' 1704157200"
  "WithinSchedule zones (Some [(''mon'', [\<lparr>tw_Start = ''22:00'', tw_End = ''02:00''\<rparr>])]) ''UTC'' 1704070800"
    by (simp_all add: WithinSchedule_def LoadLocation_def UTC_def weekday_def local_secs_def hour_def
        minute_def weekdayKeys_def in_window_def)
qed

subsection \<open>Symbols\<close>

lemma normalize_symbols_set:
  "set (normalize_symbols seen xs) = {to_upper (trim_space x) | x. x \<in> set xs \<and> trim_space x \<noteq> []} - set seen"
  by (induction seen xs rule: normalize_symbols.induct) (auto simp: Let_def)

lemma normalize_symbols_distinct: "distinct (normalize_symbols seen xs)"
  by (induction seen xs rule: normalize_symbols.induct) (auto simp: Let_def normalize_symbols_set)

lemma normalize_symbols_fix:
  assumes "distinct xs" "set xs \<inter> set seen = {}" "\<forall>x \<in> set xs. to_upper (trim_space x) = x \<and> x \<noteq> []"
  shows "normalize_symbols seen xs = xs"
  using assms by (induction seen xs rule: normalize_symbols.induct) (auto simp: Let_def)

text \<open>
  A whitelist that the normaliser accepts has no duplicates, is left alone by normalising it
  again, and holds the trimmed upper-case form of every entry that is not blank; a webhook with it
  allows each of those entries however it is cased or padded, and no other symbol.
\<close>

theorem normalized_symbols:
  assumes "NormalizeAllowedSymbols symbols = Inr out" "wh_AllowedSymbols wh = out"
  shows "distinct out \<and> NormalizeAllowedSymbols out = Inr out
    \<and> set out = {to_upper (trim_space x) | x. x \<in> set symbols \<and> trim_space x \<noteq> []}
    \<and> (\<forall>s. symbolAllowed wh s \<longleftrightarrow>
          (\<exists>x \<in> set symbols. trim_space x \<noteq> [] \<and> equal_fold (trim_space x) (trim_space s)))"
proof -
  have out: "out = normalize_symbols [] symbols" "out \<noteq> []"
    using assms(1) by (auto simp: NormalizeAllowedSymbols_def Let_def split: if_splits)
  have set: "set out = {to_upper (trim_space x) | x. x \<in> set symbols \<and> trim_space x \<noteq> []}"
    using normalize_symbols_set [of "[]" symbols] out(1) by simp
  have "\<forall>x \<in> set out. to_upper (trim_space x) = x \<and> x \<noteq> []" using set by (auto simp: trim_upper)
  then have "normalize_symbols [] out = out"
    using out(1) normalize_symbols_distinct by (intro normalize_symbols_fix) auto
  moreover have "symbolAllowed wh s \<longleftrightarrow>
          (\<exists>x \<in> set symbols. trim_space x \<noteq> [] \<and> equal_fold (trim_space x) (trim_space s))" for s
    using assms(2) out(2) set
    by (auto simp: symbolAllowed_def EffectiveAllowedSymbols_def equal_fold_upper trim_upper)
  ultimately show ?thesis using out set normalize_symbols_distinct by (simp add: NormalizeAllowedSymbols_def)
qed

theorem normalized_symbols_witness:
  "\<exists>wh. NormalizeAllowedSymbols ['' infy'', ''TCS'', ''INFY''] = Inr [''INFY'', ''TCS'']
     \<and> symbolAllowed wh ''Infy '' \<and> \<not> symbolAllowed wh ''SBIN''"
proof -
  have n: "NormalizeAllowedSymbols ['' infy'', ''TCS'', ''INFY''] = Inr [''INFY'', ''TCS'']" by code_simp
  obtain wh :: webhook where wh: "wh_AllowedSymbols wh = [''INFY'', ''TCS'']"
    by (rule that [of "undefined\<lparr>wh_AllowedSymbols := [''INFY'', ''TCS'']\<rparr>"]) simp
  have "trim_space '' infy'' = ''infy''" "equal_fold ''infy'' (trim_space ''Infy '')"
    "trim_space ''SBIN'' = ''SBIN''" "trim_space ''TCS'' = ''TCS''" "trim_space ''INFY'' = ''INFY''"
    "\<not> equal_fold ''infy'' ''SBIN''" "\<not> equal_fold ''INFY'' ''SBIN''" "\<not> equal_fold ''TCS'' ''SBIN''"
    by code_simp+
  then show ?thesis using n normalized_symbols [OF n wh] by (intro exI [of _ wh]) auto
qed

subsection \<open>What the ingest lets through\<close>

lemma ValidateOrderType_None:
  "ValidateOrderType wh ot = None \<longleftrightarrow>
     to_upper (trim_space ot) = [] \<or> to_upper (trim_space ot) = WebhookOrderType (Some wh)"
proof -
  have "WebhookOrderType (Some wh) = ''MARKET'' \<or> WebhookOrderType (Some wh) = ''LIMIT''"
    by (simp add: WebhookOrderType_def NormalizeEntryOrderType_def Let_def)
  then show ?thesis by (auto simp: ValidateOrderType_def Let_def)
qed

lemma ValidateOrderType_code: "ValidateOrderType wh ot = Some e \<Longrightarrow> ErrCode e = ''order_type_not_allowed''"
  by (auto simp: ValidateOrderType_def Let_def ErrCode_def guard_err_defs split: if_splits)

lemma ErrCode_sentinels [simp]:
  "ErrCode ErrActionNotAllowed = ''action_not_allowed''" "ErrCode ErrCommentRequired = ''invalid_secret''"
  "ErrCode ErrOutsideTradingHours = ''outside_trading_hours''" "ErrCode ErrQuantityRequired = ''quantity_required''"
  "ErrCode ErrSymbolRequired = ''symbol_required''"
  by (simp_all add: ErrCode_def guard_err_defs)

text \<open>
  The checks before a signal is queued, by the code a caller sees: the first of the action, the
  required comment, the trading hours and the order type that fails names the rejection, and a
  signal goes through exactly when all four hold.
\<close>

theorem ingest_checks:
  fixes wh sig zones now
  defines "allowed \<equiv> sg_Action sig \<in>
      set (if wh_AllowedActions wh = [] then DefaultAllowedActions else wh_AllowedActions wh)"
    and "secret \<equiv> wh_RequiredComment wh = [] \<or> sg_Comment sig = wh_RequiredComment wh"
    and "ot \<equiv> to_upper (trim_space (sg_OrderType sig))"
  shows "map_option ErrCode (ValidateIngest zones wh sig now) =
     (if \<not> allowed then Some ''action_not_allowed''
      else if \<not> secret then Some ''invalid_secret''
      else if \<not> WithinTradingHours zones wh now then Some ''outside_trading_hours''
      else if ot \<noteq> [] \<and> ot \<noteq> WebhookOrderType (Some wh) then Some ''order_type_not_allowed''
      else None)"
  using ValidateOrderType_None [of wh "sg_OrderType sig"] ValidateOrderType_code [of wh "sg_OrderType sig"]
  by (cases "ValidateOrderType wh (sg_OrderType sig)")
    (auto simp: ValidateIngest_def ValidateAction_def allowed_def secret_def ot_def Let_def)

end
