(* ===== verification/CredentialProduct.thy ===== *)
theory CredentialProduct
  imports BrokerErr
begin

section \<open>The products of a broker credential\<close>

text \<open>
  Models \<^verbatim>\<open>internal/credentialproduct/product.go\<close>: the product codes MIS, CNC and NRML that a
  credential enables, kept in one column as a list separated by commas in canonical order.
\<close>

definition valid_products :: "string list" where
  "valid_products = [''MIS'', ''CNC'', ''NRML'']"

definition canonicalIndex :: "string \<Rightarrow> nat" where
  "canonicalIndex p = (if p = ''MIS'' then 0 else if p = ''CNC'' then 1 else if p = ''NRML'' then 2 else 3)"

text \<open>
  \<^verbatim>\<open>sort.Slice\<close> may permute equal elements; the lists the code sorts have none.
\<close>

definition sortByCanonical :: "string list \<Rightarrow> string list" where
  "sortByCanonical products = sort_key canonicalIndex products"

fun parse_parts :: "string list \<Rightarrow> string list \<Rightarrow> string list" where
  "parse_parts seen [] = []"
| "parse_parts seen (raw # rest) =
     (let p = to_upper (trim_space raw) in
      if p = [] then parse_parts seen rest
      else if p \<notin> set valid_products then parse_parts seen rest
      else if p \<in> set seen then parse_parts seen rest
      else p # parse_parts (p # seen) rest)"

definition Parse :: "string \<Rightarrow> string list" where
  "Parse stored =
     (let stored = trim_space stored in
      if stored = [] then []
      else sortByCanonical (parse_parts [] (split_on CHR '','' stored)))"

definition product_error :: go_err where
  "product_error = Errorf ''product must be MIS, CNC, or NRML''"

fun normalize_parts :: "string list \<Rightarrow> string list \<Rightarrow> go_err + string list" where
  "normalize_parts seen [] = Inr []"
| "normalize_parts seen (raw # rest) =
     (let p = to_upper (trim_space raw) in
      if p = [] then normalize_parts seen rest
      else if p \<notin> set valid_products then Inl product_error
      else if p \<in> set seen then normalize_parts seen rest
      else ebind (normalize_parts (p # seen) rest) (\<lambda>ps. Inr (p # ps)))"

definition NormalizeList :: "string list \<Rightarrow> go_err + string list" where
  "NormalizeList products =
     (if products = [] then Inr [''MIS'']
      else ebind (normalize_parts [] products) (\<lambda>out.
             if out = [] then Inl (Errorf ''at least one product is required'')
             else Inr (sortByCanonical out)))"

definition Serialize :: "string list \<Rightarrow> go_err + string" where
  "Serialize products =
     ebind (NormalizeList products) (\<lambda>normalized.
       if normalized = [] then Inr ''MIS'' else Inr (join_with '','' normalized))"

definition Default :: "string \<Rightarrow> string" where
  "Default stored = (case Parse stored of [] \<Rightarrow> ''MIS'' | p # _ \<Rightarrow> p)"

definition NormalizeSettings :: "string \<Rightarrow> string list \<Rightarrow> bool \<Rightarrow> go_err + (string \<times> string)" where
  "NormalizeSettings exchange products allowMultiple =
     (let ex = trim_space exchange in
      if ex = [] then Inl (Errorf ''exchange is required for Indian brokers (NSE or BSE)'')
      else
        (let ex = to_upper ex in
         if ex \<noteq> ''NSE'' \<and> ex \<noteq> ''BSE'' then Inl (Errorf ''exchange must be NSE or BSE'')
         else
           ebind (NormalizeList products) (\<lambda>normalized.
             if \<not> allowMultiple \<and> 1 < length normalized then
               Inl (Errorf ''your plan allows one product per broker account; upgrade to Pro Plus for multiple products'')
             else ebind (Serialize normalized) (\<lambda>stored. Inr (ex, stored)))))"

definition ValidateStored :: "string \<Rightarrow> string \<Rightarrow> go_err option" where
  "ValidateStored exchange stored =
     (let ex = to_upper (trim_space exchange) in
      if ex \<noteq> ''NSE'' \<and> ex \<noteq> ''BSE'' then Some (Errorf ''exchange must be NSE or BSE'')
      else
        (let raw = trim_space stored in
         if raw = [] then None
         else if contains raw '','' then
           (case NormalizeList (Parse raw) of Inl e \<Rightarrow> Some e | Inr _ \<Rightarrow> None)
         else (let p = to_upper raw in
               if p \<notin> set valid_products then Some product_error else None)))"

definition ResolveOrderProduct :: "string \<Rightarrow> string \<Rightarrow> go_err + string" where
  "ResolveOrderProduct stored signalProduct =
     (let allowed = Parse stored in
      if allowed = [] then Inr ''MIS''
      else
        (let sig = to_upper (trim_space signalProduct) in
         if sig \<noteq> [] then
           (if sig \<in> set allowed then Inr sig
            else Inl (Errorf (''product '' @ fmt_q sig @ '' is not enabled on this broker account (allowed: ''
                   @ join_with '', '' allowed @ '')'')))
         else
           (case allowed of
              [p] \<Rightarrow> Inr p
            | _ \<Rightarrow> Inl (Errorf ''product is required in the signal when multiple products are enabled on the broker account''))))"

subsection \<open>Canonical lists\<close>

definition canonical :: "string list \<Rightarrow> bool" where
  "canonical ps \<longleftrightarrow> set ps \<subseteq> set valid_products \<and> distinct ps \<and> sorted (map canonicalIndex ps)"

lemma canonicalIndex_inj: "inj_on canonicalIndex (set valid_products)"
  by (auto simp: inj_on_def valid_products_def canonicalIndex_def)

lemma canonical_sort: "set ps \<subseteq> set valid_products \<Longrightarrow> distinct ps \<Longrightarrow> canonical (sortByCanonical ps)"
  by (simp add: canonical_def sortByCanonical_def distinct_sort)

lemma canonical_fix: "canonical ps \<Longrightarrow> sortByCanonical ps = ps"
  by (simp add: canonical_def sortByCanonical_def sorted_sort_id sort_key_id_if_sorted)

lemma canonical_unique:
  assumes "canonical ps" "canonical qs" "set ps = set qs"
  shows "ps = qs"
proof -
  have "inj_on canonicalIndex (set ps)" using assms(1) canonicalIndex_inj inj_on_subset
    unfolding canonical_def by metis
  moreover have "distinct (map canonicalIndex ps)" "distinct (map canonicalIndex qs)"
    using assms calculation by (auto simp: canonical_def distinct_map)
  then have "map canonicalIndex ps = map canonicalIndex qs"
    using assms by (intro sorted_distinct_set_unique) (auto simp: canonical_def)
  ultimately show ?thesis using assms(3) by (metis Un_absorb map_inj_on)
qed

lemma valid_product_shape:
  "p \<in> set valid_products \<Longrightarrow> to_upper (trim_space p) = p \<and> trim_space p = p \<and> p \<noteq> [] \<and> CHR '','' \<notin> set p"
  by (auto simp: valid_products_def) code_simp+

lemma nil_invalid [simp]: "[] \<notin> set valid_products"
  by (simp add: valid_products_def)

lemma valid_image:
  assumes "set ps \<subseteq> set valid_products"
  shows "{to_upper (trim_space x) | x. x \<in> set ps} = set ps"
    "{to_upper (trim_space x) | x. x \<in> set ps \<and> trim_space x \<noteq> []} = set ps"
proof -
  have *: "to_upper (trim_space x) = x" "trim_space x \<noteq> []" if "x \<in> set ps" for x
    using that assms valid_product_shape by (metis subsetD)+
  have f: "(\<lambda>x. to_upper (trim_space x)) ` set ps = set ps" using * by simp
  then show "{to_upper (trim_space x) | x. x \<in> set ps} = set ps" by (simp add: Setcompr_eq_image)
  have "{x \<in> set ps. trim_space x \<noteq> []} = set ps" using * by blast
  then show "{to_upper (trim_space x) | x. x \<in> set ps \<and> trim_space x \<noteq> []} = set ps"
    using f by (simp add: setcompr_eq_image)
qed

lemma contains_char: "contains (a @ c # b) [c]"
  using contains_mid [of a "[c]" b] by simp

lemma parse_parts_set:
  "set (parse_parts seen xs) = {to_upper (trim_space x) | x. x \<in> set xs} \<inter> set valid_products - set seen"
  by (induction seen xs rule: parse_parts.induct)
    (auto simp: Let_def)

lemma parse_parts_distinct: "distinct (parse_parts seen xs)"
  by (induction seen xs rule: parse_parts.induct) (auto simp: Let_def parse_parts_set)

lemma Parse_canonical: "canonical (Parse stored)"
  by (auto simp: Parse_def Let_def parse_parts_set parse_parts_distinct intro!: canonical_sort)
    (simp add: canonical_def)

lemma normalize_parts_Inr:
  "normalize_parts seen xs = Inr out \<Longrightarrow>
     set out = {to_upper (trim_space x) | x. x \<in> set xs \<and> trim_space x \<noteq> []} - set seen \<and> distinct out \<and>
     set out \<subseteq> set valid_products"
proof (induction seen xs arbitrary: out rule: normalize_parts.induct)
  case (2 seen raw rest)
  let ?p = "to_upper (trim_space raw)"
  let ?S = "\<lambda>xs. {to_upper (trim_space x) | x. x \<in> set xs \<and> trim_space x \<noteq> []}"
  have S: "?S (raw # rest) = (if ?p = [] then ?S rest else insert ?p (?S rest))" by auto
  consider (blank) "?p = []" "normalize_parts seen rest = Inr out"
    | (seen) "?p \<noteq> []" "?p \<in> set seen" "?p \<in> set valid_products" "normalize_parts seen rest = Inr out"
    | (new) ps where "?p \<noteq> []" "?p \<notin> set seen" "?p \<in> set valid_products"
        "normalize_parts (?p # seen) rest = Inr ps" "out = ?p # ps"
    using "2.prems" by (auto simp: Let_def ebind_Inr_iff split: if_splits)
  then show ?case
  proof cases
    case blank
    then show ?thesis unfolding S if_P [OF blank(1)] by (intro "2.IH"(1) [OF refl blank])
  next
    case seen
    then show ?thesis using "2.IH"(2) [OF refl _ _ _ seen(4)] unfolding S by auto
  next
    case new
    then show ?thesis using "2.IH"(3) [OF refl _ _ _ new(4)] unfolding S by auto
  qed
qed simp

lemma normalize_parts_ok:
  "\<forall>x \<in> set xs. trim_space x = [] \<or> to_upper (trim_space x) \<in> set valid_products \<Longrightarrow>
     \<exists>out. normalize_parts seen xs = Inr out"
  by (induction seen xs rule: normalize_parts.induct) (auto simp: Let_def)

lemma NormalizeList_Inr:
  assumes "NormalizeList products = Inr out"
  shows "canonical out \<and> out \<noteq> []"
proof (cases "products = []")
  case True
  then show ?thesis using assms by (auto simp: NormalizeList_def canonical_def valid_products_def)
next
  case False
  then obtain ps where "normalize_parts [] products = Inr ps" "ps \<noteq> []" "out = sortByCanonical ps"
    using assms by (auto simp: NormalizeList_def ebind_Inr_iff split: if_splits)
  then show ?thesis using normalize_parts_Inr [of "[]" products ps] canonical_sort [of ps]
    by (auto simp: sortByCanonical_def) (metis set_sort set_empty)
qed

lemma NormalizeList_fix:
  assumes "canonical ps" "ps \<noteq> []"
  shows "NormalizeList ps = Inr ps"
proof -
  have v: "set ps \<subseteq> set valid_products" "distinct ps" using assms(1) by (auto simp: canonical_def)
  then obtain out where out: "normalize_parts [] ps = Inr out"
    using normalize_parts_ok [of ps "[]"] valid_product_shape by (metis subsetD)
  note valid_image(2) [OF v(1)]
  then have "set out = set ps" "distinct out" "set out \<subseteq> set valid_products"
    using normalize_parts_Inr [OF out] by auto
  then have "sortByCanonical out = ps"
    using canonical_unique [OF canonical_sort [of out] assms(1)] by (simp add: sortByCanonical_def)
  then show ?thesis using assms(2) out \<open>set out = set ps\<close> by (auto simp: NormalizeList_def)
qed

lemma trim_join:
  assumes "set ps \<subseteq> set valid_products"
  shows "trim_space (join_with '','' ps) = join_with '','' ps"
proof -
  have ns: "\<forall>c \<in> set p. \<not> is_space c" if "p \<in> set valid_products" for p
    using that by (auto simp: valid_products_def is_space_def)
  have "\<forall>c \<in> set (join_with '','' ps). \<not> is_space c"
    using assms by (induction "'',''" ps rule: join_with.induct) (auto dest: ns simp: is_space_def)
  then have "dropWhile is_space (join_with '','' ps) = join_with '','' ps"
    "dropWhile is_space (rev (join_with '','' ps)) = rev (join_with '','' ps)"
    by (intro dropWhile_fix; auto simp: list.set_sel(1) hd_rev)+
  then show ?thesis by (simp add: trim_space_def)
qed

lemma Parse_join:
  assumes "canonical ps" "ps \<noteq> []"
  shows "Parse (join_with '','' ps) = ps"
proof -
  have v: "set ps \<subseteq> set valid_products" "distinct ps" using assms(1) by (auto simp: canonical_def)
  have ne: "join_with '','' ps \<noteq> []"
    using assms(2) v(1) by (cases ps; cases "tl ps") (auto simp: valid_products_def)
  have "split_on CHR '','' (join_with '','' ps) = ps"
    using split_join [OF assms(2)] v(1) valid_product_shape by (auto simp: subset_iff)
  then have p: "Parse (join_with '','' ps) = sortByCanonical (parse_parts [] ps)"
    using ne by (simp add: Parse_def trim_join [OF v(1)])
  have "set (parse_parts [] ps) = set ps"
    using v(1) by (auto simp: parse_parts_set valid_image(1) [OF v(1)])
  then show ?thesis unfolding p
    using canonical_unique [OF Parse_canonical assms(1), of "join_with '','' ps"]
    by (simp add: p sortByCanonical_def)
qed

text \<open>
  What a product list is stored as reads back as the normalised list, in canonical order, for
  every list the serialiser accepts, and what is stored passes the validation of stored fields.
\<close>

theorem products_roundtrip:
  assumes "Serialize products = Inr stored" "ex = ''NSE'' \<or> ex = ''BSE''"
  shows "NormalizeList products = Inr (Parse stored) \<and> Parse stored \<noteq> [] \<and> canonical (Parse stored)
    \<and> ValidateStored ex stored = None \<and> Default stored = hd (Parse stored)"
proof -
  obtain ps where ps: "NormalizeList products = Inr ps" "canonical ps" "ps \<noteq> []" "stored = join_with '','' ps"
    using assms(1) NormalizeList_Inr by (auto simp: Serialize_def ebind_Inr_iff split: if_splits)
  have p: "Parse stored = ps" using Parse_join ps by simp
  have v: "set ps \<subseteq> set valid_products" using ps(2) by (simp add: canonical_def)
  have ex: "to_upper (trim_space ex) = ex"
    using assms(2) by (elim disjE; hypsubst; code_simp)
  have t: "trim_space stored = stored" using trim_join [OF v] ps(4) by simp
  have "ValidateStored ex stored = None"
  proof (cases "contains stored '',''")
    case True
    moreover have "stored \<noteq> []" using True by auto
    ultimately show ?thesis using assms(2) p t NormalizeList_fix [OF ps(2,3)] ex
      by (simp add: ValidateStored_def)
  next
    case False
    then obtain q where "ps = [q]" using ps(3,4) by (cases ps; cases "tl ps") (auto simp: contains_char)
    then have "stored \<in> set valid_products" using ps(4) v by simp
    moreover from this have "to_upper stored = stored" using valid_product_shape [of stored] by metis
    ultimately show ?thesis using assms(2) t valid_product_shape [of stored] False ex
      by (simp add: ValidateStored_def)
  qed
  then show ?thesis using p ps by (auto simp: Default_def split: list.splits)
qed

theorem products_roundtrip_witness:
  "Serialize [''nrml'', '' MIS'', ''NRML''] = Inr ''MIS,NRML'' \<and> Parse ''MIS,NRML'' = [''MIS'', ''NRML'']"
proof -
  have s: "Serialize [''nrml'', '' MIS'', ''NRML''] = Inr ''MIS,NRML''"
    "NormalizeList [''nrml'', '' MIS'', ''NRML''] = Inr [''MIS'', ''NRML'']" by code_simp+
  then show ?thesis using products_roundtrip [OF s(1), of "''NSE''"] by simp
qed

text \<open>
  The product an order is placed with is one the credential enables, whatever the signal asks for:
  the signal's own product when it names one, the only product when it names none, and intraday for
  a credential that stores none. A signal is refused exactly when it names a product that is not
  enabled, or names none where there are several.
\<close>

theorem order_product:
  fixes stored sp
  defines "allowed \<equiv> Parse stored" and "sig \<equiv> to_upper (trim_space sp)"
  shows "(\<forall>p. ResolveOrderProduct stored sp = Inr p \<longleftrightarrow>
            (allowed = [] \<and> p = ''MIS'' \<or> p \<in> set allowed \<and> (p = sig \<or> sig = [] \<and> allowed = [p])))
    \<and> ((\<exists>e. ResolveOrderProduct stored sp = Inl e) \<longleftrightarrow>
         allowed \<noteq> [] \<and> (if sig = [] then 1 < length allowed else sig \<notin> set allowed))"
proof -
  have "set allowed \<subseteq> set valid_products" using Parse_canonical [of stored] by (simp add: allowed_def canonical_def)
  then have "[] \<notin> set allowed" using nil_invalid by blast
  then show ?thesis
    by (cases allowed rule: list.exhaust; cases "tl allowed")
      (auto simp: ResolveOrderProduct_def Let_def simp flip: allowed_def sig_def)
qed

end
