(* ===== verification/Sizing.thy ===== *)
theory Sizing
  imports Guard CredentialProduct Plan
begin

section \<open>Sizing an order and mapping it to a broker\<close>

text \<open>
  Models \<^verbatim>\<open>internal/risk\<close> (the size of a position from the equity at risk),
  \<^verbatim>\<open>internal/integrations/brokers/maporder\<close> (the request a broker gets) and \<^verbatim>\<open>internal/algo\<close> (the
  algo tag of a live order at an Indian broker).
\<close>

subsection \<open>Risk-based sizing\<close>

definition DefaultMaxRiskPct :: f64 where "DefaultMaxRiskPct = 1"
definition MinMaxRiskPct :: f64 where "MinMaxRiskPct = fround (1 / 100)"
definition MaxMaxRiskPct :: f64 where "MaxMaxRiskPct = Fin 100"
definition MinLotSize :: f64 where "MinLotSize = fround (1 / 100)"
definition MinShares :: f64 where "MinShares = 1"

definition MinQtyForBroker :: "string \<Rightarrow> f64" where
  "MinQtyForBroker brokerType =
     (if brokerType = ''zerodha'' \<or> brokerType = ''angel'' \<or> brokerType = ''dhan'' then MinShares else MinLotSize)"

definition ErrInvalidMaxRiskPct :: go_err where
  "ErrInvalidMaxRiskPct = Sentinel ''max_risk_pct must be between 0.01 and 100''"
definition ErrInvalidSLPoints :: go_err where
  "ErrInvalidSLPoints = Sentinel ''sl_points must be positive for risk-based sizing''"

definition ValidateMaxRiskPct :: "f64 \<Rightarrow> go_err option" where
  "ValidateMaxRiskPct v = (if v < MinMaxRiskPct \<or> MaxMaxRiskPct < v then Some ErrInvalidMaxRiskPct else None)"

definition NormalizeMaxRiskPct :: "f64 \<Rightarrow> f64" where
  "NormalizeMaxRiskPct v = (if v \<le> 0 then DefaultMaxRiskPct else v)"

definition CalcLotSize :: "f64 \<Rightarrow> f64 \<Rightarrow> int \<Rightarrow> string \<Rightarrow> go_err + f64" where
  "CalcLotSize equity maxRiskPct slPts brokerType =
     (if maxRiskPct \<le> 0 then Inr 0
      else if slPts \<le> 0 then Inl ErrInvalidSLPoints
      else
        (let riskAmount = equity * (maxRiskPct / Fin 100) in
         if brokerType = ''mt5_cloud'' \<or> brokerType = ''mock'' then
           (let lots = riskAmount / (f64_of_int slPts * Fin 10);
                lots = ffloor (lots * Fin 100) / Fin 100
            in Inr (if lots < MinLotSize then MinLotSize else lots))
         else
           (let shares = riskAmount / f64_of_int slPts;
                lots = ffloor shares
            in Inr (if lots < MinShares then MinShares else lots))))"

text \<open>\<^verbatim>\<open>ResolveLot\<close> returns a lot beside its error; callers look at the error first.\<close>

definition ResolveLot :: "f64 \<Rightarrow> f64 \<Rightarrow> f64 \<Rightarrow> f64 \<Rightarrow> int \<Rightarrow> string \<Rightarrow> go_err + f64" where
  "ResolveLot signalLot fixedLot equity maxRiskPct slPts brokerType =
     (if 0 < fixedLot then Inr fixedLot
      else if 0 < signalLot then Inr signalLot
      else
        (let fallback = Inl (Errorf ''could not resolve lot size'') in
         if 0 < maxRiskPct \<and> 0 < equity then
           (case CalcLotSize equity maxRiskPct slPts brokerType of
              Inl e \<Rightarrow> Inl e
            | Inr calculated \<Rightarrow> if 0 < calculated then Inr calculated else fallback)
         else fallback))"

text \<open>
  A position sized in shares is a whole number of shares, at least one, and above that minimum
  the loss at the stop does not exceed the equity at risk by more than the rounding of one division,
  a relative error of 2 to the power of minus 53 (\<^const>\<open>u64\<close>).
\<close>

theorem shares_within_risk:
  assumes "0 < pct" "0 < sl" "sl < 2 ^ 53" "bt \<noteq> ''mt5_cloud''" "bt \<noteq> ''mock''"
    and "equity * (pct / Fin 100) = Fin r" "\<bar>r\<bar> \<le> 10 ^ 40"
  shows "\<exists>n. CalcLotSize equity pct sl bt = Inr (Fin (of_int n)) \<and> 1 \<le> n
     \<and> (1 < n \<longrightarrow> of_int n * of_int sl \<le> r * (1 + u64))"
proof -
  define q where "q = rnd (r / of_int sl)"
  have p: "\<not> pct \<le> 0" using assms(1) by (cases pct) (auto simp: f64_op_defs fle_def feq_def)
  have sl: "f64_of_int sl = Fin (of_int sl)" "(1 :: rat) \<le> of_int sl"
    using assms(2,3) by (simp_all add: f64_of_int_exact)
  have "\<bar>r\<bar> * 1 \<le> \<bar>r\<bar> * of_int sl" using sl(2) by (intro mult_left_mono) auto
  then have "\<bar>r / of_int sl\<bar> \<le> \<bar>r\<bar>" using sl(2) by (simp add: divide_le_eq)
  then have "fround (r / of_int sl) = Fin q" using fround_small [of "r / of_int sl"] assms(7) by (simp add: q_def)
  then have c: "CalcLotSize equity pct sl bt = Inr (if \<lfloor>q\<rfloor> < 1 then Fin 1 else Fin (of_int \<lfloor>q\<rfloor>))"
    using p assms(2,4-6) sl by (simp add: CalcLotSize_def MinShares_def Let_def)
  have "of_int \<lfloor>q\<rfloor> * of_int sl \<le> r * (1 + u64)" if "1 < \<lfloor>q\<rfloor>"
  proof -
    have q: "1 < q" using that by linarith
    then have "1 < r / of_int sl" using rnd_mono [of "r / of_int sl" 1] is_double_rnd [OF is_double_1]
      unfolding q_def by (metis linorder_not_less)
    then have "1 / 10 ^ 40 \<le> r / of_int sl" by (rule order_trans [rotated, OF less_imp_le]) simp
    from rnd_rel [OF this] have "q \<le> (1 + u64) * (r / of_int sl)" unfolding q_def by blast
    moreover have "of_int \<lfloor>q\<rfloor> \<le> q" by simp
    ultimately have "of_int \<lfloor>q\<rfloor> * of_int sl \<le> (1 + u64) * (r / of_int sl) * of_int sl"
      using sl(2) by (intro mult_right_mono) linarith+
    then show ?thesis using sl(2) by (simp add: mult.commute)
  qed
  then show ?thesis using c by (cases "\<lfloor>q\<rfloor> < 1") (auto intro: exI [of _ 1])
qed

theorem shares_within_risk_witness:
  "\<exists>n. CalcLotSize (Fin 100000) 1 7 ''zerodha'' = Inr (Fin (of_int n)) \<and> 1 \<le> n
     \<and> (1 < n \<longrightarrow> of_int n * 7 \<le> 1000 * (1 + u64))"
proof -
  have "Fin 100000 * (1 / Fin 100) = Fin 1000" by code_simp
  then show ?thesis using shares_within_risk [of 1 7 "''zerodha''" "Fin 100000" 1000] by simp
qed

subsection \<open>The request a broker gets\<close>

definition indianBrokers :: "string list" where
  "indianBrokers = [''zerodha'', ''angel'', ''dhan'']"

definition forexSymbols :: "string list" where
  "forexSymbols = [''EURUSD'', ''GBPUSD'', ''USDJPY'', ''USDCHF'', ''AUDUSD'', ''USDCAD'', ''NZDUSD'',
     ''EURGBP'', ''EURJPY'', ''GBPJPY'', ''XAUUSD'', ''XAGUSD'']"

text \<open>
  \<^verbatim>\<open>int(x)\<close> of a double: towards zero. What it gives out of the range of an \<^verbatim>\<open>int\<close> is left to
  the implementation; on amd64 it is the least \<^verbatim>\<open>int\<close>.
\<close>

definition int_of_f64 :: "f64 \<Rightarrow> int" where
  "int_of_f64 x = (case x of
     Fin a \<Rightarrow> (let n = (if 0 \<le> a then \<lfloor>a\<rfloor> else - \<lfloor>- a\<rfloor>) in if in_int64 n then n else - (2 ^ 63))
   | _ \<Rightarrow> - (2 ^ 63))"

definition broker_error :: "string \<Rightarrow> go_err" where
  "broker_error code = BrokerNew code (PublicMessage code)"

definition validateSymbolForBroker :: "string \<Rightarrow> string \<Rightarrow> go_err option" where
  "validateSymbolForBroker brokerType symbol =
     (if brokerType = ''mt5_cloud'' then None
      else if brokerType \<notin> set indianBrokers then None
      else if to_upper symbol \<in> set forexSymbols then Some (broker_error CodeInvalidSymbol)
      else None)"

definition base_place_request :: "broker_credential \<Rightarrow> trade_params \<Rightarrow> place_request" where
  "base_place_request cred params =
     \<lparr> pr_Action = [], pr_Symbol = trim_space (tp_Symbol params), pr_Exchange = [], pr_Product = [],
       pr_Quantity = 0, pr_QuantityUnit = [], pr_SLPoints = tp_SLPts params,
       pr_TPPoints = tp_TPPts params, pr_Comment = [], pr_AlgoID = [],
       pr_OrderType = (if 0 < tp_SLPts params \<or> 0 < tp_TPPts params then OrderBracket else OrderMarket),
       pr_BrokerType = bc_BrokerType cred, pr_EntryExecType = [], pr_MarketProtection = 0,
       pr_Price = tp_Price params \<rparr>"

definition share_quantity :: "f64 \<Rightarrow> int" where
  "share_quantity lot = (let shares = int_of_f64 (fmath_round lot) in if shares < 1 then 1 else shares)"

definition build_indian ::
  "string \<Rightarrow> broker_credential \<Rightarrow> trade_params \<Rightarrow> f64 \<Rightarrow> place_request \<Rightarrow> go_err + place_request" where
  "build_indian defaultOrderType cred params lot req =
     (let ex = trim_space (bc_Exchange cred) in
      if ex = [] then
        Inl (BrokerNew CodeInvalidCredentials ''exchange must be configured on credential (NSE or BSE)'')
      else
        (let ex = to_upper ex in
         if ex \<noteq> ''NSE'' \<and> ex \<noteq> ''BSE'' then
           Inl (BrokerNew CodeInvalidCredentials ''exchange must be NSE or BSE'')
         else
           (case ResolveOrderProduct (bc_Product cred) (tp_Product params) of
              Inl e \<Rightarrow> Inl (BrokerNew CodeInvalidCredentials (err_text e))
            | Inr product \<Rightarrow>
                (if pr_OrderType req = OrderBracket \<and> product \<noteq> ''MIS'' then
                   Inl (broker_error CodeBracketNotSupported)
                 else
                   (let execType = to_upper (trim_space defaultOrderType);
                        execType = (if execType = [] then ''LIMIT'' else execType)
                    in if execType \<noteq> ''MARKET'' \<and> execType \<noteq> ''LIMIT'' then
                         Inl (BrokerNew CodeInternal ''order type must be MARKET or LIMIT'')
                       else
                         Inr (req\<lparr>pr_Exchange := ex, pr_Product := product,
                                  pr_Quantity := f64_of_int (share_quantity lot),
                                  pr_QuantityUnit := QuantityShares, pr_EntryExecType := execType,
                                  pr_MarketProtection := bc_MarketProtection cred\<rparr>))))))"

definition Build ::
  "string \<Rightarrow> broker_credential option \<Rightarrow> trade_params \<Rightarrow> f64 \<Rightarrow> go_err + place_request" where
  "Build defaultOrderType cred params lot =
     (case cred of
        None \<Rightarrow> Inl (broker_error CodeInternal)
      | Some cred \<Rightarrow>
         (let symbol = trim_space (tp_Symbol params) in
          if symbol = [] then Inl (broker_error CodeInvalidSymbol)
          else case validateSymbolForBroker (bc_BrokerType cred) symbol of
            Some e \<Rightarrow> Inl e
          | None \<Rightarrow>
             (let req = base_place_request cred params in
              if bc_BrokerType cred = ''mt5_cloud'' then
                Inr (req\<lparr>pr_Quantity := lot, pr_QuantityUnit := QuantityLots\<rparr>)
              else if bc_BrokerType cred \<in> set indianBrokers then
                build_indian defaultOrderType cred params lot req
              else Inl (BrokerNew CodeInvalidCredentials
                          (''unsupported broker_type '' @ fmt_q (bc_BrokerType cred))))))"

definition WithAction :: "place_request option \<Rightarrow> string \<Rightarrow> place_request option" where
  "WithAction req action = map_option (\<lambda>r. r\<lparr>pr_Action := action\<rparr>) req"

lemma ResolveOrderProduct_enabled:
  "ResolveOrderProduct stored sp = Inr p \<Longrightarrow> p = ''MIS'' \<or> p \<in> set (Parse stored)"
  by (auto simp: ResolveOrderProduct_def Let_def split: if_splits list.splits)

lemma share_quantity_pos: "1 \<le> share_quantity lot"
  by (simp add: share_quantity_def Let_def)

lemma half_away_error: "\<bar>of_int (half_away a) - a\<bar> \<le> 1 / 2"
proof (cases "0 \<le> a")
  case True
  have "of_int \<lfloor>a + 1/2\<rfloor> \<le> a + 1/2" "a + 1/2 < of_int \<lfloor>a + 1/2\<rfloor> + 1" by linarith+
  with True show ?thesis unfolding half_away_def by (simp only: if_True abs_le_iff) linarith
next
  case False
  have "of_int \<lfloor>1/2 - a\<rfloor> \<le> 1/2 - a" "1/2 - a < of_int \<lfloor>1/2 - a\<rfloor> + 1" by linarith+
  with False show ?thesis unfolding half_away_def by (simp only: if_False abs_le_iff of_int_minus) linarith
qed

lemma share_quantity_near:
  assumes "1 \<le> a" "a < 2 ^ 52"
  shows "\<bar>of_int (share_quantity (Fin a)) - a\<bar> \<le> 1 / 2"
proof -
  define n where "n = half_away a"
  have n: "\<bar>of_int n - a\<bar> \<le> 1 / 2" unfolding n_def by (rule half_away_error)
  then have *: "of_int n \<le> a + 1 / 2" "a - 1 / 2 \<le> of_int n" by (simp_all only: abs_le_iff) linarith+
  have "(2 :: rat) ^ 52 + 1 / 2 < of_int (2 ^ 53)" by simp
  with * assms have "of_int n < (of_int (2 ^ 53) :: rat)" "(of_int 0 :: rat) < of_int n" by linarith+
  then have "1 \<le> n" "n < 2 ^ 53" unfolding of_int_less_iff by simp_all
  then have "share_quantity (Fin a) = n"
    by (simp add: share_quantity_def int_of_f64_def in_int64_def flip: n_def)
  with n show ?thesis by simp
qed

text \<open>
  What reaches an Indian broker is well formed whatever the webhook, the credential and the
  signal say: a whole number of shares, at least one, the exchange NSE or BSE, a product the
  credential enables (or the default), intraday for a bracket order, a plain market or limit entry,
  and a symbol that is not a currency pair.
\<close>

theorem build_well_formed:
  assumes "Build ot (Some cred) params lot = Inr req" "bc_BrokerType cred \<in> set indianBrokers"
  shows "pr_Quantity req = f64_of_int (share_quantity lot) \<and> 1 \<le> share_quantity lot
     \<and> pr_QuantityUnit req = QuantityShares \<and> pr_Exchange req \<in> {''NSE'', ''BSE''}
     \<and> (pr_Product req = ''MIS'' \<or> pr_Product req \<in> set (Parse (bc_Product cred)))
     \<and> (pr_OrderType req = OrderBracket \<longrightarrow> pr_Product req = ''MIS'')
     \<and> (pr_OrderType req = OrderBracket \<longleftrightarrow> 0 < pr_SLPoints req \<or> 0 < pr_TPPoints req)
     \<and> pr_EntryExecType req \<in> {''MARKET'', ''LIMIT''}
     \<and> pr_Symbol req \<noteq> [] \<and> to_upper (pr_Symbol req) \<notin> set forexSymbols"
proof -
  let ?base = "base_place_request cred params"
  have ib: "bc_BrokerType cred \<noteq> ''mt5_cloud''" using assms(2) by (auto simp: indianBrokers_def)
  have sym: "trim_space (tp_Symbol params) \<noteq> []" "to_upper (trim_space (tp_Symbol params)) \<notin> set forexSymbols"
    and b: "build_indian ot cred params lot ?base = Inr req"
    using assms ib by (auto simp: Build_def Let_def validateSymbolForBroker_def split: if_splits option.splits)
  have base: "pr_Symbol ?base = trim_space (tp_Symbol params)" "pr_SLPoints ?base = tp_SLPts params"
    "pr_TPPoints ?base = tp_TPPts params"
    "pr_OrderType ?base = OrderBracket \<longleftrightarrow> 0 < tp_SLPts params \<or> 0 < tp_TPPts params"
    by (auto simp: base_place_request_def OrderBracket_def OrderMarket_def)
  obtain p where "ResolveOrderProduct (bc_Product cred) (tp_Product params) = Inr p"
    "pr_OrderType ?base = OrderBracket \<longrightarrow> p = ''MIS''"
    and ex: "to_upper (trim_space (bc_Exchange cred)) \<in> {''NSE'', ''BSE''}"
    and t: "(if to_upper (trim_space ot) = [] then ''LIMIT'' else to_upper (trim_space ot)) \<in> {''MARKET'', ''LIMIT''}"
    and req: "req = ?base\<lparr>pr_Exchange := to_upper (trim_space (bc_Exchange cred)), pr_Product := p,
        pr_Quantity := f64_of_int (share_quantity lot), pr_QuantityUnit := QuantityShares,
        pr_EntryExecType := (if to_upper (trim_space ot) = [] then ''LIMIT'' else to_upper (trim_space ot)),
        pr_MarketProtection := bc_MarketProtection cred\<rparr>"
    using b by (auto simp: build_indian_def Let_def split: if_splits sum.splits)
  then show ?thesis using base sym share_quantity_pos ResolveOrderProduct_enabled by auto
qed

definition sample_cred :: "string \<Rightarrow> broker_credential" where
  "sample_cred bt = \<lparr> bc_ID = ''c1'', bc_UserID = ''u'', bc_OrgID = None, bc_CreatedBy = ''u'',
     bc_BrokerType = bt, bc_ExecutionMode = [], bc_EncryptedCreds = [], bc_AccountLabel = [],
     bc_AccountMode = ''live'', bc_Exchange = ''nse'', bc_Product = ''MIS,CNC'', bc_AlgoID = [],
     bc_OrderType = [], bc_MarketProtection = 0, bc_ConnectedAt = None, bc_Status = [],
     bc_AutoPaused = False, bc_AdminDisabled = False \<rparr>"

definition sample_params :: trade_params where
  "sample_params = \<lparr> tp_Symbol = ''INFY'', tp_Lot = 0, tp_SLPts = 5, tp_TPPts = 0, tp_Price = 0, tp_Product = ''mis'' \<rparr>"

theorem build_well_formed_witness:
  "\<exists>req. Build ''MARKET'' (Some (sample_cred ''zerodha'')) sample_params (Fin (5/2)) = Inr req
     \<and> pr_OrderType req = OrderBracket \<and> pr_Product req = ''MIS'' \<and> pr_QuantityUnit req = QuantityShares"
proof -
  have "\<not> isl (Build ''MARKET'' (Some (sample_cred ''zerodha'')) sample_params (Fin (5/2)))" by code_simp
  then obtain req where r: "Build ''MARKET'' (Some (sample_cred ''zerodha'')) sample_params (Fin (5/2)) = Inr req"
    by (cases "Build ''MARKET'' (Some (sample_cred ''zerodha'')) sample_params (Fin (5/2))") auto
  have "bc_BrokerType (sample_cred ''zerodha'') \<in> set indianBrokers"
    by (simp add: sample_cred_def indianBrokers_def)
  note w = build_well_formed [OF r this]
  have "pr_SLPoints req = 5" using r
    by (auto simp: Build_def Let_def build_indian_def base_place_request_def sample_params_def
        sample_cred_def indianBrokers_def split: if_splits option.splits sum.splits)
  with w r show ?thesis by auto
qed

text \<open>
  Rounding to whole shares comes after the cap on the lot: a lot the cap lets through is placed
  as at most half a share more than the cap, and the half share is reached.
\<close>

theorem lot_cap_in_shares:
  assumes "ApplyMaxLotSize (Fin m) (Fin a) = Inr (Fin a')" "1 \<le> m" "1 \<le> a" "a < 2 ^ 52"
  shows "of_int (share_quantity (Fin a')) \<le> m + 1 / 2
     \<and> (\<exists>m a. ApplyMaxLotSize (Fin m) (Fin a) = Inr (Fin a) \<and> of_int (share_quantity (Fin a)) = m + 1 / 2)"
proof
  have "a' = a" "a \<le> m" using assms(1,2) by (auto simp: ApplyMaxLotSize_def split: if_splits)
  then show "of_int (share_quantity (Fin a')) \<le> m + 1 / 2"
    using share_quantity_near [OF assms(3,4)] by (simp only: abs_le_iff) linarith
  have "half_away (5 / 2) = 3" by code_simp
  then have "ApplyMaxLotSize (Fin (5 / 2)) (Fin (5 / 2)) = Inr (Fin (5 / 2))
      \<and> (of_int (share_quantity (Fin (5 / 2))) :: rat) = 5 / 2 + 1 / 2"
    by (simp add: ApplyMaxLotSize_def share_quantity_def int_of_f64_def in_int64_def)
  then show "\<exists>m a. ApplyMaxLotSize (Fin m) (Fin a) = Inr (Fin a) \<and> of_int (share_quantity (Fin a)) = m + 1 / 2"
    by blast
qed

theorem lot_cap_in_shares_witness:
  "(of_int (share_quantity (Fin 7)) :: rat) \<le> 10 + 1 / 2"
proof -
  have "ApplyMaxLotSize (Fin 10) (Fin 7) = Inr (Fin 7)" by (simp add: ApplyMaxLotSize_def)
  from lot_cap_in_shares [OF this] show ?thesis by simp
qed

subsection \<open>The algo tag of a live order\<close>

record policy =
  Required :: bool
  FallbackZerodha :: string
  FallbackAngel :: string
  FallbackDhan :: string

definition maxTagLenDefault :: nat where "maxTagLenDefault = 20"
definition maxTagLenDhan :: nat where "maxTagLenDhan = 30"

definition IsIndianBroker :: "string \<Rightarrow> bool" where
  "IsIndianBroker brokerType =
     (let b = to_lower (trim_space brokerType) in b = ''zerodha'' \<or> b = ''angel'' \<or> b = ''dhan'')"

definition IsPublisherCredential :: "broker_credential option \<Rightarrow> bool" where
  "IsPublisherCredential cred =
     (case cred of None \<Rightarrow> False | Some c \<Rightarrow> bc_ExecutionMode c = ExecutionModePublisher)"

definition ModeLive :: string where "ModeLive = ''live''"
definition ModeMock :: string where "ModeMock = ''mock''"

definition NeedsLiveTag :: "string \<Rightarrow> string \<Rightarrow> bool" where
  "NeedsLiveTag route_mode brokerType = (if route_mode \<noteq> ModeLive then False else IsIndianBroker brokerType)"

definition brokerMaxTagLen :: "string \<Rightarrow> nat" where
  "brokerMaxTagLen brokerType = (if equal_fold (trim_space brokerType) ''dhan'' then maxTagLenDhan else maxTagLenDefault)"

definition validateForBroker :: "string \<Rightarrow> string \<Rightarrow> go_err option" where
  "validateForBroker rid brokerType =
     (let rid = trim_space rid in
      if rid = [] then None
      else if brokerMaxTagLen brokerType < length rid then
        Some (BrokerNew CodeInvalidCredentials ''algo_id exceeds maximum length for this broker'')
      else if \<exists>c \<in> set rid. \<not> is_letter c \<and> \<not> is_digit c then
        Some (BrokerNew CodeInvalidCredentials ''algo_id must be alphanumeric'')
      else None)"

definition ValidateAlgo :: "string \<Rightarrow> go_err option" where
  "ValidateAlgo rid = validateForBroker rid []"

definition fallbackFor :: "string \<Rightarrow> policy \<Rightarrow> string" where
  "fallbackFor brokerType p =
     (let b = to_lower (trim_space brokerType) in
      if b = ''zerodha'' then FallbackZerodha p
      else if b = ''angel'' then FallbackAngel p
      else if b = ''dhan'' then FallbackDhan p
      else [])"

definition resolve :: "broker_credential \<Rightarrow> policy \<Rightarrow> bool \<Rightarrow> go_err + string" where
  "resolve cred p required =
     (let rid = trim_space (bc_AlgoID cred);
          rid = (if rid = [] then trim_space (fallbackFor (bc_BrokerType cred) p) else rid)
      in if rid = [] then
           (if required then Inl (broker_error CodeAlgoIDRequired) else Inr [])
         else case validateForBroker rid (bc_BrokerType cred) of
                Some e \<Rightarrow> Inl e
              | None \<Rightarrow> Inr rid)"

definition ResolveForCredential :: "broker_credential option \<Rightarrow> policy \<Rightarrow> go_err + string" where
  "ResolveForCredential cred p =
     (case cred of
        None \<Rightarrow> Inr []
      | Some c \<Rightarrow>
          if \<not> IsIndianBroker (bc_BrokerType c) then Inr []
          else if IsPublisherCredential cred then Inr []
          else if \<not> equal_fold (trim_space (bc_AccountMode c)) AccountLive then Inr []
          else resolve c p (Required p))"

definition ResolveForExecution :: "broker_credential option \<Rightarrow> string \<Rightarrow> policy \<Rightarrow> go_err + string" where
  "ResolveForExecution cred route_mode p =
     (case cred of
        None \<Rightarrow> Inr []
      | Some c \<Rightarrow>
          if \<not> NeedsLiveTag route_mode (bc_BrokerType c) then Inr []
          else if IsPublisherCredential cred then Inr []
          else resolve c p (Required p))"

text \<open>
  A tag that goes out is trimmed, alphanumeric and within the broker's length, and where the
  policy requires one, no live order to an Indian broker outside the publisher goes out without it.
\<close>

theorem algo_tag:
  assumes "ResolveForExecution cred mode p = Inr rid"
  shows "(\<forall>x \<in> set rid. is_letter x \<or> is_digit x) \<and> trim_space rid = rid
     \<and> (\<forall>c. cred = Some c \<longrightarrow> length rid \<le> brokerMaxTagLen (bc_BrokerType c) \<and>
          (Required p \<and> NeedsLiveTag mode (bc_BrokerType c) \<and> bc_ExecutionMode c \<noteq> ExecutionModePublisher
             \<longrightarrow> rid \<noteq> []))"
proof -
  have "(\<forall>x \<in> set rid. is_letter x \<or> is_digit x) \<and> trim_space rid = rid
      \<and> length rid \<le> brokerMaxTagLen (bc_BrokerType c) \<and> (Required p \<longrightarrow> rid \<noteq> [])"
    if "resolve c p (Required p) = Inr rid" for c
    using that by (auto simp: resolve_def Let_def validateForBroker_def split: if_splits option.splits)
  then show ?thesis using assms
    by (auto simp: ResolveForExecution_def IsPublisherCredential_def split: option.splits if_splits)
qed

theorem algo_tag_witness:
  "\<exists>rid. ResolveForExecution (Some ((sample_cred ''zerodha'')\<lparr>bc_AlgoID := '' ALGO42 ''\<rparr>)) ModeLive
       \<lparr>Required = True, FallbackZerodha = [], FallbackAngel = [], FallbackDhan = []\<rparr> = Inr rid
     \<and> rid \<noteq> [] \<and> length rid \<le> 20"
proof -
  let ?c = "(sample_cred ''zerodha'')\<lparr>bc_AlgoID := '' ALGO42 ''\<rparr>"
  let ?p = "\<lparr>Required = True, FallbackZerodha = [], FallbackAngel = [], FallbackDhan = []\<rparr>"
  have "ResolveForExecution (Some ?c) ModeLive ?p = Inr ''ALGO42''"
    "brokerMaxTagLen ''zerodha'' = 20" "NeedsLiveTag ModeLive ''zerodha''" by code_simp+
  then show ?thesis using algo_tag [of "Some ?c" ModeLive ?p "''ALGO42''"]
    by (auto simp: sample_cred_def ExecutionModePublisher_def)
qed

end
