(* ===== verification/Credentials.thy ===== *)
theory Credentials
  imports BrokerErr
begin

section \<open>Broker credentials: their fields and their encryption at rest\<close>

text \<open>
  Models \<^verbatim>\<open>internal/brokercreds\<close>, the colon-separated fields of a broker's credentials, and
  \<^verbatim>\<open>internal/platform/crypto\<close>, the versioned blob they are stored as.

  AES-GCM and the source of nonces are parameters: \<open>seal key nonce plaintext ad\<close> and
  \<open>open_aead key nonce ciphertext ad\<close>. So is base64, \<open>b64enc\<close> and \<open>b64dec\<close>.
\<close>

subsection \<open>Fields\<close>

definition ErrInvalidFormat :: go_err where "ErrInvalidFormat = Sentinel ''invalid credential format''"
definition ErrEmptyField :: go_err where "ErrEmptyField = Sentinel ''credential field is empty''"

record parsed =
  pc_BrokerType :: string
  pc_AuthToken :: string
  pc_AccountID :: string
  pc_APIKey :: string
  pc_APISecret :: string
  pc_AccessToken :: string
  pc_ClientCode :: string
  pc_JWT :: string
  pc_ClientID :: string

definition zero_parsed :: parsed where
  "zero_parsed = \<lparr> pc_BrokerType = [], pc_AuthToken = [], pc_AccountID = [], pc_APIKey = [],
     pc_APISecret = [], pc_AccessToken = [], pc_ClientCode = [], pc_JWT = [], pc_ClientID = [] \<rparr>"

definition ParseCreds :: "string \<Rightarrow> string \<Rightarrow> go_err + parsed" where
  "ParseCreds brokerType raw =
     (let raw = trim_space raw in
      if raw = [] then Inl ErrEmptyField
      else
        (let parts = split_on CHR '':'' raw; res = zero_parsed\<lparr>pc_BrokerType := brokerType\<rparr> in
         if \<exists>p \<in> set parts. trim_space p = [] then Inl ErrInvalidFormat
         else if brokerType = ''zerodha'' then
           (case parts of
              [a] \<Rightarrow> Inr (res\<lparr>pc_APIKey := a\<rparr>)
            | [a, b] \<Rightarrow> Inr (res\<lparr>pc_APIKey := a, pc_APISecret := b\<rparr>)
            | [a, b, c] \<Rightarrow> Inr (res\<lparr>pc_APIKey := a, pc_APISecret := b, pc_AccessToken := c\<rparr>)
            | _ \<Rightarrow> Inl (Wrapf [] ErrInvalidFormat
                '': zerodha publisher requires api_key; api oauth requires api_key:api_secret or api_key:api_secret:access_token''))
         else if brokerType = ''mt5_cloud'' then
           (case parts of [a, b] \<Rightarrow> Inr (res\<lparr>pc_AuthToken := a, pc_AccountID := b\<rparr>)
            | _ \<Rightarrow> Inl (Wrapf [] ErrInvalidFormat '': mt5_cloud requires auth_token:account_id''))
         else if brokerType = ''dhan'' then
           (case parts of [a, b] \<Rightarrow> Inr (res\<lparr>pc_ClientID := a, pc_AccessToken := b\<rparr>)
            | _ \<Rightarrow> Inl (Wrapf [] ErrInvalidFormat '': dhan requires client_id:access_token''))
         else if brokerType = ''angel'' then
           (case parts of [a, b, c] \<Rightarrow> Inr (res\<lparr>pc_APIKey := a, pc_ClientCode := b, pc_JWT := c\<rparr>)
            | _ \<Rightarrow> Inl (Wrapf [] ErrInvalidFormat '': angel requires api_key:client_code:jwt''))
         else Inl (Errorf (''unsupported broker_type '' @ fmt_q brokerType))))"

definition ValidateCreds :: "string \<Rightarrow> string \<Rightarrow> go_err option" where
  "ValidateCreds brokerType raw = (case ParseCreds brokerType raw of Inl e \<Rightarrow> Some e | Inr _ \<Rightarrow> None)"

definition FormatHintForMode :: "string \<Rightarrow> string \<Rightarrow> string" where
  "FormatHintForMode brokerType executionMode =
     (if brokerType = ''zerodha'' then (if executionMode = ''publisher'' then ''api_key'' else ''api_key:api_secret'')
      else if brokerType = ''mt5_cloud'' then ''auth_token:account_id''
      else if brokerType = ''dhan'' then ''client_id:access_token''
      else if brokerType = ''angel'' then ''api_key:client_code:jwt''
      else ''unknown broker'')"

definition FormatHint :: "string \<Rightarrow> string" where
  "FormatHint brokerType = FormatHintForMode brokerType []"

text \<open>The fields a broker's credentials have, in the order they are written.\<close>

definition fields_of :: "parsed \<Rightarrow> string list" where
  "fields_of p =
     (if pc_BrokerType p = ''zerodha'' then
        (if pc_APISecret p = [] then [pc_APIKey p]
         else if pc_AccessToken p = [] then [pc_APIKey p, pc_APISecret p]
         else [pc_APIKey p, pc_APISecret p, pc_AccessToken p])
      else if pc_BrokerType p = ''mt5_cloud'' then [pc_AuthToken p, pc_AccountID p]
      else if pc_BrokerType p = ''dhan'' then [pc_ClientID p, pc_AccessToken p]
      else [pc_APIKey p, pc_ClientCode p, pc_JWT p])"

lemma join_split: "join_with [sep] (split_on sep s) = s"
proof (induction s)
  case (Cons c cs)
  obtain p ps where "split_on sep cs = p # ps" by (cases "split_on sep cs") auto
  with Cons show ?case by (cases ps) auto
qed simp

text \<open>
  Parsing loses nothing: credentials that parse are, but for white space around them, their
  fields joined by colons, no field is blank, and the type of broker is one of the four.
\<close>

theorem creds_roundtrip:
  assumes "ParseCreds bt raw = Inr p"
  shows "join_with '':'' (fields_of p) = trim_space raw \<and> pc_BrokerType p = bt
     \<and> (\<forall>f \<in> set (fields_of p). trim_space f \<noteq> []) \<and> bt \<in> {''zerodha'', ''mt5_cloud'', ''dhan'', ''angel''}"
proof -
  define parts where "parts = split_on CHR '':'' (trim_space raw)"
  have ne: "\<forall>f \<in> set parts. trim_space f \<noteq> []" "\<forall>f \<in> set parts. f \<noteq> []"
    using assms by (auto simp: ParseCreds_def Let_def parts_def split: if_splits)
  have "fields_of p = parts \<and> pc_BrokerType p = bt \<and> bt \<in> {''zerodha'', ''mt5_cloud'', ''dhan'', ''angel''}"
    using assms ne(2)
    by (auto simp: ParseCreds_def Let_def fields_of_def zero_parsed_def simp flip: parts_def
        split: if_splits list.splits)
  then show ?thesis using ne(1) join_split [of "CHR '':''" "trim_space raw"] by (simp add: parts_def)
qed

theorem creds_roundtrip_witness:
  "\<exists>p. ParseCreds ''zerodha'' '' key:secret '' = Inr p \<and> join_with '':'' (fields_of p) = ''key:secret''"
proof -
  have "\<not> isl (ParseCreds ''zerodha'' '' key:secret '')" "trim_space '' key:secret '' = ''key:secret''" by code_simp+
  moreover from this obtain p where "ParseCreds ''zerodha'' '' key:secret '' = Inr p"
    by (cases "ParseCreds ''zerodha'' '' key:secret ''") auto
  ultimately show ?thesis using creds_roundtrip [of "''zerodha''" "'' key:secret ''" p] by auto
qed

subsection \<open>Encryption at rest\<close>

definition versionPrefix :: string where "versionPrefix = ''v1:''"
definition nonceSize :: nat where "nonceSize = 12"
definition keySize :: nat where "keySize = 32"

definition ErrInvalidKey :: go_err where "ErrInvalidKey = Sentinel ''AES_KEY must be 32 bytes as 64 hex characters''"
definition ErrInvalidBlob :: go_err where "ErrInvalidBlob = Sentinel ''invalid encrypted credential blob''"
definition ErrDecrypt :: go_err where "ErrDecrypt = Sentinel ''credential decryption failed''"
definition ErrEmptyPlaintext :: go_err where "ErrEmptyPlaintext = Sentinel ''credential payload is empty''"

text \<open>\<^verbatim>\<open>hex.DecodeString\<close>\<close>

definition hex_val :: "char \<Rightarrow> nat option" where
  "hex_val c = (let n = of_char c :: nat in
     if 48 \<le> n \<and> n \<le> 57 then Some (n - 48)
     else if 97 \<le> n \<and> n \<le> 102 then Some (n - 87)
     else if 65 \<le> n \<and> n \<le> 70 then Some (n - 55)
     else None)"

fun hex_decode :: "string \<Rightarrow> string option" where
  "hex_decode [] = Some []"
| "hex_decode [c] = None"
| "hex_decode (a # b # s) =
     (case (hex_val a, hex_val b, hex_decode s) of
        (Some x, Some y, Some t) \<Rightarrow> Some (char_of (16 * x + y) # t)
      | _ \<Rightarrow> None)"

definition ParseKey :: "string \<Rightarrow> go_err + string" where
  "ParseKey hexKey =
     (case hex_decode (trim_space hexKey) of
        None \<Rightarrow> Inl ErrInvalidKey
      | Some key \<Rightarrow> if length key \<noteq> keySize then Inl ErrInvalidKey else Inr key)"

definition IsWeakKey :: "string \<Rightarrow> bool" where
  "IsWeakKey key = (if length key \<noteq> keySize then True else \<forall>b \<in> set key. b = CHR 0x00)"

definition IsEncrypted :: "string \<Rightarrow> bool" where
  "IsEncrypted blob = has_prefix versionPrefix blob"

text \<open>\<open>nonce\<close> is what the source of randomness gives.\<close>

definition Encrypt ::
  "(string \<Rightarrow> string \<Rightarrow> string \<Rightarrow> string \<Rightarrow> string) \<Rightarrow> (string \<Rightarrow> string) \<Rightarrow> string \<Rightarrow>
   string \<Rightarrow> string \<Rightarrow> string \<Rightarrow> go_err + string" where
  "Encrypt seal b64enc nonce plaintext key credID =
     (if trim_space plaintext = [] then Inl ErrEmptyPlaintext
      else if length key \<noteq> keySize then Inl ErrInvalidKey
      else Inr (versionPrefix @ b64enc (nonce @ seal key nonce plaintext credID)))"

definition Decrypt ::
  "(string \<Rightarrow> string \<Rightarrow> string \<Rightarrow> string \<Rightarrow> string option) \<Rightarrow> (string \<Rightarrow> string option) \<Rightarrow>
   string \<Rightarrow> string \<Rightarrow> string \<Rightarrow> go_err + string" where
  "Decrypt open_aead b64dec blob key credID =
     (if \<not> IsEncrypted blob then Inl ErrInvalidBlob
      else if length key \<noteq> keySize then Inl ErrInvalidKey
      else case b64dec (drop (length versionPrefix) blob) of
             None \<Rightarrow> Inl ErrInvalidBlob
           | Some raw \<Rightarrow>
               (if length raw < nonceSize + 1 then Inl ErrInvalidBlob
                else case open_aead key (take nonceSize raw) (drop nonceSize raw) credID of
                       None \<Rightarrow> Inl ErrDecrypt
                     | Some plaintext \<Rightarrow> Inr plaintext))"

definition PlaintextOrDecrypt ::
  "(string \<Rightarrow> string \<Rightarrow> string \<Rightarrow> string \<Rightarrow> string option) \<Rightarrow> (string \<Rightarrow> string option) \<Rightarrow>
   string \<Rightarrow> string \<Rightarrow> string \<Rightarrow> go_err + string" where
  "PlaintextOrDecrypt open_aead b64dec blob key credID =
     (if \<not> IsEncrypted blob then
        (if trim_space blob = [] then Inl ErrEmptyPlaintext else Inr blob)
      else Decrypt open_aead b64dec blob key credID)"

text \<open>
  What is encrypted for a credential reads back under the same key and credential id, and not
  under another credential's id. Relied on: base64 decodes what it encodes; GCM opens what it sealed
  under the same key, nonce and associated data, not under other associated data, and its output is
  not empty.
\<close>

theorem encrypt_roundtrip:
  assumes "\<forall>s. b64dec (b64enc s) = Some s"
    and "\<forall>k n p ad. open_aead k n (seal k n p ad) ad = Some p \<and> seal k n p ad \<noteq> []"
    and "\<forall>k n p ad ad'. ad' \<noteq> ad \<longrightarrow> open_aead k n (seal k n p ad) ad' = None"
    and "length nonce = nonceSize" "length key = keySize" "trim_space plaintext \<noteq> []"
  shows "\<exists>blob. Encrypt seal b64enc nonce plaintext key rid = Inr blob
     \<and> PlaintextOrDecrypt open_aead b64dec blob key rid = Inr plaintext
     \<and> (\<forall>rid'. rid' \<noteq> rid \<longrightarrow> PlaintextOrDecrypt open_aead b64dec blob key rid' = Inl ErrDecrypt)"
proof -
  let ?c = "seal key nonce plaintext rid"
  let ?blob = "versionPrefix @ b64enc (nonce @ ?c)"
  have "IsEncrypted ?blob" by (auto simp: IsEncrypted_def has_prefix_iff)
  moreover have "drop (length versionPrefix) ?blob = b64enc (nonce @ ?c)" by simp
  moreover have "length (nonce @ ?c) \<ge> nonceSize + 1" using assms(2,4) by (cases ?c) auto
  moreover have "?c \<noteq> []" using assms(2) by blast
  ultimately have d: "PlaintextOrDecrypt open_aead b64dec ?blob key r =
      (case open_aead key nonce ?c r of None \<Rightarrow> Inl ErrDecrypt | Some p \<Rightarrow> Inr p)" for r
    using assms(1,4,5) by (simp add: PlaintextOrDecrypt_def Decrypt_def)
  show ?thesis
    by (rule exI [of _ ?blob]) (use assms(2,3,5,6) d in \<open>simp add: Encrypt_def\<close>)
qed

text \<open>A sealing that writes the associated data in front of the text.\<close>

definition toy_seal :: "string \<Rightarrow> string \<Rightarrow> string \<Rightarrow> string \<Rightarrow> string" where
  "toy_seal k n p ad = replicate (length ad) CHR ''1'' @ ''0'' @ ad @ p"

definition toy_open :: "string \<Rightarrow> string \<Rightarrow> string \<Rightarrow> string \<Rightarrow> string option" where
  "toy_open k n c ad =
     (let h = replicate (length ad) CHR ''1'' @ ''0'' @ ad in
      if take (length h) c = h then Some (drop (length h) c) else None)"

lemma toy_aead:
  "toy_open k n (toy_seal k n p ad) ad = Some p \<and> toy_seal k n p ad \<noteq> []"
  "ad' \<noteq> ad \<Longrightarrow> toy_open k n (toy_seal k n p ad) ad' = None"
proof -
  show "toy_open k n (toy_seal k n p ad) ad = Some p \<and> toy_seal k n p ad \<noteq> []"
    by (simp add: toy_open_def toy_seal_def)
  have len: "replicate a CHR ''1'' @ ''0'' @ u = replicate b CHR ''1'' @ ''0'' @ v \<Longrightarrow> a = b" for a b u v
  proof (induction a arbitrary: b)
    case 0
    then show ?case by (cases b) auto
  next
    case (Suc a)
    then show ?case by (cases b) auto
  qed
  assume ad: "ad' \<noteq> ad"
  show "toy_open k n (toy_seal k n p ad) ad' = None"
  proof (rule ccontr)
    let ?h = "replicate (length ad') CHR ''1'' @ ''0'' @ ad'"
    assume "toy_open k n (toy_seal k n p ad) ad' \<noteq> None"
    then have "take (length ?h) (toy_seal k n p ad) = ?h"
      unfolding toy_open_def Let_def by (metis (no_types, lifting))
    then obtain r where "toy_seal k n p ad = ?h @ r" by (metis append_take_drop_id)
    then have e: "replicate (length ad) CHR ''1'' @ ''0'' @ (ad @ p) = replicate (length ad') CHR ''1'' @ ''0'' @ (ad' @ r)"
      by (simp add: toy_seal_def)
    from len [OF e] have "length ad = length ad'" .
    with e ad show False by simp
  qed
qed

theorem encrypt_roundtrip_witness:
  "\<exists>blob. Encrypt toy_seal (\<lambda>s. s) ''nonce-of-12b'' ''key:secret'' (replicate 32 CHR ''k'') ''c1'' = Inr blob
     \<and> PlaintextOrDecrypt toy_open Some blob (replicate 32 CHR ''k'') ''c1'' = Inr ''key:secret''
     \<and> PlaintextOrDecrypt toy_open Some blob (replicate 32 CHR ''k'') ''c2'' = Inl ErrDecrypt"
proof -
  have "trim_space ''key:secret'' \<noteq> []" by code_simp
  then show ?thesis
    using encrypt_roundtrip [of Some "\<lambda>s. s" toy_open toy_seal "''nonce-of-12b''" "replicate 32 CHR ''k''"
        "''key:secret''" "''c1''"] toy_aead
    by (auto simp: nonceSize_def keySize_def)
qed

end
