(* ===== verification/Execution.thy ===== *)
theory Execution
  imports Sizing
begin

section \<open>Execution: commands, outcomes and routing\<close>

text \<open>
  Models \<^verbatim>\<open>internal/execution\<close> and its adapters: the wire format between the core and an execution
  adapter (\<^verbatim>\<open>command.go\<close>, \<^verbatim>\<open>command_builder.go\<close>), the router of enabled adapters (\<^verbatim>\<open>router.go\<close>), the
  in-process adapters (\<^verbatim>\<open>adapter/local\<close>), the adapter server's executors (\<^verbatim>\<open>adapter/server\<close>) and the HTTP
  adapters (\<^verbatim>\<open>adapter/http\<close>).

  Go maps are partial functions; a missing key reads as the zero value.
\<close>

subsection \<open>The wire format\<close>

record tenant =
  tn_UserID :: string
  tn_Plan :: string

record destination =
  ds_Kind :: string
  ds_Broker :: string
  ds_CredentialID :: string
  ds_PaperAccountID :: string
  ds_ExecutionMode :: string

record order_payload =
  op_Symbol :: string
  op_Exchange :: string
  op_Side :: string
  op_OrderType :: string
  op_Product :: string
  op_Quantity :: f64
  op_Price :: f64
  op_SLPoints :: int
  op_TPPoints :: int
  op_Comment :: string
  op_AlgoID :: string
  op_FixedLotSize :: f64
  op_MaxRiskPct :: f64
  op_MaxLotSize :: f64
  op_MarketProfile :: string
  op_TickSize :: f64
  op_LotSize :: f64
  op_SlippageBps :: f64
  op_FeeBps :: f64

record credential_blob =
  cb_EncryptedBlob :: string
  cb_CredentialID :: string

record exec_command =
  ec_RequestID :: string
  ec_IdempotencyKey :: string
  ec_Tenant :: tenant
  ec_Destination :: destination
  ec_Order :: order_payload
  ec_Credentials :: "credential_blob option"
  ec_Metadata :: "string \<rightharpoonup> string"

record exec_outcome =
  eo_RequestID :: string
  eo_Status :: string
  eo_BrokerOrderID :: string
  eo_FillPrice :: f64
  eo_Quantity :: f64
  eo_OrderType :: string
  eo_AlgoID :: string
  eo_BrokerType :: string
  eo_SLPrice :: f64
  eo_TPPrice :: f64
  eo_ErrorCode :: string
  eo_ErrorMessage :: string
  eo_Handoff :: "handoff option"

definition zero_outcome :: exec_outcome where
  "zero_outcome = \<lparr> eo_RequestID = [], eo_Status = [], eo_BrokerOrderID = [], eo_FillPrice = 0,
     eo_Quantity = 0, eo_OrderType = [], eo_AlgoID = [], eo_BrokerType = [], eo_SLPrice = 0,
     eo_TPPrice = 0, eo_ErrorCode = [], eo_ErrorMessage = [], eo_Handoff = None \<rparr>"

definition metadata_get :: "(string \<rightharpoonup> string) \<Rightarrow> string \<Rightarrow> string" where
  "metadata_get m k = (case m k of None \<Rightarrow> [] | Some v \<Rightarrow> v)"

definition ToExecutionRequest :: "exec_command \<Rightarrow> exec_request" where
  "ToExecutionRequest cmd =
     (let o' = ec_Order cmd; d = ec_Destination cmd;
          req = zero_request
            \<lparr> er_AccountID := ds_CredentialID d,
              er_WebhookID := metadata_get (ec_Metadata cmd) ''webhook_id'',
              er_SignalID := ec_RequestID cmd, er_UserID := tn_UserID (ec_Tenant cmd),
              er_MarketProfile := op_MarketProfile o', er_Exchange := op_Exchange o',
              er_Symbol := op_Symbol o', er_Side := op_Side o', er_OrderType := op_OrderType o',
              er_Product := op_Product o', er_Quantity := op_Quantity o', er_Price := op_Price o',
              er_Comment := op_Comment o', er_SLPoints := op_SLPoints o', er_TPPoints := op_TPPoints o',
              er_FixedLotSize := op_FixedLotSize o', er_MaxRiskPct := op_MaxRiskPct o',
              er_MaxLotSize := op_MaxLotSize o', er_TickSize := op_TickSize o',
              er_LotSize := op_LotSize o', er_SlippageBps := op_SlippageBps o', er_FeeBps := op_FeeBps o' \<rparr>
      in if ds_Kind d = ''paper_trading'' then req\<lparr>er_AccountID := ds_PaperAccountID d\<rparr> else req)"

definition OutcomeFromResult :: "string \<Rightarrow> exec_result option \<Rightarrow> string \<Rightarrow> exec_outcome" where
  "OutcomeFromResult requestID r brokerType =
     (case r of
        None \<Rightarrow> zero_outcome\<lparr>eo_RequestID := requestID, eo_Status := StatusRejected\<rparr>
      | Some r \<Rightarrow> zero_outcome
          \<lparr> eo_RequestID := requestID, eo_Status := xr_Status r, eo_BrokerOrderID := xr_OrderID r,
            eo_FillPrice := xr_FillPrice r, eo_Quantity := xr_Quantity r, eo_OrderType := xr_OrderType r,
            eo_AlgoID := xr_AlgoID r, eo_BrokerType := brokerType, eo_SLPrice := xr_SLPrice r,
            eo_TPPrice := xr_TPPrice r, eo_Handoff := xr_Handoff r \<rparr>)"

definition user_plan :: "user option \<Rightarrow> string" where
  "user_plan user = (case user of None \<Rightarrow> PlanFree | Some u \<Rightarrow> EffectivePlan (u_Plan u))"

definition BuildLiveCommand ::
  "exec_request \<Rightarrow> user option \<Rightarrow> broker_credential \<Rightarrow> string \<Rightarrow> exec_command" where
  "BuildLiveCommand req user cred idempotencyKey =
     \<lparr> ec_RequestID = er_SignalID req, ec_IdempotencyKey = idempotencyKey,
       ec_Tenant = \<lparr> tn_UserID = er_UserID req, tn_Plan = user_plan user \<rparr>,
       ec_Destination = \<lparr> ds_Kind = ''live_broker'', ds_Broker = bc_BrokerType cred,
          ds_CredentialID = bc_ID cred, ds_PaperAccountID = [], ds_ExecutionMode = bc_ExecutionMode cred \<rparr>,
       ec_Order = \<lparr> op_Symbol = er_Symbol req, op_Exchange = er_Exchange req, op_Side = er_Side req,
          op_OrderType = er_OrderType req, op_Product = er_Product req, op_Quantity = er_Quantity req,
          op_Price = er_Price req, op_SLPoints = er_SLPoints req, op_TPPoints = er_TPPoints req,
          op_Comment = er_Comment req, op_AlgoID = [], op_FixedLotSize = er_FixedLotSize req,
          op_MaxRiskPct = er_MaxRiskPct req, op_MaxLotSize = er_MaxLotSize req,
          op_MarketProfile = er_MarketProfile req, op_TickSize = er_TickSize req,
          op_LotSize = er_LotSize req, op_SlippageBps = er_SlippageBps req, op_FeeBps = er_FeeBps req \<rparr>,
       ec_Credentials = (if bc_EncryptedCreds cred \<noteq> []
          then Some \<lparr> cb_EncryptedBlob = bc_EncryptedCreds cred, cb_CredentialID = bc_ID cred \<rparr> else None),
       ec_Metadata = [''webhook_id'' \<mapsto> er_WebhookID req] \<rparr>"

definition BuildPaperCommand :: "exec_request \<Rightarrow> user option \<Rightarrow> string \<Rightarrow> exec_command" where
  "BuildPaperCommand req user idempotencyKey =
     \<lparr> ec_RequestID = er_SignalID req, ec_IdempotencyKey = idempotencyKey,
       ec_Tenant = \<lparr> tn_UserID = er_UserID req, tn_Plan = user_plan user \<rparr>,
       ec_Destination = \<lparr> ds_Kind = ''paper_trading'', ds_Broker = [], ds_CredentialID = [],
          ds_PaperAccountID = er_AccountID req, ds_ExecutionMode = [] \<rparr>,
       ec_Order = \<lparr> op_Symbol = er_Symbol req, op_Exchange = er_Exchange req, op_Side = er_Side req,
          op_OrderType = er_OrderType req, op_Product = er_Product req, op_Quantity = er_Quantity req,
          op_Price = er_Price req, op_SLPoints = 0, op_TPPoints = 0, op_Comment = [], op_AlgoID = [],
          op_FixedLotSize = 0, op_MaxRiskPct = 0, op_MaxLotSize = 0,
          op_MarketProfile = er_MarketProfile req, op_TickSize = er_TickSize req,
          op_LotSize = er_LotSize req, op_SlippageBps = er_SlippageBps req, op_FeeBps = er_FeeBps req \<rparr>,
       ec_Credentials = None, ec_Metadata = [''webhook_id'' \<mapsto> er_WebhookID req] \<rparr>"

text \<open>
  \<^verbatim>\<open>*ExecutionError\<close>, of \<^verbatim>\<open>internal/execution\<close> and of \<^verbatim>\<open>adapter/local\<close>: an error with the broker's type.
  A runner fails with one of these or with another error.
\<close>

datatype run_err =
    RunErr go_err
  | ExecErr go_err string

definition OutcomeToResult :: "exec_outcome \<Rightarrow> run_err + exec_result" where
  "OutcomeToResult out =
     (if eo_ErrorCode out \<noteq> [] \<or> eo_ErrorMessage out \<noteq> [] then
        (let code = (if eo_ErrorCode out = [] then CodeInternal else eo_ErrorCode out);
             msg = (if eo_ErrorMessage out = [] then PublicMessage code else eo_ErrorMessage out)
         in Inl (ExecErr (BrokerNew code msg) (eo_BrokerType out)))
      else Inr (zero_result
        \<lparr> xr_OrderID := eo_BrokerOrderID out, xr_Status := eo_Status out, xr_FillPrice := eo_FillPrice out,
          xr_Quantity := eo_Quantity out, xr_OrderType := eo_OrderType out, xr_AlgoID := eo_AlgoID out,
          xr_BrokerType := eo_BrokerType out, xr_SLPrice := eo_SLPrice out, xr_TPPrice := eo_TPPrice out,
          xr_Handoff := eo_Handoff out \<rparr>))"

subsection \<open>The router\<close>

definition AdapterPaper :: string where "AdapterPaper = ''paper''"
definition AdapterZerodha :: string where "AdapterZerodha = ''zerodha''"
definition AdapterAngel :: string where "AdapterAngel = ''angel''"
definition AdapterDhan :: string where "AdapterDhan = ''dhan''"
definition AdapterMT5 :: string where "AdapterMT5 = ''mt5''"

lemmas adapter_defs = AdapterPaper_def AdapterZerodha_def AdapterAngel_def AdapterDhan_def AdapterMT5_def

definition brokerToAdapter :: "string \<Rightarrow> string option" where
  "brokerToAdapter b =
     (if b = ''zerodha'' then Some AdapterZerodha else if b = ''angel'' then Some AdapterAngel
      else if b = ''dhan'' then Some AdapterDhan else if b = ''mt5_cloud'' then Some AdapterMT5 else None)"

text \<open>A router is the list of its enabled names; a nil router enables everything.\<close>

type_synonym router = "string list option"

definition NewRouter :: "string list \<Rightarrow> router" where
  "NewRouter enabledAdapters = Some (map (\<lambda>n. to_lower (trim_space n)) enabledAdapters)"

definition IsEnabled :: "router \<Rightarrow> string \<Rightarrow> bool" where
  "IsEnabled r adapter = (case r of None \<Rightarrow> True | Some e \<Rightarrow> to_lower (trim_space adapter) \<in> set e)"

definition IsPaperEnabled :: "router \<Rightarrow> bool" where
  "IsPaperEnabled r = IsEnabled r AdapterPaper"

definition IsBrokerEnabled :: "router \<Rightarrow> string \<Rightarrow> bool" where
  "IsBrokerEnabled r brokerType =
     (case brokerToAdapter brokerType of None \<Rightarrow> False | Some adapter \<Rightarrow> IsEnabled r adapter)"

definition EnabledAdapters :: "router \<Rightarrow> string list" where
  "EnabledAdapters r = filter (IsEnabled r) [AdapterPaper, AdapterZerodha, AdapterAngel, AdapterDhan, AdapterMT5]"

definition DefaultEnabledAdapters :: "string list" where
  "DefaultEnabledAdapters = [AdapterPaper, AdapterZerodha, AdapterAngel, AdapterDhan, AdapterMT5]"

definition ErrBrokerAdapterDisabled :: go_err where
  "ErrBrokerAdapterDisabled = Sentinel ''broker adapter is not enabled on this deployment''"

definition RequireBroker :: "router \<Rightarrow> string \<Rightarrow> go_err option" where
  "RequireBroker r brokerType =
     (if IsBrokerEnabled r brokerType then None
      else Some (Wrapf [] ErrBrokerAdapterDisabled ('': '' @ brokerType)))"

subsection \<open>The execution route\<close>

definition ErrLive :: go_err where
  "ErrLive = Sentinel ''live trading is not included in your plan''"

definition serverAllowsExecution :: "string \<Rightarrow> bool" where
  "serverAllowsExecution serverMode =
     (let m = to_lower (trim_space serverMode) in m = ModeLive \<or> m = ModeMock)"

definition ResolveExecution :: "string \<Rightarrow> string \<Rightarrow> broker_credential option \<Rightarrow> go_err + string" where
  "ResolveExecution serverMode userPlan cred =
     (if \<not> serverAllowsExecution serverMode then Inl ErrLive
      else if cred = None then Inl ErrLive
      else if \<not> LiveAllowed (LimitsFor userPlan) then Inl ErrLive
      else Inr (if equal_fold (trim_space serverMode) ModeMock then ModeMock else ModeLive))"

definition tradeCodeForLiveAccess :: "go_err \<Rightarrow> string" where
  "tradeCodeForLiveAccess err = (if err_is err ErrLive then CodeLiveNotAllowed else CodeInternal)"

end
