(* ===== verification/Clock.thy ===== *)
theory Clock
  imports Prelude
begin

section \<open>UTC dates\<close>

text \<open>
  Instants are milliseconds since 1970-01-01T00:00:00Z. The program formats the UTC date of an instant
  (\<^verbatim>\<open>time.Format\<close>), builds the midnight after it and the first instants of months (\<^verbatim>\<open>time.Date\<close>); these
  are computed here on the proleptic Gregorian calendar, over eras of 400 years from March.
\<close>

definition ms_per_day :: int where "ms_per_day = 86400000"

definition utc_day :: "int \<Rightarrow> int" where
  "utc_day now = now div ms_per_day"

definition midnight_after :: "int \<Rightarrow> int" where
  "midnight_after now = (utc_day now + 1) * ms_per_day"

text \<open>Year, month and day of a day number.\<close>

definition civil_from_days :: "int \<Rightarrow> int \<times> int \<times> int" where
  "civil_from_days day =
     (let z = day + 719468;
          era = z div 146097;
          doe = z mod 146097;
          yoe = (doe - doe div 1460 + doe div 36524 - doe div 146096) div 365;
          doy = doe - (365 * yoe + yoe div 4 - yoe div 100);
          mp = (5 * doy + 2) div 153;
          d = doy - (153 * mp + 2) div 5 + 1;
          m = (if mp < 10 then mp + 3 else mp - 9);
          y = yoe + era * 400 + (if m \<le> 2 then 1 else 0)
      in (y, m, d))"

definition days_from_civil :: "int \<Rightarrow> int \<Rightarrow> int \<Rightarrow> int" where
  "days_from_civil y m d =
     (let y' = (if m \<le> 2 then y - 1 else y);
          era = y' div 400;
          yoe = y' mod 400;
          doy = (153 * (if 2 < m then m - 3 else m + 9) + 2) div 5 + d - 1;
          doe = yoe * 365 + yoe div 4 - yoe div 100 + doy
      in era * 146097 + doe - 719468)"

definition month_start :: "int \<Rightarrow> int" where
  "month_start now =
     (case civil_from_days (utc_day now) of (y, m, d) \<Rightarrow> days_from_civil y m 1 * ms_per_day)"

definition next_month :: "int \<Rightarrow> int" where
  "next_month now =
     (case civil_from_days (utc_day now) of
        (y, m, d) \<Rightarrow> (if m = 12 then days_from_civil (y + 1) 1 1 else days_from_civil y (m + 1) 1) * ms_per_day)"

text \<open>\<^verbatim>\<open>2006-01-02\<close>, and \<^verbatim>\<open>%d-%02d\<close> of year and month.\<close>

definition date_string :: "int \<Rightarrow> string" where
  "date_string now =
     (case civil_from_days (utc_day now) of
        (y, m, d) \<Rightarrow> pad_digits 4 y @ ''-'' @ pad_digits 2 m @ ''-'' @ pad_digits 2 d)"

definition month_string :: "int \<Rightarrow> string" where
  "month_string now =
     (case civil_from_days (utc_day now) of (y, m, d) \<Rightarrow> fmt_d y @ ''-'' @ pad_digits 2 m)"

lemma le_div_iff:
  fixes c :: int
  assumes "0 < c"
  shows "k \<le> b div c \<longleftrightarrow> k * c \<le> b"
proof
  assume "k \<le> b div c"
  then have "k * c \<le> (b div c) * c" using assms by (simp add: mult_right_mono)
  also have "\<dots> \<le> b" using pos_mod_sign [OF assms, of b] minus_mod_eq_div_mult [of b c] by linarith
  finally show "k * c \<le> b" .
next
  assume k: "k * c \<le> b"
  show "k \<le> b div c"
  proof (rule ccontr)
    assume "\<not> k \<le> b div c"
    then have "(b div c + 1) * c \<le> k * c" using assms by (intro mult_right_mono) auto
    moreover have "b < (b div c + 1) * c"
      using pos_mod_bound [OF assms, of b] minus_mod_eq_div_mult [of b c] by (simp add: distrib_right)
    ultimately show False using k by linarith
  qed
qed

lemma ms_pos: "0 < ms_per_day"
  by (simp add: ms_per_day_def)

lemma le_utc_day: "k \<le> utc_day t \<longleftrightarrow> k * ms_per_day \<le> t"
  unfolding utc_day_def by (rule le_div_iff [OF ms_pos])

lemma utc_day_bounds: "utc_day now * ms_per_day \<le> now" "now < midnight_after now"
  using le_utc_day [of "utc_day now" now] le_utc_day [of "utc_day now + 1" now]
  by (simp_all add: midnight_after_def)

lemma next_day: "utc_day a < utc_day b \<longleftrightarrow> midnight_after a \<le> b"
  using le_utc_day [of "utc_day a + 1" b] by (simp add: midnight_after_def) linarith

lemma utc_day_start: "utc_day (d * ms_per_day) = d"
  using ms_pos by (simp add: utc_day_def)

lemma date_examples:
  "civil_from_days 0 = (1970, 1, 1)" "civil_from_days 19782 = (2024, 2, 29)"
  "days_from_civil 2024 2 29 = 19782" "days_from_civil 2000 3 1 = 11017"
  "date_string 1709164800000 = ''2024-02-29''"
  "month_start 1709164800000 = 1706745600000" "next_month 1709164800000 = 1709251200000"
  by code_simp+

end
