(* ===== verification/Redis.thy ===== *)
theory Redis
  imports Execution Clock
begin

section \<open>Redis: counters, claims and caches that expire\<close>

text \<open>
  Models \<^verbatim>\<open>internal/store/redis.go\<close>, \<^verbatim>\<open>adapter_idempotency.go\<close> and \<^verbatim>\<open>symboltoken.go\<close>. A data base is a
  partial function from keys to values with an expiry, in milliseconds. The commands the program
  issues are written out: a key is there until its expiry, \<^verbatim>\<open>INCR\<close> keeps the expiry a key has, \<^verbatim>\<open>EXPIRE\<close>
  and \<^verbatim>\<open>SET\<close> replace it, \<^verbatim>\<open>SETNX\<close> writes only where there is no key. The two commands of a pipeline are
  applied one after the other at the same instant. A JSON document is the value it encodes; the
  encoding fails for a number that is not finite. Failures of the connection are modelled by the callers.
\<close>

record token_entry =
  te_Token :: string
  te_TradingSymbol :: string

datatype redis_value =
    Counter int
  | Flag
  | DWebhook webhook
  | DOutcome exec_outcome
  | DToken token_entry

type_synonym redis = "string \<Rightarrow> (redis_value \<times> int option) option"

definition empty_redis :: redis where
  "empty_redis = (\<lambda>_. None)"

subsection \<open>Commands\<close>

definition live_at :: "int \<Rightarrow> int option \<Rightarrow> bool" where
  "live_at now expiry = (case expiry of None \<Rightarrow> True | Some e \<Rightarrow> now < e)"

definition rget :: "redis \<Rightarrow> int \<Rightarrow> string \<Rightarrow> redis_value option" where
  "rget r now k = (case r k of None \<Rightarrow> None | Some (v, e) \<Rightarrow> if live_at now e then Some v else None)"

definition rset :: "redis \<Rightarrow> int \<Rightarrow> string \<Rightarrow> redis_value \<Rightarrow> int \<Rightarrow> redis" where
  "rset r now k v ttl = r(k := Some (v, Some (now + ttl)))"

definition rsetnx :: "redis \<Rightarrow> int \<Rightarrow> string \<Rightarrow> redis_value \<Rightarrow> int \<Rightarrow> bool \<times> redis" where
  "rsetnx r now k v ttl =
     (case rget r now k of None \<Rightarrow> (True, rset r now k v ttl) | Some _ \<Rightarrow> (False, r))"

definition rdel :: "redis \<Rightarrow> string \<Rightarrow> redis" where
  "rdel r k = r(k := None)"

definition wrong_type :: go_err where
  "wrong_type = Errorf ''ERR value is not an integer or out of range''"

definition rincr :: "redis \<Rightarrow> int \<Rightarrow> string \<Rightarrow> (go_err + int) \<times> redis" where
  "rincr r now k =
     (case (if rget r now k = None then None else r k) of
        None \<Rightarrow> (Inr 1, r(k := Some (Counter 1, None)))
      | Some (Counter n, e) \<Rightarrow> (Inr (n + 1), r(k := Some (Counter (n + 1), e)))
      | Some _ \<Rightarrow> (Inl wrong_type, r))"

definition rexpire_at :: "redis \<Rightarrow> int \<Rightarrow> string \<Rightarrow> int \<Rightarrow> redis" where
  "rexpire_at r now k t =
     (case rget r now k of None \<Rightarrow> r | Some v \<Rightarrow> r(k := Some (v, Some t)))"

definition rexpire :: "redis \<Rightarrow> int \<Rightarrow> string \<Rightarrow> int \<Rightarrow> redis" where
  "rexpire r now k ttl = rexpire_at r now k (now + ttl)"

subsection \<open>Counters of requests\<close>

definition webhookKeyPrefix :: string where "webhookKeyPrefix = ''wh:''"
definition rateLimitPrefix :: string where "rateLimitPrefix = ''rl:''"
definition webhookRateLimitPrefix :: string where "webhookRateLimitPrefix = ''rl:wh:''"
definition webhookRateLimitPerMinPrefix :: string where "webhookRateLimitPerMinPrefix = ''rl:wh:min:''"
definition dailyWebhookPrefix :: string where "dailyWebhookPrefix = ''daily:wh:''"
definition paperQuotaNotifyPrefix :: string where "paperQuotaNotifyPrefix = ''paper_quota_notify:''"
definition credRateLimitPrefix :: string where "credRateLimitPrefix = ''rl:cred:''"
definition verifyResendPrefix :: string where "verifyResendPrefix = ''rl:verify_resend:''"
definition dedupKeyPrefix :: string where "dedupKeyPrefix = ''dedup:wh:''"
definition jwtRevokedPrefix :: string where "jwtRevokedPrefix = ''jwtrevoked:''"
definition adapterIdempotencyPrefix :: string where "adapterIdempotencyPrefix = ''adapter:idempotency:''"
definition webhookTTL :: int where "webhookTTL = 5 * 60 * 1000"

text \<open>The pipeline that every counter runs.\<close>

definition incr_within :: "string \<Rightarrow> int \<Rightarrow> int \<Rightarrow> redis \<Rightarrow> (go_err + int) \<times> redis" where
  "incr_within key window now r =
     (case rincr r now key of
        (Inl e, r') \<Rightarrow> (Inl e, rexpire r' now key window)
      | (Inr n, r') \<Rightarrow> (Inr n, rexpire r' now key window))"

definition IncrWebhookRateLimit :: "string \<Rightarrow> int \<Rightarrow> redis \<Rightarrow> (go_err + int) \<times> redis" where
  "IncrWebhookRateLimit webhookID = incr_within (webhookRateLimitPrefix @ webhookID) 1000"

definition IncrRateLimit :: "string \<Rightarrow> int \<Rightarrow> redis \<Rightarrow> (go_err + int) \<times> redis" where
  "IncrRateLimit userID = incr_within (rateLimitPrefix @ userID) 1000"

definition IncrWebhookRatePerMin :: "string \<Rightarrow> int \<Rightarrow> redis \<Rightarrow> (go_err + int) \<times> redis" where
  "IncrWebhookRatePerMin webhookID = incr_within (webhookRateLimitPerMinPrefix @ webhookID) 60000"

definition IncrBrokerCredRateLimit :: "string \<Rightarrow> int \<Rightarrow> redis \<Rightarrow> (go_err + int) \<times> redis" where
  "IncrBrokerCredRateLimit brokerCredID = incr_within (credRateLimitPrefix @ brokerCredID) 1000"

definition IncrVerifyResendLimit :: "string \<Rightarrow> int \<Rightarrow> redis \<Rightarrow> (go_err + int) \<times> redis" where
  "IncrVerifyResendLimit email = incr_within (verifyResendPrefix @ email) 3600000"

definition ClearVerifyResendLimit :: "string \<Rightarrow> redis \<Rightarrow> redis" where
  "ClearVerifyResendLimit email r = rdel r (verifyResendPrefix @ email)"

text \<open>The daily counter expires at a fixed instant, the next midnight UTC.\<close>

definition IncrDailyWebhookRequests :: "string \<Rightarrow> int \<Rightarrow> redis \<Rightarrow> (go_err + int) \<times> redis" where
  "IncrDailyWebhookRequests userID now r =
     (let key = dailyWebhookPrefix @ date_string now @ '':'' @ userID in
      case rincr r now key of
        (Inl e, r') \<Rightarrow> (Inl e, rexpire_at r' now key (midnight_after now))
      | (Inr n, r') \<Rightarrow> (Inr n, rexpire_at r' now key (midnight_after now)))"

subsection \<open>Claims\<close>

definition TryClaimPaperQuotaNotify :: "string \<Rightarrow> int \<Rightarrow> redis \<Rightarrow> bool \<times> redis" where
  "TryClaimPaperQuotaNotify userID now r =
     rsetnx r now (paperQuotaNotifyPrefix @ userID @ '':'' @ month_string now) Flag (32 * ms_per_day)"

text \<open>\<open>window\<close> is the dedup window as a duration in nanoseconds.\<close>

definition TryClaimSignalDedup :: "string \<Rightarrow> string \<Rightarrow> int \<Rightarrow> int \<Rightarrow> redis \<Rightarrow> bool \<times> redis" where
  "TryClaimSignalDedup webhookID signalKey window now r =
     (if webhookID = [] \<or> signalKey = [] \<or> window \<le> 0 then (True, r)
      else (let sec = window div 1000000000;
                sec = (if sec < 1 then 1 else sec)
            in rsetnx r now (dedupKeyPrefix @ webhookID @ '':'' @ signalKey) Flag (sec * 1000)))"

definition ReleaseSignalDedup :: "string \<Rightarrow> string \<Rightarrow> redis \<Rightarrow> redis" where
  "ReleaseSignalDedup webhookID signalKey r =
     (if webhookID = [] \<or> signalKey = [] then r
      else rdel r (dedupKeyPrefix @ webhookID @ '':'' @ signalKey))"

text \<open>Tokens are kept by the hash of the token, a parameter.\<close>

definition jwtRevokedKey :: "(string \<Rightarrow> string) \<Rightarrow> string \<Rightarrow> string" where
  "jwtRevokedKey sha256hex rawToken = jwtRevokedPrefix @ sha256hex rawToken"

definition RevokeJWT :: "(string \<Rightarrow> string) \<Rightarrow> string \<Rightarrow> int \<Rightarrow> int \<Rightarrow> redis \<Rightarrow> redis" where
  "RevokeJWT sha256hex rawToken ttl now r =
     (if ttl \<le> 0 then r else rset r now (jwtRevokedKey sha256hex rawToken) Flag ttl)"

definition IsJWTRevoked :: "(string \<Rightarrow> string) \<Rightarrow> string \<Rightarrow> int \<Rightarrow> redis \<Rightarrow> bool" where
  "IsJWTRevoked sha256hex rawToken now r = (rget r now (jwtRevokedKey sha256hex rawToken) \<noteq> None)"

subsection \<open>Caches\<close>

definition bad_json :: go_err where
  "bad_json = Errorf ''invalid character in JSON value''"

definition GetWebhookByToken :: "string \<Rightarrow> int \<Rightarrow> redis \<Rightarrow> go_err + webhook option" where
  "GetWebhookByToken token now r =
     (case rget r now (webhookKeyPrefix @ token) of
        None \<Rightarrow> Inr None
      | Some (DWebhook wh) \<Rightarrow> Inr (Some wh)
      | Some _ \<Rightarrow> Inl bad_json)"

text \<open>The hash of the token has no JSON name (\<^verbatim>\<open>json:"-"\<close>): the cached document lacks it.\<close>

definition cached_webhook :: "webhook \<Rightarrow> webhook" where
  "cached_webhook wh = wh\<lparr>wh_TokenHash := []\<rparr>"

definition webhook_finite :: "webhook \<Rightarrow> bool" where
  "webhook_finite wh = (is_fin (wh_LotSize wh) \<and> is_fin (wh_MaxRiskPct wh) \<and> is_fin (wh_MaxLotSize wh))"

definition CacheWebhook :: "webhook \<Rightarrow> int \<Rightarrow> redis \<Rightarrow> (go_err + unit) \<times> redis" where
  "CacheWebhook wh now r =
     (if webhook_finite wh
      then (Inr (), rset r now (webhookKeyPrefix @ wh_TokenHash wh) (DWebhook (cached_webhook wh)) webhookTTL)
      else (Inl (Errorf ''json: unsupported value''), r))"

definition InvalidateWebhook :: "string \<Rightarrow> redis \<Rightarrow> redis" where
  "InvalidateWebhook token r = rdel r (webhookKeyPrefix @ token)"

definition outcome_finite :: "exec_outcome \<Rightarrow> bool" where
  "outcome_finite out =
     (is_fin (eo_FillPrice out) \<and> is_fin (eo_Quantity out) \<and> is_fin (eo_SLPrice out) \<and> is_fin (eo_TPPrice out))"

text \<open>\<^verbatim>\<open>RedisIdempotency\<close> over \<^verbatim>\<open>GetAdapterIdempotency\<close> and \<^verbatim>\<open>PutAdapterIdempotency\<close>; \<open>ttl\<close> in milliseconds.\<close>

definition GetAdapterOrderOutcome :: "string \<Rightarrow> int \<Rightarrow> redis \<Rightarrow> go_err + exec_outcome option" where
  "GetAdapterOrderOutcome key now r =
     (if key = [] then Inr None
      else case rget r now (adapterIdempotencyPrefix @ key) of
             None \<Rightarrow> Inr None
           | Some (DOutcome out) \<Rightarrow> Inr (Some out)
           | Some _ \<Rightarrow> Inl bad_json)"

definition PutAdapterOrderOutcome :: "string \<Rightarrow> exec_outcome \<Rightarrow> int \<Rightarrow> int \<Rightarrow> redis \<Rightarrow> redis" where
  "PutAdapterOrderOutcome key out ttl now r =
     (if \<not> outcome_finite out then r
      else if key = [] then r
      else rset r now (adapterIdempotencyPrefix @ key) (DOutcome out)
             (if ttl \<le> 0 then 24 * 3600000 else ttl))"

definition symbolTokenCacheKey :: "string \<Rightarrow> string \<Rightarrow> string \<Rightarrow> string" where
  "symbolTokenCacheKey brokerType exchange symbol =
     (let bt = to_lower (trim_space brokerType);
          bt = (if bt = [] then ''default'' else bt)
      in ''symtoken:'' @ bt @ '':'' @ to_upper (trim_space exchange) @ '':'' @ to_upper (trim_space symbol))"

definition GetSymbolToken :: "string \<Rightarrow> string \<Rightarrow> string \<Rightarrow> int \<Rightarrow> redis \<Rightarrow> go_err + token_entry option" where
  "GetSymbolToken brokerType exchange symbol now r =
     (case rget r now (symbolTokenCacheKey brokerType exchange symbol) of
        None \<Rightarrow> Inr None
      | Some (DToken entry) \<Rightarrow> if te_Token entry = [] then Inr None else Inr (Some entry)
      | Some _ \<Rightarrow> Inl bad_json)"

definition SetSymbolToken :: "string \<Rightarrow> string \<Rightarrow> string \<Rightarrow> token_entry \<Rightarrow> int \<Rightarrow> int \<Rightarrow> redis \<Rightarrow> redis" where
  "SetSymbolToken brokerType exchange symbol entry ttl now r =
     rset r now (symbolTokenCacheKey brokerType exchange symbol) (DToken entry)
       (if ttl \<le> 0 then 24 * 3600000 else ttl)"

subsection \<open>The contract of a store whose entries expire\<close>

text \<open>
  What the deduplication of signals and the idempotency of orders rely on. Time does not run
  backwards: the laws are about reads not before the write.
\<close>

locale expiring_store =
  fixes get :: "'s \<Rightarrow> int \<Rightarrow> 'k \<Rightarrow> 'v option"
    and put :: "'s \<Rightarrow> int \<Rightarrow> 'k \<Rightarrow> 'v \<Rightarrow> int \<Rightarrow> 's"
    and put_new :: "'s \<Rightarrow> int \<Rightarrow> 'k \<Rightarrow> 'v \<Rightarrow> int \<Rightarrow> bool \<times> 's"
  assumes get_put: "get (put s now k v ttl) t k' =
      (if k' = k then (if t < now + ttl then Some v else None) else get s t k')"
    and put_new: "put_new s now k v ttl =
      (if get s now k = None then (True, put s now k v ttl) else (False, s))"
    and get_earlier: "get s t k = Some v \<Longrightarrow> t' \<le> t \<Longrightarrow> get s t' k = Some v"
begin

text \<open>A run of claims of one key at the given times.\<close>

fun claims :: "'k \<Rightarrow> 'v \<Rightarrow> int \<Rightarrow> int list \<Rightarrow> 's \<Rightarrow> bool list \<times> 's" where
  "claims k v ttl [] s = ([], s)"
| "claims k v ttl (t # ts) s =
     (let (ok, s1) = put_new s t k v ttl; (oks, s2) = claims k v ttl ts s1 in (ok # oks, s2))"

lemma claims_held:
  "get s e k = Some w \<Longrightarrow> \<forall>t \<in> set ts. t \<le> e \<Longrightarrow> claims k v ttl ts s = (replicate (length ts) False, s)"
  by (induction ts) (auto simp: put_new dest: get_earlier)

lemma first_claim_wins:
  assumes "get s t k = None" "0 < ttl" "\<forall>t' \<in> set ts. t' < t + ttl"
  shows "fst (claims k v ttl (t # ts) s) = True # replicate (length ts) False"
proof -
  let ?s = "put s t k v ttl"
  have "get ?s (t + ttl - 1) k = Some v" using assms(2) by (simp add: get_put)
  moreover have "\<forall>t' \<in> set ts. t' \<le> t + ttl - 1" using assms(3) by auto
  ultimately have "claims k v ttl ts ?s = (replicate (length ts) False, ?s)" by (rule claims_held)
  then show ?thesis using assms(1) by (simp add: put_new)
qed

lemma claim_after_expiry:
  "get (put s now k v ttl) t k = None \<longleftrightarrow> now + ttl \<le> t"
  by (auto simp: get_put)

lemma put_other: "k' \<noteq> k \<Longrightarrow> get (snd (put_new s now k v ttl)) t k' = get s t k'"
  by (simp add: put_new get_put)

end

interpretation rds: expiring_store rget rset rsetnx
proof
  show "rget (rset s now k v ttl) t k' =
      (if k' = k then if t < now + ttl then Some v else None else rget s t k')" for s now k v ttl t k'
    by (simp add: rget_def rset_def live_at_def)
  show "rsetnx s now k v ttl = (if rget s now k = None then (True, rset s now k v ttl) else (False, s))"
    for s now k v ttl by (cases "rget s now k") (simp_all add: rsetnx_def)
  show "rget s t k = Some v \<Longrightarrow> t' \<le> t \<Longrightarrow> rget s t' k = Some v" for s t k v t'
    by (auto simp: rget_def live_at_def split: option.splits if_splits)
qed

text \<open>A run of attempts to claim one signal, at the given times.\<close>

fun claim_signal :: "string \<Rightarrow> string \<Rightarrow> int \<Rightarrow> int list \<Rightarrow> redis \<Rightarrow> bool list" where
  "claim_signal wid key window [] r = []"
| "claim_signal wid key window (t # ts) r =
     (let (ok, r') = TryClaimSignalDedup wid key window t r in ok # claim_signal wid key window ts r')"

lemma claim_signal_claims:
  assumes "wid \<noteq> []" "key \<noteq> []" "1000000000 \<le> window"
  shows "claim_signal wid key window ts r =
    fst (rds.claims (dedupKeyPrefix @ wid @ '':'' @ key) Flag (window div 1000000000 * 1000) ts r)"
proof (induction ts arbitrary: r)
  case (Cons t ts)
  have "1 \<le> window div 1000000000" using assms(3) by simp
  then show ?case using assms Cons by (auto simp: TryClaimSignalDedup_def Let_def split: prod.splits)
qed simp

text \<open>
  C35. Of several identical signals within the window of a webhook, in whatever number, exactly the
  first is claimed, when no earlier claim stands; claims of other signals do not matter to it.
\<close>

theorem one_claim_per_window:
  assumes "wid \<noteq> []" "key \<noteq> []" "1000000000 \<le> window"
    and "rget r t (dedupKeyPrefix @ wid @ '':'' @ key) = None"
    and "\<forall>t' \<in> set ts. t' < t + window div 1000000000 * 1000"
  shows "claim_signal wid key window (t # ts) r = True # replicate (length ts) False
    \<and> (\<forall>wid' key'. dedupKeyPrefix @ wid' @ '':'' @ key' \<noteq> dedupKeyPrefix @ wid @ '':'' @ key \<longrightarrow>
         rget (snd (TryClaimSignalDedup wid' key' window t r)) t (dedupKeyPrefix @ wid @ '':'' @ key) = None)"
proof -
  have "1 \<le> window div 1000000000" using assms(3) by simp
  then have "0 < window div 1000000000 * 1000" by simp
  from rds.first_claim_wins [OF assms(4) this assms(5), of Flag]
  have "claim_signal wid key window (t # ts) r = True # replicate (length ts) False"
    unfolding claim_signal_claims [OF assms(1-3)] .
  then show ?thesis using assms(4) by (auto simp: TryClaimSignalDedup_def Let_def rds.put_other)
qed

theorem one_claim_per_window_witness:
  "claim_signal ''w'' ''k'' 300000000000 [0, 10, 299999] empty_redis = [True, False, False]"
  using one_claim_per_window [of "''w''" "''k''" 300000000000 empty_redis 0 "[10, 299999]"]
  by (simp add: rget_def empty_redis_def numeral_2_eq_2)

subsection \<open>What the counters count\<close>

fun counts :: "string \<Rightarrow> int \<Rightarrow> int list \<Rightarrow> redis \<Rightarrow> (go_err + int) list" where
  "counts key window [] r = []"
| "counts key window (t # ts) r =
     (let (n, r') = incr_within key window t r in n # counts key window ts r')"

text \<open>
  The length of the run of requests, each within the window of the one before, that ends at each
  request.
\<close>

fun run_lengths :: "int \<Rightarrow> int \<Rightarrow> int \<Rightarrow> int list \<Rightarrow> int list" where
  "run_lengths window prev n [] = []"
| "run_lengths window prev n (t # ts) =
     (let n' = (if t < prev + window then n + 1 else 1) in n' # run_lengths window t n' ts)"

lemma incr_within_step:
  assumes "r key = Some (Counter n, Some (prev + window))" "0 < window"
  shows "\<exists>r'. incr_within key window t r = (Inr (if t < prev + window then n + 1 else 1), r')
     \<and> r' key = Some (Counter (if t < prev + window then n + 1 else 1), Some (t + window))"
  using assms
  by (simp add: incr_within_def rincr_def rget_def live_at_def rexpire_def rexpire_at_def)

lemma counts_runs:
  "r key = Some (Counter n, Some (prev + window)) \<Longrightarrow> 0 < window \<Longrightarrow>
     counts key window ts r = map Inr (run_lengths window prev n ts)"
proof (induction ts arbitrary: r n prev)
  case (Cons t ts)
  from incr_within_step [of r key n prev window t, OF Cons.prems] obtain r' where
    r': "incr_within key window t r = (Inr (if t < prev + window then n + 1 else 1), r')"
    "r' key = Some (Counter (if t < prev + window then n + 1 else 1), Some (t + window))" by blast
  from Cons.IH [of r' _ t, OF r'(2) Cons.prems(2)] show ?case by (simp add: r'(1) Let_def)
qed simp

lemma counts_from_empty:
  assumes "rget r t key = None" "0 < window"
  shows "counts key window (t # ts) r = map Inr (1 # run_lengths window t 1 ts)"
proof -
  obtain r' where "incr_within key window t r = (Inr 1, r')" "r' key = Some (Counter 1, Some (t + window))"
    using assms by (simp add: incr_within_def rincr_def rget_def live_at_def rexpire_def rexpire_at_def)
  then show ?thesis using counts_runs [of r' key 1 t window ts] assms(2) by simp
qed

text \<open>
  A counter does not count the requests of a window. Each request puts the expiry off by a whole
  window, so the count is the length of the run of requests each less than a window after the one
  before, and starts again only after a window without requests.
\<close>

theorem counter_counts_runs:
  assumes "rget r t key = None" "0 < window"
  shows "counts key window (t # ts) r = map Inr (1 # run_lengths window t 1 ts)"
  by (rule counts_from_empty [OF assms])

theorem counter_counts_runs_witness:
  "counts ''rl:u'' 1000 [0, 900, 1800, 2800] empty_redis = [Inr 1, Inr 2, Inr 3, Inr 1]"
  using counter_counts_runs [of empty_redis 0 "''rl:u''" 1000 "[900, 1800, 2800]"]
  by (simp add: rget_def empty_redis_def)

lemma run_lengths_steady:
  "successively (\<lambda>a b. b < a + window) (prev # ts) \<Longrightarrow>
     run_lengths window prev n ts = map (\<lambda>i. n + 1 + int i) [0 ..< length ts]"
proof (induction ts arbitrary: prev n)
  case (Cons t ts)
  then have t: "t < prev + window" "successively (\<lambda>a b. b < a + window) (t # ts)" by simp_all
  have "map (\<lambda>i. n + 1 + int i) [0 ..< length (t # ts)]
      = (n + 1) # map (\<lambda>i. n + 1 + int (Suc i)) [0 ..< length ts]"
    by (simp only: list.size(4) add_Suc_right add_0_right upt_conv_Cons zero_less_Suc list.map map_Suc_upt [symmetric] map_map)
      (simp add: o_def)
  with t(1) Cons.IH [OF t(2), of "n + 1"] show ?case by (simp add: Let_def algebra_simps)
qed simp

text \<open>
  A client that keeps sending is shut out for good, however slowly it sends: of requests less than
  a window apart the n-th counts as n, so every request after the first \<open>limit\<close> is over the limit,
  even at a rate far below it.
\<close>

theorem slow_client_is_shut_out:
  assumes "rget r t key = None" "0 < window" "successively (\<lambda>a b. b < a + window) (t # ts)"
    and "i < length (t # ts)"
  shows "counts key window (t # ts) r ! i = Inr (int i + 1)"
proof -
  have "counts key window (t # ts) r = map Inr (1 # map (\<lambda>i. 1 + 1 + int i) [0 ..< length ts])"
    using counts_from_empty [OF assms(1,2)] run_lengths_steady [OF assms(3)] by simp
  then show ?thesis using assms(4) by (cases i) simp_all
qed

theorem slow_client_is_shut_out_witness:
  "counts ''rl:wh:min:w'' 60000 (map (\<lambda>i. 59000 * int i) [0 ..< 5]) empty_redis ! 4 = Inr 5"
proof -
  have *: "map (\<lambda>i. 59000 * int i) [0 ..< 5] = 0 # [59000, 118000, 177000, 236000]" by code_simp
  show ?thesis unfolding *
    using slow_client_is_shut_out [of empty_redis 0 "''rl:wh:min:w''" 60000 "[59000, 118000, 177000, 236000]" 4]
    by (simp add: rget_def empty_redis_def)
qed

fun daily_counts :: "string \<Rightarrow> int list \<Rightarrow> redis \<Rightarrow> (go_err + int) list" where
  "daily_counts userID [] r = []"
| "daily_counts userID (t # ts) r =
     (let (n, r') = IncrDailyWebhookRequests userID t r in n # daily_counts userID ts r')"

definition daily_key :: "string \<Rightarrow> int \<Rightarrow> string" where
  "daily_key userID day = dailyWebhookPrefix @ date_string (day * ms_per_day) @ '':'' @ userID"

lemma IncrDaily_key:
  "IncrDailyWebhookRequests userID t r =
     (case rincr r t (daily_key userID (utc_day t)) of
        (Inl e, r') \<Rightarrow> (Inl e, rexpire_at r' t (daily_key userID (utc_day t)) (midnight_after t))
      | (Inr n, r') \<Rightarrow> (Inr n, rexpire_at r' t (daily_key userID (utc_day t)) (midnight_after t)))"
proof -
  have "dailyWebhookPrefix @ date_string t @ '':'' @ userID = daily_key userID (utc_day t)"
    by (simp add: daily_key_def date_string_def utc_day_start)
  then show ?thesis unfolding IncrDailyWebhookRequests_def by (simp only: Let_def)
qed

lemma daily_counts_run:
  assumes "r (daily_key userID day) = Some (Counter n, Some ((day + 1) * ms_per_day))"
    and "\<forall>t \<in> set ts. utc_day t = day"
  shows "daily_counts userID ts r = map (\<lambda>i. Inr (n + 1 + int i)) [0 ..< length ts]"
  using assms
proof (induction ts arbitrary: r n)
  case (Cons t ts)
  have day: "utc_day t = day" using Cons.prems(2) by simp
  let ?k = "daily_key userID day"
  have t: "t < (day + 1) * ms_per_day" using utc_day_bounds(2) [of t] by (simp add: midnight_after_def day)
  have "rincr r t ?k = (Inr (n + 1), r(?k \<mapsto> (Counter (n + 1), Some ((day + 1) * ms_per_day))))"
    using Cons.prems(1) t by (simp add: rincr_def rget_def live_at_def)
  moreover have "rexpire_at (r(?k \<mapsto> (Counter (n + 1), Some ((day + 1) * ms_per_day)))) t ?k ((day + 1) * ms_per_day)
      = r(?k \<mapsto> (Counter (n + 1), Some ((day + 1) * ms_per_day)))"
    using t by (simp add: rexpire_at_def rget_def live_at_def)
  ultimately have "IncrDailyWebhookRequests userID t r =
      (Inr (n + 1), r(?k \<mapsto> (Counter (n + 1), Some ((day + 1) * ms_per_day))))"
    by (simp add: IncrDaily_key midnight_after_def day)
  moreover have "daily_counts userID ts (r(?k \<mapsto> (Counter (n + 1), Some ((day + 1) * ms_per_day)))) =
      map (\<lambda>i. Inr (n + 1 + 1 + int i)) [0 ..< length ts]"
    using Cons.prems(2) by (intro Cons.IH) simp_all
  moreover have "map (\<lambda>i. Inr (n + 1 + int i)) [0 ..< length (t # ts)]
      = (Inr (n + 1) :: go_err + int) # map (\<lambda>i. Inr (n + 1 + int (Suc i))) [0 ..< length ts]"
    by (simp only: list.size(4) add_Suc_right add_0_right upt_conv_Cons zero_less_Suc list.map map_Suc_upt [symmetric] map_map)
      (simp add: o_def)
  ultimately show ?case by (simp add: Let_def algebra_simps)
qed simp

text \<open>
  The daily counter does count the requests of a UTC day, whatever the time between them: the n-th
  request of a day counts as n, and the count starts again on the next day.
\<close>

theorem daily_counter:
  assumes "rget r t (daily_key userID (utc_day t)) = None" "\<forall>t' \<in> set ts. utc_day t' = utc_day t"
    and "i < length (t # ts)"
  shows "daily_counts userID (t # ts) r ! i = Inr (int i + 1) \<and>
    (\<forall>t'. utc_day t < utc_day t' \<longrightarrow>
      rget (snd (IncrDailyWebhookRequests userID t r)) t' (daily_key userID (utc_day t)) = None)"
proof -
  let ?k = "daily_key userID (utc_day t)"
  let ?r = "r(?k \<mapsto> (Counter 1, Some (midnight_after t)))"
  have "rincr r t ?k = (Inr 1, r(?k \<mapsto> (Counter 1, None)))" using assms(1) by (simp add: rincr_def)
  moreover have "rexpire_at (r(?k \<mapsto> (Counter 1, None))) t ?k (midnight_after t) = ?r"
    by (simp add: rexpire_at_def rget_def live_at_def)
  ultimately have incr: "IncrDailyWebhookRequests userID t r = (Inr 1, ?r)"
    by (simp add: IncrDaily_key)
  have "daily_counts userID ts ?r = map (\<lambda>i. Inr (1 + 1 + int i)) [0 ..< length ts]"
    using assms(2) by (intro daily_counts_run [of _ _ "utc_day t"]) (simp_all add: midnight_after_def)
  then have "daily_counts userID (t # ts) r ! i = Inr (int i + 1)"
    using assms(3) by (cases i) (simp_all add: incr)
  moreover have "rget ?r t' ?k = None" if "utc_day t < utc_day t'" for t'
    using that by (simp add: next_day rget_def live_at_def)
  ultimately show ?thesis by (simp add: incr)
qed

theorem daily_counter_witness:
  "daily_counts ''u'' [5, 40000000, 80000000] empty_redis ! 2 = Inr 3"
proof -
  have d: "\<forall>t' \<in> set [40000000, 80000000]. utc_day t' = utc_day 5" by code_simp
  show ?thesis using daily_counter [of empty_redis 5 "''u''", OF _ d, of 2]
    by (simp add: rget_def empty_redis_def)
qed

end
