(* ===== verification/Adapters.thy ===== *)
theory Adapters
  imports Redis Credentials PaperStore
begin

section \<open>Adapters: how an order reaches a broker or the paper engine\<close>

text \<open>
  Models \<^verbatim>\<open>internal/execution/adapter\<close>: the in-process live adapter, the paper adapter, the executors of
  the adapter server with their idempotency cache, and the adapters that call a remote server.

  A broker is not under \<^verbatim>\<open>src\<close>: its operations are the fields of \<open>broker\<close>, on a state of the broker that
  is a type parameter. The lookups of the store, with their failures, are fields of \<open>live_deps\<close>.
\<close>

subsection \<open>Brokers\<close>

record 'b broker =
  br_PlaceOrder :: "place_request \<Rightarrow> 'b \<Rightarrow> (go_err + order_result) \<times> 'b"
  br_GetAccountEquity :: "'b \<Rightarrow> go_err + f64"

text \<open>\<^verbatim>\<open>simulated.Broker\<close>: its state is the number of orders placed.\<close>

definition simulated_PlaceOrder :: "broker_credential \<Rightarrow> place_request \<Rightarrow> int \<Rightarrow> (go_err + order_result) \<times> int" where
  "simulated_PlaceOrder cred req orderSeq =
     (Inr \<lparr> or_Status = StatusSubmitted,
            or_OrderID = ''mock-'' @ bc_BrokerType cred @ ''-'' @ fmt_d (orderSeq + 1),
            or_FillPrice = 0, or_SLPrice = 0, or_TPPrice = 0, or_Handoff = None \<rparr>, orderSeq + 1)"

definition simulated_broker :: "broker_credential \<Rightarrow> int broker" where
  "simulated_broker cred = \<lparr> br_PlaceOrder = simulated_PlaceOrder cred, br_GetAccountEquity = (\<lambda>_. Inr (Fin 100000)) \<rparr>"

subsection \<open>Sizing with the broker's equity\<close>

definition ResolveLotFor :: "'b broker \<Rightarrow> string \<Rightarrow> f64 \<Rightarrow> f64 \<Rightarrow> f64 \<Rightarrow> int \<Rightarrow> 'b \<Rightarrow> f64" where
  "ResolveLotFor b brokerType signalLot fixedLot maxRiskPct slPts st =
     (if 0 < fixedLot then fixedLot
      else if 0 < signalLot then signalLot
      else
        (case (if 0 < maxRiskPct then br_GetAccountEquity b st else Inr 0) of
           Inl _ \<Rightarrow> MinQtyForBroker brokerType
         | Inr equity \<Rightarrow>
             (case ResolveLot 0 fixedLot equity maxRiskPct slPts brokerType of
                Inl _ \<Rightarrow> MinQtyForBroker brokerType
              | Inr lot \<Rightarrow> lot)))"

subsection \<open>The live adapter\<close>

record 'b live_deps =
  ld_GetBrokerCred :: "string \<Rightarrow> go_err + broker_credential option"
  ld_GetUserByID :: "string \<Rightarrow> go_err + user option"
  ld_GetPlatformSetting :: "string \<Rightarrow> go_err + string option"
  ld_redis_up :: bool
  ld_decrypt :: "string \<Rightarrow> string \<Rightarrow> go_err + string"
  ld_brokerMode :: string
  ld_newBroker :: "string \<Rightarrow> broker_credential \<Rightarrow> parsed \<Rightarrow> go_err + 'b broker"
  ld_algoPolicy :: policy
  ld_router :: "router option"

record 'b live_state =
  ls_redis :: redis
  ls_broker :: 'b
  ls_links :: "(string \<times> string) list"

definition OAuthEnabledSettingKey :: string where "OAuthEnabledSettingKey = ''zerodha_oauth_enabled''"
definition PublisherEnabledSettingKey :: string where "PublisherEnabledSettingKey = ''zerodha_publisher_enabled''"

text \<open>\<^verbatim>\<open>zerodhasettings\<close>: enabled when unset or unreadable.\<close>

definition setting_enabled :: "(string \<Rightarrow> go_err + string option) \<Rightarrow> string \<Rightarrow> bool" where
  "setting_enabled GetPlatformSetting key =
     (case GetPlatformSetting key of Inr (Some v) \<Rightarrow> v = ''true'' | _ \<Rightarrow> True)"

definition OAuthEnabled :: "(string \<Rightarrow> go_err + string option) \<Rightarrow> bool" where
  "OAuthEnabled s = setting_enabled s OAuthEnabledSettingKey"

definition PublisherEnabled :: "(string \<Rightarrow> go_err + string option) \<Rightarrow> bool" where
  "PublisherEnabled s = setting_enabled s PublisherEnabledSettingKey"

definition broker_fail :: "string \<Rightarrow> string \<Rightarrow> string \<Rightarrow> run_err" where
  "broker_fail code msg brokerType = ExecErr (BrokerNew code msg) brokerType"

text \<open>The checks before anything is counted: the credential, the adapter.\<close>

definition live_credential :: "'b live_deps \<Rightarrow> exec_request \<Rightarrow> run_err + broker_credential" where
  "live_credential d req =
     (case ld_GetBrokerCred d (er_AccountID req) of
        Inr (Some cred) \<Rightarrow>
          (case (case ld_router d of None \<Rightarrow> None | Some r \<Rightarrow> RequireBroker r (bc_BrokerType cred)) of
             Some e \<Rightarrow> Inl (broker_fail CodeInternal (err_text e) (bc_BrokerType cred))
           | None \<Rightarrow> Inr cred)
      | _ \<Rightarrow> Inl (broker_fail CodeInvalidCredentials ''broker credentials not found'' []))"

text \<open>The count of the credential's orders; an error of Redis lets the order pass.\<close>

definition live_rate_limit :: "'b live_deps \<Rightarrow> broker_credential \<Rightarrow> int \<Rightarrow> 'b live_state \<Rightarrow> bool \<times> 'b live_state" where
  "live_rate_limit d cred now st =
     (if \<not> ld_redis_up d then (True, st)
      else case IncrBrokerCredRateLimit (bc_ID cred) now (ls_redis st) of
             (Inl _, r) \<Rightarrow> (True, st\<lparr>ls_redis := r\<rparr>)
           | (Inr n, r) \<Rightarrow> (n \<le> BrokerCredOrdersPerSecCap, st\<lparr>ls_redis := r\<rparr>))"

definition zerodha_allowed :: "'b live_deps \<Rightarrow> broker_credential \<Rightarrow> bool" where
  "zerodha_allowed d cred =
     (if bc_BrokerType cred \<noteq> ''zerodha'' then True
      else if bc_ExecutionMode cred = ExecutionModePublisher then PublisherEnabled (ld_GetPlatformSetting d)
      else OAuthEnabled (ld_GetPlatformSetting d))"

definition zerodha_disabled_msg :: "broker_credential \<Rightarrow> string" where
  "zerodha_disabled_msg cred =
     (if bc_ExecutionMode cred = ExecutionModePublisher
      then ''zerodha Kite Publisher execution is currently disabled by the platform admin''
      else ''zerodha User OAuth API execution is currently disabled by the platform admin'')"

text \<open>
  From the user to the request that is placed: what is left of the function before the broker is
  called. It changes nothing.
\<close>

definition live_order ::
  "'b live_deps \<Rightarrow> exec_request \<Rightarrow> broker_credential \<Rightarrow> 'b \<Rightarrow> run_err + ('b broker \<times> f64 \<times> place_request)" where
  "live_order d req cred bst =
     (let bt = bc_BrokerType cred in
      case ld_GetUserByID d (er_UserID req) of
        Inr (Some user) \<Rightarrow>
          (case ResolveExecution (ld_brokerMode d) (EffectivePlan (u_Plan user)) (Some cred) of
             Inl e \<Rightarrow> Inl (ExecErr (broker_error (tradeCodeForLiveAccess e)) bt)
           | Inr mode \<Rightarrow>
          (case ld_decrypt d (bc_EncryptedCreds cred) (bc_ID cred) of
             Inl _ \<Rightarrow> Inl (broker_fail CodeInvalidCredentials ''credential decrypt failed'' bt)
           | Inr plaintext \<Rightarrow>
          (case ParseCreds bt plaintext of
             Inl _ \<Rightarrow> Inl (ExecErr (broker_error CodeInvalidCredentials) bt)
           | Inr p \<Rightarrow>
          (let cred = cred\<lparr>bc_EncryptedCreds := plaintext\<rparr> in
           if \<not> zerodha_allowed d cred then Inl (broker_fail CodeInternal (zerodha_disabled_msg cred) bt)
           else
          (case ld_newBroker d mode cred p of
             Inl e \<Rightarrow> Inl (broker_fail CodeInvalidCredentials (err_text e) bt)
           | Inr b \<Rightarrow>
          (case ApplyMaxLotSize (er_MaxLotSize req)
                  (ResolveLotFor b bt (er_Quantity req) (er_FixedLotSize req) (er_MaxRiskPct req)
                     (er_SLPoints req) bst) of
             Inl e \<Rightarrow> Inl (broker_fail CodeInternal (err_text e) bt)
           | Inr lot \<Rightarrow>
          (case Build (er_OrderType req) (Some cred)
                  \<lparr> tp_Symbol = er_Symbol req, tp_Lot = 0, tp_SLPts = er_SLPoints req,
                    tp_TPPts = er_TPPoints req, tp_Price = er_Price req, tp_Product = er_Product req \<rparr> lot of
             Inl e \<Rightarrow> Inl (ExecErr e bt)
           | Inr pr \<Rightarrow>
          (case ResolveForExecution (Some cred) mode (ld_algoPolicy d) of
             Inl e \<Rightarrow> Inl (ExecErr e bt)
           | Inr algoID \<Rightarrow>
               Inr (b, lot, pr\<lparr>pr_Action := er_Side req, pr_Comment := er_Comment req, pr_AlgoID := algoID\<rparr>)))))))))
      | _ \<Rightarrow> Inl (broker_fail CodeInternal ''user not found'' bt))"

definition live_status :: "string \<Rightarrow> string" where
  "live_status s =
     (if s = StatusFilled then StatusFilled else if s = StatusRejected then StatusRejected
      else if s = StatusPendingConfirmation then StatusPendingConfirmation else StatusSubmitted)"

definition live_result :: "string \<Rightarrow> f64 \<Rightarrow> place_request \<Rightarrow> order_result \<Rightarrow> exec_result" where
  "live_result brokerType lot pr ores = zero_result
     \<lparr> xr_OrderID := or_OrderID ores, xr_Quantity := lot, xr_OrderType := pr_OrderType pr,
       xr_AlgoID := pr_AlgoID pr, xr_BrokerType := brokerType, xr_Status := live_status (or_Status ores),
       xr_FillPrice := or_FillPrice ores, xr_SLPrice := or_SLPrice ores, xr_TPPrice := or_TPPrice ores,
       xr_Handoff := or_Handoff ores \<rparr>"

definition ExecuteLive ::
  "'b live_deps \<Rightarrow> int \<Rightarrow> exec_request \<Rightarrow> 'b live_state \<Rightarrow> (run_err + exec_result) \<times> 'b live_state" where
  "ExecuteLive d now req st =
     (case live_credential d req of
        Inl e \<Rightarrow> (Inl e, st)
      | Inr cred \<Rightarrow>
         (let (ok, st) = live_rate_limit d cred now st in
          if \<not> ok then
            (Inl (broker_fail CodeRateLimited
               (''broker credential rate limit exceeded ('' @ fmt_d BrokerCredOrdersPerSecCap @ '' req/s)'')
               (bc_BrokerType cred)), st)
          else
            (case live_order d req cred (ls_broker st) of
               Inl e \<Rightarrow> (Inl e, st)
             | Inr (b, lot, pr) \<Rightarrow>
                 (case br_PlaceOrder b pr (ls_broker st) of
                    (Inl e, bst) \<Rightarrow> (Inl (ExecErr e (bc_BrokerType cred)), st\<lparr>ls_broker := bst\<rparr>)
                  | (Inr ores, bst) \<Rightarrow>
                      (let res = live_result (bc_BrokerType cred) lot pr ores;
                           st = st\<lparr>ls_broker := bst\<rparr>
                       in (Inr res,
                           if xr_Status res = StatusPendingConfirmation \<and> or_OrderID ores \<noteq> []
                           then st\<lparr>ls_links := (or_OrderID ores, er_SignalID req) # ls_links st\<rparr> else st))))))"

subsection \<open>The gates of a live order\<close>

lemma live_order_Inr:
  assumes "live_order d req cred bst = Inr (b, lot, pr)"
  obtains user mode plaintext p pr0 algoID where
    "ld_GetUserByID d (er_UserID req) = Inr (Some user)"
    "ResolveExecution (ld_brokerMode d) (u_Plan user) (Some cred) = Inr mode"
    "ld_decrypt d (bc_EncryptedCreds cred) (bc_ID cred) = Inr plaintext"
    "ParseCreds (bc_BrokerType cred) plaintext = Inr p"
    "zerodha_allowed d cred"
    "ld_newBroker d mode (cred\<lparr>bc_EncryptedCreds := plaintext\<rparr>) p = Inr b"
    "ApplyMaxLotSize (er_MaxLotSize req) (ResolveLotFor b (bc_BrokerType cred) (er_Quantity req)
       (er_FixedLotSize req) (er_MaxRiskPct req) (er_SLPoints req) bst) = Inr lot"
    "Build (er_OrderType req) (Some (cred\<lparr>bc_EncryptedCreds := plaintext\<rparr>))
       \<lparr> tp_Symbol = er_Symbol req, tp_Lot = 0, tp_SLPts = er_SLPoints req,
         tp_TPPts = er_TPPoints req, tp_Price = er_Price req, tp_Product = er_Product req \<rparr> lot = Inr pr0"
    "ResolveForExecution (Some (cred\<lparr>bc_EncryptedCreds := plaintext\<rparr>)) mode (ld_algoPolicy d) = Inr algoID"
    "pr = pr0\<lparr>pr_Action := er_Side req, pr_Comment := er_Comment req, pr_AlgoID := algoID\<rparr>"
  using assms
  by (auto simp: live_order_def Let_def EffectivePlan_def zerodha_allowed_def
      split: sum.splits option.splits if_splits)

text \<open>Everything that stands between a request and the call of the broker.\<close>

definition live_gates ::
  "'b live_deps \<Rightarrow> int \<Rightarrow> exec_request \<Rightarrow> 'b live_state \<Rightarrow> broker_credential \<Rightarrow> 'b broker \<Rightarrow> f64 \<Rightarrow>
   place_request \<Rightarrow> bool" where
  "live_gates d now req st cred b lot pr \<longleftrightarrow>
     ld_GetBrokerCred d (er_AccountID req) = Inr (Some cred) \<and>
     (\<forall>r. ld_router d = Some r \<longrightarrow> IsBrokerEnabled r (bc_BrokerType cred)) \<and>
     (\<forall>n. ld_redis_up d \<and> fst (IncrBrokerCredRateLimit (bc_ID cred) now (ls_redis st)) = Inr n
        \<longrightarrow> n \<le> BrokerCredOrdersPerSecCap) \<and>
     (\<exists>user. ld_GetUserByID d (er_UserID req) = Inr (Some user) \<and> LiveAllowed (LimitsFor (u_Plan user))) \<and>
     zerodha_allowed d cred \<and>
     (\<forall>m. er_MaxLotSize req = Fin m \<and> 0 < m \<longrightarrow> \<not> Fin m < lot) \<and>
     pr_Action pr = er_Side req \<and> pr_BrokerType pr = bc_BrokerType cred \<and>
     (bc_BrokerType cred \<in> set indianBrokers \<longrightarrow> pr_Quantity pr = f64_of_int (share_quantity lot))"

lemma Build_BrokerType: "Build ot (Some cred) ps lot = Inr pr \<Longrightarrow> pr_BrokerType pr = bc_BrokerType cred"
  by (auto simp: Build_def Let_def build_indian_def base_place_request_def split: if_splits option.splits sum.splits)

lemma Build_quantity:
  "Build ot (Some cred) ps lot = Inr pr \<Longrightarrow> bc_BrokerType cred \<in> set indianBrokers \<Longrightarrow>
     pr_Quantity pr = f64_of_int (share_quantity lot)"
  by (auto simp: Build_def Let_def build_indian_def indianBrokers_def split: if_splits option.splits sum.splits)

lemma live_credential_Inr:
  "live_credential d req = Inr cred \<Longrightarrow>
     ld_GetBrokerCred d (er_AccountID req) = Inr (Some cred) \<and>
     (\<forall>r. ld_router d = Some r \<longrightarrow> IsBrokerEnabled r (bc_BrokerType cred))"
  by (auto simp: live_credential_def RequireBroker_def split: sum.splits option.splits if_splits)

lemma live_rate_limit_frame:
  "live_rate_limit d cred now st = (ok, st') \<Longrightarrow> ls_broker st' = ls_broker st \<and> ls_links st' = ls_links st"
  by (auto simp: live_rate_limit_def split: if_splits sum.splits prod.splits)

lemma live_rate_limit_True:
  "live_rate_limit d cred now st = (True, st') \<Longrightarrow>
     ld_redis_up d \<and> fst (IncrBrokerCredRateLimit (bc_ID cred) now (ls_redis st)) = Inr n \<Longrightarrow>
     n \<le> BrokerCredOrdersPerSecCap"
  by (auto simp: live_rate_limit_def split: if_splits sum.splits prod.splits)

lemma live_order_gates:
  assumes "live_order d req cred bst = Inr (b, lot, pr)"
  shows "(\<exists>user. ld_GetUserByID d (er_UserID req) = Inr (Some user) \<and> LiveAllowed (LimitsFor (u_Plan user))) \<and>
     zerodha_allowed d cred \<and> (\<forall>m. er_MaxLotSize req = Fin m \<and> 0 < m \<longrightarrow> \<not> Fin m < lot) \<and>
     pr_Action pr = er_Side req \<and> pr_BrokerType pr = bc_BrokerType cred \<and>
     (bc_BrokerType cred \<in> set indianBrokers \<longrightarrow> pr_Quantity pr = f64_of_int (share_quantity lot))"
  using assms
proof (cases rule: live_order_Inr)
  case (1 user mode plaintext p pr0 algoID)
  have "LiveAllowed (LimitsFor (u_Plan user))" using 1(2) by (auto simp: ResolveExecution_def split: if_splits)
  moreover have "\<not> Fin m < lot" if "er_MaxLotSize req = Fin m" "0 < m" for m
    using 1(7) that by (auto simp: ApplyMaxLotSize_def split: if_splits)
  ultimately show ?thesis
    using 1(1,5,10) Build_BrokerType [OF 1(8)] Build_quantity [OF 1(8)] by auto
qed


end
