(* ===== verification/AdapterServer.thy ===== *)
theory AdapterServer
  imports Adapters
begin

section \<open>The adapter server, its idempotency cache and the HTTP adapters\<close>

text \<open>
  Models \<^verbatim>\<open>internal/execution/adapter/server\<close> (the executors, the idempotent executor, the orders
  endpoint with its service token), \<^verbatim>\<open>adapter/http\<close> (the client and the adapters that call a remote
  server), \<^verbatim>\<open>adapter/local/paper.go\<close> and \<^verbatim>\<open>orchestrator.go\<close>.

  A runner or executor works on a state of its own, a type parameter. The network is a parameter of
  the client: it takes the state of the far side along.
\<close>

type_synonym 's runner = "exec_request \<Rightarrow> 's \<Rightarrow> (run_err + exec_result) \<times> 's"
type_synonym 's executor = "exec_command \<Rightarrow> 's \<Rightarrow> (go_err + exec_outcome) \<times> 's"

fun run_err_text :: "run_err \<Rightarrow> string" where
  "run_err_text (RunErr e) = err_text e"
| "run_err_text (ExecErr e bt) = err_text e"

subsection \<open>Runners\<close>

text \<open>\<^verbatim>\<open>PaperAdapter\<close>: \<open>None\<close> is a nil engine.\<close>

definition PaperAdapterExecute :: "'s runner option \<Rightarrow> 's runner" where
  "PaperAdapterExecute engine req s =
     (case engine of
        None \<Rightarrow> (Inl (RunErr (Errorf ''paper trading engine not configured'')), s)
      | Some run \<Rightarrow> run req s)"

definition ErrOrchestratorNotConfigured :: go_err where
  "ErrOrchestratorNotConfigured = Sentinel ''execution orchestrator not configured''"

record 's orchestrator =
  oc_live :: "'s runner option"
  oc_paper :: "'s runner option"

definition orchestrate :: "'s runner option \<Rightarrow> 's runner" where
  "orchestrate runner req s =
     (case runner of
        None \<Rightarrow> (Inl (RunErr (Wrapf [] ErrOrchestratorNotConfigured [])), s)
      | Some run \<Rightarrow> run req s)"

definition OrchestratorExecuteLive :: "'s orchestrator option \<Rightarrow> 's runner" where
  "OrchestratorExecuteLive oc = orchestrate (case oc of None \<Rightarrow> None | Some c \<Rightarrow> oc_live c)"

definition OrchestratorExecutePaper :: "'s orchestrator option \<Rightarrow> 's runner" where
  "OrchestratorExecutePaper oc = orchestrate (case oc of None \<Rightarrow> None | Some c \<Rightarrow> oc_paper c)"

subsection \<open>Executors\<close>

definition live_rejection :: "string \<Rightarrow> run_err \<Rightarrow> exec_outcome" where
  "live_rejection requestID err =
     (case err of
        RunErr e \<Rightarrow> zero_outcome
          \<lparr> eo_RequestID := requestID, eo_Status := ''rejected'', eo_BrokerType := [],
            eo_ErrorCode := fst (TradeFields (Some e)), eo_ErrorMessage := snd (TradeFields (Some e)) \<rparr>
      | ExecErr e bt \<Rightarrow> zero_outcome
          \<lparr> eo_RequestID := requestID, eo_Status := ''rejected'', eo_BrokerType := bt,
            eo_ErrorCode := fst (TradeFields (Some e)), eo_ErrorMessage := snd (TradeFields (Some e)) \<rparr>)"

definition LivePlaceOrder :: "'s runner \<Rightarrow> 's executor" where
  "LivePlaceOrder live cmd s =
     (case live (ToExecutionRequest cmd) s of
        (Inl e, s') \<Rightarrow> (Inr (live_rejection (ec_RequestID cmd) e), s')
      | (Inr r, s') \<Rightarrow> (Inr (OutcomeFromResult (ec_RequestID cmd) (Some r) (xr_BrokerType r)), s'))"

definition PaperPlaceOrder :: "'s runner \<Rightarrow> 's executor" where
  "PaperPlaceOrder paper cmd s =
     (case paper (ToExecutionRequest cmd) s of
        (Inl e, s') \<Rightarrow>
          (Inr (zero_outcome \<lparr> eo_RequestID := ec_RequestID cmd, eo_Status := ''rejected'',
                               eo_ErrorMessage := run_err_text e \<rparr>), s')
      | (Inr r, s') \<Rightarrow> (Inr (OutcomeFromResult (ec_RequestID cmd) (Some r) ''paper''), s'))"

subsection \<open>The idempotent executor\<close>

definition adapterIdempotencyTTL :: int where "adapterIdempotencyTTL = 24 * 3600000"

definition idempotency_key :: "exec_command \<Rightarrow> string" where
  "idempotency_key cmd = (if ec_IdempotencyKey cmd = [] then ec_RequestID cmd else ec_IdempotencyKey cmd)"

text \<open>
  The state is the Redis store and the inner executor's state. \<open>get_ok\<close> and \<open>put_ok\<close> say whether the
  store answers: an error of the lookup is a miss, an error of the write is dropped. \<open>now\<close> is the
  time of the lookup, \<open>done\<close> the time of the write.
\<close>

definition idem_lookup :: "bool \<Rightarrow> string \<Rightarrow> int \<Rightarrow> redis \<Rightarrow> exec_outcome option" where
  "idem_lookup get_ok key now r =
     (if key = [] \<or> \<not> get_ok then None
      else case GetAdapterOrderOutcome key now r of Inr (Some out) \<Rightarrow> Some out | _ \<Rightarrow> None)"

definition idem_store :: "bool \<Rightarrow> string \<Rightarrow> exec_outcome \<Rightarrow> int \<Rightarrow> redis \<Rightarrow> redis" where
  "idem_store put_ok key out now r =
     (if key = [] \<or> \<not> put_ok then r else PutAdapterOrderOutcome key out adapterIdempotencyTTL now r)"

definition IdempotentPlaceOrder ::
  "bool \<Rightarrow> bool \<Rightarrow> int \<Rightarrow> int \<Rightarrow> 's executor \<Rightarrow> (redis \<times> 's) executor" where
  "IdempotentPlaceOrder get_ok put_ok now finished inner cmd st =
     (let key = idempotency_key cmd in
      case idem_lookup get_ok key now (fst st) of
        Some out \<Rightarrow> (Inr out, st)
      | None \<Rightarrow>
          (case inner cmd (snd st) of
             (Inl e, s) \<Rightarrow> (Inl e, (fst st, s))
           | (Inr out, s) \<Rightarrow> (Inr out, (idem_store put_ok key out finished (fst st), s))))"

subsection \<open>The contract of calls behind a cache\<close>

text \<open>
  Calls that are answered from an expiring store and recorded in it under a key. A call reads the store at one instant and
  writes it at another, and either may fail: \<open>reads\<close> and \<open>writes\<close> say which calls get through, \<open>kept\<close> which results the store
  can hold. A call that does not read is a miss.
\<close>

locale cached_calls = expiring_store get put put_new
  for get :: "'s \<Rightarrow> int \<Rightarrow> 'k \<Rightarrow> 'v option"
    and put :: "'s \<Rightarrow> int \<Rightarrow> 'k \<Rightarrow> 'v \<Rightarrow> int \<Rightarrow> 's"
    and put_new :: "'s \<Rightarrow> int \<Rightarrow> 'k \<Rightarrow> 'v \<Rightarrow> int \<Rightarrow> bool \<times> 's" +
  fixes key :: "'c \<Rightarrow> 'k"
    and reads :: "'c \<Rightarrow> bool"
    and writes :: "'c \<Rightarrow> bool"
    and starts :: "'c \<Rightarrow> int"
    and ends :: "'c \<Rightarrow> int"
    and kept :: "'v \<Rightarrow> bool"
    and ttl :: int
    and exec :: "'c \<Rightarrow> 'w \<Rightarrow> ('e + 'v) \<times> 'w"
    and call :: "'c \<Rightarrow> 's \<times> 'w \<Rightarrow> ('e + 'v) \<times> ('s \<times> 'w)"
  assumes hit: "reads c \<Longrightarrow> get s (starts c) (key c) = Some v \<Longrightarrow> call c (s, w) = (Inr v, (s, w))"
    and miss: "reads c \<longrightarrow> get s (starts c) (key c) = None \<Longrightarrow> exec c w = (Inr v, w') \<Longrightarrow> writes c \<Longrightarrow> kept v \<Longrightarrow>
      call c (s, w) = (Inr v, (put s (ends c) (key c) v ttl, w'))"
begin

fun calls :: "'c list \<Rightarrow> 's \<times> 'w \<Rightarrow> ('e + 'v) list \<times> ('s \<times> 'w)" where
  "calls [] st = ([], st)"
| "calls (c # cs) st = (let (r, st1) = call c st; (rs, st2) = calls cs st1 in (r # rs, st2))"

lemma calls_hit:
  "get s e k = Some v \<Longrightarrow> \<forall>c \<in> set cs. starts c \<le> e \<and> reads c \<and> key c = k \<Longrightarrow>
     calls cs (s, w) = (replicate (length cs) (Inr v), (s, w))"
proof (induction cs)
  case (Cons c cs)
  have "get s (starts c) (key c) = Some v" using Cons.prems get_earlier [of s e k v "starts c"] by simp
  then have "call c (s, w) = (Inr v, (s, w))" using Cons.prems hit by simp
  then show ?case using Cons by simp
qed simp

lemma executed_once:
  assumes "reads c \<longrightarrow> get s (starts c) (key c) = None" "exec c w = (Inr v, w')" "writes c" "kept v"
    and "\<forall>c' \<in> set cs. starts c' < ends c + ttl \<and> reads c' \<and> key c' = key c"
  shows "calls (c # cs) (s, w) = (replicate (Suc (length cs)) (Inr v), (put s (ends c) (key c) v ttl, w'))"
proof -
  let ?s = "put s (ends c) (key c) v ttl"
  have "calls cs (?s, w') = (replicate (length cs) (Inr v), (?s, w'))"
  proof (cases cs)
    case (Cons c' cs')
    then have "0 < ends c + ttl - starts c'" using assms(5) by simp
    let ?e = "ends c + ttl - 1"
    have "get ?s ?e (key c) = Some v" by (simp add: get_put)
    moreover have "\<forall>c' \<in> set cs. starts c' \<le> ?e \<and> reads c' \<and> key c' = key c" using assms(5) by fastforce
    ultimately show ?thesis by (rule calls_hit)
  qed simp
  then show ?thesis by (simp add: miss [OF assms(1-4)])
qed

end

text \<open>The outcomes Redis holds, as a store with expiry.\<close>

definition outcome_get :: "redis \<Rightarrow> int \<Rightarrow> string \<Rightarrow> exec_outcome option" where
  "outcome_get r now key =
     (case rget r now (adapterIdempotencyPrefix @ key) of Some (DOutcome out) \<Rightarrow> Some out | _ \<Rightarrow> None)"

definition outcome_put :: "redis \<Rightarrow> int \<Rightarrow> string \<Rightarrow> exec_outcome \<Rightarrow> int \<Rightarrow> redis" where
  "outcome_put r now key out ttl = rset r now (adapterIdempotencyPrefix @ key) (DOutcome out) ttl"

definition outcome_put_new :: "redis \<Rightarrow> int \<Rightarrow> string \<Rightarrow> exec_outcome \<Rightarrow> int \<Rightarrow> bool \<times> redis" where
  "outcome_put_new r now key out ttl =
     (if outcome_get r now key = None then (True, outcome_put r now key out ttl) else (False, r))"

lemma idem_lookup_ok: "key \<noteq> [] \<Longrightarrow> idem_lookup True key now r = outcome_get r now key"
  by (auto simp: idem_lookup_def GetAdapterOrderOutcome_def outcome_get_def split: option.splits redis_value.splits)

lemma idem_store_ok:
  "key \<noteq> [] \<Longrightarrow> outcome_finite out \<Longrightarrow> idem_store True key out now r = outcome_put r now key out adapterIdempotencyTTL"
  by (simp add: idem_store_def PutAdapterOrderOutcome_def outcome_put_def adapterIdempotencyTTL_def)

text \<open>
  A command as a server gets it: whether the store answers its lookup and its write, and the times of the two.
\<close>

record submission =
  sb_get_ok :: bool
  sb_put_ok :: bool
  sb_at :: int
  sb_end :: int
  sb_cmd :: exec_command

definition submission_key :: "submission \<Rightarrow> string" where
  "submission_key c = idempotency_key (sb_cmd c)"

definition looks_up :: "submission \<Rightarrow> bool" where
  "looks_up c = (sb_get_ok c \<and> submission_key c \<noteq> [])"

definition records :: "submission \<Rightarrow> bool" where
  "records c = (sb_put_ok c \<and> submission_key c \<noteq> [])"

definition submit :: "'s executor \<Rightarrow> submission \<Rightarrow> redis \<times> 's \<Rightarrow> (go_err + exec_outcome) \<times> (redis \<times> 's)" where
  "submit inner c = IdempotentPlaceOrder (sb_get_ok c) (sb_put_ok c) (sb_at c) (sb_end c) inner (sb_cmd c)"

interpretation outcomes: expiring_store outcome_get outcome_put outcome_put_new
proof
  show "outcome_get (outcome_put s now k v ttl) t k' =
      (if k' = k then if t < now + ttl then Some v else None else outcome_get s t k')" for s now k v ttl t k'
    by (simp add: outcome_get_def outcome_put_def rds.get_put)
  show "outcome_put_new s now k v ttl =
      (if outcome_get s now k = None then (True, outcome_put s now k v ttl) else (False, s))" for s now k v ttl
    by (simp add: outcome_put_new_def)
  show "outcome_get s t k = Some v \<Longrightarrow> t' \<le> t \<Longrightarrow> outcome_get s t' k = Some v" for s t k v t'
  proof -
    assume v: "outcome_get s t k = Some v" and t: "t' \<le> t"
    then obtain w where w: "rget s t (adapterIdempotencyPrefix @ k) = Some w"
      by (cases "rget s t (adapterIdempotencyPrefix @ k)") (simp_all add: outcome_get_def)
    from rds.get_earlier [OF w t] v w show "outcome_get s t' k = Some v" by (simp add: outcome_get_def)
  qed
qed

interpretation idem: cached_calls outcome_get outcome_put outcome_put_new submission_key looks_up records sb_at sb_end
  outcome_finite adapterIdempotencyTTL "\<lambda>c. inner (sb_cmd c)" "submit inner"
  for inner :: "'s executor"
proof
  show "submit inner c (s, w) = (Inr v, (s, w))"
    if "looks_up c" "outcome_get s (sb_at c) (submission_key c) = Some v" for c s v w
    using that by (simp add: submit_def IdempotentPlaceOrder_def looks_up_def submission_key_def idem_lookup_ok)
  show "submit inner c (s, w) =
      (Inr v, (outcome_put s (sb_end c) (submission_key c) v adapterIdempotencyTTL, w'))"
    if "looks_up c \<longrightarrow> outcome_get s (sb_at c) (submission_key c) = None" "inner (sb_cmd c) w = (Inr v, w')" "records c"
      "outcome_finite v" for c s w v w'
  proof -
    have k: "idempotency_key (sb_cmd c) \<noteq> []" "sb_put_ok c" using that(3) by (simp_all add: records_def submission_key_def)
    have "idem_lookup (sb_get_ok c) (idempotency_key (sb_cmd c)) (sb_at c) s = None"
      using that(1) k(1) by (cases "sb_get_ok c") (simp_all add: looks_up_def submission_key_def idem_lookup_ok, simp add: idem_lookup_def)
    then show ?thesis using that(2,4) k
      by (simp add: submit_def IdempotentPlaceOrder_def submission_key_def idem_store_ok)
  qed
qed

text \<open>The commands a server gets, one after the other.\<close>

fun submissions :: "'s executor \<Rightarrow> submission list \<Rightarrow> redis \<times> 's \<Rightarrow> (go_err + exec_outcome) list \<times> (redis \<times> 's)" where
  "submissions inner [] st = ([], st)"
| "submissions inner (c # rest) st =
     (let (r, st1) = submit inner c st; (rs, st2) = submissions inner rest st1 in (r # rs, st2))"

lemma submissions_calls: "submissions inner cs st = idem.calls inner cs st"
  by (induction cs arbitrary: st) (simp_all add: case_prod_beta)

text \<open>
  C16. An order is placed once, whatever becomes of it. When a live command with a key was run, its outcome is finite and Redis
  took it, every later command with the same key whose lookup Redis answers within a day of that is given this outcome, and the
  runner is called for the first command only, whatever else the others hold. A refusal is an outcome like any other: the retry of
  an order that the broker refused is answered with the refusal, and does not reach the broker.
\<close>

theorem order_placed_once:
  assumes "idempotency_key (sb_cmd c) = key" "key \<noteq> []" "sb_put_ok c" "sb_get_ok c \<longrightarrow> outcome_get r (sb_at c) key = None"
    and "\<forall>c' \<in> set retries. sb_get_ok c' \<and> sb_at c' < sb_end c + 24 * 3600000 \<and> idempotency_key (sb_cmd c') = key"
    and "live (ToExecutionRequest (sb_cmd c)) s = (res, s')" "\<forall>x. res = Inr x \<longrightarrow> is_fin (xr_FillPrice x) \<and> is_fin (xr_Quantity x) \<and>
      is_fin (xr_SLPrice x) \<and> is_fin (xr_TPPrice x)"
  shows "\<exists>out. fst (submissions (LivePlaceOrder live) (c # retries) (r, s)) = replicate (Suc (length retries)) (Inr out) \<and>
    snd (snd (submissions (LivePlaceOrder live) (c # retries) (r, s))) = s' \<and>
    (case res of Inl e \<Rightarrow> out = live_rejection (ec_RequestID (sb_cmd c)) e
     | Inr x \<Rightarrow> out = OutcomeFromResult (ec_RequestID (sb_cmd c)) (Some x) (xr_BrokerType x))"
proof -
  define out where "out = (case res of Inl e \<Rightarrow> live_rejection (ec_RequestID (sb_cmd c)) e
     | Inr x \<Rightarrow> OutcomeFromResult (ec_RequestID (sb_cmd c)) (Some x) (xr_BrokerType x))"
  have run: "LivePlaceOrder live (sb_cmd c) s = (Inr out, s')"
    by (simp add: LivePlaceOrder_def assms(6) out_def split: sum.split)
  have fin: "outcome_finite out"
    using assms(7) by (auto simp: out_def outcome_finite_def OutcomeFromResult_def live_rejection_def zero_outcome_def split: sum.split run_err.split)
  have "looks_up c \<longrightarrow> outcome_get r (sb_at c) (submission_key c) = None" "records c"
    "\<forall>c' \<in> set retries. sb_at c' < sb_end c + adapterIdempotencyTTL \<and> looks_up c' \<and> submission_key c' = submission_key c"
    using assms(1-5) by (auto simp: looks_up_def records_def submission_key_def adapterIdempotencyTTL_def)
  note once = idem.executed_once [where inner = "LivePlaceOrder live" and cs = retries, OF this(1) run this(2) fin this(3), folded submissions_calls]
  show ?thesis unfolding once by (intro exI [of _ out]) (simp add: out_def split: sum.split)
qed

text \<open>An order that the broker refuses at first: the second command does not reach it.\<close>

definition sample_submission :: "int \<Rightarrow> submission" where
  "sample_submission t = \<lparr> sb_get_ok = True, sb_put_ok = True, sb_at = t, sb_end = t,
     sb_cmd = BuildPaperCommand (zero_request\<lparr>er_SignalID := ''t1''\<rparr>) None ''t1'' \<rparr>"

definition refusing_runner :: "int runner" where
  "refusing_runner req n = (Inl (ExecErr (BrokerNew CodeRateLimited ''slow down'') ''zerodha''), n + 1)"

theorem order_placed_once_witness:
  "snd (snd (submissions (LivePlaceOrder refusing_runner) [sample_submission 0, sample_submission 5000] (empty_redis, 0))) = 1"
proof -
  have k: "idempotency_key (sb_cmd (sample_submission t)) = ''t1''" for t
    by (simp add: sample_submission_def BuildPaperCommand_def idempotency_key_def)
  have "outcome_get empty_redis 0 ''t1'' = None" by (simp add: outcome_get_def empty_redis_def rget_def)
  moreover have "refusing_runner (ToExecutionRequest (sb_cmd (sample_submission 0))) 0 =
      (Inl (ExecErr (BrokerNew CodeRateLimited ''slow down'') ''zerodha''), 1)" by (simp add: refusing_runner_def)
  moreover have "sb_put_ok (sample_submission t)" "sb_get_ok (sample_submission t)" "sb_at (sample_submission t) = t"
    "sb_end (sample_submission t) = t" for t by (simp_all add: sample_submission_def)
  ultimately show ?thesis
    using order_placed_once [of "sample_submission 0" "''t1''" empty_redis "[sample_submission 5000]" refusing_runner 0 _ 1, OF k]
    by (simp add: k del: submissions.simps)
qed

subsection \<open>Calls that overlap\<close>

text \<open>
  The three steps of \<^verbatim>\<open>IdempotentExecutor.PlaceOrder\<close> as the server's goroutines take them. Every call
  has the same key; \<open>cc_phase\<close> is where each call is, \<open>cc_placed\<close> the calls the inner executor was
  given, in order, \<open>cc_stored\<close> the recorded outcome.
\<close>

datatype phase = Arrived | Missed | Placed exec_outcome | Answered exec_outcome

record concurrent =
  cc_phase :: "nat \<Rightarrow> phase"
  cc_placed :: "nat list"
  cc_stored :: "exec_outcome option"

definition cc_start :: concurrent where
  "cc_start = \<lparr> cc_phase = (\<lambda>_. Arrived), cc_placed = [], cc_stored = None \<rparr>"

inductive cc_step :: "concurrent \<Rightarrow> concurrent \<Rightarrow> bool" where
  cc_hit: "cc_phase c i = Arrived \<Longrightarrow> cc_stored c = Some out \<Longrightarrow>
     cc_step c (c\<lparr>cc_phase := (cc_phase c)(i := Answered out)\<rparr>)"
| cc_miss: "cc_phase c i = Arrived \<Longrightarrow> cc_stored c = None \<Longrightarrow>
     cc_step c (c\<lparr>cc_phase := (cc_phase c)(i := Missed)\<rparr>)"
| cc_place: "cc_phase c i = Missed \<Longrightarrow>
     cc_step c (c\<lparr>cc_phase := (cc_phase c)(i := Placed out), cc_placed := cc_placed c @ [i]\<rparr>)"
| cc_record: "cc_phase c i = Placed out \<Longrightarrow>
     cc_step c (c\<lparr>cc_phase := (cc_phase c)(i := Answered out), cc_stored := Some out\<rparr>)"

inductive_cases cc_stepE: "cc_step c c'"

abbreviation cc_steps :: "concurrent \<Rightarrow> concurrent \<Rightarrow> bool" where
  "cc_steps \<equiv> cc_step\<^sup>*\<^sup>*"

text \<open>What holds in every reachable state: no call is placed twice, and none before it was missed.\<close>

definition cc_inv :: "concurrent \<Rightarrow> bool" where
  "cc_inv c \<longleftrightarrow> distinct (cc_placed c) \<and>
     (\<forall>i \<in> set (cc_placed c). cc_phase c i \<noteq> Arrived \<and> cc_phase c i \<noteq> Missed) \<and>
     (cc_stored c \<noteq> None \<longrightarrow> cc_placed c \<noteq> [])"

lemma cc_inv_step: "cc_step c c' \<Longrightarrow> cc_inv c \<Longrightarrow> (\<forall>i out. cc_phase c i = Placed out \<longrightarrow> i \<in> set (cc_placed c)) \<Longrightarrow>
    cc_inv c' \<and> (\<forall>i out. cc_phase c' i = Placed out \<longrightarrow> i \<in> set (cc_placed c'))"
  by (induction rule: cc_step.induct) (auto simp: cc_inv_def)

lemma cc_inv_reachable: "cc_steps cc_start c \<Longrightarrow> cc_inv c \<and> (\<forall>i out. cc_phase c i = Placed out \<longrightarrow> i \<in> set (cc_placed c))"
proof (induction rule: rtranclp_induct)
  case base
  show ?case by (simp add: cc_start_def cc_inv_def)
next
  case (step c c')
  then show ?case using cc_inv_step by blast
qed

text \<open>Once an outcome is recorded no call that arrives later is placed.\<close>

lemma cc_recorded_step:
  "cc_step c c' \<Longrightarrow> cc_stored c \<noteq> None \<Longrightarrow> cc_stored c' \<noteq> None \<and>
     {i. cc_phase c' i = Arrived} \<subseteq> {i. cc_phase c i = Arrived} \<and>
     {i. cc_phase c' i = Missed} \<subseteq> {i. cc_phase c i = Missed} \<and>
     set (cc_placed c') \<subseteq> set (cc_placed c) \<union> {i. cc_phase c i = Missed}"
  by (induction rule: cc_step.induct) (auto split: if_splits)

lemma cc_recorded_steps:
  "cc_steps c c' \<Longrightarrow> cc_stored c \<noteq> None \<Longrightarrow> cc_stored c' \<noteq> None \<and>
     {i. cc_phase c' i = Missed} \<subseteq> {i. cc_phase c i = Missed} \<and>
     set (cc_placed c') \<subseteq> set (cc_placed c) \<union> {i. cc_phase c i = Missed}"
proof (induction rule: rtranclp_induct)
  case (step c1 c2)
  then show ?case using cc_recorded_step [OF step.hyps(2)] by blast
qed auto

text \<open>
  What the cache promises to overlapping requests, and what it does not. A request reaches the
  broker at most once, and a request that arrives after an outcome was recorded never does. But the
  lookup and the record are not one step, so any number of requests with one key that overlap are all
  placed: for each n there is a run in which the first n requests each reach the broker.
\<close>

theorem overlapping_requests:
  shows "(\<forall>c. cc_steps cc_start c \<longrightarrow> distinct (cc_placed c) \<and>
      (cc_stored c \<noteq> None \<longrightarrow> (\<forall>i c'. cc_phase c i = Arrived \<and> cc_steps c c' \<longrightarrow> i \<notin> set (cc_placed c'))))
    \<and> (\<forall>n. \<exists>c. cc_steps cc_start c \<and> cc_placed c = [0 ..< n])"
proof (intro conjI allI impI)
  fix c assume c: "cc_steps cc_start c"
  show "distinct (cc_placed c)" using cc_inv_reachable [OF c] by (simp add: cc_inv_def)
  fix i c' assume s: "cc_stored c \<noteq> None" and i: "cc_phase c i = Arrived \<and> cc_steps c c'"
  then show "i \<notin> set (cc_placed c')"
    using cc_recorded_steps [of c c'] cc_inv_reachable [OF c] unfolding cc_inv_def by force
next
  fix n
  have miss: "\<exists>c. cc_steps cc_start c \<and> cc_phase c = (\<lambda>i. if i < n then Missed else Arrived) \<and>
      cc_placed c = [] \<and> cc_stored c = None" for n :: nat
  proof (induction n)
    case 0
    have "cc_phase cc_start = (\<lambda>i. if i < 0 then Missed else Arrived) \<and> cc_placed cc_start = [] \<and> cc_stored cc_start = None"
      by (simp add: cc_start_def)
    then show ?case by blast
  next
    case (Suc n)
    then obtain c where c: "cc_steps cc_start c" "cc_phase c = (\<lambda>i. if i < n then Missed else Arrived)"
      "cc_placed c = []" "cc_stored c = None" by blast
    let ?c = "c\<lparr>cc_phase := (cc_phase c)(n := Missed)\<rparr>"
    have "cc_step c ?c" using c by (intro cc_miss) auto
    with c(1) have "cc_steps cc_start ?c" by (rule rtranclp.rtrancl_into_rtrancl)
    moreover have "cc_phase ?c = (\<lambda>i. if i < Suc n then Missed else Arrived)" using c(2) by (auto simp: fun_eq_iff)
    ultimately show ?case using c(3,4) by (intro exI [of _ ?c]) simp
  qed
  have place: "\<exists>c. cc_steps cc_start c \<and> (\<forall>i. m \<le> i \<and> i < n \<longrightarrow> cc_phase c i = Missed) \<and> cc_placed c = [0 ..< m]"
    if "m \<le> n" for m
    using that
  proof (induction m)
    case 0
    from miss [of n] obtain c where "cc_steps cc_start c" "cc_phase c = (\<lambda>i. if i < n then Missed else Arrived)"
      "cc_placed c = []" by blast
    then show ?case by (intro exI [of _ c]) simp
  next
    case (Suc m)
    then obtain c where c: "cc_steps cc_start c" "\<forall>i. m \<le> i \<and> i < n \<longrightarrow> cc_phase c i = Missed" "cc_placed c = [0 ..< m]"
      by auto
    let ?c = "c\<lparr>cc_phase := (cc_phase c)(m := Placed zero_outcome), cc_placed := cc_placed c @ [m]\<rparr>"
    have "cc_step c ?c" using c(2) Suc.prems by (intro cc_place) simp
    with c(1) have "cc_steps cc_start ?c" by (rule rtranclp.rtrancl_into_rtrancl)
    then show ?case using c(2,3) by (intro exI [of _ ?c]) simp
  qed
  from place [OF order_refl] show "\<exists>c. cc_steps cc_start c \<and> cc_placed c = [0 ..< n]" by blast
qed

theorem overlapping_requests_witness:
  "\<exists>c. cc_steps cc_start c \<and> cc_placed c = [0, 1]"
  using overlapping_requests [THEN conjunct2, THEN spec, of 2] by (simp add: numeral_2_eq_2)

subsection \<open>The orders endpoint\<close>

record 's server_config =
  sv_Executor :: "'s executor"
  sv_ServiceToken :: string

text \<open>A reply: its status, and the outcome where the body is an envelope that holds one.\<close>

type_synonym reply = "int \<times> exec_outcome option"

definition RequireServiceToken :: "string \<Rightarrow> string \<Rightarrow> reply option" where
  "RequireServiceToken expected header =
     (if trim_space expected = [] then Some (503, None)
      else (let got = trim_space header in
            if got = [] \<or> got \<noteq> expected then Some (401, None) else None))"

text \<open>\<open>None\<close> for the body is one that does not parse; an outcome that is not finite has no JSON.\<close>

definition orders_endpoint :: "'s server_config \<Rightarrow> string \<Rightarrow> exec_command option \<Rightarrow> 's \<Rightarrow> reply \<times> 's" where
  "orders_endpoint cfg header body s =
     (case (if sv_ServiceToken cfg = [] then None else RequireServiceToken (sv_ServiceToken cfg) header) of
        Some refused \<Rightarrow> (refused, s)
      | None \<Rightarrow>
          (case body of
             None \<Rightarrow> ((400, None), s)
           | Some cmd \<Rightarrow>
               (case sv_Executor cfg cmd s of
                  (Inl e, s') \<Rightarrow> ((500, None), s')
                | (Inr out, s') \<Rightarrow>
                    (if outcome_finite out then ((200, Some out), s') else ((500, None), s')))))"

subsection \<open>The client\<close>

record client =
  cl_BaseURL :: string
  cl_ServiceToken :: string

definition trim_right_slash :: "string \<Rightarrow> string" where
  "trim_right_slash u = rev (dropWhile (\<lambda>c. c = CHR ''/'') (rev u))"

definition NewClient :: "string \<Rightarrow> string \<Rightarrow> client" where
  "NewClient baseURL serviceToken =
     \<lparr> cl_BaseURL = trim_right_slash (trim_space baseURL), cl_ServiceToken = trim_space serviceToken \<rparr>"

text \<open>
  The network: what a POST of a command with a token to an address gives, and what it does to the far
  side. An error is a request that got no answer.
\<close>

type_synonym 's network = "string \<Rightarrow> string \<Rightarrow> exec_command \<Rightarrow> 's \<Rightarrow> (go_err + reply) \<times> 's"

definition command_finite :: "exec_command \<Rightarrow> bool" where
  "command_finite cmd = (let p = ec_Order cmd in
     list_all is_fin [op_Quantity p, op_Price p, op_FixedLotSize p, op_MaxRiskPct p, op_MaxLotSize p,
       op_TickSize p, op_LotSize p, op_SlippageBps p, op_FeeBps p])"

definition unreachable :: "go_err \<Rightarrow> go_err" where
  "unreachable = BrokerWrap CodeBrokerUnreachable (PublicMessage CodeBrokerUnreachable)"

definition ClientPlaceOrder :: "'s network \<Rightarrow> client option \<Rightarrow> 's executor" where
  "ClientPlaceOrder net c cmd s =
     (case c of
        None \<Rightarrow> (Inl (Errorf ''adapter URL not configured''), s)
      | Some c \<Rightarrow>
          (if cl_BaseURL c = [] then (Inl (Errorf ''adapter URL not configured''), s)
           else if \<not> command_finite cmd then (Inl (Errorf ''json: unsupported value''), s)
           else
             (case net (cl_BaseURL c @ ''/v1/orders'') (cl_ServiceToken c) cmd s of
                (Inl e, s') \<Rightarrow> (Inl (unreachable e), s')
              | (Inr (status, body), s') \<Rightarrow>
                  (if 400 \<le> status then (Inl (BrokerNew CodeInternal (PublicMessage CodeInternal)), s')
                   else
                     (case body of
                        None \<Rightarrow> (Inl (Wrapf ''adapter response parse: '' bad_json []), s')
                      | Some out \<Rightarrow> (Inr out, s'))))))"

record http_deps =
  hd_GetBrokerCred :: "string \<Rightarrow> go_err + broker_credential option"
  hd_GetUserByID :: "string \<Rightarrow> go_err + user option"
  hd_router :: "router option"
  hd_clients :: "string \<rightharpoonup> client"

definition HttpPaperExecute :: "'s network \<Rightarrow> http_deps \<Rightarrow> client option \<Rightarrow> 's runner" where
  "HttpPaperExecute net d c req s =
     (if c = None then (Inl (RunErr (Errorf ''paper adapter URL not configured'')), s)
      else
        (case hd_GetUserByID d (er_UserID req) of
           Inr (Some user) \<Rightarrow>
             (case ClientPlaceOrder net c (BuildPaperCommand req (Some user) (er_SignalID req)) s of
                (Inl (BrokerError code msg cause), s') \<Rightarrow> (Inl (RunErr (BrokerError code msg cause)), s')
              | (Inl e, s') \<Rightarrow> (Inl (RunErr (unreachable e)), s')
              | (Inr out, s') \<Rightarrow> (OutcomeToResult out, s'))
         | _ \<Rightarrow> (Inl (RunErr (BrokerNew CodeInternal ''user not found'')), s)))"

text \<open>What the core checks before it calls the adapter of a broker.\<close>

definition http_live_checks :: "http_deps \<Rightarrow> exec_request \<Rightarrow> run_err + (broker_credential \<times> client \<times> user)" where
  "http_live_checks d req =
     (case hd_GetBrokerCred d (er_AccountID req) of
        Inr (Some cred) \<Rightarrow>
          (let bt = bc_BrokerType cred in
           case (case hd_router d of None \<Rightarrow> None | Some r \<Rightarrow> RequireBroker r bt) of
             Some e \<Rightarrow> Inl (broker_fail CodeInternal (err_text e) bt)
           | None \<Rightarrow>
               (case hd_clients d bt of
                  None \<Rightarrow> Inl (ExecErr (Wrapf [] ErrBrokerAdapterDisabled ('': '' @ bt)) bt)
                | Some c \<Rightarrow>
                    (case hd_GetUserByID d (er_UserID req) of
                       Inr (Some user) \<Rightarrow>
                         (if \<not> LiveAllowed (LimitsFor (EffectivePlan (u_Plan user)))
                          then Inl (ExecErr ErrLive bt) else Inr (cred, c, user))
                     | _ \<Rightarrow> Inl (broker_fail CodeInternal ''user not found'' bt))))
      | _ \<Rightarrow> Inl (broker_fail CodeInvalidCredentials ''broker credentials not found'' []))"

definition HttpLiveExecute :: "'s network \<Rightarrow> http_deps \<Rightarrow> 's runner" where
  "HttpLiveExecute net d req s =
     (case http_live_checks d req of
        Inl e \<Rightarrow> (Inl e, s)
      | Inr (cred, c, user) \<Rightarrow>
          (case ClientPlaceOrder net (Some c) (BuildLiveCommand req (Some user) cred (er_SignalID req)) s of
             (Inl e, s') \<Rightarrow> (Inl (ExecErr e (bc_BrokerType cred)), s')
           | (Inr out, s') \<Rightarrow> (OutcomeToResult out, s')))"

subsection \<open>A remote run is a local run, less what the wire leaves out\<close>

text \<open>The request the far side sees of a live and of a paper request.\<close>

definition live_wire :: "exec_request \<Rightarrow> exec_request" where
  "live_wire req = req\<lparr>er_RawSignal := [], er_OrgID := None\<rparr>"

definition paper_wire :: "exec_request \<Rightarrow> exec_request" where
  "paper_wire req = req\<lparr>er_RawSignal := [], er_OrgID := None, er_SLPoints := 0, er_TPPoints := 0,
     er_Comment := [], er_FixedLotSize := 0, er_MaxRiskPct := 0, er_MaxLotSize := 0\<rparr>"

definition wire_result :: "string \<Rightarrow> exec_result \<Rightarrow> exec_result" where
  "wire_result bt r = r\<lparr>xr_Reason := [], xr_RealizedPnL := 0, xr_BrokerType := bt\<rparr>"

lemma live_command_request:
  "er_AccountID req = bc_ID cred \<Longrightarrow> ToExecutionRequest (BuildLiveCommand req user cred key) = live_wire req"
  by (simp add: ToExecutionRequest_def BuildLiveCommand_def Let_def metadata_get_def live_wire_def zero_request_def)

lemma paper_command_request: "ToExecutionRequest (BuildPaperCommand req user key) = paper_wire req"
  by (simp add: ToExecutionRequest_def BuildPaperCommand_def Let_def metadata_get_def paper_wire_def zero_request_def)

lemma outcome_result: "OutcomeToResult (OutcomeFromResult rid (Some r) bt) = Inr (wire_result bt r)"
  by (simp add: OutcomeToResult_def OutcomeFromResult_def wire_result_def zero_outcome_def zero_result_def)

text \<open>A network that takes every request to the endpoint and its answer back.\<close>

definition wired :: "'s server_config \<Rightarrow> 's network" where
  "wired cfg url token cmd s = (let (rep, s') = orders_endpoint cfg token (Some cmd) s in (Inr rep, s'))"

lemma wired_client:
  assumes "cl_BaseURL c \<noteq> []" "command_finite cmd"
    and "sv_ServiceToken cfg = [] \<or> cl_ServiceToken c = sv_ServiceToken cfg \<and>
      trim_space (sv_ServiceToken cfg) = sv_ServiceToken cfg"
  shows "ClientPlaceOrder (wired cfg) (Some c) cmd s =
    (case sv_Executor cfg cmd s of
       (Inl e, s') \<Rightarrow> (Inl (BrokerNew CodeInternal (PublicMessage CodeInternal)), s')
     | (Inr out, s') \<Rightarrow>
         (if outcome_finite out then Inr out else Inl (BrokerNew CodeInternal (PublicMessage CodeInternal)), s'))"
proof -
  have "(if sv_ServiceToken cfg = [] then None
      else RequireServiceToken (sv_ServiceToken cfg) (cl_ServiceToken c)) = None"
    using assms(3) by (auto simp: RequireServiceToken_def)
  then have "orders_endpoint cfg (cl_ServiceToken c) (Some cmd) s =
      (case sv_Executor cfg cmd s of
         (Inl e, s') \<Rightarrow> ((500, None), s')
       | (Inr out, s') \<Rightarrow> (if outcome_finite out then ((200, Some out), s') else ((500, None), s')))"
    by (simp only: orders_endpoint_def option.case)
  then show ?thesis using assms(1,2)
    by (cases "sv_Executor cfg cmd s"; cases "fst (sv_Executor cfg cmd s)")
      (simp_all add: ClientPlaceOrder_def wired_def)
qed

definition result_finite :: "exec_result \<Rightarrow> bool" where
  "result_finite r =
     (is_fin (xr_FillPrice r) \<and> is_fin (xr_Quantity r) \<and> is_fin (xr_SLPrice r) \<and> is_fin (xr_TPPrice r))"

lemma outcome_finite_result: "outcome_finite (OutcomeFromResult rid (Some r) bt) = result_finite r"
  by (simp add: outcome_finite_def OutcomeFromResult_def result_finite_def zero_outcome_def)

definition token_agrees :: "'s server_config \<Rightarrow> client \<Rightarrow> bool" where
  "token_agrees cfg c \<longleftrightarrow> sv_ServiceToken cfg = [] \<or>
     cl_ServiceToken c = sv_ServiceToken cfg \<and> trim_space (sv_ServiceToken cfg) = sv_ServiceToken cfg"

definition internal_failure :: go_err where
  "internal_failure = BrokerNew CodeInternal (PublicMessage CodeInternal)"

lemma OutcomeToResult_message:
  "OutcomeToResult (zero_outcome\<lparr>eo_RequestID := rid, eo_Status := st, eo_ErrorMessage := m\<rparr>) =
     (if m = [] then Inr (zero_result\<lparr>xr_Status := st\<rparr>) else Inl (ExecErr (BrokerNew CodeInternal m) []))"
  by (simp add: OutcomeToResult_def zero_outcome_def zero_result_def)


definition sample_server :: "nat server_config" where
  "sample_server = \<lparr> sv_Executor = PaperPlaceOrder (\<lambda>req n.
     (Inr (zero_result\<lparr>xr_Status := StatusRejected, xr_Reason := ''insufficient funds''\<rparr>), Suc n)),
     sv_ServiceToken = ''t'' \<rparr>"

definition sample_user :: user where
  "sample_user = \<lparr> u_ID = ''u'', u_Email = ''a'', u_PasswordHash = [], u_Plan = PlanPro, u_Role = [],
     u_Status = [], u_OrgsEnabled = False, u_EarlyBirdLive = False, u_LiveOrdersUsed = 0,
     u_EmailVerifiedAt = None, u_StripeCustomerID = [], u_StripeSubscriptionID = [],
     u_BillingSource = [], u_TelegramChatID = [], u_CreatedAt = 0 \<rparr>"


text \<open>An error keeps its code on its way back.\<close>

lemma live_rejection_result:
  assumes "err = ExecErr e bt" "fst (TradeFields (Some e)) \<noteq> []"
  shows "\<exists>msg. OutcomeToResult (live_rejection rid err) =
    Inl (ExecErr (BrokerNew (fst (TradeFields (Some e))) msg) bt)"
  using assms by (cases "snd (TradeFields (Some e)) = []")
    (auto simp: OutcomeToResult_def live_rejection_def Let_def zero_outcome_def)

text \<open>What a live request must pass in the core: the checks written out.\<close>

definition live_admitted :: "http_deps \<Rightarrow> exec_request \<Rightarrow> broker_credential \<Rightarrow> client \<Rightarrow> user \<Rightarrow> bool" where
  "live_admitted d req cred c user =
     (hd_GetBrokerCred d (er_AccountID req) = Inr (Some cred) \<and>
      (case hd_router d of None \<Rightarrow> True | Some r \<Rightarrow> RequireBroker r (bc_BrokerType cred) = None) \<and>
      hd_clients d (bc_BrokerType cred) = Some c \<and> hd_GetUserByID d (er_UserID req) = Inr (Some user) \<and>
      LiveAllowed (LimitsFor (EffectivePlan (u_Plan user))))"

lemma live_checks_admit:
  "http_live_checks d req = Inr (cred, c, user) \<longleftrightarrow> live_admitted d req cred c user"
  by (auto simp: http_live_checks_def live_admitted_def Let_def split: sum.splits option.splits if_splits)

text \<open>The executor as the server is deployed, with its record of outcomes; \<open>key\<close> has none yet.\<close>

lemma first_command:
  assumes "idem_lookup get_ok (idempotency_key cmd) now (fst st) = None"
  shows "IdempotentPlaceOrder get_ok put_ok now finished (LivePlaceOrder live) cmd st =
    (case live (ToExecutionRequest cmd) (snd st) of
       (Inl e, s') \<Rightarrow> (Inr (live_rejection (ec_RequestID cmd) e),
          (idem_store put_ok (idempotency_key cmd) (live_rejection (ec_RequestID cmd) e) finished (fst st), s'))
     | (Inr r, s') \<Rightarrow> (Inr (OutcomeFromResult (ec_RequestID cmd) (Some r) (xr_BrokerType r)),
          (idem_store put_ok (idempotency_key cmd) (OutcomeFromResult (ec_RequestID cmd) (Some r) (xr_BrokerType r)) finished (fst st), s')))"
  using assms by (simp add: IdempotentPlaceOrder_def LivePlaceOrder_def split: prod.split sum.split)

lemma live_command_keys:
  "ec_RequestID (BuildLiveCommand req user cred key) = er_SignalID req"
  "idempotency_key (BuildLiveCommand req user cred key) = (if key = [] then er_SignalID req else key)"
  by (simp_all add: BuildLiveCommand_def idempotency_key_def)

lemma live_over_http_run:
  assumes "sv_Executor cfg = IdempotentPlaceOrder get_ok put_ok now finished (LivePlaceOrder live)" "live_admitted d req cred c user"
    and "bc_ID cred = er_AccountID req" "cl_BaseURL c \<noteq> []" "token_agrees cfg c"
    and "command_finite (BuildLiveCommand req (Some user) cred (er_SignalID req))"
    and "idem_lookup get_ok (er_SignalID req) now (fst st) = None"
  shows "\<exists>recorded. HttpLiveExecute (wired cfg) d req st =
      (case live (live_wire req) (snd st) of
         (Inr r, s') \<Rightarrow>
           (if result_finite r then Inr (wire_result (xr_BrokerType r) r)
            else Inl (ExecErr internal_failure (bc_BrokerType cred)), (recorded, s'))
       | (Inl e, s') \<Rightarrow> (OutcomeToResult (live_rejection (er_SignalID req) e), (recorded, s')))"
proof -
  let ?cmd = "BuildLiveCommand req (Some user) cred (er_SignalID req)"
  have rid: "ec_RequestID ?cmd = er_SignalID req" "idempotency_key ?cmd = er_SignalID req" by (simp_all add: live_command_keys)
  have wire: "ToExecutionRequest ?cmd = live_wire req" by (rule live_command_request) (simp add: assms(3))
  have k: "http_live_checks d req = Inr (cred, c, user)" using assms(2) by (simp add: live_checks_admit)
  note net = wired_client [OF assms(4,6) assms(5) [unfolded token_agrees_def], of st]
  have run: "sv_Executor cfg ?cmd st = (case live (live_wire req) (snd st) of
       (Inl e, s') \<Rightarrow> (Inr (live_rejection (er_SignalID req) e),
          (idem_store put_ok (er_SignalID req) (live_rejection (er_SignalID req) e) finished (fst st), s'))
     | (Inr r, s') \<Rightarrow> (Inr (OutcomeFromResult (er_SignalID req) (Some r) (xr_BrokerType r)),
          (idem_store put_ok (er_SignalID req) (OutcomeFromResult (er_SignalID req) (Some r) (xr_BrokerType r)) finished (fst st), s')))"
    using first_command [of get_ok ?cmd now st put_ok finished live] assms(7) by (simp only: assms(1) rid wire)
  have fin: "outcome_finite (live_rejection rid e)" for rid e
    by (cases e) (simp_all add: live_rejection_def outcome_finite_def zero_outcome_def)
  show ?thesis using net
    by (cases "live (live_wire req) (snd st)"; cases "fst (live (live_wire req) (snd st))")
      (auto simp: HttpLiveExecute_def k run fin outcome_result outcome_finite_result internal_failure_def)
qed


definition sample_live_server :: "(redis \<times> nat) server_config" where
  "sample_live_server = \<lparr> sv_Executor = IdempotentPlaceOrder True True 0 0 (LivePlaceOrder (\<lambda>req n.
     (Inl (ExecErr (BrokerNew CodeRateLimited ''slow down'') ''zerodha''), Suc n))), sv_ServiceToken = [] \<rparr>"

definition sample_http_deps :: "string \<Rightarrow> http_deps" where
  "sample_http_deps plan = \<lparr> hd_GetBrokerCred = (\<lambda>_. Inr (Some (sample_cred ''zerodha''))),
     hd_GetUserByID = (\<lambda>_. Inr (Some (sample_user\<lparr>u_Plan := plan\<rparr>))), hd_router = None,
     hd_clients = [''zerodha'' \<mapsto> \<lparr>cl_BaseURL = ''http://z'', cl_ServiceToken = []\<rparr>] \<rparr>"


end
