(* ===== verification/TradeDb.thy ===== *)
theory TradeDb
  imports PaperDb BrokerErr
begin

section \<open>The tables of trades and publisher orders\<close>

text \<open>
  Models the trade statements of \<^verbatim>\<open>internal/store/postgres.go\<close>, \<^verbatim>\<open>trade_fill_poll.go\<close>, \<^verbatim>\<open>publisher.go\<close> and
  \<^verbatim>\<open>publisher_expiry.go\<close>, over the tables of \<^verbatim>\<open>migrations/000_schema.sql\<close> and \<^verbatim>\<open>033_zerodha_publisher.sql\<close>.
  As in \<open>PaperDb\<close>, a table is the list of its rows, and a statement that fails changes nothing.
  What a NUMERIC column holds of a double is a parameter. \<open>now\<close> is the instant of \<^verbatim>\<open>NOW()\<close>.
\<close>

record trade_cols =
  tc_lot :: "f64 \<Rightarrow> f64 option"
  tc_price :: "f64 \<Rightarrow> f64 option"

record trade_row =
  tr_trade :: trade
  tr_UpdatedAt :: int

record publisher_order =
  pb_ID :: string
  pb_UserID :: string
  pb_CredentialID :: string
  pb_WebhookID :: "string option"
  pb_TradeID :: "string option"
  pb_Broker :: string
  pb_ExecutionMode :: string
  pb_BasketPayloadJSON :: string
  pb_BasketPayloadHash :: string
  pb_Status :: string
  pb_CallbackStatus :: "string option"
  pb_KiteRequestToken :: "string option"
  pb_SignedState :: string
  pb_RedirectedAt :: "int option"
  pb_CallbackAt :: "int option"
  pb_ExpiresAt :: int
  pb_CreatedAt :: int
  pb_UpdatedAt :: int

text \<open>An event of a publisher order, without its random id and its payload.\<close>

record publisher_event =
  pe_PublisherOrderID :: string
  pe_EventType :: string
  pe_CreatedAt :: int

text \<open>Of the webhooks, users and credentials only the ids matter here: foreign keys refer to them.\<close>

record trade_db =
  td_trades :: "trade_row list"
  td_publisher :: "publisher_order list"
  td_events :: "publisher_event list"
  td_webhook_ids :: "string list"
  td_user_ids :: "string list"
  td_cred_ids :: "string list"

definition update_where :: "('r \<Rightarrow> bool) \<Rightarrow> ('r \<Rightarrow> 'r) \<Rightarrow> 'r list \<Rightarrow> 'r list" where
  "update_where P f rows = map (\<lambda>r. if P r then f r else r) rows"

subsection \<open>Trades\<close>

definition col :: "(f64 \<Rightarrow> f64 option) \<Rightarrow> f64 \<Rightarrow> store_err + f64" where
  "col w x = (case w x of None \<Rightarrow> Inl ErrNumericRange | Some y \<Rightarrow> Inr y)"

definition col_opt :: "(f64 \<Rightarrow> f64 option) \<Rightarrow> f64 option \<Rightarrow> store_err + f64 option" where
  "col_opt w x = (case x of None \<Rightarrow> Inr None | Some v \<Rightarrow> ebind (col w v) (\<lambda>y. Inr (Some y)))"

text \<open>The numbers of a trade as their columns hold them.\<close>

definition encode_trade :: "trade_cols \<Rightarrow> trade \<Rightarrow> store_err + trade" where
  "encode_trade nc t =
     ebind (col (tc_lot nc) (t_LotSize t)) (\<lambda>lot.
     ebind (col (tc_price nc) (t_FillPrice t)) (\<lambda>fill.
     ebind (col_opt (tc_price nc) (t_SLPrice t)) (\<lambda>sl.
     ebind (col_opt (tc_price nc) (t_TPPrice t)) (\<lambda>tp.
       Inr (t\<lparr>t_LotSize := lot, t_FillPrice := fill, t_SLPrice := sl, t_TPPrice := tp\<rparr>)))))"

definition trade_ids :: "trade_db \<Rightarrow> string list" where
  "trade_ids db = map (t_ID \<circ> tr_trade) (td_trades db)"

definition InsertTrade :: "trade_cols \<Rightarrow> trade \<Rightarrow> trade_db \<Rightarrow> store_err + trade_db" where
  "InsertTrade nc t db =
     ebind (encode_trade nc t) (\<lambda>t'.
     ebind (require (t_ID t \<notin> set (trade_ids db)) ErrUniqueViolation ()) (\<lambda>_.
     ebind (require (t_WebhookID t \<in> set (td_webhook_ids db) \<and>
              (t_UserID t = [] \<or> t_UserID t \<in> set (td_user_ids db))) ErrForeignKey ()) (\<lambda>_.
       Inr (db\<lparr>td_trades := td_trades db @
         [\<lparr>tr_trade = t'\<lparr>t_CancelledAt := None, t_CancelError := [], t_PublisherOrderExpiresAt := None,
                        t_BrokerRespondedAt := (if t_Status t = ''queued'' then None else Some (t_CreatedAt t))\<rparr>,
           tr_UpdatedAt = t_CreatedAt t\<rparr>]\<rparr>))))"

definition responded :: "int \<Rightarrow> trade \<Rightarrow> trade" where
  "responded now t = t\<lparr>t_BrokerRespondedAt :=
     Some (case t_BrokerRespondedAt t of None \<Rightarrow> now | Some r \<Rightarrow> r)\<rparr>"

text \<open>An update of trades by a condition on the row, which touches \<^verbatim>\<open>updated_at\<close>.\<close>

definition update_trades :: "int \<Rightarrow> (trade \<Rightarrow> bool) \<Rightarrow> (trade \<Rightarrow> trade) \<Rightarrow> trade_db \<Rightarrow> trade_db" where
  "update_trades now P f db = db\<lparr>td_trades := update_where (P \<circ> tr_trade)
     (\<lambda>r. \<lparr>tr_trade = f (tr_trade r), tr_UpdatedAt = now\<rparr>) (td_trades db)\<rparr>"

definition FinalizeTrade :: "trade_cols \<Rightarrow> int \<Rightarrow> trade \<Rightarrow> trade_db \<Rightarrow> store_err + trade_db" where
  "FinalizeTrade nc now t db =
     ebind (encode_trade nc t) (\<lambda>t'.
       if t_ID t \<notin> set (trade_ids db) then Inl ErrNoRows
       else Inr (update_trades now (\<lambda>r. t_ID r = t_ID t)
         (\<lambda>r. responded now (r\<lparr>t_Status := t_Status t', t_FillPrice := t_FillPrice t', t_LotSize := t_LotSize t',
            t_BrokerOrder := t_BrokerOrder t', t_AlgoID := t_AlgoID t', t_OrderType := t_OrderType t',
            t_Product := t_Product t', t_SLPrice := t_SLPrice t', t_TPPrice := t_TPPrice t',
            t_Error := t_Error t', t_ErrorCode := t_ErrorCode t'\<rparr>)) db))"

definition PersistTradeAudit :: "trade_cols \<Rightarrow> int \<Rightarrow> trade \<Rightarrow> trade_db \<Rightarrow> store_err + trade_db" where
  "PersistTradeAudit nc now t db =
     (case InsertTrade nc t db of
        Inr db' \<Rightarrow> Inr db'
      | Inl e \<Rightarrow> if e = ErrUniqueViolation then FinalizeTrade nc now t db else Inl e)"

text \<open>\<open>windowSec\<close> in seconds, instants in milliseconds.\<close>

definition HasActiveTradeWithSignalKey :: "int \<Rightarrow> string \<Rightarrow> string \<Rightarrow> int \<Rightarrow> trade_db \<Rightarrow> bool" where
  "HasActiveTradeWithSignalKey now webhookID signalKey windowSec db =
     (if signalKey = [] \<or> windowSec \<le> 0 then False
      else list_ex (\<lambda>r. let t = tr_trade r in
             t_WebhookID t = webhookID \<and> t_SignalKey t = signalKey \<and>
             t_Status t \<in> {''queued'', ''submitted'', ''filled'', ''pending_confirmation''} \<and>
             now - windowSec * 1000 < t_CreatedAt t) (td_trades db))"

text \<open>What the queries of single trades do not select is zero in what they return.\<close>

definition selected_trade :: "trade \<Rightarrow> trade" where
  "selected_trade t = t\<lparr>t_BrokerRespondedAt := None, t_PublisherOrderExpiresAt := None\<rparr>"

definition GetTradeByID :: "trade_db \<Rightarrow> string \<Rightarrow> trade option" where
  "GetTradeByID db tid = map_option (selected_trade \<circ> tr_trade) (find (\<lambda>r. t_ID (tr_trade r) = tid) (td_trades db))"

definition MarkTradeCancelled :: "int \<Rightarrow> string \<Rightarrow> string \<Rightarrow> trade_db \<Rightarrow> trade_db" where
  "MarkTradeCancelled now tid cancelErr db =
     (if cancelErr = [] then
        update_trades now (\<lambda>r. t_ID r = tid) (\<lambda>r. r\<lparr>t_Status := ''cancelled'', t_CancelledAt := Some now\<rparr>) db
      else db\<lparr>td_trades := update_where (\<lambda>r. t_ID (tr_trade r) = tid)
             (\<lambda>r. r\<lparr>tr_trade := (tr_trade r)\<lparr>t_CancelError := cancelErr\<rparr>\<rparr>) (td_trades db)\<rparr>)"

definition UpdateTradeFromExecutionEvent :: "trade_cols \<Rightarrow> int \<Rightarrow> trade \<Rightarrow> trade_db \<Rightarrow> store_err + trade_db" where
  "UpdateTradeFromExecutionEvent nc now t db =
     ebind (col (tc_price nc) (t_FillPrice t)) (\<lambda>fill.
       Inr (update_trades now (\<lambda>r. t_ID r = t_ID t)
         (\<lambda>r. responded now (r\<lparr>t_Status := t_Status t, t_FillPrice := fill,
            t_BrokerOrder := (if t_BrokerOrder t = [] then t_BrokerOrder r else t_BrokerOrder t)\<rparr>)) db))"

text \<open>The first publisher order linked to a trade, in the order of the table, gives the expiry.\<close>

definition with_publisher :: "trade_db \<Rightarrow> trade \<Rightarrow> trade list" where
  "with_publisher db t =
     (case filter (\<lambda>o'. pb_TradeID o' = Some (t_ID t)) (td_publisher db) of
        [] \<Rightarrow> [selected_trade t]
      | os \<Rightarrow> map (\<lambda>o'. (selected_trade t)\<lparr>t_PublisherOrderExpiresAt := Some (pb_ExpiresAt o')\<rparr>) os)"

definition ListTradesByWebhook :: "trade_db \<Rightarrow> string \<Rightarrow> nat \<Rightarrow> trade list" where
  "ListTradesByWebhook db webhookID limit =
     take limit (newest_first t_CreatedAt (concat (map (with_publisher db)
       (filter (\<lambda>t. t_WebhookID t = webhookID) (map tr_trade (td_trades db))))))"

definition ListTradesForExport :: "trade_db \<Rightarrow> string \<Rightarrow> int option \<Rightarrow> int option \<Rightarrow> trade list" where
  "ListTradesForExport db webhookID from to =
     take 10000 (sort_key t_CreatedAt (map selected_trade (filter (\<lambda>t. t_WebhookID t = webhookID \<and>
       (case from of None \<Rightarrow> True | Some f \<Rightarrow> f \<le> t_CreatedAt t) \<and>
       (case to of None \<Rightarrow> True | Some u \<Rightarrow> t_CreatedAt t < u)) (map tr_trade (td_trades db)))))"

subsection \<open>Fills that are polled\<close>

definition UpdateTradeFillOutcome ::
  "trade_cols \<Rightarrow> int \<Rightarrow> string \<Rightarrow> string \<Rightarrow> f64 \<Rightarrow> string \<Rightarrow> trade_db \<Rightarrow> store_err + trade_db" where
  "UpdateTradeFillOutcome nc now tid status fillPrice errMsg db =
     ebind (col (tc_price nc) fillPrice) (\<lambda>fill.
       Inr (update_trades now (\<lambda>r. t_ID r = tid \<and> t_Status r = ''submitted'')
         (\<lambda>r. if errMsg = [] then r\<lparr>t_Status := status, t_FillPrice := fill\<rparr>
              else r\<lparr>t_Status := status, t_FillPrice := fill, t_Error := errMsg\<rparr>) db))"

text \<open>
  The credentials the webhooks of trades route to come from a look-up that stands for the join: the
  credential of a trade's webhook.
\<close>

definition ListPendingZerodhaOAuthFills ::
  "(string \<Rightarrow> broker_credential option) \<Rightarrow> int \<Rightarrow> int \<Rightarrow> int \<Rightarrow> trade_db \<Rightarrow> (trade \<times> string) list" where
  "ListPendingZerodhaOAuthFills cred_of now maxAge limit db =
     (let limit = (if limit \<le> 0 then 500 else limit);
          maxAge = (if maxAge \<le> 0 then 48 * 3600000 else maxAge);
          cutoff = now - maxAge
      in take (nat limit) (sort_key (t_CreatedAt \<circ> fst) (List.map_filter (\<lambda>r. let t = tr_trade r in
           case cred_of (t_WebhookID t) of
             None \<Rightarrow> None
           | Some bc \<Rightarrow>
               if t_Status t = ''submitted'' \<and> t_BrokerOrder t \<noteq> [] \<and> bc_BrokerType bc = ''zerodha'' \<and>
                  bc_ExecutionMode bc \<in> {''user_api_oauth'', []} \<and> bc_Status bc = ''active'' \<and>
                  cutoff \<le> t_CreatedAt t
               then Some (selected_trade t, bc_ID bc) else None) (td_trades db))))"

definition GetTradeByIDWithPublisherMeta :: "trade_db \<Rightarrow> string \<Rightarrow> trade option" where
  "GetTradeByIDWithPublisherMeta db tid =
     (case find (\<lambda>r. t_ID (tr_trade r) = tid) (td_trades db) of
        None \<Rightarrow> None
      | Some r \<Rightarrow> Some (hd (with_publisher db (tr_trade r))))"

subsection \<open>Publisher orders\<close>

definition PublisherHandoffExpiredCode :: string where
  "PublisherHandoffExpiredCode = ''publisher_handoff_expired''"
definition PublisherHandoffExpiredMsg :: string where
  "PublisherHandoffExpiredMsg = ''Kite basket handoff expired before submission (30 minute limit).''"

definition PublisherOrderIsTerminal :: "string \<Rightarrow> bool" where
  "PublisherOrderIsTerminal status = (status \<in> {''user_returned'', ''user_cancelled'', ''expired''})"

definition PublisherOrderIsExpired :: "publisher_order option \<Rightarrow> int \<Rightarrow> bool" where
  "PublisherOrderIsExpired o' now =
     (case o' of None \<Rightarrow> True
      | Some o' \<Rightarrow> if pb_Status o' = ''expired'' then True else \<not> now < pb_ExpiresAt o')"

definition InsertPublisherOrder :: "publisher_order \<Rightarrow> trade_db \<Rightarrow> store_err + trade_db" where
  "InsertPublisherOrder o' db =
     ebind (require (pb_ID o' \<notin> set (map pb_ID (td_publisher db))) ErrUniqueViolation ()) (\<lambda>_.
     ebind (require (pb_UserID o' \<in> set (td_user_ids db) \<and> pb_CredentialID o' \<in> set (td_cred_ids db) \<and>
              (case pb_WebhookID o' of None \<Rightarrow> True | Some w \<Rightarrow> w \<in> set (td_webhook_ids db)))
              ErrForeignKey ()) (\<lambda>_.
       Inr (db\<lparr>td_publisher := td_publisher db @
         [o'\<lparr>pb_CallbackStatus := None, pb_KiteRequestToken := None, pb_RedirectedAt := None, pb_CallbackAt := None\<rparr>]\<rparr>)))"

definition GetPublisherOrder :: "trade_db \<Rightarrow> string \<Rightarrow> publisher_order option" where
  "GetPublisherOrder db oid = find (\<lambda>o'. pb_ID o' = oid) (td_publisher db)"

definition update_publisher :: "int \<Rightarrow> (publisher_order \<Rightarrow> bool) \<Rightarrow> (publisher_order \<Rightarrow> publisher_order) \<Rightarrow> trade_db \<Rightarrow> trade_db" where
  "update_publisher now P f db =
     db\<lparr>td_publisher := update_where P (\<lambda>o'. (f o')\<lparr>pb_UpdatedAt := now\<rparr>) (td_publisher db)\<rparr>"

definition UpdatePublisherOrderCallback ::
  "int \<Rightarrow> string \<Rightarrow> string \<Rightarrow> string \<Rightarrow> string option \<Rightarrow> int \<Rightarrow> trade_db \<Rightarrow> trade_db" where
  "UpdatePublisherOrderCallback now oid internalStatus kiteStatus requestToken callbackAt =
     update_publisher now (\<lambda>o'. pb_ID o' = oid)
       (\<lambda>o'. o'\<lparr>pb_Status := internalStatus, pb_CallbackStatus := Some kiteStatus,
               pb_KiteRequestToken := requestToken, pb_CallbackAt := Some callbackAt\<rparr>)"

text \<open>Of any user: the query has no owner.\<close>

definition GetMostRecentPendingPublisherOrder :: "int \<Rightarrow> trade_db \<Rightarrow> publisher_order option" where
  "GetMostRecentPendingPublisherOrder now db =
     (case newest_first pb_CreatedAt (filter (\<lambda>o'. \<not> PublisherOrderIsTerminal (pb_Status o') \<and> now < pb_ExpiresAt o')
        (td_publisher db)) of
        [] \<Rightarrow> None
      | o' # _ \<Rightarrow> Some o')"

definition UpdatePublisherTradeStatus :: "int \<Rightarrow> string \<Rightarrow> string \<Rightarrow> trade_db \<Rightarrow> trade_db" where
  "UpdatePublisherTradeStatus now tradeID status =
     update_trades now (\<lambda>r. t_ID r = tradeID \<and> t_Status r = ''pending_confirmation'')
       (\<lambda>r. r\<lparr>t_Status := status\<rparr>)"

definition LinkPublisherOrderTrade :: "int \<Rightarrow> string \<Rightarrow> string \<Rightarrow> trade_db \<Rightarrow> trade_db" where
  "LinkPublisherOrderTrade now publisherOrderID tradeID =
     update_publisher now (\<lambda>o'. pb_ID o' = publisherOrderID) (\<lambda>o'. o'\<lparr>pb_TradeID := Some tradeID\<rparr>)"

definition InsertPublisherOrderEvent :: "publisher_event \<Rightarrow> trade_db \<Rightarrow> store_err + trade_db" where
  "InsertPublisherOrderEvent e db =
     require (pe_PublisherOrderID e \<in> set (map pb_ID (td_publisher db))) ErrForeignKey
       (db\<lparr>td_events := td_events db @ [e]\<rparr>)"

subsection \<open>Expiry of publisher orders\<close>

definition rejectExpiredPublisherTradeIfPending :: "int \<Rightarrow> string \<Rightarrow> trade_db \<Rightarrow> trade_db" where
  "rejectExpiredPublisherTradeIfPending now tradeID =
     update_trades now (\<lambda>r. t_ID r = tradeID \<and> t_Status r = ''pending_confirmation'')
       (\<lambda>r. responded now (r\<lparr>t_Status := ''rejected'', t_Error := PublisherHandoffExpiredMsg,
          t_ErrorCode := PublisherHandoffExpiredCode\<rparr>))"

definition linked_trade :: "publisher_order \<Rightarrow> string" where
  "linked_trade o' = (case pb_TradeID o' of None \<Rightarrow> [] | Some t \<Rightarrow> t)"

definition expirePublisherOrder :: "int \<Rightarrow> publisher_order \<Rightarrow> trade_db \<Rightarrow> string \<times> trade_db" where
  "expirePublisherOrder now order db =
     (if PublisherOrderIsTerminal (pb_Status order) then ([], db)
      else if \<not> list_ex (\<lambda>o'. pb_ID o' = pb_ID order \<and> \<not> PublisherOrderIsTerminal (pb_Status o')) (td_publisher db)
      then ([], db)
      else
        (let db = update_publisher now (\<lambda>o'. pb_ID o' = pb_ID order \<and> \<not> PublisherOrderIsTerminal (pb_Status o'))
               (\<lambda>o'. o'\<lparr>pb_Status := ''expired''\<rparr>) db;
             db = db\<lparr>td_events := td_events db @ [\<lparr>pe_PublisherOrderID = pb_ID order,
               pe_EventType = ''HANDOFF_EXPIRED'', pe_CreatedAt = now\<rparr>]\<rparr>
         in if linked_trade order = [] then ([], db)
            else (linked_trade order, rejectExpiredPublisherTradeIfPending now (linked_trade order) db)))"

definition ExpirePublisherOrderIfStale :: "int \<Rightarrow> string \<Rightarrow> trade_db \<Rightarrow> bool \<times> trade_db" where
  "ExpirePublisherOrderIfStale now orderID db =
     (case GetPublisherOrder db orderID of
        None \<Rightarrow> (False, db)
      | Some order \<Rightarrow>
          (if PublisherOrderIsTerminal (pb_Status order) then
             (pb_Status order = ''expired'',
              if pb_Status order = ''expired'' \<and> linked_trade order \<noteq> []
              then rejectExpiredPublisherTradeIfPending now (linked_trade order) db else db)
           else if now < pb_ExpiresAt order then (False, db)
           else (True, snd (expirePublisherOrder now order db))))"

definition stale_orders :: "int \<Rightarrow> trade_db \<Rightarrow> publisher_order list" where
  "stale_orders now db =
     filter (\<lambda>o'. pb_ExpiresAt o' \<le> now \<and> \<not> PublisherOrderIsTerminal (pb_Status o')) (td_publisher db)"

fun expire_all :: "int \<Rightarrow> publisher_order list \<Rightarrow> trade_db \<Rightarrow> string list \<times> trade_db" where
  "expire_all now [] db = ([], db)"
| "expire_all now (o' # os) db =
     (let (tid, db) = expirePublisherOrder now o' db; (tids, db) = expire_all now os db
      in (if tid = [] then tids else tid # tids, db))"

definition ExpireStalePublisherOrders :: "int \<Rightarrow> trade_db \<Rightarrow> string list \<times> trade_db" where
  "ExpireStalePublisherOrders now db = expire_all now (stale_orders now db) db"

subsection \<open>The sweep is one update\<close>

lemma update_where_twice:
  "(\<And>r. P r \<Longrightarrow> \<not> Q (f r)) \<Longrightarrow> update_where Q f (update_where P f xs) = update_where (\<lambda>r. P r \<or> Q r) f xs"
  by (auto simp: update_where_def)

lemma update_where_none: "(\<And>r. r \<in> set xs \<Longrightarrow> \<not> P r) \<Longrightarrow> update_where P f xs = xs"
  unfolding update_where_def by (intro map_idI) simp

lemma map_update_where: "(\<And>r. P r \<Longrightarrow> g (f r) = g r) \<Longrightarrow> map g (update_where P f xs) = map g xs"
  by (simp add: update_where_def)

lemma update_where_cong:
  "(\<And>r. r \<in> set xs \<Longrightarrow> P r = Q r) \<Longrightarrow> update_where P f xs = update_where Q f xs"
  by (simp add: update_where_def)

definition expired_order :: "int \<Rightarrow> publisher_order \<Rightarrow> publisher_order" where
  "expired_order now o' = o'\<lparr>pb_Status := ''expired'', pb_UpdatedAt := now\<rparr>"

definition expired_trade :: "int \<Rightarrow> trade_row \<Rightarrow> trade_row" where
  "expired_trade now r =
     \<lparr>tr_trade = responded now ((tr_trade r)\<lparr>t_Status := ''rejected'', t_Error := PublisherHandoffExpiredMsg,
        t_ErrorCode := PublisherHandoffExpiredCode\<rparr>), tr_UpdatedAt = now\<rparr>"

definition awaits :: "string set \<Rightarrow> trade_row \<Rightarrow> bool" where
  "awaits tids r \<longleftrightarrow> t_ID (tr_trade r) \<in> tids \<and> t_Status (tr_trade r) = ''pending_confirmation''"

definition linked_trades :: "publisher_order list \<Rightarrow> string list" where
  "linked_trades os = filter (\<lambda>t. t \<noteq> []) (map linked_trade os)"

definition pending_in :: "string set \<Rightarrow> publisher_order \<Rightarrow> bool" where
  "pending_in ids o' \<longleftrightarrow> pb_ID o' \<in> ids \<and> \<not> PublisherOrderIsTerminal (pb_Status o')"

text \<open>What the sweep does, in one update of each table.\<close>

definition swept :: "int \<Rightarrow> publisher_order list \<Rightarrow> trade_db \<Rightarrow> trade_db" where
  "swept now os db = db
     \<lparr> td_publisher := update_where (pending_in (set (map pb_ID os))) (expired_order now) (td_publisher db),
       td_events := td_events db @ map (\<lambda>o'. \<lparr>pe_PublisherOrderID = pb_ID o',
         pe_EventType = ''HANDOFF_EXPIRED'', pe_CreatedAt = now\<rparr>) os,
       td_trades := update_where (awaits (set (linked_trades os))) (expired_trade now) (td_trades db) \<rparr>"

lemma swept_publisher: "td_publisher (swept now os db) =
    update_where (pending_in (set (map pb_ID os))) (expired_order now) (td_publisher db)"
  by (simp add: swept_def)

lemma terminal_expired [simp]: "PublisherOrderIsTerminal ''expired''"
  by (simp add: PublisherOrderIsTerminal_def)

lemma expire_one:
  assumes "\<not> PublisherOrderIsTerminal (pb_Status o')" "pending_in {pb_ID o'} o''" "o'' \<in> set (td_publisher db)"
  shows "expirePublisherOrder now o' db = (linked_trade o', swept now [o'] db)"
proof -
  have ex: "list_ex (\<lambda>p. pb_ID p = pb_ID o' \<and> \<not> PublisherOrderIsTerminal (pb_Status p)) (td_publisher db)"
    using assms(2,3) by (auto simp: list_ex_iff pending_in_def)
  have p: "update_where (\<lambda>p. pb_ID p = pb_ID o' \<and> \<not> PublisherOrderIsTerminal (pb_Status p))
      (\<lambda>p. (p\<lparr>pb_Status := ''expired''\<rparr>)\<lparr>pb_UpdatedAt := now\<rparr>) (td_publisher db) =
      update_where (pending_in {pb_ID o'}) (expired_order now) (td_publisher db)"
    unfolding update_where_def pending_in_def expired_order_def by (intro map_cong refl) simp
  have t: "update_where ((\<lambda>r. t_ID r = tid \<and> t_Status r = ''pending_confirmation'') \<circ> tr_trade)
      (\<lambda>r. \<lparr>tr_trade = responded now ((tr_trade r)\<lparr>t_Status := ''rejected'', t_Error := PublisherHandoffExpiredMsg,
        t_ErrorCode := PublisherHandoffExpiredCode\<rparr>), tr_UpdatedAt = now\<rparr>) xs =
      update_where (awaits {tid}) (expired_trade now) xs" for tid xs
    unfolding update_where_def awaits_def expired_trade_def by (intro map_cong refl) simp
  have none: "update_where (awaits {}) (expired_trade now) xs = xs" for xs
    by (rule update_where_none) (simp add: awaits_def)
  show ?thesis using assms(1) ex
    by (simp add: expirePublisherOrder_def Let_def swept_def linked_trades_def update_publisher_def p
        rejectExpiredPublisherTradeIfPending_def update_trades_def t none)
qed

lemma swept_step:
  assumes "pb_ID o' \<notin> set (map pb_ID os)"
  shows "swept now os (swept now [o'] db) = swept now (o' # os) db"
proof -
  have "update_where (pending_in (set (map pb_ID os))) (expired_order now)
      (update_where (pending_in {pb_ID o'}) (expired_order now) (td_publisher db)) =
      update_where (pending_in (set (map pb_ID (o' # os)))) (expired_order now) (td_publisher db)"
    by (subst update_where_twice) (auto simp: pending_in_def expired_order_def intro!: update_where_cong)
  moreover have "update_where (awaits (set (linked_trades os))) (expired_trade now)
      (update_where (awaits (set (linked_trades [o']))) (expired_trade now) (td_trades db)) =
      update_where (awaits (set (linked_trades (o' # os)))) (expired_trade now) (td_trades db)"
    by (subst update_where_twice)
      (auto simp: awaits_def expired_trade_def responded_def linked_trades_def intro!: update_where_cong)
  ultimately show ?thesis by (simp add: swept_def)
qed

lemma expire_all_swept:
  "distinct (map pb_ID os) \<Longrightarrow> set os \<subseteq> set (td_publisher db) \<Longrightarrow>
     \<forall>o' \<in> set os. \<not> PublisherOrderIsTerminal (pb_Status o') \<Longrightarrow>
     expire_all now os db = (linked_trades os, swept now os db)"
proof (induction os arbitrary: db)
  case Nil
  have "update_where (pending_in {}) (expired_order now) xs = xs" for xs
    by (rule update_where_none) (simp add: pending_in_def)
  moreover have "update_where (awaits {}) (expired_trade now) xs = xs" for xs
    by (rule update_where_none) (simp add: awaits_def)
  ultimately show ?case by (simp add: swept_def linked_trades_def)
next
  case (Cons o' os)
  have one: "expirePublisherOrder now o' db = (linked_trade o', swept now [o'] db)"
    using Cons.prems by (intro expire_one) (auto simp: pending_in_def)
  have "o'' \<in> set (td_publisher (swept now [o'] db))" if "o'' \<in> set os" for o''
  proof -
    have "pb_ID o'' \<in> set (map pb_ID os)" using that by simp
    moreover have "pb_ID o' \<notin> set (map pb_ID os)" using Cons.prems(1) by simp
    ultimately have "pb_ID o'' \<noteq> pb_ID o'" by metis
    moreover have "o'' \<in> set (td_publisher db)" using that Cons.prems(2) by auto
    ultimately have o'': "\<not> pending_in {pb_ID o'} o''" "o'' \<in> set (td_publisher db)"
      by (simp_all add: pending_in_def)
    then have "(if pending_in {pb_ID o'} o'' then expired_order now o'' else o'') = o''" by simp
    then show ?thesis unfolding swept_def update_where_def using o''(2)
      by (simp add: image_iff) (metis o''(1))
  qed
  then have "expire_all now os (swept now [o'] db) = (linked_trades os, swept now os (swept now [o'] db))"
    using Cons.prems(1,3) by (intro Cons.IH) auto
  then show ?case using Cons.prems(1) by (simp add: one swept_step linked_trades_def)
qed

text \<open>
  C29. The sweep of stale publisher orders, which takes one order after the other in transactions of its
  own, has the effect of one update: exactly the orders that are overdue and not terminal become
  expired, each with an event, exactly the trades linked to them that still await confirmation are
  rejected with the expiry's code, and the ids of the linked trades come back; afterwards no order is
  overdue, and a second sweep changes nothing.
\<close>

theorem sweep_is_one_update:
  assumes "distinct (map pb_ID (td_publisher db))"
  shows "ExpireStalePublisherOrders now db = (linked_trades (stale_orders now db), swept now (stale_orders now db) db)
    \<and> stale_orders now (snd (ExpireStalePublisherOrders now db)) = []
    \<and> ExpireStalePublisherOrders now (snd (ExpireStalePublisherOrders now db)) =
        ([], snd (ExpireStalePublisherOrders now db))"
proof -
  let ?os = "stale_orders now db"
  have "distinct (map pb_ID ?os)"
    using assms by (simp add: stale_orders_def distinct_map_filter)
  then have eq: "ExpireStalePublisherOrders now db = (linked_trades ?os, swept now ?os db)"
    unfolding ExpireStalePublisherOrders_def by (rule expire_all_swept) (auto simp: stale_orders_def)
  have "\<not> (pb_ExpiresAt p \<le> now \<and> \<not> PublisherOrderIsTerminal (pb_Status p))"
    if p: "p \<in> set (td_publisher (swept now ?os db))" for p
  proof -
    let ?f = "\<lambda>q. if pending_in (set (map pb_ID ?os)) q then expired_order now q else q"
    have "p \<in> ?f ` set (td_publisher db)" using p unfolding swept_publisher update_where_def set_map .
    then obtain q where q: "p = ?f q" "q \<in> set (td_publisher db)" by (rule imageE)
    show ?thesis
    proof (cases "pb_ExpiresAt q \<le> now \<and> \<not> PublisherOrderIsTerminal (pb_Status q)")
      case True
      then have "q \<in> set ?os" using q(2) by (simp add: stale_orders_def)
      then have "pending_in (set (map pb_ID ?os)) q" using True by (simp add: pending_in_def)
      then show ?thesis using q(1) by (simp add: expired_order_def)
    next
      case False
      then show ?thesis
        by (cases "pending_in (set (map pb_ID ?os)) q") (simp_all add: q(1) expired_order_def)
    qed
  qed
  then have none: "stale_orders now (swept now ?os db) = []"
    unfolding stale_orders_def [of now "swept now ?os db"] filter_empty_conv by blast
  have again: "ExpireStalePublisherOrders now (swept now ?os db) = ([], swept now ?os db)"
    unfolding ExpireStalePublisherOrders_def none by (rule expire_all.simps(1))
  show ?thesis unfolding eq snd_conv using none again by blast
qed

definition sample_order :: publisher_order where
  "sample_order = \<lparr> pb_ID = ''o1'', pb_UserID = ''u'', pb_CredentialID = ''c'', pb_WebhookID = None,
     pb_TradeID = Some ''t1'', pb_Broker = ''zerodha'', pb_ExecutionMode = ''publisher'', pb_BasketPayloadJSON = [],
     pb_BasketPayloadHash = [], pb_Status = ''created'', pb_CallbackStatus = None, pb_KiteRequestToken = None,
     pb_SignedState = [], pb_RedirectedAt = None, pb_CallbackAt = None, pb_ExpiresAt = 1800000, pb_CreatedAt = 0,
     pb_UpdatedAt = 0 \<rparr>"

definition sample_tdb :: "string \<Rightarrow> trade_db" where
  "sample_tdb status = \<lparr> td_trades = [\<lparr>tr_trade = zero_trade\<lparr>t_ID := ''t1'', t_WebhookID := ''w'', t_Status := status\<rparr>,
     tr_UpdatedAt = 0\<rparr>], td_publisher = [sample_order], td_events = [], td_webhook_ids = [''w''],
     td_user_ids = [''u''], td_cred_ids = [''c''] \<rparr>"

definition plain_cols :: trade_cols where
  "plain_cols = \<lparr> tc_lot = Some, tc_price = Some \<rparr>"

theorem sweep_is_one_update_witness:
  "fst (ExpireStalePublisherOrders 1800000 (sample_tdb ''pending_confirmation'')) = [''t1'']
    \<and> map (t_Status \<circ> tr_trade) (td_trades (snd (ExpireStalePublisherOrders 1800000 (sample_tdb ''pending_confirmation''))))
      = [''rejected'']"
proof -
  let ?db = "sample_tdb ''pending_confirmation''"
  have "distinct (map pb_ID (td_publisher ?db))" by (simp add: sample_tdb_def)
  from sweep_is_one_update [OF this, of 1800000]
  have eq: "ExpireStalePublisherOrders 1800000 ?db = (linked_trades (stale_orders 1800000 ?db), swept 1800000 (stale_orders 1800000 ?db) ?db)"
    by blast
  have "linked_trades (stale_orders 1800000 ?db) = [''t1'']" by code_simp
  moreover have "map (t_Status \<circ> tr_trade) (td_trades (swept 1800000 (stale_orders 1800000 ?db) ?db)) = [''rejected'']"
    by (simp add: stale_orders_def sample_tdb_def sample_order_def PublisherOrderIsTerminal_def swept_def
        update_where_def awaits_def linked_trades_def linked_trade_def expired_trade_def responded_def)
  ultimately show ?thesis by (simp add: eq)
qed

end
