(* ===== verification/Publisher.thy ===== *)
theory Publisher
  imports TradeDb Credentials Sizing
begin

section \<open>Kite Publisher: baskets, state tokens, callbacks and polled fills\<close>

text \<open>
  Models \<^verbatim>\<open>internal/integrations/brokers/zerodha/publisher\<close> (the executor that hands an order over to
  the browser), \<^verbatim>\<open>internal/modules/publisher\<close> (the callback and the expiry job),
  \<^verbatim>\<open>internal/modules/internalapi\<close> (execution events), \<^verbatim>\<open>zerodha/fillpoll\<close> and the status mapping of
  \<^verbatim>\<open>livebrokers/kite_orders.go\<close>.

  HMAC, base64, SHA-256, JSON and \<^verbatim>\<open>%v\<close> are parameters. Fresh ids are arguments. An HTTP handler gives
  a status with a message, or its result. Events and errors that are only logged are left out.
\<close>

type_synonym 'a api = "(int \<times> string) + 'a"

subsection \<open>State tokens\<close>

definition stateMaxAge :: int where "stateMaxAge = 30 * 60 * 1000"

definition unix :: "int \<Rightarrow> int" where "unix now = now div 1000"

definition state_payload :: "string \<Rightarrow> string \<Rightarrow> string" where
  "state_payload orderID expires = join_with ''|'' [orderID, expires]"

definition GenerateState ::
  "(string \<Rightarrow> string \<Rightarrow> string) \<Rightarrow> (string \<Rightarrow> string) \<Rightarrow> int \<Rightarrow> string \<Rightarrow> string \<Rightarrow> string" where
  "GenerateState hmac b64enc now publisherOrderID secret =
     (let payload = state_payload publisherOrderID (fmt_d (unix (now + stateMaxAge)))
      in b64enc (payload @ ''|'' @ hmac payload secret))"

definition ParseState ::
  "(string \<Rightarrow> string \<Rightarrow> string) \<Rightarrow> (string \<Rightarrow> string option) \<Rightarrow> int \<Rightarrow> string \<Rightarrow> string \<Rightarrow> go_err + string" where
  "ParseState hmac b64dec now state secret =
     (case b64dec state of
        None \<Rightarrow> Inl (Errorf ''publisher state: invalid encoding'')
      | Some b \<Rightarrow>
          (case split_on CHR ''|'' b of
             [orderID, expires, sig] \<Rightarrow>
               (if sig \<noteq> hmac (state_payload orderID expires) secret
                then Inl (Errorf ''publisher state: invalid signature'')
                else
                  (case parse_int64 expires of
                     None \<Rightarrow> Inl (Errorf ''publisher state: invalid expiry'')
                   | Some e \<Rightarrow>
                       (if e < unix now then Inl (Errorf ''publisher state: token expired'')
                        else if trim_space orderID = [] then Inl (Errorf ''publisher state: empty order ID'')
                        else Inr orderID)))
           | _ \<Rightarrow> Inl (Errorf ''publisher state: invalid format'')))"

text \<open>
  A state token names its order for thirty minutes and no longer, given that base64 decodes what it
  encodes and that neither the id nor the signature holds the separator. And a token that is accepted was
  signed: it decodes to an order id, an expiry that has not passed and the signature of both under the
  secret.
\<close>

theorem state_tokens:
  assumes "\<And>s. b64dec (b64enc s) = Some s" "CHR ''|'' \<notin> set oid" "trim_space oid \<noteq> []"
    and "\<And>p. CHR ''|'' \<notin> set (hmac p secret)" "0 \<le> now" "now < 2 ^ 60"
  shows "(\<forall>t. ParseState hmac b64dec t (GenerateState hmac b64enc now oid secret) secret =
      (if unix (now + stateMaxAge) < unix t then Inl (Errorf ''publisher state: token expired'') else Inr oid))
    \<and> (\<forall>t state oid'. ParseState hmac b64dec t state secret = Inr oid' \<longrightarrow>
        (\<exists>expires e. b64dec state = Some (state_payload oid' expires @ ''|'' @ hmac (state_payload oid' expires) secret) \<and>
           parse_int64 expires = Some e \<and> unix t \<le> e))"
proof (intro conjI allI impI)
  fix t
  let ?e = "unix (now + stateMaxAge)"
  have e0: "0 \<le> ?e" using assms(5) by (simp add: unix_def stateMaxAge_def)
  have "1000 * ?e + (now + stateMaxAge) mod 1000 = now + stateMaxAge" by (simp add: unix_def)
  then have "?e \<le> now + stateMaxAge" using e0 pos_mod_sign [of 1000 "now + stateMaxAge"] by linarith
  then have e: "0 \<le> ?e" "in_int64 ?e" using e0 assms(6) by (simp_all add: stateMaxAge_def in_int64_def)
  have exp: "fmt_d ?e = show_nonneg ?e" using e(1) by (simp add: fmt_d_def)
  let ?p = "state_payload oid (show_nonneg ?e)"
  have "?p @ ''|'' @ hmac ?p secret = join_with ''|'' [oid, show_nonneg ?e, hmac ?p secret]"
    by (simp add: state_payload_def)
  moreover have "split_on CHR ''|'' (join_with ''|'' [oid, show_nonneg ?e, hmac ?p secret]) =
      [oid, show_nonneg ?e, hmac ?p secret]"
    using assms(2,4) show_nonneg_sep [OF e(1)] by (intro split_join) auto
  ultimately show "ParseState hmac b64dec t (GenerateState hmac b64enc now oid secret) secret =
      (if ?e < unix t then Inl (Errorf ''publisher state: token expired'') else Inr oid)"
    using assms(3) parse_int64_show [OF e]
    by (simp add: ParseState_def GenerateState_def exp assms(1) Let_def del: append.simps)
next
  fix t state oid' assume "ParseState hmac b64dec t state secret = Inr oid'"
  then obtain b expires sig e where b: "b64dec state = Some b" "split_on CHR ''|'' b = [oid', expires, sig]"
    "sig = hmac (state_payload oid' expires) secret" "parse_int64 expires = Some e" "unix t \<le> e"
    by (auto simp: ParseState_def split: option.splits list.splits if_splits)
  have "b = join_with ''|'' [oid', expires, sig]" using join_split [of "CHR ''|''" b] b(2) by simp
  then have "b = state_payload oid' expires @ ''|'' @ sig" by (simp add: state_payload_def)
  then show "\<exists>expires e. b64dec state = Some (state_payload oid' expires @ ''|'' @ hmac (state_payload oid' expires) secret) \<and>
      parse_int64 expires = Some e \<and> unix t \<le> e"
    using b by blast
qed

theorem state_tokens_witness:
  "ParseState (\<lambda>p s. ''sig'') Some 1000 (GenerateState (\<lambda>p s. ''sig'') (\<lambda>s. s) 0 ''order'' ''key'') ''key'' = Inr ''order''"
proof -
  have "trim_space ''order'' \<noteq> []" by code_simp
  then show ?thesis
    using state_tokens [of Some "\<lambda>s. s" "''order''" "\<lambda>p s. ''sig''" "''key''" 0] by (simp add: unix_def stateMaxAge_def)
qed

subsection \<open>The executor\<close>

record basket_item =
  bi_Exchange :: string
  bi_TradingSymbol :: string
  bi_TransactionType :: string
  bi_Quantity :: int
  bi_OrderType :: string
  bi_Product :: string
  bi_Price :: f64
  bi_MarketProtection :: f64
  bi_Variety :: string

record publisher_env =
  pu_hmac :: "string \<Rightarrow> string \<Rightarrow> string"
  pu_b64enc :: "string \<Rightarrow> string"
  pu_b64dec :: "string \<Rightarrow> string option"
  pu_sha256hex :: "string \<Rightarrow> string"
  pu_basket_json :: "basket_item list \<Rightarrow> string"
  pu_basket_of_json :: "string \<Rightarrow> basket_item list option"
  pu_form_json :: "string \<Rightarrow> string \<Rightarrow> string"
  pu_fmt_v :: "f64 \<Rightarrow> string"
  pu_jwtSecret :: string

text \<open>\<^verbatim>\<open>validate\<close> gives the error of a request publisher mode does not take.\<close>

definition validate_publisher :: "parsed \<Rightarrow> place_request \<Rightarrow> string option" where
  "validate_publisher p req =
     (if trim_space (pc_APIKey p) = [] then Some ''publisher credential is missing api_key''
      else if to_upper (pr_Action req) = ''CLOSE''
      then Some ''CLOSE is not supported in Kite Publisher mode. Send an explicit BUY or SELL signal with quantity and limit price.''
      else if pr_OrderType req = OrderBracket
      then Some ''publisher mode does not support bracket/cover orders (v1)''
      else if 0 < pr_SLPoints req \<or> 0 < pr_TPPoints req
      then Some ''publisher mode does not support SL/TP (v1)'' else None)"

definition mapOrder :: "publisher_env \<Rightarrow> place_request \<Rightarrow> string + basket_item" where
  "mapOrder env req =
     (let exchange = to_upper (trim_space (pr_Exchange req));
          product = to_upper (trim_space (pr_Product req));
          txnType = (if to_upper (pr_Action req) = ''SELL'' then ''SELL'' else ''BUY'');
          qty = int_of_f64 (fmath_round (pr_Quantity req))
      in if exchange \<notin> {''NSE'', ''BSE''} then Inl (''publisher only supports NSE/BSE exchange, got '' @ fmt_q (pr_Exchange req))
         else if product \<notin> {''MIS'', ''CNC'', ''NRML''}
         then Inl (''publisher only supports MIS/CNC/NRML product, got '' @ fmt_q (pr_Product req))
         else if qty < 1 then Inl (''quantity must be >= 1, got '' @ pu_fmt_v env (pr_Quantity req))
         else if to_upper (pr_EntryExecType req) \<noteq> ''LIMIT''
         then Inl (''publisher basket mode only supports LIMIT orders '' @ em_dash
                   @ '' set order_type = LIMIT and provide a price in your signal'')
         else if pr_Price req \<le> 0 then Inl ''LIMIT order requires price > 0''
         else Inr \<lparr> bi_Exchange = exchange, bi_TradingSymbol = to_upper (trim_space (pr_Symbol req)),
                     bi_TransactionType = txnType, bi_Quantity = qty, bi_OrderType = ''LIMIT'',
                     bi_Product = product, bi_Price = pr_Price req, bi_MarketProtection = 0,
                     bi_Variety = ''regular'' \<rparr>)"

text \<open>A number that is not finite has no JSON.\<close>

definition buildBasketJSON :: "publisher_env \<Rightarrow> basket_item list \<Rightarrow> string option" where
  "buildBasketJSON env items =
     (if list_all (\<lambda>i. is_fin (bi_Price i) \<and> is_fin (bi_MarketProtection i)) items
      then Some (pu_basket_json env items) else None)"

definition EnsureMarketProtection :: "publisher_env \<Rightarrow> string \<Rightarrow> string" where
  "EnsureMarketProtection env basketJSON =
     (case pu_basket_of_json env basketJSON of
        None \<Rightarrow> basketJSON
      | Some items \<Rightarrow>
          (let bare = (\<lambda>i. bi_OrderType i = ''MARKET'' \<and> bi_MarketProtection i \<le> 0);
               items' = map (\<lambda>i. if bare i then i\<lparr>bi_MarketProtection := Fin (1/2)\<rparr> else i) items
           in if \<not> list_ex bare items then basketJSON
              else (case buildBasketJSON env items' of None \<Rightarrow> basketJSON | Some b \<Rightarrow> b)))"

definition publisher_order_of ::
  "publisher_env \<Rightarrow> broker_credential \<Rightarrow> string \<Rightarrow> string \<Rightarrow> int \<Rightarrow> publisher_order" where
  "publisher_order_of env cred oid formJSON now =
     \<lparr> pb_ID = oid, pb_UserID = bc_UserID cred, pb_CredentialID = bc_ID cred, pb_WebhookID = None, pb_TradeID = None,
       pb_Broker = ''zerodha'', pb_ExecutionMode = ''publisher'', pb_BasketPayloadJSON = formJSON,
       pb_BasketPayloadHash = pu_sha256hex env formJSON, pb_Status = ''created'', pb_CallbackStatus = None,
       pb_KiteRequestToken = None,
       pb_SignedState = GenerateState (pu_hmac env) (pu_b64enc env) now oid (pu_jwtSecret env),
       pb_RedirectedAt = None, pb_CallbackAt = None, pb_ExpiresAt = now + stateMaxAge, pb_CreatedAt = now,
       pb_UpdatedAt = now \<rparr>"

definition kiteBasketURL :: string where "kiteBasketURL = ''https://kite.zerodha.com/connect/basket''"

definition internal_wrap :: "go_err \<Rightarrow> go_err" where
  "internal_wrap e = BrokerWrap CodeInternal (PublicMessage CodeInternal) e"

definition store_failure :: "store_err \<Rightarrow> go_err" where
  "store_failure e = Errorf ''store: insert publisher order''"

definition PublisherPlaceOrder ::
  "publisher_env \<Rightarrow> broker_credential \<Rightarrow> parsed \<Rightarrow> int \<Rightarrow> string \<Rightarrow> place_request \<Rightarrow> trade_db \<Rightarrow>
   (go_err + order_result) \<times> trade_db" where
  "PublisherPlaceOrder env cred p now oid req db =
     (case validate_publisher p req of
        Some msg \<Rightarrow> (Inl (BrokerNew CodeUnsupportedAction msg), db)
      | None \<Rightarrow>
          (case mapOrder env req of
             Inl msg \<Rightarrow> (Inl (BrokerNew CodeUnsupportedAction msg), db)
           | Inr item \<Rightarrow>
               (case buildBasketJSON env [item] of
                  None \<Rightarrow> (Inl (internal_wrap (Errorf ''json: unsupported value'')), db)
                | Some basketJSON \<Rightarrow>
                    (let formJSON = pu_form_json env (pc_APIKey p) basketJSON in
                     case InsertPublisherOrder (publisher_order_of env cred oid formJSON now) db of
                       Inl e \<Rightarrow> (Inl (internal_wrap (store_failure e)), db)
                     | Inr db' \<Rightarrow>
                         (Inr \<lparr> or_Status = StatusPendingConfirmation, or_OrderID = oid, or_FillPrice = 0,
                                or_SLPrice = 0, or_TPPrice = 0,
                                or_Handoff = Some \<lparr> ho_Provider = ''zerodha'', ho_Method = ''POST_FORM'',
                                  ho_Action = kiteBasketURL,
                                  ho_Fields = [''api_key'' \<mapsto> pc_APIKey p, ''data'' \<mapsto> basketJSON],
                                  ho_PublisherOrderID = oid \<rparr> \<rparr>,
                          (case InsertPublisherOrderEvent \<lparr> pe_PublisherOrderID = oid,
                             pe_EventType = ''BASKET_CREATED'', pe_CreatedAt = now \<rparr> db' of
                             Inl e \<Rightarrow> db' | Inr db'' \<Rightarrow> db''))))))"

definition publisher_unsupported :: "string \<Rightarrow> go_err" where
  "publisher_unsupported what = BrokerNew CodeUnsupportedAction what"

subsection \<open>Handlers\<close>

definition redirect_target :: "string \<Rightarrow> publisher_order \<Rightarrow> string" where
  "redirect_target base o' =
     (if linked_trade o' \<noteq> [] then base @ ''/trades/'' @ linked_trade o' @ ''?publisher=1''
      else base @ ''/dashboard?publisher=1'')"

definition add_event :: "string \<Rightarrow> string \<Rightarrow> int \<Rightarrow> trade_db \<Rightarrow> trade_db" where
  "add_event oid typ now db =
     (case InsertPublisherOrderEvent \<lparr>pe_PublisherOrderID = oid, pe_EventType = typ, pe_CreatedAt = now\<rparr> db of
        Inl e \<Rightarrow> db | Inr db' \<Rightarrow> db')"

text \<open>What a callback does to a pending order and its trade.\<close>

definition settle_order :: "int \<Rightarrow> publisher_order \<Rightarrow> string \<Rightarrow> string \<Rightarrow> string option \<Rightarrow> string \<Rightarrow> string \<Rightarrow> trade_db \<Rightarrow> trade_db" where
  "settle_order now o' internalStatus kiteStatus rt eventType tradeStatus db =
     (let db = UpdatePublisherOrderCallback now (pb_ID o') internalStatus kiteStatus rt now db;
          db = add_event (pb_ID o') eventType now db
      in if linked_trade o' \<noteq> [] then UpdatePublisherTradeStatus now (linked_trade o') tradeStatus db else db)"

definition callback_order :: "publisher_env \<Rightarrow> int \<Rightarrow> string \<Rightarrow> trade_db \<Rightarrow> publisher_order api" where
  "callback_order env now stateParam db =
     (if stateParam \<noteq> [] then
        (case ParseState (pu_hmac env) (pu_b64dec env) now stateParam (pu_jwtSecret env) of
           Inl e \<Rightarrow> Inl (400, ''invalid or expired state'')
         | Inr oid \<Rightarrow> (case GetPublisherOrder db oid of
                        None \<Rightarrow> Inl (400, ''publisher order not found'') | Some o' \<Rightarrow> Inr o'))
      else (case GetMostRecentPendingPublisherOrder now db of
              None \<Rightarrow> Inl (400, ''no pending publisher order found'') | Some o' \<Rightarrow> Inr o'))"

definition Callback ::
  "publisher_env \<Rightarrow> string \<Rightarrow> int \<Rightarrow> string \<Rightarrow> string \<Rightarrow> string \<Rightarrow> trade_db \<Rightarrow> string api \<times> trade_db" where
  "Callback env base now status request_token state db =
     (let kiteStatus = trim_space status; requestToken = trim_space request_token in
      case callback_order env now (trim_space state) db of
        Inl e \<Rightarrow> (Inl e, db)
      | Inr o' \<Rightarrow>
          (Inr (redirect_target base o'),
           if PublisherOrderIsTerminal (pb_Status o') then db
           else if kiteStatus = ''success'' then
             settle_order now o' ''user_returned'' kiteStatus
               (if requestToken \<noteq> [] then Some requestToken else None) ''USER_RETURNED_FROM_KITE'' ''submitted'' db
           else
             settle_order now o' ''user_cancelled'' (if kiteStatus = [] then ''unknown'' else kiteStatus)
               None ''USER_CANCELLED'' ''cancelled'' db))"

text \<open>The id of the path is a UUID, which the transport checks.\<close>

definition MarkPublisherOrderSubmitted :: "int \<Rightarrow> string \<Rightarrow> string \<Rightarrow> trade_db \<Rightarrow> unit api \<times> trade_db" where
  "MarkPublisherOrderSubmitted now userID orderID db =
     (case GetPublisherOrder db orderID of
        None \<Rightarrow> (Inl (404, ''publisher order not found''), db)
      | Some o' \<Rightarrow>
          (if pb_UserID o' \<noteq> userID then (Inl (404, ''publisher order not found''), db)
           else if PublisherOrderIsTerminal (pb_Status o') then (Inl (409, ''this order has already been finalized''), db)
           else (Inr (), settle_order now o' ''user_returned'' ''success'' None ''USER_MARKED_SUBMITTED'' ''submitted'' db)))"

text \<open>The expiry job: the sweep and the trades it shows to the dashboard.\<close>

definition expiry_tick :: "int \<Rightarrow> trade_db \<Rightarrow> trade list \<times> trade_db" where
  "expiry_tick now db =
     (let (tids, db) = ExpireStalePublisherOrders now db in (List.map_filter (GetTradeByID db) tids, db))"

subsection \<open>Execution events\<close>

record execution_event =
  ev_RequestID :: string
  ev_Event :: string
  ev_BrokerOrderID :: string
  ev_FillPrice :: f64

definition event_status :: "execution_event \<Rightarrow> string option" where
  "event_status ev =
     (let e = to_lower (ev_Event ev) in
      if e = ''filled'' then Some ''filled'' else if e = ''submitted'' then Some ''submitted''
      else if e = ''rejected'' \<or> e = ''cancelled'' then Some (ev_Event ev) else None)"

definition PostExecutionEvent :: "trade_cols \<Rightarrow> int \<Rightarrow> execution_event \<Rightarrow> trade_db \<Rightarrow> unit api \<times> trade_db" where
  "PostExecutionEvent nc now ev db =
     (if trim_space (ev_RequestID ev) = [] then (Inl (400, ''request_id required''), db)
      else case GetTradeByID db (ev_RequestID ev) of
             None \<Rightarrow> (Inl (404, ''trade not found''), db)
           | Some trade \<Rightarrow>
               (case event_status ev of
                  None \<Rightarrow> (Inl (400, ''unsupported event''), db)
                | Some status \<Rightarrow>
                    (let trade = trade\<lparr>t_Status := status\<rparr>;
                         trade = (if status = ''filled'' \<and> to_lower (ev_Event ev) = ''filled'' \<and> 0 < ev_FillPrice ev
                                  then trade\<lparr>t_FillPrice := ev_FillPrice ev\<rparr> else trade);
                         trade = (if ev_BrokerOrderID ev \<noteq> [] then trade\<lparr>t_BrokerOrder := ev_BrokerOrderID ev\<rparr> else trade)
                     in case UpdateTradeFromExecutionEvent nc now trade db of
                          Inl e \<Rightarrow> (Inl (500, ''could not update trade''), db)
                        | Inr db' \<Rightarrow> (Inr (), db'))))"

subsection \<open>Polled fills\<close>

record kite_snapshot =
  ks_OrderID :: string
  ks_Status :: string
  ks_AveragePrice :: f64
  ks_StatusMessage :: string

definition MapKiteStatus :: "string \<Rightarrow> string \<times> bool" where
  "MapKiteStatus kiteStatus =
     (let s = to_upper (trim_space kiteStatus) in
      if s = ''COMPLETE'' then (StatusFilled, True)
      else if s = ''REJECTED'' then (StatusRejected, True)
      else if s = ''CANCELLED'' then (''cancelled'', True)
      else (StatusSubmitted, False))"

definition ApplyKiteSnapshot :: "kite_snapshot \<Rightarrow> (string \<times> f64 \<times> string) option" where
  "ApplyKiteSnapshot snap =
     (let (newStatus, terminal) = MapKiteStatus (ks_Status snap) in
      if \<not> terminal then None
      else Some (newStatus, ks_AveragePrice snap,
        if newStatus = StatusRejected \<and> trim_space (ks_StatusMessage snap) \<noteq> [] then ks_StatusMessage snap else []))"

definition applySnapshot :: "trade_cols \<Rightarrow> int \<Rightarrow> trade \<Rightarrow> kite_snapshot \<Rightarrow> trade_db \<Rightarrow> trade_db" where
  "applySnapshot nc now t snap db =
     (case ApplyKiteSnapshot snap of
        None \<Rightarrow> db
      | Some (newStatus, fillPrice, errMsg) \<Rightarrow>
          (if newStatus = t_Status t then db
           else case UpdateTradeFillOutcome nc now (t_ID t) newStatus fillPrice errMsg db of
                  Inl e \<Rightarrow> db | Inr db' \<Rightarrow> db'))"

text \<open>
  One credential's sweep. \<open>book\<close> is today's orders by id, \<open>None\<close> when they could not be had, which
  covers the failures before it (credential, decryption, parsing); \<open>history\<close> is the last entry of an
  order's own history.
\<close>

definition poll_one :: "trade_cols \<Rightarrow> int \<Rightarrow> (string \<Rightarrow> kite_snapshot option) \<Rightarrow> (string \<Rightarrow> kite_snapshot option) \<Rightarrow>
    trade \<Rightarrow> trade_db \<Rightarrow> trade_db" where
  "poll_one nc now book history t db =
     (case (case book (t_BrokerOrder t) of Some snap \<Rightarrow> Some snap | None \<Rightarrow> history (t_BrokerOrder t)) of
        None \<Rightarrow> db
      | Some snap \<Rightarrow> applySnapshot nc now t snap db)"

definition pollCredential :: "trade_cols \<Rightarrow> int \<Rightarrow> (string \<Rightarrow> kite_snapshot option) option \<Rightarrow>
    (string \<Rightarrow> kite_snapshot option) \<Rightarrow> trade list \<Rightarrow> trade_db \<Rightarrow> trade_db" where
  "pollCredential nc now book history trades db =
     (case book of None \<Rightarrow> db | Some b \<Rightarrow> fold (poll_one nc now b history) trades db)"

text \<open>The credentials are swept in any order; here in that of their first pending trade.\<close>

definition fill_tick ::
  "trade_cols \<Rightarrow> (string \<Rightarrow> broker_credential option) \<Rightarrow> (string \<Rightarrow> (string \<Rightarrow> kite_snapshot option) option) \<Rightarrow>
   (string \<Rightarrow> string \<Rightarrow> kite_snapshot option) \<Rightarrow> int \<Rightarrow> int \<Rightarrow> int \<Rightarrow> trade_db \<Rightarrow> trade_db" where
  "fill_tick nc cred_of books histories now maxAge limit db =
     (let pending = ListPendingZerodhaOAuthFills cred_of now maxAge limit db in
      fold (\<lambda>cid db. pollCredential nc now (books cid) (histories cid)
              (map fst (filter (\<lambda>p. snd p = cid) pending)) db)
        (remdups (map snd pending)) db)"

subsection \<open>The life of a trade after it was sent\<close>

text \<open>
  What the callbacks, the owner, the expiry of handoffs and the polled fills do, in any order.
\<close>

inductive trade_step :: "publisher_env \<Rightarrow> trade_cols \<Rightarrow> trade_db \<Rightarrow> trade_db \<Rightarrow> bool"
  for env :: publisher_env and nc :: trade_cols where
  ts_callback: "trade_step env nc db (snd (Callback env base now st rt state db))"
| ts_mark: "trade_step env nc db (snd (MarkPublisherOrderSubmitted now userID orderID db))"
| ts_sweep: "trade_step env nc db (snd (ExpireStalePublisherOrders now db))"
| ts_expire: "trade_step env nc db (snd (ExpirePublisherOrderIfStale now orderID db))"
| ts_poll: "trade_step env nc db (applySnapshot nc now t snap db)"

inductive_cases trade_stepE: "trade_step env nc db db'"

definition settled :: "string \<Rightarrow> bool" where
  "settled s \<longleftrightarrow> s \<in> {''filled'', ''rejected'', ''cancelled''}"

definition progress :: "string \<Rightarrow> nat" where
  "progress s = (if settled s then 2 else if s = ''submitted'' then 1 else 0)"

definition row_advances :: "trade_row \<Rightarrow> trade_row \<Rightarrow> bool" where
  "row_advances r r' \<longleftrightarrow> t_ID (tr_trade r') = t_ID (tr_trade r) \<and>
     progress (t_Status (tr_trade r)) \<le> progress (t_Status (tr_trade r')) \<and>
     (settled (t_Status (tr_trade r)) \<longrightarrow> r' = r)"

definition advances :: "trade_db \<Rightarrow> trade_db \<Rightarrow> bool" where
  "advances db db' \<longleftrightarrow> list_all2 row_advances (td_trades db) (td_trades db')"

lemma row_advances_refl [simp]: "row_advances r r"
  by (simp add: row_advances_def)

lemma row_advances_trans: "row_advances a b \<Longrightarrow> row_advances b c \<Longrightarrow> row_advances a c"
  unfolding row_advances_def by (metis order_trans)

lemma advances_refl [simp]: "advances db db"
  by (simp add: advances_def list_all2_same)

lemma advances_trans: "advances a b \<Longrightarrow> advances b c \<Longrightarrow> advances a c"
  unfolding advances_def by (rule list_all2_trans [OF row_advances_trans])

lemma advances_ids: "advances db db' \<Longrightarrow> trade_ids db' = trade_ids db"
  by (auto simp: advances_def trade_ids_def row_advances_def list_all2_conv_all_nth intro!: nth_equalityI)

lemma advances_same_trades: "td_trades db' = td_trades db \<Longrightarrow> advances db db'"
  by (simp add: advances_def list_all2_same)

lemma advances_update:
  assumes "\<And>r. P r \<Longrightarrow> \<not> settled (t_Status r) \<and> t_ID (f r) = t_ID r \<and> progress (t_Status r) \<le> progress (t_Status (f r))"
  shows "advances db (update_trades now P f db)"
proof -
  have "row_advances r (if P (tr_trade r) then \<lparr>tr_trade = f (tr_trade r), tr_UpdatedAt = now\<rparr> else r)" for r
    using assms [of "tr_trade r"] by (cases "P (tr_trade r)") (simp_all add: row_advances_def)
  then show ?thesis
    by (simp add: advances_def update_trades_def update_where_def list_all2_conv_all_nth)
qed

lemma advances_UpdatePublisherTradeStatus [simp]: "advances db (UpdatePublisherTradeStatus now tid status db)"
  unfolding UpdatePublisherTradeStatus_def by (rule advances_update) (simp add: settled_def progress_def)

lemma advances_reject [simp]: "advances db (rejectExpiredPublisherTradeIfPending now tid db)"
  unfolding rejectExpiredPublisherTradeIfPending_def
  by (rule advances_update) (simp add: settled_def progress_def responded_def)

lemma trades_of_orders [simp]:
  "td_trades (UpdatePublisherOrderCallback now oid is ks rt cb db) = td_trades db"
  "td_trades (update_publisher now P f db) = td_trades db"
  "td_trades (add_event oid typ now db) = td_trades db"
  by (simp_all add: UpdatePublisherOrderCallback_def update_publisher_def add_event_def
      InsertPublisherOrderEvent_def require_def)

lemma advances_settle_order [simp]: "advances db (settle_order now o' is ks rt et ts db)"
proof -
  let ?db = "add_event (pb_ID o') et now (UpdatePublisherOrderCallback now (pb_ID o') is ks rt now db)"
  have "advances db ?db" by (rule advances_same_trades) simp
  then show ?thesis
    using advances_trans [OF _ advances_UpdatePublisherTradeStatus [of ?db now "linked_trade o'" ts]]
    by (simp add: settle_order_def Let_def)
qed

lemma advances_expire [simp]: "advances db (snd (expirePublisherOrder now o' db))"
proof -
  let ?db = "(update_publisher now (\<lambda>p. pb_ID p = pb_ID o' \<and> \<not> PublisherOrderIsTerminal (pb_Status p))
      (\<lambda>p. p\<lparr>pb_Status := ''expired''\<rparr>) db)"
  let ?db' = "?db\<lparr>td_events := td_events ?db @ [\<lparr>pe_PublisherOrderID = pb_ID o',
      pe_EventType = ''HANDOFF_EXPIRED'', pe_CreatedAt = now\<rparr>]\<rparr>"
  have "advances db ?db'" by (rule advances_same_trades) simp
  then show ?thesis
    using advances_trans [OF _ advances_reject [of ?db' now "linked_trade o'"]]
    by (simp add: expirePublisherOrder_def Let_def)
qed

lemma advances_expire_all: "advances db (snd (expire_all now os db))"
proof (induction os arbitrary: db)
  case (Cons o' os)
  have "advances db (snd (expirePublisherOrder now o' db))" by simp
  from advances_trans [OF this Cons.IH] show ?case by (simp add: case_prod_beta)
qed simp

lemma advances_poll: "advances db (applySnapshot nc now t snap db)"
proof -
  have "advances db db'" if u: "UpdateTradeFillOutcome nc now tid status p m db = Inr db'"
    and m: "ApplyKiteSnapshot snap = Some (status, p, m)" for tid status p m db'
  proof -
    have "settled status" using m
      by (auto simp: ApplyKiteSnapshot_def MapKiteStatus_def settled_def StatusFilled_def StatusRejected_def
          Let_def split: if_splits)
    with u show ?thesis
      by (auto simp: UpdateTradeFillOutcome_def ebind_Inr_iff settled_def progress_def intro!: advances_update)
  qed
  then show ?thesis by (auto simp: applySnapshot_def split: option.splits sum.splits)
qed

lemma trade_step_advances: "trade_step env nc db db' \<Longrightarrow> advances db db'"
proof (induction rule: trade_step.induct)
  case (ts_callback db base now st rt state)
  show ?case by (simp add: Callback_def Let_def split: sum.splits)
next
  case (ts_mark db now userID orderID)
  show ?case by (simp add: MarkPublisherOrderSubmitted_def split: option.splits)
next
  case (ts_sweep db now)
  show ?case by (simp add: ExpireStalePublisherOrders_def advances_expire_all)
next
  case (ts_expire db now orderID)
  show ?case by (simp add: ExpirePublisherOrderIfStale_def split: option.splits)
next
  case (ts_poll db now t snap)
  show ?case by (rule advances_poll)
qed

text \<open>
  C22. After a trade was sent, no sequence of callbacks, confirmations by the owner, expiries and polled
  fills turns its progress back: pending confirmation, submitted, settled; and once it is filled,
  rejected or cancelled nothing in its row changes any more.
\<close>

theorem settled_trades_are_final:
  assumes "(trade_step env nc)\<^sup>*\<^sup>* db db'"
  shows "advances db db'"
  using assms
proof (induction rule: rtranclp_induct)
  case (step db1 db2)
  from advances_trans [OF step.IH trade_step_advances [OF step.hyps(2)]] show ?case .
qed simp

definition sample_env :: publisher_env where
  "sample_env = \<lparr> pu_hmac = (\<lambda>p s. ''sig''), pu_b64enc = (\<lambda>s. s), pu_b64dec = Some, pu_sha256hex = (\<lambda>s. s),
     pu_basket_json = (\<lambda>_. []), pu_basket_of_json = (\<lambda>_. None), pu_form_json = (\<lambda>_ _. []), pu_fmt_v = (\<lambda>_. []),
     pu_jwtSecret = ''key'' \<rparr>"

theorem settled_trades_are_final_witness:
  "advances (sample_tdb ''pending_confirmation'')
     (snd (ExpireStalePublisherOrders 1800000 (sample_tdb ''pending_confirmation'')))"
  by (rule settled_trades_are_final [of sample_env plain_cols]) (rule r_into_rtranclp, rule ts_sweep)


subsection \<open>What goes wrong\<close>

text \<open>
  An execution event is not one of these steps: it overrides whatever status a trade has.
\<close>

definition status_of :: "trade_db \<Rightarrow> string \<Rightarrow> string option" where
  "status_of db tid = map_option t_Status (GetTradeByID db tid)"

lemma find_update_where:
  assumes "\<And>r. k (g r) = k r"
  shows "find (\<lambda>r. k r = x) (update_where P g rows) =
    map_option (\<lambda>r. if P r then g r else r) (find (\<lambda>r. k r = x) rows)"
  using assms by (induction rows) (auto simp: update_where_def)

lemma GetTradeByID_update:
  assumes "\<And>r. t_ID (f r) = t_ID r"
  shows "GetTradeByID (update_trades now P f db) tid =
    (case find (\<lambda>r. t_ID (tr_trade r) = tid) (td_trades db) of
       None \<Rightarrow> None
     | Some r \<Rightarrow> Some (selected_trade (if P (tr_trade r) then f (tr_trade r) else tr_trade r)))"
proof -
  have "find (\<lambda>r. t_ID (tr_trade r) = tid) (td_trades (update_trades now P f db)) =
      map_option (\<lambda>r. if (P \<circ> tr_trade) r then \<lparr>tr_trade = f (tr_trade r), tr_UpdatedAt = now\<rparr> else r)
        (find (\<lambda>r. t_ID (tr_trade r) = tid) (td_trades db))"
    unfolding update_trades_def by (simp add: find_update_where [where k = "\<lambda>r. t_ID (tr_trade r)"] assms)
  then show ?thesis by (simp add: GetTradeByID_def split: option.splits)
qed

lemma GetTradeByID_Some:
  "GetTradeByID db tid = Some t \<longleftrightarrow> (\<exists>r. find (\<lambda>r. t_ID (tr_trade r) = tid) (td_trades db) = Some r \<and> t = selected_trade (tr_trade r))"
  by (auto simp: GetTradeByID_def)

text \<open>
  An execution event for a trade sets the status it names, whatever the trade's status was: a late
  \<open>submitted\<close> takes a trade that is filled, rejected or cancelled back to submitted, and the poll that
  looks for submitted trades then has it again.
\<close>

theorem late_event_reopens:
  assumes "GetTradeByID db tid = Some t" "trim_space tid \<noteq> []" "tc_price nc (t_FillPrice t) = Some p"
  shows "status_of (snd (PostExecutionEvent nc now
      \<lparr>ev_RequestID = tid, ev_Event = ''submitted'', ev_BrokerOrderID = bo, ev_FillPrice = fp\<rparr> db)) tid
    = Some ''submitted''"
proof -
  have low: "to_lower ''submitted'' = ''submitted''" by code_simp
  obtain r where r: "find (\<lambda>r. t_ID (tr_trade r) = tid) (td_trades db) = Some r" "t = selected_trade (tr_trade r)"
    using assms(1) by (auto simp: GetTradeByID_Some)
  have id: "t_ID (tr_trade r) = tid" using r(1) by (auto simp: find_Some_iff)
  define t' where "t' = t\<lparr>t_Status := ''submitted'', t_BrokerOrder := (if bo \<noteq> [] then bo else t_BrokerOrder t)\<rparr>"
  have t': "t_ID t' = tid" "t_Status t' = ''submitted''" "t_FillPrice t' = t_FillPrice t"
    using id r(2) by (simp_all add: t'_def selected_trade_def)
  have u: "UpdateTradeFromExecutionEvent nc now t' db = Inr (update_trades now (\<lambda>r. t_ID r = tid)
      (\<lambda>r. responded now (r\<lparr>t_Status := ''submitted'', t_FillPrice := p,
         t_BrokerOrder := (if t_BrokerOrder t' = [] then t_BrokerOrder r else t_BrokerOrder t')\<rparr>)) db)"
    using assms(3) by (simp add: UpdateTradeFromExecutionEvent_def col_def t')
  have e: "(let trade = t\<lparr>t_Status := ''submitted''\<rparr>;
      trade = (if bo \<noteq> [] then trade\<lparr>t_BrokerOrder := bo\<rparr> else trade) in trade) = t'"
    by (simp add: t'_def)
  have "PostExecutionEvent nc now
      \<lparr>ev_RequestID = tid, ev_Event = ''submitted'', ev_BrokerOrderID = bo, ev_FillPrice = fp\<rparr> db =
      (case UpdateTradeFromExecutionEvent nc now t' db of
         Inl e \<Rightarrow> (Inl (500, ''could not update trade''), db) | Inr db' \<Rightarrow> (Inr (), db'))"
    using assms(1,2) by (cases "bo = []") (simp_all add: PostExecutionEvent_def event_status_def low Let_def e [symmetric])
  then show ?thesis
    by (simp add: u status_of_def GetTradeByID_update r(1) id responded_def selected_trade_def)
qed

theorem late_event_reopens_witness:
  "status_of (snd (PostExecutionEvent plain_cols 9
     \<lparr>ev_RequestID = ''t1'', ev_Event = ''submitted'', ev_BrokerOrderID = [], ev_FillPrice = 0\<rparr>
     (sample_tdb ''filled''))) ''t1'' = Some ''submitted''"
proof (rule late_event_reopens)
  show "GetTradeByID (sample_tdb ''filled'') ''t1'' =
      Some (zero_trade\<lparr>t_ID := ''t1'', t_WebhookID := ''w'', t_Status := ''filled''\<rparr>)"
    by (simp add: GetTradeByID_def sample_tdb_def selected_trade_def zero_trade_def)
  show "trim_space ''t1'' \<noteq> []" by code_simp
  show "tc_price plain_cols (t_FillPrice (zero_trade\<lparr>t_ID := ''t1'', t_WebhookID := ''w'', t_Status := ''filled''\<rparr>)) = Some 0"
    by (simp add: plain_cols_def zero_trade_def)
qed


lemma most_recent_pending:
  assumes "GetMostRecentPendingPublisherOrder now db = Some o'"
  shows "o' \<in> set (td_publisher db) \<and> \<not> PublisherOrderIsTerminal (pb_Status o')"
proof -
  let ?os = "filter (\<lambda>o'. \<not> PublisherOrderIsTerminal (pb_Status o') \<and> now < pb_ExpiresAt o') (td_publisher db)"
  obtain rest where "newest_first pb_CreatedAt ?os = o' # rest"
    using assms by (auto simp: GetMostRecentPendingPublisherOrder_def split: list.splits)
  then have "o' \<in> set (newest_first pb_CreatedAt ?os)" by simp
  then show ?thesis by (simp add: newest_first_def)
qed

text \<open>
  Whoever calls the callback without a state decides about the newest pending order of any user: it
  takes no secret. The order's trade, if it awaits confirmation, becomes cancelled, or submitted when
  the caller says success.
\<close>

theorem callback_without_state:
  assumes "GetMostRecentPendingPublisherOrder now db = Some o'" "linked_trade o' = tid" "tid \<noteq> []"
    and "GetTradeByID db tid = Some t" "t_Status t = ''pending_confirmation''"
  shows "status_of (snd (Callback env base now ''cancelled'' [] [] db)) tid = Some ''cancelled''
    \<and> status_of (snd (Callback env base now ''success'' [] [] db)) tid = Some ''submitted''"
proof -
  have p: "\<not> PublisherOrderIsTerminal (pb_Status o')" using most_recent_pending [OF assms(1)] by simp
  obtain r where r: "find (\<lambda>r. t_ID (tr_trade r) = tid) (td_trades db) = Some r" "t = selected_trade (tr_trade r)"
    using assms(4) by (auto simp: GetTradeByID_Some)
  have id: "t_ID (tr_trade r) = tid" "t_Status (tr_trade r) = ''pending_confirmation''"
    using r assms(5) by (auto simp: find_Some_iff selected_trade_def)
  have s: "status_of (settle_order now o' is ks rt et ts db) tid = Some ts" for "is" ks rt et ts
    using assms(2,3) id by (simp add: settle_order_def Let_def UpdatePublisherTradeStatus_def status_of_def
        GetTradeByID_update r(1) selected_trade_def)
  have t: "trim_space ''cancelled'' = ''cancelled''" "trim_space ''success'' = ''success''" by code_simp+
  show ?thesis
    using p assms(1) s by (simp add: Callback_def callback_order_def t Let_def)
qed

lemma sample_pending:
  "GetMostRecentPendingPublisherOrder 5 (sample_tdb s) = Some sample_order" "linked_trade sample_order = ''t1''"
  "GetTradeByID (sample_tdb s) ''t1'' = Some (zero_trade\<lparr>t_ID := ''t1'', t_WebhookID := ''w'', t_Status := s\<rparr>)"
  by (simp_all add: GetMostRecentPendingPublisherOrder_def sample_tdb_def sample_order_def linked_trade_def
      newest_first_def PublisherOrderIsTerminal_def GetTradeByID_def selected_trade_def zero_trade_def)

theorem callback_without_state_witness:
  "status_of (snd (Callback sample_env [] 5 ''cancelled'' [] [] (sample_tdb ''pending_confirmation''))) ''t1''
     = Some ''cancelled''"
  using callback_without_state [OF sample_pending(1,2) _ sample_pending(3), where env = sample_env and base = "[]"] by simp


subsection \<open>A confirmation that comes too early\<close>

definition stuck :: "string \<Rightarrow> trade_db \<Rightarrow> bool" where
  "stuck tid db \<longleftrightarrow> status_of db tid = Some ''pending_confirmation'' \<and>
     (\<forall>o' \<in> set (td_publisher db). linked_trade o' = tid \<longrightarrow> pb_Status o' \<in> {''user_returned'', ''user_cancelled''})"

lemma status_of_update:
  assumes "status_of db tid = Some s" "\<And>t. t_ID t = tid \<Longrightarrow> t_Status t = s \<Longrightarrow> \<not> P t" "\<And>r. t_ID (f r) = t_ID r"
  shows "status_of (update_trades now P f db) tid = Some s"
proof -
  obtain r where r: "find (\<lambda>r. t_ID (tr_trade r) = tid) (td_trades db) = Some r" "t_Status (tr_trade r) = s"
    using assms(1) by (auto simp: status_of_def GetTradeByID_def selected_trade_def)
  then have "t_ID (tr_trade r) = tid" by (auto simp: find_Some_iff)
  then show ?thesis using r assms(2) by (simp add: status_of_def GetTradeByID_update assms(3) selected_trade_def)
qed

lemma status_of_same: "td_trades db' = td_trades db \<Longrightarrow> status_of db' tid = status_of db tid"
  by (simp add: status_of_def GetTradeByID_def)

lemma publisher_of_trades [simp]:
  "td_publisher (update_trades now P f db) = td_publisher db"
  "td_publisher (add_event oid typ now db) = td_publisher db"
  by (simp_all add: update_trades_def add_event_def InsertPublisherOrderEvent_def require_def)

lemma stuck_update:
  "stuck tid db \<Longrightarrow> (\<And>t. t_ID t = tid \<Longrightarrow> t_Status t = ''pending_confirmation'' \<Longrightarrow> \<not> P t) \<Longrightarrow>
     (\<And>r. t_ID (f r) = t_ID r) \<Longrightarrow> stuck tid (update_trades now P f db)"
  by (simp add: stuck_def status_of_update)

lemma stuck_publisher:
  assumes "stuck tid db" "td_trades db' = td_trades db" "td_publisher db' = update_where P g (td_publisher db)"
    and "\<And>p. linked_trade (g p) = linked_trade p"
    and "\<And>p. P p \<Longrightarrow> pb_Status (g p) \<in> {''user_returned'', ''user_cancelled''} \<or> \<not> PublisherOrderIsTerminal (pb_Status p)"
    and "\<And>p. P p \<Longrightarrow> PublisherOrderIsTerminal (pb_Status p) \<Longrightarrow> pb_Status (g p) \<in> {''user_returned'', ''user_cancelled''}"
  shows "stuck tid db'"
proof -
  have "pb_Status p \<in> {''user_returned'', ''user_cancelled''}"
    if "p \<in> set (td_publisher db')" "linked_trade p = tid" for p
  proof -
    from that(1) obtain q where q: "q \<in> set (td_publisher db)" "p = (if P q then g q else q)"
      unfolding assms(3) update_where_def set_map by (rule imageE) simp
    have l: "linked_trade q = tid" using that(2) q(2) assms(4) by (cases "P q") simp_all
    with q(1) assms(1) have t: "pb_Status q \<in> {''user_returned'', ''user_cancelled''}" by (simp add: stuck_def)
    then have "PublisherOrderIsTerminal (pb_Status q)" by (auto simp: PublisherOrderIsTerminal_def)
    then show ?thesis using t q(2) assms(6) by (cases "P q") simp_all
  qed
  then show ?thesis using assms(1) status_of_same [OF assms(2), of tid] by (simp add: stuck_def)
qed

lemma linked_not_stuck:
  "stuck tid db \<Longrightarrow> o' \<in> set (td_publisher db) \<Longrightarrow> \<not> PublisherOrderIsTerminal (pb_Status o') \<Longrightarrow> linked_trade o' \<noteq> tid"
  by (auto simp: stuck_def PublisherOrderIsTerminal_def)

lemma stuck_settle:
  assumes "stuck tid db" "linked_trade o' \<noteq> tid" "st0 \<in> {''user_returned'', ''user_cancelled''}"
  shows "stuck tid (settle_order now o' st0 ks rt et ts db)"
proof -
  let ?db = "add_event (pb_ID o') et now (UpdatePublisherOrderCallback now (pb_ID o') st0 ks rt now db)"
  have "stuck tid ?db"
    by (rule stuck_publisher [OF assms(1), of _ "\<lambda>p. pb_ID p = pb_ID o'"
          "\<lambda>p. (p\<lparr>pb_Status := st0, pb_CallbackStatus := Some ks, pb_KiteRequestToken := rt,
                  pb_CallbackAt := Some now\<rparr>)\<lparr>pb_UpdatedAt := now\<rparr>"])
      (use assms(3) in \<open>auto simp: UpdatePublisherOrderCallback_def update_publisher_def linked_trade_def\<close>)
  then have "stuck tid (UpdatePublisherTradeStatus now (linked_trade o') ts ?db)"
    unfolding UpdatePublisherTradeStatus_def by (rule stuck_update) (use assms(2) in auto)
  with \<open>stuck tid ?db\<close> show ?thesis by (simp add: settle_order_def Let_def)
qed

lemma stuck_reject: "stuck tid db \<Longrightarrow> tid' \<noteq> tid \<Longrightarrow> stuck tid (rejectExpiredPublisherTradeIfPending now tid' db)"
  unfolding rejectExpiredPublisherTradeIfPending_def by (rule stuck_update) (auto simp: responded_def)

lemma stuck_expire:
  assumes "stuck tid db" "linked_trade o' \<noteq> tid"
  shows "stuck tid (snd (expirePublisherOrder now o' db))"
proof -
  let ?P = "\<lambda>p. pb_ID p = pb_ID o' \<and> \<not> PublisherOrderIsTerminal (pb_Status p)"
  let ?db = "update_publisher now ?P (\<lambda>p. p\<lparr>pb_Status := ''expired''\<rparr>) db"
  let ?db' = "?db\<lparr>td_events := td_events ?db @ [\<lparr>pe_PublisherOrderID = pb_ID o',
      pe_EventType = ''HANDOFF_EXPIRED'', pe_CreatedAt = now\<rparr>]\<rparr>"
  have "stuck tid ?db'"
    by (rule stuck_publisher [OF assms(1), of _ ?P "\<lambda>p. (p\<lparr>pb_Status := ''expired''\<rparr>)\<lparr>pb_UpdatedAt := now\<rparr>"])
      (auto simp: update_publisher_def linked_trade_def)
  with stuck_reject [OF this assms(2)] assms(1) show ?thesis
    by (simp add: expirePublisherOrder_def Let_def)
qed

lemma stuck_expire_all:
  "stuck tid db \<Longrightarrow> \<forall>o' \<in> set os. linked_trade o' \<noteq> tid \<Longrightarrow> stuck tid (snd (expire_all now os db))"
proof (induction os arbitrary: db)
  case (Cons o' os)
  then have "stuck tid (snd (expirePublisherOrder now o' db))" using stuck_expire by simp
  from Cons.IH [OF this] Cons.prems(2) show ?case by (simp add: case_prod_beta)
qed simp

lemma callback_order_in: "callback_order env now st db = Inr o' \<Longrightarrow> o' \<in> set (td_publisher db)"
  using most_recent_pending [of now db]
  by (auto simp: callback_order_def GetPublisherOrder_def find_Some_iff
      split: if_splits sum.splits option.splits)

lemma stuck_step:
  assumes "trade_step env nc db db'" "stuck tid db" "tid \<noteq> []"
  shows "stuck tid db'"
  using assms(1,2)
proof (induction rule: trade_step.induct)
  case (ts_callback db base now st rt state)
  show ?case
  proof (cases "callback_order env now (trim_space state) db")
    case (Inl e)
    then show ?thesis using ts_callback by (simp add: Callback_def)
  next
    case (Inr o')
    then show ?thesis using ts_callback stuck_settle [OF ts_callback linked_not_stuck [OF ts_callback callback_order_in [OF Inr]]]
      by (simp add: Callback_def Let_def)
  qed
next
  case (ts_mark db now userID orderID)
  show ?case
  proof (cases "GetPublisherOrder db orderID")
    case None
    then show ?thesis using ts_mark by (simp add: MarkPublisherOrderSubmitted_def)
  next
    case (Some o')
    then have "o' \<in> set (td_publisher db)" by (auto simp: GetPublisherOrder_def find_Some_iff)
    then show ?thesis using ts_mark Some stuck_settle [OF ts_mark linked_not_stuck [OF ts_mark]]
      by (simp add: MarkPublisherOrderSubmitted_def)
  qed
next
  case (ts_sweep db now)
  have "\<forall>o' \<in> set (stale_orders now db). linked_trade o' \<noteq> tid"
    using linked_not_stuck [OF ts_sweep] by (simp add: stale_orders_def)
  then show ?case using stuck_expire_all [OF ts_sweep] by (simp add: ExpireStalePublisherOrders_def)
next
  case (ts_expire db now orderID)
  show ?case
  proof (cases "GetPublisherOrder db orderID")
    case None
    then show ?thesis using ts_expire by (simp add: ExpirePublisherOrderIfStale_def)
  next
    case (Some o')
    then have m: "o' \<in> set (td_publisher db)" by (auto simp: GetPublisherOrder_def find_Some_iff)
    have x: "linked_trade o' \<noteq> tid" if "pb_Status o' = ''expired''"
      using ts_expire m that by (auto simp: stuck_def)
    show ?thesis using ts_expire Some stuck_expire [OF ts_expire linked_not_stuck [OF ts_expire m]] stuck_reject [OF ts_expire x]
      by (simp add: ExpirePublisherOrderIfStale_def)
  qed
next
  case (ts_poll db now t snap)
  have "stuck tid db'" if "UpdateTradeFillOutcome nc now i s p m db = Inr db'" for i s p m db'
    using that ts_poll by (auto simp: UpdateTradeFillOutcome_def ebind_Inr_iff intro!: stuck_update)
  then show ?case using ts_poll by (auto simp: applySnapshot_def split: option.splits sum.splits)
qed

text \<open>
  A user who confirms a handoff before the worker has finalised the trade leaves the trade pending
  for good. The trade is still queued when the callback comes, so the callback settles the order and
  leaves the trade; the worker then writes that it awaits confirmation, and no later callback,
  confirmation, expiry or poll moves it.
\<close>

theorem early_callback_strands_trade:
  assumes "callback_order env now (trim_space state) db = Inr o'" "\<not> PublisherOrderIsTerminal (pb_Status o')"
    and "\<forall>p \<in> set (td_publisher db). linked_trade p = tid \<longrightarrow> pb_ID p = pb_ID o'" "tid \<noteq> []"
    and "t_ID t = tid" "t_Status t = ''pending_confirmation''"
    and "FinalizeTrade nc now' t (snd (Callback env base now status rt state db)) = Inr db1"
    and "(trade_step env nc)\<^sup>*\<^sup>* db1 db2"
  shows "status_of db2 tid = Some ''pending_confirmation''"
proof -
  let ?cb = "snd (Callback env base now status rt state db)"
  obtain st0 ks rtk et ts where s0: "st0 \<in> {''user_returned'', ''user_cancelled''}"
    and cb: "?cb = settle_order now o' st0 ks rtk et ts db"
  proof (cases "trim_space status = ''success''")
    case True
    show ?thesis
      by (rule that [of "''user_returned''" "''success''" "if trim_space rt \<noteq> [] then Some (trim_space rt) else None"
            "''USER_RETURNED_FROM_KITE''" "''submitted''"])
        (use True assms(1,2) in \<open>simp_all add: Callback_def Let_def\<close>)
  next
    case False
    show ?thesis
      by (rule that [of "''user_cancelled''" "if trim_space status = [] then ''unknown'' else trim_space status" None
            "''USER_CANCELLED''" "''cancelled''"])
        (use False assms(1,2) in \<open>simp_all add: Callback_def Let_def\<close>)
  qed
  have pub: "td_publisher ?cb = update_where (\<lambda>p. pb_ID p = pb_ID o')
      (\<lambda>p. (p\<lparr>pb_Status := st0, pb_CallbackStatus := Some ks, pb_KiteRequestToken := rtk,
              pb_CallbackAt := Some now\<rparr>)\<lparr>pb_UpdatedAt := now\<rparr>) (td_publisher db)"
    by (simp add: cb settle_order_def Let_def UpdatePublisherTradeStatus_def UpdatePublisherOrderCallback_def
        update_publisher_def)
  obtain f where f: "db1 = update_trades now' (\<lambda>r. t_ID r = tid) f ?cb" "\<And>r. t_ID (f r) = t_ID r"
    "\<And>r. t_Status (f r) = ''pending_confirmation''" "tid \<in> set (trade_ids ?cb)"
    using assms(5,6,7) by (auto simp: FinalizeTrade_def encode_trade_def ebind_Inr_iff responded_def split: if_splits)
  from f(4) obtain r where r: "find (\<lambda>r. t_ID (tr_trade r) = tid) (td_trades ?cb) = Some r"
    by (cases "find (\<lambda>r. t_ID (tr_trade r) = tid) (td_trades ?cb)") (auto simp: trade_ids_def find_None_iff)
  then have "t_ID (tr_trade r) = tid" by (auto simp: find_Some_iff)
  then have "status_of db1 tid = Some ''pending_confirmation''"
    by (simp add: f(1) status_of_def GetTradeByID_update f(2,3) r selected_trade_def)
  moreover have "pb_Status p \<in> {''user_returned'', ''user_cancelled''}"
    if "p \<in> set (td_publisher db1)" "linked_trade p = tid" for p
  proof -
    have "p \<in> set (td_publisher ?cb)" using that(1) by (simp add: f(1))
    then show ?thesis using that(2) assms(3) s0
      unfolding pub update_where_def by (auto simp: linked_trade_def split: if_splits)
  qed
  ultimately have "stuck tid db1" by (simp add: stuck_def)
  with assms(8) have "stuck tid db2"
    by (induction rule: rtranclp_induct) (use stuck_step assms(4) in blast)+
  then show ?thesis by (simp add: stuck_def)
qed

theorem early_callback_strands_trade_witness:
  "\<exists>db1. FinalizeTrade plain_cols 7 (zero_trade\<lparr>t_ID := ''t1'', t_Status := ''pending_confirmation''\<rparr>)
     (snd (Callback sample_env [] 5 ''success'' [] [] (sample_tdb ''queued''))) = Inr db1 \<and>
   status_of (snd (ExpireStalePublisherOrders 1800000 db1)) ''t1'' = Some ''pending_confirmation''"
proof -
  let ?t = "zero_trade\<lparr>t_ID := ''t1'', t_Status := ''pending_confirmation''\<rparr>"
  let ?cb = "snd (Callback sample_env [] 5 ''success'' [] [] (sample_tdb ''queued''))"
  have co: "callback_order sample_env 5 (trim_space []) (sample_tdb ''queued'') = Inr sample_order"
    by (simp add: callback_order_def sample_pending)
  have nt: "\<not> PublisherOrderIsTerminal (pb_Status sample_order)"
    by (simp add: sample_order_def PublisherOrderIsTerminal_def)
  have "''t1'' \<in> set (trade_ids ?cb)"
    using advances_ids [OF trade_step_advances [OF ts_callback]]
    by (simp add: trade_ids_def sample_tdb_def zero_trade_def)
  then obtain db1 where db1: "FinalizeTrade plain_cols 7 ?t ?cb = Inr db1"
    by (simp add: FinalizeTrade_def encode_trade_def col_def col_opt_def plain_cols_def zero_trade_def)
  have "(trade_step sample_env plain_cols)\<^sup>*\<^sup>* db1 (snd (ExpireStalePublisherOrders 1800000 db1))"
    by (rule r_into_rtranclp) (rule ts_sweep)
  then have "status_of (snd (ExpireStalePublisherOrders 1800000 db1)) ''t1'' = Some ''pending_confirmation''"
    by (intro early_callback_strands_trade [OF co nt _ _ _ _ db1]) (simp_all add: sample_tdb_def)
  with db1 show ?thesis by blast
qed


end
