(* ===== verification/Idempotency.thy ===== *)
theory Idempotency
  imports Guard
begin

section \<open>The key of a signal\<close>

text \<open>
  Models \<^verbatim>\<open>internal/platform/security/idempotency/key.go\<close>: the key under which the signals of a webhook
  count as the same one. SHA-256 in hexadecimal, the JSON document of the payload (none when a number is
  not finite) and \<^verbatim>\<open>%g\<close> are parameters.
\<close>

record canonical_payload =
  cp_Action :: string
  cp_Symbol :: string
  cp_Lot :: f64
  cp_SLPts :: int
  cp_TPPts :: int

record key_env =
  ke_hashHex :: "string \<Rightarrow> string"
  ke_json :: "canonical_payload \<Rightarrow> string option"
  ke_fmt_g :: "f64 \<Rightarrow> string"

definition WindowSec :: "webhook option \<Rightarrow> int" where
  "WindowSec wh = (case wh of None \<Rightarrow> 0 | Some wh \<Rightarrow> wh_DedupWindowSec wh)"

text \<open>As a duration, in nanoseconds.\<close>

definition Window :: "webhook option \<Rightarrow> int" where
  "Window wh = (if WindowSec wh \<le> 0 then 0 else WindowSec wh * 1000000000)"

definition Enabled :: "webhook option \<Rightarrow> bool" where
  "Enabled wh = (0 < WindowSec wh)"

text \<open>What of a signal enters the key, with the defaults of the webhook.\<close>

definition canonical_of :: "webhook \<Rightarrow> signal_payload \<Rightarrow> canonical_payload" where
  "canonical_of wh sig =
     (let symbol = trim_space (sg_Symbol sig)
      in \<lparr> cp_Action = sg_Action sig,
           cp_Symbol = (if symbol = [] then (case EffectiveAllowedSymbols wh of [] \<Rightarrow> symbol | s # _ \<Rightarrow> s) else symbol),
           cp_Lot = (if sg_Lot sig \<le> 0 \<and> 0 < wh_LotSize wh then wh_LotSize wh else sg_Lot sig),
           cp_SLPts = (if sg_SLPts sig \<le> 0 then wh_SLPoints wh else sg_SLPts sig),
           cp_TPPts = (if sg_TPPts sig \<le> 0 then wh_TPPoints wh else sg_TPPts sig) \<rparr>)"

definition key_text :: "key_env \<Rightarrow> string \<Rightarrow> webhook \<Rightarrow> signal_payload \<Rightarrow> string" where
  "key_text ke webhookID wh sig =
     (let p = canonical_of wh sig; comment = trim_space (sg_Comment sig) in
      if comment \<noteq> []
      then webhookID @ ''|'' @ sg_Action sig @ ''|'' @ cp_Symbol p @ ''|'' @ ke_fmt_g ke (cp_Lot p) @ ''|'' @ comment
      else (case ke_json ke p of
              None \<Rightarrow> webhookID @ ''|'' @ sg_Action sig @ ''|'' @ cp_Symbol p
            | Some body \<Rightarrow> webhookID @ ''|'' @ body))"

definition SignalKey :: "key_env \<Rightarrow> string \<Rightarrow> webhook \<Rightarrow> signal_payload \<Rightarrow> string" where
  "SignalKey ke webhookID wh sig = ke_hashHex ke (key_text ke webhookID wh sig)"

subsection \<open>Which signals share a key\<close>

lemma signal_key_ignores_price:
  "SignalKey ke webhookID wh (sig\<lparr>sg_Price := p, sg_Product := q, sg_OrderType := t\<rparr>) = SignalKey ke webhookID wh sig"
proof -
  let ?sig = "sig\<lparr>sg_Price := p, sg_Product := q, sg_OrderType := t\<rparr>"
  have "sg_Action ?sig = sg_Action sig" "sg_Symbol ?sig = sg_Symbol sig" "sg_Lot ?sig = sg_Lot sig"
    "sg_SLPts ?sig = sg_SLPts sig" "sg_TPPts ?sig = sg_TPPts sig" "sg_Comment ?sig = sg_Comment sig"
    by simp_all
  then show ?thesis unfolding SignalKey_def key_text_def canonical_of_def by (simp only:)
qed

lemma key_text_json:
  assumes "trim_space (sg_Comment sig) = []" "ke_json ke (canonical_of wh sig) = Some body"
  shows "key_text ke webhookID wh sig = webhookID @ ''|'' @ body"
  using assms by (simp add: key_text_def)

lemma collision: "f a = f b \<Longrightarrow> a = b \<or> (\<exists>x y. x \<noteq> y \<and> f x = f y)"
  by (cases "a = b") (rule disjI1, assumption, rule disjI2, intro exI conjI)

text \<open>
  A key without a comment tells signals apart: two signals of a webhook that have the same key agree on
  everything the key is made of, or SHA-256 has a collision on the two texts, or two payloads have the same
  JSON document.
\<close>

theorem same_key_same_order:
  assumes "trim_space (sg_Comment s1) = []" "trim_space (sg_Comment s2) = []"
    and "ke_json ke (canonical_of wh s1) = Some b1" "ke_json ke (canonical_of wh s2) = Some b2"
    and "SignalKey ke webhookID wh s1 = SignalKey ke webhookID wh s2"
  shows "canonical_of wh s1 = canonical_of wh s2
    \<or> (\<exists>p q. p \<noteq> q \<and> ke_json ke p = ke_json ke q \<and> ke_json ke p \<noteq> None)
    \<or> (\<exists>a b. a \<noteq> b \<and> ke_hashHex ke a = ke_hashHex ke b)"
proof -
  let ?c1 = "canonical_of wh s1" and ?c2 = "canonical_of wh s2"
  let ?t1 = "webhookID @ ''|'' @ b1" and ?t2 = "webhookID @ ''|'' @ b2"
  have "ke_hashHex ke ?t1 = ke_hashHex ke ?t2"
    using assms(5) unfolding SignalKey_def key_text_json [OF assms(1,3)] key_text_json [OF assms(2,4)] .
  then have "?t1 = ?t2 \<or> (\<exists>a b. a \<noteq> b \<and> ke_hashHex ke a = ke_hashHex ke b)" by (rule collision)
  moreover have "b1 = b2" if "?t1 = ?t2" using that by simp
  moreover have "?c1 = ?c2 \<or> (\<exists>p q. p \<noteq> q \<and> ke_json ke p = ke_json ke q \<and> ke_json ke p \<noteq> None)" if "b1 = b2"
  proof (cases "?c1 = ?c2")
    case False
    moreover have "ke_json ke ?c1 = ke_json ke ?c2" "ke_json ke ?c1 \<noteq> None" unfolding assms(3,4) using that by simp_all
    ultimately show ?thesis by (intro disjI2 exI conjI)
  qed (rule disjI1)
  ultimately show ?thesis by argo
qed

theorem same_key_same_order_witness:
  "let wh = undefined\<lparr>wh_LotSize := 0\<rparr>;
       sig = \<lparr>sg_Action = ''BUY'', sg_Symbol = ''INFY'', sg_Lot = 1, sg_Price = 0, sg_SLPts = 2,
              sg_TPPts = 3, sg_Comment = [], sg_Product = [], sg_OrderType = []\<rparr>;
       ke = \<lparr>ke_hashHex = (\<lambda>s. s), ke_json = (\<lambda>p. if p = canonical_of wh sig then Some ''j'' else None),
             ke_fmt_g = (\<lambda>_. [])\<rparr>
   in canonical_of wh sig = canonical_of wh (sig\<lparr>sg_Price := 1, sg_Product := ''MIS'', sg_OrderType := []\<rparr>)"
proof -
  define wh :: webhook where "wh = undefined\<lparr>wh_LotSize := 0\<rparr>"
  define sig where "sig = \<lparr>sg_Action = ''BUY'', sg_Symbol = ''INFY'', sg_Lot = 1, sg_Price = 0, sg_SLPts = 2,
    sg_TPPts = 3, sg_Comment = [], sg_Product = [], sg_OrderType = []\<rparr>"
  define ke where "ke = \<lparr>ke_hashHex = (\<lambda>s. s), ke_json = (\<lambda>p. if p = canonical_of wh sig then Some ''j'' else None),
    ke_fmt_g = (\<lambda>_. [])\<rparr>"
  let ?sig = "sig\<lparr>sg_Price := 1, sg_Product := ''MIS'', sg_OrderType := []\<rparr>"
  have c: "trim_space (sg_Comment sig) = []" "trim_space (sg_Comment ?sig) = []" by (simp_all add: sig_def)
  have j: "ke_json ke (canonical_of wh sig) = Some ''j''" "ke_json ke (canonical_of wh ?sig) = Some ''j''"
    by (simp_all add: ke_def canonical_of_def)
  have h: "\<not> (\<exists>p q. p \<noteq> q \<and> ke_json ke p = ke_json ke q \<and> ke_json ke p \<noteq> None)"
    "\<not> (\<exists>a b. a \<noteq> b \<and> ke_hashHex ke a = ke_hashHex ke b)"
    by (simp_all add: ke_def)
  have "canonical_of wh sig = canonical_of wh ?sig"
    using same_key_same_order [OF c j signal_key_ignores_price [symmetric]] h by blast
  then show ?thesis by (simp add: wh_def sig_def)
qed

end
