(* ===== verification/Queue.thy ===== *)
theory Queue
  imports AdapterServer TradeDb PaperDb Idempotency
begin

section \<open>The worker: from a queued job to a finalised trade\<close>

text \<open>
  Models \<^verbatim>\<open>internal/platform/queue\<close>: what a worker does with a job, with the trade rows it writes on every
  way out, the paper route, the monthly quota and the notices; and from \<^verbatim>\<open>internal/marketdata\<close> the price
  of a paper market order.

  The state is the trade tables, Redis and whatever the runners work on; a runner may change all of it.
  What the worker only reads is in the environment, with the failures of each lookup, and so is for each
  statement whether the data base answers, with the text of the error of an insert. Metrics, log lines, mail and Telegram are left out, and with
  them the broker's type that only labels a metric.
\<close>

subsection \<open>Market prices\<close>

record quote_registry =
  rg_providers :: "string \<rightharpoonup> (string \<times> string \<Rightarrow> go_err + f64 option)"
  rg_fallback :: string

definition ErrNoQuote :: go_err where "ErrNoQuote = Sentinel ''marketdata: no quote available''"
definition ProviderSignal :: string where "ProviderSignal = ''signal''"
definition ProviderFyers :: string where "ProviderFyers = ''fyers''"
definition SettingKeyProvider :: string where "SettingKeyProvider = ''market_data_provider''"

type_synonym settings = "string \<Rightarrow> go_err + string option"

definition ActiveProviderName :: "quote_registry option \<Rightarrow> settings \<Rightarrow> string" where
  "ActiveProviderName r get =
     (case r of
        None \<Rightarrow> []
      | Some r \<Rightarrow>
          (case get SettingKeyProvider of
             Inr (Some name) \<Rightarrow> if name \<noteq> [] \<and> rg_providers r name \<noteq> None then name else rg_fallback r
           | _ \<Rightarrow> rg_fallback r))"

text \<open>The fallback is among the providers; a missing one gives no quote here.\<close>

definition Resolve :: "quote_registry \<Rightarrow> string \<Rightarrow> string \<times> string \<Rightarrow> go_err + f64 option" where
  "Resolve r name =
     (case rg_providers r name of
        Some p \<Rightarrow> p
      | None \<Rightarrow> (case rg_providers r (rg_fallback r) of Some p \<Rightarrow> p | None \<Rightarrow> (\<lambda>_. Inr None)))"

definition ResolveMarketFillPrice :: "quote_registry option \<Rightarrow> settings \<Rightarrow> string \<Rightarrow> string \<Rightarrow> go_err + f64" where
  "ResolveMarketFillPrice r get exchange symbol =
     (case r of
        None \<Rightarrow> Inl ErrNoQuote
      | Some reg \<Rightarrow>
          (if ActiveProviderName r get = ProviderSignal then Inl ErrNoQuote
           else
             (case Resolve reg (ActiveProviderName r get) (to_upper (trim_space exchange), to_upper (trim_space symbol)) of
                Inl e \<Rightarrow> Inl e
              | Inr None \<Rightarrow> Inl ErrNoQuote
              | Inr (Some ltp) \<Rightarrow> if ltp \<le> 0 then Inl ErrNoQuote else Inr ltp)))"

subsection \<open>The state and the environment of a worker\<close>

record 'w qstate =
  qs_db :: trade_db
  qs_redis :: redis
  qs_inner :: 'w

record 'w qworld =
  qw_state :: "'w qstate"
  qw_shown :: "trade list"
  qw_alerted :: "trade list"
  qw_quota_notices :: "string list"

record 'w qenv =
  qe_GetUserByID :: "string \<Rightarrow> go_err + user option"
  qe_GetBrokerCred :: "string \<Rightarrow> go_err + broker_credential option"
  qe_GetPaperAccount :: "string \<Rightarrow> go_err + paper_account option"
  qe_GetInstrument :: "string \<Rightarrow> string \<Rightarrow> string \<Rightarrow> go_err + instrument option"
  qe_GetMarketProfileByCode :: "string \<Rightarrow> go_err + market_profile option"
  qe_GetPlatformSetting :: settings
  qe_CountPaperOrders :: "string \<Rightarrow> go_err + int"
  qe_dedup_ok :: bool
  qe_insert_ok :: bool
  qe_insert_error :: "string"
  qe_finalize_ok :: bool
  qe_persist_ok :: bool
  qe_redis_ok :: bool
  qe_cols :: trade_cols
  qe_zones :: zones
  qe_now :: int
  qe_newID :: string
  qe_key :: key_env
  qe_live :: "'w qstate runner option"
  qe_paper :: "'w qstate runner option"
  qe_md :: "quote_registry option"

text \<open>Instants are milliseconds; the calendar of the guards counts seconds.\<close>

definition qe_secs :: "'w qenv \<Rightarrow> int" where
  "qe_secs env = qe_now env div 1000"

record job =
  jb_Webhook :: webhook
  jb_Signal :: signal_payload
  jb_SignalKey :: string
  jb_TradeID :: string

subsection \<open>Writing trade rows\<close>

definition attempt :: "bool \<Rightarrow> store_err + 'a \<Rightarrow> 'a option" where
  "attempt ok r = (if ok then (case r of Inl _ \<Rightarrow> None | Inr x \<Rightarrow> Some x) else None)"

definition with_db :: "trade_db \<Rightarrow> 'w qworld \<Rightarrow> 'w qworld" where
  "with_db db w = w\<lparr>qw_state := (qw_state w)\<lparr>qs_db := db\<rparr>\<rparr>"

definition announce :: "trade \<Rightarrow> 'w qworld \<Rightarrow> 'w qworld" where
  "announce t w = w\<lparr>qw_alerted := (if t_UserID t \<noteq> [] then qw_alerted w @ [t] else qw_alerted w),
     qw_shown := qw_shown w @ [t]\<rparr>"

definition persistTrade :: "'w qenv \<Rightarrow> trade \<Rightarrow> 'w qworld \<Rightarrow> 'w qworld" where
  "persistTrade env t w =
     (case attempt (qe_persist_ok env) (PersistTradeAudit (qe_cols env) (qe_now env) t (qs_db (qw_state w))) of
        None \<Rightarrow> w
      | Some db \<Rightarrow> announce t (with_db db w))"

definition finalizeTrade :: "'w qenv \<Rightarrow> trade \<Rightarrow> 'w qworld \<Rightarrow> 'w qworld" where
  "finalizeTrade env t w =
     (case attempt (qe_finalize_ok env) (FinalizeTrade (qe_cols env) (qe_now env) t (qs_db (qw_state w))) of
        Some db \<Rightarrow> announce t (with_db db w)
      | None \<Rightarrow>
          (case attempt (qe_persist_ok env) (PersistTradeAudit (qe_cols env) (qe_now env) t (qs_db (qw_state w))) of
             None \<Rightarrow> w
           | Some db \<Rightarrow> announce t (with_db db w)))"

definition rejected_as :: "string \<Rightarrow> string \<Rightarrow> trade \<Rightarrow> trade" where
  "rejected_as code message t = t\<lparr>t_Status := ''rejected'', t_Error := message, t_ErrorCode := code\<rparr>"

definition rejectExistingTrade :: "'w qenv \<Rightarrow> trade \<Rightarrow> string \<Rightarrow> string \<Rightarrow> 'w qworld \<Rightarrow> 'w qworld" where
  "rejectExistingTrade env t code message w = finalizeTrade env (rejected_as code message t) w"

subsection \<open>Product and order type of a trade\<close>

definition product_err :: "string \<Rightarrow> go_err" where
  "product_err msg = Errorf msg"

text \<open>A pointer that is not nil and not empty.\<close>

definition given :: "string option \<Rightarrow> string option" where
  "given p = (case p of Some x \<Rightarrow> if x = [] then None else Some x | None \<Rightarrow> None)"

text \<open>The error, and the parameters as they are left behind in either case.\<close>

definition resolveWebhookProduct ::
  "'w qenv \<Rightarrow> webhook \<Rightarrow> trade_params \<Rightarrow> go_err option \<times> trade_params" where
  "resolveWebhookProduct env wh params =
     (let params = params\<lparr>tp_Product := to_upper (trim_space (tp_Product params))\<rparr> in
      case given (wh_PaperAccountID wh) of
        Some aid \<Rightarrow>
          (case qe_GetPaperAccount env aid of
             Inl _ \<Rightarrow> (Some (product_err ''paper account lookup failed''), params)
           | Inr None \<Rightarrow> (Some (product_err ''paper account not found''), params)
           | Inr (Some account) \<Rightarrow>
               (None, if tp_Product params = []
                      then params\<lparr>tp_Product := to_upper (trim_space (pa_DefaultProduct account))\<rparr> else params))
      | None \<Rightarrow>
          (case given (wh_BrokerCredID wh) of
             None \<Rightarrow> (None, params)
           | Some cid \<Rightarrow>
               (case qe_GetBrokerCred env cid of
                  Inr (Some cred) \<Rightarrow>
                    (case ResolveOrderProduct (bc_Product cred) (tp_Product params) of
                       Inl e \<Rightarrow> (Some e, params)
                     | Inr p \<Rightarrow> (None, params\<lparr>tp_Product := p\<rparr>))
                | _ \<Rightarrow> (Some (product_err ''broker credentials not found''), params))))"

definition tradeRejectCodeForProductErr :: "go_err option \<Rightarrow> string" where
  "tradeRejectCodeForProductErr err =
     (case err of
        None \<Rightarrow> CodeInternal
      | Some e \<Rightarrow>
          (let msg = err_text e in
           if contains msg ''product is required'' \<or> contains msg ''not enabled on this broker account''
           then ''product_required''
           else if contains msg ''paper account'' then ''paper_account_not_found''
           else if err_is e ErrOrderTypeNotAllowed then ErrCode e
           else CodeInternal))"

definition resolveTradeOrderType :: "webhook \<Rightarrow> trade_params \<Rightarrow> string" where
  "resolveTradeOrderType wh params =
     (if 0 < tp_SLPts params \<or> 0 < tp_TPPts params then ''BRACKET'' else WebhookOrderType (Some wh))"

definition applyTradeSignalMeta :: "webhook \<Rightarrow> trade_params \<Rightarrow> string \<Rightarrow> trade \<Rightarrow> trade" where
  "applyTradeSignalMeta wh params productFallback t =
     (let product = to_upper (trim_space (tp_Product params));
          product = (if product = [] then to_upper (trim_space productFallback) else product)
      in t\<lparr>t_OrderType := resolveTradeOrderType wh params, t_Product := product\<rparr>)"

definition buildRejectedTrade ::
  "'w qenv \<Rightarrow> webhook \<Rightarrow> signal_payload \<Rightarrow> string \<Rightarrow> string \<Rightarrow> string \<Rightarrow> string \<Rightarrow> trade" where
  "buildRejectedTrade env wh sig signalKey tradeID code message =
     (let params = snd (resolveWebhookProduct env wh (ResolveParams wh sig));
          tradeID = (if tradeID = [] then qe_newID env else tradeID)
      in applyTradeSignalMeta wh params (tp_Product params)
           (zero_trade\<lparr>t_ID := tradeID, t_UserID := wh_UserID wh, t_WebhookID := wh_ID wh,
              t_WebhookLabel := wh_Label wh, t_Signal := sg_Action sig, t_Symbol := tp_Symbol params,
              t_SignalKey := signalKey, t_Comment := sg_Comment sig, t_Status := ''rejected'',
              t_Error := message, t_ErrorCode := code, t_CreatedAt := qe_now env\<rparr>))"

definition rejectTradeWithCode ::
  "'w qenv \<Rightarrow> webhook \<Rightarrow> signal_payload \<Rightarrow> string \<Rightarrow> string \<Rightarrow> string \<Rightarrow> string \<Rightarrow> 'w qworld \<Rightarrow> 'w qworld" where
  "rejectTradeWithCode env wh sig signalKey tradeID code message w =
     persistTrade env (buildRejectedTrade env wh sig signalKey tradeID code message) w"

subsection \<open>The paper route\<close>

definition quota_message :: "int \<Rightarrow> int \<Rightarrow> string \<Rightarrow> string" where
  "quota_message used cap planName =
     ''monthly paper trade limit reached ('' @ fmt_d used @ ''/'' @ fmt_d cap @ '' on '' @ planName @ '' plan) ''
       @ em_dash @ '' upgrade your plan or wait until next month''"

text \<open>\<open>None\<close> lets the trade pass; else the reason, and whether the cap is reached.\<close>

definition enforcePaperTradeQuota :: "'w qenv \<Rightarrow> user \<Rightarrow> (string \<times> bool) option" where
  "enforcePaperTradeQuota env user =
     (if PaperTradesUnlimited (u_Plan user) then None
      else
        (case qe_CountPaperOrders env (u_ID user) of
           Inl _ \<Rightarrow> None
         | Inr used \<Rightarrow>
             (let cap = MaxPaperTradesPerMonth (LimitsFor (u_Plan user)) in
              case CanPlacePaperTrade (u_Plan user) used of
                None \<Rightarrow> None
              | Some e \<Rightarrow> Some (quota_message used cap (u_Plan user), cap \<le> used))))"

definition with_redis :: "redis \<Rightarrow> 'w qworld \<Rightarrow> 'w qworld" where
  "with_redis r w = w\<lparr>qw_state := (qw_state w)\<lparr>qs_redis := r\<rparr>\<rparr>"

definition notifyPaperQuotaExceeded :: "'w qenv \<Rightarrow> user \<Rightarrow> 'w qworld \<Rightarrow> 'w qworld" where
  "notifyPaperQuotaExceeded env user w =
     (if MaxPaperTradesPerMonth (LimitsFor (u_Plan user)) = 0 then w
      else if \<not> qe_redis_ok env then w\<lparr>qw_quota_notices := qw_quota_notices w @ [u_ID user]\<rparr>
      else
        (let (claimed, r) = TryClaimPaperQuotaNotify (u_ID user) (qe_now env) (qs_redis (qw_state w));
             w = with_redis r w
         in if claimed then w\<lparr>qw_quota_notices := qw_quota_notices w @ [u_ID user]\<rparr> else w))"

definition classifyPaperEngineReason :: "string \<Rightarrow> string" where
  "classifyPaperEngineReason reason =
     (let lower = to_lower reason in
      if contains lower ''tick size'' then ''invalid_price''
      else if contains lower ''lot size'' then ''quantity_required''
      else if contains lower ''price is required'' then ''price_required''
      else ''invalid_order'')"

text \<open>The price a paper order is filled at, or the code and reason of its rejection.\<close>

definition paper_fill_price ::
  "'w qenv \<Rightarrow> string \<Rightarrow> string \<Rightarrow> string \<Rightarrow> f64 \<Rightarrow> (string \<times> string) + f64" where
  "paper_fill_price env orderType exchange symbol price =
     (if price \<le> 0 \<and> orderType = ''MARKET'' then
        (case (case qe_md env of
                 None \<Rightarrow> Inr price
               | Some r \<Rightarrow>
                   (case ResolveMarketFillPrice (Some r) (qe_GetPlatformSetting env) exchange symbol of
                      Inr p \<Rightarrow> Inr p
                    | Inl e \<Rightarrow> if err_is e ErrNoQuote then Inr 0 else Inl e)) of
           Inl e \<Rightarrow> Inl (''quote_unavailable'', ''live quote lookup failed '' @ em_dash
                         @ '' check FYERS connection in admin settings'')
         | Inr fillPrice \<Rightarrow>
             (if fillPrice \<le> 0 then
                (let provider = (case qe_md env of None \<Rightarrow> ProviderSignal
                                 | Some r \<Rightarrow> ActiveProviderName (Some r) (qe_GetPlatformSetting env))
                 in if provider = ProviderFyers
                    then Inl (''quote_unavailable'', ''no live quote available for '' @ symbol @ '' '' @ em_dash
                              @ '' reconnect FYERS in admin settings'')
                    else Inl (''price_required'', ''price is required for paper MARKET order until live data feed is enabled''))
              else Inr fillPrice))
      else Inr price)"

text \<open>
  What stands before the order: the request for the engine, or the code and reason of the rejection,
  with the trade as its fields were set so far.
\<close>

definition paper_lot :: "webhook \<Rightarrow> f64 \<Rightarrow> go_err + f64" where
  "paper_lot wh lot = ebind (ResolveQuantity wh lot) (ApplyMaxLot wh)"

definition unavailable :: "paper_account \<Rightarrow> trade_params \<Rightarrow> string" where
  "unavailable account params = NormalizePaperExchange (pa_Exchange account) @ '':''
     @ NormalizePaperSymbol (tp_Symbol params) @ '' is not available for paper trading''"

definition paper_product :: "trade_params \<Rightarrow> paper_account \<Rightarrow> string" where
  "paper_product params account =
     (let product = to_upper (trim_space (tp_Product params))
      in if product = [] then to_upper (trim_space (pa_DefaultProduct account)) else product)"

definition paper_request ::
  "'w qenv \<Rightarrow> webhook \<Rightarrow> signal_payload \<Rightarrow> trade_params \<Rightarrow> paper_account \<Rightarrow> instrument \<Rightarrow> market_profile \<Rightarrow>
   f64 \<Rightarrow> trade \<Rightarrow> (string \<times> string) + exec_request" where
  "paper_request env wh sig params account instrument profile lot t =
     (let orderType = WebhookOrderType (Some wh);
          symbol = NormalizePaperSymbol (if trim_space (in_Symbol instrument) \<noteq> [] then in_Symbol instrument
                                         else tp_Symbol params);
          exchange = NormalizePaperExchange (pa_Exchange account)
      in case paper_fill_price env orderType exchange symbol (tp_Price params) of
           Inl e \<Rightarrow> Inl e
         | Inr fillPrice \<Rightarrow> Inr (zero_request
             \<lparr> er_AccountID := pa_ID account, er_UserID := wh_UserID wh, er_WebhookID := wh_ID wh,
               er_SignalID := t_ID t, er_MarketProfile := pa_MarketProfile account, er_Exchange := exchange,
               er_Symbol := symbol, er_Side := sg_Action sig, er_OrderType := orderType,
               er_Product := paper_product params account, er_Quantity := lot, er_Price := fillPrice,
               er_TickSize := in_TickSize instrument, er_LotSize := in_LotSize instrument,
               er_SlippageBps := mp_SlippageBps profile, er_FeeBps := mp_FeeBps profile \<rparr>))"

datatype route_end =
    Rejection string string trade
  | QuotaRejection string bool user trade
  | Order exec_request trade

definition paper_checks ::
  "'w qenv \<Rightarrow> webhook \<Rightarrow> signal_payload \<Rightarrow> trade_params \<Rightarrow> trade \<Rightarrow> route_end" where
  "paper_checks env wh sig params t =
     (if qe_paper env = None then Rejection ''paper_not_configured'' ''paper trading engine not configured'' t
      else
      case qe_GetPaperAccount env (case wh_PaperAccountID wh of None \<Rightarrow> [] | Some a \<Rightarrow> a) of
        Inr (Some account) \<Rightarrow>
          (if pa_Status account \<noteq> ''active''
           then Rejection ''paper_account_inactive'' (''paper account is '' @ pa_Status account) t
           else
           let t = applyTradeSignalMeta wh params (pa_DefaultProduct account) t in
           case qe_GetUserByID env (wh_UserID wh) of
             Inr (Some user) \<Rightarrow>
               (case enforcePaperTradeQuota env user of
                  Some (reason, hit) \<Rightarrow> QuotaRejection reason hit user t
                | None \<Rightarrow>
               (case qe_GetInstrument env (pa_MarketProfile account) (pa_Exchange account) (tp_Symbol params) of
                  Inl _ \<Rightarrow> Rejection CodeInternal ''instrument lookup failed'' t
                | Inr None \<Rightarrow> Rejection ''instrument_not_available'' (unavailable account params) t
                | Inr (Some instrument) \<Rightarrow>
                    (if \<not> in_Active instrument
                     then Rejection ''instrument_not_available'' (unavailable account params) t
                     else
               (case qe_GetMarketProfileByCode env (pa_MarketProfile account) of
                  Inl _ \<Rightarrow> Rejection CodeInternal ''market profile lookup failed'' t
                | Inr None \<Rightarrow> Rejection ''market_profile_not_found''
                                (''unknown market profile '' @ fmt_q (pa_MarketProfile account)) t
                | Inr (Some profile) \<Rightarrow>
                    (let reason = CheckMarketHours (qe_zones env) (qe_GetPlatformSetting env)
                           (qe_GetMarketProfileByCode env) (pa_MarketProfile account) (qe_secs env) in
                     if reason \<noteq> [] then Rejection ''outside_trading_hours'' reason t
                     else
                     case paper_lot wh (tp_Lot params) of
                       Inl e \<Rightarrow> Rejection (ErrCode e) (err_text e) t
                     | Inr lot \<Rightarrow>
                         (let t = t\<lparr>t_LotSize := lot\<rparr> in
                          case paper_request env wh sig params account instrument profile lot t of
                            Inl (code, reason) \<Rightarrow> Rejection code reason t
                          | Inr req \<Rightarrow> Order req t))))))
           | _ \<Rightarrow> Rejection CodeInternal ''user not found'' t)
      | _ \<Rightarrow> Rejection ''paper_account_not_found'' ''paper account not found'' t)"

text \<open>
  \<^verbatim>\<open>brokererr.TradeFields\<close> of what a paper runner returns: an \<^verbatim>\<open>*ExecutionError\<close> is not a broker error, so
  only its text is looked at.
\<close>

definition paper_error_fields :: "run_err \<Rightarrow> string \<times> string" where
  "paper_error_fields err = (case err of RunErr e \<Rightarrow> TradeFields (Some e) | ExecErr e bt \<Rightarrow> classifyRaw e)"

definition paper_outcome :: "run_err + exec_result \<Rightarrow> trade \<Rightarrow> trade" where
  "paper_outcome res t =
     (case res of
        Inl err \<Rightarrow> rejected_as (fst (paper_error_fields err)) (snd (paper_error_fields err)) t
      | Inr r \<Rightarrow>
          (let t = (if xr_Status r = PaperOrderStatusFilled then t\<lparr>t_Status := StatusFilled\<rparr>
                    else rejected_as (classifyPaperEngineReason (xr_Reason r)) (xr_Reason r) t)
           in t\<lparr>t_BrokerOrder := xr_OrderID r, t_FillPrice := xr_FillPrice r\<rparr>))"

definition run :: "'w qstate runner \<Rightarrow> exec_request \<Rightarrow> 'w qworld \<Rightarrow> (run_err + exec_result) \<times> 'w qworld" where
  "run runner req w = (let (res, s) = runner req (qw_state w) in (res, w\<lparr>qw_state := s\<rparr>))"

definition processPaperOrder ::
  "'w qenv \<Rightarrow> webhook \<Rightarrow> signal_payload \<Rightarrow> trade_params \<Rightarrow> trade \<Rightarrow> 'w qworld \<Rightarrow> 'w qworld" where
  "processPaperOrder env wh sig params t w =
     (case paper_checks env wh sig params t of
        Rejection code reason t' \<Rightarrow> finalizeTrade env (rejected_as code reason t') w
      | QuotaRejection reason hit user t' \<Rightarrow>
          finalizeTrade env (rejected_as ''paper_quota_exceeded'' reason t')
            (if hit then notifyPaperQuotaExceeded env user w else w)
      | Order req t' \<Rightarrow>
          (let (res, w) = run (orchestrate (qe_paper env)) req w in finalizeTrade env (paper_outcome res t') w))"

subsection \<open>A job\<close>

definition tradeCodeForCompliance :: "compliance_err \<Rightarrow> string" where
  "tradeCodeForCompliance e = (case e of ErrAccountSuspended \<Rightarrow> CodeAccountSuspended | ErrOrgSuspended \<Rightarrow> CodeOrgSuspended)"

text \<open>The guards before the trade row is written: code and message, or the parameters.\<close>

definition job_checks :: "'w qenv \<Rightarrow> webhook \<Rightarrow> signal_payload \<Rightarrow> (string \<times> string) + trade_params" where
  "job_checks env wh sig =
     (case ValidateAction wh (sg_Action sig) of
        Some e \<Rightarrow> Inl (ErrCode e, err_text e)
      | None \<Rightarrow>
     (let params = ResolveParams wh sig in
      if trim_space (tp_Symbol params) = [] then Inl (ErrCode ErrSymbolRequired, err_text ErrSymbolRequired)
      else
     case ValidateSymbol wh (tp_Symbol params) of
        Some e \<Rightarrow> Inl (ErrCode e, err_text e)
      | None \<Rightarrow>
     (case ResolveQuantity wh (tp_Lot params) of
        Inl e \<Rightarrow> Inl (ErrCode e, err_text e)
      | Inr lot \<Rightarrow>
     (case ValidateOrderType wh (sg_OrderType sig) of
        Some e \<Rightarrow> Inl (ErrCode e, err_text e)
      | None \<Rightarrow>
     (case resolveWebhookProduct env wh (params\<lparr>tp_Lot := lot\<rparr>) of
        (Some e, _) \<Rightarrow> Inl (tradeRejectCodeForProductErr (Some e), err_text e)
      | (None, params) \<Rightarrow> Inr params)))))"

definition queued_trade :: "'w qenv \<Rightarrow> webhook \<Rightarrow> signal_payload \<Rightarrow> trade_params \<Rightarrow> string \<Rightarrow> string \<Rightarrow> trade" where
  "queued_trade env wh sig params signalKey tradeID =
     applyTradeSignalMeta wh params (tp_Product params)
       (zero_trade\<lparr>t_ID := tradeID, t_UserID := wh_UserID wh, t_WebhookID := wh_ID wh, t_WebhookLabel := wh_Label wh,
          t_Signal := sg_Action sig, t_Symbol := tp_Symbol params, t_LotSize := tp_Lot params,
          t_SignalKey := signalKey, t_Comment := sg_Comment sig, t_Status := ''queued'', t_CreatedAt := qe_now env\<rparr>)"

definition live_request :: "webhook \<Rightarrow> signal_payload \<Rightarrow> trade_params \<Rightarrow> trade \<Rightarrow> user \<Rightarrow> string \<Rightarrow> exec_request" where
  "live_request wh sig params t user cid = zero_request
     \<lparr> er_AccountID := cid, er_WebhookID := wh_ID wh, er_SignalID := t_ID t, er_UserID := u_ID user,
       er_OrgID := wh_OrgID wh, er_Symbol := tp_Symbol params, er_Side := sg_Action sig,
       er_OrderType := WebhookOrderType (Some wh), er_Product := tp_Product params, er_Quantity := tp_Lot params,
       er_Price := tp_Price params, er_Comment := sg_Comment sig, er_SLPoints := tp_SLPts params,
       er_TPPoints := tp_TPPts params, er_FixedLotSize := wh_LotSize wh, er_MaxRiskPct := wh_MaxRiskPct wh,
       er_MaxLotSize := wh_MaxLotSize wh \<rparr>"

definition live_error_fields :: "run_err \<Rightarrow> string \<times> string" where
  "live_error_fields err = (case err of RunErr e \<Rightarrow> TradeFields (Some e) | ExecErr e bt \<Rightarrow> TradeFields (Some e))"

definition live_outcome :: "run_err + exec_result \<Rightarrow> trade \<Rightarrow> trade" where
  "live_outcome res t =
     (case res of
        Inl err \<Rightarrow> rejected_as (fst (live_error_fields err)) (snd (live_error_fields err)) t
      | Inr r \<Rightarrow>
          (let t = t\<lparr>t_LotSize := xr_Quantity r\<rparr>;
               t = (if xr_OrderType r = OrderBracket then t\<lparr>t_OrderType := ''BRACKET''\<rparr> else t);
               t = t\<lparr>t_Status := xr_Status r, t_BrokerOrder := xr_OrderID r, t_FillPrice := xr_FillPrice r,
                     t_AlgoID := xr_AlgoID r\<rparr>;
               t = (if 0 < xr_SLPrice r then t\<lparr>t_SLPrice := Some (xr_SLPrice r)\<rparr> else t)
           in if 0 < xr_TPPrice r then t\<lparr>t_TPPrice := Some (xr_TPPrice r)\<rparr> else t))"

text \<open>The count of the user's orders of this second; an error of Redis lets the job pass.\<close>

definition user_rate_limited :: "'w qenv \<Rightarrow> webhook \<Rightarrow> int \<Rightarrow> 'w qworld \<Rightarrow> bool \<times> 'w qworld" where
  "user_rate_limited env wh limit w =
     (if limit \<le> 0 \<or> \<not> qe_redis_ok env then (False, w)
      else
        (case IncrRateLimit (wh_UserID wh) (qe_now env) (qs_redis (qw_state w)) of
           (Inl _, r) \<Rightarrow> (False, with_redis r w)
         | (Inr count, r) \<Rightarrow> (limit < count, with_redis r w)))"

text \<open>From the queued trade on.\<close>

definition deliver :: "'w qenv \<Rightarrow> webhook \<Rightarrow> signal_payload \<Rightarrow> trade_params \<Rightarrow> trade \<Rightarrow> 'w qworld \<Rightarrow> 'w qworld" where
  "deliver env wh sig params t w =
     (case qe_GetUserByID env (wh_UserID wh) of
        Inr (Some user) \<Rightarrow>
          (case WebhookMayTrade (Some user) None of
             Some e \<Rightarrow> rejectExistingTrade env t (tradeCodeForCompliance e) (compliance_text e) w
           | None \<Rightarrow>
               (let limit = EnforceOrdersPerSec (u_Plan user);
                    (over, w) = user_rate_limited env wh limit w
                in if over then
                     rejectExistingTrade env t CodeRateLimited (''rate limit exceeded ('' @ fmt_d limit @ '' req/s)'') w
                   else if wh_PaperAccountID wh \<noteq> None then processPaperOrder env wh sig params t w
                   else
                     (case wh_BrokerCredID wh of
                        None \<Rightarrow> rejectExistingTrade env t CodeInternal ''webhook has no execution destination'' w
                      | Some cid \<Rightarrow>
                          (let (res, w) = run (orchestrate (qe_live env)) (live_request wh sig params t user cid) w
                           in finalizeTrade env (live_outcome res t) w))))
      | _ \<Rightarrow> rejectExistingTrade env t CodeInternal ''user not found'' w)"

definition is_duplicate :: "'w qenv \<Rightarrow> webhook \<Rightarrow> string \<Rightarrow> 'w qworld \<Rightarrow> bool" where
  "is_duplicate env wh signalKey w =
     (Enabled (Some wh) \<and> qe_dedup_ok env \<and>
      HasActiveTradeWithSignalKey (qe_now env) (wh_ID wh) signalKey (wh_DedupWindowSec wh) (qs_db (qw_state w)))"

definition job_key :: "'w qenv \<Rightarrow> job \<Rightarrow> string" where
  "job_key env job =
     (if jb_SignalKey job = [] then SignalKey (qe_key env) (wh_ID (jb_Webhook job)) (jb_Webhook job) (jb_Signal job)
      else jb_SignalKey job)"

definition job_trade_id :: "'w qenv \<Rightarrow> job \<Rightarrow> string" where
  "job_trade_id env job = (if jb_TradeID job = [] then qe_newID env else jb_TradeID job)"

definition process_job :: "'w qenv \<Rightarrow> job \<Rightarrow> 'w qworld \<Rightarrow> 'w qworld" where
  "process_job env job w =
     (let wh = jb_Webhook job; sig = jb_Signal job; signalKey = job_key env job; tradeID = job_trade_id env job
      in case job_checks env wh sig of
           Inl (code, message) \<Rightarrow> rejectTradeWithCode env wh sig signalKey tradeID code message w
         | Inr params \<Rightarrow>
             (let t = queued_trade env wh sig params signalKey tradeID in
              if is_duplicate env wh signalKey w then
                persistTrade env (rejected_as ''duplicate_suppressed'' ''duplicate signal suppressed within dedup window'' t) w
              else
                (case attempt (qe_insert_ok env) (InsertTrade (qe_cols env) t (qs_db (qw_state w))) of
                   None \<Rightarrow> persistTrade env (rejected_as CodeInternal
                     (''trade audit row could not be saved: '' @ qe_insert_error env) t) w
                 | Some db \<Rightarrow>
                     (let w = with_db db w; w = w\<lparr>qw_shown := qw_shown w @ [t]\<rparr>
                      in deliver env wh sig params t w))))"

subsection \<open>What the steps leave alone\<close>

named_theorems frame

lemma with_frame [frame]:
  "qs_inner (qw_state (with_db db w)) = qs_inner (qw_state w)" "qs_db (qw_state (with_db db w)) = db"
  "qs_inner (qw_state (with_redis r w)) = qs_inner (qw_state w)" "qs_db (qw_state (with_redis r w)) = qs_db (qw_state w)"
  "qw_shown (with_db db w) = qw_shown w" "qw_shown (with_redis r w) = qw_shown w"
  by (simp_all add: with_db_def with_redis_def)

lemma announce_frame [frame]:
  "qw_state (announce t w) = qw_state w" "qw_shown (announce t w) = qw_shown w @ [t]"
  by (simp_all add: announce_def)

lemma rejected_frame [frame]:
  "t_ID (rejected_as c m t) = t_ID t" "t_Status (rejected_as c m t) = ''rejected''"
  by (simp_all add: rejected_as_def)

lemma persist_inner [frame]: "qs_inner (qw_state (persistTrade env t w)) = qs_inner (qw_state w)"
  by (simp add: persistTrade_def frame split: option.split)

lemma finalize_inner [frame]: "qs_inner (qw_state (finalizeTrade env t w)) = qs_inner (qw_state w)"
  by (simp add: finalizeTrade_def frame split: option.split)

definition quiet :: "'w qworld \<Rightarrow> 'w qworld \<Rightarrow> bool" where
  "quiet w w' = (qs_db (qw_state w') = qs_db (qw_state w) \<and> qs_inner (qw_state w') = qs_inner (qw_state w)
     \<and> qw_shown w' = qw_shown w)"

lemma quiet_refl [intro]: "quiet w w"
  by (simp add: quiet_def)

lemma rate_limit_quiet: "quiet w (snd (user_rate_limited env wh limit w))"
  by (simp add: user_rate_limited_def quiet_def frame split: prod.split sum.split)

lemma quota_notice_quiet: "quiet w (notifyPaperQuotaExceeded env user w)"
  by (simp add: notifyPaperQuotaExceeded_def quiet_def frame Let_def split: prod.split)

lemma quiet_trans: "quiet a b \<Longrightarrow> quiet b c \<Longrightarrow> quiet a c"
  by (simp add: quiet_def)

lemma applyTradeSignalMeta_frame [frame]: "t_ID (applyTradeSignalMeta wh params p t) = t_ID t"
  "t_Status (applyTradeSignalMeta wh params p t) = t_Status t"
  "t_WebhookID (applyTradeSignalMeta wh params p t) = t_WebhookID t"
  "t_UserID (applyTradeSignalMeta wh params p t) = t_UserID t"
  "t_SignalKey (applyTradeSignalMeta wh params p t) = t_SignalKey t"
  "t_CreatedAt (applyTradeSignalMeta wh params p t) = t_CreatedAt t"
  by (simp_all add: applyTradeSignalMeta_def Let_def)

lemma queued_trade_frame [frame]:
  "t_ID (queued_trade env wh sig params k i) = i" "t_Status (queued_trade env wh sig params k i) = ''queued''"
  "t_WebhookID (queued_trade env wh sig params k i) = wh_ID wh" "t_UserID (queued_trade env wh sig params k i) = wh_UserID wh"
  "t_SignalKey (queued_trade env wh sig params k i) = k" "t_CreatedAt (queued_trade env wh sig params k i) = qe_now env"
  by (simp_all add: queued_trade_def frame)

lemma rejected_row_frame [frame]:
  "t_WebhookID (rejected_as c m t) = t_WebhookID t" "t_UserID (rejected_as c m t) = t_UserID t"
  "t_SignalKey (rejected_as c m t) = t_SignalKey t" "t_CreatedAt (rejected_as c m t) = t_CreatedAt t"
  by (simp_all add: rejected_as_def)

subsection \<open>Numbers that fit\<close>

text \<open>The numbers of a trade, and those of a runner's answer, fit the columns of the table.\<close>

definition fits :: "trade_cols \<Rightarrow> trade \<Rightarrow> bool" where
  "fits nc t = (tc_lot nc (t_LotSize t) \<noteq> None \<and> tc_price nc (t_FillPrice t) \<noteq> None \<and>
     list_all (\<lambda>p. case p of None \<Rightarrow> True | Some x \<Rightarrow> tc_price nc x \<noteq> None) [t_SLPrice t, t_TPPrice t])"

definition result_fits :: "trade_cols \<Rightarrow> exec_result \<Rightarrow> bool" where
  "result_fits nc r = (tc_lot nc (xr_Quantity r) \<noteq> None \<and> tc_price nc (xr_FillPrice r) \<noteq> None \<and>
     tc_price nc (xr_SLPrice r) \<noteq> None \<and> tc_price nc (xr_TPPrice r) \<noteq> None)"

lemma col_Inr: "col f x = Inr y \<longleftrightarrow> f x = Some y"
  by (simp add: col_def split: option.split)

lemma encode_fits: "fits nc t \<longleftrightarrow> (\<exists>t'. encode_trade nc t = Inr t')"
  by (cases "t_SLPrice t"; cases "t_TPPrice t") (auto simp: fits_def encode_trade_def ebind_Inr_iff col_Inr col_opt_def)

lemma fits_rejected [frame]: "fits nc (rejected_as c m t) = fits nc t"
  by (simp add: fits_def rejected_as_def)

lemma fits_meta [frame]: "fits nc (applyTradeSignalMeta wh params p t) = fits nc t"
  by (simp add: fits_def applyTradeSignalMeta_def Let_def)

lemma fits_status [frame]: "fits nc (t\<lparr>t_Status := st\<rparr>) = fits nc t" "fits nc (t\<lparr>t_BrokerOrder := b\<rparr>) = fits nc t"
  by (simp_all add: fits_def)

text \<open>The lot of a job: the webhook's, or else the signal's. It is the one that is written, in every row of the job.\<close>

definition job_lot :: "job \<Rightarrow> f64" where
  "job_lot job = (if 0 < wh_LotSize (jb_Webhook job) then wh_LotSize (jb_Webhook job) else sg_Lot (jb_Signal job))"

lemma product_keeps_lot: "tp_Lot (snd (resolveWebhookProduct env wh params)) = tp_Lot params"
  by (auto simp: resolveWebhookProduct_def Let_def split: option.split sum.split)

lemma job_checks_lot:
  assumes "job_checks env wh sig = Inr params"
  shows "tp_Lot params = (if 0 < wh_LotSize wh then wh_LotSize wh else sg_Lot sig)" "ResolveQuantity wh (tp_Lot params) = Inr (tp_Lot params)"
proof -
  obtain lot p where "ResolveQuantity wh (tp_Lot (ResolveParams wh sig)) = Inr lot" "params = snd (resolveWebhookProduct env wh (p\<lparr>tp_Lot := lot\<rparr>))"
    using assms by (auto simp: job_checks_def Let_def split: option.splits if_splits sum.splits prod.splits) (metis snd_conv)
  then show "tp_Lot params = (if 0 < wh_LotSize wh then wh_LotSize wh else sg_Lot sig)" "ResolveQuantity wh (tp_Lot params) = Inr (tp_Lot params)"
    by (auto simp: product_keeps_lot ResolveQuantity_def ResolveParams_def split: if_splits)
qed

lemma paper_lot_same:
  "ResolveQuantity wh lot = Inr lot \<Longrightarrow> paper_lot wh lot = Inr lot' \<Longrightarrow> lot' = lot"
  by (auto simp: paper_lot_def ebind_Inr_iff ApplyMaxLot_def ApplyMaxLotSize_def split: if_splits)

subsection \<open>The ways out of a job\<close>

lemma paper_request_id:
  "paper_request env wh sig params account instrument profile lot t = Inr req \<Longrightarrow> er_SignalID req = t_ID t"
  unfolding paper_request_def Let_def by (auto split: sum.splits)

text \<open>The trade keeps its id, and its numbers still fit.\<close>

definition same_trade :: "trade \<Rightarrow> trade \<Rightarrow> bool" where
  "same_trade t t' = (t_ID t' = t_ID t \<and> (\<forall>nc. fits nc t \<longrightarrow> fits nc t'))"

fun route_keeps :: "trade \<Rightarrow> route_end \<Rightarrow> bool" where
  "route_keeps t (Rejection c m t') = same_trade t t'"
| "route_keeps t (QuotaRejection m hit u t') = same_trade t t'"
| "route_keeps t (Order req t') = (same_trade t t' \<and> er_SignalID req = t_ID t)"

lemma route_keeps_if: "(P \<Longrightarrow> route_keeps i a) \<Longrightarrow> (\<not> P \<Longrightarrow> route_keeps i b) \<Longrightarrow> route_keeps i (if P then a else b)"
  by simp

lemma meta_same [frame]: "same_trade t (applyTradeSignalMeta wh params p t)" "same_trade t t"
  by (simp_all add: same_trade_def frame)

lemma lot_same: "t_LotSize t = lot \<Longrightarrow> same_trade t ((applyTradeSignalMeta wh params p t)\<lparr>t_LotSize := lot\<rparr>)"
  by (simp add: same_trade_def fits_def applyTradeSignalMeta_def Let_def)

text \<open>A job whose lot was resolved by the guards.\<close>

definition resolved :: "webhook \<Rightarrow> trade_params \<Rightarrow> trade \<Rightarrow> bool" where
  "resolved wh params t = (t_LotSize t = tp_Lot params \<and> ResolveQuantity wh (tp_Lot params) = Inr (tp_Lot params))"

lemma paper_checks_id:
  assumes "resolved wh params t"
  shows "route_keeps t (paper_checks env wh sig params t)"
  unfolding paper_checks_def Let_def
  by (intro route_keeps_if)
    (use assms paper_lot_same in \<open>auto simp: frame resolved_def dest!: paper_request_id intro!: lot_same split: sum.split option.split\<close>)

lemma paper_outcome_frame [frame]: "t_ID (paper_outcome res t) = t_ID t"
  "t_Status (paper_outcome res t) \<in> {''filled'', ''rejected''}"
  by (auto simp: paper_outcome_def frame Let_def StatusFilled_def split: sum.split)

lemma live_outcome_id [frame]: "t_ID (live_outcome res t) = t_ID t"
  by (simp add: live_outcome_def frame Let_def split: sum.split)

lemma live_outcome_status:
  "t_Status (live_outcome res t) = (case res of Inl _ \<Rightarrow> ''rejected'' | Inr r \<Rightarrow> xr_Status r)"
  by (simp add: live_outcome_def frame Let_def split: sum.split)

lemma outcome_fits:
  assumes "fits nc t" "\<forall>r. res = Inr r \<longrightarrow> result_fits nc r"
  shows "fits nc (paper_outcome res t)" "fits nc (live_outcome res t)"
  using assms by (auto simp: paper_outcome_def live_outcome_def fits_def result_fits_def rejected_as_def Let_def split: sum.splits)

definition final_status :: "'w qenv \<Rightarrow> string \<Rightarrow> bool" where
  "final_status env st = (st \<in> {''filled'', ''rejected''} \<or>
     (\<exists>req s r. fst (orchestrate (qe_live env) req s) = Inr r \<and> st = xr_Status r))"

text \<open>
  What becomes of a queued trade: it is rejected, or one runner is called, once, with the id of the trade, and
  the trade is finalised with what it returned.
\<close>

inductive delivered :: "'w qenv \<Rightarrow> trade \<Rightarrow> 'w qworld \<Rightarrow> 'w qworld \<Rightarrow> bool" for env t w where
  refused: "quiet w w1 \<Longrightarrow> same_trade t t' \<Longrightarrow> t_Status t' = ''rejected'' \<Longrightarrow>
     delivered env t w (finalizeTrade env t' w1)"
| ordered: "quiet w w1 \<Longrightarrow> r \<in> {orchestrate (qe_live env), orchestrate (qe_paper env)} \<Longrightarrow> er_SignalID req = t_ID t \<Longrightarrow>
     t_ID t' = t_ID t \<Longrightarrow> (\<And>nc. fits nc t \<Longrightarrow> (\<forall>x. fst (run r req w1) = Inr x \<longrightarrow> result_fits nc x) \<Longrightarrow> fits nc t') \<Longrightarrow>
     final_status env (t_Status t') \<Longrightarrow>
     delivered env t w (finalizeTrade env t' (snd (run r req w1)))"

lemma rejectExisting_delivered: "quiet w w1 \<Longrightarrow> delivered env t w (rejectExistingTrade env t code message w1)"
  unfolding rejectExistingTrade_def by (rule refused) (simp_all add: frame same_trade_def)

lemma paper_delivered:
  assumes "quiet w w1" "resolved wh params t"
  shows "delivered env t w (processPaperOrder env wh sig params t w1)"
proof (cases "paper_checks env wh sig params t")
  case (Rejection c m t')
  then show ?thesis using assms paper_checks_id [of wh params t env sig]
    by (auto simp: processPaperOrder_def frame same_trade_def intro!: refused)
next
  case (QuotaRejection m hit u t')
  then show ?thesis using assms paper_checks_id [of wh params t env sig] quiet_trans [OF assms(1) quota_notice_quiet]
    by (auto simp: processPaperOrder_def frame same_trade_def intro!: refused)
next
  case (Order req t')
  then have i: "same_trade t t'" "er_SignalID req = t_ID t" using paper_checks_id [OF assms(2), of env sig] by simp_all
  let ?r = "run (orchestrate (qe_paper env)) req w1"
  have "delivered env t w (finalizeTrade env (paper_outcome (fst ?r) t') (snd ?r))"
    using paper_outcome_frame(2) [of "fst ?r" t'] i
    by (intro ordered assms outcome_fits) (auto simp: same_trade_def frame final_status_def)
  then show ?thesis by (simp add: processPaperOrder_def Order split_def Let_def)
qed

lemma live_delivered:
  assumes "quiet w w1"
  shows "delivered env t w (let (res, w') = run (orchestrate (qe_live env)) (live_request wh sig params t user cid) w1
                            in finalizeTrade env (live_outcome res t) w')"
proof -
  let ?r = "run (orchestrate (qe_live env)) (live_request wh sig params t user cid) w1"
  have "final_status env (t_Status (live_outcome (fst ?r) t))"
    by (auto simp: live_outcome_status final_status_def run_def split_def Let_def split: sum.split)
  then have "delivered env t w (finalizeTrade env (live_outcome (fst ?r) t) (snd ?r))"
    by (intro ordered assms outcome_fits) (auto simp: frame live_request_def)
  then show ?thesis by (simp add: split_def Let_def)
qed

lemma deliver_delivered:
  assumes "resolved wh params t"
  shows "delivered env t w (deliver env wh sig params t w)"
  unfolding deliver_def Let_def
  by (auto simp: split_def intro!: rejectExisting_delivered paper_delivered [OF _ assms] live_delivered [unfolded Let_def split_def]
        rate_limit_quiet split: sum.split option.split)

lemma queued_resolved:
  "job_checks env wh sig = Inr params \<Longrightarrow> resolved wh params (queued_trade env wh sig params k i)"
  by (simp add: resolved_def job_checks_lot(2) queued_trade_def applyTradeSignalMeta_def Let_def)

lemma attempt_Some: "attempt ok r = Some x \<Longrightarrow> r = Inr x"
  by (simp add: attempt_def split: if_splits sum.splits)

lemma encoded_trade_frame:
  assumes "encode_trade nc t = Inr t'"
  shows "t_ID t' = t_ID t \<and> t_Status t' = t_Status t \<and> t_WebhookID t' = t_WebhookID t \<and> t_SignalKey t' = t_SignalKey t
    \<and> t_CreatedAt t' = t_CreatedAt t \<and> t_Error t' = t_Error t \<and> t_ErrorCode t' = t_ErrorCode t"
  using assms by (auto simp: encode_trade_def ebind_def split: sum.splits)

lemma inserted_row:
  assumes "InsertTrade nc t db = Inr db'"
  shows "\<exists>row. td_trades db' = td_trades db @ [row] \<and> t_ID (tr_trade row) = t_ID t \<and> t_Status (tr_trade row) = t_Status t \<and>
    t_WebhookID (tr_trade row) = t_WebhookID t \<and> t_SignalKey (tr_trade row) = t_SignalKey t \<and>
    t_CreatedAt (tr_trade row) = t_CreatedAt t \<and> t_Error (tr_trade row) = t_Error t \<and>
    t_ErrorCode (tr_trade row) = t_ErrorCode t \<and>
    (t_Status t \<noteq> ''queued'' \<longrightarrow> t_BrokerRespondedAt (tr_trade row) \<noteq> None)"
proof -
  obtain t' where t': "encode_trade nc t = Inr t'" using assms by (auto simp: InsertTrade_def ebind_def split: sum.splits)
  show ?thesis using assms encoded_trade_frame [OF t']
    by (auto simp: InsertTrade_def t' ebind_def require_def split: if_splits)
qed

text \<open>
  C6. No order without a record: whatever fails, a job either leaves what the runners work on as it was, or
  exactly one call of one runner made the change, at a moment when the trades table held a row with status
  queued and the id the request carries.
\<close>

theorem order_has_queued_row:
  "qs_inner (qw_state (process_job env job w)) = qs_inner (qw_state w) \<or>
   (\<exists>runner req s row. runner \<in> {orchestrate (qe_live env), orchestrate (qe_paper env)} \<and>
      qs_inner s = qs_inner (qw_state w) \<and> row \<in> set (td_trades (qs_db s)) \<and>
      t_ID (tr_trade row) = er_SignalID req \<and> t_Status (tr_trade row) = ''queued'' \<and>
      qs_inner (qw_state (process_job env job w)) = qs_inner (snd (runner req s)))"
proof (cases "job_checks env (jb_Webhook job) (jb_Signal job)")
  case (Inl e)
  then show ?thesis by (simp add: process_job_def rejectTradeWithCode_def frame split: prod.split)
next
  case (Inr params)
  let ?t = "queued_trade env (jb_Webhook job) (jb_Signal job) params (job_key env job) (job_trade_id env job)"
  show ?thesis
  proof (cases "is_duplicate env (jb_Webhook job) (job_key env job) w")
    case True
    then show ?thesis by (simp add: process_job_def Inr frame)
  next
    case False
    show ?thesis
    proof (cases "attempt (qe_insert_ok env) (InsertTrade (qe_cols env) ?t (qs_db (qw_state w)))")
      case None
      then show ?thesis by (simp add: process_job_def Inr False frame)
    next
      case (Some db)
      let ?w = "(with_db db w)\<lparr>qw_shown := qw_shown (with_db db w) @ [?t]\<rparr>"
      have r: "process_job env job w = deliver env (jb_Webhook job) (jb_Signal job) params ?t ?w"
        by (simp add: process_job_def Inr False Some Let_def)
      have row: "\<exists>row \<in> set (td_trades db). t_ID (tr_trade row) = t_ID ?t \<and> t_Status (tr_trade row) = ''queued''"
        using inserted_row [OF attempt_Some [OF Some]] by (auto simp: frame)
      have "delivered env ?t ?w (process_job env job w)" unfolding r by (rule deliver_delivered [OF queued_resolved [OF Inr]])
      then show ?thesis
      proof cases
        case (refused w1 t')
        then show ?thesis by (simp add: frame quiet_def)
      next
        case (ordered w1 runner req t')
        then have "qs_inner (qw_state w1) = qs_inner (qw_state w)" "qs_db (qw_state w1) = db"
          by (simp_all add: quiet_def frame)
        then show ?thesis using ordered row
          by (intro disjI2 exI [of _ runner] exI [of _ req] exI [of _ "qw_state w1"]) (auto simp: frame run_def split_def Let_def)
      qed
    qed
  qed
qed

subsection \<open>Every job leaves one settled trade\<close>

text \<open>The data base answers, the references of the job exist, its id is new, and zero is a number for the columns.\<close>

definition sound_store :: "'w qenv \<Rightarrow> job \<Rightarrow> 'w qworld \<Rightarrow> bool" where
  "sound_store env job w =
     (qe_insert_ok env \<and> qe_finalize_ok env \<and> qe_persist_ok env \<and>
      tc_lot (qe_cols env) 0 \<noteq> None \<and> tc_price (qe_cols env) 0 \<noteq> None \<and>
      wh_ID (jb_Webhook job) \<in> set (td_webhook_ids (qs_db (qw_state w))) \<and>
      (wh_UserID (jb_Webhook job) = [] \<or> wh_UserID (jb_Webhook job) \<in> set (td_user_ids (qs_db (qw_state w)))) \<and>
      job_trade_id env job \<notin> set (trade_ids (qs_db (qw_state w))))"

text \<open>A runner leaves the trades alone, never reports a status of queued, and its numbers fit the columns.\<close>

definition good_runner :: "trade_cols \<Rightarrow> 'w qstate runner \<Rightarrow> bool" where
  "good_runner nc r = (\<forall>req s. td_trades (qs_db (snd (r req s))) = td_trades (qs_db s) \<and>
     (\<forall>x. fst (r req s) = Inr x \<longrightarrow> xr_Status x \<noteq> ''queued'' \<and> result_fits nc x))"

text \<open>A row for the trade of a job, with what the later queries need of it.\<close>

definition row_of_job :: "'w qenv \<Rightarrow> job \<Rightarrow> trade_row \<Rightarrow> bool" where
  "row_of_job env job row =
     (t_ID (tr_trade row) = job_trade_id env job \<and> t_WebhookID (tr_trade row) = wh_ID (jb_Webhook job) \<and>
      t_SignalKey (tr_trade row) = job_key env job \<and> t_CreatedAt (tr_trade row) = qe_now env)"

lemma insert_succeeds:
  assumes "sound_store env job w" "fits (qe_cols env) t" "t_ID t = job_trade_id env job" "t_WebhookID t = wh_ID (jb_Webhook job)"
    "t_UserID t = wh_UserID (jb_Webhook job)"
  shows "\<exists>db. InsertTrade (qe_cols env) t (qs_db (qw_state w)) = Inr db"
proof -
  obtain t' where "encode_trade (qe_cols env) t = Inr t'" using assms(2) unfolding encode_fits by blast
  then show ?thesis using assms unfolding InsertTrade_def sound_store_def by (auto simp: require_def)
qed

lemma encode_error: "encode_trade nc t = Inl e \<Longrightarrow> e = ErrNumericRange"
  by (auto simp: encode_trade_def ebind_def col_def col_opt_def split: sum.splits option.splits)

lemma insert_overflows: "\<not> fits nc t \<Longrightarrow> InsertTrade nc t db = Inl ErrNumericRange"
  using encode_error by (cases "encode_trade nc t") (auto simp: encode_fits InsertTrade_def)

lemma persist_adds_row:
  assumes "sound_store env job w" "fits (qe_cols env) t" "t_ID t = job_trade_id env job" "t_WebhookID t = wh_ID (jb_Webhook job)"
    "t_UserID t = wh_UserID (jb_Webhook job)" "t_SignalKey t = job_key env job" "t_CreatedAt t = qe_now env"
    "t_Status t = ''rejected''"
  shows "\<exists>row. td_trades (qs_db (qw_state (persistTrade env t w))) = td_trades (qs_db (qw_state w)) @ [row] \<and>
    row_of_job env job row \<and> t_Status (tr_trade row) = ''rejected'' \<and> t_BrokerRespondedAt (tr_trade row) \<noteq> None \<and>
    qw_shown (persistTrade env t w) = qw_shown w @ [t]"
proof -
  obtain db where db: "InsertTrade (qe_cols env) t (qs_db (qw_state w)) = Inr db"
    using insert_succeeds [OF assms(1-5)] by blast
  have "persistTrade env t w = announce t (with_db db w)"
    using assms(1) by (simp add: persistTrade_def attempt_def PersistTradeAudit_def db sound_store_def)
  then show ?thesis using inserted_row [OF db] assms(3-8) by (auto simp: frame row_of_job_def)
qed

lemma finalize_settles:
  assumes "qe_finalize_ok env" "fits (qe_cols env) t"
    and "td_trades (qs_db (qw_state w)) = rows @ [row]" "t_ID (tr_trade row) = t_ID t"
    and "t_ID t \<notin> set (map (t_ID \<circ> tr_trade) rows)"
  shows "\<exists>row'. td_trades (qs_db (qw_state (finalizeTrade env t w))) = rows @ [row'] \<and>
    t_ID (tr_trade row') = t_ID (tr_trade row) \<and> t_WebhookID (tr_trade row') = t_WebhookID (tr_trade row) \<and>
    t_SignalKey (tr_trade row') = t_SignalKey (tr_trade row) \<and> t_CreatedAt (tr_trade row') = t_CreatedAt (tr_trade row) \<and>
    t_Status (tr_trade row') = t_Status t \<and> t_BrokerRespondedAt (tr_trade row') \<noteq> None \<and>
    qw_shown (finalizeTrade env t w) = qw_shown w @ [t]"
proof -
  obtain t' where t': "encode_trade (qe_cols env) t = Inr t'" using assms(2) unfolding encode_fits by blast
  have "t_ID t \<in> set (trade_ids (qs_db (qw_state w)))" using assms(3,4) by (simp add: trade_ids_def)
  then have f: "finalizeTrade env t w = announce t (with_db (update_trades (qe_now env) (\<lambda>r. t_ID r = t_ID t)
      (\<lambda>r. responded (qe_now env) (r\<lparr>t_Status := t_Status t', t_FillPrice := t_FillPrice t', t_LotSize := t_LotSize t',
            t_BrokerOrder := t_BrokerOrder t', t_AlgoID := t_AlgoID t', t_OrderType := t_OrderType t',
            t_Product := t_Product t', t_SLPrice := t_SLPrice t', t_TPPrice := t_TPPrice t',
            t_Error := t_Error t', t_ErrorCode := t_ErrorCode t'\<rparr>)) (qs_db (qw_state w))) w)"
    using assms(1) t' by (simp add: finalizeTrade_def attempt_def FinalizeTrade_def)
  have old: "update_where ((\<lambda>r. t_ID r = t_ID t) \<circ> tr_trade) g rows = rows" for g
    by (rule update_where_none) (use assms(5) in force)
  show ?thesis unfolding f frame update_trades_def using old encoded_trade_frame [OF t'] assms(3,4)
    by (simp add: update_where_def responded_def)
qed

lemma delivered_settles:
  assumes "delivered env t w w'" "sound_store env job w0" "good_runner (qe_cols env) (orchestrate (qe_live env))"
    "good_runner (qe_cols env) (orchestrate (qe_paper env))" "fits (qe_cols env) t"
    and "td_trades (qs_db (qw_state w)) = rows @ [row]" "row_of_job env job row" "t_ID t = job_trade_id env job"
    and "job_trade_id env job \<notin> set (map (t_ID \<circ> tr_trade) rows)"
  shows "\<exists>row'. td_trades (qs_db (qw_state w')) = rows @ [row'] \<and> row_of_job env job row' \<and>
    t_Status (tr_trade row') \<noteq> ''queued'' \<and> t_BrokerRespondedAt (tr_trade row') \<noteq> None \<and>
    t_ID (last (qw_shown w')) = job_trade_id env job \<and> t_Status (last (qw_shown w')) = t_Status (tr_trade row')"
proof -
  have e: "qe_finalize_ok env" using assms(2) by (simp add: sound_store_def)
  have settle: ?thesis if "w' = finalizeTrade env t' w2" "td_trades (qs_db (qw_state w2)) = rows @ [row]" "t_ID t' = t_ID t"
    "t_Status t' \<noteq> ''queued''" "fits (qe_cols env) t'" for t' w2
    using finalize_settles [OF e that(5,2)] assms(7,8,9) that by (auto simp: row_of_job_def)
  have q: "td_trades (qs_db (qw_state w1)) = rows @ [row]" if "quiet w w1" for w1 using that assms(6) by (simp add: quiet_def)
  show ?thesis using assms(1)
  proof cases
    case (refused w1 t')
    then show ?thesis using assms(5) by (intro settle [OF refused(1) q]) (simp_all add: same_trade_def)
  next
    case (ordered w1 runner req t')
    have g: "good_runner (qe_cols env) runner" using ordered(3) assms(3,4) by blast
    then have "td_trades (qs_db (qw_state (snd (run runner req w1)))) = rows @ [row]"
      using q [OF ordered(2)] by (simp add: good_runner_def run_def split_def Let_def)
    moreover have "t_Status t' \<noteq> ''queued''" using ordered(7) assms(3) by (auto simp: final_status_def good_runner_def)
    moreover have "fits (qe_cols env) t'"
      using ordered(6) [OF assms(5)] g by (simp add: good_runner_def run_def split_def Let_def)
    ultimately show ?thesis using settle [OF ordered(1)] ordered(5) by simp
  qed
qed

lemma job_trade_id_given [frame]:
  "(if job_trade_id env job = [] then qe_newID env else job_trade_id env job) = job_trade_id env job"
  by (simp add: job_trade_id_def)

lemma refusal_fits:
  "tc_lot nc 0 \<noteq> None \<Longrightarrow> tc_price nc 0 \<noteq> None \<Longrightarrow> fits nc (buildRejectedTrade env wh sig k i c m)"
  by (simp add: buildRejectedTrade_def Let_def frame) (simp add: fits_def zero_trade_def)

lemma queued_fits:
  assumes "job_checks env (jb_Webhook job) (jb_Signal job) = Inr params" "tc_price nc 0 \<noteq> None"
  shows "fits nc (queued_trade env (jb_Webhook job) (jb_Signal job) params k i) \<longleftrightarrow> tc_lot nc (job_lot job) \<noteq> None"
  using assms(2) job_checks_lot(1) [OF assms(1)] by (simp add: queued_trade_def frame) (simp add: fits_def zero_trade_def job_lot_def)

lemma job_settles:
  assumes "sound_store env job w" "good_runner (qe_cols env) (orchestrate (qe_live env))"
    "good_runner (qe_cols env) (orchestrate (qe_paper env))" "tc_lot (qe_cols env) (job_lot job) \<noteq> None"
  shows "\<exists>row. td_trades (qs_db (qw_state (process_job env job w))) = td_trades (qs_db (qw_state w)) @ [row] \<and>
    row_of_job env job row \<and> t_Status (tr_trade row) \<noteq> ''queued'' \<and> t_BrokerRespondedAt (tr_trade row) \<noteq> None \<and>
    t_ID (last (qw_shown (process_job env job w))) = job_trade_id env job \<and>
    t_Status (last (qw_shown (process_job env job w))) = t_Status (tr_trade row)"
proof -
  let ?wh = "jb_Webhook job" and ?sig = "jb_Signal job" and ?k = "job_key env job" and ?i = "job_trade_id env job"
  have z: "tc_lot (qe_cols env) 0 \<noteq> None" "tc_price (qe_cols env) 0 \<noteq> None" using assms(1) by (simp_all add: sound_store_def)
  have rejected: ?thesis if "process_job env job w = persistTrade env t w" "fits (qe_cols env) t" "t_ID t = ?i" "t_WebhookID t = wh_ID ?wh"
    "t_UserID t = wh_UserID ?wh" "t_SignalKey t = ?k" "t_CreatedAt t = qe_now env" "t_Status t = ''rejected''" for t
    using persist_adds_row [OF assms(1) that(2-8)] that(1,3,8) by auto
  show ?thesis
  proof (cases "job_checks env ?wh ?sig")
    case (Inl e)
    then show ?thesis
      by (intro rejected [of "buildRejectedTrade env ?wh ?sig ?k ?i (fst e) (snd e)"] refusal_fits z)
        (simp_all add: process_job_def rejectTradeWithCode_def split_def buildRejectedTrade_def Let_def frame)
  next
    case (Inr params)
    let ?t = "queued_trade env ?wh ?sig params ?k ?i"
    have f: "fits (qe_cols env) ?t" using queued_fits [OF Inr z(2)] assms(4) by simp
    show ?thesis
    proof (cases "is_duplicate env ?wh ?k w")
      case True
      then show ?thesis using f
        by (intro rejected [of "rejected_as ''duplicate_suppressed'' ''duplicate signal suppressed within dedup window'' ?t"])
          (simp_all add: process_job_def Inr frame)
    next
      case False
      obtain db where db: "InsertTrade (qe_cols env) ?t (qs_db (qw_state w)) = Inr db"
        using insert_succeeds [OF assms(1) f] by (auto simp: frame)
      let ?w = "(with_db db w)\<lparr>qw_shown := qw_shown (with_db db w) @ [?t]\<rparr>"
      have "process_job env job w = deliver env ?wh ?sig params ?t ?w"
        using assms(1) by (simp add: process_job_def Inr False attempt_def db sound_store_def Let_def)
      then have d: "delivered env ?t ?w (process_job env job w)" by (simp only: deliver_delivered [OF queued_resolved [OF Inr]])
      obtain row where row: "td_trades db = td_trades (qs_db (qw_state w)) @ [row]" "row_of_job env job row"
        using inserted_row [OF db] by (auto simp: row_of_job_def frame)
      show ?thesis using delivered_settles [OF d assms(1-3) f, of "td_trades (qs_db (qw_state w))" row] row assms(1)
        by (simp add: frame sound_store_def trade_ids_def)
    qed
  qed
qed

text \<open>A lot that the column cannot hold: nothing is written, nothing is ordered, and nothing is shown.\<close>

lemma oversized_job_vanishes:
  assumes "job_checks env (jb_Webhook job) (jb_Signal job) = Inr params" "tc_price (qe_cols env) 0 \<noteq> None"
    "tc_lot (qe_cols env) (job_lot job) = None"
  shows "process_job env job w = w"
proof -
  let ?t = "queued_trade env (jb_Webhook job) (jb_Signal job) params (job_key env job) (job_trade_id env job)"
  have "\<not> fits (qe_cols env) ?t" using queued_fits [OF assms(1,2)] assms(3) by simp
  then have n: "InsertTrade (qe_cols env) ?t db = Inl ErrNumericRange"
    "InsertTrade (qe_cols env) (rejected_as c m ?t) db = Inl ErrNumericRange" for c m db
    by (intro insert_overflows; simp add: frame)+
  then have "persistTrade env (rejected_as c m ?t) w = w" for c m
    by (simp add: persistTrade_def PersistTradeAudit_def attempt_def)
  then show ?thesis by (simp add: process_job_def assms(1) n attempt_def Let_def)
qed


lemma duplicate_inner:
  assumes "is_duplicate env (jb_Webhook job) (job_key env job) w"
  shows "qs_inner (qw_state (process_job env job w)) = qs_inner (qw_state w)"
  using assms by (simp add: process_job_def rejectTradeWithCode_def frame Let_def split: sum.split)

text \<open>
  A repeated signal is not traded twice: when a job has left its trade submitted, filled or handed off, a later
  job of the same webhook with the same key, within the webhook's window from the first, changes nothing the
  runners work on, whatever else the second job carries.
\<close>

theorem repeated_signal:
  assumes "sound_store env job w" "good_runner (qe_cols env) (orchestrate (qe_live env))"
    "good_runner (qe_cols env) (orchestrate (qe_paper env))" "tc_lot (qe_cols env) (job_lot job) \<noteq> None"
    and "t_Status (last (qw_shown (process_job env job w))) \<in> {''submitted'', ''filled'', ''pending_confirmation''}"
    and "job_key env job \<noteq> []" "job_key env' job' = job_key env job" "wh_ID (jb_Webhook job') = wh_ID (jb_Webhook job)"
    and "0 < wh_DedupWindowSec (jb_Webhook job')" "qe_dedup_ok env'"
    and "qe_now env' < qe_now env + wh_DedupWindowSec (jb_Webhook job') * 1000"
  shows "qs_inner (qw_state (process_job env' job' (process_job env job w))) = qs_inner (qw_state (process_job env job w))"
proof (rule duplicate_inner)
  obtain row where row: "td_trades (qs_db (qw_state (process_job env job w))) = td_trades (qs_db (qw_state w)) @ [row]"
    "row_of_job env job row" "t_Status (last (qw_shown (process_job env job w))) = t_Status (tr_trade row)"
    using job_settles [OF assms(1-4)] by blast
  have "row \<in> set (td_trades (qs_db (qw_state (process_job env job w))))" by (simp add: row(1))
  moreover have "t_Status (tr_trade row) \<in> {''queued'', ''submitted'', ''filled'', ''pending_confirmation''}"
    using assms(5) unfolding row(3) by blast
  moreover have "t_WebhookID (tr_trade row) = wh_ID (jb_Webhook job')" "t_SignalKey (tr_trade row) = job_key env' job'"
    "t_CreatedAt (tr_trade row) = qe_now env"
    using row(2) assms(7,8) by (simp_all add: row_of_job_def)
  ultimately show "is_duplicate env' (jb_Webhook job') (job_key env' job') (process_job env job w)"
    using assms(6,7,9-11) unfolding is_duplicate_def HasActiveTradeWithSignalKey_def Enabled_def WindowSec_def list_ex_iff Let_def
    by (simp del: insert_iff) (rule bexI [of _ row], simp_all)
qed

subsection \<open>A filled job and its repetition\<close>

definition sample_webhook :: webhook where
  "sample_webhook = \<lparr> wh_ID = ''w'', wh_UserID = ''u'', wh_OrgID = None, wh_CreatedBy = ''u'', wh_TokenHash = ''h'',
     wh_RawToken = [], wh_Label = ''trend'', wh_Status = ''active'', wh_BrokerCredID = Some ''c1'', wh_PaperAccountID = None,
     wh_Symbol = ''INFY'', wh_LotSize = 1, wh_MaxRiskPct = 0, wh_SLPoints = 0, wh_TPPoints = 0,
     wh_DefaultOrderType = ''LIMIT'', wh_CreatedAt = 0, wh_AllowedActions = [], wh_AllowedSymbols = [],
     wh_MaxLotSize = 0, wh_RateLimitPerSec = 0, wh_RateLimitPerMin = 0, wh_DedupWindowSec = 60, wh_Timezone = [],
     wh_TradingHours = None, wh_RequiredComment = [], wh_AutoPaused = False, wh_AdminDisabled = False \<rparr>"

definition sample_signal :: "f64 \<Rightarrow> signal_payload" where
  "sample_signal price = \<lparr> sg_Action = ''BUY'', sg_Symbol = ''INFY'', sg_Lot = 1, sg_Price = price, sg_SLPts = 0,
     sg_TPPts = 0, sg_Comment = [], sg_Product = ''CNC'', sg_OrderType = [] \<rparr>"

definition sample_runner :: "nat qstate runner" where
  "sample_runner req s = (Inr (zero_result\<lparr>xr_OrderID := ''b'', xr_Status := ''filled''\<rparr>), s\<lparr>qs_inner := Suc (qs_inner s)\<rparr>)"

definition sample_qenv :: "'w qstate runner \<Rightarrow> int \<Rightarrow> 'w qenv" where
  "sample_qenv runner now = \<lparr> qe_GetUserByID = (\<lambda>_. Inr (Some sample_user)),
     qe_GetBrokerCred = (\<lambda>_. Inr (Some (sample_cred ''zerodha''))), qe_GetPaperAccount = (\<lambda>_. Inr None),
     qe_GetInstrument = (\<lambda>_ _ _. Inr None), qe_GetMarketProfileByCode = (\<lambda>_. Inr None),
     qe_GetPlatformSetting = (\<lambda>_. Inr None), qe_CountPaperOrders = (\<lambda>_. Inr 0), qe_dedup_ok = True,
     qe_insert_ok = True, qe_insert_error = [], qe_finalize_ok = True, qe_persist_ok = True, qe_redis_ok = False,
     qe_cols = \<lparr>tc_lot = Some, tc_price = Some\<rparr>, qe_zones = (\<lambda>_. None), qe_now = now, qe_newID = ''n'',
     qe_key = \<lparr>ke_hashHex = (\<lambda>s. s), ke_json = (\<lambda>p. Some (cp_Action p @ cp_Symbol p)), ke_fmt_g = (\<lambda>_. [])\<rparr>,
     qe_live = Some runner, qe_paper = None, qe_md = None \<rparr>"

definition sample_qworld :: "'w \<Rightarrow> 'w qworld" where
  "sample_qworld inner = \<lparr> qw_state = \<lparr> qs_db = \<lparr> td_trades = [], td_publisher = [], td_events = [], td_webhook_ids = [''w''],
       td_user_ids = [''u''], td_cred_ids = [] \<rparr>, qs_redis = empty_redis, qs_inner = inner \<rparr>,
     qw_shown = [], qw_alerted = [], qw_quota_notices = [] \<rparr>"

definition sample_job :: "string \<Rightarrow> f64 \<Rightarrow> job" where
  "sample_job tid price = \<lparr> jb_Webhook = sample_webhook, jb_Signal = sample_signal price, jb_SignalKey = [], jb_TradeID = tid \<rparr>"

lemma sample_sound: "sound_store (sample_qenv r 0) (sample_job ''t1'' 1) (sample_qworld inner)"
  by (simp add: sound_store_def sample_qenv_def sample_job_def sample_qworld_def sample_webhook_def trade_ids_def
      job_trade_id_def)

lemma sample_good: "good_runner (qe_cols (sample_qenv sample_runner n)) (orchestrate (qe_live (sample_qenv sample_runner n)))"
    "good_runner (qe_cols (sample_qenv sample_runner n)) (orchestrate (qe_paper (sample_qenv sample_runner n)))"
  by (simp_all add: good_runner_def result_fits_def orchestrate_def sample_qenv_def sample_runner_def)

lemma sample_no_trades [simp]: "td_trades (qs_db (qw_state (sample_qworld inner))) = []"
  by (simp add: sample_qworld_def)

lemma sample_filled: "t_Status (last (qw_shown (process_job (sample_qenv sample_runner 0) (sample_job ''t1'' 1) (sample_qworld 0)))) = ''filled''"
  by code_simp


theorem repeated_signal_witness:
  "qs_inner (qw_state (process_job (sample_qenv sample_runner 59999) (sample_job ''t2'' 0)
     (process_job (sample_qenv sample_runner 0) (sample_job ''t1'' 1) (sample_qworld 0)))) = 1"
proof -
  let ?w = "process_job (sample_qenv sample_runner 0) (sample_job ''t1'' 1) (sample_qworld 0)"
  have "job_key (sample_qenv sample_runner 59999) (sample_job ''t2'' 0) = ''w|BUYINFY''" "job_key (sample_qenv sample_runner 0) (sample_job ''t1'' 1) = ''w|BUYINFY''"
    "qs_inner (qw_state ?w) = 1"
    by code_simp+
  then show ?thesis using repeated_signal [OF sample_sound [where inner = 0] sample_good,
      where env' = "sample_qenv sample_runner 59999" and job' = "sample_job ''t2'' 0"] sample_filled
    by (simp add: sample_qenv_def sample_job_def sample_webhook_def)
qed

end
