(* ===== verification/SignalParse.thy ===== *)
theory SignalParse
  imports Guard
begin

section \<open>The body of a signal\<close>

text \<open>
  Models \<^verbatim>\<open>internal/modules/signals/paper_parse.go\<close> and the payload types of \<^verbatim>\<open>store/models.go\<close>. The JSON
  syntax is not parsed here: a body is its document, or nothing when the text is not JSON. What
  \<^verbatim>\<open>encoding/json\<close> does with a document is written out: the members are stored in the order of the text, so
  the last of several with one name wins; a member goes to the field with that name, or one that differs
  only in case; null leaves a field alone; a value of another type is an error, which the code treats all
  alike. A number is what \<^verbatim>\<open>ParseFloat\<close> and \<^verbatim>\<open>ParseInt\<close> make of its text.
\<close>

datatype json =
    JNull
  | JBool bool
  | JNum "f64 option" "int option"
  | JStr string
  | JArr "json list"
  | JObj "(string \<times> json) list"

record paper_payload =
  pl_Comment :: string
  pl_Type :: string
  pl_Symbol :: string
  pl_Action :: string
  pl_Quantity :: f64
  pl_Lot :: f64
  pl_Product :: string
  pl_OrderType :: string
  pl_Price :: f64

definition zero_signal :: signal_payload where
  "zero_signal = \<lparr> sg_Action = [], sg_Symbol = [], sg_Lot = 0, sg_Price = 0, sg_SLPts = 0, sg_TPPts = 0,
     sg_Comment = [], sg_Product = [], sg_OrderType = [] \<rparr>"

definition zero_payload :: paper_payload where
  "zero_payload = \<lparr> pl_Comment = [], pl_Type = [], pl_Symbol = [], pl_Action = [], pl_Quantity = 0, pl_Lot = 0,
     pl_Product = [], pl_OrderType = [], pl_Price = 0 \<rparr>"

subsection \<open>Decoding into a struct\<close>

type_synonym 'r setter = "json \<Rightarrow> 'r \<Rightarrow> 'r option"

definition str_field :: "(string \<Rightarrow> 'r \<Rightarrow> 'r) \<Rightarrow> 'r setter" where
  "str_field upd v r = (case v of JNull \<Rightarrow> Some r | JStr s \<Rightarrow> Some (upd s r) | _ \<Rightarrow> None)"

definition num_field :: "(f64 \<Rightarrow> 'r \<Rightarrow> 'r) \<Rightarrow> 'r setter" where
  "num_field upd v r = (case v of JNull \<Rightarrow> Some r | JNum (Some x) _ \<Rightarrow> Some (upd x r) | _ \<Rightarrow> None)"

definition int_field :: "(int \<Rightarrow> 'r \<Rightarrow> 'r) \<Rightarrow> 'r setter" where
  "int_field upd v r = (case v of JNull \<Rightarrow> Some r | JNum _ (Some n) \<Rightarrow> Some (upd n r) | _ \<Rightarrow> None)"

definition field_for :: "(string \<times> 'r setter) list \<Rightarrow> string \<Rightarrow> 'r setter option" where
  "field_for fs k =
     (case map_of fs k of
        Some f \<Rightarrow> Some f
      | None \<Rightarrow> map_option snd (find (\<lambda>(name, _). equal_fold name k) fs))"

fun decode :: "(string \<times> 'r setter) list \<Rightarrow> (string \<times> json) list \<Rightarrow> 'r \<Rightarrow> 'r option" where
  "decode fs [] r = Some r"
| "decode fs ((k, v) # ms) r =
     (case field_for fs k of
        None \<Rightarrow> decode fs ms r
      | Some set_field \<Rightarrow> (case set_field v r of None \<Rightarrow> None | Some r' \<Rightarrow> decode fs ms r'))"

definition unmarshal :: "(string \<times> 'r setter) list \<Rightarrow> 'r \<Rightarrow> json option \<Rightarrow> 'r option" where
  "unmarshal fs zero body =
     (case body of
        Some (JObj ms) \<Rightarrow> decode fs ms zero
      | Some JNull \<Rightarrow> Some zero
      | _ \<Rightarrow> None)"

definition signal_fields :: "(string \<times> signal_payload setter) list" where
  "signal_fields =
     [(''action'', str_field (\<lambda>s r. r\<lparr>sg_Action := s\<rparr>)),
      (''symbol'', str_field (\<lambda>s r. r\<lparr>sg_Symbol := s\<rparr>)),
      (''lot'', num_field (\<lambda>x r. r\<lparr>sg_Lot := x\<rparr>)),
      (''sl_pts'', int_field (\<lambda>n r. r\<lparr>sg_SLPts := n\<rparr>)),
      (''tp_pts'', int_field (\<lambda>n r. r\<lparr>sg_TPPts := n\<rparr>)),
      (''price'', num_field (\<lambda>x r. r\<lparr>sg_Price := x\<rparr>)),
      (''comment'', str_field (\<lambda>s r. r\<lparr>sg_Comment := s\<rparr>)),
      (''product'', str_field (\<lambda>s r. r\<lparr>sg_Product := s\<rparr>)),
      (''order_type'', str_field (\<lambda>s r. r\<lparr>sg_OrderType := s\<rparr>))]"

definition payload_fields :: "(string \<times> paper_payload setter) list" where
  "payload_fields =
     [(''comment'', str_field (\<lambda>s r. r\<lparr>pl_Comment := s\<rparr>)),
      (''type'', str_field (\<lambda>s r. r\<lparr>pl_Type := s\<rparr>)),
      (''symbol'', str_field (\<lambda>s r. r\<lparr>pl_Symbol := s\<rparr>)),
      (''action'', str_field (\<lambda>s r. r\<lparr>pl_Action := s\<rparr>)),
      (''quantity'', num_field (\<lambda>x r. r\<lparr>pl_Quantity := x\<rparr>)),
      (''lot'', num_field (\<lambda>x r. r\<lparr>pl_Lot := x\<rparr>)),
      (''product'', str_field (\<lambda>s r. r\<lparr>pl_Product := s\<rparr>)),
      (''order_type'', str_field (\<lambda>s r. r\<lparr>pl_OrderType := s\<rparr>)),
      (''price'', num_field (\<lambda>x r. r\<lparr>pl_Price := x\<rparr>))]"

definition signal_of :: "json option \<Rightarrow> signal_payload option" where
  "signal_of = unmarshal signal_fields zero_signal"

definition payload_of :: "json option \<Rightarrow> paper_payload option" where
  "payload_of = unmarshal payload_fields zero_payload"

subsection \<open>The route of a paper signal\<close>

definition SignalTypeOrderSignal :: string where "SignalTypeOrderSignal = ''ORDER_SIGNAL''"
definition SignalTypePriceUpdate :: string where "SignalTypePriceUpdate = ''PRICE_UPDATE''"

definition errPaperIngestTypeRequired :: go_err where
  "errPaperIngestTypeRequired = Sentinel (''type must be '' @ [CHR 0x22] @ ''ORDER_SIGNAL'' @ [CHR 0x22]
     @ '' or '' @ [CHR 0x22] @ ''PRICE_UPDATE'' @ [CHR 0x22])"

definition errPaperBody :: go_err where
  "errPaperBody = Errorf ''invalid JSON''"

definition paperOrderFromPayload :: "paper_payload option \<Rightarrow> signal_payload" where
  "paperOrderFromPayload raw =
     (case raw of
        None \<Rightarrow> zero_signal
      | Some raw \<Rightarrow> zero_signal
          \<lparr> sg_Action := to_upper (trim_space (pl_Action raw)), sg_Symbol := pl_Symbol raw,
            sg_Lot := (if pl_Quantity raw = 0 then pl_Lot raw else pl_Quantity raw), sg_Price := pl_Price raw,
            sg_Comment := pl_Comment raw, sg_Product := pl_Product raw, sg_OrderType := pl_OrderType raw \<rparr>)"

definition type_word :: "string \<Rightarrow> string" where
  "type_word s = to_upper (trim_space s)"

definition extractRealOrderType :: "json option \<Rightarrow> string" where
  "extractRealOrderType body =
     (case signal_of body of
        None \<Rightarrow> []
      | Some sig \<Rightarrow> if type_word (sg_OrderType sig) \<in> {''MARKET'', ''LIMIT''} then sg_OrderType sig else [])"

definition normalizePaperTypeFields :: "json option \<Rightarrow> paper_payload \<Rightarrow> paper_payload" where
  "normalizePaperTypeFields body raw =
     (if trim_space (pl_Type raw) \<noteq> [] then raw
      else if type_word (pl_OrderType raw) = SignalTypeOrderSignal
      then raw\<lparr>pl_Type := SignalTypeOrderSignal, pl_OrderType := extractRealOrderType body\<rparr>
      else if type_word (pl_OrderType raw) = SignalTypePriceUpdate
      then raw\<lparr>pl_Type := SignalTypePriceUpdate, pl_OrderType := []\<rparr>
      else raw)"

text \<open>Whether it is a price update, whether anything was fixed, and the signal.\<close>

definition normalizeMisplacedOrderType :: "json option \<Rightarrow> signal_payload \<Rightarrow> bool \<times> bool \<times> signal_payload" where
  "normalizeMisplacedOrderType body sig =
     (if type_word (sg_OrderType sig) = SignalTypeOrderSignal
      then (False, True, sig\<lparr>sg_OrderType := extractRealOrderType body\<rparr>)
      else if type_word (sg_OrderType sig) = SignalTypePriceUpdate
      then (True, True, sig\<lparr>sg_OrderType := []\<rparr>)
      else (False, False, sig))"

text \<open>An error comes with a signal when the type is an unknown word.\<close>

datatype routed =
    RoutedOrder signal_payload
  | RoutedPrice paper_payload
  | Unrouted "signal_payload option" go_err

definition routePaperIngest :: "json option \<Rightarrow> routed" where
  "routePaperIngest body =
     (case payload_of body of
        None \<Rightarrow> Unrouted None errPaperBody
      | Some raw \<Rightarrow>
          (let raw = normalizePaperTypeFields body raw; word = type_word (pl_Type raw) in
           if word = SignalTypePriceUpdate then RoutedPrice raw
           else if word = SignalTypeOrderSignal then RoutedOrder (paperOrderFromPayload (Some raw))
           else if word = [] then
             (case signal_of body of
                None \<Rightarrow> Unrouted None errPaperBody
              | Some sig \<Rightarrow>
                  (let (priceUpdate, fixed, sig) = normalizeMisplacedOrderType body sig in
                   if fixed \<and> priceUpdate then
                     RoutedPrice (zero_payload\<lparr>pl_Type := SignalTypePriceUpdate, pl_Symbol := sg_Symbol sig,
                       pl_Price := sg_Price sig, pl_Comment := sg_Comment sig\<rparr>)
                   else if trim_space (sg_Action sig) = [] then Unrouted None errPaperIngestTypeRequired
                   else RoutedOrder sig))
           else Unrouted (Some (paperOrderFromPayload (Some raw))) errPaperIngestTypeRequired))"

subsection \<open>What becomes of the order type\<close>

lemma find_lower:
  "(\<forall>n \<in> fst ` set fs. to_lower n = n) \<Longrightarrow>
     map_option snd (find (\<lambda>(name, _). equal_fold name k) fs) = map_of fs (to_lower k)"
  by (induction fs) (auto simp: equal_fold_def)

lemma field_for_lower:
  assumes "\<forall>n \<in> fst ` set fs. to_lower n = n"
  shows "field_for fs k = map_of fs (to_lower k)"
proof (cases "map_of fs k")
  case None
  then show ?thesis using find_lower [OF assms] by (simp add: field_for_def)
next
  case (Some f)
  then have "k \<in> fst ` set fs" by (metis map_of_SomeD fst_conv imageI)
  then have "to_lower k = k" using assms by blast
  then show ?thesis using Some by (simp add: field_for_def)
qed

lemma signal_field: "field_for signal_fields k = map_of signal_fields (to_lower k)"
  by (rule field_for_lower) (code_simp)

lemma payload_field: "field_for payload_fields k = map_of payload_fields (to_lower k)"
  by (rule field_for_lower) (code_simp)

lemma setter_simps [simp]:
  "str_field upd v r = Some r' \<longleftrightarrow> v = JNull \<and> r' = r \<or> (\<exists>s. v = JStr s \<and> r' = upd s r)"
  "num_field upd' v r = Some r' \<longleftrightarrow> v = JNull \<and> r' = r \<or> (\<exists>x i. v = JNum (Some x) i \<and> r' = upd' x r)"
  "int_field upd'' v r = Some r' \<longleftrightarrow> v = JNull \<and> r' = r \<or> (\<exists>x n. v = JNum x (Some n) \<and> r' = upd'' n r)"
  by (auto simp: str_field_def num_field_def int_field_def split: json.splits option.splits)

text \<open>The order type a list of members gives, from what it is before.\<close>

definition order_type_after :: "string \<Rightarrow> json \<Rightarrow> string \<Rightarrow> string" where
  "order_type_after k v ot = (case v of JStr s \<Rightarrow> if to_lower k = ''order_type'' then s else ot | _ \<Rightarrow> ot)"

lemma signal_step:
  assumes "map_of signal_fields (to_lower k) = Some f" "f v r = Some r'"
  shows "sg_OrderType r' = order_type_after k v (sg_OrderType r)"
  using assms unfolding signal_fields_def
  by (simp split: if_splits) (auto simp: order_type_after_def split: json.split)

lemma payload_step:
  assumes "map_of payload_fields (to_lower k) = Some f" "f v r = Some r'"
  shows "pl_OrderType r' = order_type_after k v (pl_OrderType r)"
  using assms unfolding payload_fields_def
  by (simp split: if_splits) (auto simp: order_type_after_def split: json.split)

lemma order_type_known: "map_of fs (to_lower k) = None \<Longrightarrow> ''order_type'' \<in> fst ` set fs \<Longrightarrow> order_type_after k v ot = ot"
  by (cases "to_lower k = ''order_type''") (metis map_of_eq_None_iff, simp add: order_type_after_def split: json.split)

lemma decode_signal_order_type:
  "decode signal_fields ms r = Some r' \<Longrightarrow> sg_OrderType r' = fold (\<lambda>(k, v). order_type_after k v) ms (sg_OrderType r)"
proof (induction ms arbitrary: r)
  case (Cons m ms)
  obtain k v where m: "m = (k, v)" by (cases m)
  show ?case
  proof (cases "map_of signal_fields (to_lower k)")
    case None
    then have "order_type_after k v (sg_OrderType r) = sg_OrderType r"
      by (rule order_type_known) (simp add: signal_fields_def)
    then show ?thesis using Cons.IH [of r] Cons.prems by (simp add: m signal_field None)
  next
    case (Some f)
    then obtain r1 where "f v r = Some r1" using Cons.prems by (auto simp: m signal_field split: option.splits)
    then show ?thesis using Cons.IH [of r1] Cons.prems signal_step [OF Some] by (simp add: m signal_field Some)
  qed
qed simp

lemma decode_payload_order_type:
  "decode payload_fields ms r = Some r' \<Longrightarrow> pl_OrderType r' = fold (\<lambda>(k, v). order_type_after k v) ms (pl_OrderType r)"
proof (induction ms arbitrary: r)
  case (Cons m ms)
  obtain k v where m: "m = (k, v)" by (cases m)
  show ?case
  proof (cases "map_of payload_fields (to_lower k)")
    case None
    then have "order_type_after k v (pl_OrderType r) = pl_OrderType r"
      by (rule order_type_known) (simp add: payload_fields_def)
    then show ?thesis using Cons.IH [of r] Cons.prems by (simp add: m payload_field None)
  next
    case (Some f)
    then obtain r1 where "f v r = Some r1" using Cons.prems by (auto simp: m payload_field split: option.splits)
    then show ?thesis using Cons.IH [of r1] Cons.prems payload_step [OF Some] by (simp add: m payload_field Some)
  qed
qed simp

lemma same_order_type:
  assumes "payload_of body = Some raw" "signal_of body = Some sig"
  shows "sg_OrderType sig = pl_OrderType raw"
proof -
  consider (object) ms where "body = Some (JObj ms)" | (null) "body = Some JNull"
    using assms(1) by (auto simp: payload_of_def unmarshal_def split: option.splits json.splits)
  then show ?thesis
  proof cases
    case object
    then show ?thesis using assms decode_signal_order_type [of ms zero_signal sig] decode_payload_order_type [of ms zero_payload raw]
      by (simp add: payload_of_def signal_of_def unmarshal_def zero_signal_def zero_payload_def)
  next
    case null
    then show ?thesis using assms
      by (auto simp: payload_of_def signal_of_def unmarshal_def zero_signal_def zero_payload_def)
  qed
qed

lemma extract_nothing:
  assumes "payload_of body = Some raw" "type_word (pl_OrderType raw) = SignalTypeOrderSignal"
  shows "extractRealOrderType body = []"
  using same_order_type [OF assms(1)] assms(2)
  by (auto simp: extractRealOrderType_def SignalTypeOrderSignal_def split: option.split)

text \<open>
  A script that puts the signal's type in \<^verbatim>\<open>order_type\<close> always loses its order type, also when it sends
  \<^verbatim>\<open>order_type\<close> twice: the signal is routed as an order with no order type at all. The second decoding of the
  same body finds the same last value, so nothing is ever recovered from a duplicate.
\<close>

theorem order_type_is_lost:
  assumes "payload_of body = Some raw" "trim_space (pl_Type raw) = []" "type_word (pl_OrderType raw) = SignalTypeOrderSignal"
  shows "routePaperIngest body = RoutedOrder (paperOrderFromPayload (Some (raw\<lparr>pl_OrderType := []\<rparr>)))"
proof -
  have "normalizePaperTypeFields body raw = raw\<lparr>pl_Type := SignalTypeOrderSignal, pl_OrderType := []\<rparr>"
    using assms extract_nothing [OF assms(1,3)] by (simp add: normalizePaperTypeFields_def)
  moreover have "type_word SignalTypeOrderSignal = SignalTypeOrderSignal" "SignalTypeOrderSignal \<noteq> SignalTypePriceUpdate"
    by code_simp+
  ultimately show ?thesis using assms(1) by (simp add: routePaperIngest_def Let_def paperOrderFromPayload_def)
qed

theorem order_type_is_lost_witness:
  "routePaperIngest (Some (JObj [(''order_type'', JStr ''LIMIT''), (''action'', JStr ''buy''), (''order_type'', JStr ''order_signal'')])) =
     RoutedOrder (zero_signal\<lparr>sg_Action := ''BUY''\<rparr>)"
proof -
  let ?body = "Some (JObj [(''order_type'', JStr ''LIMIT''), (''action'', JStr ''buy''), (''order_type'', JStr ''order_signal'')])"
  let ?raw = "zero_payload\<lparr>pl_OrderType := ''order_signal'', pl_Action := ''buy''\<rparr>"
  have "payload_of ?body = Some ?raw" "trim_space (pl_Type ?raw) = []" "type_word (pl_OrderType ?raw) = SignalTypeOrderSignal"
    by code_simp+
  moreover have "paperOrderFromPayload (Some (?raw\<lparr>pl_OrderType := []\<rparr>)) = zero_signal\<lparr>sg_Action := ''BUY''\<rparr>" by code_simp
  ultimately show ?thesis using order_type_is_lost [of ?body ?raw] by simp
qed

end
