(* ===== verification/Ingest.thy ===== *)
theory Ingest
  imports Queue SignalParse
begin

section \<open>The ingest of signals\<close>

text \<open>
  Models \<^verbatim>\<open>internal/modules/signals\<close>: from the token of a webhook to a job in the queue's buffer, or to a
  rejected trade, a log entry and an HTTP error; and the price updates of paper webhooks.

  Look-ups of tables this model does not hold, and whether each call of Redis and of the data base
  succeeds, are in the environment. The reply is its status, its message and the Retry-After header.
  The buffered channel of jobs is the list of its jobs, for a buffer of at least one job.
\<close>

record request =
  rq_Token :: string
  rq_IP :: string
  rq_BodyLen :: nat
  rq_Body :: "json option"
  rq_BodyParser :: "signal_payload option"

record reply =
  rp_Status :: nat
  rp_Message :: string
  rp_RetryAfter :: "string option"

record ingest_log =
  il_WebhookID :: string
  il_RequestID :: string
  il_Outcome :: string
  il_Error :: string
  il_IP :: string

record ienv =
  ie_q :: "paper_db qenv"
  ie_hash :: "string \<Rightarrow> string"
  ie_GetWebhookByToken :: "string \<Rightarrow> go_err + webhook option"
  ie_GetActiveOrgMembershipByUser :: "string \<Rightarrow> go_err + org_member option"
  ie_GetOrgByID :: "string \<Rightarrow> go_err + organization option"
  ie_redis_up :: "string \<Rightarrow> bool"
  ie_log_ok :: bool
  ie_position_ok :: bool
  ie_mark_ok :: bool
  ie_requestID :: string
  ie_buffer :: nat
  ie_nc :: numeric_cols

record iworld =
  iw_q :: "paper_db qworld"
  iw_jobs :: "job list"
  iw_log :: "ingest_log list"

definition iredis :: "iworld \<Rightarrow> redis" where
  "iredis w = qs_redis (qw_state (iw_q w))"

definition set_redis :: "redis \<Rightarrow> iworld \<Rightarrow> iworld" where
  "set_redis r w = w\<lparr>iw_q := with_redis r (iw_q w)\<rparr>"

definition Fail :: "nat \<Rightarrow> string \<Rightarrow> reply" where
  "Fail status msg = \<lparr>rp_Status = status, rp_Message = msg, rp_RetryAfter = None\<rparr>"

definition LogIngest :: "ienv \<Rightarrow> string \<Rightarrow> webhook \<Rightarrow> string \<Rightarrow> string \<Rightarrow> iworld \<Rightarrow> iworld" where
  "LogIngest env ip wh outcome errMsg w =
     (if ie_log_ok env then w\<lparr>iw_log := iw_log w @ [\<lparr>il_WebhookID = wh_ID wh, il_RequestID = ie_requestID env,
        il_Outcome = outcome, il_Error = errMsg, il_IP = ip\<rparr>]\<rparr> else w)"

definition Enqueue :: "nat \<Rightarrow> job \<Rightarrow> job list \<Rightarrow> bool \<times> job list" where
  "Enqueue buffer j jobs = (if length jobs < buffer then (True, jobs @ [j]) else (False, jobs))"

subsection \<open>Rejections\<close>

definition buildGatewayRejectedTrade ::
  "ienv \<Rightarrow> webhook \<Rightarrow> signal_payload option \<Rightarrow> string \<Rightarrow> string \<Rightarrow> trade" where
  "buildGatewayRejectedTrade env wh sig errCode errMsg =
     (let t = zero_trade\<lparr>t_ID := ie_requestID env, t_UserID := wh_UserID wh, t_WebhookID := wh_ID wh,
                t_WebhookLabel := wh_Label wh, t_Status := ''rejected'', t_Error := errMsg, t_ErrorCode := errCode,
                t_CreatedAt := qe_now (ie_q env)\<rparr>
      in case sig of
           None \<Rightarrow> t\<lparr>t_Signal := em_dash, t_Symbol := em_dash\<rparr>
         | Some sig \<Rightarrow>
             (let params = ResolveParams wh sig;
                  orderType = WebhookOrderType (Some wh);
                  ot = to_upper (trim_space (sg_OrderType sig));
                  orderType = (if ot = ''MARKET'' \<or> ot = ''LIMIT'' then ot else orderType);
                  orderType = (if 0 < tp_SLPts params \<or> 0 < tp_TPPts params then ''BRACKET'' else orderType);
                  lot = (if tp_Lot params = 0 \<and> 0 < wh_LotSize wh then wh_LotSize wh else tp_Lot params);
                  sgn' = to_upper (trim_space (sg_Action sig))
              in t\<lparr>t_Signal := (if sgn' = [] then em_dash else sgn'),
                   t_Symbol := (if tp_Symbol params = [] then em_dash else tp_Symbol params),
                   t_LotSize := lot, t_SignalKey := SignalKey (qe_key (ie_q env)) (wh_ID wh) wh sig,
                   t_Comment := sg_Comment sig, t_OrderType := orderType,
                   t_Product := to_upper (trim_space (tp_Product params))\<rparr>))"

definition insertGatewayRejectedTrade ::
  "ienv \<Rightarrow> webhook \<Rightarrow> signal_payload option \<Rightarrow> string \<Rightarrow> string \<Rightarrow> iworld \<Rightarrow> iworld" where
  "insertGatewayRejectedTrade env wh sig errCode errMsg w =
     (let t = buildGatewayRejectedTrade env wh sig errCode errMsg; q = iw_q w; qe = ie_q env in
      case attempt (qe_persist_ok qe) (PersistTradeAudit (qe_cols qe) (qe_now qe) t (qs_db (qw_state q))) of
        None \<Rightarrow> w
      | Some db \<Rightarrow> w\<lparr>iw_q := (with_db db q)\<lparr>qw_shown := qw_shown q @ [t]\<rparr>\<rparr>)"

definition rejectIngestWithTrade ::
  "ienv \<Rightarrow> string \<Rightarrow> webhook \<Rightarrow> signal_payload option \<Rightarrow> nat \<Rightarrow> string \<Rightarrow> string \<Rightarrow> string \<Rightarrow> iworld \<Rightarrow> reply \<times> iworld" where
  "rejectIngestWithTrade env ip wh sig status outcome errCode errMsg w =
     (Fail status errMsg, insertGatewayRejectedTrade env wh sig errCode errMsg (LogIngest env ip wh outcome errMsg w))"

definition rejectIngestOrder ::
  "ienv \<Rightarrow> string \<Rightarrow> webhook \<Rightarrow> signal_payload \<Rightarrow> nat \<Rightarrow> string \<Rightarrow> string \<Rightarrow> iworld \<Rightarrow> reply \<times> iworld" where
  "rejectIngestOrder env ip wh sig status = rejectIngestWithTrade env ip wh (Some sig) status ''rejected''"

definition rejectIngestUnparsed ::
  "ienv \<Rightarrow> string \<Rightarrow> webhook \<Rightarrow> nat \<Rightarrow> string \<Rightarrow> string \<Rightarrow> iworld \<Rightarrow> reply \<times> iworld" where
  "rejectIngestUnparsed env ip wh status = rejectIngestWithTrade env ip wh None status ''rejected''"

definition tryParseOrderSignal :: "request \<Rightarrow> webhook \<Rightarrow> signal_payload option" where
  "tryParseOrderSignal rq wh =
     (if rq_BodyLen rq = 0 then None
      else
        (case (if wh_PaperAccountID wh \<noteq> None then routePaperIngest (rq_Body rq) else Unrouted None errPaperBody) of
           RoutedOrder sig \<Rightarrow> Some sig
         | _ \<Rightarrow>
             (case signal_of (rq_Body rq) of
                None \<Rightarrow> None
              | Some sig \<Rightarrow> if trim_space (sg_Action sig) = [] then None
                            else Some (sig\<lparr>sg_Action := to_upper (trim_space (sg_Action sig))\<rparr>))))"

definition rejectIngestWebhook ::
  "ienv \<Rightarrow> request \<Rightarrow> webhook \<Rightarrow> nat \<Rightarrow> string \<Rightarrow> string \<Rightarrow> iworld \<Rightarrow> reply \<times> iworld" where
  "rejectIngestWebhook env rq wh status =
     rejectIngestWithTrade env (rq_IP rq) wh (tryParseOrderSignal rq wh) status ''rejected''"

definition rejectIngestRateLimited ::
  "ienv \<Rightarrow> string \<Rightarrow> webhook \<Rightarrow> signal_payload \<Rightarrow> string \<Rightarrow> string \<Rightarrow> iworld \<Rightarrow> reply \<times> iworld" where
  "rejectIngestRateLimited env ip wh sig retryAfter errMsg w =
     (let (r, w) = rejectIngestWithTrade env ip wh (Some sig) 429 ''rate_limited'' ''rate_limited'' errMsg w
      in (r\<lparr>rp_RetryAfter := (if retryAfter = [] then None else Some retryAfter)\<rparr>, w))"

definition duplicate_message :: string where
  "duplicate_message = ''duplicate signal suppressed within dedup window''"

definition rejectIngestDuplicate :: "ienv \<Rightarrow> string \<Rightarrow> webhook \<Rightarrow> signal_payload \<Rightarrow> iworld \<Rightarrow> reply \<times> iworld" where
  "rejectIngestDuplicate env ip wh sig w =
     (Fail 409 duplicate_message, insertGatewayRejectedTrade env wh (Some sig) ''duplicate_suppressed'' duplicate_message
        (LogIngest env ip wh ''dedup'' duplicate_message w))"

definition rejectIngestQueueFull :: "ienv \<Rightarrow> string \<Rightarrow> webhook \<Rightarrow> signal_payload \<Rightarrow> iworld \<Rightarrow> reply \<times> iworld" where
  "rejectIngestQueueFull env ip wh sig =
     rejectIngestWithTrade env ip wh (Some sig) 503 ''queue_full'' ''queue_full'' (''queue full '' @ em_dash @ '' retry shortly'')"

definition rejectIngestInternal :: "ienv \<Rightarrow> string \<Rightarrow> webhook \<Rightarrow> signal_payload \<Rightarrow> iworld \<Rightarrow> reply \<times> iworld" where
  "rejectIngestInternal env ip wh sig =
     rejectIngestWithTrade env ip wh (Some sig) 500 ''rejected'' ''gateway_rejected'' ''lookup failed''"

subsection \<open>An order signal\<close>

text \<open>A counter of Redis: nothing when the call fails.\<close>

definition counted ::
  "ienv \<Rightarrow> string \<Rightarrow> (int \<Rightarrow> redis \<Rightarrow> (go_err + int) \<times> redis) \<Rightarrow> iworld \<Rightarrow> int option \<times> iworld" where
  "counted env call f w =
     (if \<not> ie_redis_up env call then (None, w)
      else (case f (qe_now (ie_q env)) (iredis w) of
              (Inl _, r) \<Rightarrow> (None, set_redis r w)
            | (Inr n, r) \<Rightarrow> (Some n, set_redis r w)))"

definition exceeds :: "int option \<Rightarrow> int \<Rightarrow> bool" where
  "exceeds count limit = (case count of None \<Rightarrow> False | Some n \<Rightarrow> limit < n)"

text \<open>The limits of requests: the wait and the message of the one that is reached.\<close>

definition per_minute :: "ienv \<Rightarrow> webhook \<Rightarrow> iworld \<Rightarrow> (string \<times> string) option \<times> iworld" where
  "per_minute env wh w =
     (if wh_RateLimitPerMin wh \<le> 0 then (None, w)
      else (let (n, w) = counted env ''IncrWebhookRatePerMin'' (IncrWebhookRatePerMin (wh_ID wh)) w in
            (if exceeds n (wh_RateLimitPerMin wh)
             then Some (''60'', ''webhook rate limit exceeded ('' @ fmt_d (wh_RateLimitPerMin wh) @ '' req/min)'')
             else None, w)))"

definition per_day :: "ienv \<Rightarrow> webhook \<Rightarrow> user option \<Rightarrow> iworld \<Rightarrow> (string \<times> string) option \<times> iworld" where
  "per_day env wh user w =
     (case user of
        Some u \<Rightarrow>
          (if u_Plan u \<noteq> ''free'' then (None, w)
           else (let (n, w) = counted env ''IncrDailyWebhookRequests'' (IncrDailyWebhookRequests (wh_UserID wh)) w;
                     now = qe_now (ie_q env) in
                 (if exceeds n 100 then Some (fmt_d ((midnight_after now - now) div 1000),
                    ''daily webhook request limit reached (free plan: 100 req/day)'') else None, w)))
      | None \<Rightarrow> (None, w))"

definition per_second :: "ienv \<Rightarrow> webhook \<Rightarrow> iworld \<Rightarrow> (string \<times> string) option \<times> iworld" where
  "per_second env wh w =
     (if wh_RateLimitPerSec wh \<le> 0 then (None, w)
      else (let (n, w) = counted env ''IncrWebhookRateLimit'' (IncrWebhookRateLimit (wh_ID wh)) w in
            (if exceeds n (wh_RateLimitPerSec wh)
             then Some (''1'', ''webhook rate limit exceeded ('' @ fmt_d (wh_RateLimitPerSec wh) @ '' req/s)'')
             else None, w)))"

definition claim :: "ienv \<Rightarrow> webhook \<Rightarrow> string \<Rightarrow> iworld \<Rightarrow> bool \<times> iworld" where
  "claim env wh signalKey w =
     (if Window (Some wh) \<le> 0 \<or> \<not> ie_redis_up env ''TryClaimSignalDedup'' then (True, w)
      else (let (claimed, r) = TryClaimSignalDedup (wh_ID wh) signalKey (Window (Some wh)) (qe_now (ie_q env)) (iredis w)
            in (claimed, set_redis r w)))"

definition enqueue_job :: "ienv \<Rightarrow> string \<Rightarrow> webhook \<Rightarrow> signal_payload \<Rightarrow> string \<Rightarrow> iworld \<Rightarrow> reply \<times> iworld" where
  "enqueue_job env ip wh sig signalKey w =
     (case Enqueue (ie_buffer env) \<lparr>jb_Webhook = wh, jb_Signal = sig, jb_SignalKey = signalKey, jb_TradeID = ie_requestID env\<rparr>
             (iw_jobs w) of
        (True, jobs) \<Rightarrow> (\<lparr>rp_Status = 202, rp_Message = ''Webhook accepted for processing.'', rp_RetryAfter = None\<rparr>,
                         LogIngest env ip wh ''accepted'' [] (w\<lparr>iw_jobs := jobs\<rparr>))
      | (False, _) \<Rightarrow>
          (let w = (if 0 < Window (Some wh) \<and> ie_redis_up env ''ReleaseSignalDedup''
                    then set_redis (ReleaseSignalDedup (wh_ID wh) signalKey (iredis w)) w else w)
           in rejectIngestQueueFull env ip wh sig w))"

text \<open>Past the guard: the limits, the claim and the queue.\<close>

definition admit_order :: "ienv \<Rightarrow> string \<Rightarrow> webhook \<Rightarrow> signal_payload \<Rightarrow> iworld \<Rightarrow> reply \<times> iworld" where
  "admit_order env ip wh sig w =
     (case per_minute env wh w of
        (Some (wait, msg), w) \<Rightarrow> rejectIngestRateLimited env ip wh sig wait msg w
      | (None, w) \<Rightarrow>
     (case qe_GetUserByID (ie_q env) (wh_UserID wh) of
        Inl _ \<Rightarrow> rejectIngestInternal env ip wh sig w
      | Inr user \<Rightarrow>
     (case per_day env wh user w of
        (Some (wait, msg), w) \<Rightarrow> rejectIngestRateLimited env ip wh sig wait msg w
      | (None, w) \<Rightarrow>
     (case per_second env wh w of
        (Some (wait, msg), w) \<Rightarrow> rejectIngestRateLimited env ip wh sig wait msg w
      | (None, w) \<Rightarrow>
          (let signalKey = SignalKey (qe_key (ie_q env)) (wh_ID wh) wh sig; (claimed, w) = claim env wh signalKey w in
           if claimed then enqueue_job env ip wh sig signalKey w
           else rejectIngestDuplicate env ip wh sig w)))))"

definition processOrderSignal :: "ienv \<Rightarrow> string \<Rightarrow> webhook \<Rightarrow> signal_payload \<Rightarrow> iworld \<Rightarrow> reply \<times> iworld" where
  "processOrderSignal env ip wh sig w =
     (let sig = sig\<lparr>sg_Action := to_upper (sg_Action sig)\<rparr> in
      if sg_Action sig \<notin> {''BUY'', ''SELL'', ''CLOSE''}
      then rejectIngestOrder env ip wh sig 400 ''invalid_action'' ''action must be BUY, SELL, or CLOSE'' w
      else
        (case ValidateIngest (qe_zones (ie_q env)) wh sig (qe_secs (ie_q env)) of
           Some err \<Rightarrow> rejectIngestOrder env ip wh sig (if err_is err ErrCommentRequired then 401 else 403)
                        (ErrCode err) (err_text err) w
         | None \<Rightarrow> admit_order env ip wh sig w))"

subsection \<open>Paper signals\<close>

definition maxPaperSignalBytes :: nat where "maxPaperSignalBytes = 32 * 1024"

text \<open>A price update that is refused is logged and leaves no trade.\<close>

definition refuse_update :: "ienv \<Rightarrow> string \<Rightarrow> webhook \<Rightarrow> nat \<Rightarrow> string \<Rightarrow> iworld \<Rightarrow> reply \<times> iworld" where
  "refuse_update env ip wh status msg w = (Fail status msg, LogIngest env ip wh ''rejected'' msg w)"

definition marked_position :: "f64 \<Rightarrow> int \<Rightarrow> paper_position \<Rightarrow> paper_position" where
  "marked_position price now p = p\<lparr>pp_LastPrice := price,
     pp_UnrealizedPnL := UnrealizedPnL (pp_Quantity p) (pp_AvgEntryPrice p) price, pp_UpdatedAt := now\<rparr>"

definition update_accepted :: "ienv \<Rightarrow> string \<Rightarrow> webhook \<Rightarrow> bool \<Rightarrow> iworld \<Rightarrow> reply \<times> iworld" where
  "update_accepted env ip wh marked w =
     (\<lparr>rp_Status = 200, rp_Message = (if marked then ''marked'' else []), rp_RetryAfter = None\<rparr>,
      LogIngest env ip wh ''accepted'' [] w)"

definition ingestPaperPriceUpdate :: "ienv \<Rightarrow> string \<Rightarrow> webhook \<Rightarrow> paper_payload \<Rightarrow> iworld \<Rightarrow> reply \<times> iworld" where
  "ingestPaperPriceUpdate env ip wh raw w =
     (if wh_RequiredComment wh \<noteq> [] \<and> pl_Comment raw \<noteq> wh_RequiredComment wh
      then refuse_update env ip wh 401 (err_text ErrCommentRequired) w
      else
        (let symbol = trim_space (pl_Symbol raw);
             symbol = (if symbol = [] then (case EffectiveAllowedSymbols wh of [s] \<Rightarrow> s | _ \<Rightarrow> []) else symbol) in
         if symbol = [] then refuse_update env ip wh 400 (err_text ErrSymbolRequired) w
         else
        case ValidateSymbol wh symbol of
          Some err \<Rightarrow> refuse_update env ip wh 403 (err_text err) w
        | None \<Rightarrow>
            (if pl_Price raw \<le> 0 then refuse_update env ip wh 400 ''price must be greater than zero'' w
             else
        case qe_GetPaperAccount (ie_q env) (case wh_PaperAccountID wh of None \<Rightarrow> [] | Some a \<Rightarrow> a) of
          Inr (Some account) \<Rightarrow>
            (if pa_Status account \<noteq> ''active''
             then refuse_update env ip wh 403 (''paper account is '' @ pa_Status account) w
             else if \<not> ie_position_ok env then refuse_update env ip wh 500 ''lookup failed'' w
             else
        case GetPaperPosition (qs_inner (qw_state (iw_q w))) (pa_ID account) (pa_Exchange account) symbol
               (pa_DefaultProduct account) of
          None \<Rightarrow> update_accepted env ip wh False w
        | Some p \<Rightarrow>
            (if pp_Quantity p = 0 then update_accepted env ip wh False w
             else
               (case attempt (ie_mark_ok env) (UpdatePaperPositionMark (ie_nc env)
                       (marked_position (pl_Price raw) (qe_now (ie_q env)) p) (qs_inner (qw_state (iw_q w)))) of
                  None \<Rightarrow> refuse_update env ip wh 500 ''mark update failed'' w
                | Some db \<Rightarrow> update_accepted env ip wh True
                    (w\<lparr>iw_q := (iw_q w)\<lparr>qw_state := (qw_state (iw_q w))\<lparr>qs_inner := db\<rparr>\<rparr>\<rparr>))))
        | _ \<Rightarrow> refuse_update env ip wh 500 ''paper account not found'' w)))"

definition ingestPaperSignal :: "ienv \<Rightarrow> request \<Rightarrow> webhook \<Rightarrow> iworld \<Rightarrow> reply \<times> iworld" where
  "ingestPaperSignal env rq wh w =
     (if maxPaperSignalBytes < rq_BodyLen rq
      then rejectIngestUnparsed env (rq_IP rq) wh 400 ''invalid_payload'' ''payload too large (max 32 KB)'' w
      else
        (case routePaperIngest (rq_Body rq) of
           RoutedOrder sig \<Rightarrow> processOrderSignal env (rq_IP rq) wh sig w
         | RoutedPrice raw \<Rightarrow> ingestPaperPriceUpdate env (rq_IP rq) wh raw w
         | Unrouted (Some sig) err \<Rightarrow> rejectIngestOrder env (rq_IP rq) wh sig 400 ''gateway_rejected'' (err_text err) w
         | Unrouted None err \<Rightarrow> rejectIngestUnparsed env (rq_IP rq) wh 400 ''invalid_payload'' ''invalid payload'' w))"

subsection \<open>A request\<close>

definition ErrSoloResourcesDisabled :: go_err where
  "ErrSoloResourcesDisabled =
     Sentinel ''personal webhooks and credentials are disabled while you belong to an organization''"

definition AssertWebhookMayTrade :: "ienv \<Rightarrow> webhook \<Rightarrow> go_err + compliance_err option" where
  "AssertWebhookMayTrade env wh =
     ebind (qe_GetUserByID (ie_q env) (wh_UserID wh)) (\<lambda>user.
     ebind (case given (wh_OrgID wh) of None \<Rightarrow> Inr None | Some oid \<Rightarrow> ie_GetOrgByID env oid) (\<lambda>org.
       Inr (WebhookMayTrade user org)))"

text \<open>The webhook of a token: from the cache, else from the data base, and then into the cache.\<close>

definition find_webhook :: "ienv \<Rightarrow> string \<Rightarrow> iworld \<Rightarrow> (go_err + webhook option) \<times> iworld" where
  "find_webhook env token w =
     (let h = ie_hash env token; now = qe_now (ie_q env) in
      case (if ie_redis_up env ''GetWebhookByToken'' then GetWebhookByToken h now (iredis w) else Inr None) of
        Inr (Some wh) \<Rightarrow> (Inr (Some wh), w)
      | _ \<Rightarrow>
          (case ie_GetWebhookByToken env h of
             Inr (Some wh) \<Rightarrow> (Inr (Some wh),
               if ie_redis_up env ''CacheWebhook'' then set_redis (snd (CacheWebhook wh now (iredis w))) w else w)
           | r \<Rightarrow> (r, w)))"

text \<open>The gates of a webhook, before its body is read: status, code and message of the one that is closed.\<close>

definition webhook_gates :: "ienv \<Rightarrow> webhook \<Rightarrow> (nat \<times> string \<times> string) option" where
  "webhook_gates env wh =
     (case (if wh_OrgID wh = None then ie_GetActiveOrgMembershipByUser env (wh_UserID wh) else Inr None) of
        Inl _ \<Rightarrow> Some (500, ''gateway_rejected'', ''lookup failed'')
      | Inr (Some _) \<Rightarrow> Some (403, ''solo_resources_disabled'', err_text ErrSoloResourcesDisabled)
      | Inr None \<Rightarrow>
          (if wh_Status wh \<noteq> ''active'' then Some (403, ''webhook_paused'', ''webhook is paused'')
           else
             (case AssertWebhookMayTrade env wh of
                Inl _ \<Rightarrow> Some (500, ''gateway_rejected'', ''lookup failed'')
              | Inr (Some ErrAccountSuspended) \<Rightarrow> Some (403, ''account_suspended'', compliance_text ErrAccountSuspended)
              | Inr (Some ErrOrgSuspended) \<Rightarrow> Some (403, ''org_suspended'', compliance_text ErrOrgSuspended)
              | Inr None \<Rightarrow> None)))"

definition maxSignalBytes :: nat where "maxSignalBytes = 32 * 1024"

definition IngestSignal :: "ienv \<Rightarrow> request \<Rightarrow> iworld \<Rightarrow> reply \<times> iworld" where
  "IngestSignal env rq w =
     (if rq_Token rq = [] then (Fail 400 ''missing token'', w)
      else
        (case find_webhook env (rq_Token rq) w of
           (Inl _, w) \<Rightarrow> (Fail 500 ''lookup failed'', w)
         | (Inr None, w) \<Rightarrow> (Fail 401 ''unknown token'', w)
         | (Inr (Some wh), w) \<Rightarrow>
             (case webhook_gates env wh of
                Some (status, code, msg) \<Rightarrow> rejectIngestWebhook env rq wh status code msg w
              | None \<Rightarrow>
                  (if wh_PaperAccountID wh \<noteq> None then ingestPaperSignal env rq wh w
                   else if maxSignalBytes < rq_BodyLen rq
                   then rejectIngestUnparsed env (rq_IP rq) wh 400 ''invalid_payload'' ''payload too large (max 32 KB)'' w
                   else
                     (case rq_BodyParser rq of
                        None \<Rightarrow> rejectIngestUnparsed env (rq_IP rq) wh 400 ''invalid_payload'' ''invalid payload'' w
                      | Some sig \<Rightarrow> processOrderSignal env (rq_IP rq) wh sig w)))))"

subsection \<open>What a request leaves behind\<close>

definition iquiet :: "iworld \<Rightarrow> iworld \<Rightarrow> bool" where
  "iquiet w w' = (qs_db (qw_state (iw_q w')) = qs_db (qw_state (iw_q w)) \<and>
     qs_inner (qw_state (iw_q w')) = qs_inner (qw_state (iw_q w)) \<and> iw_jobs w' = iw_jobs w \<and> iw_log w' = iw_log w)"

lemma iquiet_refl [simp, intro]: "iquiet w w"
  by (simp add: iquiet_def)

lemma iquiet_trans: "iquiet a b \<Longrightarrow> iquiet b c \<Longrightarrow> iquiet a c"
  by (simp add: iquiet_def)

lemma set_redis_quiet [simp, intro]: "iquiet w (set_redis r w)"
  by (simp add: iquiet_def set_redis_def frame)

text \<open>And the claims of signals are left alone.\<close>

definition dquiet :: "iworld \<Rightarrow> iworld \<Rightarrow> bool" where
  "dquiet w w' = (iquiet w w' \<and> (\<forall>k. iredis w' (dedupKeyPrefix @ k) = iredis w (dedupKeyPrefix @ k)))"

lemma dquiet_refl [simp, intro]: "dquiet w w"
  by (simp add: dquiet_def)

lemma dquiet_trans: "dquiet a b \<Longrightarrow> dquiet b c \<Longrightarrow> dquiet a c"
  using iquiet_trans [of a b c] by (simp add: dquiet_def)

lemma dquiet_iquiet: "dquiet w w' \<Longrightarrow> iquiet w w'"
  by (simp add: dquiet_def)

lemma iredis_set [simp]: "iredis (set_redis r w) = r"
  by (simp add: iredis_def set_redis_def with_redis_def)

definition spares_claims :: "(int \<Rightarrow> redis \<Rightarrow> (go_err + int) \<times> redis) \<Rightarrow> bool" where
  "spares_claims f = (\<forall>now r k. snd (f now r) (dedupKeyPrefix @ k) = r (dedupKeyPrefix @ k))"

lemma incr_keeps_others:
  "k \<noteq> key \<Longrightarrow> snd (rincr r now key) k = r k" "k \<noteq> key \<Longrightarrow> rexpire_at r now key t k = r k"
  "k \<noteq> key \<Longrightarrow> snd (incr_within key window now r) k = r k"
  by (auto simp: rincr_def rexpire_at_def incr_within_def rexpire_def Let_def split: option.split prod.split sum.split
      redis_value.split if_splits)

lemma counters_spare_claims:
  "spares_claims (IncrWebhookRatePerMin i)" "spares_claims (IncrWebhookRateLimit i)" "spares_claims (IncrDailyWebhookRequests i)"
proof -
  show "spares_claims (IncrWebhookRatePerMin i)" "spares_claims (IncrWebhookRateLimit i)"
    unfolding spares_claims_def IncrWebhookRatePerMin_def IncrWebhookRateLimit_def
    by (intro allI incr_keeps_others, simp add: dedupKeyPrefix_def webhookRateLimitPerMinPrefix_def webhookRateLimitPrefix_def)+
  have k: "dedupKeyPrefix @ k \<noteq> dailyWebhookPrefix @ x" for k x by (simp add: dedupKeyPrefix_def dailyWebhookPrefix_def)
  have "snd (IncrDailyWebhookRequests i now r) (dedupKeyPrefix @ k) =
      rexpire_at (snd (rincr r now (dailyWebhookPrefix @ date_string now @ '':'' @ i))) now
        (dailyWebhookPrefix @ date_string now @ '':'' @ i) (midnight_after now) (dedupKeyPrefix @ k)" for now r k
    by (simp add: IncrDailyWebhookRequests_def Let_def split: prod.split sum.split)
  then show "spares_claims (IncrDailyWebhookRequests i)"
    unfolding spares_claims_def by (simp add: incr_keeps_others(1,2) [OF k])
qed

lemma counted_quiet: "spares_claims f \<Longrightarrow> dquiet w (snd (counted env call f w))"
  by (simp add: counted_def dquiet_def spares_claims_def split_def split: sum.split)

lemma limits_quiet: "dquiet w (snd (per_minute env wh w))" "dquiet w (snd (per_day env wh user w))" "dquiet w (snd (per_second env wh w))"
  using counted_quiet [OF counters_spare_claims(1), of w env] counted_quiet [OF counters_spare_claims(2), of w env]
    counted_quiet [OF counters_spare_claims(3), of w env]
  by (simp_all add: per_minute_def per_day_def per_second_def split_def Let_def split: option.split)

lemma claim_quiet: "iquiet w (snd (claim env wh k w))"
  by (simp add: claim_def split_def Let_def)

lemma find_webhook_quiet: "dquiet w (snd (find_webhook env token w))"
proof -
  have "dedupKeyPrefix @ k \<noteq> webhookKeyPrefix @ x" for k x by (simp add: dedupKeyPrefix_def webhookKeyPrefix_def)
  then have "dquiet w (set_redis (snd (CacheWebhook wh now (iredis w))) w)" for wh now
    by (simp add: dquiet_def CacheWebhook_def rset_def)
  then show ?thesis by (simp add: find_webhook_def Let_def split: sum.split option.split)
qed

text \<open>
  The lot that the trade of a refusal has, and the signal it is made of. A body that was not read, or did not parse, gives none.
\<close>

definition reject_lot :: "webhook \<Rightarrow> signal_payload option \<Rightarrow> f64" where
  "reject_lot wh sig =
     (case sig of None \<Rightarrow> 0 | Some s \<Rightarrow> if sg_Lot s = 0 \<and> 0 < wh_LotSize wh then wh_LotSize wh else sg_Lot s)"

definition refused_signal :: "ienv \<Rightarrow> request \<Rightarrow> webhook \<Rightarrow> signal_payload option" where
  "refused_signal env rq wh =
     (if webhook_gates env wh \<noteq> None then tryParseOrderSignal rq wh
      else if wh_PaperAccountID wh = None then (if maxSignalBytes < rq_BodyLen rq then None else rq_BodyParser rq)
      else if maxPaperSignalBytes < rq_BodyLen rq then None
      else (case routePaperIngest (rq_Body rq) of
              RoutedOrder sig \<Rightarrow> Some sig | RoutedPrice raw \<Rightarrow> None | Unrouted sig err \<Rightarrow> sig))"

text \<open>
  A refusal, with its log entry and, where the column holds its lot, its trade; an acceptance; and the end of a price update.
\<close>

definition refused :: "ienv \<Rightarrow> webhook \<Rightarrow> f64 \<Rightarrow> iworld \<Rightarrow> reply \<times> iworld \<Rightarrow> bool" where
  "refused env wh lot w out =
     (case out of (r, w') \<Rightarrow>
        rp_Status r \<notin> {200, 202} \<and> iw_jobs w' = iw_jobs w \<and>
        qs_inner (qw_state (iw_q w')) = qs_inner (qw_state (iw_q w)) \<and>
        (if tc_lot (qe_cols (ie_q env)) lot = None then qs_db (qw_state (iw_q w')) = qs_db (qw_state (iw_q w))
         else \<exists>row. td_trades (qs_db (qw_state (iw_q w'))) = td_trades (qs_db (qw_state (iw_q w))) @ [row] \<and>
           t_ID (tr_trade row) = ie_requestID env \<and> t_WebhookID (tr_trade row) = wh_ID wh \<and>
           t_Status (tr_trade row) = ''rejected'' \<and> t_Error (tr_trade row) = rp_Message r \<and>
           t_ErrorCode (tr_trade row) \<noteq> []) \<and>
        (\<exists>entry. iw_log w' = iw_log w @ [entry] \<and> il_RequestID entry = ie_requestID env \<and> il_Error entry = rp_Message r))"

definition job_accepted :: "ienv \<Rightarrow> webhook \<Rightarrow> iworld \<Rightarrow> reply \<times> iworld \<Rightarrow> bool" where
  "job_accepted env wh w out =
     (case out of (r, w') \<Rightarrow>
        rp_Status r = 202 \<and> length (iw_jobs w) < ie_buffer env \<and>
        (\<exists>job. iw_jobs w' = iw_jobs w @ [job] \<and> jb_Webhook job = wh \<and> jb_TradeID job = ie_requestID env \<and>
           sg_Action (jb_Signal job) \<in> {''BUY'', ''SELL'', ''CLOSE''} \<and>
           ValidateIngest (qe_zones (ie_q env)) wh (jb_Signal job) (qe_secs (ie_q env)) = None \<and>
           jb_SignalKey job = SignalKey (qe_key (ie_q env)) (wh_ID wh) wh (jb_Signal job) \<and>
           (\<exists>w1. dquiet w w1 \<and> fst (claim env wh (jb_SignalKey job) w1) \<and>
              iredis w' = iredis (snd (claim env wh (jb_SignalKey job) w1)))) \<and>
        qs_db (qw_state (iw_q w')) = qs_db (qw_state (iw_q w)) \<and>
        qs_inner (qw_state (iw_q w')) = qs_inner (qw_state (iw_q w)))"

definition price_update :: "ienv \<Rightarrow> request \<Rightarrow> webhook \<Rightarrow> iworld \<Rightarrow> reply \<times> iworld \<Rightarrow> bool" where
  "price_update env rq wh w out =
     (case out of (r, w') \<Rightarrow>
        rp_Status r \<noteq> 202 \<and> wh_PaperAccountID wh \<noteq> None \<and> (\<exists>raw. routePaperIngest (rq_Body rq) = RoutedPrice raw) \<and>
        iw_jobs w' = iw_jobs w \<and> qs_db (qw_state (iw_q w')) = qs_db (qw_state (iw_q w)) \<and>
        (rp_Message r = ''marked'' \<or> qs_inner (qw_state (iw_q w')) = qs_inner (qw_state (iw_q w))) \<and>
        (ie_log_ok env \<longrightarrow> (\<exists>entry. iw_log w' = iw_log w @ [entry] \<and> il_RequestID entry = ie_requestID env)))"

definition sound_ingest :: "ienv \<Rightarrow> webhook \<Rightarrow> iworld \<Rightarrow> bool" where
  "sound_ingest env wh w =
     (qe_persist_ok (ie_q env) \<and> ie_log_ok env \<and>
      tc_lot (qe_cols (ie_q env)) 0 \<noteq> None \<and> tc_price (qe_cols (ie_q env)) 0 \<noteq> None \<and>
      wh_ID wh \<in> set (td_webhook_ids (qs_db (qw_state (iw_q w)))) \<and>
      (wh_UserID wh = [] \<or> wh_UserID wh \<in> set (td_user_ids (qs_db (qw_state (iw_q w))))) \<and>
      ie_requestID env \<notin> set (trade_ids (qs_db (qw_state (iw_q w)))))"

lemma gateway_trade:
  "t_ID (buildGatewayRejectedTrade env wh sig c m) = ie_requestID env \<and>
   t_WebhookID (buildGatewayRejectedTrade env wh sig c m) = wh_ID wh \<and>
   t_UserID (buildGatewayRejectedTrade env wh sig c m) = wh_UserID wh \<and>
   t_Status (buildGatewayRejectedTrade env wh sig c m) = ''rejected'' \<and>
   t_Error (buildGatewayRejectedTrade env wh sig c m) = m \<and> t_ErrorCode (buildGatewayRejectedTrade env wh sig c m) = c"
  by (cases sig) (simp_all add: buildGatewayRejectedTrade_def Let_def)

lemma reject_lot_None [simp]: "reject_lot wh None = 0"
  by (simp add: reject_lot_def)

lemma refused_signal_gate [simp]: "webhook_gates env wh = Some g \<Longrightarrow> refused_signal env rq wh = tryParseOrderSignal rq wh"
  by (simp add: refused_signal_def)

lemma gateway_fits:
  "tc_price nc 0 \<noteq> None \<Longrightarrow>
    fits nc (buildGatewayRejectedTrade env wh sig c m) \<longleftrightarrow> tc_lot nc (reject_lot wh sig) \<noteq> None"
  by (cases sig) (simp_all add: fits_def buildGatewayRejectedTrade_def Let_def reject_lot_def ResolveParams_def zero_trade_def)

lemma LogIngest_frame:
  "iw_q (LogIngest env ip wh oc m w) = iw_q w" "iw_jobs (LogIngest env ip wh oc m w) = iw_jobs w"
  by (simp_all add: LogIngest_def)

lemma gateway_refuses:
  assumes "sound_ingest env wh w" "iquiet w w1" "code \<noteq> []" "status \<notin> {200, 202}"
  shows "refused env wh (reject_lot wh sig) w (\<lparr>rp_Status = status, rp_Message = msg, rp_RetryAfter = ra\<rparr>,
    insertGatewayRejectedTrade env wh sig code msg (LogIngest env ip wh outcome msg w1))"
proof -
  let ?t = "buildGatewayRejectedTrade env wh sig code msg" and ?qe = "ie_q env"
  let ?w = "LogIngest env ip wh outcome msg w1"
  have db: "qs_db (qw_state (iw_q w1)) = qs_db (qw_state (iw_q w))" using assms(2) by (simp add: iquiet_def)
  have f: "fits (qe_cols ?qe) ?t \<longleftrightarrow> tc_lot (qe_cols ?qe) (reject_lot wh sig) \<noteq> None"
    using assms(1) by (intro gateway_fits) (simp add: sound_ingest_def)
  have l: "iw_log ?w = iw_log w @ [\<lparr>il_WebhookID = wh_ID wh, il_RequestID = ie_requestID env, il_Outcome = outcome,
      il_Error = msg, il_IP = ip\<rparr>]"
    using assms(1,2) by (simp add: LogIngest_def sound_ingest_def iquiet_def)
  show ?thesis
  proof (cases "fits (qe_cols ?qe) ?t")
    case False
    then have "insertGatewayRejectedTrade env wh sig code msg ?w = ?w"
      using insert_overflows by (simp add: insertGatewayRejectedTrade_def Let_def LogIngest_frame PersistTradeAudit_def attempt_def)
    then show ?thesis using False f l assms(2-4) db by (simp add: refused_def LogIngest_frame iquiet_def)
  next
    case True
    then obtain t' where "encode_trade (qe_cols ?qe) ?t = Inr t'" unfolding encode_fits by blast
    then obtain db' where ins: "InsertTrade (qe_cols ?qe) ?t (qs_db (qw_state (iw_q w))) = Inr db'"
      using assms(1) gateway_trade [of env wh sig code msg] unfolding InsertTrade_def sound_ingest_def by (auto simp: require_def)
    obtain row where row: "td_trades db' = td_trades (qs_db (qw_state (iw_q w))) @ [row]" "t_ID (tr_trade row) = ie_requestID env"
      "t_WebhookID (tr_trade row) = wh_ID wh" "t_Status (tr_trade row) = ''rejected''" "t_Error (tr_trade row) = msg"
      "t_ErrorCode (tr_trade row) = code"
      using inserted_row [OF ins] gateway_trade [of env wh sig code msg] by auto
    have "insertGatewayRejectedTrade env wh sig code msg ?w =
        ?w\<lparr>iw_q := (with_db db' (iw_q w1))\<lparr>qw_shown := qw_shown (iw_q w1) @ [?t]\<rparr>\<rparr>"
      using assms(1) by (simp add: insertGatewayRejectedTrade_def Let_def LogIngest_frame db PersistTradeAudit_def ins attempt_def
          sound_ingest_def)
    then show ?thesis using True f l assms(2-4) row by (auto simp: refused_def LogIngest_frame frame iquiet_def)
  qed
qed

lemma ErrCode_nonempty: "ErrCode e \<noteq> []"
  by (simp add: ErrCode_def)

subsection \<open>The contract of an answer\<close>

text \<open>
  What holds of every refusal and of every acceptance holds of every answer to an order signal: the order
  of the checks is gone through once, for any such statement. It may speak of the lot of the trade that a refusal leaves.
\<close>

locale ingest_contract =
  fixes R :: "ienv \<Rightarrow> webhook \<Rightarrow> f64 \<Rightarrow> iworld \<Rightarrow> reply \<times> iworld \<Rightarrow> bool"
  assumes refusal: "iquiet w w1 \<Longrightarrow> code \<noteq> [] \<Longrightarrow> status \<notin> {200, 202} \<Longrightarrow>
      R env wh (reject_lot wh sig) w (\<lparr>rp_Status = status, rp_Message = msg, rp_RetryAfter = ra\<rparr>,
        insertGatewayRejectedTrade env wh sig code msg (LogIngest env ip wh outcome msg w1))"
    and acceptance: "job_accepted env wh w out \<Longrightarrow> R env wh lot w out"
begin

lemma reject_kinds:
  assumes "iquiet w w1"
  shows "code \<noteq> [] \<Longrightarrow> status \<notin> {200, 202} \<Longrightarrow> R env wh (reject_lot wh (Some s)) w (rejectIngestOrder env ip wh s status code msg w1)"
    "code \<noteq> [] \<Longrightarrow> status \<notin> {200, 202} \<Longrightarrow> R env wh 0 w (rejectIngestUnparsed env ip wh status code msg w1)"
    "code \<noteq> [] \<Longrightarrow> status \<notin> {200, 202} \<Longrightarrow> R env wh (reject_lot wh (tryParseOrderSignal rq wh)) w (rejectIngestWebhook env rq wh status code msg w1)"
    "R env wh (reject_lot wh (Some s)) w (rejectIngestRateLimited env ip wh s wait msg w1)"
    "R env wh (reject_lot wh (Some s)) w (rejectIngestDuplicate env ip wh s w1)"
    "R env wh (reject_lot wh (Some s)) w (rejectIngestQueueFull env ip wh s w1)"
    "R env wh (reject_lot wh (Some s)) w (rejectIngestInternal env ip wh s w1)"
  using refusal [OF assms] refusal [OF assms, where sig = None, unfolded reject_lot_def option.case]
  by (simp_all add: rejectIngestOrder_def rejectIngestUnparsed_def rejectIngestWebhook_def rejectIngestQueueFull_def
      rejectIngestInternal_def rejectIngestDuplicate_def rejectIngestRateLimited_def rejectIngestWithTrade_def Fail_def)

lemma enqueue_settles:
  assumes "dquiet w w1" "sg_Action sig \<in> {''BUY'', ''SELL'', ''CLOSE''}"
    and "ValidateIngest (qe_zones (ie_q env)) wh sig (qe_secs (ie_q env)) = None"
    and "k = SignalKey (qe_key (ie_q env)) (wh_ID wh) wh sig" "fst (claim env wh k w1)"
  shows "R env wh (reject_lot wh (Some sig)) w (enqueue_job env ip wh sig k (snd (claim env wh k w1)))"
proof -
  let ?w = "snd (claim env wh k w1)"
  have q: "iquiet w ?w" using iquiet_trans [OF dquiet_iquiet [OF assms(1)] claim_quiet] .
  show ?thesis
  proof (cases "length (iw_jobs ?w) < ie_buffer env")
    case True
    then have "enqueue_job env ip wh sig k ?w = (\<lparr>rp_Status = 202, rp_Message = ''Webhook accepted for processing.'', rp_RetryAfter = None\<rparr>,
        LogIngest env ip wh ''accepted'' [] (?w\<lparr>iw_jobs := iw_jobs ?w @
          [\<lparr>jb_Webhook = wh, jb_Signal = sig, jb_SignalKey = k, jb_TradeID = ie_requestID env\<rparr>]\<rparr>))"
      by (simp add: enqueue_job_def Enqueue_def)
    moreover have "iredis (LogIngest env ip wh oc m (?w\<lparr>iw_jobs := js\<rparr>)) = iredis ?w" for oc m js
      by (simp add: iredis_def LogIngest_def)
    ultimately show ?thesis using assms q True
      by (intro acceptance) (auto simp: job_accepted_def iquiet_def LogIngest_frame)
  next
    case False
    have "R env wh (reject_lot wh (Some sig)) w (rejectIngestQueueFull env ip wh sig (set_redis r ?w))" for r
      by (rule reject_kinds [OF iquiet_trans [OF q set_redis_quiet]])
    moreover have "R env wh (reject_lot wh (Some sig)) w (rejectIngestQueueFull env ip wh sig ?w)" by (rule reject_kinds [OF q])
    ultimately show ?thesis using False by (simp add: enqueue_job_def Enqueue_def)
  qed
qed

lemma limit_settles:
  assumes "dquiet w w1" "dquiet w1 (snd p)" and "\<And>w'. dquiet w w' \<Longrightarrow> R env wh (reject_lot wh (Some sig)) w (g w')"
  shows "R env wh (reject_lot wh (Some sig)) w
    (case p of (Some (wait, msg), w') \<Rightarrow> rejectIngestRateLimited env ip wh sig wait msg w' | (None, w') \<Rightarrow> g w')"
proof -
  obtain l w' where p: "p = (l, w')" by (cases p)
  have q: "dquiet w w'" using dquiet_trans [OF assms(1,2)] by (simp add: p)
  show ?thesis
  proof (cases l)
    case None
    then show ?thesis using assms(3) [OF q] by (simp add: p)
  next
    case (Some x)
    then show ?thesis using reject_kinds(4) [OF dquiet_iquiet [OF q]] by (cases x) (simp add: p)
  qed
qed

lemma claim_settles:
  assumes "dquiet w w1" "sg_Action sig \<in> {''BUY'', ''SELL'', ''CLOSE''}"
    and "ValidateIngest (qe_zones (ie_q env)) wh sig (qe_secs (ie_q env)) = None"
  shows "R env wh (reject_lot wh (Some sig)) w
    (let k = SignalKey (qe_key (ie_q env)) (wh_ID wh) wh sig; (claimed, w') = claim env wh k w1
     in if claimed then enqueue_job env ip wh sig k w' else rejectIngestDuplicate env ip wh sig w')"
  using enqueue_settles [OF assms refl] reject_kinds(5) [OF iquiet_trans [OF dquiet_iquiet [OF assms(1)] claim_quiet]]
  by (simp add: Let_def split_def)

lemma admit_settles:
  assumes q: "dquiet w w1"
    and "sg_Action sig \<in> {''BUY'', ''SELL'', ''CLOSE''}" "ValidateIngest (qe_zones (ie_q env)) wh sig (qe_secs (ie_q env)) = None"
  shows "R env wh (reject_lot wh (Some sig)) w (admit_order env ip wh sig w1)"
  unfolding admit_order_def using reject_kinds(7) [OF dquiet_iquiet]
  by (auto intro!: limit_settles [OF q limits_quiet(1)] limit_settles [OF _ limits_quiet(2)]
      limit_settles [OF _ limits_quiet(3)] claim_settles [OF _ assms(2,3)] split: sum.split)

lemma order_settles:
  assumes q: "dquiet w w1"
  shows "R env wh (reject_lot wh (Some sig)) w (processOrderSignal env ip wh sig w1)"
proof -
  let ?s = "sig\<lparr>sg_Action := to_upper (sg_Action sig)\<rparr>"
  have l: "reject_lot wh (Some ?s) = reject_lot wh (Some sig)" for wh by (simp add: reject_lot_def)
  note r = reject_kinds(1) [OF dquiet_iquiet [OF q], where s = ?s, unfolded l]
  show ?thesis
  proof (cases "sg_Action ?s \<in> {''BUY'', ''SELL'', ''CLOSE''}")
    case False
    then show ?thesis unfolding processOrderSignal_def Let_def by (simp only: if_True not_False_eq_True) (rule r, simp_all)
  next
    case act: True
    show ?thesis
    proof (cases "ValidateIngest (qe_zones (ie_q env)) wh ?s (qe_secs (ie_q env))")
      case (Some err)
      show ?thesis unfolding processOrderSignal_def Let_def
        by (simp only: act Some option.case not_True_eq_False if_False) (rule r, simp_all add: ErrCode_nonempty)
    next
      case None
      show ?thesis unfolding processOrderSignal_def Let_def
        by (simp only: act None option.case not_True_eq_False if_False) (rule admit_settles [OF q act None, unfolded l])
    qed
  qed
qed

end

subsection \<open>Price updates\<close>

lemma refuse_update_settles:
  assumes "iquiet w w1" "wh_PaperAccountID wh \<noteq> None" "routePaperIngest (rq_Body rq) = RoutedPrice raw" "status \<noteq> 202"
  shows "price_update env rq wh w (refuse_update env ip wh status msg w1)"
  using assms by (simp add: price_update_def refuse_update_def Fail_def LogIngest_def iquiet_def)

lemma update_accepted_settles:
  assumes "iquiet w w1" "wh_PaperAccountID wh \<noteq> None" "routePaperIngest (rq_Body rq) = RoutedPrice raw"
  shows "price_update env rq wh w (update_accepted env ip wh False w1)"
    "price_update env rq wh w (update_accepted env ip wh True (w1\<lparr>iw_q := (iw_q w1)\<lparr>qw_state := (qw_state (iw_q w1))\<lparr>qs_inner := db\<rparr>\<rparr>\<rparr>))"
  using assms by (simp_all add: price_update_def update_accepted_def LogIngest_def iquiet_def)

lemma branches:
  "P a \<Longrightarrow> P b \<Longrightarrow> P (if c then a else b)"
  "P a \<Longrightarrow> (\<And>x. P (g x)) \<Longrightarrow> P (case opt of None \<Rightarrow> a | Some x \<Rightarrow> g x)"
  "(\<And>e. P (h e)) \<Longrightarrow> (\<And>x. P (g x)) \<Longrightarrow> P (case res of Inl e \<Rightarrow> h e | Inr x \<Rightarrow> g x)"
  by (simp_all split: option.split sum.split)

lemma update_settles:
  assumes "iquiet w w1" "wh_PaperAccountID wh \<noteq> None" "routePaperIngest (rq_Body rq) = RoutedPrice raw"
  shows "price_update env rq wh w (ingestPaperPriceUpdate env ip wh raw w1)"
  unfolding ingestPaperPriceUpdate_def Let_def
  by (intro branches [where P = "price_update env rq wh w"] refuse_update_settles [OF assms] update_accepted_settles [OF assms])
    simp_all

subsection \<open>Every request is answered\<close>

context ingest_contract
begin

lemma paper_settles:
  assumes "dquiet w w1" "wh_PaperAccountID wh \<noteq> None" "webhook_gates env wh = None"
  shows "R env wh (reject_lot wh (refused_signal env rq wh)) w (ingestPaperSignal env rq wh w1) \<or> price_update env rq wh w (ingestPaperSignal env rq wh w1)"
proof (cases "routePaperIngest (rq_Body rq)")
  case (RoutedOrder sig)
  then show ?thesis using order_settles [OF assms(1)] reject_kinds(2) [OF dquiet_iquiet [OF assms(1)]] by (simp add: ingestPaperSignal_def refused_signal_def assms(2,3))
next
  case (RoutedPrice raw)
  then show ?thesis using update_settles [OF dquiet_iquiet [OF assms(1)] assms(2), of rq raw] reject_kinds(2) [OF dquiet_iquiet [OF assms(1)]] by (simp add: ingestPaperSignal_def refused_signal_def assms(2,3))
next
  case (Unrouted sig err)
  then show ?thesis using reject_kinds(1,2) [OF dquiet_iquiet [OF assms(1)]] by (cases sig) (simp_all add: ingestPaperSignal_def refused_signal_def assms(2,3))
qed

lemma gates_settle:
  assumes "webhook_gates env wh = Some (status, code, msg)"
  shows "code \<noteq> [] \<and> status \<notin> {200, 202}"
  using assms unfolding webhook_gates_def
  by (auto split: sum.splits option.splits if_splits compliance_err.splits)

lemma request_settles:
  assumes "rq_Token rq \<noteq> []" "fst (find_webhook env (rq_Token rq) w) = Inr (Some wh)"
  shows "R env wh (reject_lot wh (refused_signal env rq wh)) w (IngestSignal env rq w) \<or> price_update env rq wh w (IngestSignal env rq w)"
proof -
  obtain w1 where f: "find_webhook env (rq_Token rq) w = (Inr (Some wh), w1)"
    using assms(2) by (cases "find_webhook env (rq_Token rq) w") simp
  have q: "dquiet w w1" using find_webhook_quiet [of w env "rq_Token rq"] by (simp add: f)
  show ?thesis
  proof (cases "webhook_gates env wh")
    case (Some g)
    then show ?thesis using gates_settle [of env wh] reject_kinds(3) [OF dquiet_iquiet [OF q]] assms(1)
      by (cases g) (simp add: IngestSignal_def f)
  next
    case None
    show ?thesis
    proof (cases "wh_PaperAccountID wh = None")
      case True
      then show ?thesis using None reject_kinds(2) [OF dquiet_iquiet [OF q]] order_settles [OF q] assms(1)
        by (simp add: IngestSignal_def f refused_signal_def split: option.split)
    next
      case False
      then show ?thesis using None paper_settles [OF q False None] assms(1) by (simp add: IngestSignal_def f)
    qed
  qed
qed

end

definition answered :: "ienv \<Rightarrow> webhook \<Rightarrow> f64 \<Rightarrow> iworld \<Rightarrow> reply \<times> iworld \<Rightarrow> bool" where
  "answered env wh lot w out = (sound_ingest env wh w \<longrightarrow> job_accepted env wh w out \<or> refused env wh lot w out)"

definition queued_if_accepted :: "ienv \<Rightarrow> webhook \<Rightarrow> f64 \<Rightarrow> iworld \<Rightarrow> reply \<times> iworld \<Rightarrow> bool" where
  "queued_if_accepted env wh lot w out =
     (iw_jobs (snd out) = iw_jobs w \<and> rp_Status (fst out) \<noteq> 202 \<or> job_accepted env wh w out)"

interpretation answers: ingest_contract answered
  by unfold_locales (auto simp: answered_def intro: gateway_refuses)

lemma insertGateway_jobs: "iw_jobs (insertGatewayRejectedTrade env wh sig code msg w) = iw_jobs w"
  by (simp add: insertGatewayRejectedTrade_def Let_def split: option.split)

interpretation queueing: ingest_contract queued_if_accepted
  by unfold_locales (auto simp: queued_if_accepted_def insertGateway_jobs LogIngest_frame iquiet_def)

lemma gates_open:
  assumes "webhook_gates env wh = None"
  shows "wh_Status wh = ''active'' \<and> (\<exists>user. qe_GetUserByID (ie_q env) (wh_UserID wh) = Inr (Some user) \<and>
      u_Status user \<noteq> StatusSuspended) \<and>
    (wh_OrgID wh = None \<longrightarrow> ie_GetActiveOrgMembershipByUser env (wh_UserID wh) = Inr None)"
proof -
  have s: "wh_Status wh = ''active''" and a: "AssertWebhookMayTrade env wh = Inr None"
    and m: "wh_OrgID wh = None \<longrightarrow> ie_GetActiveOrgMembershipByUser env (wh_UserID wh) = Inr None"
    using assms unfolding webhook_gates_def by (auto split: sum.splits option.splits if_splits compliance_err.splits)
  obtain user org where "qe_GetUserByID (ie_q env) (wh_UserID wh) = Inr user" "WebhookMayTrade user org = None"
    using a unfolding AssertWebhookMayTrade_def ebind_Inr_iff by auto
  then show ?thesis using s m WebhookMayTrade_None_iff by auto
qed

lemma closed_gates_enqueue_nothing:
  assumes "rq_Token rq \<noteq> []" "fst (find_webhook env (rq_Token rq) w) = Inr (Some wh)" "webhook_gates env wh = Some g"
  shows "iw_jobs (snd (IngestSignal env rq w)) = iw_jobs w"
proof -
  obtain w1 where f: "find_webhook env (rq_Token rq) w = (Inr (Some wh), w1)"
    using assms(2) by (cases "find_webhook env (rq_Token rq) w") simp
  have "iw_jobs w1 = iw_jobs w" using find_webhook_quiet [of w env "rq_Token rq"] by (simp add: f dquiet_def iquiet_def)
  then show ?thesis using assms(1,3)
    by (cases g) (simp add: IngestSignal_def f rejectIngestWebhook_def rejectIngestWithTrade_def insertGateway_jobs LogIngest_frame)
qed

text \<open>
  C14. The queue is only reached through the gates, whatever fails: a request leaves the queue as it is, or
  it has the token of an active webhook whose owner is found and not suspended, and exactly one job is added,
  with a signal that passes the guard of the webhook, its own key and the id of the request, while there was
  room, and the answer is 202.
\<close>

theorem queue_behind_gates:
  "iw_jobs (snd (IngestSignal env rq w)) = iw_jobs w \<or>
   (\<exists>wh user. fst (find_webhook env (rq_Token rq) w) = Inr (Some wh) \<and> wh_Status wh = ''active'' \<and>
      qe_GetUserByID (ie_q env) (wh_UserID wh) = Inr (Some user) \<and> u_Status user \<noteq> StatusSuspended \<and>
      job_accepted env wh w (IngestSignal env rq w))"
proof (cases "rq_Token rq = []")
  case True
  then show ?thesis by (simp add: IngestSignal_def)
next
  case tok: False
  show ?thesis
  proof (cases "fst (find_webhook env (rq_Token rq) w)")
    case (Inl e)
    then show ?thesis using tok find_webhook_quiet [of w env "rq_Token rq"]
      by (cases "find_webhook env (rq_Token rq) w") (simp add: IngestSignal_def dquiet_def iquiet_def)
  next
    case (Inr r)
    show ?thesis
    proof (cases r)
      case None
      then show ?thesis using tok Inr find_webhook_quiet [of w env "rq_Token rq"]
        by (cases "find_webhook env (rq_Token rq) w") (simp add: IngestSignal_def dquiet_def iquiet_def)
    next
      case (Some wh)
      note f = Inr [unfolded Some]
      have out: "queued_if_accepted env wh (reject_lot wh (refused_signal env rq wh)) w (IngestSignal env rq w) \<or> price_update env rq wh w (IngestSignal env rq w)"
        by (rule queueing.request_settles [OF tok f])
      show ?thesis
      proof (cases "webhook_gates env wh")
        case None
        then show ?thesis using out gates_open [OF None] f by (auto simp: queued_if_accepted_def price_update_def)
      next
        case (Some g)
        then show ?thesis using closed_gates_enqueue_nothing [OF tok f Some] by simp
      qed
    qed
  qed
qed

text \<open>
  C15. No silent rejection. The data base answers and the id of the request is new. Then every request with the token of a webhook is
  accepted as a job, or refused, with a log entry and nothing the runners work on changed, and with exactly one rejected trade of
  its own that has the error the caller sees and a code; only a price update of a paper webhook, which is no order, leaves no trade.
  The one exception is a refused signal whose lot is too large for the column of the trades (a million, in the schema): it is logged,
  and leaves no trade.
\<close>

theorem no_silent_rejection:
  assumes "rq_Token rq \<noteq> []" "fst (find_webhook env (rq_Token rq) w) = Inr (Some wh)" "sound_ingest env wh w"
  shows "job_accepted env wh w (IngestSignal env rq w) \<or>
    refused env wh (reject_lot wh (refused_signal env rq wh)) w (IngestSignal env rq w) \<or>
    price_update env rq wh w (IngestSignal env rq w)"
  using answers.request_settles [OF assms(1,2)] assms(3) by (simp add: answered_def)

subsection \<open>A signal is accepted once in its window\<close>

lemma reply_202:
  assumes "rp_Status (fst (IngestSignal env rq w)) = 202"
  shows "\<exists>wh. fst (find_webhook env (rq_Token rq) w) = Inr (Some wh) \<and> job_accepted env wh w (IngestSignal env rq w)"
proof -
  have tok: "rq_Token rq \<noteq> []" using assms by (auto simp: IngestSignal_def Fail_def)
  obtain r w1 where r: "find_webhook env (rq_Token rq) w = (r, w1)" by (cases "find_webhook env (rq_Token rq) w")
  then obtain wh where f: "fst (find_webhook env (rq_Token rq) w) = Inr (Some wh)"
    using assms tok by (auto simp: IngestSignal_def Fail_def split: sum.splits option.splits)
  have "job_accepted env wh w (IngestSignal env rq w)" using queueing.request_settles [OF tok f] assms
    by (auto simp: queued_if_accepted_def price_update_def split: prod.splits)
  with f show ?thesis by blast
qed

lemma claim_updates:
  assumes "fst (claim env wh k w)" "ie_redis_up env ''TryClaimSignalDedup''" "0 < wh_DedupWindowSec wh" "wh_ID wh \<noteq> []" "k \<noteq> []"
  shows "iredis (snd (claim env wh k w)) = (iredis w)(dedupKeyPrefix @ wh_ID wh @ '':'' @ k :=
    Some (Flag, Some (qe_now (ie_q env) + wh_DedupWindowSec wh * 1000)))"
  using assms by (auto simp: claim_def Window_def WindowSec_def TryClaimSignalDedup_def rsetnx_def rset_def Let_def split_def
      split: option.splits if_splits)

lemma claim_refused:
  assumes "iredis w (dedupKeyPrefix @ wh_ID wh @ '':'' @ k) = Some (Flag, Some e)" "qe_now (ie_q env) < e"
    "ie_redis_up env ''TryClaimSignalDedup''" "0 < wh_DedupWindowSec wh" "wh_ID wh \<noteq> []" "k \<noteq> []"
  shows "\<not> fst (claim env wh k w)"
  using assms by (simp add: claim_def Window_def WindowSec_def TryClaimSignalDedup_def rsetnx_def rget_def live_at_def
      Let_def split_def)

text \<open>
  A signal is accepted once in its window: two requests of one webhook that are both answered with 202, the
  second before the window of the first is over, put jobs with different keys into the queue, when the claims in
  Redis are as the first one left them.
\<close>

theorem accepted_keys_differ:
  assumes "rp_Status (fst (IngestSignal env rq w)) = 202" "rp_Status (fst (IngestSignal env' rq' w')) = 202"
    and "j = last (iw_jobs (snd (IngestSignal env rq w)))" "j' = last (iw_jobs (snd (IngestSignal env' rq' w')))"
    and "\<forall>k. iredis w' (dedupKeyPrefix @ k) = iredis (snd (IngestSignal env rq w)) (dedupKeyPrefix @ k)"
    and "wh_ID (jb_Webhook j) \<noteq> []" "jb_SignalKey j \<noteq> []" "wh_ID (jb_Webhook j') = wh_ID (jb_Webhook j)"
    and "0 < wh_DedupWindowSec (jb_Webhook j)" "0 < wh_DedupWindowSec (jb_Webhook j')"
    and "ie_redis_up env ''TryClaimSignalDedup''" "ie_redis_up env' ''TryClaimSignalDedup''"
    and "qe_now (ie_q env') < qe_now (ie_q env) + wh_DedupWindowSec (jb_Webhook j) * 1000"
  shows "jb_SignalKey j' \<noteq> jb_SignalKey j"
proof
  assume same: "jb_SignalKey j' = jb_SignalKey j"
  let ?k = "dedupKeyPrefix @ wh_ID (jb_Webhook j) @ '':'' @ jb_SignalKey j"
  obtain wh where "job_accepted env wh w (IngestSignal env rq w)" using reply_202 [OF assms(1)] by blast
  then obtain w1 where w1: "fst (claim env (jb_Webhook j) (jb_SignalKey j) w1)"
    "iredis (snd (IngestSignal env rq w)) = iredis (snd (claim env (jb_Webhook j) (jb_SignalKey j) w1))"
    unfolding assms(3) by (auto simp: job_accepted_def split: prod.splits)
  have e: "iredis w' ?k = Some (Flag, Some (qe_now (ie_q env) + wh_DedupWindowSec (jb_Webhook j) * 1000))"
    using claim_updates [OF w1(1) assms(11,9,6,7)] assms(5) w1(2) by simp
  obtain wh' where "job_accepted env' wh' w' (IngestSignal env' rq' w')" using reply_202 [OF assms(2)] by blast
  then obtain w2 where w2: "dquiet w' w2" "fst (claim env' (jb_Webhook j') (jb_SignalKey j') w2)"
    unfolding assms(4) by (auto simp: job_accepted_def split: prod.splits)
  have "iredis w2 ?k = iredis w' ?k" using w2(1) by (simp add: dquiet_def)
  then have "\<not> fst (claim env' (jb_Webhook j') (jb_SignalKey j') w2)"
    using claim_refused [OF _ assms(13,12,10)] e assms(6-8) same by simp
  then show False using w2(2) by simp
qed


subsection \<open>A sample request\<close>

definition sample_quiet_runner :: "'w qstate runner" where
  "sample_quiet_runner req s = (Inr (zero_result\<lparr>xr_OrderID := ''b'', xr_Status := ''filled''\<rparr>), s)"

definition sample_ienv :: "string \<Rightarrow> int \<Rightarrow> ienv" where
  "sample_ienv rid now = \<lparr> ie_q = sample_qenv sample_quiet_runner now, ie_hash = (\<lambda>t. t),
     ie_GetWebhookByToken = (\<lambda>h. Inr (if h = ''tok'' then Some sample_webhook else None)),
     ie_GetActiveOrgMembershipByUser = (\<lambda>_. Inr None), ie_GetOrgByID = (\<lambda>_. Inr None),
     ie_redis_up = (\<lambda>call. call = ''TryClaimSignalDedup''), ie_log_ok = True, ie_position_ok = True, ie_mark_ok = True,
     ie_requestID = rid, ie_buffer = 10, ie_nc = sample_nc \<rparr>"

definition sample_iworld :: iworld where
  "sample_iworld = \<lparr> iw_q = sample_qworld \<lparr> db_accounts = [], db_orders = [], db_positions = [], db_trades = [],
     db_snapshots = [], db_profiles = [], db_instruments = [], db_hooks = [] \<rparr>, iw_jobs = [], iw_log = [] \<rparr>"

definition sample_body :: "string \<Rightarrow> request" where
  "sample_body action = \<lparr> rq_Token = ''tok'', rq_IP = ''ip'', rq_BodyLen = 10, rq_Body = None,
     rq_BodyParser = Some ((sample_signal 0)\<lparr>sg_Action := action\<rparr>) \<rparr>"

lemma sample_ienv_simps [simp]:
  "ie_redis_up (sample_ienv rid now) ''TryClaimSignalDedup''" "qe_now (ie_q (sample_ienv rid now)) = now"
  "ie_requestID (sample_ienv rid now) = rid"
  by (simp_all add: sample_ienv_def sample_qenv_def)

lemma sample_accepted: "rp_Status (fst (IngestSignal (sample_ienv ''r1'' 0) (sample_body ''buy'') sample_iworld)) = 202"
  by code_simp

lemma sample_found: "fst (find_webhook (sample_ienv ''r1'' 0) ''tok'' sample_iworld) = Inr (Some sample_webhook)"
  by code_simp

theorem no_silent_rejection_witness:
  "refused (sample_ienv ''r1'' 0) sample_webhook 1 sample_iworld (IngestSignal (sample_ienv ''r1'' 0) (sample_body ''HOLD'') sample_iworld)"
proof -
  let ?out = "IngestSignal (sample_ienv ''r1'' 0) (sample_body ''HOLD'') sample_iworld"
  have s: "sound_ingest (sample_ienv ''r1'' 0) sample_webhook sample_iworld"
    by (simp add: sound_ingest_def sample_ienv_def sample_qenv_def sample_iworld_def sample_qworld_def sample_webhook_def trade_ids_def)
  have "rp_Status (fst ?out) = 400" by code_simp
  then have "\<not> job_accepted (sample_ienv ''r1'' 0) sample_webhook sample_iworld ?out" by (auto simp: job_accepted_def split: prod.splits)
  moreover have "\<not> price_update (sample_ienv ''r1'' 0) (sample_body ''HOLD'') sample_webhook sample_iworld ?out"
    by (auto simp: price_update_def sample_webhook_def split: prod.splits)
  moreover have "reject_lot sample_webhook (refused_signal (sample_ienv ''r1'' 0) (sample_body ''HOLD'') sample_webhook) = 1" by code_simp
  ultimately show ?thesis
    using no_silent_rejection [of "sample_body ''HOLD''" "sample_ienv ''r1'' 0" sample_iworld sample_webhook] sample_found s
    by (simp add: sample_body_def)
qed

text \<open>The claims after the first request, and the world of the second, an instant before the window is over.\<close>

definition sample_claims :: redis where
  "sample_claims = empty_redis(''dedup:wh:w:w|BUYINFY'' := Some (Flag, Some 60000))"

lemma sample_first:
  "(rp_Status (fst (IngestSignal (sample_ienv ''r1'' 0) (sample_body ''BUY'') sample_iworld)),
    map (\<lambda>j. (wh_ID (jb_Webhook j), wh_DedupWindowSec (jb_Webhook j), jb_SignalKey j))
      (iw_jobs (snd (IngestSignal (sample_ienv ''r1'' 0) (sample_body ''BUY'') sample_iworld)))) =
   (202, [(''w'', 60, ''w|BUYINFY'')])"
  by code_simp

lemma sample_second:
  "(rp_Status (fst (IngestSignal (sample_ienv ''r2'' 59999) (sample_body ''SELL'') (set_redis sample_claims sample_iworld))),
    map (\<lambda>j. (wh_ID (jb_Webhook j), wh_DedupWindowSec (jb_Webhook j)))
      (iw_jobs (snd (IngestSignal (sample_ienv ''r2'' 59999) (sample_body ''SELL'') (set_redis sample_claims sample_iworld))))) =
   (202, [(''w'', 60)])"
  by code_simp

lemma sample_claims_left:
  "iredis (snd (IngestSignal (sample_ienv ''r1'' 0) (sample_body ''BUY'') sample_iworld)) (dedupKeyPrefix @ k) =
     sample_claims (dedupKeyPrefix @ k)"
proof -
  let ?e = "sample_ienv ''r1'' 0" and ?out = "IngestSignal (sample_ienv ''r1'' 0) (sample_body ''BUY'') sample_iworld"
  obtain j where j: "iw_jobs (snd ?out) = [j]" "wh_ID (jb_Webhook j) = ''w''" "wh_DedupWindowSec (jb_Webhook j) = 60"
    "jb_SignalKey j = ''w|BUYINFY''"
    using sample_first by (auto simp: map_eq_Cons_conv)
  obtain wh where "job_accepted ?e wh sample_iworld ?out" using reply_202 [of ?e "sample_body ''BUY''" sample_iworld] sample_first by auto
  then obtain w1 where w1: "dquiet sample_iworld w1" "fst (claim ?e (jb_Webhook j) (jb_SignalKey j) w1)"
    "iredis (snd ?out) = iredis (snd (claim ?e (jb_Webhook j) (jb_SignalKey j) w1))"
    using j(1) by (auto simp: job_accepted_def split: prod.splits)
  have "iredis (snd ?out) = (iredis w1)(''dedup:wh:w:w|BUYINFY'' := Some (Flag, Some 60000))"
    using claim_updates [OF w1(2)] j unfolding w1(3) by (simp add: sample_ienv_def sample_qenv_def dedupKeyPrefix_def)
  moreover have "iredis w1 (dedupKeyPrefix @ k) = empty_redis (dedupKeyPrefix @ k)"
    using w1(1) by (simp add: dquiet_def iredis_def sample_iworld_def sample_qworld_def)
  ultimately show ?thesis by (simp add: sample_claims_def)
qed

theorem accepted_keys_differ_witness:
  "jb_SignalKey (last (iw_jobs (snd (IngestSignal (sample_ienv ''r2'' 59999) (sample_body ''SELL'')
     (set_redis sample_claims sample_iworld))))) \<noteq> ''w|BUYINFY''"
proof -
  let ?out = "IngestSignal (sample_ienv ''r1'' 0) (sample_body ''BUY'') sample_iworld"
  let ?out' = "IngestSignal (sample_ienv ''r2'' 59999) (sample_body ''SELL'') (set_redis sample_claims sample_iworld)"
  obtain j where j: "iw_jobs (snd ?out) = [j]" using sample_first by (auto simp: map_eq_Cons_conv)
  obtain j' where j': "iw_jobs (snd ?out') = [j']" using sample_second by (auto simp: map_eq_Cons_conv)
  have "jb_SignalKey j' \<noteq> jb_SignalKey j"
    by (rule accepted_keys_differ [of "sample_ienv ''r1'' 0" "sample_body ''BUY''" sample_iworld "sample_ienv ''r2'' 59999"
          "sample_body ''SELL''" "set_redis sample_claims sample_iworld"])
      (use sample_first sample_second j j' in \<open>simp_all add: sample_claims_left\<close>)
  then show ?thesis using sample_first j j' by simp
qed


end
