(* ===== verification/Accounts.thy ===== *)
theory Accounts
  imports TradeDb Plan "HOL-Library.AList" 
begin

section \<open>The tables of users, webhooks and credentials\<close>

text \<open>
  Models the statements of \<^verbatim>\<open>internal/store/users.go\<close>, \<^verbatim>\<open>billing.go\<close>, \<^verbatim>\<open>platform_settings.go\<close>,
  \<^verbatim>\<open>org_resources.go\<close>, \<^verbatim>\<open>webhook_scan.go\<close> and those of \<^verbatim>\<open>postgres.go\<close> on webhooks and credentials, over
  the tables of the migrations. As in \<open>TradeDb\<close>, a table is the list of its rows, a statement that fails
  changes nothing, and what a NUMERIC column holds of a double is a parameter. Failures of the
  connection are modelled by the callers. A column that may be NULL and that the program reads as an
  empty string is the empty string here. Of a paper account only its id and its user's matter.
\<close>

record account_cols =
  ac_lot :: "f64 \<Rightarrow> f64 option"
  ac_pct :: "f64 \<Rightarrow> f64 option"

record account_db =
  ad_users :: "user list"
  ad_webhooks :: "webhook list"
  ad_creds :: "broker_credential list"
  ad_events :: "(string \<times> string) list"
  ad_settings :: "(string \<times> string \<times> string) list"
  ad_papers :: "(string \<times> string) list"
  ad_orgs :: "organization list"

definition BillingSourceFree :: string where "BillingSourceFree = ''free''"
definition BillingSourceStripe :: string where "BillingSourceStripe = ''stripe''"
definition BillingSourceAdmin :: string where "BillingSourceAdmin = ''admin''"

lemmas billing_source_defs = BillingSourceFree_def BillingSourceStripe_def BillingSourceAdmin_def

text \<open>An INTEGER column.\<close>

definition int4 :: "int \<Rightarrow> bool" where
  "int4 x = (- 2147483648 \<le> x \<and> x \<le> 2147483647)"

definition user_ids :: "account_db \<Rightarrow> string list" where
  "user_ids db = map u_ID (ad_users db)"

definition cred_ids :: "account_db \<Rightarrow> string list" where
  "cred_ids db = map bc_ID (ad_creds db)"

text \<open>An UPDATE of the rows that match, whose new rows must satisfy the table's CHECK constraints.\<close>

definition update_rows :: "('r \<Rightarrow> bool) \<Rightarrow> ('r \<Rightarrow> bool) \<Rightarrow> ('r \<Rightarrow> 'r) \<Rightarrow> 'r list \<Rightarrow> store_err + 'r list" where
  "update_rows C P f rows =
     (if \<not> list_all (\<lambda>r. P r \<longrightarrow> C (f r)) rows then Inl ErrCheckViolation else Inr (update_where P f rows))"

text \<open>The same where no row at all is an error (\<^verbatim>\<open>sql.ErrNoRows\<close>).\<close>

definition update_some :: "('r \<Rightarrow> bool) \<Rightarrow> ('r \<Rightarrow> bool) \<Rightarrow> ('r \<Rightarrow> 'r) \<Rightarrow> 'r list \<Rightarrow> store_err + 'r list" where
  "update_some C P f rows = (if \<not> list_ex P rows then Inl ErrNoRows else update_rows C P f rows)"

subsection \<open>Users\<close>

definition user_check :: "user \<Rightarrow> bool" where
  "user_check u =
     (IsValidPlan (u_Plan u) \<and> (u_Role u = RoleUser \<or> u_Role u = RoleAdmin) \<and> IsValidStatus (u_Status u) \<and>
      (u_BillingSource u = BillingSourceFree \<or> u_BillingSource u = BillingSourceStripe \<or>
       u_BillingSource u = BillingSourceAdmin) \<and> 0 \<le> u_LiveOrdersUsed u)"

definition with_users :: "store_err + user list \<Rightarrow> account_db \<Rightarrow> store_err + account_db" where
  "with_users r db = ebind r (\<lambda>us. Inr (db\<lparr>ad_users := us\<rparr>))"

text \<open>The columns that the INSERT does not name have their defaults.\<close>

definition CreateUser :: "user \<Rightarrow> account_db \<Rightarrow> store_err + account_db" where
  "CreateUser u db =
     (let r = u\<lparr>u_StripeCustomerID := [], u_StripeSubscriptionID := [], u_BillingSource := BillingSourceFree,
                u_TelegramChatID := []\<rparr> in
      ebind (require (int4 (u_LiveOrdersUsed r)) ErrNumericRange ()) (\<lambda>_.
      ebind (require (user_check r) ErrCheckViolation ()) (\<lambda>_.
      ebind (require (u_ID r \<notin> set (user_ids db) \<and> u_Email r \<notin> set (map u_Email (ad_users db))) ErrUniqueViolation ()) (\<lambda>_.
        Inr (db\<lparr>ad_users := ad_users db @ [r]\<rparr>)))))"

definition GetUserByEmail :: "account_db \<Rightarrow> string \<Rightarrow> user option" where
  "GetUserByEmail db email = find (\<lambda>u. u_Email u = email) (ad_users db)"

definition GetUserByID :: "account_db \<Rightarrow> string \<Rightarrow> user option" where
  "GetUserByID db uid = find (\<lambda>u. u_ID u = uid) (ad_users db)"

definition GetUserByStripeCustomerID :: "account_db \<Rightarrow> string \<Rightarrow> user option" where
  "GetUserByStripeCustomerID db customerID =
     (if customerID = [] then None else find (\<lambda>u. u_StripeCustomerID u = customerID) (ad_users db))"

definition UpdateUserTelegramChatID :: "string \<Rightarrow> string \<Rightarrow> account_db \<Rightarrow> account_db" where
  "UpdateUserTelegramChatID uid chatID db =
     db\<lparr>ad_users := update_where (\<lambda>u. u_ID u = uid) (u_TelegramChatID_update (\<lambda>_. chatID)) (ad_users db)\<rparr>"

definition PromoteBootstrapAdmin :: "string \<Rightarrow> account_db \<Rightarrow> account_db" where
  "PromoteBootstrapAdmin email db =
     (if email = [] then db
      else db\<lparr>ad_users := update_where (\<lambda>u. u_Email u = email \<and> u_Role u \<noteq> ''admin'')
                            (u_Role_update (\<lambda>_. ''admin'')) (ad_users db)\<rparr>)"

definition CreateOrPromoteBootstrapAdmin ::
  "string \<Rightarrow> int \<Rightarrow> string \<Rightarrow> string \<Rightarrow> account_db \<Rightarrow> store_err + account_db" where
  "CreateOrPromoteBootstrapAdmin newID now email passwordHash db =
     (if email = [] \<or> passwordHash = [] then Inr db
      else if email \<in> set (map u_Email (ad_users db))
      then Inr (db\<lparr>ad_users := update_where (\<lambda>u. u_Email u = email) (u_Role_update (\<lambda>_. ''admin'')) (ad_users db)\<rparr>)
      else CreateUser \<lparr> u_ID = newID, u_Email = email, u_PasswordHash = passwordHash, u_Plan = ''free'',
             u_Role = ''admin'', u_Status = ''active'', u_OrgsEnabled = False, u_EarlyBirdLive = False,
             u_LiveOrdersUsed = 0, u_EmailVerifiedAt = Some now, u_StripeCustomerID = [],
             u_StripeSubscriptionID = [], u_BillingSource = [], u_TelegramChatID = [], u_CreatedAt = now \<rparr> db)"

definition update_user :: "string \<Rightarrow> (user \<Rightarrow> user) \<Rightarrow> account_db \<Rightarrow> store_err + account_db" where
  "update_user uid f db = with_users (update_some user_check (\<lambda>u. u_ID u = uid) f (ad_users db)) db"

definition UpdateUserStatus :: "string \<Rightarrow> string \<Rightarrow> account_db \<Rightarrow> store_err + account_db" where
  "UpdateUserStatus uid status = update_user uid (u_Status_update (\<lambda>_. status))"

definition UpdateUserOrgsEnabled :: "string \<Rightarrow> bool \<Rightarrow> account_db \<Rightarrow> store_err + account_db" where
  "UpdateUserOrgsEnabled uid enabled = update_user uid (u_OrgsEnabled_update (\<lambda>_. enabled))"

definition UpdateUserPlan :: "string \<Rightarrow> string \<Rightarrow> account_db \<Rightarrow> store_err + account_db" where
  "UpdateUserPlan uid planName = update_user uid (u_Plan_update (\<lambda>_. planName))"

definition UpdateUserEarlyBirdLive :: "string \<Rightarrow> bool \<Rightarrow> account_db \<Rightarrow> store_err + account_db" where
  "UpdateUserEarlyBirdLive uid enabled = update_user uid (u_EarlyBirdLive_update (\<lambda>_. enabled))"

definition IncrementUserLiveOrdersUsed :: "string \<Rightarrow> account_db \<Rightarrow> store_err + account_db" where
  "IncrementUserLiveOrdersUsed uid db =
     ebind (require (\<forall>u \<in> set (ad_users db). u_ID u = uid \<longrightarrow> int4 (u_LiveOrdersUsed u + 1)) ErrNumericRange ())
       (\<lambda>_. update_user uid (u_LiveOrdersUsed_update (\<lambda>n. n + 1)) db)"

definition UpdateUserBillingSource :: "string \<Rightarrow> string \<Rightarrow> account_db \<Rightarrow> store_err + account_db" where
  "UpdateUserBillingSource uid source = update_user uid (u_BillingSource_update (\<lambda>_. source))"

text \<open>A customer id belongs to one user at most.\<close>

definition customer_free :: "string \<Rightarrow> string \<Rightarrow> account_db \<Rightarrow> bool" where
  "customer_free uid customerID db =
     (customerID = [] \<or> list_all (\<lambda>u. u_ID u \<noteq> uid \<longrightarrow> u_StripeCustomerID u \<noteq> customerID) (ad_users db))"

definition SetUserStripeIDs :: "string \<Rightarrow> string \<Rightarrow> string \<Rightarrow> account_db \<Rightarrow> store_err + account_db" where
  "SetUserStripeIDs uid customerID subscriptionID db =
     (if uid \<in> set (user_ids db) \<and> \<not> customer_free uid customerID db then Inl ErrUniqueViolation
      else update_user uid (\<lambda>u. u\<lparr>u_StripeCustomerID := customerID, u_StripeSubscriptionID := subscriptionID\<rparr>) db)"

definition SetUserStripeCustomerID :: "string \<Rightarrow> string \<Rightarrow> account_db \<Rightarrow> store_err + account_db" where
  "SetUserStripeCustomerID uid customerID db =
     (if uid \<in> set (user_ids db) \<and> \<not> customer_free uid customerID db then Inl ErrUniqueViolation
      else update_user uid (u_StripeCustomerID_update (\<lambda>_. customerID)) db)"

definition ClearUserStripeSubscription :: "string \<Rightarrow> account_db \<Rightarrow> store_err + account_db" where
  "ClearUserStripeSubscription uid = update_user uid (u_StripeSubscriptionID_update (\<lambda>_. []))"

text \<open>Stripe events that were processed, and the settings of the platform.\<close>

definition StripeWebhookEventExists :: "account_db \<Rightarrow> string \<Rightarrow> bool" where
  "StripeWebhookEventExists db eventID = list_ex (\<lambda>e. fst e = eventID) (ad_events db)"

definition RecordStripeWebhookEvent :: "string \<Rightarrow> string \<Rightarrow> account_db \<Rightarrow> bool \<times> account_db" where
  "RecordStripeWebhookEvent eventID eventType db =
     (if StripeWebhookEventExists db eventID then (False, db)
      else (True, db\<lparr>ad_events := ad_events db @ [(eventID, eventType)]\<rparr>))"

definition GetPlatformSetting :: "account_db \<Rightarrow> string \<Rightarrow> string option" where
  "GetPlatformSetting db key = map_option fst (map_of (ad_settings db) key)"

definition SetPlatformSetting :: "string \<Rightarrow> string \<Rightarrow> string \<Rightarrow> account_db \<Rightarrow> store_err + account_db" where
  "SetPlatformSetting key value updatedBy db =
     (if updatedBy \<notin> set (user_ids db) then Inl ErrForeignKey
      else Inr (db\<lparr>ad_settings := AList.update key (value, updatedBy) (ad_settings db)\<rparr>))"

subsection \<open>Webhooks\<close>

definition one_destination :: "webhook \<Rightarrow> bool" where
  "one_destination wh = ((wh_BrokerCredID wh \<noteq> None) \<noteq> (wh_PaperAccountID wh \<noteq> None))"

text \<open>\<^verbatim>\<open>marshalTradingHours\<close> and its inverse: no schedule and an empty one are the same column.\<close>

definition trading_hours_column :: "trading_schedule option \<Rightarrow> trading_schedule option" where
  "trading_hours_column th = (if th = Some [] then None else th)"

text \<open>A webhook as its row holds it: numbers as their columns, no raw token.\<close>

definition encode_webhook :: "account_cols \<Rightarrow> webhook \<Rightarrow> store_err + webhook" where
  "encode_webhook ac wh =
     ebind (col (ac_lot ac) (wh_LotSize wh)) (\<lambda>lot.
     ebind (col (ac_pct ac) (wh_MaxRiskPct wh)) (\<lambda>risk.
     ebind (col (ac_lot ac) (wh_MaxLotSize wh)) (\<lambda>maxlot.
     ebind (require (list_all int4 [wh_SLPoints wh, wh_TPPoints wh, wh_RateLimitPerSec wh, wh_RateLimitPerMin wh,
              wh_DedupWindowSec wh]) ErrNumericRange ()) (\<lambda>_.
       Inr (wh\<lparr>wh_RawToken := [], wh_LotSize := lot, wh_MaxRiskPct := risk, wh_MaxLotSize := maxlot,
               wh_TradingHours := trading_hours_column (wh_TradingHours wh)\<rparr>)))))"

text \<open>\<^verbatim>\<open>scanWebhook\<close>: no allowed actions read as all of them.\<close>

definition scanWebhook :: "webhook \<Rightarrow> webhook" where
  "scanWebhook wh = wh\<lparr>wh_AllowedActions :=
     (if wh_AllowedActions wh \<noteq> [] then wh_AllowedActions wh else [''BUY'', ''SELL'', ''CLOSE''])\<rparr>"

text \<open>The rows a webhook refers to.\<close>

definition webhook_fk :: "account_db \<Rightarrow> webhook \<Rightarrow> bool" where
  "webhook_fk db wh =
     (wh_UserID wh \<in> set (user_ids db) \<and> wh_CreatedBy wh \<in> set (user_ids db) \<and>
      (case wh_BrokerCredID wh of None \<Rightarrow> True | Some c \<Rightarrow> c \<in> set (cred_ids db)) \<and>
      (case wh_PaperAccountID wh of None \<Rightarrow> True | Some a \<Rightarrow> a \<in> fst ` set (ad_papers db)))"

definition pg_CreateWebhook :: "account_cols \<Rightarrow> webhook \<Rightarrow> account_db \<Rightarrow> store_err + account_db" where
  "pg_CreateWebhook ac wh db =
     ebind (encode_webhook ac wh) (\<lambda>r.
     ebind (require (one_destination r) ErrCheckViolation ()) (\<lambda>_.
     ebind (require (wh_ID r \<notin> set (map wh_ID (ad_webhooks db)) \<and>
              wh_TokenHash r \<notin> set (map wh_TokenHash (ad_webhooks db))) ErrUniqueViolation ()) (\<lambda>_.
     ebind (require (webhook_fk db r) ErrForeignKey ()) (\<lambda>_.
       Inr (db\<lparr>ad_webhooks := ad_webhooks db @ [r\<lparr>wh_AutoPaused := False, wh_AdminDisabled := False\<rparr>]\<rparr>)))))"

definition pg_GetWebhookByID :: "account_db \<Rightarrow> string \<Rightarrow> webhook option" where
  "pg_GetWebhookByID db wid = map_option scanWebhook (find (\<lambda>w. wh_ID w = wid) (ad_webhooks db))"

definition pg_GetWebhookByToken :: "account_db \<Rightarrow> string \<Rightarrow> webhook option" where
  "pg_GetWebhookByToken db token = map_option scanWebhook (find (\<lambda>w. wh_TokenHash w = token) (ad_webhooks db))"

record resource_scope =
  rs_UserID :: string
  rs_OrgID :: string
  rs_OrgRole :: string
  rs_InOrg :: bool

definition in_scope :: "resource_scope \<Rightarrow> string \<Rightarrow> string option \<Rightarrow> bool" where
  "in_scope scope uid oid = (if rs_InOrg scope then oid = Some (rs_OrgID scope) else uid = rs_UserID scope \<and> oid = None)"

definition ListWebhooksForScope :: "account_db \<Rightarrow> resource_scope \<Rightarrow> webhook list" where
  "ListWebhooksForScope db scope =
     map scanWebhook (newest_first wh_CreatedAt (filter (\<lambda>w. in_scope scope (wh_UserID w) (wh_OrgID w)) (ad_webhooks db)))"

definition ListWebhooksByPaperAccount :: "account_db \<Rightarrow> string \<Rightarrow> webhook list" where
  "ListWebhooksByPaperAccount db aid =
     map scanWebhook (sort_key wh_CreatedAt (filter (\<lambda>w. wh_PaperAccountID w = Some aid) (ad_webhooks db)))"

definition update_webhooks :: "(webhook \<Rightarrow> bool) \<Rightarrow> (webhook \<Rightarrow> webhook) \<Rightarrow> account_db \<Rightarrow> account_db" where
  "update_webhooks P f db = db\<lparr>ad_webhooks := update_where P f (ad_webhooks db)\<rparr>"

definition UpdateWebhookStatus :: "string \<Rightarrow> string \<Rightarrow> account_db \<Rightarrow> account_db" where
  "UpdateWebhookStatus wid status = update_webhooks (\<lambda>w. wh_ID w = wid) (wh_Status_update (\<lambda>_. status))"

definition ClearWebhookAutoPaused :: "string \<Rightarrow> account_db \<Rightarrow> account_db" where
  "ClearWebhookAutoPaused wid = update_webhooks (\<lambda>w. wh_ID w = wid) (wh_AutoPaused_update (\<lambda>_. False))"

definition PauseAllWebhooksByUser :: "string \<Rightarrow> account_db \<Rightarrow> account_db" where
  "PauseAllWebhooksByUser uid =
     update_webhooks (\<lambda>w. wh_UserID w = uid \<and> wh_OrgID w = None \<and> wh_BrokerCredID w \<noteq> None)
       (\<lambda>w. w\<lparr>wh_Status := ''paused'', wh_AutoPaused := True\<rparr>)"

definition ClearAutoPausedWebhooksByUser :: "string \<Rightarrow> account_db \<Rightarrow> account_db" where
  "ClearAutoPausedWebhooksByUser uid =
     update_webhooks (\<lambda>w. wh_UserID w = uid \<and> wh_OrgID w = None) (wh_AutoPaused_update (\<lambda>_. False))"

definition pg_RotateWebhookToken :: "string \<Rightarrow> string \<Rightarrow> string \<Rightarrow> account_db \<Rightarrow> store_err + account_db" where
  "pg_RotateWebhookToken wid uid newToken db =
     (if \<not> list_ex (\<lambda>w. wh_ID w = wid \<and> wh_UserID w = uid) (ad_webhooks db) then Inl ErrNoRows
      else if list_ex (\<lambda>w. wh_TokenHash w = newToken \<and> wh_ID w \<noteq> wid) (ad_webhooks db) then Inl ErrUniqueViolation
      else Inr (update_webhooks (\<lambda>w. wh_ID w = wid \<and> wh_UserID w = uid) (wh_TokenHash_update (\<lambda>_. newToken)) db))"

text \<open>The columns that an update of a webhook sets.\<close>

definition set_webhook :: "webhook \<Rightarrow> webhook \<Rightarrow> webhook" where
  "set_webhook wh r = r\<lparr>wh_Label := wh_Label wh, wh_BrokerCredID := wh_BrokerCredID wh,
     wh_PaperAccountID := wh_PaperAccountID wh, wh_Symbol := wh_Symbol wh, wh_LotSize := wh_LotSize wh,
     wh_MaxRiskPct := wh_MaxRiskPct wh, wh_SLPoints := wh_SLPoints wh, wh_TPPoints := wh_TPPoints wh,
     wh_DefaultOrderType := wh_DefaultOrderType wh, wh_AllowedActions := wh_AllowedActions wh,
     wh_AllowedSymbols := wh_AllowedSymbols wh, wh_MaxLotSize := wh_MaxLotSize wh,
     wh_RateLimitPerSec := wh_RateLimitPerSec wh, wh_RateLimitPerMin := wh_RateLimitPerMin wh,
     wh_DedupWindowSec := wh_DedupWindowSec wh, wh_Timezone := wh_Timezone wh,
     wh_TradingHours := wh_TradingHours wh, wh_RequiredComment := wh_RequiredComment wh\<rparr>"

definition pg_UpdateWebhook :: "account_cols \<Rightarrow> webhook \<Rightarrow> account_db \<Rightarrow> store_err + account_db" where
  "pg_UpdateWebhook ac wh db =
     ebind (encode_webhook ac wh) (\<lambda>r.
     ebind (update_some (\<lambda>w. one_destination w) (\<lambda>w. wh_ID w = wh_ID wh \<and> wh_UserID w = wh_UserID wh)
              (set_webhook r) (ad_webhooks db)) (\<lambda>ws.
     ebind (require (list_all (webhook_fk db) ws) ErrForeignKey ()) (\<lambda>_. Inr (db\<lparr>ad_webhooks := ws\<rparr>))))"

definition pg_DeleteWebhook :: "string \<Rightarrow> account_db \<Rightarrow> store_err + account_db" where
  "pg_DeleteWebhook wid db =
     (if \<not> list_ex (\<lambda>w. wh_ID w = wid) (ad_webhooks db) then Inl ErrNoRows
      else Inr (db\<lparr>ad_webhooks := filter (\<lambda>w. wh_ID w \<noteq> wid) (ad_webhooks db)\<rparr>))"

definition count_webhooks :: "(webhook \<Rightarrow> bool) \<Rightarrow> account_db \<Rightarrow> int" where
  "count_webhooks P db = sql_count P (ad_webhooks db)"

definition solo :: "string \<Rightarrow> webhook \<Rightarrow> bool" where
  "solo uid w = (wh_UserID w = uid \<and> wh_OrgID w = None)"

definition CountSoloWebhooksByUser :: "account_db \<Rightarrow> string \<Rightarrow> int" where
  "CountSoloWebhooksByUser db uid = count_webhooks (solo uid) db"

definition CountPaperWebhooksByUser :: "account_db \<Rightarrow> string \<Rightarrow> int" where
  "CountPaperWebhooksByUser db uid = count_webhooks (\<lambda>w. solo uid w \<and> wh_PaperAccountID w \<noteq> None) db"

definition CountLiveWebhooksByUser :: "account_db \<Rightarrow> string \<Rightarrow> int" where
  "CountLiveWebhooksByUser db uid = count_webhooks (\<lambda>w. solo uid w \<and> wh_BrokerCredID w \<noteq> None) db"

definition CountActivePaperWebhooksByUser :: "account_db \<Rightarrow> string \<Rightarrow> int" where
  "CountActivePaperWebhooksByUser db uid =
     count_webhooks (\<lambda>w. solo uid w \<and> wh_Status w = ''active'' \<and> wh_PaperAccountID w \<noteq> None) db"

definition CountActiveLiveWebhooksByUser :: "account_db \<Rightarrow> string \<Rightarrow> int" where
  "CountActiveLiveWebhooksByUser db uid =
     count_webhooks (\<lambda>w. solo uid w \<and> wh_Status w = ''active'' \<and> wh_BrokerCredID w \<noteq> None) db"

definition CountWebhooksByBrokerCred :: "account_db \<Rightarrow> string \<Rightarrow> int" where
  "CountWebhooksByBrokerCred db cid = count_webhooks (\<lambda>w. wh_BrokerCredID w = Some cid) db"

definition CountActiveWebhooksForCred :: "account_db \<Rightarrow> string \<Rightarrow> int" where
  "CountActiveWebhooksForCred db cid = count_webhooks (\<lambda>w. wh_BrokerCredID w = Some cid \<and> wh_Status w = ''active'') db"

definition CountWebhooksByPaperAccount :: "account_db \<Rightarrow> string \<Rightarrow> int" where
  "CountWebhooksByPaperAccount db aid = count_webhooks (\<lambda>w. wh_PaperAccountID w = Some aid) db"

subsection \<open>Broker credentials\<close>

definition cred_check :: "broker_credential \<Rightarrow> bool" where
  "cred_check c =
     ((bc_Status c = ''active'' \<or> bc_Status c = ''paused'') \<and> (bc_OrderType c = ''MARKET'' \<or> bc_OrderType c = ''LIMIT'') \<and>
      (bc_ExecutionMode c = ''direct_api'' \<or> bc_ExecutionMode c = ''user_api_oauth'' \<or> bc_ExecutionMode c = ''publisher'') \<and>
      bc_AccountMode c = ''live'')"

definition encode_cred :: "account_cols \<Rightarrow> broker_credential \<Rightarrow> store_err + broker_credential" where
  "encode_cred ac c = ebind (col (ac_pct ac) (bc_MarketProtection c)) (\<lambda>p. Inr (c\<lparr>bc_MarketProtection := p\<rparr>))"

definition CreateBrokerCred :: "account_cols \<Rightarrow> broker_credential \<Rightarrow> account_db \<Rightarrow> store_err + account_db" where
  "CreateBrokerCred ac c db =
     ebind (encode_cred ac c) (\<lambda>c'.
       let r = c'\<lparr>bc_ConnectedAt := None, bc_Status := ''active'', bc_AutoPaused := False, bc_AdminDisabled := False\<rparr> in
       ebind (require (cred_check r) ErrCheckViolation ()) (\<lambda>_.
       ebind (require (bc_ID r \<notin> set (cred_ids db)) ErrUniqueViolation ()) (\<lambda>_.
       ebind (require (bc_UserID r \<in> set (user_ids db) \<and> bc_CreatedBy r \<in> set (user_ids db)) ErrForeignKey ()) (\<lambda>_.
         Inr (db\<lparr>ad_creds := ad_creds db @ [r]\<rparr>)))))"

definition GetBrokerCred :: "account_db \<Rightarrow> string \<Rightarrow> broker_credential option" where
  "GetBrokerCred db cid = find (\<lambda>c. bc_ID c = cid) (ad_creds db)"

text \<open>A list of credentials leaves the secrets out, in the order of the labels, which is the data base's.\<close>

definition ListBrokerCredsForScope :: "(string \<Rightarrow> nat) \<Rightarrow> account_db \<Rightarrow> resource_scope \<Rightarrow> broker_credential list" where
  "ListBrokerCredsForScope collate db scope =
     map (bc_EncryptedCreds_update (\<lambda>_. []))
       (sort_key (collate \<circ> bc_AccountLabel) (filter (\<lambda>c. in_scope scope (bc_UserID c) (bc_OrgID c)) (ad_creds db)))"

definition update_creds :: "(broker_credential \<Rightarrow> bool) \<Rightarrow> (broker_credential \<Rightarrow> broker_credential) \<Rightarrow> account_db \<Rightarrow> account_db" where
  "update_creds P f db = db\<lparr>ad_creds := update_where P f (ad_creds db)\<rparr>"

text \<open>The row of a credential that its owner may change: by the organisation, or by the user.\<close>

definition owned_cred :: "string \<Rightarrow> broker_credential \<Rightarrow> broker_credential \<Rightarrow> bool" where
  "owned_cred cid bc r =
     (bc_ID r = cid \<and> (case bc_OrgID bc of Some oid \<Rightarrow> bc_OrgID r = Some oid
                        | None \<Rightarrow> bc_UserID r = bc_UserID bc \<and> bc_OrgID r = None))"

definition set_cred :: "broker_credential \<Rightarrow> broker_credential \<Rightarrow> broker_credential" where
  "set_cred bc r = r\<lparr>bc_BrokerType := bc_BrokerType bc, bc_ExecutionMode := bc_ExecutionMode bc,
     bc_EncryptedCreds := bc_EncryptedCreds bc, bc_AccountLabel := bc_AccountLabel bc,
     bc_AccountMode := bc_AccountMode bc, bc_Exchange := bc_Exchange bc, bc_Product := bc_Product bc,
     bc_AlgoID := bc_AlgoID bc, bc_OrderType := bc_OrderType bc, bc_MarketProtection := bc_MarketProtection bc\<rparr>"

definition UpdateBrokerCred :: "account_cols \<Rightarrow> broker_credential \<Rightarrow> account_db \<Rightarrow> store_err + account_db" where
  "UpdateBrokerCred ac bc db =
     ebind (encode_cred ac bc) (\<lambda>bc'.
     ebind (update_some cred_check (owned_cred (bc_ID bc) bc) (set_cred bc') (ad_creds db)) (\<lambda>cs.
       Inr (db\<lparr>ad_creds := cs\<rparr>)))"

definition UpdateBrokerCredStatus :: "string \<Rightarrow> string \<Rightarrow> account_db \<Rightarrow> store_err + account_db" where
  "UpdateBrokerCredStatus cid status db =
     ebind (update_rows cred_check (\<lambda>c. bc_ID c = cid) (bc_Status_update (\<lambda>_. status)) (ad_creds db))
       (\<lambda>cs. Inr (db\<lparr>ad_creds := cs\<rparr>))"

definition ClearCredentialAutoPaused :: "string \<Rightarrow> account_db \<Rightarrow> account_db" where
  "ClearCredentialAutoPaused cid = update_creds (\<lambda>c. bc_ID c = cid) (bc_AutoPaused_update (\<lambda>_. False))"

definition solo_cred :: "string \<Rightarrow> broker_credential \<Rightarrow> bool" where
  "solo_cred uid c = (bc_UserID c = uid \<and> bc_OrgID c = None)"

definition PauseAllCredentialsByUser :: "string \<Rightarrow> account_db \<Rightarrow> account_db" where
  "PauseAllCredentialsByUser uid =
     update_creds (solo_cred uid) (\<lambda>c. c\<lparr>bc_Status := ''paused'', bc_AutoPaused := True\<rparr>)"

definition ClearAutoPausedCredentialsByUser :: "string \<Rightarrow> account_db \<Rightarrow> account_db" where
  "ClearAutoPausedCredentialsByUser uid = update_creds (solo_cred uid) (bc_AutoPaused_update (\<lambda>_. False))"

definition of_mode :: "string \<Rightarrow> string \<Rightarrow> broker_credential \<Rightarrow> bool" where
  "of_mode brokerType executionMode c = (bc_BrokerType c = brokerType \<and> bc_ExecutionMode c = executionMode)"

definition PauseCredentialsByExecutionMode :: "string \<Rightarrow> string \<Rightarrow> account_db \<Rightarrow> account_db" where
  "PauseCredentialsByExecutionMode brokerType executionMode =
     update_creds (\<lambda>c. of_mode brokerType executionMode c \<and> bc_Status c = ''active'')
       (\<lambda>c. c\<lparr>bc_Status := ''paused'', bc_AdminDisabled := True\<rparr>)"

definition ClearAdminDisabledCredentials :: "string \<Rightarrow> string \<Rightarrow> account_db \<Rightarrow> account_db" where
  "ClearAdminDisabledCredentials brokerType executionMode =
     update_creds (of_mode brokerType executionMode) (bc_AdminDisabled_update (\<lambda>_. False))"

text \<open>The webhooks whose credential is of a broker and a mode.\<close>

definition routes_to_mode :: "string \<Rightarrow> string \<Rightarrow> account_db \<Rightarrow> webhook \<Rightarrow> bool" where
  "routes_to_mode brokerType executionMode db w =
     (case wh_BrokerCredID w of None \<Rightarrow> False
      | Some cid \<Rightarrow> cid \<in> set (map bc_ID (filter (of_mode brokerType executionMode) (ad_creds db))))"

definition PauseWebhooksByExecutionMode :: "string \<Rightarrow> string \<Rightarrow> account_db \<Rightarrow> account_db" where
  "PauseWebhooksByExecutionMode brokerType executionMode db =
     update_webhooks (\<lambda>w. wh_Status w = ''active'' \<and> routes_to_mode brokerType executionMode db w)
       (\<lambda>w. w\<lparr>wh_Status := ''paused'', wh_AdminDisabled := True\<rparr>) db"

definition ClearAdminDisabledWebhooks :: "string \<Rightarrow> string \<Rightarrow> account_db \<Rightarrow> account_db" where
  "ClearAdminDisabledWebhooks brokerType executionMode db =
     update_webhooks (routes_to_mode brokerType executionMode db) (wh_AdminDisabled_update (\<lambda>_. False)) db"

definition UnpauseUserSoloResources :: "string \<Rightarrow> account_db \<Rightarrow> account_db" where
  "UnpauseUserSoloResources uid db =
     update_creds (\<lambda>c. solo_cred uid c \<and> bc_AutoPaused c) (\<lambda>c. c\<lparr>bc_Status := ''active'', bc_AutoPaused := False\<rparr>)
       (update_webhooks (\<lambda>w. solo uid w \<and> wh_AutoPaused w) (\<lambda>w. w\<lparr>wh_Status := ''active'', wh_AutoPaused := False\<rparr>) db)"

definition PausePersonalWebhooksForUser :: "string \<Rightarrow> account_db \<Rightarrow> string list \<times> account_db" where
  "PausePersonalWebhooksForUser uid db =
     (map wh_TokenHash (filter (\<lambda>w. solo uid w \<and> wh_Status w = ''active'') (ad_webhooks db)),
      update_webhooks (\<lambda>w. solo uid w \<and> wh_Status w = ''active'') (wh_Status_update (\<lambda>_. ''paused'')) db)"

definition TouchConnectedAt :: "int \<Rightarrow> string \<Rightarrow> account_db \<Rightarrow> account_db" where
  "TouchConnectedAt now cid = update_creds (\<lambda>c. bc_ID c = cid) (bc_ConnectedAt_update (\<lambda>_. Some now))"

definition ReconnectZerodhaToken :: "int \<Rightarrow> string \<Rightarrow> string \<Rightarrow> account_db \<Rightarrow> store_err + account_db" where
  "ReconnectZerodhaToken now cid encryptedCreds db =
     (let P = (\<lambda>c. bc_ID c = cid \<and> bc_BrokerType c = ''zerodha'') in
      if \<not> list_ex P (ad_creds db) then Inl ErrNoRows
      else Inr (update_creds P (\<lambda>c. c\<lparr>bc_EncryptedCreds := encryptedCreds, bc_ConnectedAt := Some now\<rparr>) db))"

text \<open>No webhook may be left with a credential that is not there.\<close>

definition DeleteBrokerCred :: "string \<Rightarrow> broker_credential \<Rightarrow> account_db \<Rightarrow> store_err + account_db" where
  "DeleteBrokerCred cid bc db =
     (if \<not> list_ex (owned_cred cid bc) (ad_creds db) then Inl ErrNoRows
      else if list_ex (\<lambda>w. wh_BrokerCredID w = Some cid) (ad_webhooks db) then Inl ErrForeignKey
      else Inr (db\<lparr>ad_creds := filter (\<lambda>c. \<not> owned_cred cid bc c) (ad_creds db)\<rparr>))"

definition CountSoloBrokerCredsByUser :: "account_db \<Rightarrow> string \<Rightarrow> int" where
  "CountSoloBrokerCredsByUser db uid = sql_count (solo_cred uid) (ad_creds db)"

definition CountActiveCredentialsByUser :: "account_db \<Rightarrow> string \<Rightarrow> int" where
  "CountActiveCredentialsByUser db uid = sql_count (\<lambda>c. solo_cred uid c \<and> bc_Status c = ''active'') (ad_creds db)"

definition HasAutoPausedItems :: "account_db \<Rightarrow> string \<Rightarrow> bool" where
  "HasAutoPausedItems db uid =
     (list_ex (\<lambda>w. wh_UserID w = uid \<and> wh_AutoPaused w) (ad_webhooks db) \<and>
        \<not> list_ex (\<lambda>w. wh_UserID w = uid \<and> wh_Status w = ''active'') (ad_webhooks db) \<or>
      list_ex (\<lambda>c. bc_UserID c = uid \<and> bc_AutoPaused c) (ad_creds db) \<and>
        \<not> list_ex (\<lambda>c. bc_UserID c = uid \<and> bc_Status c = ''active'') (ad_creds db))"

subsection \<open>Deleting a user\<close>

text \<open>
  The organisations the user owns go first, and what they held becomes personal; the user's webhooks and
  credentials go with the user. A row of somebody else that refers to a deleted one forbids it all.
\<close>

definition freed_org :: "string \<Rightarrow> account_db \<Rightarrow> string option \<Rightarrow> string option" where
  "freed_org uid db oid =
     (case oid of None \<Rightarrow> None
      | Some g \<Rightarrow> if list_ex (\<lambda>r. o_ID r = g \<and> o_OwnerUserID r = uid) (ad_orgs db) then None else Some g)"

definition without_user :: "string \<Rightarrow> account_db \<Rightarrow> account_db" where
  "without_user uid db = db
     \<lparr>ad_orgs := filter (\<lambda>g. o_OwnerUserID g \<noteq> uid) (ad_orgs db),
      ad_users := filter (\<lambda>u. u_ID u \<noteq> uid) (ad_users db),
      ad_papers := filter (\<lambda>p. snd p \<noteq> uid) (ad_papers db),
      ad_webhooks := map (wh_OrgID_update (freed_org uid db)) (filter (\<lambda>w. wh_UserID w \<noteq> uid) (ad_webhooks db)),
      ad_creds := map (bc_OrgID_update (freed_org uid db)) (filter (\<lambda>c. bc_UserID c \<noteq> uid) (ad_creds db))\<rparr>"

definition DeleteUser :: "string \<Rightarrow> account_db \<Rightarrow> store_err + account_db" where
  "DeleteUser uid db =
     (let db' = without_user uid db in
      if uid \<notin> set (user_ids db) then Inl ErrNoRows
      else if list_all (webhook_fk db') (ad_webhooks db') \<and>
              list_all (\<lambda>c. bc_CreatedBy c \<in> set (user_ids db')) (ad_creds db') \<and>
              list_all (\<lambda>s. snd (snd s) \<in> set (user_ids db')) (ad_settings db') then Inr db' else Inl ErrForeignKey)"

subsection \<open>Updates\<close>

lemma find_key_update_where:
  assumes "\<And>r. key (f r) = key r"
  shows "find (\<lambda>r. key r = k) (update_where P f rs) = map_option (\<lambda>r. if P r then f r else r) (find (\<lambda>r. key r = k) rs)"
  using assms by (induction rs) (auto simp: update_where_def)

lemma update_user_Inr:
  "update_user uid f db = Inr db' \<longleftrightarrow> uid \<in> set (user_ids db) \<and> list_all (\<lambda>u. u_ID u = uid \<longrightarrow> user_check (f u)) (ad_users db) \<and>
     db' = db\<lparr>ad_users := update_where (\<lambda>u. u_ID u = uid) f (ad_users db)\<rparr>"
  by (auto simp: update_user_def with_users_def update_some_def update_rows_def ebind_def user_ids_def list_ex_iff
      split: if_splits sum.splits)

lemma pause_frame [simp]:
  "ad_users (update_webhooks P f db) = ad_users db" "ad_creds (update_webhooks P f db) = ad_creds db"
  "ad_events (update_webhooks P f db) = ad_events db"
  "ad_users (update_creds P' f' db) = ad_users db" "ad_webhooks (update_creds P' f' db) = ad_webhooks db"
  "ad_events (update_creds P' f' db) = ad_events db"
  by (simp_all add: update_webhooks_def update_creds_def)

lemma filter_update_where:
  "(\<And>r. Q (f r) = Q r) \<Longrightarrow> (\<And>r. P r \<Longrightarrow> \<not> Q r) \<Longrightarrow> filter Q (update_where P f rs) = filter Q rs"
  by (induction rs) (auto simp: update_where_def)

lemma list_all_update_where:
  "(\<And>r. P r \<Longrightarrow> Q (f r)) \<Longrightarrow> (\<And>r. \<not> P r \<Longrightarrow> Q r) \<Longrightarrow> list_all Q (update_where P f rs)"
  by (induction rs) (simp_all add: update_where_def)

lemma keys_update_where [simp]: "(\<And>r. key (f r) = key r) \<Longrightarrow> map key (update_where P f rs) = map key rs"
  by (induction rs) (auto simp: update_where_def)

lemma update_some_Inr:
  "update_some C P f rs = Inr rs' \<longleftrightarrow> list_ex P rs \<and> list_all (\<lambda>r. P r \<longrightarrow> C (f r)) rs \<and> rs' = update_where P f rs"
  by (auto simp: update_some_def update_rows_def)

lemma update_rows_Inr: "update_rows C P f rs = Inr rs' \<longleftrightarrow> list_all (\<lambda>r. P r \<longrightarrow> C (f r)) rs \<and> rs' = update_where P f rs"
  by (auto simp: update_rows_def)

lemma checked_update: "list_all C rs \<Longrightarrow> list_all (\<lambda>r. P r \<longrightarrow> C (f r)) rs \<Longrightarrow> list_all C (update_where P f rs)"
  by (induction rs) (simp_all add: update_where_def)

lemma find_key: "find (\<lambda>r. key r = k) rs = Some r \<Longrightarrow> r \<in> set rs \<and> key r = k"
  by (auto simp: find_Some_iff)

lemma key_unique: "distinct (map key rs) \<Longrightarrow> r \<in> set rs \<Longrightarrow> r' \<in> set rs \<Longrightarrow> key r = key r' \<Longrightarrow> r = r'"
  by (induction rs) (auto simp: image_iff)

subsection \<open>Tables that are sound\<close>

text \<open>
  What the constraints of the tables guarantee, and beyond them that a webhook and its destination have
  one owner: no constraint of the data base says so, it is what the handlers check.
\<close>

definition users_ok :: "user list \<Rightarrow> bool" where
  "users_ok us = (distinct (map u_ID us) \<and> distinct (map u_Email us) \<and> list_all user_check us)"

definition hooks_ok :: "webhook list \<Rightarrow> bool" where
  "hooks_ok ws = (distinct (map wh_ID ws) \<and> distinct (map wh_TokenHash ws) \<and> list_all one_destination ws)"

definition creds_ok :: "broker_credential list \<Rightarrow> bool" where
  "creds_ok cs = (distinct (map bc_ID cs) \<and> list_all cred_check cs)"

definition same_owner :: "account_db \<Rightarrow> webhook \<Rightarrow> bool" where
  "same_owner db w =
     ((case wh_BrokerCredID w of None \<Rightarrow> True
       | Some cid \<Rightarrow> list_ex (\<lambda>c. bc_ID c = cid \<and> bc_UserID c = wh_UserID w) (ad_creds db)) \<and>
      (case wh_PaperAccountID w of None \<Rightarrow> True | Some aid \<Rightarrow> (aid, wh_UserID w) \<in> set (ad_papers db)))"

definition cred_fk :: "account_db \<Rightarrow> broker_credential \<Rightarrow> bool" where
  "cred_fk db c = (bc_UserID c \<in> set (user_ids db) \<and> bc_CreatedBy c \<in> set (user_ids db))"

definition accounts_ok :: "account_db \<Rightarrow> bool" where
  "accounts_ok db =
     (users_ok (ad_users db) \<and> hooks_ok (ad_webhooks db) \<and> creds_ok (ad_creds db) \<and>
      list_all (webhook_fk db) (ad_webhooks db) \<and> list_all (cred_fk db) (ad_creds db))"

definition tenant_ok :: "account_db \<Rightarrow> bool" where
  "tenant_ok db = list_all (same_owner db) (ad_webhooks db)"

definition sound :: "account_db \<Rightarrow> bool" where
  "sound db = (accounts_ok db \<and> tenant_ok db)"

text \<open>The references of the rows: they decide about foreign keys and owners.\<close>

definition hook_refs :: "webhook \<Rightarrow> string \<times> string \<times> string option \<times> string option" where
  "hook_refs w = (wh_UserID w, wh_CreatedBy w, wh_BrokerCredID w, wh_PaperAccountID w)"

definition cred_refs :: "broker_credential \<Rightarrow> string \<times> string \<times> string" where
  "cred_refs c = (bc_ID c, bc_UserID c, bc_CreatedBy c)"

definition hook_ref_ok :: "string set \<Rightarrow> (string \<times> string \<times> string) set \<Rightarrow> (string \<times> string) set \<Rightarrow>
  string \<times> string \<times> string option \<times> string option \<Rightarrow> bool" where
  "hook_ref_ok U C P = (\<lambda>(u, b, c, a). u \<in> U \<and> b \<in> U \<and> (\<forall>x. c = Some x \<longrightarrow> (\<exists>b'. (x, u, b') \<in> C)) \<and>
     (\<forall>x. a = Some x \<longrightarrow> (x, u) \<in> P))"

definition cred_ref_ok :: "string set \<Rightarrow> string \<times> string \<times> string \<Rightarrow> bool" where
  "cred_ref_ok U = (\<lambda>(x, u, b). u \<in> U \<and> b \<in> U)"

definition refs_ok :: "string set \<Rightarrow> (string \<times> string \<times> string option \<times> string option) set \<Rightarrow>
  (string \<times> string \<times> string) set \<Rightarrow> (string \<times> string) set \<Rightarrow> bool" where
  "refs_ok U W C P \<longleftrightarrow> (\<forall>r \<in> W. hook_ref_ok U C P r) \<and> (\<forall>r \<in> C. cred_ref_ok U r)"

abbreviation refs :: "account_db \<Rightarrow> bool" where
  "refs db \<equiv> refs_ok (u_ID ` set (ad_users db)) (hook_refs ` set (ad_webhooks db)) (cred_refs ` set (ad_creds db)) (set (ad_papers db))"

lemma hook_ref_ok_iff:
  "hook_ref_ok (u_ID ` set (ad_users db)) (cred_refs ` set (ad_creds db)) (set (ad_papers db)) (hook_refs w) \<longleftrightarrow>
     webhook_fk db w \<and> same_owner db w"
proof -
  have c: "(\<exists>b'. (x, u, b') \<in> cred_refs ` set (ad_creds db)) \<longleftrightarrow> list_ex (\<lambda>c. bc_ID c = x \<and> bc_UserID c = u) (ad_creds db)" for x u
    by (auto simp: cred_refs_def image_iff list_ex_iff)
  have m: "list_ex (\<lambda>c. bc_ID c = x \<and> bc_UserID c = u) (ad_creds db) \<Longrightarrow> x \<in> set (cred_ids db)" for x u
    by (auto simp: cred_ids_def list_ex_iff)
  have a: "(x, u) \<in> set (ad_papers db) \<Longrightarrow> x \<in> fst ` set (ad_papers db)" for x u
    by force
  show ?thesis
    by (cases "wh_BrokerCredID w"; cases "wh_PaperAccountID w")
      (auto simp: hook_ref_ok_def hook_refs_def c webhook_fk_def same_owner_def user_ids_def dest: m a)
qed

lemma cred_ref_ok_iff: "cred_ref_ok (u_ID ` set (ad_users db)) (cred_refs c) \<longleftrightarrow> cred_fk db c"
  by (simp add: cred_ref_ok_def cred_refs_def cred_fk_def user_ids_def)

lemma sound_iff:
  "sound db \<longleftrightarrow> users_ok (ad_users db) \<and> hooks_ok (ad_webhooks db) \<and> creds_ok (ad_creds db) \<and> refs db"
  by (auto simp: sound_def accounts_ok_def tenant_ok_def refs_ok_def hook_ref_ok_iff cred_ref_ok_iff list_all_iff)

text \<open>Updates that keep keys and references keep the tables sound.\<close>

lemma image_update_where [simp]:
  "(\<And>r. key (f r) = key r) \<Longrightarrow> key ` set (update_where P f rs) = key ` set rs"
  by (induction rs) (simp_all add: update_where_def)

lemma sound_update_user:
  assumes "sound db" "update_user uid f db = Inr db'" "\<And>u. u_ID (f u) = u_ID u" "\<And>u. u_Email (f u) = u_Email u"
  shows "sound db'"
  using assms by (auto simp: sound_iff users_ok_def update_user_Inr intro!: checked_update)

lemma sound_update_webhooks:
  assumes "sound db" "\<And>w. wh_ID (f w) = wh_ID w" "\<And>w. wh_TokenHash (f w) = wh_TokenHash w" "\<And>w. hook_refs (f w) = hook_refs w"
  shows "sound (update_webhooks P f db)"
proof -
  have "one_destination (f w) = one_destination w" for w
    using assms(4) [of w] by (simp add: hook_refs_def one_destination_def)
  then show ?thesis using assms
    by (auto simp: sound_iff hooks_ok_def update_webhooks_def intro!: checked_update) (simp add: list_all_iff)
qed

lemma sound_update_creds:
  assumes "sound db" "list_all (\<lambda>c. P c \<longrightarrow> cred_check (f c)) (ad_creds db)" "\<And>c. cred_refs (f c) = cred_refs c"
  shows "sound (update_creds P f db)"
proof -
  have "bc_ID (f c) = bc_ID c" for c using assms(3) [of c] by (simp add: cred_refs_def)
  then show ?thesis using assms by (auto simp: sound_iff creds_ok_def update_creds_def intro!: checked_update)
qed

lemma cred_check_frame:
  "cred_check c \<Longrightarrow> cred_check (c\<lparr>bc_AutoPaused := a, bc_Status := ''paused''\<rparr>)"
  "cred_check c \<Longrightarrow> cred_check (c\<lparr>bc_AutoPaused := a\<rparr>)" "cred_check c \<Longrightarrow> cred_check (c\<lparr>bc_AdminDisabled := a\<rparr>)"
  "cred_check c \<Longrightarrow> cred_check (c\<lparr>bc_Status := ''paused'', bc_AdminDisabled := a\<rparr>)"
  "cred_check c \<Longrightarrow> cred_check (c\<lparr>bc_Status := ''paused'', bc_AutoPaused := a\<rparr>)"
  by (simp_all add: cred_check_def)

lemma encode_webhook_Inr:
  assumes "encode_webhook ac wh = Inr r"
  shows "wh_ID r = wh_ID wh" "wh_TokenHash r = wh_TokenHash wh" "hook_refs r = hook_refs wh" "wh_Status r = wh_Status wh"
  using assms by (auto simp: encode_webhook_def hook_refs_def ebind_def split: sum.splits)

lemma same_owner_cong: "hook_refs r = hook_refs w \<Longrightarrow> same_owner db r = same_owner db w"
  by (simp add: same_owner_def hook_refs_def)

lemma sound_CreateWebhook:
  assumes "sound db" "pg_CreateWebhook ac wh db = Inr db'" "same_owner db wh"
  shows "sound db'"
proof -
  obtain r where r: "encode_webhook ac wh = Inr r" "one_destination r" "wh_ID r \<notin> wh_ID ` set (ad_webhooks db)"
      "wh_TokenHash r \<notin> wh_TokenHash ` set (ad_webhooks db)" "webhook_fk db r"
    and db': "db' = db\<lparr>ad_webhooks := ad_webhooks db @ [r\<lparr>wh_AutoPaused := False, wh_AdminDisabled := False\<rparr>]\<rparr>"
    using assms(2) by (auto simp: pg_CreateWebhook_def ebind_def split: sum.splits)
  let ?r = "r\<lparr>wh_AutoPaused := False, wh_AdminDisabled := False\<rparr>"
  have "hook_refs ?r = hook_refs r" by (simp add: hook_refs_def)
  moreover have "same_owner db r" using assms(3) same_owner_cong [OF encode_webhook_Inr(3) [OF r(1)]] by blast
  ultimately have "hook_ref_ok (u_ID ` set (ad_users db)) (cred_refs ` set (ad_creds db)) (set (ad_papers db)) (hook_refs ?r)"
    using r(5) by (simp add: hook_ref_ok_iff)
  then show ?thesis using assms(1) r by (simp add: sound_iff db' hooks_ok_def refs_ok_def one_destination_def)
qed

lemma hook_ref_ok_mono:
  "hook_ref_ok U C P r \<Longrightarrow> U \<subseteq> U' \<Longrightarrow> C \<subseteq> C' \<Longrightarrow> P \<subseteq> P' \<Longrightarrow> hook_ref_ok U' C' P' r"
  unfolding hook_ref_ok_def by (cases r) (simp, blast)

lemma refs_ok_mono:
  assumes "refs_ok U W C P" "W' \<subseteq> W" "C' \<subseteq> C"
    "\<And>u b c a x. (u, b, c, a) \<in> W' \<Longrightarrow> c = Some x \<Longrightarrow> \<exists>b'. (x, u, b') \<in> C'"
  shows "refs_ok U W' C' P"
proof -
  have "hook_ref_ok U C' P r" if r: "r \<in> W'" for r
  proof -
    obtain u b c a where e: "r = (u, b, c, a)" by (cases r)
    have "hook_ref_ok U C P r" using assms(1,2) r by (auto simp: refs_ok_def)
    moreover have "\<exists>b'. (x, u, b') \<in> C'" if "c = Some x" for x using assms(4) [OF r [unfolded e] that] .
    ultimately show ?thesis by (simp add: hook_ref_ok_def e)
  qed
  then show ?thesis using assms(1,3) by (auto simp: refs_ok_def)
qed

lemma sound_DeleteWebhook:
  assumes "sound db" "pg_DeleteWebhook wid db = Inr db'"
  shows "sound db'"
proof -
  have db': "db' = db\<lparr>ad_webhooks := filter (\<lambda>w. wh_ID w \<noteq> wid) (ad_webhooks db)\<rparr>"
    using assms(2) by (auto simp: pg_DeleteWebhook_def split: if_splits)
  show ?thesis using assms(1)
    by (auto simp: sound_iff db' hooks_ok_def refs_ok_def distinct_map_filter list_all_iff)
qed

lemma sound_RotateToken:
  assumes "sound db" "pg_RotateWebhookToken wid uid token db = Inr db'"
  shows "sound db'"
proof -
  let ?P = "\<lambda>w. wh_ID w = wid \<and> wh_UserID w = uid" and ?f = "wh_TokenHash_update (\<lambda>_. token)"
  have db': "db' = update_webhooks ?P ?f db"
    and free: "list_all (\<lambda>w. wh_TokenHash w = token \<longrightarrow> wh_ID w = wid) (ad_webhooks db)"
    using assms(2) by (auto simp: pg_RotateWebhookToken_def list_ex_iff list_all_iff split: if_splits)
  have d: "distinct (map wh_ID (ad_webhooks db))" "distinct (map wh_TokenHash (ad_webhooks db))"
    and o: "list_all one_destination (ad_webhooks db)" using assms(1) by (simp_all add: sound_iff hooks_ok_def)
  have "distinct (map wh_TokenHash (update_where ?P ?f ws))"
    if "distinct (map wh_ID ws)" "distinct (map wh_TokenHash ws)" "list_all (\<lambda>w. wh_TokenHash w = token \<longrightarrow> wh_ID w = wid) ws" for ws
    using that
  proof (induction ws)
    case (Cons w ws)
    have "wh_TokenHash (if ?P w then ?f w else w) \<notin> set (map wh_TokenHash (update_where ?P ?f ws))"
    proof (cases "?P w")
      case True
      then have "wid \<notin> wh_ID ` set ws" using Cons.prems(1) by auto
      then have n: "\<forall>x \<in> set ws. wh_ID x \<noteq> wid" by (auto simp: image_iff)
      then have "update_where ?P ?f ws = ws" by (simp add: update_where_def map_idI)
      moreover have "token \<notin> wh_TokenHash ` set ws" using n Cons.prems(3) by (auto simp: list_all_iff)
      ultimately have "update_where ?P ?f ws = ws" "token \<notin> wh_TokenHash ` set ws" by simp_all
      then show ?thesis using True by simp
    next
      case False
      have "wh_TokenHash w \<noteq> token" if "w' \<in> set ws" "?P w'" for w'
        using that False Cons.prems(1,3) by force
      then have "wh_TokenHash (if ?P x then ?f x else x) \<noteq> wh_TokenHash w" if "x \<in> set ws" for x
        using that Cons.prems(2) by (cases "?P x") (force, force simp: image_iff)
      moreover have "wh_TokenHash (if ?P w then ?f w else w) = wh_TokenHash w" using False by auto
      ultimately show ?thesis by (metis (no_types, lifting) imageE list.set_map update_where_def)
    qed
    then show ?case using Cons by (simp add: update_where_def)
  qed (simp add: update_where_def)
  moreover have "list_all one_destination (update_where ?P ?f (ad_webhooks db))"
    using o by (auto simp: update_where_def list_all_iff one_destination_def)
  ultimately show ?thesis using assms(1) d free by (simp add: sound_iff hooks_ok_def db' update_webhooks_def hook_refs_def)
qed

lemma sound_UpdateWebhook:
  assumes "sound db" "pg_UpdateWebhook ac wh db = Inr db'" "same_owner db wh"
  shows "sound db'"
proof -
  let ?P = "\<lambda>w. wh_ID w = wh_ID wh \<and> wh_UserID w = wh_UserID wh"
  obtain r where r: "encode_webhook ac wh = Inr r"
    and u: "update_some one_destination ?P (set_webhook r) (ad_webhooks db) = Inr (ad_webhooks db')"
    and fk: "list_all (webhook_fk db) (ad_webhooks db')" and db': "db' = db\<lparr>ad_webhooks := ad_webhooks db'\<rparr>"
    using assms(2) by (auto simp: pg_UpdateWebhook_def ebind_def split: sum.splits)
  have ws: "ad_webhooks db' = update_where ?P (set_webhook r) (ad_webhooks db)"
    and o: "list_all (\<lambda>w. ?P w \<longrightarrow> one_destination (set_webhook r w)) (ad_webhooks db)"
    using u by (auto simp: update_some_Inr)
  have e: "wh_BrokerCredID r = wh_BrokerCredID wh" "wh_PaperAccountID r = wh_PaperAccountID wh"
    using encode_webhook_Inr(3) [OF r] by (simp_all add: hook_refs_def)
  have own: "list_all (same_owner db) (ad_webhooks db')"
    unfolding list_all_iff
  proof
    fix w assume "w \<in> set (ad_webhooks db')"
    then obtain w0 where w0: "w0 \<in> set (ad_webhooks db)" "w = (if ?P w0 then set_webhook r w0 else w0)"
      by (auto simp: ws update_where_def)
    have "same_owner db w0" using assms(1) w0(1) by (simp add: sound_def tenant_ok_def list_all_iff)
    then show "same_owner db w" using w0(2) assms(3) e by (auto simp: same_owner_def set_webhook_def split: if_splits)
  qed
  have "refs_ok (u_ID ` set (ad_users db)) (hook_refs ` set (ad_webhooks db')) (cred_refs ` set (ad_creds db)) (set (ad_papers db))"
    using fk own assms(1) by (auto simp: refs_ok_def hook_ref_ok_iff list_all_iff sound_iff)
  moreover have "hooks_ok (ad_webhooks db')"
    using assms(1) o by (auto simp: ws hooks_ok_def sound_iff set_webhook_def intro!: checked_update)
  ultimately show ?thesis using assms(1) by (subst db') (simp add: sound_iff)
qed

lemma encode_cred_Inr: "encode_cred ac c = Inr r \<Longrightarrow> cred_refs r = cred_refs c \<and> bc_Status r = bc_Status c"
  by (auto simp: encode_cred_def cred_refs_def ebind_def split: sum.splits)

lemma sound_CreateBrokerCred:
  assumes "sound db" "CreateBrokerCred ac c db = Inr db'"
  shows "sound db'"
proof -
  obtain r where r: "cred_check r" "bc_ID r \<notin> set (cred_ids db)" "cred_fk db r" and db': "db' = db\<lparr>ad_creds := ad_creds db @ [r]\<rparr>"
    using assms(2) by (auto simp: CreateBrokerCred_def ebind_def Let_def cred_fk_def split: sum.splits)
  let ?U = "u_ID ` set (ad_users db)" and ?C = "cred_refs ` set (ad_creds db)" and ?P = "set (ad_papers db)"
  have m: "hook_ref_ok ?U (insert x ?C) ?P w" if "hook_ref_ok ?U ?C ?P w" for w x
    using that by (rule hook_ref_ok_mono) auto
  have "cred_ref_ok ?U (cred_refs r)" using r(3) cred_ref_ok_iff [of db r] by simp
  then show ?thesis using assms(1) r m by (simp add: sound_iff db' creds_ok_def refs_ok_def cred_ids_def)
qed

lemma sound_UpdateBrokerCred:
  assumes "sound db" "UpdateBrokerCred ac c db = Inr db'"
  shows "sound db'"
proof -
  obtain r where "list_all (\<lambda>x. owned_cred (bc_ID c) c x \<longrightarrow> cred_check (set_cred r x)) (ad_creds db)"
    "db' = update_creds (owned_cred (bc_ID c) c) (set_cred r) db"
    using assms(2) by (auto simp: UpdateBrokerCred_def ebind_def update_some_Inr update_creds_def split: sum.splits)
  then show ?thesis using assms(1) by (auto intro!: sound_update_creds simp: set_cred_def cred_refs_def)
qed

lemma sound_UpdateBrokerCredStatus:
  assumes "sound db" "UpdateBrokerCredStatus cid status db = Inr db'"
  shows "sound db'"
proof -
  have "list_all (\<lambda>x. bc_ID x = cid \<longrightarrow> cred_check (x\<lparr>bc_Status := status\<rparr>)) (ad_creds db)"
    "db' = update_creds (\<lambda>c. bc_ID c = cid) (bc_Status_update (\<lambda>_. status)) db"
    using assms(2) by (auto simp: UpdateBrokerCredStatus_def ebind_def update_rows_Inr update_creds_def split: sum.splits)
  then show ?thesis using assms(1) by (auto intro!: sound_update_creds simp: cred_refs_def)
qed

lemma sound_DeleteBrokerCred:
  assumes "sound db" "DeleteBrokerCred cid bc db = Inr db'"
  shows "sound db'"
proof -
  have db': "db' = db\<lparr>ad_creds := filter (\<lambda>c. \<not> owned_cred cid bc c) (ad_creds db)\<rparr>"
    and free: "list_all (\<lambda>w. wh_BrokerCredID w \<noteq> Some cid) (ad_webhooks db)"
    using assms(2) by (auto simp: DeleteBrokerCred_def list_ex_iff list_all_iff split: if_splits)
  have "\<exists>b'. (x, u, b') \<in> cred_refs ` set (ad_creds db')"
    if h: "(u, b, c, a) \<in> hook_refs ` set (ad_webhooks db)" "c = Some x" for u b c a x
  proof -
    obtain w where r: "(u, b, c, a) = hook_refs w" "w \<in> set (ad_webhooks db)" using h(1) by blast
    then have w: "w \<in> set (ad_webhooks db)" "wh_UserID w = u" "wh_BrokerCredID w = Some x"
      using h(2) by (simp_all add: hook_refs_def)
    then have "same_owner db w" "x \<noteq> cid" using assms(1) free by (auto simp: sound_def tenant_ok_def list_all_iff)
    then obtain c where "c \<in> set (ad_creds db)" "bc_ID c = x" "bc_UserID c = u" "x \<noteq> cid"
      using w by (auto simp: same_owner_def list_ex_iff)
    then have "c \<in> set (ad_creds db')" "cred_refs c = (x, u, bc_CreatedBy c)"
      by (auto simp: db' owned_cred_def cred_refs_def)
    then show ?thesis by (metis imageI)
  qed
  then have "refs_ok (u_ID ` set (ad_users db)) (hook_refs ` set (ad_webhooks db)) (cred_refs ` set (ad_creds db')) (set (ad_papers db))"
  proof (rule refs_ok_mono [rotated 3])
    show "refs db" using assms(1) by (simp add: sound_iff)
    show "cred_refs ` set (ad_creds db') \<subseteq> cred_refs ` set (ad_creds db)" by (auto simp: db')
  qed simp_all
  moreover have "creds_ok (ad_creds db')"
    using assms(1) by (simp add: sound_iff db' creds_ok_def distinct_map_filter list_all_iff)
  ultimately show ?thesis using assms(1) by (simp add: sound_iff db')
qed

lemma sound_CreateUser:
  assumes "sound db" "CreateUser u db = Inr db'"
  shows "sound db'"
proof -
  obtain r where r: "user_check r" "u_ID r \<notin> set (user_ids db)" "u_Email r \<notin> u_Email ` set (ad_users db)"
    and db': "db' = db\<lparr>ad_users := ad_users db @ [r]\<rparr>"
    using assms(2) by (auto simp: CreateUser_def ebind_def Let_def split: sum.splits)
  let ?U = "u_ID ` set (ad_users db)" and ?C = "cred_refs ` set (ad_creds db)" and ?P = "set (ad_papers db)"
  have "hook_ref_ok (insert x ?U) ?C ?P w" if "hook_ref_ok ?U ?C ?P w" for w x
    using that by (rule hook_ref_ok_mono) auto
  moreover have "cred_ref_ok (insert x ?U) c" if "cred_ref_ok ?U c" for c x
    using that by (auto simp: cred_ref_ok_def)
  ultimately show ?thesis using assms(1) r by (simp add: sound_iff db' users_ok_def refs_ok_def user_ids_def)
qed

lemma sound_DeleteUser:
  assumes "sound db" "DeleteUser uid db = Inr db'"
  shows "sound db'"
proof -
  let ?free = "freed_org uid db"
  have db': "db' = without_user uid db"
    and fk: "list_all (webhook_fk db') (ad_webhooks db')" "list_all (\<lambda>c. bc_CreatedBy c \<in> set (user_ids db')) (ad_creds db')"
    using assms(2) by (auto simp: DeleteUser_def Let_def split: if_splits)
  have us: "ad_users db' = filter (\<lambda>u. u_ID u \<noteq> uid) (ad_users db)"
    and ws: "ad_webhooks db' = map (wh_OrgID_update ?free) (filter (\<lambda>w. wh_UserID w \<noteq> uid) (ad_webhooks db))"
    and cs: "ad_creds db' = map (bc_OrgID_update ?free) (filter (\<lambda>c. bc_UserID c \<noteq> uid) (ad_creds db))"
    and ps: "ad_papers db' = filter (\<lambda>p. snd p \<noteq> uid) (ad_papers db)"
    by (simp_all add: db' without_user_def)
  have ok: "users_ok (ad_users db)" "hooks_ok (ad_webhooks db)" "creds_ok (ad_creds db)"
      "list_all (same_owner db) (ad_webhooks db)" "list_all (cred_fk db) (ad_creds db)"
    using assms(1) by (auto simp: sound_def accounts_ok_def tenant_ok_def)
  have "same_owner db' w" if w: "w \<in> set (ad_webhooks db')" for w
  proof -
    obtain w0 where w0: "w0 \<in> set (ad_webhooks db)" "wh_UserID w0 \<noteq> uid" "hook_refs w = hook_refs w0"
      using w by (auto simp: ws hook_refs_def)
    have s: "same_owner db w0" using ok(4) w0(1) by (simp add: list_all_iff)
    have "same_owner db' w0"
    proof (cases "wh_BrokerCredID w0")
      case None
      then show ?thesis using s w0(2) by (auto simp: same_owner_def ps split: option.splits)
    next
      case (Some cid)
      then obtain c where c: "c \<in> set (ad_creds db)" "bc_ID c = cid" "bc_UserID c = wh_UserID w0"
        using s by (auto simp: same_owner_def list_ex_iff)
      then have "bc_OrgID_update ?free c \<in> set (ad_creds db')" using w0(2) by (auto simp: cs)
      then have "list_ex (\<lambda>c. bc_ID c = cid \<and> bc_UserID c = wh_UserID w0) (ad_creds db')"
        using c by (auto simp: list_ex_iff intro!: bexI [where x = "bc_OrgID_update ?free c"])
      then show ?thesis using s w0(2) Some by (auto simp: same_owner_def ps split: option.splits)
    qed
    then show ?thesis using same_owner_cong [OF w0(3)] by simp
  qed
  moreover have "list_all (cred_fk db') (ad_creds db')"
    using ok(5) fk(2) by (auto simp: list_all_iff cs us cred_fk_def user_ids_def)
  moreover have "users_ok (ad_users db')" using ok(1) by (auto simp: us users_ok_def distinct_map_filter list_all_iff)
  moreover have "hooks_ok (ad_webhooks db')"
    using ok(2) by (auto simp: ws hooks_ok_def distinct_map_filter list_all_iff o_def one_destination_def)
  moreover have "creds_ok (ad_creds db')"
    using ok(3) by (auto simp: cs creds_ok_def distinct_map_filter list_all_iff o_def cred_check_def)
  ultimately show ?thesis using fk(1) by (auto simp: sound_def accounts_ok_def tenant_ok_def list_all_iff)
qed

text \<open>Statements that change neither a key, nor a reference, nor what is checked.\<close>

lemma sound_frame:
  "sound db \<Longrightarrow> ad_users db' = ad_users db \<Longrightarrow> ad_webhooks db' = ad_webhooks db \<Longrightarrow> ad_creds db' = ad_creds db \<Longrightarrow>
     ad_papers db' = ad_papers db \<Longrightarrow> sound db'"
  by (simp add: sound_iff)

lemma sound_pauses:
  assumes "sound db"
  shows "sound (UpdateWebhookStatus wid status db)" "sound (ClearWebhookAutoPaused wid db)"
    "sound (PauseAllWebhooksByUser uid db)" "sound (ClearAutoPausedWebhooksByUser uid db)"
    "sound (PauseWebhooksByExecutionMode bt m db)" "sound (ClearAdminDisabledWebhooks bt m db)"
    "sound (PauseAllCredentialsByUser uid db)" "sound (ClearAutoPausedCredentialsByUser uid db)"
    "sound (PauseCredentialsByExecutionMode bt m db)" "sound (ClearAdminDisabledCredentials bt m db)"
    "sound (ClearCredentialAutoPaused cid db)"
proof -
  have c: "list_all cred_check (ad_creds db)" using assms by (simp add: sound_iff creds_ok_def)
  show "sound (UpdateWebhookStatus wid status db)" "sound (ClearWebhookAutoPaused wid db)"
    "sound (PauseAllWebhooksByUser uid db)" "sound (ClearAutoPausedWebhooksByUser uid db)"
    "sound (PauseWebhooksByExecutionMode bt m db)" "sound (ClearAdminDisabledWebhooks bt m db)"
    unfolding UpdateWebhookStatus_def ClearWebhookAutoPaused_def PauseAllWebhooksByUser_def
      ClearAutoPausedWebhooksByUser_def PauseWebhooksByExecutionMode_def ClearAdminDisabledWebhooks_def
    by (intro sound_update_webhooks [OF assms]; simp add: hook_refs_def)+
  show "sound (PauseAllCredentialsByUser uid db)" "sound (ClearAutoPausedCredentialsByUser uid db)"
    "sound (PauseCredentialsByExecutionMode bt m db)" "sound (ClearAdminDisabledCredentials bt m db)"
    "sound (ClearCredentialAutoPaused cid db)"
    unfolding PauseAllCredentialsByUser_def ClearAutoPausedCredentialsByUser_def PauseCredentialsByExecutionMode_def
      ClearAdminDisabledCredentials_def ClearCredentialAutoPaused_def
    using c by (auto intro!: sound_update_creds [OF assms] simp: list_all_iff cred_refs_def cred_check_frame)
qed

end
