(* ===== verification/Access.thy ===== *)
theory Access
  imports Accounts Adapters
begin

section \<open>Access and limits of the HTTP API\<close>

text \<open>
  Models \<^verbatim>\<open>internal/modules/shared\<close>: who may use which webhook and credential, the caps of a plan, and how
  its errors are answered. A handler of the API reads the data base and refuses with a status and a
  message, or changes it. Whether a statement or a command of Redis succeeds is in the environment, by its name, as
  are the random token, the new id, and what \<^verbatim>\<open>uuid.Parse\<close> accepts. A body that does not parse is \<^term>\<open>None\<close>.
  The log of a user's actions keeps the user and the action.
\<close>

subsection \<open>Environment, state and refusals\<close>

type_synonym http_err = "nat \<times> string"

record aenv =
  an_ok :: "string \<Rightarrow> bool"
  an_redis_up :: "string \<Rightarrow> bool"
  an_now :: int
  an_newID :: string
  an_token :: "(string \<times> string) option"
  an_uuid :: "string \<Rightarrow> bool"
  an_cols :: account_cols
  an_zones :: zones

record aworld =
  aw_db :: account_db
  aw_redis :: redis
  aw_trades :: trade_db
  aw_audit :: "(string \<times> string) list"

definition ensure :: "bool \<Rightarrow> nat \<Rightarrow> string \<Rightarrow> http_err + unit" where
  "ensure b status msg = (if b then Inr () else Inl (status, msg))"

definition invalid :: "go_err option \<Rightarrow> http_err + unit" where
  "invalid e = (case e of None \<Rightarrow> Inr () | Some e \<Rightarrow> Inl (400, err_text e))"

definition valid_or :: "nat \<Rightarrow> go_err + 'a \<Rightarrow> http_err + 'a" where
  "valid_or status r = (case r of Inl e \<Rightarrow> Inl (status, err_text e) | Inr x \<Rightarrow> Inr x)"

definition audit :: "string \<Rightarrow> string \<Rightarrow> aworld \<Rightarrow> aworld" where
  "audit uid action w = w\<lparr>aw_audit := aw_audit w @ [(uid, action)]\<rparr>"

definition drop_cached :: "aenv \<Rightarrow> string \<Rightarrow> aworld \<Rightarrow> aworld" where
  "drop_cached env token w =
     (if an_redis_up env ''InvalidateWebhook'' then w\<lparr>aw_redis := InvalidateWebhook token (aw_redis w)\<rparr> else w)"

text \<open>A statement that the program answers with one refusal, whatever its error.\<close>

definition stored :: "aenv \<Rightarrow> string \<Rightarrow> store_err + account_db \<Rightarrow> account_db option" where
  "stored env name r = (if an_ok env name then (case r of Inl _ \<Rightarrow> None | Inr db \<Rightarrow> Some db) else None)"

text \<open>A nil pointer that the code follows is a panic, which the server recovers from with 500.\<close>

definition nil_panic :: http_err where
  "nil_panic = (500, ''runtime error: invalid memory address or nil pointer dereference'')"

definition deref :: "'a option \<Rightarrow> http_err + 'a" where
  "deref x = (case x of None \<Rightarrow> Inl nil_panic | Some v \<Rightarrow> Inr v)"

lemma deref_Inr [simp]: "deref x = Inr v \<longleftrightarrow> x = Some v"
  by (simp add: deref_def split: option.split)

lemma ensure_Inr [simp]: "ensure b status msg = Inr u \<longleftrightarrow> b"
  by (simp add: ensure_def)

lemma invalid_Inr [simp]: "invalid e = Inr u \<longleftrightarrow> e = None"
  by (simp add: invalid_def split: option.split)

lemma valid_or_Inr [simp]: "valid_or s r = Inr x \<longleftrightarrow> r = Inr x"
  by (simp add: valid_or_def split: sum.split)

lemma stored_Some [simp]: "stored env name r = Some db \<longleftrightarrow> an_ok env name \<and> r = Inr db"
  by (simp add: stored_def split: sum.split)

subsection \<open>Errors of a plan\<close>

fun plan_err_text :: "plan_err \<Rightarrow> string" where
  "plan_err_text ErrLiveNotAllowed = ''live trading is not included in your plan''"
| "plan_err_text (ErrWebhookLimitReached n) = ''webhook limit reached for your plan (max '' @ fmt_d n @ '')''"
| "plan_err_text (ErrBrokerLimitReached n) = ''broker limit reached for your plan (max '' @ fmt_d n @ '')''"
| "plan_err_text ErrAuditLogsNotAllowed = ''audit logs require a paid plan''"
| "plan_err_text ErrAdvancedWebhookGuardsNotAllowed = ''advanced webhook guards require a paid plan''"
| "plan_err_text ErrNotificationsNotAllowed = ''notifications require a paid plan''"
| "plan_err_text ErrInvalidAccountMode = ''account_mode must be live''"
| "plan_err_text (ErrPaperAccountLimitReached n) = ''paper account limit reached (max '' @ fmt_d n @ '')''"
| "plan_err_text ErrPaperTradeQuotaExceeded = ''monthly paper trade limit reached''"
| "plan_err_text ErrCredentialNotFound = ''broker credential not found''"

text \<open>An error of a limit check: of the plan, or a refusal that was written already.\<close>

datatype limit_err = OfPlan plan_err | Written nat string

fun PlanError :: "limit_err \<Rightarrow> http_err" where
  "PlanError (OfPlan e) =
     ((case e of ErrLiveNotAllowed \<Rightarrow> 403 | ErrWebhookLimitReached _ \<Rightarrow> 403 | ErrBrokerLimitReached _ \<Rightarrow> 403
       | ErrPaperAccountLimitReached _ \<Rightarrow> 403 | ErrAuditLogsNotAllowed \<Rightarrow> 403
       | ErrAdvancedWebhookGuardsNotAllowed \<Rightarrow> 403 | _ \<Rightarrow> 400), plan_err_text e)"
| "PlanError (Written status msg) = (400, msg)"

definition plan_allows :: "plan_err option \<Rightarrow> http_err + unit" where
  "plan_allows e = (case e of None \<Rightarrow> Inr () | Some e \<Rightarrow> Inl (PlanError (OfPlan e)))"

definition limit_allows :: "limit_err option \<Rightarrow> http_err + unit" where
  "limit_allows e = (case e of None \<Rightarrow> Inr () | Some e \<Rightarrow> Inl (PlanError e))"

lemma plan_allows_Inr [simp]: "plan_allows e = Inr u \<longleftrightarrow> e = None"
  by (simp add: plan_allows_def split: option.split)

lemma limit_allows_Inr [simp]: "limit_allows e = Inr u \<longleftrightarrow> e = None"
  by (simp add: limit_allows_def split: option.split)

text \<open>What holds of the result, when there is one: the rules follow the binds of a handler.\<close>

definition on_ok :: "('a \<Rightarrow> bool) \<Rightarrow> 'e + 'a \<Rightarrow> bool" where
  "on_ok P r = (\<forall>x. r = Inr x \<longrightarrow> P x)"

lemma on_okD: "on_ok P r \<Longrightarrow> r = Inr x \<Longrightarrow> P x"
  by (simp add: on_ok_def)

lemma on_ok_Inr [simp]: "on_ok P (Inr x) = P x"
  by (simp add: on_ok_def)

lemma on_ok_Inl [simp]: "on_ok P (Inl e)"
  by (simp add: on_ok_def)

lemma on_ok_ebind: "on_ok P r \<Longrightarrow> (\<And>x. P x \<Longrightarrow> on_ok Q (f x)) \<Longrightarrow> on_ok Q (ebind r f)"
  by (auto simp: on_ok_def ebind_Inr_iff)

lemma on_ok_ebind_any: "(\<And>x. on_ok Q (f x)) \<Longrightarrow> on_ok Q (ebind r f)"
  by (auto simp: on_ok_def ebind_Inr_iff)

lemma on_ok_ensure: "on_ok (\<lambda>_. b) (ensure b s m)"
  by (simp add: ensure_def)

lemma on_ok_valid_or [simp]: "on_ok P (valid_or s r) = on_ok P r"
  by (cases r) (simp_all add: valid_or_def)

lemma on_ok_mono: "on_ok P r \<Longrightarrow> (\<And>x. P x \<Longrightarrow> Q x) \<Longrightarrow> on_ok Q r"
  by (auto simp: on_ok_def)

text \<open>Steps one after the other: the first error ends them, and what was written before it stays.\<close>

definition and_then :: "('d \<Rightarrow> 'e option \<times> 'd) \<Rightarrow> ('d \<Rightarrow> 'e option \<times> 'd) \<Rightarrow> 'd \<Rightarrow> 'e option \<times> 'd" where
  "and_then f g = (\<lambda>d. case f d of (Some e, d) \<Rightarrow> (Some e, d) | (None, d) \<Rightarrow> g d)"

text \<open>A step that leaves an invariant true, whether it fails or not.\<close>

definition stays :: "('d \<Rightarrow> bool) \<Rightarrow> ('d \<Rightarrow> 'e \<times> 'd) \<Rightarrow> bool" where
  "stays P f = (\<forall>d. P d \<longrightarrow> P (snd (f d)))"

lemma staysD: "stays P f \<Longrightarrow> P d \<Longrightarrow> P (snd (f d))"
  by (simp add: stays_def)

lemma stays_and_then:
  assumes "stays P f" "stays P g"
  shows "stays P (and_then f g)"
  unfolding stays_def
proof (intro allI impI)
  fix d assume "P d"
  then have f: "P (snd (f d))" using assms(1) by (simp add: stays_def)
  show "P (snd (and_then f g d))"
  proof (cases "fst (f d)")
    case None
    then show ?thesis using f assms(2) by (simp add: and_then_def case_prod_beta stays_def)
  qed (use f in \<open>simp add: and_then_def case_prod_beta\<close>)
qed

lemma stays_answer [simp]: "stays P (\<lambda>d. (f d, d))" "stays P (Pair e)"
  by (simp_all add: stays_def)

subsection \<open>Who may use what\<close>

definition ResolveResourceScope :: "string \<Rightarrow> resource_scope" where
  "ResolveResourceScope uid = \<lparr>rs_UserID = uid, rs_OrgID = [], rs_OrgRole = [], rs_InOrg = False\<rparr>"

definition WebhookAccessible :: "resource_scope \<Rightarrow> webhook option \<Rightarrow> bool" where
  "WebhookAccessible scope wh = (case wh of None \<Rightarrow> False | Some wh \<Rightarrow> wh_UserID wh = rs_UserID scope)"

definition WebhookMutable :: "resource_scope \<Rightarrow> webhook option \<Rightarrow> bool" where
  "WebhookMutable scope wh =
     (case wh of None \<Rightarrow> False | Some w \<Rightarrow> WebhookAccessible scope wh \<and> wh_UserID w = rs_UserID scope)"

definition CredentialAccessible :: "resource_scope \<Rightarrow> broker_credential option \<Rightarrow> bool" where
  "CredentialAccessible scope bc = (case bc of None \<Rightarrow> False | Some c \<Rightarrow> bc_UserID c = rs_UserID scope)"

definition CredentialMutable :: "resource_scope \<Rightarrow> broker_credential option \<Rightarrow> bool" where
  "CredentialMutable = CredentialAccessible"

definition CredentialUsableForWebhook :: "resource_scope \<Rightarrow> broker_credential option \<Rightarrow> bool" where
  "CredentialUsableForWebhook scope bc = (case bc of None \<Rightarrow> False | Some c \<Rightarrow> bc_UserID c = rs_UserID scope)"

text \<open>Of the paper account, its user.\<close>

definition PaperAccountUsableForWebhook :: "resource_scope \<Rightarrow> string option \<Rightarrow> bool" where
  "PaperAccountUsableForWebhook scope pa = (case pa of None \<Rightarrow> False | Some uid \<Rightarrow> uid = rs_UserID scope)"

definition RequireWebhookAccess :: "aenv \<Rightarrow> string \<Rightarrow> string \<Rightarrow> bool \<Rightarrow> account_db \<Rightarrow> http_err + webhook" where
  "RequireWebhookAccess env uid wid mutate db =
     ebind (ensure (an_uuid env wid) 400 ''invalid webhook id'') (\<lambda>_.
     ebind (ensure (an_ok env ''GetWebhookByID'') 500 ''lookup failed'') (\<lambda>_.
       let scope = ResolveResourceScope uid; wh = pg_GetWebhookByID db wid;
           ok = (if mutate then WebhookMutable scope wh else WebhookAccessible scope wh) in
       case wh of Some w \<Rightarrow> if ok then Inr w else Inl (404, ''webhook not found'')
       | None \<Rightarrow> Inl (404, ''webhook not found'')))"

definition RequireCredentialAccess :: "aenv \<Rightarrow> string \<Rightarrow> string \<Rightarrow> bool \<Rightarrow> account_db \<Rightarrow> http_err + broker_credential" where
  "RequireCredentialAccess env uid cid mutate db =
     ebind (ensure (an_uuid env cid) 400 ''invalid credential id'') (\<lambda>_.
     ebind (ensure (an_ok env ''GetBrokerCred'') 500 ''lookup failed'') (\<lambda>_.
       let scope = ResolveResourceScope uid; bc = GetBrokerCred db cid;
           ok = (if mutate then CredentialMutable scope bc else CredentialAccessible scope bc) in
       case bc of Some c \<Rightarrow> if ok then Inr c else Inl (404, ''credential not found'')
       | None \<Rightarrow> Inl (404, ''credential not found'')))"

definition load_user :: "aenv \<Rightarrow> string \<Rightarrow> account_db \<Rightarrow> http_err + user" where
  "load_user env uid db =
     (case (if an_ok env ''GetUserByID'' then GetUserByID db uid else None) of
        None \<Rightarrow> Inl (500, ''could not load user'') | Some u \<Rightarrow> Inr u)"

text \<open>\<^verbatim>\<open>EffectiveUserPlan\<close>: a user who is not there has the empty plan.\<close>

definition UserPlan :: "aenv \<Rightarrow> string \<Rightarrow> account_db \<Rightarrow> http_err + string" where
  "UserPlan env uid db =
     ebind (ensure (an_ok env ''UserPlan'') 500 ''could not load user plan'') (\<lambda>_.
       Inr (case GetUserByID db uid of None \<Rightarrow> [] | Some u \<Rightarrow> EffectivePlan (u_Plan u)))"

subsection \<open>The caps of a plan\<close>

definition EnforceWebhookLimit :: "aenv \<Rightarrow> resource_scope \<Rightarrow> user \<Rightarrow> bool \<Rightarrow> account_db \<Rightarrow> limit_err option" where
  "EnforceWebhookLimit env scope user paper db =
     (let limits = LimitsFor (EffectivePlan (u_Plan user)) in
      if \<not> paper \<and> \<not> LiveAllowed limits then Some (OfPlan ErrLiveNotAllowed)
      else if \<not> an_ok env ''CountWebhooks'' then Some (Written 500 ''could not count webhooks'')
      else map_option OfPlan
        (if paper then CanAddWebhook (MaxPaperWebhooks limits) (CountPaperWebhooksByUser db (rs_UserID scope))
         else CanAddWebhook (MaxLiveWebhooks limits) (CountLiveWebhooksByUser db (rs_UserID scope))))"

definition EnforceBrokerLimit :: "aenv \<Rightarrow> resource_scope \<Rightarrow> user \<Rightarrow> account_db \<Rightarrow> limit_err option" where
  "EnforceBrokerLimit env scope user db =
     (if \<not> an_ok env ''CountSoloBrokerCredsByUser'' then Some (Written 500 ''could not count broker credentials'')
      else map_option OfPlan
        (CanAddBroker (MaxBrokers (LimitsFor (EffectivePlan (u_Plan user)))) (CountSoloBrokerCredsByUser db (rs_UserID scope))))"

definition EnforceWebhookResumeLimit :: "aenv \<Rightarrow> resource_scope \<Rightarrow> user \<Rightarrow> bool \<Rightarrow> account_db \<Rightarrow> http_err + unit" where
  "EnforceWebhookResumeLimit env scope user paper db =
     (let limits = LimitsFor (EffectivePlan (u_Plan user));
          max = (if paper then MaxPaperWebhooks limits else MaxLiveWebhooks limits);
          count = (if paper then CountActivePaperWebhooksByUser db (rs_UserID scope)
                   else CountActiveLiveWebhooksByUser db (rs_UserID scope)) in
      ebind (ensure (paper \<or> LiveAllowed limits) 402 ''your plan does not include live trading webhooks'') (\<lambda>_.
      ebind (ensure (an_ok env ''CountActiveWebhooks'') 500 ''could not count webhooks'') (\<lambda>_.
        ensure (count < max) 402
          (''your '' @ u_Plan user @ '' plan allows '' @ fmt_d max @ '' active '' @ (if paper then ''paper'' else ''live'')
             @ '' webhook(s); upgrade to activate more''))))"

definition EnforceCredentialResumeLimit :: "aenv \<Rightarrow> resource_scope \<Rightarrow> user \<Rightarrow> account_db \<Rightarrow> http_err + unit" where
  "EnforceCredentialResumeLimit env scope user db =
     (let max = MaxBrokers (LimitsFor (EffectivePlan (u_Plan user))) in
      ebind (ensure (an_ok env ''CountActiveCredentialsByUser'') 500 ''could not count credentials'') (\<lambda>_.
        ensure (CountActiveCredentialsByUser db (rs_UserID scope) < max) 402
          (''your '' @ u_Plan user @ '' plan allows '' @ fmt_d max @ '' active credential(s); upgrade to activate more'')))"

subsection \<open>A small world for examples\<close>

definition acct_user :: "string \<Rightarrow> string \<Rightarrow> user" where
  "acct_user uid planName = \<lparr> u_ID = uid, u_Email = uid @ ''@x.in'', u_PasswordHash = ''p'', u_Plan = planName,
     u_Role = ''user'', u_Status = ''active'', u_OrgsEnabled = False, u_EarlyBirdLive = False, u_LiveOrdersUsed = 0,
     u_EmailVerifiedAt = Some 0, u_StripeCustomerID = ''cus_'' @ uid, u_StripeSubscriptionID = [],
     u_BillingSource = ''stripe'', u_TelegramChatID = [], u_CreatedAt = 0 \<rparr>"

definition acct_cred :: "string \<Rightarrow> string \<Rightarrow> string \<Rightarrow> broker_credential" where
  "acct_cred cid uid mode = \<lparr> bc_ID = cid, bc_UserID = uid, bc_OrgID = None, bc_CreatedBy = uid, bc_BrokerType = ''zerodha'',
     bc_ExecutionMode = mode, bc_EncryptedCreds = ''k:t'', bc_AccountLabel = cid, bc_AccountMode = ''live'',
     bc_Exchange = ''NSE'', bc_Product = ''MIS'', bc_AlgoID = ''A1'', bc_OrderType = ''MARKET'', bc_MarketProtection = Fin 0,
     bc_ConnectedAt = None, bc_Status = ''active'', bc_AutoPaused = False, bc_AdminDisabled = False \<rparr>"

definition acct_webhook :: "string \<Rightarrow> string \<Rightarrow> string option \<Rightarrow> string option \<Rightarrow> webhook" where
  "acct_webhook wid uid cid aid = \<lparr> wh_ID = wid, wh_UserID = uid, wh_OrgID = None, wh_CreatedBy = uid,
     wh_TokenHash = ''h_'' @ wid, wh_RawToken = [], wh_Label = wid, wh_Status = ''active'', wh_BrokerCredID = cid,
     wh_PaperAccountID = aid, wh_Symbol = ''INFY'', wh_LotSize = Fin 1, wh_MaxRiskPct = Fin 1, wh_SLPoints = 0,
     wh_TPPoints = 0, wh_DefaultOrderType = ''LIMIT'', wh_CreatedAt = 0, wh_AllowedActions = [''BUY'', ''SELL'', ''CLOSE''],
     wh_AllowedSymbols = [''INFY''], wh_MaxLotSize = Fin 0, wh_RateLimitPerSec = 0, wh_RateLimitPerMin = 60,
     wh_DedupWindowSec = 2, wh_Timezone = ''UTC'', wh_TradingHours = None, wh_RequiredComment = [],
     wh_AutoPaused = False, wh_AdminDisabled = False \<rparr>"

definition acct_db :: account_db where
  "acct_db = \<lparr> ad_users = [acct_user ''u'' ''pro'', acct_user ''v'' ''pro''],
     ad_webhooks = [acct_webhook ''w1'' ''u'' (Some ''c1'') None, acct_webhook ''w2'' ''u'' None (Some ''a1''),
       acct_webhook ''w3'' ''v'' (Some ''c2'') None],
     ad_creds = [acct_cred ''c1'' ''u'' ''user_api_oauth'', acct_cred ''c2'' ''v'' ''user_api_oauth''],
     ad_events = [], ad_settings = [], ad_papers = [(''a1'', ''u'')], ad_orgs = [] \<rparr>"

definition acct_env :: aenv where
  "acct_env = \<lparr> an_ok = (\<lambda>_. True), an_redis_up = (\<lambda>_. True), an_now = 1000, an_newID = ''n1'',
     an_token = Some (''wh_raw'', ''h_new''), an_uuid = (\<lambda>_. True), an_cols = \<lparr>ac_lot = Some, ac_pct = Some\<rparr>,
     an_zones = (\<lambda>_. None) \<rparr>"


definition acct_world :: "account_db \<Rightarrow> aworld" where
  "acct_world db = \<lparr>aw_db = db, aw_redis = empty_redis,
     aw_trades = \<lparr>td_trades = [], td_publisher = [], td_events = [], td_webhook_ids = [], td_user_ids = [], td_cred_ids = []\<rparr>,
     aw_audit = []\<rparr>"

end
