(* ===== verification/Webhooks.thy ===== *)
theory Webhooks
  imports Access SignalParse
begin

section \<open>The HTTP API of webhooks\<close>

text \<open>
  Models \<^verbatim>\<open>internal/modules/webhooks/handler.go\<close>: the settings of a webhook's guard, and the requests that
  create, change, pause, resume, rotate and delete a webhook. A body is what it decodes to, \<^term>\<open>None\<close> when it
  does not parse; a field that may be absent is an option.
\<close>

subsection \<open>Guard settings\<close>

record guard_input =
  gi_AllowedActions :: "string list"
  gi_AllowedSymbols :: "string list option"
  gi_MaxLotSize :: "f64 option"
  gi_RateLimitPerSec :: "int option"
  gi_RateLimitPerMin :: "int option"
  gi_DedupWindowSec :: "int option"
  gi_Timezone :: "string option"
  gi_TradingHours :: "trading_schedule option"
  gi_RequiredComment :: "string option"

definition positive :: "int option \<Rightarrow> bool" where
  "positive x = (case x of None \<Rightarrow> False | Some n \<Rightarrow> 0 < n)"

definition usesAdvancedGuards :: "guard_input \<Rightarrow> bool" where
  "usesAdvancedGuards gi =
     (if positive (gi_RateLimitPerSec gi) then True
      else if positive (gi_DedupWindowSec gi) then True
      else if gi_TradingHours gi \<noteq> None \<and> gi_TradingHours gi \<noteq> Some [] then True
      else (case gi_Timezone gi of None \<Rightarrow> False | Some tz \<Rightarrow> trim_space tz \<noteq> [] \<and> tz \<noteq> ''UTC''))"

definition ApplyGuardDefaults :: "webhook \<Rightarrow> webhook" where
  "ApplyGuardDefaults wh = wh\<lparr>wh_AllowedActions := DefaultAllowedActions, wh_AllowedSymbols := [],
     wh_RateLimitPerMin := 60, wh_DedupWindowSec := 2, wh_Timezone := ''UTC'', wh_TradingHours := None\<rparr>"

definition validatePublisherAllowedActions :: "string list \<Rightarrow> go_err option" where
  "validatePublisherAllowedActions actions =
     (if list_ex (\<lambda>a. to_upper a = ''CLOSE'') actions
      then Some (Errorf (''CLOSE is not supported in Kite Publisher mode '' @ em_dash @
             '' allowed_actions may only include BUY and SELL''))
      else None)"

definition order_type_error :: go_err where
  "order_type_error = Errorf ''default_order_type must be MARKET or LIMIT''"

definition normalizeWebhookOrderType :: "string \<Rightarrow> go_err + string" where
  "normalizeWebhookOrderType requested =
     (let ot = to_upper (trim_space requested) in
      if ot = [] then Inr ''LIMIT''
      else if ot \<noteq> ''MARKET'' \<and> ot \<noteq> ''LIMIT'' then Inl order_type_error
      else Inr ot)"

definition resolveWebhookOrderType :: "broker_credential option \<Rightarrow> string \<Rightarrow> go_err + string" where
  "resolveWebhookOrderType cred requested =
     (if (case cred of None \<Rightarrow> False | Some c \<Rightarrow> bc_ExecutionMode c = ''publisher'') then Inr ''LIMIT''
      else normalizeWebhookOrderType requested)"

definition planErr :: "string \<Rightarrow> go_err" where "planErr = Sentinel"

definition set_or :: "'a option \<Rightarrow> ('a \<Rightarrow> bool) \<Rightarrow> string \<Rightarrow> ('a \<Rightarrow> webhook \<Rightarrow> webhook) \<Rightarrow> webhook \<Rightarrow> go_err + webhook" where
  "set_or x ok msg upd wh =
     (case x of None \<Rightarrow> Inr wh | Some v \<Rightarrow> if ok v then Inr (upd v wh) else Inl (planErr msg))"

definition ApplyGuardInput :: "zones \<Rightarrow> guard_input \<Rightarrow> webhook \<Rightarrow> go_err + webhook" where
  "ApplyGuardInput zones gi wh =
     ebind (if gi_AllowedActions gi = [] then Inr wh
            else case ValidateAllowedActions (gi_AllowedActions gi) of Some e \<Rightarrow> Inl e
                 | None \<Rightarrow> Inr (wh\<lparr>wh_AllowedActions := gi_AllowedActions gi\<rparr>)) (\<lambda>wh.
     ebind (set_or (gi_AllowedSymbols gi) (\<lambda>_. True) [] (\<lambda>v. wh_AllowedSymbols_update (\<lambda>_. v)) wh) (\<lambda>wh.
     ebind (set_or (gi_MaxLotSize gi) (\<lambda>v. \<not> v < 0) ''max_lot_size must be >= 0''
              (\<lambda>v. wh_MaxLotSize_update (\<lambda>_. v)) wh) (\<lambda>wh.
     ebind (set_or (gi_RateLimitPerSec gi) (\<lambda>v. \<not> v < 0) ''rate_limit_per_sec must be >= 0''
              (\<lambda>v. wh_RateLimitPerSec_update (\<lambda>_. v)) wh) (\<lambda>wh.
     ebind (set_or (gi_RateLimitPerMin gi) (\<lambda>v. \<not> v < 0) ''rate_limit_per_min must be >= 0''
              (\<lambda>v. wh_RateLimitPerMin_update (\<lambda>_. v)) wh) (\<lambda>wh.
     ebind (set_or (gi_DedupWindowSec gi) (\<lambda>v. \<not> (v < 0 \<or> 60 < v)) ''dedup_window_sec must be between 0 and 60''
              (\<lambda>v. wh_DedupWindowSec_update (\<lambda>_. v)) wh) (\<lambda>wh.
     ebind (set_or (map_option (\<lambda>tz. if trim_space tz = [] then ''UTC'' else trim_space tz) (gi_Timezone gi))
              (\<lambda>tz. LoadLocation zones tz \<noteq> None) ''invalid timezone''
              (\<lambda>v. wh_Timezone_update (\<lambda>_. v)) wh) (\<lambda>wh.
     ebind (set_or (gi_TradingHours gi) (\<lambda>_. True) []
              (\<lambda>v. wh_TradingHours_update (\<lambda>_. if v = [] then None else Some v)) wh) (\<lambda>wh.
       set_or (gi_RequiredComment gi) (\<lambda>_. True) [] (\<lambda>v. wh_RequiredComment_update (\<lambda>_. v)) wh))))))))"

definition EnforceAdvancedGuardsPlan :: "string \<Rightarrow> guard_input \<Rightarrow> bool \<Rightarrow> plan_err option" where
  "EnforceAdvancedGuardsPlan userPlan gi isPaperDestination =
     (if isPaperDestination then None
      else if \<not> usesAdvancedGuards gi then None
      else CanConfigureAdvancedWebhookGuards userPlan)"

definition immutableWebhookFields :: "string list" where
  "immutableWebhookFields = [''id'', ''user_id'', ''created_at'', ''token'', ''status'']"

text \<open>\<^verbatim>\<open>RejectImmutableWebhookFields\<close>, as the refusal of the handler. The keys of an object decide as they are spelled.\<close>

definition RejectImmutableWebhookFields :: "nat \<Rightarrow> json option \<Rightarrow> http_err + unit" where
  "RejectImmutableWebhookFields bodyLen doc =
     (if bodyLen = 0 then Inr ()
      else
        (case doc of
           Some JNull \<Rightarrow> Inr ()
         | Some (JObj kvs) \<Rightarrow>
             (case find (\<lambda>f. f \<in> set (map fst kvs)) immutableWebhookFields of
                Some f \<Rightarrow> Inl (400, f @ '' cannot be updated'')
              | None \<Rightarrow> Inr ())
         | _ \<Rightarrow> Inl (400, ''invalid body'')))"

subsection \<open>Creating a webhook\<close>

record create_webhook =
  cw_Label :: string
  cw_BrokerCredID :: string
  cw_PaperAccountID :: string
  cw_LotSize :: f64
  cw_MaxRiskPct :: f64
  cw_SLPoints :: int
  cw_TPPoints :: int
  cw_DefaultOrderType :: string
  cw_AllowedActions :: "string list"
  cw_AllowedSymbols :: "string list"
  cw_MaxLotSize :: f64
  cw_RateLimitPerSec :: "int option"
  cw_RateLimitPerMin :: "int option"
  cw_DedupWindowSec :: "int option"
  cw_Timezone :: string
  cw_TradingHours :: "trading_schedule option"
  cw_RequiredComment :: string

definition credentialPausedMessage :: "broker_credential \<Rightarrow> string" where
  "credentialPausedMessage cred =
     (if bc_AdminDisabled cred
      then ''Zerodha '' @ (if bc_ExecutionMode cred = ''publisher'' then ''Kite Publisher'' else ''OAuth'') @
           '' is currently disabled by the ZettaBridge admin '' @ em_dash @
           '' this credential cannot be used for a webhook until it is re-enabled''
      else ''this credential is paused; resume it before using it for a webhook'')"

definition resolvePaperDestination :: "aenv \<Rightarrow> resource_scope \<Rightarrow> string \<Rightarrow> account_db \<Rightarrow> http_err + unit" where
  "resolvePaperDestination env scope paperAccountID db =
     ebind (ensure (an_ok env ''GetPaperAccount'') 500 ''paper account lookup failed'') (\<lambda>_.
       ensure (PaperAccountUsableForWebhook scope (map_of (ad_papers db) paperAccountID)) 404 ''paper account not found'')"

text \<open>The destination of a new webhook: it is set in the webhook, and the credential is what the rest needs of it.\<close>

definition create_destination ::
  "aenv \<Rightarrow> resource_scope \<Rightarrow> user \<Rightarrow> create_webhook \<Rightarrow> webhook \<Rightarrow> account_db \<Rightarrow> http_err + (webhook \<times> broker_credential option)" where
  "create_destination env scope user body wh db =
     (if cw_PaperAccountID body \<noteq> [] then
        ebind (resolvePaperDestination env scope (cw_PaperAccountID body) db) (\<lambda>_.
        ebind (limit_allows (EnforceWebhookLimit env scope user True db)) (\<lambda>_.
          Inr (wh\<lparr>wh_PaperAccountID := Some (cw_PaperAccountID body)\<rparr>, None)))
      else
        ebind (ensure (an_ok env ''GetBrokerCred'') 500 ''credential lookup failed'') (\<lambda>_.
          (case GetBrokerCred db (cw_BrokerCredID body) of
             None \<Rightarrow> Inl (404, ''credential not found'')
           | Some cred \<Rightarrow>
               ebind (ensure (CredentialUsableForWebhook scope (Some cred)) 404 ''credential not found'') (\<lambda>_.
               ebind (ensure (bc_Status cred \<noteq> ''paused'') 400 (credentialPausedMessage cred)) (\<lambda>_.
               ebind (limit_allows (EnforceWebhookLimit env scope user False db)) (\<lambda>_.
                 Inr (wh\<lparr>wh_BrokerCredID := Some (cw_BrokerCredID body)\<rparr>, Some cred)))))))"

definition nonempty :: "string \<Rightarrow> string option" where
  "nonempty s = (if s = [] then None else Some s)"

definition new_webhook :: "aenv \<Rightarrow> string \<Rightarrow> create_webhook \<Rightarrow> f64 \<Rightarrow> string \<times> string \<Rightarrow> webhook" where
  "new_webhook env uid body maxRiskPct token =
     \<lparr> wh_ID = an_newID env, wh_UserID = uid, wh_OrgID = None, wh_CreatedBy = uid, wh_TokenHash = snd token,
       wh_RawToken = fst token, wh_Label = cw_Label body, wh_Status = ''active'', wh_BrokerCredID = None,
       wh_PaperAccountID = None, wh_Symbol = [], wh_LotSize = cw_LotSize body, wh_MaxRiskPct = maxRiskPct,
       wh_SLPoints = cw_SLPoints body, wh_TPPoints = cw_TPPoints body, wh_DefaultOrderType = [],
       wh_CreatedAt = an_now env, wh_AllowedActions = [], wh_AllowedSymbols = [], wh_MaxLotSize = 0,
       wh_RateLimitPerSec = 0, wh_RateLimitPerMin = 0, wh_DedupWindowSec = 0, wh_Timezone = [],
       wh_TradingHours = None, wh_RequiredComment = [], wh_AutoPaused = False, wh_AdminDisabled = False \<rparr>"

definition is_publisher :: "broker_credential option \<Rightarrow> bool" where
  "is_publisher cred = (case cred of None \<Rightarrow> False | Some c \<Rightarrow> bc_ExecutionMode c = ''publisher'')"

text \<open>Everything before the INSERT: the webhook to insert.\<close>

definition build_webhook :: "aenv \<Rightarrow> string \<Rightarrow> create_webhook option \<Rightarrow> account_db \<Rightarrow> http_err + webhook" where
  "build_webhook env uid body db =
     (let scope = ResolveResourceScope uid in
      case body of None \<Rightarrow> Inl (400, ''invalid body'')
      | Some body \<Rightarrow>
        ebind (ensure (cw_BrokerCredID body \<noteq> [] \<or> cw_PaperAccountID body \<noteq> []) 400
                 ''either broker_cred_id or paper_account_id is required'') (\<lambda>_.
        ebind (ensure (cw_BrokerCredID body = [] \<or> cw_PaperAccountID body = []) 400
                 ''only one of broker_cred_id or paper_account_id may be specified'') (\<lambda>_.
        ebind (load_user env uid db) (\<lambda>user.
        let risk = NormalizeMaxRiskPct (cw_MaxRiskPct body) in
        ebind (invalid (ValidateMaxRiskPct risk)) (\<lambda>_.
        (case an_token env of None \<Rightarrow> Inl (500, ''could not generate token'')
         | Some token \<Rightarrow>
        ebind (create_destination env scope user body (new_webhook env uid body risk token) db) (\<lambda>(wh, cred).
        ebind (UserPlan env uid db) (\<lambda>userPlan.
        ebind (valid_or 400 (resolveWebhookOrderType cred (cw_DefaultOrderType body))) (\<lambda>ot.
        ebind (valid_or 400 (NormalizeAllowedSymbols (cw_AllowedSymbols body))) (\<lambda>symbols.
        let wh = (ApplyGuardDefaults (wh\<lparr>wh_DefaultOrderType := ot, wh_Symbol := hd symbols\<rparr>))\<lparr>wh_AllowedSymbols := symbols\<rparr>;
            wh = (if is_publisher cred then wh\<lparr>wh_AllowedActions := [''BUY'', ''SELL'']\<rparr> else wh) in
        ebind (if is_publisher cred then invalid (validatePublisherAllowedActions (cw_AllowedActions body)) else Inr ()) (\<lambda>_.
        let gi = \<lparr>gi_AllowedActions = cw_AllowedActions body, gi_AllowedSymbols = Some symbols,
                  gi_MaxLotSize = (if 0 < cw_MaxLotSize body then Some (cw_MaxLotSize body) else None),
                  gi_RateLimitPerSec = cw_RateLimitPerSec body, gi_RateLimitPerMin = cw_RateLimitPerMin body,
                  gi_DedupWindowSec = cw_DedupWindowSec body, gi_Timezone = nonempty (trim_space (cw_Timezone body)),
                  gi_TradingHours = cw_TradingHours body,
                  gi_RequiredComment = nonempty (trim_space (cw_RequiredComment body))\<rparr> in
        ebind (plan_allows (EnforceAdvancedGuardsPlan userPlan gi (cw_PaperAccountID body \<noteq> []))) (\<lambda>_.
          valid_or 400 (ApplyGuardInput (an_zones env) gi wh)))))))))))))"

definition CreateWebhook :: "aenv \<Rightarrow> string \<Rightarrow> create_webhook option \<Rightarrow> aworld \<Rightarrow> (http_err + webhook) \<times> aworld" where
  "CreateWebhook env uid body w =
     (case build_webhook env uid body (aw_db w) of
        Inl e \<Rightarrow> (Inl e, w)
      | Inr wh \<Rightarrow>
          (case stored env ''CreateWebhook'' (pg_CreateWebhook (an_cols env) wh (aw_db w)) of
             None \<Rightarrow> (Inl (500, ''could not create webhook''), w)
           | Some db \<Rightarrow> (Inr wh, audit (wh_UserID wh) ''webhook_created'' (w\<lparr>aw_db := db\<rparr>))))"

subsection \<open>Changing a webhook\<close>

record update_webhook =
  uw_Label :: "string option"
  uw_BrokerCredID :: "string option"
  uw_PaperAccountID :: "string option"
  uw_Symbol :: "string option"
  uw_LotSize :: "f64 option"
  uw_MaxRiskPct :: "f64 option"
  uw_SLPoints :: "int option"
  uw_TPPoints :: "int option"
  uw_DefaultOrderType :: "string option"
  uw_AllowedActions :: "string list option"
  uw_AllowedSymbols :: "string list option"
  uw_MaxLotSize :: "f64 option"
  uw_RateLimitPerSec :: "int option"
  uw_RateLimitPerMin :: "int option"
  uw_DedupWindowSec :: "int option"
  uw_Timezone :: "string option"
  uw_TradingHours :: "trading_schedule option"
  uw_RequiredComment :: "string option"

definition empty_update :: update_webhook where
  "empty_update = \<lparr> uw_Label = None, uw_BrokerCredID = None, uw_PaperAccountID = None, uw_Symbol = None,
     uw_LotSize = None, uw_MaxRiskPct = None, uw_SLPoints = None, uw_TPPoints = None, uw_DefaultOrderType = None,
     uw_AllowedActions = None, uw_AllowedSymbols = None, uw_MaxLotSize = None, uw_RateLimitPerSec = None,
     uw_RateLimitPerMin = None, uw_DedupWindowSec = None, uw_Timezone = None, uw_TradingHours = None,
     uw_RequiredComment = None \<rparr>"

definition update_guard_input :: "update_webhook \<Rightarrow> guard_input" where
  "update_guard_input body =
     \<lparr>gi_AllowedActions = (case uw_AllowedActions body of None \<Rightarrow> [] | Some a \<Rightarrow> a),
      gi_AllowedSymbols = uw_AllowedSymbols body, gi_MaxLotSize = uw_MaxLotSize body,
      gi_RateLimitPerSec = uw_RateLimitPerSec body, gi_RateLimitPerMin = uw_RateLimitPerMin body,
      gi_DedupWindowSec = uw_DedupWindowSec body, gi_Timezone = uw_Timezone body,
      gi_TradingHours = uw_TradingHours body, gi_RequiredComment = uw_RequiredComment body\<rparr>"

text \<open>Whose allowed actions are checked: the credential of the request, or the webhook's when it keeps its destination.\<close>

definition publisher_check :: "aenv \<Rightarrow> update_webhook \<Rightarrow> webhook \<Rightarrow> account_db \<Rightarrow> http_err + unit" where
  "publisher_check env body wh db =
     (let actions = gi_AllowedActions (update_guard_input body);
          credID = (case uw_BrokerCredID body of
                      Some c \<Rightarrow> c
                    | None \<Rightarrow> (if uw_PaperAccountID body = None
                              then (case wh_BrokerCredID wh of None \<Rightarrow> [] | Some c \<Rightarrow> c) else []))
      in if actions = [] \<or> credID = [] \<or> \<not> an_ok env ''GetBrokerCred'' then Inr ()
         else if is_publisher (GetBrokerCred db credID) then invalid (validatePublisherAllowedActions actions)
         else Inr ())"

definition upd :: "'a option \<Rightarrow> ('a \<Rightarrow> webhook \<Rightarrow> webhook) \<Rightarrow> webhook \<Rightarrow> webhook" where
  "upd x f wh = (case x of None \<Rightarrow> wh | Some v \<Rightarrow> f v wh)"

definition update_fields :: "update_webhook \<Rightarrow> webhook \<Rightarrow> http_err + webhook" where
  "update_fields body wh =
     (let wh = upd (uw_Label body) (\<lambda>v. wh_Label_update (\<lambda>_. v)) wh;
          wh = upd (uw_LotSize body) (\<lambda>v. wh_LotSize_update (\<lambda>_. v)) wh in
      ebind (case uw_MaxRiskPct body of None \<Rightarrow> Inr wh
             | Some v \<Rightarrow> ebind (invalid (ValidateMaxRiskPct v)) (\<lambda>_. Inr (wh\<lparr>wh_MaxRiskPct := v\<rparr>))) (\<lambda>wh.
      let wh = upd (uw_SLPoints body) (\<lambda>v. wh_SLPoints_update (\<lambda>_. v)) wh;
          wh = upd (uw_TPPoints body) (\<lambda>v. wh_TPPoints_update (\<lambda>_. v)) wh in
      ebind (case uw_DefaultOrderType body of None \<Rightarrow> Inr wh
             | Some v \<Rightarrow> ebind (valid_or 400 (normalizeWebhookOrderType v)) (\<lambda>ot. Inr (wh\<lparr>wh_DefaultOrderType := ot\<rparr>))) (\<lambda>wh.
        (case uw_AllowedSymbols body of None \<Rightarrow> Inr wh
         | Some v \<Rightarrow> ebind (valid_or 400 (NormalizeAllowedSymbols v)) (\<lambda>symbols.
                       Inr (wh\<lparr>wh_AllowedSymbols := symbols, wh_Symbol := hd symbols\<rparr>))))))"

definition switch_to_cred :: "aenv \<Rightarrow> string \<Rightarrow> user \<Rightarrow> string option \<Rightarrow> account_db \<Rightarrow> webhook \<Rightarrow> http_err + webhook" where
  "switch_to_cred env uid user credID db wh =
     (case credID of None \<Rightarrow> Inr wh
      | Some cid \<Rightarrow>
        ebind (ensure (cid \<noteq> []) 400 ''broker_cred_id cannot be empty'') (\<lambda>_.
        ebind (ensure (an_ok env ''GetBrokerCred'') 500 ''could not load broker credential'') (\<lambda>_.
          (case GetBrokerCred db cid of
             None \<Rightarrow> Inl (404, ''broker credential not found'')
           | Some cred \<Rightarrow>
               ebind (ensure (bc_UserID cred = uid) 404 ''broker credential not found'') (\<lambda>_.
               ebind (ensure (bc_Status cred \<noteq> ''paused'') 400 (credentialPausedMessage cred)) (\<lambda>_.
               ebind (plan_allows (CanUseCredential (u_Plan user) (Some cred))) (\<lambda>_.
                 Inr (wh\<lparr>wh_BrokerCredID := Some cid, wh_PaperAccountID := None\<rparr>))))))))"

definition switch_to_paper :: "aenv \<Rightarrow> string \<Rightarrow> string option \<Rightarrow> account_db \<Rightarrow> webhook \<Rightarrow> http_err + webhook" where
  "switch_to_paper env uid paperID db wh =
     (case paperID of None \<Rightarrow> Inr wh
      | Some aid \<Rightarrow>
        ebind (ensure (aid \<noteq> []) 400 ''paper_account_id cannot be empty'') (\<lambda>_.
        ebind (resolvePaperDestination env (ResolveResourceScope uid) aid db) (\<lambda>_.
          Inr (wh\<lparr>wh_PaperAccountID := Some aid, wh_BrokerCredID := None\<rparr>))))"

definition enforceWebhookOrderType :: "aenv \<Rightarrow> account_db \<Rightarrow> webhook \<Rightarrow> http_err + webhook" where
  "enforceWebhookOrderType env db wh =
     (let lookup = (case wh_BrokerCredID wh of None \<Rightarrow> [] | Some c \<Rightarrow> c) in
      ebind (ensure (lookup = [] \<or> an_ok env ''GetBrokerCred'') 500 ''could not resolve order type'') (\<lambda>_.
      ebind (valid_or 400 (resolveWebhookOrderType (if lookup = [] then None else GetBrokerCred db lookup)
               (wh_DefaultOrderType wh))) (\<lambda>ot. Inr (wh\<lparr>wh_DefaultOrderType := ot\<rparr>))))"

text \<open>Everything before the UPDATE: the webhook to write.\<close>

definition change_webhook ::
  "aenv \<Rightarrow> string \<Rightarrow> string \<Rightarrow> nat \<Rightarrow> json option \<Rightarrow> update_webhook option \<Rightarrow> account_db \<Rightarrow> http_err + webhook" where
  "change_webhook env uid wid bodyLen doc body db =
     ebind (ensure (an_ok env ''GetWebhookByID'') 500 ''lookup failed'') (\<lambda>_.
     (case pg_GetWebhookByID db wid of None \<Rightarrow> Inl (404, ''webhook not found'')
      | Some wh \<Rightarrow>
     ebind (ensure (wh_UserID wh = uid) 404 ''webhook not found'') (\<lambda>_.
     ebind (RejectImmutableWebhookFields bodyLen doc) (\<lambda>_.
     (case body of None \<Rightarrow> Inl (400, ''invalid body'')
      | Some body \<Rightarrow>
     ebind (ensure (body \<noteq> empty_update) 400 ''at least one field required'') (\<lambda>_.
     ebind (ensure (uw_BrokerCredID body = None \<or> uw_PaperAccountID body = None) 400
              ''only one of broker_cred_id or paper_account_id may be specified'') (\<lambda>_.
     ebind (UserPlan env uid db) (\<lambda>userPlan.
     ebind (load_user env uid db) (\<lambda>user.
     let gi = update_guard_input body;
         isPaper = (if uw_BrokerCredID body \<noteq> None then False else if uw_PaperAccountID body \<noteq> None then True
                    else wh_PaperAccountID wh \<noteq> None) in
     ebind (plan_allows (EnforceAdvancedGuardsPlan userPlan gi isPaper)) (\<lambda>_.
     ebind (publisher_check env body wh db) (\<lambda>_.
     ebind (update_fields body wh) (\<lambda>wh.
     ebind (switch_to_cred env uid user (uw_BrokerCredID body) db wh) (\<lambda>wh.
     ebind (switch_to_paper env uid (uw_PaperAccountID body) db wh) (\<lambda>wh.
     ebind (valid_or 400 (ApplyGuardInput (an_zones env) gi wh)) (\<lambda>wh.
       enforceWebhookOrderType env db wh)))))))))))))))"

definition UpdateWebhook ::
  "aenv \<Rightarrow> string \<Rightarrow> string \<Rightarrow> nat \<Rightarrow> json option \<Rightarrow> update_webhook option \<Rightarrow> aworld \<Rightarrow> (http_err + webhook) \<times> aworld" where
  "UpdateWebhook env uid wid bodyLen doc body w =
     (case change_webhook env uid wid bodyLen doc body (aw_db w) of
        Inl e \<Rightarrow> (Inl e, w)
      | Inr wh \<Rightarrow>
          (case stored env ''UpdateWebhook'' (pg_UpdateWebhook (an_cols env) wh (aw_db w)) of
             None \<Rightarrow> (Inl (500, ''could not update webhook''), w)
           | Some db \<Rightarrow> (Inr wh, drop_cached env (wh_TokenHash wh) (w\<lparr>aw_db := db\<rparr>))))"

definition RotateWebhookToken :: "aenv \<Rightarrow> string \<Rightarrow> string \<Rightarrow> aworld \<Rightarrow> (http_err + webhook) \<times> aworld" where
  "RotateWebhookToken env uid wid w =
     (case ebind (ensure (an_ok env ''GetWebhookByID'') 500 ''lookup failed'') (\<lambda>_.
           (case pg_GetWebhookByID (aw_db w) wid of None \<Rightarrow> Inl (404, ''webhook not found'')
            | Some wh \<Rightarrow>
           ebind (ensure (wh_UserID wh = uid) 404 ''webhook not found'') (\<lambda>_.
           (case an_token env of None \<Rightarrow> Inl (500, ''could not generate token'')
            | Some token \<Rightarrow> Inr (wh, token))))) of
        Inl e \<Rightarrow> (Inl e, w)
      | Inr (wh, raw, tokenHash) \<Rightarrow>
          (case stored env ''RotateWebhookToken'' (pg_RotateWebhookToken wid uid tokenHash (aw_db w)) of
             None \<Rightarrow> (Inl (500, ''could not rotate token''), w)
           | Some db \<Rightarrow>
               (Inr (wh\<lparr>wh_TokenHash := tokenHash, wh_RawToken := raw\<rparr>),
                audit uid ''webhook_token_rotated'' (drop_cached env (wh_TokenHash wh) (w\<lparr>aw_db := db\<rparr>)))))"

subsection \<open>Pausing, resuming and deleting\<close>

text \<open>
  What a webhook must satisfy to be resumed.
\<close>

definition may_resume :: "aenv \<Rightarrow> string \<Rightarrow> webhook \<Rightarrow> account_db \<Rightarrow> http_err + unit" where
  "may_resume env uid wh db =
     (let scope = ResolveResourceScope uid in
      ebind (ensure (\<not> wh_AdminDisabled wh) 403
               (''this webhook'' @ [CHR 0x27] @ ''s execution mode is currently disabled by the ZettaBridge admin '' @ em_dash @
                '' it cannot be resumed until it is re-enabled'')) (\<lambda>_.
      ebind (ensure (an_ok env ''GetUserByID'') 500 ''could not load user'') (\<lambda>_.
      let user = GetUserByID db uid in
      ebind (case wh_BrokerCredID wh of
               None \<Rightarrow> Inr ()
             | Some cid \<Rightarrow>
                 (case (if an_ok env ''GetBrokerCred'' then GetBrokerCred db cid else None) of
                    None \<Rightarrow> Inl (400, ''webhook is configured with a missing or inaccessible credential; update the webhook before resuming'')
                  | Some cred \<Rightarrow>
                    ebind (ensure (CredentialUsableForWebhook scope (Some cred)) 400
                             ''webhook is configured with a missing or inaccessible credential; update the webhook before resuming'') (\<lambda>_.
                    ebind (ensure (\<not> bc_AdminDisabled cred) 403
                             (''Zerodha '' @ (if bc_ExecutionMode cred = ''publisher'' then ''Kite Publisher'' else ''OAuth'') @
                              '' is currently disabled by the ZettaBridge admin '' @ em_dash @
                              '' resume the credential once it is re-enabled'')) (\<lambda>_.
                    ebind (ensure (bc_Status cred \<noteq> ''paused'') 400
                             ''the credential associated with this webhook is paused; please resume the credential first'') (\<lambda>_.
                    ebind (deref user) (\<lambda>user.
                      plan_allows (CanUseCredential (u_Plan user) (Some cred)))))))) (\<lambda>_.
      ebind (deref user) (\<lambda>user.
        EnforceWebhookResumeLimit env scope user (wh_PaperAccountID wh \<noteq> None) db)))))"

definition SetWebhookStatus :: "aenv \<Rightarrow> string \<Rightarrow> string \<Rightarrow> string \<Rightarrow> aworld \<Rightarrow> (http_err + string) \<times> aworld" where
  "SetWebhookStatus env uid wid status w =
     (case ebind (RequireWebhookAccess env uid wid True (aw_db w)) (\<lambda>wh.
           ebind (if status = ''active'' then may_resume env uid wh (aw_db w) else Inr ()) (\<lambda>_. Inr wh)) of
        Inl e \<Rightarrow> (Inl e, w)
      | Inr wh \<Rightarrow>
          (if \<not> an_ok env ''UpdateWebhookStatus'' then (Inl (500, ''update failed''), w)
           else (let db = UpdateWebhookStatus wid status (aw_db w);
                     db = (if status = ''active'' \<and> an_ok env ''ClearWebhookAutoPaused'' then ClearWebhookAutoPaused wid db else db)
                 in (Inr status, drop_cached env (wh_TokenHash wh) (w\<lparr>aw_db := db\<rparr>)))))"

definition PauseWebhook :: "aenv \<Rightarrow> string \<Rightarrow> string \<Rightarrow> aworld \<Rightarrow> (http_err + string) \<times> aworld" where
  "PauseWebhook env uid wid = SetWebhookStatus env uid wid ''paused''"

definition ResumeWebhook :: "aenv \<Rightarrow> string \<Rightarrow> string \<Rightarrow> aworld \<Rightarrow> (http_err + string) \<times> aworld" where
  "ResumeWebhook env uid wid = SetWebhookStatus env uid wid ''active''"

definition DeleteWebhook :: "aenv \<Rightarrow> string \<Rightarrow> string \<Rightarrow> aworld \<Rightarrow> (http_err + unit) \<times> aworld" where
  "DeleteWebhook env uid wid w =
     (case RequireWebhookAccess env uid wid True (aw_db w) of
        Inl e \<Rightarrow> (Inl e, w)
      | Inr wh \<Rightarrow>
          (case stored env ''DeleteWebhook'' (pg_DeleteWebhook wid (aw_db w)) of
             None \<Rightarrow> (Inl (500, ''delete failed''), w)
           | Some db \<Rightarrow> (Inr (), audit (wh_UserID wh) ''webhook_deleted'' (drop_cached env (wh_TokenHash wh) (w\<lparr>aw_db := db\<rparr>)))))"

definition GetWebhook :: "aenv \<Rightarrow> string \<Rightarrow> string \<Rightarrow> aworld \<Rightarrow> http_err + webhook" where
  "GetWebhook env uid wid w = RequireWebhookAccess env uid wid False (aw_db w)"

definition ListWebhooks :: "aenv \<Rightarrow> string \<Rightarrow> aworld \<Rightarrow> http_err + webhook list" where
  "ListWebhooks env uid w =
     ebind (ensure (an_ok env ''ListWebhooksForScope'') 500 ''could not list webhooks'') (\<lambda>_.
       Inr (ListWebhooksForScope (aw_db w) (ResolveResourceScope uid)))"

subsection \<open>What a request keeps of a webhook\<close>

text \<open>What only a request of its own kind changes: identity, owner, token, status.\<close>

definition identity :: "webhook \<Rightarrow> (string \<times> string \<times> string option \<times> string) \<times> string \<times> string \<times> string \<times> bool \<times> bool" where
  "identity w = ((wh_ID w, wh_UserID w, wh_OrgID w, wh_CreatedBy w), wh_TokenHash w, wh_RawToken w, wh_Status w,
     wh_AutoPaused w, wh_AdminDisabled w)"

definition destination_of :: "webhook \<Rightarrow> string option \<times> string option" where
  "destination_of w = (wh_BrokerCredID w, wh_PaperAccountID w)"

lemma hook_refs_split: "hook_refs w = (wh_UserID w, wh_CreatedBy w, fst (destination_of w), snd (destination_of w))"
  by (simp add: hook_refs_def destination_of_def)

definition keeps :: "webhook \<Rightarrow> webhook \<Rightarrow> bool" where
  "keeps w w' = (identity w' = identity w \<and> destination_of w' = destination_of w)"

lemma keeps_refl [simp]: "keeps w w"
  by (simp add: keeps_def)

lemma keeps_trans: "keeps a b \<Longrightarrow> keeps b c \<Longrightarrow> keeps a c"
  by (simp add: keeps_def)

lemma on_ok_set_or: "keeps w0 w \<Longrightarrow> (\<And>v. keeps w (f v w)) \<Longrightarrow> on_ok (keeps w0) (set_or x ok msg f w)"
  by (auto simp: set_or_def split: option.splits intro: keeps_trans)

lemma keeps_updates [simp]:
  "keeps x (wh_AllowedActions_update (\<lambda>_. l) x)"
  "keeps x (wh_AllowedSymbols_update (\<lambda>_. l) x)" "keeps x (wh_MaxLotSize_update (\<lambda>_. m) x)"
  "keeps x (wh_RateLimitPerSec_update (\<lambda>_. i) x)" "keeps x (wh_RateLimitPerMin_update (\<lambda>_. i) x)"
  "keeps x (wh_DedupWindowSec_update (\<lambda>_. i) x)" "keeps x (wh_Timezone_update (\<lambda>_. t) x)"
  "keeps x (wh_TradingHours_update (\<lambda>_. th) x)" "keeps x (wh_RequiredComment_update (\<lambda>_. t) x)"
  "keeps x (wh_Label_update (\<lambda>_. t) x)" "keeps x (wh_LotSize_update (\<lambda>_. m) x)"
  "keeps x (wh_MaxRiskPct_update (\<lambda>_. m) x)" "keeps x (wh_SLPoints_update (\<lambda>_. i) x)"
  "keeps x (wh_TPPoints_update (\<lambda>_. i) x)" "keeps x (wh_DefaultOrderType_update (\<lambda>_. t) x)"
  "keeps x (wh_Symbol_update (\<lambda>_. t) x)"
  by (simp_all add: keeps_def identity_def destination_of_def)

lemma keeps_upd: "keeps w0 w \<Longrightarrow> (\<And>v. keeps w (f v w)) \<Longrightarrow> keeps w0 (upd x f w)"
  by (auto simp: upd_def split: option.splits intro: keeps_trans)

lemma ApplyGuardInput_keeps: "on_ok (keeps w) (ApplyGuardInput zones gi w)"
  unfolding ApplyGuardInput_def
proof (rule on_ok_ebind)
  show "on_ok (keeps w) (if gi_AllowedActions gi = [] then Inr w
          else case ValidateAllowedActions (gi_AllowedActions gi) of Some e \<Rightarrow> Inl e
               | None \<Rightarrow> Inr (w\<lparr>wh_AllowedActions := gi_AllowedActions gi\<rparr>))"
    by (simp split: option.splits)
qed (rule on_ok_ebind on_ok_set_or | assumption | rule keeps_updates)+

lemma update_fields_keeps: "on_ok (keeps w) (update_fields body w)"
  unfolding update_fields_def Let_def
proof (rule on_ok_ebind)
  let ?w = "upd (uw_LotSize body) (\<lambda>v. wh_LotSize_update (\<lambda>_. v)) (upd (uw_Label body) (\<lambda>v. wh_Label_update (\<lambda>_. v)) w)"
  have w: "keeps w ?w" by (intro keeps_upd keeps_refl keeps_updates)
  show "on_ok (keeps w) (case uw_MaxRiskPct body of None \<Rightarrow> Inr ?w
      | Some v \<Rightarrow> ebind (invalid (ValidateMaxRiskPct v)) (\<lambda>_. Inr (?w\<lparr>wh_MaxRiskPct := v\<rparr>)))"
    using w by (auto split: option.splits intro!: on_ok_ebind_any intro: keeps_trans [OF _ keeps_updates(12)])
next
  fix x assume x: "keeps w x"
  let ?x = "upd (uw_TPPoints body) (\<lambda>v. wh_TPPoints_update (\<lambda>_. v)) (upd (uw_SLPoints body) (\<lambda>v. wh_SLPoints_update (\<lambda>_. v)) x)"
  have x': "keeps w ?x" using x by (intro keeps_upd keeps_updates)
  show "on_ok (keeps w) (ebind (case uw_DefaultOrderType body of None \<Rightarrow> Inr ?x
      | Some v \<Rightarrow> ebind (valid_or 400 (normalizeWebhookOrderType v)) (\<lambda>ot. Inr (?x\<lparr>wh_DefaultOrderType := ot\<rparr>)))
     (\<lambda>wh. case uw_AllowedSymbols body of None \<Rightarrow> Inr wh
         | Some v \<Rightarrow> ebind (valid_or 400 (NormalizeAllowedSymbols v)) (\<lambda>symbols.
                       Inr (wh\<lparr>wh_AllowedSymbols := symbols, wh_Symbol := hd symbols\<rparr>))))"
  proof (rule on_ok_ebind [where P = "keeps w"])
    show "on_ok (keeps w) (case uw_DefaultOrderType body of None \<Rightarrow> Inr ?x
      | Some v \<Rightarrow> ebind (valid_or 400 (normalizeWebhookOrderType v)) (\<lambda>ot. Inr (?x\<lparr>wh_DefaultOrderType := ot\<rparr>)))"
      using x' by (auto split: option.splits intro!: on_ok_ebind_any intro: keeps_trans [OF _ keeps_updates(15)])
  next
    fix y assume y: "keeps w y"
    show "on_ok (keeps w) (case uw_AllowedSymbols body of None \<Rightarrow> Inr y
         | Some v \<Rightarrow> ebind (valid_or 400 (NormalizeAllowedSymbols v)) (\<lambda>symbols.
                       Inr (y\<lparr>wh_AllowedSymbols := symbols, wh_Symbol := hd symbols\<rparr>)))"
      using y by (auto split: option.splits intro!: on_ok_ebind_any
          intro: keeps_trans [OF _ keeps_trans [OF keeps_updates(2) keeps_updates(16)]])
  qed
qed

text \<open>A destination that the user may use.\<close>

definition usable :: "account_db \<Rightarrow> string \<Rightarrow> string option \<times> string option \<Rightarrow> bool" where
  "usable db uid d =
     ((\<exists>cid c. d = (Some cid, None) \<and> c \<in> set (ad_creds db) \<and> bc_ID c = cid \<and> bc_UserID c = uid \<and> bc_Status c \<noteq> ''paused'') \<or>
      (\<exists>aid. d = (None, Some aid) \<and> (aid, uid) \<in> set (ad_papers db)))"

lemma usable_same_owner: "usable db (wh_UserID w) (destination_of w) \<Longrightarrow> same_owner db w"
  by (auto simp: usable_def same_owner_def destination_of_def list_ex_iff)

lemma resolvePaper_ok: "on_ok (\<lambda>_. (aid, uid) \<in> set (ad_papers db)) (resolvePaperDestination env (ResolveResourceScope uid) aid db)"
  unfolding resolvePaperDestination_def
  by (rule on_ok_ebind_any)
    (auto simp: ensure_def ResolveResourceScope_def PaperAccountUsableForWebhook_def split: option.splits dest: map_of_SomeD)

lemma GetBrokerCred_Some: "GetBrokerCred db cid = Some c \<Longrightarrow> c \<in> set (ad_creds db) \<and> bc_ID c = cid"
  unfolding GetBrokerCred_def by (rule find_key)

text \<open>What a destination is set to: a webhook that keeps its identity, and whose destination the user may use.\<close>

definition directed :: "account_db \<Rightarrow> string \<Rightarrow> webhook \<Rightarrow> webhook \<Rightarrow> bool" where
  "directed db uid w w' = (identity w' = identity w \<and> usable db uid (destination_of w'))"

lemma directed_paper:
  "(aid, uid) \<in> set (ad_papers db) \<Longrightarrow> wh_BrokerCredID w' = None \<Longrightarrow> wh_PaperAccountID w' = Some aid \<Longrightarrow>
   identity w' = identity w \<Longrightarrow> directed db uid w w'"
  by (auto simp: directed_def usable_def destination_of_def)

lemma directed_cred:
  "GetBrokerCred db cid = Some c \<Longrightarrow> bc_UserID c = uid \<Longrightarrow> bc_Status c \<noteq> ''paused'' \<Longrightarrow> wh_PaperAccountID w' = None \<Longrightarrow>
   wh_BrokerCredID w' = Some cid \<Longrightarrow> identity w' = identity w \<Longrightarrow> directed db uid w w'"
  by (auto simp: directed_def usable_def destination_of_def dest!: GetBrokerCred_Some)

lemma create_destination_ok:
  assumes "wh_BrokerCredID w = None" "wh_PaperAccountID w = None"
  shows "on_ok (\<lambda>r. directed db uid w (fst r)) (create_destination env (ResolveResourceScope uid) user body w db)"
proof (cases "cw_PaperAccountID body = []")
  case False
  have "on_ok (\<lambda>r. directed db uid w (fst r))
    (ebind (resolvePaperDestination env (ResolveResourceScope uid) (cw_PaperAccountID body) db) (\<lambda>_.
        ebind (limit_allows (EnforceWebhookLimit env (ResolveResourceScope uid) user True db)) (\<lambda>_.
          Inr (w\<lparr>wh_PaperAccountID := Some (cw_PaperAccountID body)\<rparr>, None))))"
    by (rule on_ok_ebind [OF resolvePaper_ok], rule on_ok_ebind_any)
      (use assms in \<open>auto intro!: directed_paper simp: identity_def\<close>)
  with False show ?thesis by (simp add: create_destination_def)
next
  case True
  show ?thesis
  proof (cases "GetBrokerCred db (cw_BrokerCredID body)")
    case None
    then show ?thesis using True by (auto simp: create_destination_def intro!: on_ok_ebind_any)
  next
    case (Some c)
    have "on_ok (\<lambda>r. directed db uid w (fst r))
      (ebind (ensure (CredentialUsableForWebhook (ResolveResourceScope uid) (Some c)) 404 ''credential not found'') (\<lambda>_.
               ebind (ensure (bc_Status c \<noteq> ''paused'') 400 (credentialPausedMessage c)) (\<lambda>_.
               ebind (limit_allows (EnforceWebhookLimit env (ResolveResourceScope uid) user False db)) (\<lambda>_.
                 Inr (w\<lparr>wh_BrokerCredID := Some (cw_BrokerCredID body)\<rparr>, Some c)))))"
      by (rule on_ok_ebind [OF on_ok_ensure], rule on_ok_ebind [OF on_ok_ensure], rule on_ok_ebind_any)
        (use assms Some in \<open>auto intro!: directed_cred simp: identity_def ResolveResourceScope_def CredentialUsableForWebhook_def\<close>)
    then show ?thesis using True Some by (simp add: create_destination_def on_ok_ebind_any)
  qed
qed


lemma directed_keeps: "directed db uid w w' \<Longrightarrow> keeps w' w'' \<Longrightarrow> directed db uid w w''"
  by (simp add: directed_def keeps_def)

lemma build_webhook_ok:
  "on_ok (\<lambda>wh. wh_UserID wh = uid \<and> wh_CreatedBy wh = uid \<and> wh_ID wh = an_newID env \<and> usable db uid (destination_of wh))
     (build_webhook env uid body db)"
proof (cases body)
  case None
  then show ?thesis by (simp add: build_webhook_def Let_def)
next
  case (Some b)
  let ?P = "\<lambda>wh. wh_UserID wh = uid \<and> wh_CreatedBy wh = uid \<and> wh_ID wh = an_newID env \<and> usable db uid (destination_of wh)"
  have fin: "on_ok ?P (ApplyGuardInput z gi w')"
    if d: "directed db uid (new_webhook env uid b r t) w" and k: "keeps w w'" for z gi w w' r t
  proof -
    have "on_ok (keeps w') (ApplyGuardInput z gi w')" by (rule ApplyGuardInput_keeps)
    moreover have "?P x" if "keeps w' x" for x
      using directed_keeps [OF directed_keeps [OF d k] that]
      by (simp add: directed_def identity_def new_webhook_def)
    ultimately show ?thesis unfolding on_ok_def by blast
  qed
  have k: "keeps w (if c then (g\<lparr>wh_AllowedActions := a\<rparr>) else g)"
    if "g = (ApplyGuardDefaults (w\<lparr>wh_DefaultOrderType := ot, wh_Symbol := s\<rparr>))\<lparr>wh_AllowedSymbols := l\<rparr>" for w c a g ot s l
    using that by (simp add: keeps_def identity_def destination_of_def ApplyGuardDefaults_def Let_def)
  show ?thesis
    unfolding Some build_webhook_def Let_def option.case
    apply (rule on_ok_ebind_any)+
    apply (cases "an_token env")
     apply simp
    apply (simp only: option.case)
    apply (rule on_ok_ebind [OF create_destination_ok])
      apply (simp_all only: new_webhook_def webhook.simps)
    apply (simp only: case_prod_beta)
    apply (rule on_ok_ebind_any)+
    apply (simp only: on_ok_valid_or)
    apply (rule fin [unfolded new_webhook_def])
     apply assumption
    apply (rule k [OF refl])
    done
qed

text \<open>A changed webhook is a row of the user's, with its identity, and goes where it went or where the user may point it.\<close>

lemma switch_to_cred_ok:
  "on_ok (\<lambda>w'. keeps w w' \<or> directed db uid w w') (switch_to_cred env uid user cid db w)"
proof (cases cid)
  case None
  then show ?thesis by (simp add: switch_to_cred_def)
next
  case (Some i)
  show ?thesis
  proof (cases "GetBrokerCred db i")
    case None
    then show ?thesis using Some by (auto simp: switch_to_cred_def intro!: on_ok_ebind_any)
  next
    case (Some c)
    have "on_ok (\<lambda>w'. keeps w w' \<or> directed db uid w w')
      (ebind (ensure (bc_UserID c = uid) 404 ''broker credential not found'') (\<lambda>_.
               ebind (ensure (bc_Status c \<noteq> ''paused'') 400 (credentialPausedMessage c)) (\<lambda>_.
               ebind (plan_allows (CanUseCredential (u_Plan user) (Some c))) (\<lambda>_.
                 Inr (w\<lparr>wh_BrokerCredID := Some i, wh_PaperAccountID := None\<rparr>)))))"
      by (rule on_ok_ebind [OF on_ok_ensure], rule on_ok_ebind [OF on_ok_ensure], rule on_ok_ebind_any)
        (use Some in \<open>auto intro!: directed_cred simp: identity_def\<close>)
    then show ?thesis using Some \<open>cid = Some i\<close> by (simp add: switch_to_cred_def on_ok_ebind_any)
  qed
qed

lemma switch_to_paper_ok:
  "on_ok (\<lambda>w'. w' = w \<or> directed db uid w w') (switch_to_paper env uid aid db w)"
proof (cases aid)
  case None
  then show ?thesis by (simp add: switch_to_paper_def)
next
  case (Some i)
  have "on_ok (\<lambda>w'. w' = w \<or> directed db uid w w')
    (ebind (resolvePaperDestination env (ResolveResourceScope uid) i db) (\<lambda>_.
          Inr (w\<lparr>wh_PaperAccountID := Some i, wh_BrokerCredID := None\<rparr>)))"
    by (rule on_ok_ebind [OF resolvePaper_ok]) (auto intro!: directed_paper simp: identity_def)
  with Some show ?thesis by (simp add: switch_to_paper_def on_ok_ebind_any)
qed

lemma enforceWebhookOrderType_keeps: "on_ok (keeps w) (enforceWebhookOrderType env db w)"
  by (simp add: enforceWebhookOrderType_def Let_def on_ok_ebind_any)


definition redirected :: "account_db \<Rightarrow> string \<Rightarrow> webhook \<Rightarrow> webhook \<Rightarrow> bool" where
  "redirected db uid w w' = (keeps w w' \<or> directed db uid w w')"

lemma redirected_refl: "redirected db uid w w"
  by (simp add: redirected_def)

lemma redirected_step: "redirected db uid w a \<Longrightarrow> keeps a b \<or> directed db uid a b \<Longrightarrow> redirected db uid w b"
  by (auto simp: redirected_def keeps_def directed_def)

lemma on_ok_redirected:
  "redirected db uid w a \<Longrightarrow> on_ok (\<lambda>b. keeps a b \<or> directed db uid a b) r \<Longrightarrow> on_ok (redirected db uid w) r"
  by (auto simp: on_ok_def intro: redirected_step)

lemma GetWebhookByID_Some:
  "pg_GetWebhookByID db wid = Some w \<Longrightarrow> \<exists>r \<in> set (ad_webhooks db). wh_ID r = wid \<and> w = scanWebhook r"
  unfolding pg_GetWebhookByID_def by (auto dest: find_key)

lemma change_webhook_ok:
  "on_ok (\<lambda>w'. \<exists>w. pg_GetWebhookByID db wid = Some w \<and> wh_UserID w = uid \<and> redirected db uid w w')
     (change_webhook env uid wid bodyLen doc body db)"
proof (cases "pg_GetWebhookByID db wid")
  case None
  then show ?thesis by (simp add: change_webhook_def on_ok_ebind_any)
next
  case (Some w)
  show ?thesis
  proof (cases body)
    case None
    then show ?thesis using Some by (simp add: change_webhook_def on_ok_ebind_any)
  next
    case b: (Some b)
    show ?thesis
    proof (cases "wh_UserID w = uid")
      case False
      then show ?thesis using Some by (simp add: change_webhook_def ensure_def ebind_def on_ok_def split: sum.splits)
    next
      case u: True
      note bind = on_ok_ebind [where P = "redirected db uid w" and Q = "redirected db uid w"]
      note step = on_ok_redirected [where db = db and uid = uid and w = w]
      have "on_ok (redirected db uid w) (change_webhook env uid wid bodyLen doc body db)"
        unfolding change_webhook_def Some b option.case Let_def
        apply (rule on_ok_ebind_any, rule on_ok_ebind_any, rule on_ok_ebind_any, rule on_ok_ebind_any, rule on_ok_ebind_any,
            rule on_ok_ebind_any, rule on_ok_ebind_any, rule on_ok_ebind_any, rule on_ok_ebind_any)
        apply (rule bind, rule on_ok_mono [OF update_fields_keeps], simp add: redirected_def)
        apply (rule bind, rule step, assumption, rule switch_to_cred_ok)
        apply (rule bind, rule step, assumption, rule on_ok_mono [OF switch_to_paper_ok], force)
        apply (rule bind, rule step, assumption, subst on_ok_valid_or, rule on_ok_mono [OF ApplyGuardInput_keeps], blast)
        apply (rule step, assumption, rule on_ok_mono [OF enforceWebhookOrderType_keeps], blast)
        done
      then show ?thesis using Some u by (simp add: on_ok_def)
    qed
  qed
qed

end
