(* ===== verification/CredentialApi.thy ===== *)
theory CredentialApi
  imports Access
begin

section \<open>The HTTP API of broker credentials\<close>

text \<open>
  Models \<^verbatim>\<open>internal/modules/credentials/handler.go\<close> and the switches of \<^verbatim>\<open>internal/modules/admin/zerodha_settings.go\<close>.
  AES, Base64 and the random nonce are parameters, as in \<open>Credentials\<close>, and so is a broker's account
  equity. Answers that echo a credential are the credential.
\<close>

record cenv =
  cn_api :: aenv
  cn_adapters :: "string list"
  cn_key :: "string option"
  cn_seal :: "string \<Rightarrow> string \<Rightarrow> string \<Rightarrow> string \<Rightarrow> string"
  cn_open :: "string \<Rightarrow> string \<Rightarrow> string \<Rightarrow> string \<Rightarrow> string option"
  cn_b64enc :: "string \<Rightarrow> string"
  cn_b64dec :: "string \<Rightarrow> string option"
  cn_nonce :: string
  cn_policy :: policy
  cn_brokerMode :: string
  cn_equity :: "string \<Rightarrow> broker_credential \<Rightarrow> parsed \<Rightarrow> go_err + (go_err + f64)"

subsection \<open>The session of Zerodha\<close>

text \<open>Instants in milliseconds; India is five and a half hours ahead of UTC all year.\<close>

definition ist_offset :: int where "ist_offset = 19800000"
definition day_ms :: int where "day_ms = 86400000"

definition ZerodhaTokenStatus :: "int option \<Rightarrow> int \<Rightarrow> string" where
  "ZerodhaTokenStatus connectedAt now =
     (let local = now + ist_offset;
          todayCutoff = local div day_ms * day_ms + 6 * 3600000;
          lastExpiry = (if local < todayCutoff then todayCutoff - day_ms else todayCutoff)
      in if (case connectedAt of None \<Rightarrow> True | Some t \<Rightarrow> t + ist_offset < lastExpiry) then ''expired''
         else if local mod day_ms div 3600000 = 5 \<and> 40 \<le> local mod 3600000 div 60000 then ''expires_soon''
         else ''valid'')"

subsection \<open>Options of a credential\<close>

definition IsValidBrokerType :: "string \<Rightarrow> bool" where
  "IsValidBrokerType t = (t = ''mt5_cloud'' \<or> t = ''zerodha'' \<or> t = ''angel'' \<or> t = ''dhan'')"

definition NormalizeExecutionMode :: "string \<Rightarrow> string \<Rightarrow> go_err + string" where
  "NormalizeExecutionMode brokerType requestedMode =
     (if brokerType = ''zerodha'' then
        (if requestedMode = ''publisher'' then Inr ''publisher''
         else if requestedMode = ''user_api_oauth'' \<or> requestedMode = [] then Inr ''user_api_oauth''
         else Inl (Errorf (''execution_mode '' @ fmt_q requestedMode @
                '' is not supported for zerodha (use user_api_oauth or publisher)'')))
      else if requestedMode \<noteq> [] \<and> requestedMode \<noteq> ''direct_api'' then
        Inl (Errorf (''execution_mode '' @ fmt_q requestedMode @ '' is not supported for '' @ brokerType @
               ''; only direct_api is allowed''))
      else Inr ''direct_api'')"

definition NormalizeCredentialOptions :: "string \<Rightarrow> string \<Rightarrow> string \<Rightarrow> string \<Rightarrow> go_err + (string \<times> string \<times> string)" where
  "NormalizeCredentialOptions brokerType exchange product' orderType =
     (if brokerType = ''mt5_cloud'' then Inr ([], [], ''MARKET'')
      else if brokerType = ''zerodha'' \<or> brokerType = ''angel'' \<or> brokerType = ''dhan'' then
        (let ex = to_upper (trim_space exchange); ot = to_upper (trim_space orderType);
             ot = (if ot = [] then ''MARKET'' else ot) in
         if trim_space exchange = [] then Inl (Errorf ''exchange is required for Indian brokers (NSE or BSE)'')
         else if ex \<noteq> ''NSE'' \<and> ex \<noteq> ''BSE'' then Inl (Errorf ''exchange must be NSE or BSE'')
         else (case ValidateStored ex product' of Some e \<Rightarrow> Inl e
           | None \<Rightarrow> if ot \<noteq> ''MARKET'' \<and> ot \<noteq> ''LIMIT'' then Inl (Errorf ''order_type must be MARKET or LIMIT'')
                    else Inr (ex, Default product', ot)))
      else Inl (Errorf ''unsupported broker_type''))"

definition productsFromRequest :: "string \<Rightarrow> string list \<Rightarrow> string list" where
  "productsFromRequest product' products =
     (if products \<noteq> [] then products
      else (let trimmed = trim_space product' in
        if trimmed = [] then [] else if CHR '','' \<in> set trimmed then Parse trimmed else [trimmed]))"

definition normalizeCredentialProducts :: "string \<Rightarrow> string \<Rightarrow> string list \<Rightarrow> bool \<Rightarrow> go_err + (string \<times> string)" where
  "normalizeCredentialProducts brokerType exchange products allowMultiple =
     (if brokerType = ''mt5_cloud'' then Inr ([], [])
      else if brokerType = ''zerodha'' \<or> brokerType = ''angel'' \<or> brokerType = ''dhan''
      then NormalizeSettings exchange products allowMultiple
      else Inl (Errorf ''unsupported broker_type''))"

subsection \<open>Settings of the platform\<close>

definition setting_of :: "aenv \<Rightarrow> account_db \<Rightarrow> string \<Rightarrow> go_err + string option" where
  "setting_of env db key =
     (if an_ok env ''GetPlatformSetting'' then Inr (GetPlatformSetting db key)
      else Inl (Errorf ''store: get platform setting''))"

text \<open>Both switches of the administrator, for the mode and the key of each.\<close>

definition set_mode_enabled :: "aenv \<Rightarrow> string \<Rightarrow> string \<Rightarrow> string \<Rightarrow> string \<Rightarrow> bool option \<Rightarrow> aworld \<Rightarrow> (http_err + bool) \<times> aworld" where
  "set_mode_enabled env key mode action adminID enabled w =
     (case enabled of None \<Rightarrow> (Inl (400, ''enabled (boolean) is required''), w)
      | Some on \<Rightarrow>
          (case stored env ''SetPlatformSetting''
                  (SetPlatformSetting key (if on then ''true'' else ''false'') adminID (aw_db w)) of
             None \<Rightarrow> (Inl (500, ''could not update setting''), w)
           | Some db \<Rightarrow>
               (let step = (\<lambda>name f db. if an_ok env name then f ''zerodha'' mode db else db);
                    db = (if on then step ''ClearAdminDisabledWebhooks'' ClearAdminDisabledWebhooks
                                       (step ''ClearAdminDisabledCredentials'' ClearAdminDisabledCredentials db)
                          else step ''PauseWebhooksByExecutionMode'' PauseWebhooksByExecutionMode
                                 (step ''PauseCredentialsByExecutionMode'' PauseCredentialsByExecutionMode db))
                in (Inr on, audit adminID action (w\<lparr>aw_db := db\<rparr>)))))"

definition AdminSetZerodhaOAuthEnabled :: "aenv \<Rightarrow> string \<Rightarrow> bool option \<Rightarrow> aworld \<Rightarrow> (http_err + bool) \<times> aworld" where
  "AdminSetZerodhaOAuthEnabled env =
     set_mode_enabled env OAuthEnabledSettingKey ''user_api_oauth'' ''zerodha_oauth_enabled_changed''"

definition AdminSetZerodhaPublisherEnabled :: "aenv \<Rightarrow> string \<Rightarrow> bool option \<Rightarrow> aworld \<Rightarrow> (http_err + bool) \<times> aworld" where
  "AdminSetZerodhaPublisherEnabled env =
     set_mode_enabled env PublisherEnabledSettingKey ''publisher'' ''zerodha_publisher_enabled_changed''"

definition get_mode_enabled :: "aenv \<Rightarrow> string \<Rightarrow> aworld \<Rightarrow> http_err + bool" where
  "get_mode_enabled env key w =
     (case setting_of env (aw_db w) key of Inl _ \<Rightarrow> Inl (500, ''could not load setting'')
      | Inr None \<Rightarrow> Inr True | Inr (Some v) \<Rightarrow> Inr (v = ''true''))"

subsection \<open>Creating and changing a credential\<close>

record create_cred =
  cc_BrokerType :: string
  cc_AccountLabel :: string
  cc_AccountMode :: string
  cc_Exchange :: string
  cc_Product :: string
  cc_Products :: "string list"
  cc_AlgoID :: string
  cc_MarketProtection :: f64
  cc_RawCreds :: string
  cc_ExecutionMode :: string

definition mode_enabled :: "aenv \<Rightarrow> account_db \<Rightarrow> string \<Rightarrow> string \<Rightarrow> http_err + unit" where
  "mode_enabled env db brokerType executionMode =
     (if brokerType \<noteq> ''zerodha'' then Inr ()
      else if executionMode = ''publisher''
      then ensure (PublisherEnabled (setting_of env db)) 403 ''Zerodha Publisher is currently disabled by the platform admin''
      else ensure (OAuthEnabled (setting_of env db)) 403 ''Zerodha OAuth is currently disabled by the platform admin'')"

definition EnforceResolvableAlgoID :: "cenv \<Rightarrow> broker_credential \<Rightarrow> http_err + unit" where
  "EnforceResolvableAlgoID env bc =
     (case ResolveForCredential (Some bc) (cn_policy env) of Inl e \<Rightarrow> Inl (400, PublicFrom (Some e)) | Inr _ \<Rightarrow> Inr ())"

definition bad_raw_creds :: "string \<Rightarrow> string \<Rightarrow> string" where
  "bad_raw_creds brokerType mode = ''invalid raw_creds (expected '' @ FormatHintForMode brokerType mode @ '')''"

definition multi_product :: "user \<Rightarrow> bool" where
  "multi_product user = MultiProductCredentials (LimitsFor (EffectivePlan (u_Plan user)))"

definition encrypt_creds :: "cenv \<Rightarrow> string \<Rightarrow> string \<Rightarrow> http_err + string" where
  "encrypt_creds env raw cid =
     (case cn_key env of None \<Rightarrow> Inl (500, ''could not load encryption key'')
      | Some key \<Rightarrow>
          (case Encrypt (cn_seal env) (cn_b64enc env) (cn_nonce env) raw key cid of
             Inl _ \<Rightarrow> Inl (500, ''could not save credential'') | Inr e \<Rightarrow> Inr e))"

definition build_cred :: "cenv \<Rightarrow> string \<Rightarrow> create_cred option \<Rightarrow> account_db \<Rightarrow> http_err + broker_credential" where
  "build_cred env uid body db =
     (let api = cn_api env; scope = ResolveResourceScope uid in
      case body of None \<Rightarrow> Inl (400, ''invalid body'')
      | Some body \<Rightarrow>
        let bt = cc_BrokerType body in
        ebind (ensure (IsValidBrokerType bt) 400 ''broker_type required'') (\<lambda>_.
        ebind (ensure (RequireBroker (NewRouter (cn_adapters env)) bt = None) 400
                 (''broker '' @ bt @ '' is not enabled on this deployment'')) (\<lambda>_.
        ebind (valid_or 400 (NormalizeExecutionMode bt (cc_ExecutionMode body))) (\<lambda>mode.
        ebind (mode_enabled api db bt mode) (\<lambda>_.
        ebind (load_user api uid db) (\<lambda>user.
        ebind (ensure (trim_space (cc_RawCreds body) \<noteq> []) 400 ''raw_creds is required'') (\<lambda>_.
        ebind (ensure (ValidateCreds bt (cc_RawCreds body) = None) 400 (bad_raw_creds bt mode)) (\<lambda>_.
        ebind (valid_or 400 (normalizeCredentialProducts bt (cc_Exchange body)
                 (productsFromRequest (cc_Product body) (cc_Products body)) (multi_product user))) (\<lambda>(exchange, product').
        ebind (limit_allows (EnforceBrokerLimit api scope user db)) (\<lambda>_.
        (case NormalizeAccountMode (u_Plan user) (cc_AccountMode body) of
           Inl e \<Rightarrow> Inl (PlanError (OfPlan e))
         | Inr accountMode \<Rightarrow>
        ebind (encrypt_creds env (cc_RawCreds body) (an_newID api)) (\<lambda>encrypted.
        let bc = \<lparr> bc_ID = an_newID api, bc_UserID = uid, bc_OrgID = None, bc_CreatedBy = uid, bc_BrokerType = bt,
                   bc_ExecutionMode = mode, bc_EncryptedCreds = encrypted, bc_AccountLabel = cc_AccountLabel body,
                   bc_AccountMode = accountMode, bc_Exchange = exchange, bc_Product = product',
                   bc_AlgoID = trim_space (cc_AlgoID body), bc_OrderType = ''MARKET'',
                   bc_MarketProtection = cc_MarketProtection body, bc_ConnectedAt = None, bc_Status = [],
                   bc_AutoPaused = False, bc_AdminDisabled = False \<rparr> in
        ebind (EnforceResolvableAlgoID env bc) (\<lambda>_. Inr bc)))))))))))))"

definition CreateCredential :: "cenv \<Rightarrow> string \<Rightarrow> create_cred option \<Rightarrow> aworld \<Rightarrow> (http_err + broker_credential) \<times> aworld" where
  "CreateCredential env uid body w =
     (let api = cn_api env in
      case build_cred env uid body (aw_db w) of
        Inl e \<Rightarrow> (Inl e, w)
      | Inr bc \<Rightarrow>
          (case stored api ''CreateBrokerCred'' (CreateBrokerCred (an_cols api) bc (aw_db w)) of
             None \<Rightarrow> (Inl (500, ''could not save credential''), w)
           | Some db \<Rightarrow> (Inr bc, audit uid ''credential_created'' (w\<lparr>aw_db := db\<rparr>))))"

record update_cred =
  uc_BrokerType :: "string option"
  uc_AccountLabel :: "string option"
  uc_AccountMode :: "string option"
  uc_Exchange :: "string option"
  uc_Product :: "string option"
  uc_Products :: "string list"
  uc_AlgoID :: "string option"
  uc_MarketProtection :: "f64 option"
  uc_RawCreds :: "string option"
  uc_ExecutionMode :: "string option"

definition empty_cred_update :: update_cred where
  "empty_cred_update = \<lparr> uc_BrokerType = None, uc_AccountLabel = None, uc_AccountMode = None, uc_Exchange = None,
     uc_Product = None, uc_Products = [], uc_AlgoID = None, uc_MarketProtection = None, uc_RawCreds = None,
     uc_ExecutionMode = None \<rparr>"

definition string_of :: "string option \<Rightarrow> string" where
  "string_of s = (case s of None \<Rightarrow> [] | Some s \<Rightarrow> s)"

definition updc :: "'a option \<Rightarrow> ('a \<Rightarrow> broker_credential \<Rightarrow> broker_credential) \<Rightarrow> broker_credential \<Rightarrow> broker_credential" where
  "updc x f bc = (case x of None \<Rightarrow> bc | Some v \<Rightarrow> f v bc)"

text \<open>A change of the execution mode, which active webhooks forbid unless it is forced.\<close>

definition change_mode :: "aenv \<Rightarrow> bool \<Rightarrow> string option \<Rightarrow> account_db \<Rightarrow> broker_credential \<Rightarrow> http_err + broker_credential" where
  "change_mode env force mode db bc =
     (case mode of None \<Rightarrow> Inr bc
      | Some requested \<Rightarrow>
        ebind (valid_or 400 (NormalizeExecutionMode (bc_BrokerType bc) requested)) (\<lambda>newMode.
          if newMode = bc_ExecutionMode bc then Inr bc
          else
            ebind (ensure (an_ok env ''CountActiveWebhooksForCred'') 500 ''could not check webhook usage'') (\<lambda>_.
            ebind (ensure (\<not> (0 < CountActiveWebhooksForCred db (bc_ID bc) \<and> \<not> force)) 409
                     (''credential has '' @ fmt_d (CountActiveWebhooksForCred db (bc_ID bc)) @
                      '' active webhook(s); pass ?force=true to switch execution mode'')) (\<lambda>_.
              Inr (bc\<lparr>bc_ExecutionMode := newMode\<rparr>)))))"

definition change_products :: "user \<Rightarrow> update_cred \<Rightarrow> broker_credential \<Rightarrow> http_err + broker_credential" where
  "change_products user body bc =
     (if uc_Exchange body = None \<and> uc_Product body = None \<and> uc_Products body = [] then Inr bc
      else
        (let ex = (case uc_Exchange body of None \<Rightarrow> bc_Exchange bc | Some ex \<Rightarrow> ex);
             req = productsFromRequest (string_of (uc_Product body)) (uc_Products body);
             req = (if req = [] then Parse (bc_Product bc) else req) in
         ebind (valid_or 400 (normalizeCredentialProducts (bc_BrokerType bc) ex req (multi_product user)))
           (\<lambda>(ex, product'). Inr (bc\<lparr>bc_Exchange := ex, bc_Product := product'\<rparr>))))"

definition change_secret :: "cenv \<Rightarrow> string option \<Rightarrow> broker_credential \<Rightarrow> http_err + broker_credential" where
  "change_secret env raw bc =
     (case raw of None \<Rightarrow> Inr bc
      | Some raw \<Rightarrow>
        ebind (ensure (trim_space raw \<noteq> []) 400 ''raw_creds cannot be empty'') (\<lambda>_.
        ebind (ensure (ValidateCreds (bc_BrokerType bc) raw = None) 400
                 (bad_raw_creds (bc_BrokerType bc) (bc_ExecutionMode bc))) (\<lambda>_.
        ebind (encrypt_creds env raw (bc_ID bc)) (\<lambda>encrypted. Inr (bc\<lparr>bc_EncryptedCreds := encrypted\<rparr>)))))"

definition change_fields :: "cenv \<Rightarrow> bool \<Rightarrow> update_cred \<Rightarrow> user \<Rightarrow> account_db \<Rightarrow> broker_credential \<Rightarrow> http_err + broker_credential" where
  "change_fields env force body user db bc =
     ebind (change_mode (cn_api env) force (uc_ExecutionMode body) db bc) (\<lambda>bc.
     ebind (case uc_BrokerType body of None \<Rightarrow> Inr bc
            | Some t \<Rightarrow> ebind (ensure (t \<noteq> [] \<and> IsValidBrokerType t) 400 ''invalid broker_type'') (\<lambda>_.
                         Inr (bc\<lparr>bc_BrokerType := t\<rparr>))) (\<lambda>bc.
     ebind (change_products user body bc) (\<lambda>bc.
     let bc = updc (uc_MarketProtection body) (\<lambda>v. bc_MarketProtection_update (\<lambda>_. v)) bc;
         bc = updc (uc_AccountLabel body) (\<lambda>v. bc_AccountLabel_update (\<lambda>_. v)) bc;
         bc = updc (uc_AlgoID body) (\<lambda>v. bc_AlgoID_update (\<lambda>_. trim_space v)) bc in
     ebind (case uc_AccountMode body of None \<Rightarrow> Inr bc
            | Some m \<Rightarrow> (case NormalizeAccountMode (u_Plan user) m of
                Inl e \<Rightarrow> Inl (PlanError (OfPlan e)) | Inr m \<Rightarrow> Inr (bc\<lparr>bc_AccountMode := m\<rparr>))) (\<lambda>bc.
     ebind (change_secret env (uc_RawCreds body) bc) (\<lambda>bc.
     ebind (plan_allows (CanUseCredential (u_Plan user) (Some bc))) (\<lambda>_.
     ebind (EnforceResolvableAlgoID env bc) (\<lambda>_. Inr bc)))))))"

definition change_cred :: "cenv \<Rightarrow> string \<Rightarrow> string \<Rightarrow> bool \<Rightarrow> update_cred option \<Rightarrow> account_db \<Rightarrow> http_err + broker_credential" where
  "change_cred env uid cid force body db =
     (let api = cn_api env in
      ebind (RequireCredentialAccess api uid cid True db) (\<lambda>bc.
      (case body of None \<Rightarrow> Inl (400, ''invalid body'')
       | Some body \<Rightarrow>
      ebind (ensure (body \<noteq> empty_cred_update) 400 ''at least one field required'') (\<lambda>_.
      ebind (load_user api (bc_UserID bc) db) (\<lambda>user.
        change_fields env force body user db bc)))))"

definition UpdateCredential ::
  "cenv \<Rightarrow> string \<Rightarrow> string \<Rightarrow> bool \<Rightarrow> update_cred option \<Rightarrow> aworld \<Rightarrow> (http_err + broker_credential) \<times> aworld" where
  "UpdateCredential env uid cid force body w =
     (let api = cn_api env in
      case change_cred env uid cid force body (aw_db w) of
        Inl e \<Rightarrow> (Inl e, w)
      | Inr bc \<Rightarrow>
          (case stored api ''UpdateBrokerCred'' (UpdateBrokerCred (an_cols api) bc (aw_db w)) of
             None \<Rightarrow> (Inl (500, ''could not update credential''), w)
           | Some db \<Rightarrow> (Inr bc, w\<lparr>aw_db := db\<rparr>)))"

definition DeleteCredential :: "aenv \<Rightarrow> string \<Rightarrow> string \<Rightarrow> aworld \<Rightarrow> (http_err + unit) \<times> aworld" where
  "DeleteCredential env uid cid w =
     (case ebind (RequireCredentialAccess env uid cid True (aw_db w)) (\<lambda>bc.
           ebind (ensure (an_ok env ''CountWebhooksByBrokerCred'') 500 ''could not check webhook usage'') (\<lambda>_.
           ebind (ensure (\<not> 0 < CountWebhooksByBrokerCred (aw_db w) cid) 409 ''credential is in use by one or more webhooks'') (\<lambda>_.
             Inr bc))) of
        Inl e \<Rightarrow> (Inl e, w)
      | Inr bc \<Rightarrow>
          (case stored env ''DeleteBrokerCred'' (DeleteBrokerCred cid bc (aw_db w)) of
             None \<Rightarrow> (Inl (500, ''could not delete credential''), w)
           | Some db \<Rightarrow> (Inr (), audit (bc_UserID bc) ''credential_deleted'' (w\<lparr>aw_db := db\<rparr>))))"

subsection \<open>Pausing and resuming\<close>

definition may_resume_cred :: "aenv \<Rightarrow> string \<Rightarrow> broker_credential \<Rightarrow> account_db \<Rightarrow> http_err + unit" where
  "may_resume_cred env uid bc db =
     ebind (ensure (\<not> bc_AdminDisabled bc) 403
              (''Zerodha '' @ (if bc_ExecutionMode bc = ''publisher'' then ''Kite Publisher'' else ''OAuth'') @
               '' is currently disabled by the ZettaBridge admin '' @ em_dash @
               '' this credential cannot be resumed until it is re-enabled'')) (\<lambda>_.
     ebind (ensure (an_ok env ''GetUserByID'') 500 ''could not load user'') (\<lambda>_.
     ebind (deref (GetUserByID db uid)) (\<lambda>user.
     ebind (plan_allows (CanUseCredential (u_Plan user) (Some bc))) (\<lambda>_.
       EnforceCredentialResumeLimit env (ResolveResourceScope uid) user db))))"

definition SetCredentialStatus :: "aenv \<Rightarrow> string \<Rightarrow> string \<Rightarrow> string \<Rightarrow> aworld \<Rightarrow> (http_err + string) \<times> aworld" where
  "SetCredentialStatus env uid cid status w =
     (case ebind (RequireCredentialAccess env uid cid True (aw_db w)) (\<lambda>bc.
           if status = ''active'' then may_resume_cred env uid bc (aw_db w) else Inr ()) of
        Inl e \<Rightarrow> (Inl e, w)
      | Inr _ \<Rightarrow>
          (case stored env ''UpdateBrokerCredStatus'' (UpdateBrokerCredStatus cid status (aw_db w)) of
             None \<Rightarrow> (Inl (500, ''update failed''), w)
           | Some db \<Rightarrow>
               (Inr status, w\<lparr>aw_db := (if status = ''active'' \<and> an_ok env ''ClearCredentialAutoPaused''
                                       then ClearCredentialAutoPaused cid db else db)\<rparr>)))"

definition PauseCredential :: "aenv \<Rightarrow> string \<Rightarrow> string \<Rightarrow> aworld \<Rightarrow> (http_err + string) \<times> aworld" where
  "PauseCredential env uid cid = SetCredentialStatus env uid cid ''paused''"

definition ResumeCredential :: "aenv \<Rightarrow> string \<Rightarrow> string \<Rightarrow> aworld \<Rightarrow> (http_err + string) \<times> aworld" where
  "ResumeCredential env uid cid = SetCredentialStatus env uid cid ''active''"

definition ListCredentials :: "aenv \<Rightarrow> (string \<Rightarrow> nat) \<Rightarrow> string \<Rightarrow> aworld \<Rightarrow> http_err + broker_credential list" where
  "ListCredentials env collate uid w =
     ebind (ensure (an_ok env ''ListBrokerCredsForScope'') 500 ''could not list credentials'') (\<lambda>_.
       Inr (ListBrokerCredsForScope collate (aw_db w) (ResolveResourceScope uid)))"

text \<open>Of each of the user's live Zerodha sessions: the credential and its status.\<close>

definition ZerodhaStatus :: "aenv \<Rightarrow> (string \<Rightarrow> nat) \<Rightarrow> string \<Rightarrow> aworld \<Rightarrow> http_err + (string \<times> string) list" where
  "ZerodhaStatus env collate uid w =
     ebind (ensure (an_ok env ''ListBrokerCredsForScope'') 500 ''could not load credentials'') (\<lambda>_.
       Inr (map (\<lambda>bc. (bc_ID bc, ZerodhaTokenStatus (bc_ConnectedAt bc) (an_now env)))
         (filter (\<lambda>bc. bc_BrokerType bc = ''zerodha'' \<and> bc_AccountMode bc = ''live'' \<and> bc_Status bc = ''active'' \<and>
                       bc_ExecutionMode bc \<noteq> ''publisher'')
           (ListBrokerCredsForScope collate (aw_db w) (ResolveResourceScope uid)))))"

subsection \<open>Verifying a credential\<close>

record verification =
  vf_valid :: bool
  vf_error :: string
  vf_code :: string
  vf_hint :: string
  vf_needs_oauth :: bool

definition credentialAuthHint :: "string \<Rightarrow> string" where
  "credentialAuthHint brokerType =
     (if brokerType = ''zerodha'' then ''Kite access token may have expired '' @ em_dash @ '' generate a new daily token and PUT raw_creds (api_key:access_token)''
      else if brokerType = ''angel'' then ''SmartAPI JWT may have expired '' @ em_dash @ '' re-login and PUT raw_creds (api_key:client_code:jwt)''
      else if brokerType = ''dhan'' then ''Dhan access token expires after ~24h '' @ em_dash @ '' regenerate from web.dhan.co and PUT raw_creds (client_id:access_token)''
      else if brokerType = ''mt5_cloud'' then ''MetaApi auth token or account_id may be wrong '' @ em_dash @ '' verify auth_token:account_id in MetaApi dashboard''
      else ''Re-PUT raw_creds after refreshing broker session tokens (manual refresh only in v1)'')"

definition CredentialVerifyHint :: "string \<Rightarrow> go_err option \<Rightarrow> string" where
  "CredentialVerifyHint brokerType err =
     (let code = CodeOf err in
      if err = None then []
      else if code = CodeAuthFailed then credentialAuthHint brokerType
      else if code = CodeBrokerUnreachable then
        ''Broker API unreachable '' @ em_dash @ '' check network, BROKER_*_BASE_URL, and static IP whitelist with your broker''
      else if code = CodeRateLimited then ''Broker rate limit hit '' @ em_dash @ '' wait a few seconds and retry verify''
      else if code = CodeInvalidSymbol then
        ''Symbol or security ID not recognized '' @ em_dash @ '' check exchange (NSE/BSE) and trading symbol on the credential webhook''
      else if code = CodeInsufficientMargin then
        ''Account has insufficient margin for a probe call '' @ em_dash @ '' credentials may still be valid; check fund limits in broker portal''
      else credentialAuthHint brokerType)"

definition CredentialVerifyFailure :: "string \<Rightarrow> string \<Rightarrow> go_err option \<Rightarrow> verification" where
  "CredentialVerifyFailure brokerType errMsg err =
     \<lparr>vf_valid = False, vf_error = errMsg, vf_code = CodeOf err,
      vf_hint = (if err \<noteq> None then CredentialVerifyHint brokerType err
                 else if errMsg \<noteq> [] \<and> contains ''invalid format'' errMsg
                 then ''Use raw_creds format '' @ FormatHint brokerType else []),
      vf_needs_oauth = False\<rparr>"

definition verified :: verification where
  "verified = \<lparr>vf_valid = True, vf_error = [], vf_code = [], vf_hint = [], vf_needs_oauth = False\<rparr>"

definition VerifyCredential :: "cenv \<Rightarrow> string \<Rightarrow> string \<Rightarrow> aworld \<Rightarrow> http_err + verification" where
  "VerifyCredential env uid cid w =
     (let api = cn_api env; db = aw_db w in
      ebind (RequireCredentialAccess api uid cid False db) (\<lambda>bc.
      let bt = bc_BrokerType bc; fail = (\<lambda>msg e. Inr (CredentialVerifyFailure bt msg e));
          options = NormalizeCredentialOptions bt (bc_Exchange bc) (bc_Product bc) (bc_OrderType bc) in
      if trim_space (bc_EncryptedCreds bc) = [] then
        (case options of Inl e \<Rightarrow> fail (err_text e) None | Inr _ \<Rightarrow> Inr verified)
      else
        (case cn_key env of None \<Rightarrow> Inl (500, ''could not load encryption key'')
         | Some key \<Rightarrow>
        (case PlaintextOrDecrypt (cn_open env) (cn_b64dec env) (bc_EncryptedCreds bc) key (bc_ID bc) of
           Inl _ \<Rightarrow> Inl (500, ''could not read credential'')
         | Inr plaintext \<Rightarrow>
        (case ParseCreds bt plaintext of
           Inl _ \<Rightarrow> fail (''invalid format (expected '' @ FormatHint bt @ '')'') None
         | Inr p \<Rightarrow>
        (case options of Inl e \<Rightarrow> fail (err_text e) None
         | Inr _ \<Rightarrow>
        (if bt = ''zerodha'' \<and> bc_ExecutionMode bc = ''publisher'' then Inr verified
         else if bt = ''zerodha'' \<and> bc_AccountMode bc = ''live'' \<and> pc_AccessToken p = []
         then Inr (verified\<lparr>vf_valid := False, vf_needs_oauth := True\<rparr>)
         else if bt = ''zerodha'' \<and> \<not> OAuthEnabled (setting_of api db)
         then fail ''Zerodha OAuth is currently disabled by the platform admin'' None
         else
        ebind (load_user api (bc_UserID bc) db) (\<lambda>user.
        (case ResolveExecution (cn_brokerMode env) (EffectivePlan (u_Plan user)) (Some bc) of
           Inl e \<Rightarrow> Inl (if err_is e ErrLive then 403 else 400, err_text e)
         | Inr mode \<Rightarrow>
        (case cn_equity env mode (bc\<lparr>bc_EncryptedCreds := plaintext\<rparr>) p of
           Inl e \<Rightarrow> fail (err_text e) (Some e)
         | Inr (Inl e) \<Rightarrow> fail (PublicFrom (Some e)) (Some e)
         | Inr (Inr _) \<Rightarrow> Inr verified))))))))))"

subsection \<open>What a change keeps of a credential\<close>

definition cred_identity :: "broker_credential \<Rightarrow> (string \<times> string \<times> string \<times> string option) \<times> string \<times> bool \<times> bool" where
  "cred_identity c = ((bc_ID c, bc_UserID c, bc_CreatedBy c, bc_OrgID c), bc_Status c, bc_AutoPaused c, bc_AdminDisabled c)"

abbreviation same_cred :: "broker_credential \<Rightarrow> broker_credential \<Rightarrow> bool" where
  "same_cred c c' \<equiv> cred_identity c' = cred_identity c"

lemma cred_identity_updates [simp]:
  "cred_identity (c\<lparr>bc_ExecutionMode := s\<rparr>) = cred_identity c" "cred_identity (c\<lparr>bc_BrokerType := s\<rparr>) = cred_identity c"
  "cred_identity (c\<lparr>bc_Exchange := s\<rparr>) = cred_identity c" "cred_identity (c\<lparr>bc_Product := s\<rparr>) = cred_identity c"
  "cred_identity (c\<lparr>bc_EncryptedCreds := s\<rparr>) = cred_identity c" "cred_identity (c\<lparr>bc_AccountMode := s\<rparr>) = cred_identity c"
  "cred_identity (updc x (\<lambda>v. bc_MarketProtection_update (\<lambda>_. g v)) c) = cred_identity c"
  "cred_identity (updc y (\<lambda>v. bc_AccountLabel_update (\<lambda>_. h v)) c) = cred_identity c"
  "cred_identity (updc y (\<lambda>v. bc_AlgoID_update (\<lambda>_. h v)) c) = cred_identity c"
  by (simp_all add: cred_identity_def updc_def split: option.split)

lemma change_mode_ok: "on_ok (same_cred c) (change_mode env force mode db c)"
  by (auto simp: change_mode_def split: option.split intro!: on_ok_ebind_any)

lemma change_products_ok: "on_ok (same_cred c) (change_products user body c)"
  by (auto simp: change_products_def Let_def split: option.split intro!: on_ok_ebind_any)

lemma change_secret_ok: "on_ok (same_cred c) (change_secret env raw c)"
  by (auto simp: change_secret_def split: option.split intro!: on_ok_ebind_any)

lemma RequireCredentialAccess_ok:
  "on_ok (\<lambda>c. GetBrokerCred db cid = Some c \<and> bc_UserID c = uid) (RequireCredentialAccess env uid cid mutate db)"
  unfolding RequireCredentialAccess_def
  by (rule on_ok_ebind_any, rule on_ok_ebind_any)
    (auto simp: Let_def CredentialMutable_def CredentialAccessible_def ResolveResourceScope_def split: option.split)

lemma change_fields_ok: "on_ok (same_cred c) (change_fields env force body user db c)"
proof -
  note bind = on_ok_ebind [where P = "same_cred c" and Q = "same_cred c"]
  have step: "on_ok (same_cred c) r" if "same_cred c a" "on_ok (same_cred a) r" for a r
    using that by (simp add: on_ok_def)
  show ?thesis
    unfolding change_fields_def Let_def
    apply (rule bind, rule change_mode_ok)
    apply (rule bind)
     apply (force split: option.split intro: on_ok_ebind_any)
    apply (rule bind, erule step, rule change_products_ok)
    apply (rule bind)
     apply (simp split: option.split sum.split)
    apply (rule bind, erule step, rule change_secret_ok)
    apply (rule on_ok_ebind_any, rule on_ok_ebind_any)
    apply simp
    done
qed

lemma change_cred_ok:
  "on_ok (\<lambda>c'. \<exists>c. GetBrokerCred db cid = Some c \<and> bc_UserID c = uid \<and> same_cred c c') (change_cred env uid cid force body db)"
  unfolding change_cred_def Let_def
proof (rule on_ok_ebind [OF RequireCredentialAccess_ok])
  fix c assume c: "GetBrokerCred db cid = Some c \<and> bc_UserID c = uid"
  show "on_ok (\<lambda>c'. \<exists>c. GetBrokerCred db cid = Some c \<and> bc_UserID c = uid \<and> same_cred c c')
     (case body of None \<Rightarrow> Inl (400, ''invalid body'')
       | Some body \<Rightarrow>
      ebind (ensure (body \<noteq> empty_cred_update) 400 ''at least one field required'') (\<lambda>_.
      ebind (load_user (cn_api env) (bc_UserID c) db) (\<lambda>user. change_fields env force body user db c)))"
    using c by (auto split: option.split intro!: on_ok_ebind_any on_ok_mono [OF change_fields_ok])
qed

lemma build_cred_ok: "on_ok (\<lambda>c. bc_UserID c = uid \<and> bc_ID c = an_newID (cn_api env)) (build_cred env uid body db)"
  unfolding build_cred_def Let_def
  by (auto split: option.split sum.split intro!: on_ok_ebind_any)


subsection \<open>The age of a session\<close>

text \<open>The instants at which the tokens of Zerodha end: six o'clock in India, every day.\<close>

definition token_expiry :: "int \<Rightarrow> bool" where
  "token_expiry e = ((e + ist_offset) mod day_ms = 6 * 3600000)"

lemma token_expiry_iff: "token_expiry e \<longleftrightarrow> (\<exists>k. e = k * day_ms + 6 * 3600000 - ist_offset)"
proof -
  have "(e + ist_offset) mod day_ms = 6 * 3600000 \<Longrightarrow> e = (e + ist_offset) div day_ms * day_ms + 6 * 3600000 - ist_offset"
    using div_mult_mod_eq [of "e + ist_offset" day_ms] by linarith
  then show ?thesis by (auto simp: token_expiry_def day_ms_def)
qed

text \<open>The last expiry at or before an instant of the clock in India, in that clock.\<close>

definition last_expiry :: "int \<Rightarrow> int" where
  "last_expiry l = (let cut = l div day_ms * day_ms + 6 * 3600000 in if l < cut then cut - day_ms else cut)"

lemma day_split: "l div day_ms * day_ms + l mod day_ms = (l::int)" "0 \<le> l mod day_ms" "l mod day_ms < day_ms"
  by (simp_all add: day_ms_def)

lemma last_expiry_bounds: "last_expiry l \<le> l" "l < last_expiry l + day_ms"
  using day_split [of l] by (auto simp: last_expiry_def Let_def day_ms_def)

lemma last_expiry_form: "\<exists>k. last_expiry l = k * day_ms + 6 * 3600000"
  unfolding last_expiry_def Let_def
  by (cases "l < l div day_ms * day_ms + 6 * 3600000")
    (auto intro: exI [of _ "l div day_ms"] exI [of _ "l div day_ms - 1"] simp: algebra_simps)

lemma token_expiry_last: "token_expiry e \<longleftrightarrow> (\<exists>k. e + ist_offset = last_expiry l + k * day_ms)"
proof -
  obtain k0 where k0: "last_expiry l = k0 * day_ms + 6 * 3600000" using last_expiry_form by blast
  show ?thesis
  proof
    assume "token_expiry e"
    then obtain k where "e = k * day_ms + 6 * 3600000 - ist_offset" unfolding token_expiry_iff by blast
    then show "\<exists>k. e + ist_offset = last_expiry l + k * day_ms"
      using k0 by (intro exI [of _ "k - k0"]) (simp add: algebra_simps)
  next
    assume "\<exists>k. e + ist_offset = last_expiry l + k * day_ms"
    then obtain k where "e + ist_offset = last_expiry l + k * day_ms" by blast
    then show "token_expiry e" unfolding token_expiry_iff using k0 by (intro exI [of _ "k + k0"]) (simp add: algebra_simps)
  qed
qed

lemma token_expired_iff:
  "(\<exists>e. token_expiry e \<and> t < e \<and> e \<le> now) \<longleftrightarrow> t + ist_offset < last_expiry (now + ist_offset)" (is "_ \<longleftrightarrow> _ < ?last")
proof
  note last_le = last_expiry_bounds [of "now + ist_offset"]
  assume "\<exists>e. token_expiry e \<and> t < e \<and> e \<le> now"
  then obtain e k where e: "t < e" "e \<le> now" "e + ist_offset = ?last + k * day_ms" using token_expiry_last by blast
  have "k \<le> 0" using e last_le unfolding day_ms_def by linarith
  then show "t + ist_offset < ?last" using e by (simp add: day_ms_def)
next
  assume "t + ist_offset < ?last"
  moreover have "token_expiry (?last - ist_offset)"
    unfolding token_expiry_last [of _ "now + ist_offset"] by (intro exI [of _ 0]) simp
  ultimately show "\<exists>e. token_expiry e \<and> t < e \<and> e \<le> now"
    using last_expiry_bounds [of "now + ist_offset"] by (intro exI [of _ "?last - ist_offset"]) simp
qed

lemma token_soon_iff:
  "(\<exists>e. token_expiry e \<and> now < e \<and> e \<le> now + 20 * 60000) \<longleftrightarrow>
   last_expiry (now + ist_offset) + day_ms - (now + ist_offset) \<le> 20 * 60000" (is "_ \<longleftrightarrow> ?last + _ - _ \<le> _")
proof
  note last_le = last_expiry_bounds [of "now + ist_offset"]
  assume "\<exists>e. token_expiry e \<and> now < e \<and> e \<le> now + 20 * 60000"
  then obtain e k where e: "now < e" "e \<le> now + 20 * 60000" "e + ist_offset = ?last + k * day_ms" using token_expiry_last by blast
  have "1 \<le> k" using e last_le unfolding day_ms_def by linarith
  then show "?last + day_ms - (now + ist_offset) \<le> 20 * 60000" using e by (simp add: day_ms_def)
next
  assume "?last + day_ms - (now + ist_offset) \<le> 20 * 60000"
  moreover have "token_expiry (?last + day_ms - ist_offset)"
    unfolding token_expiry_last [of _ "now + ist_offset"] by (intro exI [of _ 1]) simp
  ultimately show "\<exists>e. token_expiry e \<and> now < e \<and> e \<le> now + 20 * 60000"
    using last_expiry_bounds [of "now + ist_offset"] by (intro exI [of _ "?last + day_ms - ist_offset"]) simp
qed

text \<open>What the hour and the minute of a clock say of the milliseconds since midnight.\<close>

lemma clock_window:
  "m div 3600000 = 5 \<and> 40 \<le> m mod 3600000 div 60000 \<longleftrightarrow> 5 * 3600000 + 40 * 60000 \<le> m \<and> m < 6 * (3600000::int)"
proof -
  define q r where "q = m div 3600000" and "r = m mod 3600000"
  define s u where "s = r div 60000" and "u = r mod 60000"
  have q: "m = 3600000 * q + r" "0 \<le> r" "r < 3600000" unfolding q_def r_def by simp_all
  have s: "r = 60000 * s + u" "0 \<le> u" "u < 60000" unfolding s_def u_def by simp_all
  have "q = 5 \<and> 40 \<le> s \<longleftrightarrow> 5 * 3600000 + 40 * 60000 \<le> m \<and> m < 6 * 3600000"
  proof
    assume "q = 5 \<and> 40 \<le> s"
    then show "5 * 3600000 + 40 * 60000 \<le> m \<and> m < 6 * 3600000" using q s by linarith
  next
    assume a: "5 * 3600000 + 40 * 60000 \<le> m \<and> m < 6 * 3600000"
    have "q \<le> 5" "5 \<le> q" using a q by linarith+
    then have "q = 5" by simp
    then show "q = 5 \<and> 40 \<le> s" using a q(1) s by linarith
  qed
  then show ?thesis by (simp add: q_def r_def s_def)
qed

lemma token_clock_iff:
  "l mod day_ms div 3600000 = 5 \<and> 40 \<le> l mod 3600000 div 60000 \<longleftrightarrow> last_expiry l + day_ms - l \<le> 20 * 60000"
proof -
  have "l mod day_ms mod 3600000 = l mod 3600000" by (simp add: day_ms_def mod_mod_cancel)
  then have "l mod day_ms div 3600000 = 5 \<and> 40 \<le> l mod 3600000 div 60000 \<longleftrightarrow>
    5 * 3600000 + 40 * 60000 \<le> l mod day_ms \<and> l mod day_ms < 6 * 3600000"
    using clock_window [of "l mod day_ms"] by simp
  also have "\<dots> \<longleftrightarrow> last_expiry l + day_ms - l \<le> 20 * 60000"
    unfolding last_expiry_def Let_def using day_split [of l]
    by (cases "l < l div day_ms * day_ms + 6 * 3600000") (simp_all only: if_True if_False day_ms_def, linarith+)
  finally show ?thesis .
qed

text \<open>
  A Zerodha session is reported as what it is: expired when there was none or a daily expiry lies between the
  connection and now, about to expire when the next expiry is at most twenty minutes ahead, and valid
  otherwise.
\<close>

theorem token_status_spec:
  "ZerodhaTokenStatus connectedAt now =
     (if (case connectedAt of None \<Rightarrow> True | Some t \<Rightarrow> \<exists>e. token_expiry e \<and> t < e \<and> e \<le> now) then ''expired''
      else if \<exists>e. token_expiry e \<and> now < e \<and> e \<le> now + 20 * 60000 then ''expires_soon'' else ''valid'')"
  unfolding ZerodhaTokenStatus_def Let_def token_soon_iff token_expired_iff token_clock_iff [symmetric]
  by (cases connectedAt) (simp_all only: last_expiry_def Let_def option.case not_less if_True)

end
