(* ===== verification/Billing.thy ===== *)
theory Billing
  imports Access
begin

section \<open>Billing: plans that Stripe and the administrator change\<close>

text \<open>
  Models \<^verbatim>\<open>internal/billing\<close> and \<^verbatim>\<open>AdminSetUserPlan\<close>: the application of a plan, the events of Stripe's webhook,
  the offers and prices, and the checkout. Stripe is not under \<^verbatim>\<open>src\<close>: what the payload of an event decodes
  to is part of the event, and what its gateway answers is a parameter.

  A step of a handler returns its error, if any, and the data base it leaves: what an earlier statement
  wrote stays when a later one fails.
\<close>

subsection \<open>Errors and steps\<close>

definition BillingUserNotFound :: go_err where "BillingUserNotFound = Sentinel ''user not found''"
definition BillingInvalidPlan :: go_err where "BillingInvalidPlan = Sentinel ''invalid plan''"
definition ErrBillingDisabled :: go_err where "ErrBillingDisabled = Sentinel ''billing is not enabled''"
definition ErrEmailNotVerified :: go_err where "ErrEmailNotVerified = Sentinel ''email verification required before checkout''"
definition ErrOrgMemberCheckout :: go_err where
  "ErrOrgMemberCheckout = Sentinel ''org members cannot manage billing; contact the org owner''"
definition ErrInvalidCheckoutPlan :: go_err where "ErrInvalidCheckoutPlan = Sentinel ''plan is not available for checkout''"
definition ErrNoStripeCustomer :: go_err where
  "ErrNoStripeCustomer = Sentinel ''no billing account; complete checkout first''"

definition CancelImmediate :: bool where "CancelImmediate = True"

type_synonym bstep = "account_db \<Rightarrow> go_err option \<times> account_db"

definition db_error :: "string \<Rightarrow> go_err" where "db_error name = Errorf (''store: '' @ name)"

definition bstop :: "go_err option \<Rightarrow> bstep" where "bstop e = (\<lambda>db. (e, db))"

text \<open>A statement, and one whose error is ignored.\<close>

definition bstmt :: "aenv \<Rightarrow> string \<Rightarrow> (account_db \<Rightarrow> store_err + account_db) \<Rightarrow> bstep" where
  "bstmt env name f = (\<lambda>db. case stored env name (f db) of None \<Rightarrow> (Some (db_error name), db) | Some db' \<Rightarrow> (None, db'))"

definition tried :: "aenv \<Rightarrow> string \<Rightarrow> (account_db \<Rightarrow> account_db) \<Rightarrow> account_db \<Rightarrow> account_db" where
  "tried env name f db = (if an_ok env name then f db else db)"

subsection \<open>Applying a plan\<close>

definition Validate :: "aenv \<Rightarrow> string \<Rightarrow> string \<Rightarrow> account_db \<Rightarrow> go_err + user" where
  "Validate env uid planName db =
     (if \<not> IsValidPlan planName then Inl BillingInvalidPlan
      else if \<not> an_ok env ''GetUserByID'' then Inl (db_error ''GetUserByID'')
      else case GetUserByID db uid of None \<Rightarrow> Inl BillingUserNotFound | Some u \<Rightarrow> Inr u)"

definition Apply :: "aenv \<Rightarrow> string \<Rightarrow> string \<Rightarrow> bstep" where
  "Apply env uid planName db =
     (case Validate env uid planName db of
        Inl e \<Rightarrow> (Some e, db)
      | Inr before \<Rightarrow>
          (let isDowngrade = planRank planName < planRank (u_Plan before);
               isUpgrade = planRank (u_Plan before) < planRank planName in
           if \<not> an_ok env ''UpdateUserPlan'' then (Some (db_error ''UpdateUserPlan''), db)
           else case UpdateUserPlan uid planName db of
             Inl e \<Rightarrow> (Some (if e = ErrNoRows then BillingUserNotFound else db_error ''UpdateUserPlan''), db)
           | Inr db \<Rightarrow>
               (None,
                if isDowngrade
                then tried env ''PauseAllCredentialsByUser'' (PauseAllCredentialsByUser uid)
                       (tried env ''PauseAllWebhooksByUser'' (PauseAllWebhooksByUser uid) db)
                else if isUpgrade
                then tried env ''ClearAutoPausedCredentialsByUser'' (ClearAutoPausedCredentialsByUser uid)
                       (tried env ''ClearAutoPausedWebhooksByUser'' (ClearAutoPausedWebhooksByUser uid) db)
                else db)))"

text \<open>The administrator's change of a plan, as status and message on failure.\<close>

definition AdminSetUserPlan :: "aenv \<Rightarrow> string \<Rightarrow> string option \<Rightarrow> account_db \<Rightarrow> http_err option \<times> account_db" where
  "AdminSetUserPlan env uid planName db =
     (if \<not> an_uuid env uid then (Some (400, ''invalid user id''), db)
      else case planName of None \<Rightarrow> (Some (400, ''plan is required''), db)
      | Some p \<Rightarrow>
        (if p = [] then (Some (400, ''plan is required''), db)
         else case Apply env uid p db of
           (Some e, db) \<Rightarrow>
             (Some (if err_is e BillingInvalidPlan then (400, ''plan must be free, paper, pro, or pro_plus'')
                    else if err_is e BillingUserNotFound then (404, ''user not found'')
                    else (500, ''could not update plan'')), db)
         | (None, db) \<Rightarrow>
             (case stored env ''UpdateUserBillingSource'' (UpdateUserBillingSource uid BillingSourceAdmin db) of
                None \<Rightarrow> (Some (500, ''could not update billing source''), db)
              | Some db \<Rightarrow>
                  (if \<not> an_ok env ''GetUserWithCounts'' then (Some (500, ''lookup failed''), db)
                   else if GetUserByID db uid = None then (Some (404, ''user not found''), db)
                   else (None, db)))))"

subsection \<open>Offers and prices\<close>

record billing_cfg =
  bg_enabled :: bool
  bg_email_required :: bool
  bg_StripePricePaper :: string
  bg_StripePricePro :: string
  bg_StripePriceProPlus :: string
  bg_SuccessURL :: string
  bg_CancelURL :: string
  bg_PortalReturnURL :: string

definition PriceIDForOffer :: "billing_cfg option \<Rightarrow> string \<Rightarrow> string" where
  "PriceIDForOffer cfg planName =
     (case cfg of None \<Rightarrow> []
      | Some c \<Rightarrow> if planName = PlanPaper then bg_StripePricePaper c
                 else if planName = PlanPro then bg_StripePricePro c
                 else if planName = PlanProPlus then bg_StripePriceProPlus c
                 else [])"

definition PlanFromStripePriceID :: "billing_cfg option \<Rightarrow> string \<Rightarrow> string option" where
  "PlanFromStripePriceID cfg priceID =
     (case cfg of None \<Rightarrow> None
      | Some c \<Rightarrow> if priceID = [] then None
                 else if priceID = bg_StripePricePaper c then Some PlanPaper
                 else if priceID = bg_StripePricePro c then Some PlanPro
                 else if priceID = bg_StripePriceProPlus c then Some PlanProPlus
                 else None)"

record plan_offer =
  of_Plan :: string
  of_Name :: string
  of_PriceLabel :: string
  of_limits :: limits
  of_MaxPaperTradesPerMonth :: "int option"
  of_MaxWebhooks :: int

definition offerFromLimits :: "string \<Rightarrow> string \<Rightarrow> string \<Rightarrow> plan_offer" where
  "offerFromLimits planName name priceLabel =
     (let limits = LimitsFor planName in
      \<lparr>of_Plan = planName, of_Name = name, of_PriceLabel = priceLabel, of_limits = limits,
       of_MaxPaperTradesPerMonth = (if 0 < MaxPaperTradesPerMonth limits then Some (MaxPaperTradesPerMonth limits) else None),
       of_MaxWebhooks = MaxPaperWebhooks limits + MaxLiveWebhooks limits\<rparr>)"

definition plan_display_name :: "string \<Rightarrow> string" where
  "plan_display_name p =
     (if p = PlanFree then ''Free'' else if p = PlanPaper then ''Paper'' else if p = PlanPro then ''Pro''
      else if p = PlanProPlus then ''Pro Plus'' else [])"

definition CatalogFromConfig :: "(string \<Rightarrow> string) \<Rightarrow> plan_offer list" where
  "CatalogFromConfig planPriceLabel = map (\<lambda>p. offerFromLimits p (plan_display_name p) (planPriceLabel p)) ValidPlans"

subsection \<open>The events of Stripe\<close>

text \<open>
  Of a checkout session and a subscription, what the handlers read: an absent id is empty, and the price
  is that of the first item when there is one.
\<close>

record checkout_session =
  cs_ClientReferenceID :: string
  cs_Metadata :: "string \<rightharpoonup> string"
  cs_PriceID :: "string option"
  cs_Customer :: string
  cs_Subscription :: string

record subscription =
  sb_ID :: string
  sb_Customer :: string
  sb_Status :: string
  sb_Metadata :: "string \<rightharpoonup> string"
  sb_PriceID :: "string option"

record stripe_event =
  se_ID :: string
  se_Type :: string
  se_session :: "checkout_session option"
  se_subscription :: "subscription option"
  se_invoice_parses :: bool

definition metadata :: "(string \<rightharpoonup> string) \<Rightarrow> string \<Rightarrow> string" where
  "metadata m k = (case m k of None \<Rightarrow> [] | Some v \<Rightarrow> v)"

definition subscriptionGrantsAccess :: "string \<Rightarrow> bool" where
  "subscriptionGrantsAccess status = (status = ''active'' \<or> status = ''trialing'')"

definition plan_of_price :: "billing_cfg option \<Rightarrow> string option \<Rightarrow> string option" where
  "plan_of_price cfg price = (case price of None \<Rightarrow> None | Some p \<Rightarrow> PlanFromStripePriceID cfg p)"

definition planFromSubscription :: "billing_cfg option \<Rightarrow> subscription \<Rightarrow> string option" where
  "planFromSubscription cfg sub =
     (if metadata (sb_Metadata sub) ''plan'' \<noteq> [] then Some (metadata (sb_Metadata sub) ''plan'')
      else plan_of_price cfg (sb_PriceID sub))"

definition planFromCheckoutLineItems :: "billing_cfg option \<Rightarrow> checkout_session \<Rightarrow> string option" where
  "planFromCheckoutLineItems cfg sess = plan_of_price cfg (cs_PriceID sess)"

definition handleCheckoutCompleted :: "aenv \<Rightarrow> billing_cfg option \<Rightarrow> stripe_event \<Rightarrow> bstep" where
  "handleCheckoutCompleted env cfg ev =
     (case se_session ev of None \<Rightarrow> bstop (Some (Errorf ''parse checkout session''))
      | Some sess \<Rightarrow>
          (let uid = (if cs_ClientReferenceID sess = [] then metadata (cs_Metadata sess) ''user_id'' else cs_ClientReferenceID sess);
               planName = (if metadata (cs_Metadata sess) ''plan'' = [] then planFromCheckoutLineItems cfg sess
                           else Some (metadata (cs_Metadata sess) ''plan''))
           in if uid = [] then bstop None
              else case planName of None \<Rightarrow> bstop (Some (Errorf ''unknown plan for checkout session''))
              | Some p \<Rightarrow>
                  and_then (Apply env uid p)
                   (and_then (if cs_Customer sess = [] then bstop None
                           else bstmt env ''SetUserStripeIDs'' (SetUserStripeIDs uid (cs_Customer sess) (cs_Subscription sess)))
                     (bstmt env ''UpdateUserBillingSource'' (UpdateUserBillingSource uid BillingSourceStripe)))))"

text \<open>The user of a subscription's customer, when Stripe manages the user's plan.\<close>

definition for_stripe_user :: "aenv \<Rightarrow> string \<Rightarrow> (user \<Rightarrow> bstep) \<Rightarrow> bstep" where
  "for_stripe_user env customer f =
     (\<lambda>db. if customer = [] then (None, db)
           else if \<not> an_ok env ''GetUserByStripeCustomerID'' then (Some (db_error ''GetUserByStripeCustomerID''), db)
           else case GetUserByStripeCustomerID db customer of None \<Rightarrow> (None, db)
                | Some u \<Rightarrow> if u_BillingSource u \<noteq> BillingSourceStripe then (None, db) else f u db)"

definition handleSubscriptionUpdated :: "aenv \<Rightarrow> billing_cfg option \<Rightarrow> stripe_event \<Rightarrow> bstep" where
  "handleSubscriptionUpdated env cfg ev =
     (case se_subscription ev of None \<Rightarrow> bstop (Some (Errorf ''parse subscription''))
      | Some sub \<Rightarrow> for_stripe_user env (sb_Customer sub) (\<lambda>user.
          if \<not> subscriptionGrantsAccess (sb_Status sub) then bstop None
          else case planFromSubscription cfg sub of None \<Rightarrow> bstop (Some (Errorf ''unknown price on subscription''))
          | Some p \<Rightarrow>
              and_then (Apply env (u_ID user) p)
                (bstmt env ''SetUserStripeIDs'' (SetUserStripeIDs (u_ID user) (sb_Customer sub) (sb_ID sub)))))"

definition handleSubscriptionDeleted :: "aenv \<Rightarrow> stripe_event \<Rightarrow> bstep" where
  "handleSubscriptionDeleted env ev =
     (if \<not> CancelImmediate then bstop None
      else case se_subscription ev of None \<Rightarrow> bstop (Some (Errorf ''parse subscription''))
      | Some sub \<Rightarrow> for_stripe_user env (sb_Customer sub) (\<lambda>user.
          and_then (Apply env (u_ID user) PlanFree)
           (and_then (bstmt env ''ClearUserStripeSubscription'' (ClearUserStripeSubscription (u_ID user)))
             (bstmt env ''UpdateUserBillingSource'' (UpdateUserBillingSource (u_ID user) BillingSourceFree)))))"

definition handlePaymentFailed :: "stripe_event \<Rightarrow> bstep" where
  "handlePaymentFailed ev = bstop (if se_invoice_parses ev then None else Some (Errorf ''parse invoice''))"

definition dispatch_event :: "aenv \<Rightarrow> billing_cfg option \<Rightarrow> stripe_event \<Rightarrow> bstep option" where
  "dispatch_event env cfg ev =
     (let t = se_Type ev in
      if t = ''checkout.session.completed'' then Some (handleCheckoutCompleted env cfg ev)
      else if t = ''customer.subscription.updated'' then Some (handleSubscriptionUpdated env cfg ev)
      else if t = ''customer.subscription.deleted'' then Some (handleSubscriptionDeleted env ev)
      else if t = ''invoice.payment_failed'' then Some (handlePaymentFailed ev)
      else None)"

definition Handle :: "aenv \<Rightarrow> billing_cfg option \<Rightarrow> stripe_event \<Rightarrow> bstep" where
  "Handle env cfg ev db =
     (if \<not> an_ok env ''StripeWebhookEventExists'' then (Some (db_error ''StripeWebhookEventExists''), db)
      else if StripeWebhookEventExists db (se_ID ev) then (None, db)
      else case dispatch_event env cfg ev of
             None \<Rightarrow> (None, db)
           | Some handler \<Rightarrow>
               and_then handler (bstmt env ''RecordStripeWebhookEvent''
                 (\<lambda>db. Inr (snd (RecordStripeWebhookEvent (se_ID ev) (se_Type ev) db)))) db)"

text \<open>The request of Stripe: the status of the answer. The event is what the signature vouches for.\<close>

definition PostStripeWebhook :: "aenv \<Rightarrow> billing_cfg \<Rightarrow> bool \<Rightarrow> string \<Rightarrow> stripe_event option \<Rightarrow> account_db \<Rightarrow> nat \<times> account_db" where
  "PostStripeWebhook env cfg wired sig ev db =
     (if \<not> bg_enabled cfg \<or> \<not> wired then (503, db)
      else if sig = [] then (400, db)
      else case ev of None \<Rightarrow> (400, db)
      | Some ev \<Rightarrow> (case Handle env (Some cfg) ev db of (Some _, db) \<Rightarrow> (500, db) | (None, db) \<Rightarrow> (200, db)))"

subsection \<open>Checkout and portal\<close>

text \<open>The gateway of Stripe: its answers, for the arguments of each call.\<close>

record checkout_params =
  cp_CustomerID :: string
  cp_PriceID :: string
  cp_UserID :: string
  cp_Plan :: string
  cp_SuccessURL :: string
  cp_CancelURL :: string

record stripe_gateway =
  sg_CreateCustomer :: "string \<Rightarrow> string \<Rightarrow> go_err + string"
  sg_CreateCheckoutSession :: "checkout_params \<Rightarrow> go_err + string"
  sg_CreatePortalSession :: "string \<Rightarrow> string \<Rightarrow> go_err + string"

text \<open>What \<^verbatim>\<open>StripeClient.CreateCheckoutSession\<close> attaches to the session and to the subscription it starts.\<close>

definition checkout_metadata :: "checkout_params \<Rightarrow> string \<rightharpoonup> string" where
  "checkout_metadata cp = [''user_id'' \<mapsto> cp_UserID cp, ''plan'' \<mapsto> cp_Plan cp]"

definition guardOrgCheckout :: "(string \<Rightarrow> go_err + org_member option) \<Rightarrow> string \<Rightarrow> go_err option" where
  "guardOrgCheckout membership uid =
     (case membership uid of Inl e \<Rightarrow> Some e
      | Inr None \<Rightarrow> None
      | Inr (Some m) \<Rightarrow> if om_Role m \<noteq> RoleOwner then Some ErrOrgMemberCheckout else None)"

definition CreateCheckout ::
  "aenv \<Rightarrow> billing_cfg \<Rightarrow> stripe_gateway \<Rightarrow> (string \<Rightarrow> go_err + org_member option) \<Rightarrow> string \<Rightarrow> string \<Rightarrow>
   account_db \<Rightarrow> (go_err + string) \<times> account_db" where
  "CreateCheckout env cfg gateway membership uid planName db =
     (if \<not> bg_enabled cfg then (Inl ErrBillingDisabled, db)
      else if planName = PlanFree then (Inl ErrInvalidCheckoutPlan, db)
      else if \<not> an_ok env ''GetUserByID'' then (Inl (db_error ''GetUserByID''), db)
      else case GetUserByID db uid of None \<Rightarrow> (Inl BillingUserNotFound, db)
      | Some user \<Rightarrow>
        (if bg_email_required cfg \<and> \<not> EmailVerified (Some user) then (Inl ErrEmailNotVerified, db)
         else case guardOrgCheckout membership uid of Some e \<Rightarrow> (Inl e, db)
         | None \<Rightarrow>
        (case Validate env uid planName db of Inl e \<Rightarrow> (Inl e, db)
         | Inr _ \<Rightarrow>
        (let priceID = PriceIDForOffer (Some cfg) planName;
             session = (\<lambda>customer. sg_CreateCheckoutSession gateway
               \<lparr>cp_CustomerID = customer, cp_PriceID = priceID, cp_UserID = uid, cp_Plan = planName,
                cp_SuccessURL = bg_SuccessURL cfg, cp_CancelURL = bg_CancelURL cfg\<rparr>) in
         if priceID = [] then (Inl ErrInvalidCheckoutPlan, db)
         else if u_StripeCustomerID user \<noteq> [] then (session (u_StripeCustomerID user), db)
         else case sg_CreateCustomer gateway (u_Email user) uid of Inl e \<Rightarrow> (Inl e, db)
         | Inr customer \<Rightarrow>
             (case stored env ''SetUserStripeCustomerID'' (SetUserStripeCustomerID uid customer db) of
                None \<Rightarrow> (Inl (db_error ''SetUserStripeCustomerID''), db)
              | Some db \<Rightarrow> (session customer, db))))))"

definition CreatePortal ::
  "aenv \<Rightarrow> billing_cfg \<Rightarrow> stripe_gateway \<Rightarrow> (string \<Rightarrow> go_err + org_member option) \<Rightarrow> string \<Rightarrow> account_db \<Rightarrow> go_err + string" where
  "CreatePortal env cfg gateway membership uid db =
     (if \<not> bg_enabled cfg then Inl ErrBillingDisabled
      else if \<not> an_ok env ''GetUserByID'' then Inl (db_error ''GetUserByID'')
      else case GetUserByID db uid of None \<Rightarrow> Inl BillingUserNotFound
      | Some user \<Rightarrow>
        (case guardOrgCheckout membership uid of Some e \<Rightarrow> Inl e
         | None \<Rightarrow> if u_StripeCustomerID user = [] then Inl ErrNoStripeCustomer
                  else sg_CreatePortalSession gateway (u_StripeCustomerID user) (bg_PortalReturnURL cfg)))"

subsection \<open>What a plan's change leaves behind\<close>

lemma and_then_None [simp]: "and_then f g db = (None, db'') \<longleftrightarrow> (\<exists>db'. f db = (None, db') \<and> g db' = (None, db''))"
  by (auto simp: and_then_def split: prod.split option.split)

lemma bstmt_None [simp]: "bstmt env name f db = (None, db') \<longleftrightarrow> an_ok env name \<and> f db = Inr db'"
  by (auto simp: bstmt_def stored_def split: option.splits sum.splits if_splits)

text \<open>A success of \<^const>\<open>Apply\<close>: the plan is written, and the resources follow the change of rank.\<close>

lemma Apply_None:
  assumes "Apply env uid p db = (None, db')"
  obtains before db1 where "GetUserByID db uid = Some before" "IsValidPlan p"
    "UpdateUserPlan uid p db = Inr db1"
    "db' = (if planRank p < planRank (u_Plan before)
            then tried env ''PauseAllCredentialsByUser'' (PauseAllCredentialsByUser uid)
                   (tried env ''PauseAllWebhooksByUser'' (PauseAllWebhooksByUser uid) db1)
            else if planRank (u_Plan before) < planRank p
            then tried env ''ClearAutoPausedCredentialsByUser'' (ClearAutoPausedCredentialsByUser uid)
                   (tried env ''ClearAutoPausedWebhooksByUser'' (ClearAutoPausedWebhooksByUser uid) db1)
            else db1)"
  using assms
  by (auto simp: Apply_def Validate_def Let_def split: sum.splits option.splits if_splits)

lemma tried_frame [simp]:
  "(\<And>db. ad_users (f db) = ad_users db) \<Longrightarrow> ad_users (tried env name f db) = ad_users db"
  by (simp add: tried_def)

lemmas pause_defs = PauseAllWebhooksByUser_def PauseAllCredentialsByUser_def ClearAutoPausedWebhooksByUser_def
  ClearAutoPausedCredentialsByUser_def

lemma updated_user:
  assumes "update_user uid f db = Inr db'" "\<And>u. u_ID (f u) = u_ID u"
  shows "GetUserByID db' uid = map_option f (GetUserByID db uid)"
proof -
  have db': "db' = db\<lparr>ad_users := update_where (\<lambda>u. u_ID u = uid) f (ad_users db)\<rparr>"
    using assms(1) by (simp add: update_user_Inr)
  have "u_ID u = uid" if "GetUserByID db uid = Some u" for u using that by (auto simp: GetUserByID_def find_Some_iff)
  then show ?thesis
    using db' find_key_update_where [of u_ID f uid "\<lambda>u. u_ID u = uid" "ad_users db"] assms(2)
    by (cases "GetUserByID db uid") (simp_all add: GetUserByID_def)
qed

lemma UpdateUserPlan_Inr:
  assumes "UpdateUserPlan uid p db = Inr db'"
  shows "ad_webhooks db' = ad_webhooks db" "ad_creds db' = ad_creds db" "ad_events db' = ad_events db"
    "GetUserByID db' uid = map_option (u_Plan_update (\<lambda>_. p)) (GetUserByID db uid)"
  using assms updated_user [OF assms [unfolded UpdateUserPlan_def]]
  by (simp_all add: UpdateUserPlan_def update_user_Inr)

lemma Apply_plan:
  assumes "Apply env uid p db = (None, db')"
  shows "\<exists>u. GetUserByID db' uid = Some u \<and> u_Plan u = p"
proof -
  obtain before db1 where a: "GetUserByID db uid = Some before" "UpdateUserPlan uid p db = Inr db1"
    and users: "ad_users db' = ad_users db1"
    using assms by (rule Apply_None) (auto simp: pause_defs split: if_splits)
  have "GetUserByID db' uid = GetUserByID db1 uid" by (simp add: GetUserByID_def users)
  then show ?thesis using UpdateUserPlan_Inr(4) [OF a(2)] a(1) by simp
qed

text \<open>
  A pause that failed is never made up for. When a plan has been applied, applying it again, as Stripe's
  retry of the event does, leaves every webhook and every credential as it is: the rank of the plan
  no longer changes. \<open>Apply\<close> ignores the errors of the statements that pause.
\<close>

theorem retry_never_pauses:
  assumes "Apply env uid p db = (None, db1)" "Apply env' uid p db1 = (None, db2)"
  shows "ad_webhooks db2 = ad_webhooks db1 \<and> ad_creds db2 = ad_creds db1"
proof -
  obtain u where u: "GetUserByID db1 uid = Some u" "u_Plan u = p" using Apply_plan [OF assms(1)] by blast
  show ?thesis using assms(2)
  proof (rule Apply_None)
    fix before db'
    assume b: "GetUserByID db1 uid = Some before" and a: "UpdateUserPlan uid p db1 = Inr db'"
      and e: "db2 = (if planRank p < planRank (u_Plan before)
            then tried env' ''PauseAllCredentialsByUser'' (PauseAllCredentialsByUser uid)
                   (tried env' ''PauseAllWebhooksByUser'' (PauseAllWebhooksByUser uid) db')
            else if planRank (u_Plan before) < planRank p
            then tried env' ''ClearAutoPausedCredentialsByUser'' (ClearAutoPausedCredentialsByUser uid)
                   (tried env' ''ClearAutoPausedWebhooksByUser'' (ClearAutoPausedWebhooksByUser uid) db')
            else db')"
    have "u_Plan before = p" using u b by simp
    then have "db2 = db'" using e by simp
    then show ?thesis using UpdateUserPlan_Inr(1,2) [OF a] by simp
  qed
qed

text \<open>A data base whose pauses fail: the user is on the free plan, and the live webhook stays active for good.\<close>

definition lost_pause_env :: aenv where
  "lost_pause_env = acct_env\<lparr>an_ok := (\<lambda>name. name \<noteq> ''PauseAllWebhooksByUser'' \<and> name \<noteq> ''PauseAllCredentialsByUser'')\<rparr>"

theorem retry_never_pauses_witness:
  "\<exists>db1 db2. Apply lost_pause_env ''u'' ''free'' acct_db = (None, db1) \<and> Apply acct_env ''u'' ''free'' db1 = (None, db2) \<and>
     map wh_Status (ad_webhooks db1) = [''active'', ''active'', ''active''] \<and> ad_webhooks db2 = ad_webhooks db1"
proof -
  let ?db1 = "snd (Apply lost_pause_env ''u'' ''free'' acct_db)"
  let ?db2 = "snd (Apply acct_env ''u'' ''free'' ?db1)"
  have "fst (Apply lost_pause_env ''u'' ''free'' acct_db) = None" "fst (Apply acct_env ''u'' ''free'' ?db1) = None"
    "map wh_Status (ad_webhooks ?db1) = [''active'', ''active'', ''active'']" by code_simp+
  then show ?thesis using retry_never_pauses [of lost_pause_env "''u''" "''free''" acct_db ?db1 acct_env ?db2]
    by (metis prod.collapse)
qed

definition all_paused :: "string \<Rightarrow> account_db \<Rightarrow> bool" where
  "all_paused uid db =
     (list_all (\<lambda>w. solo uid w \<and> wh_BrokerCredID w \<noteq> None \<longrightarrow> wh_Status w = ''paused'' \<and> wh_AutoPaused w) (ad_webhooks db) \<and>
      list_all (\<lambda>c. solo_cred uid c \<longrightarrow> bc_Status c = ''paused'' \<and> bc_AutoPaused c) (ad_creds db))"

text \<open>What a change of the user's plan must leave alone: paper webhooks, and what others own.\<close>

definition untouched_by :: "string \<Rightarrow> account_db \<Rightarrow> account_db \<Rightarrow> bool" where
  "untouched_by uid db db' =
     (filter (\<lambda>w. wh_UserID w \<noteq> uid \<or> wh_BrokerCredID w = None) (ad_webhooks db') =
        filter (\<lambda>w. wh_UserID w \<noteq> uid \<or> wh_BrokerCredID w = None) (ad_webhooks db) \<and>
      filter (\<lambda>c. bc_UserID c \<noteq> uid) (ad_creds db') = filter (\<lambda>c. bc_UserID c \<noteq> uid) (ad_creds db))"

text \<open>
  C37. A downgrade stops live trading. When every statement succeeds, a change to a plan of a lower rank
  leaves each of the user's own live webhooks and credentials paused and marked as paused by the
  system, and no paper webhook and nothing of another user's changes.
\<close>

theorem downgrade_pauses_live:
  assumes "Apply env uid p db = (None, db')" "GetUserByID db uid = Some before" "planRank p < planRank (u_Plan before)"
    "an_ok env ''PauseAllWebhooksByUser''" "an_ok env ''PauseAllCredentialsByUser''"
  shows "all_paused uid db' \<and> untouched_by uid db db'"
proof -
  obtain before' db1 where b: "GetUserByID db uid = Some before'" and a: "UpdateUserPlan uid p db = Inr db1"
    and e: "db' = (if planRank p < planRank (u_Plan before')
            then tried env ''PauseAllCredentialsByUser'' (PauseAllCredentialsByUser uid)
                   (tried env ''PauseAllWebhooksByUser'' (PauseAllWebhooksByUser uid) db1)
            else if planRank (u_Plan before') < planRank p
            then tried env ''ClearAutoPausedCredentialsByUser'' (ClearAutoPausedCredentialsByUser uid)
                   (tried env ''ClearAutoPausedWebhooksByUser'' (ClearAutoPausedWebhooksByUser uid) db1)
            else db1)"
    using assms(1) by (rule Apply_None)
  have "before' = before" using assms(2) b by simp
  then have db': "db' = PauseAllCredentialsByUser uid (PauseAllWebhooksByUser uid db1)"
    using e assms(3-5) by (simp add: tried_def)
  have same: "ad_webhooks db1 = ad_webhooks db" "ad_creds db1 = ad_creds db" using UpdateUserPlan_Inr [OF a] by simp_all
  have rows: "ad_webhooks db' = update_where (\<lambda>w. wh_UserID w = uid \<and> wh_OrgID w = None \<and> wh_BrokerCredID w \<noteq> None)
        (\<lambda>w. w\<lparr>wh_Status := ''paused'', wh_AutoPaused := True\<rparr>) (ad_webhooks db)"
    "ad_creds db' = update_where (solo_cred uid) (\<lambda>c. c\<lparr>bc_Status := ''paused'', bc_AutoPaused := True\<rparr>) (ad_creds db)"
    by (simp_all add: db' pause_defs update_webhooks_def update_creds_def same)
  have "all_paused uid db'"
    unfolding all_paused_def rows by (intro conjI list_all_update_where) (simp_all add: solo_def, force?)
  moreover have "untouched_by uid db db'"
    unfolding untouched_by_def rows by (intro conjI filter_update_where) (simp_all add: solo_cred_def)
  ultimately show ?thesis by blast
qed

theorem downgrade_pauses_live_witness:
  "\<exists>db'. Apply acct_env ''u'' ''free'' acct_db = (None, db') \<and> map wh_Status (ad_webhooks db') = [''paused'', ''active'', ''active''] \<and>
     all_paused ''u'' db' \<and> untouched_by ''u'' acct_db db'"
proof -
  let ?db = "snd (Apply acct_env ''u'' ''free'' acct_db)"
  have "fst (Apply acct_env ''u'' ''free'' acct_db) = None" "map wh_Status (ad_webhooks ?db) = [''paused'', ''active'', ''active'']"
    by code_simp+
  moreover have "GetUserByID acct_db ''u'' = Some (acct_user ''u'' ''pro'')" "planRank ''free'' < planRank (u_Plan (acct_user ''u'' ''pro''))"
    by code_simp+
  ultimately show ?thesis
    using downgrade_pauses_live [of acct_env "''u''" "''free''" acct_db ?db "acct_user ''u'' ''pro''"]
    by (metis (no_types, lifting) acct_env_def aenv.select_convs(1) prod.collapse)
qed

subsection \<open>Events\<close>

lemma Record_exists: "StripeWebhookEventExists (snd (RecordStripeWebhookEvent i t db)) i"
  by (simp add: RecordStripeWebhookEvent_def StripeWebhookEventExists_def)

text \<open>
  C36. An event is applied once. When an event of Stripe has been handled without an error, its redelivery
  changes nothing, whatever the configuration and the failures are by then.
\<close>

theorem event_applied_once:
  assumes "Handle env cfg ev db = (None, db1)"
  shows "snd (Handle env' cfg' ev db1) = db1"
proof (cases "dispatch_event env cfg ev")
  case None
  then have "dispatch_event env' cfg' ev = None"
    unfolding dispatch_event_def Let_def by (simp split: if_split_asm)
  then show ?thesis by (simp add: Handle_def)
next
  case (Some handler)
  have "StripeWebhookEventExists db1 (se_ID ev)"
    using assms Some Record_exists by (auto simp: Handle_def split: if_splits)
  then show ?thesis by (simp add: Handle_def)
qed

definition cancel_event :: stripe_event where
  "cancel_event = \<lparr>se_ID = ''evt_1'', se_Type = ''customer.subscription.deleted'', se_session = None,
     se_subscription = Some \<lparr>sb_ID = ''sub_1'', sb_Customer = ''cus_u'', sb_Status = ''canceled'', sb_Metadata = Map.empty, sb_PriceID = None\<rparr>,
     se_invoice_parses = False\<rparr>"

theorem event_applied_once_witness:
  "\<exists>db1. Handle acct_env None cancel_event acct_db = (None, db1) \<and> ad_events db1 = [(''evt_1'', ''customer.subscription.deleted'')] \<and>
     snd (Handle acct_env None cancel_event db1) = db1"
proof -
  let ?db1 = "snd (Handle acct_env None cancel_event acct_db)"
  have "fst (Handle acct_env None cancel_event acct_db) = None"
    "ad_events ?db1 = [(''evt_1'', ''customer.subscription.deleted'')]" by code_simp+
  then show ?thesis using event_applied_once [of acct_env None cancel_event acct_db ?db1 acct_env None]
    by (metis prod.collapse)
qed

text \<open>
  A change of plan in Stripe's portal is lost. The checkout attaches the plan it sold to the
  subscription, and an update of the subscription is read by that label before its price: for every new
  price, what is handled for the user is the plan of the checkout.
\<close>

theorem portal_change_is_lost:
  assumes "se_subscription ev = Some (sub\<lparr>sb_Metadata := checkout_metadata cp, sb_PriceID := Some newPrice\<rparr>)"
    "cp_Plan cp \<noteq> []" "GetUserByStripeCustomerID db (sb_Customer sub) = Some user"
    "handleSubscriptionUpdated env cfg ev db = (None, db')" "subscriptionGrantsAccess (sb_Status sub)"
    "u_BillingSource user = BillingSourceStripe"
  shows "\<exists>u. GetUserByID db' (u_ID user) = Some u \<and> u_Plan u = cp_Plan cp"
proof -
  have c: "sb_Customer sub \<noteq> []" using assms(3) by (auto simp: GetUserByStripeCustomerID_def)
  obtain db1 where a: "Apply env (u_ID user) (cp_Plan cp) db = (None, db1)"
    and r: "SetUserStripeIDs (u_ID user) (sb_Customer sub) (sb_ID sub) db1 = Inr db'"
    using assms c
    by (auto simp: handleSubscriptionUpdated_def for_stripe_user_def planFromSubscription_def metadata_def
        checkout_metadata_def bstop_def split: if_splits)
  obtain u where u: "GetUserByID db1 (u_ID user) = Some u" "u_Plan u = cp_Plan cp" using Apply_plan [OF a] by blast
  have "update_user (u_ID user) (\<lambda>u. u\<lparr>u_StripeCustomerID := sb_Customer sub, u_StripeSubscriptionID := sb_ID sub\<rparr>) db1 = Inr db'"
    using r by (simp add: SetUserStripeIDs_def split: if_splits)
  from updated_user [OF this] show ?thesis using u by simp
qed

definition portal_subscription :: subscription where
  "portal_subscription = \<lparr>sb_ID = ''sub_1'', sb_Customer = ''cus_u'', sb_Status = ''active'', sb_Metadata = Map.empty, sb_PriceID = None\<rparr>"

definition pro_checkout :: checkout_params where
  "pro_checkout = \<lparr>cp_CustomerID = ''cus_u'', cp_PriceID = ''price_pro'', cp_UserID = ''u'', cp_Plan = ''pro'',
     cp_SuccessURL = [], cp_CancelURL = []\<rparr>"

definition sample_prices :: billing_cfg where
  "sample_prices = \<lparr>bg_enabled = True, bg_email_required = False, bg_StripePricePaper = ''price_paper'', bg_StripePricePro = ''price_pro'',
     bg_StripePriceProPlus = ''price_pro_plus'', bg_SuccessURL = [], bg_CancelURL = [], bg_PortalReturnURL = []\<rparr>"

definition portal_event :: stripe_event where
  "portal_event = \<lparr>se_ID = ''evt_2'', se_Type = ''customer.subscription.updated'', se_session = None,
     se_subscription = Some (portal_subscription\<lparr>sb_Metadata := checkout_metadata pro_checkout, sb_PriceID := Some ''price_paper''\<rparr>),
     se_invoice_parses = False\<rparr>"

theorem portal_change_is_lost_witness:
  "\<exists>db' u. handleSubscriptionUpdated acct_env (Some sample_prices) portal_event acct_db = (None, db') \<and>
     PlanFromStripePriceID (Some sample_prices) ''price_paper'' = Some ''paper'' \<and> GetUserByID db' ''u'' = Some u \<and> u_Plan u = ''pro''"
proof -
  let ?r = "handleSubscriptionUpdated acct_env (Some sample_prices) portal_event acct_db"
  have "fst ?r = None" "PlanFromStripePriceID (Some sample_prices) ''price_paper'' = Some ''paper''"
    "GetUserByStripeCustomerID acct_db (sb_Customer portal_subscription) = Some (acct_user ''u'' ''pro'')"
    "u_ID (acct_user ''u'' ''pro'') = ''u''" "subscriptionGrantsAccess (sb_Status portal_subscription)"
    "u_BillingSource (acct_user ''u'' ''pro'') = BillingSourceStripe" "cp_Plan pro_checkout = ''pro''" by code_simp+
  then show ?thesis
    using portal_change_is_lost [where ev = portal_event and sub = portal_subscription and cp = pro_checkout
        and newPrice = "''price_paper''" and db = acct_db and user = "acct_user ''u'' ''pro''" and env = acct_env
        and cfg = "Some sample_prices" and db' = "snd ?r"]
    by (cases ?r) (simp add: portal_event_def)
qed

text \<open>
  Prices and plans are inverse to each other: when the three prices are set and distinct, a plan is
  on sale exactly when it is a paid plan, and the price of a plan reads back as that plan.
\<close>

theorem price_roundtrip:
  assumes "distinct [bg_StripePricePaper c, bg_StripePricePro c, bg_StripePriceProPlus c]"
    "[] \<notin> {bg_StripePricePaper c, bg_StripePricePro c, bg_StripePriceProPlus c}"
  shows "PlanFromStripePriceID (Some c) priceID = Some p \<longleftrightarrow> priceID \<noteq> [] \<and> PriceIDForOffer (Some c) p = priceID"
  using assms by (auto simp: PlanFromStripePriceID_def PriceIDForOffer_def plan_name_defs)

theorem price_roundtrip_witness:
  "PlanFromStripePriceID (Some sample_prices) ''price_pro'' = Some ''pro'' \<longleftrightarrow>
     ''price_pro'' \<noteq> [] \<and> PriceIDForOffer (Some sample_prices) ''pro'' = ''price_pro''"
  by (rule price_roundtrip) (simp_all add: sample_prices_def)


text \<open>
  The end of any subscription of a customer ends the plan. A user who pays for one subscription and cancels
  another, as after a second checkout, which nothing forbids, is put on the free plan and the paid
  subscription is forgotten: the handler never compares the subscription of the event with the user's.
\<close>

theorem other_subscription_ends_plan:
  assumes "handleSubscriptionDeleted env ev db = (None, db')" "se_subscription ev = Some sub"
    "GetUserByStripeCustomerID db (sb_Customer sub) = Some user" "u_BillingSource user = BillingSourceStripe"
    "u_StripeSubscriptionID user \<noteq> sb_ID sub"
  shows "\<exists>u. GetUserByID db' (u_ID user) = Some u \<and> u_Plan u = PlanFree \<and> u_StripeSubscriptionID u = [] \<and>
     u_BillingSource u = BillingSourceFree"
proof -
  have c: "sb_Customer sub \<noteq> []" using assms(3) by (auto simp: GetUserByStripeCustomerID_def)
  obtain db1 db2 where a: "Apply env (u_ID user) PlanFree db = (None, db1)"
    and k: "ClearUserStripeSubscription (u_ID user) db1 = Inr db2"
    and b: "UpdateUserBillingSource (u_ID user) BillingSourceFree db2 = Inr db'"
    using assms(1-4) c by (auto simp: handleSubscriptionDeleted_def CancelImmediate_def for_stripe_user_def split: if_splits)
  obtain u where u: "GetUserByID db1 (u_ID user) = Some u" "u_Plan u = PlanFree" using Apply_plan [OF a] by blast
  show ?thesis
    using updated_user [OF k [unfolded ClearUserStripeSubscription_def]]
      updated_user [OF b [unfolded UpdateUserBillingSource_def]] u by simp
qed

definition renewed_db :: account_db where
  "renewed_db = acct_db\<lparr>ad_users := [(acct_user ''u'' ''pro_plus'')\<lparr>u_StripeSubscriptionID := ''sub_2''\<rparr>, acct_user ''v'' ''pro'']\<rparr>"

theorem other_subscription_ends_plan_witness:
  "\<exists>db' u. handleSubscriptionDeleted acct_env cancel_event renewed_db = (None, db') \<and>
     map u_Plan (ad_users renewed_db) = [''pro_plus'', ''pro''] \<and> GetUserByID db' ''u'' = Some u \<and> u_Plan u = PlanFree"
proof -
  let ?r = "handleSubscriptionDeleted acct_env cancel_event renewed_db"
  let ?u = "(acct_user ''u'' ''pro_plus'')\<lparr>u_StripeSubscriptionID := ''sub_2''\<rparr>"
  have "fst ?r = None" "map u_Plan (ad_users renewed_db) = [''pro_plus'', ''pro'']"
    "GetUserByStripeCustomerID renewed_db ''cus_u'' = Some ?u" "u_ID ?u = ''u''"
    "u_BillingSource ?u = BillingSourceStripe" "u_StripeSubscriptionID ?u \<noteq> ''sub_1''" by code_simp+
  then show ?thesis
    using other_subscription_ends_plan [where ev = cancel_event and db = renewed_db and user = ?u and env = acct_env and db' = "snd ?r"
        and sub = "the (se_subscription cancel_event)"]
    by (cases ?r) (auto simp: cancel_event_def)
qed

subsection \<open>What billing keeps\<close>

lemma stays_bstop: "stays P (bstop e)"
  by (simp add: stays_def bstop_def)

lemma stays_bstmt: "(\<And>d d'. P d \<Longrightarrow> f d = Inr d' \<Longrightarrow> P d') \<Longrightarrow> stays P (bstmt env name f)"
  by (auto simp: stays_def bstmt_def stored_def split: option.splits sum.splits if_splits)

lemma stays_for_stripe_user: "(\<And>u. stays P (f u)) \<Longrightarrow> stays P (for_stripe_user env c f)"
  by (auto simp: stays_def for_stripe_user_def split: option.split)

text \<open>What the statements of billing keep, the handlers keep.\<close>

definition billing_keeps :: "(account_db \<Rightarrow> bool) \<Rightarrow> bool" where
  "billing_keeps P \<longleftrightarrow>
     (\<forall>uid f d d'. P d \<longrightarrow> update_user uid f d = Inr d' \<longrightarrow> (\<forall>u. u_ID (f u) = u_ID u \<and> u_Email (f u) = u_Email u) \<longrightarrow> P d') \<and>
     (\<forall>uid d. P d \<longrightarrow> P (PauseAllWebhooksByUser uid d) \<and> P (PauseAllCredentialsByUser uid d) \<and>
        P (ClearAutoPausedWebhooksByUser uid d) \<and> P (ClearAutoPausedCredentialsByUser uid d)) \<and>
     (\<forall>i t d. P d \<longrightarrow> P (snd (RecordStripeWebhookEvent i t d)))"

lemma billing_keeps_user:
  "billing_keeps P \<Longrightarrow> P d \<Longrightarrow> update_user uid f d = Inr d' \<Longrightarrow> (\<And>u. u_ID (f u) = u_ID u \<and> u_Email (f u) = u_Email u) \<Longrightarrow> P d'"
  unfolding billing_keeps_def by blast

lemma stays_Apply:
  assumes "billing_keeps P"
  shows "stays P (Apply env uid p)"
proof -
  have t: "P d \<Longrightarrow> P (tried env name f d)" if "\<And>d. P d \<Longrightarrow> P (f d)" for name f d using that by (simp add: tried_def)
  have u: "P d'" if "P d" "UpdateUserPlan uid p d = Inr d'" for d d'
    by (rule billing_keeps_user [OF assms that(1) that(2) [unfolded UpdateUserPlan_def]]) simp
  have s: "P d \<Longrightarrow> P (PauseAllWebhooksByUser uid d)" "P d \<Longrightarrow> P (PauseAllCredentialsByUser uid d)"
    "P d \<Longrightarrow> P (ClearAutoPausedWebhooksByUser uid d)" "P d \<Longrightarrow> P (ClearAutoPausedCredentialsByUser uid d)" for d
    using assms unfolding billing_keeps_def by blast+
  show ?thesis
    unfolding stays_def
  proof (intro allI impI)
    fix d assume d: "P d"
    show "P (snd (Apply env uid p d))"
    proof (cases "Validate env uid p d")
      case (Inr b)
      show ?thesis
      proof (cases "an_ok env ''UpdateUserPlan''")
        case ok: True
        show ?thesis
        proof (cases "UpdateUserPlan uid p d")
          case i: (Inr d')
          note d' = u [OF d i]
          show ?thesis using Inr ok i d' by (simp add: Apply_def Let_def t s)
        qed (use Inr ok d in \<open>simp add: Apply_def Let_def\<close>)
      qed (use Inr d in \<open>simp add: Apply_def Let_def\<close>)
    qed (use d in \<open>simp add: Apply_def\<close>)
  qed
qed

lemma stays_Handle:
  assumes P: "billing_keeps P"
  shows "stays P (Handle env cfg ev)"
proof -
  note user = billing_keeps_user [OF P]
  have ids: "P d'" if "P d" "SetUserStripeIDs uid c s d = Inr d'" for uid c s d d'
    using that(2) by (auto simp: SetUserStripeIDs_def split: if_splits intro: user [OF that(1)])
  have src: "P d'" if "P d" "UpdateUserBillingSource uid s d = Inr d'" for uid s d d'
    by (rule user [OF that(1) that(2) [unfolded UpdateUserBillingSource_def]]) simp
  have clr: "P d'" if "P d" "ClearUserStripeSubscription uid d = Inr d'" for uid d d'
    by (rule user [OF that(1) that(2) [unfolded ClearUserStripeSubscription_def]]) simp
  have rec: "P d'" if "P d" "Inr (snd (RecordStripeWebhookEvent i t d)) = Inr d'" for i t d d'
    using P that unfolding billing_keeps_def by auto
  have st: "stays P (bstmt env n (SetUserStripeIDs uid c s))" "stays P (bstmt env n (UpdateUserBillingSource uid s))"
    "stays P (bstmt env n (ClearUserStripeSubscription uid))"
    "stays P (bstmt env n (\<lambda>db. Inr (snd (RecordStripeWebhookEvent i t db))))" for n uid c s i t
    by (rule stays_bstmt, erule (1) ids src clr rec)+
  note rules = stays_and_then stays_bstop stays_Apply [OF P] stays_for_stripe_user st
  have h: "stays P h" if "dispatch_event env cfg ev = Some h" for h
  proof -
    have "stays P (handleCheckoutCompleted env cfg ev)"
      by (auto simp: handleCheckoutCompleted_def Let_def split: option.split intro!: rules)
    moreover have "stays P (handleSubscriptionUpdated env cfg ev)"
      by (auto simp: handleSubscriptionUpdated_def split: option.split intro!: rules)
    moreover have "stays P (handleSubscriptionDeleted env ev)"
      by (auto simp: handleSubscriptionDeleted_def split: option.split intro!: rules)
    moreover have "stays P (handlePaymentFailed ev)" by (simp add: handlePaymentFailed_def stays_bstop)
    ultimately show ?thesis using that by (auto simp: dispatch_event_def Let_def split: if_splits)
  qed
  show ?thesis
  proof (cases "dispatch_event env cfg ev")
    case None
    then show ?thesis by (simp add: Handle_def stays_def)
  next
    case (Some f)
    have "stays P (and_then f (bstmt env ''RecordStripeWebhookEvent'' (\<lambda>db. Inr (snd (RecordStripeWebhookEvent (se_ID ev) (se_Type ev) db)))))"
      by (intro rules h Some)
    then show ?thesis using Some by (simp add: Handle_def stays_def)
  qed
qed

end
