(* ===== verification/AdminUsers.thy ===== *)
theory AdminUsers
  imports Access
begin

section \<open>The administrator's changes of users\<close>

text \<open>
  Models \<^verbatim>\<open>AdminPatchUser\<close> and \<^verbatim>\<open>AdminDeleteUser\<close> of \<^verbatim>\<open>internal/modules/admin/handler.go\<close>. A step returns its
  refusal, if any, and the data base it leaves: the fields of a patch are written one after the other.
\<close>

definition SetUserEmailVerified :: "int \<Rightarrow> string \<Rightarrow> bool \<Rightarrow> account_db \<Rightarrow> store_err + account_db" where
  "SetUserEmailVerified now uid verified =
     update_user uid (u_EmailVerifiedAt_update (\<lambda>_. if verified then Some now else None))"

definition AdminUserID :: "aenv \<Rightarrow> string \<Rightarrow> http_err + string" where
  "AdminUserID env uid = (if an_uuid env uid then Inr uid else Inl (400, ''invalid user id''))"

type_synonym ustep = "account_db \<Rightarrow> http_err option \<times> account_db"

definition ustmt :: "aenv \<Rightarrow> string \<Rightarrow> string \<Rightarrow> (account_db \<Rightarrow> store_err + account_db) \<Rightarrow> ustep" where
  "ustmt env name msg f =
     (\<lambda>db. if \<not> an_ok env name then (Some (500, msg), db)
           else case f db of
             Inl e \<Rightarrow> (Some (if e = ErrNoRows then (404, ''user not found'') else (500, msg)), db)
           | Inr db' \<Rightarrow> (None, db'))"

definition ukeep :: ustep where "ukeep db = (None, db)"

definition admin_target :: "aenv \<Rightarrow> string \<Rightarrow> account_db \<Rightarrow> http_err + user" where
  "admin_target env uid db =
     ebind (AdminUserID env uid) (\<lambda>uid.
     ebind (ensure (an_ok env ''GetUserByID'') 500 ''lookup failed'') (\<lambda>_.
       (case GetUserByID db uid of None \<Rightarrow> Inl (404, ''user not found'') | Some u \<Rightarrow> Inr u)))"

subsection \<open>Changing a user\<close>

record patch_user =
  pu_Status :: "string option"
  pu_OrgsEnabled :: "bool option"
  pu_EmailVerified :: "bool option"

definition patch_status :: "aenv \<Rightarrow> string \<Rightarrow> user \<Rightarrow> string \<Rightarrow> ustep" where
  "patch_status env actorID target status =
     (if \<not> IsValidStatus status then (\<lambda>db. (Some (400, ''status must be active or suspended''), db))
      else if u_Role target = RoleAdmin \<and> status = StatusSuspended \<and> u_ID target = actorID
      then (\<lambda>db. (Some (403, ''cannot suspend your own admin account''), db))
      else if u_Role target = RoleAdmin \<and> status = StatusSuspended
      then (\<lambda>db. (Some (403, ''cannot suspend platform admin accounts''), db))
      else ustmt env ''UpdateUserStatus'' ''could not update user'' (UpdateUserStatus (u_ID target) status))"

definition AdminPatchUser :: "aenv \<Rightarrow> string \<Rightarrow> string \<Rightarrow> patch_user option \<Rightarrow> ustep" where
  "AdminPatchUser env actorID uid body db =
     (case admin_target env uid db of Inl e \<Rightarrow> (Some e, db)
      | Inr target \<Rightarrow>
        (case body of None \<Rightarrow> (Some (400, ''invalid body''), db)
         | Some body \<Rightarrow>
           (if pu_Status body = None \<and> pu_OrgsEnabled body = None \<and> pu_EmailVerified body = None
            then (Some (400, ''status, orgs_enabled, or email_verified is required''), db)
            else
              and_then (case pu_Status body of None \<Rightarrow> ukeep | Some s \<Rightarrow> patch_status env actorID target s)
              (and_then (case pu_OrgsEnabled body of None \<Rightarrow> ukeep
                      | Some b \<Rightarrow> ustmt env ''UpdateUserOrgsEnabled'' ''could not update orgs_enabled''
                                   (UpdateUserOrgsEnabled uid b))
              (and_then (case pu_EmailVerified body of None \<Rightarrow> ukeep
                      | Some b \<Rightarrow> ustmt env ''SetUserEmailVerified'' ''could not update email_verified''
                                   (SetUserEmailVerified (an_now env) uid b))
                (\<lambda>db. (if an_ok env ''GetUserWithCounts'' then None else Some (500, ''lookup failed''), db)))) db)))"

subsection \<open>Deleting a user\<close>

definition AdminDeleteUser :: "aenv \<Rightarrow> string \<Rightarrow> string \<Rightarrow> aworld \<Rightarrow> (http_err + unit) \<times> aworld" where
  "AdminDeleteUser env actorID uid w =
     (case ebind (admin_target env uid (aw_db w)) (\<lambda>target.
           ebind (ensure (u_ID target \<noteq> actorID) 403 ''cannot delete your own account'') (\<lambda>_.
           ebind (ensure (u_Role target \<noteq> RoleAdmin) 403 ''cannot delete platform admin accounts'') (\<lambda>_. Inr target))) of
        Inl e \<Rightarrow> (Inl e, w)
      | Inr target \<Rightarrow>
          (case ustmt env ''DeleteUser'' ''could not delete user'' (DeleteUser uid) (aw_db w) of
             (Some e, db) \<Rightarrow> (Inl e, w\<lparr>aw_db := db\<rparr>)
           | (None, db) \<Rightarrow>
               (Inr (), w\<lparr>aw_db := db,
                 aw_redis := (if an_redis_up env ''ClearVerifyResendLimit''
                              then ClearVerifyResendLimit (u_Email target) (aw_redis w) else aw_redis w)\<rparr>)))"

subsection \<open>What they keep\<close>

lemma stays_ustmt: "(\<And>d d'. P d \<Longrightarrow> f d = Inr d' \<Longrightarrow> P d') \<Longrightarrow> stays P (ustmt env name msg f)"
  by (auto simp: stays_def ustmt_def split: sum.split)

lemma stays_ukeep: "stays P ukeep"
  by (simp add: stays_def ukeep_def)

lemma DeleteUser_Inr: "DeleteUser uid db = Inr db' \<Longrightarrow> db' = without_user uid db"
  by (simp add: DeleteUser_def Let_def split: if_splits)

lemma admin_target_Inr: "admin_target env uid db = Inr t \<Longrightarrow> GetUserByID db uid = Some t \<and> t \<in> set (ad_users db) \<and> u_ID t = uid"
  by (auto simp: admin_target_def AdminUserID_def ebind_Inr_iff GetUserByID_def split: if_splits option.splits
      dest: find_key [where key = u_ID])

text \<open>An invariant that the three statements keep, the first for a status the target may get.\<close>

definition may_get :: "user \<Rightarrow> string \<Rightarrow> bool" where
  "may_get t s = (IsValidStatus s \<and> (u_Role t \<noteq> RoleAdmin \<or> s \<noteq> StatusSuspended))"

lemma AdminPatchUser_inv:
  assumes P: "P db"
    and s: "\<And>t s d d'. GetUserByID db uid = Some t \<Longrightarrow> may_get t s \<Longrightarrow> P d \<Longrightarrow> UpdateUserStatus uid s d = Inr d' \<Longrightarrow> P d'"
    and o: "\<And>b d d'. P d \<Longrightarrow> UpdateUserOrgsEnabled uid b d = Inr d' \<Longrightarrow> P d'"
    and v: "\<And>c b d d'. body = Some c \<Longrightarrow> pu_EmailVerified c = Some b \<Longrightarrow> P d \<Longrightarrow> SetUserEmailVerified (an_now env) uid b d = Inr d' \<Longrightarrow> P d'"
  shows "P (snd (AdminPatchUser env actorID uid body db))"
proof (cases "admin_target env uid db")
  case (Inr t)
  note t = admin_target_Inr [OF Inr]
  have st: "stays P (patch_status env actorID t x)" for x
  proof (cases "may_get t x")
    case True
    have "stays P (ustmt env ''UpdateUserStatus'' ''could not update user'' (UpdateUserStatus (u_ID t) x))"
      by (rule stays_ustmt, rule s [of t x]) (use t True in simp_all)
    then show ?thesis using True by (simp add: patch_status_def may_get_def)
  next
    case False
    then show ?thesis by (auto simp: patch_status_def may_get_def)
  qed
  show ?thesis
  proof (cases body)
    case (Some b)
    let ?q = "and_then (case pu_Status b of None \<Rightarrow> ukeep | Some s \<Rightarrow> patch_status env actorID t s)
              (and_then (case pu_OrgsEnabled b of None \<Rightarrow> ukeep
                      | Some b \<Rightarrow> ustmt env ''UpdateUserOrgsEnabled'' ''could not update orgs_enabled''
                                   (UpdateUserOrgsEnabled uid b))
              (and_then (case pu_EmailVerified b of None \<Rightarrow> ukeep
                      | Some b \<Rightarrow> ustmt env ''SetUserEmailVerified'' ''could not update email_verified''
                                   (SetUserEmailVerified (an_now env) uid b))
                (\<lambda>db. (if an_ok env ''GetUserWithCounts'' then None else Some (500, ''lookup failed''), db))))"
    have "stays P ?q"
    proof (intro stays_and_then stays_answer)
      show "stays P (case pu_Status b of None \<Rightarrow> ukeep | Some s \<Rightarrow> patch_status env actorID t s)"
        using st stays_ukeep by (simp split: option.split)
      show "stays P (case pu_OrgsEnabled b of None \<Rightarrow> ukeep
        | Some b \<Rightarrow> ustmt env ''UpdateUserOrgsEnabled'' ''could not update orgs_enabled'' (UpdateUserOrgsEnabled uid b))"
        using stays_ustmt [OF o] stays_ukeep by (simp split: option.split)
      show "stays P (case pu_EmailVerified b of None \<Rightarrow> ukeep
        | Some b \<Rightarrow> ustmt env ''SetUserEmailVerified'' ''could not update email_verified'' (SetUserEmailVerified (an_now env) uid b))"
        using stays_ustmt [OF v [OF Some]] stays_ukeep by (simp split: option.split)
    qed
    then have "P (snd (?q db))" using P by (simp add: stays_def)
    then show ?thesis using Inr Some P by (simp add: AdminPatchUser_def)
  qed (use P Inr in \<open>simp add: AdminPatchUser_def\<close>)
qed (use P in \<open>simp add: AdminPatchUser_def\<close>)

lemma sound_AdminPatchUser:
  assumes "sound db"
  shows "sound (snd (AdminPatchUser env actorID uid body db))"
proof (rule AdminPatchUser_inv [where P = sound])
  show "sound db'" if "sound d" "UpdateUserStatus uid s d = Inr db'" for s d db'
    using that sound_update_user unfolding UpdateUserStatus_def by fastforce
  show "sound db'" if "sound d" "UpdateUserOrgsEnabled uid b d = Inr db'" for b d db'
    using that sound_update_user unfolding UpdateUserOrgsEnabled_def by fastforce
  show "sound db'" if "sound d" "SetUserEmailVerified (an_now env) uid b d = Inr db'" for b d db'
    using that sound_update_user unfolding SetUserEmailVerified_def by fastforce
qed (rule assms)

lemma AdminDeleteUser_db:
  "aw_db (snd (AdminDeleteUser env actorID uid w)) = aw_db w \<or>
   (\<exists>t. GetUserByID (aw_db w) uid = Some t \<and> u_ID t \<noteq> actorID \<and> u_Role t \<noteq> RoleAdmin \<and>
        DeleteUser uid (aw_db w) = Inr (aw_db (snd (AdminDeleteUser env actorID uid w))))"
proof (cases "ebind (admin_target env uid (aw_db w)) (\<lambda>target.
           ebind (ensure (u_ID target \<noteq> actorID) 403 ''cannot delete your own account'') (\<lambda>_.
           ebind (ensure (u_Role target \<noteq> RoleAdmin) 403 ''cannot delete platform admin accounts'') (\<lambda>_. Inr target)))")
  case (Inl e)
  then show ?thesis by (simp add: AdminDeleteUser_def)
next
  case (Inr t)
  then have t: "GetUserByID (aw_db w) uid = Some t" "u_ID t \<noteq> actorID" "u_Role t \<noteq> RoleAdmin"
    by (auto simp: ebind_Inr_iff ensure_def dest: admin_target_Inr split: if_splits)
  show ?thesis
  proof (cases "DeleteUser uid (aw_db w)")
    case (Inl e)
    then show ?thesis using Inr by (simp add: AdminDeleteUser_def ustmt_def)
  next
    case i: (Inr db)
    then show ?thesis using Inr t by (simp add: AdminDeleteUser_def ustmt_def)
  qed
qed

text \<open>What a patch keeps of an administrator's row: all that a login looks at, and the verification unless the patch takes it back.\<close>

definition takes_back :: "patch_user option \<Rightarrow> bool" where
  "takes_back body = (case body of None \<Rightarrow> False | Some b \<Rightarrow> pu_EmailVerified b = Some False)"

definition admin_stays :: "user \<Rightarrow> bool \<Rightarrow> user \<Rightarrow> bool" where
  "admin_stays a unverified a' =
     (u_ID a' = u_ID a \<and> u_Role a' = RoleAdmin \<and> u_Status a' = StatusActive \<and> u_Email a' = u_Email a \<and>
      u_PasswordHash a' = u_PasswordHash a \<and> (u_EmailVerifiedAt a' = None \<longrightarrow> u_EmailVerifiedAt a = None \<or> unverified))"

text \<open>C39. No administrator can delete, suspend or demote an administrator, another or himself. In tables whose keys and
  references are sound, whatever a patch or a deletion asks for, an administrator's account that was active is there and active after it, with the same role, address and password;
  and its address stays verified, unless the patch is of this account and asks for \<^verbatim>\<open>email_verified\<close> false, which no guard looks at.\<close>

theorem admins_survive:
  assumes "sound (aw_db w)" "a \<in> set (ad_users (aw_db w))" "u_Role a = RoleAdmin" "u_Status a = StatusActive"
  shows "(\<exists>a' \<in> set (ad_users (snd (AdminPatchUser env actorID uid body (aw_db w)))).
            admin_stays a (uid = u_ID a \<and> takes_back body) a') \<and>
         a \<in> set (ad_users (aw_db (snd (AdminDeleteUser env actorID uid w))))"
proof -
  have uniq: "distinct (map u_ID (ad_users (aw_db w)))" using assms(1) by (simp add: sound_iff users_ok_def)
  have a: "t = a" if "GetUserByID (aw_db w) uid = Some t" "uid = u_ID a" for t
    using key_unique [OF uniq _ assms(2)] that find_key [of u_ID uid "ad_users (aw_db w)" t]
    by (auto simp: GetUserByID_def)
  let ?S = "admin_stays a (uid = u_ID a \<and> takes_back body)"
  let ?P = "\<lambda>db. \<exists>a' \<in> set (ad_users db). ?S a'"
  have keep: "?P d'" if p: "?P d" and u: "update_user uid f d = Inr d'" and f: "\<And>r. ?S r \<Longrightarrow> u_ID r = uid \<Longrightarrow> ?S (f r)" for f d d'
  proof -
    obtain r where r: "r \<in> set (ad_users d)" "?S r" using p by blast
    then have "(if u_ID r = uid then f r else r) \<in> set (ad_users d')"
      using u by (auto simp: update_user_Inr update_where_def)
    then show ?thesis using r f by (intro bexI) auto
  qed
  have "?P (snd (AdminPatchUser env actorID uid body (aw_db w)))"
  proof (rule AdminPatchUser_inv)
    fix t s d d'
    assume t: "GetUserByID (aw_db w) uid = Some t" and m: "may_get t s" and p: "?P d" and u: "UpdateUserStatus uid s d = Inr d'"
    show "?P d'"
      by (rule keep [OF p u [unfolded UpdateUserStatus_def]])
        (use m a [OF t] assms(3) in \<open>auto simp: may_get_def IsValidStatus_def admin_stays_def\<close>)
  next
    fix b d d'
    show "?P d'" if "?P d" "UpdateUserOrgsEnabled uid b d = Inr d'"
      by (rule keep [OF that(1) that(2) [unfolded UpdateUserOrgsEnabled_def]]) (auto simp: admin_stays_def)
  next
    fix c b d d'
    assume b: "body = Some c" "pu_EmailVerified c = Some b" and p: "?P d" and u: "SetUserEmailVerified (an_now env) uid b d = Inr d'"
    show "?P d'"
      by (rule keep [OF p u [unfolded SetUserEmailVerified_def]]) (use b in \<open>auto simp: admin_stays_def takes_back_def\<close>)
  qed (use assms(2-4) in \<open>auto simp: admin_stays_def\<close>)
  moreover have "a \<in> set (ad_users (aw_db (snd (AdminDeleteUser env actorID uid w))))"
    using AdminDeleteUser_db [of env actorID uid w]
  proof
    assume "\<exists>t. GetUserByID (aw_db w) uid = Some t \<and> u_ID t \<noteq> actorID \<and> u_Role t \<noteq> RoleAdmin \<and>
        DeleteUser uid (aw_db w) = Inr (aw_db (snd (AdminDeleteUser env actorID uid w)))"
    then obtain t where t: "GetUserByID (aw_db w) uid = Some t" "u_Role t \<noteq> RoleAdmin"
      "DeleteUser uid (aw_db w) = Inr (aw_db (snd (AdminDeleteUser env actorID uid w)))" by blast
    have "u_ID a \<noteq> uid"
      using t(1,2) assms(2,3) uniq find_key [of u_ID uid "ad_users (aw_db w)" t] key_unique [OF uniq, of a t]
      by (auto simp: GetUserByID_def)
    then show ?thesis using DeleteUser_Inr [OF t(3)] assms(2) by (simp add: without_user_def)
  qed (use assms(2) in simp)
  ultimately show ?thesis by blast
qed


definition admin_world :: aworld where
  "admin_world = acct_world (acct_db\<lparr>ad_users := [(acct_user ''u'' ''pro'')\<lparr>u_Role := ''admin''\<rparr>, acct_user ''v'' ''pro'']\<rparr>)"

theorem admins_survive_witness:
  "(\<exists>a' \<in> set (ad_users (snd (AdminPatchUser acct_env ''v'' ''u''
        (Some \<lparr>pu_Status = Some ''suspended'', pu_OrgsEnabled = None, pu_EmailVerified = Some True\<rparr>) (aw_db admin_world)))).
        admin_stays ((acct_user ''u'' ''pro'')\<lparr>u_Role := ''admin''\<rparr>) False a') \<and>
   (acct_user ''u'' ''pro'')\<lparr>u_Role := ''admin''\<rparr> \<in> set (ad_users (aw_db (snd (AdminDeleteUser acct_env ''v'' ''u'' admin_world))))"
proof -
  let ?a = "(acct_user ''u'' ''pro'')\<lparr>u_Role := ''admin''\<rparr>"
  let ?b = "Some \<lparr>pu_Status = Some ''suspended'', pu_OrgsEnabled = None, pu_EmailVerified = Some True\<rparr>"
  have "sound (aw_db admin_world)" by code_simp
  moreover have "?a \<in> set (ad_users (aw_db admin_world))" by (simp add: admin_world_def acct_world_def)
  moreover have "u_Role ?a = RoleAdmin" "u_Status ?a = StatusActive" by code_simp+
  ultimately have "(\<exists>a' \<in> set (ad_users (snd (AdminPatchUser acct_env ''v'' ''u'' ?b (aw_db admin_world)))).
        admin_stays ?a (''u'' = u_ID ?a \<and> takes_back ?b) a') \<and> ?a \<in> set (ad_users (aw_db (snd (AdminDeleteUser acct_env ''v'' ''u'' admin_world))))"
    by (rule admins_survive)
  moreover have "(''u'' = u_ID ?a \<and> takes_back ?b) = False" by (simp add: takes_back_def)
  ultimately show ?thesis by (simp only:)
qed

end
