(* ===== verification/Tenancy.thy ===== *)
theory Tenancy
  imports Webhooks CredentialApi Billing AdminUsers
begin

section \<open>Tenants: what a user's requests, Stripe and the administrator do together\<close>

text \<open>
  Composes the webhook API, the credential API, billing and the administrator's changes. A request of a user
  refines one abstract step of the user's: that step touches the user's own rows only, and a webhook it
  writes goes to a credential or paper account of the same user. From there, the soundness of the
  tables in every reachable state, and the isolation of users.
\<close>

subsection \<open>Requests\<close>

datatype api_request =
    Create_Webhook "create_webhook option"
  | Update_Webhook string nat "json option" "update_webhook option"
  | Rotate_Token string
  | Set_Webhook string bool
  | Delete_Webhook string
  | Create_Cred "create_cred option"
  | Update_Cred string bool "update_cred option"
  | Set_Cred string bool
  | Delete_Cred string

fun serve :: "cenv \<Rightarrow> string \<Rightarrow> api_request \<Rightarrow> aworld \<Rightarrow> aworld" where
  "serve env uid (Create_Webhook b) w = snd (CreateWebhook (cn_api env) uid b w)"
| "serve env uid (Update_Webhook wid n doc b) w = snd (UpdateWebhook (cn_api env) uid wid n doc b w)"
| "serve env uid (Rotate_Token wid) w = snd (RotateWebhookToken (cn_api env) uid wid w)"
| "serve env uid (Set_Webhook wid on) w = snd ((if on then ResumeWebhook else PauseWebhook) (cn_api env) uid wid w)"
| "serve env uid (Delete_Webhook wid) w = snd (DeleteWebhook (cn_api env) uid wid w)"
| "serve env uid (Create_Cred b) w = snd (CreateCredential env uid b w)"
| "serve env uid (Update_Cred cid force b) w = snd (UpdateCredential env uid cid force b w)"
| "serve env uid (Set_Cred cid on) w = snd ((if on then ResumeCredential else PauseCredential) (cn_api env) uid cid w)"
| "serve env uid (Delete_Cred cid) w = snd (DeleteCredential (cn_api env) uid cid w)"

subsection \<open>The abstract step of a user\<close>

definition owns_webhook :: "account_db \<Rightarrow> string \<Rightarrow> string \<Rightarrow> bool" where
  "owns_webhook db uid wid = (\<exists>w. pg_GetWebhookByID db wid = Some w \<and> wh_UserID w = uid)"

definition owns_cred :: "account_db \<Rightarrow> string \<Rightarrow> string \<Rightarrow> bool" where
  "owns_cred db uid cid = (\<exists>c. GetBrokerCred db cid = Some c \<and> bc_UserID c = uid)"

inductive own_step :: "string \<Rightarrow> account_db \<Rightarrow> account_db \<Rightarrow> bool" for uid where
  refused: "own_step uid db db"
| new_hook: "pg_CreateWebhook ac wh db = Inr db' \<Longrightarrow> wh_UserID wh = uid \<Longrightarrow> same_owner db wh \<Longrightarrow> own_step uid db db'"
| set_hook: "pg_UpdateWebhook ac wh db = Inr db' \<Longrightarrow> wh_UserID wh = uid \<Longrightarrow> same_owner db wh \<Longrightarrow> own_step uid db db'"
| new_token: "pg_RotateWebhookToken wid uid t db = Inr db' \<Longrightarrow> own_step uid db db'"
| hook_status: "owns_webhook db uid wid \<Longrightarrow> own_step uid db (UpdateWebhookStatus wid s db)"
| hook_resumed: "owns_webhook db uid wid \<Longrightarrow> own_step uid db (ClearWebhookAutoPaused wid (UpdateWebhookStatus wid s db))"
| no_hook: "owns_webhook db uid wid \<Longrightarrow> pg_DeleteWebhook wid db = Inr db' \<Longrightarrow> own_step uid db db'"
| new_cred: "CreateBrokerCred ac c db = Inr db' \<Longrightarrow> bc_UserID c = uid \<Longrightarrow> own_step uid db db'"
| set_cred: "owns_cred db uid (bc_ID c) \<Longrightarrow> UpdateBrokerCred ac c db = Inr db' \<Longrightarrow> own_step uid db db'"
| cred_status: "owns_cred db uid cid \<Longrightarrow> UpdateBrokerCredStatus cid s db = Inr db' \<Longrightarrow> own_step uid db db'"
| cred_resumed: "owns_cred db uid cid \<Longrightarrow> UpdateBrokerCredStatus cid s db = Inr db' \<Longrightarrow>
    own_step uid db (ClearCredentialAutoPaused cid db')"
| no_cred: "owns_cred db uid cid \<Longrightarrow> DeleteBrokerCred cid c db = Inr db' \<Longrightarrow> own_step uid db db'"

lemma own_step_sound: "own_step uid db db' \<Longrightarrow> sound db \<Longrightarrow> sound db'"
  by (induction rule: own_step.induct)
    (auto intro: sound_CreateWebhook sound_UpdateWebhook sound_RotateToken sound_DeleteWebhook sound_CreateBrokerCred
      sound_UpdateBrokerCred sound_UpdateBrokerCredStatus sound_DeleteBrokerCred sound_pauses)

text \<open>What a user's step leaves alone.\<close>

definition others_view :: "string \<Rightarrow> account_db \<Rightarrow> user list \<times> webhook list \<times> broker_credential list \<times>
    (string \<times> string \<times> string) list \<times> (string \<times> string) list" where
  "others_view uid db = (ad_users db, filter (\<lambda>w. wh_UserID w \<noteq> uid) (ad_webhooks db),
     filter (\<lambda>c. bc_UserID c \<noteq> uid) (ad_creds db), ad_settings db, ad_papers db)"

lemma RequireWebhookAccess_ok:
  "on_ok (\<lambda>w. pg_GetWebhookByID db wid = Some w \<and> wh_UserID w = uid) (RequireWebhookAccess env uid wid mutate db)"
  unfolding RequireWebhookAccess_def
  by (rule on_ok_ebind_any, rule on_ok_ebind_any)
    (auto simp: Let_def WebhookMutable_def WebhookAccessible_def ResolveResourceScope_def split: option.split)

lemma db_frames [simp]:
  "aw_db (audit uid a w) = aw_db w" "aw_db (drop_cached env t w) = aw_db w"
  by (simp_all add: audit_def drop_cached_def)

text \<open>A webhook of the tables as it is read has one owner with its destination.\<close>

lemma same_owner_read:
  assumes "sound db" "pg_GetWebhookByID db wid = Some w"
  shows "same_owner db w"
proof -
  obtain r where r: "r \<in> set (ad_webhooks db)" "w = scanWebhook r" using GetWebhookByID_Some [OF assms(2)] by blast
  have "same_owner db r" using assms(1) r(1) by (simp add: sound_def tenant_ok_def list_all_iff)
  then show ?thesis using r(2) same_owner_cong [of w r db] by (simp add: hook_refs_def scanWebhook_def)
qed

lemma redirected_owner:
  assumes "sound db" "pg_GetWebhookByID db wid = Some w" "wh_UserID w = uid" "redirected db uid w w'"
  shows "wh_UserID w' = uid" "same_owner db w'"
proof -
  show u: "wh_UserID w' = uid" using assms(3,4) by (auto simp: redirected_def keeps_def directed_def identity_def)
  consider (same) "hook_refs w' = hook_refs w" | (new) "usable db uid (destination_of w')"
    using assms(4) by (auto simp: redirected_def keeps_def directed_def identity_def hook_refs_split)
  then show "same_owner db w'"
  proof cases
    case same
    then show ?thesis using same_owner_cong same_owner_read [OF assms(1,2)] by blast
  next
    case new
    then show ?thesis using usable_same_owner u by blast
  qed
qed


text \<open>An update or deletion of rows of one owner.\<close>

lemma filter_others_update:
  "(\<And>r. r \<in> set rs \<Longrightarrow> P r \<Longrightarrow> \<not> Q r \<and> \<not> Q (f r)) \<Longrightarrow> filter Q (update_where P f rs) = filter Q rs"
  by (induction rs) (auto simp: update_where_def)

lemma filter_others_delete: "(\<And>r. r \<in> set rs \<Longrightarrow> \<not> P r \<Longrightarrow> \<not> Q r) \<Longrightarrow> filter Q (filter P rs) = filter Q rs"
  by (induction rs) auto

lemma owned_hook:
  assumes "sound db" "owns_webhook db uid wid" "r \<in> set (ad_webhooks db)" "wh_ID r = wid"
  shows "wh_UserID r = uid"
proof -
  obtain r' where r': "r' \<in> set (ad_webhooks db)" "wh_ID r' = wid" "wh_UserID r' = uid"
    using assms(2) GetWebhookByID_Some unfolding owns_webhook_def by (fastforce simp: scanWebhook_def)
  then show ?thesis using key_unique [of wh_ID "ad_webhooks db" r r'] assms by (simp add: sound_iff hooks_ok_def)
qed

lemma owned_credential:
  assumes "sound db" "owns_cred db uid cid" "r \<in> set (ad_creds db)" "bc_ID r = cid"
  shows "bc_UserID r = uid"
proof -
  obtain c where c: "GetBrokerCred db cid = Some c" "bc_UserID c = uid" using assms(2) unfolding owns_cred_def by blast
  have "distinct (map bc_ID (ad_creds db))" using assms(1) by (simp add: sound_iff creds_ok_def)
  then have "r = c" using key_unique assms(3,4) GetBrokerCred_Some [OF c(1)] by metis
  then show ?thesis using c(2) by simp
qed

lemma CreateWebhook_rows:
  assumes "pg_CreateWebhook ac wh db = Inr db'"
  shows "\<exists>r. wh_UserID r = wh_UserID wh \<and> db' = db\<lparr>ad_webhooks := ad_webhooks db @ [r]\<rparr>"
proof -
  obtain x where x: "encode_webhook ac wh = Inr x"
    and db': "db' = db\<lparr>ad_webhooks := ad_webhooks db @ [x\<lparr>wh_AutoPaused := False, wh_AdminDisabled := False\<rparr>]\<rparr>"
    using assms by (auto simp: pg_CreateWebhook_def ebind_Inr_iff Let_def split: if_splits)
  show ?thesis by (rule exI, rule conjI [OF _ db']) (use encode_webhook_Inr(3) [OF x] in \<open>simp add: hook_refs_def\<close>)
qed

lemma CreateBrokerCred_rows:
  assumes "CreateBrokerCred ac c db = Inr db'"
  shows "\<exists>r. bc_UserID r = bc_UserID c \<and> db' = db\<lparr>ad_creds := ad_creds db @ [r]\<rparr>"
proof -
  obtain x where db': "db' = db\<lparr>ad_creds := ad_creds db @ [c\<lparr>bc_MarketProtection := x, bc_ConnectedAt := None,
      bc_Status := ''active'', bc_AutoPaused := False, bc_AdminDisabled := False\<rparr>]\<rparr>"
    using assms by (auto simp: CreateBrokerCred_def encode_cred_def Let_def ebind_Inr_iff)
  show ?thesis by (rule exI, rule conjI [OF _ db']) simp
qed

lemma UpdateWebhook_rows:
  "pg_UpdateWebhook ac wh db = Inr db' \<Longrightarrow>
   \<exists>r. db' = db\<lparr>ad_webhooks := update_where (\<lambda>w. wh_ID w = wh_ID wh \<and> wh_UserID w = wh_UserID wh) (set_webhook r) (ad_webhooks db)\<rparr>"
  by (auto simp: pg_UpdateWebhook_def ebind_Inr_iff update_some_Inr)

lemma UpdateBrokerCred_rows:
  "UpdateBrokerCred ac c db = Inr db' \<Longrightarrow>
   \<exists>r. db' = db\<lparr>ad_creds := update_where (owned_cred (bc_ID c) c) (set_cred r) (ad_creds db)\<rparr>"
  by (auto simp: UpdateBrokerCred_def ebind_Inr_iff update_some_Inr)

lemma CredStatus_rows:
  "UpdateBrokerCredStatus cid s db = Inr db' \<Longrightarrow> db' = update_creds (\<lambda>c. bc_ID c = cid) (bc_Status_update (\<lambda>_. s)) db"
  by (auto simp: UpdateBrokerCredStatus_def ebind_Inr_iff update_rows_Inr update_creds_def)

lemma own_step_others:
  assumes "own_step uid db db'" "sound db"
  shows "others_view uid db' = others_view uid db"
  using assms
proof (induction rule: own_step.induct)
  case (new_hook ac wh db db')
  then show ?case using CreateWebhook_rows by (fastforce simp: others_view_def)
next
  case (set_hook ac wh db db')
  then obtain r where "db' = db\<lparr>ad_webhooks := update_where (\<lambda>w. wh_ID w = wh_ID wh \<and> wh_UserID w = wh_UserID wh) (set_webhook r) (ad_webhooks db)\<rparr>"
    using UpdateWebhook_rows by blast
  then show ?case using set_hook(2) by (simp add: others_view_def) (rule filter_others_update, simp add: set_webhook_def)
next
  case (new_token wid t db db')
  then have "db' = update_webhooks (\<lambda>w. wh_ID w = wid \<and> wh_UserID w = uid) (wh_TokenHash_update (\<lambda>_. t)) db"
    by (simp add: pg_RotateWebhookToken_def split: if_splits)
  then show ?case by (simp add: others_view_def update_webhooks_def) (rule filter_others_update, simp)
next
  case (hook_status db wid s)
  then show ?case
    by (simp add: others_view_def UpdateWebhookStatus_def update_webhooks_def) (rule filter_others_update, simp add: owned_hook)
next
  case (hook_resumed db wid s)
  have "ad_webhooks (ClearWebhookAutoPaused wid (UpdateWebhookStatus wid s db)) =
      update_where (\<lambda>w. wh_ID w = wid) (wh_AutoPaused_update (\<lambda>_. False) \<circ> wh_Status_update (\<lambda>_. s)) (ad_webhooks db)"
    by (simp add: ClearWebhookAutoPaused_def UpdateWebhookStatus_def update_webhooks_def update_where_def)
  moreover have "filter (\<lambda>w. wh_UserID w \<noteq> uid) (update_where (\<lambda>w. wh_ID w = wid)
      (wh_AutoPaused_update (\<lambda>_. False) \<circ> wh_Status_update (\<lambda>_. s)) (ad_webhooks db)) = filter (\<lambda>w. wh_UserID w \<noteq> uid) (ad_webhooks db)"
    using hook_resumed by (intro filter_others_update) (simp add: owned_hook)
  ultimately show ?case
    by (simp add: others_view_def ClearWebhookAutoPaused_def UpdateWebhookStatus_def update_webhooks_def)
next
  case (no_hook db wid db')
  then have "db' = db\<lparr>ad_webhooks := filter (\<lambda>w. wh_ID w \<noteq> wid) (ad_webhooks db)\<rparr>"
    by (simp add: pg_DeleteWebhook_def split: if_splits)
  then show ?case using no_hook
    by (simp add: others_view_def) (rule filter_others_delete [unfolded filter_filter], simp add: owned_hook)
next
  case (new_cred ac c db db')
  then show ?case using CreateBrokerCred_rows by (fastforce simp: others_view_def)
next
  case (set_cred db c ac db')
  then obtain r where "db' = db\<lparr>ad_creds := update_where (owned_cred (bc_ID c) c) (Accounts.set_cred r) (ad_creds db)\<rparr>"
    using UpdateBrokerCred_rows by blast
  then show ?case using set_cred(1,3)
    by (simp add: others_view_def) (rule filter_others_update, simp add: owned_cred_def owned_credential Accounts.set_cred_def)
next
  case (cred_status db cid s db')
  then show ?case using CredStatus_rows [OF cred_status(2)]
    by (simp add: others_view_def update_creds_def) (rule filter_others_update, simp add: owned_credential)
next
  case (cred_resumed db cid s db')
  have "ad_creds (ClearCredentialAutoPaused cid db') =
      update_where (\<lambda>c. bc_ID c = cid) (bc_AutoPaused_update (\<lambda>_. False) \<circ> bc_Status_update (\<lambda>_. s)) (ad_creds db)"
    using CredStatus_rows [OF cred_resumed(2)] by (simp add: ClearCredentialAutoPaused_def update_creds_def update_where_def)
  moreover have "filter (\<lambda>c. bc_UserID c \<noteq> uid) (update_where (\<lambda>c. bc_ID c = cid)
      (bc_AutoPaused_update (\<lambda>_. False) \<circ> bc_Status_update (\<lambda>_. s)) (ad_creds db)) = filter (\<lambda>c. bc_UserID c \<noteq> uid) (ad_creds db)"
    using cred_resumed by (intro filter_others_update) (simp add: owned_credential)
  ultimately show ?case using CredStatus_rows [OF cred_resumed(2)]
    by (simp add: others_view_def ClearCredentialAutoPaused_def update_creds_def)
next
  case (no_cred db cid c db')
  then have "db' = db\<lparr>ad_creds := filter (\<lambda>r. \<not> owned_cred cid c r) (ad_creds db)\<rparr>"
    by (simp add: DeleteBrokerCred_def split: if_splits)
  then show ?case using no_cred
    by (simp add: others_view_def) (rule filter_others_delete [unfolded filter_filter], simp add: owned_cred_def owned_credential)
qed simp


subsection \<open>A request refines the abstract step\<close>

lemma serve_own_hooks:
  assumes "sound (aw_db w)"
  shows "own_step uid (aw_db w) (aw_db (snd (CreateWebhook env uid b w)))"
    "own_step uid (aw_db w) (aw_db (snd (UpdateWebhook env uid wid n doc u w)))"
    "own_step uid (aw_db w) (aw_db (snd (RotateWebhookToken env uid wid w)))"
    "own_step uid (aw_db w) (aw_db (snd (SetWebhookStatus env uid wid st w)))"
    "own_step uid (aw_db w) (aw_db (snd (DeleteWebhook env uid wid w)))"
proof -
  have build: "wh_UserID wh = uid \<and> same_owner (aw_db w) wh" if "build_webhook env uid b (aw_db w) = Inr wh" for wh
    using on_okD [OF build_webhook_ok that] usable_same_owner by blast
  have change: "wh_UserID wh = uid \<and> same_owner (aw_db w) wh" if "change_webhook env uid wid n doc u (aw_db w) = Inr wh" for wh
    using on_okD [OF change_webhook_ok that] redirected_owner [OF assms] by blast
  have own: "owns_webhook (aw_db w) uid wid" if "RequireWebhookAccess env uid wid True (aw_db w) = Inr x" for x
    using on_okD [OF RequireWebhookAccess_ok that] unfolding owns_webhook_def by blast
  show "own_step uid (aw_db w) (aw_db (snd (CreateWebhook env uid b w)))"
    using build by (auto simp: CreateWebhook_def split: sum.split option.split intro: own_step.refused own_step.new_hook)
  show "own_step uid (aw_db w) (aw_db (snd (UpdateWebhook env uid wid n doc u w)))"
    using change by (auto simp: UpdateWebhook_def split: sum.split option.split intro: own_step.refused own_step.set_hook)
  show "own_step uid (aw_db w) (aw_db (snd (RotateWebhookToken env uid wid w)))"
    by (auto simp: RotateWebhookToken_def split: sum.split option.split intro: own_step.refused own_step.new_token)
  show "own_step uid (aw_db w) (aw_db (snd (SetWebhookStatus env uid wid st w)))"
    using own by (auto simp: SetWebhookStatus_def Let_def ebind_Inr_iff split: sum.split
        intro: own_step.refused own_step.hook_status own_step.hook_resumed)
  show "own_step uid (aw_db w) (aw_db (snd (DeleteWebhook env uid wid w)))"
    using own by (auto simp: DeleteWebhook_def split: sum.split option.split intro: own_step.refused own_step.no_hook)
qed

lemma serve_own_creds:
  "own_step uid (aw_db w) (aw_db (snd (CreateCredential env uid b w)))"
  "own_step uid (aw_db w) (aw_db (snd (UpdateCredential env uid cid force u w)))"
  "own_step uid (aw_db w) (aw_db (snd (SetCredentialStatus api uid cid st w)))"
  "own_step uid (aw_db w) (aw_db (snd (DeleteCredential api uid cid w)))"
proof -
  have own: "owns_cred (aw_db w) uid cid" if "RequireCredentialAccess api uid cid True (aw_db w) = Inr x" for x
    using on_okD [OF RequireCredentialAccess_ok that] unfolding owns_cred_def by blast
  have change: "owns_cred (aw_db w) uid (bc_ID c)" if c: "change_cred env uid cid force u (aw_db w) = Inr c" for c
    using on_okD [OF change_cred_ok c] GetBrokerCred_Some unfolding owns_cred_def by (fastforce simp: cred_identity_def)
  show "own_step uid (aw_db w) (aw_db (snd (CreateCredential env uid b w)))"
    using on_okD [OF build_cred_ok]
    by (auto simp: CreateCredential_def Let_def split: sum.split option.split intro: own_step.refused own_step.new_cred)
  show "own_step uid (aw_db w) (aw_db (snd (UpdateCredential env uid cid force u w)))"
    using change by (auto simp: UpdateCredential_def Let_def split: sum.split option.split
        intro: own_step.refused own_step.set_cred)
  show "own_step uid (aw_db w) (aw_db (snd (SetCredentialStatus api uid cid st w)))"
    using own by (auto simp: SetCredentialStatus_def ebind_Inr_iff split: sum.split option.split
        intro: own_step.refused own_step.cred_status own_step.cred_resumed)
  show "own_step uid (aw_db w) (aw_db (snd (DeleteCredential api uid cid w)))"
    using own by (auto simp: DeleteCredential_def ebind_Inr_iff split: sum.split option.split
        intro: own_step.refused own_step.no_cred)
qed

lemma serve_own: "sound (aw_db w) \<Longrightarrow> own_step uid (aw_db w) (aw_db (serve env uid rq w))"
  by (cases rq) (simp_all add: serve_own_hooks serve_own_creds ResumeWebhook_def PauseWebhook_def ResumeCredential_def PauseCredential_def)

subsection \<open>The platform\<close>

text \<open>
  Besides the requests of users: Stripe, the checkout, the administrator, new users, and the paper accounts that
  are opened and closed. A paper account can only be closed when no webhook goes to it: its deletion would leave the
  webhook without a destination, which the tables forbid.
\<close>

inductive sys_step :: "aworld \<Rightarrow> aworld \<Rightarrow> bool" where
  request: "sys_step w (serve env uid rq w)"
| stripe: "sys_step w (w\<lparr>aw_db := snd (PostStripeWebhook api cfg wired sig ev (aw_db w))\<rparr>)"
| checkout: "sys_step w (w\<lparr>aw_db := snd (CreateCheckout api cfg gateway membership uid p (aw_db w))\<rparr>)"
| admin_plan: "sys_step w (w\<lparr>aw_db := snd (AdminSetUserPlan api uid pn (aw_db w))\<rparr>)"
| admin_oauth: "sys_step w (snd (AdminSetZerodhaOAuthEnabled api adminID on w))"
| admin_publisher: "sys_step w (snd (AdminSetZerodhaPublisherEnabled api adminID on w))"
| admin_patch: "sys_step w (w\<lparr>aw_db := snd (AdminPatchUser api adminID uid body (aw_db w))\<rparr>)"
| admin_delete: "sys_step w (snd (AdminDeleteUser api adminID uid w))"
| new_user: "CreateUser u (aw_db w) = Inr db \<Longrightarrow> sys_step w (w\<lparr>aw_db := db\<rparr>)"
| paper_opened: "uid \<in> set (user_ids (aw_db w)) \<Longrightarrow> aid \<notin> fst ` set (ad_papers (aw_db w)) \<Longrightarrow>
    sys_step w (w\<lparr>aw_db := (aw_db w)\<lparr>ad_papers := ad_papers (aw_db w) @ [(aid, uid)]\<rparr>\<rparr>)"
| paper_closed: "CountWebhooksByPaperAccount (aw_db w) aid = 0 \<Longrightarrow>
    sys_step w (w\<lparr>aw_db := (aw_db w)\<lparr>ad_papers := filter (\<lambda>p. fst p \<noteq> aid) (ad_papers (aw_db w))\<rparr>\<rparr>)"

inductive reachable :: "aworld \<Rightarrow> bool" where
  start: "ad_users (aw_db w) = [] \<Longrightarrow> ad_webhooks (aw_db w) = [] \<Longrightarrow> ad_creds (aw_db w) = [] \<Longrightarrow> reachable w"
| step: "reachable w \<Longrightarrow> sys_step w w' \<Longrightarrow> reachable w'"

lemma billing_keeps_sound: "billing_keeps sound"
  unfolding billing_keeps_def
proof (intro conjI allI impI)
  show "sound d'" if "sound d" "update_user uid f d = Inr d'" "\<forall>u. u_ID (f u) = u_ID u \<and> u_Email (f u) = u_Email u" for uid f d d'
    using sound_update_user that by blast
  show "sound (snd (RecordStripeWebhookEvent i t d))" if "sound d" for i t d
    using sound_frame [OF that] by (simp add: RecordStripeWebhookEvent_def)
qed (simp_all add: sound_pauses)

lemma sound_PostStripeWebhook:
  assumes "sound db"
  shows "sound (snd (PostStripeWebhook api cfg wired sig ev db))"
proof -
  have "sound d" if "Handle api (Some cfg) e db = (r, d)" for e r d
    using staysD [OF stays_Handle [OF billing_keeps_sound] assms, of api "Some cfg" e] that by simp
  then show ?thesis using assms by (auto simp: PostStripeWebhook_def split: option.split prod.split)
qed

lemma sound_CreateCheckout:
  assumes "sound db"
  shows "sound (snd (CreateCheckout api cfg gateway membership uid p db))"
proof -
  have "sound d" if "SetUserStripeCustomerID uid c db = Inr d" for c d
    using that sound_update_user [OF assms] by (auto simp: SetUserStripeCustomerID_def split: if_splits)
  then show ?thesis using assms
    by (auto simp: CreateCheckout_def Let_def split: option.split sum.split)
qed

lemma sound_AdminSetUserPlan:
  assumes "sound db"
  shows "sound (snd (AdminSetUserPlan api uid pn db))"
proof -
  have a: "sound d" if "Apply api uid p db = (r, d)" for p r d
    using staysD [OF stays_Apply [OF billing_keeps_sound] assms, of api uid p] that by simp
  have b: "sound d'" if "sound d" "UpdateUserBillingSource uid src d = Inr d'" for src d d'
    using that sound_update_user by (auto simp: UpdateUserBillingSource_def)
  show ?thesis
  proof (cases pn)
    case (Some p)
    obtain r d where r: "Apply api uid p db = (r, d)" by fastforce
    show ?thesis using a [OF r] b [OF a [OF r]] r Some assms
      by (auto simp: AdminSetUserPlan_def split: option.split)
  qed (use assms in \<open>simp add: AdminSetUserPlan_def\<close>)
qed

lemma sound_set_mode: "sound (aw_db w) \<Longrightarrow> sound (aw_db (snd (set_mode_enabled api key mode action adminID on w)))"
proof -
  assume s: "sound (aw_db w)"
  have "sound db" if "SetPlatformSetting key v adminID (aw_db w) = Inr db" for v db
    using sound_frame [OF s] that by (auto simp: SetPlatformSetting_def split: if_splits)
  then show ?thesis using s
    by (auto simp: set_mode_enabled_def Let_def sound_pauses split: option.split)
qed


lemma sound_papers:
  assumes "sound db" "\<And>w aid. w \<in> set (ad_webhooks db) \<Longrightarrow> wh_PaperAccountID w = Some aid \<Longrightarrow> (aid, wh_UserID w) \<in> P"
    "set ps = P"
  shows "sound (db\<lparr>ad_papers := ps\<rparr>)"
  using assms by (fastforce simp: sound_iff refs_ok_def hook_ref_ok_def hook_refs_def)

lemma sys_step_sound: "sys_step w w' \<Longrightarrow> sound (aw_db w) \<Longrightarrow> sound (aw_db w')"
proof (induction rule: sys_step.induct)
  case (request w env uid rq)
  then show ?case using serve_own own_step_sound by blast
next
  case (admin_delete w api adminID uid)
  then show ?case using AdminDeleteUser_db [of api adminID uid w] sound_DeleteUser by metis
next
  case (paper_opened uid w aid)
  have "(a, wh_UserID x) \<in> set (ad_papers (aw_db w) @ [(aid, uid)])"
    if "x \<in> set (ad_webhooks (aw_db w))" "wh_PaperAccountID x = Some a" for x a
    using paper_opened(3) that by (auto simp: sound_def tenant_ok_def list_all_iff same_owner_def)
  then show ?case using sound_papers [OF paper_opened(3) _ refl] by simp
next
  case (paper_closed w aid)
  have "(a, wh_UserID x) \<in> set (filter (\<lambda>p. fst p \<noteq> aid) (ad_papers (aw_db w)))"
    if "x \<in> set (ad_webhooks (aw_db w))" "wh_PaperAccountID x = Some a" for x a
  proof -
    have "a \<noteq> aid" using paper_closed(1) that
      by (auto simp: CountWebhooksByPaperAccount_def count_webhooks_def sql_count_def filter_empty_conv)
    then show ?thesis using paper_closed(2) that by (auto simp: sound_def tenant_ok_def list_all_iff same_owner_def)
  qed
  then show ?case using sound_papers [OF paper_closed(2) _ refl] by simp
qed (simp_all add: sound_PostStripeWebhook sound_CreateCheckout sound_AdminSetUserPlan sound_AdminPatchUser sound_CreateUser
    AdminSetZerodhaOAuthEnabled_def AdminSetZerodhaPublisherEnabled_def sound_set_mode)

lemma reachable_sound: "reachable w \<Longrightarrow> sound (aw_db w)"
proof (induction rule: reachable.induct)
  case (start w)
  then show ?case by (simp add: sound_iff users_ok_def hooks_ok_def creds_ok_def refs_ok_def)
qed (rule sys_step_sound)

text \<open>A platform with one user, a paper account, and a webhook that the user asked for.\<close>

definition paper_request :: create_webhook where
  "paper_request = \<lparr> cw_Label = ''l'', cw_BrokerCredID = [], cw_PaperAccountID = ''a1'', cw_LotSize = 1, cw_MaxRiskPct = 1,
     cw_SLPoints = 0, cw_TPPoints = 0, cw_DefaultOrderType = [], cw_AllowedActions = [], cw_AllowedSymbols = [''INFY''],
     cw_MaxLotSize = 0, cw_RateLimitPerSec = None, cw_RateLimitPerMin = None, cw_DedupWindowSec = None, cw_Timezone = [],
     cw_TradingHours = None, cw_RequiredComment = [] \<rparr>"

definition empty_db :: account_db where
  "empty_db = \<lparr> ad_users = [], ad_webhooks = [], ad_creds = [], ad_events = [], ad_settings = [], ad_papers = [], ad_orgs = [] \<rparr>"

definition one_user :: aworld where
  "one_user = acct_world (empty_db\<lparr>ad_users := [(acct_user ''u'' ''free'')\<lparr>u_StripeCustomerID := [], u_BillingSource := ''free''\<rparr>]\<rparr>)"

definition one_account :: aworld where
  "one_account = acct_world ((aw_db one_user)\<lparr>ad_papers := [(''a1'', ''u'')]\<rparr>)"

definition one_webhook :: "cenv \<Rightarrow> aworld" where
  "one_webhook env = serve (env\<lparr>cn_api := acct_env\<rparr>) ''u'' (Create_Webhook (Some paper_request)) one_account"

lemma one_webhook_rows:
  "map wh_PaperAccountID (ad_webhooks (aw_db (one_webhook env))) = [Some ''a1'']"
  "map wh_UserID (ad_webhooks (aw_db (one_webhook env))) = [''u'']"
  by (simp_all add: one_webhook_def) code_simp+

lemma one_account_reachable: "reachable one_account"
proof -
  have "reachable (acct_world empty_db)" by (rule reachable.start) (simp_all add: acct_world_def empty_db_def)
  moreover have "CreateUser (acct_user ''u'' ''free'') (aw_db (acct_world empty_db)) = Inr (aw_db one_user)" by code_simp
  then have "sys_step (acct_world empty_db) ((acct_world empty_db)\<lparr>aw_db := aw_db one_user\<rparr>)" by (rule sys_step.new_user)
  ultimately have "reachable ((acct_world empty_db)\<lparr>aw_db := aw_db one_user\<rparr>)" by (rule reachable.step)
  then have "reachable one_user" by (simp add: one_user_def acct_world_def)
  moreover have "sys_step one_user (one_user\<lparr>aw_db := (aw_db one_user)\<lparr>ad_papers := ad_papers (aw_db one_user) @ [(''a1'', ''u'')]\<rparr>\<rparr>)"
    by (rule sys_step.paper_opened) (simp_all add: one_user_def acct_world_def empty_db_def user_ids_def acct_user_def)
  ultimately have "reachable (one_user\<lparr>aw_db := (aw_db one_user)\<lparr>ad_papers := ad_papers (aw_db one_user) @ [(''a1'', ''u'')]\<rparr>\<rparr>)"
    by (rule reachable.step)
  then show ?thesis by (simp add: one_account_def one_user_def acct_world_def empty_db_def)
qed

lemma one_webhook_reachable: "reachable (one_webhook env)"
  unfolding one_webhook_def by (rule reachable.step [OF one_account_reachable]) (rule sys_step.request)

text \<open>
  C8. No webhook ever trades on another user's account. In every state that requests, Stripe, the checkout, the
  administrator and the paper accounts lead to, a webhook has exactly one destination, and the
  credential or the paper account it goes to is there and belongs to the webhook's user.
\<close>

theorem no_foreign_destination:
  assumes "reachable w" "wh \<in> set (ad_webhooks (aw_db w))"
  shows "(\<exists>c \<in> set (ad_creds (aw_db w)). wh_BrokerCredID wh = Some (bc_ID c) \<and> wh_PaperAccountID wh = None \<and>
            bc_UserID c = wh_UserID wh) \<or>
         (\<exists>aid. wh_BrokerCredID wh = None \<and> wh_PaperAccountID wh = Some aid \<and> (aid, wh_UserID wh) \<in> set (ad_papers (aw_db w)))"
proof -
  have "same_owner (aw_db w) wh" "one_destination wh"
    using reachable_sound [OF assms(1)] assms(2) by (simp_all add: sound_def tenant_ok_def accounts_ok_def hooks_ok_def list_all_iff)
  then show ?thesis
    by (cases "wh_BrokerCredID wh"; cases "wh_PaperAccountID wh") (auto simp: same_owner_def one_destination_def list_ex_iff)
qed

theorem no_foreign_destination_witness:
  "\<forall>env. \<exists>wh. ad_webhooks (aw_db (one_webhook env)) = [wh] \<and> wh_PaperAccountID wh = Some ''a1'' \<and> wh_BrokerCredID wh = None \<and>
     (''a1'', wh_UserID wh) \<in> set (ad_papers (aw_db (one_webhook env)))"
proof
  fix env :: cenv
  obtain wh where "ad_webhooks (aw_db (one_webhook env)) = [wh]" "wh_PaperAccountID wh = Some ''a1''"
    using one_webhook_rows(1) [of env] by (cases "ad_webhooks (aw_db (one_webhook env))") auto
  then show "\<exists>wh. ad_webhooks (aw_db (one_webhook env)) = [wh] \<and> wh_PaperAccountID wh = Some ''a1'' \<and> wh_BrokerCredID wh = None \<and>
     (''a1'', wh_UserID wh) \<in> set (ad_papers (aw_db (one_webhook env)))"
    using no_foreign_destination [OF one_webhook_reachable, of wh env] by auto
qed

text \<open>
  C9. Users are isolated in the routes of webhooks and credentials. Whatever a user asks there (to create, change, rotate, pause, resume
  or delete a webhook, or to create, change, pause, resume or delete a credential), and whether it succeeds or fails, the rows of
  all users, the webhooks and credentials of every other user, the settings of the platform and the paper accounts are the same after it.
\<close>

theorem users_isolated:
  assumes "reachable w"
  shows "others_view uid (aw_db (serve env uid rq w)) = others_view uid (aw_db w)"
  using own_step_others [OF serve_own] reachable_sound [OF assms] by blast

theorem users_isolated_witness:
  "\<forall>env. ad_webhooks (aw_db (serve env ''v'' (Delete_Webhook ''n1'') (one_webhook env))) \<noteq> [] \<and>
     others_view ''v'' (aw_db (serve env ''v'' (Delete_Webhook ''n1'') (one_webhook env))) = others_view ''v'' (aw_db (one_webhook env))"
proof
  fix env :: cenv
  have v: "others_view ''v'' (aw_db (serve env ''v'' (Delete_Webhook ''n1'') (one_webhook env))) = others_view ''v'' (aw_db (one_webhook env))"
    by (rule users_isolated [OF one_webhook_reachable])
  obtain wh where "ad_webhooks (aw_db (one_webhook env)) = [wh]" "wh_UserID wh = ''u''"
    using one_webhook_rows(2) [of env] by (cases "ad_webhooks (aw_db (one_webhook env))") auto
  then have "filter (\<lambda>w. wh_UserID w \<noteq> ''v'') (ad_webhooks (aw_db (serve env ''v'' (Delete_Webhook ''n1'') (one_webhook env)))) = [wh]"
    using v by (simp add: others_view_def)
  then have "ad_webhooks (aw_db (serve env ''v'' (Delete_Webhook ''n1'') (one_webhook env))) \<noteq> []" by (metis filter.simps(1) list.distinct(1))
  then show "ad_webhooks (aw_db (serve env ''v'' (Delete_Webhook ''n1'') (one_webhook env))) \<noteq> [] \<and>
     others_view ''v'' (aw_db (serve env ''v'' (Delete_Webhook ''n1'') (one_webhook env))) = others_view ''v'' (aw_db (one_webhook env))"
    using v by blast
qed

end
