(* ===== verification/Caps.thy ===== *)
theory Caps
  imports Tenancy
begin

section \<open>The caps of a plan\<close>

text \<open>
  How many paper and live webhooks a plan allows, and what the webhook API makes of it: a new webhook
  and a resumed one stay within the cap of their kind; a webhook that is moved from a paper account to a
  credential is not counted again.
\<close>

definition kind_of :: "webhook \<Rightarrow> bool" where
  "kind_of w = (wh_PaperAccountID w \<noteq> None)"

definition kind_cap :: "user \<Rightarrow> bool \<Rightarrow> int" where
  "kind_cap u paper = (let l = LimitsFor (EffectivePlan (u_Plan u)) in if paper then MaxPaperWebhooks l else MaxLiveWebhooks l)"

definition kind_count :: "account_db \<Rightarrow> string \<Rightarrow> bool \<Rightarrow> int" where
  "kind_count db uid paper = (if paper then CountPaperWebhooksByUser db uid else CountLiveWebhooksByUser db uid)"

definition active_count :: "account_db \<Rightarrow> string \<Rightarrow> bool \<Rightarrow> int" where
  "active_count db uid paper = (if paper then CountActivePaperWebhooksByUser db uid else CountActiveLiveWebhooksByUser db uid)"

lemmas count_defs = CountPaperWebhooksByUser_def CountLiveWebhooksByUser_def CountActivePaperWebhooksByUser_def
  CountActiveLiveWebhooksByUser_def count_webhooks_def

subsection \<open>Counting rows\<close>

lemma sql_count_Cons [simp]: "sql_count P [] = 0" "sql_count P (x # xs) = (if P x then 1 else 0) + sql_count P xs"
  by (simp_all add: sql_count_def)

lemma sql_count_append [simp]: "sql_count P (xs @ ys) = sql_count P xs + sql_count P ys"
  by (simp add: sql_count_def)

lemma update_where_other: "k \<notin> key ` set rs \<Longrightarrow> (\<And>r. P r \<Longrightarrow> key r = k) \<Longrightarrow> update_where P f rs = rs"
  by (induction rs) (auto simp: update_where_def image_iff)

text \<open>An update of the row of a key changes a count by what it makes of that row.\<close>

lemma sql_count_update:
  assumes "distinct (map key rs)" "r \<in> set rs" "key r = k" "P r" "\<And>r. P r \<Longrightarrow> key r = k"
  shows "sql_count Q (update_where P f rs) = sql_count Q rs + (if Q (f r) then 1 else 0) - (if Q r then 1 else 0)"
  using assms(1-4)
proof (induction rs)
  case (Cons x rs)
  show ?case
  proof (cases "x = r")
    case True
    have "update_where P f rs = rs" by (rule update_where_other [of k key]) (use Cons.prems True assms(5) in auto)
    then show ?thesis using True Cons.prems(4) by (simp add: update_where_def)
  next
    case False
    then have "r \<in> set rs" "\<not> P x" using Cons.prems assms(5) by (auto simp: image_iff)
    then show ?thesis using Cons by (simp add: update_where_def)
  qed
qed simp

subsection \<open>New webhooks and resumed ones\<close>

lemma EnforceWebhookLimit_None:
  "EnforceWebhookLimit env (ResolveResourceScope uid) u paper db = None \<Longrightarrow> kind_count db uid paper < kind_cap u paper"
  by (auto simp: EnforceWebhookLimit_def Let_def CanAddWebhook_def ResolveResourceScope_def kind_count_def kind_cap_def split: if_splits)

lemma EnforceWebhookResumeLimit_Inr:
  "EnforceWebhookResumeLimit env (ResolveResourceScope uid) u paper db = Inr x \<Longrightarrow> active_count db uid paper < kind_cap u paper"
  by (auto simp: EnforceWebhookResumeLimit_def Let_def ebind_Inr_iff ensure_def ResolveResourceScope_def active_count_def kind_cap_def
      split: if_splits)

definition room :: "account_db \<Rightarrow> string \<Rightarrow> webhook \<Rightarrow> bool" where
  "room db uid w = (\<exists>u. GetUserByID db uid = Some u \<and> kind_count db uid (kind_of w) < kind_cap u (kind_of w))"

lemma room_keeps: "room db uid w \<Longrightarrow> keeps w w' \<Longrightarrow> room db uid w'"
  by (simp add: room_def keeps_def kind_of_def destination_of_def)

lemma load_user_ok: "on_ok (\<lambda>u. GetUserByID db uid = Some u) (load_user env uid db)"
  by (simp add: load_user_def split: option.split)

lemma create_destination_room:
  assumes "GetUserByID db uid = Some user" "wh_PaperAccountID w = None"
  shows "on_ok (\<lambda>r. room db uid (fst r)) (create_destination env (ResolveResourceScope uid) user body w db)"
proof -
  have limit: "on_ok (\<lambda>_. kind_count db uid paper < kind_cap user paper)
      (limit_allows (EnforceWebhookLimit env (ResolveResourceScope uid) user paper db))" for paper
    using EnforceWebhookLimit_None [of env uid user paper db] by (simp add: on_ok_def)
  show ?thesis
    unfolding create_destination_def
    using assms
    by (auto split: option.split intro!: on_ok_ebind_any on_ok_ebind [OF limit] simp: room_def kind_of_def)
qed

lemma ApplyGuardDefaults_keeps [simp]: "keeps w (ApplyGuardDefaults w)"
  by (simp add: keeps_def identity_def destination_of_def ApplyGuardDefaults_def Let_def)

lemma build_webhook_room: "on_ok (room db uid) (build_webhook env uid body db)"
proof (cases body)
  case None
  then show ?thesis by (simp add: build_webhook_def Let_def)
next
  case (Some b)
  have fin: "on_ok (room db uid) (ApplyGuardInput z gi w')" if "room db uid w" "keeps w w'" for z gi w w'
    by (rule on_ok_mono [OF ApplyGuardInput_keeps]) (use room_keeps that keeps_trans in blast)
  have k: "keeps w (if c then (g\<lparr>wh_AllowedActions := a\<rparr>) else g)"
    if "g = (ApplyGuardDefaults (w\<lparr>wh_DefaultOrderType := ot, wh_Symbol := s\<rparr>))\<lparr>wh_AllowedSymbols := l\<rparr>" for w c a g ot s l
    using that by (simp add: keeps_def identity_def destination_of_def ApplyGuardDefaults_def Let_def)
  show ?thesis
    unfolding Some build_webhook_def Let_def option.case
    apply (rule on_ok_ebind_any, rule on_ok_ebind_any)
    apply (rule on_ok_ebind [OF load_user_ok])
    apply (rule on_ok_ebind_any)
    apply (cases "an_token env")
     apply simp
    apply (simp only: option.case)
    apply (rule on_ok_ebind [OF create_destination_room])
      apply assumption
     apply (simp only: new_webhook_def webhook.simps)
    apply (simp only: case_prod_beta)
    apply (rule on_ok_ebind_any)+
    apply (simp only: on_ok_valid_or)
    apply (rule fin)
     apply assumption
    apply (rule k [OF refl])
    done
qed

lemma CreateWebhook_kind:
  assumes "pg_CreateWebhook ac wh db = Inr db'"
  shows "\<exists>r. hook_refs r = hook_refs wh \<and> ad_webhooks db' = ad_webhooks db @ [r]"
proof -
  obtain x where x: "encode_webhook ac wh = Inr x"
    and db': "db' = db\<lparr>ad_webhooks := ad_webhooks db @ [x\<lparr>wh_AutoPaused := False, wh_AdminDisabled := False\<rparr>]\<rparr>"
    using assms by (auto simp: pg_CreateWebhook_def ebind_Inr_iff Let_def split: if_splits)
  then show ?thesis using encode_webhook_Inr(3) [OF x] by (auto simp: hook_refs_def)
qed

lemma sql_count_same: "(\<And>r. Q (f r) = Q r) \<Longrightarrow> sql_count Q (update_where P f rs) = sql_count Q rs"
  by (induction rs) (auto simp: update_where_def)

lemma active_count_cleared [simp]: "active_count (ClearWebhookAutoPaused wid db) uid paper = active_count db uid paper"
  by (auto simp: active_count_def count_defs ClearWebhookAutoPaused_def update_webhooks_def solo_def intro: sql_count_same)

lemma active_count_set:
  assumes "sound db"
  shows "active_count (UpdateWebhookStatus wid s db) uid paper \<le> active_count db uid paper + 1"
proof (cases "wid \<in> wh_ID ` set (ad_webhooks db)")
  case True
  then obtain r where r: "r \<in> set (ad_webhooks db)" "wh_ID r = wid" by blast
  have d: "distinct (map wh_ID (ad_webhooks db))" using assms by (simp add: sound_iff hooks_ok_def)
  have "sql_count Q (update_where (\<lambda>w. wh_ID w = wid) (wh_Status_update (\<lambda>_. s)) (ad_webhooks db)) \<le> sql_count Q (ad_webhooks db) + 1" for Q
    using sql_count_update [OF d r(1,2), of "\<lambda>w. wh_ID w = wid" Q "wh_Status_update (\<lambda>_. s)"] r(2) by simp
  then show ?thesis by (simp add: active_count_def count_defs UpdateWebhookStatus_def update_webhooks_def)
next
  case False
  then have "update_where (\<lambda>w. wh_ID w = wid) (wh_Status_update (\<lambda>_. s)) (ad_webhooks db) = ad_webhooks db"
    by (intro update_where_other [where key = wh_ID and k = wid]) auto
  then show ?thesis by (simp add: UpdateWebhookStatus_def update_webhooks_def)
qed

lemma may_resume_room:
  "may_resume env uid wh db = Inr x \<Longrightarrow> \<exists>u. GetUserByID db uid = Some u \<and> active_count db uid (kind_of wh) < kind_cap u (kind_of wh) \<and>
     (kind_of wh \<or> LiveAllowed (LimitsFor (EffectivePlan (u_Plan u))))"
  unfolding may_resume_def Let_def kind_of_def
  using EnforceWebhookResumeLimit_Inr
  by (auto simp: ebind_Inr_iff deref_def EnforceWebhookResumeLimit_def Let_def ensure_def split: option.splits if_splits)

lemma CreateWebhook_count:
  assumes "CreateWebhook env uid body w = (Inr wh, w')" "GetUserByID (aw_db w) uid = Some u"
  shows "kind_count (aw_db w') uid (kind_of wh) \<le> kind_cap u (kind_of wh)"
proof -
  obtain db where b: "build_webhook env uid body (aw_db w) = Inr wh" and w': "aw_db w' = db"
    and c: "pg_CreateWebhook (an_cols env) wh (aw_db w) = Inr db"
    using assms(1) by (auto simp: CreateWebhook_def split: sum.splits option.splits)
  have "kind_count (aw_db w) uid (kind_of wh) < kind_cap u (kind_of wh)"
    using on_okD [OF build_webhook_room b] assms(2) by (simp add: room_def)
  moreover obtain r where "ad_webhooks db = ad_webhooks (aw_db w) @ [r]" using CreateWebhook_kind [OF c] by blast
  then have "kind_count db uid (kind_of wh) \<le> kind_count (aw_db w) uid (kind_of wh) + 1"
    by (simp add: kind_count_def count_defs)
  ultimately show ?thesis using w' by simp
qed

text \<open>
  C17. The door of each cap. A webhook that is created leaves its user with at most as many webhooks of its kind, paper or live, as
  the plan allows, and a webhook that is resumed leaves at most that many active; a live one is only
  resumed on a plan that allows live trading.
\<close>

theorem caps_at_the_door:
  assumes "reachable w" "GetUserByID (aw_db w) uid = Some u"
  shows "(CreateWebhook env uid body w = (Inr wh, w') \<longrightarrow> kind_count (aw_db w') uid (kind_of wh) \<le> kind_cap u (kind_of wh)) \<and>
    (ResumeWebhook env uid wid w = (Inr s, w') \<and> pg_GetWebhookByID (aw_db w) wid = Some wh \<longrightarrow>
      active_count (aw_db w') uid (kind_of wh) \<le> kind_cap u (kind_of wh) \<and>
      (kind_of wh \<or> LiveAllowed (LimitsFor (EffectivePlan (u_Plan u)))))"
proof (rule conjI; rule impI)
  show "kind_count (aw_db w') uid (kind_of wh) \<le> kind_cap u (kind_of wh)" if "CreateWebhook env uid body w = (Inr wh, w')"
    using CreateWebhook_count that assms(2) by blast
next
  assume r: "ResumeWebhook env uid wid w = (Inr s, w') \<and> pg_GetWebhookByID (aw_db w) wid = Some wh"
  obtain wh' x where q: "RequireWebhookAccess env uid wid True (aw_db w) = Inr wh'" "may_resume env uid wh' (aw_db w) = Inr x"
    and w': "aw_db w' = UpdateWebhookStatus wid ''active'' (aw_db w) \<or>
      aw_db w' = ClearWebhookAutoPaused wid (UpdateWebhookStatus wid ''active'' (aw_db w))"
    using r by (auto simp: ResumeWebhook_def SetWebhookStatus_def Let_def ebind_Inr_iff split: sum.splits if_splits)
  have "wh' = wh" using on_okD [OF RequireWebhookAccess_ok q(1)] r by simp
  then have room: "active_count (aw_db w) uid (kind_of wh) < kind_cap u (kind_of wh)"
    "kind_of wh \<or> LiveAllowed (LimitsFor (EffectivePlan (u_Plan u)))"
    using may_resume_room [OF q(2)] assms(2) by auto
  have "active_count (aw_db w') uid (kind_of wh) \<le> active_count (aw_db w) uid (kind_of wh) + 1"
    using w' active_count_set [OF reachable_sound [OF assms(1)]] by auto
  then show "active_count (aw_db w') uid (kind_of wh) \<le> kind_cap u (kind_of wh) \<and>
      (kind_of wh \<or> LiveAllowed (LimitsFor (EffectivePlan (u_Plan u))))" using room by auto
qed

lemma caps_at_the_door_witness:
  "\<exists>wh w'. CreateWebhook acct_env ''u'' (Some paper_request) one_account = (Inr wh, w') \<and> kind_of wh \<and>
     kind_count (aw_db w') ''u'' (kind_of wh) \<le> kind_cap (hd (ad_users (aw_db one_account))) (kind_of wh)"
proof -
  let ?r = "CreateWebhook acct_env ''u'' (Some paper_request) one_account"
  obtain wh where wh: "fst ?r = Inr wh" "kind_of wh"
  proof -
    have "case fst ?r of Inl _ \<Rightarrow> False | Inr wh \<Rightarrow> kind_of wh" by code_simp
    then show ?thesis using that by (cases "fst ?r") auto
  qed
  have "GetUserByID (aw_db one_account) ''u'' = Some (hd (ad_users (aw_db one_account)))" by code_simp
  then show ?thesis
    using caps_at_the_door [OF one_account_reachable, of "''u''" _ acct_env "Some paper_request" wh "snd ?r"] wh
    by (metis prod.collapse)
qed

subsection \<open>Moving a webhook\<close>

lemma destination_keeps: "keeps w w' \<Longrightarrow> destination_of w' = destination_of w"
  by (simp add: keeps_def)

lemma switch_to_cred_to: "on_ok (\<lambda>w'. destination_of w' = (Some cid, None)) (switch_to_cred env uid user (Some cid) db w)"
proof (cases "GetBrokerCred db cid")
  case (Some c)
  then show ?thesis by (simp add: switch_to_cred_def) (intro on_ok_ebind_any, simp add: destination_of_def)
qed (simp add: switch_to_cred_def on_ok_ebind_any)

lemma change_webhook_to:
  assumes "uw_BrokerCredID b = Some cid"
  shows "on_ok (\<lambda>w'. destination_of w' = (Some cid, None)) (change_webhook env uid wid bodyLen doc (Some b) db)"
proof (cases "pg_GetWebhookByID db wid")
  case None
  then show ?thesis by (simp add: change_webhook_def on_ok_ebind_any)
next
  case (Some w)
  let ?to = "\<lambda>w'. destination_of w' = (Some cid, None)"
  note bind = on_ok_ebind [where P = ?to and Q = ?to]
  have step: "on_ok ?to r" if "?to a" "on_ok (keeps a) r" for a r
    using that destination_keeps by (auto simp: on_ok_def)
  show ?thesis
  proof (cases "uw_PaperAccountID b")
    case p: None
    show ?thesis
      unfolding change_webhook_def Some option.case Let_def assms p
      apply (rule on_ok_ebind_any, rule on_ok_ebind_any, rule on_ok_ebind_any, rule on_ok_ebind_any, rule on_ok_ebind_any,
          rule on_ok_ebind_any, rule on_ok_ebind_any, rule on_ok_ebind_any, rule on_ok_ebind_any, rule on_ok_ebind_any)
      apply (rule bind, rule switch_to_cred_to)
      apply (rule bind, simp add: switch_to_paper_def)
      apply (rule bind, subst on_ok_valid_or, erule step, rule ApplyGuardInput_keeps)
      apply (erule step, rule enforceWebhookOrderType_keeps)
      done
  next
    case (Some a)
    then show ?thesis using assms \<open>pg_GetWebhookByID db wid = _\<close>
      by (simp add: change_webhook_def on_ok_def ebind_Inr_iff ensure_def)
  qed
qed

text \<open>
  A move is not counted. When a user's webhook goes from a paper account to a credential, the user has one live webhook more,
  whatever the plan allows: the handler checks that the plan may use the credential, and not the cap that
  a new or a resumed webhook has to keep.
\<close>

theorem switch_exceeds_cap:
  assumes "reachable w" "UpdateWebhook env uid wid n doc (Some b) w = (Inr wh, w')" "uw_BrokerCredID b = Some cid"
    "pg_GetWebhookByID (aw_db w) wid = Some old" "kind_of old" "wh_OrgID old = None"
  shows "kind_count (aw_db w') uid False = kind_count (aw_db w) uid False + 1 \<and>
    active_count (aw_db w') uid False = active_count (aw_db w) uid False + (if wh_Status old = ''active'' then 1 else 0)"
proof -
  let ?db = "aw_db w"
  have s: "sound ?db" by (rule reachable_sound [OF assms(1)])
  obtain db where c: "change_webhook env uid wid n doc (Some b) ?db = Inr wh" and w': "aw_db w' = db"
    and p: "pg_UpdateWebhook (an_cols env) wh ?db = Inr db"
    using assms(2) by (auto simp: UpdateWebhook_def split: sum.splits option.splits)
  have to: "destination_of wh = (Some cid, None)" by (rule on_okD [OF change_webhook_to [OF assms(3)] c])
  have own: "wh_UserID old = uid" "redirected ?db uid old wh" using on_okD [OF change_webhook_ok c] assms(4) by auto
  obtain r where r: "r \<in> set (ad_webhooks ?db)" "wh_ID r = wid" "old = scanWebhook r"
    using GetWebhookByID_Some [OF assms(4)] by blast
  have id: "wh_ID wh = wid" "wh_UserID wh = uid"
    using own r by (auto simp: redirected_def keeps_def directed_def identity_def scanWebhook_def)
  obtain x where x: "encode_webhook (an_cols env) wh = Inr x"
    and db: "ad_webhooks db = update_where (\<lambda>w. wh_ID w = wid \<and> wh_UserID w = uid) (set_webhook x) (ad_webhooks ?db)"
    using p id by (auto simp: pg_UpdateWebhook_def ebind_Inr_iff update_some_Inr)
  have new: "wh_BrokerCredID x = Some cid" using encode_webhook_Inr(3) [OF x] to by (simp add: hook_refs_def destination_of_def)
  have d: "distinct (map wh_ID (ad_webhooks ?db))" using s by (simp add: sound_iff hooks_ok_def)
  have old: "wh_UserID r = uid" "wh_OrgID r = None" "wh_PaperAccountID r \<noteq> None" "wh_Status r = wh_Status old" "wh_BrokerCredID r = None"
    using own(1) assms(5,6) r s
    by (auto simp: scanWebhook_def kind_of_def sound_iff hooks_ok_def list_all_iff one_destination_def)
  note count = sql_count_update [OF d r(1,2), where P = "\<lambda>w. wh_ID w = wid \<and> wh_UserID w = uid" and f = "set_webhook x"]
  show ?thesis
    using count [of "\<lambda>w. solo uid w \<and> wh_BrokerCredID w \<noteq> None"]
      count [of "\<lambda>w. solo uid w \<and> wh_Status w = ''active'' \<and> wh_BrokerCredID w \<noteq> None"] new old r(2) w' db
    by (simp add: kind_count_def active_count_def count_defs solo_def set_webhook_def)
qed


text \<open>A user of the pro plan, which allows one live webhook, moves the paper webhook: two are active.\<close>

definition cap_cenv :: "string \<Rightarrow> cenv" where
  "cap_cenv newID = \<lparr> cn_api = acct_env\<lparr>an_newID := newID, an_token := Some (''r_'' @ newID, ''h_'' @ newID)\<rparr>,
     cn_adapters = [''zerodha''], cn_key = Some (replicate 32 CHR ''k''), cn_seal = (\<lambda>_ _ p _. p), cn_open = (\<lambda>_ _ p _. Some p),
     cn_b64enc = (\<lambda>s. s), cn_b64dec = Some, cn_nonce = replicate 12 CHR ''n'',
     cn_policy = \<lparr>Required = False, FallbackZerodha = [], FallbackAngel = [], FallbackDhan = []\<rparr>,
     cn_brokerMode = ''live'', cn_equity = (\<lambda>_ _ _. Inr (Inr 1)) \<rparr>"

definition cred_request :: create_cred where
  "cred_request = \<lparr> cc_BrokerType = ''zerodha'', cc_AccountLabel = ''z'', cc_AccountMode = ''live'', cc_Exchange = ''NSE'',
     cc_Product = ''MIS'', cc_Products = [], cc_AlgoID = [], cc_MarketProtection = 0, cc_RawCreds = ''k:t'', cc_ExecutionMode = [] \<rparr>"

definition pro_world :: aworld where
  "pro_world = (let w = one_webhook (cap_cenv ''n1'') in
     serve (cap_cenv ''n2'') ''u'' (Create_Webhook (Some (paper_request\<lparr>cw_PaperAccountID := [], cw_BrokerCredID := ''c1''\<rparr>)))
       (serve (cap_cenv ''c1'') ''u'' (Create_Cred (Some cred_request))
         (w\<lparr>aw_db := snd (AdminSetUserPlan acct_env ''u'' (Some ''pro'') (aw_db w))\<rparr>)))"

lemma pro_world_reachable: "reachable pro_world"
  unfolding pro_world_def Let_def
  by (rule reachable.step [OF reachable.step [OF reachable.step [OF one_webhook_reachable]]])
    (rule sys_step.request sys_step.admin_plan)+

definition move_request :: update_webhook where
  "move_request = empty_update\<lparr>uw_BrokerCredID := Some ''c1''\<rparr>"

theorem switch_exceeds_cap_witness:
  "\<exists>wh w'. UpdateWebhook acct_env ''u'' ''n1'' 2 (Some (JObj [])) (Some move_request) pro_world = (Inr wh, w') \<and>
     map (\<lambda>u. kind_cap u False) (ad_users (aw_db w')) = [1] \<and> kind_count (aw_db w') ''u'' False = 2 \<and> active_count (aw_db w') ''u'' False = 2"
proof -
  let ?r = "UpdateWebhook acct_env ''u'' ''n1'' 2 (Some (JObj [])) (Some move_request) pro_world"
  have e: "case fst ?r of Inl _ \<Rightarrow> False | Inr _ \<Rightarrow> True" by code_simp
  have c: "map (\<lambda>u. kind_cap u False) (ad_users (aw_db (snd ?r))) = [1]" by code_simp
  have o: "case pg_GetWebhookByID (aw_db pro_world) ''n1'' of None \<Rightarrow> False
      | Some old \<Rightarrow> kind_of old \<and> wh_OrgID old = None \<and> wh_Status old = ''active''" by code_simp
  have n: "kind_count (aw_db pro_world) ''u'' False = 1" "active_count (aw_db pro_world) ''u'' False = 1" by code_simp+
  obtain wh where wh: "?r = (Inr wh, snd ?r)" using e by (cases ?r; cases "fst ?r") auto
  obtain old where old: "pg_GetWebhookByID (aw_db pro_world) ''n1'' = Some old" "kind_of old" "wh_OrgID old = None" "wh_Status old = ''active''"
    using o by (cases "pg_GetWebhookByID (aw_db pro_world) ''n1''") auto
  have "uw_BrokerCredID move_request = Some ''c1''" by (simp add: move_request_def)
  then have k: "kind_count (aw_db (snd ?r)) ''u'' False = 2 \<and> active_count (aw_db (snd ?r)) ''u'' False = 2"
    using switch_exceeds_cap [OF pro_world_reachable wh _ old(1,2,3)] n old(4) by simp
  show ?thesis
    by (rule exI [of _ wh], rule exI [of _ "snd ?r"]) (use wh c k in \<open>simp only: simp_thms refl\<close>)
qed


subsection \<open>A mode that is disabled and enabled again\<close>

lemma GetBrokerCred_update:
  "(\<And>c. bc_ID (f c) = bc_ID c) \<Longrightarrow>
   GetBrokerCred (update_creds P f db) cid = map_option (\<lambda>c. if P c then f c else c) (GetBrokerCred db cid)"
  unfolding GetBrokerCred_def update_creds_def by (simp add: find_key_update_where)

lemma UpdateBrokerCred_row:
  assumes "UpdateBrokerCred ac c db = Inr db'" "GetBrokerCred db cid = Some r"
  shows "\<exists>r'. GetBrokerCred db' cid = Some r' \<and> cred_identity r' = cred_identity r \<and>
     (owned_cred (bc_ID c) c r \<longrightarrow> bc_ExecutionMode r' = bc_ExecutionMode c)"
proof -
  obtain x where x: "encode_cred ac c = Inr x"
    and db': "db' = update_creds (owned_cred (bc_ID c) c) (set_cred x) db"
    using assms(1) by (auto simp: UpdateBrokerCred_def ebind_Inr_iff update_some_Inr update_creds_def)
  have "bc_ExecutionMode x = bc_ExecutionMode c" using x by (auto simp: encode_cred_def ebind_Inr_iff)
  then show ?thesis
    using GetBrokerCred_update [of "set_cred x" "owned_cred (bc_ID c) c" db cid] assms(2) db'
    by (simp add: set_cred_def cred_identity_def)
qed

text \<open>
  A credential can be left disabled by nobody. When the administrator disables Zerodha's OAuth mode, the owner moves a paused
  credential to the Publisher mode, and the administrator enables OAuth again, the credential keeps the mark
  of the administrator and cannot be resumed: the mark is only cleared on credentials that are still in the mode.
\<close>

theorem stranded_by_mode_switch:
  assumes "GetBrokerCred (aw_db w) cid = Some c" "bc_AdminDisabled c" "bc_OrgID c = None"
    "UpdateCredential env uid cid force (Some body) w = (Inr c', w1)" "bc_ExecutionMode c' = ''publisher''"
    "AdminSetZerodhaOAuthEnabled api adminID (Some True) w1 = (Inr on, w2)"
  shows "\<exists>c2. GetBrokerCred (aw_db w2) cid = Some c2 \<and> bc_AdminDisabled c2 \<and> (\<exists>e. fst (ResumeCredential api' uid cid w2) = Inl e)"
proof -
  obtain db1 where ch: "change_cred env uid cid force (Some body) (aw_db w) = Inr c'" and w1: "aw_db w1 = db1"
    and u: "UpdateBrokerCred (an_cols (cn_api env)) c' (aw_db w) = Inr db1"
    using assms(4) by (auto simp: UpdateCredential_def Let_def split: sum.splits option.splits)
  have id: "cred_identity c' = cred_identity c" using on_okD [OF change_cred_ok ch] assms(1) by auto
  have "owned_cred (bc_ID c') c' c" using id assms(3) by (simp add: owned_cred_def cred_identity_def)
  then obtain c1 where c1: "GetBrokerCred db1 cid = Some c1" "cred_identity c1 = cred_identity c" "bc_ExecutionMode c1 = ''publisher''"
    using UpdateBrokerCred_row [OF u assms(1)] assms(5) by auto
  obtain db2 where p: "SetPlatformSetting OAuthEnabledSettingKey ''true'' adminID db1 = Inr db2"
    and w2: "aw_db w2 = (let step = (\<lambda>name f db. if an_ok api name then f ''zerodha'' ''user_api_oauth'' db else db) in
        step ''ClearAdminDisabledWebhooks'' ClearAdminDisabledWebhooks
          (step ''ClearAdminDisabledCredentials'' ClearAdminDisabledCredentials db2))"
    using assms(6) w1
    by (auto simp: AdminSetZerodhaOAuthEnabled_def set_mode_enabled_def Let_def split: option.splits)
  have db2: "GetBrokerCred db2 cid = Some c1" using p c1(1) by (auto simp: SetPlatformSetting_def GetBrokerCred_def split: if_splits)
  have "GetBrokerCred (ClearAdminDisabledCredentials ''zerodha'' ''user_api_oauth'' db2) cid = Some c1"
    using GetBrokerCred_update [of "bc_AdminDisabled_update (\<lambda>_. False)" "of_mode ''zerodha'' ''user_api_oauth''" db2 cid] db2 c1(3)
    by (simp add: ClearAdminDisabledCredentials_def of_mode_def)
  then have g: "GetBrokerCred (aw_db w2) cid = Some c1"
    using db2 by (auto simp: w2 Let_def ClearAdminDisabledWebhooks_def update_webhooks_def GetBrokerCred_def)
  have d: "bc_AdminDisabled c1" using c1(2) assms(2) by (simp add: cred_identity_def)
  have "\<exists>e. fst (ResumeCredential api' uid cid w2) = Inl e"
  proof (cases "RequireCredentialAccess api' uid cid True (aw_db w2)")
    case (Inl e)
    then show ?thesis by (simp add: ResumeCredential_def SetCredentialStatus_def)
  next
    case (Inr x)
    then have "x = c1" using on_okD [OF RequireCredentialAccess_ok Inr] g by simp
    then show ?thesis using Inr d by (simp add: ResumeCredential_def SetCredentialStatus_def may_resume_cred_def ensure_def)
  qed
  then show ?thesis using g d by blast
qed

definition disabled_world :: aworld where
  "disabled_world = snd (AdminSetZerodhaOAuthEnabled acct_env ''u'' (Some False) (acct_world acct_db))"

definition to_publisher :: update_cred where
  "to_publisher = empty_cred_update\<lparr>uc_ExecutionMode := Some ''publisher''\<rparr>"

theorem stranded_by_mode_switch_witness:
  "\<exists>c' w1 w2 c2. UpdateCredential (cap_cenv ''x'') ''u'' ''c1'' False (Some to_publisher) disabled_world = (Inr c', w1) \<and>
     AdminSetZerodhaOAuthEnabled acct_env ''u'' (Some True) w1 = (Inr True, w2) \<and> GetBrokerCred (aw_db w2) ''c1'' = Some c2 \<and>
     bc_AdminDisabled c2 \<and> (\<exists>e. fst (ResumeCredential acct_env ''u'' ''c1'' w2) = Inl e)"
proof -
  let ?u = "UpdateCredential (cap_cenv ''x'') ''u'' ''c1'' False (Some to_publisher) disabled_world"
  let ?a = "AdminSetZerodhaOAuthEnabled acct_env ''u'' (Some True) (snd ?u)"
  have e: "case GetBrokerCred (aw_db disabled_world) ''c1'' of None \<Rightarrow> False | Some c \<Rightarrow> bc_AdminDisabled c \<and> bc_OrgID c = None"
    "case fst ?u of Inl _ \<Rightarrow> False | Inr c' \<Rightarrow> bc_ExecutionMode c' = ''publisher''" "fst ?a = Inr True" by code_simp+
  obtain c where c: "GetBrokerCred (aw_db disabled_world) ''c1'' = Some c" "bc_AdminDisabled c" "bc_OrgID c = None"
    using e(1) by (cases "GetBrokerCred (aw_db disabled_world) ''c1''") auto
  obtain c' where u: "?u = (Inr c', snd ?u)" "bc_ExecutionMode c' = ''publisher''" using e(2) by (cases ?u; cases "fst ?u") auto
  have a: "?a = (Inr True, snd ?a)" using e(3) by (metis prod.collapse)
  show ?thesis using stranded_by_mode_switch [OF c u a] u(1) a by metis
qed

end
