(* ===== verification/Lifecycle.thy ===== *)
theory Lifecycle
  imports Caps Ingest
begin

section \<open>The life of a webhook: from the API to the ingest of its signals\<close>

text \<open>
  Composes the webhook API and billing with \<open>Ingest\<close>, through the tables and the cache of webhooks in
  Redis, which the ingest reads first. What the API revokes is gone for the next signal, because its handlers drop the cached
  webhook; billing only writes the tables, and a cached webhook outlives it.
\<close>

text \<open>The ingest looks webhooks up in these tables, and its Redis is the API's.\<close>

definition linked :: "ienv \<Rightarrow> aworld \<Rightarrow> iworld \<Rightarrow> bool" where
  "linked env w iw \<longleftrightarrow>
     ie_GetWebhookByToken env = (\<lambda>h. Inr (pg_GetWebhookByToken (aw_db w) h)) \<and> iredis iw = aw_redis w"

definition not_admitted :: "ienv \<Rightarrow> request \<Rightarrow> iworld \<Rightarrow> bool" where
  "not_admitted env rq iw =
     (rp_Status (fst (IngestSignal env rq iw)) \<noteq> 202 \<and> iw_jobs (snd (IngestSignal env rq iw)) = iw_jobs iw)"

lemma find_webhook_miss:
  assumes "linked env w iw" "aw_redis w (webhookKeyPrefix @ ie_hash env token) = None"
  shows "fst (find_webhook env token iw) = Inr (pg_GetWebhookByToken (aw_db w) (ie_hash env token))"
  using assms by (auto simp: find_webhook_def Let_def linked_def GetWebhookByToken_def rget_def split: option.split)

lemma find_webhook_jobs: "iw_jobs (snd (find_webhook env token iw)) = iw_jobs iw"
  by (auto simp: find_webhook_def Let_def set_redis_def split: sum.split option.split)

lemma closed_gate:
  assumes "wh_Status wh \<noteq> ''active''"
  shows "\<exists>st code msg. webhook_gates env wh = Some (st, code, msg) \<and> st \<noteq> 202"
proof -
  let ?m = "if wh_OrgID wh = None then ie_GetActiveOrgMembershipByUser env (wh_UserID wh) else Inr None"
  consider e where "?m = Inl e" | "?m = Inr None" | m where "?m = Inr (Some m)" by (cases ?m; cases "projr ?m") auto
  then show ?thesis using assms unfolding webhook_gates_def by cases simp_all
qed

lemma paused_not_admitted:
  assumes "fst (find_webhook env (rq_Token rq) iw) = Inr None \<or>
     (\<exists>wh. fst (find_webhook env (rq_Token rq) iw) = Inr (Some wh) \<and> wh_Status wh \<noteq> ''active'')"
  shows "not_admitted env rq iw"
proof -
  obtain r iw' where f: "find_webhook env (rq_Token rq) iw = (r, iw')" by fastforce
  have j: "iw_jobs iw' = iw_jobs iw" using find_webhook_jobs [of env "rq_Token rq" iw] f by simp
  show ?thesis
  proof (cases "r = Inr None")
    case True
    then show ?thesis using f j by (simp add: not_admitted_def IngestSignal_def Fail_def)
  next
    case False
    then obtain wh where wh: "r = Inr (Some wh)" "wh_Status wh \<noteq> ''active''" using assms f by auto
    obtain st code msg where g: "webhook_gates env wh = Some (st, code, msg)" "st \<noteq> 202" using closed_gate [OF wh(2)] by blast
    then show ?thesis using f j wh g
      by (simp add: not_admitted_def IngestSignal_def rejectIngestWebhook_def rejectIngestWithTrade_def Fail_def
          insertGateway_jobs LogIngest_def)
  qed
qed

lemma token_row:
  assumes "sound db" "r \<in> set (ad_webhooks db)"
  shows "pg_GetWebhookByToken db (wh_TokenHash r) = Some (scanWebhook r)"
proof -
  have d: "distinct (map wh_TokenHash (ad_webhooks db))" using assms(1) by (simp add: sound_iff hooks_ok_def)
  have "find (\<lambda>w. wh_TokenHash w = wh_TokenHash r) (ad_webhooks db) \<noteq> None" using assms(2) by (auto simp: find_None_iff)
  then obtain r' where "find (\<lambda>w. wh_TokenHash w = wh_TokenHash r) (ad_webhooks db) = Some r'" by blast
  moreover from this have "r' = r" using key_unique [OF d _ assms(2)] find_key [of wh_TokenHash] by blast
  ultimately show ?thesis by (simp add: pg_GetWebhookByToken_def)
qed

lemma no_token_row: "\<forall>r \<in> set (ad_webhooks db). wh_TokenHash r \<noteq> h \<Longrightarrow> pg_GetWebhookByToken db h = None"
  by (auto simp: pg_GetWebhookByToken_def find_None_iff)

text \<open>
  C13. What the API revokes is revoked at once. After a webhook was paused or deleted, or its token was replaced by
  another, and the cache could be reached, a signal with the old token is not accepted and puts no job
  into the queue.
\<close>

theorem revoked_at_once:
  assumes "reachable w" "pg_GetWebhookByID (aw_db w) wid = Some wh" "an_redis_up env ''InvalidateWebhook''"
    "(\<exists>s. PauseWebhook env uid wid w = (Inr s, w')) \<or> DeleteWebhook env uid wid w = (Inr (), w') \<or>
     (\<exists>x. RotateWebhookToken env uid wid w = (Inr x, w') \<and> wh_TokenHash x \<noteq> wh_TokenHash wh)"
    "linked ienv w' iw" "ie_hash ienv (rq_Token rq) = wh_TokenHash wh"
  shows "not_admitted ienv rq iw"
proof -
  let ?db = "aw_db w" and ?h = "wh_TokenHash wh"
  have s: "sound ?db" by (rule reachable_sound [OF assms(1)])
  obtain r where r: "r \<in> set (ad_webhooks ?db)" "wh_ID r = wid" "wh = scanWebhook r" using GetWebhookByID_Some [OF assms(2)] by blast
  have h: "wh_TokenHash r = ?h" using r(3) by (simp add: scanWebhook_def)
  have ids: "distinct (map wh_ID (ad_webhooks ?db))" and tokens: "distinct (map wh_TokenHash (ad_webhooks ?db))"
    using s by (simp_all add: sound_iff hooks_ok_def)
  have only: "r' = r" if "r' \<in> set (ad_webhooks ?db)" "wh_ID r' = wid \<or> wh_TokenHash r' = ?h" for r'
    using that key_unique [OF ids _ r(1)] key_unique [OF tokens _ r(1)] r(2) h by auto
  have read: "wh' = wh" if "RequireWebhookAccess env uid wid True ?db = Inr wh'" for wh'
    using on_okD [OF RequireWebhookAccess_ok that] assms(2) by simp
  have gone: "aw_redis w' (webhookKeyPrefix @ ?h) = None \<and>
      (case pg_GetWebhookByToken (aw_db w') ?h of None \<Rightarrow> True | Some x \<Rightarrow> wh_Status x \<noteq> ''active'')"
    using assms(4)
  proof (elim disjE exE conjE)
    fix st assume p: "PauseWebhook env uid wid w = (Inr st, w')"
    then have w': "w' = drop_cached env ?h (w\<lparr>aw_db := UpdateWebhookStatus wid ''paused'' ?db\<rparr>)"
      using read by (auto simp: PauseWebhook_def SetWebhookStatus_def Let_def ebind_Inr_iff split: sum.splits if_splits)
    let ?r = "r\<lparr>wh_Status := ''paused''\<rparr>"
    have "sound (UpdateWebhookStatus wid ''paused'' ?db)" by (rule sound_pauses [OF s])
    moreover have "?r \<in> set (ad_webhooks (UpdateWebhookStatus wid ''paused'' ?db))"
      using r(1,2) by (auto simp: UpdateWebhookStatus_def update_webhooks_def update_where_def)
    ultimately have "pg_GetWebhookByToken (UpdateWebhookStatus wid ''paused'' ?db) ?h = Some (scanWebhook ?r)"
      using token_row [of _ ?r] h by simp
    then show ?thesis using w' assms(3) by (simp add: drop_cached_def InvalidateWebhook_def rdel_def scanWebhook_def)
  next
    assume d: "DeleteWebhook env uid wid w = (Inr (), w')"
    then obtain db where db: "pg_DeleteWebhook wid ?db = Inr db" and w': "aw_db w' = db" "aw_redis w' = InvalidateWebhook ?h (aw_redis w)"
      using read assms(3) by (auto simp: DeleteWebhook_def drop_cached_def audit_def split: sum.splits option.splits)
    have "ad_webhooks db = filter (\<lambda>x. wh_ID x \<noteq> wid) (ad_webhooks ?db)"
      using db by (auto simp: pg_DeleteWebhook_def split: if_splits)
    then have "pg_GetWebhookByToken db ?h = None" using only r(2) by (intro no_token_row) auto
    then show ?thesis using w' by (simp add: InvalidateWebhook_def rdel_def)
  next
    fix x assume q: "RotateWebhookToken env uid wid w = (Inr x, w')" and n: "wh_TokenHash x \<noteq> ?h"
    then obtain raw t db where t: "x = wh\<lparr>wh_TokenHash := t, wh_RawToken := raw\<rparr>" "pg_RotateWebhookToken wid uid t ?db = Inr db"
      "wh_UserID wh = uid" "aw_db w' = db" "aw_redis w' = InvalidateWebhook ?h (aw_redis w)"
      using assms(2,3)
      by (auto simp: RotateWebhookToken_def drop_cached_def audit_def ebind_Inr_iff ensure_def
          split: sum.splits option.splits if_splits)
    have "ad_webhooks db = update_where (\<lambda>w. wh_ID w = wid \<and> wh_UserID w = uid) (wh_TokenHash_update (\<lambda>_. t)) (ad_webhooks ?db)"
      using t(2) by (auto simp: pg_RotateWebhookToken_def update_webhooks_def split: if_splits)
    moreover have "wh_UserID r = uid" using t(3) r(3) by (simp add: scanWebhook_def)
    ultimately have "pg_GetWebhookByToken db ?h = None"
      using only n t(1) r(2) by (intro no_token_row) (auto simp: update_where_def)
    then show ?thesis using t by (simp add: InvalidateWebhook_def rdel_def)
  qed
  have "fst (find_webhook ienv (rq_Token rq) iw) = Inr (pg_GetWebhookByToken (aw_db w') ?h)"
    using find_webhook_miss [OF assms(5), of "rq_Token rq"] gone assms(6) by simp
  then show ?thesis
    using gone by (intro paused_not_admitted) (cases "pg_GetWebhookByToken (aw_db w') ?h", simp_all)
qed


text \<open>The ingest of a sample request over a world of the API, at an instant.\<close>

definition linked_ienv :: "aworld \<Rightarrow> string \<Rightarrow> int \<Rightarrow> ienv" where
  "linked_ienv w h now = (sample_ienv ''r1'' now)\<lparr>ie_hash := (\<lambda>_. h), ie_redis_up := (\<lambda>_. True),
     ie_GetWebhookByToken := (\<lambda>h. Inr (pg_GetWebhookByToken (aw_db w) h))\<rparr>"

definition linked_iworld :: "aworld \<Rightarrow> iworld" where
  "linked_iworld w = set_redis (aw_redis w) sample_iworld"

lemma linked_sample: "linked (linked_ienv w h now) w (linked_iworld w)"
  by (simp add: linked_def linked_ienv_def linked_iworld_def iredis_def set_redis_def with_redis_def)

theorem revoked_at_once_witness:
  "\<exists>s w'. PauseWebhook acct_env ''u'' ''n1'' (one_webhook (cap_cenv ''n1'')) = (Inr s, w') \<and>
     not_admitted (linked_ienv w' ''h_new'' 0) (sample_body ''BUY'') (linked_iworld w')"
proof -
  let ?w = "one_webhook (cap_cenv ''n1'')" let ?r = "PauseWebhook acct_env ''u'' ''n1'' ?w"
  have "case fst ?r of Inl _ \<Rightarrow> False | Inr _ \<Rightarrow> True" by code_simp
  then obtain s where r: "?r = (Inr s, snd ?r)" by (cases ?r; cases "fst ?r") auto
  have "case pg_GetWebhookByID (aw_db ?w) ''n1'' of None \<Rightarrow> False | Some wh \<Rightarrow> wh_TokenHash wh = ''h_new''" by code_simp
  then obtain wh where wh: "pg_GetWebhookByID (aw_db ?w) ''n1'' = Some wh" "wh_TokenHash wh = ''h_new''"
    by (cases "pg_GetWebhookByID (aw_db ?w) ''n1''") auto
  have "not_admitted (linked_ienv (snd ?r) ''h_new'' 0) (sample_body ''BUY'') (linked_iworld (snd ?r))"
    by (rule revoked_at_once [OF one_webhook_reachable wh(1) _ _ linked_sample, where env = acct_env and uid = "''u''"])
      (use r wh(2) in \<open>auto simp: acct_env_def linked_ienv_def\<close>)
  then show ?thesis using r by blast
qed

text \<open>
  Billing revokes nothing that is cached. When a plan goes down and its live webhooks are paused in the tables, a webhook
  that the ingest had cached less than five minutes before is still found there as active: its signals
  are let through until the cache forgets it.
\<close>

theorem stale_after_downgrade:
  assumes "Apply env uid p (aw_db w) = (None, db')" "GetUserByID (aw_db w) uid = Some u" "planRank p < planRank (u_Plan u)"
    "an_ok env ''PauseAllWebhooksByUser''" "an_ok env ''PauseAllCredentialsByUser''"
    "r \<in> set (ad_webhooks (aw_db w))" "solo uid r" "wh_BrokerCredID r \<noteq> None" "wh_Status r = ''active''" "webhook_finite r"
    "aw_redis w = snd (CacheWebhook (scanWebhook r) stamp cache)" "linked ienv (w\<lparr>aw_db := db'\<rparr>) iw"
    "ie_hash ienv token = wh_TokenHash r" "ie_redis_up ienv ''GetWebhookByToken''" "qe_now (ie_q ienv) < stamp + webhookTTL"
  shows "(\<exists>r' \<in> set (ad_webhooks db'). wh_ID r' = wh_ID r \<and> wh_TokenHash r' = wh_TokenHash r \<and> wh_Status r' = ''paused'') \<and>
    (\<exists>x. find_webhook ienv token iw = (Inr (Some x), iw) \<and> wh_ID x = wh_ID r \<and> wh_Status x = ''active'')"
proof
  obtain b db1 where b: "GetUserByID (aw_db w) uid = Some b" and a: "UpdateUserPlan uid p (aw_db w) = Inr db1"
    and e: "db' = (if planRank p < planRank (u_Plan b)
            then tried env ''PauseAllCredentialsByUser'' (PauseAllCredentialsByUser uid)
                   (tried env ''PauseAllWebhooksByUser'' (PauseAllWebhooksByUser uid) db1)
            else if planRank (u_Plan b) < planRank p
            then tried env ''ClearAutoPausedCredentialsByUser'' (ClearAutoPausedCredentialsByUser uid)
                   (tried env ''ClearAutoPausedWebhooksByUser'' (ClearAutoPausedWebhooksByUser uid) db1)
            else db1)"
    using assms(1) by (rule Apply_None)
  have "ad_webhooks db' = update_where (\<lambda>w. wh_UserID w = uid \<and> wh_OrgID w = None \<and> wh_BrokerCredID w \<noteq> None)
        (\<lambda>w. w\<lparr>wh_Status := ''paused'', wh_AutoPaused := True\<rparr>) (ad_webhooks (aw_db w))"
    using e b assms(2-5) UpdateUserPlan_Inr(1) [OF a] by (simp add: tried_def pause_defs update_webhooks_def update_creds_def)
  moreover have "wh_UserID r = uid \<and> wh_OrgID r = None \<and> wh_BrokerCredID r \<noteq> None" using assms(7,8) by (simp add: solo_def)
  ultimately have "r\<lparr>wh_Status := ''paused'', wh_AutoPaused := True\<rparr> \<in> set (ad_webhooks db')"
    using assms(6) by (auto simp: update_where_def)
  then show "\<exists>r' \<in> set (ad_webhooks db'). wh_ID r' = wh_ID r \<and> wh_TokenHash r' = wh_TokenHash r \<and> wh_Status r' = ''paused''"
    by (rule bexI [rotated]) simp
next
  let ?x = "cached_webhook (scanWebhook r)"
  have "iredis iw = snd (CacheWebhook (scanWebhook r) stamp cache)" using assms(11,12) by (simp add: linked_def)
  moreover have "webhook_finite (scanWebhook r)" "wh_TokenHash (scanWebhook r) = wh_TokenHash r"
    using assms(10) by (simp_all add: webhook_finite_def scanWebhook_def)
  ultimately have "GetWebhookByToken (wh_TokenHash r) (qe_now (ie_q ienv)) (iredis iw) = Inr (Some ?x)"
    using assms(15) by (simp add: GetWebhookByToken_def CacheWebhook_def rget_def rset_def live_at_def)
  then have "find_webhook ienv token iw = (Inr (Some ?x), iw)" using assms(13,14) by (simp add: find_webhook_def Let_def)
  then show "\<exists>x. find_webhook ienv token iw = (Inr (Some x), iw) \<and> wh_ID x = wh_ID r \<and> wh_Status x = ''active''"
    using assms(9) by (simp add: cached_webhook_def scanWebhook_def)
qed

text \<open>A user goes from pro to free a minute after a signal: the next signal is accepted, from a webhook that is paused.\<close>

definition cached_world :: aworld where
  "cached_world = (acct_world acct_db)\<lparr>aw_redis := snd (CacheWebhook (acct_webhook ''w1'' ''u'' (Some ''c1'') None) 0 empty_redis)\<rparr>"

definition downgraded_world :: aworld where
  "downgraded_world = cached_world\<lparr>aw_db := snd (Apply acct_env ''u'' ''free'' acct_db)\<rparr>"

theorem stale_after_downgrade_witness:
  "(\<exists>x. find_webhook (linked_ienv downgraded_world ''h_w1'' 60000) ''t'' (linked_iworld downgraded_world) =
       (Inr (Some x), linked_iworld downgraded_world) \<and> wh_ID x = ''w1'' \<and> wh_Status x = ''active'') \<and>
   map wh_Status (ad_webhooks (aw_db downgraded_world)) = [''paused'', ''active'', ''active''] \<and>
   rp_Status (fst (IngestSignal (linked_ienv downgraded_world ''h_w1'' 60000) (sample_body ''BUY'') (linked_iworld downgraded_world))) = 202"
proof -
  let ?r = "acct_webhook ''w1'' ''u'' (Some ''c1'') None"
  have db: "Apply acct_env ''u'' ''free'' (aw_db cached_world) = (None, aw_db downgraded_world)"
  proof -
    have "fst (Apply acct_env ''u'' ''free'' acct_db) = None" by code_simp
    then show ?thesis by (cases "Apply acct_env ''u'' ''free'' acct_db")
      (simp add: cached_world_def downgraded_world_def acct_world_def)
  qed
  have f: "GetUserByID (aw_db cached_world) ''u'' = Some (acct_user ''u'' ''pro'')"
    "planRank ''free'' < planRank (u_Plan (acct_user ''u'' ''pro''))" "webhook_finite ?r" "solo ''u'' ?r"
    "scanWebhook ?r = ?r" by code_simp+
  have "downgraded_world = cached_world\<lparr>aw_db := aw_db downgraded_world\<rparr>" by (simp add: downgraded_world_def)
  then have l: "linked (linked_ienv downgraded_world ''h_w1'' 60000) (cached_world\<lparr>aw_db := aw_db downgraded_world\<rparr>) (linked_iworld downgraded_world)"
    using linked_sample by metis
  have "(\<exists>r' \<in> set (ad_webhooks (aw_db downgraded_world)). wh_ID r' = wh_ID ?r \<and> wh_TokenHash r' = wh_TokenHash ?r \<and> wh_Status r' = ''paused'') \<and>
    (\<exists>x. find_webhook (linked_ienv downgraded_world ''h_w1'' 60000) ''t'' (linked_iworld downgraded_world) =
       (Inr (Some x), linked_iworld downgraded_world) \<and> wh_ID x = wh_ID ?r \<and> wh_Status x = ''active'')"
    by (rule stale_after_downgrade [OF db f(1,2) _ _ _ f(4) _ _ f(3) _ l, where stamp = 0 and cache = empty_redis])
      (simp_all add: f(5) acct_env_def cached_world_def acct_world_def acct_db_def acct_webhook_def linked_ienv_def webhookTTL_def
        scanWebhook_def sample_ienv_def sample_qenv_def)
  moreover have "map wh_Status (ad_webhooks (aw_db downgraded_world)) = [''paused'', ''active'', ''active'']" by code_simp
  moreover have "rp_Status (fst (IngestSignal (linked_ienv downgraded_world ''h_w1'' 60000) (sample_body ''BUY'') (linked_iworld downgraded_world))) = 202"
    by code_simp
  ultimately show ?thesis by (simp add: acct_webhook_def)
qed

end
