(* ===== verification/PaperDesk.thy ===== *)
theory PaperDesk
  imports Queue Ledger "HOL-Library.AList"
begin

section \<open>Closing paper positions and marking them to market\<close>

text \<open>
  Models \<^verbatim>\<open>internal/paperengine/close.go\<close>, the square-off of intraday positions in
  \<^verbatim>\<open>internal/paperengine/missquareoff/job.go\<close> and the sweep of \<^verbatim>\<open>internal/marketdata/snapshotjob.go\<close>.

  All work on the paper tables. The environment says which queries fail, with their errors, and gives
  the settings, the quotes of a provider for a batch of symbols and the order in which Go goes through
  the map of symbols. What the code draws on the way (ids and clock readings) are arguments. The timers
  and the push of new marks to browsers are left out.
\<close>

subsection \<open>Closing a position\<close>

record 'tz desk_env =
  dk_store :: "'tz store_env"
  dk_zones :: zones
  dk_settings :: settings
  dk_md :: "quote_registry option"
  dk_fail :: "string \<Rightarrow> go_err option"
  dk_batch :: "string \<Rightarrow> (string \<times> string) list \<Rightarrow> ((string \<times> string) \<times> f64) list"
  dk_order :: "(string \<times> string) list \<Rightarrow> (string \<times> string) list"

record draw =
  dr_signal :: string
  dr_ids :: fresh_ids
  dr_snapshot :: string
  dr_now :: int

datatype close_err = CloseErr go_err | EngineErr store_err

definition query :: "'tz desk_env \<Rightarrow> string \<Rightarrow> 'a \<Rightarrow> go_err + 'a" where
  "query env name x = (case dk_fail env name of None \<Rightarrow> Inr x | Some e \<Rightarrow> Inl e)"

definition wrapped :: "string \<Rightarrow> go_err + 'a \<Rightarrow> go_err + 'a" where
  "wrapped prefix r = (case r of Inl e \<Rightarrow> Inl (Wrapf prefix e []) | Inr x \<Rightarrow> Inr x)"

definition resolveCloseFillPrice :: "'tz desk_env \<Rightarrow> string \<Rightarrow> string \<Rightarrow> f64 \<Rightarrow> go_err + f64" where
  "resolveCloseFillPrice env exchange symbol lastPrice =
     (let unknown = Inl (Errorf (''no known price for '' @ exchange @ '':'' @ symbol)) in
      if 0 < lastPrice then Inr lastPrice
      else
        (case dk_md env of
           None \<Rightarrow> unknown
         | Some md \<Rightarrow>
             (case ResolveMarketFillPrice (Some md) (dk_settings env) exchange symbol of
                Inl e \<Rightarrow> if err_is e ErrNoQuote then unknown else Inl (Wrapf ''live quote lookup failed: '' e [])
              | Inr price \<Rightarrow> if 0 < price then Inr price else unknown)))"

text \<open>What stands before the engine: the order that closes the position, or the error.\<close>

definition close_order :: "paper_account \<Rightarrow> string \<Rightarrow> string \<Rightarrow> string \<Rightarrow> string \<Rightarrow> f64 \<Rightarrow> instrument \<Rightarrow> market_profile \<Rightarrow> exec_request" where
  "close_order account signalID exchange symbol product fillPrice instrument profile = zero_request
     \<lparr> er_AccountID := pa_ID account, er_UserID := pa_UserID account, er_SignalID := signalID,
       er_MarketProfile := pa_MarketProfile account, er_Exchange := exchange, er_Symbol := symbol,
       er_Side := SideClose, er_OrderType := OrderTypeMarket, er_Product := product, er_Price := fillPrice,
       er_TickSize := in_TickSize instrument, er_LotSize := in_LotSize instrument,
       er_SlippageBps := mp_SlippageBps profile, er_FeeBps := mp_FeeBps profile \<rparr>"

definition found_or :: "go_err \<Rightarrow> 'a option \<Rightarrow> go_err + 'a" where
  "found_or e x = (case x of None \<Rightarrow> Inl e | Some v \<Rightarrow> Inr v)"

definition close_exchange :: "paper_account \<Rightarrow> paper_position \<Rightarrow> string" where
  "close_exchange account position =
     (let exchange = NormalizePaperExchange (pp_Exchange position)
      in if exchange = [] then NormalizePaperExchange (pa_Exchange account) else exchange)"

definition close_product :: "paper_account \<Rightarrow> paper_position \<Rightarrow> string" where
  "close_product account position =
     (let product = trim_space (pp_Product position) in if product = [] then pa_DefaultProduct account else product)"

definition close_symbol :: "instrument \<Rightarrow> string \<Rightarrow> string" where
  "close_symbol instrument symbol =
     (if trim_space (in_Symbol instrument) \<noteq> [] then NormalizePaperSymbol (in_Symbol instrument) else symbol)"

definition hours_reason :: "'tz desk_env \<Rightarrow> paper_db \<Rightarrow> string \<Rightarrow> int \<Rightarrow> string" where
  "hours_reason env db code now =
     CheckMarketHours (dk_zones env) (dk_settings env)
       (\<lambda>code. query env ''GetMarketProfileByCode'' (GetMarketProfileByCode db code)) code (now div 1000)"

definition close_request ::
  "'tz desk_env \<Rightarrow> paper_db \<Rightarrow> paper_account \<Rightarrow> paper_position \<Rightarrow> string \<Rightarrow> bool \<Rightarrow> int \<Rightarrow> go_err + exec_request" where
  "close_request env db account position signalID enforceMarketHours now =
     (let exchange = close_exchange account position;
          symbol = NormalizePaperSymbol (pp_Symbol position);
          code = pa_MarketProfile account;
          unknown = Errorf (''unknown or inactive symbol '' @ fmt_q symbol @ '' for market profile '' @ fmt_q code) in
      if feq (pp_Quantity position) 0 then Inl (Errorf ''no open position to close'')
      else if trim_space signalID = [] then Inl (Errorf ''signal id is required'')
      else
        ebind (resolveCloseFillPrice env exchange symbol (pp_LastPrice position)) (\<lambda>fillPrice.
        ebind (wrapped ''instrument lookup failed: ''
          (query env ''GetInstrument'' (GetInstrument db code exchange symbol))) (\<lambda>found.
        ebind (found_or unknown found) (\<lambda>instrument.
        if \<not> in_Active instrument then Inl unknown
        else
        ebind (wrapped ''market profile lookup failed: ''
          (query env ''GetMarketProfileByCode'' (GetMarketProfileByCode db code))) (\<lambda>found.
        ebind (found_or (Errorf (''unknown market profile '' @ fmt_q code)) found) (\<lambda>profile.
        let reason = (if enforceMarketHours then hours_reason env db code now else []) in
        if reason \<noteq> [] then Inl (Errorf reason)
        else Inr (close_order account signalID exchange (close_symbol instrument symbol) (close_product account position)
                    fillPrice instrument profile)))))))"

definition FlattenPosition ::
  "'tz desk_env \<Rightarrow> draw \<Rightarrow> paper_account \<Rightarrow> paper_position \<Rightarrow> bool \<Rightarrow> paper_db \<Rightarrow> (close_err + exec_result) \<times> paper_db" where
  "FlattenPosition env d account position enforceMarketHours db =
     (case close_request env db account position (dr_signal d) enforceMarketHours (dr_now d) of
        Inl e \<Rightarrow> (Inl (CloseErr e), db)
      | Inr req \<Rightarrow>
          (case Execute (dk_store env) (dr_ids d) (dr_snapshot d) (dr_now d) req db of
             Inl e \<Rightarrow> (Inl (EngineErr e), db)
           | Inr (res, db') \<Rightarrow> (Inr res, db')))"

subsection \<open>The square-off of intraday positions\<close>

definition ist_zone :: location where
  "ist_zone = (\<lambda>_. 5 * 3600 + 30 * 60)"

definition InWindow :: "int \<Rightarrow> bool" where
  "InWindow now =
     (let secs = now div 1000; day = weekday ist_zone secs; mins = hour ist_zone secs * 60 + minute ist_zone secs
      in day \<noteq> 6 \<and> day \<noteq> 0 \<and> 15 * 60 + 15 \<le> mins \<and> mins \<le> 15 * 60 + 30)"

text \<open>One row of the loop: whether it was closed, and the tables after it.\<close>

definition square_row :: "'tz desk_env \<Rightarrow> draw \<Rightarrow> paper_position \<times> paper_account \<Rightarrow> paper_db \<Rightarrow> bool \<times> paper_db" where
  "square_row env d row db =
     (case FlattenPosition env d (snd row) (fst row) False db of
        (Inl _, db') \<Rightarrow> (False, db')
      | (Inr res, db') \<Rightarrow> (xr_Status res = PaperOrderStatusFilled, db'))"

text \<open>The loop, with the counts of positions closed and failed.\<close>

fun square_rows ::
  "'tz desk_env \<Rightarrow> (nat \<Rightarrow> draw) \<Rightarrow> nat \<Rightarrow> (paper_position \<times> paper_account) list \<Rightarrow> paper_db \<Rightarrow> (nat \<times> nat) \<times> paper_db" where
  "square_rows env draws n [] db = ((0, 0), db)"
| "square_rows env draws n (row # rows) db =
     (if pa_Status (snd row) = ''closed'' then square_rows env draws n rows db
      else
        (let (ok, db1) = square_row env (draws n) row db;
             ((closed, failed), db2) = square_rows env draws (Suc n) rows db1
         in (if ok then (Suc closed, failed) else (closed, Suc failed), db2)))"

definition squareOffAll :: "'tz desk_env \<Rightarrow> (nat \<Rightarrow> draw) \<Rightarrow> paper_db \<Rightarrow> (nat \<times> nat) \<times> paper_db" where
  "squareOffAll env draws db =
     (case query env ''ListOpenMISPaperPositions'' (ListOpenMISPaperPositions db) of
        Inl _ \<Rightarrow> ((0, 0), db)
      | Inr rows \<Rightarrow> square_rows env draws 0 rows db)"

text \<open>A tick of the job's clock.\<close>

definition square_off_tick :: "'tz desk_env \<Rightarrow> (nat \<Rightarrow> draw) \<Rightarrow> int \<Rightarrow> paper_db \<Rightarrow> paper_db" where
  "square_off_tick env draws t db = (if InWindow t then snd (squareOffAll env draws db) else db)"

subsection \<open>The sweep that marks positions\<close>

definition SymbolKey :: "string \<Rightarrow> string \<Rightarrow> string" where
  "SymbolKey exchange symbol = to_upper (trim_space exchange) @ ''|'' @ to_upper (trim_space symbol)"

definition maxSymbolsPerBatch :: nat where "maxSymbolsPerBatch = 50"

text \<open>The slices of the loop over the symbols, from an index on.\<close>

function batches :: "nat \<Rightarrow> 'a list \<Rightarrow> 'a list list" where
  "batches i symbols =
     (if i < length symbols
      then take (min (i + maxSymbolsPerBatch) (length symbols) - i) (drop i symbols) # batches (i + maxSymbolsPerBatch) symbols
      else [])"
  by pat_completeness auto

termination
  by (relation "measure (\<lambda>(i, symbols). length symbols - i)") (auto simp: maxSymbolsPerBatch_def)

declare batches.simps [simp del]

type_synonym open_positions = "(paper_account \<times> paper_position list) list"

definition open_of :: "'tz desk_env \<Rightarrow> paper_db \<Rightarrow> paper_account \<Rightarrow> paper_position list" where
  "open_of env db account =
     (case query env ''ListPaperPositionsByAccount'' (ListPaperPositionsByAccount db (pa_ID account)) of
        Inl _ \<Rightarrow> []
      | Inr ps \<Rightarrow> filter (\<lambda>p. \<not> feq (pp_Quantity p) 0) ps)"

definition sweep_read :: "'tz desk_env \<Rightarrow> paper_db \<Rightarrow> open_positions" where
  "sweep_read env db =
     (case query env ''ListPaperAccountsWithOpenPositions'' (ListPaperAccountsWithOpenPositions db) of
        Inl _ \<Rightarrow> []
      | Inr accounts \<Rightarrow>
          filter (\<lambda>ap. snd ap \<noteq> []) (map (\<lambda>account. (account, open_of env db account)) accounts))"

definition symbol_of :: "paper_position \<Rightarrow> string \<times> string" where
  "symbol_of p = (NormalizePaperExchange (pp_Exchange p), NormalizePaperSymbol (pp_Symbol p))"

text \<open>The values of the map of symbols by key, where the last one stays, in the order that ranging over it has.\<close>

definition sweep_symbols :: "'tz desk_env \<Rightarrow> open_positions \<Rightarrow> (string \<times> string) list" where
  "sweep_symbols env all = dk_order env (map snd (fold (\<lambda>s. AList.update (SymbolKey (fst s) (snd s)) s)
       (map symbol_of (concat (map snd all))) []))"

definition sweep_quotes :: "'tz desk_env \<Rightarrow> open_positions \<Rightarrow> string \<Rightarrow> f64 option" where
  "sweep_quotes env all =
     (let provider = ActiveProviderName (dk_md env) (dk_settings env);
          quotes = concat (map (dk_batch env provider) (batches 0 (sweep_symbols env all)))
      in map_of (rev (map (\<lambda>((ex, s), ltp). (SymbolKey ex s, ltp)) quotes)))"

definition apply_mark :: "'tz desk_env \<Rightarrow> int \<Rightarrow> (string \<Rightarrow> f64 option) \<Rightarrow> paper_position \<Rightarrow> paper_db \<Rightarrow> paper_db" where
  "apply_mark env now quote pos db =
     (case quote (SymbolKey (pp_Exchange pos) (pp_Symbol pos)) of
        None \<Rightarrow> db
      | Some ltp \<Rightarrow>
          (if dk_fail env ''UpdatePaperPositionMark'' \<noteq> None then db
           else best_effort db (UpdatePaperPositionMark (ev_nc (dk_store env))
             (pos\<lparr>pp_LastPrice := ltp, pp_UnrealizedPnL := UnrealizedPnL (pp_Quantity pos) (pp_AvgEntryPrice pos) ltp,
                  pp_UpdatedAt := now\<rparr>) db)))"

definition applyMarks ::
  "'tz desk_env \<Rightarrow> draw \<Rightarrow> (string \<Rightarrow> f64 option) \<Rightarrow> paper_account \<times> paper_position list \<Rightarrow> paper_db \<Rightarrow> paper_db" where
  "applyMarks env d quote ap db =
     (let db = fold (apply_mark env (dr_now d) quote) (snd ap) db in
      if dk_fail env ''RecordPaperAccountEquitySnapshot'' \<noteq> None then db
      else best_effort db (RecordPaperAccountEquitySnapshot (dk_store env) (dr_snapshot d) (dr_now d)
             (pa_ID (fst ap)) (pa_UserID (fst ap)) db))"

fun sweep_write ::
  "'tz desk_env \<Rightarrow> (nat \<Rightarrow> draw) \<Rightarrow> nat \<Rightarrow> (string \<Rightarrow> f64 option) \<Rightarrow> open_positions \<Rightarrow> paper_db \<Rightarrow> paper_db" where
  "sweep_write env draws n quote [] db = db"
| "sweep_write env draws n quote (ap # all) db =
     sweep_write env draws (Suc n) quote all (applyMarks env (draws n) quote ap db)"

definition Sweep :: "'tz desk_env \<Rightarrow> (nat \<Rightarrow> draw) \<Rightarrow> paper_db \<Rightarrow> paper_db" where
  "Sweep env draws db =
     (let all = sweep_read env db in sweep_write env draws 0 (sweep_quotes env all) all db)"

text \<open>The wait before the next sweep, in milliseconds: the setting of the administrator, within its bounds.\<close>

definition SettingKeyIntervalSec :: string where "SettingKeyIntervalSec = ''market_data_snapshot_interval_sec''"
definition MinSnapshotIntervalSec :: int where "MinSnapshotIntervalSec = 5"
definition MaxSnapshotIntervalSec :: int where "MaxSnapshotIntervalSec = 3600"

definition currentInterval :: "int \<Rightarrow> settings \<Rightarrow> int" where
  "currentInterval interval get =
     (case get SettingKeyIntervalSec of
        Inr (Some v) \<Rightarrow>
          (case parse_int64 v of
             Some secs \<Rightarrow> if MinSnapshotIntervalSec \<le> secs \<and> secs \<le> MaxSnapshotIntervalSec then secs * 1000 else interval
           | None \<Rightarrow> interval)
      | _ \<Rightarrow> interval)"

end
