(* ===== verification/SquareOff.thy ===== *)
theory SquareOff
  imports PaperDesk "HOL-Library.Multiset"
begin

section \<open>What closing a position and the square-off achieve\<close>

text \<open>
  A close that is filled leaves the position flat and touches no other; the square-off closes intraday
  positions one by one, and a position that cannot be closed does not keep the others open. What it cannot
  close, because the last price is not a multiple of the tick, it never closes.
\<close>

subsection \<open>The order that closes\<close>

definition clean :: "paper_position \<Rightarrow> bool" where
  "clean p = (normal_position p \<and> pp_Exchange p \<noteq> [] \<and> trim_space (pp_Product p) = pp_Product p \<and> pp_Product p \<noteq> [] \<and>
     is_fin (pp_Quantity p))"

lemma wrapped_Inr [simp]: "wrapped prefix r = Inr x \<longleftrightarrow> r = Inr x"
  by (simp add: wrapped_def split: sum.split)

lemma query_Inr [simp]: "query env name x = Inr y \<longleftrightarrow> dk_fail env name = None \<and> x = y"
  by (simp add: query_def split: option.split)

lemma found_or_Inr [simp]: "found_or e x = Inr v \<longleftrightarrow> x = Some v"
  by (simp add: found_or_def split: option.split)

lemma close_symbol_normal:
  assumes "GetInstrument db code exchange s = Some i" "NormalizePaperSymbol s = s"
  shows "NormalizePaperSymbol (close_symbol i s) = s"
proof -
  have "to_upper (in_Symbol i) = to_upper s" using assms(1) by (auto simp: GetInstrument_def find_Some_iff)
  moreover have "to_upper s = s" "trim_space s = s"
    using assms(2) by (metis NormalizePaperSymbol_def to_upper_idem, metis NormalizePaperSymbol_def trim_upper trim_idem)
  ultimately have "NormalizePaperSymbol (in_Symbol i) = s" by (metis NormalizePaperSymbol_def trim_upper)
  then show ?thesis using assms(2) by (simp add: close_symbol_def)
qed

lemma close_request_Inr:
  assumes "close_request env db a p signal h now = Inr req" "clean p"
  obtains s price i prof where
    "req = close_order a signal (pp_Exchange p) s (pp_Product p) price i prof" "NormalizePaperSymbol s = pp_Symbol p"
    "NormalizePaperExchange (pp_Exchange p) = pp_Exchange p" "\<not> feq (pp_Quantity p) 0"
    "0 < pp_LastPrice p \<longrightarrow> price = pp_LastPrice p"
    "GetInstrument db (pa_MarketProfile a) (pp_Exchange p) (pp_Symbol p) = Some i"
proof -
  have n: "NormalizePaperExchange (pp_Exchange p) = pp_Exchange p" "NormalizePaperSymbol (pp_Symbol p) = pp_Symbol p"
    "close_exchange a p = pp_Exchange p" "close_product a p = pp_Product p"
    using assms(2) by (simp_all add: clean_def normal_position_def close_exchange_def close_product_def)
  obtain price i prof where r:
    "req = close_order a signal (pp_Exchange p) (close_symbol i (pp_Symbol p)) (pp_Product p) price i prof"
    "GetInstrument db (pa_MarketProfile a) (pp_Exchange p) (pp_Symbol p) = Some i" "\<not> feq (pp_Quantity p) 0"
    "resolveCloseFillPrice env (pp_Exchange p) (pp_Symbol p) (pp_LastPrice p) = Inr price"
    using assms(1) n by (auto simp: close_request_def Let_def ebind_Inr_iff split: if_splits)
  show ?thesis
    by (rule that [OF r(1) close_symbol_normal [OF r(2) n(2)] n(1) r(3) _ r(2)])
      (use r(4) in \<open>auto simp: resolveCloseFillPrice_def Let_def\<close>)
qed

lemma close_order_fields [simp]:
  "er_AccountID (close_order a sig ex s pd price i prof) = pa_ID a" "er_Exchange (close_order a sig ex s pd price i prof) = ex"
  "er_Symbol (close_order a sig ex s pd price i prof) = s" "er_Product (close_order a sig ex s pd price i prof) = pd"
  "er_Side (close_order a sig ex s pd price i prof) = SideClose" "er_Price (close_order a sig ex s pd price i prof) = price"
  "er_OrderType (close_order a sig ex s pd price i prof) = OrderTypeMarket"
  "er_TickSize (close_order a sig ex s pd price i prof) = in_TickSize i"
  "er_SlippageBps (close_order a sig ex s pd price i prof) = mp_SlippageBps prof"
  by (simp_all add: close_order_def)

subsection \<open>What an executed close leaves\<close>

lemma set_cash_accounts:
  "map (\<lambda>a. (pa_ID a, pa_Status a)) (db_accounts (set_cash x c now db)) = map (\<lambda>a. (pa_ID a, pa_Status a)) (db_accounts db)"
  by (simp add: set_cash_def)

lemma persist_cash_accounts:
  "persist_cash nc now acct out db = Inr db' \<Longrightarrow>
   map (\<lambda>a. (pa_ID a, pa_Status a)) (db_accounts db') = map (\<lambda>a. (pa_ID a, pa_Status a)) (db_accounts db)"
  by (auto simp: persist_cash_def ebind_Inr_iff set_cash_accounts split: option.splits)

text \<open>A position is replaced by a row with its id and key that says it is flat.\<close>

definition flat_row :: "paper_position \<Rightarrow> paper_position \<Rightarrow> bool" where
  "flat_row p row = (pp_ID row = pp_ID p \<and> position_key row = position_key p \<and> pp_Quantity row = 0 \<and>
     pp_AvgEntryPrice row = 0 \<and> pp_UnrealizedPnL row = 0)"

definition set_position :: "paper_position \<Rightarrow> paper_position list \<Rightarrow> paper_position list" where
  "set_position row = map (\<lambda>x. if pp_ID x = pp_ID row then row else x)"

lemma execute_close:
  assumes ok: "db_ok db" and p: "p \<in> set (db_positions db)" and q: "is_fin (pp_Quantity p)" "\<not> feq (pp_Quantity p) 0"
    and req: "er_Side req = SideClose" "request_position db req = Some p"
    and zero: "nc_write (ev_nc env) 0 = Some 0" and ex: "Execute env ids sid now req db = Inr (res, db')"
  shows "map (\<lambda>a. (pa_ID a, pa_Status a)) (db_accounts db') = map (\<lambda>a. (pa_ID a, pa_Status a)) (db_accounts db)"
    "xr_Status res = PaperOrderStatusFilled \<Longrightarrow> \<exists>row. flat_row p row \<and> db_positions db' = set_position row (db_positions db)"
    "xr_Status res \<noteq> PaperOrderStatusFilled \<Longrightarrow> db_positions db' = db_positions db"
proof -
  obtain a out out' db1 db2 db3 db4 where
    out: "out = computeFill ids now a (Some p) req"
    and o1: "CreatePaperOrder (ev_nc env) (fo_Order out) db = Inr db1"
    and o2: "persist_position (ev_nc env) (Some p) out db1 = Inr (out', db2)"
    and o3: "persist_trade (ev_nc env) out' db2 = Inr db3"
    and o4: "persist_cash (ev_nc env) now (er_AccountID req) out' db3 = Inr db4"
    and db': "db' = best_effort db4 (RecordPaperAccountEquitySnapshot env sid now (er_AccountID req) (pa_UserID a) db4)"
    and res: "res = result_of_outcome out'"
    using Execute_Inr [OF ex] req(2) by (metis (no_types, lifting))
  have f1: "db_positions db1 = db_positions db" "db_accounts db1 = db_accounts db" using o1 by (auto simp: CreatePaperOrder_Inr)
  note f2 = persist_position_Inr [OF o2] and f3 = persist_trade_frame [OF o3]
  show "map (\<lambda>a. (pa_ID a, pa_Status a)) (db_accounts db') = map (\<lambda>a. (pa_ID a, pa_Status a)) (db_accounts db)"
    using persist_cash_accounts [OF o4] f1 f2 f3 by (simp add: db')
  have pos: "db_positions db' = db_positions db2" using f3 persist_cash_frame [OF o4] by (simp add: db')
  have st: "xr_Status res = po_Status (fo_Order out)" using f2 by (simp add: res result_of_outcome_def)
  obtain n where n: "pp_Quantity p = Fin n" "n \<noteq> 0" using q by (cases "pp_Quantity p") auto
  show "\<exists>row. flat_row p row \<and> db_positions db' = set_position row (db_positions db)" if "xr_Status res = PaperOrderStatusFilled"
  proof -
    have "validateOrder req = []"
      using that st fill_or_reject_aux [of ids now a "Some p" req]
      by (auto simp: out Let_def accepted_def paper_status_defs split: if_splits)
    then obtain p' where p': "fo_Position out = Some p'" "pp_Quantity p' = 0" "pp_AvgEntryPrice p' = 0" "pp_UnrealizedPnL p' = 0"
      using close_outcome [OF req(1) _ n, of ids now a] by (auto simp: out)
    let ?np = "p'\<lparr>pp_Symbol := NormalizePaperSymbol (pp_Symbol p'), pp_Exchange := NormalizePaperExchange (pp_Exchange p')\<rparr>"
    obtain r where r: "encode_position (ev_nc env) ?np = Inr r" "db_positions db2 = map (\<lambda>x. if pp_ID x = pp_ID p
          then x\<lparr>pp_Quantity := pp_Quantity r, pp_AvgEntryPrice := pp_AvgEntryPrice r, pp_LastPrice := pp_LastPrice r,
                 pp_UnrealizedPnL := pp_UnrealizedPnL r, pp_UpdatedAt := pp_UpdatedAt r\<rparr> else x) (db_positions db)"
      using o2 p'(1) f1 by (auto simp: persist_position_def Let_def ebind_Inr_iff update_position_fill_def)
    have z: "pp_Quantity r = 0" "pp_AvgEntryPrice r = 0" "pp_UnrealizedPnL r = 0"
      using r(1) p'(2-4) zero by (auto simp: encode_position_def ebind_Inr_iff write_num_Inr)
    let ?row = "p\<lparr>pp_Quantity := pp_Quantity r, pp_AvgEntryPrice := pp_AvgEntryPrice r, pp_LastPrice := pp_LastPrice r,
                 pp_UnrealizedPnL := pp_UnrealizedPnL r, pp_UpdatedAt := pp_UpdatedAt r\<rparr>"
    have only: "x = p" if "x \<in> set (db_positions db)" "pp_ID x = pp_ID p" for x
      using that ok p by (auto simp: db_ok_def distinct_map inj_on_def)
    have "db_positions db2 = set_position ?row (db_positions db)"
      using only by (auto simp: r(2) set_position_def)
    moreover have "flat_row p ?row" using z by (simp add: flat_row_def position_key_def)
    ultimately show ?thesis using pos by (intro exI [of _ ?row]) simp
  qed
  show "db_positions db' = db_positions db" if "xr_Status res \<noteq> PaperOrderStatusFilled"
  proof -
    have "fo_Position out = None"
      using that st fill_or_reject_aux [of ids now a "Some p" req] by (auto simp: out Let_def split: if_splits)
    then show ?thesis using o2 f1 pos by (simp add: persist_position_def)
  qed
qed


lemma flatten_cases:
  assumes ok: "db_ok db" and p: "p \<in> set (db_positions db)" "clean p" "pa_ID a = pp_PaperAccountID p"
    and zero: "nc_write (ev_nc (dk_store env)) 0 = Some 0" and f: "FlattenPosition env d a p h db = (r, db')"
  shows "db_ok db'"
    "map (\<lambda>a. (pa_ID a, pa_Status a)) (db_accounts db') = map (\<lambda>a. (pa_ID a, pa_Status a)) (db_accounts db)"
    "if \<exists>res. r = Inr res \<and> xr_Status res = PaperOrderStatusFilled
     then \<exists>row. flat_row p row \<and> db_positions db' = set_position row (db_positions db) else db_positions db' = db_positions db"
proof -
  have "db_ok db' \<and>
    map (\<lambda>a. (pa_ID a, pa_Status a)) (db_accounts db') = map (\<lambda>a. (pa_ID a, pa_Status a)) (db_accounts db) \<and>
    (if \<exists>res. r = Inr res \<and> xr_Status res = PaperOrderStatusFilled
     then \<exists>row. flat_row p row \<and> db_positions db' = set_position row (db_positions db) else db_positions db' = db_positions db)"
  proof (cases "close_request env db a p (dr_signal d) h (dr_now d)")
    case (Inl e)
    then show ?thesis using f ok by (auto simp: FlattenPosition_def)
  next
    case (Inr req)
    obtain s price i prof where req: "req = close_order a (dr_signal d) (pp_Exchange p) s (pp_Product p) price i prof"
      "NormalizePaperSymbol s = pp_Symbol p" "NormalizePaperExchange (pp_Exchange p) = pp_Exchange p" "\<not> feq (pp_Quantity p) 0"
      using close_request_Inr [OF Inr p(2)] by metis
    show ?thesis
    proof (cases "Execute (dk_store env) (dr_ids d) (dr_snapshot d) (dr_now d) req db")
      case (Inl e)
      then show ?thesis using f ok Inr by (auto simp: FlattenPosition_def)
    next
      case x: (Inr y)
      obtain res db1 where y: "y = (res, db1)" by fastforce
      have r: "r = Inr res" "db' = db1" using f Inr x y by (simp_all add: FlattenPosition_def)
      have lookup: "request_position db req = Some p" using own_key_lookup [OF ok p(1)] req p(3) by simp
      have side: "er_Side req = SideClose" using req by simp
      have fin: "is_fin (pp_Quantity p)" using p(2) by (simp add: clean_def)
      note e = execute_close [OF ok p(1) fin req(4) side lookup zero x [unfolded y]]
      then show ?thesis using db_ok_Execute [OF x [unfolded y] ok] r by simp
    qed
  qed
  then show "db_ok db'"
    "map (\<lambda>a. (pa_ID a, pa_Status a)) (db_accounts db') = map (\<lambda>a. (pa_ID a, pa_Status a)) (db_accounts db)"
    "if \<exists>res. r = Inr res \<and> xr_Status res = PaperOrderStatusFilled
     then \<exists>row. flat_row p row \<and> db_positions db' = set_position row (db_positions db) else db_positions db' = db_positions db"
    by blast+
qed

text \<open>
  C26. Closing a position closes that position. When the order is filled, the position's own key finds a row that is flat,
  without an average price or open profit; when it is rejected or fails, no position has changed; and
  every other position is the same either way.
\<close>

theorem close_leaves_flat:
  assumes "store_reachable (dk_store env) db" "p \<in> set (db_positions db)" "clean p" "pa_ID a = pp_PaperAccountID p"
    "nc_write (ev_nc (dk_store env)) 0 = Some 0" "FlattenPosition env d a p h db = (r, db')"
  shows "(if \<exists>res. r = Inr res \<and> xr_Status res = PaperOrderStatusFilled
      then \<exists>row. GetPaperPosition db' (pp_PaperAccountID p) (pp_Exchange p) (pp_Symbol p) (pp_Product p) = Some row \<and>
             pp_Quantity row = 0 \<and> pp_AvgEntryPrice row = 0 \<and> pp_UnrealizedPnL row = 0
      else db_positions db' = db_positions db) \<and>
    (\<forall>q \<in> set (db_positions db). pp_ID q \<noteq> pp_ID p \<longrightarrow> q \<in> set (db_positions db'))"
proof -
  have ok: "db_ok db" using assms(1) by (rule db_ok_reachable)
  note f = flatten_cases [OF ok assms(2-6)]
  show ?thesis
  proof (cases "\<exists>res. r = Inr res \<and> xr_Status res = PaperOrderStatusFilled")
    case True
    then obtain row where row: "flat_row p row" "db_positions db' = set_position row (db_positions db)" using f(3) by auto
    have "row \<in> set (db_positions db')" "\<forall>q \<in> set (db_positions db). pp_ID q \<noteq> pp_ID p \<longrightarrow> q \<in> set (db_positions db')"
      using row assms(2) by (auto simp: set_position_def flat_row_def)
    moreover from this have "GetPaperPosition db' (pp_PaperAccountID p) (pp_Exchange p) (pp_Symbol p) (pp_Product p) = Some row"
      using own_key_lookup [OF f(1), of row] row(1) by (simp add: flat_row_def position_key_def)
    ultimately show ?thesis using True row(1) by (auto simp: flat_row_def)
  qed (use f(3) in auto)
qed

lemma Execute_orders:
  assumes "Execute env ids sid now req db = Inr (res, db')"
  shows "length (db_orders db') = Suc (length (db_orders db))"
proof (rule Execute_Inr [OF assms])
  fix account out out' db1 db2 db3 db4
  assume o1: "CreatePaperOrder (ev_nc env) (fo_Order out) db = Inr db1"
    and o2: "persist_position (ev_nc env) (request_position db req) out db1 = Inr (out', db2)"
    and o3: "persist_trade (ev_nc env) out' db2 = Inr db3"
    and o4: "persist_cash (ev_nc env) now (er_AccountID req) out' db3 = Inr db4"
    and db': "db' = best_effort db4 (RecordPaperAccountEquitySnapshot env sid now (er_AccountID req) (pa_UserID account) db4)"
  have "length (db_orders db1) = Suc (length (db_orders db))" using o1 by (auto simp: CreatePaperOrder_Inr)
  then show ?thesis using persist_position_Inr [OF o2] persist_trade_frame [OF o3] persist_cash_frame [OF o4] by (simp add: db')
qed

subsection \<open>The loop of the square-off\<close>

definition mis_open :: "(string \<times> string) list \<Rightarrow> paper_position \<Rightarrow> bool" where
  "mis_open accounts p =
     (pp_Product p = ''MIS'' \<and> \<not> feq (pp_Quantity p) 0 \<and>
      (\<exists>(i, s) \<in> set accounts. i = pp_PaperAccountID p \<and> s \<noteq> ''closed''))"

abbreviation statuses :: "paper_db \<Rightarrow> (string \<times> string) list" where
  "statuses db \<equiv> map (\<lambda>a. (pa_ID a, pa_Status a)) (db_accounts db)"

abbreviation open_count :: "paper_db \<Rightarrow> nat" where
  "open_count db \<equiv> length (filter (mis_open (statuses db)) (db_positions db))"

lemma mset_insert_by [simp]: "mset (insert_by le x ys) = add_mset x (mset ys)"
  by (induction ys) auto

lemma mset_sort_by [simp]: "mset (sort_by le xs) = mset xs"
  unfolding sort_by_def by (induction xs) auto

lemma length_sort_by [simp]: "length (sort_by le xs) = length xs"
  using mset_sort_by by (metis size_mset)

lemma set_sort_by [simp]: "set (sort_by le xs) = set xs"
  using mset_sort_by by (metis set_mset_mset)

lemma distinct_map_sort_by [simp]: "distinct (map f (sort_by le xs)) = distinct (map f xs)"
  by (rule mset_eq_imp_distinct_iff) simp

text \<open>The join of a row with the one account of its id.\<close>

lemma join_one:
  assumes "distinct (map pa_ID as)"
  shows "filter (\<lambda>a. pa_ID a = k \<and> Q a) as = (case find (\<lambda>a. pa_ID a = k \<and> Q a) as of None \<Rightarrow> [] | Some a \<Rightarrow> [a])"
  using assms
proof (induction as)
  case (Cons a as)
  have "find (\<lambda>x. pa_ID x = pa_ID a \<and> Q x) as = None" 
  proof -
    have "\<forall>x \<in> set as. pa_ID x \<noteq> pa_ID a" using Cons.prems by simp (metis imageI)
    then show ?thesis unfolding find_None_iff by blast
  qed
  then show ?case using Cons by (auto split: option.splits)
qed simp

lemma open_rows:
  assumes "db_ok db"
  shows "length (ListOpenMISPaperPositions db) = open_count db"
    "distinct (map (pp_ID \<circ> fst) (ListOpenMISPaperPositions db))"
proof -
  let ?Q = "\<lambda>a. pa_Status a \<noteq> ''closed''" and ?P = "\<lambda>p. pp_Product p = ''MIS'' \<and> \<not> feq (pp_Quantity p) 0"
  let ?join = "\<lambda>ps. filter (\<lambda>(pos, acct). pa_ID acct = pp_PaperAccountID pos \<and> pp_Product pos = ''MIS'' \<and>
                  \<not> feq (pp_Quantity pos) 0 \<and> pa_Status acct \<noteq> ''closed'') (List.product ps (db_accounts db))"
  have acc: "distinct (map pa_ID (db_accounts db))" and ids: "distinct (map pp_ID (db_positions db))"
    using assms by (simp_all add: db_ok_def)
  let ?J = "\<lambda>(pos, acct). pa_ID acct = pp_PaperAccountID pos \<and> pp_Product pos = ''MIS'' \<and>
      \<not> feq (pp_Quantity pos) 0 \<and> pa_Status acct \<noteq> ''closed''"
  have one: "filter ?J (map (Pair p) (db_accounts db)) =
    (if ?P p then map (Pair p) (filter (\<lambda>a. pa_ID a = pp_PaperAccountID p \<and> ?Q a) (db_accounts db)) else [])" for p
    by (auto simp: filter_map comp_def filter_empty_conv intro!: arg_cong [of _ _ "map (Pair p)"] filter_cong)
  have "length (?join ps) = length (filter (mis_open (statuses db)) ps) \<and>
    set (map (pp_ID \<circ> fst) (?join ps)) \<subseteq> pp_ID ` set ps \<and>
    (distinct (map pp_ID ps) \<longrightarrow> distinct (map (pp_ID \<circ> fst) (?join ps)))" for ps
  proof (induction ps)
    case (Cons p ps)
    let ?f = "find (\<lambda>a. pa_ID a = pp_PaperAccountID p \<and> ?Q a) (db_accounts db)"
    have m: "mis_open (statuses db) p \<longleftrightarrow> ?P p \<and> ?f \<noteq> None"
      by (auto simp: mis_open_def find_None_iff)
    have e: "?join (p # ps) = (if mis_open (statuses db) p then [(p, the ?f)] else []) @ ?join ps"
    proof -
      have "?join (p # ps) = filter ?J (map (Pair p) (db_accounts db)) @ ?join ps" by simp
      then show ?thesis unfolding one m using join_one [OF acc, of "pp_PaperAccountID p" ?Q] by (auto split: option.splits)
    qed
    show ?case unfolding e using Cons.IH by auto
  qed simp
  then show "length (ListOpenMISPaperPositions db) = open_count db"
    "distinct (map (pp_ID \<circ> fst) (ListOpenMISPaperPositions db))"
    using ids by (simp_all add: ListOpenMISPaperPositions_def)
qed


text \<open>A flat row in place of an open position takes it out of the open ones.\<close>

lemma count_set_position:
  assumes "distinct (map pp_ID ps)" "p \<in> set ps" "mis_open sts p" "flat_row p row"
  shows "length (filter (mis_open sts) ps) = Suc (length (filter (mis_open sts) (set_position row ps)))"
  using assms(1,2)
proof (induction ps)
  case (Cons x ps)
  have row: "pp_ID row = pp_ID p" "\<not> mis_open sts row" using assms(4) by (auto simp: flat_row_def mis_open_def)
  show ?case
  proof (cases "x = p")
    case True
    have "set_position row ps = ps"
    proof -
      have "\<forall>x \<in> set ps. pp_ID x \<noteq> pp_ID row" using Cons.prems(1) row(1) True by simp (metis imageI)
      then show ?thesis unfolding set_position_def by (intro map_idI) auto
    qed
    then show ?thesis using row True assms(3) by (simp add: set_position_def)
  next
    case False
    then have "p \<in> set ps" "pp_ID x \<noteq> pp_ID row" using Cons.prems row(1) by (auto simp: image_iff)
    then show ?thesis using Cons by (simp add: set_position_def)
  qed
qed simp

definition ready :: "paper_db \<Rightarrow> paper_position \<times> paper_account \<Rightarrow> bool" where
  "ready db row = (fst row \<in> set (db_positions db) \<and> clean (fst row) \<and> mis_open (statuses db) (fst row) \<and>
     pa_ID (snd row) = pp_PaperAccountID (fst row) \<and> pa_Status (snd row) \<noteq> ''closed'')"

text \<open>What one row of the loop does, and the loop over the rows that are left.\<close>

lemma square_row_step:
  assumes ok: "db_ok db" and r: "ready db row" and zero: "nc_write (ev_nc (dk_store env)) 0 = Some 0"
    and s: "square_row env d row db = (done, db')"
  shows "db_ok db'" "statuses db' = statuses db" "open_count db = open_count db' + (if done then 1 else 0)"
    "\<forall>q \<in> set (db_positions db). pp_ID q \<noteq> pp_ID (fst row) \<longrightarrow> q \<in> set (db_positions db')"
proof -
  let ?p = "fst row"
  obtain x where f: "FlattenPosition env d (snd row) ?p False db = (x, db')"
    and x: "done \<longleftrightarrow> (\<exists>res. x = Inr res \<and> xr_Status res = PaperOrderStatusFilled)"
    using s by (auto simp: square_row_def split: prod.splits sum.splits)
  have p: "?p \<in> set (db_positions db)" "clean ?p" "pa_ID (snd row) = pp_PaperAccountID ?p" "mis_open (statuses db) ?p"
    using r by (simp_all add: ready_def)
  note c = flatten_cases [OF ok p(1-3) zero f]
  show "db_ok db'" "statuses db' = statuses db" by (fact c)+
  show "open_count db = open_count db' + (if done then 1 else 0)"
    "\<forall>q \<in> set (db_positions db). pp_ID q \<noteq> pp_ID ?p \<longrightarrow> q \<in> set (db_positions db')"
  proof (atomize (full), cases "done")
    case True
    then obtain r' where r': "flat_row ?p r'" "db_positions db' = set_position r' (db_positions db)" using c(3) x by auto
    have "distinct (map pp_ID (db_positions db))" using ok by (simp add: db_ok_def)
    from count_set_position [OF this p(1,4) r'(1)]
    show "open_count db = open_count db' + (if done then 1 else 0) \<and>
      (\<forall>q \<in> set (db_positions db). pp_ID q \<noteq> pp_ID ?p \<longrightarrow> q \<in> set (db_positions db'))"
      using True r' c(2) by (auto simp: set_position_def flat_row_def)
  qed (use c x in auto)
qed

lemma square_rows_count:
  assumes "db_ok db" "\<forall>row \<in> set rows. ready db row" "distinct (map (pp_ID \<circ> fst) rows)"
    "nc_write (ev_nc (dk_store env)) 0 = Some 0" "square_rows env draws n rows db = ((nclosed, nfailed), db')"
  shows "nclosed + nfailed = length rows \<and> open_count db = open_count db' + nclosed \<and> db_ok db' \<and> statuses db' = statuses db \<and>
    (\<forall>q \<in> set (db_positions db). pp_ID q \<notin> (pp_ID \<circ> fst) ` set rows \<longrightarrow> q \<in> set (db_positions db'))"
  using assms
proof (induction rows arbitrary: db n nclosed nfailed)
  case (Cons row rows)
  obtain ok db1 where s: "square_row env (draws n) row db = (ok, db1)" by fastforce
  obtain c f where rest: "square_rows env draws (Suc n) rows db1 = ((c, f), db')"
    and cf: "nclosed = (if ok then Suc c else c)" "nfailed = (if ok then f else Suc f)"
    using Cons.prems(2,5) s by (auto simp: ready_def split: prod.splits if_splits)
  have r: "ready db row" using Cons.prems(2) by simp
  note st = square_row_step [OF Cons.prems(1) r Cons.prems(4) s]
  have "ready db1 x" if "x \<in> set rows" for x
  proof -
    have "ready db x" using Cons.prems(2) that by simp
    moreover have "pp_ID (fst x) \<noteq> pp_ID (fst row)" using Cons.prems(3) that by simp (metis imageI)
    ultimately show ?thesis using st(2,4) by (simp add: ready_def)
  qed
  then have rest: "c + f = length rows \<and> open_count db1 = open_count db' + c \<and> db_ok db' \<and> statuses db' = statuses db1 \<and>
    (\<forall>q \<in> set (db_positions db1). pp_ID q \<notin> (pp_ID \<circ> fst) ` set rows \<longrightarrow> q \<in> set (db_positions db'))"
    using Cons.IH [OF st(1) _ _ Cons.prems(4) rest] Cons.prems(3) by simp
  have "nclosed + nfailed = length (row # rows)" "open_count db = open_count db' + nclosed"
    using rest st(3) cf by (cases ok; simp)+
  moreover have "q \<in> set (db_positions db')"
    if "q \<in> set (db_positions db)" "pp_ID q \<notin> (pp_ID \<circ> fst) ` set (row # rows)" for q
    using rest st(4) that by simp
  ultimately show ?case using rest st(2) by simp
qed simp

text \<open>
  C27. The square-off empties the book of what it can close. In every reachable state of the tables, it tries each open intraday
  position once, and afterwards exactly as many are open as it counted as failed: a position that cannot
  be closed does not stop the others, and nothing is counted as closed that is still open. Positions of other products are
  as they were.
\<close>

theorem square_off_counts:
  assumes "store_reachable (dk_store env) db" "\<forall>p \<in> set (db_positions db). pp_Product p = ''MIS'' \<longrightarrow> clean p"
    "nc_write (ev_nc (dk_store env)) 0 = Some 0" "dk_fail env ''ListOpenMISPaperPositions'' = None"
    "squareOffAll env draws db = ((nclosed, nfailed), db')"
  shows "nclosed + nfailed = length (ListOpenMISPaperPositions db) \<and> nfailed = length (ListOpenMISPaperPositions db') \<and>
    (\<forall>q \<in> set (db_positions db). pp_Product q \<noteq> ''MIS'' \<longrightarrow> q \<in> set (db_positions db'))"
proof -
  let ?rows = "ListOpenMISPaperPositions db"
  have ok: "db_ok db" using assms(1) by (rule db_ok_reachable)
  have rows: "p \<in> set (db_positions db)" "pp_Product p = ''MIS''" "ready db (p, a)" if "(p, a) \<in> set ?rows" for p a
    using that assms(2) by (auto simp: ListOpenMISPaperPositions_def ready_def mis_open_def)
  have "square_rows env draws 0 ?rows db = ((nclosed, nfailed), db')" using assms(4,5) by (simp add: squareOffAll_def query_def)
  then have c: "nclosed + nfailed = length ?rows \<and> open_count db = open_count db' + nclosed \<and> db_ok db' \<and> statuses db' = statuses db \<and>
    (\<forall>q \<in> set (db_positions db). pp_ID q \<notin> (pp_ID \<circ> fst) ` set ?rows \<longrightarrow> q \<in> set (db_positions db'))"
    by (intro square_rows_count [OF ok _ open_rows(2) [OF ok] assms(3)] ballI) (use rows(3) in \<open>metis surj_pair\<close>)
  have "pp_ID q \<notin> (pp_ID \<circ> fst) ` set ?rows" if "q \<in> set (db_positions db)" "pp_Product q \<noteq> ''MIS''" for q
  proof
    assume "pp_ID q \<in> (pp_ID \<circ> fst) ` set ?rows"
    then obtain p a where p: "(p, a) \<in> set ?rows" "pp_ID p = pp_ID q" by auto
    have "distinct (map pp_ID (db_positions db))" using ok by (simp add: db_ok_def)
    then have "p = q" using rows(1) [OF p(1)] p(2) that(1) by (auto simp: distinct_map inj_on_def)
    then show False using rows(2) [OF p(1)] that(2) by simp
  qed
  moreover have "open_count db = length ?rows" "open_count db' = length (ListOpenMISPaperPositions db')"
    using open_rows(1) [OF ok] open_rows(1) [of db'] c by simp_all
  ultimately show ?thesis using c by simp
qed


subsection \<open>A last price off the tick\<close>

text \<open>
  A position whose last price is no multiple of its instrument's tick cannot be closed, neither by its owner nor by the
  square-off: the close is an order at the last price, and the engine rejects it. Nothing changes but the
  list of orders, which counts against the owner's monthly quota, so the next attempt is rejected too. The slippage of a fill takes
  the last price off the tick.
\<close>

theorem off_tick_never_closes:
  assumes "store_reachable (dk_store env) db" "p \<in> set (db_positions db)" "clean p" "pa_ID a = pp_PaperAccountID p"
    "GetInstrument db (pa_MarketProfile a) (pp_Exchange p) (pp_Symbol p) = Some i" "0 < in_TickSize i"
    "0 < pp_LastPrice p" "\<not> isMultiple (pp_LastPrice p) (in_TickSize i)" "FlattenPosition env d a p h db = (r, db')"
  shows "(\<forall>res. r = Inr res \<longrightarrow> xr_Status res = PaperOrderStatusRejected \<and>
        length (db_orders db') = Suc (length (db_orders db))) \<and>
    db_positions db' = db_positions db \<and> db_accounts db' = db_accounts db \<and> db_trades db' = db_trades db"
proof (cases "close_request env db a p (dr_signal d) h (dr_now d)")
  case (Inl e)
  then show ?thesis using assms(9) by (auto simp: FlattenPosition_def)
next
  case (Inr req)
  have ok: "db_ok db" using assms(1) by (rule db_ok_reachable)
  have req: "er_TickSize req = in_TickSize i" "er_Price req = pp_LastPrice p" "er_Side req = SideClose"
    "er_OrderType req = OrderTypeMarket"
  proof -
    obtain s price j prof where j: "req = close_order a (dr_signal d) (pp_Exchange p) s (pp_Product p) price j prof"
      "0 < pp_LastPrice p \<longrightarrow> price = pp_LastPrice p"
      "GetInstrument db (pa_MarketProfile a) (pp_Exchange p) (pp_Symbol p) = Some j"
      by (rule close_request_Inr [OF Inr assms(3)])
    then show "er_TickSize req = in_TickSize i" "er_Price req = pp_LastPrice p" "er_Side req = SideClose"
      "er_OrderType req = OrderTypeMarket" using assms(5,7) by simp_all
  qed
  then have bad: "validateOrder req \<noteq> []" using assms(6-8) by (auto simp: validateOrder_def side_defs order_type_defs)
  show ?thesis
  proof (cases "Execute (dk_store env) (dr_ids d) (dr_snapshot d) (dr_now d) req db")
    case (Inl e)
    then show ?thesis using assms(9) Inr by (auto simp: FlattenPosition_def)
  next
    case x: (Inr y)
    obtain res db1 where y: "y = (res, db1)" by fastforce
    have r: "r = Inr res" "db' = db1" using assms(9) Inr x y by (simp_all add: FlattenPosition_def)
    obtain b out where o: "out = computeFill (dr_ids d) (dr_now d) b (request_position db req) req" "res = result_of_outcome out"
      "fo_Position out = None \<longrightarrow> db_positions db1 = db_positions db \<and> db_trades db1 = db_trades db \<and> db_accounts db1 = db_accounts db"
      using execute_effects_aux [OF ok x [unfolded y]] by (elim exE conjE) (rule that)
    have "length (db_orders db1) = Suc (length (db_orders db))" by (rule Execute_orders [OF x [unfolded y]])
    moreover note c = computeFill_rejects(1) [OF bad, of "dr_ids d" "dr_now d" b "request_position db req"]
    have "xr_Status res = PaperOrderStatusRejected" unfolding o(2) o(1) c by (simp add: reject_order_def result_of_outcome_def)
    moreover have "db_positions db1 = db_positions db \<and> db_trades db1 = db_trades db \<and> db_accounts db1 = db_accounts db"
      by (rule o(3) [rule_format]) (simp add: o(1) c reject_order_def)
    ultimately show ?thesis using r by simp
  qed
qed

subsection \<open>A book to close\<close>

text \<open>An account that bought three shares at 150, with a slippage in basis points.\<close>

definition desk_start :: "f64 \<Rightarrow> paper_db" where
  "desk_start slip = empty_db
     \<lparr> db_profiles := [\<lparr> mp_ID = ''m'', mp_Code = ''indian_equity'', mp_Name = ''Indian Equity'', mp_BaseCurrency = ''INR'',
         mp_Timezone = ''Asia/Kolkata'', mp_TradingDays = None, mp_Active = True, mp_SlippageBps = slip, mp_FeeBps = 0,
         mp_CreatedAt = 0, mp_UpdatedAt = 0 \<rparr>],
       db_instruments := [\<lparr> in_ID = ''i'', in_MarketProfileCode = ''indian_equity'', in_Exchange = ''NSE'', in_Symbol = ''INFY'',
         in_Name = ''Infosys'', in_InstrumentType = ''EQ'', in_TickSize = 1, in_LotSize = 1, in_Active = True,
         in_CreatedAt = 0, in_UpdatedAt = 0 \<rparr>] \<rparr>"

definition desk_open :: "f64 \<Rightarrow> paper_db" where
  "desk_open slip =
     (case CreatePaperAccount sample_env ''s0'' 0 sample_account (desk_start slip) of
        Inl _ \<Rightarrow> desk_start slip | Inr db \<Rightarrow> db)"

definition desk_book :: "f64 \<Rightarrow> paper_db" where
  "desk_book slip =
     (case Execute sample_env sample_ids ''s1'' 1
         ((sample_request ''BUY'' 3)\<lparr>er_Price := Fin 150, er_SlippageBps := slip, er_FeeBps := 0\<rparr>) (desk_open slip) of
        Inl _ \<Rightarrow> desk_open slip | Inr (_, db) \<Rightarrow> db)"

definition sample_desk :: "unit desk_env" where
  "sample_desk = \<lparr> dk_store = sample_env, dk_zones = (\<lambda>_. None), dk_settings = (\<lambda>_. Inr None), dk_md = None, dk_fail = (\<lambda>_. None),
     dk_batch = (\<lambda>_ ss. map (\<lambda>s. (s, Fin 160)) ss), dk_order = (\<lambda>ss. ss) \<rparr>"

definition sample_draw :: draw where
  "sample_draw = \<lparr> dr_signal = ''sig'', dr_ids = \<lparr>id_order = ''o2'', id_position = ''p2'', id_trade = ''t2''\<rparr>,
     dr_snapshot = ''s2'', dr_now = 2 \<rparr>"

lemma desk_book_reachable: "store_reachable sample_env (desk_book slip)"
proof -
  have s: "store_reachable sample_env (desk_start slip)"
    using store_reachable.empty unfolding desk_start_def empty_db_def by simp
  have o: "store_reachable sample_env (desk_open slip)"
  proof (cases "CreatePaperAccount sample_env ''s0'' 0 sample_account (desk_start slip)")
    case (Inr db)
    then show ?thesis using store_reachable.step [OF s store_step.create [OF Inr]] by (simp add: desk_open_def)
  qed (use s in \<open>simp add: desk_open_def\<close>)
  let ?r = "Execute sample_env sample_ids ''s1'' 1
         ((sample_request ''BUY'' 3)\<lparr>er_Price := Fin 150, er_SlippageBps := slip, er_FeeBps := 0\<rparr>) (desk_open slip)"
  show ?thesis
  proof (cases ?r)
    case (Inr y)
    then obtain res db where y: "?r = Inr (res, db)" by (cases y) simp
    then show ?thesis using store_reachable.step [OF o store_step.execute [OF y]] by (simp add: desk_book_def)
  qed (use o in \<open>simp add: desk_book_def\<close>)
qed

text \<open>The rows of the book, evaluated.\<close>

definition book_rows :: "f64 \<Rightarrow> f64 \<Rightarrow> f64 \<Rightarrow> paper_db" where
  "book_rows slip price cash = (desk_start slip)
     \<lparr> db_accounts := [sample_account\<lparr>pa_CashBalance := cash, pa_UpdatedAt := 1\<rparr>],
       db_orders := [\<lparr> po_ID = ''o1'', po_UserID = ''u'', po_PaperAccountID = ''acc'', po_WebhookID = None, po_SignalID = [],
         po_Symbol = ''INFY'', po_Exchange = ''NSE'', po_Side = ''BUY'', po_OrderType = ''MARKET'', po_Product = ''MIS'',
         po_Quantity = Fin 3, po_RequestedPrice = Some (Fin 150), po_FillPrice = Some price, po_Status = ''FILLED'',
         po_Reason = [], po_RawSignal = [], po_CreatedAt = 1, po_UpdatedAt = 1 \<rparr>],
       db_positions := [\<lparr> pp_ID = ''p1'', pp_UserID = ''u'', pp_PaperAccountID = ''acc'', pp_Symbol = ''INFY'', pp_Exchange = ''NSE'',
         pp_Product = ''MIS'', pp_Quantity = Fin 3, pp_AvgEntryPrice = price, pp_LastPrice = price, pp_UnrealizedPnL = 0,
         pp_CreatedAt = 1, pp_UpdatedAt = 1 \<rparr>],
       db_trades := [\<lparr> pt_ID = ''t1'', pt_UserID = ''u'', pt_PaperAccountID = ''acc'', pt_OrderID = ''o1'', pt_Symbol = ''INFY'',
         pt_Exchange = ''NSE'', pt_Side = ''BUY'', pt_Quantity = Fin 3, pt_Price = price, pt_RealizedPnL = 0, pt_Fees = 0,
         pt_CreatedAt = 1 \<rparr>],
       db_snapshots := [\<lparr> sn_ID = ''s0'', sn_UserID = ''u'', sn_PaperAccountID = ''acc'', sn_Equity = Fin 100000,
         sn_CashBalance = Fin 100000, sn_UnrealizedPnL = 0, sn_RealizedPnL = 0, sn_CreatedAt = 0 \<rparr>,
         \<lparr> sn_ID = ''s1'', sn_UserID = ''u'', sn_PaperAccountID = ''acc'', sn_Equity = Fin 100000, sn_CashBalance = cash,
         sn_UnrealizedPnL = 0, sn_RealizedPnL = 0, sn_CreatedAt = 1 \<rparr>] \<rparr>"

lemma desk_book_flat: "desk_book (Fin 0) = book_rows 0 (Fin 150) (Fin 99550)"
  by code_simp

lemma desk_book_slipped: "desk_book (Fin 2500) = book_rows (Fin 2500) (Fin (375/2)) (Fin (198875/2))"
  by code_simp

lemma desk_book_row:
  obtains p where "db_positions (desk_book (Fin 0)) = [p]" "clean p" "pp_PaperAccountID p = ''acc''" "pp_Product p = ''MIS''"
    "pp_Quantity p = Fin 3"
proof -
  let ?p = "hd (db_positions (book_rows 0 (Fin 150) (Fin 99550)))"
  have "clean ?p" by code_simp
  then show ?thesis by (intro that [of ?p]) (simp_all add: desk_book_flat book_rows_def)
qed

theorem close_leaves_flat_witness:
  "\<exists>p res db'. p \<in> set (db_positions (desk_book (Fin 0))) \<and> pp_Quantity p = Fin 3 \<and>
     FlattenPosition sample_desk sample_draw sample_account p True (desk_book (Fin 0)) = (Inr res, db') \<and>
     (\<exists>row. GetPaperPosition db' ''acc'' (pp_Exchange p) (pp_Symbol p) ''MIS'' = Some row \<and> pp_Quantity row = 0)"
proof -
  obtain p where p: "db_positions (desk_book (Fin 0)) = [p]" "clean p" "pp_PaperAccountID p = ''acc''" "pp_Product p = ''MIS''"
    "pp_Quantity p = Fin 3" by (rule desk_book_row)
  have "case FlattenPosition sample_desk sample_draw sample_account (hd (db_positions (desk_book (Fin 0)))) True (desk_book (Fin 0)) of
      (Inl _, _) \<Rightarrow> False | (Inr res, _) \<Rightarrow> xr_Status res = PaperOrderStatusFilled"
    unfolding desk_book_flat by code_simp
  then obtain res db' where r: "FlattenPosition sample_desk sample_draw sample_account p True (desk_book (Fin 0)) = (Inr res, db')"
    "xr_Status res = PaperOrderStatusFilled"
    by (simp add: p(1) split: prod.splits sum.splits)
  have e: "dk_store sample_desk = sample_env" "nc_write (ev_nc (dk_store sample_desk)) 0 = Some 0"
    "pa_ID sample_account = pp_PaperAccountID p"
    by (simp_all add: sample_desk_def sample_env_def sample_nc_def sample_account_def p(3))
  have "\<exists>row. GetPaperPosition db' ''acc'' (pp_Exchange p) (pp_Symbol p) ''MIS'' = Some row \<and> pp_Quantity row = 0"
    using close_leaves_flat [of sample_desk "desk_book (Fin 0)" p sample_account sample_draw True "Inr res" db'] desk_book_reachable p e r
    by auto
  then show ?thesis using p(1,5) r(1) by auto
qed

theorem square_off_counts_witness:
  "length (ListOpenMISPaperPositions (desk_book (Fin 0))) = 1 \<and>
   ListOpenMISPaperPositions (snd (squareOffAll sample_desk (\<lambda>_. sample_draw) (desk_book (Fin 0)))) = []"
proof -
  obtain p where p: "db_positions (desk_book (Fin 0)) = [p]" "clean p" using desk_book_row by metis
  have f: "fst (squareOffAll sample_desk (\<lambda>_. sample_draw) (desk_book (Fin 0))) = (1, 0)" unfolding desk_book_flat by code_simp
  have e: "dk_store sample_desk = sample_env" "nc_write (ev_nc (dk_store sample_desk)) 0 = Some 0"
    "dk_fail sample_desk ''ListOpenMISPaperPositions'' = None"
    by (simp_all add: sample_desk_def sample_env_def sample_nc_def)
  have "1 + 0 = length (ListOpenMISPaperPositions (desk_book (Fin 0))) \<and>
    0 = length (ListOpenMISPaperPositions (snd (squareOffAll sample_desk (\<lambda>_. sample_draw) (desk_book (Fin 0)))))"
    using square_off_counts [of sample_desk "desk_book (Fin 0)" "\<lambda>_. sample_draw" 1 0] desk_book_reachable p e f
    by (cases "squareOffAll sample_desk (\<lambda>_. sample_draw) (desk_book (Fin 0))") simp
  then show ?thesis by simp
qed

theorem off_tick_never_closes_witness:
  "\<exists>p db'. p \<in> set (db_positions (desk_book (Fin 2500))) \<and>
     squareOffAll sample_desk (\<lambda>_. sample_draw) (desk_book (Fin 2500)) = ((0, 1), db') \<and>
     db_positions (snd (FlattenPosition sample_desk sample_draw sample_account p False (desk_book (Fin 2500)))) =
       db_positions (desk_book (Fin 2500)) \<and>
     map (\<lambda>o'. (po_Side o', po_Status o')) (db_orders db') = [(''BUY'', ''FILLED''), (''CLOSE'', ''REJECTED'')]"
proof -
  let ?b = "desk_book (Fin 2500)"
  obtain p where p: "db_positions ?b = [p]" "clean p" "pp_PaperAccountID p = ''acc''" "pp_Exchange p = ''NSE''" "pp_Symbol p = ''INFY''"
    "\<not> isMultiple (pp_LastPrice p) 1" "0 < pp_LastPrice p"
  proof -
    let ?p = "hd (db_positions (book_rows (Fin 2500) (Fin (375/2)) (Fin (198875/2))))"
    have "clean ?p \<and> \<not> isMultiple (pp_LastPrice ?p) 1 \<and> 0 < pp_LastPrice ?p" by code_simp
    then show ?thesis by (intro that [of ?p]) (simp_all add: desk_book_slipped book_rows_def)
  qed
  have "case GetInstrument ?b ''indian_equity'' ''NSE'' ''INFY'' of None \<Rightarrow> False | Some i \<Rightarrow> in_TickSize i = 1"
    unfolding desk_book_slipped by code_simp
  then obtain i where i: "GetInstrument ?b ''indian_equity'' ''NSE'' ''INFY'' = Some i" "in_TickSize i = 1"
    by (auto split: option.splits)
  have s: "dk_store sample_desk = sample_env" "pa_ID sample_account = ''acc''" "pa_MarketProfile sample_account = ''indian_equity''"
    by (simp_all add: sample_desk_def sample_account_def)
  have "db_positions (snd (FlattenPosition sample_desk sample_draw sample_account p False ?b)) = db_positions ?b"
    using off_tick_never_closes [of sample_desk ?b p sample_account i sample_draw False
      "fst (FlattenPosition sample_desk sample_draw sample_account p False ?b)"] desk_book_reachable p i s by simp
  moreover have "fst (squareOffAll sample_desk (\<lambda>_. sample_draw) ?b) = (0, 1) \<and>
    map (\<lambda>o'. (po_Side o', po_Status o')) (db_orders (snd (squareOffAll sample_desk (\<lambda>_. sample_draw) ?b))) =
      [(''BUY'', ''FILLED''), (''CLOSE'', ''REJECTED'')]" unfolding desk_book_slipped by code_simp
  ultimately show ?thesis using p(1)
    by (intro exI [of _ p] exI [of _ "snd (squareOffAll sample_desk (\<lambda>_. sample_draw) ?b)"]) (simp add: prod_eq_iff)
qed

end
