(* ===== verification/Marks.thy ===== *)
theory Marks
  imports SquareOff
begin

section \<open>What the sweep of marks achieves\<close>

text \<open>
  The sweep asks for each symbol once, writes marks and nothing else, and marks every open position that has a quote.
  It reads the positions before it writes them, in no transaction: a position that is closed in between is left
  flat with the open profit of its old quantity.
\<close>

subsection \<open>The batches of symbols\<close>

lemma batches_concat: "concat (batches i xs) = drop i xs"
proof (induction i xs rule: batches.induct)
  case (1 i xs)
  show ?case
  proof (cases "i < length xs")
    case True
    have "drop i xs = take maxSymbolsPerBatch (drop i xs) @ drop (i + maxSymbolsPerBatch) xs"
      by (metis append_take_drop_id drop_drop add.commute)
    moreover have "take (min (i + maxSymbolsPerBatch) (length xs) - i) (drop i xs) = take maxSymbolsPerBatch (drop i xs)"
      using True by (cases "i + maxSymbolsPerBatch \<le> length xs") (simp_all add: min_def)
    ultimately show ?thesis using 1 True by (subst batches.simps) simp
  qed (simp add: batches.simps)
qed

lemma batches_length: "b \<in> set (batches i xs) \<Longrightarrow> b \<noteq> [] \<and> length b \<le> maxSymbolsPerBatch"
proof (induction i xs rule: batches.induct)
  case (1 i xs)
  show ?case
  proof (cases "i < length xs")
    case True
    then have "batches i xs = take (min (i + maxSymbolsPerBatch) (length xs) - i) (drop i xs) # batches (i + maxSymbolsPerBatch) xs"
      by (subst batches.simps) simp
    then consider "b = take (min (i + maxSymbolsPerBatch) (length xs) - i) (drop i xs)" | "b \<in> set (batches (i + maxSymbolsPerBatch) xs)"
      using 1(2) by fastforce
    then show ?thesis
    proof cases
      case 1
      then show ?thesis using True by (auto simp: maxSymbolsPerBatch_def)
    next
      case 2
      then show ?thesis using "1.IH" [OF True] by blast
    qed
  next
    case False
    then have "batches i xs = []" by (subst batches.simps) simp
    then show ?thesis using 1(2) by simp
  qed
qed

lemma batches_count: "length (batches i xs) = (length xs - i + (maxSymbolsPerBatch - 1)) div maxSymbolsPerBatch"
proof (induction i xs rule: batches.induct)
  case (1 i xs)
  show ?case
  proof (cases "i < length xs")
    case True
    have "Suc ((length xs - (i + 50) + 49) div 50) = (length xs - i + 49) div 50"
    proof (cases "i + 50 \<le> length xs")
      case True
      then have "length xs - i = (length xs - (i + 50)) + 50" by simp
      then show ?thesis by (metis add.commute add.left_commute div_add_self2 Suc_eq_plus1 zero_neq_numeral)
    next
      case False
      then have "length xs - (i + 50) = 0" "1 \<le> length xs - i" "length xs - i < 50" using True by simp_all
      then show ?thesis by simp
    qed
    then show ?thesis using 1 True by (subst batches.simps) (simp add: maxSymbolsPerBatch_def)
  qed (simp add: batches.simps maxSymbolsPerBatch_def)
qed

text \<open>
  The loop over the symbols ends and asks for each of them exactly once: the batches, in their order, are the list of
  symbols, none is empty or above the limit of fifty, and there are no more of them than are needed.
\<close>

theorem sweep_asks_once:
  "(let bs = batches 0 (sweep_symbols env all); n = length (sweep_symbols env all) in
    concat bs = sweep_symbols env all \<and> (\<forall>b \<in> set bs. b \<noteq> [] \<and> length b \<le> maxSymbolsPerBatch) \<and>
    length bs = (n + 49) div 50)"
  using batches_concat [of 0] batches_length batches_count [of 0]
  by (auto simp: Let_def maxSymbolsPerBatch_def)

text \<open>Of the fifty-one symbols of a book, one call asks for fifty and the next for the last.\<close>

lemma sweep_asks_once_witness:
  "map length (batches 0 (map (\<lambda>n. (''NSE'', [char_of (n + 35)])) [0..<51])) = [50, 1] \<and>
   concat (batches 0 (sweep_symbols sample_desk [(sample_account, [sample_position 3])])) = [(''NSE'', ''INFY'')]"
proof -
  have "concat (batches 0 (sweep_symbols sample_desk [(sample_account, [sample_position 3])])) =
    sweep_symbols sample_desk [(sample_account, [sample_position 3])]"
    using sweep_asks_once [of sample_desk "[(sample_account, [sample_position 3])]"] by (simp add: Let_def)
  also have "\<dots> = [(''NSE'', ''INFY'')]" by code_simp
  finally show ?thesis by (simp add: batches.simps maxSymbolsPerBatch_def)
qed

subsection \<open>A sweep only marks\<close>

definition unmarked :: "paper_position \<Rightarrow> paper_position" where
  "unmarked p = p\<lparr>pp_LastPrice := 0, pp_UnrealizedPnL := 0, pp_UpdatedAt := 0\<rparr>"

definition only_marks :: "paper_db \<Rightarrow> paper_db \<Rightarrow> bool" where
  "only_marks db db' =
     (db_accounts db' = db_accounts db \<and> db_orders db' = db_orders db \<and> db_trades db' = db_trades db \<and>
      map unmarked (db_positions db') = map unmarked (db_positions db) \<and>
      (\<exists>rows. db_snapshots db' = db_snapshots db @ rows) \<and> (\<forall>r. ledger_gap db' r = ledger_gap db r))"

lemma only_marks_refl [simp]: "only_marks db db"
  by (simp add: only_marks_def)

lemma only_marks_trans: "only_marks a b \<Longrightarrow> only_marks b c \<Longrightarrow> only_marks a c"
  unfolding only_marks_def by (elim conjE exE) simp

text \<open>What is kept by a mark and by a snapshot is kept by a sweep, whatever it has read.\<close>

lemma apply_mark_cases:
  obtains (same) "apply_mark env now quote pos db = db"
  | (marked) ltp m where "quote (SymbolKey (pp_Exchange pos) (pp_Symbol pos)) = Some ltp" "pp_ID m = pp_ID pos"
      "UpdatePaperPositionMark (ev_nc (dk_store env)) m db = Inr (apply_mark env now quote pos db)"
proof (cases "quote (SymbolKey (pp_Exchange pos) (pp_Symbol pos))")
  case (Some ltp)
  let ?m = "pos\<lparr>pp_LastPrice := ltp, pp_UnrealizedPnL := UnrealizedPnL (pp_Quantity pos) (pp_AvgEntryPrice pos) ltp,
                  pp_UpdatedAt := now\<rparr>"
  show ?thesis
  proof (cases "dk_fail env ''UpdatePaperPositionMark'' = None \<and> (\<exists>db'. UpdatePaperPositionMark (ev_nc (dk_store env)) ?m db = Inr db')")
    case True
    then show ?thesis using marked [OF Some, of ?m] Some by (auto simp: apply_mark_def best_effort_def)
  next
    case False
    then show ?thesis using same Some
      by (cases "UpdatePaperPositionMark (ev_nc (dk_store env)) ?m db") (auto simp: apply_mark_def best_effort_def)
  qed
qed (use same in \<open>simp add: apply_mark_def\<close>)

lemma sweep_write_keeps:
  assumes mark: "\<And>m db db'. UpdatePaperPositionMark (ev_nc (dk_store env)) m db = Inr db' \<Longrightarrow> R db \<Longrightarrow> R db'"
    and snap: "\<And>sid now rid user db. R db \<Longrightarrow> R (best_effort db (RecordPaperAccountEquitySnapshot (dk_store env) sid now rid user db))"
    and "R db"
  shows "R (sweep_write env draws n quote all db)"
  using assms(3)
proof (induction all arbitrary: n db)
  case (Cons ap all)
  have m: "R (apply_mark env now quote pos db)" if "R db" for now pos db
    by (cases rule: apply_mark_cases [of env now quote pos db]) (use that mark in auto)
  have "R (fold (apply_mark env now quote) ps db)" if "R db" for now ps db
    using that by (induction ps arbitrary: db) (auto intro: m)
  then have "R (applyMarks env (draws n) quote ap db)" using Cons.prems snap by (simp add: applyMarks_def Let_def)
  then show ?case by (simp add: Cons.IH)
qed simp

lemma only_marks_mark: "UpdatePaperPositionMark nc m db = Inr db' \<Longrightarrow> only_marks db db'"
  using ledger_mark [of nc m db db']
  by (auto simp: UpdatePaperPositionMark_def ebind_Inr_iff only_marks_def unmarked_def)

lemma only_marks_snapshot: "only_marks db (best_effort db (RecordPaperAccountEquitySnapshot env sid now rid user db))"
  by (cases rule: best_effort_snapshot [of db env sid now rid user]) (auto simp: only_marks_def ledger_gap_def)

lemma store_reachable_snapshot:
  "store_reachable env db \<Longrightarrow> store_reachable env (best_effort db (RecordPaperAccountEquitySnapshot env sid now rid user db))"
  by (cases "RecordPaperAccountEquitySnapshot env sid now rid user db")
    (auto simp: best_effort_def intro: store_reachable.step store_step.snapshot)

text \<open>
  A sweep writes marks and nothing else, whatever it has read before and whichever queries fail. Accounts, orders and trades are
  the same, and of each position all but its last price, open profit and time; snapshots are only
  added, and every account's books balance as they did.
\<close>

theorem sweep_only_marks:
  assumes "store_reachable (dk_store env) db"
  shows "only_marks db (sweep_write env draws n quote all db) \<and>
    store_reachable (dk_store env) (sweep_write env draws n quote all db)"
proof
  show "only_marks db (sweep_write env draws n quote all db)"
    by (rule sweep_write_keeps) (auto intro: only_marks_trans only_marks_mark only_marks_snapshot)
  show "store_reachable (dk_store env) (sweep_write env draws n quote all db)"
    by (rule sweep_write_keeps)
      (use assms in \<open>auto intro: store_reachable.step store_step.mark store_reachable_snapshot\<close>)
qed


subsection \<open>A sweep marks what has a quote\<close>

lemma mark_row_other:
  "UpdatePaperPositionMark nc m db = Inr db' \<Longrightarrow> q \<in> set (db_positions db) \<Longrightarrow> pp_ID q \<noteq> pp_ID m \<Longrightarrow> q \<in> set (db_positions db')"
  by (force simp: UpdatePaperPositionMark_def ebind_Inr_iff)

lemma mark_other:
  "q \<in> set (db_positions db) \<Longrightarrow> pp_ID q \<noteq> pp_ID pos \<Longrightarrow> q \<in> set (db_positions (apply_mark env now quote pos db))"
  by (cases rule: apply_mark_cases [of env now quote pos db])
    (simp_all add: mark_row_other)

lemma fold_mark_other:
  "q \<in> set (db_positions db) \<Longrightarrow> pp_ID q \<notin> pp_ID ` set ps \<Longrightarrow>
   q \<in> set (db_positions (fold (apply_mark env now quote) ps db))"
  by (induction ps arbitrary: db) (auto simp: mark_other)

lemma applyMarks_positions:
  "db_positions (applyMarks env d quote ap db) = db_positions (fold (apply_mark env (dr_now d) quote) (snd ap) db)"
  by (simp add: applyMarks_def Let_def)

definition listed :: "open_positions \<Rightarrow> paper_position list" where
  "listed all = concat (map snd all)"

lemma sweep_write_other:
  "q \<in> set (db_positions db) \<Longrightarrow> pp_ID q \<notin> pp_ID ` set (listed all) \<Longrightarrow>
   q \<in> set (db_positions (sweep_write env draws n quote all db))"
proof (induction all arbitrary: n db)
  case (Cons ap all)
  have "q \<in> set (db_positions (applyMarks env (draws n) quote ap db))"
    unfolding applyMarks_positions by (rule fold_mark_other [OF Cons.prems(1)]) (use Cons.prems(2) in \<open>auto simp: listed_def\<close>)
  moreover have "pp_ID q \<notin> pp_ID ` set (listed all)" using Cons.prems(2) by (auto simp: listed_def)
  ultimately show ?case by (simp add: Cons.IH)
qed simp

text \<open>A mark of a row with its quantity and average price as they were read.\<close>

definition marked_at :: "f64 \<Rightarrow> f64 \<Rightarrow> paper_position \<Rightarrow> paper_position \<Rightarrow> bool" where
  "marked_at l u p row = (pp_LastPrice row = l \<and> pp_UnrealizedPnL row = u \<and> unmarked row = unmarked p)"

lemma mark_self:
  assumes "row \<in> set (db_positions db)" "pp_ID row = pp_ID pos" "quote (SymbolKey (pp_Exchange pos) (pp_Symbol pos)) = Some ltp"
    "dk_fail env ''UpdatePaperPositionMark'' = None" "nc_write (ev_nc (dk_store env)) ltp = Some l"
    "nc_write (ev_nc (dk_store env)) (UnrealizedPnL (pp_Quantity pos) (pp_AvgEntryPrice pos) ltp) = Some u"
  shows "\<exists>row' \<in> set (db_positions (apply_mark env now quote pos db)). marked_at l u row row'"
proof -
  let ?f = "\<lambda>p. if pp_ID p = pp_ID pos then p\<lparr>pp_LastPrice := l, pp_UnrealizedPnL := u, pp_UpdatedAt := now\<rparr> else p"
  have "db_positions (apply_mark env now quote pos db) = map ?f (db_positions db)"
    using assms(3-6) by (simp add: apply_mark_def best_effort_def UpdatePaperPositionMark_def write_num_def)
  then have "?f row \<in> set (db_positions (apply_mark env now quote pos db))" using assms(1) by auto
  moreover have "marked_at l u row (?f row)" using assms(2) by (simp add: marked_at_def unmarked_def)
  ultimately show ?thesis by blast
qed

lemma unmarked_ID: "unmarked a = unmarked b \<Longrightarrow> pp_ID a = pp_ID b \<and> pp_Quantity a = pp_Quantity b \<and>
    pp_AvgEntryPrice a = pp_AvgEntryPrice b \<and> position_key a = position_key b"
  by (cases a; cases b) (simp add: unmarked_def position_key_def)

lemma marked_at_ID: "marked_at l u p row \<Longrightarrow> pp_ID row = pp_ID p"
  unfolding marked_at_def using unmarked_ID by blast

lemma sweep_write_append:
  "sweep_write env draws n quote (xs @ ys) db = sweep_write env draws (n + length xs) quote ys (sweep_write env draws n quote xs db)"
  by (induction xs arbitrary: n db) simp_all

lemma sweep_write_marks:
  assumes p: "p \<in> set (listed all)" "distinct (map pp_ID (listed all))"
    and row: "row \<in> set (db_positions db)" "pp_ID row = pp_ID p"
    and m: "quote (SymbolKey (pp_Exchange p) (pp_Symbol p)) = Some ltp" "dk_fail env ''UpdatePaperPositionMark'' = None"
      "nc_write (ev_nc (dk_store env)) ltp = Some l"
      "nc_write (ev_nc (dk_store env)) (UnrealizedPnL (pp_Quantity p) (pp_AvgEntryPrice p) ltp) = Some u"
  shows "\<exists>row' \<in> set (db_positions (sweep_write env draws n quote all db)). marked_at l u row row'"
proof -
  obtain ap where "ap \<in> set all" and pap: "p \<in> set (snd ap)" using p(1) by (auto simp: listed_def)
  then obtain xs ys where all: "all = xs @ ap # ys" using split_list by metis
  obtain us vs where ap: "snd ap = us @ p # vs" using split_list [OF pap] by blast
  have ids: "pp_ID p \<notin> pp_ID ` set (listed xs)" "pp_ID p \<notin> pp_ID ` set us" "pp_ID p \<notin> pp_ID ` set vs"
    "pp_ID p \<notin> pp_ID ` set (listed ys)"
    using p(2) by (auto simp: listed_def all ap)
  let ?now = "dr_now (draws (n + length xs))" and ?d1 = "sweep_write env draws n quote xs db"
  let ?d2 = "fold (apply_mark env ?now quote) us ?d1"
  have "row \<in> set (db_positions ?d1)" using sweep_write_other row ids(1) by metis
  then have d2: "row \<in> set (db_positions ?d2)" using fold_mark_other row(2) ids(2) by metis
  obtain r where r: "r \<in> set (db_positions (apply_mark env ?now quote p ?d2))" "marked_at l u row r"
    by (rule bexE [OF mark_self [where quote = quote and pos = p and now = ?now, OF d2 row(2) m]])
  have id: "pp_ID r = pp_ID p" using marked_at_ID [OF r(2)] row(2) by simp
  have "r \<in> set (db_positions (fold (apply_mark env ?now quote) vs (apply_mark env ?now quote p ?d2)))"
    by (rule fold_mark_other [OF r(1)]) (simp add: id ids(3))
  then have "r \<in> set (db_positions (applyMarks env (draws (n + length xs)) quote ap ?d1))" by (simp add: applyMarks_positions ap)
  then have "r \<in> set (db_positions (sweep_write env draws n quote all db))"
    unfolding all sweep_write_append sweep_write.simps by (rule sweep_write_other) (simp add: id ids(4))
  then show ?thesis using r(2) by blast
qed

text \<open>What a sweep reads: every open position of the tables, once.\<close>

lemma open_of_eq: "open_of env db a = (if dk_fail env ''ListPaperPositionsByAccount'' = None
    then filter (\<lambda>p. \<not> feq (pp_Quantity p) 0) (ListPaperPositionsByAccount db (pa_ID a)) else [])"
  by (simp add: open_of_def query_def split: option.split)

lemma sweep_read_eq: "sweep_read env db = (if dk_fail env ''ListPaperAccountsWithOpenPositions'' = None
    then filter (\<lambda>ap. snd ap \<noteq> []) (map (\<lambda>a. (a, open_of env db a)) (ListPaperAccountsWithOpenPositions db)) else [])"
  by (simp add: sweep_read_def query_def split: option.split)

lemma sweep_read_listed:
  assumes "db_ok db"
  shows "distinct (map pp_ID (listed (sweep_read env db)))"
    "set (listed (sweep_read env db)) \<subseteq> {p \<in> set (db_positions db). \<not> feq (pp_Quantity p) 0}"
    "dk_fail env ''ListPaperAccountsWithOpenPositions'' = None \<Longrightarrow> dk_fail env ''ListPaperPositionsByAccount'' = None \<Longrightarrow>
     p \<in> set (db_positions db) \<Longrightarrow> \<not> feq (pp_Quantity p) 0 \<Longrightarrow> p \<in> set (listed (sweep_read env db))"
proof -
  have acc: "distinct (map pa_ID (db_accounts db))" and pos: "distinct (map pp_ID (db_positions db))"
    using assms by (simp_all add: db_ok_def)
  have set: "set (open_of env db a) \<subseteq> {p \<in> set (db_positions db). pp_PaperAccountID p = pa_ID a \<and> \<not> feq (pp_Quantity p) 0}" for a
    by (auto simp: open_of_eq ListPaperPositionsByAccount_def)
  have d: "distinct (map pp_ID (open_of env db a))" for a
    using pos by (simp add: open_of_eq ListPaperPositionsByAccount_def distinct_map_filter)
  let ?all = "\<lambda>as. filter (\<lambda>ap. snd ap \<noteq> []) (map (\<lambda>account. (account, open_of env db account)) as)"
  have l: "set (listed (?all as)) = (\<Union>a \<in> set as. set (open_of env db a))" for as
    by (induction as) (auto simp: listed_def)
  have "distinct (map pp_ID (listed (?all as)))" if "distinct (map pa_ID as)" for as
    using that
  proof (induction as)
    case (Cons a as)
    have "pp_ID x \<noteq> pp_ID y" if xy: "x \<in> set (open_of env db a)" "y \<in> set (listed (?all as))" for x y
    proof
      assume e: "pp_ID x = pp_ID y"
      obtain b where b: "b \<in> set as" "y \<in> set (open_of env db b)" using xy(2) l by auto
      have "x \<in> set (db_positions db)" "pp_PaperAccountID x = pa_ID a" "y \<in> set (db_positions db)" "pp_PaperAccountID y = pa_ID b"
        using set [of a] set [of b] xy(1) b(2) by blast+
      moreover from this have "x = y" using e pos by (simp add: distinct_map inj_on_def)
      ultimately have "pa_ID a = pa_ID b" by simp
      then show False using Cons.prems b(1) by (auto simp: image_iff)
    qed
    then have "pp_ID ` set (open_of env db a) \<inter> pp_ID ` set (listed (?all as)) = {}" by blast
    then show ?case using Cons d [of a] by (auto simp: listed_def)
  qed (simp add: listed_def)
  moreover have "distinct (map pa_ID (ListPaperAccountsWithOpenPositions db))"
    using acc by (simp add: ListPaperAccountsWithOpenPositions_def distinct_map_filter)
  ultimately show "distinct (map pp_ID (listed (sweep_read env db)))"
    by (simp add: sweep_read_eq) (simp add: listed_def)
  show "set (listed (sweep_read env db)) \<subseteq> {p \<in> set (db_positions db). \<not> feq (pp_Quantity p) 0}"
    using l set unfolding sweep_read_eq by (auto simp: listed_def)
  show "p \<in> set (listed (sweep_read env db))" if f: "dk_fail env ''ListPaperAccountsWithOpenPositions'' = None"
    "dk_fail env ''ListPaperPositionsByAccount'' = None" and p: "p \<in> set (db_positions db)" "\<not> feq (pp_Quantity p) 0"
  proof -
    obtain a where a: "a \<in> set (db_accounts db)" "pa_ID a = pp_PaperAccountID p" using assms p(1) by (auto simp: db_ok_def account_ids_def)
    then have "a \<in> set (ListPaperAccountsWithOpenPositions db)" using p by (auto simp: ListPaperAccountsWithOpenPositions_def)
    moreover have "p \<in> set (open_of env db a)" using a(2) p f by (simp add: open_of_eq ListPaperPositionsByAccount_def)
    ultimately show ?thesis using l f(1) unfolding sweep_read_eq by auto
  qed
qed

text \<open>
  C28. Every open position that has a quote is marked at it. After a sweep whose statements succeed, the row of the position has
  the quoted price and the open profit of its quantity at that price, as the columns store them, and is
  the same in everything else; and a position of quantity zero is not touched.
\<close>

theorem sweep_marks_quoted:
  assumes "store_reachable (dk_store env) db" "p \<in> set (db_positions db)"
    "dk_fail env ''ListPaperAccountsWithOpenPositions'' = None" "dk_fail env ''ListPaperPositionsByAccount'' = None"
    "dk_fail env ''UpdatePaperPositionMark'' = None"
    "sweep_quotes env (sweep_read env db) (SymbolKey (pp_Exchange p) (pp_Symbol p)) = Some ltp"
    "nc_write (ev_nc (dk_store env)) ltp = Some l"
    "nc_write (ev_nc (dk_store env)) (UnrealizedPnL (pp_Quantity p) (pp_AvgEntryPrice p) ltp) = Some u"
  shows "if feq (pp_Quantity p) 0 then p \<in> set (db_positions (Sweep env draws db))
    else \<exists>row \<in> set (db_positions (Sweep env draws db)). marked_at l u p row"
proof -
  have ok: "db_ok db" using assms(1) by (rule db_ok_reachable)
  note r = sweep_read_listed [OF ok, of env]
  show ?thesis
  proof (cases "feq (pp_Quantity p) 0")
    case True
    have "pp_ID p \<notin> pp_ID ` set (listed (sweep_read env db))"
    proof
      assume "pp_ID p \<in> pp_ID ` set (listed (sweep_read env db))"
      then obtain x where x: "x \<in> set (db_positions db)" "\<not> feq (pp_Quantity x) 0" "pp_ID p = pp_ID x" using r(2) by auto
      have "distinct (map pp_ID (db_positions db))" using ok by (simp add: db_ok_def)
      then have "p = x" using x(1,3) assms(2) by (auto simp: distinct_map inj_on_def)
      then show False using x(2) True by simp
    qed
    then show ?thesis using True sweep_write_other [OF assms(2)] by (simp add: Sweep_def Let_def)
  next
    case False
    have "p \<in> set (listed (sweep_read env db))" using r(3) [OF assms(3,4,2)] False by simp
    from sweep_write_marks [OF this r(1) assms(2) refl, of "sweep_quotes env (sweep_read env db)", OF assms(6,5,7,8)]
    show ?thesis using False by (simp add: Sweep_def Let_def)
  qed
qed


subsection \<open>A position that is closed between the read and the write\<close>

text \<open>
  A sweep can bring a closed position's open profit back. The sweep read a position, the position was closed before the sweep wrote
  its mark, and the row is then flat with the open profit that the old quantity would have had. No later sweep corrects it,
  because a sweep only looks at positions that are open; until the symbol is traded again the account's
  equity counts that profit a second time.
\<close>

theorem late_mark_of_closed:
  assumes "store_reachable (dk_store env) db" "p \<in> set (db_positions db)" "clean p" "pa_ID a = pp_PaperAccountID p"
    "nc_write (ev_nc (dk_store env)) 0 = Some 0"
    "FlattenPosition env d a p h db = (Inr res, db1)" "xr_Status res = PaperOrderStatusFilled"
    "quote (SymbolKey (pp_Exchange p) (pp_Symbol p)) = Some ltp" "dk_fail env ''UpdatePaperPositionMark'' = None"
    "nc_write (ev_nc (dk_store env)) ltp = Some l"
    "nc_write (ev_nc (dk_store env)) (UnrealizedPnL (pp_Quantity p) (pp_AvgEntryPrice p) ltp) = Some u"
  shows "\<exists>row \<in> set (db_positions (apply_mark env now quote p db1)). pp_ID row = pp_ID p \<and> pp_Quantity row = 0 \<and>
      pp_UnrealizedPnL row = u \<and> (\<forall>draws. row \<in> set (db_positions (Sweep env draws (apply_mark env now quote p db1))))"
proof -
  have ok: "db_ok db" using assms(1) by (rule db_ok_reachable)
  note f = flatten_cases [OF ok assms(2-6)]
  obtain r where r: "flat_row p r" "db_positions db1 = set_position r (db_positions db)" using f(3) assms(7) by auto
  have "r \<in> set (db_positions db1)" using r assms(2) by (auto simp: set_position_def flat_row_def)
  moreover have "pp_ID r = pp_ID p" using r(1) by (simp add: flat_row_def)
  ultimately obtain row where row: "row \<in> set (db_positions (apply_mark env now quote p db1))" "marked_at l u r row"
    by (rule bexE [OF mark_self [where quote = quote and pos = p and now = now, OF _ _ assms(8-11)]])
  let ?db = "apply_mark env now quote p db1"
  have q: "pp_Quantity row = 0" "pp_ID row = pp_ID p" "pp_UnrealizedPnL row = u"
    using row(2) r(1) unmarked_ID [of row r] by (auto simp: marked_at_def flat_row_def)
  have ok2: "db_ok ?db"
    by (cases rule: apply_mark_cases [of env now quote p db1]) (use f(1) db_ok_mark in auto)
  have "pp_ID row \<notin> pp_ID ` set (listed (sweep_read env ?db))"
  proof
    assume "pp_ID row \<in> pp_ID ` set (listed (sweep_read env ?db))"
    then obtain x where x: "x \<in> set (db_positions ?db)" "\<not> feq (pp_Quantity x) 0" "pp_ID row = pp_ID x"
      using sweep_read_listed(2) [OF ok2, of env] by auto
    have "distinct (map pp_ID (db_positions ?db))" using ok2 by (simp add: db_ok_def)
    then have "row = x" using x(1,3) row(1) by (simp add: distinct_map inj_on_def)
    then show False using x(2) q(1) by simp
  qed
  then have "row \<in> set (db_positions (Sweep env draws ?db))" for draws
    using sweep_write_other [OF row(1)] by (simp add: Sweep_def Let_def)
  then show ?thesis using row(1) q by blast
qed

subsection \<open>Sample sweeps\<close>

text \<open>The book of three shares bought at 150, while the feed quotes 160.\<close>

lemma sample_desk_nc [simp]: "nc_write (ev_nc sample_env) x = Some x" "dk_fail sample_desk q = None"
    "dk_store sample_desk = sample_env"
  by (simp_all add: sample_desk_def sample_env_def sample_nc_def)

theorem sweep_only_marks_witness:
  "only_marks (desk_book (Fin 0)) (Sweep sample_desk (\<lambda>_. sample_draw) (desk_book (Fin 0))) \<and>
   map pp_UnrealizedPnL (db_positions (Sweep sample_desk (\<lambda>_. sample_draw) (desk_book (Fin 0)))) = [Fin 30]"
proof
  show "only_marks (desk_book (Fin 0)) (Sweep sample_desk (\<lambda>_. sample_draw) (desk_book (Fin 0)))"
    using sweep_only_marks [of sample_desk "desk_book (Fin 0)"] desk_book_reachable by (simp add: Sweep_def Let_def)
  show "map pp_UnrealizedPnL (db_positions (Sweep sample_desk (\<lambda>_. sample_draw) (desk_book (Fin 0)))) = [Fin 30]"
    unfolding desk_book_flat by code_simp
qed

lemma desk_book_marks:
  obtains p where "db_positions (desk_book (Fin 0)) = [p]" "clean p" "pp_PaperAccountID p = ''acc''" "pp_Quantity p = Fin 3"
    "UnrealizedPnL (pp_Quantity p) (pp_AvgEntryPrice p) (Fin 160) = Fin 30"
    "sweep_quotes sample_desk (sweep_read sample_desk (desk_book (Fin 0))) (SymbolKey (pp_Exchange p) (pp_Symbol p)) = Some (Fin 160)"
proof -
  let ?b = "book_rows 0 (Fin 150) (Fin 99550)" let ?p = "hd (db_positions ?b)"
  have "clean ?p \<and> UnrealizedPnL (pp_Quantity ?p) (pp_AvgEntryPrice ?p) (Fin 160) = Fin 30" by code_simp
  moreover have "sweep_quotes sample_desk (sweep_read sample_desk ?b) (SymbolKey (pp_Exchange ?p) (pp_Symbol ?p)) = Some (Fin 160)"
    by code_simp
  ultimately show ?thesis by (intro that [of ?p]) (simp_all add: desk_book_flat, simp_all add: book_rows_def)
qed

theorem sweep_marks_quoted_witness:
  "\<exists>row \<in> set (db_positions (Sweep sample_desk (\<lambda>_. sample_draw) (desk_book (Fin 0)))).
     pp_LastPrice row = Fin 160 \<and> pp_UnrealizedPnL row = Fin 30 \<and> pp_Quantity row = Fin 3"
proof -
  obtain p where p: "db_positions (desk_book (Fin 0)) = [p]" "pp_Quantity p = Fin 3"
    "UnrealizedPnL (pp_Quantity p) (pp_AvgEntryPrice p) (Fin 160) = Fin 30"
    "sweep_quotes sample_desk (sweep_read sample_desk (desk_book (Fin 0))) (SymbolKey (pp_Exchange p) (pp_Symbol p)) = Some (Fin 160)"
    by (rule desk_book_marks)
  have "\<exists>row \<in> set (db_positions (Sweep sample_desk (\<lambda>_. sample_draw) (desk_book (Fin 0)))). marked_at (Fin 160) (Fin 30) p row"
    using sweep_marks_quoted [of sample_desk "desk_book (Fin 0)" p "Fin 160" "Fin 160" "Fin 30" "\<lambda>_. sample_draw"]
      desk_book_reachable p by simp
  moreover have "pp_LastPrice row = Fin 160 \<and> pp_UnrealizedPnL row = Fin 30 \<and> pp_Quantity row = Fin 3"
    if "marked_at (Fin 160) (Fin 30) p row" for row
    using that unmarked_ID [of row p] p(2) by (simp add: marked_at_def)
  ultimately show ?thesis by blast
qed

text \<open>The owner closes the three shares while the sweep waits for its quotes.\<close>

definition sample_late :: paper_db where
  "sample_late = (let db = desk_book (Fin 0) in
     apply_mark sample_desk 3 (\<lambda>_. Some (Fin 160)) (hd (db_positions db))
       (snd (FlattenPosition sample_desk sample_draw sample_account (hd (db_positions db)) True db)))"

theorem late_mark_of_closed_witness:
  "\<exists>row \<in> set (db_positions sample_late). pp_Quantity row = 0 \<and> pp_UnrealizedPnL row = Fin 30 \<and>
     (\<forall>draws. row \<in> set (db_positions (Sweep sample_desk draws sample_late)))"
proof -
  obtain p where p: "db_positions (desk_book (Fin 0)) = [p]" "clean p" "pp_PaperAccountID p = ''acc''" "pp_Quantity p = Fin 3"
    "UnrealizedPnL (pp_Quantity p) (pp_AvgEntryPrice p) (Fin 160) = Fin 30" by (rule desk_book_marks)
  have "case FlattenPosition sample_desk sample_draw sample_account (hd (db_positions (desk_book (Fin 0)))) True (desk_book (Fin 0)) of
      (Inl _, _) \<Rightarrow> False | (Inr res, _) \<Rightarrow> xr_Status res = PaperOrderStatusFilled"
    unfolding desk_book_flat by code_simp
  then obtain res db1 where r: "FlattenPosition sample_desk sample_draw sample_account p True (desk_book (Fin 0)) = (Inr res, db1)"
    "xr_Status res = PaperOrderStatusFilled"
    by (simp add: p(1) split: prod.splits sum.splits)
  have l: "sample_late = apply_mark sample_desk 3 (\<lambda>_. Some (Fin 160)) p db1" using r(1) p(1) by (simp add: sample_late_def Let_def)
  have e: "pa_ID sample_account = pp_PaperAccountID p" by (simp add: sample_account_def p(3))
  show ?thesis unfolding l
    using late_mark_of_closed [OF _ _ p(2) e _ r, where quote = "\<lambda>_. Some (Fin 160)" and ltp = "Fin 160" and l = "Fin 160"
        and u = "Fin 30" and now = 3] desk_book_reachable p(1,5) by auto
qed

end
