(* ===== verification/PaperApi.thy ===== *)
theory PaperApi
  imports Marks Lifecycle
begin

section \<open>The paper account API\<close>

text \<open>
  Models \<^verbatim>\<open>internal/modules/paperaccounts/handler.go\<close>, \<^verbatim>\<open>internal/store/paper_diagnostics.go\<close>,
  \<^verbatim>\<open>ListMarketProfiles\<close> and the date range of \<^verbatim>\<open>internal/modules/pnl\<close>.

  Here the tables of users and webhooks and the paper tables meet. They are one data base: what each
  model needs of the other's rows (the owner of a paper account there, the destination of a webhook here) is a
  view of those rows. The CSV text of an export is left out.
\<close>

subsection \<open>World and environment\<close>

record pworld =
  pw_api :: aworld
  pw_books :: paper_db
  pw_log :: "(ingest_log \<times> int) list"

record 'tz penv =
  pn_api :: aenv
  pn_desk :: "'tz desk_env"
  pn_draw :: draw
  pn_text :: "store_err \<Rightarrow> string"
  pn_collate :: "string \<Rightarrow> nat"

definition hook_view :: "account_db \<Rightarrow> (string \<times> string option) list" where
  "hook_view db = map (\<lambda>h. (wh_ID h, wh_PaperAccountID h)) (ad_webhooks db)"

definition owner_view :: "paper_db \<Rightarrow> (string \<times> string) list" where
  "owner_view db = map (\<lambda>a. (pa_ID a, pa_UserID a)) (db_accounts db)"

definition books :: "pworld \<Rightarrow> paper_db" where
  "books w = (pw_books w)\<lparr>db_hooks := hook_view (aw_db (pw_api w))\<rparr>"

definition with_books :: "paper_db \<Rightarrow> pworld \<Rightarrow> pworld" where
  "with_books db w = w\<lparr>pw_books := db,
     pw_api := (pw_api w)\<lparr>aw_db := (aw_db (pw_api w))\<lparr>ad_papers := owner_view db\<rparr>\<rparr>\<rparr>"

definition log_action :: "string \<Rightarrow> string \<Rightarrow> pworld \<Rightarrow> pworld" where
  "log_action uid action w = w\<lparr>pw_api := audit uid action (pw_api w)\<rparr>"

text \<open>A query that fails is answered with 500 and a text.\<close>

definition must :: "'tz penv \<Rightarrow> string \<Rightarrow> string \<Rightarrow> 'a \<Rightarrow> http_err + 'a" where
  "must env name msg x = (if an_ok (pn_api env) name then Inr x else Inl (500, msg))"

text \<open>A statement of a user on an account: no row is 404, any other failure 500.\<close>

definition on_account :: "'tz penv \<Rightarrow> string \<Rightarrow> string \<Rightarrow> store_err + 'a \<Rightarrow> http_err + 'a" where
  "on_account env name msg r =
     ebind (must env name msg r) (\<lambda>r.
       (case r of Inr x \<Rightarrow> Inr x
        | Inl e \<Rightarrow> Inl (if e = ErrNoRows then (404, ''paper account not found'') else (500, msg))))"

definition saved :: "'tz penv \<Rightarrow> string \<Rightarrow> string \<Rightarrow> store_err + 'a \<Rightarrow> http_err + 'a" where
  "saved env name msg r =
     ebind (must env name msg r) (\<lambda>r. (case r of Inr x \<Rightarrow> Inr x | Inl e \<Rightarrow> Inl (500, msg)))"

definition answer :: "pworld \<Rightarrow> http_err + ('a \<times> pworld) \<Rightarrow> (http_err + 'a) \<times> pworld" where
  "answer w r = (case r of Inl e \<Rightarrow> (Inl e, w) | Inr (x, w') \<Rightarrow> (Inr x, w'))"

definition requirePaperAccountAccess :: "'tz penv \<Rightarrow> string \<Rightarrow> string \<Rightarrow> paper_db \<Rightarrow> http_err + paper_account" where
  "requirePaperAccountAccess env uid aid db =
     ebind (must env ''GetPaperAccount'' ''paper account lookup failed'' (GetPaperAccount db aid)) (\<lambda>found.
       (case found of
          None \<Rightarrow> Inl (404, ''paper account not found'')
        | Some account \<Rightarrow> if pa_UserID account \<noteq> uid then Inl (404, ''paper account not found'') else Inr account))"

definition isValidExchange :: "string \<Rightarrow> bool" where
  "isValidExchange v = (v = ''NSE'' \<or> v = ''BSE'')"

definition isValidProduct :: "string \<Rightarrow> bool" where
  "isValidProduct v = (v = ''MIS'' \<or> v = ''CNC'' \<or> v = ''NRML'')"

subsection \<open>Creating, deleting and changing an account\<close>

record create_paper =
  cp_Label :: string
  cp_StartingBalance :: f64
  cp_Exchange :: string
  cp_DefaultProduct :: string
  cp_MarketProfile :: string

text \<open>Everything before the INSERT: the account to insert.\<close>

definition new_paper_account :: "'tz penv \<Rightarrow> string \<Rightarrow> create_paper option \<Rightarrow> pworld \<Rightarrow> http_err + paper_account" where
  "new_paper_account env uid body w =
     (let api = pn_api env; db = books w in
      case body of None \<Rightarrow> Inl (400, ''invalid body'')
      | Some body \<Rightarrow>
        ebind (ensure (\<not> cp_StartingBalance body \<le> 0) 400 ''starting_balance must be greater than zero'') (\<lambda>_.
        let exchange = (if cp_Exchange body = [] then ''NSE'' else cp_Exchange body) in
        ebind (ensure (isValidExchange exchange) 400 ''exchange must be NSE or BSE'') (\<lambda>_.
        let product = (if cp_DefaultProduct body = [] then ''MIS'' else cp_DefaultProduct body) in
        ebind (ensure (isValidProduct product) 400 ''default_product must be MIS, CNC, or NRML'') (\<lambda>_.
        let code = trim_space (cp_MarketProfile body); code = (if code = [] then ''indian_equity'' else code);
            unknown = (400, ''unknown or inactive market_profile: '' @ code) in
        ebind (must env ''GetMarketProfileByCode'' ''market profile lookup failed'' (GetMarketProfileByCode db code)) (\<lambda>found.
        (case found of None \<Rightarrow> Inl unknown
         | Some profile \<Rightarrow> if \<not> mp_Active profile then Inl unknown else
        ebind (load_user api uid (aw_db (pw_api w))) (\<lambda>user.
        ebind (must env ''CountPaperAccountsByUser'' ''could not count paper accounts'' (CountPaperAccountsByUser db uid)) (\<lambda>count.
        ebind (plan_allows (CanAddPaperAccount (EffectivePlan (u_Plan user)) count)) (\<lambda>_.
          Inr \<lparr> pa_ID = an_newID api, pa_UserID = uid, pa_Label = trim_space (cp_Label body), pa_MarketProfile = mp_Code profile,
                pa_BaseCurrency = mp_BaseCurrency profile, pa_StartingBalance = cp_StartingBalance body,
                pa_CashBalance = cp_StartingBalance body, pa_Exchange = exchange, pa_DefaultProduct = product,
                pa_Status = ''active'', pa_CreatedAt = an_now api, pa_UpdatedAt = an_now api \<rparr>)))))))))"

definition CreatePaperAccount_api ::
  "'tz penv \<Rightarrow> string \<Rightarrow> create_paper option \<Rightarrow> pworld \<Rightarrow> (http_err + paper_account) \<times> pworld" where
  "CreatePaperAccount_api env uid body w = answer w
     (ebind (new_paper_account env uid body w) (\<lambda>account.
      ebind (saved env ''CreatePaperAccount'' ''could not save paper account''
        (CreatePaperAccount (dk_store (pn_desk env)) (dr_snapshot (pn_draw env)) (dr_now (pn_draw env)) account (books w))) (\<lambda>db.
        Inr (account, log_action uid ''paper_account_created'' (with_books db w)))))"

definition DeletePaperAccount_api :: "'tz penv \<Rightarrow> string \<Rightarrow> string \<Rightarrow> pworld \<Rightarrow> (http_err + unit) \<times> pworld" where
  "DeletePaperAccount_api env uid aid w = answer w
     (ebind (must env ''CountWebhooksByPaperAccount'' ''could not check webhook usage''
        (CountWebhooksByPaperAccount (aw_db (pw_api w)) aid)) (\<lambda>whCount.
      ebind (ensure (\<not> 0 < whCount) 409 ''paper account is in use by one or more webhooks'') (\<lambda>_.
      ebind (on_account env ''DeletePaperAccount'' ''could not delete paper account'' (DeletePaperAccount aid uid (books w))) (\<lambda>db.
        Inr ((), log_action uid ''paper_account_deleted'' (with_books db w))))))"

record update_paper =
  up_Label :: "string option"
  up_DefaultProduct :: "string option"
  up_StartingBalance :: "f64 option"

definition changed_account :: "update_paper \<Rightarrow> paper_account \<Rightarrow> http_err + paper_account" where
  "changed_account body a =
     (let a = (case up_Label body of None \<Rightarrow> a | Some v \<Rightarrow> a\<lparr>pa_Label := trim_space v\<rparr>) in
      ebind (case up_DefaultProduct body of None \<Rightarrow> Inr a
             | Some v \<Rightarrow> let dp = to_upper (trim_space v) in
                 ebind (ensure (isValidProduct dp) 400 ''default_product must be MIS, CNC, or NRML'') (\<lambda>_.
                   Inr (a\<lparr>pa_DefaultProduct := dp\<rparr>))) (\<lambda>a.
      (case up_StartingBalance body of None \<Rightarrow> Inr a
       | Some v \<Rightarrow>
           ebind (ensure (feq (pa_CashBalance a) (pa_StartingBalance a)) 409
             ''starting_balance can only be changed before the account has any fills'') (\<lambda>_.
           ebind (ensure (\<not> v \<le> 0) 400 ''starting_balance must be greater than zero'') (\<lambda>_.
             Inr (a\<lparr>pa_StartingBalance := v, pa_CashBalance := v\<rparr>))))))"

definition UpdatePaperAccount_api ::
  "'tz penv \<Rightarrow> string \<Rightarrow> string \<Rightarrow> update_paper option \<Rightarrow> pworld \<Rightarrow> (http_err + paper_account) \<times> pworld" where
  "UpdatePaperAccount_api env uid aid body w = answer w
     (ebind (requirePaperAccountAccess env uid aid (books w)) (\<lambda>existing.
      (case body of None \<Rightarrow> Inl (400, ''invalid body'')
       | Some body \<Rightarrow>
      ebind (changed_account body existing) (\<lambda>account.
      ebind (on_account env ''UpdatePaperAccount'' ''could not update paper account''
        (UpdatePaperAccount (ev_nc (dk_store (pn_desk env))) (dr_now (pn_draw env)) account (books w))) (\<lambda>db.
        Inr (account, log_action uid ''paper_account_updated'' (with_books db w)))))))"

text \<open>The body of a reset is \<^term>\<open>Some None\<close> when it is empty.\<close>

definition ResetPaperAccount_api ::
  "'tz penv \<Rightarrow> string \<Rightarrow> string \<Rightarrow> f64 option option \<Rightarrow> pworld \<Rightarrow> (http_err + paper_account) \<times> pworld" where
  "ResetPaperAccount_api env uid aid body w = answer w
     (ebind (requirePaperAccountAccess env uid aid (books w)) (\<lambda>_.
      (case body of None \<Rightarrow> Inl (400, ''invalid body'')
       | Some balance \<Rightarrow>
      ebind (ensure (case balance of None \<Rightarrow> True | Some v \<Rightarrow> \<not> v \<le> 0) 400 ''starting_balance must be greater than zero'') (\<lambda>_.
      ebind (on_account env ''ResetPaperAccount'' ''could not reset paper account''
        (ResetPaperAccount (dk_store (pn_desk env)) (dr_now (pn_draw env)) aid uid balance (books w))) (\<lambda>(account, db).
        Inr (account, log_action uid ''paper_account_reset'' (with_books db w)))))))"

definition SetPaperAccountStatus :: "'tz penv \<Rightarrow> string \<Rightarrow> string \<Rightarrow> string \<Rightarrow> pworld \<Rightarrow> (http_err + string) \<times> pworld" where
  "SetPaperAccountStatus env uid aid status w = answer w
     (ebind (requirePaperAccountAccess env uid aid (books w)) (\<lambda>existing.
      ebind (on_account env ''UpdatePaperAccountStatus'' ''could not update paper account status''
        (UpdatePaperAccountStatus (dr_now (pn_draw env)) (pa_ID existing) uid status (books w))) (\<lambda>db.
        Inr (status, log_action uid (''paper_account_'' @ status) (with_books db w)))))"

definition PausePaperAccount :: "'tz penv \<Rightarrow> string \<Rightarrow> string \<Rightarrow> pworld \<Rightarrow> (http_err + string) \<times> pworld" where
  "PausePaperAccount env uid aid = SetPaperAccountStatus env uid aid ''paused''"

definition ResumePaperAccount :: "'tz penv \<Rightarrow> string \<Rightarrow> string \<Rightarrow> pworld \<Rightarrow> (http_err + string) \<times> pworld" where
  "ResumePaperAccount env uid aid = SetPaperAccountStatus env uid aid ''active''"

subsection \<open>Closing a position\<close>

definition close_text :: "'tz penv \<Rightarrow> close_err \<Rightarrow> string" where
  "close_text env e = (case e of CloseErr e \<Rightarrow> err_text e | EngineErr e \<Rightarrow> pn_text env e)"

text \<open>The account and the position that a request to close names, or the refusal.\<close>

definition position_to_close ::
  "'tz penv \<Rightarrow> string \<Rightarrow> string \<Rightarrow> string option \<Rightarrow> paper_db \<Rightarrow> http_err + (paper_account \<times> paper_position)" where
  "position_to_close env uid aid symbol db =
     ebind (requirePaperAccountAccess env uid aid db) (\<lambda>account.
     ebind (ensure (pa_Status account = ''active'') 409 (''paper account is '' @ pa_Status account)) (\<lambda>_.
     (case symbol of None \<Rightarrow> Inl (400, ''invalid body'')
      | Some s \<Rightarrow>
     let symbol = to_upper (trim_space s); gone = (409, ''no open position for '' @ fmt_q symbol) in
     ebind (ensure (symbol \<noteq> []) 400 ''symbol is required'') (\<lambda>_.
     ebind (must env ''GetPaperPosition'' ''position lookup failed''
       (GetPaperPosition db (pa_ID account) (pa_Exchange account) symbol (pa_DefaultProduct account))) (\<lambda>found.
     (case found of None \<Rightarrow> Inl gone
      | Some position \<Rightarrow> if feq (pp_Quantity position) 0 then Inl gone else Inr (account, position)))))))"

definition ClosePaperPosition ::
  "'tz penv \<Rightarrow> string \<Rightarrow> string \<Rightarrow> string option \<Rightarrow> pworld \<Rightarrow> (http_err + exec_result) \<times> pworld" where
  "ClosePaperPosition env uid aid symbol w =
     (case position_to_close env uid aid symbol (books w) of
        Inl e \<Rightarrow> (Inl e, w)
      | Inr (account, position) \<Rightarrow>
          (case FlattenPosition (pn_desk env) (pn_draw env) account position True (books w) of
             (Inl e, db) \<Rightarrow> (Inl (409, close_text env e), with_books db w)
           | (Inr res, db) \<Rightarrow>
               (if xr_Status res \<noteq> PaperOrderStatusFilled then (Inl (409, xr_Reason res), with_books db w)
                else (Inr res, log_action uid ''paper_position_closed'' (with_books db w)))))"

subsection \<open>Reading\<close>

definition ListMarketProfiles :: "(string \<Rightarrow> nat) \<Rightarrow> paper_db \<Rightarrow> market_profile list" where
  "ListMarketProfiles collate db =
     sort_key (\<lambda>p. if mp_Active p then 0 else 1 :: nat) (sort_key (collate \<circ> mp_Code) (db_profiles db))"

definition ListActiveMarketProfiles :: "'tz penv \<Rightarrow> pworld \<Rightarrow> http_err + market_profile list" where
  "ListActiveMarketProfiles env w =
     ebind (must env ''ListMarketProfiles'' ''could not list market profiles'' (ListMarketProfiles (pn_collate env) (books w)))
       (\<lambda>profiles. Inr (filter mp_Active profiles))"

definition ListPaperAccounts :: "'tz penv \<Rightarrow> string \<Rightarrow> pworld \<Rightarrow> http_err + paper_account list" where
  "ListPaperAccounts env uid w =
     must env ''ListPaperAccountsByUser'' ''could not list paper accounts'' (ListPaperAccountsByUser (books w) uid)"

definition ListPaperPositions :: "'tz penv \<Rightarrow> string \<Rightarrow> string \<Rightarrow> pworld \<Rightarrow> http_err + paper_position list" where
  "ListPaperPositions env uid aid w =
     ebind (requirePaperAccountAccess env uid aid (books w)) (\<lambda>account.
       must env ''ListPaperPositionsByAccount'' ''could not list paper positions''
         (ListPaperPositionsByAccount (books w) (pa_ID account)))"

text \<open>A number in the query of a URL is absent or an integer; a text that is none reads as absent.\<close>

definition query_int :: "int option \<Rightarrow> int \<Rightarrow> int" where
  "query_int q d = (case q of None \<Rightarrow> d | Some n \<Rightarrow> n)"

definition page_limit :: "int option \<Rightarrow> int \<Rightarrow> int \<Rightarrow> int" where
  "page_limit q d most = (let n = query_int q d in if n \<le> 0 \<or> most < n then d else n)"

definition ListPaperOrders ::
  "'tz penv \<Rightarrow> string \<Rightarrow> string \<Rightarrow> int option \<Rightarrow> int option \<Rightarrow> pworld \<Rightarrow> http_err + ((paper_order \<times> f64 option) list \<times> int)" where
  "ListPaperOrders env uid aid limit offset w =
     ebind (requirePaperAccountAccess env uid aid (books w)) (\<lambda>account.
     let limit = page_limit limit 50 200; offset = query_int offset 0; offset = (if offset < 0 then 0 else offset) in
     ebind (must env ''ListPaperOrdersWithPnLByAccount'' ''could not list paper orders''
       (ListPaperOrdersWithPnLByAccount (books w) (pa_ID account) limit offset)) (\<lambda>orders.
     ebind (must env ''CountPaperOrdersByAccount'' ''could not count paper orders''
       (CountPaperOrdersByAccount (books w) (pa_ID account))) (\<lambda>total.
       Inr (orders, total))))"

definition ListPaperAccountSnapshots_api ::
  "'tz penv \<Rightarrow> string \<Rightarrow> string \<Rightarrow> int option \<Rightarrow> pworld \<Rightarrow> http_err + paper_snapshot list" where
  "ListPaperAccountSnapshots_api env uid aid limit w =
     ebind (requirePaperAccountAccess env uid aid (books w)) (\<lambda>account.
       must env ''ListPaperAccountSnapshots'' ''could not list paper account snapshots''
         (ListPaperAccountSnapshots (books w) (pa_ID account) (page_limit limit 100 500)))"

text \<open>
  \<^verbatim>\<open>time.Parse("2006-01-02", v)\<close>: four digits, two and two, a month of the year and a day of the month. The result is
  midnight UTC.
\<close>

definition days_in :: "int \<Rightarrow> int \<Rightarrow> int" where
  "days_in y m =
     (if m = 2 then (if y mod 4 = 0 \<and> (y mod 100 \<noteq> 0 \<or> y mod 400 = 0) then 29 else 28)
      else if m \<in> {4, 6, 9, 11} then 30 else 31)"

definition digits_int :: "string \<Rightarrow> int" where
  "digits_int s = foldl (\<lambda>n c. n * 10 + int (digit_val c)) 0 s"

definition parse_date :: "string \<Rightarrow> int option" where
  "parse_date v =
     (let y = digits_int (take 4 v); m = digits_int (take 2 (drop 5 v)); d = digits_int (drop 8 v) in
      if length v = 10 \<and> v ! 4 = CHR ''-'' \<and> v ! 7 = CHR ''-'' \<and> list_all is_digit (take 4 v) \<and>
         list_all is_digit (take 2 (drop 5 v)) \<and> list_all is_digit (drop 8 v) \<and>
         1 \<le> m \<and> m \<le> 12 \<and> 1 \<le> d \<and> d \<le> days_in y m
      then Some (days_from_civil y m d * ms_per_day) else None)"

definition ParseDateRange :: "string \<Rightarrow> string \<Rightarrow> go_err + (int option \<times> int option)" where
  "ParseDateRange from to =
     ebind (if from = [] then Inr None
            else case parse_date from of None \<Rightarrow> Inl (Errorf ''invalid from date (expected YYYY-MM-DD)'') | Some t \<Rightarrow> Inr (Some t)) (\<lambda>from.
     ebind (if to = [] then Inr None
            else case parse_date to of None \<Rightarrow> Inl (Errorf ''invalid to date (expected YYYY-MM-DD)'')
                 | Some t \<Rightarrow> Inr (Some (t + ms_per_day))) (\<lambda>to.
       Inr (from, to)))"

text \<open>The rows of an export, before they are written as JSON or CSV.\<close>

definition ExportPaperOrders ::
  "'tz penv \<Rightarrow> string \<Rightarrow> string \<Rightarrow> string \<Rightarrow> string \<Rightarrow> pworld \<Rightarrow> http_err + (paper_order \<times> f64 option) list" where
  "ExportPaperOrders env uid aid from to w =
     ebind (requirePaperAccountAccess env uid aid (books w)) (\<lambda>account.
     ebind (valid_or 400 (ParseDateRange from to)) (\<lambda>(from, to).
       must env ''ListPaperOrdersForExport'' ''could not fetch paper orders''
         (ListPaperOrdersForExport (books w) (pa_ID account) from to)))"

subsection \<open>The dashboard of an account\<close>

record webhook_diagnostics =
  dg_SignalsReceived :: int
  dg_SignalsAccepted :: int
  dg_SignalsRejected :: int
  dg_DuplicateSuppressed :: int
  dg_FillRate :: "f64 option"
  dg_LastSignalAt :: "int option"

definition zero_diagnostics :: webhook_diagnostics where
  "zero_diagnostics = \<lparr> dg_SignalsReceived = 0, dg_SignalsAccepted = 0, dg_SignalsRejected = 0, dg_DuplicateSuppressed = 0,
     dg_FillRate = None, dg_LastSignalAt = None \<rparr>"

definition GetPaperAccountWebhookDiagnostics ::
  "(ingest_log \<times> int) list \<Rightarrow> paper_db \<Rightarrow> string list \<Rightarrow> webhook_diagnostics" where
  "GetPaperAccountWebhookDiagnostics entries db ids =
     (if ids = [] then zero_diagnostics
      else
        (let rows = filter (\<lambda>r. il_WebhookID (fst r) \<in> set ids) entries;
             orders = filter (\<lambda>o'. case po_WebhookID o' of None \<Rightarrow> False | Some i \<Rightarrow> i \<in> set ids) (db_orders db);
             filled = sql_count (\<lambda>o'. po_Status o' = ''FILLED'') orders;
             rejected = sql_count (\<lambda>o'. po_Status o' = ''REJECTED'') orders
         in \<lparr> dg_SignalsReceived = int (length rows),
              dg_SignalsAccepted = sql_count (\<lambda>r. il_Outcome (fst r) = ''accepted'') rows,
              dg_SignalsRejected = sql_count (\<lambda>r. il_Outcome (fst r) \<in> {''rejected'', ''rate_limited'', ''paused'', ''queue_full''}) rows,
              dg_DuplicateSuppressed = sql_count (\<lambda>r. il_Outcome (fst r) = ''dedup'') rows,
              dg_FillRate = (if 0 < filled + rejected then Some (rate filled (filled + rejected)) else None),
              dg_LastSignalAt = (case map snd rows of [] \<Rightarrow> None | t # ts \<Rightarrow> Some (foldl max t ts)) \<rparr>))"

record paper_dashboard =
  pb_Summary :: pnl_summary
  pb_LinkedWebhooks :: "(string \<times> string \<times> string) list"
  pb_Diagnostics :: webhook_diagnostics
  pb_MarketProfileName :: string
  pb_TradingSession :: string
  pb_MarketDataProvider :: string

definition linked_webhooks :: "'tz penv \<Rightarrow> string \<Rightarrow> pworld \<Rightarrow> webhook list" where
  "linked_webhooks env aid w =
     (if an_ok (pn_api env) ''ListWebhooksByPaperAccount'' then ListWebhooksByPaperAccount (aw_db (pw_api w)) aid else [])"

definition account_diagnostics :: "'tz penv \<Rightarrow> string \<Rightarrow> pworld \<Rightarrow> webhook_diagnostics" where
  "account_diagnostics env aid w =
     (if an_ok (pn_api env) ''GetPaperAccountWebhookDiagnostics''
      then GetPaperAccountWebhookDiagnostics (pw_log w) (books w) (map wh_ID (linked_webhooks env aid w))
      else zero_diagnostics)"

definition profile_of_account :: "'tz penv \<Rightarrow> paper_account \<Rightarrow> pworld \<Rightarrow> market_profile option" where
  "profile_of_account env account w =
     (if an_ok (pn_api env) ''GetMarketProfileByCode'' then GetMarketProfileByCode (books w) (pa_MarketProfile account) else None)"

definition GetPaperAccountPnL_api :: "'tz penv \<Rightarrow> string \<Rightarrow> string \<Rightarrow> pworld \<Rightarrow> http_err + paper_dashboard" where
  "GetPaperAccountPnL_api env uid aid w =
     (let desk = pn_desk env; failed = Inl (500, ''could not compute paper account pnl'') in
      ebind (requirePaperAccountAccess env uid aid (books w)) (\<lambda>account.
      ebind (must env ''GetPaperAccountPnL'' ''could not compute paper account pnl''
        (account_pnl (dk_store desk) (an_now (pn_api env)) (books w) (pa_ID account))) (\<lambda>found.
      (case found of None \<Rightarrow> failed
       | Some summary \<Rightarrow>
      let profile = profile_of_account env account w in
      Inr \<lparr> pb_Summary = summary,
        pb_LinkedWebhooks = map (\<lambda>h. (wh_ID h, wh_Label h, wh_Status h)) (linked_webhooks env (pa_ID account) w),
        pb_Diagnostics = account_diagnostics env (pa_ID account) w,
        pb_MarketProfileName = (case profile of None \<Rightarrow> [] | Some p \<Rightarrow> mp_Name p),
        pb_TradingSession = (case profile of None \<Rightarrow> []
          | Some p \<Rightarrow> if WithinSchedule (dk_zones desk) (mp_TradingDays p) (mp_Timezone p) (an_now (pn_api env) div 1000)
                      then ''open'' else ''closed''),
        pb_MarketDataProvider = ActiveProviderName (dk_md desk) (dk_settings desk) \<rparr>))))"

end
