(* ===== verification/PaperTenants.thy ===== *)
theory PaperTenants
  imports PaperApi
begin

section \<open>Requests on paper accounts: one abstract step of the owner\<close>

text \<open>
  A request on paper accounts does one thing to the paper tables: nothing, or one statement or fill of an account of the
  user who asked. From this abstract step follow the isolation of users, the integrity of the tables and of the
  references between webhooks and paper accounts, and that a request keeps the books balanced.
\<close>

subsection \<open>Requests\<close>

datatype paper_request =
    Create_Paper "create_paper option"
  | Delete_Paper string
  | Update_Paper string "update_paper option"
  | Reset_Paper string "f64 option option"
  | Set_Paper string bool
  | Close_Paper string "string option"

fun serve_paper :: "'tz penv \<Rightarrow> string \<Rightarrow> paper_request \<Rightarrow> pworld \<Rightarrow> pworld" where
  "serve_paper env uid (Create_Paper b) w = snd (CreatePaperAccount_api env uid b w)"
| "serve_paper env uid (Delete_Paper aid) w = snd (DeletePaperAccount_api env uid aid w)"
| "serve_paper env uid (Update_Paper aid b) w = snd (UpdatePaperAccount_api env uid aid b w)"
| "serve_paper env uid (Reset_Paper aid b) w = snd (ResetPaperAccount_api env uid aid b w)"
| "serve_paper env uid (Set_Paper aid on) w = snd ((if on then ResumePaperAccount else PausePaperAccount) env uid aid w)"
| "serve_paper env uid (Close_Paper aid s) w = snd (ClosePaperPosition env uid aid s w)"

definition closes :: "paper_request \<Rightarrow> bool" where
  "closes rq = (case rq of Close_Paper _ _ \<Rightarrow> True | _ \<Rightarrow> False)"

subsection \<open>The abstract step\<close>

definition owns_paper :: "paper_db \<Rightarrow> string \<Rightarrow> string \<Rightarrow> bool" where
  "owns_paper db uid aid = (\<exists>a. GetPaperAccount db aid = Some a \<and> pa_UserID a = uid)"

text \<open>Only a request to close a position makes a fill. What an update may do to the balances: keep both, or, while they are equal, set both.\<close>

definition balances_kept :: "paper_account \<Rightarrow> paper_account \<Rightarrow> bool" where
  "balances_kept old new =
     (pa_ID new = pa_ID old \<and> pa_UserID new = pa_UserID old \<and>
      (pa_StartingBalance new = pa_StartingBalance old \<and> pa_CashBalance new = pa_CashBalance old
       \<or> pa_CashBalance old = pa_StartingBalance old \<and> pa_CashBalance new = pa_StartingBalance new))"

inductive own_paper :: "'tz store_env \<Rightarrow> string \<Rightarrow> bool \<Rightarrow> paper_db \<Rightarrow> paper_db \<Rightarrow> bool" for e uid closing where
  refused: "own_paper e uid closing db db"
| opened: "CreatePaperAccount e sid now a db = Inr db' \<Longrightarrow> pa_UserID a = uid \<Longrightarrow> pa_CashBalance a = pa_StartingBalance a \<Longrightarrow>
    own_paper e uid closing db db'"
| changed: "GetPaperAccount db (pa_ID a) = Some old \<Longrightarrow> pa_UserID old = uid \<Longrightarrow> balances_kept old a \<Longrightarrow>
    UpdatePaperAccount (ev_nc e) now a db = Inr db' \<Longrightarrow> own_paper e uid closing db db'"
| paused: "owns_paper db uid aid \<Longrightarrow> UpdatePaperAccountStatus now aid uid st db = Inr db' \<Longrightarrow> own_paper e uid closing db db'"
| reset: "owns_paper db uid aid \<Longrightarrow> ResetPaperAccount e now aid uid nb db = Inr (a, db') \<Longrightarrow> own_paper e uid closing db db'"
| deleted: "DeletePaperAccount aid uid db = Inr db' \<Longrightarrow> own_paper e uid closing db db'"
| traded: "closing \<Longrightarrow> owns_paper db uid (er_AccountID req) \<Longrightarrow> er_Side req = SideClose \<Longrightarrow>
    Execute e ids sid now req db = Inr (res, db') \<Longrightarrow> own_paper e uid closing db db'"

lemma own_paper_step: "own_paper e uid closing db db' \<Longrightarrow> db' = db \<or> store_step e db db'"
  by (induction rule: own_paper.induct) (auto intro: store_step.intros)

lemma must_Inr [simp]: "must env name msg x = Inr y \<longleftrightarrow> an_ok (pn_api env) name \<and> x = y"
  by (simp add: must_def)

lemma on_account_Inr [simp]: "on_account env name msg r = Inr x \<longleftrightarrow> an_ok (pn_api env) name \<and> r = Inr x"
  by (auto simp: on_account_def ebind_Inr_iff split: sum.splits)

lemma saved_Inr [simp]: "saved env name msg r = Inr x \<longleftrightarrow> an_ok (pn_api env) name \<and> r = Inr x"
  by (auto simp: saved_def ebind_Inr_iff split: sum.splits)

lemma access_Inr:
  "requirePaperAccountAccess env uid aid db = Inr a \<longleftrightarrow>
   an_ok (pn_api env) ''GetPaperAccount'' \<and> GetPaperAccount db aid = Some a \<and> pa_UserID a = uid"
  by (auto simp: requirePaperAccountAccess_def ebind_Inr_iff split: option.splits)

lemma access_owns: "requirePaperAccountAccess env uid aid db = Inr a \<Longrightarrow> owns_paper db uid aid"
  by (auto simp: access_Inr owns_paper_def)

lemma access_ID: "requirePaperAccountAccess env uid aid db = Inr a \<Longrightarrow> pa_ID a = aid"
  by (auto simp: access_Inr GetPaperAccount_def find_Some_iff)

lemma changed_account_kept: "changed_account body a = Inr b \<Longrightarrow> balances_kept a b"
  by (auto simp: changed_account_def balances_kept_def Let_def ebind_Inr_iff feq_def split: option.splits)

text \<open>Each handler either leaves the world, or writes tables that the abstract step allows, and perhaps logs.\<close>

definition paper_written :: "'tz store_env \<Rightarrow> string \<Rightarrow> bool \<Rightarrow> pworld \<Rightarrow> pworld \<Rightarrow> bool" where
  "paper_written e uid closing w w' =
     (w' = w \<or> (\<exists>db act. own_paper e uid closing (books w) db \<and> (w' = with_books db w \<or> w' = log_action uid act (with_books db w))))"

lemma written_answer:
  assumes "\<And>x w'. r = Inr (x, w') \<Longrightarrow> \<exists>db act. own_paper e uid closing (books w) db \<and> w' = log_action uid act (with_books db w)"
  shows "paper_written e uid closing w (snd (answer w r))"
proof (cases r)
  case (Inr y)
  obtain x w' where y: "y = (x, w')" by fastforce
  with Inr obtain db act where "own_paper e uid closing (books w) db" "w' = log_action uid act (with_books db w)" using assms by blast
  then show ?thesis using Inr y unfolding paper_written_def by (intro disjI2 exI [of _ db] exI [of _ act]) (simp add: answer_def)
qed (simp add: answer_def paper_written_def)

lemma new_account_fields:
  "new_paper_account env uid body w = Inr a \<Longrightarrow> pa_UserID a = uid \<and> pa_CashBalance a = pa_StartingBalance a"
  by (auto simp: new_paper_account_def Let_def ebind_Inr_iff split: option.splits if_splits)

lemma create_written: "paper_written (dk_store (pn_desk env)) uid closing w (snd (CreatePaperAccount_api env uid b w))"
  unfolding CreatePaperAccount_api_def
  by (rule written_answer) (auto simp: ebind_Inr_iff dest: new_account_fields intro: own_paper.opened)

lemma delete_written: "paper_written e uid closing w (snd (DeletePaperAccount_api env uid aid w))"
  unfolding DeletePaperAccount_api_def
  by (rule written_answer) (auto simp: ebind_Inr_iff intro: own_paper.deleted)

lemma update_written: "paper_written (dk_store (pn_desk env)) uid closing w (snd (UpdatePaperAccount_api env uid aid b w))"
  unfolding UpdatePaperAccount_api_def
proof (rule written_answer)
  fix x w' assume "ebind (requirePaperAccountAccess env uid aid (books w)) (\<lambda>existing.
      (case b of None \<Rightarrow> Inl (400, ''invalid body'')
       | Some body \<Rightarrow>
      ebind (changed_account body existing) (\<lambda>account.
      ebind (on_account env ''UpdatePaperAccount'' ''could not update paper account''
        (UpdatePaperAccount (ev_nc (dk_store (pn_desk env))) (dr_now (pn_draw env)) account (books w))) (\<lambda>db.
        Inr (account, log_action uid ''paper_account_updated'' (with_books db w)))))) = Inr (x, w')"
  then obtain body old a db where b: "requirePaperAccountAccess env uid aid (books w) = Inr old" "changed_account body old = Inr a"
    "UpdatePaperAccount (ev_nc (dk_store (pn_desk env))) (dr_now (pn_draw env)) a (books w) = Inr db"
    "w' = log_action uid ''paper_account_updated'' (with_books db w)"
    by (auto simp: ebind_Inr_iff split: option.splits)
  have "balances_kept old a" by (rule changed_account_kept [OF b(2)])
  moreover have "GetPaperAccount (books w) (pa_ID a) = Some old" "pa_UserID old = uid"
    using b(1) access_ID [OF b(1)] calculation by (auto simp: access_Inr balances_kept_def)
  ultimately show "\<exists>db act. own_paper (dk_store (pn_desk env)) uid closing (books w) db \<and> w' = log_action uid act (with_books db w)"
    using own_paper.changed b(3,4) by metis
qed

lemma reset_written: "paper_written (dk_store (pn_desk env)) uid closing w (snd (ResetPaperAccount_api env uid aid b w))"
  unfolding ResetPaperAccount_api_def
  by (rule written_answer)
    (auto simp: ebind_Inr_iff split: option.splits prod.splits; blast intro: own_paper.reset access_owns)

lemma status_written: "paper_written e uid closing w (snd (SetPaperAccountStatus env uid aid st w))"
  unfolding SetPaperAccountStatus_def
  by (rule written_answer) (auto simp: ebind_Inr_iff dest: access_ID access_owns intro: own_paper.paused)

lemma position_to_close_Inr:
  "position_to_close env uid aid s db = Inr (a, p) \<Longrightarrow>
   requirePaperAccountAccess env uid aid db = Inr a \<and> pa_Status a = ''active'' \<and> \<not> feq (pp_Quantity p) 0 \<and>
   (\<exists>symbol. GetPaperPosition db (pa_ID a) (pa_Exchange a) symbol (pa_DefaultProduct a) = Some p)"
  by (auto simp: position_to_close_def Let_def ebind_Inr_iff split: option.splits if_splits)

lemma close_request_order:
  "close_request env db a p signal h now = Inr req \<Longrightarrow> er_AccountID req = pa_ID a \<and> er_Side req = SideClose"
  by (auto simp: close_request_def Let_def ebind_Inr_iff split: if_splits)

lemma close_written: "paper_written (dk_store (pn_desk env)) uid True w (snd (ClosePaperPosition env uid aid s w))"
proof (cases "position_to_close env uid aid s (books w)")
  case (Inr y)
  obtain a p where y: "y = (a, p)" by fastforce
  note acc = position_to_close_Inr [OF Inr [unfolded y]]
  obtain r db where f: "FlattenPosition (pn_desk env) (pn_draw env) a p True (books w) = (r, db)" by fastforce
  have own: "own_paper (dk_store (pn_desk env)) uid True (books w) db"
  proof (cases "close_request (pn_desk env) (books w) a p (dr_signal (pn_draw env)) True (dr_now (pn_draw env))")
    case (Inr req)
    have "owns_paper (books w) uid (er_AccountID req)" "er_Side req = SideClose"
      using acc close_request_order [OF Inr] access_owns access_ID by metis+
    then show ?thesis using f Inr
      by (auto simp: FlattenPosition_def intro: own_paper.traded own_paper.refused split: sum.splits prod.splits)
  qed (use f in \<open>auto simp: FlattenPosition_def intro: own_paper.refused\<close>)
  then show ?thesis using f Inr y
    by (auto simp: ClosePaperPosition_def paper_written_def split: sum.splits)
qed (simp add: ClosePaperPosition_def paper_written_def)

lemma serve_paper_written: "paper_written (dk_store (pn_desk env)) uid (closes rq) w (serve_paper env uid rq w)"
  by (cases rq) (simp_all add: closes_def create_written delete_written update_written reset_written close_written
      PausePaperAccount_def ResumePaperAccount_def status_written)

subsection \<open>The rows of an account\<close>

definition account_rows :: "string \<Rightarrow> paper_db \<Rightarrow>
    paper_account list \<times> paper_order list \<times> paper_position list \<times> paper_trade list \<times> paper_snapshot list" where
  "account_rows aid db = (filter (\<lambda>a. pa_ID a = aid) (db_accounts db), filter (\<lambda>o'. po_PaperAccountID o' = aid) (db_orders db),
     filter (\<lambda>p. pp_PaperAccountID p = aid) (db_positions db), filter (\<lambda>t. pt_PaperAccountID t = aid) (db_trades db),
     filter (\<lambda>s. sn_PaperAccountID s = aid) (db_snapshots db))"

definition owner_of :: "paper_account \<Rightarrow> string \<times> string" where
  "owner_of a = (pa_ID a, pa_UserID a)"

lemma owner_view_of: "owner_view db = map owner_of (db_accounts db)"
  by (simp add: owner_view_def owner_of_def)

lemma filter_key: "aid \<noteq> rid \<Longrightarrow> filter (\<lambda>x. k x = aid) (filter (\<lambda>x. k x \<noteq> rid) xs) = filter (\<lambda>x. k x = aid) xs"
  by (induction xs) auto

text \<open>An update of one account's row keeps the owners and the rows of the others.\<close>

lemma filter_traverse:
  assumes "traverse f xs = Inr ys" "\<And>x y. x \<in> set xs \<Longrightarrow> f x = Inr y \<Longrightarrow> P y = P x \<and> (P x \<longrightarrow> y = x)"
  shows "filter P ys = filter P xs"
  using assms
proof (induction xs arbitrary: ys)
  case (Cons x xs)
  obtain y zs where y: "f x = Inr y" "traverse f xs = Inr zs" "ys = y # zs" using Cons.prems(1) by (auto simp: ebind_Inr_iff)
  have "P y = P x \<and> (P x \<longrightarrow> y = x)" by (rule Cons.prems(2)) (simp_all add: y(1))
  moreover have "filter P zs = filter P xs" by (rule Cons.IH [OF y(2)], rule Cons.prems(2)) simp_all
  ultimately show ?case by (simp add: y(3))
qed simp

lemma update_account_rows:
  assumes "update_account rid user f db = Inr db'" "\<And>r row. f r = Inr row \<Longrightarrow> owner_of row = owner_of r"
  shows "owner_view db' = owner_view db" "db_hooks db' = db_hooks db" "aid \<noteq> rid \<Longrightarrow> account_rows aid db' = account_rows aid db"
proof -
  obtain rows where rows: "traverse (\<lambda>r. if pa_ID r = rid \<and> pa_UserID r = user
                then ebind (f r) (\<lambda>row. require (account_check row) ErrCheckViolation row)
                else Inr r) (db_accounts db) = Inr rows" "db' = db\<lparr>db_accounts := rows\<rparr>"
    using assms(1) by (auto simp: update_account_def ebind_Inr_iff)
  have "map owner_of rows = map owner_of (db_accounts db)"
    by (rule traverse_Inr_map [OF rows(1)]) (auto simp: ebind_Inr_iff dest: assms(2) split: if_splits)
  then show "owner_view db' = owner_view db" "db_hooks db' = db_hooks db" using rows(2) by (simp_all add: owner_view_of)
  have id: "pa_ID row = pa_ID r" if "f r = Inr row" for r row using assms(2) [OF that] by (simp add: owner_of_def)
  have "filter (\<lambda>a. pa_ID a = aid) rows = filter (\<lambda>a. pa_ID a = aid) (db_accounts db)" if "aid \<noteq> rid"
    by (rule filter_traverse [OF rows(1)]) (use that in \<open>auto simp: ebind_Inr_iff dest: id split: if_splits\<close>)
  then show "account_rows aid db' = account_rows aid db" if "aid \<noteq> rid" using that rows(2) by (simp add: account_rows_def)
qed

lemma snapshot_rows:
  "aid \<noteq> acct \<Longrightarrow> account_rows aid (best_effort db (RecordPaperAccountEquitySnapshot e sid now acct user db)) = account_rows aid db"
  by (rule best_effort_snapshot [of db e sid now acct user]) (auto simp: account_rows_def)

lemma create_rows:
  assumes "CreatePaperAccount e sid now a db = Inr db'"
  shows "owner_view db' = owner_view db @ [owner_of a]" "db_hooks db' = db_hooks db"
    "aid \<noteq> pa_ID a \<Longrightarrow> account_rows aid db' = account_rows aid db"
    "pa_ID a \<notin> set (map pa_ID (db_accounts db))"
proof -
  obtain row where r: "encode_account (ev_nc e) a = Inr row" "pa_ID row \<notin> set (map pa_ID (db_accounts db))"
    "db' = best_effort (db\<lparr>db_accounts := db_accounts db @ [row]\<rparr>)
       (RecordPaperAccountEquitySnapshot e sid now (pa_ID a) (pa_UserID a) (db\<lparr>db_accounts := db_accounts db @ [row]\<rparr>))"
    using assms by (auto simp: CreatePaperAccount_def insert_account_def ebind_Inr_iff)
  have id: "owner_of row = owner_of a" "pa_ID row = pa_ID a" using encode_account_frame [OF r(1)] by (simp_all add: owner_of_def)
  show "owner_view db' = owner_view db @ [owner_of a]" "db_hooks db' = db_hooks db" using id by (simp_all add: r(3) owner_view_of)
  show "pa_ID a \<notin> set (map pa_ID (db_accounts db))" using r(2) id by simp
  show "account_rows aid db' = account_rows aid db" if "aid \<noteq> pa_ID a"
    using that id unfolding r(3) snapshot_rows [OF that] by (simp add: account_rows_def)
qed

lemma delete_account_rows_other:
  assumes "db_ok db" "aid \<noteq> rid"
  shows "account_rows aid (delete_account_rows rid db) = account_rows aid db"
proof -
  have "filter (\<lambda>t. pt_PaperAccountID t = aid) (filter (\<lambda>t. pt_OrderID t \<notin> set (map po_ID (filter (\<lambda>o'. po_PaperAccountID o' = rid) (db_orders db)))) (db_trades db))
      = filter (\<lambda>t. pt_PaperAccountID t = aid) (db_trades db)"
    unfolding filter_filter by (rule filter_cong [OF refl]) (use trade_account_unique [OF assms(1)] assms(2) in fastforce)
  then show ?thesis using assms(2) by (simp add: account_rows_def delete_account_rows_def Let_def filter_key del: filter_filter set_map set_filter)
qed

lemma reset_rows:
  assumes "db_ok db" "ResetPaperAccount e now rid user nb db = Inr (a, db')"
  shows "owner_view db' = owner_view db" "db_hooks db' = db_hooks db" "aid \<noteq> rid \<Longrightarrow> account_rows aid db' = account_rows aid db"
proof -
  obtain s c where db': "db' = (delete_account_rows rid db)\<lparr>db_accounts := map (\<lambda>r. if pa_ID r = rid
       then r\<lparr>pa_StartingBalance := s, pa_CashBalance := c, pa_UpdatedAt := now\<rparr> else r) (db_accounts (delete_account_rows rid db))\<rparr>"
    using assms(2) by (auto simp: ResetPaperAccount_def Let_def ebind_Inr_iff split: option.splits)
  have acc: "db_accounts (delete_account_rows rid db) = db_accounts db" "db_hooks (delete_account_rows rid db) = db_hooks db"
    by (simp_all add: delete_account_rows_def Let_def)
  show "owner_view db' = owner_view db" "db_hooks db' = db_hooks db" by (simp_all add: db' acc owner_view_of owner_of_def)
  show "account_rows aid db' = account_rows aid db" if "aid \<noteq> rid"
  proof -
    have "filter (\<lambda>a. pa_ID a = aid) (map (\<lambda>r. if pa_ID r = rid
       then r\<lparr>pa_StartingBalance := s, pa_CashBalance := c, pa_UpdatedAt := now\<rparr> else r) as) = filter (\<lambda>a. pa_ID a = aid) as" for as
      using that by (induction as) auto
    then show ?thesis using delete_account_rows_other [OF assms(1) that] by (simp add: account_rows_def db' acc)
  qed
qed

lemma delete_rows:
  assumes "db_ok db" "DeletePaperAccount rid user db = Inr db'"
  shows "owner_view db' = filter (\<lambda>p. fst p \<noteq> rid) (owner_view db)" "db_hooks db' = db_hooks db"
    "aid \<noteq> rid \<Longrightarrow> account_rows aid db' = account_rows aid db"
    "Some rid \<notin> snd ` set (db_hooks db)" "(rid, user) \<in> set (owner_view db)"
proof -
  have d: "db' = (delete_account_rows rid db)\<lparr>db_accounts := filter (\<lambda>r. pa_ID r \<noteq> rid) (db_accounts db),
       db_trades := filter (\<lambda>t. pt_PaperAccountID t \<noteq> rid) (db_trades (delete_account_rows rid db))\<rparr>"
    "Some rid \<notin> snd ` set (db_hooks db)" "\<exists>r \<in> set (db_accounts db). pa_ID r = rid \<and> pa_UserID r = user"
    using assms(2) by (auto simp: DeletePaperAccount_def split: if_splits)
  show "owner_view db' = filter (\<lambda>p. fst p \<noteq> rid) (owner_view db)" "db_hooks db' = db_hooks db"
    by (simp_all add: d(1) owner_view_of filter_map o_def owner_of_def delete_account_rows_def Let_def)
  show "Some rid \<notin> snd ` set (db_hooks db)" "(rid, user) \<in> set (owner_view db)"
    using d(2,3) by (auto simp: owner_view_of owner_of_def)
  show "account_rows aid db' = account_rows aid db" if "aid \<noteq> rid"
    using delete_account_rows_other [OF assms(1) that] that
    by (simp add: account_rows_def d(1) filter_key delete_account_rows_def Let_def del: filter_filter)
qed

lemma filter_map_other: "(\<And>x. x \<in> set xs \<Longrightarrow> P x \<Longrightarrow> f x = x) \<Longrightarrow> (\<And>x. P (f x) = P x) \<Longrightarrow> filter P (map f xs) = filter P xs"
  by (induction xs) auto

lemma persist_position_rows:
  assumes "persist_position nc (GetPaperPosition db acct ex symb pd) out db1 = Inr (out', db2)" "db_ok db"
    "db_positions db1 = db_positions db" "\<And>p. fo_Position out = Some p \<Longrightarrow> pp_PaperAccountID p = acct" "aid \<noteq> acct"
  shows "filter (\<lambda>p. pp_PaperAccountID p = aid) (db_positions db2) = filter (\<lambda>p. pp_PaperAccountID p = aid) (db_positions db)"
proof (cases "fo_Position out")
  case None
  then show ?thesis using assms(1,3) by (simp add: persist_position_def)
next
  case (Some p)
  let ?np = "p\<lparr>pp_Symbol := NormalizePaperSymbol (pp_Symbol p), pp_Exchange := NormalizePaperExchange (pp_Exchange p)\<rparr>"
  show ?thesis
  proof (cases "GetPaperPosition db acct ex symb pd")
    case None
    then obtain row where "encode_position nc ?np = Inr row" "db2 = db1\<lparr>db_positions := db_positions db1 @ [row]\<rparr>"
      using assms(1) Some by (auto simp: persist_position_def Let_def ebind_Inr_iff CreatePaperPosition_Inr)
    then show ?thesis using assms(3-5) Some encode_position_frame [of nc ?np row] by (simp add: position_key_def)
  next
    case q: (Some q)
    then have "update_position_fill nc (pp_ID q) ?np db1 = Inr db2"
      using assms(1) Some by (auto simp: persist_position_def Let_def ebind_Inr_iff)
    then obtain row where "encode_position nc ?np = Inr row" and db2: "db2 = db1\<lparr>db_positions := map (\<lambda>x. if pp_ID x = pp_ID q
              then x\<lparr>pp_Quantity := pp_Quantity row, pp_AvgEntryPrice := pp_AvgEntryPrice row, pp_LastPrice := pp_LastPrice row,
                     pp_UnrealizedPnL := pp_UnrealizedPnL row, pp_UpdatedAt := pp_UpdatedAt row\<rparr> else x) (db_positions db1)\<rparr>"
      by (auto simp: update_position_fill_def ebind_Inr_iff)
    have "q \<in> set (db_positions db)" "pp_PaperAccountID q = acct"
      using q by (auto simp: GetPaperPosition_def find_Some_iff position_matches_def)
    then have "pp_PaperAccountID x = acct" if "x \<in> set (db_positions db)" "pp_ID x = pp_ID q" for x
      using that assms(2) by (auto simp: db_ok_def distinct_map inj_on_def)
    then show ?thesis unfolding db2 using assms(3,5) by (simp, intro filter_map_other) auto
  qed
qed

lemma execute_rows:
  assumes "Execute e ids sid now req db = Inr (res, db')" "db_ok db"
  shows "owner_view db' = owner_view db" "db_hooks db' = db_hooks db"
    "aid \<noteq> er_AccountID req \<Longrightarrow> account_rows aid db' = account_rows aid db"
proof -
  obtain a out out' db1 db2 db3 db4 where
    out: "out = computeFill ids now a (GetPaperPosition db (er_AccountID req) (NormalizePaperExchange (er_Exchange req))
          (NormalizePaperSymbol (er_Symbol req)) (er_Product req)) req"
    and o1: "CreatePaperOrder (ev_nc e) (fo_Order out) db = Inr db1"
    and o2: "persist_position (ev_nc e) (GetPaperPosition db (er_AccountID req) (NormalizePaperExchange (er_Exchange req))
          (NormalizePaperSymbol (er_Symbol req)) (er_Product req)) out db1 = Inr (out', db2)"
    and o3: "persist_trade (ev_nc e) out' db2 = Inr db3"
    and o4: "persist_cash (ev_nc e) now (er_AccountID req) out' db3 = Inr db4"
    and db': "db' = best_effort db4 (RecordPaperAccountEquitySnapshot e sid now (er_AccountID req) (pa_UserID a) db4)"
    using Execute_Inr [OF assms(1)] by metis
  obtain row where row: "po_PaperAccountID row = er_AccountID req" "db1 = db\<lparr>db_orders := db_orders db @ [row]\<rparr>"
    using o1 encode_order_frame by (fastforce simp: CreatePaperOrder_Inr out computeFill_ids)
  note f2 = persist_position_Inr [OF o2]
  obtain ts where ts: "db3 = db2\<lparr>db_trades := db_trades db2 @ ts\<rparr>" "\<forall>t \<in> set ts. pt_PaperAccountID t = er_AccountID req"
  proof (cases "fo_Trade out'")
    case None
    then show ?thesis using o3 that [of "[]"] by (simp add: persist_trade_def)
  next
    case (Some t)
    moreover have "pt_PaperAccountID t = er_AccountID req" using Some f2 computeFill_ids by (auto simp: out)
    ultimately show ?thesis using o3 encode_trade_frame that by (fastforce simp: persist_trade_def CreatePaperTrade_Inr)
  qed
  obtain f where f: "db4 = db3\<lparr>db_accounts := map f (db_accounts db3)\<rparr>" "\<And>a. owner_of (f a) = owner_of a"
      "\<And>a. pa_ID a \<noteq> er_AccountID req \<Longrightarrow> f a = a"
  proof (cases "fo_NewCashBalance out'")
    case None
    then show ?thesis using o4 that [of "\<lambda>a. a"] by (simp add: persist_cash_def)
  next
    case (Some c)
    then obtain c' where "db4 = set_cash (er_AccountID req) c' now db3" using o4 by (auto simp: persist_cash_def ebind_Inr_iff)
    then show ?thesis
      by (intro that [of "\<lambda>a. if pa_ID a = er_AccountID req then a\<lparr>pa_CashBalance := c', pa_UpdatedAt := now\<rparr> else a"])
        (auto simp: set_cash_def owner_of_def)
  qed
  show "owner_view db' = owner_view db" "db_hooks db' = db_hooks db"
    using f(2) by (simp_all add: db' f(1) ts(1) f2 row(2) owner_view_of o_def)
  show "account_rows aid db' = account_rows aid db" if n: "aid \<noteq> er_AccountID req"
  proof -
    have "filter (\<lambda>p. pp_PaperAccountID p = aid) (db_positions db2) = filter (\<lambda>p. pp_PaperAccountID p = aid) (db_positions db)"
      by (rule persist_position_rows [OF o2 assms(2) _ _ n]) (use computeFill_position in \<open>auto simp: row(2) out\<close>)
    moreover have "filter (\<lambda>a. pa_ID a = aid) (map f as) = filter (\<lambda>a. pa_ID a = aid) as" for as
      by (rule filter_map_other) (use f(2,3) n in \<open>auto simp: owner_of_def\<close>)
    moreover have "filter (\<lambda>t. pt_PaperAccountID t = aid) ts = []" using ts(2) n by (auto simp: filter_empty_conv)
    ultimately have "account_rows aid db4 = account_rows aid db"
      using n by (simp add: account_rows_def f(1) ts(1) f2 row)
    then show ?thesis unfolding db' by (rule trans [OF snapshot_rows [OF n]])
  qed
qed

subsection \<open>What the abstract step keeps\<close>

lemma own_paper_keeps:
  assumes "own_paper e uid closing db db'" "db_ok db"
  shows "db_ok db'" "db_hooks db' = db_hooks db"
    "GetPaperAccount db aid = Some b \<Longrightarrow> pa_UserID b \<noteq> uid \<Longrightarrow> account_rows aid db' = account_rows aid db"
    "(aid, u) \<in> set (owner_view db) \<Longrightarrow> Some aid \<in> snd ` set (db_hooks db) \<Longrightarrow> (aid, u) \<in> set (owner_view db')"
proof -
  have upd: "owner_of row = owner_of r"
    if "ebind (write_num nc s) (\<lambda>s. ebind (write_num nc c) (\<lambda>c. Inr (r\<lparr>pa_Label := l, pa_DefaultProduct := d,
          pa_StartingBalance := s, pa_CashBalance := c, pa_UpdatedAt := now\<rparr>))) = Inr row" for nc s c r l d now row
    using that by (auto simp: ebind_Inr_iff owner_of_def)
  have own: "pa_UserID b = uid" if "owns_paper db uid rid" "GetPaperAccount db rid = Some b" for rid b
    using that by (simp add: owns_paper_def)
  have "db_ok db' \<and> db_hooks db' = db_hooks db \<and>
    (GetPaperAccount db aid = Some b \<longrightarrow> pa_UserID b \<noteq> uid \<longrightarrow> account_rows aid db' = account_rows aid db) \<and>
    ((aid, u) \<in> set (owner_view db) \<longrightarrow> Some aid \<in> snd ` set (db_hooks db) \<longrightarrow> (aid, u) \<in> set (owner_view db'))"
    using assms
  proof (cases rule: own_paper.cases)
    case (opened sid now a)
    have "aid \<noteq> pa_ID a" if "GetPaperAccount db aid = Some b"
      using create_rows(4) [OF opened(1)] GetPaperAccount_in [OF that] by metis
    then show ?thesis using create_rows [OF opened(1)] db_ok_CreatePaperAccount [OF opened(1) assms(2)] by auto
  next
    case (changed a old now)
    note r = update_account_rows [OF changed(4) [unfolded UpdatePaperAccount_def] upd]
    show ?thesis using r db_ok_UpdatePaperAccount [OF changed(4) assms(2)] changed(1,2) by (cases "aid = pa_ID a") auto
  next
    case (paused aid' now st)
    note r = update_account_rows [OF paused(2) [unfolded UpdatePaperAccountStatus_def]]
    have "owner_of row = owner_of x" if "(Inr (x\<lparr>pa_Status := st, pa_UpdatedAt := now\<rparr>) :: store_err + paper_account) = Inr row" for x row
      using that by (auto simp: owner_of_def)
    then show ?thesis using r db_ok_UpdatePaperAccountStatus [OF paused(2) assms(2)] own [OF paused(1)] by (cases "aid = aid'") auto
  next
    case (reset aid' now nb a)
    show ?thesis using reset_rows [OF assms(2) reset(2)] db_ok_Reset [OF reset(2) assms(2)] own [OF reset(1)] by (cases "aid = aid'") auto
  next
    case (deleted aid')
    note r = delete_rows [OF assms(2) deleted]
    have "pa_UserID b = uid" if "GetPaperAccount db aid' = Some b"
      using that r(5) assms(2) GetPaperAccount_unique [OF assms(2) that] by (fastforce simp: owner_view_def)
    then show ?thesis using r db_ok_Delete [OF deleted assms(2)] by (cases "aid = aid'") auto
  next
    case (traded req ids sid now res)
    show ?thesis using execute_rows [OF traded(4) assms(2)] db_ok_Execute [OF traded(4) assms(2)] own [OF traded(2)]
      by (cases "aid = er_AccountID req") auto
  qed simp
  then show "db_ok db'" "db_hooks db' = db_hooks db"
    "GetPaperAccount db aid = Some b \<Longrightarrow> pa_UserID b \<noteq> uid \<Longrightarrow> account_rows aid db' = account_rows aid db"
    "(aid, u) \<in> set (owner_view db) \<Longrightarrow> Some aid \<in> snd ` set (db_hooks db) \<Longrightarrow> (aid, u) \<in> set (owner_view db')"
    by blast+
qed

end
