(* ===== verification/PaperWorld.thy ===== *)
theory PaperWorld
  imports PaperTenants
begin

section \<open>The platform with its paper accounts\<close>

text \<open>
  Puts the API, the administrator and billing together with the paper tables: a state is reached by requests on paper
  accounts, by the fills, marks and square-offs that the queue and the jobs make, by the deletion of a user with all that
  refers to the user, and by everything else \<open>Tenancy\<close> knows.
\<close>

subsection \<open>What a deleted user takes along\<close>

text \<open>
  Every paper table refers to its user with ON DELETE CASCADE, and to its account, and a trade to its order, in the same
  way (\<^verbatim>\<open>migrations/034_paper_trading.sql\<close>): the accounts of the user go, and with them what is theirs, whoever's it is.
\<close>

definition erase_user :: "string \<Rightarrow> paper_db \<Rightarrow> paper_db" where
  "erase_user uid db =
     (let gone = map pa_ID (filter (\<lambda>a. pa_UserID a = uid) (db_accounts db));
          lost = map po_ID (filter (\<lambda>o'. po_UserID o' = uid \<or> po_PaperAccountID o' \<in> set gone) (db_orders db))
      in db\<lparr> db_accounts := filter (\<lambda>a. pa_UserID a \<noteq> uid) (db_accounts db),
             db_orders := filter (\<lambda>o'. po_UserID o' \<noteq> uid \<and> po_PaperAccountID o' \<notin> set gone) (db_orders db),
             db_positions := filter (\<lambda>p. pp_UserID p \<noteq> uid \<and> pp_PaperAccountID p \<notin> set gone) (db_positions db),
             db_trades := filter (\<lambda>t. pt_UserID t \<noteq> uid \<and> pt_PaperAccountID t \<notin> set gone \<and> pt_OrderID t \<notin> set lost) (db_trades db),
             db_snapshots := filter (\<lambda>s. sn_UserID s \<noteq> uid \<and> sn_PaperAccountID s \<notin> set gone) (db_snapshots db) \<rparr>)"

lemma erase_user_views:
  "owner_view (erase_user uid db) = filter (\<lambda>p. snd p \<noteq> uid) (owner_view db)" "db_hooks (erase_user uid db) = db_hooks db"
  "set (db_accounts (erase_user uid db)) \<subseteq> set (db_accounts db)"
  by (auto simp: erase_user_def Let_def owner_view_def filter_map o_def)

lemma db_ok_erase_user:
  assumes ok: "db_ok db"
  shows "db_ok (erase_user uid db)"
proof -
  let ?db = "erase_user uid db"
  have acc: "aid \<in> account_ids ?db" if "aid \<in> account_ids db" "aid \<notin> pa_ID ` {a \<in> set (db_accounts db). pa_UserID a = uid}" for aid
    using that by (auto simp: erase_user_def account_ids_def)
  have "\<exists>o' \<in> set (db_orders ?db). po_ID o' = pt_OrderID t \<and> po_PaperAccountID o' = pt_PaperAccountID t"
    if t: "t \<in> set (db_trades ?db)" for t
  proof -
    have "t \<in> set (db_trades db)" using t by (simp add: erase_user_def Let_def)
    then obtain o' where o': "o' \<in> set (db_orders db)" "po_ID o' = pt_OrderID t" "po_PaperAccountID o' = pt_PaperAccountID t"
      using ok unfolding db_ok_def by blast
    have "po_ID o' \<notin> po_ID ` {x \<in> set (db_orders db). po_UserID x = uid \<or> po_PaperAccountID x \<in> pa_ID ` {a \<in> set (db_accounts db). pa_UserID a = uid}}"
      using t o'(2) by (simp add: erase_user_def Let_def)
    then have "o' \<in> set (db_orders ?db)" using o'(1) by (simp add: erase_user_def Let_def) blast
    then show ?thesis using o' by blast
  qed
  moreover have "pp_PaperAccountID p \<in> account_ids ?db \<and> normal_position p" if "p \<in> set (db_positions ?db)" for p
    using that ok acc [of "pp_PaperAccountID p"] by (auto simp: db_ok_def erase_user_def)
  moreover have "po_PaperAccountID o' \<in> account_ids ?db" if "o' \<in> set (db_orders ?db)" for o'
    using that ok acc [of "po_PaperAccountID o'"] by (auto simp: db_ok_def erase_user_def)
  moreover have "sn_PaperAccountID s \<in> account_ids ?db" if "s \<in> set (db_snapshots ?db)" for s
    using that ok acc [of "sn_PaperAccountID s"] by (auto simp: db_ok_def erase_user_def)
  moreover have "distinct (map pa_ID (db_accounts ?db))" "distinct (map po_ID (db_orders ?db))" "distinct (map pp_ID (db_positions ?db))"
      "distinct (map position_key (db_positions ?db))" "distinct (map pt_ID (db_trades ?db))" "distinct (map sn_ID (db_snapshots ?db))"
    using ok by (simp_all add: db_ok_def erase_user_def Let_def distinct_map_filter)
  ultimately show ?thesis unfolding db_ok_def by blast
qed

subsection \<open>Balances are values of their columns\<close>

definition column_value :: "numeric_cols \<Rightarrow> f64 \<Rightarrow> bool" where
  "column_value nc y = (\<exists>x. nc_write nc x = Some y)"

definition stored_account :: "numeric_cols \<Rightarrow> paper_account \<Rightarrow> bool" where
  "stored_account nc a = (column_value nc (pa_StartingBalance a) \<and> column_value nc (pa_CashBalance a))"

lemma column_valueI: "nc_write nc x = Some y \<Longrightarrow> column_value nc y"
  unfolding column_value_def by blast

definition stored_balances :: "numeric_cols \<Rightarrow> paper_db \<Rightarrow> bool" where
  "stored_balances nc db = (\<forall>a \<in> set (db_accounts db). stored_account nc a)"

lemma traverse_all:
  "traverse f xs = Inr ys \<Longrightarrow> \<forall>x \<in> set xs. P x \<Longrightarrow> (\<And>x y. P x \<Longrightarrow> f x = Inr y \<Longrightarrow> P y) \<Longrightarrow> \<forall>y \<in> set ys. P y"
  by (induction xs arbitrary: ys) (auto simp: ebind_Inr_iff)

lemma stored_update:
  assumes "update_account rid user f db = Inr db'" "stored_balances nc db"
    "\<And>x row. stored_account nc x \<Longrightarrow> f x = Inr row \<Longrightarrow> stored_account nc row"
  shows "stored_balances nc db'"
proof -
  obtain rows where rows: "traverse (\<lambda>r. if pa_ID r = rid \<and> pa_UserID r = user
                then ebind (f r) (\<lambda>row. require (account_check row) ErrCheckViolation row)
                else Inr r) (db_accounts db) = Inr rows" "db' = db\<lparr>db_accounts := rows\<rparr>"
    using assms(1) by (auto simp: update_account_def ebind_Inr_iff)
  have "\<forall>y \<in> set rows. stored_account nc y"
    by (rule traverse_all [OF rows(1)])
      (use assms(2,3) in \<open>auto simp: stored_balances_def ebind_Inr_iff split: if_splits\<close>)
  then show ?thesis by (simp add: rows(2) stored_balances_def)
qed

lemma stored_create: "CreatePaperAccount e sid now a db = Inr db' \<Longrightarrow> stored_balances (ev_nc e) db \<Longrightarrow> stored_balances (ev_nc e) db'"
  by (auto simp: CreatePaperAccount_def insert_account_def encode_account_def ebind_Inr_iff write_num_Inr stored_balances_def stored_account_def;
      rule column_valueI, assumption)

lemma stored_execute:
  assumes "Execute e ids sid now req db = Inr (res, db')" "stored_balances (ev_nc e) db"
  shows "stored_balances (ev_nc e) db'"
proof -
  obtain a out out' db1 db2 db3 db4 where
    "GetPaperAccount db (er_AccountID req) = Some a" "out = computeFill ids now a (request_position db req) req"
    and o1: "CreatePaperOrder (ev_nc e) (fo_Order out) db = Inr db1"
    and o2: "persist_position (ev_nc e) (request_position db req) out db1 = Inr (out', db2)"
    and o3: "persist_trade (ev_nc e) out' db2 = Inr db3"
    and o4: "persist_cash (ev_nc e) now (er_AccountID req) out' db3 = Inr db4"
    and db': "db' = best_effort db4 (RecordPaperAccountEquitySnapshot e sid now (er_AccountID req) (pa_UserID a) db4)"
    and "res = result_of_outcome out'"
    by (rule Execute_Inr [OF assms(1)])
  have "db_accounts db3 = db_accounts db"
    using o1 persist_position_Inr [OF o2] o3 by (auto simp: CreatePaperOrder_Inr persist_trade_def CreatePaperTrade_Inr split: option.splits)
  note acc = this
  have "stored_balances (ev_nc e) db4"
  proof (cases "fo_NewCashBalance out'")
    case None
    then show ?thesis using o4 assms(2) acc by (simp add: persist_cash_def stored_balances_def)
  next
    case (Some c)
    then obtain c' where c: "nc_write (ev_nc e) c = Some c'" "db4 = set_cash (er_AccountID req) c' now db3"
      using o4 by (auto simp: persist_cash_def ebind_Inr_iff write_num_Inr)
    show ?thesis using assms(2) column_valueI [OF c(1)] by (auto simp: c(2) acc set_cash_def stored_balances_def stored_account_def)
  qed
  then show ?thesis by (simp add: db' stored_balances_def)
qed

lemma stored_reset:
  "ResetPaperAccount e now rid user nb db = Inr (a, db') \<Longrightarrow> stored_balances (ev_nc e) db \<Longrightarrow> stored_balances (ev_nc e) db'"
  by (auto simp: ResetPaperAccount_def Let_def delete_account_rows_def ebind_Inr_iff write_num_Inr stored_balances_def stored_account_def
      split: option.splits; rule column_valueI, assumption)

lemma store_step_stored: "store_step e db db' \<Longrightarrow> stored_balances (ev_nc e) db \<Longrightarrow> stored_balances (ev_nc e) db'"
proof (induction rule: store_step.induct)
  case (create sid now a db db')
  then show ?case by (rule stored_create)
next
  case (execute ids sid now req db res db')
  then show ?case by (rule stored_execute)
next
  case (mark p db db')
  then show ?case by (auto simp: UpdatePaperPositionMark_def ebind_Inr_iff stored_balances_def)
next
  case (snapshot sid now rid user db db')
  then have "db_accounts db' = db_accounts db"
    using best_effort_snapshot_frame(1) [of db e sid now rid user] by (simp add: best_effort_def)
  then show ?case using snapshot by (simp add: stored_balances_def)
next
  case (update now a db db')
  then show ?case unfolding UpdatePaperAccount_def
    by (elim stored_update) (auto simp: ebind_Inr_iff write_num_Inr stored_account_def dest: column_valueI)
next
  case (status now rid user st db db')
  then show ?case unfolding UpdatePaperAccountStatus_def by (elim stored_update) (auto simp: stored_account_def)
next
  case (reset now rid user nb db a db')
  then show ?case by (rule stored_reset)
next
  case (delete rid user db db')
  then show ?case by (auto simp: DeletePaperAccount_def stored_balances_def split: if_splits)
qed (simp add: stored_balances_def)

subsection \<open>Reachable states\<close>

text \<open>
  The opening and closing of a paper account, which \<open>Tenancy\<close> takes as bare steps, are requests here, and the deletion of
  a user writes both sides; so what is left of its steps keeps the list of paper accounts.
\<close>

inductive world_step :: "'tz store_env \<Rightarrow> pworld \<Rightarrow> pworld \<Rightarrow> bool" for e where
  asked: "dk_store (pn_desk env) = e \<Longrightarrow> world_step e w (serve_paper env uid rq w)"
| traded: "store_step e (books w) db \<Longrightarrow> owner_view db = owner_view (pw_books w) \<Longrightarrow> world_step e w (w\<lparr>pw_books := db\<rparr>)"
| elsewhere: "sys_step (pw_api w) a \<Longrightarrow> ad_papers (aw_db a) = ad_papers (aw_db (pw_api w)) \<Longrightarrow> world_step e w (w\<lparr>pw_api := a\<rparr>)"
| erased: "AdminDeleteUser api adminID uid (pw_api w) = (Inr (), a) \<Longrightarrow>
    world_step e w (w\<lparr>pw_api := a, pw_books := erase_user uid (pw_books w)\<rparr>)"
| logged: "world_step e w (w\<lparr>pw_log := rows\<rparr>)"

inductive world_reachable :: "'tz store_env \<Rightarrow> pworld \<Rightarrow> bool" for e where
  start: "ad_users (aw_db a) = [] \<Longrightarrow> ad_webhooks (aw_db a) = [] \<Longrightarrow> ad_creds (aw_db a) = [] \<Longrightarrow> ad_papers (aw_db a) = [] \<Longrightarrow>
    world_reachable e \<lparr> pw_api = a, pw_books = \<lparr>db_accounts = [], db_orders = [], db_positions = [], db_trades = [],
      db_snapshots = [], db_profiles = ps, db_instruments = is, db_hooks = []\<rparr>, pw_log = rows \<rparr>"
| step: "world_reachable e w \<Longrightarrow> world_step e w w' \<Longrightarrow> world_reachable e w'"

subsection \<open>The invariant\<close>

definition papers_linked :: "pworld \<Rightarrow> bool" where
  "papers_linked w = (ad_papers (aw_db (pw_api w)) = owner_view (pw_books w))"

definition world_ok :: "'tz store_env \<Rightarrow> pworld \<Rightarrow> bool" where
  "world_ok e w = (sound (aw_db (pw_api w)) \<and> papers_linked w \<and> db_ok (books w) \<and> stored_balances (ev_nc e) (books w))"

lemma books_fields [simp]:
  "owner_view (books w) = owner_view (pw_books w)" "db_hooks (books w) = hook_view (aw_db (pw_api w))"
  "GetPaperAccount (books w) aid = GetPaperAccount (pw_books w) aid" "account_rows aid (books w) = account_rows aid (pw_books w)"
  "ledger_gap (books w) r = ledger_gap (pw_books w) r" "db_accounts (books w) = db_accounts (pw_books w)"
  by (simp_all add: books_def owner_view_def GetPaperAccount_def account_rows_def ledger_gap_def)

lemma hook_view_papers [simp]: "hook_view (db\<lparr>ad_papers := ps\<rparr>) = hook_view db"
  by (simp add: hook_view_def)

text \<open>What writing the paper tables leaves in each of the two views.\<close>

lemma with_books_views:
  assumes "db_hooks db = hook_view (aw_db (pw_api w))"
  shows "books (with_books db w) = db" "books (log_action uid act (with_books db w)) = db"
    "pw_books (with_books db w) = db" "pw_books (log_action uid act (with_books db w)) = db"
    "aw_db (pw_api (with_books db w)) = (aw_db (pw_api w))\<lparr>ad_papers := owner_view db\<rparr>"
    "aw_db (pw_api (log_action uid act (with_books db w))) = (aw_db (pw_api w))\<lparr>ad_papers := owner_view db\<rparr>"
  using assms by (simp_all add: books_def with_books_def log_action_def)

text \<open>A request is nothing or a step of the owner, and both views show the tables after it.\<close>

lemma serve_paper_own:
  assumes "db_ok (books w)"
  obtains (none) "serve_paper env uid rq w = w"
  | (own) "own_paper (dk_store (pn_desk env)) uid (closes rq) (books w) (pw_books (serve_paper env uid rq w))"
      "books (serve_paper env uid rq w) = pw_books (serve_paper env uid rq w)"
      "aw_db (pw_api (serve_paper env uid rq w)) =
         (aw_db (pw_api w))\<lparr>ad_papers := owner_view (pw_books (serve_paper env uid rq w))\<rparr>"
proof (cases "serve_paper env uid rq w = w")
  case False
  then obtain db act where db: "own_paper (dk_store (pn_desk env)) uid (closes rq) (books w) db"
    "serve_paper env uid rq w = with_books db w \<or> serve_paper env uid rq w = log_action uid act (with_books db w)"
    using serve_paper_written [of env uid rq w] unfolding paper_written_def by blast
  have "db_hooks db = hook_view (aw_db (pw_api w))" using own_paper_keeps(2) [OF db(1) assms] by simp
  then show ?thesis using own db with_books_views [of db w] by metis
qed (rule none)

lemma world_ok_db: "world_ok e w \<Longrightarrow> db_ok (books w)"
  by (simp add: world_ok_def)

lemma world_ok_books:
  "world_ok e w \<longleftrightarrow> sound (aw_db (pw_api w)) \<and> papers_linked w \<and> db_ok (pw_books w) \<and> stored_balances (ev_nc e) (pw_books w)"
  by (simp add: world_ok_def books_def db_ok_def account_ids_def stored_balances_def)

lemma world_ok_asked:
  assumes "world_ok e w" "dk_store (pn_desk env) = e"
  shows "world_ok e (serve_paper env uid rq w)"
  using world_ok_db [OF assms(1)]
proof (cases rule: serve_paper_own [where env = env and uid = uid and rq = rq])
  case own
  let ?w = "serve_paper env uid rq w"
  have ok: "sound (aw_db (pw_api w))" "ad_papers (aw_db (pw_api w)) = owner_view (pw_books w)" "db_ok (books w)"
      "stored_balances (ev_nc e) (books w)"
    using assms(1) by (simp_all add: world_ok_def papers_linked_def)
  have "db_ok (books ?w) \<and> stored_balances (ev_nc e) (books ?w)"
    using own_paper_step [OF own(1)] ok(3,4) db_ok_step store_step_stored assms(2) own(2) by metis
  moreover have "(aid, wh_UserID x) \<in> set (owner_view (pw_books ?w))"
    if "x \<in> set (ad_webhooks (aw_db (pw_api w)))" "wh_PaperAccountID x = Some aid" for x aid
  proof (rule own_paper_keeps(4) [OF own(1) world_ok_db [OF assms(1)]])
    show "(aid, wh_UserID x) \<in> set (owner_view (books w))"
      using ok(1,2) that by (auto simp: sound_def tenant_ok_def list_all_iff same_owner_def)
    show "Some aid \<in> snd ` set (db_hooks (books w))" using that by (force simp: hook_view_def)
  qed
  then have "sound (aw_db (pw_api ?w))" unfolding own(3) using sound_papers [OF ok(1) _ refl] by blast
  ultimately show ?thesis by (simp add: world_ok_def papers_linked_def own(3))
qed (simp add: assms(1))

lemma world_ok_erased:
  assumes "world_ok e w" "AdminDeleteUser api adminID uid (pw_api w) = (Inr (), a)"
  shows "world_ok e (w\<lparr>pw_api := a, pw_books := erase_user uid (pw_books w)\<rparr>)"
proof -
  have d: "DeleteUser uid (aw_db (pw_api w)) = Inr (aw_db a)"
    using assms(2) by (auto simp: AdminDeleteUser_def ustmt_def split: sum.splits prod.splits if_splits)
  have ok: "sound (aw_db (pw_api w))" "ad_papers (aw_db (pw_api w)) = owner_view (pw_books w)" "db_ok (pw_books w)"
      "stored_balances (ev_nc e) (pw_books w)"
    using assms(1) by (simp_all add: world_ok_books papers_linked_def)
  have "sound (aw_db a)" by (rule sound_DeleteUser [OF ok(1) d])
  moreover have "ad_papers (aw_db a) = owner_view (erase_user uid (pw_books w))"
    using DeleteUser_Inr [OF d] ok(2) by (simp add: without_user_def erase_user_views)
  moreover have "stored_balances (ev_nc e) (erase_user uid (pw_books w))"
    using ok(4) erase_user_views(3) [of uid "pw_books w"] by (auto simp: stored_balances_def)
  ultimately show ?thesis using db_ok_erase_user [OF ok(3)] by (simp add: world_ok_books papers_linked_def)
qed

lemma world_ok_step: "world_step e w w' \<Longrightarrow> world_ok e w \<Longrightarrow> world_ok e w'"
proof (induction rule: world_step.induct)
  case (asked env w uid rq)
  then show ?case using world_ok_asked by blast
next
  case (traded w db)
  have "db_ok db \<and> stored_balances (ev_nc e) db"
    using db_ok_step [OF traded(1)] store_step_stored [OF traded(1)] traded(3) by (simp add: world_ok_def)
  then show ?case using traded(2,3) by (simp add: world_ok_books papers_linked_def)
next
  case (elsewhere w a)
  then show ?case by (auto simp: world_ok_books papers_linked_def intro: sys_step_sound)
next
  case (erased api adminID uid w a)
  then show ?case using world_ok_erased by blast
qed (simp add: world_ok_books papers_linked_def)

lemma world_reachable_ok: "world_reachable e w \<Longrightarrow> world_ok e w"
proof (induction rule: world_reachable.induct)
  case (start a ps ins rows)
  then show ?case
    by (simp add: world_ok_books papers_linked_def owner_view_def db_ok_def stored_balances_def sound_iff users_ok_def hooks_ok_def creds_ok_def refs_ok_def)
qed (rule world_ok_step)

subsection \<open>Properties\<close>

text \<open>
  C10. A webhook that trades on paper finds its account, and the account is its owner's. In every state that requests, fills,
  jobs, billing and the administrator lead to, the deletion of users with their paper accounts included, the account a webhook
  names is a row of the paper tables, whose user is the webhook's; and the paper tables are whole: keys are unique, and every
  order, position, trade and snapshot is of an account that exists, every trade of an order of its account.
\<close>

theorem paper_destination_exists:
  assumes "world_reachable e w" "wh \<in> set (ad_webhooks (aw_db (pw_api w)))" "wh_PaperAccountID wh = Some aid"
  shows "db_ok (books w) \<and> (\<exists>a. GetPaperAccount (pw_books w) aid = Some a \<and> pa_UserID a = wh_UserID wh)"
proof -
  have ok: "sound (aw_db (pw_api w))" "ad_papers (aw_db (pw_api w)) = owner_view (pw_books w)" "db_ok (books w)"
    using world_reachable_ok [OF assms(1)] by (simp_all add: world_ok_def papers_linked_def)
  then have "(aid, wh_UserID wh) \<in> set (owner_view (pw_books w))"
    using assms(2,3) by (auto simp: sound_def tenant_ok_def list_all_iff same_owner_def)
  then obtain a where a: "a \<in> set (db_accounts (books w))" "pa_ID a = aid" "pa_UserID a = wh_UserID wh"
    by (auto simp: owner_view_def)
  have "\<exists>b. GetPaperAccount (books w) aid = Some b"
    using a(1,2) by (cases "GetPaperAccount (books w) aid") (auto simp: GetPaperAccount_def find_None_iff)
  then obtain b where b: "GetPaperAccount (books w) aid = Some b" by blast
  have "a = b" by (rule GetPaperAccount_unique [OF ok(3) b a(1,2)])
  then show ?thesis using ok(3) a(3) b by simp
qed

text \<open>
  C11. A user's requests never touch another user's paper account. Whatever is asked, and whether it succeeds or fails,
  the account of another user, its orders, positions, trades and snapshots are the same rows after it, and so are all
  users, webhooks, credentials and settings.
\<close>

theorem paper_users_isolated:
  assumes "world_reachable e w" "GetPaperAccount (pw_books w) aid = Some b" "pa_UserID b \<noteq> uid"
  shows "account_rows aid (pw_books (serve_paper env uid rq w)) = account_rows aid (pw_books w) \<and>
    (\<exists>ps. aw_db (pw_api (serve_paper env uid rq w)) = (aw_db (pw_api w))\<lparr>ad_papers := ps\<rparr>)"
  using world_ok_db [OF world_reachable_ok [OF assms(1)]]
proof (cases rule: serve_paper_own [where env = env and uid = uid and rq = rq])
  case none
  then show ?thesis by (intro conjI exI [of _ "ad_papers (aw_db (pw_api w))"]) simp_all
next
  case own
  have "account_rows aid (pw_books (serve_paper env uid rq w)) = account_rows aid (books w)"
    by (rule own_paper_keeps(3) [OF own(1) world_ok_db [OF world_reachable_ok [OF assms(1)]] _ assms(3)]) (simp add: assms(2))
  then have "account_rows aid (pw_books (serve_paper env uid rq w)) = account_rows aid (pw_books w)" by simp
  then show ?thesis using own(3) by blast
qed

text \<open>
  A column reads back what was read from it: writing a value of the column again changes nothing. PostgreSQL rounds a double to
  eight decimals, and the shortest decimal of a value it returned has no more of them. A value that does not fit a second time
  is an error, and then nothing is written.
\<close>

definition columns_stable :: "numeric_cols \<Rightarrow> bool" where
  "columns_stable nc = (\<forall>x y z. nc_write nc x = Some y \<longrightarrow> nc_write nc y = Some z \<longrightarrow> z = y)"

lemma ledger_update_stored:
  assumes "db_ok db" "columns_stable (ev_nc e)" "stored_balances (ev_nc e) db" "GetPaperAccount db (pa_ID a) = Some old"
    and "balances_kept old a" "UpdatePaperAccount (ev_nc e) now a db = Inr db'"
  shows "ledger_gap db' r = ledger_gap db r"
  using assms(6) unfolding UpdatePaperAccount_def
proof (rule ledger_accounts_only)
  fix x row
  assume x: "x \<in> set (db_accounts db)" "pa_ID x = pa_ID a"
    and "ebind (write_num (ev_nc e) (pa_StartingBalance a)) (\<lambda>s. ebind (write_num (ev_nc e) (pa_CashBalance a)) (\<lambda>c.
           Inr (x\<lparr>pa_Label := pa_Label a, pa_DefaultProduct := pa_DefaultProduct a,
                  pa_StartingBalance := s, pa_CashBalance := c, pa_UpdatedAt := now\<rparr>))) = Inr row"
  then obtain s c where w: "nc_write (ev_nc e) (pa_StartingBalance a) = Some s" "nc_write (ev_nc e) (pa_CashBalance a) = Some c"
      "pa_ID row = pa_ID x" "pa_StartingBalance row = s" "pa_CashBalance row = c"
    by (auto simp: ebind_Inr_iff write_num_Inr)
  have old: "old = x" using GetPaperAccount_unique [OF assms(1,4) x(1)] x(2) by simp
  have "stored_account (ev_nc e) x" using assms(3) x(1) by (simp add: stored_balances_def)
  then have same: "s = pa_StartingBalance x \<and> c = pa_CashBalance x"
    if "pa_StartingBalance a = pa_StartingBalance x" "pa_CashBalance a = pa_CashBalance x"
    using assms(2) w(1,2) that unfolding columns_stable_def stored_account_def column_value_def by metis
  show "account_net r row = account_net r x"
    using assms(5) w same unfolding old balances_kept_def account_net_def by auto
qed

lemma own_paper_gap:
  assumes "own_paper e uid False db db'" "db_ok db" "columns_stable (ev_nc e)" "stored_balances (ev_nc e) db" "ledger_gap db r = 0"
  shows "ledger_gap db' r = 0"
  using assms(1)
proof (cases rule: own_paper.cases)
  case (opened sid now a)
  then show ?thesis using ledger_create assms(5) by metis
next
  case (changed a old now)
  show ?thesis using ledger_update_stored [OF assms(2-4) changed(1,3,4)] assms(5) by simp
next
  case (paused aid now st)
  then show ?thesis using ledger_status assms(5) by metis
next
  case (reset aid now nb a)
  then show ?thesis using ledger_reset [OF assms(2) _ assms(5)] by blast
next
  case (deleted aid)
  then show ?thesis using ledger_delete [OF assms(2) _ assms(5)] by blast
qed (use assms(5) in simp_all)

text \<open>
  C12. Opening, changing, resetting, pausing or deleting a paper account makes or loses no money. In any state the platform
  reaches, whatever the amounts, if the books of an account balance (cash and positions at cost against the starting balance,
  profits and fees), they balance after such a request of any user: an edit of the balance is taken only while the cash equals
  the starting balance and sets both alike, and a reset clears all that the balance was made of. The request that closes a
  position is an order, whose fill is accounted for with the engine. Assumed is that a column reads back what was read from it.
\<close>

theorem paper_request_balances:
  assumes "world_reachable (dk_store (pn_desk env)) w" "columns_stable (ev_nc (dk_store (pn_desk env)))"
    and "\<not> closes rq" "ledger_gap (pw_books w) r = 0"
  shows "ledger_gap (pw_books (serve_paper env uid rq w)) r = 0"
  using world_ok_db [OF world_reachable_ok [OF assms(1)]]
proof (cases rule: serve_paper_own [where env = env and uid = uid and rq = rq])
  case own
  have ok: "db_ok (books w)" "stored_balances (ev_nc (dk_store (pn_desk env))) (books w)"
    using world_reachable_ok [OF assms(1)] by (simp_all add: world_ok_def)
  show ?thesis by (rule own_paper_gap [OF _ ok(1) assms(2) ok(2)]) (use own(1) assms(3,4) in simp_all)
qed (use assms(4) in simp)

text \<open>
  The plan's limit of paper accounts is kept at the door. When the creation of an account succeeds, the account is new,
  active, and holds its starting balance in cash; the user has one account more than before, and not more than the
  plan that the user's row names allows.
\<close>

theorem paper_accounts_capped:
  assumes "CreatePaperAccount_api env uid body w = (Inr a, w')"
  shows "\<exists>u row. GetUserByID (aw_db (pw_api w)) uid = Some u \<and>
    CountPaperAccountsByUser (pw_books w') uid = CountPaperAccountsByUser (pw_books w) uid + 1 \<and>
    CountPaperAccountsByUser (pw_books w') uid \<le> MaxPaperAccounts (LimitsFor (EffectivePlan (u_Plan u))) \<and>
    db_accounts (pw_books w') = db_accounts (pw_books w) @ [row] \<and> pa_ID row = pa_ID a \<and> pa_UserID row = uid \<and>
    pa_Status row = ''active'' \<and> pa_CashBalance row = pa_StartingBalance row \<and> pa_ID a \<notin> pa_ID ` set (db_accounts (pw_books w))"
proof -
  obtain db where a: "new_paper_account env uid body w = Inr a"
    and db: "CreatePaperAccount (dk_store (pn_desk env)) (dr_snapshot (pn_draw env)) (dr_now (pn_draw env)) a (books w) = Inr db"
    and w': "w' = log_action uid ''paper_account_created'' (with_books db w)"
    using assms by (auto simp: CreatePaperAccount_api_def answer_def ebind_Inr_iff split: sum.splits)
  obtain u where u: "GetUserByID (aw_db (pw_api w)) uid = Some u"
      "CanAddPaperAccount (EffectivePlan (u_Plan u)) (CountPaperAccountsByUser (books w) uid) = None"
    using a by (auto simp: new_paper_account_def Let_def ebind_Inr_iff load_user_def split: option.splits if_splits)
  have f: "pa_UserID a = uid" "pa_CashBalance a = pa_StartingBalance a" "pa_Status a = ''active''"
    using a by (auto simp: new_paper_account_def Let_def ebind_Inr_iff split: option.splits if_splits)
  obtain row where row: "encode_account (ev_nc (dk_store (pn_desk env))) a = Inr row" "pa_ID row \<notin> pa_ID ` set (db_accounts (books w))"
      "db_accounts db = db_accounts (books w) @ [row]"
    using db by (auto simp: CreatePaperAccount_def insert_account_def ebind_Inr_iff)
  have r: "pa_ID row = pa_ID a" "pa_UserID row = uid" "pa_Status row = ''active''" "pa_CashBalance row = pa_StartingBalance row"
    using row(1) f by (auto simp: encode_account_def ebind_Inr_iff write_num_Inr)
  have acc: "db_accounts (pw_books w') = db_accounts (pw_books w) @ [row]"
    using row(3) by (simp add: w' log_action_def with_books_def)
  then have n: "CountPaperAccountsByUser (pw_books w') uid = CountPaperAccountsByUser (pw_books w) uid + 1"
    using r(2) by (simp add: CountPaperAccountsByUser_def)
  moreover have "CountPaperAccountsByUser (pw_books w) uid < MaxPaperAccounts (LimitsFor (EffectivePlan (u_Plan u)))"
    using u(2) by (simp add: CanAddPaperAccount_def Let_def CountPaperAccountsByUser_def split: if_splits)
  ultimately show ?thesis using u(1) acc r row(2) by (intro exI [of _ u] exI [of _ row]) simp
qed

lemma Execute_other_position:
  assumes "db_ok db" "Execute e ids sid now req db = Inr (res, db')" "p \<in> set (db_positions db)" "er_Product req \<noteq> pp_Product p"
  shows "p \<in> set (db_positions db')"
proof -
  have "\<not> same_key req (pp_PaperAccountID p) (pp_Exchange p) (pp_Symbol p) (pp_Product p)" using assms(4) by (auto simp: same_key_def)
  then have "GetPaperPosition db' (pp_PaperAccountID p) (pp_Exchange p) (pp_Symbol p) (pp_Product p) = Some p"
    using execute_effects_aux [OF assms(1,2)] own_key_lookup [OF assms(1,3)] by (elim exE conjE) metis
  then show ?thesis by (auto simp: GetPaperPosition_def find_Some_iff)
qed

lemma close_request_product:
  "close_request env db a p signal h now = Inr req \<Longrightarrow> er_Product req = close_product a p"
  by (auto simp: close_request_def Let_def ebind_Inr_iff split: if_splits)

text \<open>
  The close of the API only reaches positions of the account's default product. A position of another product stays as it
  is, whatever symbol is asked for; since the default product can be changed at any time, an open position can be put out of
  its owner's reach.
\<close>

theorem close_needs_default_product:
  assumes "world_reachable e w" "GetPaperAccount (pw_books w) aid = Some a" "isValidProduct (pa_DefaultProduct a)"
    "p \<in> set (db_positions (pw_books w))" "pp_Product p \<noteq> pa_DefaultProduct a"
  shows "p \<in> set (db_positions (pw_books (snd (ClosePaperPosition env uid aid s w))))"
proof (cases "position_to_close env uid aid s (books w)")
  case (Inl er)
  then show ?thesis using assms(4) by (simp add: ClosePaperPosition_def)
next
  case (Inr y)
  obtain b q where y: "y = (b, q)" by fastforce
  have b: "b = a" "pp_Product q = pa_DefaultProduct a"
    using position_to_close_Inr [OF Inr [unfolded y]] assms(2)
    by (auto simp: access_Inr GetPaperPosition_def find_Some_iff position_matches_def)
  have q: "close_product a q = pa_DefaultProduct a"
    using assms(3) b(2) by (auto simp: close_product_def isValidProduct_def trim_space_def is_space_def)
  obtain r db where f: "FlattenPosition (pn_desk env) (pn_draw env) a q True (books w) = (r, db)" by fastforce
  have p: "p \<in> set (db_positions (books w))" using assms(4) by (simp add: books_def)
  have "p \<in> set (db_positions db')"
    if "close_request (pn_desk env) (books w) a q (dr_signal (pn_draw env)) True (dr_now (pn_draw env)) = Inr req"
      "Execute (dk_store (pn_desk env)) (dr_ids (pn_draw env)) (dr_snapshot (pn_draw env)) (dr_now (pn_draw env)) req (books w) = Inr (res, db')"
    for req res db'
    by (rule Execute_other_position [OF world_ok_db [OF world_reachable_ok [OF assms(1)]] that(2) p])
      (use close_request_product [OF that(1)] q assms(5) in simp)
  then have "p \<in> set (db_positions db)" using f p by (auto simp: FlattenPosition_def split: sum.splits prod.splits)
  then show ?thesis using Inr f y b(1)
    by (auto simp: ClosePaperPosition_def with_books_def log_action_def split: sum.splits)
qed

subsection \<open>A platform with an account and a position\<close>

definition paper_env :: "unit penv" where
  "paper_env = \<lparr> pn_api = acct_env\<lparr>an_newID := ''acc''\<rparr>, pn_desk = sample_desk, pn_draw = sample_draw, pn_text = (\<lambda>_. ''store''),
     pn_collate = (\<lambda>_. 0) \<rparr>"

definition paper_start :: pworld where
  "paper_start = \<lparr> pw_api = one_user, pw_books = desk_start (Fin 0), pw_log = [] \<rparr>"

definition paper_create :: create_paper where
  "paper_create = \<lparr> cp_Label = '' main '', cp_StartingBalance = Fin 100000, cp_Exchange = [], cp_DefaultProduct = [], cp_MarketProfile = [] \<rparr>"

definition opened_account :: paper_account where
  "opened_account = \<lparr> pa_ID = ''acc'', pa_UserID = ''u'', pa_Label = ''main'', pa_MarketProfile = ''indian_equity'',
     pa_BaseCurrency = ''INR'', pa_StartingBalance = Fin 100000, pa_CashBalance = Fin 100000, pa_Exchange = ''NSE'', pa_DefaultProduct = ''MIS'',
     pa_Status = ''active'', pa_CreatedAt = 1000, pa_UpdatedAt = 1000 \<rparr>"

definition opened_books :: paper_db where
  "opened_books = (desk_start (Fin 0))\<lparr> db_accounts := [opened_account],
     db_snapshots := [\<lparr> sn_ID = ''s2'', sn_UserID = ''u'', sn_PaperAccountID = ''acc'', sn_Equity = Fin 100000,
       sn_CashBalance = Fin 100000, sn_UnrealizedPnL = 0, sn_RealizedPnL = 0, sn_CreatedAt = 2 \<rparr>] \<rparr>"

definition paper_opened :: pworld where
  "paper_opened = log_action ''u'' ''paper_account_created'' (with_books opened_books paper_start)"

definition bought_books :: paper_db where
  "bought_books = (book_rows 0 (Fin 150) (Fin 99550))
     \<lparr> db_accounts := [opened_account\<lparr>pa_CashBalance := Fin 99550, pa_UpdatedAt := 1\<rparr>],
       db_snapshots := db_snapshots opened_books @
         [\<lparr> sn_ID = ''s1'', sn_UserID = ''u'', sn_PaperAccountID = ''acc'', sn_Equity = Fin 100000, sn_CashBalance = Fin 99550,
            sn_UnrealizedPnL = 0, sn_RealizedPnL = 0, sn_CreatedAt = 1 \<rparr>] \<rparr>"

definition paper_bought :: pworld where
  "paper_bought = paper_opened\<lparr>pw_books := bought_books\<rparr>"

definition changed_books :: paper_db where
  "changed_books = bought_books
     \<lparr> db_accounts := [opened_account\<lparr>pa_CashBalance := Fin 99550, pa_DefaultProduct := ''CNC'', pa_UpdatedAt := 2\<rparr>] \<rparr>"

definition paper_changed :: pworld where
  "paper_changed = log_action ''u'' ''paper_account_updated'' (with_books changed_books paper_bought)"

definition paper_hooked :: "cenv \<Rightarrow> pworld" where
  "paper_hooked c = paper_opened\<lparr>pw_api :=
     serve (c\<lparr>cn_api := acct_env\<rparr>) ''u'' (Create_Webhook (Some (paper_request\<lparr>cw_PaperAccountID := ''acc''\<rparr>))) (pw_api paper_opened)\<rparr>"

lemma paper_env_store: "dk_store (pn_desk paper_env) = sample_env"
  by (simp add: paper_env_def sample_desk_def)

lemma paper_start_reachable: "world_reachable e paper_start"
proof -
  let ?w = "\<lparr> pw_api = acct_world Tenancy.empty_db, pw_books = desk_start (Fin 0), pw_log = [] \<rparr>"
  have s: "world_reachable e ?w" unfolding desk_start_def PaperStore.empty_db_def paper_db.update_convs
    by (rule world_reachable.start) (simp_all add: acct_world_def Tenancy.empty_db_def)
  have "CreateUser (acct_user ''u'' ''free'') (aw_db (acct_world Tenancy.empty_db)) = Inr (aw_db one_user)" by code_simp
  then have "sys_step (acct_world Tenancy.empty_db) ((acct_world Tenancy.empty_db)\<lparr>aw_db := aw_db one_user\<rparr>)" by (rule sys_step.new_user)
  then have "sys_step (pw_api ?w) one_user" by (simp add: one_user_def acct_world_def)
  then have "world_step e ?w (?w\<lparr>pw_api := one_user\<rparr>)"
    by (rule world_step.elsewhere) (simp add: one_user_def acct_world_def Tenancy.empty_db_def)
  then show ?thesis using world_reachable.step [OF s] by (simp add: paper_start_def)
qed

text \<open>The account is opened by a request.\<close>

lemma no_hooks: "hook_view (aw_db (pw_api paper_start)) = []"
  by (simp add: hook_view_def paper_start_def one_user_def acct_world_def Tenancy.empty_db_def)

lemma books_start: "books paper_start = desk_start (Fin 0)"
  unfolding books_def no_hooks by (simp add: paper_start_def desk_start_def PaperStore.empty_db_def)

lemma books_opened: "books paper_opened = opened_books"
  using no_hooks by (simp add: books_def paper_opened_def log_action_def with_books_def opened_books_def desk_start_def PaperStore.empty_db_def)

lemma books_bought: "books paper_bought = bought_books"
  using no_hooks by (simp add: books_def paper_bought_def paper_opened_def log_action_def with_books_def bought_books_def book_rows_def
      desk_start_def PaperStore.empty_db_def)

lemma opened_by_request: "CreatePaperAccount_api paper_env ''u'' (Some paper_create) paper_start = (Inr opened_account, paper_opened)"
proof -
  have a: "new_paper_account paper_env ''u'' (Some paper_create) paper_start = Inr opened_account" by code_simp
  have db: "CreatePaperAccount sample_env (dr_snapshot sample_draw) (dr_now sample_draw) opened_account (desk_start (Fin 0)) = Inr opened_books"
    by code_simp
  show ?thesis unfolding CreatePaperAccount_api_def a books_start saved_def
    by (simp add: db must_def answer_def paper_opened_def paper_env_def acct_env_def sample_desk_def)
qed

lemma paper_opened_reachable: "world_reachable sample_env paper_opened"
  using world_reachable.step [OF paper_start_reachable world_step.asked [OF paper_env_store, of paper_start "''u''" "Create_Paper (Some paper_create)"]]
    opened_by_request by simp

lemma serve_keeps_papers: "sound (aw_db w) \<Longrightarrow> ad_papers (aw_db (serve env uid rq w)) = ad_papers (aw_db w)"
  using own_step_others [OF serve_own] unfolding others_view_def prod.inject by blast

lemma paper_hooked_reachable: "world_reachable sample_env (paper_hooked c)"
proof -
  have "sound (aw_db (pw_api paper_opened))" using world_reachable_ok [OF paper_opened_reachable] by (simp add: world_ok_def)
  then show ?thesis unfolding paper_hooked_def
    by (intro world_reachable.step [OF paper_opened_reachable world_step.elsewhere [OF sys_step.request]] serve_keeps_papers)
qed

lemma paper_hooked_rows:
  "map (\<lambda>h. (wh_UserID h, wh_PaperAccountID h)) (ad_webhooks (aw_db (pw_api (paper_hooked c)))) = [(''u'', Some ''acc'')]"
  unfolding paper_hooked_def by simp code_simp

lemma paper_bought_reachable: "world_reachable sample_env paper_bought"
proof -
  let ?buy = "(sample_request ''BUY'' 3)\<lparr>er_Price := Fin 150, er_SlippageBps := 0, er_FeeBps := 0\<rparr>"
  have "case Execute sample_env sample_ids ''s1'' 1 ?buy opened_books of Inl _ \<Rightarrow> False | Inr (_, db) \<Rightarrow> db = bought_books" by code_simp
  then obtain res where e: "Execute sample_env sample_ids ''s1'' 1 ?buy (books paper_opened) = Inr (res, bought_books)"
    by (auto simp: books_opened split: sum.splits)
  have "owner_view bought_books = owner_view (pw_books paper_opened)"
    using execute_rows(1) [OF e world_ok_db [OF world_reachable_ok [OF paper_opened_reachable]]] by simp
  then have "world_step sample_env paper_opened paper_bought"
    unfolding paper_bought_def by (rule world_step.traded [OF store_step.execute [OF e]])
  then show ?thesis by (rule world_reachable.step [OF paper_opened_reachable])
qed

lemma changed_by_request:
  "serve_paper paper_env ''u''
     (Update_Paper ''acc'' (Some \<lparr> up_Label = None, up_DefaultProduct = Some ''cnc'', up_StartingBalance = None \<rparr>)) paper_bought = paper_changed"
proof -
  let ?a = "opened_account\<lparr>pa_CashBalance := Fin 99550, pa_UpdatedAt := 1\<rparr>"
  have r: "requirePaperAccountAccess paper_env ''u'' ''acc'' bought_books = Inr ?a" by code_simp
  have c: "changed_account \<lparr> up_Label = None, up_DefaultProduct = Some ''cnc'', up_StartingBalance = None \<rparr> ?a =
      Inr (?a\<lparr>pa_DefaultProduct := ''CNC''\<rparr>)" by code_simp
  have u: "UpdatePaperAccount (ev_nc sample_env) (dr_now sample_draw) (?a\<lparr>pa_DefaultProduct := ''CNC''\<rparr>)
      bought_books = Inr changed_books" by code_simp
  show ?thesis unfolding serve_paper.simps UpdatePaperAccount_api_def books_bought on_account_def
    by (simp only: r ebind_simps option.case) (simp only: c ebind_simps, simp add: u must_def answer_def paper_changed_def paper_env_def acct_env_def sample_desk_def)
qed

lemma paper_changed_reachable: "world_reachable sample_env paper_changed"
  using world_reachable.step [OF paper_bought_reachable world_step.asked [OF paper_env_store]] changed_by_request by metis

lemma paper_changed_rows:
  "map (\<lambda>a. (pa_ID a, pa_UserID a, pa_DefaultProduct a)) (db_accounts (pw_books paper_changed)) = [(''acc'', ''u'', ''CNC'')]"
  "map (\<lambda>p. (pp_Symbol p, pp_Quantity p, pp_Product p)) (db_positions (pw_books paper_changed)) = [(''INFY'', Fin 3, ''MIS'')]"
  by (simp_all add: paper_changed_def log_action_def with_books_def changed_books_def bought_books_def book_rows_def opened_account_def)

theorem paper_destination_exists_witness:
  "\<forall>c. \<exists>wh a. ad_webhooks (aw_db (pw_api (paper_hooked c))) = [wh] \<and> wh_PaperAccountID wh = Some ''acc'' \<and>
     GetPaperAccount (pw_books (paper_hooked c)) ''acc'' = Some a \<and> pa_UserID a = wh_UserID wh"
proof
  fix c :: cenv
  obtain wh where wh: "ad_webhooks (aw_db (pw_api (paper_hooked c))) = [wh]" "wh_PaperAccountID wh = Some ''acc''"
    using paper_hooked_rows [of c] by auto
  then show "\<exists>wh a. ad_webhooks (aw_db (pw_api (paper_hooked c))) = [wh] \<and> wh_PaperAccountID wh = Some ''acc'' \<and>
     GetPaperAccount (pw_books (paper_hooked c)) ''acc'' = Some a \<and> pa_UserID a = wh_UserID wh"
    using paper_destination_exists [OF paper_hooked_reachable, of wh c "''acc''"] by auto
qed

theorem paper_users_isolated_witness:
  "length (db_positions (pw_books paper_changed)) = 1 \<and>
   account_rows ''acc'' (pw_books (serve_paper paper_env ''v'' (Reset_Paper ''acc'' (Some None)) paper_changed)) =
   account_rows ''acc'' (pw_books paper_changed)"
proof -
  obtain a where a: "db_accounts (pw_books paper_changed) = [a]" "pa_ID a = ''acc''" "pa_UserID a = ''u''"
    using paper_changed_rows(1) by auto
  have "length (db_positions (pw_books paper_changed)) = 1" using paper_changed_rows(2) by auto
  moreover have "GetPaperAccount (pw_books paper_changed) ''acc'' = Some a" using a by (simp add: GetPaperAccount_def)
  ultimately show ?thesis
    using paper_users_isolated [OF paper_changed_reachable, of "''acc''" a "''v''" paper_env "Reset_Paper ''acc'' (Some None)"] a(3) by simp
qed

theorem paper_request_balances_witness:
  "ledger_gap (pw_books (serve_paper paper_env ''u''
     (Update_Paper ''acc'' (Some \<lparr> up_Label = None, up_DefaultProduct = Some ''cnc'', up_StartingBalance = None \<rparr>)) paper_bought)) ''acc'' = 0"
proof (rule paper_request_balances)
  show "world_reachable (dk_store (pn_desk paper_env)) paper_bought" unfolding paper_env_store by (rule paper_bought_reachable)
  show "columns_stable (ev_nc (dk_store (pn_desk paper_env)))"
    unfolding paper_env_store by (simp add: columns_stable_def sample_env_def sample_nc_def)
  show "\<not> closes (Update_Paper ''acc'' (Some \<lparr> up_Label = None, up_DefaultProduct = Some ''cnc'', up_StartingBalance = None \<rparr>))"
    by (simp add: closes_def)
  have o: "pw_books paper_bought = bought_books" by (simp add: paper_bought_def)
  show "ledger_gap (pw_books paper_bought) ''acc'' = 0" unfolding o by code_simp
qed

theorem paper_accounts_capped_witness:
  "CreatePaperAccount_api paper_env ''u'' (Some paper_create) paper_start = (Inr opened_account, paper_opened) \<and>
     CountPaperAccountsByUser (pw_books paper_opened) ''u'' = 1 \<and> 1 \<le> MaxPaperAccounts (LimitsFor ''free'')"
proof -
  have u: "map_option u_Plan (GetUserByID (aw_db (pw_api paper_start)) ''u'') = Some ''free''"
    "CountPaperAccountsByUser (pw_books paper_start) ''u'' = 0" by code_simp+
  show ?thesis using paper_accounts_capped [OF opened_by_request] opened_by_request u by (auto simp: EffectivePlan_def)
qed

theorem close_needs_default_product_witness:
  "\<exists>p. db_positions (pw_books paper_changed) = [p] \<and> pp_Quantity p = Fin 3 \<and>
     p \<in> set (db_positions (pw_books (snd (ClosePaperPosition paper_env ''u'' ''acc'' (Some ''INFY'') paper_changed))))"
proof -
  obtain a where a: "db_accounts (pw_books paper_changed) = [a]" "pa_ID a = ''acc''" "pa_DefaultProduct a = ''CNC''"
    using paper_changed_rows(1) by auto
  obtain p where p: "db_positions (pw_books paper_changed) = [p]" "pp_Quantity p = Fin 3" "pp_Product p = ''MIS''"
    using paper_changed_rows(2) by auto
  have "GetPaperAccount (pw_books paper_changed) ''acc'' = Some a" using a by (simp add: GetPaperAccount_def)
  from close_needs_default_product [OF paper_changed_reachable this, of p paper_env "''u''" "Some ''INFY''"]
  show ?thesis using a(3) p by (auto simp: isValidProduct_def)
qed

end
