(* ===== verification/MarketAdmin.thy ===== *)
theory MarketAdmin
  imports PaperWorld
begin

section \<open>The administrator's market settings\<close>

text \<open>
  Models \<^verbatim>\<open>internal/modules/admin/market_profiles.go\<close>, the market data settings of \<^verbatim>\<open>internal/modules/admin/handler.go\<close>
  and the statements of \<^verbatim>\<open>internal/store/market_profiles.go\<close> and \<^verbatim>\<open>instruments.go\<close> they use. What a new instrument
  does to the requests of users is in \<open>SymbolRequests\<close>.
\<close>

subsection \<open>Statements\<close>

record 'tz menv =
  mn_paper :: "'tz penv"
  mn_bps :: "f64 \<Rightarrow> f64 option"
  mn_adminID :: string
  mn_provider :: string
  mn_interval :: int
  mn_fyers :: bool

definition UpdateMarketProfile :: "(f64 \<Rightarrow> f64 option) \<Rightarrow> int \<Rightarrow> market_profile \<Rightarrow> paper_db \<Rightarrow> store_err + paper_db" where
  "UpdateMarketProfile bps now mp db =
     ebind (col bps (mp_SlippageBps mp)) (\<lambda>slip.
     ebind (col bps (mp_FeeBps mp)) (\<lambda>fee.
     require (list_ex (\<lambda>p. mp_Code p = mp_Code mp) (db_profiles db)) ErrNoRows
       (db\<lparr>db_profiles := update_where (\<lambda>p. mp_Code p = mp_Code mp)
          (\<lambda>p. p\<lparr>mp_Name := mp_Name mp, mp_BaseCurrency := mp_BaseCurrency mp, mp_Timezone := mp_Timezone mp,
                mp_TradingDays := trading_hours_column (mp_TradingDays mp), mp_Active := mp_Active mp,
                mp_SlippageBps := slip, mp_FeeBps := fee, mp_UpdatedAt := now\<rparr>) (db_profiles db)\<rparr>)))"

definition ListInstruments :: "(string \<Rightarrow> nat) \<Rightarrow> paper_db \<Rightarrow> string \<Rightarrow> instrument list" where
  "ListInstruments collate db code =
     sort_key (\<lambda>i. if in_Active i then 0 else 1 :: nat) (sort_key (collate \<circ> in_Exchange) (sort_key (collate \<circ> in_Symbol)
       (filter (\<lambda>i. code = [] \<or> in_MarketProfileCode i = code) (db_instruments db))))"

definition instrument_key :: "instrument \<Rightarrow> string \<times> string \<times> string" where
  "instrument_key i = (in_MarketProfileCode i, in_Exchange i, in_Symbol i)"

definition CreateInstrument :: "instrument \<Rightarrow> paper_db \<Rightarrow> store_err + paper_db" where
  "CreateInstrument i db =
     ebind (require (in_ID i \<notin> set (map in_ID (db_instruments db)) \<and>
              instrument_key i \<notin> set (map instrument_key (db_instruments db))) ErrUniqueViolation ()) (\<lambda>_.
     require (in_MarketProfileCode i \<in> set (map mp_Code (db_profiles db))) ErrForeignKey
       (db\<lparr>db_instruments := db_instruments db @ [i]\<rparr>))"

definition UpdateInstrument :: "int \<Rightarrow> instrument \<Rightarrow> paper_db \<Rightarrow> store_err + paper_db" where
  "UpdateInstrument now i db =
     require (list_ex (\<lambda>r. in_ID r = in_ID i) (db_instruments db)) ErrNoRows
       (db\<lparr>db_instruments := update_where (\<lambda>r. in_ID r = in_ID i)
          (\<lambda>r. r\<lparr>in_Name := in_Name i, in_InstrumentType := in_InstrumentType i, in_TickSize := in_TickSize i,
                in_LotSize := in_LotSize i, in_Active := in_Active i, in_UpdatedAt := now\<rparr>) (db_instruments db)\<rparr>)"

subsection \<open>Market profiles\<close>

definition AdminListMarketProfiles :: "'tz menv \<Rightarrow> pworld \<Rightarrow> http_err + market_profile list" where
  "AdminListMarketProfiles env w =
     must (mn_paper env) ''ListMarketProfiles'' ''could not list market profiles''
       (ListMarketProfiles (pn_collate (mn_paper env)) (books w))"

record patch_profile =
  pr_BaseCurrency :: "string option"
  pr_Timezone :: "string option"
  pr_Active :: "bool option"
  pr_SlippageBps :: "f64 option"
  pr_FeeBps :: "f64 option"

definition bps_ok :: "string \<Rightarrow> f64 option \<Rightarrow> http_err + unit" where
  "bps_ok name x =
     (case x of None \<Rightarrow> Inr ()
      | Some v \<Rightarrow> ensure (\<not> (v < 0 \<or> Fin 1000 < v)) 400 (name @ '' must be between 0 and 1000''))"

definition changed_profile :: "zones \<Rightarrow> patch_profile \<Rightarrow> market_profile \<Rightarrow> http_err + market_profile" where
  "changed_profile zones body p =
     ebind (case pr_BaseCurrency body of None \<Rightarrow> Inr p
            | Some v \<Rightarrow> let bc = trim_space v in
                ebind (ensure (bc \<noteq> []) 400 ''base_currency cannot be empty'') (\<lambda>_. Inr (p\<lparr>mp_BaseCurrency := bc\<rparr>))) (\<lambda>p.
     ebind (case pr_Timezone body of None \<Rightarrow> Inr p
            | Some v \<Rightarrow> let tz = trim_space v in
                ebind (ensure (LoadLocation zones tz \<noteq> None) 400 (''invalid timezone: '' @ tz)) (\<lambda>_. Inr (p\<lparr>mp_Timezone := tz\<rparr>))) (\<lambda>p.
     let p = (case pr_Active body of None \<Rightarrow> p | Some v \<Rightarrow> p\<lparr>mp_Active := v\<rparr>) in
     ebind (bps_ok ''slippage_bps'' (pr_SlippageBps body)) (\<lambda>_.
     let p = (case pr_SlippageBps body of None \<Rightarrow> p | Some v \<Rightarrow> p\<lparr>mp_SlippageBps := v\<rparr>) in
     ebind (bps_ok ''fee_bps'' (pr_FeeBps body)) (\<lambda>_.
       Inr (case pr_FeeBps body of None \<Rightarrow> p | Some v \<Rightarrow> p\<lparr>mp_FeeBps := v\<rparr>)))))"

text \<open>A statement, with the answer to each of its errors.\<close>

definition market_stmt :: "'tz menv \<Rightarrow> string \<Rightarrow> string \<Rightarrow> (store_err \<Rightarrow> http_err) \<Rightarrow> store_err + 'a \<Rightarrow> http_err + 'a" where
  "market_stmt env name msg fail r =
     ebind (must (mn_paper env) name msg r) (\<lambda>r. (case r of Inr x \<Rightarrow> Inr x | Inl e \<Rightarrow> Inl (fail e)))"

definition set_books :: "paper_db \<Rightarrow> pworld \<Rightarrow> pworld" where
  "set_books db w = w\<lparr>pw_books := db\<rparr>"

definition AdminUpdateMarketProfile ::
  "'tz menv \<Rightarrow> string \<Rightarrow> patch_profile option \<Rightarrow> pworld \<Rightarrow> (http_err + market_profile) \<times> pworld" where
  "AdminUpdateMarketProfile env code body w = answer w
     (let missing = (404, ''market profile not found'') in
      ebind (must (mn_paper env) ''GetMarketProfileByCode'' ''lookup failed'' (GetMarketProfileByCode (books w) code)) (\<lambda>found.
      (case found of None \<Rightarrow> Inl missing
       | Some existing \<Rightarrow>
      (case body of None \<Rightarrow> Inl (400, ''invalid body'')
       | Some body \<Rightarrow>
      ebind (changed_profile (dk_zones (pn_desk (mn_paper env))) body existing) (\<lambda>p.
      ebind (market_stmt env ''UpdateMarketProfile'' ''could not update market profile''
        (\<lambda>e. if e = ErrNoRows then missing else (500, ''could not update market profile''))
        (UpdateMarketProfile (mn_bps env) (an_now (pn_api (mn_paper env))) p (books w))) (\<lambda>db.
        Inr (p, log_action (mn_adminID env) ''market_profile_updated'' (set_books db w))))))))"

subsection \<open>Instruments\<close>

definition AdminListInstruments :: "'tz menv \<Rightarrow> string \<Rightarrow> pworld \<Rightarrow> http_err + instrument list" where
  "AdminListInstruments env code w =
     must (mn_paper env) ''ListInstruments'' ''could not list instruments'' (ListInstruments (pn_collate (mn_paper env)) (books w) code)"

record create_instrument =
  ci_MarketProfileCode :: string
  ci_Exchange :: string
  ci_Symbol :: string
  ci_Name :: string
  ci_InstrumentType :: string
  ci_TickSize :: f64
  ci_LotSize :: f64
  ci_Active :: "bool option"

definition instrument_types :: "string list" where
  "instrument_types = [''EQUITY'', ''INDEX'', ''FUTURES'', ''OPTIONS'']"

definition type_ok :: "string \<Rightarrow> http_err + unit" where
  "type_ok t = ensure (List.member instrument_types t) 400 ''instrument_type must be one of: EQUITY, INDEX, FUTURES, OPTIONS''"

definition new_instrument :: "'tz menv \<Rightarrow> create_instrument option \<Rightarrow> paper_db \<Rightarrow> http_err + instrument" where
  "new_instrument env body db =
     (case body of None \<Rightarrow> Inl (400, ''invalid body'')
      | Some body \<Rightarrow>
     let api = pn_api (mn_paper env); code = trim_space (ci_MarketProfileCode body); exchange = to_upper (trim_space (ci_Exchange body));
         symbol = to_upper (trim_space (ci_Symbol body)); name = trim_space (ci_Name body) in
     ebind (ensure (\<not> (code = [] \<or> exchange = [] \<or> symbol = [] \<or> name = [])) 400
       ''market_profile_code, exchange, symbol, and name are required'') (\<lambda>_.
     ebind (must (mn_paper env) ''GetMarketProfileByCode'' ''lookup failed'' (GetMarketProfileByCode db code)) (\<lambda>profile.
     ebind (ensure (profile \<noteq> None) 400 (''unknown market_profile_code: '' @ code)) (\<lambda>_.
     let t = to_upper (trim_space (ci_InstrumentType body)); t = (if t = [] then ''EQUITY'' else t) in
     ebind (type_ok t) (\<lambda>_.
       Inr \<lparr> in_ID = an_newID api, in_MarketProfileCode = code, in_Exchange = exchange, in_Symbol = symbol, in_Name = name,
             in_InstrumentType = t, in_TickSize = (if ci_TickSize body \<le> 0 then fround (1 / 20) else ci_TickSize body),
             in_LotSize = (if ci_LotSize body \<le> 0 then 1 else ci_LotSize body),
             in_Active = (case ci_Active body of None \<Rightarrow> True | Some v \<Rightarrow> v),
             in_CreatedAt = an_now api, in_UpdatedAt = an_now api \<rparr>)))))"

definition AdminCreateInstrument :: "'tz menv \<Rightarrow> create_instrument option \<Rightarrow> pworld \<Rightarrow> (http_err + instrument) \<times> pworld" where
  "AdminCreateInstrument env body w = answer w
     (ebind (new_instrument env body (books w)) (\<lambda>i.
      ebind (market_stmt env ''CreateInstrument'' ''could not create instrument''
        (\<lambda>e. if e = ErrUniqueViolation then (409, ''this symbol already exists for this market profile/exchange'')
             else (500, ''could not create instrument'')) (CreateInstrument i (books w))) (\<lambda>db.
        Inr (i, log_action (mn_adminID env) ''instrument_created'' (set_books db w)))))"

record patch_instrument =
  pi_Name :: "string option"
  pi_InstrumentType :: "string option"
  pi_TickSize :: "f64 option"
  pi_LotSize :: "f64 option"
  pi_Active :: "bool option"

definition changed_instrument :: "patch_instrument \<Rightarrow> instrument \<Rightarrow> http_err + instrument" where
  "changed_instrument body i =
     (let i = (case pi_Name body of None \<Rightarrow> i | Some v \<Rightarrow> i\<lparr>in_Name := trim_space v\<rparr>) in
      ebind (case pi_InstrumentType body of None \<Rightarrow> Inr i
             | Some v \<Rightarrow> let t = to_upper (trim_space v) in ebind (type_ok t) (\<lambda>_. Inr (i\<lparr>in_InstrumentType := t\<rparr>))) (\<lambda>i.
      ebind (case pi_TickSize body of None \<Rightarrow> Inr i
             | Some v \<Rightarrow> ebind (ensure (\<not> v \<le> 0) 400 ''tick_size must be greater than zero'') (\<lambda>_. Inr (i\<lparr>in_TickSize := v\<rparr>))) (\<lambda>i.
      ebind (case pi_LotSize body of None \<Rightarrow> Inr i
             | Some v \<Rightarrow> ebind (ensure (\<not> v \<le> 0) 400 ''lot_size must be greater than zero'') (\<lambda>_. Inr (i\<lparr>in_LotSize := v\<rparr>))) (\<lambda>i.
        Inr (case pi_Active body of None \<Rightarrow> i | Some v \<Rightarrow> i\<lparr>in_Active := v\<rparr>)))))"

definition existing_instrument :: "'tz menv \<Rightarrow> string \<Rightarrow> paper_db \<Rightarrow> http_err + instrument" where
  "existing_instrument env iid db =
     ebind (must (mn_paper env) ''GetInstrumentByID'' ''lookup failed'' (GetInstrumentByID db iid)) (\<lambda>found.
       (case found of None \<Rightarrow> Inl (404, ''instrument not found'') | Some i \<Rightarrow> Inr i))"

definition AdminUpdateInstrument ::
  "'tz menv \<Rightarrow> string \<Rightarrow> patch_instrument option \<Rightarrow> pworld \<Rightarrow> (http_err + instrument) \<times> pworld" where
  "AdminUpdateInstrument env iid body w = answer w
     (case body of None \<Rightarrow> Inl (400, ''invalid body'')
      | Some body \<Rightarrow>
     ebind (existing_instrument env iid (books w)) (\<lambda>existing.
     ebind (changed_instrument body existing) (\<lambda>i.
     ebind (market_stmt env ''UpdateInstrument'' ''could not update instrument''
       (\<lambda>e. if e = ErrNoRows then (404, ''instrument not found'') else (500, ''could not update instrument''))
       (UpdateInstrument (an_now (pn_api (mn_paper env))) i (books w))) (\<lambda>db.
       Inr (i, log_action (mn_adminID env) ''instrument_updated'' (set_books db w))))))"

definition AdminDeleteInstrument :: "'tz menv \<Rightarrow> string \<Rightarrow> pworld \<Rightarrow> (http_err + unit) \<times> pworld" where
  "AdminDeleteInstrument env iid w = answer w
     (ebind (existing_instrument env iid (books w)) (\<lambda>_.
      ebind (must (mn_paper env) ''DeleteInstrument'' ''could not delete instrument'' (DeleteInstrument iid (books w))) (\<lambda>db.
        Inr ((), log_action (mn_adminID env) ''instrument_deleted'' (set_books db w)))))"

subsection \<open>Settings of the platform\<close>

definition read_setting :: "'tz menv \<Rightarrow> string \<Rightarrow> pworld \<Rightarrow> http_err + string option" where
  "read_setting env key w =
     must (mn_paper env) ''GetPlatformSetting'' ''could not load setting'' (GetPlatformSetting (aw_db (pw_api w)) key)"

definition write_setting :: "'tz menv \<Rightarrow> string \<Rightarrow> string \<Rightarrow> string \<Rightarrow> 'a \<Rightarrow> pworld \<Rightarrow> http_err + ('a \<times> pworld)" where
  "write_setting env key value action result w =
     ebind (saved (mn_paper env) ''SetPlatformSetting'' ''could not update setting''
       (SetPlatformSetting key value (mn_adminID env) (aw_db (pw_api w)))) (\<lambda>db.
       Inr (result, log_action (mn_adminID env) action (w\<lparr>pw_api := (pw_api w)\<lparr>aw_db := db\<rparr>\<rparr>)))"

definition AdminGetMarketHoursEnforcement :: "'tz menv \<Rightarrow> pworld \<Rightarrow> http_err + bool" where
  "AdminGetMarketHoursEnforcement env w =
     ebind (read_setting env MarketHoursEnforcementSettingKey w) (\<lambda>v.
       Inr (case v of None \<Rightarrow> True | Some v \<Rightarrow> v = ''true''))"

definition AdminSetMarketHoursEnforcement :: "'tz menv \<Rightarrow> bool option \<Rightarrow> pworld \<Rightarrow> (http_err + bool) \<times> pworld" where
  "AdminSetMarketHoursEnforcement env enabled w = answer w
     (case enabled of None \<Rightarrow> Inl (400, ''enabled (boolean) is required'')
      | Some on \<Rightarrow> write_setting env MarketHoursEnforcementSettingKey (if on then ''true'' else ''false'')
                    ''market_hours_enforcement_changed'' on w)"

definition KnownProviders :: "string list" where "KnownProviders = [ProviderSignal, ProviderFyers]"

definition AdminGetMarketDataProvider :: "'tz menv \<Rightarrow> pworld \<Rightarrow> http_err + (string \<times> string list \<times> bool)" where
  "AdminGetMarketDataProvider env w =
     ebind (read_setting env SettingKeyProvider w) (\<lambda>v.
       Inr (case v of None \<Rightarrow> mn_provider env | Some c \<Rightarrow> if c = [] then mn_provider env else c, KnownProviders, mn_fyers env))"

definition AdminSetMarketDataProvider ::
  "'tz menv \<Rightarrow> string option \<Rightarrow> pworld \<Rightarrow> (http_err + (string \<times> string list \<times> bool)) \<times> pworld" where
  "AdminSetMarketDataProvider env body w = answer w
     (case body of None \<Rightarrow> Inl (400, ''invalid body'')
      | Some p \<Rightarrow>
     let provider = trim_space p in
     ebind (ensure (List.member KnownProviders provider) 400 (''provider must be one of: '' @ ProviderSignal @ '', '' @ ProviderFyers)) (\<lambda>_.
       write_setting env SettingKeyProvider provider ''market_data_provider_changed'' (provider, KnownProviders, mn_fyers env) w))"

definition AdminGetMarketDataInterval :: "'tz menv \<Rightarrow> pworld \<Rightarrow> http_err + (int \<times> int \<times> int)" where
  "AdminGetMarketDataInterval env w =
     ebind (read_setting env SettingKeyIntervalSec w) (\<lambda>v.
       Inr (case v of None \<Rightarrow> mn_interval env | Some v \<Rightarrow> (case parse_int64 v of None \<Rightarrow> mn_interval env | Some n \<Rightarrow> n),
            MinSnapshotIntervalSec, MaxSnapshotIntervalSec))"

definition AdminSetMarketDataInterval :: "'tz menv \<Rightarrow> int option \<Rightarrow> pworld \<Rightarrow> (http_err + (int \<times> int \<times> int)) \<times> pworld" where
  "AdminSetMarketDataInterval env body w = answer w
     (case body of None \<Rightarrow> Inl (400, ''invalid body'')
      | Some secs \<Rightarrow>
     ebind (ensure (\<not> (secs < MinSnapshotIntervalSec \<or> MaxSnapshotIntervalSec < secs)) 400
       (''interval_seconds must be between '' @ fmt_d MinSnapshotIntervalSec @ '' and '' @ fmt_d MaxSnapshotIntervalSec)) (\<lambda>_.
       write_setting env SettingKeyIntervalSec (fmt_d secs) ''market_data_interval_changed''
         (secs, MinSnapshotIntervalSec, MaxSnapshotIntervalSec) w))"

subsection \<open>The rows of the market\<close>

datatype market_request =
    Patch_Profile string "patch_profile option"
  | New_Instrument "create_instrument option"
  | Patch_Instrument string "patch_instrument option"
  | Drop_Instrument string

fun serve_market :: "'tz menv \<Rightarrow> market_request \<Rightarrow> pworld \<Rightarrow> pworld" where
  "serve_market env (Patch_Profile code b) w = snd (AdminUpdateMarketProfile env code b w)"
| "serve_market env (New_Instrument b) w = snd (AdminCreateInstrument env b w)"
| "serve_market env (Patch_Instrument iid b) w = snd (AdminUpdateInstrument env iid b w)"
| "serve_market env (Drop_Instrument iid) w = snd (AdminDeleteInstrument env iid w)"

text \<open>
  What the guards of the handlers promise of a number. \<^verbatim>\<open>BodyParser\<close> reads JSON, which has no NaN, but also form bodies, where
  \<^verbatim>\<open>strconv.ParseFloat\<close> reads one; and a NaN is neither below 0, nor above 1000, nor at most zero.
\<close>

definition bps_in_range :: "f64 \<Rightarrow> bool" where
  "bps_in_range x = (x = NaN \<or> 0 \<le> x \<and> x \<le> Fin 1000)"

definition positive_or_nan :: "f64 \<Rightarrow> bool" where
  "positive_or_nan x = (x = NaN \<or> 0 < x)"

definition instrument_fine :: "paper_db \<Rightarrow> instrument \<Rightarrow> bool" where
  "instrument_fine db i =
     (positive_or_nan (in_TickSize i) \<and> positive_or_nan (in_LotSize i) \<and> List.member instrument_types (in_InstrumentType i) \<and> in_Symbol i \<noteq> [] \<and>
      NormalizePaperSymbol (in_Symbol i) = in_Symbol i \<and> NormalizePaperExchange (in_Exchange i) = in_Exchange i \<and>
      in_MarketProfileCode i \<in> set (map mp_Code (db_profiles db)))"

definition market_ok :: "paper_db \<Rightarrow> bool" where
  "market_ok db =
     (list_all (\<lambda>p. bps_in_range (mp_SlippageBps p) \<and> bps_in_range (mp_FeeBps p)) (db_profiles db) \<and>
      list_all (instrument_fine db) (db_instruments db) \<and> distinct (map in_ID (db_instruments db)) \<and>
      distinct (map instrument_key (db_instruments db)))"

lemma guard_bounds: "\<not> x < Fin 0 \<Longrightarrow> \<not> Fin 1000 < x \<Longrightarrow> bps_in_range x"
  by (cases x) (auto simp: bps_in_range_def less_f64_def less_eq_f64_def)

lemma guard_positive: "\<not> x \<le> Fin 0 \<Longrightarrow> positive_or_nan x"
  by (cases x) (auto simp: positive_or_nan_def less_f64_def less_eq_f64_def fle_def)

lemma bps_ok_Inr: "bps_ok name x = Inr u \<longleftrightarrow> (\<forall>v. x = Some v \<longrightarrow> \<not> v < 0 \<and> \<not> Fin 1000 < v)"
  by (auto simp: bps_ok_def split: option.splits)

lemma changed_profile_fine:
  assumes "changed_profile zones b p = Inr q" "bps_in_range (mp_SlippageBps p)" "bps_in_range (mp_FeeBps p)"
  shows "mp_Code q = mp_Code p" "bps_in_range (mp_SlippageBps q)" "bps_in_range (mp_FeeBps q)"
  using assms by (auto simp: changed_profile_def Let_def ebind_Inr_iff bps_ok_Inr intro: guard_bounds split: option.splits)

lemma changed_instrument_fine:
  assumes "changed_instrument b i = Inr j" "instrument_fine db i"
  shows "in_ID j = in_ID i" "instrument_key j = instrument_key i" "instrument_fine db j"
  using assms
  by (auto simp: changed_instrument_def Let_def ebind_Inr_iff type_ok_def instrument_fine_def instrument_key_def
      intro: guard_positive split: option.splits)

lemma profile_code: "GetMarketProfileByCode db code = Some p \<Longrightarrow> \<exists>x \<in> set (db_profiles db). code = mp_Code x"
  by (auto simp: GetMarketProfileByCode_def find_Some_iff)

lemma new_instrument_fine:
  assumes "new_instrument env (Some b) db = Inr i"
  shows "instrument_fine db i"
proof -
  have t: "positive_or_nan (fround (1 / 20))" "positive_or_nan 1" by code_simp+
  show ?thesis using assms t
    by (auto simp: new_instrument_def Let_def ebind_Inr_iff type_ok_def instrument_fine_def
        NormalizePaperSymbol_def NormalizePaperExchange_def trim_upper dest: profile_code intro: guard_positive)
qed

definition bps_column :: "(f64 \<Rightarrow> f64 option) \<Rightarrow> bool" where
  "bps_column c = (\<forall>x y. bps_in_range x \<longrightarrow> c x = Some y \<longrightarrow> bps_in_range y)"

lemma market_ok_profiles:
  assumes "market_ok db" "UpdateMarketProfile c now q db = Inr db'" "bps_column c" "bps_in_range (mp_SlippageBps q)" "bps_in_range (mp_FeeBps q)"
  shows "market_ok db'"
proof -
  obtain slip fee where c: "c (mp_SlippageBps q) = Some slip" "c (mp_FeeBps q) = Some fee"
    and db': "db' = db\<lparr>db_profiles := update_where (\<lambda>p. mp_Code p = mp_Code q)
          (\<lambda>p. p\<lparr>mp_Name := mp_Name q, mp_BaseCurrency := mp_BaseCurrency q, mp_Timezone := mp_Timezone q,
                mp_TradingDays := trading_hours_column (mp_TradingDays q), mp_Active := mp_Active q,
                mp_SlippageBps := slip, mp_FeeBps := fee, mp_UpdatedAt := now\<rparr>) (db_profiles db)\<rparr>"
    using assms(2) by (auto simp: UpdateMarketProfile_def ebind_Inr_iff col_def split: option.splits)
  have "bps_in_range slip" "bps_in_range fee" using c assms(3-5) by (auto simp: bps_column_def)
  moreover have codes: "map mp_Code (db_profiles db') = map mp_Code (db_profiles db)" by (simp add: db' update_where_def)
  have "instrument_fine db' = instrument_fine db" unfolding fun_eq_iff instrument_fine_def by (simp only: codes simp_thms)
  ultimately show ?thesis using assms(1) by (auto simp: market_ok_def db' list_all_iff update_where_def)
qed

lemma market_ok_create:
  "market_ok db \<Longrightarrow> CreateInstrument i db = Inr db' \<Longrightarrow> instrument_fine db i \<Longrightarrow> market_ok db'"
  by (auto simp: market_ok_def CreateInstrument_def ebind_Inr_iff instrument_fine_def list_all_iff)

lemma market_ok_update:
  assumes "market_ok db" "UpdateInstrument now j db = Inr db'" "instrument_fine db j"
  shows "market_ok db'"
proof -
  let ?f = "\<lambda>r. r\<lparr>in_Name := in_Name j, in_InstrumentType := in_InstrumentType j, in_TickSize := in_TickSize j,
                in_LotSize := in_LotSize j, in_Active := in_Active j, in_UpdatedAt := now\<rparr>"
  have db': "db' = db\<lparr>db_instruments := update_where (\<lambda>r. in_ID r = in_ID j) ?f (db_instruments db)\<rparr>"
    using assms(2) by (simp add: UpdateInstrument_def)
  have k: "map in_ID (update_where P ?f is) = map in_ID is" "map instrument_key (update_where P ?f is) = map instrument_key is" for P "is"
    by (induction "is") (simp_all add: update_where_def instrument_key_def)
  have "instrument_fine db' r" if "r \<in> set (db_instruments db')" for r
    using that assms(1,3) by (auto simp: db' update_where_def market_ok_def list_all_iff instrument_fine_def)
  then show ?thesis using assms(1) k by (simp add: market_ok_def db' list_all_iff)
qed

lemma market_ok_delete: "market_ok db \<Longrightarrow> market_ok (DeleteInstrument iid db)"
  by (auto simp: market_ok_def DeleteInstrument_def list_all_iff instrument_fine_def distinct_map_filter)

lemma books_market [simp]: "market_ok (books w) = market_ok (pw_books w)"
proof -
  have "instrument_fine (books w) = instrument_fine (pw_books w)" by (simp add: fun_eq_iff instrument_fine_def books_def)
  then show ?thesis by (simp add: market_ok_def) (simp add: books_def)
qed

lemma set_books_market [simp]: "pw_books (log_action u a (set_books db w)) = db"
  by (simp add: log_action_def set_books_def)

lemma market_stmt_Inr [simp]: "market_stmt env name msg fail r = Inr x \<longleftrightarrow> an_ok (pn_api (mn_paper env)) name \<and> r = Inr x"
  by (auto simp: market_stmt_def ebind_Inr_iff split: sum.splits)

lemma existing_instrument_Inr:
  "existing_instrument env iid db = Inr i \<longleftrightarrow> an_ok (pn_api (mn_paper env)) ''GetInstrumentByID'' \<and> GetInstrumentByID db iid = Some i"
  by (auto simp: existing_instrument_def ebind_Inr_iff split: option.splits)

lemma serve_market_ok:
  assumes "market_ok (pw_books w)" "bps_column (mn_bps env)"
  shows "market_ok (pw_books (serve_market env rq w))"
proof (cases rq)
  case (Patch_Profile code b)
  have "market_ok db" if "GetMarketProfileByCode (books w) code = Some p" "b = Some body"
    "changed_profile (dk_zones (pn_desk (mn_paper env))) body p = Inr q"
    "UpdateMarketProfile (mn_bps env) (an_now (pn_api (mn_paper env))) q (books w) = Inr db" for p body q db
  proof -
    have "p \<in> set (db_profiles (books w))" using that(1) by (auto simp: GetMarketProfileByCode_def find_Some_iff)
    then have "bps_in_range (mp_SlippageBps p)" "bps_in_range (mp_FeeBps p)"
      using assms(1) books_market by (auto simp: market_ok_def list_all_iff books_def)
    then show ?thesis using changed_profile_fine [OF that(3)] assms Patch_Profile that(2) market_ok_profiles [OF _ that(4) assms(2)] by simp
  qed
  then show ?thesis using assms(1) unfolding Patch_Profile
    by (simp add: AdminUpdateMarketProfile_def answer_def Let_def split: sum.split prod.split)
      (auto simp: ebind_Inr_iff split: option.splits sum.splits)
next
  case (New_Instrument b)
  have "market_ok db" if "b = Some body" "new_instrument env b (books w) = Inr i" "CreateInstrument i (books w) = Inr db" for body i db
    using new_instrument_fine assms New_Instrument that market_ok_create [OF _ that(3)] by auto
  then have "market_ok db" if "new_instrument env b (books w) = Inr i" "CreateInstrument i (books w) = Inr db" for i db
    using that by (cases b) (auto simp: new_instrument_def)
  then show ?thesis using assms(1) unfolding New_Instrument
    by (simp add: AdminCreateInstrument_def answer_def split: sum.split prod.split)
      (auto simp: ebind_Inr_iff)
next
  case (Patch_Instrument iid b)
  have "market_ok db" if "b = Some body" "GetInstrumentByID (books w) iid = Some i" "changed_instrument body i = Inr j"
    "UpdateInstrument now j (books w) = Inr db" for body i j now db
  proof -
    have "instrument_fine (books w) i"
      using assms(1) that(2) books_market [of w] by (auto simp: market_ok_def list_all_iff GetInstrumentByID_def find_Some_iff)
    then show ?thesis using changed_instrument_fine(3) [OF that(3)] assms Patch_Instrument that(1) market_ok_update [OF _ that(4)] by simp
  qed
  then show ?thesis using assms(1) unfolding Patch_Instrument
    by (simp add: AdminUpdateInstrument_def answer_def split: sum.split prod.split)
      (auto simp: ebind_Inr_iff existing_instrument_Inr split: option.splits)
next
  case (Drop_Instrument iid)
  then show ?thesis using assms(1) market_ok_delete [of "books w" iid]
    by (auto simp: AdminDeleteInstrument_def answer_def ebind_Inr_iff split: sum.split prod.split)
qed

lemma find_found: "find P xs = Some x \<Longrightarrow> x \<in> set xs \<and> P x"
  by (auto simp: find_Some_iff)

definition matches :: "string \<times> string \<times> string \<Rightarrow> instrument \<Rightarrow> bool" where
  "matches k i = (in_MarketProfileCode i = fst k \<and> in_Exchange i = fst (snd k) \<and> to_upper (in_Symbol i) = to_upper (snd (snd k)))"

lemma matches_unique:
  assumes "market_ok db" "i \<in> set (db_instruments db)" "r \<in> set (db_instruments db)" "matches (instrument_key i) r"
  shows "r = i"
proof -
  have up: "to_upper (in_Symbol j) = in_Symbol j" if "j \<in> set (db_instruments db)" for j
    using assms(1) that by (auto simp: market_ok_def list_all_iff instrument_fine_def) (metis NormalizePaperSymbol_def to_upper_idem)
  then have "instrument_key r = instrument_key i" using assms(2-4) by (simp add: matches_def instrument_key_def)
  then show ?thesis using assms(1-3) by (auto simp: market_ok_def distinct_map inj_on_def)
qed

lemma own_instrument:
  assumes "market_ok db" "i \<in> set (db_instruments db)"
  shows "GetInstrument db (in_MarketProfileCode i) (in_Exchange i) (in_Symbol i) = Some i"
proof -
  have g: "GetInstrument db (in_MarketProfileCode i) (in_Exchange i) (in_Symbol i) = find (matches (instrument_key i)) (db_instruments db)"
    by (simp add: GetInstrument_def matches_def [abs_def] instrument_key_def)
  obtain j where j: "find (matches (instrument_key i)) (db_instruments db) = Some j"
    using assms(2) by (cases "find (matches (instrument_key i)) (db_instruments db)") (auto simp: find_None_iff matches_def instrument_key_def)
  then show ?thesis using g matches_unique [OF assms] find_found [OF j] by simp
qed

text \<open>
  C30. What the administrator writes leaves the market's rows in order. Whatever profile or instrument is changed, added or
  removed, slippage and fee rates stay between 0 and 1000 basis points, ticks and lots stay positive, symbols stay in their
  canonical form and unique in their market, and each instrument that is left is the one that a lookup by its own market,
  exchange and symbol finds; only a NaN, which the guards of the numbers let through, may stand in for a rate, tick or lot.
  Assumed is that a rate in this range is still in it once it was written to its column, which rounds it.
\<close>

theorem market_rows_in_order:
  assumes "market_ok (pw_books w)" "bps_column (mn_bps env)"
    "db = pw_books (serve_market env rq w)"
  shows "market_ok db \<and> (\<forall>i \<in> set (db_instruments db).
    GetInstrument db (in_MarketProfileCode i) (in_Exchange i) (in_Symbol i) = Some i)"
  using serve_market_ok [OF assms(1,2)] own_instrument assms(3) by blast

text \<open>A NaN passes every guard: as a rate, as a tick and as a lot.\<close>

lemma nan_passes_guards:
  "bps_ok name (Some NaN) = Inr ()"
  "changed_instrument \<lparr> pi_Name = None, pi_InstrumentType = None, pi_TickSize = Some NaN, pi_LotSize = Some NaN, pi_Active = None \<rparr> i
     = Inr (i\<lparr>in_TickSize := NaN, in_LotSize := NaN\<rparr>)"
  by (simp_all add: bps_ok_def changed_instrument_def ensure_def ebind_def less_f64_def less_eq_f64_def fle_def feq_def)

subsection \<open>A switch takes effect\<close>

text \<open>What the jobs and the queue read of the settings.\<close>

definition settings_of :: "pworld \<Rightarrow> settings" where
  "settings_of w = (\<lambda>key. Inr (GetPlatformSetting (aw_db (pw_api w)) key))"

lemma write_setting_Inr:
  assumes "answer w (write_setting env key v act res w) = (Inr x, w')"
  shows "x = res" "GetPlatformSetting (aw_db (pw_api w')) key = Some v"
    "key' \<noteq> key \<Longrightarrow> GetPlatformSetting (aw_db (pw_api w')) key' = GetPlatformSetting (aw_db (pw_api w)) key'"
    "pw_books w' = pw_books w"
  using assms
  by (auto simp: answer_def write_setting_def ebind_Inr_iff SetPlatformSetting_def log_action_def audit_def
      GetPlatformSetting_def update_conv' split: sum.splits if_splits)

lemma answer_ensure:
  "answer w (ebind (ensure b st msg) (\<lambda>_. r)) = (Inr x, w') \<longleftrightarrow> b \<and> answer w r = (Inr x, w')"
  by (cases b) (auto simp: ensure_def answer_def)

lemma provider_set_is_used:
  assumes "AdminSetMarketDataProvider env (Some p) w = (Inr r, w')" "rg_providers rg (trim_space p) \<noteq> None"
  shows "List.member KnownProviders (trim_space p)" "ActiveProviderName (Some rg) (settings_of w') = trim_space p"
proof -
  have k: "List.member KnownProviders (trim_space p)" "answer w (write_setting env SettingKeyProvider (trim_space p)
      ''market_data_provider_changed'' (trim_space p, KnownProviders, mn_fyers env) w) = (Inr r, w')"
    using assms(1) by (simp_all add: AdminSetMarketDataProvider_def Let_def answer_ensure)
  then have "trim_space p \<noteq> []" by (auto simp: KnownProviders_def ProviderSignal_def ProviderFyers_def)
  then show "ActiveProviderName (Some rg) (settings_of w') = trim_space p" "List.member KnownProviders (trim_space p)"
    using write_setting_Inr(2) [OF k(2)] assms(2) k(1) by (simp_all add: ActiveProviderName_def settings_of_def)
qed

text \<open>
  The interval that the administrator sets is the one that is used. It is within its bounds, the next sweep waits exactly
  that long, and the setting is shown as it was made: the number survives being written as text and read back.
\<close>

theorem interval_set_is_used:
  assumes "AdminSetMarketDataInterval env (Some secs) w = (Inr r, w')"
  shows "5 \<le> secs \<and> secs \<le> 3600 \<and> currentInterval d (settings_of w') = secs * 1000 \<and>
    (an_ok (pn_api (mn_paper env)) ''GetPlatformSetting'' \<longrightarrow> AdminGetMarketDataInterval env w' = Inr (secs, 5, 3600))"
proof -
  have a: "\<not> (secs < MinSnapshotIntervalSec \<or> MaxSnapshotIntervalSec < secs)"
    "answer w (write_setting env SettingKeyIntervalSec (fmt_d secs) ''market_data_interval_changed''
         (secs, MinSnapshotIntervalSec, MaxSnapshotIntervalSec) w) = (Inr r, w')"
    using assms by (simp_all add: AdminSetMarketDataInterval_def answer_ensure)
  then have s: "5 \<le> secs" "secs \<le> 3600" by (simp_all add: MinSnapshotIntervalSec_def MaxSnapshotIntervalSec_def)
  then have "parse_int64 (fmt_d secs) = Some secs" using parse_int64_show [of secs] by (simp add: fmt_d_def in_int64_def)
  then show ?thesis using write_setting_Inr(2) [OF a(2)] s
    by (simp add: currentInterval_def settings_of_def AdminGetMarketDataInterval_def read_setting_def must_def
        MinSnapshotIntervalSec_def MaxSnapshotIntervalSec_def)
qed

text \<open>
  Market hours are enforced exactly when the administrator switched them on. After the switch, the check of a paper order is
  silent if and only if enforcement is off or the market's schedule is open, and the switch reads as it was set.
\<close>

theorem hours_switch_is_used:
  assumes "AdminSetMarketHoursEnforcement env (Some on) w = (Inr r, w')"
  shows "(CheckMarketHours zones (settings_of w') (\<lambda>_. Inr (Some mp)) code now = [] \<longleftrightarrow>
      \<not> on \<or> WithinSchedule zones (mp_TradingDays mp) (mp_Timezone mp) now) \<and>
    (an_ok (pn_api (mn_paper env)) ''GetPlatformSetting'' \<longrightarrow> AdminGetMarketHoursEnforcement env w' = Inr on)"
proof -
  have "answer w (write_setting env MarketHoursEnforcementSettingKey (if on then ''true'' else ''false'')
      ''market_hours_enforcement_changed'' on w) = (Inr r, w')"
    using assms by (simp add: AdminSetMarketHoursEnforcement_def)
  from write_setting_Inr(2) [OF this] show ?thesis
    by (cases on) (simp_all add: CheckMarketHours_def settings_of_def AdminGetMarketHoursEnforcement_def read_setting_def must_def)
qed

subsection \<open>Taking a symbol out of the market\<close>

lemma close_needs_instrument:
  assumes "GetInstrument db (pa_MarketProfile a) (close_exchange a p) (NormalizePaperSymbol (pp_Symbol p)) = None \<or>
      (\<exists>i. GetInstrument db (pa_MarketProfile a) (close_exchange a p) (NormalizePaperSymbol (pp_Symbol p)) = Some i \<and> \<not> in_Active i)"
  shows "\<exists>e. FlattenPosition env d a p h db = (Inl (CloseErr e), db)"
proof -
  have "close_request env db a p signal h now \<noteq> Inr req" for signal now req
    using assms by (auto simp: close_request_def Let_def ebind_Inr_iff split: if_splits)
  then show ?thesis by (cases "close_request env db a p (dr_signal d) h (dr_now d)") (auto simp: FlattenPosition_def)
qed

text \<open>
  C40. An instrument can be deactivated or removed while positions in it are open, and then nothing closes them. In a market whose
  rows are in order, after either change, an attempt to close such a position, by its owner or by the square-off, is an error that changes no table, whatever
  the price and the hours.
\<close>

theorem delisted_never_closes:
  assumes "market_ok (pw_books w)" "i \<in> set (db_instruments (pw_books w))" "in_MarketProfileCode i = pa_MarketProfile a"
    "in_Exchange i = close_exchange a p" "in_Symbol i = NormalizePaperSymbol (pp_Symbol p)"
    "AdminDeleteInstrument env (in_ID i) w = (Inr u, w') \<or>
     AdminUpdateInstrument env (in_ID i) (Some \<lparr> pi_Name = None, pi_InstrumentType = None, pi_TickSize = None, pi_LotSize = None,
       pi_Active = Some False \<rparr>) w = (Inr j, w')"
  shows "\<exists>e. FlattenPosition desk d a p h (books w') = (Inl (CloseErr e), books w')"
proof (rule close_needs_instrument)
  let ?get = "\<lambda>db. GetInstrument db (pa_MarketProfile a) (close_exchange a p) (NormalizePaperSymbol (pp_Symbol p))"
  have only: "r = i" if "r \<in> set (db_instruments (books w))" "matches (instrument_key i) r" for r
    by (rule matches_unique [OF _ _ that]) (use assms(1,2) books_market in \<open>auto simp: books_def\<close>)
  have get: "?get db = find (matches (instrument_key i)) (db_instruments db)" for db
    using assms(3-5) by (simp add: GetInstrument_def matches_def [abs_def] instrument_key_def)
  from assms(6) show "?get (books w') = None \<or> (\<exists>i. ?get (books w') = Some i \<and> \<not> in_Active i)"
  proof
    assume "AdminDeleteInstrument env (in_ID i) w = (Inr u, w')"
    then have "db_instruments (books w') = filter (\<lambda>r. in_ID r \<noteq> in_ID i) (db_instruments (books w))"
      by (auto simp: AdminDeleteInstrument_def answer_def ebind_Inr_iff DeleteInstrument_def log_action_def set_books_def books_def split: sum.splits)
    then have "?get (books w') = None" unfolding get using only by (auto simp: find_None_iff)
    then show ?thesis by blast
  next
    assume u: "AdminUpdateInstrument env (in_ID i) (Some \<lparr> pi_Name = None, pi_InstrumentType = None, pi_TickSize = None, pi_LotSize = None,
       pi_Active = Some False \<rparr>) w = (Inr j, w')"
    obtain f where f: "db_instruments (books w') = update_where (\<lambda>r. in_ID r = in_ID i) f (db_instruments (books w))"
        "\<And>r. instrument_key (f r) = instrument_key r \<and> \<not> in_Active (f r)"
      using u by (auto simp: AdminUpdateInstrument_def answer_def ebind_Inr_iff changed_instrument_def UpdateInstrument_def instrument_key_def
          existing_instrument_Inr log_action_def set_books_def books_def GetInstrumentByID_def find_Some_iff split: sum.splits)
    show ?thesis
    proof (cases "?get (books w')")
      case (Some j')
      have j': "j' \<in> set (db_instruments (books w'))" "matches (instrument_key i) j'" using find_found [OF Some [unfolded get]] by simp_all
      then obtain r where r: "r \<in> set (db_instruments (books w))" "j' = (if in_ID r = in_ID i then f r else r)"
        unfolding f(1) update_where_def by auto
      have "instrument_key j' = instrument_key r" using f(2) [of r] by (simp add: r(2))
      then have "matches (instrument_key i) r" using j'(2) by (simp add: matches_def instrument_key_def)
      then have "r = i" by (rule only [OF r(1)])
      then have "j' = f i" using r(2) by simp
      then show ?thesis using Some f(2) by simp
    qed simp
  qed
qed

subsection \<open>The theorems at concrete inputs\<close>

definition market_env :: "unit menv" where
  "market_env = \<lparr> mn_paper = paper_env, mn_bps = Some, mn_adminID = ''u'', mn_provider = ''signal'', mn_interval = 30, mn_fyers = False \<rparr>"

definition sample_instrument :: instrument where
  "sample_instrument = \<lparr> in_ID = ''i'', in_MarketProfileCode = ''indian_equity'', in_Exchange = ''NSE'', in_Symbol = ''INFY'', in_Name = ''Infosys'',
     in_InstrumentType = ''EQUITY'', in_TickSize = 1, in_LotSize = 1, in_Active = True, in_CreatedAt = 0, in_UpdatedAt = 0 \<rparr>"

definition market_world :: pworld where
  "market_world = paper_bought\<lparr>pw_books := bought_books\<lparr>db_instruments := [sample_instrument]\<rparr>\<rparr>"

definition market_patch :: patch_profile where
  "market_patch = \<lparr> pr_BaseCurrency = None, pr_Timezone = None, pr_Active = None, pr_SlippageBps = Some (Fin 25), pr_FeeBps = Some (Fin 3) \<rparr>"

lemma market_world_ok: "market_ok (pw_books market_world)"
  by (simp add: market_world_def) code_simp

theorem market_rows_in_order_witness:
  "\<exists>db. db = pw_books (serve_market market_env (Patch_Profile ''indian_equity'' (Some market_patch)) market_world) \<and>
     GetInstrument db ''indian_equity'' ''NSE'' ''INFY'' = Some sample_instrument"
proof -
  let ?rq = "Patch_Profile ''indian_equity'' (Some market_patch)"
  let ?db = "pw_books (serve_market market_env ?rq market_world)"
  have "db_instruments (pw_books (serve_market market_env ?rq market_world)) = [sample_instrument]"
    by (auto simp: AdminUpdateMarketProfile_def answer_def Let_def ebind_Inr_iff UpdateMarketProfile_def log_action_def set_books_def books_def
        market_world_def split: sum.split prod.split option.splits)
  moreover have "bps_column (mn_bps market_env)" by (simp add: bps_column_def market_env_def)
  ultimately show ?thesis using market_rows_in_order [OF market_world_ok, of market_env ?db ?rq] by (auto simp: sample_instrument_def)
qed

theorem interval_set_is_used_witness:
  "\<exists>w'. AdminSetMarketDataInterval market_env (Some 60) paper_start = (Inr (60, 5, 3600), w') \<and> currentInterval 0 (settings_of w') = 60000"
proof -
  have "fst (AdminSetMarketDataInterval market_env (Some 60) paper_start) = Inr (60, 5, 3600)" by code_simp
  then obtain w' where w': "AdminSetMarketDataInterval market_env (Some 60) paper_start = (Inr (60, 5, 3600), w')" by (metis prod.collapse)
  then show ?thesis using interval_set_is_used [OF w', of 0] by auto
qed

theorem hours_switch_is_used_witness:
  "\<exists>w'. AdminSetMarketHoursEnforcement market_env (Some False) paper_start = (Inr False, w') \<and>
     CheckMarketHours (\<lambda>_. None) (settings_of w') (\<lambda>_. Inr (Some (hd (db_profiles (desk_start 0))))) ''indian_equity'' 0 = []"
proof -
  have "fst (AdminSetMarketHoursEnforcement market_env (Some False) paper_start) = Inr False" by code_simp
  then obtain w' where w': "AdminSetMarketHoursEnforcement market_env (Some False) paper_start = (Inr False, w')" by (metis prod.collapse)
  then show ?thesis using hours_switch_is_used [OF w'] by auto
qed

theorem delisted_never_closes_witness:
  "\<exists>p w' e. db_positions (pw_books market_world) = [p] \<and> pp_Quantity p = Fin 3 \<and>
     AdminDeleteInstrument market_env ''i'' market_world = (Inr (), w') \<and>
     FlattenPosition sample_desk sample_draw opened_account p False (books w') = (Inl (CloseErr e), books w')"
proof -
  let ?p = "hd (db_positions bought_books)"
  have p: "db_positions (pw_books market_world) = [?p]" "pp_Quantity ?p = Fin 3"
    by (simp_all add: market_world_def bought_books_def book_rows_def)
  have i: "sample_instrument \<in> set (db_instruments (pw_books market_world))" by (simp add: market_world_def)
  have k: "in_MarketProfileCode sample_instrument = pa_MarketProfile opened_account"
    "in_Exchange sample_instrument = close_exchange opened_account ?p" "in_Symbol sample_instrument = NormalizePaperSymbol (pp_Symbol ?p)"
    by code_simp+
  have "fst (AdminDeleteInstrument market_env (in_ID sample_instrument) market_world) = Inr ()"
    by (simp add: AdminDeleteInstrument_def existing_instrument_def must_def answer_def books_def market_world_def market_env_def paper_env_def
        acct_env_def GetInstrumentByID_def)
  then obtain w' where w': "AdminDeleteInstrument market_env (in_ID sample_instrument) market_world = (Inr (), w')" by (metis prod.collapse)
  obtain e where "FlattenPosition sample_desk sample_draw opened_account ?p False (books w') = (Inl (CloseErr e), books w')"
    using delisted_never_closes [OF market_world_ok i k disjI1 [OF w'], of sample_desk sample_draw False] by blast
  then show ?thesis using p w' by (auto simp: sample_instrument_def)
qed

end
