(* ===== verification/SymbolRequests.thy ===== *)
theory SymbolRequests
  imports MarketAdmin
begin

section \<open>Requests for symbols\<close>

text \<open>
  Models \<^verbatim>\<open>internal/store/symbol_requests.go\<close>, \<^verbatim>\<open>internal/modules/symbolrequests/handler.go\<close> and
  \<^verbatim>\<open>internal/modules/admin/symbol_requests.go\<close>, with the end of \<^verbatim>\<open>AdminCreateInstrument\<close>, which resolves the requests that the
  new instrument satisfies, and the notices in the inbox of a user. The table has the constraints of
  \<^verbatim>\<open>migrations/043_symbol_requests.sql\<close>; mail and Telegram are left out.
\<close>

subsection \<open>The table\<close>

record symbol_request =
  sy_ID :: string
  sy_UserID :: string
  sy_MarketProfileCode :: string
  sy_Exchange :: string
  sy_Symbol :: string
  sy_Reason :: string
  sy_Status :: string
  sy_AdminNote :: string
  sy_ReviewedBy :: "string option"
  sy_ReviewedAt :: "int option"
  sy_ResolvedInstrumentID :: "string option"
  sy_ResolvedAt :: "int option"
  sy_CreatedAt :: int
  sy_UpdatedAt :: int

record rworld =
  rw_paper :: pworld
  rw_requests :: "symbol_request list"
  rw_inbox :: "(string \<times> string \<times> string \<times> string) list"

definition request_open :: "symbol_request \<Rightarrow> bool" where
  "request_open r = (sy_Status r = ''pending'' \<or> sy_Status r = ''accepted'')"

text \<open>The unique index over the requests that are open.\<close>

definition request_key :: "symbol_request \<Rightarrow> string \<times> string \<times> string" where
  "request_key r = (sy_UserID r, sy_MarketProfileCode r, to_lower (sy_Symbol r))"

definition rw_accounts :: "rworld \<Rightarrow> account_db" where
  "rw_accounts w = aw_db (pw_api (rw_paper w))"

definition pg_CreateSymbolRequest :: "symbol_request \<Rightarrow> rworld \<Rightarrow> store_err + rworld" where
  "pg_CreateSymbolRequest r w =
     (let row = r\<lparr>sy_AdminNote := [], sy_ReviewedBy := None, sy_ReviewedAt := None, sy_ResolvedInstrumentID := None, sy_ResolvedAt := None\<rparr>;
          rows = rw_requests w in
      ebind (require (sy_ID r \<notin> sy_ID ` set rows \<and>
               (request_open r \<longrightarrow> request_key r \<notin> request_key ` set (filter request_open rows))) ErrUniqueViolation ()) (\<lambda>_.
      require (sy_UserID r \<in> set (user_ids (rw_accounts w)) \<and>
               sy_MarketProfileCode r \<in> set (map mp_Code (db_profiles (books (rw_paper w))))) ErrForeignKey
        (w\<lparr>rw_requests := rows @ [row]\<rparr>)))"

definition ListSymbolRequestsByUser :: "rworld \<Rightarrow> string \<Rightarrow> symbol_request list" where
  "ListSymbolRequestsByUser w uid = newest_first sy_CreatedAt (filter (\<lambda>r. sy_UserID r = uid) (rw_requests w))"

definition ListSymbolRequestsByStatus :: "rworld \<Rightarrow> string \<Rightarrow> symbol_request list" where
  "ListSymbolRequestsByStatus w status =
     newest_first sy_CreatedAt (filter (\<lambda>r. status = [] \<or> sy_Status r = status) (rw_requests w))"

definition GetSymbolRequestByID :: "rworld \<Rightarrow> string \<Rightarrow> symbol_request option" where
  "GetSymbolRequestByID w rid = find (\<lambda>r. sy_ID r = rid) (rw_requests w)"

text \<open>An UPDATE that returns the rows it changed, here in the order of the table; PostgreSQL promises no order of them.\<close>

definition update_returning :: "('r \<Rightarrow> bool) \<Rightarrow> ('r \<Rightarrow> 'r) \<Rightarrow> 'r list \<Rightarrow> 'r list \<times> 'r list" where
  "update_returning P f rows = (map f (filter P rows), update_where P f rows)"

definition review :: "(symbol_request \<Rightarrow> bool) \<Rightarrow> (symbol_request \<Rightarrow> symbol_request) \<Rightarrow> string \<Rightarrow> rworld \<Rightarrow> store_err + (symbol_request \<times> rworld)" where
  "review P f reviewerID w =
     (case update_returning P f (rw_requests w) of
        ([], _) \<Rightarrow> Inl ErrNoRows
      | (r # _, rows) \<Rightarrow> require (reviewerID \<in> set (user_ids (rw_accounts w))) ErrForeignKey (r, w\<lparr>rw_requests := rows\<rparr>))"

definition AcceptSymbolRequest :: "int \<Rightarrow> string \<Rightarrow> string \<Rightarrow> rworld \<Rightarrow> store_err + (symbol_request \<times> rworld)" where
  "AcceptSymbolRequest now rid reviewerID w =
     review (\<lambda>r. sy_ID r = rid \<and> sy_Status r = ''pending'')
       (\<lambda>r. r\<lparr>sy_Status := ''accepted'', sy_ReviewedBy := Some reviewerID, sy_ReviewedAt := Some now, sy_UpdatedAt := now\<rparr>) reviewerID w"

definition RejectSymbolRequest :: "int \<Rightarrow> string \<Rightarrow> string \<Rightarrow> string \<Rightarrow> rworld \<Rightarrow> store_err + (symbol_request \<times> rworld)" where
  "RejectSymbolRequest now rid reviewerID adminNote w =
     review (\<lambda>r. sy_ID r = rid \<and> (sy_Status r = ''pending'' \<or> sy_Status r = ''accepted''))
       (\<lambda>r. r\<lparr>sy_Status := ''rejected'', sy_AdminNote := adminNote, sy_ReviewedBy := Some reviewerID, sy_ReviewedAt := Some now,
              sy_UpdatedAt := now\<rparr>) reviewerID w"

definition satisfied_by :: "string \<Rightarrow> string \<Rightarrow> symbol_request \<Rightarrow> bool" where
  "satisfied_by profileCode symbol r =
     (sy_MarketProfileCode r = profileCode \<and> to_lower (sy_Symbol r) = to_lower symbol \<and> request_open r)"

definition ResolveSymbolRequestsByInstrument :: "int \<Rightarrow> string \<Rightarrow> string \<Rightarrow> string \<Rightarrow> rworld \<Rightarrow> symbol_request list \<times> rworld" where
  "ResolveSymbolRequestsByInstrument now profileCode symbol instrumentID w =
     (let (resolved, rows) = update_returning (satisfied_by profileCode symbol)
            (\<lambda>r. r\<lparr>sy_Status := ''resolved'', sy_ResolvedInstrumentID := Some instrumentID, sy_ResolvedAt := Some now, sy_UpdatedAt := now\<rparr>)
            (rw_requests w)
      in (resolved, w\<lparr>rw_requests := rows\<rparr>))"

subsection \<open>Notices\<close>

definition InsertNotification :: "string \<Rightarrow> string \<Rightarrow> string \<Rightarrow> string \<Rightarrow> rworld \<Rightarrow> rworld" where
  "InsertNotification uid typ title body w =
     (if uid \<in> set (user_ids (rw_accounts w)) then w\<lparr>rw_inbox := rw_inbox w @ [(uid, typ, title, body)]\<rparr> else w)"

definition notifyUserSymbolRequestStatus :: "aenv \<Rightarrow> string \<Rightarrow> string \<Rightarrow> string \<Rightarrow> rworld \<Rightarrow> rworld" where
  "notifyUserSymbolRequestStatus api uid symbol status w =
     (case (if an_ok api ''GetUserByID'' then GetUserByID (rw_accounts w) uid else None) of
        None \<Rightarrow> w
      | Some u \<Rightarrow>
          if an_ok api ''InsertNotification''
          then InsertNotification uid ''symbol_request'' (''Symbol request '' @ status)
                 (''Your request for '' @ symbol @ '' is now '' @ status @ ''.'') w
          else w)"

definition with_paper :: "pworld \<Rightarrow> rworld \<Rightarrow> rworld" where
  "with_paper pw w = w\<lparr>rw_paper := pw\<rparr>"

subsection \<open>Asking for a symbol\<close>

record ask_symbol =
  as_MarketProfileCode :: string
  as_Exchange :: string
  as_Symbol :: string
  as_Reason :: string

definition new_request :: "'tz menv \<Rightarrow> string \<Rightarrow> ask_symbol option \<Rightarrow> rworld \<Rightarrow> http_err + symbol_request" where
  "new_request env uid body w =
     (let api = pn_api (mn_paper env) in
      case body of None \<Rightarrow> Inl (400, ''invalid body'')
      | Some body \<Rightarrow>
     let code = trim_space (as_MarketProfileCode body); exchange = to_upper (trim_space (as_Exchange body));
         symbol = to_upper (trim_space (as_Symbol body)); reason = trim_space (as_Reason body) in
     ebind (ensure (\<not> (code = [] \<or> symbol = [] \<or> reason = [])) 400 ''market_profile_code, symbol, and reason are required'') (\<lambda>_.
     ebind (must (mn_paper env) ''GetMarketProfileByCode'' ''lookup failed'' (GetMarketProfileByCode (books (rw_paper w)) code)) (\<lambda>profile.
     ebind (ensure (profile \<noteq> None) 400 (''unknown market_profile_code: '' @ code)) (\<lambda>_.
     ebind (ensure (an_ok api ''GetUserByID'' \<and> GetUserByID (rw_accounts w) uid \<noteq> None) 500 ''lookup failed'') (\<lambda>_.
       Inr \<lparr> sy_ID = an_newID api, sy_UserID = uid, sy_MarketProfileCode = code, sy_Exchange = exchange, sy_Symbol = symbol,
             sy_Reason = reason, sy_Status = ''pending'', sy_AdminNote = [], sy_ReviewedBy = None, sy_ReviewedAt = None,
             sy_ResolvedInstrumentID = None, sy_ResolvedAt = None, sy_CreatedAt = an_now api, sy_UpdatedAt = an_now api \<rparr>)))))"

definition CreateSymbolRequest :: "'tz menv \<Rightarrow> string \<Rightarrow> ask_symbol option \<Rightarrow> rworld \<Rightarrow> (http_err + symbol_request) \<times> rworld" where
  "CreateSymbolRequest env uid body w =
     (case ebind (new_request env uid body w) (\<lambda>r.
           ebind (market_stmt env ''CreateSymbolRequest'' ''could not create symbol request''
             (\<lambda>e. if e = ErrUniqueViolation then (409, ''you already have an open request for this symbol'')
                  else (500, ''could not create symbol request'')) (pg_CreateSymbolRequest r w)) (\<lambda>w'. Inr (r, w'))) of
        Inl e \<Rightarrow> (Inl e, w) | Inr (r, w') \<Rightarrow> (Inr r, w'))"

definition ListMySymbolRequests :: "'tz menv \<Rightarrow> string \<Rightarrow> rworld \<Rightarrow> http_err + symbol_request list" where
  "ListMySymbolRequests env uid w =
     must (mn_paper env) ''ListSymbolRequestsByUser'' ''could not list symbol requests'' (ListSymbolRequestsByUser w uid)"

subsection \<open>Reviewing\<close>

definition AdminListSymbolRequests :: "'tz menv \<Rightarrow> string option \<Rightarrow> rworld \<Rightarrow> http_err + symbol_request list" where
  "AdminListSymbolRequests env status w =
     (let status = (case status of None \<Rightarrow> ''pending'' | Some s \<Rightarrow> if s = [] then ''pending'' else s); status = (if status = ''all'' then [] else status) in
      must (mn_paper env) ''ListSymbolRequestsByStatus'' ''could not list symbol requests'' (ListSymbolRequestsByStatus w status))"

text \<open>What follows a statement of a review: the log and the notice.\<close>

definition reviewed :: "'tz menv \<Rightarrow> string \<Rightarrow> string \<Rightarrow> string \<Rightarrow> string \<Rightarrow> store_err + (symbol_request \<times> rworld) \<Rightarrow> rworld \<Rightarrow>
  (http_err + symbol_request) \<times> rworld" where
  "reviewed env name status gone msg result w =
     (case market_stmt env name msg (\<lambda>e. if e = ErrNoRows then (409, gone) else (500, msg)) result of
        Inl e \<Rightarrow> (Inl e, w)
      | Inr (r, w') \<Rightarrow>
          (Inr r, notifyUserSymbolRequestStatus (pn_api (mn_paper env)) (sy_UserID r) (sy_Symbol r) status
                    (with_paper (log_action (mn_adminID env) (''symbol_request_'' @ status) (rw_paper w')) w')))"

definition AdminAcceptSymbolRequest :: "'tz menv \<Rightarrow> string \<Rightarrow> rworld \<Rightarrow> (http_err + symbol_request) \<times> rworld" where
  "AdminAcceptSymbolRequest env rid w =
     reviewed env ''AcceptSymbolRequest'' ''accepted'' ''request not found or no longer pending'' ''could not accept symbol request''
       (AcceptSymbolRequest (an_now (pn_api (mn_paper env))) rid (mn_adminID env) w) w"

text \<open>A note that is missing or does not parse is empty.\<close>

definition AdminRejectSymbolRequest :: "'tz menv \<Rightarrow> string \<Rightarrow> string \<Rightarrow> rworld \<Rightarrow> (http_err + symbol_request) \<times> rworld" where
  "AdminRejectSymbolRequest env rid note w =
     reviewed env ''RejectSymbolRequest'' ''rejected'' ''request not found or already resolved/rejected''
       ''could not reject symbol request''
       (RejectSymbolRequest (an_now (pn_api (mn_paper env))) rid (mn_adminID env) (trim_space note) w) w"

subsection \<open>The instruments that answer requests\<close>

definition notify_resolved :: "aenv \<Rightarrow> symbol_request list \<Rightarrow> rworld \<Rightarrow> rworld" where
  "notify_resolved api rs w =
     foldl (\<lambda>w r. notifyUserSymbolRequestStatus api (sy_UserID r) (sy_Symbol r) ''resolved'' w) w rs"

text \<open>The whole of \<^verbatim>\<open>AdminCreateInstrument\<close>.\<close>

definition AddInstrument :: "'tz menv \<Rightarrow> create_instrument option \<Rightarrow> rworld \<Rightarrow> (http_err + instrument) \<times> rworld" where
  "AddInstrument env body w =
     (let api = pn_api (mn_paper env) in
      case AdminCreateInstrument env body (rw_paper w) of
        (Inl e, pw) \<Rightarrow> (Inl e, with_paper pw w)
      | (Inr i, pw) \<Rightarrow>
          let w = with_paper pw w in
          (Inr i,
           if an_ok api ''ResolveSymbolRequestsByInstrument''
           then (let (resolved, w) = ResolveSymbolRequestsByInstrument (an_now api) (in_MarketProfileCode i) (in_Symbol i) (in_ID i) w
                 in notify_resolved api resolved w)
           else w))"

text \<open>A deleted instrument is taken out of the requests it had resolved (\<^verbatim>\<open>ON DELETE SET NULL\<close>).\<close>

definition RemoveInstrument :: "'tz menv \<Rightarrow> string \<Rightarrow> rworld \<Rightarrow> (http_err + unit) \<times> rworld" where
  "RemoveInstrument env iid w =
     (let (r, pw) = AdminDeleteInstrument env iid (rw_paper w);
          ids = set (map in_ID (db_instruments (pw_books pw))) in
      (r, w\<lparr>rw_paper := pw, rw_requests := update_where (\<lambda>q. case sy_ResolvedInstrumentID q of None \<Rightarrow> False | Some i \<Rightarrow> i \<notin> ids)
              (sy_ResolvedInstrumentID_update (\<lambda>_. None)) (rw_requests w)\<rparr>))"


subsection \<open>The life of a request\<close>

datatype symbol_call =
    Ask_Symbol string "ask_symbol option"
  | Accept_Request string
  | Reject_Request string string
  | Add_Instrument "create_instrument option"
  | Remove_Instrument string

fun serve_symbol :: "'tz menv \<times> symbol_call \<Rightarrow> rworld \<Rightarrow> rworld" where
  "serve_symbol (env, Ask_Symbol uid b) w = snd (CreateSymbolRequest env uid b w)"
| "serve_symbol (env, Accept_Request rid) w = snd (AdminAcceptSymbolRequest env rid w)"
| "serve_symbol (env, Reject_Request rid note) w = snd (AdminRejectSymbolRequest env rid note w)"
| "serve_symbol (env, Add_Instrument b) w = snd (AddInstrument env b w)"
| "serve_symbol (env, Remove_Instrument iid) w = snd (RemoveInstrument env iid w)"

text \<open>
  What a request may become while some instruments are removed: its subject stays, its status only moves forward, and a settled
  one stays as it is, unless it names one of the instruments removed; then it may lose the name, and nothing else.
\<close>

definition subject :: "symbol_request \<Rightarrow> string \<times> string \<times> string \<times> string \<times> string \<times> string \<times> int" where
  "subject r = (sy_ID r, sy_UserID r, sy_MarketProfileCode r, sy_Exchange r, sy_Symbol r, sy_Reason r, sy_CreatedAt r)"

definition later_status :: "string \<Rightarrow> string list" where
  "later_status s =
     (if s = ''pending'' then [''pending'', ''accepted'', ''rejected'', ''resolved'']
      else if s = ''accepted'' then [''accepted'', ''rejected'', ''resolved''] else [s])"

definition becomes :: "string set \<Rightarrow> symbol_request \<Rightarrow> symbol_request \<Rightarrow> bool" where
  "becomes removed r r' =
     (subject r' = subject r \<and> sy_Status r' \<in> set (later_status (sy_Status r)) \<and>
      (\<not> request_open r \<longrightarrow> r' = r \<or>
         (\<exists>i \<in> removed. sy_ResolvedInstrumentID r = Some i) \<and> r' = r\<lparr>sy_ResolvedInstrumentID := None\<rparr>))"

text \<open>A request that names an instrument is resolved, and the instrument is in the table and is what was asked for.\<close>

definition answered_by :: "symbol_request \<Rightarrow> instrument \<Rightarrow> bool" where
  "answered_by r i = (in_MarketProfileCode i = sy_MarketProfileCode r \<and> to_lower (in_Symbol i) = to_lower (sy_Symbol r))"

definition request_linked :: "instrument list \<Rightarrow> symbol_request \<Rightarrow> bool" where
  "request_linked is r =
     (case sy_ResolvedInstrumentID r of None \<Rightarrow> True
      | Some iid \<Rightarrow> sy_Status r = ''resolved'' \<and> list_ex (\<lambda>i. in_ID i = iid \<and> answered_by r i) is)"

definition requests_ok :: "instrument list \<Rightarrow> symbol_request list \<Rightarrow> bool" where
  "requests_ok is rs = (distinct (map sy_ID rs) \<and> distinct (map request_key (filter request_open rs)) \<and> list_all (request_linked is) rs)"

abbreviation catalogue :: "rworld \<Rightarrow> instrument list" where
  "catalogue w \<equiv> db_instruments (pw_books (rw_paper w))"

definition listed :: "rworld \<Rightarrow> string set" where
  "listed w = in_ID ` set (catalogue w)"

text \<open>The instruments that the calls of a history removed: listed before a call and not after it.\<close>

fun removed_by :: "rworld \<Rightarrow> ('tz menv \<times> symbol_call) list \<Rightarrow> string set" where
  "removed_by w [] = {}"
| "removed_by w (c # calls) = (listed w - listed (serve_symbol c w)) \<union> removed_by (serve_symbol c w) calls"

lemma becomes_refl [simp]: "becomes G r r"
  by (simp add: becomes_def later_status_def)

lemma becomes_closes: "becomes G r r' \<Longrightarrow> request_open r' \<Longrightarrow> request_open r"
  by (auto simp: becomes_def later_status_def request_open_def split: if_splits)

lemma becomes_key: "becomes G r r' \<Longrightarrow> sy_ID r' = sy_ID r \<and> request_key r' = request_key r"
  by (simp add: becomes_def subject_def request_key_def)

lemma becomes_trans:
  assumes "becomes G r r'" "becomes H r' r''"
  shows "becomes (G \<union> H) r r''"
proof -
  have "sy_Status r'' \<in> set (later_status (sy_Status r))"
    using assms by (auto simp: becomes_def later_status_def split: if_splits)
  moreover have "r'' = r \<or> (\<exists>i \<in> G \<union> H. sy_ResolvedInstrumentID r = Some i) \<and> r'' = r\<lparr>sy_ResolvedInstrumentID := None\<rparr>"
    if "\<not> request_open r"
  proof -
    have "r' = r \<or> (\<exists>i \<in> G. sy_ResolvedInstrumentID r = Some i) \<and> r' = r\<lparr>sy_ResolvedInstrumentID := None\<rparr>"
      "r'' = r' \<or> (\<exists>i \<in> H. sy_ResolvedInstrumentID r' = Some i) \<and> r'' = r'\<lparr>sy_ResolvedInstrumentID := None\<rparr>"
      using assms that becomes_closes [OF assms(1)] unfolding becomes_def by blast+
    then show ?thesis by (elim disjE) auto
  qed
  moreover have "subject r'' = subject r" using assms by (simp add: becomes_def)
  ultimately show ?thesis unfolding becomes_def by blast
qed

lemma open_keys_distinct:
  assumes "distinct (map request_key (filter request_open rs))" "\<forall>r \<in> set rs. becomes G r (g r)"
  shows "distinct (map request_key (filter request_open (map g rs)))"
  using assms
proof (induction rs)
  case (Cons r rs)
  have "request_key ` set (filter request_open (map g rs)) \<subseteq> request_key ` set (filter request_open rs)"
    using Cons.prems(2) becomes_closes becomes_key by (force simp: image_iff)
  then show ?case using Cons becomes_closes [of G r "g r"] becomes_key [of G r "g r"] by (auto split: if_splits)
qed simp

text \<open>One statement over the rows, whatever became of the instruments.\<close>

definition moves_on :: "string set \<Rightarrow> rworld \<Rightarrow> rworld \<Rightarrow> bool" where
  "moves_on G w w' =
     (requests_ok (catalogue w) (rw_requests w) \<longrightarrow> requests_ok (catalogue w') (rw_requests w') \<and>
      (\<forall>r \<in> set (rw_requests w). \<exists>r' \<in> set (rw_requests w'). becomes G r r'))"

lemma moves_on_update:
  assumes "rw_requests w' = update_where P f (rw_requests w)"
    "\<And>r. r \<in> set (rw_requests w) \<Longrightarrow> request_linked (catalogue w) r \<Longrightarrow> P r \<Longrightarrow> becomes G r (f r)"
    "\<And>r. r \<in> set (rw_requests w) \<Longrightarrow> request_linked (catalogue w) r \<Longrightarrow> request_linked (catalogue w') (if P r then f r else r)"
  shows "moves_on G w w'"
  unfolding moves_on_def
proof
  let ?g = "\<lambda>r. if P r then f r else r"
  assume ok: "requests_ok (catalogue w) (rw_requests w)"
  then have linked: "request_linked (catalogue w) r" if "r \<in> set (rw_requests w)" for r
    using that by (simp add: requests_ok_def list_all_iff)
  have g: "rw_requests w' = map ?g (rw_requests w)" "\<forall>r \<in> set (rw_requests w). becomes G r (?g r)"
    using assms(1,2) linked by (simp_all add: update_where_def)
  have ids: "map sy_ID (map ?g (rw_requests w)) = map sy_ID (rw_requests w)"
    unfolding map_map by (rule map_cong [OF refl]) (use g(2) becomes_key in \<open>metis comp_apply\<close>)
  have "requests_ok (catalogue w') (rw_requests w')"
    unfolding g(1) requests_ok_def ids list_all_iff
    using ok assms(3) open_keys_distinct [OF _ g(2)] unfolding requests_ok_def list_all_iff set_map by blast
  moreover have "\<exists>r' \<in> set (rw_requests w'). becomes G r r'" if "r \<in> set (rw_requests w)" for r
    using that g(2) unfolding g(1) set_map by blast
  ultimately show "requests_ok (catalogue w') (rw_requests w') \<and> (\<forall>r \<in> set (rw_requests w). \<exists>r' \<in> set (rw_requests w'). becomes G r r')"
    by blast
qed

lemma moves_on_same: "rw_requests w' = rw_requests w \<Longrightarrow> catalogue w' = catalogue w \<Longrightarrow> moves_on G w w'"
  unfolding moves_on_def using becomes_refl by metis

lemma moves_on_trans: "moves_on G w v \<Longrightarrow> moves_on H v u \<Longrightarrow> moves_on (G \<union> H) w u"
  unfolding moves_on_def by (meson becomes_trans)


subsection \<open>Each request of the API\<close>

lemma notify_keeps [simp]:
  "rw_requests (notifyUserSymbolRequestStatus api uid s st w) = rw_requests w"
  "rw_paper (notifyUserSymbolRequestStatus api uid s st w) = rw_paper w"
  by (auto simp: notifyUserSymbolRequestStatus_def InsertNotification_def split: option.splits)

lemma notify_resolved_keeps [simp]:
  "rw_requests (notify_resolved api rs w) = rw_requests w" "rw_paper (notify_resolved api rs w) = rw_paper w"
  by (induction rs arbitrary: w) (simp_all add: notify_resolved_def)

lemma log_action_books [simp]: "pw_books (log_action u a pw) = pw_books pw"
  by (simp add: log_action_def)

lemma with_paper_keeps [simp]:
  "rw_requests (with_paper pw w) = rw_requests w" "rw_paper (with_paper pw w) = pw" "rw_inbox (with_paper pw w) = rw_inbox w"
  by (simp_all add: with_paper_def)

lemma review_Inr:
  assumes "review P f u w = Inr (r, w')"
  shows "w' = w\<lparr>rw_requests := update_where P f (rw_requests w)\<rparr>" "r \<in> f ` set (filter P (rw_requests w))"
proof -
  obtain hit rest where h: "map f (filter P (rw_requests w)) = hit # rest"
    using assms by (cases "map f (filter P (rw_requests w))") (auto simp: review_def update_returning_def)
  then have "r = hit" and w': "w' = w\<lparr>rw_requests := update_where P f (rw_requests w)\<rparr>"
    using assms by (simp_all add: review_def update_returning_def)
  then show "w' = w\<lparr>rw_requests := update_where P f (rw_requests w)\<rparr>" "r \<in> f ` set (filter P (rw_requests w))"
    using h by (metis list.set_intros(1) list.set_map)+
qed

lemma request_linked_same:
  "sy_ResolvedInstrumentID r' = sy_ResolvedInstrumentID r \<Longrightarrow> sy_Status r' = sy_Status r \<Longrightarrow> subject r' = subject r \<Longrightarrow>
    request_linked is r' = request_linked is r"
  by (auto simp: request_linked_def answered_by_def [abs_def] subject_def split: option.splits)

lemma open_unlinked: "request_linked is r \<Longrightarrow> request_open r \<Longrightarrow> sy_ResolvedInstrumentID r = None"
  by (auto simp: request_linked_def request_open_def split: option.splits)

lemma reviewed_moves_on:
  assumes "\<And>r. P r \<Longrightarrow> request_open r \<and> becomes G r (f r) \<and> sy_ResolvedInstrumentID (f r) = sy_ResolvedInstrumentID r"
  shows "moves_on G w (snd (reviewed env name st gone msg (review P f u w) w))"
proof (cases "market_stmt env name msg (\<lambda>e. if e = ErrNoRows then (409, gone) else (500, msg)) (review P f u w)")
  case (Inl e)
  then show ?thesis by (simp add: reviewed_def moves_on_same)
next
  case (Inr res)
  then obtain r v where res: "res = (r, v)" "review P f u w = Inr (r, v)" by (cases res) auto
  have v: "v = w\<lparr>rw_requests := update_where P f (rw_requests w)\<rparr>" using review_Inr(1) [OF res(2)] .
  have "request_linked (catalogue w) (if P x then f x else x)" if "request_linked (catalogue w) x" for x
    using that assms open_unlinked [OF that] by (auto simp: request_linked_def)
  then show ?thesis unfolding reviewed_def Inr using assms
    by (intro moves_on_update [where P = P and f = f]) (simp_all add: res(1) v)
qed

lemma create_moves_on:
  assumes "pg_CreateSymbolRequest r w = Inr w'"
  shows "moves_on G w w'"
proof -
  obtain row where w': "w' = w\<lparr>rw_requests := rw_requests w @ [row]\<rparr>" and row: "sy_ID row = sy_ID r" "request_key row = request_key r"
      "request_open row = request_open r" "sy_ResolvedInstrumentID row = None"
      "sy_ID r \<notin> sy_ID ` set (rw_requests w)"
      "request_open r \<longrightarrow> request_key r \<notin> request_key ` set (filter request_open (rw_requests w))"
    using assms by (auto simp: pg_CreateSymbolRequest_def Let_def ebind_Inr_iff request_key_def request_open_def)
  have "requests_ok (catalogue w') (rw_requests w')" if "requests_ok (catalogue w) (rw_requests w)"
    using that row by (auto simp: w' requests_ok_def request_linked_def)
  then show ?thesis by (auto simp: moves_on_def w' intro: becomes_refl)
qed

lemma AdminCreateInstrument_books:
  assumes "AdminCreateInstrument env body pw = (r, pw')"
  shows "(\<exists>e. r = Inl e \<and> pw' = pw) \<or> (\<exists>i. r = Inr i \<and> db_instruments (pw_books pw') = db_instruments (pw_books pw) @ [i])"
  using assms
  by (auto simp: AdminCreateInstrument_def answer_def ebind_Inr_iff CreateInstrument_def set_books_def books_def split: sum.splits)

lemma AdminDeleteInstrument_books:
  assumes "AdminDeleteInstrument env iid pw = (r, pw')"
  shows "db_instruments (pw_books pw') = db_instruments (pw_books pw) \<or>
    db_instruments (pw_books pw') = filter (\<lambda>i. in_ID i \<noteq> iid) (db_instruments (pw_books pw))"
  using assms
  by (auto simp: AdminDeleteInstrument_def answer_def ebind_Inr_iff DeleteInstrument_def set_books_def books_def split: sum.splits)

lemma resolve_moves_on:
  assumes "ResolveSymbolRequestsByInstrument now (in_MarketProfileCode i) (in_Symbol i) (in_ID i) v = (rs, w')"
    "rw_requests v = rw_requests w" "catalogue v = catalogue w @ [i]"
  shows "moves_on G w w'"
proof (rule moves_on_update)
  show "rw_requests w' = update_where (satisfied_by (in_MarketProfileCode i) (in_Symbol i)) (\<lambda>r. r\<lparr>sy_Status := ''resolved'',
      sy_ResolvedInstrumentID := Some (in_ID i), sy_ResolvedAt := Some now, sy_UpdatedAt := now\<rparr>) (rw_requests w)"
    using assms(1,2) by (auto simp: ResolveSymbolRequestsByInstrument_def update_returning_def)
  have c: "catalogue w' = catalogue w @ [i]"
    using assms(1,3) by (auto simp: ResolveSymbolRequestsByInstrument_def update_returning_def)
  fix r
  show "becomes G r (r\<lparr>sy_Status := ''resolved'', sy_ResolvedInstrumentID := Some (in_ID i), sy_ResolvedAt := Some now, sy_UpdatedAt := now\<rparr>)"
    if "satisfied_by (in_MarketProfileCode i) (in_Symbol i) r"
    using that by (auto simp: satisfied_by_def becomes_def subject_def request_open_def later_status_def)
  show "request_linked (catalogue w') (if satisfied_by (in_MarketProfileCode i) (in_Symbol i) r
      then r\<lparr>sy_Status := ''resolved'', sy_ResolvedInstrumentID := Some (in_ID i), sy_ResolvedAt := Some now, sy_UpdatedAt := now\<rparr> else r)"
    if "request_linked (catalogue w) r"
    using that by (auto simp: c request_linked_def satisfied_by_def answered_by_def split: option.splits)
qed

lemma AddInstrument_moves_on: "moves_on G w (snd (AddInstrument env body w))"
proof -
  obtain r pw where c: "AdminCreateInstrument env body (rw_paper w) = (r, pw)" by fastforce
  show ?thesis
  proof (cases r)
    case (Inl e)
    then show ?thesis using AdminCreateInstrument_books [OF c] c by (auto simp: AddInstrument_def intro: moves_on_same)
  next
    case (Inr i)
    let ?api = "pn_api (mn_paper env)"
    obtain rs v where v: "ResolveSymbolRequestsByInstrument (an_now ?api) (in_MarketProfileCode i) (in_Symbol i) (in_ID i) (with_paper pw w) = (rs, v)"
      by fastforce
    have "catalogue (with_paper pw w) = catalogue w @ [i]" using AdminCreateInstrument_books [OF c] Inr by auto
    then have "moves_on G w v" "moves_on G w (with_paper pw w)"
      using resolve_moves_on [OF v] moves_on_update [where G = G and w' = "with_paper pw w" and P = "\<lambda>_. False" and f = id and w = w]
      by (auto simp: update_where_def request_linked_def split: option.splits)
    then show ?thesis using c Inr v moves_on_trans [OF \<open>moves_on G w v\<close>, OF moves_on_same [where G = G]]
      by (simp add: AddInstrument_def Let_def)
  qed
qed

lemma RemoveInstrument_moves_on:
  fixes env iid w defines "w' \<equiv> snd (RemoveInstrument env iid w)"
  shows "moves_on (listed w - listed w') w w'"
proof -
  obtain r pw where d: "AdminDeleteInstrument env iid (rw_paper w) = (r, pw)" by fastforce
  let ?ids = "in_ID ` set (db_instruments (pw_books pw))"
  let ?P = "\<lambda>q. case sy_ResolvedInstrumentID q of None \<Rightarrow> False | Some i \<Rightarrow> i \<notin> ?ids"
  have c: "catalogue w' = db_instruments (pw_books pw)" by (simp add: w'_def RemoveInstrument_def Let_def d)
  show ?thesis
  proof (rule moves_on_update [where P = ?P and f = "sy_ResolvedInstrumentID_update (\<lambda>_. None)"])
    fix q assume q: "request_linked (catalogue w) q"
    show "becomes (listed w - listed w') q (sy_ResolvedInstrumentID_update (\<lambda>_. None) q)" if "?P q"
      using that q by (auto simp: becomes_def subject_def later_status_def request_linked_def listed_def c list_ex_iff split: option.splits)
    show "request_linked (catalogue w') (if ?P q then sy_ResolvedInstrumentID_update (\<lambda>_. None) q else q)"
      using q AdminDeleteInstrument_books [OF d]
      by (auto simp: c request_linked_def list_ex_iff answered_by_def split: option.splits) metis
  qed (simp add: w'_def RemoveInstrument_def Let_def d)
qed

lemma serve_symbol_moves_on:
  fixes env call w defines "w' \<equiv> serve_symbol (env, call) w"
  shows "moves_on (listed w - listed w') w w'"
proof (cases call)
  case (Ask_Symbol uid b)
  then show ?thesis unfolding w'_def
    by (auto simp: CreateSymbolRequest_def ebind_Inr_iff split: sum.splits intro: moves_on_same create_moves_on)
next
  case (Accept_Request rid)
  then show ?thesis unfolding w'_def
    by (simp add: AdminAcceptSymbolRequest_def AcceptSymbolRequest_def)
      (intro reviewed_moves_on; auto simp: request_open_def becomes_def subject_def later_status_def)
next
  case (Reject_Request rid why)
  then show ?thesis unfolding w'_def
    by (simp add: AdminRejectSymbolRequest_def RejectSymbolRequest_def)
      (intro reviewed_moves_on; auto simp: request_open_def becomes_def subject_def later_status_def)
qed (simp_all add: w'_def AddInstrument_moves_on RemoveInstrument_moves_on)

lemma history_moves_on: "moves_on (removed_by w calls) w (foldl (\<lambda>w c. serve_symbol c w) w calls)"
proof (induction calls arbitrary: w)
  case (Cons c calls)
  show ?case using moves_on_trans [OF serve_symbol_moves_on Cons.IH] by (cases c) simp
qed (simp add: moves_on_same)


text \<open>
  C31. A request for a symbol has one life. From a table that is in order, over any history of requests, reviews, and instruments
  that are added and removed, each row keeps its subject and moves only forward, from pending over accepted to rejected or
  resolved; a settled row never changes, except that it may lose the name of an instrument, and then this instrument was listed
  before some call of the history and not after it. The table stays in order: a user has at most one open request for a symbol
  of a market, and a row that names an instrument is resolved and names one of the market and symbol that were asked for.
\<close>

theorem request_has_one_life:
  assumes "requests_ok (catalogue w) (rw_requests w)" "w' = foldl (\<lambda>w c. serve_symbol c w) w calls"
  shows "requests_ok (catalogue w') (rw_requests w') \<and> (\<forall>r \<in> set (rw_requests w). \<exists>r' \<in> set (rw_requests w'). becomes (removed_by w calls) r r')"
  using history_moves_on [of w calls] assms by (simp add: moves_on_def)

subsection \<open>A new instrument answers all who asked\<close>

definition notice :: "symbol_request \<Rightarrow> string \<times> string \<times> string \<times> string" where
  "notice r = (sy_UserID r, ''symbol_request'', ''Symbol request resolved'', ''Your request for '' @ sy_Symbol r @ '' is now resolved.'')"

lemma notify_one:
  assumes "an_ok api ''GetUserByID''" "an_ok api ''InsertNotification''" "sy_UserID r \<in> set (user_ids (rw_accounts w))"
  shows "notifyUserSymbolRequestStatus api (sy_UserID r) (sy_Symbol r) ''resolved'' w = w\<lparr>rw_inbox := rw_inbox w @ [notice r]\<rparr>"
proof -
  obtain u where "GetUserByID (rw_accounts w) (sy_UserID r) = Some u"
    using assms(3) by (cases "GetUserByID (rw_accounts w) (sy_UserID r)") (auto simp: GetUserByID_def user_ids_def find_None_iff)
  then show ?thesis using assms by (simp add: notifyUserSymbolRequestStatus_def InsertNotification_def notice_def)
qed

lemma notify_all:
  assumes "an_ok api ''GetUserByID''" "an_ok api ''InsertNotification''"
    "\<forall>r \<in> set rs. sy_UserID r \<in> set (user_ids (rw_accounts w))"
  shows "rw_inbox (notify_resolved api rs w) = rw_inbox w @ map notice rs"
  using assms(3)
proof (induction rs arbitrary: w)
  case (Cons r rs)
  have "notify_resolved api (r # rs) w = notify_resolved api rs (w\<lparr>rw_inbox := rw_inbox w @ [notice r]\<rparr>)"
    using notify_one [OF assms(1,2)] Cons.prems by (simp add: notify_resolved_def)
  then show ?case using Cons by (simp add: rw_accounts_def)
qed (simp add: notify_resolved_def)

text \<open>
  C32. A new instrument answers all who asked for it. Each request for its market and symbol that was open is resolved and names it,
  whether it was accepted before or not; no other row changes, no open request for the symbol remains, and each of those who
  asked gets one notice, in the order of the rows. Assumed is that the update, the look-ups of the users and the inserts of
  the notices succeed; an error of one of these is dropped, and the request or the notice is then left out.
\<close>

theorem new_symbol_answers_all:
  assumes "AddInstrument env body w = (Inr i, w')" "api = pn_api (mn_paper env)"
    "\<forall>q \<in> set [''ResolveSymbolRequestsByInstrument'', ''GetUserByID'', ''InsertNotification'']. an_ok api q"
    "\<forall>r \<in> set (rw_requests w). sy_UserID r \<in> set (user_ids (rw_accounts w))"
    "wants = (\<lambda>r. sy_MarketProfileCode r = in_MarketProfileCode i \<and> to_lower (sy_Symbol r) = to_lower (in_Symbol i) \<and>
       sy_Status r \<in> {''pending'', ''accepted''})"
    "asked = filter wants (rw_requests w)"
  shows "rw_requests w' = map (\<lambda>r. if r \<in> set asked then r\<lparr>sy_Status := ''resolved'', sy_ResolvedInstrumentID := Some (in_ID i),
        sy_ResolvedAt := Some (an_now api), sy_UpdatedAt := an_now api\<rparr> else r) (rw_requests w) \<and>
    (\<forall>r \<in> set (rw_requests w'). \<not> wants r) \<and>
    rw_inbox w' = rw_inbox w @ map notice asked"
proof -
  let ?S = "satisfied_by (in_MarketProfileCode i) (in_Symbol i)"
  let ?f = "\<lambda>r. r\<lparr>sy_Status := ''resolved'', sy_ResolvedInstrumentID := Some (in_ID i), sy_ResolvedAt := Some (an_now api), sy_UpdatedAt := an_now api\<rparr>"
  have S: "?S = wants" by (auto simp: assms(5) satisfied_by_def request_open_def fun_eq_iff)
  obtain pw where pw: "AdminCreateInstrument env body (rw_paper w) = (Inr i, pw)"
    using assms(1) by (auto simp: AddInstrument_def Let_def split: prod.splits sum.splits)
  let ?v = "(with_paper pw w)\<lparr>rw_requests := update_where ?S ?f (rw_requests w)\<rparr>"
  have w': "w' = notify_resolved api (map ?f asked) ?v"
    using assms(1-3,6) S by (simp add: AddInstrument_def pw ResolveSymbolRequestsByInstrument_def update_returning_def Let_def)
  have rows: "rw_requests w' = update_where ?S ?f (rw_requests w)" by (simp add: w')
  have "user_ids (rw_accounts ?v) = user_ids (rw_accounts w)"
    using pw by (auto simp: rw_accounts_def AdminCreateInstrument_def answer_def ebind_Inr_iff log_action_def audit_def set_books_def
        user_ids_def split: sum.splits)
  then have "\<forall>r \<in> set (map ?f asked). sy_UserID r \<in> set (user_ids (rw_accounts ?v))" using assms(4,6) by auto
  moreover have "an_ok api ''GetUserByID''" "an_ok api ''InsertNotification''" using assms(3) by auto
  moreover have "map notice (map ?f asked) = map notice asked" "rw_inbox ?v = rw_inbox w" by (simp_all add: notice_def)
  ultimately have "rw_inbox w' = rw_inbox w @ map notice asked" using notify_all [of api "map ?f asked" ?v] w' by metis
  moreover have "\<forall>r \<in> set (rw_requests w'). \<not> ?S r"
  proof -
    have "\<not> ?S (?f r)" for r by (simp add: satisfied_by_def request_open_def)
    then show ?thesis by (auto simp only: rows update_where_def set_map image_iff split: if_splits)
  qed
  moreover have "rw_requests w' = map (\<lambda>r. if r \<in> set asked then ?f r else r) (rw_requests w)"
    unfolding rows update_where_def by (rule map_cong [OF refl]) (simp add: assms(6) S)
  ultimately show ?thesis unfolding S by (intro conjI)
qed


subsection \<open>The theorems at concrete inputs\<close>

definition sym_env :: "string \<Rightarrow> unit menv" where
  "sym_env iid = market_env\<lparr>mn_paper := paper_env\<lparr>pn_api := acct_env\<lparr>an_newID := iid\<rparr>\<rparr>\<rparr>"

definition sym_ask :: ask_symbol where
  "sym_ask = \<lparr> as_MarketProfileCode = ''indian_equity'', as_Exchange = ''nse'', as_Symbol = '' tcs '', as_Reason = ''trend'' \<rparr>"

definition sym_add :: create_instrument where
  "sym_add = \<lparr> ci_MarketProfileCode = ''indian_equity'', ci_Exchange = ''NSE'', ci_Symbol = ''Tcs'', ci_Name = ''TCS'', ci_InstrumentType = [],
     ci_TickSize = 1, ci_LotSize = 1, ci_Active = None \<rparr>"

definition sym_start :: rworld where
  "sym_start = \<lparr> rw_paper = market_world, rw_requests = [], rw_inbox = [] \<rparr>"

definition sym_asked :: rworld where
  "sym_asked = foldl (\<lambda>w c. serve_symbol c w) sym_start [(sym_env ''r1'', Ask_Symbol ''u'' (Some sym_ask)), (sym_env ''r2'', Accept_Request ''r1'')]"

definition sym_done :: "(http_err + instrument) \<times> rworld" where
  "sym_done = AddInstrument (sym_env ''i2'') (Some sym_add) sym_asked"

lemma sym_asked_rows: "map (\<lambda>r. (sy_ID r, sy_Status r)) (rw_requests sym_asked) = [(''r1'', ''accepted'')]"
  by code_simp

lemma sym_done_result: "fst sym_done = Inr (last (catalogue (snd sym_done)))"
  by code_simp

lemma sym_done_row:
  "map (\<lambda>r. (sy_Status r, sy_ResolvedInstrumentID r)) (rw_requests (snd sym_done)) = [(''resolved'', Some ''i2'')]"
  by code_simp

theorem request_has_one_life_witness:
  "map (\<lambda>r. (sy_Status r, sy_ResolvedInstrumentID r)) (rw_requests (snd sym_done)) = [(''resolved'', Some ''i2'')] \<and>
   removed_by (snd sym_done) [(sym_env ''i3'', Remove_Instrument ''i2'')] = {''i2''} \<and>
   (\<exists>r'. r' \<in> set (rw_requests (serve_symbol (sym_env ''i3'', Remove_Instrument ''i2'') (snd sym_done))) \<and>
      becomes {''i2''} (hd (rw_requests (snd sym_done))) r')"
proof -
  let ?calls = "[(sym_env ''i3'', Remove_Instrument ''i2'')]"
  have "requests_ok (catalogue sym_start) (rw_requests sym_start)" by (simp add: sym_start_def requests_ok_def)
  then have ok: "requests_ok (catalogue (snd sym_done)) (rw_requests (snd sym_done))"
    by (rule request_has_one_life [where calls = "[(sym_env ''r1'', Ask_Symbol ''u'' (Some sym_ask)), (sym_env ''r2'', Accept_Request ''r1''),
        (sym_env ''i2'', Add_Instrument (Some sym_add))]", THEN conjunct1])
      (simp add: sym_done_def sym_asked_def)
  have g: "removed_by (snd sym_done) ?calls = {''i2''}" by code_simp
  have "hd (rw_requests (snd sym_done)) \<in> set (rw_requests (snd sym_done))"
    using sym_done_row by (cases "rw_requests (snd sym_done)") auto
  then show ?thesis using request_has_one_life [OF ok, of _ ?calls, OF refl] sym_done_row g by auto
qed

theorem new_symbol_answers_all_witness:
  "map (\<lambda>r. (sy_Status r, sy_ResolvedInstrumentID r)) (rw_requests (snd sym_done)) = [(''resolved'', Some ''i2'')] \<and>
   rw_inbox (snd sym_done) = rw_inbox sym_asked @
     [(''u'', ''symbol_request'', ''Symbol request resolved'', ''Your request for TCS is now resolved.'')]"
proof -
  let ?i = "last (catalogue (snd sym_done))"
  have d: "AddInstrument (sym_env ''i2'') (Some sym_add) sym_asked = (Inr ?i, snd sym_done)"
    using sym_done_result by (metis prod.collapse sym_done_def)
  have ok: "\<forall>q \<in> set [''ResolveSymbolRequestsByInstrument'', ''GetUserByID'', ''InsertNotification''].
      an_ok (pn_api (mn_paper (sym_env ''i2''))) q" by (simp add: sym_env_def acct_env_def)
  have u: "\<forall>r \<in> set (rw_requests sym_asked). sy_UserID r \<in> set (user_ids (rw_accounts sym_asked))" by code_simp
  have "map notice (filter (\<lambda>r. sy_MarketProfileCode r = in_MarketProfileCode ?i \<and> to_lower (sy_Symbol r) = to_lower (in_Symbol ?i) \<and>
       sy_Status r \<in> {''pending'', ''accepted''}) (rw_requests sym_asked)) =
      [(''u'', ''symbol_request'', ''Symbol request resolved'', ''Your request for TCS is now resolved.'')]" by code_simp
  then have "rw_inbox (snd sym_done) = rw_inbox sym_asked @
      [(''u'', ''symbol_request'', ''Symbol request resolved'', ''Your request for TCS is now resolved.'')]"
    using new_symbol_answers_all [OF d refl ok u refl refl, THEN conjunct2, THEN conjunct2] by (simp only:)
  then show ?thesis using sym_done_row by blast
qed

end
