(* ===== verification/Auth.thy ===== *)
theory Auth
  imports AdminUsers
begin

section \<open>Sign-up, verification, login and logout\<close>

text \<open>
  Models \<^verbatim>\<open>internal/modules/auth/handler.go\<close>, \<^verbatim>\<open>internal/platform/security\<close> with its tokens, \<^verbatim>\<open>internal/store/\<close>
  \<^verbatim>\<open>email_verification.go\<close> and \<^verbatim>\<open>platform_invites.go\<close>, the middleware of \<^verbatim>\<open>internal/transport/http/middleware/auth.go\<close>
  and the administrator's invites.

  What other packages compute is a parameter: SHA-256, the parse of a mail address, bcrypt, the signing and reading of a JSON web
  token, and the token the JWT middleware takes from a header. So is a draw of random bytes, which may fail, and whether a mail
  could be sent; the mails that were sent are kept. An error that the program only logs is not kept. The time to live
  in hours and days is taken as it is configured.
\<close>

subsection \<open>State and environment\<close>

record email_verification =
  vf_ID :: string
  vf_UserID :: string
  vf_TokenHash :: string
  vf_ExpiresAt :: int
  vf_ConsumedAt :: "int option"
  vf_CreatedAt :: int

record platform_invite =
  pl_ID :: string
  pl_TokenHash :: string
  pl_Email :: string
  pl_Note :: string
  pl_UsedAt :: "int option"
  pl_UsedBy :: "string option"
  pl_ExpiresAt :: int
  pl_RevokedAt :: "int option"
  pl_CreatedBy :: string
  pl_CreatedAt :: int

record sworld =
  sw_api :: aworld
  sw_links :: "email_verification list"
  sw_invites :: "platform_invite list"
  sw_outbox :: "(string \<times> string) list"

record claims =
  cl_Sub :: string
  cl_Role :: string
  cl_Exp :: "int option"
  cl_Jti :: string

text \<open>What stays the same while the server runs, and what one request draws.\<close>

record platform =
  pf_sha :: "string \<Rightarrow> string"
  pf_address :: "string \<Rightarrow> string option"
  pf_bcrypt :: "string \<Rightarrow> string option"
  pf_bcrypt_ok :: "string \<Rightarrow> string \<Rightarrow> bool"
  pf_sign :: "claims \<Rightarrow> string option"
  pf_jwt :: "int \<Rightarrow> string \<Rightarrow> claims option"
  pf_header_token :: "string \<Rightarrow> string option"
  pf_url :: string
  pf_frontend :: string
  pf_closed :: bool
  pf_verify :: bool
  pf_link_hours :: int
  pf_invite_days :: int

record draws =
  dw_api :: aenv
  dw_linkID :: string
  dw_random :: "string option"
  dw_mail :: bool

definition sdb :: "sworld \<Rightarrow> account_db" where "sdb w = aw_db (sw_api w)"

definition with_sdb :: "account_db \<Rightarrow> sworld \<Rightarrow> sworld" where
  "with_sdb db w = w\<lparr>sw_api := (sw_api w)\<lparr>aw_db := db\<rparr>\<rparr>"

definition with_sredis :: "redis \<Rightarrow> sworld \<Rightarrow> sworld" where
  "with_sredis r w = w\<lparr>sw_api := (sw_api w)\<lparr>aw_redis := r\<rparr>\<rparr>"

definition saudit :: "string \<Rightarrow> string \<Rightarrow> sworld \<Rightarrow> sworld" where
  "saudit uid action w = w\<lparr>sw_api := audit uid action (sw_api w)\<rparr>"

subsection \<open>Tokens, passwords and addresses\<close>

definition verify_prefix :: string where "verify_prefix = ''ev_''"

definition verify_Hash :: "platform \<Rightarrow> string \<Rightarrow> string" where
  "verify_Hash p raw = pf_sha p (trim_space raw)"

definition verify_Generate :: "platform \<Rightarrow> string option \<Rightarrow> (string \<times> string) option" where
  "verify_Generate p bytes = map_option (\<lambda>h. (verify_prefix @ h, verify_Hash p (verify_prefix @ h))) bytes"

definition verify_ValidateFormat :: "string \<Rightarrow> bool" where
  "verify_ValidateFormat raw = (let raw = trim_space raw in has_prefix verify_prefix raw \<and> length verify_prefix + 16 < length raw)"

definition invite_prefix :: string where "invite_prefix = ''inv_''"

definition invite_Hash :: "platform \<Rightarrow> string \<Rightarrow> string" where
  "invite_Hash p raw = pf_sha p (trim_space raw)"

definition invite_Generate :: "platform \<Rightarrow> string option \<Rightarrow> (string \<times> string) option" where
  "invite_Generate p bytes = map_option (\<lambda>h. (invite_prefix @ h, invite_Hash p (invite_prefix @ h))) bytes"

definition invite_ValidateFormat :: "string \<Rightarrow> bool" where
  "invite_ValidateFormat raw = (let raw = trim_space raw in has_prefix invite_prefix raw \<and> length invite_prefix + 16 < length raw)"

definition Mask :: "string \<Rightarrow> string" where
  "Mask raw = (if length raw \<le> 12 then ''***'' else take 8 raw @ ''...'' @ drop (length raw - 4) raw)"

definition MinPasswordLength :: nat where "MinPasswordLength = 8"

definition ErrPasswordTooShort :: go_err where "ErrPasswordTooShort = Errorf ''password must be at least 8 characters''"

definition ValidatePassword :: "string \<Rightarrow> go_err option" where
  "ValidatePassword password = (if length password < MinPasswordLength then Some ErrPasswordTooShort else None)"

definition NormalizeAccountEmail :: "platform \<Rightarrow> string \<Rightarrow> string option" where
  "NormalizeAccountEmail p email = map_option to_lower (pf_address p (trim_space email))"

definition normalizeEmail :: "string \<Rightarrow> string" where
  "normalizeEmail email = to_lower (trim_space email)"

definition LoginBlockedByEmailVerification :: "platform \<Rightarrow> user \<Rightarrow> bool" where
  "LoginBlockedByEmailVerification p u = (pf_verify p \<and> \<not> EmailVerified (Some u))"

definition EmailVerificationTTL :: "platform \<Rightarrow> int" where
  "EmailVerificationTTL p = (let h = pf_link_hours p; h = (if h \<le> 0 then 24 else h) in h * 3600000)"

definition VerificationURL :: "platform \<Rightarrow> string \<Rightarrow> string" where
  "VerificationURL p raw = pf_url p @ ''/v1/auth/verify-email?token='' @ raw"

subsection \<open>Statements\<close>

definition CreateEmailVerification :: "email_verification \<Rightarrow> sworld \<Rightarrow> store_err + sworld" where
  "CreateEmailVerification v w =
     ebind (require (vf_ID v \<notin> vf_ID ` set (sw_links w) \<and> vf_TokenHash v \<notin> vf_TokenHash ` set (sw_links w)) ErrUniqueViolation ()) (\<lambda>_.
     require (vf_UserID v \<in> set (user_ids (sdb w))) ErrForeignKey (w\<lparr>sw_links := sw_links w @ [v\<lparr>vf_ConsumedAt := None\<rparr>]\<rparr>))"

definition InvalidatePendingEmailVerifications :: "int \<Rightarrow> string \<Rightarrow> sworld \<Rightarrow> sworld" where
  "InvalidatePendingEmailVerifications now uid w =
     w\<lparr>sw_links := update_where (\<lambda>v. vf_UserID v = uid \<and> vf_ConsumedAt v = None) (vf_ConsumedAt_update (\<lambda>_. Some now)) (sw_links w)\<rparr>"

definition GetPendingEmailVerificationByHash :: "sworld \<Rightarrow> string \<Rightarrow> email_verification option" where
  "GetPendingEmailVerificationByHash w h = find (\<lambda>v. vf_TokenHash v = h) (sw_links w)"

definition VerifyUserEmail :: "int \<Rightarrow> string \<Rightarrow> account_db \<Rightarrow> store_err + account_db" where
  "VerifyUserEmail now uid =
     update_user uid (u_EmailVerifiedAt_update (\<lambda>t. case t of None \<Rightarrow> Some now | Some t \<Rightarrow> Some t))"

text \<open>One transaction: the link is consumed and the address verified, or neither.\<close>

definition ConsumeEmailVerification :: "int \<Rightarrow> string \<Rightarrow> string \<Rightarrow> sworld \<Rightarrow> store_err + sworld" where
  "ConsumeEmailVerification now vid uid w =
     (let hit = (\<lambda>v. vf_ID v = vid \<and> vf_UserID v = uid \<and> vf_ConsumedAt v = None \<and> now < vf_ExpiresAt v) in
      ebind (require (list_ex hit (sw_links w)) ErrNoRows ()) (\<lambda>_.
        Inr ((with_sdb ((sdb w)\<lparr>ad_users := update_where (\<lambda>u. u_ID u = uid)
                (u_EmailVerifiedAt_update (\<lambda>t. case t of None \<Rightarrow> Some now | Some t \<Rightarrow> Some t)) (ad_users (sdb w))\<rparr>) w)
              \<lparr>sw_links := update_where hit (vf_ConsumedAt_update (\<lambda>_. Some now)) (sw_links w)\<rparr>)))"

definition new_invite :: "platform \<Rightarrow> draws \<Rightarrow> string \<Rightarrow> string \<Rightarrow> string \<Rightarrow> string \<Rightarrow> platform_invite" where
  "new_invite p d h email note createdBy =
     \<lparr> pl_ID = an_newID (dw_api d), pl_TokenHash = h, pl_Email = normalizeEmail email, pl_Note = note, pl_UsedAt = None,
       pl_UsedBy = None, pl_ExpiresAt = an_now (dw_api d) + pf_invite_days p * ms_per_day, pl_RevokedAt = None,
       pl_CreatedBy = createdBy, pl_CreatedAt = an_now (dw_api d) \<rparr>"

definition CreatePlatformInvite ::
  "platform \<Rightarrow> draws \<Rightarrow> string \<Rightarrow> string \<Rightarrow> string \<Rightarrow> sworld \<Rightarrow> (string \<times> platform_invite \<times> sworld) option" where
  "CreatePlatformInvite p d email note createdBy w =
     (case invite_Generate p (dw_random d) of None \<Rightarrow> None
      | Some (raw, h) \<Rightarrow>
        let iv = new_invite p d h email note createdBy in
        if an_ok (dw_api d) ''CreatePlatformInvite'' \<and> pl_ID iv \<notin> pl_ID ` set (sw_invites w) \<and>
           h \<notin> pl_TokenHash ` set (sw_invites w) \<and> createdBy \<in> set (user_ids (sdb w))
        then Some (raw, iv, w\<lparr>sw_invites := sw_invites w @ [iv]\<rparr>) else None)"

definition invite_valid :: "int \<Rightarrow> platform_invite \<Rightarrow> bool" where
  "invite_valid now i = (pl_UsedAt i = None \<and> pl_RevokedAt i = None \<and> \<not> pl_ExpiresAt i < now)"

definition GetValidPlatformInviteByTokenHash :: "int \<Rightarrow> sworld \<Rightarrow> string \<Rightarrow> platform_invite option" where
  "GetValidPlatformInviteByTokenHash now w h =
     (case find (\<lambda>i. pl_TokenHash i = h) (sw_invites w) of None \<Rightarrow> None
      | Some i \<Rightarrow> if invite_valid now i then Some i else None)"

definition UsePlatformInvite :: "int \<Rightarrow> string \<Rightarrow> string \<Rightarrow> sworld \<Rightarrow> sworld" where
  "UsePlatformInvite now iid uid w =
     w\<lparr>sw_invites := update_where (\<lambda>i. pl_ID i = iid \<and> pl_UsedAt i = None)
        (\<lambda>i. i\<lparr>pl_UsedAt := Some now, pl_UsedBy := Some uid\<rparr>) (sw_invites w)\<rparr>"

text \<open>Each invite with the address of the user who used it.\<close>

definition ListPlatformInvites :: "sworld \<Rightarrow> (platform_invite \<times> string) list" where
  "ListPlatformInvites w =
     map (\<lambda>i. (i, case pl_UsedBy i of None \<Rightarrow> []
                  | Some uid \<Rightarrow> (case GetUserByID (sdb w) uid of None \<Rightarrow> [] | Some u \<Rightarrow> u_Email u)))
       (newest_first pl_CreatedAt (sw_invites w))"

definition RevokePlatformInvite :: "int \<Rightarrow> string \<Rightarrow> sworld \<Rightarrow> store_err + sworld" where
  "RevokePlatformInvite now iid w =
     (let hit = (\<lambda>i. pl_ID i = iid \<and> pl_RevokedAt i = None \<and> pl_UsedAt i = None) in
      require (list_ex hit (sw_invites w)) ErrNoRows
        (w\<lparr>sw_invites := update_where hit (pl_RevokedAt_update (\<lambda>_. Some now)) (sw_invites w)\<rparr>))"

subsection \<open>Registration\<close>

text \<open>Whether the link was mailed, and the state that is left.\<close>

definition IssueVerificationEmail :: "platform \<Rightarrow> draws \<Rightarrow> string \<Rightarrow> string \<Rightarrow> sworld \<Rightarrow> bool \<times> sworld" where
  "IssueVerificationEmail p d uid email w =
     (let api = dw_api d; now = an_now api in
      if \<not> an_ok api ''InvalidatePendingEmailVerifications'' then (False, w)
      else
        let w = InvalidatePendingEmailVerifications now uid w in
        (case verify_Generate p (dw_random d) of None \<Rightarrow> (False, w)
         | Some (raw, h) \<Rightarrow>
           let v = \<lparr> vf_ID = dw_linkID d, vf_UserID = uid, vf_TokenHash = h, vf_ExpiresAt = now + EmailVerificationTTL p,
                     vf_ConsumedAt = None, vf_CreatedAt = now \<rparr> in
           (case (if an_ok api ''CreateEmailVerification'' then CreateEmailVerification v w else Inl ErrNoRows) of
              Inl _ \<Rightarrow> (False, w)
            | Inr w \<Rightarrow> if dw_mail d then (True, w\<lparr>sw_outbox := sw_outbox w @ [(email, VerificationURL p raw)]\<rparr>) else (False, w))))"

record register_body =
  rb_Email :: string
  rb_Password :: string
  rb_InviteCode :: string

text \<open>The invite that a closed registration asks for.\<close>

definition required_invite :: "platform \<Rightarrow> draws \<Rightarrow> string \<Rightarrow> string \<Rightarrow> sworld \<Rightarrow> http_err + platform_invite option" where
  "required_invite p d code email w =
     (if \<not> pf_closed p then Inr None
      else
        ebind (ensure (trim_space code \<noteq> []) 403 ''registration is invite-only'') (\<lambda>_.
        ebind (ensure (invite_ValidateFormat code) 403 ''invalid or expired invite code'') (\<lambda>_.
        ebind (ensure (an_ok (dw_api d) ''GetValidPlatformInviteByTokenHash'') 500 ''invite lookup failed'') (\<lambda>_.
        (case GetValidPlatformInviteByTokenHash (an_now (dw_api d)) w (invite_Hash p code) of
           None \<Rightarrow> Inl (403, ''invalid or expired invite code'')
         | Some invite \<Rightarrow>
             ebind (ensure (\<not> (pl_Email invite \<noteq> [] \<and> \<not> equal_fold (pl_Email invite) email)) 403
               ''this invite is for a different email address'') (\<lambda>_. Inr (Some invite)))))))"

text \<open>What is checked before anything is written: the address, the invite and the hash of the password.\<close>

definition check_registration ::
  "platform \<Rightarrow> draws \<Rightarrow> register_body option \<Rightarrow> sworld \<Rightarrow> http_err + (string \<times> platform_invite option \<times> string)" where
  "check_registration p d body w =
     (case body of None \<Rightarrow> Inl (400, ''email and password required'')
      | Some body \<Rightarrow>
        ebind (ensure (\<not> (rb_Email body = [] \<or> rb_Password body = [])) 400 ''email and password required'') (\<lambda>_.
        (case NormalizeAccountEmail p (rb_Email body) of None \<Rightarrow> Inl (400, ''invalid email'')
         | Some email \<Rightarrow>
           ebind (invalid (ValidatePassword (rb_Password body))) (\<lambda>_.
           ebind (required_invite p d (rb_InviteCode body) email w) (\<lambda>invite.
           (case pf_bcrypt p (rb_Password body) of None \<Rightarrow> Inl (500, ''could not hash password'')
            | Some h \<Rightarrow> Inr (email, invite, h)))))))"

definition new_user :: "draws \<Rightarrow> string \<Rightarrow> string \<Rightarrow> user" where
  "new_user d email h =
     \<lparr> u_ID = an_newID (dw_api d), u_Email = email, u_PasswordHash = h, u_Plan = PlanFree, u_Role = RoleUser, u_Status = StatusActive,
       u_OrgsEnabled = False, u_EarlyBirdLive = False, u_LiveOrdersUsed = 0, u_EmailVerifiedAt = None, u_StripeCustomerID = [],
       u_StripeSubscriptionID = [], u_BillingSource = [], u_TelegramChatID = [], u_CreatedAt = an_now (dw_api d) \<rparr>"

definition use_invite :: "draws \<Rightarrow> platform_invite option \<Rightarrow> sworld \<Rightarrow> sworld" where
  "use_invite d invite w =
     (case invite of None \<Rightarrow> w
      | Some i \<Rightarrow> if an_ok (dw_api d) ''UsePlatformInvite''
                  then UsePlatformInvite (an_now (dw_api d)) (pl_ID i) (an_newID (dw_api d)) w else w)"

text \<open>The link is mailed, or, when no verification is asked for, the address counts as verified.\<close>

definition first_verification :: "platform \<Rightarrow> draws \<Rightarrow> string \<Rightarrow> sworld \<Rightarrow> sworld" where
  "first_verification p d email w =
     (let api = dw_api d; uid = an_newID api in
      if pf_verify p then snd (IssueVerificationEmail p d uid email w)
      else (case stored api ''VerifyUserEmail'' (VerifyUserEmail (an_now api) uid (sdb w)) of
              None \<Rightarrow> w | Some db \<Rightarrow> with_sdb db w))"

text \<open>What follows the checks. Whether a verification is asked for is part of the answer.\<close>

definition write_registration ::
  "platform \<Rightarrow> draws \<Rightarrow> string \<times> platform_invite option \<times> string \<Rightarrow> sworld \<Rightarrow> (http_err + (string \<times> string \<times> bool)) \<times> sworld" where
  "write_registration p d = (\<lambda>(email, invite, h) w.
     (let api = dw_api d; uid = an_newID api in
      case stored api ''CreateUser'' (CreateUser (new_user d email h) (sdb w)) of
        None \<Rightarrow> (Inl (409, ''email already registered''), w)
      | Some db \<Rightarrow>
          (Inr (uid, email, pf_verify p),
           saudit uid ''register'' (first_verification p d email (use_invite d invite (with_sdb db w))))))"

definition Register ::
  "platform \<Rightarrow> draws \<Rightarrow> register_body option \<Rightarrow> sworld \<Rightarrow> (http_err + (string \<times> string \<times> bool)) \<times> sworld" where
  "Register p d body w =
     (case check_registration p d body w of Inl e \<Rightarrow> (Inl e, w) | Inr x \<Rightarrow> write_registration p d x w)"

subsection \<open>Verifying an address\<close>

text \<open>The page of the dashboard that the browser is sent to.\<close>

datatype verify_page = Verify_Error string | Verify_Done string

definition VerifyEmail :: "platform \<Rightarrow> draws \<Rightarrow> string \<Rightarrow> sworld \<Rightarrow> verify_page \<times> sworld" where
  "VerifyEmail p d token w =
     (let api = dw_api d; now = an_now api; raw = trim_space token in
      if \<not> verify_ValidateFormat raw then (Verify_Error ''invalid_token'', w)
      else if \<not> an_ok api ''GetPendingEmailVerificationByHash'' then (Verify_Error ''server_error'', w)
      else (case GetPendingEmailVerificationByHash w (verify_Hash p raw) of
              None \<Rightarrow> (Verify_Error ''invalid_token'', w)
            | Some v \<Rightarrow>
                if vf_ConsumedAt v \<noteq> None then (Verify_Error ''link_superseded'', w)
                else if vf_ExpiresAt v < now then (Verify_Error ''expired_token'', w)
                else if \<not> an_ok api ''ConsumeEmailVerification'' then (Verify_Error ''server_error'', w)
                else (case ConsumeEmailVerification now (vf_ID v) (vf_UserID v) w of
                        Inl e \<Rightarrow> (Verify_Error (if e = ErrNoRows then ''expired_token'' else ''server_error''), w)
                      | Inr w \<Rightarrow>
                          (case (if an_ok api ''GetUserByID'' then GetUserByID (sdb w) (vf_UserID v) else None) of
                             None \<Rightarrow> (Verify_Error ''server_error'', w)
                           | Some u \<Rightarrow> (Verify_Done (u_Email u), w)))))"

definition maxVerifyResendsPerHour :: int where "maxVerifyResendsPerHour = 3"

definition resend_text :: string where
  "resend_text = ''if the account exists and is unverified, a verification email was sent''"

text \<open>What follows the limit of one address.\<close>

definition send_again :: "platform \<Rightarrow> draws \<Rightarrow> string \<Rightarrow> sworld \<Rightarrow> (http_err + string) \<times> sworld" where
  "send_again p d email w =
     (if \<not> an_ok (dw_api d) ''GetUserByEmail'' then (Inl (500, ''lookup failed''), w)
      else (case GetUserByEmail (sdb w) email of None \<Rightarrow> (Inr resend_text, w)
            | Some u \<Rightarrow>
                if EmailVerified (Some u) then (Inr resend_text, w)
                else
                  let (sent, w) = IssueVerificationEmail p d (u_ID u) (u_Email u) w in
                  (if sent then Inr resend_text
                   else Inl (500, ''could not send verification email; please try again later''), w)))"

definition ResendVerification :: "platform \<Rightarrow> draws \<Rightarrow> string option \<Rightarrow> sworld \<Rightarrow> (http_err + string) \<times> sworld" where
  "ResendVerification p d body w =
     (let api = dw_api d; failed = Inl (500, ''rate limit check failed'') in
      case body of None \<Rightarrow> (Inl (400, ''invalid body''), w)
      | Some e \<Rightarrow>
     (case NormalizeAccountEmail p e of None \<Rightarrow> (Inr resend_text, w)
      | Some email \<Rightarrow>
        if \<not> an_redis_up api ''IncrVerifyResendLimit'' then (failed, w)
        else (case IncrVerifyResendLimit email (an_now api) (aw_redis (sw_api w)) of
                (Inl _, r) \<Rightarrow> (failed, with_sredis r w)
              | (Inr count, r) \<Rightarrow>
                  if maxVerifyResendsPerHour < count
                  then (Inl (429, ''too many verification emails sent; try again later''), with_sredis r w)
                  else send_again p d email (with_sredis r w))))"

subsection \<open>Login, logout and the middleware\<close>

definition session_claims :: "draws \<Rightarrow> user \<Rightarrow> claims" where
  "session_claims d u = \<lparr> cl_Sub = u_ID u, cl_Role = u_Role u, cl_Exp = Some ((an_now (dw_api d) + 5 * 3600000) div 1000),
     cl_Jti = an_newID (dw_api d) \<rparr>"

text \<open>The answer holds the token; that it names the user's organisation is left out.\<close>

definition Login :: "platform \<Rightarrow> draws \<Rightarrow> (string \<times> string) option \<Rightarrow> sworld \<Rightarrow> (http_err + string) \<times> sworld" where
  "Login p d body w =
     (let wrong = (401, ''invalid credentials'') in
      case ebind (case body of None \<Rightarrow> Inl (400, ''invalid body'') | Some b \<Rightarrow> Inr b) (\<lambda>(e, password).
           (case NormalizeAccountEmail p e of None \<Rightarrow> Inl wrong
            | Some email \<Rightarrow>
           (case (if an_ok (dw_api d) ''GetUserByEmail'' then GetUserByEmail (sdb w) email else None) of None \<Rightarrow> Inl wrong
            | Some u \<Rightarrow>
           ebind (ensure (pf_bcrypt_ok p (u_PasswordHash u) password) 401 ''invalid credentials'') (\<lambda>_.
           ebind (ensure (u_Status u \<noteq> StatusSuspended) 403 ''account suspended'') (\<lambda>_.
           ebind (ensure (\<not> LoginBlockedByEmailVerification p u) 403 ''email not verified'') (\<lambda>_.
           (case pf_sign p (session_claims d u) of None \<Rightarrow> Inl (500, ''could not issue tokens'')
            | Some token \<Rightarrow> Inr (u_ID u, token)))))))) of
        Inl e \<Rightarrow> (Inl e, w)
      | Inr (uid, token) \<Rightarrow> (Inr token, saudit uid ''login'' w))"

definition BearerToken :: "string \<Rightarrow> string" where
  "BearerToken header = (if \<not> has_prefix ''Bearer '' header then [] else trim_space (drop 7 header))"

definition UserRole :: "claims \<Rightarrow> string" where
  "UserRole c = (if cl_Role c = [] then ''user'' else cl_Role c)"

definition Logout :: "platform \<Rightarrow> draws \<Rightarrow> string \<Rightarrow> claims \<Rightarrow> sworld \<Rightarrow> (http_err + unit) \<times> sworld" where
  "Logout p d header c w =
     (let api = dw_api d; now = an_now api; raw = BearerToken header; bad = Inl (401, ''invalid or missing token'') in
      if raw = [] then (bad, w)
      else (case cl_Exp c of None \<Rightarrow> (bad, w)
            | Some t \<Rightarrow>
                let ttl = t * 1000 - now in
                if \<not> 0 < ttl then (Inr (), w)
                else if \<not> an_redis_up api ''RevokeJWT'' then (Inl (500, ''logout failed''), w)
                else (Inr (), with_sredis (RevokeJWT (pf_sha p) raw ttl now (aw_redis (sw_api w))) w)))"

definition CheckRevoked :: "platform \<Rightarrow> draws \<Rightarrow> string \<Rightarrow> redis \<Rightarrow> http_err + unit" where
  "CheckRevoked p d header r =
     (let raw = BearerToken header in
      ensure (\<not> (raw \<noteq> [] \<and> an_redis_up (dw_api d) ''IsJWTRevoked'' \<and> IsJWTRevoked (pf_sha p) raw (an_now (dw_api d)) r)) 401
        ''token revoked'')"

definition RequirePlatformAdmin :: "claims \<Rightarrow> http_err + unit" where
  "RequirePlatformAdmin c = ensure (UserRole c = ''admin'') 403 ''platform admin access required''"

text \<open>The two middlewares before every protected route; the claims name the caller.\<close>

definition authorized :: "platform \<Rightarrow> draws \<Rightarrow> string \<Rightarrow> sworld \<Rightarrow> http_err + claims" where
  "authorized p d header w =
     (case Option.bind (pf_header_token p header) (pf_jwt p (an_now (dw_api d))) of
        None \<Rightarrow> Inl (401, ''invalid or missing token'')
      | Some c \<Rightarrow> ebind (CheckRevoked p d header (aw_redis (sw_api w))) (\<lambda>_. Inr c))"

text \<open>\<^verbatim>\<open>ParseAccessToken\<close>, and the check before the stream of trades is opened.\<close>

definition ParseAccessToken :: "platform \<Rightarrow> int \<Rightarrow> string \<Rightarrow> string option" where
  "ParseAccessToken p now raw =
     (case pf_jwt p now raw of None \<Rightarrow> None | Some c \<Rightarrow> if cl_Sub c = [] then None else Some (cl_Sub c))"

definition WsTradesUpgrade :: "platform \<Rightarrow> draws \<Rightarrow> string \<Rightarrow> sworld \<Rightarrow> http_err + string" where
  "WsTradesUpgrade p d raw w =
     (let bad = (401, ''invalid or missing token'') in
      ebind (ensure (raw \<noteq> []) 401 ''invalid or missing token'') (\<lambda>_.
      (case ParseAccessToken p (an_now (dw_api d)) raw of None \<Rightarrow> Inl bad
       | Some uid \<Rightarrow>
         ebind (ensure (\<not> (an_redis_up (dw_api d) ''IsJWTRevoked'' \<and>
                     IsJWTRevoked (pf_sha p) raw (an_now (dw_api d)) (aw_redis (sw_api w)))) 401 ''token revoked'') (\<lambda>_. Inr uid))))"

subsection \<open>The administrator's invites, and the end of a user\<close>

definition AdminCreatePlatformInvite ::
  "platform \<Rightarrow> draws \<Rightarrow> string \<Rightarrow> string \<Rightarrow> string \<Rightarrow> sworld \<Rightarrow> (http_err + (string \<times> platform_invite)) \<times> sworld" where
  "AdminCreatePlatformInvite p d adminID email note w =
     (case CreatePlatformInvite p d email note adminID w of
        None \<Rightarrow> (Inl (500, ''could not create invite''), w)
      | Some (raw, iv, w) \<Rightarrow>
          (Inr (raw, iv),
           if pl_Email iv \<noteq> [] \<and> dw_mail d
           then w\<lparr>sw_outbox := sw_outbox w @ [(pl_Email iv, pf_frontend p @ ''/register?invite='' @ raw)]\<rparr> else w))"

definition AdminListPlatformInvites :: "draws \<Rightarrow> sworld \<Rightarrow> http_err + (platform_invite \<times> string) list" where
  "AdminListPlatformInvites d w =
     (if an_ok (dw_api d) ''ListPlatformInvites'' then Inr (ListPlatformInvites w) else Inl (500, ''could not list invites''))"

definition AdminRevokePlatformInvite :: "draws \<Rightarrow> string \<Rightarrow> sworld \<Rightarrow> (http_err + unit) \<times> sworld" where
  "AdminRevokePlatformInvite d iid w =
     (let api = dw_api d in
      if \<not> an_uuid api iid then (Inl (400, ''invalid invite id''), w)
      else if \<not> an_ok api ''RevokePlatformInvite'' then (Inl (500, ''could not revoke invite''), w)
      else (case RevokePlatformInvite (an_now api) iid w of
              Inl _ \<Rightarrow> (Inl (404, ''invite not found or already revoked''), w)
            | Inr w \<Rightarrow> (Inr (), w)))"

text \<open>
  Deleting a user over these tables: links go with the user, but an invite that names the user forbids it, because
  its columns refer to the user without a cascade.
\<close>

definition names_user :: "string \<Rightarrow> platform_invite \<Rightarrow> bool" where
  "names_user uid i = (pl_UsedBy i = Some uid \<or> pl_CreatedBy i = uid)"

definition DeleteUser_signed :: "draws \<Rightarrow> string \<Rightarrow> string \<Rightarrow> sworld \<Rightarrow> (http_err + unit) \<times> sworld" where
  "DeleteUser_signed d actorID uid w =
     (let api = dw_api d; free = \<not> list_ex (names_user uid) (sw_invites w);
          (r, a) = AdminDeleteUser (api\<lparr>an_ok := (\<lambda>n. an_ok api n \<and> (n = ''DeleteUser'' \<longrightarrow> free))\<rparr>) actorID uid (sw_api w)
      in (r, w\<lparr>sw_api := a, sw_links := filter (\<lambda>v. vf_UserID v \<in> set (user_ids (aw_db a))) (sw_links w)\<rparr>))"

end
