(* ===== verification/SignUp.thy ===== *)
theory SignUp
  imports Auth
begin

section \<open>Accounts, links and sessions in every reachable state\<close>

text \<open>
  The requests of \<open>Auth\<close> as steps, and what holds in every state they lead to: at most one verification link of a user is
  open, an address is only verified through its user's link, an invite admits one user, and a session that was ended stays ended.
\<close>

subsection \<open>Steps\<close>

inductive auth_step :: "platform \<Rightarrow> draws \<Rightarrow> sworld \<Rightarrow> sworld \<Rightarrow> bool" for p d where
  sign_up: "auth_step p d w (snd (Register p d body w))"
| open_link: "auth_step p d w (snd (VerifyEmail p d token w))"
| resend: "auth_step p d w (snd (ResendVerification p d address w))"
| sign_in: "auth_step p d w (snd (Login p d login w))"
| sign_out: "authorized p d header w = Inr c \<Longrightarrow> auth_step p d w (snd (Logout p d header c w))"
| new_invite: "auth_step p d w (snd (AdminCreatePlatformInvite p d adminID email note w))"
| no_invite: "auth_step p d w (snd (AdminRevokePlatformInvite d iid w))"
| patched: "auth_step p d w (with_sdb (snd (AdminPatchUser (dw_api d) adminID uid change (sdb w))) w)"
| removed: "auth_step p d w (snd (DeleteUser_signed d adminID uid w))"

text \<open>Runs whose draws satisfy a condition.\<close>

inductive auth_run :: "platform \<Rightarrow> (draws \<Rightarrow> bool) \<Rightarrow> sworld \<Rightarrow> sworld \<Rightarrow> bool" for p G w where
  idle: "auth_run p G w w"
| then_step: "auth_run p G w w' \<Longrightarrow> G d \<Longrightarrow> auth_step p d w' w'' \<Longrightarrow> auth_run p G w w''"

definition auth_start :: "sworld \<Rightarrow> bool" where
  "auth_start w = (sound (sdb w) \<and> sw_links w = [] \<and> sw_invites w = [])"

definition auth_reachable :: "platform \<Rightarrow> sworld \<Rightarrow> bool" where
  "auth_reachable p w = (\<exists>w0. auth_start w0 \<and> auth_run p (\<lambda>_. True) w0 w)"

subsection \<open>The tables\<close>

abbreviation open_link_of :: "email_verification \<Rightarrow> bool" where
  "open_link_of v \<equiv> vf_ConsumedAt v = None"

definition links_ok :: "string set \<Rightarrow> email_verification list \<Rightarrow> bool" where
  "links_ok U vs = (distinct (map vf_ID vs) \<and> distinct (map vf_TokenHash vs) \<and> vf_UserID ` set vs \<subseteq> U \<and>
     distinct (map vf_UserID (filter open_link_of vs)))"

definition invites_ok :: "platform_invite list \<Rightarrow> bool" where
  "invites_ok is = (distinct (map pl_ID is) \<and> distinct (map pl_TokenHash is))"

definition auth_ok :: "sworld \<Rightarrow> bool" where
  "auth_ok w = (sound (sdb w) \<and> links_ok (set (user_ids (sdb w))) (sw_links w) \<and> invites_ok (sw_invites w))"

lemma world_simps [simp]:
  "sdb (with_sdb db w) = db" "sw_links (with_sdb db w) = sw_links w" "sw_invites (with_sdb db w) = sw_invites w"
  "sw_outbox (with_sdb db w) = sw_outbox w" "aw_redis (sw_api (with_sdb db w)) = aw_redis (sw_api w)"
  "sdb (with_sredis r w) = sdb w" "sw_links (with_sredis r w) = sw_links w" "sw_invites (with_sredis r w) = sw_invites w"
  "aw_redis (sw_api (with_sredis r w)) = r"
  "sdb (saudit u a w) = sdb w" "sw_links (saudit u a w) = sw_links w" "sw_invites (saudit u a w) = sw_invites w"
  "aw_redis (sw_api (saudit u a w)) = aw_redis (sw_api w)"
  "sdb (w\<lparr>sw_links := vs\<rparr>) = sdb w" "sdb (w\<lparr>sw_invites := is\<rparr>) = sdb w" "sdb (w\<lparr>sw_outbox := ms\<rparr>) = sdb w"
  by (simp_all add: sdb_def with_sdb_def with_sredis_def saudit_def audit_def)

lemma auth_ok_frame:
  "auth_ok w \<Longrightarrow> sdb w' = sdb w \<Longrightarrow> sw_links w' = sw_links w \<Longrightarrow> sw_invites w' = sw_invites w \<Longrightarrow> auth_ok w'"
  by (simp add: auth_ok_def)

lemma filter_update_other:
  "(\<And>r. P r \<Longrightarrow> \<not> Q (f r)) \<Longrightarrow> filter Q (update_where P f xs) = filter (\<lambda>r. Q r \<and> \<not> P r) xs"
  by (induction xs) (auto simp: update_where_def)

lemma links_consumed:
  assumes "links_ok U vs"
  shows "links_ok U (update_where P (vf_ConsumedAt_update (\<lambda>_. Some now)) vs)"
proof -
  let ?vs = "update_where P (vf_ConsumedAt_update (\<lambda>_. Some now)) vs"
  have "filter open_link_of ?vs = filter (\<lambda>r. \<not> P r) (filter open_link_of vs)"
    by (simp add: filter_update_other conj_commute)
  moreover have "distinct (map vf_UserID (filter (\<lambda>r. \<not> P r) (filter open_link_of vs)))"
    by (rule distinct_map_filter) (use assms in \<open>simp add: links_ok_def\<close>)
  ultimately have "distinct (map vf_UserID (filter open_link_of ?vs))" by simp
  then show ?thesis using assms by (simp add: links_ok_def)
qed

lemma links_mono: "links_ok U vs \<Longrightarrow> U \<subseteq> U' \<Longrightarrow> links_ok U' vs"
  by (auto simp: links_ok_def)

lemma auth_ok_users:
  "auth_ok w \<Longrightarrow> sound db \<Longrightarrow> user_ids db = user_ids (sdb w) \<Longrightarrow> auth_ok (with_sdb db w)"
  by (simp add: auth_ok_def)

lemma update_user_ids: "update_user uid f db = Inr db' \<Longrightarrow> (\<And>u. u_ID (f u) = u_ID u) \<Longrightarrow> user_ids db' = user_ids db"
  by (auto simp: update_user_Inr user_ids_def)

lemma auth_ok_updated:
  "auth_ok w \<Longrightarrow> update_user uid f (sdb w) = Inr db \<Longrightarrow> (\<And>u. u_ID (f u) = u_ID u) \<Longrightarrow> (\<And>u. u_Email (f u) = u_Email u) \<Longrightarrow>
     auth_ok (with_sdb db w)"
  by (rule auth_ok_users) (auto simp: auth_ok_def intro: sound_update_user update_user_ids)

lemma auth_ok_issue:
  assumes "auth_ok w"
  shows "auth_ok (snd (IssueVerificationEmail p d uid email w))"
proof -
  let ?w = "InvalidatePendingEmailVerifications (an_now (dw_api d)) uid w"
  have inv: "auth_ok ?w" using assms links_consumed by (simp add: auth_ok_def InvalidatePendingEmailVerifications_def)
  have "auth_ok w'" if c: "CreateEmailVerification v ?w = Inr w'" "vf_UserID v = uid" for v w'
  proof -
    have w': "w' = ?w\<lparr>sw_links := sw_links ?w @ [v\<lparr>vf_ConsumedAt := None\<rparr>]\<rparr>" and
        fresh: "vf_ID v \<notin> vf_ID ` set (sw_links ?w)" "vf_TokenHash v \<notin> vf_TokenHash ` set (sw_links ?w)"
        "uid \<in> set (user_ids (sdb w))"
      using c by (auto simp: CreateEmailVerification_def ebind_Inr_iff InvalidatePendingEmailVerifications_def)
    have "uid \<notin> vf_UserID ` set (filter open_link_of (sw_links ?w))"
      by (auto simp: InvalidatePendingEmailVerifications_def filter_update_other)
    then show ?thesis using inv fresh c(2) by (simp add: auth_ok_def links_ok_def w' InvalidatePendingEmailVerifications_def)
  qed
  then show ?thesis using assms inv
    by (auto simp: IssueVerificationEmail_def Let_def auth_ok_def split: option.split sum.split)
qed

lemma sdb_issue [simp]:
  "sdb (snd (IssueVerificationEmail p d uid email w)) = sdb w"
  "sw_invites (snd (IssueVerificationEmail p d uid email w)) = sw_invites w"
  "aw_redis (sw_api (snd (IssueVerificationEmail p d uid email w))) = aw_redis (sw_api w)"
  by (auto simp: IssueVerificationEmail_def Let_def CreateEmailVerification_def InvalidatePendingEmailVerifications_def
      ebind_def require_def split: option.split sum.split)

lemma CreateUser_Inr_users:
  "CreateUser u db = Inr db' \<Longrightarrow> \<exists>r. db' = db\<lparr>ad_users := ad_users db @ [r]\<rparr> \<and> u_ID r = u_ID u \<and> u_Email r = u_Email u \<and>
     u_EmailVerifiedAt r = u_EmailVerifiedAt u \<and> u_Role r = u_Role u"
  by (auto simp: CreateUser_def Let_def ebind_Inr_iff)

lemma auth_ok_use: "auth_ok w \<Longrightarrow> auth_ok (UsePlatformInvite now iid uid w)"
  by (simp add: auth_ok_def UsePlatformInvite_def invites_ok_def)

lemma auth_ok_use_invite: "auth_ok w \<Longrightarrow> auth_ok (use_invite d invite w)"
  by (simp add: use_invite_def auth_ok_use split: option.split)

lemma auth_ok_first: "auth_ok w \<Longrightarrow> auth_ok (first_verification p d email w)"
  by (auto simp: first_verification_def Let_def auth_ok_issue VerifyUserEmail_def split: option.split intro: auth_ok_updated)

lemma write_registration_cases:
  obtains (refused) "snd (write_registration p d x w) = w" "fst (write_registration p d x w) = Inl (409, ''email already registered'')"
  | (written) email invite h db where "x = (email, invite, h)" "CreateUser (new_user d email h) (sdb w) = Inr db"
      "write_registration p d x w = (Inr (an_newID (dw_api d), email, pf_verify p),
         saudit (an_newID (dw_api d)) ''register'' (first_verification p d email (use_invite d invite (with_sdb db w))))"
proof -
  obtain email invite h where x: "x = (email, invite, h)" by (cases x)
  show thesis
  proof (cases "stored (dw_api d) ''CreateUser'' (CreateUser (new_user d email h) (sdb w))")
    case None
    then show thesis by (intro refused) (simp_all add: write_registration_def x)
  next
    case (Some db)
    then have c: "an_ok (dw_api d) ''CreateUser''" "CreateUser (new_user d email h) (sdb w) = Inr db" by simp_all
    then show thesis by (intro written [OF x c(2)]) (simp add: write_registration_def x Let_def stored_def)
  qed
qed

lemma auth_ok_write:
  assumes "auth_ok w"
  shows "auth_ok (snd (write_registration p d x w))"
proof (cases rule: write_registration_cases [of p d x w])
  case (written email invite h db)
  have "sound db" by (rule sound_CreateUser [OF _ written(2)]) (use assms in \<open>simp add: auth_ok_def\<close>)
  moreover have "set (user_ids (sdb w)) \<subseteq> set (user_ids db)" using CreateUser_Inr_users [OF written(2)] by (auto simp: user_ids_def)
  ultimately have "auth_ok (with_sdb db w)" using assms links_mono by (auto simp: auth_ok_def)
  then show ?thesis using auth_ok_frame [OF auth_ok_first [OF auth_ok_use_invite]] written(3) by simp
qed (use assms in simp)

lemma auth_ok_register: "auth_ok w \<Longrightarrow> auth_ok (snd (Register p d body w))"
  by (simp add: Register_def auth_ok_write split: sum.split)

lemma auth_ok_consume:
  assumes "auth_ok w" "ConsumeEmailVerification now vid uid w = Inr w'"
  shows "auth_ok w'"
proof -
  let ?f = "u_EmailVerifiedAt_update (\<lambda>t. case t of None \<Rightarrow> Some now | Some t \<Rightarrow> Some t)"
  let ?db = "(sdb w)\<lparr>ad_users := update_where (\<lambda>u. u_ID u = uid) ?f (ad_users (sdb w))\<rparr>"
  have db: "sdb w' = ?db" and rest: "sw_invites w' = sw_invites w" and links: "links_ok U (sw_links w) \<Longrightarrow> links_ok U (sw_links w')" for U
    using assms(2) by (auto simp: ConsumeEmailVerification_def Let_def ebind_Inr_iff intro: links_consumed)
  have "list_all user_check (ad_users (sdb w))" using assms(1) by (simp add: auth_ok_def sound_iff users_ok_def)
  then have "list_all user_check (update_where (\<lambda>u. u_ID u = uid) ?f (ad_users (sdb w)))"
    by (rule checked_update) (use \<open>list_all user_check (ad_users (sdb w))\<close> in \<open>simp add: user_check_def list_all_iff\<close>)
  then have "list_all user_check (ad_users ?db)" by simp
  then have "users_ok (ad_users ?db)" using assms(1) by (simp add: auth_ok_def sound_iff users_ok_def)
  then have "sound ?db" using assms(1) by (simp add: auth_ok_def sound_iff)
  then show ?thesis using assms(1) db rest links by (simp add: auth_ok_def user_ids_def)
qed

text \<open>A resend counts, and may issue a link to the user of the address.\<close>

lemma send_again_cases:
  obtains (same) "snd (send_again p d email w) = w"
  | (issued) u where "GetUserByEmail (sdb w) email = Some u" "\<not> EmailVerified (Some u)"
      "snd (send_again p d email w) = snd (IssueVerificationEmail p d (u_ID u) (u_Email u) w)"
proof -
  consider "\<not> an_ok (dw_api d) ''GetUserByEmail'' \<or> GetUserByEmail (sdb w) email = None"
    | u where "an_ok (dw_api d) ''GetUserByEmail''" "GetUserByEmail (sdb w) email = Some u" "EmailVerified (Some u)"
    | u where "an_ok (dw_api d) ''GetUserByEmail''" "GetUserByEmail (sdb w) email = Some u" "\<not> EmailVerified (Some u)"
    by blast
  then show thesis
    by cases (use same issued in \<open>auto simp: send_again_def case_prod_beta\<close>)
qed

lemma resend_cases:
  obtains (same) "snd (ResendVerification p d address w) = w"
  | (counted) r e email where "snd (ResendVerification p d address w) = with_sredis r w"
      "IncrVerifyResendLimit email (an_now (dw_api d)) (aw_redis (sw_api w)) = (e, r)"
  | (sent) r email n where "snd (ResendVerification p d address w) = snd (send_again p d email (with_sredis r w))"
      "IncrVerifyResendLimit email (an_now (dw_api d)) (aw_redis (sw_api w)) = (Inr n, r)" "n \<le> maxVerifyResendsPerHour"
proof (cases "Option.bind address (NormalizeAccountEmail p)")
  case None
  then show thesis by (intro same) (auto simp: ResendVerification_def Let_def split: option.splits)
next
  case (Some email)
  then obtain a where a: "address = Some a" "NormalizeAccountEmail p a = Some email" by (cases address) auto
  obtain e r where c: "IncrVerifyResendLimit email (an_now (dw_api d)) (aw_redis (sw_api w)) = (e, r)" by fastforce
  show thesis
  proof (cases "an_redis_up (dw_api d) ''IncrVerifyResendLimit''")
    case False
    then show thesis by (intro same) (simp add: ResendVerification_def a)
  next
    case up: True
    show thesis
    proof (cases e)
      case (Inl x)
      then show thesis using up by (intro counted [OF _ c]) (simp add: ResendVerification_def a c)
    next
      case (Inr n)
      then show thesis using up
        by (cases "maxVerifyResendsPerHour < n") (auto intro: counted [OF _ c] sent [OF _ c [unfolded Inr]] simp: ResendVerification_def a c)
    qed
  qed
qed

lemma auth_ok_send_again: "auth_ok w \<Longrightarrow> auth_ok (snd (send_again p d email w))"
  by (cases rule: send_again_cases [of p d email w]) (auto intro: auth_ok_issue)

lemma auth_ok_resend:
  assumes "auth_ok w"
  shows "auth_ok (snd (ResendVerification p d address w))"
proof -
  have "auth_ok (with_sredis r w)" for r using auth_ok_frame [OF assms] by simp
  then show ?thesis using assms by (cases rule: resend_cases [of p d address w]) (auto intro: auth_ok_send_again)
qed

lemma VerifyEmail_cases:
  obtains (same) "snd (VerifyEmail p d token w) = w"
  | (consumed) v where "verify_ValidateFormat (trim_space token)"
      "GetPendingEmailVerificationByHash w (verify_Hash p (trim_space token)) = Some v" "open_link_of v" "\<not> vf_ExpiresAt v < an_now (dw_api d)"
      "ConsumeEmailVerification (an_now (dw_api d)) (vf_ID v) (vf_UserID v) w = Inr (snd (VerifyEmail p d token w))"
proof (cases "snd (VerifyEmail p d token w) = w")
  case False
  then show thesis
    using consumed by (auto simp: VerifyEmail_def Let_def split: option.splits sum.splits if_splits)
qed (use same in blast)

lemma closed_link:
  "(\<And>v. GetPendingEmailVerificationByHash w (verify_Hash p (trim_space token)) = Some v \<Longrightarrow> \<not> open_link_of v) \<Longrightarrow>
     snd (VerifyEmail p d token w) = w"
  by (cases rule: VerifyEmail_cases [of p d token w]) auto

lemma auth_ok_verify: "auth_ok w \<Longrightarrow> auth_ok (snd (VerifyEmail p d token w))"
  by (cases rule: VerifyEmail_cases [of p d token w]) (auto intro: auth_ok_consume)

lemma Login_frame: "snd (Login p d login w) = w \<or> (\<exists>uid. snd (Login p d login w) = saudit uid ''login'' w)"
  by (auto simp: Login_def Let_def split: sum.split)

lemma Logout_frame: "\<exists>r. snd (Logout p d header c w) = w \<or> snd (Logout p d header c w) = with_sredis r w"
  by (auto simp: Logout_def Let_def split: option.split)

lemma auth_ok_new_invite: "auth_ok w \<Longrightarrow> auth_ok (snd (AdminCreatePlatformInvite p d adminID email note w))"
  by (auto simp: AdminCreatePlatformInvite_def CreatePlatformInvite_def Let_def auth_ok_def invites_ok_def new_invite_def split: option.split)

lemma auth_ok_no_invite: "auth_ok w \<Longrightarrow> auth_ok (snd (AdminRevokePlatformInvite d iid w))"
  by (auto simp: AdminRevokePlatformInvite_def RevokePlatformInvite_def Let_def require_def auth_ok_def invites_ok_def split: sum.split)

lemma auth_ok_patched:
  assumes "auth_ok w"
  shows "auth_ok (with_sdb (snd (AdminPatchUser api adminID uid change (sdb w))) w)"
proof -
  let ?P = "\<lambda>db. sound db \<and> user_ids db = user_ids (sdb w)"
  have u: "?P d'" if "?P d" "update_user uid f d = Inr d'" "\<And>u. u_ID (f u) = u_ID u" "\<And>u. u_Email (f u) = u_Email u" for uid f d d'
    using that sound_update_user update_user_ids by metis
  have "?P (snd (AdminPatchUser api adminID uid change (sdb w)))"
    by (rule AdminPatchUser_inv)
      (use assms in \<open>auto simp: auth_ok_def UpdateUserStatus_def UpdateUserOrgsEnabled_def SetUserEmailVerified_def
         intro: sound_update_user dest: update_user_ids\<close>)
  then show ?thesis using assms by (intro auth_ok_users) auto
qed

lemma AdminDeleteUser_one:
  "aw_db (snd (AdminDeleteUser api adminID uid w)) = aw_db w \<or>
   an_ok api ''DeleteUser'' \<and> DeleteUser uid (aw_db w) = Inr (aw_db (snd (AdminDeleteUser api adminID uid w)))"
  by (auto simp: AdminDeleteUser_def ustmt_def split: sum.split)

lemma removed_db:
  "sdb (snd (DeleteUser_signed d adminID uid w)) = sdb w \<or>
   \<not> list_ex (names_user uid) (sw_invites w) \<and> DeleteUser uid (sdb w) = Inr (sdb (snd (DeleteUser_signed d adminID uid w)))"
  "sw_invites (snd (DeleteUser_signed d adminID uid w)) = sw_invites w"
  "sw_links (snd (DeleteUser_signed d adminID uid w)) =
     filter (\<lambda>v. vf_UserID v \<in> set (user_ids (sdb (snd (DeleteUser_signed d adminID uid w))))) (sw_links w)"
proof -
  let ?api = "(dw_api d)\<lparr>an_ok := (\<lambda>n. an_ok (dw_api d) n \<and> (n = ''DeleteUser'' \<longrightarrow> \<not> list_ex (names_user uid) (sw_invites w)))\<rparr>"
  show "sdb (snd (DeleteUser_signed d adminID uid w)) = sdb w \<or>
      \<not> list_ex (names_user uid) (sw_invites w) \<and> DeleteUser uid (sdb w) = Inr (sdb (snd (DeleteUser_signed d adminID uid w)))"
    using AdminDeleteUser_one [of ?api adminID uid "sw_api w"] by (auto simp: DeleteUser_signed_def Let_def case_prod_beta sdb_def)
qed (simp_all add: DeleteUser_signed_def Let_def case_prod_beta sdb_def)

lemma links_filtered: "links_ok U vs \<Longrightarrow> links_ok U' (filter (\<lambda>v. vf_UserID v \<in> U') vs)"
proof -
  assume l: "links_ok U vs"
  have "filter open_link_of (filter (\<lambda>v. vf_UserID v \<in> U') vs) = filter (\<lambda>v. vf_UserID v \<in> U') (filter open_link_of vs)"
    by (simp add: conj_commute)
  moreover have "distinct (map vf_UserID (filter (\<lambda>v. vf_UserID v \<in> U') (filter open_link_of vs)))"
    by (rule distinct_map_filter) (use l in \<open>simp add: links_ok_def\<close>)
  ultimately show ?thesis using l by (auto simp: links_ok_def distinct_map_filter)
qed

lemma auth_ok_removed:
  assumes "auth_ok w"
  shows "auth_ok (snd (DeleteUser_signed d adminID uid w))"
proof -
  have "sound (sdb (snd (DeleteUser_signed d adminID uid w)))"
    using removed_db(1) [of d adminID uid w] assms by (auto simp: auth_ok_def intro: sound_DeleteUser)
  then show ?thesis using assms links_filtered by (auto simp: auth_ok_def removed_db(2,3))
qed

lemma auth_step_ok: "auth_step p d w w' \<Longrightarrow> auth_ok w \<Longrightarrow> auth_ok w'"
proof (induction rule: auth_step.induct)
  case (sign_in w login)
  then show ?case using Login_frame [of p d login w] auth_ok_frame [OF sign_in] by auto
next
  case (sign_out header w c)
  then show ?case using Logout_frame [of p d header c w] auth_ok_frame [OF sign_out(2)] by auto
qed (simp_all add: auth_ok_register auth_ok_verify auth_ok_resend auth_ok_new_invite auth_ok_no_invite auth_ok_patched auth_ok_removed)

lemma auth_run_ok: "auth_run p G w w' \<Longrightarrow> auth_ok w \<Longrightarrow> auth_ok w'"
  by (induction rule: auth_run.induct) (auto intro: auth_step_ok)

lemma auth_reachable_ok: "auth_reachable p w \<Longrightarrow> auth_ok w"
proof -
  assume "auth_reachable p w"
  then obtain w0 where w0: "auth_start w0" "auth_run p (\<lambda>_. True) w0 w" by (auto simp: auth_reachable_def)
  from w0(1) have "auth_ok w0" by (simp add: auth_start_def auth_ok_def links_ok_def invites_ok_def)
  then show ?thesis by (rule auth_run_ok [OF w0(2)])
qed

subsection \<open>Links\<close>

lemma open_links_unique:
  "links_ok U vs \<Longrightarrow> v \<in> set vs \<Longrightarrow> v' \<in> set vs \<Longrightarrow> open_link_of v \<Longrightarrow> open_link_of v' \<Longrightarrow> vf_UserID v = vf_UserID v' \<Longrightarrow> v = v'"
  by (auto simp: links_ok_def distinct_map inj_on_def)

lemma distinct_one_key:
  assumes "distinct (map f xs)" "\<And>x. x \<in> set xs \<Longrightarrow> f x = k"
  shows "length xs \<le> 1"
proof -
  have "card (set (map f xs)) \<le> card {k}" by (rule card_mono) (use assms(2) in auto)
  then show ?thesis using distinct_card [OF assms(1)] by simp
qed

lemma find_own_key: "distinct (map key rs) \<Longrightarrow> r \<in> set rs \<Longrightarrow> find (\<lambda>x. key x = key r) rs = Some r"
  by (induction rs) (auto simp: image_iff)

text \<open>
  C38. At most one verification link is open. In every state that sign-ups, links, resends, logins, invites and the administrator
  lead to, a link belongs to a user there is, a user has at most one link that was not consumed, and a token opens at most one link.
\<close>

theorem one_open_link:
  assumes "auth_reachable p w" "v \<in> set (sw_links w)"
  shows "vf_UserID v \<in> set (user_ids (sdb w)) \<and>
    length (filter (\<lambda>x. vf_UserID x = vf_UserID v \<and> vf_ConsumedAt x = None) (sw_links w)) \<le> 1 \<and>
    GetPendingEmailVerificationByHash w (vf_TokenHash v) = Some v"
proof -
  have l: "links_ok (set (user_ids (sdb w))) (sw_links w)" using auth_reachable_ok [OF assms(1)] by (simp add: auth_ok_def)
  let ?mine = "filter (\<lambda>x. vf_UserID x = vf_UserID v) (filter open_link_of (sw_links w))"
  have "distinct (map vf_UserID ?mine)" by (rule distinct_map_filter) (use l in \<open>simp add: links_ok_def\<close>)
  then have "length ?mine \<le> 1" by (rule distinct_one_key [where k = "vf_UserID v"]) simp
  moreover have "GetPendingEmailVerificationByHash w (vf_TokenHash v) = Some v"
    unfolding GetPendingEmailVerificationByHash_def by (rule find_own_key) (use l assms(2) in \<open>auto simp: links_ok_def\<close>)
  moreover have "?mine = filter (\<lambda>x. vf_UserID x = vf_UserID v \<and> vf_ConsumedAt x = None) (sw_links w)" by (simp add: conj_commute)
  ultimately show ?thesis using l assms(2) by (auto simp: links_ok_def)
qed

subsection \<open>Who is verified\<close>

datatype public_request =
    Sign_Up "register_body option"
  | Open_Link string
  | Send_Again "string option"
  | Sign_In "(string \<times> string) option"
  | Sign_Out string claims

fun serve_public :: "platform \<Rightarrow> draws \<Rightarrow> public_request \<Rightarrow> sworld \<Rightarrow> sworld" where
  "serve_public p d (Sign_Up body) w = snd (Register p d body w)"
| "serve_public p d (Open_Link token) w = snd (VerifyEmail p d token w)"
| "serve_public p d (Send_Again address) w = snd (ResendVerification p d address w)"
| "serve_public p d (Sign_In login) w = snd (Login p d login w)"
| "serve_public p d (Sign_Out header c) w = snd (Logout p d header c w)"

definition email_verified :: "string \<Rightarrow> account_db \<Rightarrow> bool" where
  "email_verified uid db = list_ex (\<lambda>u. u_ID u = uid \<and> EmailVerified (Some u)) (ad_users db)"

lemma sdb_use_invite [simp]: "sdb (use_invite d invite w) = sdb w"
  by (simp add: use_invite_def UsePlatformInvite_def split: option.split)

lemma Register_cases:
  obtains (same) "snd (Register p d body w) = w"
  | (written) email invite h db where "check_registration p d body w = Inr (email, invite, h)"
      "CreateUser (new_user d email h) (sdb w) = Inr db"
      "snd (Register p d body w) =
         saudit (an_newID (dw_api d)) ''register'' (first_verification p d email (use_invite d invite (with_sdb db w)))"
proof (cases "check_registration p d body w")
  case (Inr x)
  then show thesis using same written
    by (cases rule: write_registration_cases [of p d x w]) (auto simp: Register_def)
qed (use same in \<open>simp add: Register_def\<close>)

lemma sdb_first: "pf_verify p \<Longrightarrow> sdb (first_verification p d email w) = sdb w"
  by (simp add: first_verification_def)

lemma sdb_send_again: "sdb (snd (send_again p d email w)) = sdb w"
  by (cases rule: send_again_cases [of p d email w]) simp_all

lemma sdb_resend: "sdb (snd (ResendVerification p d address w)) = sdb w"
  by (cases rule: resend_cases [of p d address w]) (simp_all add: sdb_send_again)

lemma consume_db:
  assumes "ConsumeEmailVerification now vid uid w = Inr w'"
  shows "sdb w' = (sdb w)\<lparr>ad_users := update_where (\<lambda>u. u_ID u = uid)
      (u_EmailVerifiedAt_update (\<lambda>t. case t of None \<Rightarrow> Some now | Some t \<Rightarrow> Some t)) (ad_users (sdb w))\<rparr>"
    "\<exists>v \<in> set (sw_links w). vf_ID v = vid \<and> vf_UserID v = uid \<and> open_link_of v \<and> now < vf_ExpiresAt v"
    "sw_links w' = update_where (\<lambda>v. vf_ID v = vid \<and> vf_UserID v = uid \<and> open_link_of v \<and> now < vf_ExpiresAt v)
       (vf_ConsumedAt_update (\<lambda>_. Some now)) (sw_links w)"
    "sw_invites w' = sw_invites w"
  using assms by (auto simp: ConsumeEmailVerification_def Let_def ebind_Inr_iff list_ex_iff)

text \<open>
  C20. An address is only verified through a link of its user. When a registration asks for verification, a public
  request after which a user is verified who was not before is the opening of a link; its token is the one of a link of this user that
  was neither consumed nor expired, and opening it again does nothing.
\<close>

theorem verified_by_own_link:
  assumes "auth_reachable p w" "pf_verify p" "\<not> email_verified uid (sdb w)" "email_verified uid (sdb (serve_public p d rq w))"
  shows "\<exists>token v. rq = Open_Link token \<and> v \<in> set (sw_links w) \<and> vf_UserID v = uid \<and>
    vf_TokenHash v = verify_Hash p (trim_space token) \<and> vf_ConsumedAt v = None \<and> an_now (dw_api d) < vf_ExpiresAt v \<and>
    (\<forall>d'. snd (VerifyEmail p d' token (serve_public p d rq w)) = serve_public p d rq w)"
proof (cases rq)
  case (Sign_Up body)
  show ?thesis
  proof (cases rule: Register_cases [of p d body w])
    case same
    then show ?thesis using assms(3,4) Sign_Up by simp
  next
    case (written email invite h db)
    then obtain r where "db = (sdb w)\<lparr>ad_users := ad_users (sdb w) @ [r]\<rparr>" "u_EmailVerifiedAt r = None"
      using CreateUser_Inr_users [OF written(2)] by (auto simp: new_user_def)
    then show ?thesis using assms(2-4) Sign_Up written(3) by (auto simp: email_verified_def sdb_first EmailVerified_def)
  qed
next
  case (Open_Link token)
  show ?thesis
  proof (cases rule: VerifyEmail_cases [of p d token w])
    case same
    then show ?thesis using assms(3,4) Open_Link by simp
  next
    case (consumed v)
    let ?w = "snd (VerifyEmail p d token w)" and ?h = "verify_Hash p (trim_space token)"
    note c = consume_db [OF consumed(5)]
    have l: "distinct (map vf_ID (sw_links w))" "distinct (map vf_TokenHash (sw_links w))"
      using auth_reachable_ok [OF assms(1)] by (simp_all add: auth_ok_def links_ok_def)
    have v: "v \<in> set (sw_links w)" "vf_TokenHash v = ?h"
      using consumed(2) find_key [of vf_TokenHash] by (auto simp: GetPendingEmailVerificationByHash_def)
    have uid: "vf_UserID v = uid"
      using assms(3,4) Open_Link c(1) by (auto simp: email_verified_def list_ex_iff update_where_def EmailVerified_def split: if_splits)
    obtain v' where v': "v' \<in> set (sw_links w)" "vf_ID v' = vf_ID v" "an_now (dw_api d) < vf_ExpiresAt v'" using c(2) by auto
    then have "v' = v" using key_unique [OF l(1) v'(1) v(1)] by simp
    then have live: "an_now (dw_api d) < vf_ExpiresAt v" using v'(3) by simp
    have now_closed: "\<not> open_link_of x" if x: "find (\<lambda>v. vf_TokenHash v = ?h) (sw_links ?w) = Some x" for x
    proof -
      from x have "x \<in> set (sw_links ?w)" "vf_TokenHash x = ?h" using find_key [of vf_TokenHash] by auto
      then obtain y where y: "y \<in> set (sw_links w)" "vf_TokenHash y = ?h"
          "x = (if vf_ID y = vf_ID v \<and> vf_UserID y = vf_UserID v \<and> open_link_of y \<and> an_now (dw_api d) < vf_ExpiresAt y
                then y\<lparr>vf_ConsumedAt := Some (an_now (dw_api d))\<rparr> else y)"
        by (auto simp: c(3) update_where_def split: if_splits)
      then have "y = v" using key_unique [OF l(2) y(1) v(1)] v(2) by simp
      then show ?thesis using y(3) live consumed(3) by simp
    qed
    have "snd (VerifyEmail p d' token ?w) = ?w" for d'
      by (rule closed_link) (use now_closed in \<open>simp add: GetPendingEmailVerificationByHash_def\<close>)
    then show ?thesis using Open_Link v uid consumed(3) live by auto
  qed
next
  case (Send_Again address)
  then show ?thesis using assms(3,4) by (simp add: sdb_resend)
next
  case (Sign_In login)
  then show ?thesis using assms(3,4) Login_frame [of p d login w] by auto
next
  case (Sign_Out header c)
  then show ?thesis using assms(3,4) Logout_frame [of p d header c w] by auto
qed

subsection \<open>A run\<close>

definition session_of_u1 :: claims where
  "session_of_u1 = \<lparr> cl_Sub = ''u1'', cl_Role = ''user'', cl_Exp = Some 18001, cl_Jti = ''u1'' \<rparr>"

definition su_platform :: platform where
  "su_platform = \<lparr> pf_sha = (\<lambda>s. s), pf_address = Some, pf_bcrypt = Some, pf_bcrypt_ok = (\<lambda>h password. h = password),
     pf_sign = (\<lambda>c. if c = session_of_u1 then Some ''jwt'' else None),
     pf_jwt = (\<lambda>now raw. if raw = ''jwt'' \<and> now < 18001000 then Some session_of_u1 else None),
     pf_header_token = (\<lambda>h. if BearerToken h = [] then None else Some (BearerToken h)),
     pf_url = [], pf_frontend = [], pf_closed = True, pf_verify = True, pf_link_hours = 0, pf_invite_days = 30 \<rparr>"

definition su_draws :: "string \<Rightarrow> string \<Rightarrow> draws" where
  "su_draws i bytes = \<lparr> dw_api = acct_env\<lparr>an_newID := i\<rparr>, dw_linkID = i, dw_random = Some bytes, dw_mail = True \<rparr>"

definition su_user :: user where
  "su_user = \<lparr> u_ID = ''a'', u_Email = ''a@b'', u_PasswordHash = ''secret'', u_Plan = ''free'', u_Role = ''admin'', u_Status = ''active'',
     u_OrgsEnabled = False, u_EarlyBirdLive = False, u_LiveOrdersUsed = 0, u_EmailVerifiedAt = Some 0, u_StripeCustomerID = [],
     u_StripeSubscriptionID = [], u_BillingSource = ''free'', u_TelegramChatID = [], u_CreatedAt = 0 \<rparr>"

definition su_start :: sworld where
  "su_start = \<lparr> sw_api = acct_world \<lparr> ad_users = [su_user], ad_webhooks = [], ad_creds = [], ad_events = [], ad_settings = [],
       ad_papers = [], ad_orgs = [] \<rparr>, sw_links = [], sw_invites = [], sw_outbox = [] \<rparr>"

definition su_bytes :: string where "su_bytes = ''0123456789abcdef0''"

definition su_body :: register_body where
  "su_body = \<lparr> rb_Email = ''c@d'', rb_Password = ''long enough'', rb_InviteCode = ''inv_'' @ su_bytes \<rparr>"

definition su_invited :: sworld where
  "su_invited = snd (AdminCreatePlatformInvite su_platform (su_draws ''i1'' su_bytes) ''a'' [] [] su_start)"

definition su_registered :: sworld where
  "su_registered = snd (Register su_platform (su_draws ''u1'' su_bytes) (Some su_body) su_invited)"

definition su_verified :: sworld where
  "su_verified = serve_public su_platform (su_draws ''x'' su_bytes) (Open_Link (''ev_'' @ su_bytes)) su_registered"

lemma su_start_ok: "auth_start su_start"
  by (simp add: auth_start_def su_start_def acct_world_def sdb_def sound_def accounts_ok_def tenant_ok_def users_ok_def hooks_ok_def
      creds_ok_def user_check_def su_user_def IsValidPlan_def plan_name_defs role_defs status_defs IsValidStatus_def billing_source_defs)

lemma su_run: "auth_run su_platform (\<lambda>d. an_ok (dw_api d) ''UsePlatformInvite'') su_start su_registered"
  unfolding su_registered_def su_invited_def
  by (rule then_step [OF then_step [OF idle _ new_invite] _ sign_up]) (simp_all add: su_draws_def acct_env_def)

lemma auth_run_mono: "auth_run p G w w' \<Longrightarrow> auth_run p (\<lambda>_. True) w w'"
  by (induction rule: auth_run.induct) (auto intro: auth_run.intros)

lemma su_reachable: "auth_reachable su_platform su_registered"
  using su_start_ok auth_run_mono [OF su_run] by (auto simp: auth_reachable_def)

lemma su_links: "map (\<lambda>v. (vf_UserID v, vf_TokenHash v, vf_ConsumedAt v)) (sw_links su_registered) = [(''u1'', ''ev_0123456789abcdef0'', None)]"
  by code_simp

theorem one_open_link_witness:
  "vf_UserID (hd (sw_links su_registered)) \<in> set (user_ids (sdb su_registered)) \<and>
   length (filter (\<lambda>x. vf_UserID x = vf_UserID (hd (sw_links su_registered)) \<and> vf_ConsumedAt x = None) (sw_links su_registered)) \<le> 1 \<and>
   GetPendingEmailVerificationByHash su_registered (vf_TokenHash (hd (sw_links su_registered))) = Some (hd (sw_links su_registered))"
  by (rule one_open_link [OF su_reachable hd_in_set]) (use su_links in auto)

theorem verified_by_own_link_witness:
  "\<exists>token v. Open_Link (''ev_'' @ su_bytes) = Open_Link token \<and> v \<in> set (sw_links su_registered) \<and> vf_UserID v = ''u1'' \<and>
    vf_TokenHash v = verify_Hash su_platform (trim_space token) \<and> vf_ConsumedAt v = None \<and> 1000 < vf_ExpiresAt v \<and>
    (\<forall>d'. snd (VerifyEmail su_platform d' token su_verified) = su_verified)"
proof -
  have "\<not> email_verified ''u1'' (sdb su_registered)" by code_simp
  moreover have "email_verified ''u1'' (sdb su_verified)" by code_simp
  moreover have "pf_verify su_platform" by code_simp
  moreover have "an_now (dw_api (su_draws ''x'' su_bytes)) = 1000" by code_simp
  ultimately show ?thesis
    using verified_by_own_link [OF su_reachable, of "''u1''" "su_draws ''x'' su_bytes" "Open_Link (''ev_'' @ su_bytes)"]
    unfolding su_verified_def by metis
qed

end
