(* ===== verification/Sessions.thy ===== *)
theory Sessions
  imports SignUp
begin

section \<open>Invites and sessions\<close>

text \<open>
  What an invite admits, who gets a session, what a logout ends, and what a resend tells; then the steps at which
  the tables and the sessions disagree: overlapping registrations, a user an invite names, and a suspended user's session.
\<close>

subsection \<open>Invites\<close>

definition used_invites :: "sworld \<Rightarrow> int" where
  "used_invites w = sql_count (\<lambda>i. pl_UsedAt i \<noteq> None) (sw_invites w)"

definition accounts :: "sworld \<Rightarrow> int" where
  "accounts w = int (length (ad_users (sdb w)))"

lemma sql_count_update_mono: "(\<And>r. Q r \<Longrightarrow> Q (f r)) \<Longrightarrow> sql_count Q rs \<le> sql_count Q (update_where P f rs)"
  by (induction rs) (auto simp: sql_count_def update_where_def)

lemma sql_count_update_more:
  assumes "\<And>r. Q r \<Longrightarrow> Q (f r)" "i \<in> set rs" "P i" "\<not> Q i" "Q (f i)"
  shows "sql_count Q rs + 1 \<le> sql_count Q (update_where P f rs)"
proof -
  obtain xs ys where "rs = xs @ i # ys" using split_list [OF assms(2)] by blast
  then have rs: "update_where P f rs = update_where P f xs @ f i # update_where P f ys" "rs = xs @ i # ys"
    using assms(3) by (simp_all add: update_where_def)
  have "sql_count Q xs \<le> sql_count Q (update_where P f xs)" "sql_count Q ys \<le> sql_count Q (update_where P f ys)"
    using sql_count_update_mono [of Q f] assms(1) by blast+
  then show ?thesis unfolding rs(1) using assms(4,5) by (simp add: rs(2) sql_count_def)
qed

lemma length_update_where [simp]: "length (update_where P f rs) = length rs"
  by (simp add: update_where_def)

lemma DeleteUser_length: "DeleteUser uid db = Inr db' \<Longrightarrow> length (ad_users db') \<le> length (ad_users db)"
  by (auto dest!: DeleteUser_Inr simp: without_user_def)

lemma update_user_length: "update_user uid f db = Inr db' \<Longrightarrow> length (ad_users db') = length (ad_users db)"
  by (auto simp: update_user_Inr)

lemma patched_length: "length (ad_users (snd (AdminPatchUser api adminID uid change db))) = length (ad_users db)"
  by (rule AdminPatchUser_inv)
    (auto simp: UpdateUserStatus_def UpdateUserOrgsEnabled_def SetUserEmailVerified_def dest: update_user_length)

lemma first_length: "length (ad_users (sdb (first_verification p d email w))) = length (ad_users (sdb w))"
  by (auto simp: first_verification_def Let_def VerifyUserEmail_def split: option.split dest: update_user_length)

lemma first_invites: "sw_invites (first_verification p d email w) = sw_invites w"
  by (auto simp: first_verification_def Let_def split: option.split)

lemma required_invite_closed:
  assumes "check_registration p d body w = Inr (email, invite, h)" "pf_closed p"
  shows "\<exists>i. invite = Some i \<and> i \<in> set (sw_invites w) \<and> pl_UsedAt i = None"
  using assms find_key [of pl_TokenHash]
  by (auto simp: check_registration_def required_invite_def ebind_Inr_iff GetValidPlatformInviteByTokenHash_def invite_valid_def
      split: option.splits if_splits)

lemma issue_invites_resend: "sw_invites (snd (ResendVerification p d address w)) = sw_invites w"
proof -
  have "sw_invites (snd (send_again p d email w)) = sw_invites w" for email w
    by (cases rule: send_again_cases [of p d email w]) simp_all
  then show ?thesis by (cases rule: resend_cases [of p d address w]) simp_all
qed

lemma step_admits:
  assumes "auth_step p d w w'" "pf_closed p" "an_ok (dw_api d) ''UsePlatformInvite''"
  shows "accounts w' + used_invites w \<le> accounts w + used_invites w'"
  using assms(1)
proof cases
  case (sign_up body)
  show ?thesis
  proof (cases rule: Register_cases [of p d body w])
    case same
    then show ?thesis using sign_up by simp
  next
    case (written email invite h db)
    obtain i where i: "invite = Some i" "i \<in> set (sw_invites w)" "pl_UsedAt i = None"
      using required_invite_closed [OF written(1) assms(2)] by blast
    have "length (ad_users db) = Suc (length (ad_users (sdb w)))" using CreateUser_Inr_users [OF written(2)] by auto
    then have "accounts w' = accounts w + 1" using sign_up written(3) by (simp add: accounts_def first_length)
    moreover have "used_invites w + 1 \<le> used_invites w'"
      unfolding used_invites_def sign_up written(3) using assms(3) i
      by (simp add: first_invites use_invite_def UsePlatformInvite_def) (rule sql_count_update_more [OF _ i(2)], auto)
    ultimately show ?thesis by simp
  qed
next
  case (open_link token)
  show ?thesis
  proof (cases rule: VerifyEmail_cases [of p d token w])
    case (consumed v)
    have "sw_invites w' = sw_invites w" "length (ad_users (sdb w')) = length (ad_users (sdb w))"
      using consume_db(1,4) [OF consumed(5)] open_link by simp_all
    then show ?thesis by (simp add: accounts_def used_invites_def)
  qed (use open_link in simp)
next
  case (resend address)
  then show ?thesis by (simp add: accounts_def used_invites_def sdb_resend issue_invites_resend)
next
  case (sign_in login)
  then show ?thesis using Login_frame [of p d login w] by (auto simp: accounts_def used_invites_def)
next
  case (sign_out header c)
  then show ?thesis using Logout_frame [of p d header c w] by (auto simp: accounts_def used_invites_def)
next
  case (new_invite adminID email remark)
  then show ?thesis
    by (auto simp: AdminCreatePlatformInvite_def CreatePlatformInvite_def Let_def accounts_def used_invites_def sql_count_def
        split: option.split)
next
  case (no_invite iid)
  have "used_invites w \<le> used_invites w'" "sdb w' = sdb w"
    unfolding no_invite used_invites_def
    by (auto simp: AdminRevokePlatformInvite_def RevokePlatformInvite_def Let_def require_def split: sum.split
        intro!: sql_count_update_mono)
  then show ?thesis by (simp add: accounts_def)
next
  case (patched adminID uid change)
  then show ?thesis by (simp add: accounts_def used_invites_def patched_length)
next
  case (removed adminID uid)
  have "length (ad_users (sdb w')) \<le> length (ad_users (sdb w))"
    using removed_db(1) [of d adminID uid w] removed by (auto dest: DeleteUser_length)
  then show ?thesis using removed by (simp add: accounts_def used_invites_def removed_db(2))
qed

text \<open>
  C21. An invite admits one user. While registration is closed and the mark of a used invite can be written, no run has more new
  accounts than invites that were used in it.
\<close>

theorem invite_admits_one:
  assumes "auth_run p (\<lambda>d. an_ok (dw_api d) ''UsePlatformInvite'') w w'" "pf_closed p"
  shows "accounts w' - accounts w \<le> used_invites w' - used_invites w"
  using assms(1) by induction (use step_admits [OF _ assms(2)] in fastforce)+

subsection \<open>Login\<close>

text \<open>
  C19. Who logs in is who the row says. A login that succeeds has the password of an account that is not suspended and, where that is
  asked for, verified. All it writes is one line of the audit log, in the name of this user. If a token reads as the claims that
  it was signed with, a request with the login's token is made in the name of this user, and reaches the administrator's routes
  exactly if the user was an administrator when logging in.
\<close>

theorem login_gate:
  assumes "Login p d (Some (address, password)) w = (Inr token, w')"
    and read: "\<And>c now c'. pf_sign p c = Some token \<Longrightarrow> pf_jwt p now token = Some c' \<Longrightarrow> c' = c"
  shows "\<exists>u \<in> set (ad_users (sdb w)). NormalizeAccountEmail p address = Some (u_Email u) \<and> pf_bcrypt_ok p (u_PasswordHash u) password \<and>
    u_Status u \<noteq> StatusSuspended \<and> (pf_verify p \<longrightarrow> EmailVerified (Some u)) \<and>
    w' = saudit (u_ID u) ''login'' w \<and>
    (\<forall>d2 header w2 c. pf_header_token p header = Some token \<longrightarrow> authorized p d2 header w2 = Inr c \<longrightarrow>
       cl_Sub c = u_ID u \<and> (RequirePlatformAdmin c = Inr () \<longleftrightarrow> u_Role u = RoleAdmin))"
proof -
  obtain email u where e: "NormalizeAccountEmail p address = Some email" "GetUserByEmail (sdb w) email = Some u"
    and ok: "pf_bcrypt_ok p (u_PasswordHash u) password" "u_Status u \<noteq> StatusSuspended" "\<not> LoginBlockedByEmailVerification p u"
    and t: "pf_sign p (session_claims d u) = Some token" and w': "w' = saudit (u_ID u) ''login'' w"
    using assms(1) by (auto simp: Login_def Let_def ebind_Inr_iff ensure_def split: option.splits sum.splits if_splits)
  have u: "u \<in> set (ad_users (sdb w))" "u_Email u = email"
    using e(2) find_key [of u_Email] by (auto simp: GetUserByEmail_def)
  have "cl_Sub c = u_ID u \<and> (RequirePlatformAdmin c = Inr () \<longleftrightarrow> u_Role u = RoleAdmin)"
    if h: "pf_header_token p header = Some token" "authorized p d2 header w2 = Inr c" for d2 header w2 c
  proof -
    have "pf_jwt p (an_now (dw_api d2)) token = Some c"
      using h by (auto simp: authorized_def ebind_Inr_iff split: option.splits)
    then have "c = session_claims d u" by (rule read [OF t])
    then show ?thesis by (simp add: session_claims_def RequirePlatformAdmin_def UserRole_def RoleAdmin_def)
  qed
  then show ?thesis using u e ok by (auto simp: LoginBlockedByEmailVerification_def w')
qed

subsection \<open>Logout\<close>

text \<open>
  What is relied on of the JWT package and of SHA-256 for one token: a token reads as the same claims until it expires and not after, no
  other token has its hash, and what the middleware takes from a header is what stands after \<^verbatim>\<open>Bearer\<close>.
\<close>

definition jwt_laws :: "platform \<Rightarrow> string \<Rightarrow> claims \<Rightarrow> int \<Rightarrow> bool" where
  "jwt_laws p raw c t \<longleftrightarrow> cl_Exp c = Some t \<and>
     (\<forall>now c'. pf_jwt p now raw = Some c' \<longrightarrow> c' = c \<and> now < t * 1000) \<and>
     (\<forall>raw'. pf_sha p raw' = pf_sha p raw \<longrightarrow> raw' = raw) \<and>
     (\<forall>header now raw'. pf_header_token p header = Some raw' \<longrightarrow> pf_jwt p now raw' \<noteq> None \<longrightarrow>
        BearerToken header = raw' \<or> BearerToken header = [])"

lemma jwt_expiry: "jwt_laws p raw c t \<Longrightarrow> pf_jwt p now raw = Some c' \<Longrightarrow> c' = c \<and> cl_Exp c = Some t \<and> now < t * 1000"
  unfolding jwt_laws_def by blast

lemma header_agrees:
  assumes "jwt_laws p raw c t" "pf_header_token p header = Some raw'" "pf_jwt p now raw' = Some c'"
  shows "BearerToken header = raw' \<or> BearerToken header = []"
proof -
  have "pf_jwt p now raw' \<noteq> None" using assms(3) by simp
  then show ?thesis using assms(1,2) unfolding jwt_laws_def by blast
qed

definition ended :: "platform \<Rightarrow> string \<Rightarrow> int \<Rightarrow> sworld \<Rightarrow> bool" where
  "ended p raw t w = (aw_redis (sw_api w) (jwtRevokedKey (pf_sha p) raw) = Some (Flag, Some (t * 1000)))"

lemma ended_frame: "aw_redis (sw_api w') = aw_redis (sw_api w) \<Longrightarrow> ended p raw t w' = ended p raw t w"
  by (simp add: ended_def)

lemma other_prefix: "jwtRevokedKey f raw \<noteq> verifyResendPrefix @ email"
  by (simp add: jwtRevokedKey_def jwtRevokedPrefix_def verifyResendPrefix_def)

lemma incr_other:
  assumes "IncrVerifyResendLimit email now r = (e, r')"
  shows "r' (jwtRevokedKey f raw) = r (jwtRevokedKey f raw)"
  using assms other_prefix [of f raw email]
  by (auto simp: IncrVerifyResendLimit_def incr_within_def rincr_def rexpire_def rexpire_at_def
      split: option.splits prod.splits redis_value.splits if_splits)

lemma redis_use_invite [simp]: "aw_redis (sw_api (use_invite d invite w)) = aw_redis (sw_api w)"
  by (simp add: use_invite_def UsePlatformInvite_def split: option.split)

lemma redis_first [simp]: "aw_redis (sw_api (first_verification p d email w)) = aw_redis (sw_api w)"
  by (auto simp: first_verification_def Let_def split: option.split)

lemma redis_send_again: "aw_redis (sw_api (snd (send_again p d email w))) = aw_redis (sw_api w)"
  by (cases rule: send_again_cases [of p d email w]) simp_all

lemma redis_consume: "ConsumeEmailVerification now vid uid w = Inr w' \<Longrightarrow> aw_redis (sw_api w') = aw_redis (sw_api w)"
  by (auto simp: ConsumeEmailVerification_def Let_def ebind_Inr_iff)

lemma redis_removed: "aw_redis (sw_api (snd (DeleteUser_signed d adminID uid w))) (jwtRevokedKey f raw) = aw_redis (sw_api w) (jwtRevokedKey f raw)"
  using other_prefix
  by (auto simp: DeleteUser_signed_def AdminDeleteUser_def Let_def ClearVerifyResendLimit_def rdel_def case_prod_beta
      split: sum.split prod.split option.split)

lemma ended_logout:
  assumes "jwt_laws p raw c t" "authorized p d header w = Inr c'" "ended p raw t w"
  shows "ended p raw t (snd (Logout p d header c' w))"
proof -
  obtain raw' where raw': "pf_header_token p header = Some raw'" "pf_jwt p (an_now (dw_api d)) raw' = Some c'"
    using assms(2) by (cases "pf_header_token p header") (auto simp: authorized_def ebind_Inr_iff split: option.splits)
  show ?thesis
  proof (cases "pf_sha p (BearerToken header) = pf_sha p raw")
    case True
    then have b: "BearerToken header = raw" using assms(1) by (simp add: jwt_laws_def)
    moreover have "BearerToken header = raw' \<or> BearerToken header = []" by (rule header_agrees [OF assms(1) raw'])
    ultimately have "raw = [] \<or> cl_Exp c' = Some t" using assms(1) raw' by (auto simp: jwt_laws_def)
    then show ?thesis using assms(3) b by (auto simp: Logout_def Let_def RevokeJWT_def rset_def ended_def)
  next
    case False
    then have "jwtRevokedKey (pf_sha p) raw \<noteq> jwtRevokedKey (pf_sha p) (BearerToken header)" by (simp add: jwtRevokedKey_def)
    then show ?thesis using assms(3)
      by (auto simp: Logout_def Let_def RevokeJWT_def rset_def ended_def split: option.split)
  qed
qed

lemma ended_step:
  assumes "auth_step p d w w'" "jwt_laws p raw c t" "ended p raw t w"
  shows "ended p raw t w'"
  using assms(1)
proof cases
  case (sign_up body)
  then show ?thesis using assms(3)
    by (cases rule: Register_cases [of p d body w]) (simp_all add: ended_def)
next
  case (open_link token)
  then show ?thesis using assms(3)
    by (cases rule: VerifyEmail_cases [of p d token w]) (simp_all add: ended_def redis_consume)
next
  case (resend address)
  then show ?thesis using assms(3)
    by (cases rule: resend_cases [of p d address w]) (simp_all add: ended_def redis_send_again incr_other)
next
  case (sign_in login)
  then show ?thesis using Login_frame [of p d login w] assms(3) by (auto simp: ended_def)
next
  case (sign_out header c')
  then show ?thesis using ended_logout [OF assms(2) _ assms(3)] by simp
next
  case (new_invite adminID email remark)
  then show ?thesis using assms(3)
    by (auto simp: AdminCreatePlatformInvite_def CreatePlatformInvite_def Let_def ended_def split: option.split)
next
  case (no_invite iid)
  then show ?thesis using assms(3)
    by (auto simp: AdminRevokePlatformInvite_def RevokePlatformInvite_def Let_def require_def ended_def split: sum.split)
next
  case (patched adminID uid change)
  then show ?thesis using assms(3) by (simp add: ended_def)
next
  case (removed adminID uid)
  then show ?thesis using assms(3) by (simp add: ended_def redis_removed)
qed

lemma ended_run: "auth_run p G w w' \<Longrightarrow> jwt_laws p raw c t \<Longrightarrow> ended p raw t w \<Longrightarrow> ended p raw t w'"
  by (induction rule: auth_run.induct) (auto intro: ended_step)

lemma ended_refused:
  assumes "jwt_laws p raw c t" "ended p raw t w" "raw \<noteq> []" "an_redis_up (dw_api d) ''IsJWTRevoked''"
  shows "BearerToken header = raw \<Longrightarrow> \<exists>e. authorized p d header w = Inl (401, e)" "\<exists>e. WsTradesUpgrade p d raw w = Inl (401, e)"
proof -
  let ?now = "an_now (dw_api d)"
  have revoked: "IsJWTRevoked (pf_sha p) raw ?now (aw_redis (sw_api w))" if "pf_jwt p ?now raw \<noteq> None"
    using that assms(1,2) by (auto simp: jwt_laws_def ended_def IsJWTRevoked_def rget_def live_at_def)
  show "\<exists>e. authorized p d header w = Inl (401, e)" if b: "BearerToken header = raw"
  proof (cases "Option.bind (pf_header_token p header) (pf_jwt p ?now)")
    case (Some c')
    then obtain raw' where r: "pf_header_token p header = Some raw'" "pf_jwt p ?now raw' = Some c'"
      by (cases "pf_header_token p header") auto
    then have "pf_jwt p ?now raw \<noteq> None" using header_agrees [OF assms(1) r] assms(3) b by simp
    then show ?thesis using Some revoked b assms(3,4) by (simp add: authorized_def CheckRevoked_def ensure_def ebind_def)
  qed (simp add: authorized_def)
  show "\<exists>e. WsTradesUpgrade p d raw w = Inl (401, e)"
    using revoked assms(3,4)
    by (auto simp: WsTradesUpgrade_def ParseAccessToken_def Let_def ensure_def ebind_def split: option.split)
qed

text \<open>
  C18. A logout is final for a token that is sent the way it was issued to be. After a logout that succeeded, no request whose header is
  \<^verbatim>\<open>Bearer\<close>, a space and the token is let through to a protected route, and no stream of trades is opened with the token,
  whatever happens in between and whenever it is asked for, as long as Redis answers and the JWT package and SHA-256 do what
  \<open>jwt_laws\<close> states. A header that spells the scheme in
  another way is not looked up at all (\<open>other_spelling_passes\<close>).
\<close>

theorem logout_is_final:
  assumes "jwt_laws p raw c t" "BearerToken header = raw" "authorized p d header w = Inr c" "Logout p d header c w = (Inr (), w1)"
    "auth_run p G w1 w2" "an_redis_up (dw_api d2) ''IsJWTRevoked''"
  shows "(\<forall>header2. BearerToken header2 = raw \<longrightarrow> (\<exists>e. authorized p d2 header2 w2 = Inl (401, e))) \<and>
    (\<exists>e. WsTradesUpgrade p d2 raw w2 = Inl (401, e))"
proof -
  have raw: "raw \<noteq> []" using assms(2,4) by (auto simp: Logout_def Let_def)
  obtain raw' where raw': "pf_header_token p header = Some raw'" "pf_jwt p (an_now (dw_api d)) raw' = Some c"
    using assms(3) by (cases "pf_header_token p header") (auto simp: authorized_def ebind_Inr_iff split: option.splits)
  then have "raw' = raw" using header_agrees [OF assms(1) raw'] assms(2) raw by simp
  then have t: "cl_Exp c = Some t" "an_now (dw_api d) < t * 1000" using jwt_expiry [OF assms(1)] raw'(2) by blast+
  from assms(4) t raw have "w1 = with_sredis (RevokeJWT (pf_sha p) raw (t * 1000 - an_now (dw_api d)) (an_now (dw_api d)) (aw_redis (sw_api w))) w"
    by (simp add: Logout_def Let_def assms(2) split: if_splits)
  then have "ended p raw t w1" using t(2) by (simp add: RevokeJWT_def rset_def ended_def)
  then have "ended p raw t w2" by (rule ended_run [OF assms(5,1)])
  then show ?thesis using ended_refused [OF assms(1) _ raw assms(6)] by blast
qed

text \<open>
  The JWT middleware of the routes compares the scheme of the header without regard to case, \<^verbatim>\<open>BearerToken\<close> compares it exactly. So a
  header that begins with \<^verbatim>\<open>bearer\<close> is let through with its token whatever Redis remembers, also after the logout.
\<close>

lemma lower_bearer: "BearerToken (''bearer '' @ raw) = []"
  by (simp add: BearerToken_def)

lemma other_spelling_passes:
  assumes "pf_header_token p (''bearer '' @ raw) = Some raw" "pf_jwt p (an_now (dw_api d)) raw = Some c"
  shows "authorized p d (''bearer '' @ raw) w = Inr c"
  using assms unfolding authorized_def CheckRevoked_def lower_bearer by (simp add: ensure_def)

text \<open>
  The patch that takes back the verification of an address has no guard for administrators. Where verification is asked for, it
  shuts an administrator out, himself included: the next login is refused.
\<close>

lemma unverified_admin_shut_out:
  assumes "sound (sdb w)" "GetUserByID (sdb w) uid = Some a" "u_Role a = RoleAdmin" "pf_verify p"
    and "an_uuid env uid" "\<And>n. an_ok env n" "an_ok (dw_api d) ''GetUserByEmail''"
    and "sdb w' = snd (AdminPatchUser env actorID uid (Some \<lparr>pu_Status = None, pu_OrgsEnabled = None, pu_EmailVerified = Some False\<rparr>) (sdb w))"
    and "NormalizeAccountEmail p address = Some (u_Email a)" "pf_bcrypt_ok p (u_PasswordHash a) password" "u_Status a = StatusActive"
  shows "Login p d (Some (address, password)) w' = (Inl (403, ''email not verified''), w')"
proof -
  let ?f = "u_EmailVerifiedAt_update (\<lambda>_. None)"
  have a: "a \<in> set (ad_users (sdb w))" "u_ID a = uid"
    using assms(2) find_key [of u_ID uid "ad_users (sdb w)" a] by (auto simp: GetUserByID_def)
  have "SetUserEmailVerified (an_now env) uid False (sdb w) = Inr ((sdb w)\<lparr>ad_users := update_where (\<lambda>u. u_ID u = uid) ?f (ad_users (sdb w))\<rparr>)"
    using assms(1) a by (force simp: SetUserEmailVerified_def update_user_Inr user_ids_def sound_iff users_ok_def list_all_iff user_check_def)
  then have us: "ad_users (sdb w') = update_where (\<lambda>u. u_ID u = uid) ?f (ad_users (sdb w))"
    using assms(2,5,6,8) by (simp add: AdminPatchUser_def admin_target_def AdminUserID_def ensure_def and_then_def ukeep_def ustmt_def)
  have "GetUserByEmail (sdb w) (u_Email a) = Some a"
  proof (cases "find (\<lambda>u. u_Email u = u_Email a) (ad_users (sdb w))")
    case None
    then show ?thesis using a(1) by (auto simp: find_None_iff)
  next
    case (Some b)
    then have "b = a"
      using find_key [OF Some] a(1) assms(1) key_unique [of u_Email "ad_users (sdb w)" b a] by (simp add: sound_iff users_ok_def)
    then show ?thesis using Some by (simp add: GetUserByEmail_def)
  qed
  then have "GetUserByEmail (sdb w') (u_Email a) = Some (?f a)"
    using a(2) by (simp add: GetUserByEmail_def us find_key_update_where)
  then show ?thesis using assms(4,7,9,10,11)
    by (simp add: Login_def Let_def ebind_def ensure_def StatusActive_def StatusSuspended_def LoginBlockedByEmailVerification_def EmailVerified_def)
qed

subsection \<open>What a resend tells\<close>

definition can_issue :: "platform \<Rightarrow> draws \<Rightarrow> sworld \<Rightarrow> bool" where
  "can_issue p d w \<longleftrightarrow> dw_mail d \<and> an_ok (dw_api d) ''GetUserByEmail'' \<and> an_ok (dw_api d) ''InvalidatePendingEmailVerifications'' \<and>
     an_ok (dw_api d) ''CreateEmailVerification'' \<and> dw_linkID d \<notin> vf_ID ` set (sw_links w) \<and>
     (\<exists>raw h. verify_Generate p (dw_random d) = Some (raw, h) \<and> h \<notin> vf_TokenHash ` set (sw_links w))"

lemma issue_sends:
  assumes "can_issue p d w" "uid \<in> set (user_ids (sdb w))"
  shows "fst (IssueVerificationEmail p d uid email w)"
  using assms
  by (auto simp: can_issue_def IssueVerificationEmail_def Let_def CreateEmailVerification_def InvalidatePendingEmailVerifications_def
      ebind_def require_def)

lemma send_again_text:
  assumes "can_issue p d w"
  shows "fst (send_again p d email w) = Inr resend_text"
proof (cases "GetUserByEmail (sdb w) email")
  case (Some u)
  have "u \<in> set (ad_users (sdb w))" using Some find_key [of u_Email] by (auto simp: GetUserByEmail_def)
  then have "fst (IssueVerificationEmail p d (u_ID u) (u_Email u) w)" using issue_sends [OF assms] by (simp add: user_ids_def)
  then show ?thesis using assms Some by (simp add: send_again_def can_issue_def case_prod_beta)
qed (use assms in \<open>simp add: send_again_def can_issue_def\<close>)

text \<open>
  A resend does not tell who has an account. When links can be made and mailed, two states that differ in the users, the links and
  all else but the counters of Redis answer a request for another mail alike, for any address.
\<close>

theorem resend_tells_nothing:
  assumes "can_issue p d w1" "can_issue p d w2" "aw_redis (sw_api w1) = aw_redis (sw_api w2)"
  shows "fst (ResendVerification p d address w1) = fst (ResendVerification p d address w2)"
proof -
  have "fst (send_again p d email (with_sredis r w)) = Inr resend_text" if "can_issue p d w" for r email w
    by (rule send_again_text) (use that in \<open>simp add: can_issue_def\<close>)
  then show ?thesis using assms
    by (auto simp: ResendVerification_def Let_def split: option.split sum.split prod.split)
qed

subsection \<open>Where the tables and the sessions disagree\<close>

text \<open>
  Two registrations that overlap can use one invite: when both have passed their checks before either writes, both accounts are
  made, and the mark of the second is silently dropped.
\<close>

lemma CreateUser_new:
  "an_newID (dw_api d) \<notin> set (user_ids db) \<Longrightarrow> email \<notin> set (map u_Email (ad_users db)) \<Longrightarrow> \<exists>db'. CreateUser (new_user d email h) db = Inr db'"
  by (simp add: CreateUser_def new_user_def Let_def int4_def user_check_def IsValidPlan_def IsValidStatus_def ebind_def require_def)

lemma first_emails: "map u_Email (ad_users (sdb (first_verification p d email w))) = map u_Email (ad_users (sdb w))"
  by (auto simp: first_verification_def Let_def VerifyUserEmail_def update_user_Inr split: option.split)

lemma first_ids: "user_ids (sdb (first_verification p d email w)) = user_ids (sdb w)"
  by (auto simp: first_verification_def Let_def VerifyUserEmail_def dest: update_user_ids split: option.split)

lemma overlapping_registrations:
  assumes "check_registration p d1 body1 w = Inr (e1, Some i, h1)" "check_registration p d2 body2 w = Inr (e2, Some i, h2)"
    "e1 \<noteq> e2" "{e1, e2} \<inter> set (map u_Email (ad_users (sdb w))) = {}"
    "an_newID (dw_api d1) \<noteq> an_newID (dw_api d2)"
    "{an_newID (dw_api d1), an_newID (dw_api d2)} \<inter> set (user_ids (sdb w)) = {}"
    "an_ok (dw_api d1) ''CreateUser''" "an_ok (dw_api d2) ''CreateUser''"
  shows "\<exists>u1 u2. fst (write_registration p d1 (e1, Some i, h1) w) = Inr u1 \<and>
    fst (write_registration p d2 (e2, Some i, h2) (snd (write_registration p d1 (e1, Some i, h1) w))) = Inr u2"
proof -
  obtain db1 where db1: "CreateUser (new_user d1 e1 h1) (sdb w) = Inr db1" using CreateUser_new [of d1 "sdb w" e1 h1] assms(4,6) by auto
  let ?w1 = "snd (write_registration p d1 (e1, Some i, h1) w)"
  have w1: "write_registration p d1 (e1, Some i, h1) w = (Inr (an_newID (dw_api d1), e1, pf_verify p),
      saudit (an_newID (dw_api d1)) ''register'' (first_verification p d1 e1 (use_invite d1 (Some i) (with_sdb db1 w))))"
    using db1 assms(7) by (simp add: write_registration_def Let_def stored_def)
  obtain r where r: "db1 = (sdb w)\<lparr>ad_users := ad_users (sdb w) @ [r]\<rparr>" "u_ID r = an_newID (dw_api d1)" "u_Email r = e1"
    using CreateUser_Inr_users [OF db1] by (auto simp: new_user_def)
  have "set (user_ids (sdb ?w1)) = insert (an_newID (dw_api d1)) (set (user_ids (sdb w)))"
    using r by (simp add: w1 first_ids) (simp add: user_ids_def)
  moreover have "set (map u_Email (ad_users (sdb ?w1))) = insert e1 (set (map u_Email (ad_users (sdb w))))"
    unfolding w1 by (simp only: snd_conv world_simps first_emails sdb_use_invite r) (simp add: r(3))
  ultimately obtain db2 where "CreateUser (new_user d2 e2 h2) (sdb ?w1) = Inr db2"
    using CreateUser_new [of d2 "sdb ?w1" e2 h2] assms(3-6) by auto
  then have "fst (write_registration p d2 (e2, Some i, h2) ?w1) = Inr (an_newID (dw_api d2), e2, pf_verify p)"
    using assms(8) by (simp add: write_registration_def Let_def stored_def)
  then show ?thesis using w1 by simp
qed

text \<open>A user whom an invite names, because it was used or made by the user, cannot be deleted.\<close>

lemma invited_user_stays:
  assumes "i \<in> set (sw_invites w)" "pl_UsedBy i = Some uid \<or> pl_CreatedBy i = uid"
  shows "(\<exists>e. fst (DeleteUser_signed d adminID uid w) = Inl e) \<and> sdb (snd (DeleteUser_signed d adminID uid w)) = sdb w"
proof -
  have "list_ex (names_user uid) (sw_invites w)" using assms by (auto simp: list_ex_iff names_user_def)
  then show ?thesis
    by (auto simp: DeleteUser_signed_def AdminDeleteUser_def Let_def ustmt_def sdb_def case_prod_beta split: sum.split)
qed

text \<open>
  The protected routes do not read the user's row: a session goes on for a user who was suspended, or deleted, until its token expires.
\<close>

lemma suspended_keeps_session:
  "authorized p d header (with_sdb (snd (AdminPatchUser api adminID uid (Some change) (sdb w))) w) = authorized p d header w"
  by (simp add: authorized_def split: option.split)

subsection \<open>A run\<close>

theorem invite_admits_one_witness:
  "accounts su_registered - accounts su_start \<le> used_invites su_registered - used_invites su_start \<and>
   accounts su_registered - accounts su_start = 1"
proof -
  have "accounts su_registered - accounts su_start = 1" "pf_closed su_platform" by code_simp+
  then show ?thesis using invite_admits_one [OF su_run] by simp
qed

definition su_login :: "(http_err + string) \<times> sworld" where
  "su_login = Login su_platform (su_draws ''u1'' su_bytes) (Some (''c@d'', ''long enough'')) su_verified"

lemma su_login_token: "fst su_login = Inr ''jwt''"
  by code_simp

lemma su_jwt: "pf_jwt su_platform now ''jwt'' = Some c \<Longrightarrow> c = session_of_u1 \<and> now < 18001 * 1000"
  by (simp add: su_platform_def split: if_splits)

lemma session_read: "authorized su_platform (su_draws ''x'' su_bytes) ''Bearer jwt'' su_verified = Inr session_of_u1"
  by code_simp

theorem login_gate_witness:
  "\<exists>u. u \<in> set (ad_users (sdb su_verified)) \<and> NormalizeAccountEmail su_platform ''c@d'' = Some (u_Email u) \<and>
    pf_bcrypt_ok su_platform (u_PasswordHash u) ''long enough'' \<and> u_Status u \<noteq> StatusSuspended \<and> EmailVerified (Some u) \<and>
    snd su_login = saudit (u_ID u) ''login'' su_verified \<and> cl_Sub session_of_u1 = u_ID u \<and> (RequirePlatformAdmin session_of_u1 = Inr ()) = (u_Role u = RoleAdmin)"
proof -
  have l: "Login su_platform (su_draws ''u1'' su_bytes) (Some (''c@d'', ''long enough'')) su_verified = (Inr ''jwt'', snd su_login)"
    using su_login_token by (simp add: su_login_def prod_eq_iff)
  have "c' = c" if "pf_sign su_platform c = Some ''jwt''" "pf_jwt su_platform now ''jwt'' = Some c'" for c now c'
    using that su_jwt by (auto simp: su_platform_def split: if_splits)
  moreover have "pf_header_token su_platform ''Bearer jwt'' = Some ''jwt''" "pf_verify su_platform" by code_simp+
  ultimately show ?thesis using login_gate [OF l] session_read by blast
qed

lemma su_jwt_laws: "jwt_laws su_platform ''jwt'' session_of_u1 18001"
  using su_jwt by (auto simp: jwt_laws_def session_of_u1_def) (auto simp: su_platform_def split: if_splits)

definition su_out :: sworld where
  "su_out = snd (Logout su_platform (su_draws ''x'' su_bytes) ''Bearer jwt'' session_of_u1 su_verified)"

definition su_later :: sworld where
  "su_later = snd (ResendVerification su_platform (su_draws ''y'' su_bytes) (Some ''c@d'') su_out)"

theorem logout_is_final_witness:
  "authorized su_platform (su_draws ''x'' su_bytes) ''Bearer jwt'' su_verified = Inr session_of_u1 \<and>
   (\<exists>e. authorized su_platform (su_draws ''z'' su_bytes) ''Bearer jwt'' su_later = Inl (401, e)) \<and>
   (\<exists>e. WsTradesUpgrade su_platform (su_draws ''z'' su_bytes) ''jwt'' su_later = Inl (401, e))"
proof -
  have l: "Logout su_platform (su_draws ''x'' su_bytes) ''Bearer jwt'' session_of_u1 su_verified = (Inr (), su_out)"
    unfolding su_out_def prod_eq_iff fst_conv snd_conv by (intro conjI refl) code_simp
  have r: "auth_run su_platform (\<lambda>_. True) su_out su_later"
    unfolding su_later_def by (rule then_step [OF idle TrueI resend])
  have "BearerToken ''Bearer jwt'' = ''jwt''" "an_redis_up (dw_api (su_draws ''z'' su_bytes)) ''IsJWTRevoked''" by code_simp+
  then show ?thesis using logout_is_final [OF su_jwt_laws _ session_read l r] session_read by blast
qed

lemma redis_register: "aw_redis (sw_api (snd (Register p d body w))) = aw_redis (sw_api w)"
  by (cases rule: Register_cases [of p d body w]) simp_all

definition su_bytes2 :: string where "su_bytes2 = ''9999999999999999''"

theorem resend_tells_nothing_witness:
  "fst (ResendVerification su_platform (su_draws ''x'' su_bytes2) (Some ''c@d'') su_registered) =
     fst (ResendVerification su_platform (su_draws ''x'' su_bytes2) (Some ''c@d'') su_invited) \<and>
   GetUserByEmail (sdb su_registered) ''c@d'' \<noteq> None \<and> GetUserByEmail (sdb su_invited) ''c@d'' = None"
proof (intro conjI resend_tells_nothing)
  show "aw_redis (sw_api su_registered) = aw_redis (sw_api su_invited)" by (simp add: su_registered_def redis_register)
  have "vf_ID ` set (sw_links su_registered) = {''u1''}" "vf_TokenHash ` set (sw_links su_registered) = {''ev_0123456789abcdef0''}"
    "sw_links su_invited = []"
    by code_simp+
  then show "can_issue su_platform (su_draws ''x'' su_bytes2) su_registered" "can_issue su_platform (su_draws ''x'' su_bytes2) su_invited"
    by (auto simp: can_issue_def su_draws_def acct_env_def verify_Generate_def verify_Hash_def su_platform_def su_bytes2_def
        verify_prefix_def trim_space_def is_space_def)
  show "GetUserByEmail (sdb su_registered) ''c@d'' \<noteq> None" "GetUserByEmail (sdb su_invited) ''c@d'' = None" by code_simp+
qed

end
