(* ===== verification/Spec2Isabelle.thy ===== *)
theory Spec2Isabelle
  imports Plan PaperStore Ledger BrokerErr Guard CredentialProduct Sizing Credentials Execution Redis Adapters
    AdapterServer TradeDb Publisher Queue Ingest Webhooks
    CredentialApi Billing Lifecycle Marks PaperApi PaperTenants PaperWorld MarketAdmin SymbolRequests Auth SignUp Sessions
begin

section \<open>Verification of the trading core of ZettaBridge\<close>

text \<open>
  \<^bold>\<open>The program.\<close> ZettaBridge is a Go server (sources under \<^verbatim>\<open>src/internal\<close>) that turns the signals of trading charts into orders. A
  signal arrives at the URL of a webhook, passes the gates of the ingest and becomes a job of a queue. A worker takes the job and
  hands it to the destination of the webhook: the paper engine, which fills it against the tables of a simulated account, or a live
  adapter, which asks a broker, in the process or over HTTP, or a publisher form, which the user submits and the broker
  confirms by a callback. Users keep webhooks, credentials and paper accounts through a REST API within the limits of
  their plan; Stripe and the administrator change plans, users and the market data. Background jobs mark positions to
  market, close intraday positions, poll fills and expire orders.

  \<^bold>\<open>Conventions.\<close> A struct is a record, an error is the left side of a sum or an option, a nil pointer is \<^term>\<open>None\<close>, a string is the list of
  its bytes. A number of type \<^verbatim>\<open>float64\<close> is an IEEE double (\<open>Float64\<close>): a rational of the format, an infinity, or not a number, with
  rounding written out. A table is the list of its rows, a statement is a function that returns the new tables or the error of the
  constraint it violates, and a transaction that fails leaves the tables as they were. Redis is a map whose keys expire. Times are
  milliseconds since the epoch. Code that is not in the repository is a parameter: brokers, Stripe, hashes and ciphers, the time zone
  data base, what a NUMERIC column holds of a double, whether a query or a call succeeds.

  \<^bold>\<open>Theories, in the order of their imports.\<close>

  \<^item> \<open>Float64\<close>, \<open>Prelude\<close>: doubles; Go's \<^verbatim>\<open>strings\<close>, \<^verbatim>\<open>strconv\<close> and \<^verbatim>\<open>fmt\<close> as far as the program calls them; results.
  \<^item> \<open>Domain\<close>, \<open>Plan\<close>: the types of \<^verbatim>\<open>domain\<close> and \<^verbatim>\<open>store/models.go\<close>, the limits of \<^verbatim>\<open>plan\<close>, the gates of \<^verbatim>\<open>compliance\<close>.
  \<^item> \<open>PaperEngine\<close>: \<^verbatim>\<open>paperengine/fill.go\<close> and \<^verbatim>\<open>engine.go\<close>; \<open>PaperDb\<close>, \<open>PaperPnL\<close>, \<open>PaperStore\<close>: the paper tables of
    \<^verbatim>\<open>store/paper_trading.go\<close>, their summary \<^verbatim>\<open>paper_pnl.go\<close> and the fill transaction \<^verbatim>\<open>paper_fill.go\<close>; \<open>Ledger\<close>: the specification of
    fills over exact rationals, the refinement of it by the engine, and the balance of the books.
  \<^item> \<open>BrokerErr\<close>, \<open>Guard\<close>, \<open>CredentialProduct\<close>, \<open>Sizing\<close>, \<open>Credentials\<close>: \<^verbatim>\<open>brokererr\<close>, \<^verbatim>\<open>guard\<close>, \<^verbatim>\<open>credentialproduct\<close>, \<^verbatim>\<open>risk\<close>, \<^verbatim>\<open>maporder\<close>, \<^verbatim>\<open>algo\<close>,
    \<^verbatim>\<open>brokercreds\<close> and \<^verbatim>\<open>platform/crypto\<close>.
  \<^item> \<open>Execution\<close>, \<open>Adapters\<close>, \<open>AdapterServer\<close>: \<^verbatim>\<open>execution\<close>: commands, router, live adapter, server with its idempotency, HTTP client.
    \<open>Clock\<close>, \<open>Redis\<close>: calendar dates, and \<^verbatim>\<open>store/redis.go\<close>.
  \<^item> \<open>TradeDb\<close>, \<open>Publisher\<close>: the tables of trades and publisher orders; \<^verbatim>\<open>zerodha/publisher\<close>, \<^verbatim>\<open>modules/publisher\<close>, the events of
    adapters and the polling of fills.
  \<^item> \<open>Idempotency\<close>, \<open>Queue\<close>, \<open>SignalParse\<close>, \<open>Ingest\<close>: \<^verbatim>\<open>platform/security/idempotency\<close>, \<^verbatim>\<open>platform/queue\<close> with the prices of
    \<^verbatim>\<open>marketdata\<close>, and \<^verbatim>\<open>modules/signals\<close>.
  \<^item> \<open>Accounts\<close>, \<open>Access\<close>, \<open>Webhooks\<close>, \<open>CredentialApi\<close>, \<open>Billing\<close>, \<open>AdminUsers\<close>: the tables of users, webhooks and credentials, and
    \<^verbatim>\<open>modules/shared\<close>, \<^verbatim>\<open>webhooks\<close>, \<^verbatim>\<open>credentials\<close>, \<^verbatim>\<open>billing\<close> and \<^verbatim>\<open>admin\<close>.
  \<^item> \<open>Tenancy\<close>, \<open>Caps\<close>, \<open>Lifecycle\<close>: their composition: what one user's requests can touch, the caps of a plan, and the life of a webhook from
    the API to the ingest.
  \<^item> \<open>PaperDesk\<close>, \<open>SquareOff\<close>, \<open>Marks\<close>: \<^verbatim>\<open>paperengine/close.go\<close>, \<^verbatim>\<open>missquareoff\<close> and \<^verbatim>\<open>marketdata/snapshotjob.go\<close>.
  \<^item> \<open>PaperApi\<close>, \<open>PaperTenants\<close>, \<open>PaperWorld\<close>: \<^verbatim>\<open>modules/paperaccounts\<close>, and the composition of the API, the jobs and the administrator
    over the paper tables, with the cascade of a deleted user.
  \<^item> \<open>MarketAdmin\<close>, \<open>SymbolRequests\<close>: market profiles, instruments and the market data settings of \<^verbatim>\<open>modules/admin\<close>; the requests of
    users for symbols (\<^verbatim>\<open>modules/symbolrequests\<close>) and the instruments that answer them.
  \<^item> \<open>Auth\<close>, \<open>SignUp\<close>, \<open>Sessions\<close>: \<^verbatim>\<open>modules/auth\<close>, the tokens of \<^verbatim>\<open>platform/security\<close>, the invites of \<^verbatim>\<open>store/platform_invites.go\<close> and the
    middleware of protected routes; the tables in every reachable state; invites, login and logout.

  \<^bold>\<open>What the lemmas show.\<close> Fills: the engine refines the specification where nothing rounds, the books balance in every run of the
  store, integrity of the paper tables is an invariant, and a fill has exactly the effects of its outcome. Execution: a broker is
  called once at most and behind every gate, a repeated command is answered from its record, also with a refusal, no order is made
  without a row, every job ends with its row if the column holds its lot, and settled trades do not change. Ingest: the queue is
  reached through the gates only, and no rejection is silent, with the same exception. Tenancy: users are isolated, no webhook trades on a foreign account, revocation is immediate, and the caps hold at the door.
  Jobs: what the sweep, the square-off and the expiry change and what they leave alone. Market: its rows stay in order, an
  instrument that is taken out leaves its positions open, a request for a symbol has one life, and a new instrument answers all who
  asked. Sessions: an address is verified by its own link only, an invite admits one user, a login names its user, and a logout is
  final for the header the token is meant for. Some lemmas show where the code falls short of this: \<open>oversized_job_vanishes\<close>,
  \<open>other_spelling_passes\<close>, \<open>nan_passes_guards\<close>, \<open>unverified_admin_shut_out\<close>.
  Locales state the interfaces: a store whose entries expire (interpreted on Redis and on the outcomes of the adapter server), the calls
  that are cached in such a store, and what every answer of the ingest keeps. The client's laws are proved in the locale, and each
  is interpreted on the definitions of the model.

  \<^bold>\<open>Bounds.\<close> No operation needs fuel: loops are structural recursions over lists or have a measure. Doubles round to nearest with ties to even;
  statements about exact amounts name a grid on which the operations do not round. What a NUMERIC column does with a double is a
  parameter, and may fail where the double does not fit it; the statements name what they need of it.

  \<^bold>\<open>Concurrency.\<close> A handler and a transaction are one step, except where the interleaving is the point: the overlapping requests of the
  adapter server, and the sweep of marks, whose reads and writes are separate.

  \<^bold>\<open>Not modelled.\<close> Transport: the router, the WebSocket hub, the generated Swagger pages, the
  listening and start-up code, the profile page. The HTTP clients of the brokers and of market data, the mailer, Telegram, metrics and logging: they
  only carry data to other systems. Organisations: no route makes one, and no scope of a request is one. Lists of the administrator, the reading of
  notifications and the statistics of webhooks: they read rows and feed no decision of the trading core. The texts of mails and the CSV of
  exports. The starting and stopping of workers and timers.
\<close>

end
